(* ===== verification/JsPrelude.thy ===== *)
theory JsPrelude
  imports Complex_Main "HOL-Library.Sublist"
begin

text \<open>
  What the components share: the JavaScript strings, arrays and numbers the source uses, as
  HOL functions, and the generic lemmas about them.

  A string is a list of characters, one per UTF-16 code unit; the model covers the code units
  below 256 (Latin-1), on which the case mapping below is the one of
  \<open>String.prototype.toLowerCase\<close>. \<open>null\<close> and \<open>undefined\<close> are \<open>None\<close>. Whole numbers are
  \<open>int\<close> or \<open>nat\<close>, fractions are exact rationals (rounding of IEEE doubles is not modelled).
\<close>

section \<open>Collections of facts\<close>

named_theorems js_text \<open>facts about the string operations\<close>
named_theorems js_list \<open>facts about the array operations\<close>

section \<open>Characters and case\<close>

abbreviation slash :: char where "slash \<equiv> CHR 0x2F"
abbreviation backslash :: char where "backslash \<equiv> CHR 0x5C"
abbreviation newline :: char where "newline \<equiv> CHR 0x0A"

definition code_unit :: "char \<Rightarrow> nat" where
  "code_unit c = of_char c"

definition lower_char :: "char \<Rightarrow> char" where
  "lower_char c = (let n = code_unit c in
     if 65 \<le> n \<and> n \<le> 90 \<or> 192 \<le> n \<and> n \<le> 222 \<and> n \<noteq> 215 then char_of (n + 32) else c)"

definition toLowerCase :: "string \<Rightarrow> string" where
  "toLowerCase s = map lower_char s"

definition is_digit :: "char \<Rightarrow> bool" where
  "is_digit c \<longleftrightarrow> 48 \<le> code_unit c \<and> code_unit c \<le> 57"

definition is_lower_alnum :: "char \<Rightarrow> bool" where
  "is_lower_alnum c \<longleftrightarrow> is_digit c \<or> 97 \<le> code_unit c \<and> code_unit c \<le> 122"

definition is_space :: "char \<Rightarrow> bool" where
  "is_space c \<longleftrightarrow> 9 \<le> code_unit c \<and> code_unit c \<le> 13 \<or> code_unit c = 32 \<or> code_unit c = 160"

lemma code_unit_lt: "code_unit c < 256"
  by (simp add: code_unit_def)

lemma code_unit_char_of: "n < 256 \<Longrightarrow> code_unit (char_of n) = n"
  by (simp add: code_unit_def)

lemma lower_char_cases:
  "lower_char c = c \<or> code_unit (lower_char c) = code_unit c + 32 \<and>
     (65 \<le> code_unit c \<and> code_unit c \<le> 90 \<or> 192 \<le> code_unit c \<and> code_unit c \<le> 222 \<and> code_unit c \<noteq> 215)"
  by (auto simp: lower_char_def Let_def code_unit_char_of)

lemma lower_char_idem [simp]: "lower_char (lower_char c) = lower_char c"
  using lower_char_cases [of c] lower_char_cases [of "lower_char c"] by force

lemma lower_char_slash [simp]: "lower_char c = slash \<longleftrightarrow> c = slash"
  using lower_char_cases [of c] by (auto simp: lower_char_def code_unit_def)

lemma lower_char_backslash [simp]: "lower_char c = backslash \<longleftrightarrow> c = backslash"
  using lower_char_cases [of c] by (auto simp: lower_char_def code_unit_def)

lemma toLowerCase_simps [simp]:
  "toLowerCase [] = []"
  "toLowerCase (c # s) = lower_char c # toLowerCase s"
  "toLowerCase (s @ s') = toLowerCase s @ toLowerCase s'"
  "length (toLowerCase s) = length s"
  "toLowerCase s = [] \<longleftrightarrow> s = []"
  by (simp_all add: toLowerCase_def)

lemma toLowerCase_idem [simp]: "toLowerCase (toLowerCase s) = toLowerCase s"
  by (simp add: toLowerCase_def)

section \<open>Splitting, joining, trimming\<close>

text \<open>\<open>s.split(c)\<close> for a one-character separator: always at least one piece.\<close>

fun split_on :: "char \<Rightarrow> string \<Rightarrow> string list" where
  "split_on d [] = [[]]"
| "split_on d (c # s) =
     (if c = d then [] # split_on d s
      else (case split_on d s of [] \<Rightarrow> [[c]] | p # ps \<Rightarrow> (c # p) # ps))"

text \<open>\<open>ps.join(d)\<close>.\<close>

fun join_with :: "string \<Rightarrow> string list \<Rightarrow> string" where
  "join_with d [] = []"
| "join_with d [p] = p"
| "join_with d (p # q # ps) = p @ d @ join_with d (q # ps)"

definition strip_end :: "(char \<Rightarrow> bool) \<Rightarrow> string \<Rightarrow> string" where
  "strip_end P s = rev (dropWhile P (rev s))"

definition trim :: "string \<Rightarrow> string" where
  "trim s = strip_end is_space (dropWhile is_space s)"

definition startsWith :: "string \<Rightarrow> string \<Rightarrow> bool" where
  "startsWith s p \<longleftrightarrow> prefix p s"

definition endsWith :: "string \<Rightarrow> string \<Rightarrow> bool" where
  "endsWith s p \<longleftrightarrow> suffix p s"

text \<open>\<open>s.includes(p)\<close>.\<close>

fun contains :: "string \<Rightarrow> string \<Rightarrow> bool" where
  "contains [] p = (p = [])"
| "contains (c # s) p = (prefix p (c # s) \<or> contains s p)"

lemma split_on_nonempty [simp]: "split_on d s \<noteq> []"
  by (cases s) (auto split: list.splits)

lemma join_with_Cons: "ps \<noteq> [] \<Longrightarrow> join_with d (p # ps) = p @ d @ join_with d ps"
  by (cases ps) simp_all

lemma join_split_on [js_text]: "join_with [d] (split_on d s) = s"
proof (induction s)
  case Nil
  show ?case by simp
next
  case (Cons c s)
  obtain p ps where ps: "split_on d s = p # ps"
    by (cases "split_on d s") auto
  with Cons show ?case
    by (cases ps) auto
qed

lemma split_on_no_sep [js_text]: "p \<in> set (split_on d s) \<Longrightarrow> d \<notin> set p"
  by (induction s arbitrary: p) (auto split: list.splits if_splits)

lemma split_on_id: "d \<notin> set s \<Longrightarrow> split_on d s = [s]"
  by (induction s) auto

lemma split_on_append_sep: "d \<notin> set p \<Longrightarrow> split_on d (p @ d # s) = p # split_on d s"
  by (induction p) auto

lemma split_join [js_text]:
  "ps \<noteq> [] \<Longrightarrow> \<forall>p \<in> set ps. d \<notin> set p \<Longrightarrow> split_on d (join_with [d] ps) = ps"
proof (induction ps)
  case Nil
  then show ?case by simp
next
  case (Cons p ps)
  then show ?case
    by (cases "ps = []") (simp_all add: split_on_id split_on_append_sep join_with_Cons)
qed

lemma strip_end_snoc [simp]:
  "strip_end P (s @ [c]) = (if P c then strip_end P s else s @ [c])"
  by (simp add: strip_end_def)

lemma strip_end_Nil [simp]: "strip_end P [] = []"
  by (simp add: strip_end_def)

lemma strip_end_last: "strip_end P s \<noteq> [] \<Longrightarrow> \<not> P (last (strip_end P s))"
  by (induction s rule: rev_induct) (auto split: if_splits)

lemma strip_end_idem [simp]: "strip_end P (strip_end P s) = strip_end P s"
  by (induction s rule: rev_induct) auto

lemma strip_end_id: "s = [] \<or> \<not> P (last s) \<Longrightarrow> strip_end P s = s"
  by (cases s rule: rev_cases) auto

lemma strip_end_append:
  "strip_end P v \<noteq> [] \<Longrightarrow> strip_end P (u @ v) = u @ strip_end P v"
  by (auto simp: strip_end_def dropWhile_append)

lemma set_strip_end: "set (strip_end P s) \<subseteq> set s"
  by (induction s rule: rev_induct) auto

lemma strip_end_prefix: "\<exists>t. s = strip_end P s @ t"
proof (induction s rule: rev_induct)
  case (snoc c s)
  then obtain t where "s = strip_end P s @ t" by blast
  then show ?case
    by (cases "P c") (simp_all, metis append.assoc)
qed simp

lemma trim_ends: "trim s = [] \<or> \<not> is_space (hd (trim s)) \<and> \<not> is_space (last (trim s))"
proof (cases "trim s = []")
  case False
  obtain t where t: "dropWhile is_space s = trim s @ t"
    using strip_end_prefix [of "dropWhile is_space s" is_space] by (auto simp: trim_def)
  with False have "hd (trim s) = hd (dropWhile is_space s)" "dropWhile is_space s \<noteq> []"
    by auto
  then have "\<not> is_space (hd (trim s))"
    by (metis hd_dropWhile)
  with False show ?thesis
    using strip_end_last [of is_space "dropWhile is_space s"] by (simp add: trim_def)
qed simp

lemma trim_id: "s = [] \<or> \<not> is_space (hd s) \<and> \<not> is_space (last s) \<Longrightarrow> trim s = s"
  by (cases s) (auto simp: trim_def strip_end_id)

lemma trim_trim [simp, js_text]: "trim (trim s) = trim s"
  by (rule trim_id [OF trim_ends])

lemma trim_Nil [simp]: "trim [] = []"
  by (simp add: trim_def)

lemma set_trim: "set (trim s) \<subseteq> set s"
  using set_strip_end [of is_space "dropWhile is_space s"] set_dropWhileD by (fastforce simp: trim_def)

section \<open>Arrays\<close>

text \<open>\<open>[...new Set(xs)]\<close>: each value once, in the order of its first occurrence.\<close>

fun uniq_acc :: "'a list \<Rightarrow> 'a list \<Rightarrow> 'a list" where
  "uniq_acc seen [] = []"
| "uniq_acc seen (x # xs) =
     (if x \<in> set seen then uniq_acc seen xs else x # uniq_acc (x # seen) xs)"

definition uniq :: "'a list \<Rightarrow> 'a list" where
  "uniq xs = uniq_acc [] xs"

lemma set_uniq_acc: "set (uniq_acc seen xs) = set xs - set seen"
  by (induction xs arbitrary: seen) auto

lemma distinct_uniq_acc: "distinct (uniq_acc seen xs)"
  by (induction xs arbitrary: seen) (auto simp: set_uniq_acc)

lemma set_uniq [simp, js_list]: "set (uniq xs) = set xs"
  by (simp add: uniq_def set_uniq_acc)

lemma distinct_uniq [simp, js_list]: "distinct (uniq xs)"
  by (simp add: uniq_def distinct_uniq_acc)

text \<open>\<open>xs.findIndex(p)\<close>: \<open>None\<close> stands for -1. The predicate gets the element and its index.\<close>

fun find_index :: "('a \<Rightarrow> nat \<Rightarrow> bool) \<Rightarrow> nat \<Rightarrow> 'a list \<Rightarrow> nat option" where
  "find_index p i [] = None"
| "find_index p i (x # xs) = (if p x i then Some i else find_index p (Suc i) xs)"

lemma find_index_Some:
  "find_index p i xs = Some k \<Longrightarrow> i \<le> k \<and> k < i + length xs \<and> p (xs ! (k - i)) k"
proof (induction xs arbitrary: i)
  case Nil
  then show ?case by simp
next
  case (Cons x xs)
  show ?case
  proof (cases "p x i")
    case True
    with Cons.prems show ?thesis by simp
  next
    case False
    with Cons.prems have "find_index p (Suc i) xs = Some k" by simp
    from Cons.IH [OF this] show ?thesis
      by (auto simp: nth_Cons' )
  qed
qed

lemma find_index_None:
  "find_index p i xs = None \<Longrightarrow> j < length xs \<Longrightarrow> \<not> p (xs ! j) (i + j)"
proof (induction xs arbitrary: i j)
  case Nil
  then show ?case by simp
next
  case (Cons x xs)
  show ?case
  proof (cases j)
    case 0
    with Cons.prems show ?thesis by (auto split: if_splits)
  next
    case (Suc k)
    with Cons.prems have "find_index p (Suc i) xs = None" "k < length xs"
      by (auto split: if_splits)
    from Cons.IH [OF this] Suc show ?thesis by simp
  qed
qed

lemma find_Some_mem: "List.find P xs = Some x \<Longrightarrow> x \<in> set xs \<and> P x"
  by (induction xs) (auto split: if_splits)

lemma find_None_iff: "List.find P xs = None \<longleftrightarrow> (\<forall>x \<in> set xs. \<not> P x)"
  by (induction xs) auto

lemma find_not_None: "List.find P xs \<noteq> None \<longleftrightarrow> (\<exists>x \<in> set xs. P x)"
  by (simp add: find_None_iff)

section \<open>Numbers\<close>

text \<open>\<open>String(n)\<close> of a natural number, and the value of a string of digits.\<close>

definition digit_char :: "nat \<Rightarrow> char" where
  "digit_char d = char_of (48 + d)"

fun show_nat :: "nat \<Rightarrow> string" where
  "show_nat n = (if n < 10 then [digit_char n] else show_nat (n div 10) @ [digit_char (n mod 10)])"

declare show_nat.simps [simp del]

definition show_int :: "int \<Rightarrow> string" where
  "show_int n = (if n < 0 then CHR ''-'' # show_nat (nat (- n)) else show_nat (nat n))"

definition digits_value :: "string \<Rightarrow> nat" where
  "digits_value s = foldl (\<lambda>v c. v * 10 + (code_unit c - 48)) 0 s"

lemma digit_char_unit: "d < 10 \<Longrightarrow> code_unit (digit_char d) = 48 + d"
  by (simp add: digit_char_def code_unit_char_of)

lemma is_digit_digit_char: "d < 10 \<Longrightarrow> is_digit (digit_char d)"
  by (simp add: is_digit_def digit_char_unit)

lemma show_nat_nonempty [simp]: "show_nat n \<noteq> []"
  by (subst show_nat.simps) simp

lemma show_nat_digits: "\<forall>c \<in> set (show_nat n). is_digit c"
proof (induction n rule: show_nat.induct)
  case (1 n)
  then show ?case
    by (cases "n < 10") (auto simp: show_nat.simps [of n] is_digit_digit_char)
qed

lemma digits_value_snoc: "digits_value (s @ [c]) = digits_value s * 10 + (code_unit c - 48)"
  by (simp add: digits_value_def)

lemma digits_value_Nil [simp]: "digits_value [] = 0"
  by (simp add: digits_value_def)

lemma digits_value_show [simp]: "digits_value (show_nat n) = n"
proof (induction n rule: show_nat.induct)
  case (1 n)
  show ?case
  proof (cases "n < 10")
    case True
    then show ?thesis
      by (simp add: show_nat.simps [of n] digits_value_def digit_char_unit)
  next
    case False
    with 1 show ?thesis
      by (simp add: show_nat.simps [of n] digits_value_snoc digit_char_unit)
  qed
qed

lemma show_nat_inj [simp]: "show_nat m = show_nat n \<longleftrightarrow> m = n"
  by (metis digits_value_show)

text \<open>\<open>n | 0\<close>: the value as a signed 32-bit integer.\<close>

definition to_int32 :: "int \<Rightarrow> int" where
  "to_int32 n = (n + 2 ^ 31) mod 2 ^ 32 - 2 ^ 31"

lemma to_int32_id: "- (2 ^ 31) \<le> n \<Longrightarrow> n < 2 ^ 31 \<Longrightarrow> to_int32 n = n"
  by (simp add: to_int32_def)

lemma to_int32_range: "- (2 ^ 31) \<le> to_int32 n \<and> to_int32 n < 2 ^ 31"
  by (simp add: to_int32_def)

text \<open>\<open>Math.round(x)\<close>: to the nearest integer, halves up.\<close>

definition math_round :: "rat \<Rightarrow> int" where
  "math_round x = \<lfloor>x + 1 / 2\<rfloor>"

lemma math_round_of_int [simp]: "math_round (of_int n) = n"
  unfolding math_round_def by (simp add: floor_unique)

lemma math_round_nonneg: "0 \<le> x \<Longrightarrow> 0 \<le> math_round x"
  by (simp add: math_round_def)

text \<open>\<open>a || b\<close> for a string that may be missing: the empty string counts as missing.\<close>

definition or_text :: "string option \<Rightarrow> string \<Rightarrow> string" where
  "or_text a b = (case a of None \<Rightarrow> b | Some s \<Rightarrow> if s = [] then b else s)"

lemma or_text_simps [simp]:
  "or_text None b = b"
  "or_text (Some []) b = b"
  "s \<noteq> [] \<Longrightarrow> or_text (Some s) b = s"
  by (simp_all add: or_text_def)

text \<open>\<open>parseInt(text, 10)\<close>, None for \<open>NaN\<close>, and \<open>parseInt(text, 10) || d\<close>.\<close>

definition parse_int :: "string \<Rightarrow> int option" where
  "parse_int v =
     (let v = dropWhile is_space v;
          negative = (v \<noteq> [] \<and> hd v = CHR ''-'');
          ds = takeWhile is_digit (if v \<noteq> [] \<and> hd v \<in> {CHR ''-'', CHR ''+''} then tl v else v)
      in if ds = [] then None
         else Some (if negative then - int (digits_value ds) else int (digits_value ds)))"

definition parse_int_or :: "int \<Rightarrow> string \<Rightarrow> int" where
  "parse_int_or d v = (case parse_int v of None \<Rightarrow> d | Some n \<Rightarrow> if n = 0 then d else n)"

end
