(* ===== verification/TreeSelection.thy ===== *)
theory TreeSelection
  imports JsPrelude "HOL-Library.AList"
begin

text \<open>
  The folder picker of the backup form: \<open>components/treeSelection.js\<close> (the selection rules)
  and \<open>components/DirectoryTree.jsx\<close> (the handlers that change the selection).

  A selection is two lists of paths: \<open>roots\<close> (folders backed up whole) and \<open>excludes\<close>
  (paths left out under a root). The listings read so far are an association list from
  normalised paths, in the order they were asked for, as the object \<open>childrenByPath\<close> is.
\<close>

section \<open>Paths\<close>

definition normPath :: "string \<Rightarrow> string" where
  "normPath p =
     (let s = toLowerCase (strip_end (\<lambda>c. c = slash)
                (map (\<lambda>c. if c = backslash then slash else c) p))
      in if s = [] \<and> startsWith p [slash] then [slash] else s)"

definition isUnder :: "string \<Rightarrow> string \<Rightarrow> bool" where
  "isUnder rt path =
     (let r = normPath rt; p = normPath path
      in if r = [slash] then True else p = r \<or> startsWith p (r @ [slash]))"

lemma lower_strip: "toLowerCase (strip_end (\<lambda>c. c = slash) s) = strip_end (\<lambda>c. c = slash) (toLowerCase s)"
  by (induction s rule: rev_induct) auto

lemma backslash_lower: "backslash \<in> set (toLowerCase s) \<longleftrightarrow> backslash \<in> set s"
proof (induction s)
  case (Cons c s)
  have "backslash = lower_char c \<longleftrightarrow> backslash = c" by (metis lower_char_backslash)
  with Cons show ?case by simp
qed simp

lemma backslash_gone: "backslash \<notin> set (normPath p)"
proof -
  have "backslash \<notin> set (map (\<lambda>c. if c = backslash then slash else c) p)" by auto
  then have "backslash \<notin> set (strip_end (\<lambda>c. c = slash) (map (\<lambda>c. if c = backslash then slash else c) p))"
    using set_strip_end by blast
  then show ?thesis
    by (simp add: normPath_def Let_def backslash_lower)
qed

lemma map_backslash_id: "backslash \<notin> set s \<Longrightarrow> map (\<lambda>c. if c = backslash then slash else c) s = s"
  by (induction s) auto

lemma normPath_cases:
  obtains (posix_root) "normPath p = [slash]"
  | (other) "normPath p = [] \<or> last (normPath p) \<noteq> slash"
      "toLowerCase (normPath p) = normPath p"
proof (cases "normPath p = [slash]")
  case True
  then show thesis by (rule posix_root)
next
  case False
  let ?t = "strip_end (\<lambda>c. c = slash) (toLowerCase (map (\<lambda>c. if c = backslash then slash else c) p))"
  from False have eq: "normPath p = ?t"
    by (auto simp: normPath_def Let_def lower_strip split: if_splits)
  have "?t = [] \<or> last ?t \<noteq> slash" using strip_end_last by blast
  moreover have "toLowerCase ?t = ?t" by (simp add: lower_strip)
  ultimately show thesis using other eq by metis
qed

lemma normPath_idem [simp]: "normPath (normPath p) = normPath p"
proof (cases p rule: normPath_cases)
  case posix_root
  then show ?thesis
    by (simp add: normPath_def [of "[slash]"] startsWith_def)
      (simp add: strip_end_def)
next
  case other
  have "normPath q = q" if "backslash \<notin> set q" "toLowerCase q = q" "q = [] \<or> last q \<noteq> slash" for q
    using that by (auto simp: normPath_def Let_def map_backslash_id strip_end_id startsWith_def)
  with other backslash_gone show ?thesis by blast
qed

text \<open>A proper path: one that does not normalise to the empty string.\<close>

definition proper_path :: "string \<Rightarrow> bool" where
  "proper_path p \<longleftrightarrow> normPath p \<noteq> []"

lemma isUnder_norm [simp]:
  "isUnder (normPath a) b = isUnder a b"
  "isUnder a (normPath b) = isUnder a b"
  by (simp_all add: isUnder_def)

lemma proper_norm [simp]: "proper_path (normPath p) = proper_path p"
  by (simp add: proper_path_def)

lemma isUnder_refl [simp]: "isUnder p p"
  by (simp add: isUnder_def)

lemma isUnder_alt:
  "isUnder a b \<longleftrightarrow> normPath a = [slash] \<or> normPath b = normPath a \<or> prefix (normPath a @ [slash]) (normPath b)"
  by (simp add: isUnder_def Let_def startsWith_def)

lemma isUnder_trans:
  assumes "proper_path a" "isUnder a b" "isUnder b c"
  shows "isUnder a c"
proof (cases "normPath b = [slash]")
  case True
  with assms show ?thesis
    by (auto simp: isUnder_alt proper_path_def prefix_Cons Cons_eq_append_conv)
next
  case False
  with assms show ?thesis
    by (auto simp: isUnder_alt intro: prefix_order.trans prefix_prefix)
qed

lemma prefix_sep_comparable:
  assumes "prefix (a @ [d]) c" "prefix (b @ [d]) c"
  shows "b = a \<or> prefix (a @ [d]) b \<or> prefix (b @ [d]) a"
proof -
  from assms have "prefix (a @ [d]) (b @ [d]) \<or> prefix (b @ [d]) (a @ [d])"
    by (metis prefix_same_cases)
  then show ?thesis by auto
qed

lemma isUnder_tree: "isUnder a c \<Longrightarrow> isUnder b c \<Longrightarrow> isUnder a b \<or> isUnder b a"
  using prefix_sep_comparable [of "normPath a" slash "normPath c" "normPath b"]
  by (auto simp: isUnder_alt)

lemma isUnder_length: "isUnder a b \<Longrightarrow> length (normPath a) \<le> length (normPath b) + 1"
  by (auto simp: isUnder_alt dest: prefix_length_le)

lemma isUnder_antisym:
  assumes "isUnder a b" "isUnder b a" "proper_path a" "proper_path b"
  shows "normPath a = normPath b"
proof -
  have "\<not> (prefix (x @ [slash]) y \<and> prefix (y @ [slash]) x)" for x y
    by (auto dest!: prefix_length_le)
  with assms show ?thesis
    by (auto simp: isUnder_alt proper_path_def prefix_Cons append_eq_Cons_conv)
qed

section \<open>The covering interface\<close>

text \<open>
  What the selection rules need of \<open>isUnder\<close>: it is a tree order. The rules are proved here
  once, over any such order; the interpretation below gives them for the code's paths.
\<close>

locale covering =
  fixes covers :: "'p \<Rightarrow> 'p \<Rightarrow> bool"
    and proper :: "'p \<Rightarrow> bool"
  assumes covers_refl: "covers a a"
    and covers_trans: "proper a \<Longrightarrow> covers a b \<Longrightarrow> covers b c \<Longrightarrow> covers a c"
    and covers_tree: "covers a c \<Longrightarrow> covers b c \<Longrightarrow> covers a b \<or> covers b a"
begin

lemma whole_subtree:
  assumes "\<exists>r \<in> R. covers r p" "\<not> (\<exists>e \<in> E. covers e p)" "\<not> (\<exists>e \<in> E. covers p e)"
    and "\<forall>r \<in> R. proper r" "covers p q"
  shows "(\<exists>r \<in> R. covers r q) \<and> \<not> (\<exists>e \<in> E. covers e q)"
  using assms by (meson covers_trans covers_tree)

lemma empty_subtree:
  assumes "\<not> ((\<exists>r \<in> R. covers r p) \<and> \<not> (\<exists>e \<in> E. covers e p))"
    and "\<not> (\<exists>r \<in> R. covers p r \<and> \<not> covers r p)"
    and "\<forall>e \<in> E. proper e" "covers p q"
  shows "\<not> ((\<exists>r \<in> R. covers r q) \<and> \<not> (\<exists>e \<in> E. covers e q))"
  using assms by (meson covers_trans covers_tree)

lemma antichain_unique:
  assumes "\<forall>a \<in> R. \<forall>b \<in> R. covers a b \<longrightarrow> same a b" "a \<in> R" "b \<in> R" "covers a q" "covers b q"
  shows "same a b \<or> same b a"
  using assms covers_tree by blast

end

interpretation path: covering isUnder proper_path
  by unfold_locales (auto intro: isUnder_trans dest: isUnder_tree)

section \<open>Selection rules (treeSelection.js)\<close>

datatype check = Checked | Unchecked | Mixed

definition isChecked :: "string \<Rightarrow> string list \<Rightarrow> string list \<Rightarrow> bool" where
  "isChecked path roots excludes =
     (let p = normPath path
      in case List.find (\<lambda>r. isUnder r p) roots of
           None \<Rightarrow> False
         | Some _ \<Rightarrow> \<not> list_ex (\<lambda>e. isUnder e p) excludes)"

definition checkState :: "string \<Rightarrow> string list \<Rightarrow> string list \<Rightarrow> check" where
  "checkState path roots excludes =
     (let p = normPath path
      in if isChecked path roots excludes
         then if list_ex (\<lambda>e. isUnder p e) excludes then Mixed else Checked
         else if list_ex (\<lambda>r. isUnder p r \<and> normPath r \<noteq> p) roots then Mixed else Unchecked)"

lemma isChecked_iff:
  "isChecked q roots excludes \<longleftrightarrow>
     (\<exists>r \<in> set roots. isUnder r q) \<and> \<not> (\<exists>e \<in> set excludes. isUnder e q)"
  by (auto simp: isChecked_def Let_def list_ex_iff find_None_iff dest: find_Some_mem split: option.splits)

record dir_entry =
  entry_path :: string
  entry_name :: string
  entry_is_dir :: bool

datatype listing = Loading | Failed | Entries "dir_entry list"

type_synonym children = "(string \<times> listing) list"

text \<open>
  The loop of \<open>computeReincludeExcludes\<close>: from the excluded ancestor down to the path, every
  other entry of each level is excluded instead. \<open>None\<close> would be a walk that never ends.
\<close>

partial_function (option) reinclude_walk ::
  "children \<Rightarrow> string \<Rightarrow> string list \<Rightarrow> string \<Rightarrow> string list option" where
  "reinclude_walk childrenByPath path next current =
     (if normPath current = normPath path then Some next
      else case map_of childrenByPath (normPath current) of
        Some (Entries kids) \<Rightarrow>
          (case List.find (\<lambda>k. isUnder (entry_path k) path) kids of
             None \<Rightarrow> Some next
           | Some step \<Rightarrow>
               reinclude_walk childrenByPath path
                 (next @ map entry_path (filter (\<lambda>sib. entry_path sib \<noteq> entry_path step) kids))
                 (entry_path step))
      | _ \<Rightarrow> Some next)"

definition computeReincludeExcludes ::
  "children \<Rightarrow> string list \<Rightarrow> string \<Rightarrow> string \<Rightarrow> string list option" where
  "computeReincludeExcludes childrenByPath excludes path ancestorExclude =
     reinclude_walk childrenByPath path (filter (\<lambda>e. e \<noteq> ancestorExclude) excludes) ancestorExclude"

text \<open>
  Listings. The top one, of the empty path, holds the roots: \<open>/\<close>, or the drives and the mapped shares of
  Windows, none of which lies under the empty path and which may cover one another. Three things a file
  system gives: an entry's path is longer than its folder's (not of an entry named by backslashes only),
  it lies under the folder, and no other entry covers it (not of two names that differ only in case).
\<close>

definition growing :: "children \<Rightarrow> bool" where
  "growing cs \<longleftrightarrow> list_all (\<lambda>(c, l). case l of
      Entries kids \<Rightarrow> list_all (\<lambda>k. length c < length (normPath (entry_path k))) kids | _ \<Rightarrow> True) cs"

definition entries_proper :: "children \<Rightarrow> bool" where
  "entries_proper cs \<longleftrightarrow> list_all (\<lambda>(c, l). case l of
     Entries kids \<Rightarrow> list_all (\<lambda>k. proper_path (entry_path k) \<and> (c \<noteq> [] \<longrightarrow> isUnder c (entry_path k))) kids | _ \<Rightarrow> True) cs"

definition no_twins :: "children \<Rightarrow> bool" where
  "no_twins cs \<longleftrightarrow> list_all (\<lambda>(c, l). case l of
     Entries kids \<Rightarrow> c \<noteq> [] \<longrightarrow> list_all (\<lambda>k. list_all (\<lambda>k'. entry_path k' = entry_path k \<or> \<not> isUnder (entry_path k) (entry_path k')) kids) kids
   | _ \<Rightarrow> True) cs"

definition listings_ok :: "children \<Rightarrow> bool" where
  "listings_ok cs \<longleftrightarrow> growing cs \<and> entries_proper cs \<and> no_twins cs"

lemma growingD: "growing cs \<Longrightarrow> map_of cs c = Some (Entries kids) \<Longrightarrow> k \<in> set kids \<Longrightarrow> length c < length (normPath (entry_path k))"
  by (fastforce simp: growing_def list_all_iff dest!: map_of_SomeD)

lemma entries_properD:
  assumes "entries_proper cs" "map_of cs c = Some (Entries kids)" "k \<in> set kids"
  shows "proper_path (entry_path k)" "c \<noteq> [] \<Longrightarrow> isUnder c (entry_path k)"
proof -
  from map_of_SomeD [OF assms(2)] assms(1,3)
  have "proper_path (entry_path k) \<and> (c \<noteq> [] \<longrightarrow> isUnder c (entry_path k))" by (fastforce simp: entries_proper_def list_all_iff)
  then show "proper_path (entry_path k)" "c \<noteq> [] \<Longrightarrow> isUnder c (entry_path k)" by simp_all
qed

lemma no_twinsD:
  assumes "no_twins cs" "map_of cs c = Some (Entries kids)" "c \<noteq> []" "k \<in> set kids" "k' \<in> set kids"
    and "isUnder (entry_path k) (entry_path k')"
  shows "entry_path k' = entry_path k"
proof -
  from map_of_SomeD [OF assms(2)] assms(1,3)
  have "\<forall>k \<in> set kids. \<forall>k' \<in> set kids. entry_path k' = entry_path k \<or> \<not> isUnder (entry_path k) (entry_path k')"
    by (fastforce simp: no_twins_def list_all_iff)
  with assms(4-6) show ?thesis by blast
qed

lemma reinclude_walk_stop:
  assumes "normPath current = normPath path \<or>
    (\<nexists>kids. map_of cs (normPath current) = Some (Entries kids)) \<or>
    (\<exists>kids. map_of cs (normPath current) = Some (Entries kids) \<and> (\<forall>k \<in> set kids. \<not> isUnder (entry_path k) path))"
  shows "reinclude_walk cs path next current = Some next"
  using assms
  by (subst reinclude_walk.simps) (auto split: option.splits listing.splits simp: find_None_iff dest: find_Some_mem)

lemma reinclude_walk_step:
  assumes "normPath current \<noteq> normPath path" "map_of cs (normPath current) = Some (Entries kids)"
    "List.find (\<lambda>k. isUnder (entry_path k) path) kids = Some step"
  shows "reinclude_walk cs path next current =
    reinclude_walk cs path (next @ map entry_path (filter (\<lambda>sib. entry_path sib \<noteq> entry_path step) kids)) (entry_path step)"
  using assms by (subst reinclude_walk.simps) simp

text \<open>
  The induction the walk's properties share: over well-formed listings the current folder gets
  longer at each step and never longer than the path, so the walk ends.
\<close>

lemma walk_induct [consumes 1, case_names stop step]:
  assumes ok: "growing cs"
    and stop: "\<And>current. normPath current = normPath path \<or>
      (\<nexists>kids. map_of cs (normPath current) = Some (Entries kids)) \<or>
      (\<exists>kids. map_of cs (normPath current) = Some (Entries kids) \<and> (\<forall>k \<in> set kids. \<not> isUnder (entry_path k) path))
      \<Longrightarrow> P current"
    and step: "\<And>current kids step. normPath current \<noteq> normPath path \<Longrightarrow>
      map_of cs (normPath current) = Some (Entries kids) \<Longrightarrow>
      List.find (\<lambda>k. isUnder (entry_path k) path) kids = Some step \<Longrightarrow> P (entry_path step) \<Longrightarrow> P current"
  shows "P current"
proof (induction "length (normPath path) + 2 - length (normPath current)" arbitrary: current rule: less_induct)
  case less
  show ?case
  proof (cases "normPath current \<noteq> normPath path \<and> (\<exists>kids st.
      map_of cs (normPath current) = Some (Entries kids) \<and>
      List.find (\<lambda>k. isUnder (entry_path k) path) kids = Some st)")
    case False
    then show ?thesis
      by (intro stop) (auto simp: find_None_iff [symmetric] not_None_eq [symmetric] simp del: not_None_eq)
  next
    case True
    then obtain kids st where *: "normPath current \<noteq> normPath path"
      "map_of cs (normPath current) = Some (Entries kids)"
      "List.find (\<lambda>k. isUnder (entry_path k) path) kids = Some st" by blast
    from find_Some_mem [OF *(3)] have st: "st \<in> set kids" "isUnder (entry_path st) path" by auto
    have "length (normPath current) < length (normPath (entry_path st))"
      using growingD [OF ok *(2) st(1)] .
    with isUnder_length [OF st(2)] have "P (entry_path st)"
      by (intro less) linarith
    with * show ?thesis by (rule step)
  qed
qed

subsection \<open>Properties of the rules\<close>

text \<open>C2: the check box of a folder tells the truth about everything below it. Shown fully
  checked, every path below it is backed up; shown empty, no path below it is.\<close>
theorem checkState_sound:
  assumes "list_all proper_path roots" "list_all proper_path excludes" "isUnder p q"
  shows "(checkState p roots excludes = Checked \<longrightarrow> isChecked q roots excludes) \<and>
    (checkState p roots excludes = Unchecked \<longrightarrow> \<not> isChecked q roots excludes)"
proof (intro conjI impI)
  assume "checkState p roots excludes = Checked"
  then show "isChecked q roots excludes"
    using assms path.whole_subtree [of "set roots" p "set excludes" q]
    by (auto simp: checkState_def Let_def list_ex_iff list_all_iff isChecked_iff split: if_splits)
next
  assume "checkState p roots excludes = Unchecked"
  then have "\<not> isChecked p roots excludes" "\<not> (\<exists>r \<in> set roots. isUnder p r \<and> \<not> isUnder r p)"
    by (auto simp: checkState_def Let_def list_ex_iff isUnder_alt split: if_splits)
  then show "\<not> isChecked q roots excludes"
    using assms path.empty_subtree [of "set roots" p "set excludes" q]
    by (auto simp: list_all_iff isChecked_iff)
qed

theorem checkState_sound_witness:
  "checkState ''/home'' [''/home/''] [''/srv''] = Checked \<and>
   isChecked ''/Home/a'' [''/home/''] [''/srv''] \<and>
   checkState ''/srv'' [''/home/''] [''/srv''] = Unchecked \<and>
   \<not> isChecked ''/srv/x'' [''/home/''] [''/srv'']"
proof -
  have "list_all proper_path [''/home/'']" "list_all proper_path [''/srv'']"
    "isUnder ''/home'' ''/Home/a''" "isUnder ''/srv'' ''/srv/x''"
    "checkState ''/home'' [''/home/''] [''/srv''] = Checked"
    "checkState ''/srv'' [''/home/''] [''/srv''] = Unchecked"
    by code_simp+
  then show ?thesis
    using checkState_sound [of "[''/home/'']" "[''/srv'']" "''/home''" "''/Home/a''"]
      checkState_sound [of "[''/home/'']" "[''/srv'']" "''/srv''" "''/srv/x''"] by simp
qed

text \<open>C3: re-including a folder always ends, over listings whose entries have a longer path than their folder:
  so it is on every file system, the drives of Windows included, but for a Linux file or folder named only
  by backslashes.\<close>
theorem reinclude_terminates:
  assumes "growing cs"
  shows "\<exists>es. computeReincludeExcludes cs excludes p anc = Some es"
proof -
  have "\<exists>es. reinclude_walk cs p next anc = Some es" for "next"
    using assms
  proof (induction anc arbitrary: "next" rule: walk_induct [where path = p])
    case (stop current)
    then show ?case by (auto simp: reinclude_walk_stop)
  next
    case (step current kids st)
    then show ?case by (simp add: reinclude_walk_step)
  qed
  then show ?thesis by (simp add: computeReincludeExcludes_def)
qed

definition windows_tree :: children where
  "windows_tree = [([], Entries [\<lparr>entry_path = ''C:'' @ [backslash], entry_name = ''C:'', entry_is_dir = True\<rparr>,
       \<lparr>entry_path = ''D:'' @ [backslash], entry_name = ''D:'', entry_is_dir = True\<rparr>]),
     (''c:'', Entries [\<lparr>entry_path = ''C:'' @ backslash # ''Users'', entry_name = ''Users'', entry_is_dir = True\<rparr>,
       \<lparr>entry_path = ''C:'' @ backslash # ''Temp'', entry_name = ''Temp'', entry_is_dir = True\<rparr>])]"

lemma windows_tree_ok: "listings_ok windows_tree"
  by code_simp

theorem reinclude_terminates_witness:
  "\<exists>es. computeReincludeExcludes windows_tree [''C:'' @ [backslash]] (''C:'' @ backslash # ''Users'') (''C:'' @ [backslash]) = Some es"
  by (rule reinclude_terminates) code_simp

text \<open>The name of a single backslash ends the window: its path is that of its folder when slashes are put right,
  so the walk stays where it is for ever.\<close>

definition backslash_tree :: children where
  "backslash_tree = [(''/a'', Entries [\<lparr>entry_path = ''/a/'' @ [backslash], entry_name = [backslash], entry_is_dir = True\<rparr>,
     \<lparr>entry_path = ''/a/x'', entry_name = ''x'', entry_is_dir = True\<rparr>])]"

lemma backslash_walk:
  assumes "reinclude_walk cs path next current = Some es"
  shows "\<not> (cs = backslash_tree \<and> normPath current = ''/a'' \<and> path = ''/a/x'')"
  using assms
proof (induction rule: reinclude_walk.raw_induct [rotated, consumes 1, case_names walk])
  case (walk rec cs path nx current es)
  show ?case
  proof
    assume a: "cs = backslash_tree \<and> normPath current = ''/a'' \<and> path = ''/a/x''"
    let ?b = "\<lparr>entry_path = ''/a/'' @ [backslash], entry_name = [backslash], entry_is_dir = True\<rparr>"
    have b: "normPath (entry_path ?b) = ''/a''" "isUnder (entry_path ?b) ''/a/x''" "normPath ''/a/x'' = ''/a/x''" by code_simp+
    obtain nx' where "rec backslash_tree ''/a/x'' nx' (entry_path ?b) = Some es"
      using walk(2) a b by (auto simp: backslash_tree_def)
    from walk(1) [OF this] b(1) show False by blast
  qed
qed

theorem backslash_name_hangs: "computeReincludeExcludes backslash_tree [''/a''] ''/a/x'' ''/a'' = None"
proof (rule ccontr)
  assume "computeReincludeExcludes backslash_tree [''/a''] ''/a/x'' ''/a'' \<noteq> None"
  then obtain es where "reinclude_walk backslash_tree ''/a/x'' (filter (\<lambda>e. e \<noteq> ''/a'') [''/a'']) ''/a'' = Some es"
    by (auto simp: computeReincludeExcludes_def)
  moreover have "normPath ''/a'' = ''/a''" by code_simp
  ultimately show False using backslash_walk by blast
qed

text \<open>
  The folders between the excluded ancestor and the path have been expanded: each one's listing
  is there and names the entry on the way to the path.
\<close>

definition levels_loaded :: "children \<Rightarrow> string \<Rightarrow> string \<Rightarrow> bool" where
  "levels_loaded cs anc path \<longleftrightarrow> list_all (\<lambda>c.
     isUnder anc c \<and> isUnder c path \<and> normPath c = c \<and> c \<noteq> normPath path \<longrightarrow>
     (case map_of cs c of Some (Entries kids) \<Rightarrow> list_ex (\<lambda>k. isUnder (entry_path k) path) kids | _ \<Rightarrow> False))
   ([slash] # prefixes (normPath path))"

text \<open>\<open>q\<close> appears in the listings read: wherever it lies below a listed folder, an entry covers it.\<close>

definition listed :: "children \<Rightarrow> string \<Rightarrow> bool" where
  "listed cs q \<longleftrightarrow> list_all (\<lambda>(c, l). case l of
     Entries kids \<Rightarrow> isUnder c q \<and> c \<noteq> normPath q \<longrightarrow> list_ex (\<lambda>k. isUnder (entry_path k) q) kids
   | _ \<Rightarrow> True) cs"

lemma levels_loadedD:
  assumes "levels_loaded cs anc path" "isUnder anc c" "isUnder c path" "normPath c \<noteq> normPath path"
  shows "\<exists>kids st. map_of cs (normPath c) = Some (Entries kids) \<and>
    List.find (\<lambda>k. isUnder (entry_path k) path) kids = Some st"
proof -
  have "normPath c \<in> set ([slash] # prefixes (normPath path))"
    using assms(3) by (auto simp: isUnder_alt dest: append_prefixD)
  then have "isUnder anc (normPath c) \<and> isUnder (normPath c) path \<and> normPath (normPath c) = normPath c \<and>
      normPath c \<noteq> normPath path \<longrightarrow> (case map_of cs (normPath c) of
      Some (Entries kids) \<Rightarrow> list_ex (\<lambda>k. isUnder (entry_path k) path) kids | _ \<Rightarrow> False)"
    using assms(1) unfolding levels_loaded_def list_all_iff by (rule bspec [rotated])
  with assms have "case map_of cs (normPath c) of
      Some (Entries kids) \<Rightarrow> list_ex (\<lambda>k. isUnder (entry_path k) path) kids | _ \<Rightarrow> False"
    by simp
  then obtain kids where "map_of cs (normPath c) = Some (Entries kids)"
    "\<exists>k \<in> set kids. isUnder (entry_path k) path"
    by (auto simp: list_ex_iff split: option.splits listing.splits)
  then show ?thesis
    using find_not_None [of "\<lambda>k. isUnder (entry_path k) path" kids] by blast
qed

lemma listedD:
  assumes "listed cs q" "map_of cs c = Some (Entries kids)" "isUnder c q" "c \<noteq> normPath q"
  shows "\<exists>k \<in> set kids. isUnder (entry_path k) q"
  using assms(1,3,4) map_of_SomeD [OF assms(2)]
  by (fastforce simp: listed_def list_all_iff list_ex_iff)

lemma walk_keeps:
  assumes "growing cs"
  shows "reinclude_walk cs p next current = Some es \<Longrightarrow> set next \<subseteq> set es"
  using assms
proof (induction current arbitrary: "next" rule: walk_induct [where path = p])
  case (stop current)
  then show ?case by (auto simp: reinclude_walk_stop)
next
  case (step current kids st)
  then show ?case by (fastforce simp: reinclude_walk_step)
qed

lemma walk_only_siblings:
  assumes "growing cs" "no_twins cs"
  shows "proper_path current \<Longrightarrow> reinclude_walk cs p next current = Some es \<Longrightarrow> e \<in> set es \<Longrightarrow> isUnder e p \<Longrightarrow> e \<in> set next"
  using assms(1)
proof (induction current arbitrary: "next" rule: walk_induct [where path = p])
  case (stop current)
  then show ?case by (auto simp: reinclude_walk_stop)
next
  case (step current kids st)
  let ?sibs = "map entry_path (filter (\<lambda>sib. entry_path sib \<noteq> entry_path st) kids)"
  from step.hyps(3) have st: "st \<in> set kids" "isUnder (entry_path st) p"
    by (auto dest: find_Some_mem)
  have "proper_path (entry_path st)"
    using growingD [OF assms(1) step.hyps(2) st(1)] by (auto simp: proper_path_def)
  then have "e \<in> set (next @ ?sibs)"
    by (rule step.IH) (use step.prems step.hyps in \<open>simp_all add: reinclude_walk_step\<close>)
  moreover have "e \<notin> set ?sibs"
  proof
    assume "e \<in> set ?sibs"
    then obtain k where k: "k \<in> set kids" "e = entry_path k" "entry_path k \<noteq> entry_path st" by auto
    with st step.prems isUnder_tree [of e p "entry_path st"]
    have "isUnder e (entry_path st) \<or> isUnder (entry_path st) e" by blast
    moreover have "normPath current \<noteq> []" using step.prems(1) by (simp add: proper_path_def)
    ultimately show False
      using k st no_twinsD [OF assms(2) step.hyps(2)] by metis
  qed
  ultimately show ?case by simp
qed

lemma walk_excludes_rest:
  assumes "growing cs" "listed cs q" "\<not> isUnder p q" "\<not> isUnder q p"
  shows "entries_proper cs \<Longrightarrow> proper_path current \<Longrightarrow> levels_loaded cs anc p \<Longrightarrow> proper_path anc \<Longrightarrow> isUnder anc current \<Longrightarrow> isUnder current p \<Longrightarrow> isUnder current q \<Longrightarrow>
    reinclude_walk cs p next current = Some es \<Longrightarrow> \<exists>e \<in> set es. isUnder e q"
  using assms(1)
proof (induction current arbitrary: "next" rule: walk_induct [where path = p])
  case (stop current)
  from stop.prems levels_loadedD [of cs anc p current] have "normPath current = normPath p"
    using stop.hyps by (metis find_Some_mem option.inject listing.inject)
  with stop.prems assms(3) show ?case by (metis isUnder_norm(1))
next
  case (step current kids st)
  let ?next = "next @ map entry_path (filter (\<lambda>sib. entry_path sib \<noteq> entry_path st) kids)"
  from step.hyps(3) have st: "st \<in> set kids" "isUnder (entry_path st) p"
    by (auto dest: find_Some_mem)
  have run: "reinclude_walk cs p ?next (entry_path st) = Some es"
    using step.prems step.hyps by (simp add: reinclude_walk_step)
  have "normPath current \<noteq> normPath q"
    using step.prems assms(4) by (metis isUnder_norm(1))
  then obtain k where k: "k \<in> set kids" "isUnder (entry_path k) q"
    using listedD [OF assms(2) step.hyps(2)] step.prems by auto
  show ?case
  proof (cases "entry_path k = entry_path st")
    case True
    have "isUnder anc (entry_path st)" "proper_path (entry_path st)"
      using step.prems(2,4,5) entries_properD [OF step.prems(1) step.hyps(2) st(1)]
      by (auto simp: proper_path_def intro: isUnder_trans)
    with step.prems(1,3,4) st(2) k(2) True run show ?thesis by (intro step.IH) auto
  next
    case False
    then have "entry_path k \<in> set es"
      using walk_keeps [OF assms(1) run] k(1) by auto
    with k(2) show ?thesis by blast
  qed
qed

text \<open>C4: with the folders on the way to it listed, entries with proper paths that are longer than their folder's and,
  but for the drives of Windows, below it, and no two entries of a folder that cover one another (names that
  differ only in case, \<open>case_twin_stays_out\<close>), re-including a folder under an excluded ancestor gives back that folder and nothing
  else. No exclude that the walk added covers the folder, every other exclude is kept, and
  everything that was listed under the ancestor, beside the folder and the folders on the way
  to it, is still excluded.\<close>
theorem reinclude_exact:
  assumes "listings_ok cs" "levels_loaded cs anc p" "proper_path anc" "isUnder anc p"
    and "computeReincludeExcludes cs excludes p anc = Some es"
  shows "(\<forall>e \<in> set es. isUnder e p \<longrightarrow> e \<in> set excludes \<and> e \<noteq> anc) \<and>
    (\<forall>e \<in> set excludes. e \<noteq> anc \<longrightarrow> e \<in> set es) \<and>
    (\<forall>q. isUnder anc q \<and> listed cs q \<and> \<not> isUnder p q \<and> \<not> isUnder q p \<longrightarrow> (\<exists>e \<in> set es. isUnder e q))"
proof -
  from assms(5) have run: "reinclude_walk cs p (filter (\<lambda>e. e \<noteq> anc) excludes) anc = Some es"
    by (simp add: computeReincludeExcludes_def)
  from assms(1) have ok: "growing cs" "entries_proper cs" "no_twins cs" by (simp_all add: listings_ok_def)
  show ?thesis
  proof (intro conjI ballI allI impI)
    show "e \<in> set excludes" "e \<noteq> anc" if "e \<in> set es" "isUnder e p" for e
      using walk_only_siblings [OF ok(1,3) assms(3) run that] by simp_all
    show "e \<in> set es" if "e \<in> set excludes" "e \<noteq> anc" for e
      using walk_keeps [OF ok(1) run] that by auto
    show "\<exists>e \<in> set es. isUnder e q"
      if "isUnder anc q \<and> listed cs q \<and> \<not> isUnder p q \<and> \<not> isUnder q p" for q
      using that walk_excludes_rest [OF ok(1) _ _ _ ok(2) assms(3,2,3) isUnder_refl assms(4) _ run] by blast
  qed
qed

definition sample_tree :: children where
  "sample_tree = [([], Entries [\<lparr>entry_path = ''/'', entry_name = ''/'', entry_is_dir = True\<rparr>]),
     (''/a'', Entries [\<lparr>entry_path = ''/a/b'', entry_name = ''b'', entry_is_dir = True\<rparr>,
                      \<lparr>entry_path = ''/a/c'', entry_name = ''c'', entry_is_dir = True\<rparr>]),
     (''/a/b'', Entries [\<lparr>entry_path = ''/a/b/x'', entry_name = ''x'', entry_is_dir = False\<rparr>,
                        \<lparr>entry_path = ''/a/b/Y'', entry_name = ''Y'', entry_is_dir = False\<rparr>])]"

lemma sample_tree_run:
  "computeReincludeExcludes sample_tree [''/a'', ''/z''] ''/a/b/x'' ''/a'' = Some [''/z'', ''/a/c'', ''/a/b/Y'']"
  unfolding computeReincludeExcludes_def
  by (subst reinclude_walk.simps, code_simp?)+ 

theorem reinclude_exact_witness:
  "\<exists>e \<in> set [''/z'', ''/a/c'', ''/a/b/Y'']. isUnder e ''/a/c/d''"
proof -
  have "listings_ok sample_tree" "levels_loaded sample_tree ''/a'' ''/a/b/x''" "proper_path ''/a''"
    "isUnder ''/a'' ''/a/b/x''" "isUnder ''/a'' ''/a/c/d''" "listed sample_tree ''/a/c/d''"
    "\<not> isUnder ''/a/b/x'' ''/a/c/d''" "\<not> isUnder ''/a/c/d'' ''/a/b/x''"
    by code_simp+
  with reinclude_exact [OF _ _ _ _ sample_tree_run] show ?thesis by blast
qed

text \<open>Two names that differ only in case: ticking the second one excludes it, beside the first one, which the walk
  takes for it.\<close>

lemma case_twin_stays_out:
  "computeReincludeExcludes [(''/a'', Entries [\<lparr>entry_path = ''/a/X'', entry_name = ''X'', entry_is_dir = True\<rparr>,
     \<lparr>entry_path = ''/a/x'', entry_name = ''x'', entry_is_dir = True\<rparr>])] [''/a''] ''/a/x'' ''/a'' = Some [''/a/x'']"
  unfolding computeReincludeExcludes_def
  by (subst reinclude_walk.simps, code_simp?)+

text \<open>The comment on \<open>computeReincludeExcludes\<close> promises that a missing listing leaves the
  excludes as they were. It does not: the ancestor's exclude is dropped and nothing takes its
  place, so everything under the ancestor that no other exclude covers is backed up again.\<close>
theorem reinclude_missing_level:
  assumes "normPath anc \<noteq> normPath p" "\<forall>kids. map_of cs (normPath anc) \<noteq> Some (Entries kids)"
    and "anc \<in> set excludes" "\<forall>e \<in> set excludes. isUnder e q \<longrightarrow> e = anc"
    and "isUnder anc q" "\<exists>r \<in> set roots. isUnder r q"
  shows "\<not> isChecked q roots excludes \<and>
    (\<exists>es. computeReincludeExcludes cs excludes p anc = Some es \<and> isChecked q roots es)"
proof -
  have "computeReincludeExcludes cs excludes p anc = Some (filter (\<lambda>e. e \<noteq> anc) excludes)"
    unfolding computeReincludeExcludes_def using assms(1,2) by (intro reinclude_walk_stop) auto
  moreover have "isChecked q roots (filter (\<lambda>e. e \<noteq> anc) excludes)" "\<not> isChecked q roots excludes"
    unfolding isChecked_iff set_filter using assms(3-6) by blast+
  ultimately show ?thesis by blast
qed

theorem reinclude_missing_level_witness:
  "\<not> isChecked ''/a/secret'' [''/''] [''/a''] \<and>
    (\<exists>es. computeReincludeExcludes [(''/a'', Failed)] [''/a''] ''/a/b'' ''/a'' = Some es \<and> isChecked ''/a/secret'' [''/''] es)"
proof -
  have "normPath ''/a'' \<noteq> normPath ''/a/b''" "isUnder ''/a'' ''/a/secret''"
    "list_ex (\<lambda>r. isUnder r ''/a/secret'') [''/'']"
    "map_of [(''/a'', Failed)] (normPath ''/a'') = Some Failed"
    by code_simp+
  then show ?thesis
    by (intro reinclude_missing_level) (simp_all only: list_ex_iff list.set singleton_iff ball_simps bex_simps
      option.inject listing.simps simp_thms)
qed

section \<open>The tree's handlers (DirectoryTree.jsx)\<close>

record selection =
  sel_roots :: "string list"
  sel_excludes :: "string list"

text \<open>
  \<open>loadChildren\<close>: the listing is marked as being read, then replaced by the answer. An update
  keeps the key's place in the object.
\<close>

definition load_begin :: "string \<Rightarrow> children \<Rightarrow> children" where
  "load_begin path cs = AList.update (normPath path) Loading cs"

definition load_end :: "string \<Rightarrow> dir_entry list option \<Rightarrow> children \<Rightarrow> children" where
  "load_end path answer cs =
     AList.update (normPath path) (case answer of Some entries \<Rightarrow> Entries entries | None \<Rightarrow> Failed) cs"

text \<open>\<open>handleOpenChange\<close>: a folder is read when it is first opened; the flag says whether to read it.\<close>

definition handleOpenChange :: "children \<Rightarrow> string \<Rightarrow> bool \<Rightarrow> bool" where
  "handleOpenChange cs path opening \<longleftrightarrow> opening \<and> map_of cs (normPath path) = None"

fun findNode :: "children \<Rightarrow> string \<Rightarrow> dir_entry option" where
  "findNode [] path = None"
| "findNode ((_, Entries kids) # cs) path =
     (case List.find (\<lambda>k. entry_path k = path) kids of Some hit \<Rightarrow> Some hit | None \<Rightarrow> findNode cs path)"
| "findNode (_ # cs) path = findNode cs path"

text \<open>
  A click on a check box. \<open>Some (Some s)\<close> is a call of \<open>onChange\<close> with \<open>s\<close>, \<open>Some None\<close> a click
  that changes nothing, \<open>None\<close> a re-include walk that does not end.
\<close>

definition handleCheckedChange ::
  "children \<Rightarrow> selection \<Rightarrow> string \<Rightarrow> bool \<Rightarrow> selection option option" where
  "handleCheckedChange cs sel path wantChecked =
     (let roots = sel_roots sel; excludes = sel_excludes sel;
          p = normPath path;
          coveringRoot = List.find (\<lambda>r. isUnder r p) roots
      in if wantChecked
         then (case coveringRoot of
             None \<Rightarrow>
               (case findNode cs path of
                  None \<Rightarrow> Some None
                | Some node \<Rightarrow>
                    if \<not> entry_is_dir node then Some None
                    else Some (Some \<lparr>sel_roots = filter (\<lambda>r. \<not> isUnder path r) roots @ [path],
                                     sel_excludes = filter (\<lambda>e. \<not> isUnder path e) excludes\<rparr>))
           | Some _ \<Rightarrow>
               (case List.find (\<lambda>e. isUnder e p) excludes of
                  Some anc \<Rightarrow>
                    map_option (\<lambda>es. Some (sel\<lparr>sel_excludes := es\<rparr>))
                      (computeReincludeExcludes cs excludes path anc)
                | None \<Rightarrow>
                    if filter (\<lambda>e. isUnder p e) excludes \<noteq> []
                    then Some (Some (sel\<lparr>sel_excludes := filter (\<lambda>e. \<not> isUnder p e) excludes\<rparr>))
                    else Some None))
         else (case coveringRoot of
             None \<Rightarrow> Some None
           | Some cr \<Rightarrow>
               if normPath cr = p
               then Some (Some \<lparr>sel_roots = filter (\<lambda>r. normPath r \<noteq> p) roots,
                                sel_excludes = filter (\<lambda>e. \<not> isUnder path e) excludes\<rparr>)
               else Some (Some (sel\<lparr>sel_excludes := excludes @ [path]\<rparr>))))"

definition topLevelDirs :: "children \<Rightarrow> dir_entry list" where
  "topLevelDirs cs =
     (case map_of cs [] of Some (Entries ns) \<Rightarrow> filter entry_is_dir ns | _ \<Rightarrow> [])"

definition handleSelectAll :: "children \<Rightarrow> bool \<Rightarrow> selection" where
  "handleSelectAll cs checked =
     (if checked then \<lparr>sel_roots = map entry_path (topLevelDirs cs), sel_excludes = []\<rparr>
      else \<lparr>sel_roots = [], sel_excludes = []\<rparr>)"

text \<open>The header's box: ticked, empty, or neither (indeterminate).\<close>

definition selectAllState :: "children \<Rightarrow> selection \<Rightarrow> check" where
  "selectAllState cs sel =
     (let states = map (\<lambda>n. checkState (entry_path n) (sel_roots sel) (sel_excludes sel)) (topLevelDirs cs);
          allChecked = topLevelDirs cs \<noteq> [] \<and> list_all (\<lambda>s. s = Checked) states;
          noneChecked = list_all (\<lambda>s. s = Unchecked) states
      in if allChecked then Checked else if \<not> noneChecked then Mixed else Unchecked)"

subsection \<open>The selection invariant\<close>

text \<open>
  No root covers another one (nothing is backed up twice), every path is proper, and every
  exclude lies under a root.
\<close>

definition sel_ok :: "selection \<Rightarrow> bool" where
  "sel_ok sel \<longleftrightarrow>
     sorted_wrt (\<lambda>a b. \<not> isUnder a b \<and> \<not> isUnder b a) (sel_roots sel) \<and>
     list_all proper_path (sel_roots sel) \<and> list_all proper_path (sel_excludes sel) \<and>
     list_all (\<lambda>e. list_ex (\<lambda>r. isUnder r e) (sel_roots sel)) (sel_excludes sel)"

abbreviation pick :: "selection \<Rightarrow> string \<Rightarrow> bool" where
  "pick sel q \<equiv> isChecked q (sel_roots sel) (sel_excludes sel)"

lemma sorted_wrt_filter_pairs: "sorted_wrt P xs \<Longrightarrow> sorted_wrt P (filter Q xs)"
  by (induction xs) auto

lemma antichain_unique_root:
  "sorted_wrt (\<lambda>a b. \<not> isUnder a b \<and> \<not> isUnder b a) rs \<Longrightarrow>
   r \<in> set rs \<Longrightarrow> s \<in> set rs \<Longrightarrow> isUnder r s \<Longrightarrow> r = s"
  by (induction rs) auto

lemma sel_okD:
  assumes "sel_ok sel"
  shows "r \<in> set (sel_roots sel) \<Longrightarrow> proper_path r"
    and "e \<in> set (sel_excludes sel) \<Longrightarrow> proper_path e"
    and "e \<in> set (sel_excludes sel) \<Longrightarrow> \<exists>r \<in> set (sel_roots sel). isUnder r e"
    and "r \<in> set (sel_roots sel) \<Longrightarrow> s \<in> set (sel_roots sel) \<Longrightarrow> isUnder r s \<Longrightarrow> r = s"
  using assms by (auto simp: sel_ok_def list_all_iff list_ex_iff dest: antichain_unique_root)

text \<open>A walk that ends excludes only what lies where it went; whether it ends does not matter here.\<close>

lemma walk_under:
  assumes "reinclude_walk cs p next current = Some es" "entries_proper cs" "proper_path current" "e \<in> set es"
  shows "e \<in> set next \<or> proper_path e \<and> isUnder current e"
  using assms
proof (induction arbitrary: e rule: reinclude_walk.raw_induct [rotated, consumes 1, case_names walk])
  case (walk rec cs p nx current es)
  show ?case
  proof (cases "\<exists>kids st. normPath current \<noteq> normPath p \<and> map_of cs (normPath current) = Some (Entries kids) \<and>
      List.find (\<lambda>k. isUnder (entry_path k) p) kids = Some st")
    case False
    with walk(2,5) show ?thesis by (auto split: if_splits option.splits listing.splits)
  next
    case True
    then obtain kids st where w: "normPath current \<noteq> normPath p" "map_of cs (normPath current) = Some (Entries kids)"
      "List.find (\<lambda>k. isUnder (entry_path k) p) kids = Some st" by blast
    let ?nx = "nx @ map entry_path (filter (\<lambda>sib. entry_path sib \<noteq> entry_path st) kids)"
    have st: "st \<in> set kids" using w(3) by (auto dest: find_Some_mem)
    have kid: "proper_path (entry_path k) \<and> isUnder current (entry_path k)" if "k \<in> set kids" for k
      using entries_properD [OF walk(3) w(2) that] walk(4) by (simp add: proper_path_def)
    from walk(2) w have "rec cs p ?nx (entry_path st) = Some es" by simp
    from walk(1) [OF this walk(3) _ walk(5)] kid [OF st]
    have "e \<in> set ?nx \<or> proper_path e \<and> isUnder (entry_path st) e" by blast
    with kid st walk(4) show ?thesis by (auto intro: isUnder_trans)
  qed
qed

text \<open>A path ticked outside every root becomes a root, in place of the roots below it.\<close>

lemma sel_ok_tick:
  assumes "sel_ok sel" "proper_path path" and un: "\<forall>r \<in> set (sel_roots sel). \<not> isUnder r path"
  shows "sel_ok \<lparr>sel_roots = filter (\<lambda>r. \<not> isUnder path r) (sel_roots sel) @ [path],
    sel_excludes = filter (\<lambda>e. \<not> isUnder path e) (sel_excludes sel)\<rparr>"
proof -
  note d = sel_okD [OF assms(1)]
  have anti: "sorted_wrt (\<lambda>a b. \<not> isUnder a b \<and> \<not> isUnder b a) (sel_roots sel)"
    using assms(1) by (simp add: sel_ok_def)
  have below: "\<exists>r \<in> set (sel_roots sel). \<not> isUnder path r \<and> isUnder r e" if "e \<in> set (sel_excludes sel)" "\<not> isUnder path e" for e
    using d(3) [OF that(1)] that(2) isUnder_trans [OF assms(2), of _ e] by blast
  from below have "\<forall>e \<in> set (sel_excludes sel). \<not> isUnder path e \<longrightarrow> (\<exists>r \<in> set (sel_roots sel). \<not> isUnder path r \<and> isUnder r e)"
    by blast
  with un d(1,2) assms(2) show ?thesis
    by (auto simp: sel_ok_def list_all_iff list_ex_iff sorted_wrt_append sorted_wrt_filter_pairs [OF anti])
qed

text \<open>What a walk from an exclude excludes instead lies where the exclude was.\<close>

lemma sel_ok_reinclude:
  assumes "sel_ok sel" "entries_proper cs" and anc: "anc \<in> set (sel_excludes sel)"
    and "computeReincludeExcludes cs (sel_excludes sel) path anc = Some es"
  shows "sel_ok (sel\<lparr>sel_excludes := es\<rparr>)"
proof -
  note d = sel_okD [OF assms(1)]
  from assms(4) have run: "reinclude_walk cs path (filter (\<lambda>e. e \<noteq> anc) (sel_excludes sel)) anc = Some es"
    by (simp add: computeReincludeExcludes_def)
  have "e \<in> set es \<Longrightarrow> e \<in> set (sel_excludes sel) \<or> proper_path e \<and> isUnder anc e" for e
    using walk_under [OF run assms(2) d(2) [OF anc]] by auto
  moreover have "\<exists>r \<in> set (sel_roots sel). isUnder r q" if "isUnder anc q" for q
    using that d(3) [OF anc] d(1) by (meson isUnder_trans)
  ultimately have "proper_path e \<and> (\<exists>r \<in> set (sel_roots sel). isUnder r e)" if "e \<in> set es" for e
    using that d(2,3) by blast
  with assms(1) show ?thesis by (simp add: sel_ok_def list_all_iff list_ex_iff)
qed

text \<open>C5: every click on a box of the tree keeps the selection well formed, over whatever folders, drives and
  shares it lists, as long as the path clicked is a proper one and an entry's path is that of its folder with its name. No root ever lies under another one, and
  every exclude lies under a root, so nothing is backed up twice and no exclude dangles.\<close>
theorem handleCheckedChange_sel_ok:
  assumes "sel_ok sel" "entries_proper cs" "proper_path path"
    and "handleCheckedChange cs sel path wantChecked = Some (Some sel')"
  shows "sel_ok sel'"
proof (cases "List.find (\<lambda>r. isUnder r (normPath path)) (sel_roots sel)")
  case None
  with assms(4) have "sel' = \<lparr>sel_roots = filter (\<lambda>r. \<not> isUnder path r) (sel_roots sel) @ [path],
      sel_excludes = filter (\<lambda>e. \<not> isUnder path e) (sel_excludes sel)\<rparr>"
    by (auto simp: handleCheckedChange_def Let_def split: if_splits option.splits)
  with None sel_ok_tick [OF assms(1,3)] show ?thesis by (simp add: find_None_iff)
next
  case (Some cr)
  then have cr: "cr \<in> set (sel_roots sel)" "isUnder cr path" by (auto dest: find_Some_mem)
  have anti: "sorted_wrt (\<lambda>a b. \<not> isUnder a b \<and> \<not> isUnder b a) (sel_roots sel)"
    using assms(1) by (simp add: sel_ok_def)
  consider (reinclude) anc es where "List.find (\<lambda>e. isUnder e (normPath path)) (sel_excludes sel) = Some anc"
      "computeReincludeExcludes cs (sel_excludes sel) path anc = Some es" "sel' = sel\<lparr>sel_excludes := es\<rparr>"
    | (clear) "sel' = sel\<lparr>sel_excludes := filter (\<lambda>e. \<not> isUnder (normPath path) e) (sel_excludes sel)\<rparr>"
    | (drop) "normPath cr = normPath path" "sel' = \<lparr>sel_roots = filter (\<lambda>r. normPath r \<noteq> normPath path) (sel_roots sel),
        sel_excludes = filter (\<lambda>e. \<not> isUnder path e) (sel_excludes sel)\<rparr>"
    | (exclude) "sel' = sel\<lparr>sel_excludes := sel_excludes sel @ [path]\<rparr>"
    using assms(4) Some
    by (auto simp: handleCheckedChange_def Let_def split: if_splits option.splits)
  then show ?thesis
  proof cases
    case reinclude
    with find_Some_mem [OF reinclude(1)] sel_ok_reinclude [OF assms(1,2) _ reinclude(2)] show ?thesis by blast
  next
    case drop
    have "r \<in> set (sel_roots sel')" if "r \<in> set (sel_roots sel)" "isUnder r e" "\<not> isUnder path e" for r e
      using that drop by (auto simp: isUnder_alt)
    with sel_okD [OF assms(1)] drop(2) show ?thesis
      by (fastforce simp: sel_ok_def list_all_iff list_ex_iff sorted_wrt_filter_pairs [OF anti])
  qed (use assms(1,3) cr in \<open>auto simp: sel_ok_def list_all_iff list_ex_iff\<close>)
qed

theorem handleCheckedChange_sel_ok_witness:
  "sel_ok \<lparr>sel_roots = [''/a''], sel_excludes = [''/a/b'']\<rparr>"
proof -
  have "sel_ok \<lparr>sel_roots = [''/a''], sel_excludes = []\<rparr>" "entries_proper sample_tree"
    "proper_path ''/a/b''"
    "handleCheckedChange sample_tree \<lparr>sel_roots = [''/a''], sel_excludes = []\<rparr> ''/a/b'' False =
      Some (Some \<lparr>sel_roots = [''/a''], sel_excludes = [''/a/b'']\<rparr>)"
    by code_simp+
  then show ?thesis by (rule handleCheckedChange_sel_ok)
qed

lemma uncheck_exact:
  assumes "sel_ok sel" "proper_path path"
    and "handleCheckedChange cs sel path False = Some (Some sel')"
  shows "pick sel' q \<longleftrightarrow> pick sel q \<and> \<not> isUnder path q"
proof -
  note d = sel_okD [OF assms(1)]
  from assms(3) obtain cr where find: "List.find (\<lambda>r. isUnder r (normPath path)) (sel_roots sel) = Some cr"
    by (auto simp: handleCheckedChange_def Let_def split: option.splits)
  then have cr: "cr \<in> set (sel_roots sel)" "isUnder cr path" by (auto dest: find_Some_mem)
  show ?thesis
  proof (cases "normPath cr = normPath path")
    case True
    with assms(3) find have sel': "sel' = \<lparr>sel_roots = filter (\<lambda>r. normPath r \<noteq> normPath path) (sel_roots sel),
        sel_excludes = filter (\<lambda>e. \<not> isUnder path e) (sel_excludes sel)\<rparr>"
      by (auto simp: handleCheckedChange_def Let_def)
    have "normPath r = normPath path" if "r \<in> set (sel_roots sel)" "isUnder r q" "isUnder path q" for r
    proof -
      from that have "isUnder r cr \<or> isUnder cr r"
        using True isUnder_tree [of r q path] by (auto simp: isUnder_alt)
      then have "r = cr" using d(4) that(1) cr(1) by blast
      with True show ?thesis by simp
    qed
    moreover have "isUnder path q" if "isUnder path e" "isUnder e q" for e
      using that assms(2) by (auto intro: isUnder_trans)
    moreover have "isUnder path q" if "normPath r = normPath path" "isUnder r q" for r
      using that by (simp add: isUnder_alt)
    ultimately show ?thesis unfolding sel' isChecked_iff selection.simps set_filter by blast
  next
    case False
    with assms(3) find have "sel' = sel\<lparr>sel_excludes := sel_excludes sel @ [path]\<rparr>"
      by (auto simp: handleCheckedChange_def Let_def)
    then show ?thesis by (auto simp: isChecked_iff)
  qed
qed

lemma check_exact:
  assumes "sel_ok sel" "proper_path path" "\<not> list_ex (\<lambda>e. isUnder e path) (sel_excludes sel)"
    and "handleCheckedChange cs sel path True = Some (Some sel')"
  shows "pick sel' q \<longleftrightarrow> pick sel q \<or> isUnder path q"
proof (cases "List.find (\<lambda>r. isUnder r (normPath path)) (sel_roots sel)")
  case None
  then have un: "\<forall>r \<in> set (sel_roots sel). \<not> isUnder r path" by (simp add: find_None_iff)
  from None assms(4) have sel': "sel' = \<lparr>sel_roots = filter (\<lambda>r. \<not> isUnder path r) (sel_roots sel) @ [path],
      sel_excludes = filter (\<lambda>e. \<not> isUnder path e) (sel_excludes sel)\<rparr>"
    by (auto simp: handleCheckedChange_def Let_def split: if_splits option.splits)
  have "isUnder path q" if "isUnder path e" "isUnder e q" for e
    using that assms(2) by (auto intro: isUnder_trans)
  moreover have "isUnder path e" if "e \<in> set (sel_excludes sel)" "isUnder path q" "isUnder e q" for e
    using that assms(3) isUnder_tree by (auto simp: list_ex_iff)
  ultimately show ?thesis unfolding sel' isChecked_iff selection.simps set_filter set_append by auto
next
  case (Some cr)
  then have cr: "cr \<in> set (sel_roots sel)" "isUnder cr path" by (auto dest: find_Some_mem)
  have "List.find (\<lambda>e. isUnder e (normPath path)) (sel_excludes sel) = None"
    using assms(3) by (simp add: find_None_iff list_ex_iff)
  with assms(4) Some have sel': "sel' = sel\<lparr>sel_excludes := filter (\<lambda>e. \<not> isUnder path e) (sel_excludes sel)\<rparr>"
    by (auto simp: handleCheckedChange_def Let_def split: if_splits)
  have "isUnder path q" if "isUnder path e" "isUnder e q" for e
    using that assms(2) by (auto intro: isUnder_trans)
  moreover have "isUnder path e" if "e \<in> set (sel_excludes sel)" "isUnder path q" "isUnder e q" for e
    using that assms(3) isUnder_tree by (auto simp: list_ex_iff)
  moreover have "isUnder cr q" if "isUnder path q"
    using that cr sel_okD(1) [OF assms(1) cr(1)] by (auto intro: isUnder_trans)
  ultimately show ?thesis using cr(1) unfolding sel' isChecked_iff by auto
qed

text \<open>A click changes exactly the subtree it was made on. Ticking a folder adds it and
  everything below it to the backup, clearing it takes it and everything below it out, and no
  other path changes. (A folder that an exclude covers is re-included level by level instead.)\<close>
theorem click_exact:
  assumes "sel_ok sel" "proper_path path"
    and "wantChecked \<Longrightarrow> \<not> list_ex (\<lambda>e. isUnder e path) (sel_excludes sel)"
    and "handleCheckedChange cs sel path wantChecked = Some (Some sel')"
  shows "pick sel' q \<longleftrightarrow> (if wantChecked then pick sel q \<or> isUnder path q else pick sel q \<and> \<not> isUnder path q)"
  using assms check_exact uncheck_exact by (cases wantChecked) auto

theorem click_exact_witness:
  "\<not> pick \<lparr>sel_roots = [''/a''], sel_excludes = [''/a/b'']\<rparr> ''/a/b/c'' \<and>
   pick \<lparr>sel_roots = [''/a''], sel_excludes = [''/a/b'']\<rparr> ''/a/x''"
proof -
  have "sel_ok \<lparr>sel_roots = [''/a''], sel_excludes = []\<rparr>" "proper_path ''/a/b''"
    "handleCheckedChange [] \<lparr>sel_roots = [''/a''], sel_excludes = []\<rparr> ''/a/b'' False =
      Some (Some \<lparr>sel_roots = [''/a''], sel_excludes = [''/a/b'']\<rparr>)"
    "isUnder ''/a/b'' ''/a/b/c''" "\<not> isUnder ''/a/b'' ''/a/x''"
    "pick \<lparr>sel_roots = [''/a''], sel_excludes = []\<rparr> ''/a/x''"
    by code_simp+
  then show ?thesis
    using click_exact [of "\<lparr>sel_roots = [''/a''], sel_excludes = []\<rparr>" "''/a/b''" False "[]"
        "\<lparr>sel_roots = [''/a''], sel_excludes = [''/a/b'']\<rparr>"] by simp
qed

text \<open>A folder excluded itself and again through a folder above it stays excluded when it is
  ticked: only the first exclude that covers it is undone, so the click shows no effect.\<close>
theorem check_double_exclude:
  assumes "List.find (\<lambda>r. isUnder r (normPath path)) (sel_roots sel) = Some cr"
    and "List.find (\<lambda>e. isUnder e (normPath path)) (sel_excludes sel) = Some own" "normPath own = normPath path"
    and "anc \<in> set (sel_excludes sel)" "anc \<noteq> own" "isUnder anc path"
  shows "\<exists>sel'. handleCheckedChange cs sel path True = Some (Some sel') \<and> \<not> pick sel' path"
proof -
  have "computeReincludeExcludes cs (sel_excludes sel) path own = Some (filter (\<lambda>e. e \<noteq> own) (sel_excludes sel))"
    unfolding computeReincludeExcludes_def using assms(3) by (intro reinclude_walk_stop) simp
  with assms(1,2) have "handleCheckedChange cs sel path True =
      Some (Some (sel\<lparr>sel_excludes := filter (\<lambda>e. e \<noteq> own) (sel_excludes sel)\<rparr>))"
    by (simp add: handleCheckedChange_def Let_def)
  then show ?thesis using assms(4-6) by (auto simp: isChecked_iff)
qed

theorem check_double_exclude_witness:
  "\<exists>sel'. handleCheckedChange [] \<lparr>sel_roots = [''/''], sel_excludes = [''/a/b'', ''/a'']\<rparr> ''/a/b'' True = Some (Some sel')
     \<and> \<not> pick sel' ''/a/b''"
proof -
  have "List.find (\<lambda>r. isUnder r (normPath ''/a/b'')) [''/''] = Some ''/''"
    "List.find (\<lambda>e. isUnder e (normPath ''/a/b'')) [''/a/b'', ''/a''] = Some ''/a/b''"
    "isUnder ''/a'' ''/a/b''"
    by code_simp+
  then show ?thesis
    using check_double_exclude [of "''/a/b''" "\<lparr>sel_roots = [''/''], sel_excludes = [''/a/b'', ''/a'']\<rparr>" "''/''" "''/a/b''" "''/a''" "[]"]
    by simp
qed

subsection \<open>Select all\<close>

text \<open>Select all is well formed when no root of the list covers another one: so it is of \<open>/\<close> and of drives.\<close>

lemma topLevel_antichain:
  assumes "entries_proper cs"
    and "sorted_wrt (\<lambda>a b. \<not> isUnder a b \<and> \<not> isUnder b a) (map entry_path (topLevelDirs cs))"
  shows "sel_ok (handleSelectAll cs checked)"
proof -
  have "\<forall>k \<in> set (topLevelDirs cs). proper_path (entry_path k)"
    using entries_properD(1) [OF assms(1), of "[]"]
    by (cases "map_of cs []") (auto simp: topLevelDirs_def split: listing.split_asm)
  with assms(2) show ?thesis by (auto simp: sel_ok_def handleSelectAll_def list_all_iff)
qed

lemma selectAll_picks:
  "n \<in> set (topLevelDirs cs) \<Longrightarrow> isUnder (entry_path n) q \<Longrightarrow> pick (handleSelectAll cs checked) q = checked"
  by (auto simp: handleSelectAll_def isChecked_iff)

end
