(* ===== verification/Jobs.thy ===== *)
theory Jobs
  imports JsPrelude
begin

text \<open>
  The data the components pass around: a Backup Set (the object \<open>jobData\<close> that
  \<open>handleStartBackup\<close> builds and the backend returns), its schedules and the partitions it
  leaves out. A property the source leaves undefined is at the value its tests treat the same
  way: the empty string, the empty list, 0 or false.
\<close>

datatype weekday = Sun | Mon | Tue | Wed | Thu | Fri | Sat

datatype sched_unit = Minutes | Hours | Days | Weeks | Months | Years

datatype month_mode = OnDay | OnLast | OnNth

record schedule =
  s_id :: string
  s_enabled :: bool
  s_unit :: sched_unit
  s_every :: int
  s_start :: string
  s_at :: string
  s_minute :: int
  s_windowStart :: string
  s_windowEnd :: string
  s_weekdays :: "weekday list"
  s_monthMode :: month_mode
  s_monthDay :: int
  s_nth :: int
  s_nthWeekday :: weekday
  s_yearMonth :: int
  s_yearDay :: int

datatype backup_type = Directory | Machine

datatype sched_mode = Scheduled | Manual

text \<open>A partition left out of a machine set: \<open>ScheduledJob.skipPartitions\<close>.\<close>

record skip_part =
  sk_diskId :: string
  sk_device :: string
  sk_start :: int
  sk_size :: int
  sk_number :: int
  sk_label :: string

datatype change_mode = Legacy | DataMode | Metadata

record job =
  j_id :: string
  j_name :: string
  j_enabled :: bool
  j_runAtStartup :: bool
  j_scheduleMode :: "sched_mode option"
  j_schedules :: "schedule list"
  j_nextRunBy :: string
  j_backupDirs :: "string list"
  j_backupId :: string
  j_useVSS :: bool
  j_backupType :: backup_type
  j_machineAsVm :: bool
  j_readFreeSpace :: bool
  j_snapshotsOff :: bool
  j_liveRead :: bool
  j_excludeList :: "string list"
  j_driveLetters :: "string list"
  j_diskIds :: "string list"
  j_skipPartitions :: "skip_part list"
  j_imageFolders :: "string list"
  j_pbsServerId :: string
  j_emailOnSuccess :: bool
  j_emailOnSuccessTo :: string
  j_emailOnFailure :: bool
  j_emailOnFailureTo :: string
  j_runAppBefore :: string
  j_runAppAfter :: string
  j_exitAppAfter :: bool
  j_minimizeAfter :: bool
  j_shutdownAfter :: bool
  j_changeDetectionMode :: change_mode
  j_fullReadEvery :: int

text \<open>
  A set with no properties: what every concrete set below is built from, by record update.
\<close>

definition empty_schedule :: schedule where
  "empty_schedule = \<lparr>s_id = [], s_enabled = True, s_unit = Days, s_every = 1, s_start = [], s_at = [],
     s_minute = 0, s_windowStart = [], s_windowEnd = [], s_weekdays = [], s_monthMode = OnLast,
     s_monthDay = 1, s_nth = 1, s_nthWeekday = Sun, s_yearMonth = 12, s_yearDay = 31\<rparr>"

definition empty_job :: job where
  "empty_job = \<lparr>j_id = [], j_name = [], j_enabled = True, j_runAtStartup = False, j_scheduleMode = None,
     j_schedules = [], j_nextRunBy = [], j_backupDirs = [], j_backupId = [], j_useVSS = True,
     j_backupType = Directory, j_machineAsVm = False, j_readFreeSpace = False, j_snapshotsOff = False,
     j_liveRead = False, j_excludeList = [], j_driveLetters = [], j_diskIds = [], j_skipPartitions = [],
     j_imageFolders = [], j_pbsServerId = [], j_emailOnSuccess = False, j_emailOnSuccessTo = [],
     j_emailOnFailure = False, j_emailOnFailureTo = [], j_runAppBefore = [], j_runAppAfter = [],
     j_exitAppAfter = False, j_minimizeAfter = False, j_shutdownAfter = False,
     j_changeDetectionMode = Legacy, j_fullReadEvery = 0\<rparr>"

end
