(* ===== verification/BackupId.thy ===== *)
theory BackupId
  imports Jobs
begin

text \<open>
  Backup IDs (\<open>backupId.js\<close>): the suggested ID of a folder set, and the PBS backup group a
  set writes into. Also the VM ID of a machine backup (\<open>computeVmBackupId\<close> and its inverse in
  \<open>applyVmFieldsFromJob\<close>, \<open>App.jsx\<close>).
\<close>

abbreviation dash :: char where "dash \<equiv> CHR 0x2D"

section \<open>Slugs\<close>

text \<open>
  \<open>normalize('NFKD')\<close> followed by the removal of the combining marks, for one Latin-1 character.
  The characters it gives outside Latin-1 (the micro sign's letter, the fraction slash) are no
  letters a-z or digits and stand as a slash, which the next step treats the same.
\<close>

definition nfkd_base :: "char \<Rightarrow> string" where
  "nfkd_base c =
     (let n = code_unit c in
      if n < 160 then [c]
      else if n \<in> {160, 168, 175, 180, 184} then '' ''
      else if n = 170 then ''a'' else if n = 186 then ''o''
      else if n = 178 then ''2'' else if n = 179 then ''3'' else if n = 185 then ''1''
      else if n = 181 then [slash]
      else if n = 188 then ''1'' @ [slash] @ ''4'' else if n = 189 then ''1'' @ [slash] @ ''2''
      else if n = 190 then ''3'' @ [slash] @ ''4''
      else if 192 \<le> n \<and> n \<le> 197 then ''A'' else if n = 199 then ''C''
      else if 200 \<le> n \<and> n \<le> 203 then ''E'' else if 204 \<le> n \<and> n \<le> 207 then ''I''
      else if n = 209 then ''N'' else if 210 \<le> n \<and> n \<le> 214 then ''O''
      else if 217 \<le> n \<and> n \<le> 220 then ''U'' else if n = 221 then ''Y''
      else if 224 \<le> n \<and> n \<le> 229 then ''a'' else if n = 231 then ''c''
      else if 232 \<le> n \<and> n \<le> 235 then ''e'' else if 236 \<le> n \<and> n \<le> 239 then ''i''
      else if n = 241 then ''n'' else if 242 \<le> n \<and> n \<le> 246 then ''o''
      else if 249 \<le> n \<and> n \<le> 252 then ''u'' else if n = 253 \<or> n = 255 then ''y''
      else [c])"

text \<open>Every run of characters other than a-z and 0-9 becomes one hyphen.\<close>

function dash_runs :: "string \<Rightarrow> string" where
  "dash_runs [] = []"
| "dash_runs (c # s) =
     (if is_lower_alnum c then c # dash_runs s
      else dash # dash_runs (dropWhile (\<lambda>x. \<not> is_lower_alnum x) s))"
  by pat_completeness auto
termination
  by (relation "measure length") (auto simp: le_imp_less_Suc length_dropWhile_le)

definition slugId :: "string \<Rightarrow> string" where
  "slugId s =
     strip_end (\<lambda>c. c = dash)
       (dropWhile (\<lambda>c. c = dash)
         (dash_runs (toLowerCase (concat (map nfkd_base s)))))"

text \<open>
  A slug is a list of words of a-z and 0-9 with single hyphens between them.
\<close>

definition word_ok :: "string \<Rightarrow> bool" where
  "word_ok w \<longleftrightarrow> w \<noteq> [] \<and> list_all is_lower_alnum w"

definition slug_ok :: "string \<Rightarrow> bool" where
  "slug_ok s \<longleftrightarrow> s = [] \<or> list_all word_ok (split_on dash s)"

lemma not_alnum_dash [simp]: "\<not> is_lower_alnum dash"
  by code_simp

lemma alnum_not_dash: "is_lower_alnum c \<Longrightarrow> c \<noteq> dash"
  by auto

lemma word_no_dash: "list_all is_lower_alnum w \<Longrightarrow> dash \<notin> set w"
  using not_alnum_dash by (auto simp: list_all_iff)

text \<open>Slugs, described by how they are built.\<close>

inductive slug :: "string \<Rightarrow> bool" where
  last_word: "word_ok w \<Longrightarrow> slug w"
| more: "word_ok w \<Longrightarrow> slug s \<Longrightarrow> slug (w @ dash # s)"

lemma slug_imp_ok: "slug s \<Longrightarrow> list_all word_ok (split_on dash s)"
  by (induction rule: slug.induct)
    (auto simp: word_ok_def split_on_id split_on_append_sep word_no_dash)

lemma slug_join: "ws \<noteq> [] \<Longrightarrow> list_all word_ok ws \<Longrightarrow> slug (join_with [dash] ws)"
proof (induction ws)
  case Nil
  then show ?case by simp
next
  case (Cons w ws)
  then show ?case
    by (cases "ws = []") (auto simp: join_with_Cons intro: slug.intros)
qed

lemma slug_iff: "slug s \<longleftrightarrow> list_all word_ok (split_on dash s)"
  using slug_imp_ok slug_join [of "split_on dash s"] by (auto simp: join_split_on)

lemma slug_nonempty: "slug s \<Longrightarrow> s \<noteq> []"
  by (cases rule: slug.cases) (auto simp: word_ok_def)

lemma slug_append: "slug s \<Longrightarrow> slug t \<Longrightarrow> slug (s @ dash # t)"
  by (induction rule: slug.induct) (auto intro: slug.intros)

lemma dash_runs_shape:
  "dash_runs s = [] \<or> dash_runs s = [dash] \<or>
   (\<exists>t. slug t \<and> dash_runs s \<in> {t, dash # t, t @ [dash], dash # t @ [dash]} \<and>
     (s \<noteq> [] \<and> is_lower_alnum (hd s) \<longrightarrow> dash_runs s \<in> {t, t @ [dash]}))"
proof (induction s rule: dash_runs.induct)
  case 1
  show ?case by simp
next
  case (2 c s)
  show ?case
  proof (cases "is_lower_alnum c")
    case True
    have w: "word_ok [c]" using True by (simp add: word_ok_def)
    have ext: "slug (c # t)" if "slug t" for t
      using that
    proof (cases rule: slug.cases)
      case last_word
      then show ?thesis using True by (intro slug.last_word) (auto simp: word_ok_def)
    next
      case (more w s)
      then have "slug ((c # w) @ dash # s)" using True by (intro slug.more) (auto simp: word_ok_def)
      with more show ?thesis by simp
    qed
    from "2.IH"(1) [OF True] consider "dash_runs s = []" | "dash_runs s = [dash]"
      | t where "slug t" "dash_runs s \<in> {t, dash # t, t @ [dash], dash # t @ [dash]}" by blast
    then show ?thesis
    proof cases
      case 1
      with True w show ?thesis by (auto intro!: exI [of _ "[c]"] slug.last_word)
    next
      case 2
      with True w show ?thesis by (auto intro!: exI [of _ "[c]"] slug.last_word)
    next
      case 3
      have "slug (c # dash # t)" using slug.more [OF w 3(1)] by simp
      with 3 ext [OF 3(1)] True show ?thesis
        by (elim insertE emptyE) (force+)
    qed
  next
    case False
    let ?r = "dropWhile (\<lambda>x. \<not> is_lower_alnum x) s"
    have "?r = [] \<or> is_lower_alnum (hd ?r)"
      using hd_dropWhile [of "\<lambda>x. \<not> is_lower_alnum x" s] by auto
    then have "dash_runs ?r = [] \<or> (\<exists>t. slug t \<and> dash_runs ?r \<in> {t, t @ [dash]})"
    proof (cases "?r = []")
      case False
      assume "?r = [] \<or> is_lower_alnum (hd ?r)"
      with False "2.IH"(2) [OF \<open>\<not> is_lower_alnum c\<close>] show ?thesis
        by (cases ?r) auto
    qed (simp only: dash_runs.simps simp_thms)
    with False show ?thesis by auto
  qed
qed

lemma slug_ends: "slug t \<Longrightarrow> hd t \<noteq> dash \<and> last t \<noteq> dash"
proof (induction rule: slug.induct)
  case (last_word w)
  then have "hd w \<in> set w" "last w \<in> set w" "dash \<notin> set w"
    by (auto simp: word_ok_def word_no_dash)
  then show ?case by metis
next
  case (more w s)
  then have "hd w \<in> set w" "dash \<notin> set w" "w \<noteq> []"
    by (auto simp: word_ok_def word_no_dash)
  then have "hd w \<noteq> dash" by metis
  with more \<open>w \<noteq> []\<close> slug_nonempty [of s] show ?case by simp
qed

lemma strip_slug:
  assumes "slug t"
  shows "strip_end (\<lambda>c. c = dash) t = t" "dropWhile (\<lambda>c. c = dash) t = t"
    "dropWhile (\<lambda>c. c = dash) (t @ [dash]) = t @ [dash]"
  using slug_ends [OF assms] slug_nonempty [OF assms]
  by (auto intro: strip_end_id simp: dropWhile_eq_self_iff)

lemma slugId_slug: "slugId s = [] \<or> slug (slugId s)"
proof -
  let ?r = "dash_runs (toLowerCase (concat (map nfkd_base s)))"
  consider "?r = [] \<or> ?r = [dash]"
    | t where "slug t" "?r \<in> {t, dash # t, t @ [dash], dash # t @ [dash]}"
    using dash_runs_shape [of "toLowerCase (concat (map nfkd_base s))"] by blast
  then show ?thesis
  proof cases
    case 1
    then show ?thesis by (auto simp: slugId_def)
  next
    case 2
    then have "slugId s = t"
      by (auto simp: slugId_def strip_slug)
    with 2(1) show ?thesis by simp
  qed
qed

lemma dash_runs_word: "list_all is_lower_alnum w \<Longrightarrow> dash_runs (w @ s) = w @ dash_runs s"
  by (induction w) auto

lemma dash_runs_slug: "slug s \<Longrightarrow> dash_runs s = s"
proof (induction rule: slug.induct)
  case (last_word w)
  then show ?case using dash_runs_word [of w "[]"] by (simp add: word_ok_def)
next
  case (more w s)
  have "dropWhile (\<lambda>x. \<not> is_lower_alnum x) s = s"
    using more.hyps(2)
  proof (cases rule: slug.cases)
    case last_word
    then show ?thesis by (cases s) (auto simp: word_ok_def)
  next
    case (more w' s')
    then show ?thesis by (cases w') (auto simp: word_ok_def)
  qed
  with more show ?case by (simp add: dash_runs_word word_ok_def)
qed

lemma alnum_plain: "is_lower_alnum c \<Longrightarrow> nfkd_base c = [c] \<and> lower_char c = c"
proof -
  assume "is_lower_alnum c"
  then have "48 \<le> code_unit c \<and> code_unit c \<le> 57 \<or> 97 \<le> code_unit c \<and> code_unit c \<le> 122"
    by (simp add: is_lower_alnum_def is_digit_def)
  then have "code_unit c < 160" "\<not> (65 \<le> code_unit c \<and> code_unit c \<le> 90)" "\<not> 192 \<le> code_unit c"
    by linarith+
  then have "nfkd_base c = [c]" "lower_char c = c"
    by (simp add: nfkd_base_def Let_def) (use \<open>\<not> (65 \<le> code_unit c \<and> code_unit c \<le> 90)\<close> \<open>\<not> 192 \<le> code_unit c\<close> in \<open>auto simp: lower_char_def Let_def\<close>)
  then show ?thesis by simp
qed

lemma slug_chars: "slug s \<Longrightarrow> list_all (\<lambda>c. is_lower_alnum c \<or> c = dash) s"
  by (induction rule: slug.induct) (auto simp: word_ok_def list_all_iff)

lemma slug_plain: "slug s \<Longrightarrow> toLowerCase (concat (map nfkd_base s)) = s \<and> toLowerCase s = s"
proof -
  have dash: "nfkd_base dash = [dash] \<and> lower_char dash = dash" by code_simp
  assume "slug s"
  then have "list_all (\<lambda>c. is_lower_alnum c \<or> c = dash) s" by (rule slug_chars)
  then show ?thesis
    by (induction s) (auto simp: dash dest: alnum_plain)
qed

lemma slugId_id: "slug s \<Longrightarrow> slugId s = s"
  by (simp add: slugId_def slug_plain dash_runs_slug strip_slug)

text \<open>A slug is words of a-z and 0-9 with single hyphens between them, and making a slug of a
  slug changes nothing.\<close>
theorem slugId_ok: "slug_ok (slugId s) \<and> slugId (slugId s) = slugId s"
proof -
  have "slugId [] = []" by code_simp
  with slugId_slug [of s] show ?thesis
    by (auto simp: slug_ok_def slug_iff [symmetric] slugId_id)
qed

section \<open>Edit distance\<close>

text \<open>
  One cell of the table: \<open>a[i-1]\<close> against \<open>b[j-1]\<close>, from the two rows above (\<open>prev2\<close>, \<open>prev\<close>)
  and the part of the row already there (\<open>cur\<close>).
\<close>

definition edit_cell ::
  "string \<Rightarrow> string \<Rightarrow> nat \<Rightarrow> nat list option \<Rightarrow> nat list \<Rightarrow> nat list \<Rightarrow> nat \<Rightarrow> nat" where
  "edit_cell a b i prev2 prev cur j =
     (let cost = (if a ! (i - 1) = b ! (j - 1) then 0 else 1);
          v = min (min (prev ! j + 1) (cur ! (j - 1) + 1)) (prev ! (j - 1) + cost)
      in case prev2 of
           Some p2 \<Rightarrow>
             if i > 1 \<and> j > 1 \<and> a ! (i - 1) = b ! (j - 2) \<and> a ! (i - 2) = b ! (j - 1)
             then min v (p2 ! (j - 2) + 1) else v
         | None \<Rightarrow> v)"

definition edit_row :: "string \<Rightarrow> string \<Rightarrow> nat \<Rightarrow> nat list option \<Rightarrow> nat list \<Rightarrow> nat list \<times> nat" where
  "edit_row a b i prev2 prev =
     foldl (\<lambda>(cur, rowMin) j. let v = edit_cell a b i prev2 prev cur j in (cur @ [v], min rowMin v))
       ([i], i) [1..<Suc (length b)]"

fun edit_rows :: "string \<Rightarrow> string \<Rightarrow> nat \<Rightarrow> nat list \<Rightarrow> nat list option \<Rightarrow> nat list \<Rightarrow> nat" where
  "edit_rows a b mx [] prev2 prev = prev ! length b"
| "edit_rows a b mx (i # is) prev2 prev =
     (let (cur, rowMin) = edit_row a b i prev2 prev
      in if rowMin > mx then mx + 1 else edit_rows a b mx is (Some prev) cur)"

definition editDistance :: "string \<Rightarrow> string \<Rightarrow> nat \<Rightarrow> nat" where
  "editDistance a b mx =
     (if (if length a \<ge> length b then length a - length b else length b - length a) > mx then mx + 1
      else edit_rows a b mx [1..<Suc (length a)] None [0..<Suc (length b)])"

subsection \<open>The distance as a recursion\<close>

fun osa :: "string \<Rightarrow> string \<Rightarrow> nat \<Rightarrow> nat \<Rightarrow> nat" where
  "osa a b 0 j = j"
| "osa a b (Suc i) 0 = Suc i"
| "osa a b (Suc i) (Suc j) =
     (let v = min (min (osa a b i (Suc j) + 1) (osa a b (Suc i) j + 1))
                  (osa a b i j + (if a ! i = b ! j then 0 else 1))
      in if i > 0 \<and> j > 0 \<and> a ! i = b ! (j - 1) \<and> a ! (i - 1) = b ! j
         then min v (osa a b (i - 1) (j - 1) + 1) else v)"

definition osa_row :: "string \<Rightarrow> string \<Rightarrow> nat \<Rightarrow> nat list" where
  "osa_row a b i = map (osa a b i) [0..<Suc (length b)]"

declare osa.simps(3) [simp del]

lemma osa_diag: "osa a b (Suc i) (Suc j) \<le> osa a b i j + 1"
  by (simp add: osa.simps(3) Let_def min_le_iff_disj)

lemma osa_choices:
  "osa a b (Suc i) (Suc j) \<in> {osa a b i (Suc j) + 1, osa a b (Suc i) j + 1, osa a b i j + 1}
   \<or> a ! i = b ! j \<and> osa a b (Suc i) (Suc j) = osa a b i j
   \<or> (\<exists>i' j'. i = Suc i' \<and> j = Suc j' \<and> a ! i = b ! j' \<and> a ! i' = b ! j \<and> osa a b (Suc i) (Suc j) = osa a b i' j' + 1)"
proof -
  define v where "v = min (min (osa a b i (Suc j) + 1) (osa a b (Suc i) j + 1)) (osa a b i j + (if a ! i = b ! j then 0 else 1))"
  define w where "w = osa a b (i - 1) (j - 1) + 1"
  have v: "v = osa a b i (Suc j) + 1 \<or> v = osa a b (Suc i) j + 1 \<or> a ! i = b ! j \<and> v = osa a b i j \<or> v = osa a b i j + 1"
    unfolding v_def by (auto simp: min_def)
  have eq: "osa a b (Suc i) (Suc j) =
      (if i > 0 \<and> j > 0 \<and> a ! i = b ! (j - 1) \<and> a ! (i - 1) = b ! j then min v w else v)"
    unfolding osa.simps(3) Let_def v_def w_def by (rule refl)
  show ?thesis
  proof (cases "osa a b (Suc i) (Suc j) = v")
    case True
    with v show ?thesis by blast
  next
    case False
    with eq have "i > 0" "j > 0" "a ! i = b ! (j - 1)" "a ! (i - 1) = b ! j" "osa a b (Suc i) (Suc j) = w"
      by (auto simp: min_def split: if_splits)
    then have "i = Suc (i - 1) \<and> j = Suc (j - 1) \<and> a ! i = b ! (j - 1) \<and> a ! (i - 1) = b ! j \<and> osa a b (Suc i) (Suc j) = osa a b (i - 1) (j - 1) + 1"
      by (simp add: w_def)
    then show ?thesis by blast
  qed
qed

lemma osa_row_nth [simp]: "j \<le> length b \<Longrightarrow> osa_row a b i ! j = osa a b i j"
  unfolding osa_row_def by (subst nth_map) (simp_all del: upt_Suc)

lemma edit_cell_osa:
  assumes "0 < i" "0 < j" "j \<le> length b" "cur ! (j - 1) = osa a b i (j - 1)"
  shows "edit_cell a b i (if i = 1 then None else Some (osa_row a b (i - 2))) (osa_row a b (i - 1)) cur j = osa a b i j"
proof -
  obtain i' j' where ij: "i = Suc i'" "j = Suc j'" using assms(1,2) by (metis gr0_implies_Suc)
  show ?thesis
  proof (cases "i' = 0 \<or> j' = 0")
    case True
    with ij assms(3,4) show ?thesis
      by (auto simp: edit_cell_def osa.simps(3) [of a b i' j'] Let_def split: option.split)
  next
    case False
    then obtain k l where "i' = Suc k" "j' = Suc l" by (metis not0_implies_Suc)
    with ij assms(3,4) show ?thesis
      by (simp add: edit_cell_def osa.simps(3) [of a b "Suc k" "Suc l"] Let_def numeral_2_eq_2)
  qed
qed

lemma edit_row_osa:
  assumes "0 < i"
  shows "edit_row a b i (if i = 1 then None else Some (osa_row a b (i - 2))) (osa_row a b (i - 1)) =
    (osa_row a b i, Min (osa a b i ` {..length b}))"
proof -
  define B where "B = (\<lambda>(cur, rowMin) j.
    let v = edit_cell a b i (if i = 1 then None else Some (osa_row a b (i - 2))) (osa_row a b (i - 1)) cur j
    in (cur @ [v], min rowMin v))"
  have B: "B (cur, m) j = (cur @ [osa a b i j], min m (osa a b i j))"
    if "0 < j" "j \<le> length b" "cur ! (j - 1) = osa a b i (j - 1)" for cur m j
    unfolding B_def prod.case Let_def edit_cell_osa [OF assms that] by (rule refl)
  have "foldl B ([i], i) [1..<Suc n] = (map (osa a b i) [0..<Suc n], Min (osa a b i ` {..n}))"
    if "n \<le> length b" for n
    using that
  proof (induction n)
    case 0
    obtain i' where "i = Suc i'" using assms by (metis gr0_implies_Suc)
    then show ?case by simp
  next
    case (Suc n)
    let ?row = "map (osa a b i) [0..<Suc n]"
    have "?row ! (Suc n - 1) = osa a b i (Suc n - 1)"
      by (simp del: upt_Suc)
    then have step: "B (?row, m) (Suc n) = (?row @ [osa a b i (Suc n)], min m (osa a b i (Suc n)))" for m
      using Suc.prems by (intro B) simp_all
    have "foldl B ([i], i) [1..<Suc (Suc n)] = B (foldl B ([i], i) [1..<Suc n]) (Suc n)"
      by simp
    also have "\<dots> = (?row @ [osa a b i (Suc n)], min (Min (osa a b i ` {..n})) (osa a b i (Suc n)))"
      using Suc.IH Suc.prems step by (simp del: upt_Suc)
    also have "min (Min (osa a b i ` {..n})) (osa a b i (Suc n)) = Min (osa a b i ` {..Suc n})"
      by (simp add: atMost_Suc min.commute)
    also have "?row @ [osa a b i (Suc n)] = map (osa a b i) [0..<Suc (Suc n)]"
      by simp
    finally show ?case .
  qed
  from this [of "length b"] show ?thesis
    unfolding edit_row_def B_def osa_row_def [of a b i] by simp
qed

lemma osa_le:
  "osa a b (Suc i) (Suc j) \<le> osa a b i (Suc j) + 1"
  "osa a b (Suc i) (Suc j) \<le> osa a b (Suc i) j + 1"
  "osa a b (Suc i) (Suc j) \<le> osa a b i j + 1"
  "a ! i = b ! j \<Longrightarrow> osa a b (Suc i) (Suc j) \<le> osa a b i j"
  "a ! Suc i = b ! j \<Longrightarrow> a ! i = b ! Suc j \<Longrightarrow> osa a b (Suc (Suc i)) (Suc (Suc j)) \<le> osa a b i j + 1"
  by (simp_all add: osa.simps(3) [of a b i j] osa.simps(3) [of a b "Suc i" "Suc j"] Let_def min_le_iff_disj)

lemma osa_0 [simp]: "osa a b i 0 = i"
  by (cases i) simp_all

lemma osa_step_lower: "\<exists>k \<le> j. osa a b i k \<le> osa a b (Suc i) j"
proof (induction j arbitrary: i)
  case 0
  show ?case by simp
next
  case (Suc j)
  from Suc [of i] obtain k where k: "k \<le> j" "osa a b i k \<le> osa a b (Suc i) j" by blast
  from osa_choices [of a b i j] consider
    "osa a b i (Suc j) \<le> osa a b (Suc i) (Suc j)" | "osa a b i j \<le> osa a b (Suc i) (Suc j)"
    | "osa a b i k \<le> osa a b (Suc i) (Suc j)"
    | i' j' where "i = Suc i'" "j = Suc j'" "osa a b (Suc i) (Suc j) = osa a b i' j' + 1"
    using k(2) by fastforce
  then show ?case
  proof cases
    case 4
    then have "osa a b i j \<le> osa a b (Suc i) (Suc j)" using osa_diag [of a b i' j'] by simp
    then show ?thesis by (meson le_SucI le_refl)
  qed (use k(1) in \<open>meson le_SucI le_refl\<close>)+
qed

lemma osa_row_lower: "i \<le> n \<Longrightarrow> j \<le> m \<Longrightarrow> \<exists>k \<le> m. osa a b i k \<le> osa a b n j"
proof (induction "n - i" arbitrary: n j)
  case 0
  then show ?case by auto
next
  case (Suc d)
  then obtain n' where n: "n = Suc n'" "i \<le> n'" "d = n' - i"
    by (cases n) auto
  from osa_step_lower [of j a b n'] obtain k where "k \<le> j" "osa a b n' k \<le> osa a b n j"
    using n(1) by blast
  with Suc.hyps(1) [OF n(3,2), of k] Suc.prems show ?case by (meson le_trans)
qed

lemma osa_length: "i \<le> osa a b i j + j \<and> j \<le> osa a b i j + i"
proof (induction "i + j" arbitrary: i j rule: less_induct)
  case less
  show ?case
  proof (cases "i = 0 \<or> j = 0")
    case True
    then show ?thesis by auto
  next
    case False
    then obtain i' j' where ij: "i = Suc i'" "j = Suc j'" by (metis not0_implies_Suc)
    have "i' \<le> osa a b i' j + j \<and> j \<le> osa a b i' j + i'" using ij by (intro less) simp
    moreover have "i \<le> osa a b i j' + j' \<and> j' \<le> osa a b i j' + i" using ij by (intro less) simp
    moreover have "i' \<le> osa a b i' j' + j' \<and> j' \<le> osa a b i' j' + i'" using ij by (intro less) simp
    moreover have "x \<le> osa a b x y + y \<and> y \<le> osa a b x y + x" if "i' = Suc x" "j' = Suc y" for x y
      using ij that by (intro less) simp
    ultimately show ?thesis using osa_choices [of a b i' j'] ij by fastforce
  qed
qed

lemma edit_rows_osa:
  fixes a b :: string
  assumes "0 < i" "i \<le> Suc (length a)"
  defines "d \<equiv> osa a b (length a) (length b)"
  shows "edit_rows a b mx [i..<Suc (length a)] (if i = 1 then None else Some (osa_row a b (i - 2))) (osa_row a b (i - 1)) = d \<or>
    d > mx \<and> edit_rows a b mx [i..<Suc (length a)] (if i = 1 then None else Some (osa_row a b (i - 2))) (osa_row a b (i - 1)) = mx + 1"
  using assms(1,2)
proof (induction "Suc (length a) - i" arbitrary: i)
  case 0
  then have "i = Suc (length a)" by simp
  then show ?case by (simp add: d_def)
next
  case (Suc k)
  then have i: "i < Suc (length a)" by simp
  have row: "edit_row a b i (if i = 1 then None else Some (osa_row a b (i - 2))) (osa_row a b (i - 1)) =
      (osa_row a b i, Min (osa a b i ` {..length b}))"
    using Suc.prems by (intro edit_row_osa) simp
  show ?case
  proof (cases "Min (osa a b i ` {..length b}) > mx")
    case True
    from osa_row_lower [of i "length a" "length b" "length b" a b] i obtain c
      where "c \<le> length b" "osa a b i c \<le> d" by (auto simp: d_def)
    with True have "d > mx" by auto (meson atMost_iff le_trans not_le)
    with True i row show ?thesis by (simp only: upt_conv_Cons [OF i] edit_rows.simps Let_def prod.case if_True simp_thms)
  next
    case False
    have "edit_rows a b mx [i..<Suc (length a)] (if i = 1 then None else Some (osa_row a b (i - 2))) (osa_row a b (i - 1)) =
        edit_rows a b mx [Suc i..<Suc (length a)] (if Suc i = 1 then None else Some (osa_row a b (Suc i - 2))) (osa_row a b (Suc i - 1))"
    proof -
      have e: "(Suc i = 1) = False" "Suc i - 2 = i - 1" "Suc i - 1 = i" using Suc.prems by auto
      show ?thesis
        unfolding upt_conv_Cons [OF i] edit_rows.simps row Let_def prod.case by (simp only: False e if_False)
    qed
    with Suc.hyps(1) [of "Suc i"] Suc.hyps(2) i show ?thesis by simp
  qed
qed

lemma editDistance_osa:
  "editDistance a b mx = osa a b (length a) (length b) \<or>
   osa a b (length a) (length b) > mx \<and> editDistance a b mx = mx + 1"
proof -
  have "osa_row a b 0 = [0..<Suc (length b)]"
    unfolding osa_row_def by (rule map_idI) simp
  with edit_rows_osa [of 1 a b mx] osa_length [of "length a" a b "length b"] show ?thesis
    by (simp add: editDistance_def del: upt_Suc) linarith
qed

subsection \<open>What the distance counts\<close>

text \<open>
  \<open>aligned a b n\<close>: \<open>b\<close> is \<open>a\<close> with \<open>n\<close> letters inserted, deleted, replaced or swapped with the
  neighbour, each letter changed at most once.
\<close>

inductive aligned :: "string \<Rightarrow> string \<Rightarrow> nat \<Rightarrow> bool" where
  nothing: "aligned [] [] 0"
| keep: "aligned a b n \<Longrightarrow> aligned (a @ [x]) (b @ [x]) n"
| exchange: "aligned a b n \<Longrightarrow> aligned (a @ [x]) (b @ [y]) (Suc n)"
| add: "aligned a b n \<Longrightarrow> aligned a (b @ [y]) (Suc n)"
| drop: "aligned a b n \<Longrightarrow> aligned (a @ [x]) b (Suc n)"
| swap: "aligned a b n \<Longrightarrow> aligned (a @ [x, y]) (b @ [y, x]) (Suc n)"

lemma snoc_take:
  "as @ [x] = take i a \<Longrightarrow> i \<le> length a \<Longrightarrow> \<exists>i'. i = Suc i' \<and> as = take i' a \<and> a ! i' = x"
  by (cases i) (auto simp: take_Suc_conv_app_nth)

lemma snoc2_take:
  "as @ [x, y] = take i a \<Longrightarrow> i \<le> length a \<Longrightarrow>
   \<exists>i'. i = Suc (Suc i') \<and> as = take i' a \<and> a ! i' = x \<and> a ! Suc i' = y"
proof -
  assume "as @ [x, y] = take i a" "i \<le> length a"
  then obtain k where k: "i = Suc k" "as @ [x] = take k a" "a ! k = y"
    using snoc_take [of "as @ [x]" y i a] by auto
  with \<open>i \<le> length a\<close> snoc_take [of as x k a] show ?thesis by auto
qed

lemma osa_minimal:
  "aligned a' b' n \<Longrightarrow> a' = take i a \<Longrightarrow> b' = take j b \<Longrightarrow> i \<le> length a \<Longrightarrow> j \<le> length b \<Longrightarrow> osa a b i j \<le> n"
proof (induction arbitrary: i j rule: aligned.induct)
  case nothing
  then show ?case by auto
next
  case (keep a' b' n x)
  then obtain i' j' where "i = Suc i'" "a' = take i' a" "a ! i' = x" "j = Suc j'" "b' = take j' b" "b ! j' = x"
    using snoc_take by metis
  with keep.IH [of i' j'] keep.prems osa_le(4) [of a i' b j'] show ?case by simp
next
  case (exchange a' b' n x y)
  then obtain i' j' where "i = Suc i'" "a' = take i' a" "j = Suc j'" "b' = take j' b"
    using snoc_take by metis
  with exchange.IH [of i' j'] exchange.prems osa_le(3) [of a b i' j'] show ?case by simp
next
  case (add a' b' n y)
  then obtain j' where "j = Suc j'" "b' = take j' b" using snoc_take by metis
  with add.IH [of i j'] add.prems osa_le(2) [of a b "i - 1" j'] show ?case by (cases i) auto
next
  case (drop a' b' n x)
  then obtain i' where "i = Suc i'" "a' = take i' a" using snoc_take by metis
  with drop.IH [of i' j] drop.prems osa_le(1) [of a b i' "j - 1"] show ?case by (cases j) auto
next
  case (swap a' b' n x y)
  then obtain i' j' where "i = Suc (Suc i')" "a' = take i' a" "a ! i' = x" "a ! Suc i' = y"
    "j = Suc (Suc j')" "b' = take j' b" "b ! j' = y" "b ! Suc j' = x"
    using snoc2_take [of a' x y i a] snoc2_take [of b' y x j b] by auto
  with swap.IH [of i' j'] swap.prems osa_le(5) [of a i' b j'] show ?case by simp
qed

lemma aligned_drop_all: "aligned (take i a) [] i" if "i \<le> length a"
  using that by (induction i) (auto simp: take_Suc_conv_app_nth intro: aligned.intros)

lemma aligned_add_all: "aligned [] (take j b) j" if "j \<le> length b"
  using that by (induction j) (auto simp: take_Suc_conv_app_nth intro: aligned.intros)

lemma osa_reached: "i \<le> length a \<Longrightarrow> j \<le> length b \<Longrightarrow> aligned (take i a) (take j b) (osa a b i j)"
proof (induction "i + j" arbitrary: i j rule: less_induct)
  case less
  show ?case
  proof (cases "i = 0 \<or> j = 0")
    case True
    with less.prems show ?thesis by (auto intro: aligned_drop_all aligned_add_all)
  next
    case False
    then obtain i' j' where ij: "i = Suc i'" "j = Suc j'" by (metis not0_implies_Suc)
    with less.prems have tk: "take i a = take i' a @ [a ! i']" "take j b = take j' b @ [b ! j']"
      by (simp_all add: take_Suc_conv_app_nth)
    note IH = less.hyps [of i' j] less.hyps [of i j'] less.hyps [of i' j']
    from osa_choices [of a b i' j'] consider
        "osa a b i j = osa a b i' j + 1" | "osa a b i j = osa a b i j' + 1" | "osa a b i j = osa a b i' j' + 1"
      | "a ! i' = b ! j'" "osa a b i j = osa a b i' j'"
      | x y where "i' = Suc x" "j' = Suc y" "a ! i' = b ! y" "a ! x = b ! j'" "osa a b i j = osa a b x y + 1"
      using ij by auto
    then show ?thesis
    proof cases
      case 1
      with IH(1) ij less.prems tk show ?thesis by (auto intro: aligned.drop)
    next
      case 2
      with IH(2) ij less.prems tk show ?thesis by (auto intro: aligned.add)
    next
      case 3
      with IH(3) ij less.prems tk show ?thesis by (auto intro: aligned.exchange)
    next
      case 4
      with IH(3) ij less.prems tk show ?thesis by (auto intro: aligned.keep)
    next
      case 5
      have "aligned (take x a @ [a ! x, a ! i']) (take y b @ [a ! i', a ! x]) (Suc (osa a b x y))"
        using 5 ij less.prems less.hyps [of x y] by (intro aligned.swap) auto
      with 5 ij less.prems tk show ?thesis by (simp add: take_Suc_conv_app_nth)
    qed
  qed
qed

text \<open>C6: the table with its two early exits computes the edit distance up to its bound. It
  answers at most \<open>mx\<close> exactly when \<open>mx\<close> changes of a letter are enough, and the answer is
  then the least number of changes.\<close>
theorem editDistance_correct:
  "(editDistance a b mx \<le> mx \<longleftrightarrow> (\<exists>n \<le> mx. aligned a b n)) \<and>
   (editDistance a b mx \<le> mx \<longrightarrow>
     aligned a b (editDistance a b mx) \<and> (\<forall>n. aligned a b n \<longrightarrow> editDistance a b mx \<le> n))"
proof -
  have "aligned a b (osa a b (length a) (length b))"
    using osa_reached [of "length a" a "length b" b] by simp
  moreover have "osa a b (length a) (length b) \<le> n" if "aligned a b n" for n
    using osa_minimal [OF that, of "length a" a "length b" b] by simp
  ultimately have least: "aligned a b n \<Longrightarrow> osa a b (length a) (length b) \<le> n"
    and reached: "aligned a b (osa a b (length a) (length b))" for n by blast+
  consider "editDistance a b mx = osa a b (length a) (length b)"
    | "osa a b (length a) (length b) > mx" "editDistance a b mx = mx + 1"
    using editDistance_osa by blast
  then show ?thesis
  proof cases
    case 1
    with least reached show ?thesis by (auto intro: le_trans)
  next
    case 2
    have "\<not> aligned a b n" if "n \<le> mx" for n
      using least [of n] 2(1) that by linarith
    with 2 show ?thesis by auto
  qed
qed

theorem editDistance_correct_witness:
  "editDistance ''bakcup'' ''backup'' 2 = 1 \<and> aligned ''bakcup'' ''backup'' 1 \<and> \<not> aligned ''bakcup'' ''backup'' 0"
proof -
  have "editDistance ''bakcup'' ''backup'' 2 = 1" by code_simp
  with editDistance_correct [of "''bakcup''" "''backup''" 2] show ?thesis by fastforce
qed

section \<open>Suggested IDs\<close>

text \<open>\<open>word\<close> is \<open>undefined\<close> (\<open>None\<close>) past the end of the set's name.\<close>

definition sameWord :: "string option \<Rightarrow> string \<Rightarrow> bool" where
  "sameWord word hostWord =
     (case word of
        None \<Rightarrow> False
      | Some w \<Rightarrow>
          if w = hostWord then True
          else if w = [] \<or> length hostWord < 5 then False
          else editDistance w hostWord (if length hostWord \<ge> 10 then 2 else 1)
                 \<le> (if length hostWord \<ge> 10 then 2 else 1))"

definition host_at :: "string list \<Rightarrow> string list \<Rightarrow> bool" where
  "host_at hostTokens tokens =
     list_all (\<lambda>k. sameWord (if k < length tokens then Some (tokens ! k) else None) (hostTokens ! k))
       [0..<length hostTokens]"

function rest_tokens :: "string list \<Rightarrow> string list \<Rightarrow> string list" where
  "rest_tokens hostTokens [] = []"
| "rest_tokens hostTokens (w # ws) =
     (if hostTokens \<noteq> [] \<and> host_at hostTokens (w # ws)
      then rest_tokens hostTokens (drop (length hostTokens) (w # ws))
      else w # rest_tokens hostTokens ws)"
  by pat_completeness auto
termination
  by (relation "measure (\<lambda>(h, ws). length ws)") auto

text \<open>The first of \<open>id\<close>, \<open>id-2\<close>, \<open>id-3\<close>, ... that is not used.\<close>

partial_function (option) free_candidate :: "string list \<Rightarrow> string \<Rightarrow> nat \<Rightarrow> string \<Rightarrow> string option" where
  "free_candidate used ident n candidate =
     (if candidate \<in> set used
      then free_candidate used ident (n + 1) (ident @ [dash] @ show_nat n)
      else Some candidate)"

definition base_id :: "string \<Rightarrow> string \<Rightarrow> string" where
  "base_id setName hostname =
     (let host = or_text (Some (slugId hostname)) ''host'';
          hostTokens = split_on dash host;
          tokens = filter (\<lambda>w. w \<noteq> []) (split_on dash (slugId setName));
          rest = rest_tokens hostTokens tokens;
          ident = (if rest \<noteq> [] then host @ [dash] @ join_with [dash] rest else host)
      in if length ident > 60 then strip_end (\<lambda>c. c = dash) (take 60 ident) else ident)"

definition suggestBackupId :: "string \<Rightarrow> string \<Rightarrow> string option list \<Rightarrow> string option" where
  "suggestBackupId setName hostname taken =
     (let ident = base_id setName hostname;
          used = map (\<lambda>x. toLowerCase (or_text x [])) taken
      in free_candidate used ident 2 ident)"

lemma set_rest_tokens: "set (rest_tokens h ws) \<subseteq> set ws"
proof (induction h ws rule: rest_tokens.induct)
  case (2 h w ws)
  then show ?case
    using set_drop_subset [of "length h" "w # ws"]
    by (cases "h \<noteq> [] \<and> host_at h (w # ws)") (simp_all, blast+)
qed simp

lemma slug_tokens: "list_all word_ok (filter (\<lambda>w. w \<noteq> []) (split_on dash (slugId s)))"
proof (cases "slugId s = []")
  case False
  then have "list_all word_ok (split_on dash (slugId s))"
    using slugId_slug [of s] by (simp add: slug_iff)
  then show ?thesis by (auto simp: list_all_iff)
qed simp

lemma slug_host: "slug (or_text (Some (slugId hostname)) ''host'')"
proof (cases "slugId hostname = []")
  case True
  have "word_ok ''host''" by code_simp
  with True show ?thesis by (simp add: slug.last_word)
next
  case False
  with slugId_slug show ?thesis by auto
qed

lemma word_ok_take: "word_ok w \<Longrightarrow> 0 < n \<Longrightarrow> word_ok (take n w)"
  by (auto simp: word_ok_def list_all_iff dest: in_set_takeD)

lemma slug_cut: "slug s \<Longrightarrow> 0 < n \<Longrightarrow> slug (strip_end (\<lambda>c. c = dash) (take n s))"
proof (induction arbitrary: n rule: slug.induct)
  case (last_word w)
  then have "slug (take n w)" by (intro slug.last_word word_ok_take)
  then show ?case by (simp add: strip_slug)
next
  case (more w s)
  consider "n \<le> length w" | "n = Suc (length w)" | m where "n = Suc (length w + m)" "0 < m"
    by (metis Suc_leI add_Suc_right less_iff_Suc_add not_le not_less_eq_eq le_antisym zero_less_Suc)
  then show ?case
  proof cases
    case 1
    then have "slug (take n w)" using more by (intro slug.last_word word_ok_take)
    with 1 show ?thesis by (simp add: strip_slug)
  next
    case 2
    then have "slug w" using more by (intro slug.last_word)
    with 2 show ?thesis by (simp add: strip_slug)
  next
    case 3
    let ?t = "strip_end (\<lambda>c. c = dash) (take m s)"
    have t: "slug ?t" using more 3 by blast
    have "strip_end (\<lambda>c. c = dash) ((w @ [dash]) @ take m s) = (w @ [dash]) @ ?t"
      by (rule strip_end_append) (rule slug_nonempty [OF t])
    with 3 t more.hyps(1) show ?thesis by (simp add: slug.more)
  qed
qed

lemma slug_base_id: "slug (base_id setName hostname)"
proof -
  let ?host = "or_text (Some (slugId hostname)) ''host''"
  let ?rest = "rest_tokens (split_on dash ?host) (filter (\<lambda>w. w \<noteq> []) (split_on dash (slugId setName)))"
  have "list_all word_ok ?rest"
    using slug_tokens set_rest_tokens by (fastforce simp: list_all_iff)
  then have "slug (if ?rest \<noteq> [] then ?host @ [dash] @ join_with [dash] ?rest else ?host)"
    using slug_host slug_append slug_join by simp
  then show ?thesis
    by (simp only: base_id_def Let_def) (auto simp: slug_cut)
qed

lemma length_base_id: "length (base_id setName hostname) \<le> 60"
proof -
  have "length (strip_end P s) \<le> length s" for P and s :: string
    using length_dropWhile_le [of P "rev s"] by (simp add: strip_end_def)
  then have "length (strip_end P (take 60 s)) \<le> 60" for P and s :: string
    by (metis length_take min.cobounded2 le_trans)
  then show ?thesis by (simp add: base_id_def Let_def)
qed

lemma free_candidate_next:
  "c \<in> set used \<Longrightarrow> free_candidate used i n c = free_candidate used i (n + 1) (i @ [dash] @ show_nat n)"
  "c \<notin> set used \<Longrightarrow> free_candidate used i n c = Some c"
  by (subst free_candidate.simps, simp)+

lemma free_candidate_ex:
  "\<exists>c'. free_candidate used i n c = Some c' \<and> c' \<notin> set used \<and>
     (c' = c \<or> (\<exists>k \<ge> n. c' = i @ [dash] @ show_nat k))"
proof -
  define f where "f k = i @ [dash] @ show_nat k" for k
  have "inj f" by (rule injI) (simp add: f_def)
  then have "infinite (f ` {n..})"
    by (metis finite_imageD infinite_Ici inj_on_subset subset_UNIV)
  then have "\<not> f ` {n..} \<subseteq> set used"
    using finite_subset [of "f ` {n..}" "set used"] by blast
  then obtain m where m: "n \<le> m" "f m \<notin> set used" by auto
  then show ?thesis
  proof (induction "m - n" arbitrary: n c)
    case 0
    then show ?case
      by (cases "c \<in> set used") (auto simp: free_candidate_next f_def intro!: exI [of _ m])
  next
    case (Suc d)
    then have "d = m - Suc n" "Suc n \<le> m" by auto
    with Suc.hyps(1) [of "Suc n" "f n"] m(2) have
      "\<exists>c'. free_candidate used i (Suc n) (f n) = Some c' \<and> c' \<notin> set used \<and> (c' = f n \<or> (\<exists>k \<ge> Suc n. c' = f k))"
      by (simp add: f_def)
    then show ?case
      by (cases "c \<in> set used") (auto simp: free_candidate_next f_def intro: Suc_leD)
  qed
qed

lemma digit_alnum: "is_digit c \<Longrightarrow> is_lower_alnum c"
  by (simp add: is_lower_alnum_def)

lemma slug_candidate: "slug s \<Longrightarrow> slug (s @ [dash] @ show_nat k)"
proof -
  have "slug (show_nat k)"
    using show_nat_digits [of k] by (intro slug.last_word) (simp add: word_ok_def list_all_iff digit_alnum)
  then show "slug s \<Longrightarrow> slug (s @ [dash] @ show_nat k)" by (simp add: slug_append)
qed

text \<open>C7: the suggestion always exists, and it is an ID PBS accepts (words of a-z and 0-9 joined by
  hyphens), at most 60 characters before a number is added, and, ignoring case, the ID of none
  of the other sets.\<close>
theorem suggestBackupId_fresh:
  "\<exists>c. suggestBackupId setName hostname taken = Some c \<and> c \<noteq> [] \<and> slug_ok c \<and>
     (\<forall>x. Some x \<in> set taken \<longrightarrow> toLowerCase x \<noteq> toLowerCase c) \<and>
     (length c \<le> 60 \<or> (\<exists>ident k. c = ident @ [dash] @ show_nat k \<and> length ident \<le> 60 \<and> 2 \<le> k))"
proof -
  let ?b = "base_id setName hostname"
  let ?used = "map (\<lambda>x. toLowerCase (or_text x [])) taken"
  obtain c where c: "free_candidate ?used ?b 2 ?b = Some c" "c \<notin> set ?used"
    "c = ?b \<or> (\<exists>k \<ge> 2. c = ?b @ [dash] @ show_nat k)"
    using free_candidate_ex [of ?used ?b 2 ?b] by blast
  have slug: "slug c" using c(3) slug_base_id slug_candidate by blast
  have "toLowerCase x \<noteq> toLowerCase c" if "Some x \<in> set taken" for x
  proof -
    have "or_text (Some x) [] = x" by (cases "x = []") simp_all
    with that have "toLowerCase x \<in> set ?used" by (force simp: image_iff)
    with c(2) slug show ?thesis by (metis slug_plain)
  qed
  with c slug length_base_id [of setName hostname] show ?thesis
    by (auto simp: suggestBackupId_def Let_def slug_ok_def slug_iff [symmetric] slug_nonempty)
qed

theorem suggestBackupId_fresh_witness:
  "suggestBackupId ''Office Accounts'' ''fileserver'' [None] = Some ''fileserver-office-accounts'' \<and>
   toLowerCase ''FILESERVER-Data'' \<noteq> toLowerCase ''fileserver-data-2''"
proof -
  have b: "base_id ''Office Accounts'' ''fileserver'' = ''fileserver-office-accounts''"
    by code_simp
  obtain c where "suggestBackupId ''Office Accounts'' ''fileserver'' [None] = Some c"
    using suggestBackupId_fresh [of "''Office Accounts''" "''fileserver''" "[None]"] by blast
  have "toLowerCase ''FILESERVER-Data'' \<noteq> toLowerCase ''fileserver-data-2''" by code_simp
  with b show ?thesis by (simp add: suggestBackupId_def free_candidate_next)
qed

section \<open>Backup groups\<close>

definition backupGroupKey :: "job \<Rightarrow> string \<Rightarrow> string \<Rightarrow> string" where
  "backupGroupKey job defaultServerId hostname =
     (let server = or_text (Some (j_pbsServerId job)) defaultServerId;
          typ = (if j_backupType job = Machine \<and> j_machineAsVm job then ''vm'' else ''host'');
          ident = or_text (Some (trim (j_backupId job))) hostname
      in server @ [newline] @ typ @ [slash] @ ident)"

definition setsSharingGroup :: "job \<Rightarrow> job list \<Rightarrow> string \<Rightarrow> string \<Rightarrow> job list" where
  "setsSharingGroup job jobs defaultServerId hostname =
     (let key = backupGroupKey job defaultServerId hostname
      in filter (\<lambda>j. j_id j \<noteq> j_id job \<and> backupGroupKey j defaultServerId hostname = key) jobs)"

text \<open>The group a set writes into, as PBS sees it.\<close>

definition pbs_group :: "job \<Rightarrow> string \<Rightarrow> string \<Rightarrow> string \<times> bool \<times> string" where
  "pbs_group job defaultServerId hostname =
     (or_text (Some (j_pbsServerId job)) defaultServerId,
      j_backupType job = Machine \<and> j_machineAsVm job,
      or_text (Some (trim (j_backupId job))) hostname)"

lemma sep_inj: "d \<notin> set a \<Longrightarrow> d \<notin> set a' \<Longrightarrow> a @ d # b = a' @ d # b' \<Longrightarrow> a = a' \<and> b = b'"
proof (induction a arbitrary: a')
  case Nil
  then show ?case by (cases a') auto
next
  case (Cons x a)
  then show ?case by (cases a') auto
qed

text \<open>Two sets get the same key exactly when they write into the same group: the same server,
  the same type and the same backup ID. (A server's ID never holds a line break.)\<close>
theorem backupGroupKey_exact:
  assumes "newline \<notin> set (j_pbsServerId j1)" "newline \<notin> set (j_pbsServerId j2)" "newline \<notin> set srv"
  shows "backupGroupKey j1 srv host = backupGroupKey j2 srv host \<longleftrightarrow> pbs_group j1 srv host = pbs_group j2 srv host"
proof -
  have no_nl: "newline \<notin> set (or_text (Some a) srv)" if "newline \<notin> set a" for a
    using that assms(3) by (cases "a = []") simp_all
  define tail where "tail v x = (if v then ''vm'' else ''host'') @ [slash] @ x" for v and x :: string
  have key: "backupGroupKey j srv host = fst (pbs_group j srv host) @ newline #
      tail (fst (snd (pbs_group j srv host))) (snd (snd (pbs_group j srv host)))" for j
    by (simp only: backupGroupKey_def pbs_group_def Let_def tail_def fst_conv snd_conv append_Cons append_Nil)
  have tail: "tail v x = tail w y \<longleftrightarrow> v = w \<and> x = y" for v w x y
    by (cases v; cases w) (simp_all add: tail_def)
  have inj: "fst (pbs_group j1 srv host) @ newline # t = fst (pbs_group j2 srv host) @ newline # u \<longleftrightarrow>
      fst (pbs_group j1 srv host) = fst (pbs_group j2 srv host) \<and> t = u" for t u
    using sep_inj [OF no_nl [OF assms(1)] no_nl [OF assms(2)], of t u]
    by (auto simp only: pbs_group_def fst_conv)
  show ?thesis
    unfolding key inj tail by (simp add: prod_eq_iff)
qed

theorem backupGroupKey_exact_witness:
  "backupGroupKey (empty_job\<lparr>j_backupId := '' pc ''\<rparr>) ''s'' ''host'' = backupGroupKey (empty_job\<lparr>j_pbsServerId := ''s'', j_backupId := ''pc''\<rparr>) ''s'' ''host''"
proof -
  have "pbs_group (empty_job\<lparr>j_backupId := '' pc ''\<rparr>) ''s'' ''host'' = pbs_group (empty_job\<lparr>j_pbsServerId := ''s'', j_backupId := ''pc''\<rparr>) ''s'' ''host''"
    by code_simp
  moreover have "newline \<notin> set (j_pbsServerId (empty_job\<lparr>j_backupId := '' pc ''\<rparr>))"
    "newline \<notin> set (j_pbsServerId (empty_job\<lparr>j_pbsServerId := ''s'', j_backupId := ''pc''\<rparr>))" "newline \<notin> set ''s''"
    by code_simp+
  ultimately show ?thesis using backupGroupKey_exact by blast
qed

lemma sharing_symmetric:
  "k \<in> set jobs \<Longrightarrow> j \<in> set jobs \<Longrightarrow>
   k \<in> set (setsSharingGroup j jobs srv host) \<longleftrightarrow> j \<in> set (setsSharingGroup k jobs srv host)"
  by (auto simp: setsSharingGroup_def Let_def)

section \<open>VM IDs of machine backups\<close>

datatype vm_style = Range | Zeros

text \<open>\<open>parseInt\<close> of a string of digits, and the ID the "vm" backup gets; the empty string is invalid.\<close>

definition computeVmBackupId :: "string \<Rightarrow> vm_style \<Rightarrow> string" where
  "computeVmBackupId n style =
     (let digits = filter is_digit n; num = digits_value digits
      in if digits = [] \<or> \<not> (1 \<le> num \<and> num \<le> 999999) then []
         else case style of Zeros \<Rightarrow> ''000'' @ show_nat num | Range \<Rightarrow> show_nat (9000000 + num))"

text \<open>
  The inverse in \<open>applyVmFieldsFromJob\<close>: the style and number of a saved ID
  (\<open>/^000\d+$/\<close>, \<open>/^9\d{6}$/\<close>, anything else).
\<close>

definition vm_fields :: "string \<Rightarrow> vm_style \<times> string" where
  "vm_fields ident =
     (if prefix ''000'' ident \<and> length ident > 3 \<and> list_all is_digit ident then (Zeros, drop 3 ident)
      else if length ident = 7 \<and> prefix ''9'' ident \<and> list_all is_digit ident
      then (Range, show_int (int (digits_value ident) - 9000000))
      else (Range, take 6 (filter is_digit ident)))"

lemma show_nat_length_small: "n < 10 ^ Suc k \<Longrightarrow> length (show_nat n) \<le> Suc k"
proof (induction k arbitrary: n)
  case 0
  then show ?case by (simp add: show_nat.simps)
next
  case (Suc k)
  then have "n div 10 < 10 ^ Suc k" by (simp add: less_mult_imp_div_less)
  with Suc.IH [of "n div 10"] show ?case by (simp add: show_nat.simps [of n])
qed

lemma filter_digits_show [simp]: "filter is_digit (show_nat n) = show_nat n"
  using show_nat_digits [of n] by (simp add: filter_id_conv)

lemma show_nat_nines: "9 * 10 ^ k \<le> n \<Longrightarrow> n < 10 ^ Suc k \<Longrightarrow> length (show_nat n) = Suc k \<and> hd (show_nat n) = CHR ''9''"
proof (induction k arbitrary: n)
  case 0
  then have "n = 9" by simp
  moreover have "show_nat 9 = ''9''" by code_simp
  ultimately show ?case by simp
next
  case (Suc k)
  have "1 \<le> (10 :: nat) ^ k" by simp
  with Suc.prems(1) have "\<not> n < 10" unfolding power_Suc by linarith
  moreover have "9 * 10 ^ k \<le> n div 10" "n div 10 < 10 ^ Suc k"
    using Suc.prems by (simp_all add: less_eq_div_iff_mult_less_eq less_mult_imp_div_less)
  ultimately show ?case
    using Suc.IH [of "n div 10"] by (simp add: show_nat.simps [of n])
qed

text \<open>Opening a saved VM backup set in the editor brings back the number it was saved with.
  The ID the form then shows is the ID that was saved, for both styles.\<close>
lemma vm_fields_roundtrip:
  assumes "computeVmBackupId n style \<noteq> []"
  shows "(case vm_fields (computeVmBackupId n style) of (style', n') \<Rightarrow>
     style' = style \<and> n' = show_nat (digits_value (filter is_digit n)) \<and>
     computeVmBackupId n' style' = computeVmBackupId n style)"
proof -
  define num where "num = digits_value (filter is_digit n)"
  from assms have num: "1 \<le> num" "num \<le> 999999"
    by (auto simp: computeVmBackupId_def Let_def num_def split: if_splits)
  then have comp: "computeVmBackupId n style =
      (case style of Zeros \<Rightarrow> ''000'' @ show_nat num | Range \<Rightarrow> show_nat (9000000 + num))"
    using assms by (cases style) (auto simp: computeVmBackupId_def Let_def num_def split: if_splits)
  have again: "computeVmBackupId (show_nat num) style = computeVmBackupId n style"
    using num unfolding comp by (cases style) (simp_all add: computeVmBackupId_def Let_def)
  have digits: "list_all is_digit (show_nat m)" for m
    using show_nat_digits [of m] by (simp add: list_all_iff)
  show ?thesis
  proof (cases style)
    case Zeros
    have "list_all is_digit ''000''" by code_simp
    with Zeros comp digits [of num] have "vm_fields (computeVmBackupId n style) = (Zeros, show_nat num)"
      by (auto simp: vm_fields_def)
    with again Zeros show ?thesis by (simp add: num_def)
  next
    case Range
    have nine: "length (show_nat (9000000 + num)) = 7" "hd (show_nat (9000000 + num)) = CHR ''9''"
      using show_nat_nines [of 6 "9000000 + num"] num by simp_all
    then obtain t where t: "show_nat (9000000 + num) = CHR ''9'' # t"
      by (cases "show_nat (9000000 + num)") auto
    have pre: "\<not> prefix ''000'' (show_nat (9000000 + num))" "prefix ''9'' (show_nat (9000000 + num))"
      unfolding t by simp_all
    have "vm_fields (show_nat (9000000 + num)) = (Range, show_int (int (9000000 + num) - 9000000))"
      unfolding vm_fields_def by (simp only: pre nine(1) digits simp_thms if_True if_False digits_value_show)
    then have "vm_fields (computeVmBackupId n style) = (Range, show_nat num)"
      unfolding comp unfolding Range by (simp add: show_int_def)
    with again Range show ?thesis by (simp add: num_def)
  qed
qed

lemma vm_fields_roundtrip_witness: "vm_fields ''9000104'' = (Range, ''104'')"
proof -
  have d: "filter is_digit ''vm 104'' = ''104''" "digits_value ''104'' = 104" by code_simp+
  have s: "show_nat 9000104 = ''9000104''" "show_nat 104 = ''104''"
    by (simp add: show_nat.simps, code_simp)+
  have "computeVmBackupId ''vm 104'' Range = ''9000104''"
    unfolding computeVmBackupId_def d Let_def by (simp add: s)
  note e = this d s
  have "''9000104'' \<noteq> []" by simp
  from vm_fields_roundtrip [of "''vm 104''" Range, unfolded e, OF this]
  show ?thesis by (cases "vm_fields ''9000104''") (simp only: prod.case simp_thms)
qed

end
