(* ===== verification/Rates.thy ===== *)
theory Rates
  imports JsPrelude
begin

text \<open>
  The figures of the progress cards: the held estimate (\<open>etaHold.js\<close>), the speed over a time
  window, and the formatters of sizes, speeds and durations (\<open>App.jsx\<close>, top of the file).
  Times are milliseconds. The locale's number format (\<open>toLocaleString\<close>) is the parameter \<open>fixed\<close>.
\<close>

section \<open>The held estimate (etaHold.js)\<close>

definition ETA_HOLD_MS :: int where
  "ETA_HOLD_MS = 10000"

record held =
  h_eta :: "rat option"
  h_at :: int
  h_key :: string

definition holdEta :: "held option \<Rightarrow> rat option \<Rightarrow> int \<Rightarrow> string \<Rightarrow> int \<Rightarrow> held" where
  "holdEta prev eta now key holdMs =
     (case eta of
        None \<Rightarrow> \<lparr>h_eta = None, h_at = 0, h_key = key\<rparr>
      | Some e \<Rightarrow>
          (case prev of
             None \<Rightarrow> \<lparr>h_eta = Some e, h_at = now, h_key = key\<rparr>
           | Some p \<Rightarrow>
               let keeps = h_eta p \<noteq> None \<and> h_at p > 0 \<and> h_key p = key
               in if \<not> keeps \<or> e = 0 \<or> now - h_at p \<ge> holdMs
                  then \<lparr>h_eta = Some e, h_at = now, h_key = key\<rparr> else p))"

definition finishAt :: "held \<Rightarrow> rat option" where
  "finishAt h = map_option (\<lambda>e. of_int (h_at h) + e * 1000) (h_eta h)"

text \<open>A run of updates: each event brings its time and a new estimate.\<close>

fun hold_run :: "held option \<Rightarrow> string \<Rightarrow> (int \<times> rat option) list \<Rightarrow> held list" where
  "hold_run prev key [] = []"
| "hold_run prev key ((now, eta) # evs) =
     (let h = holdEta prev eta now key ETA_HOLD_MS in h # hold_run (Some h) key evs)"

lemma holdEta_cases:
  assumes "holdEta (Some p) (Some e) now key ms = h"
  shows "h = p \<and> h_eta p \<noteq> None \<and> h_key p = key \<and> e \<noteq> 0 \<and> now - h_at p < ms \<or>
    h = \<lparr>h_eta = Some e, h_at = now, h_key = key\<rparr> \<and>
      (h_eta p = None \<or> h_at p \<le> 0 \<or> h_key p \<noteq> key \<or> e = 0 \<or> now - h_at p \<ge> ms)"
  using assms by (auto simp: holdEta_def Let_def split: if_splits)

text \<open>The estimate on the card is fresh and steady. What is shown was estimated less than
  ten seconds ago, for the stage that is shown; it is replaced only when it is ten seconds old,
  when its stage is over or when the work is done, and otherwise the forecast finish stays put.\<close>
theorem holdEta_fresh_and_steady:
  fixes p :: held and e :: rat and now :: int and key :: string
  assumes "h_at p > 0" "h_eta p \<noteq> None" "h_at p \<le> now"
  shows "let h = holdEta (Some p) (Some e) now key ETA_HOLD_MS in
    h_eta h \<noteq> None \<and> h_key h = key \<and> h_at h \<le> now \<and> now - h_at h < ETA_HOLD_MS \<and>
    (h_key p = key \<and> e \<noteq> 0 \<and> now - h_at p < ETA_HOLD_MS \<longrightarrow> finishAt h = finishAt p) \<and>
    (\<not> (h_key p = key \<and> e \<noteq> 0 \<and> now - h_at p < ETA_HOLD_MS) \<longrightarrow> finishAt h = Some (of_int now + e * 1000))"
  using assms by (auto simp: holdEta_def finishAt_def Let_def ETA_HOLD_MS_def)

theorem holdEta_fresh_and_steady_witness:
  "finishAt (holdEta (Some \<lparr>h_eta = Some 60, h_at = 5000, h_key = []\<rparr>) (Some 99) 9000 [] ETA_HOLD_MS) = Some 65000"
  using holdEta_fresh_and_steady [of "\<lparr>h_eta = Some 60, h_at = 5000, h_key = []\<rparr>" 9000 99 "[]"]
  by (simp add: ETA_HOLD_MS_def finishAt_def Let_def)

section \<open>Speed over a window\<close>

record sample =
  sm_t :: int
  sm_bytes :: int
  sm_read :: int
  sm_files :: int
  sm_uploaded :: int
  sm_sent :: int

text \<open>The first and the last sample not older than the window.\<close>

fun window_ends :: "sample list \<Rightarrow> int \<Rightarrow> int \<Rightarrow> sample option \<Rightarrow> sample option \<Rightarrow> sample option \<times> sample option" where
  "window_ends [] windowMs now fst_s lst_s = (fst_s, lst_s)"
| "window_ends (s # samples) windowMs now fst_s lst_s =
     (if now - sm_t s > windowMs then window_ends samples windowMs now fst_s lst_s
      else window_ends samples windowMs now (if fst_s = None then Some s else fst_s) (Some s))"

definition windowRate :: "sample list \<Rightarrow> (sample \<Rightarrow> int) \<Rightarrow> int \<Rightarrow> int \<Rightarrow> rat option" where
  "windowRate samples key windowMs now =
     (case window_ends samples windowMs now None None of
        (Some a, Some b) \<Rightarrow>
          if sm_t b - sm_t a < 1000 then None
          else Some (max 0 (of_int (key b - key a) / (of_int (sm_t b - sm_t a) / 1000)))
      | _ \<Rightarrow> None)"

lemma window_ends_spec:
  "window_ends samples w now f l =
     (let inside = filter (\<lambda>s. now - sm_t s \<le> w) samples
      in (if f = None then (if inside = [] then None else Some (hd inside)) else f,
          if inside = [] then l else Some (last inside)))"
proof (induction samples arbitrary: f l)
  case (Cons s samples)
  show ?case
  proof (cases "now - sm_t s > w")
    case True
    then have "filter (\<lambda>s. now - sm_t s \<le> w) (s # samples) = filter (\<lambda>s. now - sm_t s \<le> w) samples" by simp
    with True Cons.IH [of f l] show ?thesis by (simp only: window_ends.simps if_True)
  next
    case False
    then have *: "filter (\<lambda>s. now - sm_t s \<le> w) (s # samples) = s # filter (\<lambda>s. now - sm_t s \<le> w) samples" by simp
    show ?thesis
      using Cons.IH [of "if f = None then Some s else f" "Some s"] unfolding * window_ends.simps
      by (simp only: False if_False Let_def prod.inject) simp
  qed
qed (simp add: Let_def)

lemma windowRate_alt:
  "windowRate samples key w now =
     (let inside = filter (\<lambda>s. now - sm_t s \<le> w) samples
      in if inside = [] \<or> sm_t (last inside) - sm_t (hd inside) < 1000 then None
         else Some (max 0 (of_int (key (last inside) - key (hd inside)) / (of_int (sm_t (last inside) - sm_t (hd inside)) / 1000))))"
  by (simp add: windowRate_def window_ends_spec Let_def)

text \<open>The speed shown is the true one. It is never negative, it looks only at samples inside
  the window, and a transfer at a constant pace shows exactly that pace.\<close>
theorem windowRate_correct:
  "(\<forall>r. windowRate samples key w now = Some r \<longrightarrow> 0 \<le> r) \<and>
   windowRate samples key w now = windowRate (filter (\<lambda>s. now - sm_t s \<le> w) samples) key w now \<and>
   (\<forall>v c. 0 \<le> v \<and> (\<forall>s \<in> set samples. (of_int (key s) :: rat) = c + v * of_int (sm_t s) / 1000) \<longrightarrow>
      windowRate samples key w now \<in> {None, Some v})"
proof (intro conjI allI impI)
  show "0 \<le> r" if "windowRate samples key w now = Some r" for r
    using that by (auto simp: windowRate_alt Let_def split: if_splits)
  show "windowRate samples key w now = windowRate (filter (\<lambda>s. now - sm_t s \<le> w) samples) key w now"
    by (simp add: windowRate_alt)
next
  fix v c :: rat
  assume *: "0 \<le> v \<and> (\<forall>s \<in> set samples. (of_int (key s) :: rat) = c + v * of_int (sm_t s) / 1000)"
  let ?in = "filter (\<lambda>s. now - sm_t s \<le> w) samples"
  show "windowRate samples key w now \<in> {None, Some v}"
  proof (cases "?in = [] \<or> sm_t (last ?in) - sm_t (hd ?in) < 1000")
    case True
    then show ?thesis by (auto simp: windowRate_alt Let_def)
  next
    case False
    define a b where "a = hd ?in" "b = last ?in"
    with False have ne: "?in \<noteq> []" and d: "sm_t b - sm_t a \<ge> 1000" by auto
    from ne have "a \<in> set ?in" "b \<in> set ?in" unfolding a_b_def by (rule hd_in_set, rule last_in_set)
    then have "a \<in> set samples" "b \<in> set samples" by (simp_all only: set_filter mem_Collect_eq)
    then have "(of_int (key b - key a) :: rat) = v * of_int (sm_t b - sm_t a) / 1000" "0 < sm_t b - sm_t a"
      using * d by (auto simp: field_simps)
    then have "of_int (key b - key a) / (of_int (sm_t b - sm_t a) / 1000) = v" by simp
    with False * show ?thesis by (simp add: windowRate_alt Let_def flip: a_b_def)
  qed
qed

theorem windowRate_correct_witness:
  "windowRate [\<lparr>sm_t = 0, sm_bytes = 0, sm_read = 0, sm_files = 0, sm_uploaded = 0, sm_sent = 0\<rparr>,
     \<lparr>sm_t = 2000, sm_bytes = 600, sm_read = 0, sm_files = 0, sm_uploaded = 0, sm_sent = 0\<rparr>] sm_bytes 10000 3000 \<in> {None, Some 300}"
  using windowRate_correct [of "[\<lparr>sm_t = 0, sm_bytes = 0, sm_read = 0, sm_files = 0, sm_uploaded = 0, sm_sent = 0\<rparr>,
     \<lparr>sm_t = 2000, sm_bytes = 600, sm_read = 0, sm_files = 0, sm_uploaded = 0, sm_sent = 0\<rparr>]" sm_bytes 10000 3000]
  by (elim conjE allE [of _ "300 :: rat"] allE [of _ "0 :: rat"]) (simp add: field_simps)

section \<open>Durations\<close>

text \<open>\<open>formatDuration\<close>: the parts shown, largest unit first, then as text.\<close>

definition duration_parts :: "rat \<Rightarrow> (int \<times> char) list" where
  "duration_parts totalSeconds =
     (let s = max 0 \<lfloor>totalSeconds\<rfloor>;
          days = s div 86400; s = s - days * 86400;
          hours = s div 3600; s = s - hours * 3600;
          minutes = s div 60; s = s - minutes * 60;
          seconds = s
      in (if days > 0 then [(days, CHR ''d'')] else [])
         @ (if days > 0 \<or> hours > 0 then [(hours, CHR ''h'')] else [])
         @ (if days > 0 \<or> hours > 0 \<or> minutes > 0 then [(minutes, CHR ''m'')] else [])
         @ [(seconds, CHR ''s'')])"

definition formatDuration :: "rat \<Rightarrow> string" where
  "formatDuration totalSeconds =
     join_with '' '' (map (\<lambda>(n, u). show_int n @ [u]) (duration_parts totalSeconds))"

definition unit_seconds :: "char \<Rightarrow> int" where
  "unit_seconds u = (if u = CHR ''d'' then 86400 else if u = CHR ''h'' then 3600
     else if u = CHR ''m'' then 60 else 1)"

text \<open>A duration is shown exactly. The parts add up to the whole seconds, hours stay under
  24 and minutes and seconds under 60, and the first part is not zero unless it is the seconds.\<close>
theorem duration_parts_exact:
  "(\<Sum>(n, u) \<leftarrow> duration_parts x. n * unit_seconds u) = max 0 \<lfloor>x\<rfloor> \<and>
   list_all (\<lambda>(n, u). 0 \<le> n \<and> (u = CHR ''h'' \<longrightarrow> n < 24) \<and> (u = CHR ''m'' \<or> u = CHR ''s'' \<longrightarrow> n < 60)) (duration_parts x) \<and>
   (snd (hd (duration_parts x)) \<noteq> CHR ''s'' \<longrightarrow> fst (hd (duration_parts x)) > 0)"
proof -
  define s where "s = max 0 \<lfloor>x\<rfloor>"
  define d h m where "d = s div 86400" "h = (s - d * 86400) div 3600" "m = (s - d * 86400 - h * 3600) div 60"
  have s: "0 \<le> s" by (simp add: s_def)
  have "0 \<le> d" "0 \<le> s - d * 86400" "s - d * 86400 < 86400"
    using s by (auto simp: d_h_m_def(1) minus_div_mult_eq_mod)
  then have "0 \<le> h" "h < 24" "0 \<le> s - d * 86400 - h * 3600" "s - d * 86400 - h * 3600 < 3600"
    by (auto simp: d_h_m_def(2) minus_div_mult_eq_mod)
  then have "0 \<le> m" "m < 60" "0 \<le> s - d * 86400 - h * 3600 - m * 60" "s - d * 86400 - h * 3600 - m * 60 < 60"
    by (auto simp: d_h_m_def(3) minus_div_mult_eq_mod)
  moreover have "duration_parts x = (if d > 0 then [(d, CHR ''d'')] else []) @ (if d > 0 \<or> h > 0 then [(h, CHR ''h'')] else [])
         @ (if d > 0 \<or> h > 0 \<or> m > 0 then [(m, CHR ''m'')] else []) @ [(s - d * 86400 - h * 3600 - m * 60, CHR ''s'')]"
    unfolding duration_parts_def Let_def d_h_m_def s_def by (rule refl)
  ultimately show ?thesis
    using \<open>0 \<le> d\<close> \<open>0 \<le> h\<close> \<open>h < 24\<close>
    unfolding s_def [symmetric] by (auto simp: unit_seconds_def)
qed

theorem duration_parts_exact_witness: "formatDuration 100000 = ''1d 3h 46m 40s'' \<and> fst (hd (duration_parts 100000)) > 0"
proof -
  have p: "duration_parts 100000 = [(1, CHR ''d''), (3, CHR ''h''), (46, CHR ''m''), (40, CHR ''s'')]"
    by (simp add: duration_parts_def)
  have "show_int 1 = ''1''" "show_int 3 = ''3''" "show_int 46 = ''46''" "show_int 40 = ''40''" by code_simp+
  with p duration_parts_exact [of 100000] show ?thesis by (simp add: formatDuration_def)
qed

section \<open>Sizes and speeds in both units\<close>

text \<open>The loop of \<open>dualUnits\<close>: the decimal figure and the number of unit steps taken.\<close>

function dual_scale :: "rat \<Rightarrow> nat \<Rightarrow> rat \<times> nat" where
  "dual_scale v u = (if v \<ge> 99995 / 100 \<and> u < 4 then dual_scale (v / 1000) (u + 1) else (v, u))"
  by pat_completeness auto
termination by (relation "measure (\<lambda>(v, u). 4 - u)") auto

declare dual_scale.simps [simp del]

definition dec_units :: "string list" where
  "dec_units = [''B'', ''KB'', ''MB'', ''GB'', ''TB'']"

definition bin_units :: "string list" where
  "bin_units = [''B'', ''KiB'', ''MiB'', ''GiB'', ''TiB'']"

definition dualUnits :: "(rat \<Rightarrow> nat \<Rightarrow> string) \<Rightarrow> rat \<Rightarrow> string \<Rightarrow> string" where
  "dualUnits fixed n unit_suffix =
     (let (v, u) = dual_scale n 0
      in if u = 0 then fixed n 0 @ '' B'' @ unit_suffix
         else fixed v 1 @ '' '' @ dec_units ! u @ unit_suffix @ '' ('' @ fixed (n / 1024 ^ u) 1 @ '' '' @ bin_units ! u @ unit_suffix @ '')'')"

definition formatSpeed :: "(rat \<Rightarrow> nat \<Rightarrow> string) \<Rightarrow> rat option \<Rightarrow> string" where
  "formatSpeed fixed bytesPerSec =
     (case bytesPerSec of None \<Rightarrow> ''0 KB/s''
      | Some b \<Rightarrow> if b \<le> 0 then ''0 KB/s'' else dualUnits fixed b ''/s'')"

definition formatBytesDual :: "(rat \<Rightarrow> nat \<Rightarrow> string) \<Rightarrow> int option \<Rightarrow> string" where
  "formatBytesDual fixed bytes =
     (case bytes of None \<Rightarrow> ''0 B''
      | Some b \<Rightarrow> if b < 1000 then show_int b @ '' B'' else dualUnits fixed (of_int b) [])"

definition compressionRatio :: "(rat \<Rightarrow> nat \<Rightarrow> string) \<Rightarrow> rat \<Rightarrow> rat \<Rightarrow> string" where
  "compressionRatio fixed raw sent = (if raw > 0 \<and> sent > 0 then fixed (raw / sent) 1 @ '':1'' else [])"

text \<open>\<open>formatBytes\<close> inside the component: binary units, and its loop.\<close>

function bin_scale :: "rat \<Rightarrow> nat \<Rightarrow> rat \<times> nat" where
  "bin_scale n i = (if n \<ge> 1024 \<and> i < 3 then bin_scale (n / 1024) (i + 1) else (n, i))"
  by pat_completeness auto
termination by (relation "measure (\<lambda>(n, i). 3 - i)") auto

declare bin_scale.simps [simp del]

definition formatBytes :: "(rat \<Rightarrow> nat \<Rightarrow> string) \<Rightarrow> int option \<Rightarrow> string" where
  "formatBytes fixed bytes =
     (case bytes of None \<Rightarrow> ''0 B''
      | Some b \<Rightarrow>
          if b < 1024 then show_int b @ '' B''
          else let (n, i) = bin_scale (of_int b / 1024) 0
               in fixed n 1 @ '' '' @ tl bin_units ! i)"

lemma dual_scale_spec:
  "u \<le> 4 \<Longrightarrow> dual_scale v u = (w, k) \<Longrightarrow>
     u \<le> k \<and> k \<le> 4 \<and> w * 1000 ^ (k - u) = v \<and> (k < 4 \<longrightarrow> w < 99995 / 100) \<and> (u < k \<longrightarrow> w \<ge> 99995 / 100000)"
proof (induction v u rule: dual_scale.induct)
  case (1 v u)
  show ?case
  proof (cases "v \<ge> 99995 / 100 \<and> u < 4")
    case True
    with 1(3) have *: "dual_scale (v / 1000) (u + 1) = (w, k)" by (simp add: dual_scale.simps [of v u])
    with 1(1) True have IH: "u + 1 \<le> k \<and> k \<le> 4 \<and> w * 1000 ^ (k - (u + 1)) = v / 1000 \<and>
        (k < 4 \<longrightarrow> w < 99995 / 100) \<and> (u + 1 < k \<longrightarrow> w \<ge> 99995 / 100000)" by simp
    then have "u + 1 \<le> k" by (rule conjunct1)
    then have e: "k - u = Suc (k - (u + 1))" by arith
    have "w \<ge> 99995 / 100000" if "u + 1 = k"
      using IH True that by (simp add: field_simps)
    with IH have "w \<ge> 99995 / 100000" by (metis le_neq_implies_less)
    with IH e show ?thesis by simp
  next
    case False
    with 1(3) have "w = v" "k = u" by (auto simp: dual_scale.simps [of v u])
    with False 1(2) show ?thesis by auto
  qed
qed

text \<open>A size is shown truly. Both figures are the same amount at the same unit step (so many
  times a power of 1000, so many times the same power of 1024), and the decimal one is under
  999.95, which would round to 1000.0, except in the largest unit, and never rounds below 1.0.\<close>
theorem dual_scale_exact:
  assumes "dual_scale n 0 = (v, u)"
  shows "u \<le> 4 \<and> v * 1000 ^ u = n \<and> (u < 4 \<longrightarrow> v < 99995 / 100) \<and> (u > 0 \<longrightarrow> v \<ge> 99995 / 100000) \<and>
    (u > 0 \<longrightarrow> dualUnits fixed n unit_suffix =
       fixed v 1 @ '' '' @ dec_units ! u @ unit_suffix @ '' ('' @ fixed (v * 1000 ^ u / 1024 ^ u) 1 @ '' '' @ bin_units ! u @ unit_suffix @ '')'')"
proof -
  have s: "u \<le> 4 \<and> v * 1000 ^ u = n \<and> (u < 4 \<longrightarrow> v < 99995 / 100) \<and> (u > 0 \<longrightarrow> v \<ge> 99995 / 100000)"
    using dual_scale_spec [OF _ assms] by simp
  have "u > 0 \<longrightarrow> dualUnits fixed n unit_suffix =
       fixed v 1 @ '' '' @ dec_units ! u @ unit_suffix @ '' ('' @ fixed (n / 1024 ^ u) 1 @ '' '' @ bin_units ! u @ unit_suffix @ '')''"
    unfolding dualUnits_def assms by simp
  with s show ?thesis by simp
qed

theorem dual_scale_exact_witness:
  "dual_scale 1500000 0 = (3 / 2, 2) \<and> (3 / 2 :: rat) * 1000 ^ 2 = 1500000"
proof -
  have e: "dual_scale 1500000 0 = (3 / 2, 2)" by (simp add: dual_scale.simps)
  with dual_scale_exact [OF e] show ?thesis by blast
qed

section \<open>Long paths\<close>

text \<open>\<open>str.slice(a, b)\<close> with the negative indices counted from the end.\<close>

definition js_slice :: "string \<Rightarrow> int \<Rightarrow> int \<Rightarrow> string" where
  "js_slice s a b =
     (let n = int (length s);
          pos = (\<lambda>i. if i < 0 then max 0 (n + i) else min i n)
      in take (nat (pos b - pos a)) (drop (nat (pos a)) s))"

definition middleTruncate :: "string \<Rightarrow> int \<Rightarrow> string" where
  "middleTruncate str mx =
     (if str = [] \<or> int (length str) \<le> mx then str
      else let keep = mx - 3;
               hd_len = \<lceil>of_int keep * (2 / 5 :: rat)\<rceil>
           in js_slice str 0 hd_len @ ''...'' @ js_slice str (int (length str) - (keep - hd_len)) (int (length str)))"

text \<open>A long path is cut in its middle only. With room for the dots the shown text fits the
  space exactly, starts as the path starts and ends as it ends, with at least as much of the end,
  where the file name is, as \<open>keep div 2\<close> characters.\<close>
theorem middleTruncate_fits:
  assumes "3 \<le> mx"
  shows "int (length (middleTruncate str mx)) \<le> mx \<and>
    (middleTruncate str mx = str \<or>
     (\<exists>a b. middleTruncate str mx = a @ ''...'' @ b \<and> prefix a str \<and> suffix b str \<and>
        int (length (middleTruncate str mx)) = mx \<and> (mx - 3) div 2 \<le> int (length b)))"
proof (cases "str = [] \<or> int (length str) \<le> mx")
  case True
  with assms show ?thesis by (auto simp: middleTruncate_def)
next
  case False
  define k where "k = mx - 3"
  define h where "h = \<lceil>of_int k * (2 / 5 :: rat)\<rceil>"
  define n where "n = int (length str)"
  have k: "0 \<le> k" "k < n" using assms False by (auto simp: k_def n_def)
  then have h: "0 \<le> h" "h \<le> k - k div 2"
  proof -
    show "0 \<le> h" using k by (simp add: h_def)
    have "of_int k * (2 / 5 :: rat) \<le> of_int k / 2" using k by simp
    also have "\<dots> \<le> of_int (k - k div 2)"
    proof -
      have "k \<le> 2 * (k - k div 2)" by simp
      then have "(of_int k :: rat) \<le> of_int (2 * (k - k div 2))" by (simp only: of_int_le_iff)
      then show ?thesis by (simp add: field_simps)
    qed
    finally show "h \<le> k - k div 2" unfolding h_def by (simp add: ceiling_le_iff)
  qed
  have "0 \<le> k div 2" using k by simp
  with h k have hk: "h \<le> n" "0 \<le> n - (k - h)" "n - (k - h) \<le> n" "k div 2 \<le> k - h" by auto
  have m: "middleTruncate str mx = js_slice str 0 h @ ''...'' @ js_slice str (n - (k - h)) n"
    using False by (simp add: middleTruncate_def Let_def h_def k_def n_def)
  have a: "js_slice str 0 h = take (nat h) str"
    using h hk by (simp add: js_slice_def Let_def n_def)
  have b: "js_slice str (n - (k - h)) n = drop (nat (n - (k - h))) str"
    using h hk k by (simp add: js_slice_def Let_def n_def)
  have "prefix (take (nat h) str) str" by (simp add: take_is_prefix)
  moreover have "suffix (drop (nat (n - (k - h))) str) str" by (simp add: suffix_drop)
  moreover have "k div 2 \<le> int (length (drop (nat (n - (k - h))) str))"
    using hk by (simp add: n_def)
  moreover have "int (length (middleTruncate str mx)) = mx"
    using hk h unfolding m a b by (simp add: n_def k_def)
  ultimately show ?thesis
    unfolding m a b k_def [symmetric]
    by (intro conjI disjI2 exI [of _ "take (nat h) str"] exI [of _ "drop (nat (n - (k - h))) str"]) simp_all
qed

theorem middleTruncate_fits_witness:
  "middleTruncate ''C:/Users/a/report.txt'' 13 = ''C:/U...rt.txt'' \<and>
   int (length (middleTruncate ''C:/Users/a/report.txt'' 13)) \<le> 13"
proof -
  have "middleTruncate ''C:/Users/a/report.txt'' 13 = ''C:/U...rt.txt''"
    by (simp add: middleTruncate_def js_slice_def Let_def ceiling_eq_iff)
  with middleTruncate_fits [of 13 "''C:/Users/a/report.txt''"] show ?thesis by simp
qed

end
