(* ===== verification/I18n.thy ===== *)
theory I18n
  imports JsPrelude
begin

text \<open>
  The lookup of a text in the user's language (\<open>i18n/i18nContext.jsx\<close>): the language's own
  table, then English, then the key itself, and the filling of its placeholders. The tables
  themselves (\<open>i18n/translations.js\<close>) are an argument. A text for people is the list of the
  bytes of its UTF-8 form, on which searching and replacing agree with those on characters.
\<close>

section \<open>Tables\<close>

datatype tr_value = TrText string | TrGroup "(string \<times> tr_value) list"

type_synonym tables = "(string \<times> tr_value) list"

text \<open>The loop of \<open>lookup\<close> over the parts of a dotted key.\<close>

fun tr_walk :: "tr_value option \<Rightarrow> string list \<Rightarrow> tr_value option" where
  "tr_walk v [] = v"
| "tr_walk v (k # ks) =
     (case v of
        Some (TrGroup g) \<Rightarrow> tr_walk (map_of g k) ks
      | _ \<Rightarrow> None)"

definition tr_lookup :: "tables \<Rightarrow> string list \<Rightarrow> string \<Rightarrow> tr_value option" where
  "tr_lookup tables ks lang = tr_walk (map_of tables lang) ks"

text \<open>\<open>value.split(pat).join(v)\<close>; the pattern is never empty.\<close>

function replace_all :: "string \<Rightarrow> string \<Rightarrow> string \<Rightarrow> string" where
  "replace_all pat v s =
     (if s = [] then []
      else if pat \<noteq> [] \<and> prefix pat s then v @ replace_all pat v (drop (length pat) s)
      else hd s # replace_all pat v (tl s))"
  by pat_completeness auto
termination
  by (relation "measure (\<lambda>(pat, v, s). length s)") (auto simp: diff_less)

declare replace_all.simps [simp del]

definition hole_text :: "string \<Rightarrow> string" where
  "hole_text p = CHR ''{'' # p @ ''}''"

definition fill :: "(string \<times> string) list \<Rightarrow> string \<Rightarrow> string" where
  "fill params s = foldl (\<lambda>value (p, v). replace_all (hole_text p) v value) s params"

text \<open>The function \<open>t\<close> of the context. Params that are not given are the empty list: the loop
  does nothing then.\<close>

definition tr :: "tables \<Rightarrow> string \<Rightarrow> string \<Rightarrow> (string \<times> string) list \<Rightarrow> tr_value" where
  "tr tables language key params =
     (let ks = split_on (CHR ''.'') key;
          own = tr_lookup tables ks language;
          value = (if own = None \<and> language \<noteq> ''en'' then tr_lookup tables ks ''en'' else own)
      in case value of
           None \<Rightarrow> TrText key
         | Some (TrText s) \<Rightarrow> TrText (fill params s)
         | Some (TrGroup g) \<Rightarrow> TrGroup g)"

text \<open>The language at the start: the saved one, else the computer's when it has a table.\<close>

definition initial_language :: "tables \<Rightarrow> string option \<Rightarrow> string \<Rightarrow> string" where
  "initial_language tables saved browser =
     (case saved of
        Some l \<Rightarrow> if l \<noteq> [] then l
          else (let c = hd (split_on (CHR ''-'') browser) in if map_of tables c \<noteq> None then c else ''en'')
      | None \<Rightarrow>
          (let c = hd (split_on (CHR ''-'') browser) in if map_of tables c \<noteq> None then c else ''en''))"

text \<open>The locale of dates and numbers: the computer's when it is of the app's language.\<close>

definition localeFor :: "string \<Rightarrow> string \<Rightarrow> string \<Rightarrow> string" where
  "localeFor regional navigator language =
     (case List.find (\<lambda>os. hd (split_on (CHR ''-'') os) = language) [regional, navigator] of
        Some os \<Rightarrow> os | None \<Rightarrow> language)"

definition dateLocale :: "string \<Rightarrow> string \<Rightarrow> string" where
  "dateLocale appLocale language =
     (if appLocale \<noteq> [] \<and> hd (split_on (CHR ''-'') appLocale) = language then appLocale else language)"

section \<open>Filling placeholders\<close>

text \<open>A text as the tables have it: literal pieces without an opening brace, and placeholders.\<close>

datatype piece = Lit string | Hole string

fun piece_text :: "piece \<Rightarrow> string" where
  "piece_text (Lit s) = s"
| "piece_text (Hole n) = hole_text n"

definition pieces_text :: "piece list \<Rightarrow> string" where
  "pieces_text ps = concat (map piece_text ps)"

fun piece_ok :: "piece \<Rightarrow> bool" where
  "piece_ok (Lit s) \<longleftrightarrow> CHR ''{'' \<notin> set s"
| "piece_ok (Hole n) \<longleftrightarrow> CHR ''{'' \<notin> set n \<and> CHR ''}'' \<notin> set n"

fun fill_piece :: "(string \<times> string) list \<Rightarrow> piece \<Rightarrow> string" where
  "fill_piece params (Lit s) = s"
| "fill_piece params (Hole n) = (case map_of params n of Some v \<Rightarrow> v | None \<Rightarrow> hole_text n)"

fun set_hole :: "string \<Rightarrow> string \<Rightarrow> piece \<Rightarrow> piece" where
  "set_hole n v (Lit s) = Lit s"
| "set_hole n v (Hole m) = (if m = n then Lit v else Hole m)"

lemma replace_all_Nil [simp]: "replace_all pat v [] = []"
  by (simp add: replace_all.simps)

lemma replace_all_skip:
  "c \<noteq> CHR ''{'' \<Longrightarrow> replace_all (hole_text n) v (c # s) = c # replace_all (hole_text n) v s"
  by (subst replace_all.simps) (simp add: hole_text_def)

lemma replace_all_plain:
  "CHR ''{'' \<notin> set u \<Longrightarrow> replace_all (hole_text n) v (u @ s) = u @ replace_all (hole_text n) v s"
  by (induction u) (auto simp: replace_all_skip)

lemma prefix_until:
  "d \<notin> set n \<Longrightarrow> d \<notin> set m \<Longrightarrow> prefix (n @ [d]) (m @ d # s) \<longleftrightarrow> n = m"
proof (induction n arbitrary: m)
  case Nil
  then show ?case by (cases m) auto
next
  case (Cons a n)
  then show ?case by (cases m) auto
qed

lemma replace_all_hole:
  assumes "CHR ''}'' \<notin> set n" "CHR ''}'' \<notin> set m" "CHR ''{'' \<notin> set m"
  shows "replace_all (hole_text n) v (hole_text m @ s) =
    (if m = n then v else hole_text m) @ replace_all (hole_text n) v s"
proof (cases "m = n")
  case True
  then show ?thesis
    by (subst replace_all.simps) (simp add: hole_text_def)
next
  case False
  have "\<not> prefix (hole_text n) (hole_text m @ s)"
    using prefix_until [OF assms(1,2), of s] False by (simp add: hole_text_def)
  then have "replace_all (hole_text n) v (hole_text m @ s) =
      CHR ''{'' # replace_all (hole_text n) v ((m @ ''}'') @ s)"
    by (subst replace_all.simps) (simp add: hole_text_def)
  also have "\<dots> = CHR ''{'' # (m @ ''}'') @ replace_all (hole_text n) v s"
    using assms(3) by (subst replace_all_plain) simp_all
  finally show ?thesis using False by (simp add: hole_text_def)
qed

lemma replace_all_pieces:
  assumes "list_all piece_ok ps" "CHR ''}'' \<notin> set n"
  shows "replace_all (hole_text n) v (pieces_text ps) = pieces_text (map (set_hole n v) ps)"
  using assms(1)
proof (induction ps)
  case Nil
  show ?case by (simp add: pieces_text_def)
next
  case (Cons p ps)
  then have IH: "replace_all (hole_text n) v (pieces_text ps) = pieces_text (map (set_hole n v) ps)" by simp
  have app: "pieces_text (q # qs) = piece_text q @ pieces_text qs" for q qs by (simp add: pieces_text_def)
  show ?case
  proof (cases p)
    case (Lit s)
    with Cons.prems show ?thesis by (simp add: app replace_all_plain IH)
  next
    case (Hole m)
    with Cons.prems assms(2) show ?thesis by (simp add: app replace_all_hole IH)
  qed
qed

lemma fill_pieces:
  assumes "list_all piece_ok ps"
    "\<forall>(p, v) \<in> set params. CHR ''}'' \<notin> set p \<and> CHR ''{'' \<notin> set v"
  shows "fill params (pieces_text ps) = concat (map (fill_piece params) ps)"
  using assms
proof (induction params arbitrary: ps)
  case Nil
  have "piece_text = fill_piece []"
  proof
    fix p show "piece_text p = fill_piece [] p" by (cases p) simp_all
  qed
  then show ?case by (simp add: fill_def pieces_text_def)
next
  case (Cons nv params)
  obtain n v where nv: "nv = (n, v)" by (cases nv)
  have n: "CHR ''}'' \<notin> set n" and v: "CHR ''{'' \<notin> set v" using Cons.prems(2) nv by auto
  have ok: "list_all piece_ok (map (set_hole n v) ps)"
  proof -
    have "piece_ok (set_hole n v p)" if "piece_ok p" for p using that v by (cases p) auto
    then show ?thesis using Cons.prems(1) by (simp add: list_all_iff)
  qed
  have "fill (nv # params) (pieces_text ps) = fill params (pieces_text (map (set_hole n v) ps))"
    using replace_all_pieces [OF Cons.prems(1) n] by (simp add: fill_def nv)
  also have "\<dots> = concat (map (fill_piece params) (map (set_hole n v) ps))"
    using Cons.IH [OF ok] Cons.prems(2) by simp
  also have "map (fill_piece params) (map (set_hole n v) ps) = map (fill_piece (nv # params)) ps"
  proof -
    have "fill_piece params (set_hole n v p) = fill_piece (nv # params) p" for p
      by (cases p) (simp_all add: nv)
    then show ?thesis by simp
  qed
  finally show ?case .
qed

text \<open>A text is found and filled as meant. A key the language's table has (or, failing that,
  the English one) shows that text with every placeholder replaced at once by its own value:
  the loop that replaces one after the other neither depends on their order nor touches the text
  a value brought in. The key itself shows only when neither table has it.\<close>
theorem tr_fills:
  assumes "CHR ''.'' \<notin> set key"
    "list_all piece_ok ps" "\<forall>(p, v) \<in> set params. CHR ''}'' \<notin> set p \<and> CHR ''{'' \<notin> set v"
    "map_of tables language = Some (TrGroup own)" "map_of tables ''en'' = Some (TrGroup eng)"
  shows "(map_of own key = Some (TrText (pieces_text ps)) \<or>
      map_of own key = None \<and> language \<noteq> ''en'' \<and> map_of eng key = Some (TrText (pieces_text ps))
     \<longrightarrow> tr tables language key params = TrText (concat (map (fill_piece params) ps))) \<and>
    (map_of own key = None \<and> map_of eng key = None \<longrightarrow> tr tables language key params = TrText key)"
proof -
  have s: "split_on (CHR ''.'') key = [key]" using assms(1) by (rule split_on_id)
  have l: "tr_lookup tables [key] language = map_of own key" "tr_lookup tables [key] ''en'' = map_of eng key"
    using assms(4,5) by (simp_all add: tr_lookup_def)
  show ?thesis
    using fill_pieces [OF assms(2,3)] assms(4,5) by (auto simp: tr_def Let_def s l simp del: split_on.simps)
qed

theorem tr_fills_witness:
  "tr [(''fr'', TrGroup []), (''en'', TrGroup [(''hi'', TrText ''{a} and {b}'')])] ''fr'' ''hi''
     [(''a'', ''}b'') , (''b'', ''2'')] = TrText ''}b and 2''"
proof -
  define ps where "ps = [Hole ''a'', Lit '' and '', Hole ''b'']"
  have p: "pieces_text ps = ''{a} and {b}''" by (simp add: ps_def pieces_text_def hole_text_def)
  have o: "list_all piece_ok ps" by (simp add: ps_def)
  show ?thesis
    using tr_fills [of "''hi''" ps "[(''a'', ''}b'') , (''b'', ''2'')]"
      "[(''fr'', TrGroup []), (''en'', TrGroup [(''hi'', TrText ''{a} and {b}'')])]" "''fr''" "[]"
      "[(''hi'', TrText ''{a} and {b}'')]"] o
    unfolding p by (simp add: ps_def)
qed

section \<open>Reading the placeholders of a text\<close>

text \<open>The names between braces, in order; \<open>None\<close> for a text with a brace that is out of place. The
  first argument is the name being read, backwards.\<close>

fun hole_names :: "string option \<Rightarrow> string \<Rightarrow> string list option" where
  "hole_names None [] = Some []"
| "hole_names (Some n) [] = None"
| "hole_names None (c # s) = (if c = CHR ''{'' then hole_names (Some []) s else hole_names None s)"
| "hole_names (Some n) (c # s) =
     (if c = CHR ''{'' then None
      else if c = CHR ''}'' then map_option ((#) (rev n)) (hole_names None s)
      else hole_names (Some (c # n)) s)"

lemma hole_names_pieces:
  "hole_names st s = Some hs \<Longrightarrow>
     (case st of
        None \<Rightarrow> \<exists>ps. list_all piece_ok ps \<and> pieces_text ps = s \<and> {n. Hole n \<in> set ps} = set hs
      | Some n \<Rightarrow> CHR ''{'' \<notin> set n \<and> CHR ''}'' \<notin> set n \<longrightarrow>
          (\<exists>m ps. CHR ''{'' \<notin> set m \<and> CHR ''}'' \<notin> set m \<and> list_all piece_ok ps \<and>
             m @ ''}'' @ pieces_text ps = s \<and> {n. Hole n \<in> set ps} \<union> {rev n @ m} = set hs))"
proof (induction st s arbitrary: hs rule: hole_names.induct)
  case 1
  then show ?case by (auto simp: pieces_text_def intro!: exI [of _ "[]"])
next
  case (2 n)
  then show ?case by simp
next
  case (3 c s)
  show ?case
  proof (cases "c = CHR ''{''")
    case True
    with 3 obtain m ps where m: "CHR ''{'' \<notin> set m" "CHR ''}'' \<notin> set m" "list_all piece_ok ps"
      "m @ ''}'' @ pieces_text ps = s" "{n. Hole n \<in> set ps} \<union> {m} = set hs" by auto
    have "list_all piece_ok (Hole m # ps)" using m(1-3) by simp
    moreover have "pieces_text (Hole m # ps) = c # s" using m(4) True by (simp add: pieces_text_def hole_text_def)
    moreover have "{n. Hole n \<in> set (Hole m # ps)} = set hs" unfolding m(5) [symmetric] by auto
    ultimately show ?thesis unfolding option.case by blast
  next
    case False
    with 3 obtain ps where ps: "list_all piece_ok ps" "pieces_text ps = s" "{n. Hole n \<in> set ps} = set hs" by auto
    have "list_all piece_ok (Lit [c] # ps)" using ps(1) False by simp
    moreover have "pieces_text (Lit [c] # ps) = c # s" using ps(2) by (simp add: pieces_text_def)
    moreover have "{n. Hole n \<in> set (Lit [c] # ps)} = set hs" using ps(3) by simp
    ultimately show ?thesis unfolding option.case by blast
  qed
next
  case (4 n c s)
  show ?case
  proof (cases "c = CHR ''}''")
    case True
    with 4 obtain hs' where hs': "hole_names None s = Some hs'" "hs = rev n # hs'" by auto
    with 4(1) True obtain ps where ps: "list_all piece_ok ps" "pieces_text ps = s" "{n. Hole n \<in> set ps} = set hs'" by auto
    have "insert (rev n) {n. Hole n \<in> set ps} = set hs" using ps(3) hs'(2) by simp
    then have "{n. Hole n \<in> set ps} \<union> {rev n @ []} = set hs" by simp
    moreover have "[] @ ''}'' @ pieces_text ps = c # s" using ps(2) True by simp
    moreover have "CHR ''{'' \<notin> set ([] :: string) \<and> CHR ''}'' \<notin> set ([] :: string)" by simp
    ultimately show ?thesis using ps(1) unfolding option.case by blast
  next
    case False
    with 4 have c: "c \<noteq> CHR ''{''" by auto
    have IH: "CHR ''{'' \<notin> set (c # n) \<and> CHR ''}'' \<notin> set (c # n) \<longrightarrow>
          (\<exists>m ps. CHR ''{'' \<notin> set m \<and> CHR ''}'' \<notin> set m \<and> list_all piece_ok ps \<and>
             m @ ''}'' @ pieces_text ps = s \<and> {n. Hole n \<in> set ps} \<union> {rev (c # n) @ m} = set hs)"
      using 4(2) [OF c False] 4(3) c False by simp
    show ?thesis
    proof (clarsimp)
      assume "CHR ''{'' \<notin> set n" "CHR ''}'' \<notin> set n"
      with IH c False obtain m ps where m: "CHR ''{'' \<notin> set m" "CHR ''}'' \<notin> set m" "list_all piece_ok ps"
        "m @ ''}'' @ pieces_text ps = s" "{n. Hole n \<in> set ps} \<union> {rev (c # n) @ m} = set hs" by auto
      then show "\<exists>m. CHR ''{'' \<notin> set m \<and> CHR ''}'' \<notin> set m \<and>
             (\<exists>ps. list_all piece_ok ps \<and> m @ CHR ''}'' # pieces_text ps = c # s \<and> insert (rev n @ m) {n. Hole n \<in> set ps} = set hs)"
        using c False by (intro exI [of _ "c # m"]) auto
    qed
  qed
qed

lemma fill_no_brace:
  assumes "hole_names None s = Some hs" "set hs \<subseteq> fst ` set params"
    "\<forall>(p, v) \<in> set params. CHR ''}'' \<notin> set p \<and> CHR ''{'' \<notin> set v"
  shows "CHR ''{'' \<notin> set (fill params s)"
proof -
  obtain ps where ps: "list_all piece_ok ps" "pieces_text ps = s" "{n. Hole n \<in> set ps} = set hs"
    using hole_names_pieces [OF assms(1)] by auto
  have "CHR ''{'' \<notin> set (fill_piece params p)" if "p \<in> set ps" for p
  proof (cases p)
    case (Lit u)
    with that ps(1) show ?thesis by (auto simp: list_all_iff)
  next
    case (Hole n)
    with that ps(3) assms(2) have "n \<in> fst ` set params" by auto
    then obtain v where v: "map_of params n = Some v" by (metis domD dom_map_of_conv_image_fst)
    then have "(n, v) \<in> set params" by (rule map_of_SomeD)
    with assms(3) have "CHR ''{'' \<notin> set v" by blast
    with Hole v show ?thesis by simp
  qed
  then show ?thesis
    using fill_pieces [OF ps(1) assms(3)] unfolding ps(2) by auto
qed

text \<open>The placeholders of the texts of a table that have some; \<open>None\<close> when a text is malformed.\<close>

fun scan_texts :: "(string \<times> string) list \<Rightarrow> (string \<times> string list) list option" where
  "scan_texts [] = Some []"
| "scan_texts ((k, v) # es) =
     (case hole_names None v of
        None \<Rightarrow> None
      | Some [] \<Rightarrow> scan_texts es
      | Some (h # hs) \<Rightarrow> map_option ((#) (k, h # hs)) (scan_texts es))"

lemma scan_texts_append:
  "scan_texts es = Some hs \<Longrightarrow> scan_texts fs = Some is \<Longrightarrow> scan_texts (es @ fs) = Some (hs @ is)"
  by (induction es arbitrary: hs rule: scan_texts.induct) (auto split: option.splits list.splits)

lemma scan_texts_mem:
  "scan_texts es = Some hs \<Longrightarrow> (k, v) \<in> set es \<Longrightarrow>
     \<exists>ns. hole_names None v = Some ns \<and> (ns = [] \<or> (k, ns) \<in> set hs)"
proof (induction es arbitrary: hs)
  case (Cons e es)
  obtain k' v' where e: "e = (k', v')" by (cases e)
  from Cons.prems(1) obtain ns' hs' where ns': "hole_names None v' = Some ns'" and hs': "scan_texts es = Some hs'"
    and hs: "hs = (if ns' = [] then hs' else (k', ns') # hs')"
    by (auto simp: e split: option.splits list.splits)
  show ?case
  proof (cases "(k, v) = e")
    case True
    with e ns' hs show ?thesis by simp
  next
    case False
    with Cons.prems(2) Cons.IH [OF hs'] obtain ns where "hole_names None v = Some ns" "ns = [] \<or> (k, ns) \<in> set hs'" by auto
    with hs show ?thesis by auto
  qed
qed simp

end
