(* ===== verification/Messages.thy ===== *)
theory Messages
  imports I18n Rates
begin

text \<open>
  The texts of a run's messages (\<open>App.jsx\<close>: renderLocalizedMessage to historyName) and of how long
  ago a set ran (\<open>timeAgo.js\<close>). The lookup \<open>t\<close> is an argument, as it is in the source; so are the
  number formats of the locale, \<open>fmt lang n\<close> for whole numbers and \<open>fixed v d\<close>. A message's
  parameters are whole numbers or texts, as the backend sends them.
\<close>

type_synonym translate = "string \<Rightarrow> (string \<times> string) list \<Rightarrow> string"

datatype param = PInt int | PText string

type_synonym params = "(string \<times> param) list"

record entry =
  e_message :: string
  e_key :: "string option"
  e_params :: "params option"
  e_level :: "string option"
  e_status :: string
  e_name :: string
  e_nameKey :: "string option"
  e_nameParams :: params
  e_kind :: string

definition param_of :: "params \<Rightarrow> string \<Rightarrow> param option" where
  "param_of p k = map_of p k"

text \<open>\<open>typeof p.k === 'number'\<close>, and the number.\<close>

definition int_param :: "params \<Rightarrow> string \<Rightarrow> int option" where
  "int_param p k = (case param_of p k of Some (PInt n) \<Rightarrow> Some n | _ \<Rightarrow> None)"

definition text_param :: "params \<Rightarrow> string \<Rightarrow> string option" where
  "text_param p k = (case param_of p k of Some (PText s) \<Rightarrow> Some s | _ \<Rightarrow> None)"

definition decimal_value :: "string \<Rightarrow> rat option" where
  "decimal_value s =
     (case split_on (CHR ''.'') s of
        [a] \<Rightarrow> if a \<noteq> [] \<and> list_all is_digit a then Some (of_nat (digits_value a)) else None
      | [a, b] \<Rightarrow>
          if a \<noteq> [] \<and> b \<noteq> [] \<and> list_all is_digit a \<and> list_all is_digit b
          then Some (of_nat (digits_value a) + of_nat (digits_value b) / 10 ^ length b) else None
      | _ \<Rightarrow> None)"

definition param_text :: "param \<Rightarrow> string" where
  "param_text v = (case v of PInt n \<Rightarrow> show_int n | PText s \<Rightarrow> s)"

text \<open>\<open>p.k > 0\<close> and \<open>Number(p.k)\<close>: a text of a decimal number counts as it.\<close>

definition param_number :: "params \<Rightarrow> string \<Rightarrow> rat option" where
  "param_number p k =
     (case param_of p k of Some (PInt n) \<Rightarrow> Some (of_int n) | Some (PText s) \<Rightarrow> decimal_value s | None \<Rightarrow> None)"

definition param_pos :: "params \<Rightarrow> string \<Rightarrow> bool" where
  "param_pos p k = (case param_number p k of Some v \<Rightarrow> v > 0 | None \<Rightarrow> False)"

section \<open>What a backup skipped\<close>

record skip_note =
  n_text :: string
  n_warn :: bool

text \<open>The notes with their numbers, before they are put into words.\<close>

definition skipped_counts :: "params \<Rightarrow> (string \<times> rat \<times> bool) list" where
  "skipped_counts p =
     (case param_number p ''skipped'' of
        None \<Rightarrow> []
      | Some skipped \<Rightarrow>
          if \<not> skipped > 0 then []
          else (case int_param p ''unreadable'' of
                  None \<Rightarrow> [(''logSkippedFilesNote'', skipped, True)]
                | Some unreadable \<Rightarrow>
                    (if unreadable > 0 then [(''logUnreadableFilesNote'', of_int unreadable, True)] else [])
                    @ (if skipped > of_int unreadable then [(''logSkippedByDesignNote'', skipped - of_int unreadable, False)] else [])))"

definition drop_newline :: "string \<Rightarrow> string" where
  "drop_newline s = (case s of c # r \<Rightarrow> if c = newline then r else s | [] \<Rightarrow> [])"

definition skippedNotes :: "translate \<Rightarrow> (rat \<Rightarrow> string) \<Rightarrow> params \<Rightarrow> skip_note list" where
  "skippedNotes t fmt p =
     map (\<lambda>(key, n, warn). \<lparr>n_text = drop_newline (t key [(''count'', fmt n)]), n_warn = warn\<rparr>) (skipped_counts p)"

definition skippedWarns :: "params option \<Rightarrow> bool" where
  "skippedWarns po =
     (case po of
        None \<Rightarrow> False
      | Some p \<Rightarrow>
          if \<not> param_pos p ''skipped'' then False
          else (case int_param p ''unreadable'' of Some u \<Rightarrow> u > 0 | None \<Rightarrow> True))"

text \<open>The notes about skipped files tell the whole count once. When the unreadable ones are
  part of the skipped ones the numbers in the notes add up to what was skipped, every note has a
  number above zero, and there is a note with a warning exactly when the warning sign shows.\<close>
theorem skipped_counts_exact:
  "(\<exists>(k, n, w) \<in> set (skipped_counts p). w) = skippedWarns (Some p) \<and>
   (\<forall>(k, n, w) \<in> set (skipped_counts p). n > 0) \<and>
   (\<forall>s u. param_number p ''skipped'' = Some s \<and> s > 0 \<and> int_param p ''unreadable'' = Some u \<and> 0 \<le> u \<and> of_int u \<le> s
      \<longrightarrow> (\<Sum>(k, n, w) \<leftarrow> skipped_counts p. n) = s)"
proof (cases "param_number p ''skipped''")
  case None
  then show ?thesis by (simp add: skipped_counts_def skippedWarns_def param_pos_def)
next
  case (Some s)
  then show ?thesis
    by (cases "int_param p ''unreadable''") (auto simp: skipped_counts_def skippedWarns_def param_pos_def)
qed

theorem skipped_counts_exact_witness:
  "(\<Sum>(k, n, w) \<leftarrow> skipped_counts [(''skipped'', PInt 5), (''unreadable'', PInt 2)]. n) = 5"
proof -
  have a: "param_number [(''skipped'', PInt 5), (''unreadable'', PInt 2)] ''skipped'' = Some 5"
    and b: "int_param [(''skipped'', PInt 5), (''unreadable'', PInt 2)] ''unreadable'' = Some 2"
    by (simp_all add: param_number_def int_param_def param_of_def)
  show ?thesis
    using skipped_counts_exact [of "[(''skipped'', PInt 5), (''unreadable'', PInt 2)]"] a b by (simp only: Pair_inject) simp
qed

section \<open>Messages in the user's language\<close>

definition set_param :: "(string \<times> string) list \<Rightarrow> string \<Rightarrow> string \<Rightarrow> (string \<times> string) list" where
  "set_param ps k v =
     (if k \<in> fst ` set ps then map (\<lambda>(k', v'). (k', if k' = k then v else v')) ps else ps @ [(k, v)])"

text \<open>The parameters as \<open>renderLocalizedMessage\<close> hands them to \<open>t\<close>: whole numbers and the size with
  the language's separators, and the skipped files as a note of their own.\<close>

definition with_note :: "translate \<Rightarrow> (rat \<Rightarrow> string) \<Rightarrow> (rat \<Rightarrow> nat \<Rightarrow> string) \<Rightarrow> params \<Rightarrow> (string \<times> string) list" where
  "with_note t fmt fixed p =
     (let base = map (\<lambda>(k, v). (k, case v of PInt n \<Rightarrow> fmt (of_int n) | PText s \<Rightarrow> s)) p;
          mb = (case text_param p ''mb'' of
                  Some s \<Rightarrow> (case decimal_value s of Some v \<Rightarrow> set_param base ''mb'' (fixed v 1) | None \<Rightarrow> base)
                | None \<Rightarrow> base)
      in if int_param p ''skipped'' \<noteq> None
         then set_param mb ''skippedNote'' (concat (map (\<lambda>n. newline # n_text n) (skippedNotes t fmt p)))
         else mb)"

record rendered =
  rd_text :: string
  rd_usedKey :: bool

definition renderLocalizedMessage :: "translate \<Rightarrow> (rat \<Rightarrow> string) \<Rightarrow> (rat \<Rightarrow> nat \<Rightarrow> string) \<Rightarrow> entry \<Rightarrow> rendered" where
  "renderLocalizedMessage t fmt fixed e =
     (let key = or_text (e_key e) []
      in if key \<noteq> [] \<and> t key (with_note t fmt fixed (case e_params e of Some p \<Rightarrow> p | None \<Rightarrow> [])) \<noteq> key
         then \<lparr>rd_text = t key (with_note t fmt fixed (case e_params e of Some p \<Rightarrow> p | None \<Rightarrow> [])), rd_usedKey = True\<rparr>
         else \<lparr>rd_text = e_message e, rd_usedKey = False\<rparr>)"

section \<open>Icons\<close>

datatype icon = Stopped | Cross | Warning | Tick | Info

definition SUCCESS_KEYS :: "string list" where
  "SUCCESS_KEYS = [''logBackupCompleted'', ''logMachineBackupCompleted'', ''logMachineBackupCompletedStats'',
     ''logBackupCompletedGeneric'', ''logRestoreCompleted'']"

definition messageIcon :: "entry \<Rightarrow> icon" where
  "messageIcon e =
     (if e_key e = Some ''logBackupCancelled'' \<or> contains (toLowerCase (e_message e)) ''cancelled by user'' then Stopped
      else if e_level e = Some ''error'' then Cross
      else if e_level e = Some ''warning'' then Warning
      else if (case e_key e of Some k \<Rightarrow> k \<in> set SUCCESS_KEYS | None \<Rightarrow> False)
      then (if skippedWarns (e_params e) then Warning else Tick)
      else Info)"

text \<open>The tick means what it says. It shows exactly for a finished backup or restore that was
  not stopped, carries no error or warning level and read every file it meant to; so the notes
  below such an entry hold no warning.\<close>
theorem messageIcon_tick:
  "messageIcon e = Tick \<longleftrightarrow>
     (\<exists>k \<in> set SUCCESS_KEYS. e_key e = Some k) \<and>
     \<not> contains (toLowerCase (e_message e)) ''cancelled by user'' \<and>
     e_level e \<notin> {Some ''error'', Some ''warning''} \<and>
     (\<forall>p n. e_params e = Some p \<and> n \<in> set (skippedNotes t fmt p) \<longrightarrow> \<not> n_warn n)"
proof -
  have k: "Some ''logBackupCancelled'' \<noteq> Some k" if "k \<in> set SUCCESS_KEYS" for k
    using that by (auto simp: SUCCESS_KEYS_def)
  have w: "skippedWarns (e_params e) \<longleftrightarrow> (\<exists>p n. e_params e = Some p \<and> n \<in> set (skippedNotes t fmt p) \<and> n_warn n)"
  proof (cases "e_params e")
    case None
    then show ?thesis by (simp add: skippedWarns_def)
  next
    case (Some p)
    have "(\<exists>n \<in> set (skippedNotes t fmt p). n_warn n) \<longleftrightarrow> (\<exists>(k, n, w) \<in> set (skipped_counts p). w)"
      unfolding skippedNotes_def set_map by (auto simp: Bex_def split_def)
    moreover have "(\<exists>(k, n, w) \<in> set (skipped_counts p). w) \<longleftrightarrow> skippedWarns (Some p)"
    proof (cases "param_number p ''skipped''")
      case None
      then show ?thesis by (simp add: skipped_counts_def skippedWarns_def param_pos_def)
    next
      case (Some s)
      then show ?thesis
        by (cases "int_param p ''unreadable''") (auto simp: skipped_counts_def skippedWarns_def param_pos_def)
    qed
    ultimately show ?thesis using Some by auto
  qed
  show ?thesis
    unfolding messageIcon_def
    using k w by (cases "e_key e") (auto split: if_splits)
qed

theorem messageIcon_tick_witness:
  "messageIcon \<lparr>e_message = ''ok'', e_key = Some ''logRestoreCompleted'', e_params = None, e_level = Some ''info'',
     e_status = [], e_name = [], e_nameKey = None, e_nameParams = [], e_kind = []\<rparr> = Tick"
proof -
  define e where "e = \<lparr>e_message = ''ok'', e_key = Some ''logRestoreCompleted'', e_params = None, e_level = Some ''info'',
     e_status = [], e_name = [], e_nameKey = None, e_nameParams = [], e_kind = []\<rparr>"
  have "\<not> contains (toLowerCase ''ok'') ''cancelled by user''" "''logRestoreCompleted'' \<in> set SUCCESS_KEYS"
    by code_simp+
  then have "messageIcon e = Tick"
    using messageIcon_tick [of e "\<lambda>k p. k" "\<lambda>n. []"] by (simp add: e_def)
  then show ?thesis by (simp only: e_def)
qed

section \<open>The figures of a finished backup\<close>

datatype completion = CleanEnd | WarnEnd

definition COMPLETION_KEYS :: "(string \<times> completion) list" where
  "COMPLETION_KEYS = [(''logBackupCompleted'', CleanEnd), (''logMachineBackupCompleted'', CleanEnd),
     (''logMachineBackupCompletedStats'', CleanEnd), (''logBackupCompletedWithErrors'', WarnEnd),
     (''logBackupPartial'', WarnEnd), (''logMachineBackupUnreadable'', WarnEnd)]"

definition completion_of :: "entry \<Rightarrow> completion option" where
  "completion_of e = (case e_key e of Some k \<Rightarrow> map_of COMPLETION_KEYS k | None \<Rightarrow> None)"

definition isCleanFinish :: "entry \<Rightarrow> bool" where
  "isCleanFinish e \<longleftrightarrow> completion_of e = Some CleanEnd \<and>
     (if or_text (e_level e) [] \<noteq> [] then e_level e = Some ''info'' else e_status e = ''success'')"

definition tl_text :: "translate \<Rightarrow> string \<Rightarrow> string \<Rightarrow> string" where
  "tl_text t k en = (if t k [] = k then en else t k [])"

text \<open>The spaces and the warning sign (U+26A0, U+FE0F, in UTF-8) at the start of a note.\<close>

fun drop_sign :: "nat \<Rightarrow> string \<Rightarrow> string" where
  "drop_sign 0 s = s"
| "drop_sign (Suc n) s =
     (if prefix [CHR 0xE2, CHR 0x9A, CHR 0xA0] s then drop_sign n (drop 3 s)
      else if prefix [CHR 0xEF, CHR 0xB8, CHR 0x8F] s then drop_sign n (drop 3 s)
      else if prefix [CHR 0xC2, CHR 0xA0] s then drop_sign n (drop 2 s)
      else (case s of c # r \<Rightarrow> if is_space c \<and> code_unit c < 128 then drop_sign n r else s | [] \<Rightarrow> []))"

definition facts_size :: "(rat \<Rightarrow> nat \<Rightarrow> string) \<Rightarrow> params \<Rightarrow> string" where
  "facts_size fixed p =
     (case int_param p ''readBytes'' of Some n \<Rightarrow> formatBytesDual fixed (Some n)
      | None \<Rightarrow> (case int_param p ''bytes'' of Some n \<Rightarrow> formatBytesDual fixed (Some n)
      | None \<Rightarrow> (case text_param p ''read'' of Some s \<Rightarrow> s
      | None \<Rightarrow> (case param_number p ''mb'' of Some v \<Rightarrow> formatBytesDual fixed (Some (math_round (v * 1000000)))
      | None \<Rightarrow> []))))"

definition facts_chunks :: "translate \<Rightarrow> (rat \<Rightarrow> string) \<Rightarrow> params \<Rightarrow> (string \<times> string) list" where
  "facts_chunks t fmt p =
     (let part = (\<lambda>k en n. tl_text t k en @ '' ('' @ fmt n @ '')'')
      in case (int_param p ''new'', int_param p ''reused'') of
           (Some new, Some reused) \<Rightarrow>
             [(tl_text t ''reportsChunks'' ''Chunks'',
               join_with '', ''
                 ([part ''reportsChunkTotal'' ''Total'' (of_int (new + reused)),
                   part ''processedNew'' ''New'' (of_int new),
                   part ''processedReused'' ''Reused'' (of_int reused)]
                  @ (case int_param p ''blank'' of Some n \<Rightarrow> [part ''reportsChunkBlank'' ''Blank'' (of_int n)] | None \<Rightarrow> [])
                  @ (case param_number p ''failed'' of
                       Some n \<Rightarrow> if n > 0 then [part ''reportsChunkFailed'' ''Failed'' n] else [] | None \<Rightarrow> [])))]
         | _ \<Rightarrow> [])"

definition facts_sent :: "translate \<Rightarrow> (rat \<Rightarrow> nat \<Rightarrow> string) \<Rightarrow> params \<Rightarrow> (string \<times> string) list" where
  "facts_sent t fixed p =
     (case int_param p ''uploadedBytes'' of
        Some n \<Rightarrow> [(tl_text t ''reportsUploaded'' ''New/changed data'', formatBytesDual fixed (Some n))]
      | None \<Rightarrow> (case text_param p ''uploaded'' of
          Some s \<Rightarrow> [(tl_text t ''reportsUploaded'' ''New/changed data'', s)] | None \<Rightarrow> []))
     @ (case int_param p ''sentBytes'' of
          None \<Rightarrow> []
        | Some n \<Rightarrow>
            (let ratio = (case param_number p ''uploadedBytes'' of Some r \<Rightarrow> compressionRatio fixed r (of_int n) | None \<Rightarrow> [])
             in (tl_text t ''reportsSent'' ''Data transferred'', formatBytesDual fixed (Some n))
                # (if ratio \<noteq> [] then [(tl_text t ''reportsRatio'' ''Compression ratio'', ratio)] else [])))"

definition facts_skipped :: "translate \<Rightarrow> (rat \<Rightarrow> string) \<Rightarrow> entry \<Rightarrow> params \<Rightarrow> (string \<times> string) list" where
  "facts_skipped t fmt e p =
     (if isCleanFinish e
      then map (\<lambda>n. (if n_warn n then tl_text t ''reportsWarnings'' ''Warnings''
                     else tl_text t ''reportsSkippedByDesign'' ''Left out'', drop_sign (length (n_text n)) (n_text n)))
             (skippedNotes t fmt p)
      else [])"

definition backupFacts :: "translate \<Rightarrow> (rat \<Rightarrow> string) \<Rightarrow> (rat \<Rightarrow> nat \<Rightarrow> string) \<Rightarrow> entry \<Rightarrow> (string \<times> string) list option" where
  "backupFacts t fmt fixed e =
     (if completion_of e = None then None
      else let p = (case e_params e of Some p \<Rightarrow> p | None \<Rightarrow> []);
               duration = (case param_of p ''duration'' of
                             Some (PText s) \<Rightarrow> if s \<noteq> [] then [(tl_text t ''reportsDuration'' ''Duration'', s)] else []
                           | Some (PInt n) \<Rightarrow> if n \<noteq> 0 then [(tl_text t ''reportsDuration'' ''Duration'', show_int n)] else []
                           | None \<Rightarrow> []);
               size = facts_size fixed p
           in Some (duration
                @ (if size \<noteq> [] then [(tl_text t ''reportsBackupSize'' ''Backup size'', size)] else [])
                @ facts_chunks t fmt p @ facts_sent t fixed p @ facts_skipped t fmt e p))"

section \<open>The name of a Reports entry\<close>

definition no_line_end :: "string \<Rightarrow> bool" where
  "no_line_end s \<longleftrightarrow> newline \<notin> set s \<and> CHR 0x0D \<notin> set s"

text \<open>The longest first part of \<open>(.+) sep (.+)\<close>: the last place where the separator stands with
  something on both sides.\<close>

fun split_last :: "string \<Rightarrow> string \<Rightarrow> nat \<Rightarrow> (string \<times> string) option" where
  "split_last sep s 0 = None"
| "split_last sep s (Suc i) =
     (let rest = drop (Suc i) s
      in if prefix sep rest \<and> length sep < length rest then Some (take (Suc i) s, drop (length sep) rest)
         else split_last sep s i)"

definition strip_prefix :: "string \<Rightarrow> string \<Rightarrow> string option" where
  "strip_prefix p s = (if prefix p s then Some (drop (length p) s) else None)"

definition strip_suffix :: "string \<Rightarrow> string \<Rightarrow> string option" where
  "strip_suffix p s = (if suffix p s then Some (take (length s - length p) s) else None)"

text \<open>The shape \<open>\d{4}-\d\d-\d\d \d\d:\d\d\<close>: a digit at each 'd', the other characters as they are.\<close>

definition minute_stamp :: "string \<Rightarrow> bool" where
  "minute_stamp s \<longleftrightarrow> length s = 16 \<and>
     list_all2 (\<lambda>c p. if p = CHR ''d'' then is_digit c else c = p) s ''dddd-dd-dd dd:dd''"

definition old_restore :: "string \<Rightarrow> (string \<times> params) option" where
  "old_restore s =
     (case strip_prefix ''Restore of '' s of
        None \<Rightarrow> None
      | Some r \<Rightarrow> (case split_last '' @ '' r (length r) of
          Some (a, b) \<Rightarrow> Some (''reportNameRestore'', [(''id'', PText a), (''snapshot'', PText b)]) | None \<Rightarrow> None))"

definition old_undelete :: "string \<Rightarrow> (string \<times> params) option" where
  "old_undelete s =
     (case strip_prefix ''Undelete: '' s of
        None \<Rightarrow> None
      | Some r \<Rightarrow> (case strip_suffix '' files)'' r of
          None \<Rightarrow> None
        | Some r' \<Rightarrow> (case split_last '' ('' r' (length r') of
            Some (a, b) \<Rightarrow>
              if list_all is_digit b then Some (''reportNameUndelete'', [(''set'', PText a), (''files'', PInt (int (digits_value b)))])
              else None
          | None \<Rightarrow> None)))"

definition old_rollback :: "string \<Rightarrow> (string \<times> params) option" where
  "old_rollback s =
     (case strip_prefix ''Roll back: '' s of
        None \<Rightarrow> None
      | Some r \<Rightarrow>
          (let n = length r - 16; stamp = drop n r
           in case strip_suffix '' to '' (take n r) of
                Some a \<Rightarrow> if a \<noteq> [] \<and> minute_stamp stamp
                          then Some (''reportNameRollback'', [(''set'', PText a), (''at'', PText stamp)]) else None
              | None \<Rightarrow> None))"

definition old_name :: "string \<Rightarrow> (string \<times> params) option" where
  "old_name s =
     (if \<not> no_line_end s then None
      else case old_restore s of Some r \<Rightarrow> Some r
         | None \<Rightarrow> (case old_undelete s of Some r \<Rightarrow> Some r | None \<Rightarrow> old_rollback s))"

definition historyName :: "translate \<Rightarrow> (rat \<Rightarrow> string) \<Rightarrow> entry \<Rightarrow> string" where
  "historyName t fmt e =
     (let own = or_text (e_nameKey e) [];
          known = (if own \<noteq> [] then Some (own, e_nameParams e)
                   else if e_kind e = ''restore'' then old_name (e_name e) else None)
      in case known of
           None \<Rightarrow> e_name e
         | Some (key, params) \<Rightarrow>
             (let p = map (\<lambda>(k, v). (k, case v of PInt n \<Rightarrow> if k = ''files'' then fmt (of_int n) else show_int n | PText s \<Rightarrow> s)) params;
                  said = t key p
              in if said = key then e_name e else said))"

end
