(* ===== verification/TimeAgo.thy ===== *)
theory TimeAgo
  imports Messages
begin

text \<open>
  How long ago a set last ran (\<open>timeAgo.js\<close>, and the timer of \<open>components/LastRunAgo.jsx\<close>). Times
  are whole milliseconds. The plural category of a number (\<open>Intl.PluralRules\<close>) is the argument
  \<open>plural\<close>; \<open>None\<close> where the language is not known to it.
\<close>

definition MINUTE :: int where
  "MINUTE = 60 * 1000"

record ago =
  a_days :: int
  a_hours :: int
  a_minutes :: int

definition agoParts :: "int \<Rightarrow> ago" where
  "agoParts ms =
     (let mins = max 0 (ms div MINUTE)
      in \<lparr>a_days = mins div 1440, a_hours = (mins mod 1440) div 60, a_minutes = mins mod 60\<rparr>)"

definition ago_unit :: "translate \<Rightarrow> (int \<Rightarrow> string option) \<Rightarrow> string \<Rightarrow> int \<Rightarrow> string" where
  "ago_unit t plural key n =
     (let cat = (case plural n of Some c \<Rightarrow> c | None \<Rightarrow> ''other'');
          k = key @ ''_'' @ cat;
          v = t k [(''n'', show_int n)]
      in if v \<noteq> k then v else t (key @ ''_other'') [(''n'', show_int n)])"

definition formatAgo :: "translate \<Rightarrow> (int \<Rightarrow> string option) \<Rightarrow> int \<Rightarrow> string" where
  "formatAgo t plural ms =
     (let a = agoParts ms;
          parts = (if a_days a \<noteq> 0 then [ago_unit t plural ''agoDays'' (a_days a)] else [])
            @ (if a_hours a \<noteq> 0 then [ago_unit t plural ''agoHours'' (a_hours a)] else [])
            @ (if a_minutes a \<noteq> 0 then [ago_unit t plural ''agoMinutes'' (a_minutes a)] else [])
      in if parts = [] then t ''agoJustNow'' []
         else t ''agoPhrase'' [(''time'', join_with (t ''agoJoin'' []) parts)])"

definition msToNextMinute :: "int \<Rightarrow> int \<Rightarrow> int" where
  "msToNextMinute since now =
     (let elapsed = now - since in if elapsed < 0 then MINUTE else MINUTE - elapsed mod MINUTE)"

lemma agoParts_total:
  "a_days (agoParts ms) * 1440 + a_hours (agoParts ms) * 60 + a_minutes (agoParts ms) = max 0 (ms div MINUTE)"
proof -
  define m where "m = max 0 (ms div MINUTE)"
  have "m mod 60 = (m mod 1440) mod 60" by (simp add: mod_mod_cancel)
  then have "m mod 1440 div 60 * 60 + m mod 60 = m mod 1440" by simp
  moreover have "m div 1440 * 1440 + m mod 1440 = m" by (rule div_mult_mod_eq)
  ultimately have "m div 1440 * 1440 + m mod 1440 div 60 * 60 + m mod 60 = m" by linarith
  then show ?thesis by (simp add: agoParts_def Let_def flip: m_def)
qed

lemma agoParts_eq_iff: "agoParts a = agoParts b \<longleftrightarrow> max 0 (a div MINUTE) = max 0 (b div MINUTE)"
proof
  show "agoParts a = agoParts b" if "max 0 (a div MINUTE) = max 0 (b div MINUTE)"
    using that by (simp add: agoParts_def)
  show "max 0 (a div MINUTE) = max 0 (b div MINUTE)" if "agoParts a = agoParts b"
    using agoParts_total [of a] agoParts_total [of b] that by simp
qed

text \<open>The card's "ago" is right and ticks over on time. The days, hours and minutes shown make
  up the whole minutes since the run, hours under 24 and minutes under 60; the wait the timer gets
  is above zero and at most a minute, what is shown stays true until it fires, and when the run
  lies in the past it fires exactly when the next minute is reached.\<close>
theorem ago_ticks_on_time:
  "a_days (agoParts ms) * 1440 + a_hours (agoParts ms) * 60 + a_minutes (agoParts ms) = max 0 (ms div MINUTE) \<and>
   0 \<le> a_days (agoParts ms) \<and> a_hours (agoParts ms) \<in> {0..<24} \<and> a_minutes (agoParts ms) \<in> {0..<60} \<and>
   0 < msToNextMinute since now \<and> msToNextMinute since now \<le> MINUTE \<and>
   (\<forall>x \<in> {now..<now + msToNextMinute since now}. formatAgo t plural (x - since) = formatAgo t plural (now - since)) \<and>
   (since \<le> now \<longrightarrow> agoParts (now + msToNextMinute since now - since) \<noteq> agoParts (now - since))"
proof (intro conjI)
  show "a_days (agoParts ms) * 1440 + a_hours (agoParts ms) * 60 + a_minutes (agoParts ms) = max 0 (ms div MINUTE)"
    by (rule agoParts_total)
  show "0 \<le> a_days (agoParts ms)" by (simp add: agoParts_def Let_def pos_imp_zdiv_nonneg_iff)
  define m where "m = max 0 (ms div MINUTE) mod 1440"
  have "0 \<le> m" "m < 1440" by (simp_all add: m_def)
  then have "0 \<le> m div 60" "m div 60 < 24" by linarith+
  then show "a_hours (agoParts ms) \<in> {0..<24}" by (simp add: agoParts_def Let_def m_def)
  show "a_minutes (agoParts ms) \<in> {0..<60}" by (simp add: agoParts_def Let_def)
next
  define e where "e = now - since"
  have M: "0 < MINUTE" by (simp add: MINUTE_def)
  have r: "0 \<le> e mod MINUTE" "e mod MINUTE < MINUTE" using M by simp_all
  show "0 < msToNextMinute since now" "msToNextMinute since now \<le> MINUTE"
    using r M by (auto simp: msToNextMinute_def Let_def simp flip: e_def)
  have d: "e div MINUTE * MINUTE + e mod MINUTE = e" by simp
  show "\<forall>x \<in> {now..<now + msToNextMinute since now}. formatAgo t plural (x - since) = formatAgo t plural (now - since)"
  proof
    fix x assume x: "x \<in> {now..<now + msToNextMinute since now}"
    have "max 0 ((x - since) div MINUTE) = max 0 (e div MINUTE)"
    proof (cases "e < 0")
      case True
      then have "msToNextMinute since now = MINUTE" by (simp add: msToNextMinute_def flip: e_def)
      with x True have "x - since < MINUTE" by (auto simp: e_def)
      then have "(x - since) div MINUTE \<le> (MINUTE - 1) div MINUTE"
        using M by (intro zdiv_mono1) auto
      then have "(x - since) div MINUTE \<le> 0" using M by (simp add: div_pos_pos_trivial)
      moreover have "e div MINUTE \<le> 0" using True M by (simp add: div_neg_pos_less0 less_imp_le)
      ultimately show ?thesis by simp
    next
      case False
      then have n: "msToNextMinute since now = MINUTE - e mod MINUTE" by (simp add: msToNextMinute_def Let_def flip: e_def)
      have b: "e div MINUTE * MINUTE \<le> x - since" "x - since < e div MINUTE * MINUTE + MINUTE"
      proof -
        have "e div MINUTE * MINUTE = e - e mod MINUTE" using d by linarith
        with x n r show "e div MINUTE * MINUTE \<le> x - since" "x - since < e div MINUTE * MINUTE + MINUTE"
          by (simp_all add: e_def)
      qed
      have "(x - since) div MINUTE = e div MINUTE"
      proof (rule int_div_pos_eq [where r = "x - since - e div MINUTE * MINUTE"])
        show "x - since = MINUTE * (e div MINUTE) + (x - since - e div MINUTE * MINUTE)" by (simp add: mult.commute)
      qed (use b in simp_all)
      then show ?thesis by simp
    qed
    then have "agoParts (x - since) = agoParts (now - since)" by (simp add: agoParts_eq_iff e_def)
    then show "formatAgo t plural (x - since) = formatAgo t plural (now - since)" by (simp add: formatAgo_def)
  qed
  show "since \<le> now \<longrightarrow> agoParts (now + msToNextMinute since now - since) \<noteq> agoParts (now - since)"
  proof
    assume "since \<le> now"
    then have e: "0 \<le> e" by (simp add: e_def)
    then have "now + msToNextMinute since now - since = (e div MINUTE + 1) * MINUTE"
      using d by (simp add: msToNextMinute_def Let_def e_def algebra_simps)
    then have "(now + msToNextMinute since now - since) div MINUTE = e div MINUTE + 1" using M by simp
    moreover have "0 \<le> e div MINUTE" using e M by (simp add: pos_imp_zdiv_nonneg_iff)
    ultimately show "agoParts (now + msToNextMinute since now - since) \<noteq> agoParts (now - since)"
      by (simp add: agoParts_eq_iff flip: e_def)
  qed
qed

theorem ago_ticks_on_time_witness:
  "agoParts (1000 + msToNextMinute 0 1000 - 0) \<noteq> agoParts (1000 - 0) \<and> msToNextMinute 0 1000 = 59000"
  using ago_ticks_on_time [of 0 0 1000 "\<lambda>k p. k" "\<lambda>n. None"] by (simp add: msToNextMinute_def MINUTE_def)

end
