(* ===== verification/Runs.thy ===== *)
theory Runs
  imports Messages
begin

text \<open>
  The backup runs of the Backup page (\<open>App.jsx\<close>): the runs the backend reports, the waiting list,
  the one run the card shows, and every event that changes them. The state is that of the refs and
  of the React state the handlers set; an event handler is a function from the state before to the
  state after. Identifiers of runs are never empty; the empty string stands for a missing one.
  Message texts and icons are kept apart: the status line is an icon and a text.
\<close>

section \<open>State\<close>

record run =
  r_id :: string
  r_name :: string
  r_percent :: int
  r_message :: string
  r_queued :: bool
  r_paused :: bool
  r_since :: int
  r_started :: int
  r_stop :: bool

text \<open>The figures of the card: \<open>EMPTY_BACKUP_STATS\<close> with the held estimate.\<close>

record bstats =
  bs_startTime :: "int option"
  bs_lastUpdate :: "int option"
  bs_lastPercent :: int
  bs_speed :: rat
  bs_eta :: "rat option"
  bs_etaHold :: "held option"
  bs_bytesDone :: int
  bs_bytesTotal :: int
  bs_newChunks :: int
  bs_reusedChunks :: int
  bs_failedChunks :: int
  bs_currentDir :: string
  bs_filesDone :: int
  bs_filesTotal :: int
  bs_uploadedBytes :: int
  bs_sentBytes :: int
  bs_filesRate :: "rat option"
  bs_uploadRate :: "rat option"
  bs_phase :: string
  bs_readReason :: string
  bs_changeMode :: string
  bs_hasDetail :: bool
  bs_kind :: string
  bs_blankChunks :: int
  bs_disk :: string
  bs_diskNo :: int
  bs_diskModel :: string
  bs_diskCount :: int
  bs_diskBytes :: int
  bs_diskDone :: int
  bs_partition :: string
  bs_unreadable :: int
  bs_readDone :: int
  bs_readTotal :: int
  bs_retryAt :: int
  bs_attempt :: int
  bs_attempts :: int

definition EMPTY_BACKUP_STATS :: bstats where
  "EMPTY_BACKUP_STATS = \<lparr>bs_startTime = None, bs_lastUpdate = None, bs_lastPercent = 0, bs_speed = 0,
     bs_eta = None, bs_etaHold = None, bs_bytesDone = 0, bs_bytesTotal = 0, bs_newChunks = 0,
     bs_reusedChunks = 0, bs_failedChunks = 0, bs_currentDir = [], bs_filesDone = 0, bs_filesTotal = 0,
     bs_uploadedBytes = 0, bs_sentBytes = 0, bs_filesRate = None, bs_uploadRate = None, bs_phase = [],
     bs_readReason = [], bs_changeMode = [], bs_hasDetail = False, bs_kind = [], bs_blankChunks = 0,
     bs_disk = [], bs_diskNo = 0, bs_diskModel = [], bs_diskCount = 0, bs_diskBytes = 0, bs_diskDone = 0,
     bs_partition = [], bs_unreadable = 0, bs_readDone = 0, bs_readTotal = 0, bs_retryAt = 0,
     bs_attempt = 0, bs_attempts = 0\<rparr>"

record status_line =
  sl_icon :: "icon option"
  sl_text :: string
  sl_kind :: string
  sl_persist :: bool

record pause =
  p_paused :: bool
  p_since :: int

record hist_entry =
  hi_at :: int
  hi_name :: string
  hi_status :: string
  hi_message :: string
  hi_key :: "string option"
  hi_params :: "params option"
  hi_dirs :: "string list"
  hi_backupId :: string
  hi_useVSS :: bool

text \<open>\<open>runs\<close> is \<open>runsRef.current\<close>, an object: its values in the order their keys came.\<close>

record bk =
  runs :: "run list"
  focus :: "string option"
  pending :: "string list"
  progress :: int
  activeName :: string
  pauseState :: pause
  stopRequested :: bool
  running :: bool
  curFile :: string
  samples :: "sample list"
  stats :: bstats
  status :: "status_line option"
  history :: "hist_entry list"

definition bk0 :: bk where
  "bk0 = \<lparr>runs = [], focus = None, pending = [], progress = 0, activeName = [],
     pauseState = \<lparr>p_paused = False, p_since = 0\<rparr>, stopRequested = False, running = False, curFile = [],
     samples = [], stats = EMPTY_BACKUP_STATS, status = None, history = []\<rparr>"

section \<open>The helpers of the handlers\<close>

definition find_run :: "bk \<Rightarrow> string \<Rightarrow> run option" where
  "find_run st i = List.find (\<lambda>r. r_id r = i) (runs st)"

definition new_run :: "int \<Rightarrow> string \<Rightarrow> run" where
  "new_run now i = \<lparr>r_id = i, r_name = [], r_percent = 0, r_message = [], r_queued = False,
     r_paused = False, r_since = 0, r_started = now, r_stop = False\<rparr>"

definition updateRun :: "int \<Rightarrow> string \<Rightarrow> (run \<Rightarrow> run) \<Rightarrow> bk \<Rightarrow> bk" where
  "updateRun now i patch st =
     (if find_run st i \<noteq> None
      then st\<lparr>runs := map (\<lambda>r. if r_id r = i then patch r else r) (runs st)\<rparr>
      else st\<lparr>runs := runs st @ [patch (new_run now i)]\<rparr>)"

definition removeRun :: "string \<Rightarrow> bk \<Rightarrow> bk" where
  "removeRun i st = st\<lparr>runs := filter (\<lambda>r. r_id r \<noteq> i) (runs st)\<rparr>"

definition focusOn :: "int \<Rightarrow> string \<Rightarrow> bk \<Rightarrow> bk" where
  "focusOn now i st =
     (let r = (case find_run st i of Some r \<Rightarrow> r | None \<Rightarrow> new_run 0 i)
      in st\<lparr>focus := Some i,
            samples := [],
            stats := EMPTY_BACKUP_STATS\<lparr>bs_startTime := Some (if r_started r \<noteq> 0 then r_started r else now)\<rparr>,
            curFile := [],
            progress := r_percent r,
            activeName := r_name r,
            pauseState := \<lparr>p_paused = r_paused r, p_since = r_since r\<rparr>,
            stopRequested := r_stop r,
            running := True\<rparr>)"

definition isOtherRun :: "string \<Rightarrow> bk \<Rightarrow> bool" where
  "isOtherRun i st \<longleftrightarrow> i \<noteq> [] \<and> focus st \<noteq> None \<and> focus st \<noteq> Some i"

definition unwait :: "string \<Rightarrow> bk \<Rightarrow> bk" where
  "unwait name st = (if name = [] then st else st\<lparr>pending := filter (\<lambda>n. n \<noteq> name) (pending st)\<rparr>)"

definition enqueue :: "string \<Rightarrow> bk \<Rightarrow> bk" where
  "enqueue name st = (if name \<in> set (pending st) then st else st\<lparr>pending := pending st @ [name]\<rparr>)"

definition say :: "icon option \<Rightarrow> string \<Rightarrow> string \<Rightarrow> bool \<Rightarrow> bk \<Rightarrow> bk" where
  "say ic msg kind keep st = st\<lparr>status := Some \<lparr>sl_icon = ic, sl_text = msg, sl_kind = kind, sl_persist = keep\<rparr>\<rparr>"

text \<open>\<open>QUEUED_MSG_RE\<close>: "Queued: name - waiting for what to finish...", with an em dash.\<close>

definition em_dash :: string where
  "em_dash = [CHR 0xE2, CHR 0x80, CHR 0x94]"

definition queued_name :: "string \<Rightarrow> string option" where
  "queued_name msg =
     (case strip_prefix ''Queued: '' msg of
        None \<Rightarrow> None
      | Some r \<Rightarrow> (case strip_suffix '' to finish...'' r of
          None \<Rightarrow> None
        | Some r' \<Rightarrow>
            if no_line_end r'
            then map_option fst (split_last ('' '' @ em_dash @ '' waiting for '') r' (length r'))
            else None))"

section \<open>The events\<close>

record progress_event =
  pe_run :: string
  pe_name :: string
  pe_percent :: rat
  pe_message :: string

definition on_queued :: "int \<Rightarrow> progress_event \<Rightarrow> string \<Rightarrow> bk \<Rightarrow> bk" where
  "on_queued now d name st =
     (let st = enqueue name st
      in if pe_run d \<noteq> []
         then updateRun now (pe_run d) (\<lambda>r. r\<lparr>r_name := name, r_queued := True, r_percent := 0, r_message := pe_message d\<rparr>) st
         else st)"

text \<open>The part of the handler that writes the card.\<close>

definition card_progress :: "int \<Rightarrow> progress_event \<Rightarrow> int \<Rightarrow> bk \<Rightarrow> bk" where
  "card_progress now d percent st =
     (let st = say None (pe_message d) ''info'' True (st\<lparr>progress := percent\<rparr>);
          st = (if pe_name d \<noteq> [] then st\<lparr>activeName := pe_name d\<rparr> else st);
          prev = stats st;
          began = (case bs_startTime prev of Some t \<Rightarrow> if t \<noteq> 0 then t else now | None \<Rightarrow> now)
      in st\<lparr>running := True,
            stats := prev\<lparr>bs_startTime := Some began, bs_lastUpdate := Some now, bs_lastPercent := percent\<rparr>\<rparr>)"

definition progress_name :: "progress_event \<Rightarrow> bk \<Rightarrow> string" where
  "progress_name d st =
     (if pe_name d \<noteq> [] then pe_name d
      else case find_run st (pe_run d) of Some r \<Rightarrow> r_name r | None \<Rightarrow> [])"

definition line_progress :: "int \<Rightarrow> progress_event \<Rightarrow> int \<Rightarrow> bk \<Rightarrow> bk" where
  "line_progress now d percent st =
     (let name = progress_name d st;
          starts = (case find_run st (pe_run d) of Some r \<Rightarrow> r_queued r | None \<Rightarrow> True)
      in updateRun now (pe_run d) (\<lambda>r. r\<lparr>r_name := name, r_percent := percent, r_message := pe_message d, r_queued := False\<rparr>)
           (if starts then unwait name st else st))"

text \<open>Whether the card follows a run that is listed and not waiting.\<close>

definition follows :: "bk \<Rightarrow> bool" where
  "follows st \<longleftrightarrow>
     (case focus st of
        None \<Rightarrow> False
      | Some f \<Rightarrow> (case find_run st f of Some r \<Rightarrow> \<not> r_queued r | None \<Rightarrow> False))"

definition run_progress :: "int \<Rightarrow> progress_event \<Rightarrow> int \<Rightarrow> bk \<Rightarrow> bk" where
  "run_progress now d percent st =
     (let st = line_progress now d percent st
      in if follows st then st else focusOn now (pe_run d) st)"

definition on_progress :: "int \<Rightarrow> progress_event \<Rightarrow> bk \<Rightarrow> bk" where
  "on_progress now d st =
     (case queued_name (pe_message d) of
        Some name \<Rightarrow> on_queued now d name st
      | None \<Rightarrow>
          (let percent = math_round (pe_percent d)
           in if pe_run d = [] then card_progress now d percent st
              else (let st = run_progress now d percent st
                    in if isOtherRun (pe_run d) st then st else card_progress now d percent st)))"

record file_event =
  fe_run :: string
  fe_path :: string

definition on_file :: "file_event \<Rightarrow> bk \<Rightarrow> bk" where
  "on_file d st = (if isOtherRun (fe_run d) st then st else st\<lparr>curFile := fe_path d\<rparr>)"

record paused_event =
  ae_run :: string
  ae_paused :: bool
  ae_since :: int

definition on_paused :: "int \<Rightarrow> paused_event \<Rightarrow> bk \<Rightarrow> bk" where
  "on_paused now d st =
     (let st = (if ae_run d \<noteq> [] \<and> find_run st (ae_run d) \<noteq> None
                then updateRun now (ae_run d) (\<lambda>r. r\<lparr>r_paused := ae_paused d, r_since := ae_since d\<rparr>) st else st)
      in if isOtherRun (ae_run d) st then st
         else (let st = st\<lparr>pauseState := \<lparr>p_paused = ae_paused d, p_since = ae_since d\<rparr>\<rparr>
               in if ae_paused d then st else st\<lparr>samples := []\<rparr>))"

text \<open>The answer of \<open>GetBackupRuns\<close> when a window opens or reloads.\<close>

record listed_run =
  lr_id :: string
  lr_name :: string
  lr_queued :: bool
  lr_paused :: bool
  lr_since :: int
  lr_started :: int

definition take_listed :: "int \<Rightarrow> listed_run \<Rightarrow> bk \<Rightarrow> bk" where
  "take_listed now l st =
     (let st = updateRun now (lr_id l) (\<lambda>r. r\<lparr>r_name := lr_name l, r_queued := lr_queued l, r_paused := lr_paused l,
            r_since := lr_since l, r_started := if lr_started l \<noteq> 0 then lr_started l else now\<rparr>) st
      in if lr_queued l then enqueue (lr_name l) st else st)"

definition on_runs :: "int \<Rightarrow> listed_run list \<Rightarrow> bk \<Rightarrow> bk" where
  "on_runs now ls st =
     (let st = fold (take_listed now) ls st
      in case List.find (\<lambda>l. \<not> lr_queued l) ls of
           Some l \<Rightarrow> if focus st = None then focusOn now (lr_id l) st else st
         | None \<Rightarrow> st)"

text \<open>The live figures. A figure the event does not carry is 0 or the empty string, as the handler
  reads it; \<open>phase\<close> and \<open>sentBytes\<close> are told apart from missing ones.\<close>

record stats_event =
  se_run :: string
  se_bytesDone :: int
  se_bytesTotal :: int
  se_newChunks :: int
  se_reusedChunks :: int
  se_failedChunks :: int
  se_currentDir :: string
  se_filesDone :: int
  se_filesTotal :: int
  se_uploadedBytes :: int
  se_sentBytes :: "int option"
  se_phase :: "string option"
  se_readReason :: string
  se_changeMode :: string
  se_kind :: string
  se_blankChunks :: int
  se_disk :: string
  se_diskModel :: string
  se_diskNo :: int
  se_diskCount :: int
  se_diskBytes :: int
  se_diskDone :: int
  se_partition :: string
  se_unreadable :: int
  se_readDone :: int
  se_readTotal :: int
  se_retryAt :: int
  se_attempt :: int
  se_attempts :: int

definition sent_of :: "stats_event \<Rightarrow> int" where
  "sent_of d = (case se_sentBytes d of Some n \<Rightarrow> n | None \<Rightarrow> 0)"

text \<open>The samples kept: three minutes of them.\<close>

definition push_sample :: "int \<Rightarrow> stats_event \<Rightarrow> sample list \<Rightarrow> sample list" where
  "push_sample now d ss =
     dropWhile (\<lambda>s. now - sm_t s > 180000)
       (ss @ [\<lparr>sm_t = now, sm_bytes = se_bytesDone d, sm_read = se_readDone d, sm_files = se_filesDone d,
               sm_uploaded = se_uploadedBytes d, sm_sent = sent_of d\<rparr>])"

definition or_average :: "rat option \<Rightarrow> int \<Rightarrow> rat \<Rightarrow> rat" where
  "or_average rate amount elapsed =
     (case rate of Some r \<Rightarrow> r | None \<Rightarrow> if elapsed > 0 then of_int amount / elapsed else 0)"

text \<open>The forecast: the longer of the ones by bytes and by files.\<close>

definition forecast :: "rat \<Rightarrow> int \<Rightarrow> int \<Rightarrow> rat \<Rightarrow> int \<Rightarrow> int \<Rightarrow> rat option" where
  "forecast byteRate etaDone etaTotal fileRate filesDone filesTotal =
     (let candidates = (if byteRate > 0 \<and> etaTotal > etaDone then [of_int (etaTotal - etaDone) / byteRate] else [])
            @ (if fileRate > 0 \<and> filesTotal > filesDone then [of_int (filesTotal - filesDone) / fileRate] else [])
      in if candidates \<noteq> [] then Some (of_int (math_round (Max (set candidates))))
         else if etaTotal > 0 \<and> etaDone \<ge> etaTotal then Some 0 else None)"

definition stats_eta :: "int \<Rightarrow> stats_event \<Rightarrow> sample list \<Rightarrow> rat \<Rightarrow> rat option" where
  "stats_eta now d ss elapsed =
     (let byRead = se_readTotal d > 0;
          etaDone = (if byRead then se_readDone d else se_bytesDone d);
          etaTotal = (if byRead then se_readTotal d else se_bytesTotal d);
          byteRate = or_average (windowRate ss (if byRead then sm_read else sm_bytes) 120000 now) etaDone elapsed;
          fileRate = or_average (windowRate ss sm_files 120000 now) (se_filesDone d) elapsed
      in forecast byteRate etaDone etaTotal fileRate (se_filesDone d) (se_filesTotal d))"

definition new_stats :: "int \<Rightarrow> stats_event \<Rightarrow> sample list \<Rightarrow> bstats \<Rightarrow> bstats" where
  "new_stats now d ss prev =
     (let startTime = (case bs_startTime prev of Some t \<Rightarrow> if t \<noteq> 0 then t else now | None \<Rightarrow> now);
          elapsed = of_int (now - startTime) / 1000 :: rat;
          filesRate = windowRate ss sm_files 10000 now;
          uploadRate = windowRate ss (if se_sentBytes d \<noteq> None then sm_sent else sm_uploaded) 10000 now;
          etaHold = holdEta (bs_etaHold prev) (stats_eta now d ss elapsed) now [] ETA_HOLD_MS
      in prev\<lparr>bs_startTime := Some startTime, bs_lastUpdate := Some now,
            bs_bytesDone := se_bytesDone d, bs_bytesTotal := se_bytesTotal d,
            bs_newChunks := se_newChunks d, bs_reusedChunks := se_reusedChunks d,
            bs_failedChunks := se_failedChunks d, bs_currentDir := se_currentDir d,
            bs_filesDone := se_filesDone d, bs_filesTotal := se_filesTotal d,
            bs_uploadedBytes := se_uploadedBytes d, bs_sentBytes := sent_of d,
            bs_phase := (case se_phase d of None \<Rightarrow> [] | Some ph \<Rightarrow> if ph \<noteq> [] then ph else bs_phase prev),
            bs_readReason := se_readReason d, bs_changeMode := se_changeMode d,
            bs_hasDetail := se_phase d \<noteq> None, bs_kind := se_kind d, bs_blankChunks := se_blankChunks d,
            bs_disk := se_disk d, bs_diskModel := se_diskModel d, bs_diskNo := se_diskNo d,
            bs_diskCount := se_diskCount d, bs_diskBytes := se_diskBytes d, bs_diskDone := se_diskDone d,
            bs_partition := se_partition d, bs_unreadable := se_unreadable d,
            bs_readDone := se_readDone d, bs_readTotal := se_readTotal d, bs_retryAt := se_retryAt d,
            bs_attempt := se_attempt d, bs_attempts := se_attempts d,
            bs_speed := or_average (windowRate ss sm_bytes 10000 now) (se_bytesDone d) elapsed,
            bs_filesRate := (if filesRate \<noteq> None then filesRate else bs_filesRate prev),
            bs_uploadRate := (if uploadRate \<noteq> None then uploadRate else bs_uploadRate prev),
            bs_eta := h_eta etaHold, bs_etaHold := Some etaHold\<rparr>)"

definition on_stats :: "int \<Rightarrow> stats_event \<Rightarrow> bk \<Rightarrow> bk" where
  "on_stats now d st =
     (if isOtherRun (se_run d) st then st
      else let ss = push_sample now d (if se_phase d = Some ''retry_wait'' then [] else samples st)
           in st\<lparr>samples := ss, stats := new_stats now d ss (stats st)\<rparr>)"

text \<open>The end of a run. \<open>closed\<close> holds what the handler closed over when it was registered.\<close>

record closed =
  cl_backupId :: string
  cl_hostname :: string
  cl_backupDirs :: string
  cl_useVSS :: bool

record complete_event =
  ce_run :: string
  ce_name :: string
  ce_success :: bool
  ce_entry :: entry

definition end_icon :: "complete_event \<Rightarrow> icon option" where
  "end_icon d = Some (if ce_success d then Tick else Cross)"

definition end_kind :: "complete_event \<Rightarrow> string" where
  "end_kind d = (if ce_success d then ''success'' else ''error'')"

definition end_entry :: "int \<Rightarrow> closed \<Rightarrow> complete_event \<Rightarrow> hist_entry" where
  "end_entry now c d =
     (let bid = (if cl_backupId c \<noteq> [] then cl_backupId c else cl_hostname c)
      in \<lparr>hi_at = now, hi_name = ''Backup '' @ bid,
          hi_status = (if ce_success d then ''success''
             else if e_key (ce_entry d) = Some ''logBackupCancelled'' then ''cancelled'' else ''failed''),
          hi_message = e_message (ce_entry d), hi_key = e_key (ce_entry d), hi_params = e_params (ce_entry d),
          hi_dirs = filter (\<lambda>d. d \<noteq> []) (map trim (split_on newline (cl_backupDirs c))),
          hi_backupId = bid, hi_useVSS = cl_useVSS c\<rparr>)"

definition clear_card :: "complete_event \<Rightarrow> bk \<Rightarrow> bk" where
  "clear_card d st =
     st\<lparr>progress := if ce_success d then 100 else 0, running := False, curFile := [], activeName := [],
        stats := EMPTY_BACKUP_STATS, samples := [], stopRequested := False,
        pauseState := \<lparr>p_paused = False, p_since = 0\<rparr>\<rparr>"

definition running_runs :: "bk \<Rightarrow> run list" where
  "running_runs st = sort_key r_started (filter (\<lambda>r. \<not> r_queued r) (runs st))"

definition last_end :: "(entry \<Rightarrow> string) \<Rightarrow> closed \<Rightarrow> int \<Rightarrow> complete_event \<Rightarrow> bk \<Rightarrow> bk" where
  "last_end loc c now d st =
     (let st = say (end_icon d) (loc (ce_entry d)) (end_kind d) False (clear_card d st)
      in st\<lparr>history := take 20 (end_entry now c d # history st)\<rparr>)"

definition ended_name :: "complete_event \<Rightarrow> bk \<Rightarrow> string" where
  "ended_name d st =
     (if ce_name d \<noteq> [] then ce_name d
      else case find_run st (ce_run d) of Some r \<Rightarrow> r_name r | None \<Rightarrow> [])"

definition ended_lists :: "complete_event \<Rightarrow> bk \<Rightarrow> bk" where
  "ended_lists d st = removeRun (ce_run d) (unwait (ended_name d st) st)"

definition on_complete :: "(entry \<Rightarrow> string) \<Rightarrow> closed \<Rightarrow> int \<Rightarrow> complete_event \<Rightarrow> bk \<Rightarrow> bk" where
  "on_complete loc c now d st =
     (if ce_run d = [] then last_end loc c now d (st\<lparr>pending := drop 1 (pending st)\<rparr>)
      else
        let name = ended_name d st;
            st = ended_lists d st;
            said = (if name \<noteq> [] then name @ '': '' else []) @ loc (ce_entry d)
        in if isOtherRun (ce_run d) st then say (end_icon d) said (end_kind d) False st
           else case running_runs st of
                  r # _ \<Rightarrow> say (end_icon d) said (end_kind d) False (focusOn now (r_id r) st)
                | [] \<Rightarrow> last_end loc c now d (st\<lparr>focus := None\<rparr>))"

section \<open>Stop, pause and the switcher of the card\<close>

text \<open>A stop or a pause asks the backend first; what follows the answer is a step of its own, with
  the run the question was about.\<close>

definition stop_answered :: "int \<Rightarrow> string \<Rightarrow> string \<Rightarrow> bk \<Rightarrow> bk" where
  "stop_answered now i said st =
     (let st = (if find_run st i \<noteq> None then updateRun now i (\<lambda>r. r\<lparr>r_stop := True\<rparr>) st else st)
      in say (Some Stopped) said ''info'' False (st\<lparr>stopRequested := True\<rparr>))"

definition other_stop_answered :: "int \<Rightarrow> run \<Rightarrow> string \<Rightarrow> bk \<Rightarrow> bk" where
  "other_stop_answered now r said st =
     (let st = (if find_run st (r_id r) \<noteq> None then updateRun now (r_id r) (\<lambda>r. r\<lparr>r_stop := True\<rparr>) st else st)
      in say (Some Stopped) (r_name r @ '': '' @ said) ''info'' False st)"

definition run_pause_answered :: "int \<Rightarrow> string \<Rightarrow> pause \<Rightarrow> bk \<Rightarrow> bk" where
  "run_pause_answered now i p st =
     (if find_run st i \<noteq> None
      then updateRun now i (\<lambda>r. r\<lparr>r_paused := p_paused p, r_since := p_since p\<rparr>) st else st)"

definition pause_answered :: "int \<Rightarrow> string \<Rightarrow> pause \<Rightarrow> bk \<Rightarrow> bk" where
  "pause_answered now i p st = (run_pause_answered now i p st)\<lparr>pauseState := p\<rparr>"

definition ask_failed :: "string \<Rightarrow> bk \<Rightarrow> bk" where
  "ask_failed err st = say (Some Cross) err ''error'' False st"

text \<open>What a restore says moves names on and off the same waiting list; a start of a one-off backup sets the card ahead of
  the first progress, and takes it back when the start fails.\<close>

definition restore_said :: "string \<Rightarrow> string \<Rightarrow> bk \<Rightarrow> bk" where
  "restore_said message name st =
     (case queued_name message of
        Some waiting \<Rightarrow> enqueue waiting st
      | None \<Rightarrow> say None message ''info'' True (if name \<noteq> [] then unwait name st else st))"

definition one_off_starts :: "string \<Rightarrow> bk \<Rightarrow> bk" where
  "one_off_starts said st = (say None said ''info'' False st)\<lparr>progress := 5, running := True\<rparr>"

definition split_falls_back :: "string \<Rightarrow> bk \<Rightarrow> bk" where
  "split_falls_back said st = (say None said ''info'' False st)\<lparr>progress := 5\<rparr>"

definition one_off_failed :: "bk \<Rightarrow> bk" where
  "one_off_failed st = st\<lparr>progress := 0, running := False\<rparr>"

text \<open>The Start button of a one-off backup.\<close>

definition start_enabled :: "bk \<Rightarrow> bool" where
  "start_enabled st \<longleftrightarrow> \<not> (running st \<or> 0 < progress st \<and> progress st < 100)"

text \<open>The lines of the other runs and of the waiting ones, as the panels list them.\<close>

definition other_runs :: "bk \<Rightarrow> run list" where
  "other_runs st = filter (\<lambda>r. Some (r_id r) \<noteq> focus st) (running_runs st)"

definition waiting_run :: "bk \<Rightarrow> string \<Rightarrow> run option" where
  "waiting_run st name = List.find (\<lambda>r. r_queued r \<and> r_name r = name) (runs st)"

section \<open>Runs of the page\<close>

text \<open>One event and what it does. \<open>ShowRun\<close> is the switcher of the card, which offers only the runs
  that are going on; an answer to a stop or a pause comes back for the run it was asked for.\<close>

datatype bk_event =
    Progress progress_event | File file_event | Paused paused_event | Listed "listed_run list"
  | Stats stats_event | Completed complete_event | ShowRun string | StopAnswer string string
  | OtherStopAnswer run string | PauseAnswer string pause | OtherPauseAnswer string pause | AskFailed string
  | RestoreSaid string string | OneOffStarts string | SplitFallsBack string | OneOffFailed

fun on_event :: "(entry \<Rightarrow> string) \<Rightarrow> closed \<Rightarrow> int \<Rightarrow> bk_event \<Rightarrow> bk \<Rightarrow> bk" where
  "on_event loc c now (Progress d) st = on_progress now d st"
| "on_event loc c now (File d) st = on_file d st"
| "on_event loc c now (Paused d) st = on_paused now d st"
| "on_event loc c now (Listed ls) st = on_runs now ls st"
| "on_event loc c now (Stats d) st = on_stats now d st"
| "on_event loc c now (Completed d) st = on_complete loc c now d st"
| "on_event loc c now (ShowRun i) st = focusOn now i st"
| "on_event loc c now (StopAnswer i said) st = stop_answered now i said st"
| "on_event loc c now (OtherStopAnswer r said) st = other_stop_answered now r said st"
| "on_event loc c now (PauseAnswer i p) st = pause_answered now i p st"
| "on_event loc c now (OtherPauseAnswer i p) st = run_pause_answered now i p st"
| "on_event loc c now (AskFailed err) st = ask_failed err st"
| "on_event loc c now (RestoreSaid message name) st = restore_said message name st"
| "on_event loc c now (OneOffStarts said) st = one_off_starts said st"
| "on_event loc c now (SplitFallsBack said) st = split_falls_back said st"
| "on_event loc c now OneOffFailed st = one_off_failed st"

inductive bk_step :: "bk \<Rightarrow> bk_event \<Rightarrow> bk \<Rightarrow> bool" where
  event: "(\<forall>i. ev = ShowRun i \<longrightarrow> i \<in> r_id ` set (running_runs st)) \<Longrightarrow> (\<forall>said. ev = OneOffStarts said \<longrightarrow> start_enabled st) \<Longrightarrow> bk_step st ev (on_event loc c now ev st)"

inductive bk_reach :: "bk \<Rightarrow> bool" where
  start: "bk_reach bk0"
| step: "bk_reach st \<Longrightarrow> bk_step st ev st' \<Longrightarrow> bk_reach st'"

inductive_cases bk_stepE: "bk_step st ev st'"

section \<open>The runs stay in order\<close>

text \<open>Each run is listed once, the card follows a run that is listed, and a name waits once.\<close>

definition bk_ok :: "bk \<Rightarrow> bool" where
  "bk_ok st \<longleftrightarrow> distinct (map r_id (runs st)) \<and> distinct (pending st) \<and>
     (\<forall>i. focus st = Some i \<longrightarrow> i \<in> r_id ` set (runs st))"

named_theorems bk_ops \<open>what each helper does to each field\<close>

lemma find_run_None: "find_run st i = None \<longleftrightarrow> i \<notin> r_id ` set (runs st)"
  by (auto simp: find_run_def find_None_iff)

lemma find_run_Some: "find_run st i = Some r \<Longrightarrow> r \<in> set (runs st) \<and> r_id r = i"
  by (auto simp: find_run_def dest: find_Some_mem)

lemma find_distinct: "distinct (map r_id rs) \<Longrightarrow> r \<in> set rs \<Longrightarrow> List.find (\<lambda>x. r_id x = r_id r) rs = Some r"
  by (induction rs) auto

lemma find_run_distinct: "bk_ok st \<Longrightarrow> r \<in> set (runs st) \<Longrightarrow> find_run st (r_id r) = Some r"
  unfolding bk_ok_def find_run_def by (blast intro: find_distinct)

lemma updateRun_card [bk_ops, simp]:
  "focus (updateRun now i f st) = focus st" "pending (updateRun now i f st) = pending st"
  "progress (updateRun now i f st) = progress st" "activeName (updateRun now i f st) = activeName st"
  "pauseState (updateRun now i f st) = pauseState st" "stopRequested (updateRun now i f st) = stopRequested st"
  "running (updateRun now i f st) = running st" "curFile (updateRun now i f st) = curFile st"
  "samples (updateRun now i f st) = samples st" "stats (updateRun now i f st) = stats st"
  "status (updateRun now i f st) = status st" "history (updateRun now i f st) = history st"
  by (simp_all add: updateRun_def)

lemma removeRun_card [bk_ops, simp]:
  "focus (removeRun i st) = focus st" "pending (removeRun i st) = pending st"
  "progress (removeRun i st) = progress st" "activeName (removeRun i st) = activeName st"
  "pauseState (removeRun i st) = pauseState st" "stopRequested (removeRun i st) = stopRequested st"
  "running (removeRun i st) = running st" "curFile (removeRun i st) = curFile st"
  "samples (removeRun i st) = samples st" "stats (removeRun i st) = stats st"
  "runs (removeRun i st) = filter (\<lambda>r. r_id r \<noteq> i) (runs st)"
  by (simp_all add: removeRun_def)

lemma unwait_card [bk_ops, simp]:
  "focus (unwait n st) = focus st" "runs (unwait n st) = runs st"
  "progress (unwait n st) = progress st" "activeName (unwait n st) = activeName st"
  "pauseState (unwait n st) = pauseState st" "stopRequested (unwait n st) = stopRequested st"
  "running (unwait n st) = running st" "curFile (unwait n st) = curFile st"
  "samples (unwait n st) = samples st" "stats (unwait n st) = stats st"
  "find_run (unwait n st) i = find_run st i"
  by (simp_all add: unwait_def find_run_def)

lemma enqueue_card [bk_ops, simp]:
  "focus (enqueue n st) = focus st" "runs (enqueue n st) = runs st"
  "progress (enqueue n st) = progress st" "activeName (enqueue n st) = activeName st"
  "pauseState (enqueue n st) = pauseState st" "stopRequested (enqueue n st) = stopRequested st"
  "running (enqueue n st) = running st" "curFile (enqueue n st) = curFile st"
  "samples (enqueue n st) = samples st" "stats (enqueue n st) = stats st"
  by (simp_all add: enqueue_def)

lemma say_card [bk_ops, simp]:
  "focus (say a b c d st) = focus st" "runs (say a b c d st) = runs st" "pending (say a b c d st) = pending st"
  "progress (say a b c d st) = progress st" "activeName (say a b c d st) = activeName st"
  "pauseState (say a b c d st) = pauseState st" "stopRequested (say a b c d st) = stopRequested st"
  "running (say a b c d st) = running st" "curFile (say a b c d st) = curFile st"
  "samples (say a b c d st) = samples st" "stats (say a b c d st) = stats st"
  by (simp_all add: say_def)

lemma focusOn_lists [bk_ops, simp]:
  "focus (focusOn now i st) = Some i" "runs (focusOn now i st) = runs st" "pending (focusOn now i st) = pending st"
  "running (focusOn now i st)"
  by (simp_all add: focusOn_def Let_def)

lemma card_progress_lists [bk_ops, simp]:
  "focus (card_progress now d p st) = focus st" "runs (card_progress now d p st) = runs st"
  "pending (card_progress now d p st) = pending st"
  by (simp_all add: card_progress_def Let_def)

lemma updateRun_ids:
  assumes "\<And>r. r_id (f r) = r_id r"
  shows "set (map r_id (runs (updateRun now i f st))) = insert i (set (map r_id (runs st)))"
    and "distinct (map r_id (runs st)) \<Longrightarrow> distinct (map r_id (runs (updateRun now i f st)))"
proof -
  have m: "map r_id (map (\<lambda>r. if r_id r = i then f r else r) rs) = map r_id rs" for rs
    using assms by simp
  have n: "r_id (f (new_run now i)) = i" by (simp add: assms new_run_def)
  have "i \<in> set (map r_id (runs st))" if "find_run st i \<noteq> None"
    using that by (auto simp: find_run_None)
  then show "set (map r_id (runs (updateRun now i f st))) = insert i (set (map r_id (runs st)))"
    unfolding updateRun_def by (cases "find_run st i = None") (simp_all add: m n insert_absorb del: map_map)
  show "distinct (map r_id (runs (updateRun now i f st)))" if "distinct (map r_id (runs st))"
    using that n m [of "runs st"] find_run_None [of st i] unfolding updateRun_def by (auto simp del: map_map)
qed

lemma updateRun_ok:
  assumes "\<And>r. r_id (f r) = r_id r" "bk_ok st"
  shows "bk_ok (updateRun now i f st)"
proof -
  have "r_id ` set (runs (updateRun now i f st)) = insert i (r_id ` set (runs st))"
    using updateRun_ids(1) [of f now i st, OF assms(1)] by simp
  then show ?thesis
    using assms updateRun_ids(2) [of f st now i] by (auto simp: bk_ok_def)
qed

lemma updateRun_mem:
  "(\<And>r. r_id (f r) = r_id r) \<Longrightarrow> i \<in> r_id ` set (runs (updateRun now i f st))"
  using updateRun_ids(1) [of f now i st] by auto

lemma unwait_ok: "bk_ok st \<Longrightarrow> bk_ok (unwait n st)"
  by (auto simp: bk_ok_def unwait_def)

lemma enqueue_ok: "bk_ok st \<Longrightarrow> bk_ok (enqueue n st)"
  by (auto simp: bk_ok_def enqueue_def)

lemma focusOn_ok: "bk_ok st \<Longrightarrow> i \<in> r_id ` set (runs st) \<Longrightarrow> bk_ok (focusOn now i st)"
  by (auto simp: bk_ok_def)

lemma bk_ok_card [simp]:
  "bk_ok (st\<lparr>pauseState := x\<rparr>) = bk_ok st" "bk_ok (st\<lparr>samples := ss\<rparr>) = bk_ok st"
  "bk_ok (st\<lparr>stopRequested := b\<rparr>) = bk_ok st" "bk_ok (st\<lparr>curFile := f\<rparr>) = bk_ok st"
  by (simp_all add: bk_ok_def)

lemma say_ok [simp]: "bk_ok (say a b c d st) = bk_ok st"
  by (simp add: bk_ok_def)

lemma card_progress_ok [simp]: "bk_ok (card_progress now d p st) = bk_ok st"
  by (simp add: bk_ok_def)

lemma restore_said_ok: "bk_ok st \<Longrightarrow> bk_ok (restore_said m n st)"
  by (simp add: restore_said_def enqueue_ok unwait_ok split: option.split)

lemma one_off_ok:
  "bk_ok (one_off_starts said st) = bk_ok st" "bk_ok (split_falls_back said st) = bk_ok st" "bk_ok (one_off_failed st) = bk_ok st"
  by (simp_all add: bk_ok_def one_off_starts_def split_falls_back_def one_off_failed_def)

lemma on_queued_ok: "bk_ok st \<Longrightarrow> bk_ok (on_queued now d name st)"
  by (simp add: on_queued_def Let_def updateRun_ok enqueue_ok)

lemma line_progress_ok: "bk_ok st \<Longrightarrow> bk_ok (line_progress now d percent st)"
  by (simp add: line_progress_def Let_def updateRun_ok unwait_ok)

lemma line_progress_mem: "pe_run d \<in> r_id ` set (runs (line_progress now d percent st))"
  by (simp add: line_progress_def Let_def updateRun_mem)

lemma run_progress_ok: "bk_ok st \<Longrightarrow> bk_ok (run_progress now d percent st)"
  by (simp add: run_progress_def Let_def line_progress_ok line_progress_mem focusOn_ok)

lemma on_progress_ok: "bk_ok st \<Longrightarrow> bk_ok (on_progress now d st)"
  by (simp add: on_progress_def Let_def on_queued_ok run_progress_ok split: option.split)

lemma on_file_ok: "bk_ok st \<Longrightarrow> bk_ok (on_file d st)"
  by (simp add: on_file_def bk_ok_def)

lemma on_paused_ok: "bk_ok st \<Longrightarrow> bk_ok (on_paused now d st)"
  by (simp add: on_paused_def Let_def updateRun_ok)

lemma take_listed_ok: "bk_ok st \<Longrightarrow> bk_ok (take_listed now l st)"
  by (simp add: take_listed_def Let_def updateRun_ok enqueue_ok)

lemma take_listed_ids:
  "r_id ` set (runs (take_listed now l st)) = insert (lr_id l) (r_id ` set (runs st))"
  unfolding take_listed_def Let_def
  using updateRun_ids(1) [of _ now "lr_id l" st] by simp

lemma fold_listed:
  "bk_ok st \<Longrightarrow> bk_ok (fold (take_listed now) ls st) \<and>
    r_id ` set (runs (fold (take_listed now) ls st)) = lr_id ` set ls \<union> r_id ` set (runs st)"
  by (induction ls arbitrary: st) (auto simp: take_listed_ok take_listed_ids)

lemma on_runs_ok:
  assumes "bk_ok st" shows "bk_ok (on_runs now ls st)"
  using fold_listed [OF assms, of now ls]
  by (auto simp: on_runs_def Let_def split: option.split intro!: focusOn_ok dest: find_Some_mem)

lemma on_stats_ok: "bk_ok st \<Longrightarrow> bk_ok (on_stats now d st)"
  by (simp add: on_stats_def Let_def bk_ok_def)

lemma removeRun_ok: "bk_ok st \<Longrightarrow> focus st \<noteq> Some i \<Longrightarrow> bk_ok (removeRun i st)"
  by (auto simp: bk_ok_def distinct_map intro: inj_on_subset)

lemma last_end_lists [simp]:
  "focus (last_end loc c now d st) = focus st" "runs (last_end loc c now d st) = runs st"
  "pending (last_end loc c now d st) = pending st" "\<not> running (last_end loc c now d st)"
  by (simp_all add: last_end_def clear_card_def Let_def say_def)

lemma set_running_runs: "set (running_runs st) = {r \<in> set (runs st). \<not> r_queued r}"
  by (simp add: running_runs_def)

lemma ended_lists_card [simp]:
  "focus (ended_lists d st) = focus st" "progress (ended_lists d st) = progress st"
  "activeName (ended_lists d st) = activeName st" "pauseState (ended_lists d st) = pauseState st"
  "stopRequested (ended_lists d st) = stopRequested st" "running (ended_lists d st) = running st"
  "curFile (ended_lists d st) = curFile st" "samples (ended_lists d st) = samples st"
  "stats (ended_lists d st) = stats st"
  "runs (ended_lists d st) = filter (\<lambda>r. r_id r \<noteq> ce_run d) (runs st)"
  by (simp_all add: ended_lists_def)

lemma ended_lists_distinct:
  "bk_ok st \<Longrightarrow> distinct (map r_id (runs (ended_lists d st))) \<and> distinct (pending (ended_lists d st))"
  by (auto simp: ended_lists_def bk_ok_def unwait_def distinct_map intro: inj_on_subset)

lemma on_complete_ok:
  assumes "bk_ok st" shows "bk_ok (on_complete loc c now d st)"
proof (cases "ce_run d = []")
  case True
  with assms show ?thesis by (auto simp: on_complete_def bk_ok_def)
next
  case False
  note d1 = ended_lists_distinct [OF assms, of d]
  show ?thesis
  proof (cases "isOtherRun (ce_run d) (ended_lists d st)")
    case True
    then have "focus st \<noteq> Some (ce_run d)" by (simp add: isOtherRun_def)
    then have "bk_ok (ended_lists d st)" by (simp add: ended_lists_def removeRun_ok unwait_ok assms)
    with True False show ?thesis by (simp add: on_complete_def Let_def)
  next
    case other: False
    show ?thesis
    proof (cases "running_runs (ended_lists d st)")
      case Nil
      with d1 other False show ?thesis by (simp add: on_complete_def Let_def bk_ok_def)
    next
      case (Cons r rs)
      then have "r \<in> set (runs (ended_lists d st))" using set_running_runs [of "ended_lists d st"] by auto
      with d1 other Cons False show ?thesis by (simp add: on_complete_def Let_def bk_ok_def)
    qed
  qed
qed

lemma on_event_ok:
  assumes "bk_ok st" "\<forall>i. ev = ShowRun i \<longrightarrow> i \<in> r_id ` set (running_runs st)"
  shows "bk_ok (on_event loc c now ev st)"
proof (cases ev)
  case (ShowRun i)
  with assms show ?thesis by (auto simp: set_running_runs intro!: focusOn_ok)
next
  case (StopAnswer i said)
  then show ?thesis using assms(1) by (simp add: stop_answered_def Let_def updateRun_ok)
next
  case (OtherStopAnswer r said)
  then show ?thesis using assms(1) by (simp add: other_stop_answered_def Let_def updateRun_ok)
next
  case (PauseAnswer i p)
  then show ?thesis using assms(1) by (simp add: pause_answered_def run_pause_answered_def updateRun_ok)
next
  case (OtherPauseAnswer i p)
  then show ?thesis using assms(1) by (simp add: run_pause_answered_def updateRun_ok)
qed (use assms(1) in \<open>simp_all add: on_progress_ok on_file_ok on_paused_ok on_runs_ok on_stats_ok on_complete_ok ask_failed_def
     restore_said_ok one_off_ok\<close>)

text \<open>C8: whatever the backend reports and in whatever order, and whatever the user clicks: every
  run has one line, a name is on the waiting list once, and the card shows a run that is listed.\<close>
theorem bk_reach_ok: "bk_reach st \<Longrightarrow> bk_ok st"
proof (induction rule: bk_reach.induct)
  case start
  show ?case by (simp add: bk_ok_def bk0_def)
next
  case (step st ev st')
  from step.hyps(2) step.IH show ?case by (auto elim!: bk_stepE intro!: on_event_ok)
qed

theorem bk_reach_ok_witness:
  "bk_ok (on_event (\<lambda>e. []) \<lparr>cl_backupId = [], cl_hostname = [], cl_backupDirs = [], cl_useVSS = True\<rparr> 5
     (Progress \<lparr>pe_run = ''run-1'', pe_name = ''A'', pe_percent = 3, pe_message = ''m''\<rparr>) bk0)"
  by (rule bk_reach_ok, rule bk_reach.step [OF bk_reach.start], rule bk_step.event) simp_all

section \<open>Events of the other runs\<close>

fun event_run :: "bk_event \<Rightarrow> string" where
  "event_run (Progress d) = pe_run d"
| "event_run (File d) = fe_run d"
| "event_run (Paused d) = ae_run d"
| "event_run (Stats d) = se_run d"
| "event_run (Completed d) = ce_run d"
| "event_run _ = []"

definition same_card :: "bk \<Rightarrow> bk \<Rightarrow> bool" where
  "same_card st st' \<longleftrightarrow> focus st' = focus st \<and> progress st' = progress st \<and> activeName st' = activeName st \<and>
     pauseState st' = pauseState st \<and> stopRequested st' = stopRequested st \<and> running st' = running st \<and>
     curFile st' = curFile st \<and> samples st' = samples st \<and> stats st' = stats st \<and> history st' = history st"

lemma say_history [simp]: "history (say a b c d st) = history st"
  by (simp add: say_def)

lemma unwait_history [simp]: "history (unwait n st) = history st" "history (enqueue n st) = history st"
  "history (removeRun i st) = history st"
  by (simp_all add: unwait_def enqueue_def removeRun_def)

lemma find_run_updateRun:
  assumes "\<And>r. r_id (f r) = r_id r" "j \<noteq> i"
  shows "find_run (updateRun now i f st) j = find_run st j"
proof -
  have m: "List.find (\<lambda>r. r_id r = j) (map (\<lambda>r. if r_id r = i then f r else r) rs) = List.find (\<lambda>r. r_id r = j) rs" for rs
    using assms by (induction rs) auto
  have a: "List.find (\<lambda>r. r_id r = j) (rs @ [f (new_run now i)]) = List.find (\<lambda>r. r_id r = j) rs" for rs
    using assms by (induction rs) (auto simp: new_run_def)
  show ?thesis by (simp add: updateRun_def find_run_def m a)
qed

lemma find_run_removeRun: "j \<noteq> i \<Longrightarrow> find_run (removeRun i st) j = find_run st j"
proof -
  assume "j \<noteq> i"
  then have "List.find (\<lambda>r. r_id r = j) (filter (\<lambda>r. r_id r \<noteq> i) rs) = List.find (\<lambda>r. r_id r = j) rs" for rs
    by (induction rs) auto
  then show ?thesis by (simp add: find_run_def removeRun_def)
qed

lemma find_run_enqueue [simp]: "find_run (enqueue n st) i = find_run st i"
  "find_run (say a b c d st) i = find_run st i" "find_run (focusOn now j st) i = find_run st i"
  "find_run (card_progress now d' p st) i = find_run st i"
  by (simp_all add: find_run_def)

lemma isOtherRun_eq: "focus st' = focus st \<Longrightarrow> isOtherRun i st' = isOtherRun i st"
  by (simp add: isOtherRun_def)

text \<open>While the card shows a run that is going on, the events of every other run leave the card,
  its figures and its history alone, and the line of the shown run too.\<close>
theorem other_run_frame:
  assumes "focus st = Some f" "find_run st f = Some r" "\<not> r_queued r"
    "event_run ev \<noteq> []" "event_run ev \<noteq> f"
  shows "same_card st (on_event loc c now ev st) \<and> find_run (on_event loc c now ev st) f = Some r"
proof -
  have other: "isOtherRun i st'" if "focus st' = Some f" "i = event_run ev" for st' i
    using assms that by (auto simp: isOtherRun_def)
  show ?thesis
  proof (cases ev)
    case (Progress d)
    then have i: "pe_run d \<noteq> []" "f \<noteq> pe_run d" using assms by auto
    show ?thesis
    proof (cases "queued_name (pe_message d)")
      case None
      define st1 where "st1 = line_progress now d (math_round (pe_percent d)) st"
      have f1: "focus st1 = Some f" and r1: "find_run st1 f = Some r" and c1: "same_card st st1"
        using assms(1,2) i(2) by (simp_all add: st1_def line_progress_def Let_def same_card_def find_run_updateRun)
      have "run_progress now d (math_round (pe_percent d)) st = st1"
        using f1 r1 assms(3) unfolding run_progress_def Let_def st1_def [symmetric] by (simp add: follows_def)
      with None i f1 r1 c1 other [OF f1, of "pe_run d"] Progress show ?thesis
        by (simp add: on_progress_def Let_def)
    next
      case (Some name)
      with i assms(1,2) Progress show ?thesis
        by (simp add: on_progress_def on_queued_def Let_def same_card_def find_run_updateRun)
    qed
  next
    case (File d)
    with other [of st] assms(1,2) show ?thesis by (simp add: on_file_def same_card_def)
  next
    case (Paused d)
    define st1 where "st1 = (if ae_run d \<noteq> [] \<and> find_run st (ae_run d) \<noteq> None
                then updateRun now (ae_run d) (\<lambda>r. r\<lparr>r_paused := ae_paused d, r_since := ae_since d\<rparr>) st else st)"
    have st1: "focus st1 = Some f" "find_run st1 f = Some r" "same_card st st1"
      using assms Paused by (auto simp: st1_def same_card_def find_run_updateRun)
    then have "isOtherRun (ae_run d) st1" using other Paused by simp
    then have "on_paused now d st = st1"
      unfolding on_paused_def Let_def st1_def [symmetric] by simp
    with st1 Paused show ?thesis by simp
  next
    case (Stats d)
    with other [of st] assms(1,2) show ?thesis by (simp add: on_stats_def same_card_def)
  next
    case (Completed d)
    then have i: "ce_run d \<noteq> []" "f \<noteq> ce_run d" using assms by auto
    have "isOtherRun (ce_run d) (ended_lists d st)"
      using i assms(1) by (simp add: isOtherRun_def)
    moreover have "history (ended_lists d st) = history st" "find_run (ended_lists d st) f = find_run st f"
      using i by (simp_all add: ended_lists_def find_run_removeRun)
    ultimately show ?thesis
      using i assms(1,2) Completed by (simp add: on_complete_def Let_def same_card_def)
  qed (use assms in simp_all)
qed

text \<open>A page with two runs going on and the card on the first.\<close>

definition pg :: "string \<Rightarrow> string \<Rightarrow> bk_event" where
  "pg i n = Progress \<lparr>pe_run = i, pe_name = n, pe_percent = 3, pe_message = ''m''\<rparr>"

definition no_close :: closed where
  "no_close = \<lparr>cl_backupId = [], cl_hostname = [], cl_backupDirs = [], cl_useVSS = True\<rparr>"

definition play :: "bk_event list \<Rightarrow> bk \<Rightarrow> bk" where
  "play evs st = fold (on_event (\<lambda>e. []) no_close 5) evs st"

definition two_runs :: bk where
  "two_runs = play [pg ''run-1'' ''A'', pg ''run-2'' ''B''] bk0"

lemma two_runs_facts:
  "focus two_runs = Some ''run-1''" "map_option r_queued (find_run two_runs ''run-1'') = Some False"
  by code_simp+

lemma two_runs_ok: "bk_ok two_runs"
proof -
  have "distinct (map r_id (runs two_runs))" "distinct (pending two_runs)" "''run-1'' \<in> r_id ` set (runs two_runs)"
    by code_simp+
  then show ?thesis by (simp add: bk_ok_def two_runs_facts(1))
qed

theorem other_run_frame_witness:
  "same_card two_runs (on_event (\<lambda>e. []) no_close 9 (pg ''run-2'' ''B'') two_runs)"
proof -
  obtain r where r: "find_run two_runs ''run-1'' = Some r" "\<not> r_queued r"
    using two_runs_facts(2) by auto
  have e: "event_run (pg ''run-2'' ''B'') = ''run-2''" by (simp add: pg_def)
  show ?thesis
    using other_run_frame [OF two_runs_facts(1) r, of "pg ''run-2'' ''B''"] unfolding e by simp
qed

section \<open>The card tells the truth\<close>

text \<open>What the card shows of its run is what the run's own line says.\<close>

definition card_of :: "run \<Rightarrow> bk \<Rightarrow> bool" where
  "card_of r st \<longleftrightarrow> progress st = r_percent r \<and> activeName st = r_name r \<and>
     pauseState st = \<lparr>p_paused = r_paused r, p_since = r_since r\<rparr> \<and> stopRequested st = r_stop r"

definition card_true :: "bk \<Rightarrow> bool" where
  "card_true st \<longleftrightarrow> (\<forall>i r. focus st = Some i \<and> find_run st i = Some r \<longrightarrow> card_of r st)"

text \<open>Events with a run of their own, the run on the card not sent back to the waiting list, and
  answers that find the card on the run they are about.\<close>

fun timely :: "bk \<Rightarrow> bk_event \<Rightarrow> bool" where
  "timely st (Progress d) \<longleftrightarrow> pe_run d \<noteq> [] \<and> (queued_name (pe_message d) \<noteq> None \<longrightarrow> focus st \<noteq> Some (pe_run d))"
| "timely st (File d) \<longleftrightarrow> True"
| "timely st (Paused d) \<longleftrightarrow> ae_run d \<noteq> []"
| "timely st (Listed ls) \<longleftrightarrow> focus st \<notin> Some ` lr_id ` set ls"
| "timely st (Stats d) \<longleftrightarrow> True"
| "timely st (Completed d) \<longleftrightarrow> ce_run d \<noteq> []"
| "timely st (ShowRun i) \<longleftrightarrow> True"
| "timely st (StopAnswer i said) \<longleftrightarrow> focus st = Some i"
| "timely st (OtherStopAnswer r said) \<longleftrightarrow> focus st \<noteq> Some (r_id r)"
| "timely st (PauseAnswer i p) \<longleftrightarrow> focus st = Some i"
| "timely st (OtherPauseAnswer i p) \<longleftrightarrow> focus st \<noteq> Some i"
| "timely st (AskFailed err) \<longleftrightarrow> True"
| "timely st (RestoreSaid message name) \<longleftrightarrow> True"
| "timely st (OneOffStarts said) \<longleftrightarrow> focus st = None"
| "timely st (SplitFallsBack said) \<longleftrightarrow> focus st = None"
| "timely st OneOffFailed \<longleftrightarrow> focus st = None"

lemma card_of_keep [simp]:
  "card_of r (updateRun now i f st) = card_of r st" "card_of r (enqueue n st) = card_of r st"
  "card_of r (unwait n st) = card_of r st" "card_of r (removeRun i st) = card_of r st"
  "card_of r (say a b c d st) = card_of r st" "card_of r (st\<lparr>samples := ss\<rparr>) = card_of r st"
  "card_of r (st\<lparr>stats := b'\<rparr>) = card_of r st" "card_of r (st\<lparr>curFile := b''\<rparr>) = card_of r st"
  by (simp_all add: card_of_def)

lemma card_true_restore_said: "card_true st \<Longrightarrow> card_true (restore_said m n st)"
  by (auto simp: restore_said_def card_true_def card_of_def enqueue_def unwait_def say_def find_run_def split: option.split)

lemma card_true_one_off:
  assumes "focus st = None"
  shows "card_true (one_off_starts said st)" "card_true (split_falls_back said st)" "card_true (one_off_failed st)"
  using assms by (simp_all add: card_true_def one_off_starts_def split_falls_back_def one_off_failed_def)

lemma card_true_focusOn [simp]: "card_true (focusOn now i st)"
  by (auto simp: card_true_def card_of_def focusOn_def Let_def find_run_def)

lemma card_true_simps [simp]:
  "card_true (enqueue n st) = card_true st" "card_true (unwait n st) = card_true st"
  "card_true (say a b c d st) = card_true st" "card_true (st\<lparr>samples := ss\<rparr>) = card_true st"
  "card_true (st\<lparr>stats := b'\<rparr>) = card_true st" "card_true (st\<lparr>curFile := b''\<rparr>) = card_true st"
  by (simp_all add: card_true_def find_run_def)

lemma card_true_update_other:
  assumes "card_true st" "\<And>r. r_id (f r) = r_id r" "focus st \<noteq> Some i"
  shows "card_true (updateRun now i f st)"
  using assms(1,3) by (auto simp: card_true_def find_run_updateRun [OF assms(2)])

lemma find_run_update_same:
  assumes "\<And>r. r_id (f r) = r_id r"
  shows "find_run (updateRun now i f st) i = Some (f (case find_run st i of Some r \<Rightarrow> r | None \<Rightarrow> new_run now i))"
proof (cases "find_run st i")
  case None
  have "List.find (\<lambda>r. r_id r = i) rs = None \<Longrightarrow> List.find (\<lambda>r. r_id r = i) (rs @ [f (new_run now i)]) = Some (f (new_run now i))" for rs
    using assms by (induction rs) (auto simp: new_run_def split: if_splits)
  with None show ?thesis by (simp add: updateRun_def find_run_def)
next
  case (Some r)
  have "List.find (\<lambda>r. r_id r = i) rs = Some r \<Longrightarrow>
      List.find (\<lambda>r. r_id r = i) (map (\<lambda>r. if r_id r = i then f r else r) rs) = Some (f r)" for rs
    using assms by (induction rs) (auto split: if_splits)
  with Some show ?thesis by (simp add: updateRun_def find_run_def)
qed

lemma focus_found: "bk_ok st \<Longrightarrow> focus st = Some i \<Longrightarrow> \<exists>r. find_run st i = Some r"
  using find_run_None [of st i] by (auto simp: bk_ok_def)

lemma card_true_run_pause:
  assumes "bk_ok st" "card_true st"
  shows "card_true ((run_pause_answered now i p st)\<lparr>pauseState := p\<rparr>) \<or> focus st \<noteq> Some i"
proof (cases "focus st = Some i")
  case True
  with assms obtain r where r: "find_run st i = Some r" using focus_found by blast
  with True assms(2) have c: "card_of r st" by (simp add: card_true_def)
  have "find_run (run_pause_answered now i p st) i = Some (r\<lparr>r_paused := p_paused p, r_since := p_since p\<rparr>)"
    using r by (simp add: run_pause_answered_def find_run_update_same)
  with True c r show ?thesis
    by (auto simp: card_true_def card_of_def find_run_def run_pause_answered_def)
qed simp

lemma line_progress_run:
  "find_run (line_progress now d p st) (pe_run d) =
     Some ((case find_run st (pe_run d) of Some r \<Rightarrow> r | None \<Rightarrow> new_run now (pe_run d))
       \<lparr>r_name := progress_name d st, r_percent := p, r_message := pe_message d, r_queued := False\<rparr>)"
  by (simp add: line_progress_def Let_def find_run_update_same)

lemma line_progress_focus [simp]: "focus (line_progress now d p st) = focus st"
  by (simp add: line_progress_def Let_def)

lemma card_of_progress:
  assumes "r_percent r = p" "pe_name d \<noteq> [] \<longrightarrow> r_name r = pe_name d" "pe_name d = [] \<longrightarrow> activeName st = r_name r"
    "pauseState st = \<lparr>p_paused = r_paused r, p_since = r_since r\<rparr>" "stopRequested st = r_stop r"
  shows "card_of r (card_progress now d p st)"
  using assms by (simp add: card_of_def card_progress_def Let_def say_def)

lemma card_true_progress:
  assumes "bk_ok st" "card_true st" "pe_run d \<noteq> []" "queued_name (pe_message d) = None"
  shows "card_true (on_progress now d st)"
proof -
  define p where "p = math_round (pe_percent d)"
  define st1 where "st1 = line_progress now d p st"
  define r1 where "r1 = the (find_run st1 (pe_run d))"
  have r1: "find_run st1 (pe_run d) = Some r1"
    by (simp add: r1_def st1_def line_progress_run)
  have r1p: "r_percent r1 = p" and r1n: "r_name r1 = progress_name d st"
    by (simp_all add: r1_def st1_def line_progress_run)
  have eq: "on_progress now d st = (if isOtherRun (pe_run d) (run_progress now d p st) then run_progress now d p st
      else card_progress now d p (run_progress now d p st))"
    using assms(3,4) by (simp add: on_progress_def Let_def p_def)
  show ?thesis
  proof (cases "follows st1")
    case True
    then have rp: "run_progress now d p st = st1" by (simp add: run_progress_def Let_def st1_def)
    obtain f where f: "focus st = Some f" using True by (auto simp: follows_def st1_def split: option.splits)
    show ?thesis
    proof (cases "f = pe_run d")
      case False
      have "card_true st1" using assms(2) f False
        by (auto simp: st1_def line_progress_def Let_def intro!: card_true_update_other)
      with False f assms(3) show ?thesis by (simp add: eq rp isOtherRun_def st1_def)
    next
      case same: True
      obtain r where r: "find_run st f = Some r" using focus_found [OF assms(1) f] by blast
      then have c: "card_of r st" using assms(2) f by (simp add: card_true_def)
      have "card_of r1 (card_progress now d p st1)"
      proof (rule card_of_progress)
        show "pe_name d = [] \<longrightarrow> activeName st1 = r_name r1"
          using c r same by (simp add: r1n progress_name_def st1_def line_progress_def Let_def card_of_def)
      qed (use c r same r1p in \<open>simp_all add: r1n progress_name_def st1_def line_progress_def Let_def card_of_def
             r1_def find_run_update_same\<close>)
      with r1 f same show ?thesis by (simp add: eq rp isOtherRun_def st1_def card_true_def)
    qed
  next
    case False
    then have rp: "run_progress now d p st = focusOn now (pe_run d) st1" by (simp add: run_progress_def Let_def st1_def)
    have "card_of r1 (focusOn now (pe_run d) st1)"
      using card_true_focusOn [of now "pe_run d" st1] r1 by (simp add: card_true_def)
    then have "card_of r1 (card_progress now d p (focusOn now (pe_run d) st1))"
      using r1p r1n by (intro card_of_progress) (auto simp: card_of_def progress_name_def)
    with r1 show ?thesis by (simp add: eq rp isOtherRun_def card_true_def)
  qed
qed

lemma card_true_paused:
  assumes "bk_ok st" "card_true st" "ae_run d \<noteq> []"
  shows "card_true (on_paused now d st)"
proof -
  define st1 where "st1 = run_pause_answered now (ae_run d) \<lparr>p_paused = ae_paused d, p_since = ae_since d\<rparr> st"
  have eq: "on_paused now d st = (if isOtherRun (ae_run d) st1 then st1
      else (let st = st1\<lparr>pauseState := \<lparr>p_paused = ae_paused d, p_since = ae_since d\<rparr>\<rparr>
            in if ae_paused d then st else st\<lparr>samples := []\<rparr>))"
    using assms(3) unfolding on_paused_def st1_def run_pause_answered_def Let_def by simp
  have f: "focus st1 = focus st" by (simp add: st1_def run_pause_answered_def)
  show ?thesis
  proof (cases "focus st = Some (ae_run d)")
    case True
    then show ?thesis
      using card_true_run_pause [OF assms(1,2), where now = now and i = "ae_run d" and p = "\<lparr>p_paused = ae_paused d, p_since = ae_since d\<rparr>"] f
      unfolding eq st1_def [symmetric] by (cases "ae_paused d") (simp_all add: isOtherRun_def Let_def)
  next
    case False
    then have t: "card_true st1" using assms(2) by (simp add: st1_def run_pause_answered_def card_true_update_other)
    show ?thesis
    proof (cases "focus st")
      case None
      then show ?thesis using f by (simp add: eq Let_def card_true_def isOtherRun_def)
    next
      case (Some i)
      then show ?thesis using False f t assms(3) by (simp add: eq isOtherRun_def)
    qed
  qed
qed

lemma card_true_listed:
  "card_true st \<Longrightarrow> focus st \<notin> Some ` lr_id ` set ls \<Longrightarrow> card_true (on_runs now ls st)"
proof -
  assume a: "card_true st" "focus st \<notin> Some ` lr_id ` set ls"
  have "card_true (fold (take_listed now) ls st) \<and> focus (fold (take_listed now) ls st) = focus st"
    using a
  proof (induction ls arbitrary: st)
    case (Cons l ls)
    have "card_true (take_listed now l st)" "focus (take_listed now l st) = focus st"
      using Cons.prems by (simp_all add: take_listed_def Let_def card_true_update_other image_iff)
    with Cons.IH [of "take_listed now l st"] Cons.prems show ?case by simp
  qed simp
  then show "card_true (on_runs now ls st)"
    by (simp add: on_runs_def Let_def split: option.split)
qed

lemma card_true_complete:
  assumes "card_true st" "ce_run d \<noteq> []"
  shows "card_true (on_complete loc c now d st)"
proof (cases "isOtherRun (ce_run d) (ended_lists d st)")
  case True
  then have "focus st \<noteq> Some (ce_run d)" by (simp add: isOtherRun_def)
  then have "card_true (ended_lists d st)"
    using assms(1) by (auto simp: card_true_def ended_lists_def find_run_removeRun)
  with True assms(2) show ?thesis by (simp add: on_complete_def Let_def)
next
  case False
  show ?thesis
  proof (cases "running_runs (ended_lists d st)")
    case Nil
    then have "focus (on_complete loc c now d st) = None"
      using False assms(2) by (simp add: on_complete_def Let_def)
    then show ?thesis by (simp add: card_true_def)
  next
    case (Cons r rs)
    with False assms(2) show ?thesis by (simp add: on_complete_def Let_def)
  qed
qed

text \<open>C9: the card tells the truth about its run. Its percentage, name, pause and stop mark stay
  those of the run's own line through every timely event: progress, pauses and ends of any run that the event
  names, as long as the run on the card is not sent back to the waiting list and not listed anew; the switcher; what a
  restore says; the start of a one-off backup, and its failure, with no run on the card (\<open>failed_start_hides_card\<close>);
  and the answers to a stop or pause that come back while the card still shows the run they were asked for, or that
  were asked for a run it does not show. A stop that is answered later than that marks the wrong run
  (\<open>late_stop_answer\<close>).\<close>
theorem card_true_step:
  assumes "bk_ok st" "card_true st" "timely st ev"
  shows "card_true (on_event loc c now ev st)"
proof (cases ev)
  case (Progress d)
  show ?thesis
  proof (cases "queued_name (pe_message d)")
    case None
    with Progress assms show ?thesis by (simp add: card_true_progress)
  next
    case (Some name)
    with Progress assms show ?thesis
      by (simp add: on_progress_def on_queued_def Let_def card_true_update_other)
  qed
next
  case (StopAnswer i said)
  with assms(3) have f: "focus st = Some i" by simp
  with assms(1) obtain r where r: "find_run st i = Some r" using focus_found by blast
  with f assms(2) have c: "card_of r st" by (simp add: card_true_def)
  define st1 where "st1 = updateRun now i (\<lambda>r. r\<lparr>r_stop := True\<rparr>) st"
  have "find_run st1 i = Some (r\<lparr>r_stop := True\<rparr>)" using r by (simp add: st1_def find_run_update_same)
  moreover have "card_of (r\<lparr>r_stop := True\<rparr>) (st1\<lparr>stopRequested := True\<rparr>)" using c by (simp add: card_of_def st1_def)
  moreover have "focus st1 = Some i" using f by (simp add: st1_def)
  ultimately have "card_true (st1\<lparr>stopRequested := True\<rparr>)" by (simp add: card_true_def find_run_def)
  then show ?thesis using r by (simp add: StopAnswer stop_answered_def Let_def st1_def)
next
  case (OtherStopAnswer r said)
  with assms show ?thesis by (simp add: other_stop_answered_def Let_def card_true_update_other)
next
  case (PauseAnswer i p)
  with assms show ?thesis using card_true_run_pause [OF assms(1,2), where now = now and i = i and p = p] by (simp add: pause_answered_def)
next
  case (OtherPauseAnswer i p)
  with assms show ?thesis by (simp add: run_pause_answered_def card_true_update_other)
qed (use assms in \<open>simp_all add: on_file_def card_true_paused card_true_listed on_stats_def Let_def
       card_true_complete ask_failed_def card_true_restore_said card_true_one_off\<close>)

theorem card_true_step_witness:
  "card_true (on_event (\<lambda>e. []) no_close 9 (StopAnswer ''run-1'' ''x'') two_runs)"
proof (rule card_true_step)
  show "bk_ok two_runs" by (rule two_runs_ok)
  have "map_option (\<lambda>r. card_of r two_runs) (find_run two_runs ''run-1'') = Some True" by code_simp
  then show "card_true two_runs" by (auto simp: card_true_def two_runs_facts(1))
  show "timely two_runs (StopAnswer ''run-1'' ''x'')" by (simp add: two_runs_facts(1))
qed

section \<open>When the card's run ends\<close>

text \<open>When the run on the card ends, its line goes and the card moves on: to the oldest of the
  runs still going on, or, when none is left, to an empty card that is not running, with the end in
  the history, which holds the last twenty.\<close>
theorem complete_moves_on:
  fixes loc :: "entry \<Rightarrow> string" and c :: closed and now :: int and d :: complete_event and st :: bk
  assumes "bk_ok st" "focus st = Some (ce_run d)" "ce_run d \<noteq> []"
  defines "st' \<equiv> on_complete loc c now d st" and "rest \<equiv> {r \<in> set (runs st). r_id r \<noteq> ce_run d \<and> \<not> r_queued r}"
  shows "ce_run d \<notin> r_id ` set (runs st') \<and>
    (if rest = {} then focus st' = None \<and> \<not> running st' \<and> stats st' = EMPTY_BACKUP_STATS \<and>
        history st' = take 20 (end_entry now c d # history st)
     else running st' \<and> (\<exists>r \<in> rest. focus st' = Some (r_id r) \<and> (\<forall>x \<in> rest. r_started r \<le> r_started x)))"
proof -
  define st1 where "st1 = ended_lists d st"
  have s: "set (running_runs st1) = rest" by (auto simp: rest_def st1_def set_running_runs)
  have o: "\<not> isOtherRun (ce_run d) st1" using assms(2) by (simp add: st1_def isOtherRun_def)
  have h: "history st1 = history st" by (simp add: st1_def ended_lists_def)
  have st': "st' = (case running_runs st1 of
          r # _ \<Rightarrow> say (end_icon d) ((if ended_name d st \<noteq> [] then ended_name d st @ '': '' else []) @ loc (ce_entry d)) (end_kind d) False (focusOn now (r_id r) st1)
        | [] \<Rightarrow> last_end loc c now d (st1\<lparr>focus := None\<rparr>))"
    using o assms(3) unfolding st'_def on_complete_def Let_def st1_def [symmetric] by (simp only: if_False)
  show ?thesis
  proof (cases "running_runs st1")
    case Nil
    with s h show ?thesis
      by (auto simp: st' st1_def last_end_def clear_card_def say_def Let_def)
  next
    case (Cons r rs)
    have "sorted (map r_started (running_runs st1))" by (simp add: running_runs_def)
    with Cons have "\<forall>x \<in> set (running_runs st1). r_started r \<le> r_started x" by auto
    with Cons s have "\<forall>x \<in> rest. r_started r \<le> r_started x" "r \<in> rest" by auto
    with Cons show ?thesis by (auto simp: st' st1_def)
  qed
qed

definition ended :: "string \<Rightarrow> complete_event" where
  "ended i = \<lparr>ce_run = i, ce_name = [], ce_success = True,
     ce_entry = \<lparr>e_message = [], e_key = None, e_params = None, e_level = None, e_status = [], e_name = [],
       e_nameKey = None, e_nameParams = [], e_kind = []\<rparr>\<rparr>"

theorem complete_moves_on_witness:
  "focus (on_complete (\<lambda>e. []) no_close 9 (ended ''run-1'') two_runs) = Some ''run-2''"
proof -
  define R where "R = {r \<in> set (runs two_runs). r_id r \<noteq> ce_run (ended ''run-1'') \<and> \<not> r_queued r}"
  have c: "ce_run (ended ''run-1'') = ''run-1''" by (simp add: ended_def)
  have R: "R = set (filter (\<lambda>r. r_id r \<noteq> ''run-1'' \<and> \<not> r_queued r) (runs two_runs))"
    unfolding R_def c by (simp only: set_filter)
  have i: "map r_id (filter (\<lambda>r. r_id r \<noteq> ''run-1'' \<and> \<not> r_queued r) (runs two_runs)) = [''run-2'']" by code_simp
  have "r_id ` R = set [''run-2'']" unfolding R set_map [symmetric] i by (rule refl)
  then have e: "\<And>r. r \<in> R \<Longrightarrow> r_id r = ''run-2''" and ne: "R \<noteq> {}" by fastforce+
  have f: "focus two_runs = Some (ce_run (ended ''run-1''))" "ce_run (ended ''run-1'') \<noteq> []"
    unfolding c by (simp_all add: two_runs_facts(1))
  have "\<exists>r \<in> R. focus (on_complete (\<lambda>e. []) no_close 9 (ended ''run-1'') two_runs) = Some (r_id r)"
    using complete_moves_on [OF two_runs_ok f, of "\<lambda>e. []" no_close 9] ne unfolding R_def [symmetric] by (simp only: if_False) blast
  with e show ?thesis by auto
qed

section \<open>Two cases the handlers miss\<close>

lemma reach_play:
  assumes "bk_reach st" "list_all (\<lambda>ev. \<forall>x. ev \<noteq> ShowRun x \<and> ev \<noteq> OneOffStarts x) evs"
  shows "bk_reach (play evs st)"
  using assms
proof (induction evs arbitrary: st)
  case (Cons ev evs)
  then have "bk_reach (on_event (\<lambda>e. []) no_close 5 ev st)"
    by (intro bk_reach.step [OF Cons.prems(1) bk_step.event]) auto
  with Cons show ?case by (simp add: play_def)
qed (simp add: play_def)

text \<open>A stop that is answered late marks the wrong run. The user stops the run on the card; it
  ends and the card moves on before the answer comes; the answer then marks the card as stopping
  though nobody stopped the run it shows. The mark disables the card's Stop button.\<close>
theorem late_stop_answer:
  "\<exists>st r. bk_reach st \<and> focus st = Some ''run-2'' \<and> find_run st ''run-2'' = Some r \<and> \<not> r_stop r \<and> stopRequested st"
proof -
  define evs where "evs = [pg ''run-1'' ''A'', pg ''run-2'' ''B'', Completed (ended ''run-1''), StopAnswer ''run-1'' ''x'']"
  define st where "st = play evs bk0"
  have "bk_reach st"
    unfolding st_def by (rule reach_play [OF bk_reach.start]) (simp add: evs_def pg_def)
  moreover have "focus st = Some ''run-2''" "map_option r_stop (find_run st ''run-2'') = Some False" "stopRequested st"
    unfolding st_def evs_def by code_simp+
  ultimately show ?thesis by auto
qed

text \<open>A one-off backup whose start fails takes the card of another run away: that run started while the answer was
  awaited, and the handler ends the card as if it were its own, until the run's next progress.\<close>
theorem failed_start_hides_card:
  "\<exists>st r. bk_reach st \<and> focus st = Some ''run-1'' \<and> find_run st ''run-1'' = Some r \<and> r_percent r = 3 \<and> \<not> running st \<and> progress st = 0"
proof -
  define evs where "evs = [Progress \<lparr>pe_run = ''run-1'', pe_name = ''A'', pe_percent = 3, pe_message = ''m''\<rparr>, OneOffFailed]"
  define st where "st = play evs (one_off_starts ''x'' bk0)"
  have "start_enabled bk0" by (simp add: start_enabled_def bk0_def)
  then have "bk_reach (on_event (\<lambda>e. []) no_close 5 (OneOffStarts ''x'') bk0)"
    by (intro bk_reach.step [OF bk_reach.start bk_step.event]) simp_all
  then have "bk_reach st"
    unfolding st_def by (intro reach_play) (simp_all add: evs_def)
  moreover have "focus st = Some ''run-1''" "map_option r_percent (find_run st ''run-1'') = Some 3" "\<not> running st" "progress st = 0"
    unfolding st_def evs_def by code_simp+
  ultimately show ?thesis by auto
qed

text \<open>The waiting list can lose a run that still waits. Two runs of one set share its name; when
  the one that is going on ends, the name is taken off the list although the other run still waits.\<close>
theorem waiting_name_lost:
  "\<exists>st r. bk_reach st \<and> find_run st ''run-2'' = Some r \<and> r_queued r \<and> r_name r = ''A'' \<and> pending st = []"
proof -
  define evs where "evs = [pg ''run-1'' ''A'',
    Progress \<lparr>pe_run = ''run-2'', pe_name = ''A'', pe_percent = 0,
      pe_message = ''Queued: A '' @ em_dash @ '' waiting for A to finish...''\<rparr>, Completed (ended ''run-1'')]"
  define st where "st = play evs bk0"
  have "bk_reach st"
    unfolding st_def by (rule reach_play [OF bk_reach.start]) (simp add: evs_def pg_def)
  moreover have "map_option (\<lambda>r. (r_queued r, r_name r)) (find_run st ''run-2'') = Some (True, ''A'')" "pending st = []"
    unfolding st_def evs_def by code_simp+
  ultimately show ?thesis by auto
qed

section \<open>The forecast\<close>

text \<open>The forecast finish is not too early on either count. It is a whole number of seconds, not
  negative, never more than half a second under what the bytes left or the files left need at
  their pace, and 0 is forecast for work that is done.\<close>
theorem forecast_covers:
  "(byteRate > 0 \<and> etaTotal > etaDone \<longrightarrow>
      (\<exists>e. forecast byteRate etaDone etaTotal fileRate filesDone filesTotal = Some e \<and> of_int (etaTotal - etaDone) / byteRate \<le> e + 1 / 2)) \<and>
   (fileRate > 0 \<and> filesTotal > filesDone \<longrightarrow>
      (\<exists>e. forecast byteRate etaDone etaTotal fileRate filesDone filesTotal = Some e \<and> of_int (filesTotal - filesDone) / fileRate \<le> e + 1 / 2)) \<and>
   (\<forall>e. forecast byteRate etaDone etaTotal fileRate filesDone filesTotal = Some e \<longrightarrow> 0 \<le> e \<and> e \<in> \<int>) \<and>
   (etaTotal > 0 \<and> etaDone \<ge> etaTotal \<and> filesDone \<ge> filesTotal \<longrightarrow>
      forecast byteRate etaDone etaTotal fileRate filesDone filesTotal = Some 0)"
proof -
  define cs where "cs = (if byteRate > 0 \<and> etaTotal > etaDone then [of_int (etaTotal - etaDone) / byteRate] else [])
            @ (if fileRate > 0 \<and> filesTotal > filesDone then [of_int (filesTotal - filesDone) / fileRate] else [])"
  have f: "forecast byteRate etaDone etaTotal fileRate filesDone filesTotal =
      (if cs \<noteq> [] then Some (of_int (math_round (Max (set cs)))) else if etaTotal > 0 \<and> etaDone \<ge> etaTotal then Some 0 else None)"
    unfolding forecast_def Let_def cs_def by simp
  have near: "x \<le> of_int (math_round (Max (set cs))) + 1 / 2" if "x \<in> set cs" for x :: rat
  proof -
    have "x \<le> Max (set cs)" using that by simp
    also have "\<dots> \<le> of_int (math_round (Max (set cs))) + 1 / 2" unfolding math_round_def by linarith
    finally show ?thesis .
  qed
  have pos: "0 \<le> x" if "x \<in> set cs" for x using that by (auto simp: cs_def split: if_splits)
  have m: "0 \<le> math_round (Max (set cs))" if "cs \<noteq> []"
    using that pos [of "Max (set cs)"] by (intro math_round_nonneg) simp
  show ?thesis
  proof (intro conjI impI allI)
    assume b: "byteRate > 0 \<and> etaTotal > etaDone"
    then have "of_int (etaTotal - etaDone) / byteRate \<in> set cs" by (simp add: cs_def)
    with near show "\<exists>e. forecast byteRate etaDone etaTotal fileRate filesDone filesTotal = Some e \<and> of_int (etaTotal - etaDone) / byteRate \<le> e + 1 / 2"
      unfolding f by auto
  next
    assume b: "fileRate > 0 \<and> filesTotal > filesDone"
    then have "of_int (filesTotal - filesDone) / fileRate \<in> set cs" by (simp add: cs_def)
    with near show "\<exists>e. forecast byteRate etaDone etaTotal fileRate filesDone filesTotal = Some e \<and> of_int (filesTotal - filesDone) / fileRate \<le> e + 1 / 2"
      unfolding f by auto
  qed (use m in \<open>auto simp: f cs_def split: if_splits\<close>)
qed

theorem forecast_covers_witness:
  "forecast 10 0 100 1 3 63 = Some 60 \<and>
   (\<exists>e. forecast 10 0 100 1 3 63 = Some e \<and> (10 :: rat) \<le> e + 1 / 2)"
proof -
  have "forecast 10 0 100 1 3 63 = Some 60" by (simp add: forecast_def math_round_def Let_def floor_eq_iff)
  with forecast_covers [of 10 100 0 1 3 63] show ?thesis by simp
qed

end
