(* ===== verification/Calendar.thy ===== *)
theory Calendar
  imports JsPrelude
begin

text \<open>
  The part of JavaScript's \<open>Date\<close> that the schedules use. A day is its number, counted from 1 January
  1970, as \<open>Date.UTC(y, m, d) / 86400000\<close> gives it; years, months and dates are taken from it by the
  formulas of the language standard. What the computer's time zone does is a record of two
  functions, an argument of everything that needs it. Months count from 0, as in \<open>getMonth\<close>.
\<close>

section \<open>Days, months and years\<close>

definition leap :: "int \<Rightarrow> bool" where
  "leap y \<longleftrightarrow> y mod 4 = 0 \<and> y mod 100 \<noteq> 0 \<or> y mod 400 = 0"

definition dayFromYear :: "int \<Rightarrow> int" where
  "dayFromYear y = 365 * (y - 1970) + (y - 1969) div 4 - (y - 1901) div 100 + (y - 1601) div 400"

text \<open>Days of the year before month \<open>m\<close>.\<close>

definition days_before :: "bool \<Rightarrow> int \<Rightarrow> int" where
  "days_before lp m =
     (if m \<le> 0 then 0 else if m = 1 then 31
      else (if lp then 1 else 0) +
        (if m = 2 then 59 else if m = 3 then 90 else if m = 4 then 120 else if m = 5 then 151
         else if m = 6 then 181 else if m = 7 then 212 else if m = 8 then 243 else if m = 9 then 273
         else if m = 10 then 304 else if m = 11 then 334 else 365))"

text \<open>\<open>new Date(y, m, d)\<close>: months and days beyond their range carry over.\<close>

definition make_day :: "int \<Rightarrow> int \<Rightarrow> int \<Rightarrow> int" where
  "make_day y m d =
     (let y' = y + m div 12 in dayFromYear y' + days_before (leap y') (m mod 12) + d - 1)"

text \<open>The year of a day: an estimate that is at most one off, then set right.\<close>

definition year_of :: "int \<Rightarrow> int" where
  "year_of day =
     (let y = 1970 + (400 * day) div 146097
      in if dayFromYear (y + 1) \<le> day then y + 1 else if day < dayFromYear y then y - 1 else y)"

definition month_of :: "int \<Rightarrow> int" where
  "month_of day =
     (let y = year_of day; n = day - dayFromYear y; b = days_before (leap y)
      in if n < b 1 then 0 else if n < b 2 then 1 else if n < b 3 then 2 else if n < b 4 then 3
         else if n < b 5 then 4 else if n < b 6 then 5 else if n < b 7 then 6 else if n < b 8 then 7
         else if n < b 9 then 8 else if n < b 10 then 9 else if n < b 11 then 10 else 11)"

definition date_of :: "int \<Rightarrow> int" where
  "date_of day = day - dayFromYear (year_of day) - days_before (leap (year_of day)) (month_of day) + 1"

text \<open>\<open>getDay\<close>: 0 is Sunday.\<close>

definition week_day :: "int \<Rightarrow> int" where
  "week_day day = (day + 4) mod 7"

lemma div_Suc: "0 < k \<Longrightarrow> (x + 1) div k = x div k + (if (x + 1) mod k = 0 then 1 else 0)" for x k :: int
proof -
  assume k: "0 < k"
  show ?thesis
  proof (cases "x mod k = k - 1")
    case True
    moreover have "x div k * k + x mod k = x" by (rule div_mult_mod_eq)
    moreover have "(x div k + 1) * k = x div k * k + k" by (simp add: distrib_right)
    ultimately have "x + 1 = (x div k + 1) * k" by linarith
    with k show ?thesis by simp
  next
    case False
    have r: "0 \<le> x mod k" "x mod k < k" using k by simp_all
    with False have r1: "0 \<le> x mod k + 1" "x mod k + 1 < k" by simp_all
    have e: "x + 1 = k * (x div k) + (x mod k + 1)" by simp
    have "(x + 1) div k = x div k" by (rule int_div_pos_eq [OF e r1])
    moreover have "(x + 1) mod k = x mod k + 1" by (rule int_mod_pos_eq [OF e r1])
    ultimately show ?thesis using r by simp
  qed
qed

lemma div_bounds: "0 < k \<Longrightarrow> k * (x div k) \<le> x \<and> x - k < k * (x div k)" for x k :: int
proof -
  assume k: "0 < k"
  have "k * (x div k) + x mod k = x" by (rule mult_div_mod_eq)
  with k pos_mod_bound [of k x] pos_mod_sign [of k x] show ?thesis by linarith
qed

lemma mod_shift: "(y - c * k) mod k = y mod k" for y c k :: int
  using mod_mult_self1 [of "y - c * k" c k] by simp

lemma dayFromYear_Suc: "dayFromYear (y + 1) = dayFromYear y + (if leap y then 366 else 365)"
proof -
  have a: "(y - 1969 + 1) div 4 = (y - 1969) div 4 + (if y mod 4 = 0 then 1 else 0)"
    using div_Suc [of 4 "y - 1969"] mod_shift [of y 492 4] by simp
  have b: "(y - 1901 + 1) div 100 = (y - 1901) div 100 + (if y mod 100 = 0 then 1 else 0)"
    using div_Suc [of 100 "y - 1901"] mod_shift [of y 19 100] by simp
  have c: "(y - 1601 + 1) div 400 = (y - 1601) div 400 + (if y mod 400 = 0 then 1 else 0)"
    using div_Suc [of 400 "y - 1601"] mod_shift [of y 4 400] by simp
  have d: "y mod 100 = 0 \<Longrightarrow> y mod 4 = 0" "y mod 400 = 0 \<Longrightarrow> y mod 100 = 0"
    unfolding mod_eq_0_iff_dvd by (rule dvd_trans [of _ 100 y], simp, assumption) (rule dvd_trans [of _ 400 y], simp, assumption)
  have e: "y + 1 - 1970 = y - 1970 + 1" "y + 1 - 1969 = y - 1969 + 1" "y + 1 - 1901 = y - 1901 + 1" "y + 1 - 1601 = y - 1601 + 1"
    by simp_all
  have "dayFromYear (y + 1) = dayFromYear y + 365 + (if y mod 4 = 0 then 1 else 0)
      - (if y mod 100 = 0 then 1 else 0) + (if y mod 400 = 0 then 1 else 0)"
    unfolding dayFromYear_def e a b c by (simp only: distrib_left)
  with d show ?thesis by (auto simp: leap_def)
qed

lemma year_length: "365 \<le> dayFromYear (y + 1) - dayFromYear y" "dayFromYear (y + 1) - dayFromYear y \<le> 366"
  by (simp_all add: dayFromYear_Suc)

lemma dayFromYear_add:
  "dayFromYear y + 365 * int n \<le> dayFromYear (y + int n) \<and> dayFromYear (y + int n) \<le> dayFromYear y + 366 * int n"
proof (induction n)
  case (Suc n)
  have e: "y + (1 + int n) = y + int n + 1" by simp
  have "dayFromYear y + 365 * (1 + int n) \<le> dayFromYear (y + (1 + int n))"
    using Suc.IH [THEN conjunct1] year_length [of "y + int n"] unfolding e by (simp add: distrib_left)
  moreover have "dayFromYear (y + (1 + int n)) \<le> dayFromYear y + 366 * (1 + int n)"
    using Suc.IH [THEN conjunct2] year_length [of "y + int n"] unfolding e by (simp add: distrib_left)
  ultimately show ?case by (simp only: of_nat_Suc simp_thms)
qed simp

lemma dayFromYear_mono: "y \<le> z \<Longrightarrow> dayFromYear y + 365 * (z - y) \<le> dayFromYear z"
  using dayFromYear_add [of y "nat (z - y)"] by simp

lemma dayFromYear_upper: "y \<le> z \<Longrightarrow> dayFromYear z \<le> dayFromYear y + 366 * (z - y)"
  using dayFromYear_add [of y "nat (z - y)"] by simp

lemma dayFromYear_strict: "dayFromYear y < dayFromYear z \<longleftrightarrow> y < z"
proof (cases "y < z")
  case True
  with dayFromYear_mono [of y z] show ?thesis by simp
next
  case False
  with dayFromYear_mono [of z y] show ?thesis by simp
qed

lemma dayFromYear_le: "dayFromYear y \<le> dayFromYear z \<longleftrightarrow> y \<le> z"
  using dayFromYear_strict [of z y] by linarith

lemma year_of_bounds: "dayFromYear (year_of day) \<le> day \<and> day < dayFromYear (year_of day + 1)"
proof -
  define y where "y = 1970 + (400 * day) div 146097"
  define q where "q = (400 * day) div 146097"
  have q: "146097 * q \<le> 400 * day" "400 * day < 146097 * q + 146097"
    using div_mult_mod_eq [of "400 * day" 146097] pos_mod_bound [of 146097 "400 * day"] pos_mod_sign [of 146097 "400 * day"]
    unfolding q_def by linarith+
  have b: "400 * dayFromYear z \<le> 146097 * (z - 1970) + 800 \<and> 146097 * (z - 1970) - 800 \<le> 400 * dayFromYear z" for z
  proof -
    define f g h where "f = (z - 1969) div 4" "g = (z - 1901) div 100" "h = (z - 1601) div 400"
    have "4 * f \<le> z - 1969" "z - 1969 - 4 < 4 * f" "100 * g \<le> z - 1901" "z - 1901 - 100 < 100 * g"
      "400 * h \<le> z - 1601" "z - 1601 - 400 < 400 * h"
      using div_bounds [of 4 "z - 1969"] div_bounds [of 100 "z - 1901"] div_bounds [of 400 "z - 1601"]
      by (simp_all add: f_g_h_def)
    then show ?thesis unfolding dayFromYear_def f_g_h_def [symmetric] by (intro conjI) simp_all
  qed
  have lo: "dayFromYear (y - 1) \<le> day" using q b [of "y - 1", THEN conjunct1] unfolding y_def q_def [symmetric] by simp
  have hi: "day < dayFromYear (y + 2)" using q b [of "y + 2", THEN conjunct2] unfolding y_def q_def [symmetric] by simp
  have yo: "year_of day = (if dayFromYear (y + 1) \<le> day then y + 1 else if day < dayFromYear y then y - 1 else y)"
    unfolding year_of_def Let_def y_def by (rule refl)
  show ?thesis
  proof (cases "dayFromYear (y + 1) \<le> day")
    case True
    with hi show ?thesis by (simp add: yo algebra_simps)
  next
    case False
    with lo show ?thesis by (cases "day < dayFromYear y") (simp_all add: yo)
  qed
qed

lemma year_of_eq: "dayFromYear y \<le> day \<Longrightarrow> day < dayFromYear (y + 1) \<Longrightarrow> year_of day = y"
proof -
  assume a: "dayFromYear y \<le> day" "day < dayFromYear (y + 1)"
  note b = year_of_bounds [of day]
  from a b have "dayFromYear y < dayFromYear (year_of day + 1)" "dayFromYear (year_of day) < dayFromYear (y + 1)" by linarith+
  then show ?thesis unfolding dayFromYear_strict by linarith
qed

section \<open>Months in a row\<close>

text \<open>The first day of a month, months counted through: month \<open>m\<close> of year \<open>y\<close> has number \<open>12 y + m\<close>.\<close>

definition month_start :: "int \<Rightarrow> int" where
  "month_start k = dayFromYear (k div 12) + days_before (leap (k div 12)) (k mod 12)"

definition month_no :: "int \<Rightarrow> int" where
  "month_no day = 12 * year_of day + month_of day"

lemma make_day_start: "make_day y m d = month_start (12 * y + m) + d - 1"
  by (simp add: make_day_def month_start_def Let_def div_add1_eq)

lemma days_before_Suc:
  assumes "0 \<le> m" "m < 12"
  shows "28 \<le> days_before lp (m + 1) - days_before lp m \<and> days_before lp (m + 1) - days_before lp m \<le> 31"
proof -
  have "m = 0 \<or> m = 1 \<or> m = 2 \<or> m = 3 \<or> m = 4 \<or> m = 5 \<or> m = 6 \<or> m = 7 \<or> m = 8 \<or> m = 9 \<or> m = 10 \<or> m = 11"
    using assms by presburger
  then show ?thesis by (auto simp: days_before_def)
qed

lemma days_before_12: "dayFromYear y + days_before (leap y) 12 = dayFromYear (y + 1)"
  by (simp add: dayFromYear_Suc days_before_def)

lemma month_carry: "k mod 12 \<noteq> 11 \<Longrightarrow> (k + 1) div 12 = k div 12 \<and> (k + 1) mod 12 = k mod 12 + 1" for k :: int
proof -
  assume a: "k mod 12 \<noteq> 11"
  have e: "k + 1 = 12 * (k div 12) + (k mod 12 + 1)" by simp
  have b: "0 \<le> k mod 12 + 1" "k mod 12 + 1 < 12"
    using a pos_mod_sign [of 12 k] pos_mod_bound [of 12 k] by linarith+
  show ?thesis using int_div_pos_eq [OF e b] int_mod_pos_eq [OF e b] by simp
qed

lemma month_wrap: "k mod 12 = 11 \<Longrightarrow> (k + 1) div 12 = k div 12 + 1 \<and> (k + 1) mod 12 = 0" for k :: int
proof -
  assume a: "k mod 12 = 11"
  have "k = 12 * (k div 12) + k mod 12" by simp
  with a have e: "k + 1 = 12 * (k div 12 + 1) + 0" by simp
  show ?thesis using int_div_pos_eq [OF e] int_mod_pos_eq [OF e] by simp
qed

lemma month_length: "28 \<le> month_start (k + 1) - month_start k \<and> month_start (k + 1) - month_start k \<le> 31"
proof -
  define y m where "y = k div 12" "m = k mod 12"
  have m: "0 \<le> m" "m < 12" by (simp_all add: y_m_def)
  show ?thesis
  proof (cases "m = 11")
    case True
    then have "(k + 1) div 12 = y + 1" "(k + 1) mod 12 = 0"
      using month_wrap [of k] by (simp_all add: y_m_def)
    then have "month_start (k + 1) = dayFromYear (y + 1)" by (simp add: month_start_def days_before_def)
    then have "month_start (k + 1) = dayFromYear y + days_before (leap y) 12" by (simp only: days_before_12)
    moreover have "month_start k = dayFromYear y + days_before (leap y) 11"
      using True by (simp add: month_start_def flip: y_m_def)
    ultimately show ?thesis by (simp add: days_before_def)
  next
    case False
    then have "(k + 1) div 12 = y" "(k + 1) mod 12 = m + 1"
      using month_carry [of k] by (simp_all add: y_m_def)
    then have "month_start (k + 1) - month_start k = days_before (leap y) (m + 1) - days_before (leap y) m"
      by (simp add: month_start_def flip: y_m_def)
    with days_before_Suc [OF m] show ?thesis by simp
  qed
qed

lemma month_start_add:
  "month_start k + 28 * int n \<le> month_start (k + int n) \<and> month_start (k + int n) \<le> month_start k + 31 * int n"
proof (induction n)
  case (Suc n)
  have e: "k + (1 + int n) = k + int n + 1" by simp
  have "month_start k + 28 * (1 + int n) \<le> month_start (k + (1 + int n))"
    using Suc.IH [THEN conjunct1] month_length [of "k + int n", THEN conjunct1] unfolding e by (simp add: distrib_left)
  moreover have "month_start (k + (1 + int n)) \<le> month_start k + 31 * (1 + int n)"
    using Suc.IH [THEN conjunct2] month_length [of "k + int n", THEN conjunct2] unfolding e by (simp add: distrib_left)
  ultimately show ?case by (simp only: of_nat_Suc simp_thms)
qed simp

lemma month_start_strict: "month_start j < month_start k \<longleftrightarrow> j < k"
proof (cases "j < k")
  case True
  with month_start_add [of j "nat (k - j)"] show ?thesis by simp
next
  case False
  with month_start_add [of k "nat (j - k)"] show ?thesis by simp
qed

lemma month_of_range: "0 \<le> month_of day \<and> month_of day < 12"
  by (simp add: month_of_def Let_def)

lemma month_no_parts: "month_no day div 12 = year_of day" "month_no day mod 12 = month_of day"
  using month_of_range [of day] by (simp_all add: month_no_def)

lemma month_bounds: "month_start (month_no day) \<le> day \<and> day < month_start (month_no day + 1)"
proof -
  define y n b where "y = year_of day" "n = day - dayFromYear y" "b = days_before (leap y)"
  have n: "0 \<le> n" "n < b 12"
    using year_of_bounds [of day] days_before_12 [of y] by (auto simp: y_n_b_def)
  have b0: "b 0 = 0" by (simp add: y_n_b_def days_before_def)
  have m: "month_of day = (if n < b 1 then 0 else if n < b 2 then 1 else if n < b 3 then 2 else if n < b 4 then 3
         else if n < b 5 then 4 else if n < b 6 then 5 else if n < b 7 then 6 else if n < b 8 then 7
         else if n < b 9 then 8 else if n < b 10 then 9 else if n < b 11 then 10 else 11)"
    unfolding month_of_def Let_def y_n_b_def by (rule refl)
  have mb: "b (month_of day) \<le> n \<and> n < b (month_of day + 1)"
    unfolding m using n b0 by simp
  have s: "month_start (month_no day) = dayFromYear y + b (month_of day)"
    by (simp add: month_start_def month_no_parts y_n_b_def)
  have e: "month_start (month_no day + 1) = dayFromYear y + b (month_of day + 1)"
  proof (cases "month_of day = 11")
    case True
    then have "(month_no day + 1) div 12 = y + 1" "(month_no day + 1) mod 12 = 0"
      using month_no_parts [of day] month_wrap [of "month_no day"] by (simp_all add: y_n_b_def)
    then have "month_start (month_no day + 1) = dayFromYear (y + 1)" by (simp add: month_start_def days_before_def)
    also have "\<dots> = dayFromYear y + b (month_of day + 1)"
      using True days_before_12 [of y] by (simp add: y_n_b_def)
    finally show ?thesis .
  next
    case False
    then have "(month_no day + 1) div 12 = y" "(month_no day + 1) mod 12 = month_of day + 1"
      using month_no_parts [of day] month_carry [of "month_no day"] by (simp_all add: y_n_b_def)
    then show ?thesis by (simp add: month_start_def y_n_b_def)
  qed
  from mb s e show ?thesis by (simp add: y_n_b_def)
qed

lemma month_no_eq: "month_start k \<le> day \<Longrightarrow> day < month_start (k + 1) \<Longrightarrow> month_no day = k"
proof -
  assume a: "month_start k \<le> day" "day < month_start (k + 1)"
  note b = month_bounds [of day]
  from a b have "month_start k < month_start (month_no day + 1)" "month_start (month_no day) < month_start (k + 1)" by linarith+
  then show ?thesis unfolding month_start_strict by linarith
qed

lemma date_of_start: "date_of day = day - month_start (month_no day) + 1"
  by (simp add: date_of_def month_start_def month_no_parts)

lemma last_date: "date_of (make_day z (j + 1) 0) = month_start (12 * z + j + 1) - month_start (12 * z + j)"
proof -
  have "make_day z (j + 1) 0 = month_start (12 * z + j + 1) - 1" by (simp add: make_day_start algebra_simps)
  moreover have "month_no (month_start (12 * z + j + 1) - 1) = 12 * z + j"
    using month_length [of "12 * z + j"] by (intro month_no_eq) auto
  ultimately show ?thesis by (simp add: date_of_start)
qed

lemma month_start_year: "month_start (12 * y) = dayFromYear y"
  by (simp add: month_start_def days_before_def)

lemma month_start_le: "j \<le> k \<Longrightarrow> month_start j + 28 * (k - j) \<le> month_start k \<and> month_start k \<le> month_start j + 31 * (k - j)"
  using month_start_add [of j "nat (k - j)"] by simp

text \<open>The calendar is right for every day there is: a day has exactly one year, month and date,
  putting these together again gives the day back, and the date runs from 1 to the last day of the
  month, which \<open>new Date(y, m + 1, 0)\<close> gives.\<close>
theorem calendar_roundtrip:
  "make_day (year_of day) (month_of day) (date_of day) = day \<and>
   0 \<le> month_of day \<and> month_of day < 12 \<and> 1 \<le> date_of day \<and>
   date_of day \<le> date_of (make_day (year_of day) (month_of day + 1) 0) \<and>
   (0 \<le> m \<and> m < 12 \<and> 1 \<le> d \<and> d \<le> date_of (make_day y (m + 1) 0) \<longrightarrow>
      year_of (make_day y m d) = y \<and> month_of (make_day y m d) = m \<and> date_of (make_day y m d) = d)"
proof -
  note last = last_date
  have k: "12 * year_of day + month_of day = month_no day" by (simp add: month_no_def)
  have "make_day (year_of day) (month_of day) (date_of day) = day"
    by (simp add: make_day_start k date_of_start)
  moreover have "1 \<le> date_of day" using month_bounds [of day] by (simp add: date_of_start)
  moreover have "date_of day \<le> date_of (make_day (year_of day) (month_of day + 1) 0)"
    unfolding last k using month_bounds [of day] by (simp add: date_of_start)
  moreover have "year_of (make_day y m d) = y \<and> month_of (make_day y m d) = m \<and> date_of (make_day y m d) = d"
    if "0 \<le> m \<and> m < 12 \<and> 1 \<le> d \<and> d \<le> date_of (make_day y (m + 1) 0)"
  proof -
    have d: "d \<le> month_start (12 * y + m + 1) - month_start (12 * y + m)" using that by (simp add: last)
    have n: "month_no (make_day y m d) = 12 * y + m"
      using that d unfolding make_day_start by (intro month_no_eq) auto
    then have "year_of (make_day y m d) = (12 * y + m) div 12" "month_of (make_day y m d) = (12 * y + m) mod 12"
      using month_no_parts [of "make_day y m d"] by simp_all
    with that n show ?thesis by (simp add: date_of_start make_day_start)
  qed
  ultimately show ?thesis using month_of_range [of day] by blast
qed

theorem calendar_roundtrip_witness:
  "year_of (make_day 2024 1 29) = 2024 \<and> month_of (make_day 2024 1 29) = 1 \<and> date_of (make_day 2024 1 29) = 29"
proof -
  have "29 \<le> date_of (make_day 2024 (1 + 1) 0)" by code_simp
  with calendar_roundtrip [of 0 1 29 2024] show ?thesis by simp
qed

section \<open>Time zones\<close>

text \<open>\<open>z_day t\<close> is the local day at the instant \<open>t\<close>, \<open>z_instant d m\<close> the instant of the local minute \<open>m\<close>
  of day \<open>d\<close> (\<open>0 \<le> m < 1440\<close>); instants are milliseconds. A minute that a clock change skips has an
  instant too, as \<open>new Date\<close> gives it.\<close>

record zone =
  z_day :: "int \<Rightarrow> int"
  z_instant :: "int \<Rightarrow> int \<Rightarrow> int"

text \<open>\<open>new Date(y, m, d, h, min)\<close> with minutes beyond the day carried over.\<close>

definition at_minute :: "zone \<Rightarrow> int \<Rightarrow> int \<Rightarrow> int" where
  "at_minute z d m = z_instant z (d + m div 1440) (m mod 1440)"

text \<open>\<open>Number(s) || 0\<close> of a part of a date or of a time of day.\<close>

definition number_or_0 :: "string \<Rightarrow> int" where
  "number_or_0 s = (if trim s \<noteq> [] \<and> list_all is_digit (trim s) then int (digits_value (trim s)) else 0)"

text \<open>Documented of every zone: an instant of a later local day is a later instant.\<close>

definition zone_days :: "zone \<Rightarrow> bool" where
  "zone_days z \<longleftrightarrow> (\<forall>t d m. z_day z t < d \<and> 0 \<le> m \<and> m < 1440 \<longrightarrow> t < z_instant z d m)"

text \<open>A zone without clock changes: later times of the calendar are later instants, and the days before that of an
  instant are over.\<close>

definition zone_plain :: "zone \<Rightarrow> bool" where
  "zone_plain z \<longleftrightarrow> zone_days z \<and>
     (\<forall>d m d' m'. 0 \<le> m \<and> m < 1440 \<and> 0 \<le> m' \<and> m' < 1440 \<and> d * 1440 + m < d' * 1440 + m' \<longrightarrow> z_instant z d m < z_instant z d' m') \<and>
     (\<forall>t d m. d < z_day z t \<and> 0 \<le> m \<and> m < 1440 \<longrightarrow> z_instant z d m \<le> t)"

definition UTC :: zone where
  "UTC = \<lparr>z_day = (\<lambda>t. t div 86400000), z_instant = (\<lambda>d m. (d * 1440 + m) * 60000)\<rparr>"

lemma UTC_plain: "zone_plain UTC"
proof -
  have "t < (d * 1440 + m) * 60000" if "t div 86400000 < d" "0 \<le> m" for t d m :: int
  proof -
    have "t < (t div 86400000 + 1) * 86400000" using div_bounds [of 86400000 t] by simp
    also have "\<dots> \<le> d * 86400000" using that by simp
    finally show ?thesis using that by simp
  qed
  moreover have "(d * 1440 + m) * 60000 \<le> t" if "d < t div 86400000" "m < 1440" for t d m :: int
  proof -
    have "(d * 1440 + m) * 60000 \<le> (d + 1) * 86400000" using that(2) by simp
    also have "\<dots> \<le> t div 86400000 * 86400000" using that(1) by (intro mult_right_mono) auto
    also have "\<dots> \<le> t" using div_bounds [of 86400000 t] by (simp add: mult.commute)
    finally show ?thesis .
  qed
  ultimately show ?thesis by (simp add: zone_plain_def zone_days_def UTC_def)
qed

end
