(* ===== verification/Schedules.thy ===== *)
theory Schedules
  imports Calendar Jobs Messages
begin

text \<open>
  The schedules of a Backup Set (\<open>components/schedules.js\<close>): new schedules, the reading of a set's
  schedules (old fields too), the words that describe one, what stops it being saved, and its next
  runs. The names of weekdays and months in a language (\<open>toLocaleDateString\<close>) and plural
  categories are arguments, and so is the time zone (theory Calendar).
\<close>

section \<open>Data\<close>

definition WEEK :: "weekday list" where
  "WEEK = [Mon, Tue, Wed, Thu, Fri, Sat, Sun]"

definition WD :: "weekday list" where
  "WD = [Sun, Mon, Tue, Wed, Thu, Fri, Sat]"

definition MIN_REPEAT_MINUTES :: int where
  "MIN_REPEAT_MINUTES = 5"

definition pad2 :: "int \<Rightarrow> string" where
  "pad2 n = (let s = show_int n in if length s < 2 then CHR ''0'' # s else s)"

definition isoDay :: "int \<Rightarrow> string" where
  "isoDay day = show_int (year_of day) @ ''-'' @ pad2 (month_of day + 1) @ ''-'' @ pad2 (date_of day)"

definition newSchedule :: "sched_unit \<Rightarrow> string \<Rightarrow> int \<Rightarrow> schedule" where
  "newSchedule u i today =
     (let s = empty_schedule\<lparr>s_id := i, s_enabled := True, s_unit := u, s_every := 1, s_start := isoDay today\<rparr>
      in case u of
           Minutes \<Rightarrow> s\<lparr>s_every := 30\<rparr>
         | Hours \<Rightarrow> s\<lparr>s_every := 2, s_minute := 0\<rparr>
         | Weeks \<Rightarrow> s\<lparr>s_at := ''01:00'', s_weekdays := [Sat]\<rparr>
         | Months \<Rightarrow> s\<lparr>s_at := ''03:00'', s_monthMode := OnLast, s_monthDay := 1, s_nth := 1, s_nthWeekday := Sun\<rparr>
         | Years \<Rightarrow> s\<lparr>s_at := ''23:00'', s_yearMonth := 12, s_yearDay := 31\<rparr>
         | Days \<Rightarrow> s\<lparr>s_at := ''02:00''\<rparr>)"

text \<open>The fields a set had before it had schedules.\<close>

record legacy =
  lg_triggerMode :: string
  lg_intervalMinutes :: int
  lg_windowAllDay :: bool
  lg_windowStart :: string
  lg_windowEnd :: string
  lg_daysOfWeek :: "weekday list"
  lg_scheduleTime :: string

definition jobScheduling :: "job \<Rightarrow> legacy \<Rightarrow> sched_mode \<times> schedule list" where
  "jobScheduling j l =
     (case j_scheduleMode j of
        Some m \<Rightarrow> (m, j_schedules j)
      | None \<Rightarrow>
          (let days = (if length (lg_daysOfWeek l) \<ge> 7 then [] else lg_daysOfWeek l)
           in if lg_triggerMode l = ''manual'' then (Manual, [])
              else if lg_triggerMode l = ''interval'' then
                (if \<not> lg_intervalMinutes l > 0 then (Scheduled, [])
                 else let hours = lg_intervalMinutes l mod 60 = 0
                      in (Scheduled, [empty_schedule\<lparr>s_id := ''s1'', s_enabled := True,
                           s_unit := if hours then Hours else Minutes,
                           s_every := if hours then lg_intervalMinutes l div 60 else lg_intervalMinutes l,
                           s_windowStart := if lg_windowAllDay l then [] else lg_windowStart l,
                           s_windowEnd := if lg_windowAllDay l then [] else lg_windowEnd l,
                           s_weekdays := days\<rparr>]))
              else if lg_scheduleTime l = [] then (Scheduled, [])
              else (Scheduled, [empty_schedule\<lparr>s_id := ''s1'', s_enabled := True, s_unit := Days, s_every := 1,
                     s_at := lg_scheduleTime l, s_weekdays := days\<rparr>])))"

text \<open>The loop of \<open>nextScheduleId\<close>; one more try than there are schedules is always enough.\<close>

fun id_loop :: "string list \<Rightarrow> nat \<Rightarrow> nat \<Rightarrow> string option" where
  "id_loop used n 0 = None"
| "id_loop used n (Suc tries) =
     (if CHR ''s'' # show_nat n \<notin> set used then Some (CHR ''s'' # show_nat n) else id_loop used (n + 1) tries)"

definition nextScheduleId :: "schedule list \<Rightarrow> string option" where
  "nextScheduleId ss = id_loop (map s_id ss) 1 (length ss + 1)"

section \<open>Words\<close>

record names =
  nm_weekday :: "weekday \<Rightarrow> string \<Rightarrow> string"
  nm_month :: "int \<Rightarrow> string"
  nm_dayMonth :: "int \<Rightarrow> int \<Rightarrow> string"
  nm_plural :: "int \<Rightarrow> string option"

definition try_key :: "translate \<Rightarrow> string \<Rightarrow> (string \<times> string) list \<Rightarrow> string option" where
  "try_key t k params = (let v = t k params in if v \<noteq> k \<and> v \<noteq> [] then Some v else None)"

definition tp :: "translate \<Rightarrow> names \<Rightarrow> string \<Rightarrow> int \<Rightarrow> (string \<times> string) list \<Rightarrow> string" where
  "tp t nm key n params =
     (let ps = (''n'', show_int n) # params;
          cat = (case nm_plural nm n of Some c \<Rightarrow> c | None \<Rightarrow> ''other'')
      in case (if n = 1 then try_key t (key @ ''_1'') ps else None) of
           Some v \<Rightarrow> v
         | None \<Rightarrow> (case try_key t (key @ ''_'' @ cat) ps of
             Some v \<Rightarrow> v
           | None \<Rightarrow> t (key @ ''_other'') ps))"

definition unit_key :: "sched_unit \<Rightarrow> string" where
  "unit_key u = (case u of Minutes \<Rightarrow> ''minutes'' | Hours \<Rightarrow> ''hours'' | Days \<Rightarrow> ''days''
     | Weeks \<Rightarrow> ''weeks'' | Months \<Rightarrow> ''months'' | Years \<Rightarrow> ''years'')"

definition day_key :: "weekday \<Rightarrow> string" where
  "day_key w = (case w of Sun \<Rightarrow> ''Sun'' | Mon \<Rightarrow> ''Mon'' | Tue \<Rightarrow> ''Tue'' | Wed \<Rightarrow> ''Wed''
     | Thu \<Rightarrow> ''Thu'' | Fri \<Rightarrow> ''Fri'' | Sat \<Rightarrow> ''Sat'')"

definition nthWord :: "translate \<Rightarrow> int \<Rightarrow> weekday \<Rightarrow> string" where
  "nthWord t n w =
     (let base = ''schedNth'' @ (if n = -1 then ''Last'' else show_int n);
          gk = ''schedGender_'' @ day_key w;
          g = t gk [];
          k = base @ ''_'' @ g
      in if g \<noteq> [] \<and> g \<noteq> gk \<and> g \<noteq> ''m'' \<and> t k [] \<noteq> k then t k [] else t base [])"

definition daysText :: "translate \<Rightarrow> names \<Rightarrow> weekday list \<Rightarrow> string" where
  "daysText t nm days =
     (let chosen = filter (\<lambda>w. w \<in> set days) WEEK
      in if length chosen = 0 \<or> length chosen = 7 then []
         else if chosen = [Mon, Tue, Wed, Thu, Fri] then t ''schedDaysWeekdays'' []
         else if chosen = [Sat, Sun] then t ''schedDaysWeekend'' []
         else join_with '', '' (map (\<lambda>w. nm_weekday nm w ''short'') chosen))"

text \<open>Weekdays in the order of a week that begins on Monday: the days of a schedule are named in it, however they
  were ticked.\<close>

primrec week_pos :: "weekday \<Rightarrow> nat" where
  "week_pos Mon = 0"
| "week_pos Tue = 1"
| "week_pos Wed = 2"
| "week_pos Thu = 3"
| "week_pos Fri = 4"
| "week_pos Sat = 5"
| "week_pos Sun = 6"

lemma week_pos_inj: "week_pos v = week_pos w \<Longrightarrow> v = w"
  by (cases v; cases w) simp_all

instantiation weekday :: linorder
begin

definition less_eq_weekday :: "weekday \<Rightarrow> weekday \<Rightarrow> bool" where
  "less_eq_weekday v w \<longleftrightarrow> week_pos v \<le> week_pos w"

definition less_weekday :: "weekday \<Rightarrow> weekday \<Rightarrow> bool" where
  "less_weekday v w \<longleftrightarrow> week_pos v < week_pos w"

instance
  by standard (auto simp: less_eq_weekday_def less_weekday_def week_pos_inj)

end

lemma chosen_days: "filter (\<lambda>w. w \<in> set days) WEEK = sorted_list_of_set (set days)"
proof -
  have "w \<in> set WEEK" for w by (cases w) (simp_all add: WEEK_def)
  then have set: "set (filter (\<lambda>w. w \<in> set days) WEEK) = set days" by auto
  have "sorted WEEK" "distinct WEEK" by (simp_all add: WEEK_def less_eq_weekday_def)
  then show ?thesis using set
    by (intro sorted_distinct_set_unique) (simp_all add: sorted_filter [of id, simplified])
qed

lemma daysText_set: "set days = set days' \<Longrightarrow> daysText t nm days = daysText t nm days'"
  by (simp add: daysText_def chosen_days)

text \<open>\<open>Math.max(1, s.every | 0)\<close>.\<close>

definition every_of :: "schedule \<Rightarrow> int" where
  "every_of s = max 1 (to_int32 (s_every s))"

definition describe :: "translate \<Rightarrow> names \<Rightarrow> schedule \<Rightarrow> string" where
  "describe t nm s =
     (let every = tp t nm (''schedEvery_'' @ unit_key (s_unit s)) (every_of s) [];
          days = daysText t nm (s_weekdays s);
          repeated =
            (let d = (if s_windowStart s \<noteq> [] \<and> s_windowEnd s \<noteq> []
                      then t ''schedDescWindow'' [(''every'', every), (''start'', s_windowStart s), (''end'', s_windowEnd s)]
                      else if s_unit s = Hours \<and> s_minute s \<noteq> 0
                      then t ''schedDescAtMinute'' [(''every'', every), (''mm'', pad2 (s_minute s))]
                      else every)
             in if days \<noteq> [] then t ''schedDescOnDays'' [(''desc'', d), (''days'', days)] else d)
      in case s_unit s of
           Minutes \<Rightarrow> repeated
         | Hours \<Rightarrow> repeated
         | Days \<Rightarrow>
             if days \<noteq> [] then t ''schedDescDaysOnly'' [(''every'', every), (''time'', s_at s), (''days'', days)]
             else t ''schedDescAt'' [(''every'', every), (''time'', s_at s)]
         | Weeks \<Rightarrow>
             t ''schedDescWeeks'' [(''every'', every), (''days'', if days \<noteq> [] then days else t ''everyDay'' []), (''time'', s_at s)]
         | Months \<Rightarrow>
             (case s_monthMode s of
                OnLast \<Rightarrow> t ''schedDescMonthLast'' [(''every'', every), (''time'', s_at s)]
              | OnNth \<Rightarrow> t ''schedDescMonthNth'' [(''every'', every), (''nth'', nthWord t (s_nth s) (s_nthWeekday s)),
                  (''weekday'', nm_weekday nm (s_nthWeekday s) ''long''), (''time'', s_at s)]
              | OnDay \<Rightarrow> t ''schedDescMonthDay'' [(''every'', every), (''d'', show_int (s_monthDay s)), (''time'', s_at s)])
         | Years \<Rightarrow> t ''schedDescYear'' [(''every'', every), (''date'', nm_dayMonth nm (s_yearMonth s) (s_yearDay s)), (''time'', s_at s)])"

definition badgeKey :: "schedule \<Rightarrow> string" where
  "badgeKey s = (case s_unit s of Minutes \<Rightarrow> ''triggerModeInterval'' | Hours \<Rightarrow> ''triggerModeInterval''
     | Days \<Rightarrow> ''triggerModeDaily'' | Weeks \<Rightarrow> ''schedBadgeWeekly'' | Months \<Rightarrow> ''schedBadgeMonthly''
     | Years \<Rightarrow> ''schedBadgeYearly'')"

text \<open>\<open>a <= b\<close> on strings: by code units, a prefix first.\<close>

fun text_le :: "string \<Rightarrow> string \<Rightarrow> bool" where
  "text_le [] b = True"
| "text_le (c # a) [] = False"
| "text_le (c # a) (d # b) = (code_unit c < code_unit d \<or> c = d \<and> text_le a b)"

definition scheduleProblem :: "schedule \<Rightarrow> string" where
  "scheduleProblem s =
     (if s_unit s = Minutes \<and> s_every s < MIN_REPEAT_MINUTES then ''schedMinRepeat''
      else if (s_unit s = Minutes \<or> s_unit s = Hours) \<and> s_windowStart s \<noteq> [] \<and> s_windowEnd s \<noteq> []
           \<and> text_le (s_windowEnd s) (s_windowStart s) then ''schedWindowOrder''
      else if s_unit s = Weeks \<and> s_weekdays s = [] then ''schedPickDay''
      else [])"

section \<open>Next runs\<close>

definition hm :: "string \<Rightarrow> int" where
  "hm s = (case split_on (CHR '':'') s of
       [] \<Rightarrow> 0
     | [h] \<Rightarrow> number_or_0 h * 60
     | h # m # _ \<Rightarrow> number_or_0 h * 60 + number_or_0 m)"

definition lastDay :: "int \<Rightarrow> int \<Rightarrow> int" where
  "lastDay y m = date_of (make_day y (m + 1) 0)"

definition monday :: "int \<Rightarrow> int" where
  "monday d = d - (week_day d + 6) mod 7"

definition two_digits :: "string \<Rightarrow> bool" where
  "two_digits s \<longleftrightarrow> length s = 2 \<and> list_all is_digit s"

text \<open>\<open>anchorOf\<close>: the start day, or Monday 3 January 2000. A year under 100 is one of the 1900s.\<close>

definition anchorOf :: "schedule \<Rightarrow> int" where
  "anchorOf s =
     (case split_on (CHR ''-'') (s_start s) of
        [y, m, d] \<Rightarrow>
          if length y = 4 \<and> list_all is_digit y \<and> two_digits m \<and> two_digits d
          then make_day (if digits_value y < 100 then 1900 + int (digits_value y) else int (digits_value y))
                 (int (digits_value m) - 1) (int (digits_value d))
          else make_day 2000 0 3
      | _ \<Rightarrow> make_day 2000 0 3)"

definition wd_of :: "int \<Rightarrow> weekday" where
  "wd_of d = WD ! nat (week_day d)"

definition listed :: "int \<Rightarrow> weekday list \<Rightarrow> bool \<Rightarrow> bool" where
  "listed d days emptyIsAll = (if days = [] then emptyIsAll else wd_of d \<in> set days)"

text \<open>The remainder \<open>x % k\<close> is 0.\<close>

definition divides :: "int \<Rightarrow> int \<Rightarrow> bool" where
  "divides k x \<longleftrightarrow> x mod k = 0"

definition onDay :: "schedule \<Rightarrow> int \<Rightarrow> int \<Rightarrow> int \<Rightarrow> bool" where
  "onDay s d a every =
     (case s_unit s of
        Minutes \<Rightarrow> listed d (s_weekdays s) True
      | Hours \<Rightarrow> listed d (s_weekdays s) True
      | Days \<Rightarrow> divides every (d - a) \<and> listed d (s_weekdays s) True
      | Weeks \<Rightarrow>
          (let days = (if s_weekdays s \<noteq> [] then s_weekdays s else [wd_of a])
           in listed d days False \<and> divides every ((monday d - monday a) div 7))
      | Months \<Rightarrow>
          (if \<not> divides every ((year_of d - year_of a) * 12 + month_of d - month_of a) then False
           else let ld = lastDay (year_of d) (month_of d); dd = date_of d
                in case s_monthMode s of
                     OnDay \<Rightarrow> dd = min (s_monthDay s) ld
                   | OnLast \<Rightarrow> dd = ld
                   | OnNth \<Rightarrow>
                       if wd_of d \<noteq> s_nthWeekday s then False
                       else if s_nth s = -1 then dd + 7 > ld else (dd - 1) div 7 + 1 = s_nth s)
      | Years \<Rightarrow>
          (if \<not> divides every (year_of d - year_of a) \<or> month_of d \<noteq> s_yearMonth s - 1 then False
           else date_of d = min (s_yearDay s) (lastDay (year_of d) (month_of d))))"

text \<open>The loop of \<open>timesOn\<close>: at most 300 times a day.\<close>

fun step_times :: "nat \<Rightarrow> int \<Rightarrow> int \<Rightarrow> int \<Rightarrow> int list" where
  "step_times 0 m to step = []"
| "step_times (Suc k) m to step = (if m \<le> to then m # step_times k (m + step) to step else [])"

definition minutes_on :: "schedule \<Rightarrow> int list" where
  "minutes_on s =
     (if s_unit s \<noteq> Minutes \<and> s_unit s \<noteq> Hours then (if s_at s \<noteq> [] then [hm (s_at s)] else [])
      else let step = every_of s * (if s_unit s = Hours then 60 else 1);
               window = s_windowStart s \<noteq> [] \<and> s_windowEnd s \<noteq> [];
               from = (if window then hm (s_windowStart s) else if s_unit s = Hours then to_int32 (s_minute s) else 0);
               to = (if window then max from (hm (s_windowEnd s)) else 24 * 60 - 1)
           in step_times 300 from to step)"

definition timesOn :: "zone \<Rightarrow> schedule \<Rightarrow> int \<Rightarrow> int list" where
  "timesOn z s d = map (at_minute z d) (minutes_on s)"

text \<open>The inner loop: the times after \<open>after\<close>, until there are \<open>n\<close>.\<close>

fun add_times :: "int \<Rightarrow> nat \<Rightarrow> int list \<Rightarrow> int list \<Rightarrow> int list" where
  "add_times after n [] out = out"
| "add_times after n (t # ts) out =
     (if t > after
      then (if length (out @ [t]) \<ge> n then out @ [t] else add_times after n ts (out @ [t]))
      else add_times after n ts out)"

definition horizon :: "schedule \<Rightarrow> int \<Rightarrow> int" where
  "horizon s every = (case s_unit s of Days \<Rightarrow> every + 8 | Weeks \<Rightarrow> 7 * every + 8
     | Months \<Rightarrow> 31 * every + 62 | Years \<Rightarrow> 366 * every + 1464 | Minutes \<Rightarrow> 8 | Hours \<Rightarrow> 8)"

text \<open>The outer loop over the days left of the horizon.\<close>

fun scan_days :: "zone \<Rightarrow> schedule \<Rightarrow> int \<Rightarrow> int \<Rightarrow> int \<Rightarrow> nat \<Rightarrow> nat \<Rightarrow> int \<Rightarrow> int list \<Rightarrow> int list" where
  "scan_days z s a every after n 0 d out = out"
| "scan_days z s a every after n (Suc left) d out =
     (if length out < n
      then scan_days z s a every after n left (d + 1)
             (if onDay s d a every then add_times after n (timesOn z s d) out else out)
      else out)"

definition nextRuns :: "zone \<Rightarrow> schedule \<Rightarrow> int \<Rightarrow> nat \<Rightarrow> int list" where
  "nextRuns z s after n =
     (let a = anchorOf s;
          every = every_of s;
          d0 = (if z_day z after < a then a else z_day z after)
      in scan_days z s a every after n (nat (horizon s every * int n + 1)) d0 [])"

text \<open>The loop of \<open>nextSetRun\<close> over the set's schedules.\<close>

fun best_run :: "zone \<Rightarrow> int \<Rightarrow> schedule list \<Rightarrow> (int \<times> schedule) option \<Rightarrow> (int \<times> schedule) option" where
  "best_run z after [] best = best"
| "best_run z after (s # ss) best =
     (if \<not> s_enabled s \<or> scheduleProblem s \<noteq> [] then best_run z after ss best
      else case nextRuns z s after 1 of
             [] \<Rightarrow> best_run z after ss best
           | t # _ \<Rightarrow>
               best_run z after ss
                 (case best of None \<Rightarrow> Some (t, s) | Some (bt, bs) \<Rightarrow> if t < bt then Some (t, s) else best))"

definition nextSetRun :: "zone \<Rightarrow> schedule list \<Rightarrow> int \<Rightarrow> (int \<times> schedule) option" where
  "nextSetRun z ss after = best_run z after ss None"

section \<open>The loops give the first runs\<close>

lemma add_times_take:
  "length out < n \<Longrightarrow> add_times after n ts out = take n (out @ filter (\<lambda>t. t > after) ts)"
proof (induction ts arbitrary: out)
  case (Cons t ts)
  show ?case
  proof (cases "t > after \<and> length (out @ [t]) < n")
    case True
    with Cons.IH [of "out @ [t]"] show ?thesis by simp
  next
    case False
    show ?thesis
    proof (cases "t > after")
      case True
      with False Cons.prems have "n = Suc (length out)" by simp
      with True show ?thesis by simp
    next
      case False
      with Cons show ?thesis by simp
    qed
  qed
qed simp

lemma take_take_append: "take n (take n xs @ ys) = take n (xs @ ys)"
  by (cases "length xs \<le> n") simp_all

text \<open>The candidate runs of the days from \<open>d\<close> on, \<open>k\<close> of them.\<close>

definition day_runs :: "zone \<Rightarrow> schedule \<Rightarrow> int \<Rightarrow> int \<Rightarrow> int \<Rightarrow> int \<Rightarrow> int list" where
  "day_runs z s a every after d = (if onDay s d a every then filter (\<lambda>t. t > after) (timesOn z s d) else [])"

definition days_from :: "int \<Rightarrow> nat \<Rightarrow> int list" where
  "days_from d k = map (\<lambda>i. d + int i) [0..<k]"

lemma days_from_Suc: "days_from d (Suc k) = d # days_from (d + 1) k"
proof -
  have "[0..<Suc k] = 0 # map Suc [0..<k]" by (simp add: map_Suc_upt upt_conv_Cons del: upt_Suc)
  then show ?thesis unfolding days_from_def by (simp add: add.assoc [symmetric] del: upt_Suc)
qed

lemma set_days_from: "set (days_from d k) = {d..<d + int k}"
proof -
  have "x \<in> set (days_from d k)" if "d \<le> x" "x < d + int k" for x
    using that unfolding days_from_def by (auto intro!: image_eqI [of _ _ "nat (x - d)"])
  then show ?thesis by (auto simp: days_from_def)
qed

lemma scan_days_take:
  "length out \<le> n \<Longrightarrow> scan_days z s a every after n k d out =
     take n (out @ concat (map (day_runs z s a every after) (days_from d k)))"
proof (induction k arbitrary: d out)
  case 0
  then show ?case by (simp add: days_from_def)
next
  case (Suc k)
  show ?case
  proof (cases "length out < n")
    case True
    define out' where "out' = (if onDay s d a every then add_times after n (timesOn z s d) out else out)"
    have o: "out' = take n (out @ day_runs z s a every after d)"
      using True by (simp add: out'_def day_runs_def add_times_take)
    then have "length out' \<le> n" by simp
    from Suc.IH [OF this, of "d + 1"] True
    have "scan_days z s a every after n (Suc k) d out = take n (out' @ concat (map (day_runs z s a every after) (days_from (d + 1) k)))"
      by (simp add: out'_def)
    also have "\<dots> = take n ((out @ day_runs z s a every after d) @ concat (map (day_runs z s a every after) (days_from (d + 1) k)))"
      unfolding o by (rule take_take_append)
    finally show ?thesis by (simp add: days_from_Suc)
  next
    case False
    with Suc.prems show ?thesis by simp
  qed
qed

definition first_day :: "zone \<Rightarrow> schedule \<Rightarrow> int \<Rightarrow> int" where
  "first_day z s after = max (anchorOf s) (z_day z after)"

lemma nextRuns_take:
  "nextRuns z s after n = take n (concat (map (day_runs z s (anchorOf s) (every_of s) after)
     (days_from (first_day z s after) (nat (horizon s (every_of s) * int n + 1)))))"
  by (simp add: nextRuns_def Let_def scan_days_take first_day_def max_def)

lemma every_of_pos: "1 \<le> every_of s"
  by (simp add: every_of_def)

lemma step_times_sorted: "0 < step \<Longrightarrow> sorted_wrt (<) (step_times k m to step) \<and> (\<forall>x \<in> set (step_times k m to step). m \<le> x \<and> x \<le> to)"
proof (induction k arbitrary: m)
  case (Suc k)
  from Suc.IH [OF Suc.prems, of "m + step"] Suc.prems show ?case by fastforce
qed simp

lemma minutes_on_sorted: "sorted_wrt (<) (minutes_on s)"
proof -
  have "0 < every_of s * (if s_unit s = Hours then 60 else 1)" using every_of_pos [of s] by simp
  then show ?thesis unfolding minutes_on_def Let_def using step_times_sorted by simp
qed

lemma zone_plain_lt:
  "zone_plain z \<Longrightarrow> 0 \<le> m \<Longrightarrow> m < 1440 \<Longrightarrow> 0 \<le> m' \<Longrightarrow> m' < 1440 \<Longrightarrow> d * 1440 + m < d' * 1440 + m'
     \<Longrightarrow> at_minute z d m < at_minute z d' m'"
  by (simp add: zone_plain_def at_minute_def)

lemma concat_sorted:
  fixes f :: "int \<Rightarrow> int list"
  assumes "sorted_wrt (<) ds" "\<And>d. d \<in> set ds \<Longrightarrow> sorted_wrt (<) (f d)"
    "\<And>d d' x y. d \<in> set ds \<Longrightarrow> d' \<in> set ds \<Longrightarrow> d < d' \<Longrightarrow> x \<in> set (f d) \<Longrightarrow> y \<in> set (f d') \<Longrightarrow> x < y"
  shows "sorted_wrt (<) (concat (map f ds))"
  using assms
proof (induction ds)
  case (Cons d ds)
  have "sorted_wrt (<) (concat (map f ds))"
  proof (rule Cons.IH)
    show "sorted_wrt (<) ds" using Cons.prems(1) by simp
    show "sorted_wrt (<) (f x)" if "x \<in> set ds" for x using that Cons.prems(2) by simp
    show "x < y" if "c \<in> set ds" "c' \<in> set ds" "c < c'" "x \<in> set (f c)" "y \<in> set (f c')" for c c' x y
      using that Cons.prems(3) [of c c' x y] by simp
  qed
  moreover have "sorted_wrt (<) (f d)" using Cons.prems(2) by simp
  moreover have "\<forall>x \<in> set (f d). \<forall>y \<in> set (concat (map f ds)). x < y"
    using Cons.prems(1,3) by fastforce
  ultimately show ?case by (simp add: sorted_wrt_append)
qed simp

lemma sorted_wrt_days_from: "sorted_wrt (<) (days_from d k)"
  by (simp add: days_from_def sorted_wrt_map sorted_wrt_upt)

lemma day_runs_sorted:
  assumes "zone_plain z" "list_all (\<lambda>m. 0 \<le> m \<and> m < 1440) (minutes_on s)"
  shows "sorted_wrt (<) (concat (map (day_runs z s (anchorOf s) (every_of s) after) (days_from d k)))"
proof -
  from assms(2) have m: "\<And>m. m \<in> set (minutes_on s) \<Longrightarrow> 0 \<le> m \<and> m < 1440" by (simp add: list_all_iff)
  have "sorted_wrt (<) (map (at_minute z d) ms)" if "sorted_wrt (<) ms" "set ms \<subseteq> set (minutes_on s)" for d ms
    using that assms(1) m
    by (induction ms) (auto intro!: zone_plain_lt)
  then have t: "sorted_wrt (<) (timesOn z s d)" for d by (simp add: timesOn_def minutes_on_sorted)
  show ?thesis
  proof (rule concat_sorted [OF sorted_wrt_days_from])
    show "sorted_wrt (<) (day_runs z s (anchorOf s) (every_of s) after d)" for d
      using t [of d] by (simp add: day_runs_def sorted_wrt_filter)
    show "x < y" if dd: "d < d'" and xy: "x \<in> set (day_runs z s (anchorOf s) (every_of s) after d)"
      "y \<in> set (day_runs z s (anchorOf s) (every_of s) after d')" for d d' x y
    proof -
      obtain m1 m2 where mm: "x = at_minute z d m1" "y = at_minute z d' m2" "m1 \<in> set (minutes_on s)" "m2 \<in> set (minutes_on s)"
        using xy by (auto simp: day_runs_def timesOn_def split: if_splits)
      have "d * 1440 + m1 < d' * 1440 + m2" using m [OF mm(3)] m [OF mm(4)] dd by simp
      then show ?thesis using zone_plain_lt assms(1) m [OF mm(3)] m [OF mm(4)] mm(1,2) by blast
    qed
  qed
qed

section \<open>A schedule that can be saved has a next run\<close>

text \<open>What the editor's fields allow, beyond what \<open>scheduleProblem\<close> checks.\<close>

definition fields_ok :: "schedule \<Rightarrow> bool" where
  "fields_ok s \<longleftrightarrow> 0 \<le> s_minute s \<and> s_minute s \<le> 59 \<and>
     (s_unit s \<noteq> Minutes \<and> s_unit s \<noteq> Hours \<longrightarrow> s_at s \<noteq> []) \<and>
     1 \<le> s_monthDay s \<and> s_nth s \<in> {1, 2, 3, 4, -1} \<and>
     1 \<le> s_yearMonth s \<and> s_yearMonth s \<le> 12 \<and> 1 \<le> s_yearDay s"

text \<open>The next number after \<open>x\<close> in steps of \<open>k\<close> from \<open>a\<close>.\<close>

lemma next_multiple:
  fixes x k a :: int
  assumes "1 \<le> k"
  shows "x < x + k - (x - a) mod k \<and> x + k - (x - a) mod k \<le> x + k \<and> divides k (x + k - (x - a) mod k - a)"
proof -
  have r: "0 \<le> (x - a) mod k" "(x - a) mod k < k" using assms by simp_all
  have "x - a - (x - a) mod k = k * ((x - a) div k)" by (simp add: minus_mod_eq_mult_div)
  then have "x + k - (x - a) mod k - a = k * ((x - a) div k + 1)" by (simp add: distrib_left)
  then have "divides k (x + k - (x - a) mod k - a)" unfolding divides_def by simp
  with r show ?thesis by linarith
qed

definition wd_index :: "weekday \<Rightarrow> int" where
  "wd_index w = (case w of Sun \<Rightarrow> 0 | Mon \<Rightarrow> 1 | Tue \<Rightarrow> 2 | Wed \<Rightarrow> 3 | Thu \<Rightarrow> 4 | Fri \<Rightarrow> 5 | Sat \<Rightarrow> 6)"

lemma wd_index_range: "0 \<le> wd_index w \<and> wd_index w < 7"
  by (cases w) (simp_all add: wd_index_def)

lemma wd_of_index: "week_day d = wd_index w \<Longrightarrow> wd_of d = w"
  by (cases w) (simp_all add: wd_of_def wd_index_def WD_def)

lemma wd_hit: "\<exists>d'. d < d' \<and> d' \<le> d + 7 \<and> wd_of d' = w"
proof -
  define d' where "d' = d + 1 + (wd_index w - (d + 5)) mod 7"
  have r: "0 \<le> (wd_index w - (d + 5)) mod 7" "(wd_index w - (d + 5)) mod 7 < 7" by simp_all
  have "week_day d' = ((d + 5) + (wd_index w - (d + 5)) mod 7) mod 7" by (simp add: week_day_def d'_def algebra_simps)
  also have "\<dots> = ((d + 5) + (wd_index w - (d + 5))) mod 7" by (rule mod_add_right_eq)
  also have "\<dots> = wd_index w" using wd_index_range [of w] by simp
  finally have "wd_of d' = w" by (rule wd_of_index)
  moreover have "d < d'" "d' \<le> d + 7" using r unfolding d'_def by linarith+
  ultimately show ?thesis by blast
qed

lemma monday_alt: "monday d = d - (d + 3) mod 7"
proof -
  have "(week_day d + 6) mod 7 = (d + 4 + 6) mod 7" unfolding week_day_def by (rule mod_add_left_eq)
  also have "\<dots> = (d + 3 + 7) mod 7" by (simp add: algebra_simps)
  also have "\<dots> = (d + 3) mod 7" by (rule mod_add_self2)
  finally show ?thesis by (simp add: monday_def)
qed

lemma monday_weeks: "(monday d + 3) mod 7 = 0"
proof -
  have "monday d + 3 = (d + 3) - (d + 3) mod 7" by (simp add: monday_alt)
  then show ?thesis by (simp add: minus_mod_eq_mult_div)
qed

lemma monday_range: "monday d \<le> d \<and> d \<le> monday d + 6"
  using pos_mod_sign [of 7 "d + 3"] pos_mod_bound [of 7 "d + 3"] unfolding monday_alt by linarith

lemma monday_of: "(m + 3) mod 7 = 0 \<Longrightarrow> m \<le> d \<Longrightarrow> d \<le> m + 6 \<Longrightarrow> monday d = m"
proof -
  assume a: "(m + 3) mod 7 = 0" "m \<le> d" "d \<le> m + 6"
  have "d + 3 = 7 * ((m + 3) div 7) + (d - m)" using a(1) mult_div_mod_eq [of 7 "m + 3"] by linarith
  then have "(d + 3) mod 7 = d - m" using a(2,3) by (intro int_mod_pos_eq) auto
  then show "monday d = m" by (simp add: monday_alt)
qed

lemma month_day_hit:
  assumes "month_start k \<le> t" "t < month_start (k + 1)"
  shows "12 * year_of t + month_of t = k \<and> date_of t = t - month_start k + 1 \<and>
    lastDay (year_of t) (month_of t) = month_start (k + 1) - month_start k"
proof -
  have n: "month_no t = k" using month_no_eq assms by blast
  then have e: "12 * year_of t + month_of t = k" by (simp add: month_no_def)
  moreover have "lastDay (year_of t) (month_of t) = month_start (k + 1) - month_start k"
    unfolding lastDay_def last_date e by (rule refl)
  moreover have "date_of t = t - month_start k + 1" using n by (simp add: date_of_start)
  ultimately show ?thesis by blast
qed

lemma hit_repeat:
  assumes "s_unit s = Minutes \<or> s_unit s = Hours"
  shows "\<exists>d'. d < d' \<and> d' \<le> d + 8 \<and> onDay s d' a every"
proof (cases "s_weekdays s")
  case Nil
  with assms have "onDay s (d + 1) a every" by (auto simp: onDay_def listed_def)
  then show ?thesis by (intro exI [of _ "d + 1"]) simp
next
  case (Cons w ws)
  obtain d' where d': "d < d'" "d' \<le> d + 7" "wd_of d' = w" using wd_hit by blast
  with assms Cons have "onDay s d' a every" by (auto simp: onDay_def listed_def)
  with d' show ?thesis by (intro exI [of _ d']) simp
qed

text \<open>Every so many days, on some weekdays only: the days that are both can be further apart than the horizon.\<close>

definition limited_days :: "schedule \<Rightarrow> bool" where
  "limited_days s \<longleftrightarrow> s_unit s = Days \<and> s_weekdays s \<noteq> [] \<and> every_of s \<noteq> 1"

lemma hit_every_day:
  assumes "s_unit s = Days" "s_weekdays s \<noteq> []"
  shows "\<exists>d'. d < d' \<and> d' \<le> d + 9 \<and> onDay s d' a 1"
proof -
  obtain w where w: "w \<in> set (s_weekdays s)" using assms(2) by (cases "s_weekdays s") auto
  obtain d' where d': "d < d'" "d' \<le> d + 7" "wd_of d' = w" using wd_hit by blast
  with assms w have "onDay s d' a 1" by (auto simp: onDay_def listed_def divides_def)
  with d' show ?thesis by (intro exI [of _ d']) simp
qed

lemma hit_days:
  assumes "s_unit s = Days" "s_weekdays s = []" "1 \<le> every"
  shows "\<exists>d'. d < d' \<and> d' \<le> d + (every + 8) \<and> onDay s d' a every"
proof -
  define d' where "d' = d + every - (d - a) mod every"
  have "d < d'" "d' \<le> d + every" "divides every (d' - a)"
    using next_multiple [OF assms(3), of d a] by (simp_all add: d'_def)
  with assms show ?thesis by (intro exI [of _ d']) (simp add: onDay_def listed_def)
qed

lemma hit_weeks:
  assumes "s_unit s = Weeks" "s_weekdays s \<noteq> []" "1 \<le> every"
  shows "\<exists>d'. d < d' \<and> d' \<le> d + (7 * every + 8) \<and> onDay s d' a every"
proof -
  obtain w where w: "w \<in> set (s_weekdays s)" using assms(2) by (cases "s_weekdays s") auto
  define q where "q = (monday d + 3) div 7"
  define qa where "qa = (monday a + 3) div 7"
  have m: "monday d = 7 * q - 3" "monday a = 7 * qa - 3"
    using mult_div_mod_eq [of 7 "monday d + 3"] mult_div_mod_eq [of 7 "monday a + 3"] monday_weeks [of d] monday_weeks [of a]
    unfolding q_def qa_def by linarith+
  define k where "k = q + every - (q - qa) mod every"
  have k: "q < k" "k \<le> q + every" "divides every (k - qa)"
    using next_multiple [OF assms(3), of q qa] by (simp_all add: k_def)
  obtain d' where d': "7 * k - 4 < d'" "d' \<le> 7 * k - 4 + 7" "wd_of d' = w" using wd_hit by blast
  have "monday d' = 7 * k - 3" using d' by (intro monday_of) auto
  then have "(monday d' - monday a) div 7 = k - qa" by (simp add: m algebra_simps flip: right_diff_distrib)
  then have "onDay s d' a every" using assms(1,2) w d'(3) k(3) by (auto simp: onDay_def listed_def)
  moreover have "d < d'" using monday_range [of d] m(1) d'(1) k(1) by linarith
  moreover have "d' \<le> d + (7 * every + 8)" using monday_range [of d] m(1) d'(2) k(2) by linarith
  ultimately show ?thesis by blast
qed

lemma hit_months:
  assumes "s_unit s = Months" "fields_ok s" "1 \<le> every"
  shows "\<exists>d'. d < d' \<and> d' \<le> d + (31 * every + 62) \<and> onDay s d' a every"
proof -
  define k where "k = month_no d + every - (month_no d - month_no a) mod every"
  have k: "month_no d < k" "k \<le> month_no d + every" "divides every (k - month_no a)"
    using next_multiple [OF assms(3), of "month_no d" "month_no a"] by (simp_all add: k_def)
  define B L where "B = month_start k" "L = month_start (k + 1) - month_start k"
  have L: "28 \<le> L" "L \<le> 31" using month_length [of k] by (auto simp: B_L_def)
  have B: "d < B" "B + L \<le> d + 31 * every + 31"
  proof -
    have "month_start (month_no d + 1) \<le> B"
      using month_start_le [of "month_no d + 1" k] k(1) unfolding B_L_def by simp
    then show "d < B" using month_bounds [of d] by simp
    have "B + L \<le> month_start (month_no d) + 31 * (k + 1 - month_no d)"
      using month_start_le [of "month_no d" "k + 1"] k(1) by (simp add: B_L_def)
    also have "\<dots> \<le> d + 31 * (every + 1)" using month_bounds [of d] k(2) by simp
    finally show "B + L \<le> d + 31 * every + 31" by simp
  qed
  have day: "\<exists>t. B \<le> t \<and> t < B + L \<and> onDay s t a every"
  proof -
    have hit: "onDay s t a every \<longleftrightarrow> (case s_monthMode s of
        OnDay \<Rightarrow> t - B + 1 = min (s_monthDay s) L | OnLast \<Rightarrow> t - B + 1 = L
      | OnNth \<Rightarrow> wd_of t = s_nthWeekday s \<and> (if s_nth s = -1 then t - B + 1 + 7 > L else (t - B) div 7 + 1 = s_nth s))"
      if "B \<le> t" "t < B + L" for t
    proof -
      have t: "12 * year_of t + month_of t = k" "date_of t = t - B + 1" "lastDay (year_of t) (month_of t) = L"
        using month_day_hit [of k t] that by (simp_all add: B_L_def)
      have "(year_of t - year_of a) * 12 + month_of t - month_of a = k - month_no a"
        using t(1) by (simp add: month_no_def algebra_simps)
      then show ?thesis using assms(1) k(3) t(2,3) by (cases "s_monthMode s") (auto simp: onDay_def)
    qed
    show ?thesis
    proof (cases "s_monthMode s")
      case OnDay
      have "1 \<le> s_monthDay s" using assms(2) by (simp add: fields_ok_def)
      then show ?thesis using hit [of "B + min (s_monthDay s) L - 1"] OnDay L
        by (intro exI [of _ "B + min (s_monthDay s) L - 1"]) auto
    next
      case OnLast
      then show ?thesis using hit [of "B + L - 1"] L by (intro exI [of _ "B + L - 1"]) auto
    next
      case OnNth
      show ?thesis
      proof (cases "s_nth s = -1")
        case True
        obtain t where t: "B + L - 8 < t" "t \<le> B + L - 8 + 7" "wd_of t = s_nthWeekday s" using wd_hit by blast
        with hit [of t] OnNth True L show ?thesis by (intro exI [of _ t]) auto
      next
        case False
        then have n: "1 \<le> s_nth s" "s_nth s \<le> 4" using assms(2) by (auto simp: fields_ok_def)
        obtain t where t: "B + 7 * (s_nth s - 1) - 1 < t" "t \<le> B + 7 * (s_nth s - 1) - 1 + 7" "wd_of t = s_nthWeekday s"
          using wd_hit by blast
        have "(t - B) div 7 = s_nth s - 1"
          by (rule int_div_pos_eq [where r = "t - B - 7 * (s_nth s - 1)"]) (use t in auto)
        with hit [of t] OnNth False L t n show ?thesis by (intro exI [of _ t]) auto
      qed
    qed
  qed
  then obtain t where "B \<le> t" "t < B + L" "onDay s t a every" by blast
  with B show ?thesis by (intro exI [of _ t]) auto
qed

lemma hit_years:
  assumes "s_unit s = Years" "fields_ok s" "1 \<le> every"
  shows "\<exists>d'. d < d' \<and> d' \<le> d + (366 * every + 1464) \<and> onDay s d' a every"
proof -
  define y where "y = year_of d + every - (year_of d - year_of a) mod every"
  have y: "year_of d < y" "y \<le> year_of d + every" "divides every (y - year_of a)"
    using next_multiple [OF assms(3), of "year_of d" "year_of a"] by (simp_all add: y_def)
  define m where "m = s_yearMonth s - 1"
  have m: "0 \<le> m" "m < 12" using assms(2) by (auto simp: m_def fields_ok_def)
  define k where "k = 12 * y + m"
  define B L where "B = month_start k" "L = month_start (k + 1) - month_start k"
  have L: "28 \<le> L" using month_length [of k] by (auto simp: B_L_def)
  define t where "t = B + min (s_yearDay s) L - 1"
  have yd: "1 \<le> s_yearDay s" using assms(2) by (simp add: fields_ok_def)
  then have t: "B \<le> t" "t < B + L" using L by (auto simp: t_def)
  then have h: "12 * year_of t + month_of t = k" "date_of t = t - B + 1" "lastDay (year_of t) (month_of t) = L"
    using month_day_hit [of k t] by (simp_all add: B_L_def)
  have "year_of t = y" "month_of t = m"
    using h(1) m month_of_range [of t] unfolding k_def by presburger+
  then have on: "onDay s t a every"
    using assms(1) y(3) h(2,3) by (simp add: onDay_def m_def t_def)
  have "dayFromYear y \<le> B" using month_start_le [of "12 * y" k] m by (simp add: k_def B_L_def month_start_year)
  moreover have "dayFromYear (year_of d + 1) \<le> dayFromYear y" using y(1) by (simp add: dayFromYear_le)
  ultimately have lo: "d < t" using year_of_bounds [of d] t(1) by linarith
  have "B + L \<le> dayFromYear (y + 1)"
    using month_start_le [of "k + 1" "12 * (y + 1)"] m by (simp add: k_def B_L_def flip: month_start_year)
  moreover have "dayFromYear (y + 1) \<le> dayFromYear (year_of d) + 366 * (y + 1 - year_of d)"
    using dayFromYear_upper [of "year_of d" "y + 1"] y(1) by simp
  moreover have "366 * (y + 1 - year_of d) \<le> 366 * (every + 1)" using y(2) by simp
  ultimately have "t < dayFromYear (year_of d) + 366 * (every + 1)" using t(2) by linarith
  then have "t \<le> d + (366 * every + 1464)" using year_of_bounds [of d] by simp
  with lo on show ?thesis by blast
qed

lemma hit_any:
  assumes "scheduleProblem s = []" "fields_ok s" "\<not> limited_days s" "every = every_of s"
  shows "\<exists>d'. d < d' \<and> d' \<le> d + horizon s every \<and> onDay s d' a every"
proof (cases "s_unit s")
  case Minutes
  then show ?thesis using hit_repeat by (simp add: horizon_def)
next
  case Hours
  then show ?thesis using hit_repeat by (simp add: horizon_def)
next
  case Days
  with assms show ?thesis using hit_days [of s every d a] hit_every_day [of s d a] every_of_pos [of s]
    by (cases "s_weekdays s = []") (auto simp: horizon_def limited_days_def)
next
  case Weeks
  with assms(1) have "s_weekdays s \<noteq> []" by (auto simp: scheduleProblem_def)
  with Weeks assms every_of_pos [of s] show ?thesis using hit_weeks [of s every d a] by (simp add: horizon_def)
next
  case Months
  with assms every_of_pos [of s] show ?thesis using hit_months [of s every d a] by (simp add: horizon_def)
next
  case Years
  with assms every_of_pos [of s] show ?thesis using hit_years [of s every d a] by (simp add: horizon_def)
qed

lemma number_or_0_nonneg: "0 \<le> number_or_0 s"
  by (simp add: number_or_0_def)

lemma hm_nonneg: "0 \<le> hm s"
  using number_or_0_nonneg by (auto simp: hm_def split: list.split)

lemma minutes_on_first:
  assumes "fields_ok s"
  shows "\<exists>m. m \<in> set (minutes_on s) \<and> 0 \<le> m"
proof (cases "s_unit s \<noteq> Minutes \<and> s_unit s \<noteq> Hours")
  case True
  with assms have "s_at s \<noteq> []" by (simp add: fields_ok_def)
  with True show ?thesis using hm_nonneg [of "s_at s"] by (auto simp: minutes_on_def)
next
  case False
  define window where "window = (s_windowStart s \<noteq> [] \<and> s_windowEnd s \<noteq> [])"
  define frm where "frm = (if window then hm (s_windowStart s) else if s_unit s = Hours then to_int32 (s_minute s) else 0)"
  define upto where "upto = (if window then max frm (hm (s_windowEnd s)) else 24 * 60 - 1)"
  define step where "step = every_of s * (if s_unit s = Hours then 60 else 1)"
  have m: "minutes_on s = step_times 300 frm upto step"
    using False unfolding minutes_on_def Let_def window_def frm_def upto_def step_def by (simp only: if_False if_True simp_thms)
  have "to_int32 (s_minute s) = s_minute s" using assms by (intro to_int32_id) (auto simp: fields_ok_def)
  then have "0 \<le> frm" "frm \<le> upto"
    using assms hm_nonneg by (auto simp: frm_def upto_def fields_ok_def)
  then have "frm \<in> set (minutes_on s)" unfolding m by (simp add: numeral_eq_Suc)
  with \<open>0 \<le> frm\<close> show ?thesis by blast
qed

lemma day_runs_nonempty:
  assumes "zone_days z" "fields_ok s" "z_day z after < d" "onDay s d a every"
  shows "day_runs z s a every after d \<noteq> []"
proof -
  obtain m where m: "m \<in> set (minutes_on s)" "0 \<le> m" using minutes_on_first [OF assms(2)] by blast
  have "0 \<le> m div 1440" using m(2) by (simp add: pos_imp_zdiv_nonneg_iff)
  then have "z_day z after < d + m div 1440" using assms(3) by simp
  then have "after < at_minute z d m"
    using assms(1) unfolding zone_days_def at_minute_def by simp
  then have "at_minute z d m \<in> set (day_runs z s a every after d)"
    using m(1) assms(4) by (auto simp: day_runs_def timesOn_def)
  then show ?thesis by auto
qed

lemma days_from_add: "days_from d (k + l) = days_from d k @ days_from (d + int k) l"
proof (induction k arbitrary: d)
  case (Suc k)
  have "d + 1 + int k = d + int (Suc k)" by simp
  with Suc [of "d + 1"] show ?case by (simp add: days_from_Suc del: of_nat_Suc)
qed (simp add: days_from_def)

lemma blocks_length:
  assumes "\<And>d. f \<le> d \<Longrightarrow> \<exists>d'. d < d' \<and> d' \<le> d + int H \<and> g d' \<noteq> []"
  shows "n \<le> length (concat (map g (days_from f (H * n + 1))))"
proof (induction n)
  case (Suc n)
  define d where "d = f + int (H * n)"
  have "f \<le> d" by (simp add: d_def)
  with assms obtain d' where d': "d < d'" "d' \<le> d + int H" "g d' \<noteq> []" by blast
  then have "d' \<in> set (days_from (f + int (H * n + 1)) H)" by (simp add: set_days_from d_def)
  then have "set (g d') \<subseteq> set (concat (map g (days_from (f + int (H * n + 1)) H)))" by auto
  with d'(3) have "concat (map g (days_from (f + int (H * n + 1)) H)) \<noteq> []" by (metis empty_set list.set_intros(1) neq_Nil_conv subset_empty empty_iff)
  then have "1 \<le> length (concat (map g (days_from (f + int (H * n + 1)) H)))" by (simp add: Suc_le_eq del: concat_eq_Nil_conv)
  moreover have e: "H * Suc n + 1 = (H * n + 1) + H" by simp
  ultimately show ?case using Suc
    unfolding e days_from_add map_append concat_append length_append by linarith
qed simp

lemma nextRuns_length:
  assumes "zone_days z" "scheduleProblem s = []" "fields_ok s" "\<not> limited_days s"
  shows "length (nextRuns z s after n) = n"
proof -
  define H where "H = nat (horizon s (every_of s))"
  have hp: "0 \<le> horizon s (every_of s)"
    using every_of_pos [of s] by (cases "s_unit s") (simp_all add: horizon_def)
  then have H: "int H = horizon s (every_of s)" by (simp add: H_def)
  have "nat (horizon s (every_of s) * int n + 1) = H * n + 1"
    unfolding H [symmetric] by (simp add: nat_add_distrib nat_mult_distrib)
  moreover have "n \<le> length (concat (map (day_runs z s (anchorOf s) (every_of s) after) (days_from (first_day z s after) (H * n + 1))))"
  proof (rule blocks_length)
    fix d assume "first_day z s after \<le> d"
    then have z: "z_day z after \<le> d" by (simp add: first_day_def)
    obtain d' where d': "d < d'" "d' \<le> d + horizon s (every_of s)" "onDay s d' (anchorOf s) (every_of s)"
      using hit_any [OF assms(2,3,4) refl] by blast
    have "day_runs z s (anchorOf s) (every_of s) after d' \<noteq> []"
      using d' z by (intro day_runs_nonempty [OF assms(1,3)]) auto
    with d' H show "\<exists>d'. d < d' \<and> d' \<le> d + int H \<and> day_runs z s (anchorOf s) (every_of s) after d' \<noteq> []" by auto
  qed
  ultimately show ?thesis unfolding nextRuns_take by simp
qed

text \<open>C11: a schedule that can be saved, but for every two days or more on some weekdays only, always has its
  next runs: for every unit, interval, day of the month, weekday of the month and start day the horizon is
  long enough, so the preview shows as many runs as it asks for, all to come. For the schedules left out the
  horizon can be too short (\<open>weekday_run_missed\<close>).\<close>
theorem nextRuns_complete:
  assumes "zone_days z" "scheduleProblem s = []" "fields_ok s" "\<not> limited_days s"
  shows "length (nextRuns z s after n) = n \<and> (\<forall>t \<in> set (nextRuns z s after n). after < t)"
proof
  show "length (nextRuns z s after n) = n" by (rule nextRuns_length [OF assms])
  show "\<forall>t \<in> set (nextRuns z s after n). after < t"
    unfolding nextRuns_take by (auto simp: day_runs_def split: if_splits dest!: in_set_takeD)
qed

definition leap_yearly :: schedule where
  "leap_yearly = (newSchedule Years ''s1'' 0)\<lparr>s_yearMonth := 2, s_yearDay := 29\<rparr>"

theorem nextRuns_complete_witness:
  "length (nextRuns UTC leap_yearly 0 3) = 3"
proof -
  have "scheduleProblem leap_yearly = []" "fields_ok leap_yearly" "\<not> limited_days leap_yearly" by code_simp+
  moreover have "zone_days UTC" using UTC_plain by (simp add: zone_plain_def)
  ultimately show ?thesis using nextRuns_complete [of UTC leap_yearly 0 3] by simp
qed

section \<open>The next runs by the calendar\<close>

text \<open>
  When a schedule runs, said without the code's arithmetic: the day is a whole number of intervals from the
  start day (of its week, month or year), it is the day named or the last one of a shorter month, the last day,
  or the weekday counted in the month; and the minute is a whole number of steps from the first.
\<close>

definition last_of_month :: "int \<Rightarrow> bool" where
  "last_of_month d \<longleftrightarrow> month_no (d + 1) \<noteq> month_no d"

definition run_day :: "schedule \<Rightarrow> int \<Rightarrow> bool" where
  "run_day s d \<longleftrightarrow>
     (let a = anchorOf s; e = every_of s; some_day = (s_weekdays s = [] \<or> wd_of d \<in> set (s_weekdays s)) in
      case s_unit s of
        Minutes \<Rightarrow> some_day
      | Hours \<Rightarrow> some_day
      | Days \<Rightarrow> (\<exists>k. d = a + k * e) \<and> some_day
      | Weeks \<Rightarrow> (\<exists>k. monday d = monday a + 7 * (k * e)) \<and> wd_of d \<in> (if s_weekdays s = [] then {wd_of a} else set (s_weekdays s))
      | Months \<Rightarrow> (\<exists>k. month_no d = month_no a + k * e) \<and>
          (case s_monthMode s of
             OnDay \<Rightarrow> date_of d = s_monthDay s \<or> last_of_month d \<and> date_of d < s_monthDay s
           | OnLast \<Rightarrow> last_of_month d
           | OnNth \<Rightarrow> wd_of d = s_nthWeekday s \<and>
               (if s_nth s = -1 then \<forall>d' > d. wd_of d' = wd_of d \<longrightarrow> month_no d' \<noteq> month_no d
                else int (card {d'. d' \<le> d \<and> month_no d' = month_no d \<and> wd_of d' = wd_of d}) = s_nth s))
      | Years \<Rightarrow> (\<exists>k. year_of d = year_of a + k * e) \<and> month_of d = s_yearMonth s - 1 \<and>
          (date_of d = s_yearDay s \<or> last_of_month d \<and> date_of d < s_yearDay s))"

definition run_minute :: "schedule \<Rightarrow> int \<Rightarrow> bool" where
  "run_minute s m \<longleftrightarrow>
     (if s_unit s \<noteq> Minutes \<and> s_unit s \<noteq> Hours then s_at s \<noteq> [] \<and> m = hm (s_at s)
      else let window = s_windowStart s \<noteq> [] \<and> s_windowEnd s \<noteq> [];
               first = (if window then hm (s_windowStart s) else if s_unit s = Hours then s_minute s else 0);
               last = (if window then max first (hm (s_windowEnd s)) else 1439) in
           m \<le> last \<and> (\<exists>k \<ge> 0. m = first + k * (every_of s * (if s_unit s = Hours then 60 else 1))))"

text \<open>The times of day as the time fields give them, and an interval of 32 bits.\<close>

definition clock_ok :: "schedule \<Rightarrow> bool" where
  "clock_ok s \<longleftrightarrow> hm (s_at s) < 1440 \<and> hm (s_windowStart s) < 1440 \<and> hm (s_windowEnd s) < 1440 \<and> s_every s < 2147483648"

lemma divides_iff: "divides e (d - a) \<longleftrightarrow> (\<exists>k. d = a + k * e)"
proof -
  have "divides e (d - a) \<longleftrightarrow> e dvd d - a" by (simp add: divides_def dvd_eq_mod_eq_0)
  also have "\<dots> \<longleftrightarrow> (\<exists>k. d = a + k * e)" by (auto simp: dvd_def algebra_simps)
  finally show ?thesis .
qed

lemma month_span: "lastDay (year_of d) (month_of d) = month_start (month_no d + 1) - month_start (month_no d)"
  using month_day_hit [OF month_bounds [THEN conjunct1] month_bounds [THEN conjunct2], of d] by blast

lemma same_month: "month_no d' = month_no d \<longleftrightarrow> month_start (month_no d) \<le> d' \<and> d' < month_start (month_no d + 1)"
  using month_bounds [of d'] month_no_eq by metis

lemma last_of_month_iff: "last_of_month d \<longleftrightarrow> date_of d = lastDay (year_of d) (month_of d)"
  using month_bounds [of d] unfolding last_of_month_def month_span date_of_start same_month by linarith

lemma date_le_last: "1 \<le> date_of d \<and> date_of d \<le> lastDay (year_of d) (month_of d)"
  using month_bounds [of d] unfolding month_span date_of_start by linarith

lemma day_or_last: "date_of d = min k (lastDay (year_of d) (month_of d)) \<longleftrightarrow> date_of d = k \<or> last_of_month d \<and> date_of d < k"
  using date_le_last [of d] unfolding last_of_month_iff by linarith

lemma wd_of_eq: "wd_of d' = wd_of d \<longleftrightarrow> 7 dvd d - d'"
proof -
  have inj: "wd_index (wd_of x) = week_day x" for x
  proof -
    have "week_day x \<in> {0..<7}" by (simp add: week_day_def)
    then have "week_day x \<in> {0, 1, 2, 3, 4, 5, 6}" by auto
    then show ?thesis by (auto simp: wd_of_def WD_def wd_index_def)
  qed
  have "wd_of d' = wd_of d \<longleftrightarrow> week_day d' = week_day d"
    using inj [of d] inj [of d'] wd_of_index by metis
  also have "\<dots> \<longleftrightarrow> 7 dvd (d + 4) - (d' + 4)" unfolding week_day_def by (metis mod_eq_dvd_iff)
  finally show ?thesis by simp
qed

lemma nth_weekday: "int (card {d'. d' \<le> d \<and> month_no d' = month_no d \<and> wd_of d' = wd_of d}) = (date_of d - 1) div 7 + 1"
proof -
  define B where "B = month_start (month_no d)"
  define q where "q = nat ((d - B) div 7)"
  have B: "B \<le> d" "d < month_start (month_no d + 1)" using month_bounds [of d] by (simp_all add: B_def)
  have q: "int q = (d - B) div 7" using B(1) by (simp add: q_def pos_imp_zdiv_nonneg_iff)
  have "{d'. d' \<le> d \<and> month_no d' = month_no d \<and> wd_of d' = wd_of d} = (\<lambda>k. d - 7 * int k) ` {..q}"
  proof (intro equalityI subsetI)
    fix x assume "x \<in> {d'. d' \<le> d \<and> month_no d' = month_no d \<and> wd_of d' = wd_of d}"
    then have x: "x \<le> d" "B \<le> x" "7 dvd d - x" by (auto simp: same_month wd_of_eq B_def)
    then obtain k where k: "d - x = 7 * k" by (auto elim: dvdE)
    with x have "0 \<le> k" "k \<le> (d - B) div 7" by auto
    with q k show "x \<in> (\<lambda>k. d - 7 * int k) ` {..q}" by (intro image_eqI [of _ _ "nat k"]) auto
  next
    fix x assume "x \<in> (\<lambda>k. d - 7 * int k) ` {..q}"
    then obtain k where k: "x = d - 7 * int k" "k \<le> q" by auto
    then have "7 * int k \<le> d - B" using q by linarith
    with k B show "x \<in> {d'. d' \<le> d \<and> month_no d' = month_no d \<and> wd_of d' = wd_of d}"
      by (auto simp: same_month wd_of_eq B_def)
  qed
  moreover have "inj_on (\<lambda>k. d - 7 * int k) {..q}" by (auto intro: inj_onI)
  ultimately show ?thesis by (simp add: card_image q date_of_start B_def)
qed

lemma last_weekday: "(\<forall>d' > d. wd_of d' = wd_of d \<longrightarrow> month_no d' \<noteq> month_no d) \<longleftrightarrow> date_of d + 7 > lastDay (year_of d) (month_of d)"
proof -
  have "(\<exists>d' > d. wd_of d' = wd_of d \<and> month_no d' = month_no d) \<longleftrightarrow> d + 7 < month_start (month_no d + 1)"
  proof
    assume "\<exists>d' > d. wd_of d' = wd_of d \<and> month_no d' = month_no d"
    then obtain d' where d': "d < d'" "7 dvd d - d'" "d' < month_start (month_no d + 1)" by (auto simp: wd_of_eq same_month)
    then have "d + 7 \<le> d'" by presburger
    with d' show "d + 7 < month_start (month_no d + 1)" by simp
  next
    assume "d + 7 < month_start (month_no d + 1)"
    with month_bounds [of d] show "\<exists>d' > d. wd_of d' = wd_of d \<and> month_no d' = month_no d"
      by (intro exI [of _ "d + 7"]) (auto simp: wd_of_eq same_month)
  qed
  then show ?thesis unfolding month_span date_of_start by (auto simp: not_less)
qed

lemma monday_steps: "divides e ((monday d - monday a) div 7) \<longleftrightarrow> (\<exists>k. monday d = monday a + 7 * (k * e))"
proof -
  have "7 dvd (monday d + 3) - (monday a + 3)"
    using monday_weeks [of d] monday_weeks [of a] by (intro dvd_diff) (simp_all add: dvd_eq_mod_eq_0)
  then obtain j where j: "monday d - monday a = 7 * j" by (auto elim: dvdE)
  then have "divides e ((monday d - monday a) div 7) \<longleftrightarrow> (\<exists>k. j = k * e)"
    using divides_iff [of e j 0] by simp
  with j show ?thesis by (auto simp: algebra_simps)
qed

lemma onDay_run_day: "onDay s d (anchorOf s) (every_of s) \<longleftrightarrow> run_day s d"
proof (cases "s_unit s")
  case Months
  have "(year_of d - year_of (anchorOf s)) * 12 + month_of d - month_of (anchorOf s) = month_no d - month_no (anchorOf s)"
    by (simp add: month_no_def algebra_simps)
  moreover have "(date_of d - 1) div 7 + 1 = s_nth s \<longleftrightarrow>
      int (card {d'. d' \<le> d \<and> month_no d' = month_no d \<and> wd_of d' = wd_of d}) = s_nth s"
    using nth_weekday [of d] by simp
  ultimately show ?thesis using Months
    by (cases "s_monthMode s")
      (auto simp: onDay_def run_day_def Let_def divides_iff day_or_last last_of_month_iff simp flip: last_weekday)
next
  case Years
  have "date_of d = min (s_yearDay s) (lastDay (year_of d) (s_yearMonth s - 1)) \<longleftrightarrow> date_of d = s_yearDay s \<or> last_of_month d \<and> date_of d < s_yearDay s"
    if "month_of d = s_yearMonth s - 1"
    using day_or_last [of d "s_yearDay s"] that by simp
  with Years show ?thesis by (simp add: onDay_def run_day_def Let_def divides_iff)
qed (auto simp: onDay_def run_day_def Let_def listed_def divides_iff monday_steps)

lemma set_step_times:
  "0 < step \<Longrightarrow> set (step_times k m to step) = {x. \<exists>i. 0 \<le> i \<and> i < int k \<and> x = m + i * step \<and> x \<le> to}"
proof (induction k arbitrary: m)
  case (Suc k)
  show ?case
  proof (cases "m \<le> to")
    case True
    have "{x. \<exists>i. 0 \<le> i \<and> i < int (Suc k) \<and> x = m + i * step \<and> x \<le> to} =
        insert m {x. \<exists>i. 0 \<le> i \<and> i < int k \<and> x = m + step + i * step \<and> x \<le> to}"
    proof (intro equalityI subsetI)
      fix x assume "x \<in> {x. \<exists>i. 0 \<le> i \<and> i < int (Suc k) \<and> x = m + i * step \<and> x \<le> to}"
      then obtain i where i: "0 \<le> i" "i < int (Suc k)" "x = m + i * step" "x \<le> to" by blast
      show "x \<in> insert m {x. \<exists>i. 0 \<le> i \<and> i < int k \<and> x = m + step + i * step \<and> x \<le> to}"
      proof (cases "i = 0")
        case False
        with i have "0 \<le> i - 1" "i - 1 < int k" "x = m + step + (i - 1) * step" by (auto simp: left_diff_distrib)
        with i(4) show ?thesis by blast
      qed (simp add: i(3))
    next
      fix x assume "x \<in> insert m {x. \<exists>i. 0 \<le> i \<and> i < int k \<and> x = m + step + i * step \<and> x \<le> to}"
      then consider "x = m" | i where "0 \<le> i" "i < int k" "x = m + step + i * step" "x \<le> to" by blast
      then show "x \<in> {x. \<exists>i. 0 \<le> i \<and> i < int (Suc k) \<and> x = m + i * step \<and> x \<le> to}"
      proof cases
        case 1
        with True show ?thesis by (auto intro: exI [of _ 0])
      next
        case 2
        then show ?thesis by (auto simp: algebra_simps intro!: exI [of _ "i + 1"])
      qed
    qed
    with Suc True show ?thesis by simp
  next
    case False
    then have "m + i * step \<le> to \<Longrightarrow> i < 0" for i
      using Suc.prems by (smt (verit) mult_nonneg_nonneg)
    with False show ?thesis by fastforce
  qed
qed simp

lemma step_times_all:
  assumes "5 \<le> step" "0 \<le> m" "to < 1440"
  shows "x \<in> set (step_times 300 m to step) \<longleftrightarrow> x \<le> to \<and> (\<exists>i \<ge> 0. x = m + i * step)"
proof -
  have "i < 300" if "m + i * step \<le> to" for i
  proof (rule ccontr)
    assume "\<not> i < 300"
    then have "300 * 5 \<le> i * step" using assms(1) by (intro mult_mono) auto
    with that assms(2,3) show False by simp
  qed
  then show ?thesis using assms(1) by (subst set_step_times) auto
qed

lemma minutes_on_run:
  assumes "scheduleProblem s = []" "fields_ok s" "clock_ok s"
  shows "m \<in> set (minutes_on s) \<longleftrightarrow> run_minute s m" "m \<in> set (minutes_on s) \<Longrightarrow> 0 \<le> m \<and> m < 1440"
proof -
  have "(m \<in> set (minutes_on s) \<longleftrightarrow> run_minute s m) \<and> (m \<in> set (minutes_on s) \<longrightarrow> 0 \<le> m \<and> m < 1440)"
  proof (cases "s_unit s \<noteq> Minutes \<and> s_unit s \<noteq> Hours")
    case True
    then show ?thesis using assms(3) hm_nonneg by (auto simp: minutes_on_def run_minute_def clock_ok_def)
  next
    case False
    then have unit: "(s_unit s \<noteq> Minutes \<and> s_unit s \<noteq> Hours) = False" by blast
    define frm where "frm = (if s_windowStart s \<noteq> [] \<and> s_windowEnd s \<noteq> [] then hm (s_windowStart s)
      else if s_unit s = Hours then s_minute s else 0)"
    define upto where "upto = (if s_windowStart s \<noteq> [] \<and> s_windowEnd s \<noteq> [] then max frm (hm (s_windowEnd s)) else 1439)"
    define step where "step = every_of s * (if s_unit s = Hours then 60 else 1)"
    have "to_int32 (s_minute s) = s_minute s" using assms(2) by (intro to_int32_id) (auto simp: fields_ok_def)
    then have on: "minutes_on s = step_times 300 frm upto step"
      unfolding minutes_on_def Let_def unit frm_def upto_def step_def by simp
    have run: "run_minute s m \<longleftrightarrow> m \<le> upto \<and> (\<exists>k \<ge> 0. m = frm + k * step)"
      unfolding run_minute_def Let_def unit frm_def upto_def step_def by simp
    have frm: "0 \<le> frm" "upto < 1440" "frm \<le> 1439"
      using assms(2,3) hm_nonneg by (auto simp: frm_def upto_def fields_ok_def clock_ok_def)
    have step: "5 \<le> step"
    proof (cases "s_unit s = Hours")
      case True
      then show ?thesis using every_of_pos [of s] by (simp add: step_def)
    next
      case False
      with \<open>\<not> (s_unit s \<noteq> Minutes \<and> s_unit s \<noteq> Hours)\<close> assms(1) have "5 \<le> s_every s"
        by (auto simp: scheduleProblem_def MIN_REPEAT_MINUTES_def split: if_splits)
      moreover have "to_int32 (s_every s) = s_every s" using calculation assms(3) by (intro to_int32_id) (auto simp: clock_ok_def)
      ultimately show ?thesis using False by (simp add: step_def every_of_def)
    qed
    from step_times_all [OF step frm(1,2), of m] have "m \<in> set (minutes_on s) \<longleftrightarrow> run_minute s m" by (simp add: on run)
    moreover have "0 \<le> m \<and> m < 1440" if "m \<in> set (minutes_on s)"
      using that step_times_sorted [of step 300 frm upto] step frm by (auto simp: on)
    ultimately show ?thesis by blast
  qed
  then show "m \<in> set (minutes_on s) \<longleftrightarrow> run_minute s m" "m \<in> set (minutes_on s) \<Longrightarrow> 0 \<le> m \<and> m < 1440" by blast+
qed

text \<open>Over more days than the horizon the first runs are the same.\<close>

lemma nextRuns_more_days:
  assumes "zone_days z" "scheduleProblem s = []" "fields_ok s" "\<not> limited_days s"
    and "nat (horizon s (every_of s) * int n + 1) \<le> N"
  shows "nextRuns z s after n = take n (concat (map (day_runs z s (anchorOf s) (every_of s) after) (days_from (first_day z s after) N)))"
proof -
  define K where "K = nat (horizon s (every_of s) * int n + 1)"
  let ?runs = "\<lambda>k. concat (map (day_runs z s (anchorOf s) (every_of s) after) (days_from (first_day z s after) k))"
  have "?runs N = ?runs K @ concat (map (day_runs z s (anchorOf s) (every_of s) after) (days_from (first_day z s after + int K) (N - K)))"
    using assms(5) days_from_add [of "first_day z s after" K "N - K"] by (simp add: K_def)
  moreover have "n \<le> length (?runs K)"
    using nextRuns_length [OF assms(1-4), of after n] unfolding nextRuns_take K_def by simp
  ultimately show ?thesis by (simp add: nextRuns_take K_def)
qed

lemma day_runs_eq:
  "concat (map (day_runs z s (anchorOf s) (every_of s) after) ds) =
   filter (\<lambda>t. t > after) (concat (map (timesOn z s) (filter (run_day s) ds)))"
  by (induction ds) (auto simp: day_runs_def onDay_run_day)

lemma take_sorted_rest:
  assumes "sorted_wrt (<) xs" "t \<in> set xs" "t \<notin> set (take n xs)" "u \<in> set (take n xs)"
  shows "u < (t :: int)"
proof -
  from assms(2,3) have "t \<in> set (drop n xs)" by (metis Un_iff append_take_drop_id set_append)
  moreover have "sorted_wrt (<) (take n xs @ drop n xs)" using assms(1) by simp
  ultimately show ?thesis using assms(4) unfolding sorted_wrt_append by blast
qed

lemma sorted_runs:
  assumes "zone_plain z" "scheduleProblem s = []" "fields_ok s" "clock_ok s"
  shows "sorted_wrt (<) (concat (map (day_runs z s (anchorOf s) (every_of s) after) (days_from d k)))"
proof -
  have "list_all (\<lambda>m. 0 \<le> m \<and> m < 1440) (minutes_on s)"
    using minutes_on_run(2) [OF assms(2-4)] by (simp add: list_all_iff)
  from day_runs_sorted [OF assms(1) this] show ?thesis .
qed

text \<open>The runs to come: at a minute it runs, on a day from its start on that it runs.\<close>

definition runs_after :: "zone \<Rightarrow> schedule \<Rightarrow> int \<Rightarrow> int set" where
  "runs_after z s after = {t. after < t \<and> (\<exists>d m. anchorOf s \<le> d \<and> run_day s d \<and> run_minute s m \<and> t = at_minute z d m)}"

lemma runs_after_days:
  assumes "zone_plain z" "scheduleProblem s = []" "fields_ok s" "clock_ok s"
  shows "t \<in> runs_after z s after \<longleftrightarrow>
    (\<exists>N. t \<in> set (concat (map (day_runs z s (anchorOf s) (every_of s) after) (days_from (first_day z s after) N))))"
proof
  assume "t \<in> runs_after z s after"
  then obtain d m where t: "after < t" "anchorOf s \<le> d" "run_day s d" "run_minute s m" "t = at_minute z d m"
    by (auto simp: runs_after_def)
  have m: "m \<in> set (minutes_on s)" "0 \<le> m" "m < 1440"
    using t(4) minutes_on_run [OF assms(2-4), of m] by blast+
  have "z_day z after \<le> d"
  proof (rule ccontr)
    assume "\<not> z_day z after \<le> d"
    with assms(1) m have "z_instant z d m \<le> after" by (simp add: zone_plain_def)
    with t(1,5) m show False by (simp add: at_minute_def)
  qed
  with t(2) have "d \<in> set (days_from (first_day z s after) (nat (d - first_day z s after) + 1))"
    by (simp add: set_days_from first_day_def)
  moreover have "t \<in> set (day_runs z s (anchorOf s) (every_of s) after d)"
    using t m(1) by (simp add: day_runs_def onDay_run_day timesOn_def)
  ultimately show "\<exists>N. t \<in> set (concat (map (day_runs z s (anchorOf s) (every_of s) after) (days_from (first_day z s after) N)))"
    by auto
next
  assume "\<exists>N. t \<in> set (concat (map (day_runs z s (anchorOf s) (every_of s) after) (days_from (first_day z s after) N)))"
  then obtain d where "first_day z s after \<le> d" "t \<in> set (day_runs z s (anchorOf s) (every_of s) after d)"
    by (auto simp: set_days_from)
  then show "t \<in> runs_after z s after"
    using minutes_on_run(1) [OF assms(2-4)]
    by (auto simp: runs_after_def day_runs_def onDay_run_day timesOn_def first_day_def split: if_splits)
qed

text \<open>C10: the next runs are the first ones of the calendar. A schedule that can be saved, with its fields and
  clock times in range, but for every two days or more on some weekdays only, runs at the times the calendar says: on days a whole number of intervals
  from its start, the weekdays of a month counted. The nested loops, with their early exits and their horizon,
  give the first \<open>n\<close> of all those times after \<open>after\<close>, however far away, on the days in their order;
  and where the clock does not change, in ascending order, with every run left out later than all of them.\<close>
theorem nextRuns_exact:
  assumes "zone_days z" "scheduleProblem s = []" "fields_ok s" "clock_ok s" "\<not> limited_days s"
  shows "(\<forall>N. nat (horizon s (every_of s) * int n + 1) \<le> N \<longrightarrow> nextRuns z s after n =
      take n (filter (\<lambda>t. t > after) (concat (map (timesOn z s) (filter (run_day s) (days_from (first_day z s after) N))))))
    \<and> (zone_plain z \<longrightarrow> sorted_wrt (<) (nextRuns z s after n) \<and> length (nextRuns z s after n) = n \<and>
        set (nextRuns z s after n) \<subseteq> runs_after z s after \<and>
        (\<forall>t \<in> runs_after z s after. t \<in> set (nextRuns z s after n) \<or> (\<forall>u \<in> set (nextRuns z s after n). u < t)))"
proof (intro conjI allI impI ballI)
  let ?runs = "\<lambda>N. concat (map (day_runs z s (anchorOf s) (every_of s) after) (days_from (first_day z s after) N))"
  define K where "K = nat (horizon s (every_of s) * int n + 1)"
  note more = nextRuns_more_days [OF assms(1-3,5), where n = n and after = after, folded K_def]
  show "nextRuns z s after n =
      take n (filter (\<lambda>t. t > after) (concat (map (timesOn z s) (filter (run_day s) (days_from (first_day z s after) N)))))"
    if "nat (horizon s (every_of s) * int n + 1) \<le> N" for N
    using more [of N] that by (simp add: day_runs_eq K_def)
  show "length (nextRuns z s after n) = n" by (rule nextRuns_length [OF assms(1-3,5)])
  assume plain: "zone_plain z"
  note sorted = sorted_runs [OF plain assms(2-4)]
  show "sorted_wrt (<) (nextRuns z s after n)"
    unfolding more [OF order_refl] by (rule sorted_wrt_take [OF sorted])
  show "set (nextRuns z s after n) \<subseteq> runs_after z s after"
    using runs_after_days [OF plain assms(2-4)] more [OF order_refl] by (metis in_set_takeD subsetI)
  fix t assume "t \<in> runs_after z s after"
  then obtain N where N: "t \<in> set (?runs N)" using runs_after_days [OF plain assms(2-4)] by blast
  have "set (?runs N) \<subseteq> set (?runs (max N K))"
    unfolding set_concat set_map set_days_from by (intro UN_mono) auto
  with N have "t \<in> set (?runs (max N K))" by blast
  with take_sorted_rest [OF sorted this]
  show "t \<in> set (nextRuns z s after n) \<or> (\<forall>u \<in> set (nextRuns z s after n). u < t)"
    unfolding more [OF max.cobounded2 [of K N]] by blast
qed

theorem nextRuns_exact_witness:
  "sorted_wrt (<) (nextRuns UTC leap_yearly 0 3) \<and> length (nextRuns UTC leap_yearly 0 3) = 3 \<and>
   set (nextRuns UTC leap_yearly 0 3) \<subseteq> runs_after UTC leap_yearly 0"
proof -
  have "scheduleProblem leap_yearly = []" "fields_ok leap_yearly" "clock_ok leap_yearly" "\<not> limited_days leap_yearly"
    by code_simp+
  moreover have "zone_days UTC" using UTC_plain by (simp add: zone_plain_def)
  ultimately show ?thesis using nextRuns_exact [of UTC leap_yearly 3 0] UTC_plain by blast
qed

section \<open>What the preview can get wrong\<close>

text \<open>Every six days from a Sunday, on Mondays only: the first such Monday is 36 days on.\<close>

definition six_days_monday :: schedule where
  "six_days_monday = empty_schedule\<lparr>s_unit := Days, s_every := 6, s_start := ''2024-01-07'', s_at := ''02:00'', s_weekdays := [Mon]\<rparr>"

text \<open>The horizon is not enough for days limited to weekdays, although the comment says it is
  whatever the distance of the runs: this schedule can be saved and has a run on a later day, but
  the list of its next runs is empty, so the set shows no next run.\<close>
theorem weekday_run_missed:
  "scheduleProblem six_days_monday = [] \<and> nextRuns UTC six_days_monday (at_minute UTC (make_day 2024 0 7) 180) 1 = [] \<and>
   nextSetRun UTC [six_days_monday] (at_minute UTC (make_day 2024 0 7) 180) = None \<and>
   onDay six_days_monday (make_day 2024 1 12) (anchorOf six_days_monday) 6 \<and>
   timesOn UTC six_days_monday (make_day 2024 1 12) = [at_minute UTC (make_day 2024 1 12) 120]"
  by (intro conjI) code_simp+

text \<open>A zone whose clock goes from 01:00 to 02:00 on day 100: the skipped minutes have the instants
  of the hour after, as \<open>new Date\<close> gives them.\<close>

definition spring :: zone where
  "spring = \<lparr>z_day = (\<lambda>t. (if t < (100 * 1440 + 60) * 60000 then t else t + 3600000) div 86400000),
     z_instant = (\<lambda>d m. (if d * 1440 + m < 100 * 1440 + 120 then d * 1440 + m else d * 1440 + m - 60) * 60000)\<rparr>"

definition half_hourly :: schedule where
  "half_hourly = empty_schedule\<lparr>s_unit := Minutes, s_every := 30, s_start := ''1970-01-01''\<rparr>"

text \<open>On the day the clock goes forward the preview lists the same instants twice, the skipped
  times and the ones an hour later, so the runs are not in ascending order there.\<close>
theorem skipped_hour_runs_twice:
  "zone_days spring \<and>
   nextRuns spring half_hourly (z_instant spring 100 29) 5 = map (\<lambda>m. (100 * 1440 + m) * 60000) [30, 60, 90, 60, 90]"
proof
  have "t < z_instant spring d m" if "z_day spring t < d" "0 \<le> m" for t d m
  proof -
    have "(if t < (100 * 1440 + 60) * 60000 then t else t + 3600000) < d * 86400000"
      using that(1) div_bounds [of 86400000 "if t < (100 * 1440 + 60) * 60000 then t else t + 3600000"]
      by (simp add: spring_def)
    with that(2) show ?thesis by (auto simp: spring_def split: if_splits)
  qed
  then show "zone_days spring" by (simp add: zone_days_def)
  show "nextRuns spring half_hourly (z_instant spring 100 29) 5 = map (\<lambda>m. (100 * 1440 + m) * 60000) [30, 60, 90, 60, 90]"
    by code_simp
qed

section \<open>The set's next run\<close>

lemma best_run_spec:
  "best_run z after ss best = Some (t, s) \<Longrightarrow>
     (best = Some (t, s) \<or> s \<in> set ss \<and> s_enabled s \<and> scheduleProblem s = [] \<and> nextRuns z s after 1 = [t]) \<and>
     (\<forall>bt bs. best = Some (bt, bs) \<longrightarrow> t \<le> bt) \<and>
     (\<forall>x \<in> set ss. \<forall>u. s_enabled x \<and> scheduleProblem x = [] \<and> nextRuns z x after 1 = [u] \<longrightarrow> t \<le> u)"
proof (induction ss arbitrary: best)
  case (Cons x ss)
  show ?case
  proof (cases "\<not> s_enabled x \<or> scheduleProblem x \<noteq> []")
    case True
    with Cons show ?thesis by auto
  next
    case on: False
    show ?thesis
    proof (cases "nextRuns z x after 1")
      case Nil
      with Cons on show ?thesis by auto
    next
      case (Cons u us)
      define b where "b = (case best of None \<Rightarrow> Some (u, x) | Some (bt, bs) \<Rightarrow> if u < bt then Some (u, x) else best)"
      have "length (nextRuns z x after 1) \<le> 1" by (simp add: nextRuns_take)
      with Cons have one: "nextRuns z x after 1 = [u]" by simp
      have "best_run z after (x # ss) best = best_run z after ss b"
        using on Cons by (simp add: b_def)
      with Cons.prems have "best_run z after ss b = Some (t, s)" by simp
      note IH = Cons.IH [OF this]
      have b: "b = best \<or> b = Some (u, x)" "\<exists>bt bs. b = Some (bt, bs) \<and> bt \<le> u"
        "\<And>bt bs. best = Some (bt, bs) \<Longrightarrow> \<exists>bt' bs'. b = Some (bt', bs') \<and> bt' \<le> bt"
        by (auto simp: b_def split: option.splits)
      have "t \<le> u" using IH b(2) by fastforce
      moreover have "t \<le> bt" if "best = Some (bt, bs)" for bt bs using IH b(3) [OF that] by fastforce
      moreover have "best = Some (t, s) \<or> s \<in> set (x # ss) \<and> s_enabled s \<and> scheduleProblem s = [] \<and> nextRuns z s after 1 = [t]"
        using IH [THEN conjunct1] b(1) on one by auto
      ultimately show ?thesis using IH one by (simp add: ball_Un)
    qed
  qed
qed simp

lemma best_run_None: "best_run z after ss best = None \<Longrightarrow>
   best = None \<and> (\<forall>x \<in> set ss. s_enabled x \<and> scheduleProblem x = [] \<longrightarrow> nextRuns z x after 1 = [])"
proof (induction ss arbitrary: best)
  case (Cons x ss)
  show ?case
  proof (cases "\<not> s_enabled x \<or> scheduleProblem x \<noteq> []")
    case True
    with Cons show ?thesis by auto
  next
    case False
    show ?thesis
    proof (cases "nextRuns z x after 1")
      case Nil
      with Cons False show ?thesis by auto
    next
      case c: (Cons u us)
      define b where "b = (case best of None \<Rightarrow> Some (u, x) | Some (bt, bs) \<Rightarrow> if u < bt then Some (u, x) else best)"
      have "best_run z after ss b = None" using Cons.prems False c by (simp add: b_def)
      then have "b = None" using Cons.IH by blast
      then show ?thesis by (auto simp: b_def split: option.splits prod.splits if_splits)
    qed
  qed
qed simp

text \<open>The set's next run is the earliest one. It is the first run of one of the schedules that are
  on and can be saved, no other of these has an earlier one, and there is none only when none of
  them lists a run.\<close>
theorem nextSetRun_earliest:
  "(\<forall>t s. nextSetRun z ss after = Some (t, s) \<longrightarrow>
      s \<in> set ss \<and> s_enabled s \<and> scheduleProblem s = [] \<and> nextRuns z s after 1 = [t] \<and> after < t \<and>
      (\<forall>x \<in> set ss. \<forall>u. s_enabled x \<and> scheduleProblem x = [] \<and> nextRuns z x after 1 = [u] \<longrightarrow> t \<le> u)) \<and>
   (nextSetRun z ss after = None \<longrightarrow>
      (\<forall>x \<in> set ss. s_enabled x \<and> scheduleProblem x = [] \<longrightarrow> nextRuns z x after 1 = []))"
proof -
  have some: "s \<in> set ss \<and> s_enabled s \<and> scheduleProblem s = [] \<and> nextRuns z s after 1 = [t] \<and> after < t \<and>
      (\<forall>x \<in> set ss. \<forall>u. s_enabled x \<and> scheduleProblem x = [] \<and> nextRuns z x after 1 = [u] \<longrightarrow> t \<le> u)"
    if "nextSetRun z ss after = Some (t, s)" for t s
  proof -
    have b: "best_run z after ss None = Some (t, s)" using that by (simp add: nextSetRun_def)
    note sp = best_run_spec [OF b]
    then have r: "nextRuns z s after 1 = [t]" by simp
    have "\<forall>u \<in> set (nextRuns z s after 1). after < u"
      unfolding nextRuns_take by (auto simp: day_runs_def split: if_splits dest!: in_set_takeD)
    with r sp show ?thesis by simp
  qed
  have none: "\<forall>x \<in> set ss. s_enabled x \<and> scheduleProblem x = [] \<longrightarrow> nextRuns z x after 1 = []"
    if "nextSetRun z ss after = None"
    using that best_run_None [of z after ss None] unfolding nextSetRun_def by blast
  from some none show ?thesis by blast
qed

theorem nextSetRun_earliest_witness:
  "\<exists>t. nextSetRun UTC [half_hourly, leap_yearly\<lparr>s_enabled := False\<rparr>] 0 = Some (t, half_hourly) \<and> 0 < t"
proof -
  have "map_option (\<lambda>(t, s). (t, s_unit s)) (nextSetRun UTC [half_hourly, leap_yearly\<lparr>s_enabled := False\<rparr>] 0) = Some (1800000, Minutes)"
    by code_simp
  then obtain t s where ts: "nextSetRun UTC [half_hourly, leap_yearly\<lparr>s_enabled := False\<rparr>] 0 = Some (t, s)" by auto
  with nextSetRun_earliest [of UTC "[half_hourly, leap_yearly\<lparr>s_enabled := False\<rparr>]" 0]
  have "s = half_hourly \<and> 0 < t" by auto
  with ts show ?thesis by blast
qed

end
