(* ===== verification/Servers.thy ===== *)
theory Servers
  imports Runs
begin

text \<open>
  The PBS servers page of \<open>App.jsx\<close>: the add/edit form, the list of servers with the default
  one, and the handlers that save, delete, test and trust a server. The Go backend the window
  calls is the record \<open>backend\<close> of its bound functions over a world \<open>'w\<close>; a call gives the new
  world and the error it was rejected with, if any. The locale \<open>pbs_backend\<close> names what the
  page relies on; \<open>PbsStore\<close> models the backend's side and interprets it.
\<close>

section \<open>State\<close>

text \<open>A server as the two sides exchange it (\<open>PBSServer\<close>), and the form, which is one too.\<close>

record server =
  sv_id :: string
  sv_name :: string
  sv_baseurl :: string
  sv_certfingerprint :: string
  sv_authid :: string
  sv_secret :: string
  sv_username :: string
  sv_password :: string
  sv_datastore :: string
  sv_namespace :: string
  sv_keyFile :: string
  sv_keyPassphraseSet :: bool
  sv_keyPassphrase :: string
  sv_clearKeyPassphrase :: bool
  sv_description :: string
  sv_secretSet :: bool
  sv_passwordSet :: bool

definition blank_form :: server where
  "blank_form = \<lparr>sv_id = [], sv_name = [], sv_baseurl = [], sv_certfingerprint = [], sv_authid = [],
     sv_secret = [], sv_username = [], sv_password = [], sv_datastore = [], sv_namespace = [],
     sv_keyFile = [], sv_keyPassphraseSet = False, sv_keyPassphrase = [], sv_clearKeyPassphrase = False,
     sv_description = [], sv_secretSet = False, sv_passwordSet = False\<rparr>"

datatype server_tab = ServerTab | UserpassTab | TokenTab | EncryptionTab

datatype reachability = Testing | Online | Offline

text \<open>A status line: what kind, the text's key, and the value put into it or after it.\<close>

record notice =
  n_kind :: string
  n_key :: string
  n_arg :: string

record servers_page =
  pbsServers :: "server list"
  defaultPBSID :: string
  serverFormData :: server
  editingServer :: "string option"
  serverTab :: server_tab
  showServerForm :: bool
  serverStatus :: "string \<Rightarrow> reachability option"
  page_notice :: "notice option"
  computerServersOpen :: bool

record 'w backend =
  ListPBSServers :: "'w \<Rightarrow> string + server list"
  GetDefaultPBSID :: "'w \<Rightarrow> string + string"
  AddPBSServer :: "server \<Rightarrow> 'w \<Rightarrow> 'w \<times> string option"
  UpdatePBSServer :: "server \<Rightarrow> 'w \<Rightarrow> 'w \<times> string option"
  DeletePBSServer :: "string \<Rightarrow> 'w \<Rightarrow> 'w \<times> string option"
  SetDefaultPBSServer :: "string \<Rightarrow> 'w \<Rightarrow> 'w \<times> string option"
  TestPBSConnection :: "string \<Rightarrow> 'w \<Rightarrow> string option"
  GetServerFingerprint :: "string \<Rightarrow> 'w \<Rightarrow> string + string"
  PinPBSServerFingerprint :: "string \<Rightarrow> string \<Rightarrow> 'w \<Rightarrow> 'w \<times> string option"

section \<open>Handlers\<close>

definition tell :: "string \<Rightarrow> string \<Rightarrow> string \<Rightarrow> servers_page \<Rightarrow> servers_page" where
  "tell kind key arg p = p\<lparr>page_notice := Some \<lparr>n_kind = kind, n_key = key, n_arg = arg\<rparr>\<rparr>"

text \<open>The list is set before the default is asked for, so a failure of the second keeps the first.\<close>

definition loadPBSServers :: "'w backend \<Rightarrow> 'w \<Rightarrow> servers_page \<Rightarrow> servers_page" where
  "loadPBSServers be w p =
     (case ListPBSServers be w of
        Inl err \<Rightarrow> tell ''error'' ''statusServerLoadError'' err p
      | Inr servers \<Rightarrow>
          (let p = p\<lparr>pbsServers := servers\<rparr> in
           case GetDefaultPBSID be w of
             Inl err \<Rightarrow> tell ''error'' ''statusServerLoadError'' err p
           | Inr d \<Rightarrow> p\<lparr>defaultPBSID := d\<rparr>))"

definition close_form :: "servers_page \<Rightarrow> servers_page" where
  "close_form p = p\<lparr>serverFormData := blank_form, editingServer := None, serverTab := ServerTab,
     showServerForm := False\<rparr>"

text \<open>\<open>name.toLowerCase().replace(/[^a-z0-9]/g, '-')\<close>, unless the form names an ID.\<close>

definition server_id :: "server \<Rightarrow> string" where
  "server_id f = (if sv_id f \<noteq> [] then sv_id f
     else map (\<lambda>c. if is_lower_alnum c then c else CHR ''-'') (toLowerCase (sv_name f)))"

definition isUserPass :: "server \<Rightarrow> bool" where
  "isUserPass f \<longleftrightarrow> trim (sv_username f) \<noteq> []"

definition payload :: "server \<Rightarrow> server" where
  "payload f = f\<lparr>sv_authid := (if isUserPass f then [] else sv_authid f),
     sv_secret := (if isUserPass f then [] else sv_secret f),
     sv_username := (if isUserPass f then sv_username f else [])\<rparr>"

definition handleAddPBSServer :: "'w backend \<Rightarrow> 'w \<times> servers_page \<Rightarrow> 'w \<times> servers_page" where
  "handleAddPBSServer be = (\<lambda>(w, p).
     if trim (sv_name (serverFormData p)) = [] then (w, tell ''error'' ''errServerNameRequired'' [] p)
     else
       (case AddPBSServer be ((payload (serverFormData p))\<lparr>sv_id := server_id (serverFormData p)\<rparr>) w of
          (w', Some err) \<Rightarrow> (w', tell ''error'' ''statusError'' err p)
        | (w', None) \<Rightarrow> (w', loadPBSServers be w' (close_form (tell ''success'' ''statusServerAdded'' [] p)))))"

definition handleUpdatePBSServer :: "'w backend \<Rightarrow> 'w \<times> servers_page \<Rightarrow> 'w \<times> servers_page" where
  "handleUpdatePBSServer be = (\<lambda>(w, p).
     case UpdatePBSServer be (payload (serverFormData p)) w of
       (w', Some err) \<Rightarrow> (w', tell ''error'' ''statusError'' err p)
     | (w', None) \<Rightarrow> (w', loadPBSServers be w' (close_form (tell ''success'' ''statusServerUpdated'' [] p))))"

text \<open>\<open>yes\<close> is the answer to the dialog.\<close>

definition handleDeletePBSServer :: "'w backend \<Rightarrow> string \<Rightarrow> bool \<Rightarrow> 'w \<times> servers_page \<Rightarrow> 'w \<times> servers_page" where
  "handleDeletePBSServer be i yes = (\<lambda>(w, p).
     if \<not> yes then (w, p)
     else
       (case DeletePBSServer be i w of
          (w', Some err) \<Rightarrow> (w', tell ''error'' ''statusError'' err p)
        | (w', None) \<Rightarrow> (w', loadPBSServers be w' (tell ''success'' ''statusServerDeleted'' [] p))))"

definition server_of :: "string \<Rightarrow> servers_page \<Rightarrow> server option" where
  "server_of i p = List.find (\<lambda>s. sv_id s = i) (pbsServers p)"

definition serverLabel :: "string \<Rightarrow> servers_page \<Rightarrow> string" where
  "serverLabel i p = or_text (map_option sv_name (server_of i p)) i"

definition handleSetDefaultPBS :: "'w backend \<Rightarrow> string \<Rightarrow> 'w \<times> servers_page \<Rightarrow> 'w \<times> servers_page" where
  "handleSetDefaultPBS be i = (\<lambda>(w, p).
     case SetDefaultPBSServer be i w of
       (w', Some err) \<Rightarrow> (w', tell ''error'' ''statusError'' err p)
     | (w', None) \<Rightarrow> (w', tell ''success'' ''statusServerSetDefault'' (serverLabel i p) (p\<lparr>defaultPBSID := i\<rparr>)))"

definition isCertError :: "string \<Rightarrow> bool" where
  "isCertError err \<longleftrightarrow>
     contains (toLowerCase err) ''certificate signed by unknown authority'' \<or>
     contains (toLowerCase err) ''failed to verify certificate'' \<or>
     contains (toLowerCase err) ''x509''"

definition set_reach :: "string \<Rightarrow> reachability \<Rightarrow> servers_page \<Rightarrow> servers_page" where
  "set_reach i r p = p\<lparr>serverStatus := (serverStatus p)(i \<mapsto> r)\<rparr>"

text \<open>
  Trust on first use. \<open>trust host fp\<close> is the answer to the dialog that shows the server's
  address and the fingerprint read from it. \<open>None\<close>: the dialog was answered with no, so the
  first failure is reported.
\<close>

definition tofu :: "'w backend \<Rightarrow> (string \<Rightarrow> string \<Rightarrow> bool) \<Rightarrow> string \<Rightarrow> server \<Rightarrow> 'w \<times> servers_page \<Rightarrow> ('w \<times> servers_page) option" where
  "tofu be trust i s = (\<lambda>(w, p).
     case GetServerFingerprint be (sv_baseurl s) w of
       Inl err \<Rightarrow> Some (w, set_reach i Offline (tell ''error'' ''statusFingerprintFailed'' err p))
     | Inr fp \<Rightarrow>
         (if \<not> trust (sv_baseurl s) fp then None
          else
            (case PinPBSServerFingerprint be i fp w of
               (w', Some err) \<Rightarrow> Some (w', set_reach i Offline (tell ''error'' ''statusFingerprintFailed'' err p))
             | (w', None) \<Rightarrow>
                 (let p = loadPBSServers be w' p in
                  case TestPBSConnection be i w' of
                    Some err \<Rightarrow> Some (w', set_reach i Offline (tell ''error'' ''statusFingerprintFailed'' err p))
                  | None \<Rightarrow> Some (w', tell ''success'' ''statusFingerprintPinned'' [] (set_reach i Online p))))))"

definition handleTestPBSConnection ::
  "'w backend \<Rightarrow> (string \<Rightarrow> string \<Rightarrow> bool) \<Rightarrow> string \<Rightarrow> 'w \<times> servers_page \<Rightarrow> 'w \<times> servers_page" where
  "handleTestPBSConnection be trust i = (\<lambda>(w, p0).
     let p = set_reach i Testing p0 in
     case TestPBSConnection be i w of
       None \<Rightarrow> (w, tell ''success'' ''statusConnectionSuccess'' (serverLabel i p0) (set_reach i Online p))
     | Some err \<Rightarrow>
         (let failed = (w, tell ''error'' ''statusConnectionFailed'' err (set_reach i Offline p)) in
          case server_of i p0 of
            None \<Rightarrow> failed
          | Some s \<Rightarrow>
              (if isCertError err \<and> trim (sv_certfingerprint s) = []
               then (case tofu be trust i s (w, p) of Some r \<Rightarrow> r | None \<Rightarrow> failed)
               else failed)))"

definition handleEditServer :: "server \<Rightarrow> servers_page \<Rightarrow> servers_page" where
  "handleEditServer s p = p\<lparr>
     serverFormData := s\<lparr>sv_password := [], sv_keyPassphrase := [], sv_clearKeyPassphrase := False\<rparr>,
     serverTab := (if sv_username s \<noteq> [] then UserpassTab else if sv_authid s \<noteq> [] then TokenTab else ServerTab),
     editingServer := Some (sv_id s), showServerForm := True\<rparr>"

definition handleShowAddServer :: "servers_page \<Rightarrow> servers_page" where
  "handleShowAddServer p = p\<lparr>serverFormData := blank_form, serverTab := ServerTab,
     editingServer := None, showServerForm := True\<rparr>"

text \<open>One of the computer's servers, as the service lists them to an app on its own settings.\<close>

record computer_server =
  cs_id :: string
  cs_name :: string
  cs_base_url :: string
  cs_fingerprint :: string
  cs_datastore :: string
  cs_namespace :: string
  cs_login :: string

definition handleUseComputerServer :: "computer_server \<Rightarrow> servers_page \<Rightarrow> servers_page" where
  "handleUseComputerServer s p = p\<lparr>
     computerServersOpen := False,
     serverFormData := blank_form\<lparr>
       sv_id := (if \<exists>q \<in> set (pbsServers p). sv_id q = cs_id s then [] else cs_id s),
       sv_name := cs_name s, sv_baseurl := cs_base_url s, sv_certfingerprint := cs_fingerprint s,
       sv_datastore := cs_datastore s, sv_namespace := cs_namespace s\<rparr>,
     serverTab := (if cs_login s = ''password'' then UserpassTab else TokenTab),
     editingServer := None, showServerForm := True\<rparr>"

definition handleCancelEdit :: "servers_page \<Rightarrow> servers_page" where
  "handleCancelEdit p = close_form p"

definition switchServerTab :: "server_tab \<Rightarrow> servers_page \<Rightarrow> servers_page" where
  "switchServerTab key p = (let f = serverFormData p; p = p\<lparr>serverTab := key\<rparr> in
     case key of
       UserpassTab \<Rightarrow> p\<lparr>serverFormData := f\<lparr>sv_authid := [], sv_secret := []\<rparr>\<rparr>
     | TokenTab \<Rightarrow> p\<lparr>serverFormData := f\<lparr>sv_username := [], sv_password := []\<rparr>\<rparr>
     | _ \<Rightarrow> p)"

text \<open>A user of the host itself, which the form warns about.\<close>

definition isPamUser :: "server \<Rightarrow> bool" where
  "isPamUser f \<longleftrightarrow> endsWith (toLowerCase (trim (sv_username f))) ''@pam''"

text \<open>Why the menu of the computer's servers is off: its list is \<open>None\<close> while it is read.\<close>

definition picker_reason :: "computer_server list option \<Rightarrow> string \<Rightarrow> string" where
  "picker_reason list err =
     (case list of
        None \<Rightarrow> ''computerServersLoading''
      | Some xs \<Rightarrow> if err \<noteq> [] then ''computerServersUnavailable''
                   else if xs = [] then ''computerServersNone'' else [])"

section \<open>Actions\<close>

text \<open>A user action on the page, the answers to its dialogs included.\<close>

datatype page_action =
    Add | Update | Delete string bool | SetDefault string | Test string "string \<Rightarrow> string \<Rightarrow> bool"
  | Edit server | ShowAdd | Cancel | Tab server_tab | UseComputer computer_server

fun act :: "'w backend \<Rightarrow> page_action \<Rightarrow> 'w \<times> servers_page \<Rightarrow> 'w \<times> servers_page" where
  "act be Add s = handleAddPBSServer be s"
| "act be Update s = handleUpdatePBSServer be s"
| "act be (Delete i yes) s = handleDeletePBSServer be i yes s"
| "act be (SetDefault i) s = handleSetDefaultPBS be i s"
| "act be (Test i trust) s = handleTestPBSConnection be trust i s"
| "act be (Edit sv) s = map_prod id (handleEditServer sv) s"
| "act be ShowAdd s = map_prod id handleShowAddServer s"
| "act be Cancel s = map_prod id handleCancelEdit s"
| "act be (Tab k) s = map_prod id (switchServerTab k) s"
| "act be (UseComputer c) s = map_prod id (handleUseComputerServer c) s"

section \<open>What the page relies on\<close>

text \<open>
  The servers as a directory: what the window may know of the server of each ID, and the
  default's ID. Secrets, and the marks that one is stored, are no part of it.
\<close>

type_synonym directory = "(string \<rightharpoonup> server) \<times> string"

definition public :: "server \<Rightarrow> server" where
  "public s = s\<lparr>sv_secret := [], sv_password := [], sv_keyPassphrase := [], sv_keyPassphraseSet := False,
     sv_clearKeyPassphrase := False, sv_secretSet := False, sv_passwordSet := False\<rparr>"

definition no_secrets :: "server \<Rightarrow> bool" where
  "no_secrets s \<longleftrightarrow> sv_secret s = [] \<and> sv_password s = [] \<and> sv_keyPassphrase s = []"

definition listed_servers :: "server list \<Rightarrow> string \<rightharpoonup> server" where
  "listed_servers ss = map_of (map (\<lambda>s. (sv_id s, public s)) ss)"

text \<open>What may become of a directory. A dropped default passes to one of the servers left.\<close>

datatype dir_event = Keep | New server | Replace server | Drop string | Choose string | Trust string string

inductive dir_step :: "dir_event \<Rightarrow> directory \<Rightarrow> directory \<Rightarrow> bool" where
  keep: "dir_step Keep d d"
| new: "m (sv_id s) = None \<Longrightarrow>
    dir_step (New s) (m, d) (m(sv_id s \<mapsto> public s), if m = Map.empty then sv_id s else d)"
| replace: "m (sv_id s) \<noteq> None \<Longrightarrow> dir_step (Replace s) (m, d) (m(sv_id s \<mapsto> public s), d)"
| drop_default: "m i \<noteq> None \<Longrightarrow> (if m(i := None) = Map.empty then d = [] else (m(i := None)) d \<noteq> None) \<Longrightarrow>
    dir_step (Drop i) (m, i) (m(i := None), d)"
| drop_other: "m i \<noteq> None \<Longrightarrow> d \<noteq> i \<Longrightarrow> dir_step (Drop i) (m, d) (m(i := None), d)"
| choose: "m i \<noteq> None \<Longrightarrow> dir_step (Choose i) (m, d) (m, i)"
| trust: "m i = Some s \<Longrightarrow> dir_step (Trust i fp) (m, d) (m(i \<mapsto> s\<lparr>sv_certfingerprint := fp\<rparr>), d)"

inductive_simps replace_iff: "dir_step (Replace s) d d'"
inductive_simps choose_iff: "dir_step (Choose i) d d'"
inductive_simps trust_iff: "dir_step (Trust i fp) d d'"

text \<open>An operation of the backend: accepted it does \<open>e\<close>, rejected it does nothing.\<close>

definition does :: "('w \<Rightarrow> directory) \<Rightarrow> dir_event \<Rightarrow> 'w \<Rightarrow> 'w \<times> string option \<Rightarrow> bool" where
  "does dir e w r \<longleftrightarrow> (case snd r of
     None \<Rightarrow> dir_step e (dir w) (dir (fst r)) | Some err \<Rightarrow> dir (fst r) = dir w)"

text \<open>What a user action asks the backend for; \<open>p\<close> is the page it is made on.\<close>

definition form_server :: "servers_page \<Rightarrow> server" where
  "form_server p = (payload (serverFormData p))\<lparr>sv_id := server_id (serverFormData p)\<rparr>"

inductive asks :: "page_action \<Rightarrow> servers_page \<Rightarrow> dir_event \<Rightarrow> bool" where
  add: "trim (sv_name (serverFormData p)) \<noteq> [] \<Longrightarrow> asks Add p (New (form_server p))"
| update: "asks Update p (Replace (payload (serverFormData p)))"
| delete: "asks (Delete i True) p (Drop i)"
| set_default: "asks (SetDefault i) p (Choose i)"
| test: "server_of i p = Some s \<Longrightarrow> trim (sv_certfingerprint s) = [] \<Longrightarrow> trust (sv_baseurl s) fp \<Longrightarrow>
    asks (Test i trust) p (Trust i fp)"

lemma payload_one_login: "sv_authid (payload f) = [] \<or> sv_username (payload f) = []"
  by (simp add: payload_def)

lemma form_server_one_login: "sv_authid (form_server p) = [] \<or> sv_username (form_server p) = []"
  using payload_one_login by (simp add: form_server_def)

lemma page_frame [simp]:
  "pbsServers (tell k t a p) = pbsServers p" "defaultPBSID (tell k t a p) = defaultPBSID p"
  "pbsServers (close_form p) = pbsServers p" "defaultPBSID (close_form p) = defaultPBSID p"
  "pbsServers (set_reach i r p) = pbsServers p" "defaultPBSID (set_reach i r p) = defaultPBSID p"
  "serverFormData (tell k t a p) = serverFormData p" "server_of i (set_reach j r p) = server_of i p"
  by (simp_all add: tell_def close_form_def set_reach_def server_of_def)

lemma form_handlers_frame [simp]:
  "pbsServers (handleEditServer s p) = pbsServers p" "defaultPBSID (handleEditServer s p) = defaultPBSID p"
  "pbsServers (handleShowAddServer p) = pbsServers p" "defaultPBSID (handleShowAddServer p) = defaultPBSID p"
  "pbsServers (handleCancelEdit p) = pbsServers p" "defaultPBSID (handleCancelEdit p) = defaultPBSID p"
  "pbsServers (switchServerTab k p) = pbsServers p" "defaultPBSID (switchServerTab k p) = defaultPBSID p"
  "pbsServers (handleUseComputerServer c p) = pbsServers p"
  "defaultPBSID (handleUseComputerServer c p) = defaultPBSID p"
  by (simp_all add: handleEditServer_def handleShowAddServer_def handleCancelEdit_def
      switchServerTab_def handleUseComputerServer_def Let_def split: server_tab.split)

lemma server_of_listed:
  "server_of i p = Some s \<Longrightarrow> listed_servers (pbsServers p) i \<noteq> None"
  using find_Some_mem [of "\<lambda>s. sv_id s = i" "pbsServers p" s]
  by (auto simp: server_of_def listed_servers_def map_of_eq_None_iff image_iff)

locale pbs_backend =
  fixes be :: "'w backend"
    and dir :: "'w \<Rightarrow> directory"
    and ok :: "'w \<Rightarrow> bool"
  assumes lists: "ok w \<Longrightarrow> \<exists>ss. ListPBSServers be w = Inr ss \<and> listed_servers ss = fst (dir w)
      \<and> distinct (map sv_id ss) \<and> (\<forall>s \<in> set ss. no_secrets s)"
    and default: "ok w \<Longrightarrow> GetDefaultPBSID be w = Inr (snd (dir w))"
    and add: "ok w \<Longrightarrow> sv_authid s = [] \<or> sv_username s = [] \<Longrightarrow>
      ok (fst (AddPBSServer be s w)) \<and> does dir (New s) w (AddPBSServer be s w)"
    and update: "ok w \<Longrightarrow> sv_authid s = [] \<or> sv_username s = [] \<Longrightarrow>
      ok (fst (UpdatePBSServer be s w)) \<and> does dir (Replace s) w (UpdatePBSServer be s w)"
    and delete: "ok w \<Longrightarrow>
      ok (fst (DeletePBSServer be i w)) \<and> does dir (Drop i) w (DeletePBSServer be i w)"
    and set_default: "ok w \<Longrightarrow>
      ok (fst (SetDefaultPBSServer be i w)) \<and> does dir (Choose i) w (SetDefaultPBSServer be i w)"
    and pin: "ok w \<Longrightarrow> fst (dir w) i \<noteq> None \<Longrightarrow>
      ok (fst (PinPBSServerFingerprint be i fp w)) \<and>
      does dir (Trust i fp) w (PinPBSServerFingerprint be i fp w)"
begin

text \<open>The page shows the world's directory, and no secret of it.\<close>

definition in_step :: "'w \<Rightarrow> servers_page \<Rightarrow> bool" where
  "in_step w p \<longleftrightarrow> ok w \<and> listed_servers (pbsServers p) = fst (dir w) \<and> defaultPBSID p = snd (dir w)
     \<and> distinct (map sv_id (pbsServers p)) \<and> (\<forall>s \<in> set (pbsServers p). no_secrets s)"

lemma in_step_load: "ok w \<Longrightarrow> in_step w (loadPBSServers be w p)"
  using lists [of w] default [of w] by (auto simp: in_step_def loadPBSServers_def)

lemma in_step_frame:
  "in_step w p \<Longrightarrow> pbsServers p' = pbsServers p \<Longrightarrow> defaultPBSID p' = defaultPBSID p \<Longrightarrow> in_step w p'"
  by (simp add: in_step_def)

lemma in_step_tell [simp]:
  "in_step w (tell k t a p) = in_step w p" "in_step w (close_form p) = in_step w p"
  "in_step w (set_reach i r p) = in_step w p"
  by (simp_all add: in_step_def)

lemma in_step_same_dir:
  "in_step w p \<Longrightarrow> ok w' \<Longrightarrow> dir w' = dir w \<Longrightarrow> pbsServers p' = pbsServers p \<Longrightarrow>
   defaultPBSID p' = defaultPBSID p \<Longrightarrow> in_step w' p'"
  by (simp add: in_step_def)

text \<open>A handler that reloads after an accepted call, and only tells of a rejected one.\<close>

lemma after_call:
  assumes p: "in_step w p" and r: "ok w' \<and> does dir e w (w', r)"
    and rejected: "\<And>err. r = Some err \<Longrightarrow> pbsServers p' = pbsServers p \<and> defaultPBSID p' = defaultPBSID p"
    and accepted: "r = None \<Longrightarrow> dir_step e (dir w) (dir w') \<Longrightarrow> in_step w' p'"
  shows "in_step w' p' \<and> (dir w' = dir w \<or> dir_step e (dir w) (dir w'))"
proof (cases r)
  case None
  then show ?thesis using accepted r by (simp add: does_def)
next
  case (Some err)
  then show ?thesis
    using rejected [OF Some] r p by (auto simp: does_def intro: in_step_same_dir)
qed

lemma in_step_add:
  assumes p: "in_step w p" and "handleAddPBSServer be (w, p) = (w', p')"
  shows "in_step w' p' \<and> (dir w' = dir w \<or> (\<exists>e. asks Add p e \<and> dir_step e (dir w) (dir w')))"
proof (cases "trim (sv_name (serverFormData p)) = []")
  case True
  with assms show ?thesis
    by (auto simp: handleAddPBSServer_def intro: in_step_frame)
next
  case False
  obtain w1 r where r: "AddPBSServer be (form_server p) w = (w1, r)"
    by fastforce
  have "ok w1 \<and> does dir (New (form_server p)) w (w1, r)"
    using add [of w "form_server p"] p form_server_one_login r by (simp add: in_step_def)
  then have "in_step w' p' \<and> (dir w' = dir w \<or> dir_step (New (form_server p)) (dir w) (dir w'))"
    using after_call [OF p, of w1 "New (form_server p)" r p'] assms(2) r False
    by (auto simp: handleAddPBSServer_def form_server_def [symmetric] intro: in_step_load split: option.splits)
  then show ?thesis
    using asks.add [OF False] by blast
qed

lemma in_step_update:
  assumes p: "in_step w p" and "handleUpdatePBSServer be (w, p) = (w', p')"
  shows "in_step w' p' \<and> (dir w' = dir w \<or> (\<exists>e. asks Update p e \<and> dir_step e (dir w) (dir w')))"
proof -
  let ?s = "payload (serverFormData p)"
  obtain w1 r where r: "UpdatePBSServer be ?s w = (w1, r)"
    by fastforce
  have "ok w1 \<and> does dir (Replace ?s) w (w1, r)"
    using update [of w ?s] p payload_one_login r by (simp add: in_step_def)
  then have "in_step w' p' \<and> (dir w' = dir w \<or> dir_step (Replace ?s) (dir w) (dir w'))"
    using after_call [OF p, of w1 "Replace ?s" r p'] assms(2) r
    by (auto simp: handleUpdatePBSServer_def intro: in_step_load split: option.splits)
  then show ?thesis
    using asks.update by blast
qed

lemma in_step_delete:
  assumes p: "in_step w p" and "handleDeletePBSServer be i yes (w, p) = (w', p')"
  shows "in_step w' p' \<and> (dir w' = dir w \<or> (\<exists>e. asks (Delete i yes) p e \<and> dir_step e (dir w) (dir w')))"
proof (cases yes)
  case False
  with assms show ?thesis
    by (simp add: handleDeletePBSServer_def)
next
  case True
  obtain w1 r where r: "DeletePBSServer be i w = (w1, r)"
    by fastforce
  have "ok w1 \<and> does dir (Drop i) w (w1, r)"
    using delete [of w i] p r by (simp add: in_step_def)
  then have "in_step w' p' \<and> (dir w' = dir w \<or> dir_step (Drop i) (dir w) (dir w'))"
    using after_call [OF p, of w1 "Drop i" r p'] assms(2) r True
    by (auto simp: handleDeletePBSServer_def intro: in_step_load split: option.splits)
  then show ?thesis
    using asks.delete [of i p] True by auto
qed

lemma in_step_set_default:
  assumes p: "in_step w p" and "handleSetDefaultPBS be i (w, p) = (w', p')"
  shows "in_step w' p' \<and> (dir w' = dir w \<or> (\<exists>e. asks (SetDefault i) p e \<and> dir_step e (dir w) (dir w')))"
proof -
  obtain w1 r where r: "SetDefaultPBSServer be i w = (w1, r)"
    by fastforce
  have d: "ok w1 \<and> does dir (Choose i) w (w1, r)"
    using set_default [of w i] p r by (simp add: in_step_def)
  have "in_step w1 (p\<lparr>defaultPBSID := i\<rparr>)" if "dir_step (Choose i) (dir w) (dir w1)"
    using that p d by (auto simp: in_step_def elim: dir_step.cases)
  then have "in_step w' p' \<and> (dir w' = dir w \<or> dir_step (Choose i) (dir w) (dir w'))"
    using after_call [OF p d, of p'] assms(2) r
    by (cases r) (auto simp: handleSetDefaultPBS_def)
  then show ?thesis
    using asks.set_default by blast
qed

lemma in_step_test:
  assumes p: "in_step w p" and h: "handleTestPBSConnection be trusts i (w, p) = (w', p')"
  shows "in_step w' p' \<and> (dir w' = dir w \<or> (\<exists>e. asks (Test i trusts) p e \<and> dir_step e (dir w) (dir w')))"
proof (cases "w' = w \<and> pbsServers p' = pbsServers p \<and> defaultPBSID p' = defaultPBSID p")
  case True
  with p show ?thesis by (auto intro: in_step_frame)
next
  case False
  let ?p = "set_reach i Testing p"
  from False h obtain s where s: "server_of i p = Some s" "trim (sv_certfingerprint s) = []"
    and t: "tofu be trusts i s (w, ?p) = Some (w', p')"
    by (auto simp: handleTestPBSConnection_def Let_def split: option.splits if_splits)
  from False t obtain fp w1 r where fp: "GetServerFingerprint be (sv_baseurl s) w = Inr fp"
    and yes: "trusts (sv_baseurl s) fp" and r: "PinPBSServerFingerprint be i fp w = (w1, r)"
    by (cases "GetServerFingerprint be (sv_baseurl s) w"; cases "PinPBSServerFingerprint be i (projr (GetServerFingerprint be (sv_baseurl s) w)) w")
      (auto simp: tofu_def split: if_splits)
  have "fst (dir w) i \<noteq> None"
    using server_of_listed [OF s(1)] p by (simp add: in_step_def)
  then have d: "ok w1 \<and> does dir (Trust i fp) w (w1, r)"
    using pin [of w i fp] p r by (simp add: in_step_def)
  have w1: "w' = w1"
    using t r fp yes by (auto simp: tofu_def Let_def split: option.splits)
  have "in_step w1 p' \<and> (dir w1 = dir w \<or> dir_step (Trust i fp) (dir w) (dir w1))"
  proof (rule after_call [OF p d])
    show "pbsServers p' = pbsServers p \<and> defaultPBSID p' = defaultPBSID p" if "r = Some err" for err
      using t r fp yes that by (auto simp: tofu_def)
    show "in_step w1 p'" if "r = None"
      using t r fp yes that d by (auto simp: tofu_def Let_def in_step_load split: option.splits)
  qed
  moreover have "asks (Test i trusts) p (Trust i fp)"
    using s yes by (rule asks.test)
  ultimately show ?thesis
    unfolding w1 by blast
qed

lemma in_step_forms [simp]:
  "in_step w (handleEditServer s p) = in_step w p" "in_step w (handleShowAddServer p) = in_step w p"
  "in_step w (handleCancelEdit p) = in_step w p" "in_step w (switchServerTab k p) = in_step w p"
  "in_step w (handleUseComputerServer c p) = in_step w p"
  by (simp_all add: in_step_def)

lemma page_refines:
  assumes p: "in_step w p" and a: "act be a (w, p) = (w', p')"
  shows "in_step w' p' \<and> (dir w' = dir w \<or> (\<exists>e. asks a p e \<and> dir_step e (dir w) (dir w')))"
proof (cases a)
  case Add
  show ?thesis using in_step_add [OF p, of w' p'] a unfolding Add by simp
next
  case Update
  show ?thesis using in_step_update [OF p, of w' p'] a unfolding Update by simp
next
  case (Delete i yes)
  show ?thesis using in_step_delete [OF p, of i yes w' p'] a unfolding Delete by simp
next
  case (SetDefault i)
  show ?thesis using in_step_set_default [OF p, of i w' p'] a unfolding SetDefault by simp
next
  case (Test i trusts)
  show ?thesis using in_step_test [OF p, of trusts i w' p'] a unfolding Test by simp
qed (use p a in auto)

end

end
