(* ===== verification/PbsStore.thy ===== *)
theory PbsStore
  imports Servers "HOL-Library.AList" "HOL-Library.Multiset"
begin

text \<open>
  The backend's side of the servers page: the settings' map of PBS servers (\<open>gui/config.go\<close>,
  \<open>gui/pbs_server.go\<close>) with the bound functions over it (\<open>gui/config_methods.go\<close>,
  \<open>gui/main.go\<close>), in the process that owns the settings. It interprets \<open>pbs_backend\<close>, and the
  properties of the page and the store together are stated over it.

  Parameters, in \<open>store_env\<close>: the checks of package \<open>security\<close> and of the key file, the outcome
  of writing the settings, the order in which Go ranges over a map, and the network.
\<close>

section \<open>The stored servers\<close>

record store_env =
  ValidateURL :: "string \<Rightarrow> string option"
  ValidateAuthID :: "string \<Rightarrow> string option"
  ValidateDatastore :: "string \<Rightarrow> string option"
  ValidateFingerprint :: "string \<Rightarrow> string option"
  validateEncryptionKeyFile :: "string \<Rightarrow> string \<Rightarrow> string option"
  save_error :: "string option"
  ranged :: "(string \<times> server) list \<Rightarrow> (string \<times> server) list"
  connect :: "server \<Rightarrow> string option"
  fetch_fingerprint :: "string \<Rightarrow> string + string"

text \<open>The map as an association list with a key once, in no order the code can rely on.\<close>

record world =
  stored :: "(string \<times> server) list"
  DefaultPBSID :: string
  env :: store_env

definition not_found :: "string \<Rightarrow> string" where
  "not_found i = ''PBS server '' @ [CHR 0x27] @ i @ [CHR 0x27] @ '' not found''"

definition already_exists :: "string \<Rightarrow> string" where
  "already_exists i = ''PBS server with ID '' @ [CHR 0x27] @ i @ [CHR 0x27] @ '' already exists''"

definition password_required :: string where
  "password_required = ''password required for username/password login''"

definition sanitized :: "server \<Rightarrow> server" where
  "sanitized s = s\<lparr>sv_secretSet := sv_secret s \<noteq> [], sv_passwordSet := sv_password s \<noteq> [], sv_secret := [],
     sv_keyPassphraseSet := sv_keyPassphrase s \<noteq> [], sv_keyPassphrase := [], sv_password := []\<rparr>"

definition checked :: "string \<Rightarrow> string option \<Rightarrow> string option \<Rightarrow> string option" where
  "checked what err rest = (case err of Some e \<Rightarrow> Some (what @ e) | None \<Rightarrow> rest)"

definition Validate :: "store_env \<Rightarrow> server \<Rightarrow> string option" where
  "Validate ev s =
     (if sv_id s = [] then Some ''PBS server ID required''
      else if sv_name s = [] then Some ''PBS server name required''
      else if sv_baseurl s = [] then Some ''PBS server URL required''
      else checked ''invalid URL: '' (ValidateURL ev (sv_baseurl s))
       (checked [] (if sv_authid s \<noteq> []
          then checked ''invalid authentication ID: '' (ValidateAuthID ev (sv_authid s))
                 (if sv_secret s = [] then Some ''secret required'' else None)
          else if sv_username s = [] then Some ''API token (authid/secret) or username/password required''
          else None)
        (if sv_datastore s = [] then Some ''datastore required''
         else checked ''invalid datastore: '' (ValidateDatastore ev (sv_datastore s))
          (checked [] (if sv_certfingerprint s \<noteq> []
             then checked ''invalid certificate fingerprint: '' (ValidateFingerprint ev (sv_certfingerprint s)) None
             else None)
           (validateEncryptionKeyFile ev (sv_keyFile s) (sv_keyPassphrase s))))))"

section \<open>Operations on the settings (config.go)\<close>

text \<open>The server of an ID and the key it is stored under; the empty ID names the default.\<close>

definition cfg_GetPBSServer :: "string \<Rightarrow> world \<Rightarrow> string + string \<times> server" where
  "cfg_GetPBSServer i w =
     (let i = (if i = [] then DefaultPBSID w else i) in
      if i = [] \<and> length (stored w) = 1 then Inr (hd (stored w))
      else if i = [] then Inl ''no PBS server specified and no default server''
      else (case map_of (stored w) i of None \<Rightarrow> Inl (not_found i) | Some s \<Rightarrow> Inr (i, s)))"

definition Save :: "world \<Rightarrow> world \<times> string option" where
  "Save w = (w, save_error (env w))"

definition put_server :: "server \<Rightarrow> world \<Rightarrow> world" where
  "put_server s w = w\<lparr>stored := AList.update (sv_id s) s (stored w)\<rparr>"

definition cfg_AddPBSServer :: "server \<Rightarrow> world \<Rightarrow> world \<times> string option" where
  "cfg_AddPBSServer s w =
     (case Validate (env w) s of
        Some err \<Rightarrow> (w, Some err)
      | None \<Rightarrow>
          if sv_authid s = [] \<and> sv_username s \<noteq> [] \<and> sv_password s = []
          then (w, Some password_required)
          else
            (let s = (if sv_authid s \<noteq> [] then s\<lparr>sv_username := [], sv_password := []\<rparr>
                      else if sv_username s \<noteq> [] then s\<lparr>sv_secret := []\<rparr> else s) in
             if map_of (stored w) (sv_id s) \<noteq> None then (w, Some (already_exists (sv_id s)))
             else
               (let w1 = put_server s w;
                    w2 = (if length (stored w1) = 1 then w1\<lparr>DefaultPBSID := sv_id s\<rparr> else w1)
                in Save w2)))"

definition cfg_UpdatePBSServer :: "server \<Rightarrow> world \<Rightarrow> world \<times> string option" where
  "cfg_UpdatePBSServer s w =
     (case Validate (env w) s of
        Some err \<Rightarrow> (w, Some err)
      | None \<Rightarrow>
          (case map_of (stored w) (sv_id s) of
             None \<Rightarrow> (w, Some (not_found (sv_id s)))
           | Some old \<Rightarrow>
               if sv_authid s \<noteq> [] then Save (put_server (s\<lparr>sv_username := [], sv_password := []\<rparr>) w)
               else if sv_username s \<noteq> [] then
                 (if sv_password s = [] then
                    (if sv_password old = [] \<or> sv_username old \<noteq> sv_username s
                     then (w, Some password_required)
                     else Save (put_server (s\<lparr>sv_password := sv_password old, sv_secret := []\<rparr>) w))
                  else Save (put_server (s\<lparr>sv_secret := []\<rparr>) w))
               else Save (put_server s w)))"

definition cfg_DeletePBSServer :: "string \<Rightarrow> world \<Rightarrow> world \<times> string option" where
  "cfg_DeletePBSServer i w =
     (if map_of (stored w) i = None then (w, Some (not_found i))
      else
        (let w1 = w\<lparr>stored := AList.delete i (stored w)\<rparr>;
             w2 = (if DefaultPBSID w1 = i
                   then (case ranged (env w) (stored w1) of
                           (k, s) # rest \<Rightarrow> w1\<lparr>DefaultPBSID := k\<rparr> | [] \<Rightarrow> w1\<lparr>DefaultPBSID := []\<rparr>)
                   else w1)
         in Save w2))"

definition cfg_SetDefaultPBS :: "string \<Rightarrow> world \<Rightarrow> world \<times> string option" where
  "cfg_SetDefaultPBS i w =
     (if map_of (stored w) i = None then (w, Some (not_found i)) else Save (w\<lparr>DefaultPBSID := i\<rparr>))"

section \<open>The functions bound to the window\<close>

definition mergeStoredPassphrase :: "string \<Rightarrow> string \<Rightarrow> string \<Rightarrow> string \<Rightarrow> bool \<Rightarrow> string" where
  "mergeStoredPassphrase prevPath prevPassphrase newPath typed clear =
     (if clear then [] else if typed \<noteq> [] then typed else if prevPath \<noteq> newPath then [] else prevPassphrase)"

definition app_ListPBSServers :: "world \<Rightarrow> string + server list" where
  "app_ListPBSServers w = Inr (map (\<lambda>(k, s). sanitized s) (ranged (env w) (stored w)))"

definition app_AddPBSServer :: "server \<Rightarrow> world \<Rightarrow> world \<times> string option" where
  "app_AddPBSServer s w = cfg_AddPBSServer (s\<lparr>sv_clearKeyPassphrase := False\<rparr>) w"

definition with_stored_secret :: "server \<Rightarrow> world \<Rightarrow> server" where
  "with_stored_secret s w =
     (if sv_secret s \<noteq> [] then s
      else (case cfg_GetPBSServer (sv_id s) w of
              Inr (k, old) \<Rightarrow> if sv_authid old = sv_authid s then s\<lparr>sv_secret := sv_secret old\<rparr> else s
            | Inl _ \<Rightarrow> s))"

definition with_stored_passphrase :: "server \<Rightarrow> world \<Rightarrow> server" where
  "with_stored_passphrase s w =
     (let (path, pass) = (case cfg_GetPBSServer (sv_id s) w of
            Inr (k, old) \<Rightarrow> (sv_keyFile old, sv_keyPassphrase old) | Inl _ \<Rightarrow> ([], [])) in
      s\<lparr>sv_keyPassphrase := mergeStoredPassphrase path pass (sv_keyFile s) (sv_keyPassphrase s) (sv_clearKeyPassphrase s),
        sv_clearKeyPassphrase := False, sv_keyPassphraseSet := False\<rparr>)"

definition app_UpdatePBSServer :: "server \<Rightarrow> world \<Rightarrow> world \<times> string option" where
  "app_UpdatePBSServer s w = cfg_UpdatePBSServer (with_stored_passphrase (with_stored_secret s w) w) w"

text \<open>
  \<open>GetPBSServer\<close> gives a pointer into the map, so the fingerprint is in the settings held in
  memory before the update is checked.
\<close>

definition pinFingerprintLocal :: "string \<Rightarrow> string \<Rightarrow> world \<Rightarrow> world \<times> string option" where
  "pinFingerprintLocal i fp w =
     (case ValidateFingerprint (env w) fp of
        Some err \<Rightarrow> (w, Some (''invalid certificate fingerprint: '' @ err))
      | None \<Rightarrow>
          (case cfg_GetPBSServer i w of
             Inl err \<Rightarrow> (w, Some err)
           | Inr (k, s) \<Rightarrow>
               (let s = s\<lparr>sv_certfingerprint := fp\<rparr>;
                    w1 = w\<lparr>stored := AList.update k s (stored w)\<rparr>
                in case cfg_UpdatePBSServer s w1 of
                     (w2, Some err) \<Rightarrow>
                       (w2, Some (''unable to save the fingerprint (config.json not writable?): '' @ err))
                   | (w2, None) \<Rightarrow> (w2, None))))"

definition app_TestPBSConnection :: "string \<Rightarrow> world \<Rightarrow> string option" where
  "app_TestPBSConnection i w =
     (case cfg_GetPBSServer i w of Inl err \<Rightarrow> Some err | Inr (k, s) \<Rightarrow> connect (env w) s)"

definition go_backend :: "world backend" where
  "go_backend = \<lparr>ListPBSServers = app_ListPBSServers, GetDefaultPBSID = (\<lambda>w. Inr (DefaultPBSID w)),
     AddPBSServer = app_AddPBSServer, UpdatePBSServer = app_UpdatePBSServer,
     DeletePBSServer = cfg_DeletePBSServer, SetDefaultPBSServer = cfg_SetDefaultPBS,
     TestPBSConnection = app_TestPBSConnection,
     GetServerFingerprint = (\<lambda>u w. fetch_fingerprint (env w) u),
     PinPBSServerFingerprint = pinFingerprintLocal\<rparr>"

section \<open>Well-formed settings\<close>

definition one_login :: "server \<Rightarrow> bool" where
  "one_login s \<longleftrightarrow> (if sv_authid s \<noteq> []
     then sv_secret s \<noteq> [] \<and> sv_username s = [] \<and> sv_password s = []
     else sv_secret s = [] \<and> sv_username s \<noteq> [] \<and> sv_password s \<noteq> [])"

lemma one_loginD: "one_login s \<Longrightarrow> sv_authid s = [] \<or> sv_username s = []"
  by (auto simp: one_login_def split: if_splits)

text \<open>
  Each server is stored once under its own ID, passes the checks and has one login; the
  default is one of them.
\<close>

definition store_ok :: "world \<Rightarrow> bool" where
  "store_ok w \<longleftrightarrow> distinct (map fst (stored w)) \<and>
     (\<forall>(k, s) \<in> set (stored w). sv_id s = k \<and> one_login s \<and> Validate (env w) s = None) \<and>
     (if stored w = [] then DefaultPBSID w = [] else DefaultPBSID w \<in> fst ` set (stored w))"

text \<open>The settings can be written, and ranging over a map gives each of its entries once.\<close>

definition env_ok :: "store_env \<Rightarrow> bool" where
  "env_ok ev \<longleftrightarrow> save_error ev = None \<and> (\<forall>xs. mset (ranged ev xs) = mset xs)"

definition world_ok :: "world \<Rightarrow> bool" where
  "world_ok w \<longleftrightarrow> store_ok w \<and> env_ok (env w)"

definition directory_of :: "world \<Rightarrow> directory" where
  "directory_of w = (map_of (map (\<lambda>(k, s). (k, public s)) (stored w)), DefaultPBSID w)"

subsection \<open>Lemmas on the store\<close>

lemma map_of_public:
  "map_of (map (\<lambda>(k, s). (k, public s)) xs) = map_option public \<circ> map_of xs"
  by (induction xs) auto

lemma directory_alt: "directory_of w = (map_option public \<circ> map_of (stored w), DefaultPBSID w)"
  by (simp add: directory_of_def map_of_public)

lemma public_simps [simp]:
  "public (sanitized s) = public s" "sv_id (sanitized s) = sv_id s" "sv_id (public s) = sv_id s"
  "public (s\<lparr>sv_secret := a\<rparr>) = public s" "public (s\<lparr>sv_password := a\<rparr>) = public s"
  "public (s\<lparr>sv_keyPassphrase := a\<rparr>) = public s" "public (s\<lparr>sv_clearKeyPassphrase := b\<rparr>) = public s"
  "public (s\<lparr>sv_keyPassphraseSet := b\<rparr>) = public s"
  "public (s\<lparr>sv_certfingerprint := a\<rparr>) = (public s)\<lparr>sv_certfingerprint := a\<rparr>"
  "no_secrets (sanitized s)"
  by (simp_all add: public_def sanitized_def no_secrets_def)

lemma store_okD:
  assumes "store_ok w" "map_of (stored w) i = Some s"
  shows "sv_id s = i \<and> one_login s \<and> Validate (env w) s = None"
  using assms by (auto simp: store_ok_def dest: map_of_SomeD)

lemma checked_None [simp]: "checked what err rest = None \<longleftrightarrow> err = None \<and> rest = None"
  by (simp add: checked_def split: option.splits)

text \<open>What passing the checks comes to.\<close>

lemma Validate_iff: "Validate ev s = None \<longleftrightarrow>
    sv_id s \<noteq> [] \<and> sv_name s \<noteq> [] \<and> sv_baseurl s \<noteq> [] \<and> ValidateURL ev (sv_baseurl s) = None \<and>
    (if sv_authid s \<noteq> [] then ValidateAuthID ev (sv_authid s) = None \<and> sv_secret s \<noteq> [] else sv_username s \<noteq> []) \<and>
    sv_datastore s \<noteq> [] \<and> ValidateDatastore ev (sv_datastore s) = None \<and>
    (sv_certfingerprint s \<noteq> [] \<longrightarrow> ValidateFingerprint ev (sv_certfingerprint s) = None) \<and>
    validateEncryptionKeyFile ev (sv_keyFile s) (sv_keyPassphrase s) = None"
  unfolding Validate_def by simp

lemma put_server_simps [simp]:
  "env (put_server s w) = env w" "DefaultPBSID (put_server s w) = DefaultPBSID w"
  "stored (put_server s w) = AList.update (sv_id s) s (stored w)"
  by (simp_all add: put_server_def)

text \<open>Well-formedness as a statement on the map.\<close>

lemma store_ok_alt: "store_ok w \<longleftrightarrow> distinct (map fst (stored w)) \<and>
    (\<forall>k s. map_of (stored w) k = Some s \<longrightarrow> sv_id s = k \<and> one_login s \<and> Validate (env w) s = None) \<and>
    (if stored w = [] then DefaultPBSID w = [] else map_of (stored w) (DefaultPBSID w) \<noteq> None)"
proof (cases "distinct (map fst (stored w))")
  case True
  have "map_of (stored w) (DefaultPBSID w) \<noteq> None \<longleftrightarrow> DefaultPBSID w \<in> fst ` set (stored w)"
    by (metis map_of_eq_None_iff)
  with True show ?thesis
    unfolding store_ok_def by (auto simp only: map_of_eq_Some_iff split: prod.splits if_splits)
qed (simp add: store_ok_def)

lemma update_nonempty: "AList.update k v xs \<noteq> []"
  by (cases xs) auto

lemma store_ok_put:
  assumes "store_ok w" "one_login s" "Validate (env w) s = None" "stored w \<noteq> []"
  shows "store_ok (put_server s w)"
  using assms update_nonempty [of "sv_id s" s "stored w"]
  by (auto simp: store_ok_alt distinct_update update_conv' split: if_splits)

lemma directory_put: "directory_of (put_server s w) = ((fst (directory_of w))(sv_id s \<mapsto> public s), DefaultPBSID w)"
  by (auto simp: directory_alt update_conv fun_eq_iff)

subsection \<open>What each operation does to the directory\<close>

lemma update_fresh: "map_of xs k = None \<Longrightarrow> AList.update k v xs = xs @ [(k, v)]"
  by (induction xs) (auto split: if_splits)

lemma Save_ok: "env_ok (env w) \<Longrightarrow> Save w = (w, None)"
  by (simp add: Save_def env_ok_def)

lemma does_rejected: "does dir e w (w, Some err)"
  by (simp add: does_def)

lemma does_accepted: "does dir e w (w', None) \<longleftrightarrow> dir_step e (dir w) (dir w')"
  by (simp add: does_def)

lemma does_cong: "(\<And>d d'. dir_step e d d' = dir_step e' d d') \<Longrightarrow> does dir e w r = does dir e' w r"
  by (cases "snd r") (simp_all add: does_def)

lemma empty_directory: "fst (directory_of w) = Map.empty \<longleftrightarrow> stored w = []"
  by (auto simp: directory_alt fun_eq_iff) (metis map_of_eq_empty_iff option.exhaust)

lemma directory_entry: "fst (directory_of w) i = map_option public (map_of (stored w) i)"
  by (simp add: directory_alt)

lemma cfg_add_law:
  assumes w: "world_ok w" and s: "sv_authid s = [] \<or> sv_username s = []"
  shows "world_ok (fst (cfg_AddPBSServer s w)) \<and> does directory_of (New s) w (cfg_AddPBSServer s w)"
proof -
  define s1 where "s1 = (if sv_authid s \<noteq> [] then s\<lparr>sv_username := [], sv_password := []\<rparr>
    else if sv_username s \<noteq> [] then s\<lparr>sv_secret := []\<rparr> else s)"
  define w1 where "w1 = (let w1 = put_server s1 w in
    if length (stored w1) = 1 then w1\<lparr>DefaultPBSID := sv_id s1\<rparr> else w1)"
  show ?thesis
  proof (cases "Validate (env w) s = None \<and> \<not> (sv_authid s = [] \<and> sv_username s \<noteq> [] \<and> sv_password s = [])
      \<and> map_of (stored w) (sv_id s) = None")
    case False
    then have "\<exists>err. cfg_AddPBSServer s w = (w, Some err)"
      by (auto simp: cfg_AddPBSServer_def Let_def split: option.splits)
    with w show ?thesis by (auto simp: does_rejected)
  next
    case True
    have s1: "Validate (env w) s1 = None" "one_login s1" "sv_id s1 = sv_id s" "public s1 = public s"
      using True s by (auto simp: s1_def Validate_iff one_login_def public_def)
    have st: "stored w1 = stored w @ [(sv_id s, s1)]" "env w1 = env w"
      "DefaultPBSID w1 = (if stored w = [] then sv_id s else DefaultPBSID w)"
      using True s1 by (auto simp: w1_def Let_def update_fresh)
    have r: "cfg_AddPBSServer s w = (w1, None)"
      using True w st(2) Save_ok [of w1]
      by (auto simp: cfg_AddPBSServer_def s1_def w1_def world_ok_def Let_def)
    have "store_ok w1"
      using w True s1 st by (auto simp: world_ok_def store_ok_def map_of_eq_None_iff)
    moreover have "directory_of w1 = ((fst (directory_of w))(sv_id s \<mapsto> public s),
        if fst (directory_of w) = Map.empty then sv_id s else snd (directory_of w))"
      unfolding empty_directory using True st s1
      by (auto simp: directory_alt fun_eq_iff map_add_def split: option.splits)
    moreover have "fst (directory_of w) (sv_id s) = None"
      using True by (simp add: directory_entry)
    ultimately show ?thesis
      using w r st(2) dir_step.new [of "fst (directory_of w)" s "snd (directory_of w)"]
      by (simp add: does_accepted world_ok_def)
  qed
qed

text \<open>An update is refused, or stores a server that passes the checks and has one login.\<close>

lemma updated:
  assumes v: "Validate (env w) s = None" and old: "map_of (stored w) (sv_id s) = Some old"
    and s: "sv_authid s = [] \<or> sv_username s = []"
  shows "cfg_UpdatePBSServer s w = (w, Some password_required) \<or>
    (\<exists>s1. cfg_UpdatePBSServer s w = Save (put_server s1 w) \<and> one_login s1 \<and> Validate (env w) s1 = None \<and>
      sv_id s1 = sv_id s \<and> public s1 = public s)"
proof (cases "sv_authid s = []")
  case False
  let ?s = "s\<lparr>sv_username := [], sv_password := []\<rparr>"
  have "cfg_UpdatePBSServer s w = Save (put_server ?s w)"
    using v old False by (simp add: cfg_UpdatePBSServer_def)
  moreover have "one_login ?s" "Validate (env w) ?s = None" "public ?s = public s" "sv_id ?s = sv_id s"
    using v False s by (simp_all add: one_login_def Validate_iff public_def)
  ultimately show ?thesis by blast
next
  case True
  then have u: "sv_username s \<noteq> []"
    using v by (simp add: Validate_iff)
  let ?p = "if sv_password s = [] then sv_password old else sv_password s"
  let ?s = "s\<lparr>sv_password := ?p, sv_secret := []\<rparr>"
  show ?thesis
  proof (cases "sv_password s = [] \<and> (sv_password old = [] \<or> sv_username old \<noteq> sv_username s)")
    case True
    then show ?thesis
      using v old u \<open>sv_authid s = []\<close> by (simp add: cfg_UpdatePBSServer_def)
  next
    case False
    have "cfg_UpdatePBSServer s w = Save (put_server ?s w)"
      using v old False True u by (auto simp: cfg_UpdatePBSServer_def)
    moreover have "one_login ?s" "Validate (env w) ?s = None" "public ?s = public s" "sv_id ?s = sv_id s"
      using v True False u by (auto simp: one_login_def Validate_iff public_def)
    ultimately show ?thesis by blast
  qed
qed

lemma cfg_update_law:
  assumes w: "world_ok w" and s: "sv_authid s = [] \<or> sv_username s = []"
  shows "world_ok (fst (cfg_UpdatePBSServer s w)) \<and> does directory_of (Replace s) w (cfg_UpdatePBSServer s w)"
proof -
  have put: "world_ok (put_server s1 w) \<and> does directory_of (Replace s) w (Save (put_server s1 w))"
    if "map_of (stored w) (sv_id s) = Some old" "one_login s1" "Validate (env w) s1 = None"
      "sv_id s1 = sv_id s" "public s1 = public s" for s1 old
  proof -
    have "world_ok (put_server s1 w)"
      using that w store_ok_put [of w s1] by (cases "stored w = []") (auto simp: world_ok_def)
    moreover have "fst (directory_of w) (sv_id s) \<noteq> None"
      using that by (simp add: directory_entry)
    ultimately show ?thesis
      using that dir_step.replace [of "fst (directory_of w)" s "snd (directory_of w)"]
      by (auto simp: Save_ok does_accepted directory_put world_ok_def) (simp add: directory_of_def)
  qed
  show ?thesis
  proof (cases "Validate (env w) s = None")
    case False
    then show ?thesis
      using w by (auto simp: cfg_UpdatePBSServer_def does_rejected)
  next
    case True
    show ?thesis
    proof (cases "map_of (stored w) (sv_id s)")
      case None
      with True w show ?thesis by (simp add: cfg_UpdatePBSServer_def does_rejected)
    next
      case (Some old)
      have "(\<exists>err. cfg_UpdatePBSServer s w = (w, Some err)) \<or>
        (\<exists>s1. cfg_UpdatePBSServer s w = Save (put_server s1 w) \<and> one_login s1 \<and> Validate (env w) s1 = None \<and>
          sv_id s1 = sv_id s \<and> public s1 = public s)"
        using updated [OF True Some s] by blast
      then show ?thesis
        using put [OF Some] w by (auto simp: does_rejected Save_def)
    qed
  qed
qed

lemma cfg_get_listed:
  assumes "store_ok w" "map_of (stored w) i = Some s"
  shows "cfg_GetPBSServer i w = Inr (i, s)"
  using store_okD [OF assms] assms(2) by (auto simp: cfg_GetPBSServer_def Validate_iff)

lemma app_update_law:
  assumes "world_ok w" "sv_authid s = [] \<or> sv_username s = []"
  shows "world_ok (fst (app_UpdatePBSServer s w)) \<and> does directory_of (Replace s) w (app_UpdatePBSServer s w)"
proof -
  define s1 where "s1 = with_stored_passphrase (with_stored_secret s w) w"
  have s1: "sv_authid s1 = sv_authid s" "sv_username s1 = sv_username s" "sv_id s1 = sv_id s" "public s1 = public s"
    by (auto simp: s1_def with_stored_passphrase_def with_stored_secret_def Let_def
        split: prod.splits sum.splits)
  have "does directory_of (Replace s1) w r = does directory_of (Replace s) w r" for r
    by (rule does_cong) (auto simp: dir_step.simps s1)
  then show ?thesis
    using cfg_update_law [of w s1] assms s1 by (simp add: app_UpdatePBSServer_def s1_def [symmetric])
qed

lemma app_add_law:
  assumes "world_ok w" "sv_authid s = [] \<or> sv_username s = []"
  shows "world_ok (fst (app_AddPBSServer s w)) \<and> does directory_of (New s) w (app_AddPBSServer s w)"
proof -
  have "does directory_of (New (s\<lparr>sv_clearKeyPassphrase := False\<rparr>)) w r = does directory_of (New s) w r" for r
    by (rule does_cong) (auto simp: dir_step.simps)
  then show ?thesis
    using cfg_add_law [of w "s\<lparr>sv_clearKeyPassphrase := False\<rparr>"] assms
    by (simp add: app_AddPBSServer_def)
qed

lemma ranged_set: "env_ok ev \<Longrightarrow> set (ranged ev xs) = set xs"
  by (metis env_ok_def mset_eq_setD)

lemma ranged_distinct: "env_ok ev \<Longrightarrow> distinct (map fst xs) \<Longrightarrow> distinct (map fst (ranged ev xs))"
  by (metis env_ok_def mset_eq_imp_distinct_iff mset_map)

lemma cfg_delete_law:
  assumes w: "world_ok w"
  shows "world_ok (fst (cfg_DeletePBSServer i w)) \<and> does directory_of (Drop i) w (cfg_DeletePBSServer i w)"
proof (cases "map_of (stored w) i")
  case None
  with w show ?thesis by (simp add: cfg_DeletePBSServer_def does_rejected)
next
  case (Some s)
  define w1 where "w1 = w\<lparr>stored := AList.delete i (stored w)\<rparr>"
  define w2 where "w2 = fst (cfg_DeletePBSServer i w)"
  have r: "cfg_DeletePBSServer i w = (w2, None)" and w2: "stored w2 = stored w1" "env w2 = env w"
    using Some w by (auto simp: cfg_DeletePBSServer_def w2_def w1_def Let_def Save_def world_ok_def env_ok_def
        split: list.splits prod.splits)
  have m: "map_of (stored w1) = (map_of (stored w))(i := None)"
    by (simp add: w1_def delete_conv')
  have d: "if DefaultPBSID w = i then (if stored w1 = [] then DefaultPBSID w2 = [] else map_of (stored w1) (DefaultPBSID w2) \<noteq> None)
    else DefaultPBSID w2 = DefaultPBSID w"
  proof (cases "ranged (env w) (stored w1)")
    case Nil
    then have "stored w1 = []"
      using ranged_set [of "env w" "stored w1"] w by (simp add: world_ok_def)
    then show ?thesis
      using Nil Some by (auto simp: w2_def w1_def cfg_DeletePBSServer_def Let_def Save_def)
  next
    case (Cons e rest)
    then have e: "e \<in> set (stored w1)"
      using ranged_set [of "env w" "stored w1"] w by (auto simp: world_ok_def)
    then have "map_of (stored w1) (fst e) \<noteq> None"
      by (metis map_of_eq_None_iff image_eqI)
    then show ?thesis
      using Cons Some e by (cases e) (auto simp: w2_def w1_def cfg_DeletePBSServer_def Let_def Save_def)
  qed
  have left: "DefaultPBSID w = i" if "stored w1 = []"
  proof (rule ccontr)
    assume "DefaultPBSID w \<noteq> i"
    then have "map_of (stored w1) (DefaultPBSID w) = map_of (stored w) (DefaultPBSID w)"
      by (simp add: m)
    with that w Some show False
      by (cases "stored w = []") (auto simp: world_ok_def store_ok_alt)
  qed
  have "distinct (map fst (stored w2))"
    using w by (simp add: w2(1) w1_def world_ok_def store_ok_def distinct_delete)
  moreover have "sv_id s = k \<and> one_login s \<and> Validate (env w2) s = None" if "map_of (stored w2) k = Some s" for k s
    using w that by (auto simp: w2 m world_ok_def store_ok_alt split: if_splits)
  moreover have "if stored w2 = [] then DefaultPBSID w2 = [] else map_of (stored w2) (DefaultPBSID w2) \<noteq> None"
    using w d left Some unfolding w2 m world_ok_def store_ok_alt by (auto split: if_splits)
  ultimately have "store_ok w2"
    unfolding store_ok_alt by blast
  moreover have "dir_step (Drop i) (directory_of w) (directory_of w2)"
  proof -
    obtain M where dir: "directory_of w = (M, DefaultPBSID w)"
      by (simp add: directory_alt)
    have dir2: "directory_of w2 = (M(i := None), DefaultPBSID w2)"
      using dir by (auto simp: directory_alt w2 m fun_eq_iff)
    have entry: "M j = map_option public (map_of (stored w) j)" for j
      using directory_entry [of w j] by (simp add: dir)
    have i: "M i \<noteq> None"
      using Some by (simp add: entry)
    have e: "M(i := None) = Map.empty \<longleftrightarrow> stored w1 = []"
      using empty_directory [of w2] by (simp add: dir2 w2)
    have left_entry: "(M(i := None)) j \<noteq> None \<longleftrightarrow> map_of (stored w1) j \<noteq> None" for j
      by (simp add: m entry)
    show ?thesis
    proof (cases "DefaultPBSID w = i")
      case True
      have "if M(i := None) = Map.empty then DefaultPBSID w2 = [] else (M(i := None)) (DefaultPBSID w2) \<noteq> None"
        unfolding e left_entry using d True by simp
      then show ?thesis
        unfolding dir dir2 True using i by (intro dir_step.drop_default)
    next
      case False
      then show ?thesis
        unfolding dir dir2 using d False i by (auto intro: dir_step.drop_other)
    qed
  qed
  ultimately show ?thesis
    using r w w2 by (simp add: does_accepted world_ok_def w1_def)
qed

lemma cfg_set_default_law:
  assumes w: "world_ok w"
  shows "world_ok (fst (cfg_SetDefaultPBS i w)) \<and> does directory_of (Choose i) w (cfg_SetDefaultPBS i w)"
proof (cases "map_of (stored w) i")
  case None
  with w show ?thesis by (simp add: cfg_SetDefaultPBS_def does_rejected)
next
  case (Some s)
  let ?w = "w\<lparr>DefaultPBSID := i\<rparr>"
  have "fst (directory_of w) i \<noteq> None"
    using Some by (simp add: directory_entry)
  then have "dir_step (Choose i) (directory_of w) (directory_of ?w)"
    by (simp add: choose_iff directory_alt)
  moreover have "store_ok ?w"
    using w Some by (auto simp: world_ok_def store_ok_alt)
  ultimately show ?thesis
    using Some w by (simp add: cfg_SetDefaultPBS_def Save_def world_ok_def env_ok_def does_accepted)
qed

lemma pin_law:
  assumes w: "world_ok w" and i: "fst (directory_of w) i \<noteq> None"
  shows "world_ok (fst (pinFingerprintLocal i fp w)) \<and>
    does directory_of (Trust i fp) w (pinFingerprintLocal i fp w)"
proof (cases "ValidateFingerprint (env w) fp")
  case (Some err)
  with w show ?thesis by (simp add: pinFingerprintLocal_def does_rejected)
next
  case None
  obtain s where s: "map_of (stored w) i = Some s"
    using i by (auto simp: directory_entry)
  let ?s = "s\<lparr>sv_certfingerprint := fp\<rparr>"
  let ?w = "put_server ?s w"
  have s_ok: "sv_id s = i" "one_login s" "Validate (env w) s = None"
    using store_okD [of w i s] w s by (auto simp: world_ok_def)
  then have new_ok: "one_login ?s" "Validate (env w) ?s = None"
    using None by (auto simp: one_login_def Validate_iff)
  have "store_ok ?w"
    using store_ok_put [of w ?s] w s new_ok by (cases "stored w = []") (auto simp: world_ok_def)
  then have law: "world_ok (fst (cfg_UpdatePBSServer ?s ?w)) \<and> does directory_of (Replace ?s) ?w (cfg_UpdatePBSServer ?s ?w)"
    using cfg_update_law [of ?w ?s] w one_loginD [OF new_ok(1)] by (simp add: world_ok_def)
  have "\<exists>w2. cfg_UpdatePBSServer ?s ?w = (w2, None)"
    using new_ok w s_ok by (auto simp: cfg_UpdatePBSServer_def update_conv' Save_def world_ok_def env_ok_def one_login_def
        split: if_splits)
  moreover have "directory_of w2 = directory_of ?w \<and> world_ok w2" if "cfg_UpdatePBSServer ?s ?w = (w2, None)" for w2
    using law that by (auto simp: does_accepted replace_iff directory_put prod_eq_iff)
  ultimately obtain w2 where w2: "cfg_UpdatePBSServer ?s ?w = (w2, None)" "directory_of w2 = directory_of ?w" "world_ok w2"
    by blast
  have "pinFingerprintLocal i fp w = (w2, None)"
    using None s w w2(1) s_ok(1) cfg_get_listed [of w i s]
    by (simp add: pinFingerprintLocal_def world_ok_def put_server_def Let_def)
  moreover have "dir_step (Trust i fp) (directory_of w) (directory_of ?w)"
    using dir_step.trust [of "fst (directory_of w)" i "public s" fp "DefaultPBSID w"] s s_ok(1)
    by (simp add: directory_put) (simp add: directory_alt)
  ultimately show ?thesis
    using w2 by (simp add: does_accepted)
qed

lemma list_law:
  assumes w: "world_ok w"
  shows "\<exists>ss. app_ListPBSServers w = Inr ss \<and> listed_servers ss = fst (directory_of w)
    \<and> distinct (map sv_id ss) \<and> (\<forall>s \<in> set ss. no_secrets s)"
proof -
  let ?es = "ranged (env w) (stored w)"
  have keys: "sv_id s = k" if "(k, s) \<in> set ?es" for k s
    using that w ranged_set [of "env w" "stored w"] by (auto simp: world_ok_def store_ok_def)
  have d: "distinct (map fst ?es)" "distinct (map fst (stored w))"
    using w ranged_distinct by (auto simp: world_ok_def store_ok_def)
  have m: "map_of ?es = map_of (stored w)"
    using d w ranged_set map_of_inject_set [of ?es "stored w"] by (auto simp: world_ok_def)
  have ids: "map sv_id (map (\<lambda>(k, s). sanitized s) ?es) = map fst ?es"
    using keys by auto
  have "map (\<lambda>s. (sv_id s, public s)) (map (\<lambda>(k, s). sanitized s) ?es) = map (\<lambda>(k, s). (k, public s)) ?es"
    using keys by auto
  then have "listed_servers (map (\<lambda>(k, s). sanitized s) ?es) = fst (directory_of w)"
    by (simp only: listed_servers_def map_of_public m directory_alt fst_conv)
  then show ?thesis
    using d(1) unfolding app_ListPBSServers_def ids [symmetric] by auto
qed

text \<open>The Go backend is what the page relies on.\<close>

interpretation pbs: pbs_backend go_backend directory_of world_ok
proof unfold_locales
  fix w s i fp
  assume w: "world_ok w"
  show "\<exists>ss. ListPBSServers go_backend w = Inr ss \<and> listed_servers ss = fst (directory_of w)
      \<and> distinct (map sv_id ss) \<and> (\<forall>s \<in> set ss. no_secrets s)"
    using list_law [OF w] by (simp add: go_backend_def)
  show "GetDefaultPBSID go_backend w = Inr (snd (directory_of w))"
    by (simp add: go_backend_def directory_alt)
  show "world_ok (fst (AddPBSServer go_backend s w)) \<and> does directory_of (New s) w (AddPBSServer go_backend s w)"
    if "sv_authid s = [] \<or> sv_username s = []"
    using app_add_law [OF w that] by (simp add: go_backend_def)
  show "world_ok (fst (UpdatePBSServer go_backend s w)) \<and> does directory_of (Replace s) w (UpdatePBSServer go_backend s w)"
    if "sv_authid s = [] \<or> sv_username s = []"
    using app_update_law [OF w that] by (simp add: go_backend_def)
  show "world_ok (fst (DeletePBSServer go_backend i w)) \<and> does directory_of (Drop i) w (DeletePBSServer go_backend i w)"
    using cfg_delete_law [OF w] by (simp add: go_backend_def)
  show "world_ok (fst (SetDefaultPBSServer go_backend i w)) \<and> does directory_of (Choose i) w (SetDefaultPBSServer go_backend i w)"
    using cfg_set_default_law [OF w] by (simp add: go_backend_def)
  show "world_ok (fst (PinPBSServerFingerprint go_backend i fp w)) \<and>
      does directory_of (Trust i fp) w (PinPBSServerFingerprint go_backend i fp w)"
    if "fst (directory_of w) i \<noteq> None"
    using pin_law [OF w that] by (simp add: go_backend_def)
qed

section \<open>The page and the store together\<close>

text \<open>The window shows what is stored, and none of its secrets.\<close>

definition page_in_step :: "world \<Rightarrow> servers_page \<Rightarrow> bool" where
  "page_in_step w p \<longleftrightarrow> world_ok w \<and> listed_servers (pbsServers p) = fst (directory_of w)
     \<and> defaultPBSID p = snd (directory_of w) \<and> distinct (map sv_id (pbsServers p))
     \<and> (\<forall>s \<in> set (pbsServers p). no_secrets s)"

lemma page_in_step_eq: "page_in_step = pbs.in_step"
  by (simp add: fun_eq_iff page_in_step_def pbs.in_step_def)


lemma actions_keep_step:
  "page_in_step w p \<Longrightarrow> page_in_step (fst (fold (act go_backend) as (w, p))) (snd (fold (act go_backend) as (w, p)))"
proof (induction as arbitrary: w p)
  case (Cons a as)
  obtain w1 p1 where s: "act go_backend a (w, p) = (w1, p1)"
    by fastforce
  then have "pbs.in_step w1 p1"
    using pbs.page_refines [of w p a w1 p1] Cons.prems by (simp add: page_in_step_eq)
  then show ?case
    using Cons.IH s by (simp add: page_in_step_eq)
qed simp

text \<open>
  C14: Whatever sequence of actions is made on the page, the settings stay well-formed (each
  server under its own ID once, checked, with a token and its secret or a user and its
  password but not both, and a default among them) and no secret reaches the window.
\<close>

theorem settings_stay_ok:
  assumes "page_in_step w p" and "fold (act go_backend) as (w, p) = (w', p')"
  shows "distinct (map fst (stored w'))
    \<and> (\<forall>(k, s) \<in> set (stored w'). sv_id s = k \<and> one_login s \<and> Validate (env w') s = None)
    \<and> (stored w' \<noteq> [] \<longrightarrow> DefaultPBSID w' \<in> fst ` set (stored w'))
    \<and> (\<forall>s \<in> set (pbsServers p'). sv_secret s = [] \<and> sv_password s = [] \<and> sv_keyPassphrase s = [])"
proof -
  have "page_in_step w' p'"
    using actions_keep_step [OF assms(1), of as] assms(2) by simp
  then show ?thesis
    by (auto simp: page_in_step_def world_ok_def store_ok_def no_secrets_def split: if_splits)
qed

text \<open>
  Testing a server changes the settings in one case only: the test failed because of its
  certificate, the server as listed has no fingerprint, the user said yes to the fingerprint
  read from that server's address, and then exactly that fingerprint is pinned on that server.
  A server is shown online only when a test against the settings as they then are passed.
\<close>

theorem test_trusts_only_asked:
  assumes "handleTestPBSConnection be trusts i (w, p) = (w', p')"
  shows "(w' \<noteq> w \<longrightarrow> (\<exists>err s fp. TestPBSConnection be i w = Some err \<and> isCertError err \<and>
      server_of i p = Some s \<and> trim (sv_certfingerprint s) = [] \<and>
      GetServerFingerprint be (sv_baseurl s) w = Inr fp \<and> trusts (sv_baseurl s) fp \<and>
      w' = fst (PinPBSServerFingerprint be i fp w)))
    \<and> (serverStatus p' i = Some Online \<longrightarrow> TestPBSConnection be i w' = None)"
proof -
  have reach: "serverStatus (tell k t a q) = serverStatus q" "serverStatus (set_reach i r q) i = Some r" for k t a q r
    by (simp_all add: tell_def set_reach_def)
  have tofu: "w' = fst (PinPBSServerFingerprint be i fp w) \<and> (serverStatus p' i = Some Online \<longrightarrow> TestPBSConnection be i w' = None)"
    if "tofu be trusts i s (w, q) = Some (w', p')" "GetServerFingerprint be (sv_baseurl s) w = Inr fp" for s q fp
    using that reach by (auto simp: tofu_def Let_def split: if_splits option.splits prod.splits)
  have refused: "w' = w \<and> serverStatus p' i = Some Offline"
    if "tofu be trusts i s (w, q) = Some (w', p')" "GetServerFingerprint be (sv_baseurl s) w = Inl e" for s q e
    using that reach by (auto simp: tofu_def)
  have yes: "trusts (sv_baseurl s) fp"
    if "tofu be trusts i s (w, q) = Some (w', p')" "GetServerFingerprint be (sv_baseurl s) w = Inr fp" for s q fp
    using that by (auto simp: tofu_def split: if_splits)
  have "(w' = w \<or> (\<exists>err s fp q. TestPBSConnection be i w = Some err \<and> isCertError err \<and>
      server_of i p = Some s \<and> trim (sv_certfingerprint s) = [] \<and>
      GetServerFingerprint be (sv_baseurl s) w = Inr fp \<and> tofu be trusts i s (w, q) = Some (w', p')))
    \<and> (serverStatus p' i = Some Online \<longrightarrow> TestPBSConnection be i w' = None)"
  proof (cases "TestPBSConnection be i w")
    case None
    then show ?thesis using assms by (auto simp: handleTestPBSConnection_def Let_def)
  next
    case (Some err)
    show ?thesis
    proof (cases "\<exists>s. server_of i p = Some s \<and> isCertError err \<and> trim (sv_certfingerprint s) = []
        \<and> tofu be trusts i s (w, set_reach i Testing p) = Some (w', p')")
      case True
      then obtain s where s: "server_of i p = Some s" "isCertError err" "trim (sv_certfingerprint s) = []"
        "tofu be trusts i s (w, set_reach i Testing p) = Some (w', p')" by blast
      show ?thesis
      proof (cases "GetServerFingerprint be (sv_baseurl s) w")
        case (Inl e)
        then show ?thesis using refused s(4) by auto
      next
        case (Inr fp)
        then show ?thesis using tofu s Some by blast
      qed
    next
      case False
      then have "w' = w \<and> serverStatus p' i = Some Offline"
        using assms Some reach
        by (auto simp: handleTestPBSConnection_def Let_def split: option.splits if_splits)
      then show ?thesis by simp
    qed
  qed
  then show ?thesis
    using tofu yes by blast
qed

section \<open>Editing and failing\<close>

lemma form_of_saved:
  assumes "one_login s" "sv_authid s = [] \<Longrightarrow> trim (sv_username s) \<noteq> []"
  shows "payload (serverFormData (handleEditServer (sanitized s) p)) =
    (sanitized s)\<lparr>sv_clearKeyPassphrase := False\<rparr>"
  using assms by (auto simp: payload_def isUserPass_def handleEditServer_def sanitized_def one_login_def trim_def
      split: if_splits)

text \<open>
  C15: The Edit form round-trips. The window is never given a server's secrets, yet opening a
  server's form and saving it unchanged leaves the stored server (token secret, password, key
  passphrase and all), every other server and the default as they were; only the marks
  that tell a copy for the window which secrets exist are set on it.
\<close>

theorem edit_save_roundtrip:
  assumes w: "world_ok w" and s: "map_of (stored w) i = Some s"
    and user: "sv_authid s = [] \<longrightarrow> trim (sv_username s) \<noteq> []"
    and h: "handleUpdatePBSServer go_backend (w, handleEditServer (sanitized s) p) = (w', p')"
  shows "w' = w\<lparr>stored := AList.update i
      (s\<lparr>sv_secretSet := sv_secret s \<noteq> [], sv_passwordSet := sv_password s \<noteq> [],
         sv_keyPassphraseSet := False, sv_clearKeyPassphrase := False\<rparr>) (stored w)\<rparr>
    \<and> page_notice p' = Some \<lparr>n_kind = ''success'', n_key = ''statusServerUpdated'', n_arg = []\<rparr>"
proof -
  have ok: "sv_id s = i" "one_login s" "Validate (env w) s = None" and sto: "store_ok w"
    using store_okD [of w i s] w s by (auto simp: world_ok_def)
  let ?f = "(sanitized s)\<lparr>sv_clearKeyPassphrase := False\<rparr>"
  let ?t = "s\<lparr>sv_secretSet := sv_secret s \<noteq> [], sv_passwordSet := sv_password s \<noteq> [],
    sv_keyPassphraseSet := False, sv_clearKeyPassphrase := False\<rparr>"
  have get: "cfg_GetPBSServer i w = Inr (i, s)"
    by (rule cfg_get_listed [OF sto s])
  have merged: "with_stored_passphrase (with_stored_secret ?f w) w = ?t\<lparr>sv_password := []\<rparr>"
    using get ok(1) by (simp add: with_stored_passphrase_def with_stored_secret_def sanitized_def mergeStoredPassphrase_def)
  have v: "Validate (env w) (?t\<lparr>sv_password := []\<rparr>) = None"
    using ok(3) by (simp add: Validate_iff)
  have "cfg_UpdatePBSServer (?t\<lparr>sv_password := []\<rparr>) w = (put_server ?t w, None)"
  proof (cases "sv_authid s = []")
    case True
    then show ?thesis
      using v s ok w by (cases s) (simp add: cfg_UpdatePBSServer_def Save_def world_ok_def env_ok_def one_login_def put_server_def)
  next
    case False
    then show ?thesis
      using v s ok w by (cases s) (simp add: cfg_UpdatePBSServer_def Save_def world_ok_def env_ok_def one_login_def put_server_def)
  qed
  then have "UpdatePBSServer go_backend (payload (serverFormData (handleEditServer (sanitized s) p))) w = (put_server ?t w, None)"
    using form_of_saved [OF ok(2)] user merged by (simp add: go_backend_def app_UpdatePBSServer_def)
  moreover have "page_notice (loadPBSServers go_backend w1 q) = page_notice q" for w1 q
    by (simp add: loadPBSServers_def go_backend_def app_ListPBSServers_def)
  ultimately show ?thesis
    using h ok(1) by (auto simp: handleUpdatePBSServer_def put_server_def tell_def close_form_def)
qed

text \<open>
  When the settings cannot be written, adding a server is reported as failed and the page
  keeps the old list, but the server is in the settings held in memory: adding it again is
  refused because its ID exists, and the list still does not show it.
\<close>

theorem refused_add_is_kept:
  assumes e: "save_error (env w) = Some e"
    and name: "trim (sv_name (serverFormData p)) \<noteq> []"
    and valid: "Validate (env w) (form_server p) = None"
    and pass: "sv_authid (form_server p) = [] \<longrightarrow> sv_password (form_server p) \<noteq> []"
    and fresh: "map_of (stored w) (sv_id (form_server p)) = None"
    and h: "handleAddPBSServer go_backend (w, p) = (w1, p1)"
  shows "page_notice p1 = Some \<lparr>n_kind = ''error'', n_key = ''statusError'', n_arg = e\<rparr>
    \<and> pbsServers p1 = pbsServers p \<and> serverFormData p1 = serverFormData p
    \<and> map_of (stored w1) (sv_id (form_server p)) \<noteq> None
    \<and> handleAddPBSServer go_backend (w1, p1) =
        (w1, tell ''error'' ''statusError'' (already_exists (sv_id (form_server p))) p1)"
proof -
  let ?f = "(form_server p)\<lparr>sv_clearKeyPassphrase := False\<rparr>"
  have v: "Validate (env w) ?f = None"
    using valid by (simp add: Validate_iff)
  have r: "snd (cfg_AddPBSServer ?f w) = Some e \<and> env (fst (cfg_AddPBSServer ?f w)) = env w
    \<and> map_of (stored (fst (cfg_AddPBSServer ?f w))) (sv_id ?f) \<noteq> None"
    using v pass fresh e by (simp add: cfg_AddPBSServer_def Let_def Save_def update_conv')
  obtain s2 where s2: "AddPBSServer go_backend (form_server p) w = (s2, Some e)"
    "env s2 = env w" "map_of (stored s2) (sv_id (form_server p)) \<noteq> None"
    using r by (cases "cfg_AddPBSServer ?f w") (simp add: go_backend_def app_AddPBSServer_def)
  have again: "AddPBSServer go_backend (form_server p) s2 = (s2, Some (already_exists (sv_id (form_server p))))"
    using v pass s2 by (auto simp: go_backend_def app_AddPBSServer_def cfg_AddPBSServer_def Let_def)
  have first: "w1 = s2" "p1 = tell ''error'' ''statusError'' e p"
    using h name s2(1) by (simp_all add: handleAddPBSServer_def form_server_def)
  then have "form_server p1 = form_server p" "serverFormData p1 = serverFormData p"
    by (simp_all add: form_server_def)
  then show ?thesis
    using first s2 again name by (simp add: handleAddPBSServer_def form_server_def [symmetric]) (simp add: tell_def)
qed

section \<open>A concrete page and store\<close>

definition nas :: server where
  "nas = blank_form\<lparr>sv_id := ''nas'', sv_name := ''NAS'', sv_baseurl := ''https://nas:8007'',
     sv_authid := ''me@pbs!pc'', sv_secret := ''abc'', sv_datastore := ''store''\<rparr>"

definition home_env :: store_env where
  "home_env = \<lparr>ValidateURL = (\<lambda>s. None), ValidateAuthID = (\<lambda>s. None), ValidateDatastore = (\<lambda>s. None),
     ValidateFingerprint = (\<lambda>s. None), validateEncryptionKeyFile = (\<lambda>f p. None), save_error = None,
     ranged = (\<lambda>xs. xs),
     connect = (\<lambda>s. if sv_certfingerprint s = [] then Some ''x509: unknown authority'' else None),
     fetch_fingerprint = (\<lambda>u. Inr ''AA:BB'')\<rparr>"

definition home :: world where
  "home = \<lparr>stored = [(''nas'', nas)], DefaultPBSID = ''nas'', env = home_env\<rparr>"

definition home_page :: servers_page where
  "home_page = \<lparr>pbsServers = [sanitized nas], defaultPBSID = ''nas'', serverFormData = blank_form,
     editingServer = None, serverTab = ServerTab, showServerForm = False, serverStatus = Map.empty,
     page_notice = None, computerServersOpen = False\<rparr>"

lemma home_ok: "world_ok home"
  by (simp add: world_ok_def store_ok_def env_ok_def home_def home_env_def nas_def blank_form_def one_login_def Validate_iff)

lemma home_in_step: "page_in_step home home_page"
  using home_ok
  by (simp add: page_in_step_def home_page_def listed_servers_def directory_of_def home_def)
    (simp add: nas_def blank_form_def)


theorem settings_stay_ok_witness:
  "\<exists>w' p'. fold (act go_backend) [Test ''nas'' (\<lambda>host fp. True), SetDefault ''nas''] (home, home_page) = (w', p')
    \<and> distinct (map fst (stored w'))"
proof -
  obtain w' p' where r: "fold (act go_backend) [Test ''nas'' (\<lambda>host fp. True), SetDefault ''nas''] (home, home_page) = (w', p')"
    by fastforce
  with settings_stay_ok [OF home_in_step r] show ?thesis by blast
qed

lemma home_pinned:
  "map (\<lambda>(k, s). sv_certfingerprint s) (stored (fst (handleTestPBSConnection go_backend (\<lambda>h f. True) ''nas'' (home, home_page)))) = [''AA:BB'']"
  by code_simp

theorem test_trusts_only_asked_witness:
  "\<exists>w' p' s fp. handleTestPBSConnection go_backend (\<lambda>h f. True) ''nas'' (home, home_page) = (w', p') \<and> w' \<noteq> home
    \<and> server_of ''nas'' home_page = Some s \<and> trim (sv_certfingerprint s) = []
    \<and> GetServerFingerprint go_backend (sv_baseurl s) home = Inr fp"
proof -
  obtain w' p' where r: "handleTestPBSConnection go_backend (\<lambda>h f. True) ''nas'' (home, home_page) = (w', p')"
    by fastforce
  have "map (\<lambda>(k, s). sv_certfingerprint s) (stored home) = [[]]"
    by (simp add: home_def nas_def blank_form_def)
  then have "w' \<noteq> home"
    using home_pinned r by auto
  with test_trusts_only_asked [OF r] r show ?thesis by blast
qed

theorem edit_save_roundtrip_witness:
  "\<exists>w' p'. handleUpdatePBSServer go_backend (home, handleEditServer (sanitized nas) home_page) = (w', p')
    \<and> map_of (stored w') ''nas'' = Some (nas\<lparr>sv_secretSet := True\<rparr>)"
proof -
  obtain w' p' where r: "handleUpdatePBSServer go_backend (home, handleEditServer (sanitized nas) home_page) = (w', p')"
    by fastforce
  have "map_of (stored home) ''nas'' = Some nas" "sv_authid nas = [] \<longrightarrow> trim (sv_username nas) \<noteq> []"
    by (simp_all add: home_def nas_def)
  from edit_save_roundtrip [OF home_ok this r] r show ?thesis
    by (auto simp: home_def nas_def blank_form_def)
qed

definition read_only_home :: world where
  "read_only_home = home\<lparr>stored := [], DefaultPBSID := [], env := home_env\<lparr>save_error := Some ''read-only file system''\<rparr>\<rparr>"

theorem refused_add_is_kept_witness:
  "\<exists>w1 p1. handleAddPBSServer go_backend (read_only_home, home_page\<lparr>pbsServers := [], serverFormData := nas\<rparr>) = (w1, p1)
    \<and> pbsServers p1 = [] \<and> map_of (stored w1) ''nas'' \<noteq> None"
proof -
  let ?p = "home_page\<lparr>pbsServers := [], serverFormData := nas\<rparr>"
  obtain w1 p1 where r: "handleAddPBSServer go_backend (read_only_home, ?p) = (w1, p1)"
    by fastforce
  have f: "form_server ?p = nas"
    by (simp add: form_server_def payload_def isUserPass_def server_id_def trim_def nas_def blank_form_def)
  have "save_error (env read_only_home) = Some ''read-only file system''"
    "Validate (env read_only_home) (form_server ?p) = None"
    "sv_authid (form_server ?p) = [] \<longrightarrow> sv_password (form_server ?p) \<noteq> []"
    "map_of (stored read_only_home) (sv_id (form_server ?p)) = None"
    unfolding f by (simp_all add: read_only_home_def Validate_iff home_env_def nas_def blank_form_def)
  moreover have "trim (sv_name (serverFormData ?p)) \<noteq> []"
    by code_simp
  moreover have "sv_id (form_server ?p) = ''nas''"
    unfolding f by (simp add: nas_def)
  ultimately show ?thesis
    using refused_add_is_kept [of read_only_home _ ?p w1 p1] r by (auto simp: home_page_def)
qed

end
