(* ===== verification/Disks.thy ===== *)
theory Disks
  imports Jobs "HOL-Library.AList"
begin

text \<open>
  The disks of a machine set: their identities and how a set finds its disks when the system has
  numbered them anew (\<open>diskHasId\<close>, \<open>diskIdHints\<close> and the effect on the disk list in \<open>App.jsx\<close>),
  the disk picker, and the partitions a set leaves out, as the picker shows them
  (\<open>MachineBackupConfig.jsx\<close>) and as they are saved (\<open>skipsToSave\<close>).

  An object used as a map from device paths is an association list, read with \<open>id_at\<close>, where
  the empty string counts as missing.
\<close>

section \<open>Disks and identities\<close>

record disk_part =
  dp_number :: int
  dp_start :: int
  dp_size :: int
  dp_mount :: string
  dp_file_system :: string
  dp_type :: string
  dp_role :: string

text \<open>\<open>partitions\<close> is \<open>None\<close> when they could not be read.\<close>

record disk =
  d_path :: string
  d_unique_id :: string
  d_other_ids :: "string list"
  d_partitions :: "disk_part list option"
  d_size :: int
  d_model :: string
  d_drive_letters :: "string list"
  d_is_boot :: bool
  d_is_system :: bool

definition diskHasId :: "disk \<Rightarrow> string \<Rightarrow> bool" where
  "diskHasId d i \<longleftrightarrow> d_unique_id d = i \<or> i \<in> set (d_other_ids d)"

type_synonym ids = "(string \<times> string) list"

definition id_at :: "ids \<Rightarrow> string \<Rightarrow> string" where
  "id_at ids p = or_text (map_of ids p) []"

fun add_hints :: "string list \<Rightarrow> string list \<Rightarrow> ids \<Rightarrow> ids" where
  "add_hints [] dis ids = ids"
| "add_hints (p # ps) [] ids = ids"
| "add_hints (p # ps) (i # dis) ids = add_hints ps dis (if i \<noteq> [] then AList.update p i ids else ids)"

definition diskIdHints :: "job \<Rightarrow> ids" where
  "diskIdHints j = add_hints (j_driveLetters j) (j_diskIds j) []"

definition disk_of_id :: "disk list \<Rightarrow> string \<Rightarrow> disk option" where
  "disk_of_id disks i = List.find (\<lambda>d. diskHasId d i) disks"

definition disk_at :: "disk list \<Rightarrow> string \<Rightarrow> disk option" where
  "disk_at disks p = List.find (\<lambda>d. d_path d = p) disks"

section \<open>Disks numbered anew\<close>

text \<open>Where the disk a set knows as \<open>p\<close> is now.\<close>

definition now_at :: "disk list \<Rightarrow> ids \<Rightarrow> string \<Rightarrow> string" where
  "now_at disks ids p =
     (if id_at ids p = [] then p
      else case disk_of_id disks (id_at ids p) of Some d \<Rightarrow> d_path d | None \<Rightarrow> p)"

fun moved_ids :: "disk list \<Rightarrow> ids \<Rightarrow> string list \<Rightarrow> ids \<Rightarrow> ids" where
  "moved_ids disks ids [] acc = acc"
| "moved_ids disks ids (p # ps) acc =
     moved_ids disks ids ps (if id_at ids p = [] then acc else AList.update (now_at disks ids p) (id_at ids p) acc)"

text \<open>The effect on \<open>[physicalDisks, selectedDiskIds]\<close>: the ticked disks and their identities.\<close>

definition follow_disks :: "disk list \<Rightarrow> string list \<times> ids \<Rightarrow> string list \<times> ids" where
  "follow_disks disks = (\<lambda>(drives, ids).
     let moved = map (now_at disks ids) drives in
     if \<exists>p \<in> set drives. now_at disks ids p \<noteq> p
     then (uniq moved, moved_ids disks ids drives [])
     else (drives, ids))"

section \<open>The disk picker\<close>

definition pickDrives :: "string list \<Rightarrow> ids \<Rightarrow> string list \<times> ids" where
  "pickDrives drives ids = (drives, filter (\<lambda>(p, i). p \<in> set drives) ids)"

definition handleDriveSelect :: "string \<Rightarrow> string list \<Rightarrow> string list" where
  "handleDriveSelect p drives =
     (if p \<in> set drives then filter (\<lambda>d. d \<noteq> p) drives else drives @ [p])"

definition handleSelectAllDrives :: "disk list \<Rightarrow> string list" where
  "handleSelectAllDrives disks = map d_path disks"

definition stable_id :: "string \<Rightarrow> string" where
  "stable_id i = (if i \<noteq> [] \<and> \<not> startsWith i ''size:'' then i else [])"

definition missingSetDisks :: "disk list \<Rightarrow> string list \<Rightarrow> ids \<Rightarrow> (string \<times> string) list" where
  "missingSetDisks disks drives ids =
     (if \<exists>d \<in> set disks. d_unique_id d \<noteq> [] \<and> \<not> startsWith (d_unique_id d) ''size:''
      then map (\<lambda>p. (p, id_at ids p))
             (filter (\<lambda>p. id_at ids p \<noteq> [] \<and> \<not> (\<exists>d \<in> set disks. diskHasId d (id_at ids p))) drives)
      else [])"

definition diskIdFor :: "ids \<Rightarrow> disk \<Rightarrow> string" where
  "diskIdFor ids d = (if id_at ids (d_path d) \<noteq> [] then id_at ids (d_path d) else d_unique_id d)"

text \<open>The identities the set saves, one for each ticked disk (\<open>machineDiskIds\<close>).\<close>

definition machineDiskIds :: "disk list \<Rightarrow> string list \<Rightarrow> ids \<Rightarrow> string list" where
  "machineDiskIds disks drives ids =
     map (\<lambda>p. if id_at ids p \<noteq> [] then id_at ids p
              else case disk_at disks p of Some d \<Rightarrow> d_unique_id d | None \<Rightarrow> []) drives"

section \<open>Partitions left out\<close>

definition same_start :: "skip_part \<Rightarrow> disk_part \<Rightarrow> bool" where
  "same_start s p \<longleftrightarrow> sk_start s = dp_start p \<and> sk_size s = dp_size p"

text \<open>The skips the picker shows on a disk.\<close>

definition skipsOn :: "ids \<Rightarrow> skip_part list \<Rightarrow> disk \<Rightarrow> skip_part list" where
  "skipsOn ids skips d =
     (let i = stable_id (diskIdFor ids d) in
      filter (\<lambda>s. if sk_diskId s \<noteq> []
                  then sk_diskId s = i \<or> d_unique_id d = sk_diskId s \<or> sk_diskId s \<in> set (d_other_ids d)
                  else i = [] \<and> sk_device s = d_path d) skips)"

definition part_names :: "disk_part \<Rightarrow> string list" where
  "part_names p = filter (\<lambda>x. x \<noteq> []) [dp_mount p, if dp_file_system p \<noteq> [] then dp_file_system p else dp_type p]"

definition logLabel :: "disk_part \<Rightarrow> string" where
  "logLabel p = ''partition '' @ show_int (dp_number p) @
     (if part_names p \<noteq> [] then '' ('' @ join_with '', '' (part_names p) @ '')'' else [])"

definition setPartBackedUp :: "ids \<Rightarrow> disk \<Rightarrow> disk_part \<Rightarrow> bool \<Rightarrow> skip_part list \<Rightarrow> skip_part list" where
  "setPartBackedUp ids d p backedUp skips =
     (let mine = filter (\<lambda>s. same_start s p) (skipsOn ids skips d);
          rest = filter (\<lambda>s. s \<notin> set mine) skips
      in if backedUp then rest
         else rest @ [\<lparr>sk_diskId = stable_id (diskIdFor ids d), sk_device = d_path d, sk_start = dp_start p,
                       sk_size = dp_size p, sk_number = dp_number p, sk_label = logLabel p\<rparr>])"

text \<open>Shown as left out: the box of the partition is not ticked.\<close>

definition left_out :: "ids \<Rightarrow> skip_part list \<Rightarrow> disk \<Rightarrow> disk_part \<Rightarrow> bool" where
  "left_out ids skips d p \<longleftrightarrow> (\<exists>s \<in> set (skipsOn ids skips d). same_start s p)"

text \<open>A saved skip the disk no longer has, of which the picker warns.\<close>

definition gone_skips :: "ids \<Rightarrow> skip_part list \<Rightarrow> disk \<Rightarrow> disk_part list \<Rightarrow> skip_part list" where
  "gone_skips ids skips d ps = filter (\<lambda>s. \<not> (\<exists>p \<in> set ps. same_start s p)) (skipsOn ids skips d)"

text \<open>The ticked disk a skip belongs to when the set is saved.\<close>

definition skip_drive :: "string list \<Rightarrow> string list \<Rightarrow> skip_part \<Rightarrow> nat option" where
  "skip_drive drives dis s =
     find_index (\<lambda>p j. if sk_diskId s \<noteq> [] then stable_id (if j < length dis then dis ! j else []) = sk_diskId s
                       else stable_id (if j < length dis then dis ! j else []) = [] \<and> p = sk_device s) 0 drives"

definition save_skip :: "disk list \<Rightarrow> string list \<Rightarrow> string list \<Rightarrow> skip_part \<Rightarrow> skip_part list" where
  "save_skip disks drives dis s =
     (case skip_drive drives dis s of
        None \<Rightarrow> []
      | Some i \<Rightarrow>
          (case disk_at disks (drives ! i) of
             Some d \<Rightarrow>
               (case d_partitions d of
                  Some ps \<Rightarrow> if \<exists>p \<in> set ps. same_start s p then [s\<lparr>sk_device := drives ! i\<rparr>] else []
                | None \<Rightarrow> [s\<lparr>sk_device := drives ! i\<rparr>])
           | None \<Rightarrow> [s\<lparr>sk_device := drives ! i\<rparr>]))"

definition skipsToSave :: "disk list \<Rightarrow> string list \<Rightarrow> string list \<Rightarrow> skip_part list \<Rightarrow> skip_part list" where
  "skipsToSave disks drives dis skips = concat (map (save_skip disks drives dis) skips)"

text \<open>A mounted partition the set backs up, or a disk whose partitions are not known.\<close>

definition machineNeedsSnapshot :: "disk list \<Rightarrow> string list \<Rightarrow> skip_part list \<Rightarrow> bool" where
  "machineNeedsSnapshot disks drives saved =
     (\<exists>q \<in> set drives. case disk_at disks q of
        None \<Rightarrow> True
      | Some d \<Rightarrow> (case d_partitions d of
          None \<Rightarrow> True
        | Some ps \<Rightarrow> (\<exists>p \<in> set ps. dp_mount p \<noteq> [] \<and>
            \<not> (\<exists>s \<in> set saved. sk_device s = q \<and> same_start s p))))"

section \<open>A set follows its disks\<close>

lemma id_at_simps [simp]:
  "id_at [] p = []"
  "i \<noteq> [] \<Longrightarrow> id_at (AList.update q i ids) p = (if p = q then i else id_at ids p)"
  by (simp_all add: id_at_def update_conv')

lemma moved_at:
  "(\<exists>p \<in> set ps. id_at ids p \<noteq> [] \<and> now_at disks ids p = q \<and> id_at (moved_ids disks ids ps acc) q = id_at ids p) \<or>
   (\<forall>p \<in> set ps. id_at ids p \<noteq> [] \<longrightarrow> now_at disks ids p \<noteq> q) \<and> id_at (moved_ids disks ids ps acc) q = id_at acc q"
proof (induction ps arbitrary: acc)
  case (Cons p ps)
  show ?case
    using Cons.IH [of "if id_at ids p = [] then acc else AList.update (now_at disks ids p) (id_at ids p) acc"]
    by (cases "id_at ids p = []"; cases "now_at disks ids p = q") auto
qed simp

lemma now_at_again:
  assumes "id_at ids' q = id_at ids p" "now_at disks ids p = q"
  shows "now_at disks ids' q = q"
  using assms by (auto simp: now_at_def split: option.splits if_splits)

text \<open>After the move every ticked disk is where its identity is.\<close>

lemma moved_settled:
  assumes "q \<in> set (map (now_at disks ids) ps)"
  shows "now_at disks (moved_ids disks ids ps []) q = q"
proof (cases "id_at (moved_ids disks ids ps []) q = []")
  case True
  then show ?thesis by (simp add: now_at_def)
next
  case False
  then show ?thesis
    using moved_at [of ps ids disks q "[]"] now_at_again by auto
qed

lemma map_id_when: "\<forall>p \<in> set ps. f p = p \<Longrightarrow> map f ps = ps"
  by (induction ps) auto

text \<open>
  A set follows its disks. When the system has numbered the disks anew, each ticked disk
  whose saved identity is among the listed disks is ticked at the path it has now and keeps that
  identity there, as long as no other ticked disk is found at the same path; a disk that is not
  found stays ticked where it was saved. Once is enough: the effect, run again on its own
  result, changes nothing, so the re-rendering it causes ends.
\<close>

theorem follow_disks_settles:
  assumes "follow_disks disks (drives, ids) = (drives', ids')"
  shows "follow_disks disks (drives', ids') = (drives', ids') \<and> set drives' = now_at disks ids ` set drives
    \<and> (\<forall>p \<in> set drives. id_at ids p \<noteq> [] \<longrightarrow>
        (\<forall>q \<in> set drives. now_at disks ids q = now_at disks ids p \<longrightarrow> q = p) \<longrightarrow>
        id_at ids' (now_at disks ids p) = id_at ids p)"
proof (cases "\<exists>p \<in> set drives. now_at disks ids p \<noteq> p")
  case True
  then have r: "drives' = uniq (map (now_at disks ids) drives)" "ids' = moved_ids disks ids drives []"
    using assms by (auto simp: follow_disks_def Let_def)
  have "\<forall>q \<in> set drives'. now_at disks ids' q = q"
    unfolding r using moved_settled by auto
  then have "follow_disks disks (drives', ids') = (drives', ids')"
    by (auto simp: follow_disks_def Let_def)
  moreover have "id_at ids' (now_at disks ids p) = id_at ids p"
    if "p \<in> set drives" "id_at ids p \<noteq> []" "\<forall>q \<in> set drives. now_at disks ids q = now_at disks ids p \<longrightarrow> q = p" for p
    using that moved_at [of drives ids disks "now_at disks ids p" "[]"] unfolding r by auto
  ultimately show ?thesis
    by (simp add: r)
next
  case False
  then have "drives' = drives" "ids' = ids" "\<forall>p \<in> set drives. now_at disks ids p = p"
    using assms by (auto simp: follow_disks_def)
  then show ?thesis
    using assms by (auto simp: image_iff)
qed

definition ssd :: disk where
  "ssd = \<lparr>d_path = ''PhysicalDrive1'', d_unique_id = ''wwn:50'', d_other_ids = [''serial:S4''],
     d_partitions = Some [\<lparr>dp_number = 1, dp_start = 2048, dp_size = 512, dp_mount = ''C:'', dp_file_system = ''NTFS'', dp_type = [], dp_role = ''system''\<rparr>],
     d_size = 256060514304, d_model = ''SSD'', d_drive_letters = [''C:''], d_is_boot = True, d_is_system = True\<rparr>"

theorem follow_disks_settles_witness:
  "follow_disks [ssd] ([''PhysicalDrive0''], [(''PhysicalDrive0'', ''serial:S4'')]) = ([''PhysicalDrive1''], [(''PhysicalDrive1'', ''serial:S4'')])
   \<and> follow_disks [ssd] ([''PhysicalDrive1''], [(''PhysicalDrive1'', ''serial:S4'')]) = ([''PhysicalDrive1''], [(''PhysicalDrive1'', ''serial:S4'')])"
proof -
  have "follow_disks [ssd] ([''PhysicalDrive0''], [(''PhysicalDrive0'', ''serial:S4'')]) = ([''PhysicalDrive1''], [(''PhysicalDrive1'', ''serial:S4'')])"
    by code_simp
  from follow_disks_settles [OF this] this show ?thesis by blast
qed

section \<open>What is left out is what is shown\<close>

lemma disk_at_Some: "disk_at disks q = Some d \<Longrightarrow> d \<in> set disks \<and> d_path d = q"
  unfolding disk_at_def by (rule find_Some_mem)

lemma machineDiskIds_nth:
  assumes "i < length drives" "disk_at disks (drives ! i) = Some d"
  shows "machineDiskIds disks drives ids ! i = diskIdFor ids d"
  using assms disk_at_Some [OF assms(2)] by (simp add: machineDiskIds_def diskIdFor_def)

lemma skip_drive_Some:
  assumes "skip_drive drives dis s = Some i" "length dis = length drives"
  shows "i < length drives \<and> (if sk_diskId s \<noteq> [] then stable_id (dis ! i) = sk_diskId s
    else stable_id (dis ! i) = [] \<and> drives ! i = sk_device s)"
  using find_index_Some [OF assms(1) [unfolded skip_drive_def]] assms(2) by (auto split: if_splits)

lemma mem_skipsToSave:
  "s \<in> set (skipsToSave disks drives dis skips) \<longleftrightarrow> (\<exists>r \<in> set skips. s \<in> set (save_skip disks drives dis r))"
  by (simp add: skipsToSave_def)

lemma mem_save_skip:
  "s \<in> set (save_skip disks drives dis r) \<longleftrightarrow> (\<exists>i. skip_drive drives dis r = Some i \<and> s = r\<lparr>sk_device := drives ! i\<rparr> \<and>
     (\<forall>d ps. disk_at disks (drives ! i) = Some d \<longrightarrow> d_partitions d = Some ps \<longrightarrow> (\<exists>p \<in> set ps. same_start r p)))"
proof (cases "skip_drive drives dis r")
  case (Some i)
  then show ?thesis
    by (cases "disk_at disks (drives ! i)"; cases "d_partitions (the (disk_at disks (drives ! i)))")
      (auto simp: save_skip_def)
qed (simp add: save_skip_def)

lemma same_start_device [simp]: "same_start (s\<lparr>sk_device := q\<rparr>) p = same_start s p"
  by (simp add: same_start_def)

text \<open>
  For a ticked disk that is listed, the partitions the saved set leaves out are exactly
  those whose box is shown unticked, provided no two ticked disks have one identity and no skip
  names the disk by an identity other than the one the set saves for it. So no partition is left
  out of a backup without the picker saying so, and none shown as left out is backed up.
\<close>

theorem left_out_as_saved:
  assumes q: "i < length drives" "disk_at disks (drives ! i) = Some d" "d_partitions d = Some ps" "p \<in> set ps"
    and dis: "dis = machineDiskIds disks drives ids"
    and apart: "\<forall>j < length drives. stable_id (dis ! j) = stable_id (dis ! i) \<longrightarrow> stable_id (dis ! i) \<noteq> [] \<or> drives ! j = drives ! i \<longrightarrow> j = i"
    and own: "\<forall>s \<in> set skips. d_unique_id d = sk_diskId s \<or> sk_diskId s \<in> set (d_other_ids d) \<longrightarrow>
      sk_diskId s = [] \<or> sk_diskId s = stable_id (diskIdFor ids d)"
  shows "left_out ids skips d p \<longleftrightarrow>
    (\<exists>s \<in> set (skipsToSave disks drives dis skips). sk_device s = drives ! i \<and> same_start s p)"
proof -
  have len: "length dis = length drives" and di: "dis ! i = diskIdFor ids d" and path: "d_path d = drives ! i"
    using q dis machineDiskIds_nth disk_at_Some by (auto simp: machineDiskIds_def)
  let ?on = "\<lambda>s. if sk_diskId s \<noteq> [] then stable_id (dis ! i) = sk_diskId s
    else stable_id (dis ! i) = [] \<and> drives ! i = sk_device s"
  have shown: "s \<in> set (skipsOn ids skips d) \<longleftrightarrow> s \<in> set skips \<and> ?on s" for s
    using own by (auto simp: skipsOn_def Let_def di path)
  have drive: "skip_drive drives dis s = Some i" if "?on s" for s
  proof (cases "skip_drive drives dis s")
    case None
    from find_index_None [OF this [unfolded skip_drive_def] q(1)] that len q(1) show ?thesis
      by (auto split: if_splits)
  next
    case (Some j)
    from skip_drive_Some [OF Some len] that apart show ?thesis
      using Some by (auto split: if_splits)
  qed
  show ?thesis
  proof
    assume "left_out ids skips d p"
    then obtain s where s: "s \<in> set skips" "?on s" "same_start s p"
      using shown by (auto simp: left_out_def)
    have "s\<lparr>sk_device := drives ! i\<rparr> \<in> set (save_skip disks drives dis s)"
      using drive [OF s(2)] s(3) q by (auto simp: mem_save_skip)
    with s show "\<exists>s \<in> set (skipsToSave disks drives dis skips). sk_device s = drives ! i \<and> same_start s p"
      by (intro bexI [of _ "s\<lparr>sk_device := drives ! i\<rparr>"]) (auto simp: mem_skipsToSave)
  next
    assume "\<exists>s \<in> set (skipsToSave disks drives dis skips). sk_device s = drives ! i \<and> same_start s p"
    then obtain r j where r: "r \<in> set skips" "skip_drive drives dis r = Some j" "drives ! j = drives ! i" "same_start r p"
      by (auto simp: mem_skipsToSave mem_save_skip)
    have "dis ! j = dis ! i"
      using skip_drive_Some [OF r(2) len] r(3) q(1) by (simp add: dis machineDiskIds_def)
    then have "?on r"
      using skip_drive_Some [OF r(2) len] r(3) by auto
    with r shown show "left_out ids skips d p"
      by (auto simp: left_out_def)
  qed
qed

definition c_skip :: skip_part where
  "c_skip = \<lparr>sk_diskId = ''serial:S4'', sk_device = ''PhysicalDrive1'', sk_start = 2048, sk_size = 512,
     sk_number = 1, sk_label = ''partition 1''\<rparr>"

theorem left_out_as_saved_witness:
  "\<exists>s \<in> set (skipsToSave [ssd] [''PhysicalDrive1''] [''serial:S4''] [c_skip]). sk_device s = ''PhysicalDrive1''"
proof -
  let ?ids = "[(''PhysicalDrive1'', ''serial:S4'')]"
  let ?p = "hd (the (d_partitions ssd))"
  have d: "[''serial:S4''] = machineDiskIds [ssd] [''PhysicalDrive1''] ?ids"
    "disk_at [ssd] ([''PhysicalDrive1''] ! 0) = Some ssd" "d_partitions ssd = Some [?p]"
    "left_out ?ids [c_skip] ssd ?p"
    by code_simp+
  have o: "\<forall>s \<in> set [c_skip]. d_unique_id ssd = sk_diskId s \<or> sk_diskId s \<in> set (d_other_ids ssd) \<longrightarrow>
      sk_diskId s = [] \<or> sk_diskId s = stable_id (diskIdFor ?ids ssd)"
    by code_simp
  show ?thesis
    using left_out_as_saved [OF _ d(2) d(3) _ d(1) _ o, of ?p] d(4) by auto
qed

text \<open>
  An unticked and ticked again disk loses the partitions it leaves out. The picker matches
  a saved skip with any identity of the disk, the save only with the one the set then records:
  after the disk is ticked again the partition is still shown as left out, and the set is saved
  without leaving it out.
\<close>

theorem reticked_disk_forgets_skips:
  "let ids = [(''PhysicalDrive1'', ''serial:S4'')];
       (drives1, ids1) = pickDrives (handleDriveSelect ''PhysicalDrive1'' [''PhysicalDrive1'']) ids;
       (drives2, ids2) = pickDrives (handleDriveSelect ''PhysicalDrive1'' drives1) ids1
   in drives2 = [''PhysicalDrive1''] \<and>
      (\<exists>p \<in> set (the (d_partitions ssd)). left_out ids2 [c_skip] ssd p) \<and>
      skipsToSave [ssd] [''PhysicalDrive1''] (machineDiskIds [ssd] [''PhysicalDrive1''] ids) [c_skip] = [c_skip] \<and>
      skipsToSave [ssd] drives2 (machineDiskIds [ssd] drives2 ids2) [c_skip] = []"
  by code_simp

end
