(* ===== verification/SetForm.thy ===== *)
theory SetForm
  imports Disks Schedules BackupId Servers
begin

text \<open>
  The Backup Set editor of \<open>App.jsx\<close>: the form's state, opening it (new, edit, clone, one-off),
  the effects React runs after a change, what Save and Start check (\<open>handleStartBackup\<close>), the
  Backup Set it builds (\<open>jobData\<close>) and the calls that write it. What the form reads of the rest
  of the app and of the backend is the record \<open>setting\<close>.
\<close>

section \<open>State\<close>

datatype backup_mode = OneShot | SetMode

datatype form_tab = SourceTab | ScheduleTab | OtherTab

record set_form =
  f_editing :: "string option"
  f_jobName :: string
  f_backupMode :: backup_mode
  f_runAtStartup :: bool
  f_scheduleMode :: sched_mode
  f_schedules :: "schedule list"
  f_backupDirs :: string
  f_selectedDrives :: "string list"
  f_selectedDiskIds :: ids
  f_imageFolders :: string
  f_physicalDisks :: "disk list"
  f_excludeList :: string
  f_treeExcludes :: "string list"
  f_backupId :: string
  f_backupIdAuto :: bool
  f_useVSS :: bool
  f_backupType :: backup_type
  f_machineAsVM :: bool
  f_readFreeSpace :: bool
  f_machineSnapshotsOff :: bool
  f_liveReadAccepted :: bool
  f_skipParts :: "skip_part list"
  f_jobEnabled :: bool
  f_vmIdNumber :: string
  f_vmIdStyle :: vm_style
  f_backupPBSID :: string
  f_emailOnSuccess :: bool
  f_emailOnSuccessTo :: string
  f_emailOnFailure :: bool
  f_emailOnFailureTo :: string
  f_runAppBefore :: string
  f_runAppAfter :: string
  f_exitAppAfter :: bool
  f_minimizeAfter :: bool
  f_shutdownAfter :: bool
  f_changeDetectionMode :: change_mode
  f_fullReadEvery :: int
  f_splitFirstBackup :: bool
  f_oneOffComment :: string
  f_tab :: form_tab
  f_shown :: bool

text \<open>\<open>words\<close> describes a schedule in the window's language (\<open>describe\<close>, theory Schedules).\<close>

record setting =
  hostname :: string
  os_linux :: bool
  snapshot_module :: bool
  needs_local_elevation :: bool
  default_pbs :: string
  have_servers :: bool
  scheduledJobs :: "job list"
  today :: int
  words :: "schedule \<Rightarrow> string"

section \<open>Texts with one entry per line\<close>

text \<open>\<open>s.split('\n').map(d => d.trim()).filter(d => d)\<close>.\<close>

definition lines_of :: "string \<Rightarrow> string list" where
  "lines_of s = filter (\<lambda>l. l \<noteq> []) (map trim (split_on newline s))"

definition lines_text :: "string list \<Rightarrow> string" where
  "lines_text ls = join_with [newline] ls"

definition getEffectiveExcludeList :: "set_form \<Rightarrow> string list" where
  "getEffectiveExcludeList f = lines_of (f_excludeList f) @ f_treeExcludes f"

section \<open>Opening the form\<close>

definition takenBackupIds :: "setting \<Rightarrow> string option \<Rightarrow> string list" where
  "takenBackupIds e except = map j_backupId (filter (\<lambda>j. Some (j_id j) \<noteq> except) (scheduledJobs e))"

definition suggested :: "setting \<Rightarrow> string option \<Rightarrow> string \<Rightarrow> string" where
  "suggested e except name = or_text (suggestBackupId name (hostname e) (map Some (takenBackupIds e except))) []"

text \<open>What New, Cancel and a save reset of the options of a machine set, and the alerts.\<close>

definition reset_machine :: "set_form \<Rightarrow> set_form" where
  "reset_machine f = f\<lparr>f_machineAsVM := False, f_readFreeSpace := False, f_machineSnapshotsOff := False,
     f_liveReadAccepted := False, f_skipParts := [], f_jobEnabled := True, f_vmIdNumber := [], f_imageFolders := []\<rparr>"

definition reset_after :: "set_form \<Rightarrow> set_form" where
  "reset_after f = f\<lparr>f_emailOnSuccess := False, f_emailOnSuccessTo := [], f_emailOnFailure := False,
     f_emailOnFailureTo := [], f_runAppBefore := [], f_runAppAfter := [], f_exitAppAfter := False,
     f_minimizeAfter := False, f_shutdownAfter := False, f_changeDetectionMode := Legacy, f_fullReadEvery := 0\<rparr>"

definition addNewSet :: "setting \<Rightarrow> set_form \<Rightarrow> set_form" where
  "addNewSet e f = reset_after ((reset_machine f)\<lparr>f_editing := None, f_jobName := [], f_backupMode := SetMode,
     f_runAtStartup := False, f_scheduleMode := Scheduled, f_schedules := [newSchedule Days ''s1'' (today e)],
     f_backupDirs := [], f_excludeList := [], f_treeExcludes := [], f_backupType := Directory,
     f_backupId := suggested e None [], f_backupIdAuto := True, f_backupPBSID := default_pbs e,
     f_tab := SourceTab, f_shown := True\<rparr>)"

definition oneOffBackup :: "setting \<Rightarrow> set_form \<Rightarrow> set_form" where
  "oneOffBackup e f = f\<lparr>f_backupMode := OneShot, f_oneOffComment := [], f_machineAsVM := False, f_vmIdNumber := [],
     f_backupId := (if f_backupId f = [] then hostname e else f_backupId f),
     f_backupPBSID := default_pbs e, f_tab := SourceTab, f_shown := True\<rparr>"

definition applyVmFieldsFromJob :: "job \<Rightarrow> set_form \<Rightarrow> set_form" where
  "applyVmFieldsFromJob j f =
     (let machine = (j_backupType j = Machine); isVm = machine \<and> j_machineAsVm j;
          f = f\<lparr>f_machineAsVM := isVm, f_readFreeSpace := machine \<and> j_readFreeSpace j,
                f_machineSnapshotsOff := machine \<and> j_snapshotsOff j,
                f_liveReadAccepted := machine \<and> j_snapshotsOff j \<and> j_liveRead j,
                f_skipParts := (if machine then j_skipPartitions j else []), f_jobEnabled := j_enabled j\<rparr>
      in if \<not> isVm then f\<lparr>f_vmIdNumber := [], f_vmIdStyle := Range\<rparr>
         else case vm_fields (j_backupId j) of (style, n) \<Rightarrow> f\<lparr>f_vmIdStyle := style, f_vmIdNumber := n\<rparr>)"

text \<open>What Edit and Clone fill from a set; they differ in its ID, its name and its backup ID.\<close>

definition fill_from :: "setting \<Rightarrow> job \<Rightarrow> legacy \<Rightarrow> set_form \<Rightarrow> set_form" where
  "fill_from e j l f = applyVmFieldsFromJob j (f\<lparr>f_backupMode := SetMode, f_runAtStartup := j_runAtStartup j,
     f_scheduleMode := fst (jobScheduling j l), f_schedules := snd (jobScheduling j l),
     f_backupDirs := lines_text (j_backupDirs j), f_selectedDrives := j_driveLetters j,
     f_selectedDiskIds := diskIdHints j, f_imageFolders := lines_text (j_imageFolders j),
     f_useVSS := j_useVSS j, f_backupType := j_backupType j,
     f_backupPBSID := or_text (Some (j_pbsServerId j)) (default_pbs e),
     f_excludeList := lines_text (j_excludeList j), f_treeExcludes := [],
     f_emailOnSuccess := j_emailOnSuccess j, f_emailOnSuccessTo := j_emailOnSuccessTo j,
     f_emailOnFailure := j_emailOnFailure j, f_emailOnFailureTo := j_emailOnFailureTo j,
     f_runAppBefore := j_runAppBefore j, f_runAppAfter := j_runAppAfter j,
     f_exitAppAfter := j_exitAppAfter j, f_minimizeAfter := j_minimizeAfter j, f_shutdownAfter := j_shutdownAfter j,
     f_changeDetectionMode := j_changeDetectionMode j, f_fullReadEvery := j_fullReadEvery j,
     f_tab := SourceTab, f_shown := True\<rparr>)"

definition editSet :: "setting \<Rightarrow> job \<Rightarrow> legacy \<Rightarrow> set_form \<Rightarrow> set_form" where
  "editSet e j l f = (fill_from e j l f)\<lparr>f_editing := Some (j_id j), f_jobName := j_name j,
     f_backupId := j_backupId j, f_backupIdAuto := False\<rparr>"

definition cloneSet :: "setting \<Rightarrow> (string \<Rightarrow> string) \<Rightarrow> job \<Rightarrow> legacy \<Rightarrow> set_form \<Rightarrow> set_form" where
  "cloneSet e clone_name j l f = (fill_from e j l f)\<lparr>f_editing := None, f_jobName := clone_name (j_name j),
     f_backupId := (if j_backupType j = Machine then j_backupId j else suggested e None (clone_name (j_name j))),
     f_backupIdAuto := (j_backupType j \<noteq> Machine)\<rparr>"

definition cancelSet :: "setting \<Rightarrow> set_form \<Rightarrow> set_form" where
  "cancelSet e f = (reset_machine f)\<lparr>f_editing := None, f_jobName := [], f_changeDetectionMode := Legacy,
     f_fullReadEvery := 0, f_runAtStartup := False, f_scheduleMode := Scheduled,
     f_schedules := [newSchedule Days ''s1'' (today e)], f_backupDirs := [], f_excludeList := [],
     f_treeExcludes := [], f_backupType := Directory, f_shown := False\<rparr>"

definition closeForm :: "set_form \<Rightarrow> set_form" where
  "closeForm f = f\<lparr>f_shown := False, f_editing := None\<rparr>"

definition typeName :: "setting \<Rightarrow> string \<Rightarrow> set_form \<Rightarrow> set_form" where
  "typeName e name f = (let f = f\<lparr>f_jobName := name\<rparr> in
     if f_backupIdAuto f \<and> f_backupType f \<noteq> Machine then f\<lparr>f_backupId := suggested e (f_editing f) name\<rparr> else f)"

section \<open>Effects\<close>

text \<open>
  The effects on the source type and the disks, in the order they are declared. \<open>c\<close> is the state
  just rendered, which their closures read, \<open>old\<close> the one rendered before; what they set is
  applied in order.
\<close>

definition id_effect :: "setting \<Rightarrow> set_form \<Rightarrow> set_form \<Rightarrow> set_form" where
  "id_effect e c f = (if f_backupIdAuto c \<and> f_backupMode c = SetMode
     then f\<lparr>f_backupId := (if f_backupType c = Machine then hostname e else suggested e (f_editing c) (f_jobName c))\<rparr>
     else f)"

definition follow_effect :: "set_form \<Rightarrow> set_form \<Rightarrow> set_form" where
  "follow_effect c f =
     (let (drives, ids) = follow_disks (f_physicalDisks c) (f_selectedDrives c, f_selectedDiskIds c) in
      if drives = f_selectedDrives c \<and> ids = f_selectedDiskIds c then f
      else f\<lparr>f_selectedDrives := drives, f_selectedDiskIds := ids\<rparr>)"

definition to_machine_effect :: "set_form \<Rightarrow> set_form \<Rightarrow> set_form" where
  "to_machine_effect c f = (if f_backupType c = Machine \<and> f_backupDirs c \<noteq> [] then f\<lparr>f_backupDirs := []\<rparr> else f)"

definition to_directory_effect :: "set_form \<Rightarrow> set_form \<Rightarrow> set_form" where
  "to_directory_effect c f = (if f_backupType c = Directory \<and> f_physicalDisks c \<noteq> []
     then f\<lparr>f_physicalDisks := [], f_selectedDrives := [], f_backupDirs := []\<rparr> else f)"

definition run_effects :: "setting \<Rightarrow> set_form \<Rightarrow> set_form \<Rightarrow> set_form" where
  "run_effects e old c =
     (let typed = f_backupType old \<noteq> f_backupType c;
          f1 = (if typed then id_effect e c c else c);
          f2 = (if f_physicalDisks old \<noteq> f_physicalDisks c \<or> f_selectedDiskIds old \<noteq> f_selectedDiskIds c
                then follow_effect c f1 else f1);
          f3 = (if typed then to_machine_effect c f2 else f2)
      in if typed then to_directory_effect c f3 else f3)"

text \<open>Renders until nothing changes; the type changes in none of them, so three are enough.\<close>

fun settle :: "nat \<Rightarrow> setting \<Rightarrow> set_form \<Rightarrow> set_form \<Rightarrow> set_form" where
  "settle 0 e old f = f"
| "settle (Suc n) e old f = (let f' = run_effects e old f in if f' = f then f else settle n e f f')"

text \<open>The disks asked for when the type became machine and none were listed.\<close>

definition disks_listed :: "disk list \<Rightarrow> set_form \<Rightarrow> set_form \<Rightarrow> set_form" where
  "disks_listed disks c f = (let f = f\<lparr>f_physicalDisks := disks\<rparr> in
     if disks \<noteq> [] \<and> f_selectedDrives c = [] then f\<lparr>f_selectedDrives := [d_path (hd disks)]\<rparr> else f)"

section \<open>What Save and Start check\<close>

definition useVmType :: "set_form \<Rightarrow> bool" where
  "useVmType f \<longleftrightarrow> f_backupType f = Machine \<and> f_machineAsVM f"

definition vmBackupID :: "set_form \<Rightarrow> string" where
  "vmBackupID f = (if useVmType f then computeVmBackupId (f_vmIdNumber f) (f_vmIdStyle f) else [])"

definition linuxMachineSet :: "setting \<Rightarrow> set_form \<Rightarrow> bool" where
  "linuxMachineSet e f \<longleftrightarrow> f_backupType f = Machine \<and> os_linux e"

definition form_disk_ids :: "set_form \<Rightarrow> string list" where
  "form_disk_ids f = (if f_backupType f = Machine
     then machineDiskIds (f_physicalDisks f) (f_selectedDrives f) (f_selectedDiskIds f) else [])"

definition savedSkips :: "set_form \<Rightarrow> skip_part list" where
  "savedSkips f = (if f_backupType f = Machine
     then skipsToSave (f_physicalDisks f) (f_selectedDrives f) (form_disk_ids f) (f_skipParts f) else [])"

definition set_name :: "setting \<Rightarrow> set_form \<Rightarrow> string" where
  "set_name e f = or_text (Some (trim (f_jobName f)))
     (''Backup '' @ (if f_backupId f \<noteq> [] then f_backupId f else hostname e))"

text \<open>A set other than the edited one with the wanted name, whatever the case.\<close>

definition sameName :: "setting \<Rightarrow> set_form \<Rightarrow> job option" where
  "sameName e f = List.find (\<lambda>j. Some (j_id j) \<noteq> f_editing f \<and>
     toLowerCase (trim (j_name j)) = toLowerCase (set_name e f)) (scheduledJobs e)"

definition badSchedule :: "set_form \<Rightarrow> schedule option" where
  "badSchedule f = (if f_scheduleMode f = Manual then None
     else List.find (\<lambda>s. scheduleProblem s \<noteq> []) (f_schedules f))"

definition when_blocked :: "bool \<Rightarrow> string \<Rightarrow> string list" where
  "when_blocked b key = (if b then [key] else [])"

definition blockers :: "setting \<Rightarrow> set_form \<Rightarrow> string list" where
  "blockers e f =
     (let machine = (f_backupType f = Machine); linux = linuxMachineSet e f in
      when_blocked (\<not> f_jobEnabled f) ''saveWarnDisabled'' @
      when_blocked (f_scheduleMode f \<noteq> Manual \<and> \<not> f_runAtStartup f \<and> \<not> (\<exists>s \<in> set (f_schedules f). s_enabled s))
        ''saveWarnNoSchedule'' @
      when_blocked (linux \<and> f_machineSnapshotsOff f \<and> \<not> f_liveReadAccepted f) ''saveWarnSnapshotsOff'' @
      when_blocked (linux \<and> \<not> f_machineSnapshotsOff f \<and> \<not> snapshot_module e \<and>
          machineNeedsSnapshot (f_physicalDisks f) (f_selectedDrives f) (savedSkips f)) ''saveWarnNoModule'' @
      when_blocked (machine \<and> needs_local_elevation e) ''saveWarnNeedsRoot'' @
      when_blocked (machine \<and> missingSetDisks (f_physicalDisks f) (f_selectedDrives f) (f_selectedDiskIds f) \<noteq> [])
        ''saveWarnDisksMissing'')"

text \<open>
  The set that is saved. Its enabled state and next run are the backend's; the record's values
  for the two are not sent.
\<close>

definition jobData :: "setting \<Rightarrow> string \<Rightarrow> set_form \<Rightarrow> job" where
  "jobData e now f =
     (let directory = (f_backupType f = Directory); machine = (f_backupType f = Machine) in
      empty_job\<lparr>
       j_id := or_text (f_editing f) now,
       j_name := set_name e f,
       j_runAtStartup := (f_scheduleMode f \<noteq> Manual \<and> f_runAtStartup f),
       j_scheduleMode := Some (f_scheduleMode f),
       j_schedules := f_schedules f,
       j_backupDirs := (if directory then lines_of (f_backupDirs f) else []),
       j_backupId := (if useVmType f then vmBackupID f else f_backupId f),
       j_useVSS := f_useVSS f,
       j_backupType := f_backupType f,
       j_machineAsVm := useVmType f,
       j_readFreeSpace := machine \<and> f_readFreeSpace f,
       j_snapshotsOff := linuxMachineSet e f \<and> f_machineSnapshotsOff f,
       j_liveRead := linuxMachineSet e f \<and> f_machineSnapshotsOff f \<and> f_liveReadAccepted f,
       j_excludeList := (if directory then getEffectiveExcludeList f else []),
       j_driveLetters := (if machine then f_selectedDrives f else []),
       j_diskIds := form_disk_ids f,
       j_skipPartitions := savedSkips f,
       j_imageFolders := (if machine then lines_of (f_imageFolders f) else []),
       j_pbsServerId := f_backupPBSID f,
       j_emailOnSuccess := f_emailOnSuccess f,
       j_emailOnSuccessTo := (if f_emailOnSuccess f then trim (f_emailOnSuccessTo f) else []),
       j_emailOnFailure := f_emailOnFailure f,
       j_emailOnFailureTo := (if f_emailOnFailure f then trim (f_emailOnFailureTo f) else []),
       j_runAppBefore := trim (f_runAppBefore f),
       j_runAppAfter := trim (f_runAppAfter f),
       j_exitAppAfter := f_exitAppAfter f,
       j_minimizeAfter := f_minimizeAfter f \<and> \<not> f_exitAppAfter f,
       j_shutdownAfter := f_shutdownAfter f,
       j_changeDetectionMode := (if directory then f_changeDetectionMode f else Legacy),
       j_fullReadEvery := (if directory \<and> f_changeDetectionMode f = Metadata then f_fullReadEvery f else 0)\<rparr>)"

text \<open>
  What pressing the button leads to. \<open>shares\<close> says whether the folders on network shares can be
  opened, \<open>anyway\<close> is the answer to the warning that the set will not run as it is.
\<close>

datatype pressed =
    Refused string string
  | NoServers
  | WrongSchedule schedule string
  | GoneBack
  | RunSplit "string list"
  | SaveSet job
  | RunFolders "string list" "string list" string bool string string
  | RunDisks bool "string list" string bool string string

definition handleStartBackup :: "setting \<Rightarrow> string \<Rightarrow> bool \<Rightarrow> bool \<Rightarrow> set_form \<Rightarrow> pressed" where
  "handleStartBackup e now shares anyway f =
     (let dirs = lines_of (f_backupDirs f) in
      if \<not> have_servers e then NoServers
      else if f_backupType f = Directory \<and> dirs = [] then Refused ''atLeastOneDirectory'' []
      else if f_backupType f = Machine \<and> f_selectedDrives f = [] then Refused ''atLeastOneDisk'' []
      else if useVmType f \<and> vmBackupID f = [] then Refused ''machineVmIdInvalid'' []
      else if f_backupType f = Directory \<and> \<not> shares then GoneBack
      else if f_splitFirstBackup f \<and> f_backupType f = Directory \<and> f_backupMode f = OneShot then RunSplit dirs
      else if f_backupMode f = SetMode then
        (case sameName e f of
           Some j \<Rightarrow> Refused ''jobNameNotUnique'' (j_name j)
         | None \<Rightarrow>
             (case badSchedule f of
                Some s \<Rightarrow> WrongSchedule s (scheduleProblem s)
              | None \<Rightarrow> if blockers e f \<noteq> [] \<and> \<not> anyway then GoneBack else SaveSet (jobData e now f)))
      else if f_backupType f = Directory then
        RunFolders dirs (getEffectiveExcludeList f) (f_backupId f) (f_useVSS f) (f_backupPBSID f) (trim (f_oneOffComment f))
      else RunDisks (useVmType f) (filter (\<lambda>d. trim d \<noteq> []) (f_selectedDrives f))
             (if useVmType f then vmBackupID f else f_backupId f) (f_useVSS f) (f_backupPBSID f) (trim (f_oneOffComment f)))"

section \<open>Writing the set\<close>

text \<open>
  The calls \<open>writeJob\<close> makes, each with its answer (an error, or none), and what is left of the
  answers to come. \<open>written\<close> stays over a second try after connecting again.
\<close>

datatype set_call = CallSave job | CallUpdate job | CallEnabled string bool | CallConnect

type_synonym answers = "string option list"

type_synonym calls = "(set_call \<times> string option) list"

definition answer_of :: "answers \<Rightarrow> string option \<times> answers" where
  "answer_of as = (case as of [] \<Rightarrow> (None, []) | a # rest \<Rightarrow> (a, rest))"

definition wasEnabled :: "setting \<Rightarrow> set_form \<Rightarrow> bool" where
  "wasEnabled e f = (case f_editing f of None \<Rightarrow> True
     | Some i \<Rightarrow> (case List.find (\<lambda>j. j_id j = i) (scheduledJobs e) of Some j \<Rightarrow> j_enabled j | None \<Rightarrow> True))"

definition enable_step :: "setting \<Rightarrow> set_form \<Rightarrow> job \<Rightarrow> answers \<Rightarrow> calls \<times> string option \<times> answers" where
  "enable_step e f j as =
     (if wasEnabled e f \<noteq> f_jobEnabled f
      then (let (err, as) = answer_of as in ([(CallEnabled (j_id j) (f_jobEnabled f), err)], err, as))
      else ([], None, as))"

definition write_call :: "set_form \<Rightarrow> job \<Rightarrow> set_call" where
  "write_call f j = (if f_editing f \<noteq> None then CallUpdate j else CallSave j)"

definition writeJob :: "setting \<Rightarrow> set_form \<Rightarrow> job \<Rightarrow> bool \<Rightarrow> answers \<Rightarrow> calls \<times> bool \<times> string option \<times> answers" where
  "writeJob e f j written as =
     (if written then (let (calls, err, as) = enable_step e f j as in (calls, True, err, as))
      else
        (let call = write_call f j; (err, as) = answer_of as in
         case err of
           Some msg \<Rightarrow> ([(call, Some msg)], False, Some msg, as)
         | None \<Rightarrow> (let (calls, err, as) = enable_step e f j as in ((call, None) # calls, True, err, as))))"

definition isNotConnectedErr :: "string \<Rightarrow> bool" where
  "isNotConnectedErr err \<longleftrightarrow> contains err ''not connected to the background service''"

text \<open>The whole write: on a refused token Connect is offered once, then the write goes on.\<close>

definition write_set :: "setting \<Rightarrow> set_form \<Rightarrow> job \<Rightarrow> answers \<Rightarrow> calls \<times> string option" where
  "write_set e f j as =
     (let (calls, written, err, as) = writeJob e f j False as in
      case err of
        None \<Rightarrow> (calls, None)
      | Some msg \<Rightarrow>
          if \<not> isNotConnectedErr msg then (calls, Some msg)
          else
            (let (refused, as) = answer_of as in
             case refused of
               Some _ \<Rightarrow> (calls @ [(CallConnect, refused)], Some msg)
             | None \<Rightarrow> (let (calls2, w, err2, as) = writeJob e f j written as in
                        (calls @ [(CallConnect, None)] @ calls2, err2))))"

definition reset_saved :: "setting \<Rightarrow> set_form \<Rightarrow> set_form" where
  "reset_saved e f = reset_after ((reset_machine f)\<lparr>f_editing := None, f_jobName := [], f_runAtStartup := False,
     f_scheduleMode := Scheduled, f_schedules := [newSchedule Days ''s1'' (today e)], f_backupDirs := [], f_shown := False\<rparr>)"

text \<open>What a failed save shows; \<open>None\<close> when the modal of the jobs lock does.\<close>

definition jobErrText :: "string \<Rightarrow> (string \<times> string) option" where
  "jobErrText msg =
     (if contains msg ''JOBS_ADMIN_REQUIRED'' then None
      else if isNotConnectedErr msg then Some (''serviceNotConnectedRetry'', [])
      else Some (''statusError'', msg))"

text \<open>The schedule a set's card shows, and how many are on.\<close>

definition cardSchedule :: "job \<Rightarrow> legacy \<Rightarrow> bool \<times> schedule option \<times> nat" where
  "cardSchedule j l =
     (let (mode, ss) = jobScheduling j l in
      if mode = Manual then (True, None, 0)
      else (let on = filter s_enabled ss in
            (False, (case List.find (\<lambda>s. s_id s = j_nextRunBy j) on of
                       Some s \<Rightarrow> Some s | None \<Rightarrow> (case on of [] \<Rightarrow> None | s # _ \<Rightarrow> Some s)), length on)))"

section \<open>Saving and editing again\<close>

text \<open>A line as the form keeps it.\<close>

definition proper_line :: "string \<Rightarrow> bool" where
  "proper_line l \<longleftrightarrow> l \<noteq> [] \<and> trim l = l \<and> newline \<notin> set l"

lemma lines_of_proper: "l \<in> set (lines_of s) \<Longrightarrow> proper_line l"
  using split_on_no_sep set_trim by (fastforce simp: lines_of_def proper_line_def)

lemma lines_of_text: "\<forall>l \<in> set ls. proper_line l \<Longrightarrow> lines_of (lines_text ls) = ls"
proof (cases "ls = []")
  case False
  assume ls: "\<forall>l \<in> set ls. proper_line l"
  then have "split_on newline (lines_text ls) = ls"
    using False by (simp add: lines_text_def proper_line_def split_join)
  moreover have "map trim ls = ls"
    using ls by (simp add: map_idI proper_line_def)
  moreover have "filter (\<lambda>l. l \<noteq> []) ls = ls"
    using ls by (simp add: proper_line_def filter_id_conv)
  ultimately show ?thesis by (simp add: lines_of_def)
qed (simp add: lines_of_def lines_text_def)

lemma lines_of_lines [simp]: "lines_of (lines_text (lines_of s)) = lines_of s"
  by (rule lines_of_text) (blast intro: lines_of_proper)









lemma editSet_fields:
  "f_editing (editSet e j l g) = Some (j_id j)" "f_jobName (editSet e j l g) = j_name j"
  "f_backupId (editSet e j l g) = j_backupId j" "f_runAtStartup (editSet e j l g) = j_runAtStartup j"
  "f_scheduleMode (editSet e j l g) = fst (jobScheduling j l)" "f_schedules (editSet e j l g) = snd (jobScheduling j l)"
  "f_backupDirs (editSet e j l g) = lines_text (j_backupDirs j)" "f_selectedDrives (editSet e j l g) = j_driveLetters j"
  "f_selectedDiskIds (editSet e j l g) = diskIdHints j" "f_imageFolders (editSet e j l g) = lines_text (j_imageFolders j)"
  "f_useVSS (editSet e j l g) = j_useVSS j" "f_backupType (editSet e j l g) = j_backupType j"
  "f_backupPBSID (editSet e j l g) = or_text (Some (j_pbsServerId j)) (default_pbs e)"
  "f_excludeList (editSet e j l g) = lines_text (j_excludeList j)" "f_treeExcludes (editSet e j l g) = []"
  "f_emailOnSuccess (editSet e j l g) = j_emailOnSuccess j" "f_emailOnSuccessTo (editSet e j l g) = j_emailOnSuccessTo j"
  "f_emailOnFailure (editSet e j l g) = j_emailOnFailure j" "f_emailOnFailureTo (editSet e j l g) = j_emailOnFailureTo j"
  "f_runAppBefore (editSet e j l g) = j_runAppBefore j" "f_runAppAfter (editSet e j l g) = j_runAppAfter j"
  "f_exitAppAfter (editSet e j l g) = j_exitAppAfter j" "f_minimizeAfter (editSet e j l g) = j_minimizeAfter j"
  "f_shutdownAfter (editSet e j l g) = j_shutdownAfter j" "f_changeDetectionMode (editSet e j l g) = j_changeDetectionMode j"
  "f_fullReadEvery (editSet e j l g) = j_fullReadEvery j" "f_jobEnabled (editSet e j l g) = j_enabled j"
  "f_physicalDisks (editSet e j l g) = f_physicalDisks g"
  "f_machineAsVM (editSet e j l g) = (j_backupType j = Machine \<and> j_machineAsVm j)"
  "f_readFreeSpace (editSet e j l g) = (j_backupType j = Machine \<and> j_readFreeSpace j)"
  "f_machineSnapshotsOff (editSet e j l g) = (j_backupType j = Machine \<and> j_snapshotsOff j)"
  "f_liveReadAccepted (editSet e j l g) = (j_backupType j = Machine \<and> j_snapshotsOff j \<and> j_liveRead j)"
  "f_skipParts (editSet e j l g) = (if j_backupType j = Machine then j_skipPartitions j else [])"
  "j_backupType j = Machine \<and> j_machineAsVm j \<Longrightarrow>
     (f_vmIdStyle (editSet e j l g), f_vmIdNumber (editSet e j l g)) = vm_fields (j_backupId j)"
  by (simp_all add: editSet_def fill_from_def applyVmFieldsFromJob_def Let_def split: prod.split)

lemma jobData_fields:
  "j_id (jobData e now f) = or_text (f_editing f) now" "j_name (jobData e now f) = set_name e f"
  "j_backupType (jobData e now f) = f_backupType f" "j_machineAsVm (jobData e now f) = useVmType f"
  "j_driveLetters (jobData e now f) = (if f_backupType f = Machine then f_selectedDrives f else [])"
  "j_backupDirs (jobData e now f) = (if f_backupType f = Directory then lines_of (f_backupDirs f) else [])"
  "j_diskIds (jobData e now f) = form_disk_ids f" "j_skipPartitions (jobData e now f) = savedSkips f"
  "j_backupId (jobData e now f) = (if useVmType f then vmBackupID f else f_backupId f)"
  "j_excludeList (jobData e now f) = (if f_backupType f = Directory then getEffectiveExcludeList f else [])"
  "j_runAtStartup (jobData e now f) = (f_scheduleMode f \<noteq> Manual \<and> f_runAtStartup f)"
  "j_scheduleMode (jobData e now f) = Some (f_scheduleMode f)" "j_schedules (jobData e now f) = f_schedules f"
  "j_useVSS (jobData e now f) = f_useVSS f" "j_pbsServerId (jobData e now f) = f_backupPBSID f"
  "j_readFreeSpace (jobData e now f) = (f_backupType f = Machine \<and> f_readFreeSpace f)"
  "j_snapshotsOff (jobData e now f) = (linuxMachineSet e f \<and> f_machineSnapshotsOff f)"
  "j_liveRead (jobData e now f) = (linuxMachineSet e f \<and> f_machineSnapshotsOff f \<and> f_liveReadAccepted f)"
  "j_imageFolders (jobData e now f) = (if f_backupType f = Machine then lines_of (f_imageFolders f) else [])"
  "j_emailOnSuccess (jobData e now f) = f_emailOnSuccess f" "j_emailOnFailure (jobData e now f) = f_emailOnFailure f"
  "j_emailOnSuccessTo (jobData e now f) = (if f_emailOnSuccess f then trim (f_emailOnSuccessTo f) else [])"
  "j_emailOnFailureTo (jobData e now f) = (if f_emailOnFailure f then trim (f_emailOnFailureTo f) else [])"
  "j_runAppBefore (jobData e now f) = trim (f_runAppBefore f)" "j_runAppAfter (jobData e now f) = trim (f_runAppAfter f)"
  "j_exitAppAfter (jobData e now f) = f_exitAppAfter f" "j_shutdownAfter (jobData e now f) = f_shutdownAfter f"
  "j_minimizeAfter (jobData e now f) = (f_minimizeAfter f \<and> \<not> f_exitAppAfter f)"
  "j_changeDetectionMode (jobData e now f) = (if f_backupType f = Directory then f_changeDetectionMode f else Legacy)"
  "j_fullReadEvery (jobData e now f) =
     (if f_backupType f = Directory \<and> f_changeDetectionMode f = Metadata then f_fullReadEvery f else 0)"
  by (simp_all add: jobData_def Let_def)






text \<open>
  What the backend keeps of the set that a save sends (\<open>SaveScheduledJob\<close>, \<open>UpdateScheduledJob\<close> of
  \<open>scheduler.go\<close>): a folder on a drive letter mapped to a share becomes the share's path (\<open>mapped\<close>, what
  Windows answers), and a schedule without an ID gets the first that is free. The state and the next run are the
  backend's own. Of a machine set the identities of the disks are kept as they were sent, which holds where
  \<open>pinJobDisks\<close> lists the disks that the form listed, or none.
\<close>

definition free_id :: "string list \<Rightarrow> string" where
  "free_id used =
     (case List.find (\<lambda>i. i \<notin> set used) (map (\<lambda>n. ''s'' @ show_nat n) [1..<length used + 2]) of Some i \<Rightarrow> i | None \<Rightarrow> [])"

fun give_ids :: "string list \<Rightarrow> schedule list \<Rightarrow> schedule list" where
  "give_ids used [] = []"
| "give_ids used (s # ss) =
     (if s_id s \<noteq> [] then s # give_ids used ss
      else let i = free_id used in s\<lparr>s_id := i\<rparr> # give_ids (i # used) ss)"





lemma give_ids_named [simp]: "\<forall>s \<in> set ss. s_id s \<noteq> [] \<Longrightarrow> give_ids used ss = ss"
  by (induction ss) auto


section \<open>What an accepted set satisfies\<close>

lemma lines_of_mem: "l \<in> set (lines_of s) \<Longrightarrow> l \<noteq> []"
  by (auto simp: lines_of_def)

lemma useVmType_id: "useVmType f \<Longrightarrow> vmBackupID f \<noteq> [] \<Longrightarrow> list_all is_digit (vmBackupID f)"
proof -
  assume vm: "useVmType f" "vmBackupID f \<noteq> []"
  have d: "list_all is_digit (show_nat n)" for n
    using show_nat_digits [of n] by (simp add: list_all_iff)
  have z: "list_all is_digit ''000''"
    by code_simp
  show ?thesis
    using vm d z unfolding vmBackupID_def computeVmBackupId_def Let_def
    by (simp only: list_all_append if_True simp_thms split: vm_style.split if_splits)
qed

lemma skips_on_drives:
  assumes "s \<in> set (skipsToSave disks drives dis skips)" "length dis = length drives"
  shows "sk_device s \<in> set drives"
  using assms skip_drive_Some by (fastforce simp: mem_skipsToSave mem_save_skip)

text \<open>
  C17: Only a sound set is saved. When Save goes through, the set's name is no other set's (case
  and blanks aside), it has something to back up (folders as plain lines, or disks with one
  identity each), a machine backup in VM style has a numeric ID, every schedule of a scheduled
  set is one that can be saved, partitions are left out of its own disks only, a live read is
  accepted only with snapshots off, and if anything stops it running as it is, the user was
  told and saved it anyway.
\<close>

theorem accepted_set_ok:
  assumes "handleStartBackup e now shares anyway f = SaveSet j"
  shows "(\<forall>k \<in> set (scheduledJobs e). Some (j_id k) \<noteq> f_editing f \<longrightarrow> toLowerCase (trim (j_name k)) \<noteq> toLowerCase (j_name j))
    \<and> (j_backupType j = Directory \<longrightarrow> j_backupDirs j \<noteq> [] \<and> (\<forall>d \<in> set (j_backupDirs j). proper_line d) \<and> j_driveLetters j = [])
    \<and> (j_backupType j = Machine \<longrightarrow> j_driveLetters j \<noteq> [] \<and> length (j_diskIds j) = length (j_driveLetters j) \<and> j_backupDirs j = [])
    \<and> (j_machineAsVm j \<longrightarrow> j_backupId j \<noteq> [] \<and> list_all is_digit (j_backupId j))
    \<and> (j_scheduleMode j = Some Scheduled \<longrightarrow> (\<forall>s \<in> set (j_schedules j). scheduleProblem s = []))
    \<and> (\<forall>s \<in> set (j_skipPartitions j). sk_device s \<in> set (j_driveLetters j))
    \<and> (j_liveRead j \<longrightarrow> j_snapshotsOff j)
    \<and> (anyway \<or> blockers e f = [])"
proof -
  from assms have j: "j = jobData e now f" and
    dirs: "f_backupType f = Directory \<longrightarrow> lines_of (f_backupDirs f) \<noteq> []" and
    drives: "f_backupType f = Machine \<longrightarrow> f_selectedDrives f \<noteq> []" and
    vm: "useVmType f \<longrightarrow> vmBackupID f \<noteq> []" and
    name: "sameName e f = None" and bad: "badSchedule f = None" and any: "anyway \<or> blockers e f = []"
    by (auto simp: handleStartBackup_def Let_def split: if_splits option.splits)
  note jf = jobData_fields [where e = e and now = now and f = f, folded j]
  have "\<forall>k \<in> set (scheduledJobs e). Some (j_id k) \<noteq> f_editing f \<longrightarrow> toLowerCase (trim (j_name k)) \<noteq> toLowerCase (j_name j)"
    using name by (auto simp: sameName_def find_None_iff jf)
  moreover have "j_scheduleMode j = Some Scheduled \<longrightarrow> (\<forall>s \<in> set (j_schedules j). scheduleProblem s = [])"
    using bad by (auto simp: badSchedule_def find_None_iff jf split: if_splits)
  moreover have "\<forall>s \<in> set (j_skipPartitions j). sk_device s \<in> set (j_driveLetters j)"
    using skips_on_drives by (fastforce simp: jf savedSkips_def form_disk_ids_def machineDiskIds_def)
  moreover have "j_machineAsVm j \<longrightarrow> j_backupId j \<noteq> [] \<and> list_all is_digit (j_backupId j)"
    using vm useVmType_id by (simp add: jf)
  moreover have "j_backupType j = Machine \<longrightarrow> length (j_diskIds j) = length (j_driveLetters j)"
    by (simp add: jf form_disk_ids_def machineDiskIds_def)
  ultimately show ?thesis
    using dirs drives any lines_of_proper by (auto simp: jf)
qed

section \<open>Editing after a machine set\<close>

lemma run_effects_type [simp]: "f_backupType (run_effects e old f) = f_backupType f"
  by (simp add: run_effects_def Let_def id_effect_def follow_effect_def to_machine_effect_def
      to_directory_effect_def split: prod.split)

lemma run_effects_dirs: "f_backupDirs f = [] \<Longrightarrow> f_backupDirs (run_effects e old f) = []"
  by (simp add: run_effects_def Let_def id_effect_def follow_effect_def to_machine_effect_def
      to_directory_effect_def split: prod.split)

lemma settle_type [simp]: "f_backupType (settle n e old f) = f_backupType f"
  by (induction n arbitrary: old f) (simp_all add: Let_def)

lemma settle_dirs: "f_backupDirs f = [] \<Longrightarrow> f_backupDirs (settle n e old f) = []"
  by (induction n arbitrary: old f) (simp_all add: Let_def run_effects_dirs)

text \<open>
  The folders of a set are lost when it is opened after a machine set. With the disks of a
  machine set still listed (its form was closed or saved), opening a folder set for editing
  first fills in its folders and then, because the type of source changed, empties them: the
  form has no folder and cannot be saved as it is.
\<close>

theorem edit_after_machine_set_loses_folders:
  assumes "f_backupType g = Machine" "f_physicalDisks g \<noteq> []" "j_backupType j = Directory" "have_servers e"
  shows "f_backupDirs (settle (Suc n) e g (editSet e j l g)) = []
    \<and> handleStartBackup e now shares anyway (settle (Suc n) e g (editSet e j l g)) = Refused ''atLeastOneDirectory'' []"
proof -
  let ?E = "editSet e j l g"
  have E: "f_backupType ?E = Directory" "f_physicalDisks ?E \<noteq> []"
    using assms by (simp_all add: editSet_fields)
  have "f_backupDirs (run_effects e g ?E) = []"
    using assms(1) E by (simp add: run_effects_def Let_def to_directory_effect_def)
  then have dirs: "f_backupDirs (settle (Suc n) e g ?E) = []"
    using settle_dirs [of "run_effects e g ?E" n e ?E] by (auto simp: Let_def)
  moreover have "f_backupType (settle (Suc n) e g ?E) = Directory"
    using E by (simp del: settle.simps)
  moreover have "lines_of [] = []"
    by (simp add: lines_of_def)
  ultimately show ?thesis
    using assms(4) by (simp add: handleStartBackup_def Let_def del: settle.simps)
qed

section \<open>Writing once\<close>

definition accepted_writes :: "calls \<Rightarrow> calls" where
  "accepted_writes cs = filter (\<lambda>(c, err). err = None \<and> (case c of CallSave _ \<Rightarrow> True | CallUpdate _ \<Rightarrow> True | _ \<Rightarrow> False)) cs"

lemma accepted_writes_simps [simp]:
  "accepted_writes [] = []" "accepted_writes (cs @ ds) = accepted_writes cs @ accepted_writes ds"
  "accepted_writes ((c, Some err) # cs) = accepted_writes cs"
  "accepted_writes ((CallConnect, a) # cs) = accepted_writes cs"
  "accepted_writes ((CallEnabled i b, a) # cs) = accepted_writes cs"
  "accepted_writes ((CallSave j, None) # cs) = (CallSave j, None) # accepted_writes cs"
  "accepted_writes ((CallUpdate j, None) # cs) = (CallUpdate j, None) # accepted_writes cs"
  by (auto simp: accepted_writes_def split: set_call.split)

lemma accepted_write_call [simp]: "accepted_writes ((write_call f j, None) # cs) = (write_call f j, None) # accepted_writes cs"
  by (simp add: write_call_def)

lemma enable_step_calls:
  assumes "enable_step e f j as = (calls, err, as')"
  shows "accepted_writes calls = [] \<and>
    (err = None \<longrightarrow> wasEnabled e f \<noteq> f_jobEnabled f \<longrightarrow> (CallEnabled (j_id j) (f_jobEnabled f), None) \<in> set calls)"
  using assms by (auto simp: enable_step_def Let_def split: if_splits prod.splits)

lemma writeJob_calls:
  assumes "writeJob e f j written as = (calls, written', err, as')"
  shows "accepted_writes calls = (if written' \<and> \<not> written then [(write_call f j, None)] else []) \<and> (written \<longrightarrow> written') \<and>
    (err = None \<longrightarrow> written' \<and>
      (wasEnabled e f \<noteq> f_jobEnabled f \<longrightarrow> (CallEnabled (j_id j) (f_jobEnabled f), None) \<in> set calls))"
proof (cases written)
  case True
  with assms enable_step_calls show ?thesis
    by (fastforce simp: writeJob_def split: prod.splits)
next
  case False
  obtain a as1 where a: "answer_of as = (a, as1)"
    by fastforce
  show ?thesis
  proof (cases a)
    case None
    obtain cs b as2 where s: "enable_step e f j as1 = (cs, b, as2)"
      by (metis prod_cases3)
    with assms False a None have "calls = (write_call f j, None) # cs" "written'" "err = b"
      by (auto simp: writeJob_def)
    then show ?thesis using enable_step_calls [OF s] False by auto
  next
    case (Some msg)
    with assms False a show ?thesis by (auto simp: writeJob_def)
  qed
qed

text \<open>
  C18: A set is written once. Even when the service has dropped the app's token and Connect is
  answered in between, the set is saved (or updated) successfully at most once; when the save
  is reported as done it was exactly once, and the switch of the set was accepted too if the
  form changed it.
\<close>

theorem set_written_once:
  assumes "write_set e f j as = (calls, err)"
  shows "length (accepted_writes calls) \<le> 1 \<and>
    (err = None \<longrightarrow> accepted_writes calls = [(write_call f j, None)] \<and>
      (wasEnabled e f \<noteq> f_jobEnabled f \<longrightarrow> (CallEnabled (j_id j) (f_jobEnabled f), None) \<in> set calls))"
proof -
  obtain calls1 written err1 as1 where w1: "writeJob e f j False as = (calls1, written, err1, as1)"
    by (metis prod_cases4)
  note c1 = writeJob_calls [OF w1]
  show ?thesis
  proof (cases err1)
    case None
    with assms w1 c1 show ?thesis by (auto simp: write_set_def split: if_splits)
  next
    case (Some msg)
    obtain refused as2 where a: "answer_of as1 = (refused, as2)"
      by fastforce
    show ?thesis
    proof (cases "isNotConnectedErr msg \<and> refused = None")
      case False
      with assms w1 c1 Some a show ?thesis
        by (auto simp: write_set_def split: if_splits option.splits)
    next
      case True
      obtain calls2 written2 err2 as3 where w2: "writeJob e f j written as2 = (calls2, written2, err2, as3)"
        by (metis prod_cases4)
      from True assms w1 w2 Some a have "calls = calls1 @ [(CallConnect, None)] @ calls2" "err = err2"
        by (auto simp: write_set_def)
      then show ?thesis
        using c1 writeJob_calls [OF w2] by auto
    qed
  qed
qed

section \<open>A concrete form\<close>

definition first_form :: set_form where
  "first_form = \<lparr>f_editing = None, f_jobName = [], f_backupMode = OneShot, f_runAtStartup = False,
     f_scheduleMode = Scheduled, f_schedules = [], f_backupDirs = [], f_selectedDrives = [], f_selectedDiskIds = [],
     f_imageFolders = [], f_physicalDisks = [], f_excludeList = [], f_treeExcludes = [], f_backupId = [],
     f_backupIdAuto = False, f_useVSS = True, f_backupType = Directory, f_machineAsVM = False, f_readFreeSpace = False,
     f_machineSnapshotsOff = False, f_liveReadAccepted = False, f_skipParts = [], f_jobEnabled = True,
     f_vmIdNumber = [], f_vmIdStyle = Range, f_backupPBSID = [], f_emailOnSuccess = False, f_emailOnSuccessTo = [],
     f_emailOnFailure = False, f_emailOnFailureTo = [], f_runAppBefore = [], f_runAppAfter = [], f_exitAppAfter = False,
     f_minimizeAfter = False, f_shutdownAfter = False, f_changeDetectionMode = Legacy, f_fullReadEvery = 0,
     f_splitFirstBackup = False, f_oneOffComment = [], f_tab = SourceTab, f_shown = False\<rparr>"

definition pc :: setting where
  "pc = \<lparr>hostname = ''pc'', os_linux = False, snapshot_module = False, needs_local_elevation = False,
     default_pbs = ''nas'', have_servers = True, scheduledJobs = [], today = 0, words = (\<lambda>s. [])\<rparr>"

definition docs_form :: set_form where
  "docs_form = first_form\<lparr>f_jobName := ''Docs '', f_backupMode := SetMode, f_runAtStartup := True,
     f_backupDirs := ''C:/Docs'', f_excludeList := ''*.tmp'', f_backupId := ''pc-docs'', f_backupPBSID := ''nas'',
     f_emailOnSuccessTo := ''me''\<rparr>"

lemma docs_saved: "\<exists>j. handleStartBackup pc ''17'' True True docs_form = SaveSet j"
proof -
  have "(case handleStartBackup pc ''17'' True True docs_form of SaveSet j \<Rightarrow> True | _ \<Rightarrow> False) = True"
    by code_simp
  then show ?thesis by (cases "handleStartBackup pc ''17'' True True docs_form") auto
qed

text \<open>A set written by this version keeps nothing of the older fields.\<close>

definition no_legacy :: legacy where
  "no_legacy = \<lparr>lg_triggerMode = [], lg_intervalMinutes = 0, lg_windowAllDay = False, lg_windowStart = [],
     lg_windowEnd = [], lg_daysOfWeek = [], lg_scheduleTime = []\<rparr>"




theorem accepted_set_ok_witness:
  "\<exists>j. handleStartBackup pc ''17'' True True docs_form = SaveSet j \<and> j_backupDirs j \<noteq> [] \<and> (\<forall>d \<in> set (j_backupDirs j). proper_line d)"
proof -
  obtain j where j: "handleStartBackup pc ''17'' True True docs_form = SaveSet j"
    using docs_saved by blast
  then have "j_backupType j = Directory"
    by (auto simp: handleStartBackup_def Let_def jobData_fields docs_form_def first_form_def split: if_splits option.splits)
  with accepted_set_ok [OF j] j show ?thesis by blast
qed

theorem edit_after_machine_set_loses_folders_witness:
  "handleStartBackup pc ''18'' True True (settle 3 pc (first_form\<lparr>f_backupType := Machine, f_physicalDisks := [ssd]\<rparr>)
     (editSet pc (jobData pc ''17'' docs_form) no_legacy (first_form\<lparr>f_backupType := Machine, f_physicalDisks := [ssd]\<rparr>)))
   = Refused ''atLeastOneDirectory'' []"
proof -
  have "(3 :: nat) = Suc 2" by simp
  moreover have "f_backupType (first_form\<lparr>f_backupType := Machine, f_physicalDisks := [ssd]\<rparr>) = Machine"
    "f_physicalDisks (first_form\<lparr>f_backupType := Machine, f_physicalDisks := [ssd]\<rparr>) \<noteq> []"
    "j_backupType (jobData pc ''17'' docs_form) = Directory" "have_servers pc"
    by (simp_all add: jobData_fields docs_form_def first_form_def pc_def)
  ultimately show ?thesis
    using edit_after_machine_set_loses_folders by metis
qed

theorem set_written_once_witness:
  "write_set pc docs_form (jobData pc ''17'' docs_form) [Some ''not connected to the background service'', None, None] =
     ([(CallSave (jobData pc ''17'' docs_form), Some ''not connected to the background service''), (CallConnect, None),
       (CallSave (jobData pc ''17'' docs_form), None)], None)
   \<and> length (accepted_writes (fst (write_set pc docs_form (jobData pc ''17'' docs_form) [Some ''not connected to the background service'', None, None]))) = 1"
proof -
  let ?j = "jobData pc ''17'' docs_form"
  have c: "isNotConnectedErr ''not connected to the background service''"
    by code_simp
  have d: "f_editing docs_form = None" "f_jobEnabled docs_form"
    by (simp_all add: docs_form_def first_form_def)
  have w: "write_set pc docs_form ?j [Some ''not connected to the background service'', None, None] =
     ([(CallSave ?j, Some ''not connected to the background service''), (CallConnect, None), (CallSave ?j, None)], None)"
    by (simp only: write_set_def writeJob_def write_call_def enable_step_def wasEnabled_def answer_of_def d c Let_def
        prod.case option.case list.case append.simps if_False if_True simp_thms refl)
  from set_written_once [OF w] w show ?thesis by simp
qed

end
