(* ===== verification/SplitBackup.thy ===== *)
theory SplitBackup
  imports SetForm
begin

text \<open>
  A first backup split into parts (\<open>executeSplitBackup\<close>, \<open>App.jsx\<close>): the plan, the loop that runs a
  part at a time and waits for its end, with the user's answer to Retry, and the sum it shows.
  The backend's plan, its \<open>backup:complete\<close> events and the user's answers are arguments.
\<close>

section \<open>The plan and its parts\<close>

record split_part =
  sp_index :: nat
  sp_total_jobs :: nat
  sp_backup_id :: string
  sp_folders :: "string list"
  sp_exclude_list :: "string list"

text \<open>A \<open>backup:complete\<close> event; \<open>None\<close> for no data.\<close>

type_synonym part_end = "(string \<times> bool \<times> string) option"

text \<open>The listener armed for a part passes over the end of another backup.\<close>

definition counts_for :: "string \<Rightarrow> part_end \<Rightarrow> bool" where
  "counts_for i ev = (case ev of None \<Rightarrow> True | Some (j, ok, msg) \<Rightarrow> \<not> (j \<noteq> [] \<and> i \<noteq> [] \<and> j \<noteq> i))"

definition part_result :: "part_end \<Rightarrow> bool \<times> string" where
  "part_result ev = (case ev of None \<Rightarrow> (False, ''completion with no data'') | Some (j, ok, msg) \<Rightarrow> (ok, msg))"

text \<open>
  What happens to one start of a part: it is refused, or the events that follow; \<open>retry\<close> is the
  answer to the dialog shown when the part did not complete.
\<close>

datatype attempt = StartFailed string bool | Followed "part_end list" bool

datatype part_fate = Succeeded | FailedRetry | FailedSkip string | Waiting

definition fate :: "split_part \<Rightarrow> attempt \<Rightarrow> part_fate" where
  "fate p a =
     (case a of
        StartFailed err retry \<Rightarrow> if retry then FailedRetry else FailedSkip err
      | Followed evs retry \<Rightarrow>
          (case List.find (counts_for (sp_backup_id p)) evs of
             None \<Rightarrow> Waiting
           | Some ev \<Rightarrow> (case part_result ev of (ok, msg) \<Rightarrow>
               if ok then Succeeded else if retry then FailedRetry else FailedSkip msg)))"

record split_state =
  st_succeeded :: nat
  st_failures :: "(nat \<times> string) list"
  st_started :: "(split_part \<times> string list) list"

definition start_part :: "string list \<Rightarrow> split_part \<Rightarrow> split_state \<Rightarrow> split_state" where
  "start_part excludes p st = st\<lparr>st_started := st_started st @ [(p, excludes @ sp_exclude_list p)]\<rparr>"

text \<open>The loop; \<open>None\<close> while an end it waits for has not come.\<close>

fun run_parts :: "string list \<Rightarrow> split_part list \<Rightarrow> attempt list \<Rightarrow> split_state \<Rightarrow> split_state option" where
  "run_parts excludes [] as st = Some st"
| "run_parts excludes (p # ps) [] st = None"
| "run_parts excludes (p # ps) (a # as) st =
     (let st = start_part excludes p st in
      case fate p a of
        Waiting \<Rightarrow> None
      | Succeeded \<Rightarrow> run_parts excludes ps as (st\<lparr>st_succeeded := st_succeeded st + 1\<rparr>)
      | FailedRetry \<Rightarrow> run_parts excludes (p # ps) as st
      | FailedSkip msg \<Rightarrow> run_parts excludes ps as (st\<lparr>st_failures := st_failures st @ [(sp_index p, msg)]\<rparr>))"

text \<open>
  How the button ends. \<open>plan\<close> is \<open>None\<close> without the binding, \<open>Inl\<close> an error of the analysis, and a list
  (empty for null) otherwise; \<open>whole\<close> is the error of the one backup of a plan without parts.
\<close>

datatype split_outcome =
    SplitUnavailable
  | SplitError string
  | WholeBackup "string list" "string list"
  | AllPartsDone nat nat
  | PartialBackup nat nat "(nat \<times> string) list"
  | StillRunning

definition split_start :: split_state where
  "split_start = \<lparr>st_succeeded = 0, st_failures = [], st_started = []\<rparr>"

definition executeSplitBackup ::
  "string list \<Rightarrow> string list \<Rightarrow> (string + split_part list) option \<Rightarrow> string option \<Rightarrow> attempt list \<Rightarrow> split_outcome \<times> split_state option" where
  "executeSplitBackup dirList excludes plan whole as =
     (case plan of
        None \<Rightarrow> (SplitUnavailable, None)
      | Some (Inl err) \<Rightarrow> (SplitError err, None)
      | Some (Inr splitPlan) \<Rightarrow>
          if length splitPlan \<le> 1
          then (case whole of None \<Rightarrow> (WholeBackup dirList excludes, None) | Some err \<Rightarrow> (SplitError err, None))
          else
            (case run_parts excludes splitPlan as split_start of
               None \<Rightarrow> (StillRunning, None)
             | Some st \<Rightarrow>
                 (if st_failures st = [] then AllPartsDone (st_succeeded st) (length splitPlan)
                  else PartialBackup (st_succeeded st) (length splitPlan) (st_failures st), Some st)))"

section \<open>The sum is honest\<close>

text \<open>The attempts a part used: the failed ones it was tried again after, and the last.\<close>

inductive part_done :: "split_part \<Rightarrow> attempt list \<Rightarrow> part_fate \<Rightarrow> bool" where
  last: "fate p a = f \<Longrightarrow> f = Succeeded \<or> (\<exists>msg. f = FailedSkip msg) \<Longrightarrow> part_done p [a] f"
| again: "fate p a = FailedRetry \<Longrightarrow> part_done p as f \<Longrightarrow> part_done p (a # as) f"

inductive parts_done :: "split_part list \<Rightarrow> attempt list \<Rightarrow> part_fate list \<Rightarrow> bool" where
  none: "parts_done [] as []"
| next_part: "part_done p as f \<Longrightarrow> parts_done ps bs fs \<Longrightarrow> parts_done (p # ps) (as @ bs) (f # fs)"

definition fates_sum :: "split_part list \<Rightarrow> part_fate list \<Rightarrow> (nat \<times> string) list" where
  "fates_sum ps fs = concat (map2 (\<lambda>p f. case f of FailedSkip msg \<Rightarrow> [(sp_index p, msg)] | _ \<Rightarrow> []) ps fs)"

lemma parts_done_retry:
  assumes "fate p a = FailedRetry" "parts_done (p # ps) as fs"
  shows "parts_done (p # ps) (a # as) fs"
  using assms(2)
proof cases
  case (next_part as' f bs fs')
  have "part_done p (a # as') f"
    using assms(1) next_part by (intro part_done.again)
  from parts_done.next_part [OF this next_part(4)] next_part show ?thesis by simp
qed

text \<open>What a run of the loop from a state adds to it.\<close>

definition run_adds :: "string list \<Rightarrow> split_part list \<Rightarrow> attempt list \<Rightarrow> split_state \<Rightarrow> split_state \<Rightarrow> part_fate list \<Rightarrow> bool" where
  "run_adds ex ps as st st' fs \<longleftrightarrow> parts_done ps as fs \<and> length fs = length ps
    \<and> st_succeeded st' = st_succeeded st + length (filter (\<lambda>f. f = Succeeded) fs)
    \<and> st_failures st' = st_failures st @ fates_sum ps fs
    \<and> (\<exists>more. st_started st' = st_started st @ more \<and> remdups_adj (map fst more) = remdups_adj ps
         \<and> (\<forall>(p, e) \<in> set more. e = ex @ sp_exclude_list p))
    \<and> (\<forall>f \<in> set fs. f = Succeeded \<or> (\<exists>msg. f = FailedSkip msg))"

lemma remdups_adj_Cons_cong: "remdups_adj xs = remdups_adj ys \<Longrightarrow> remdups_adj (p # xs) = remdups_adj (p # ys)"
  by (simp add: remdups_adj_Cons)

lemma remdups_adj_repeat: "remdups_adj xs = remdups_adj (p # ys) \<Longrightarrow> remdups_adj (p # xs) = remdups_adj (p # ys)"
  by (cases ys) (auto simp: remdups_adj_Cons split: list.splits)

lemma run_adds_done:
  assumes "run_adds ex ps as (st1\<lparr>st_succeeded := st_succeeded st1 + n, st_failures := st_failures st1 @ fl\<rparr>) st' fs"
    and "st1 = start_part ex p st" "fate p a = f"
    and "f = Succeeded \<and> n = 1 \<and> fl = [] \<or> (\<exists>msg. f = FailedSkip msg \<and> n = 0 \<and> fl = [(sp_index p, msg)])"
  shows "run_adds ex (p # ps) (a # as) st st' (f # fs)"
proof -
  have "part_done p [a] f"
    using assms(3,4) by (intro part_done.last) auto
  with assms(1) have "parts_done (p # ps) (a # as) (f # fs)"
    using parts_done.next_part [of p "[a]" f ps as fs] by (simp add: run_adds_def)
  moreover obtain more where "st_started st' = st_started st1 @ more" "remdups_adj (map fst more) = remdups_adj ps"
    "\<forall>(p, e) \<in> set more. e = ex @ sp_exclude_list p"
    using assms(1) by (auto simp: run_adds_def)
  then have "\<exists>more. st_started st' = st_started st @ more \<and> remdups_adj (map fst more) = remdups_adj (p # ps)
         \<and> (\<forall>(p, e) \<in> set more. e = ex @ sp_exclude_list p)"
    using remdups_adj_Cons_cong
    by (intro exI [of _ "(p, ex @ sp_exclude_list p) # more"]) (simp add: assms(2) start_part_def)
  ultimately show ?thesis
    using assms by (auto simp: run_adds_def fates_sum_def start_part_def)
qed

lemma run_parts_adds:
  "run_parts ex ps as st = Some st' \<Longrightarrow> \<exists>fs. run_adds ex ps as st st' fs"
proof (induction ex ps as st rule: run_parts.induct)
  case (1 ex as st)
  then show ?case
    by (intro exI [of _ "[]"]) (auto simp: run_adds_def fates_sum_def intro: parts_done.none)
next
  case (3 ex p ps a as st)
  let ?st = "start_part ex p st"
  show ?case
  proof (cases "fate p a")
    case Succeeded
    with 3 obtain fs where "run_adds ex ps as (?st\<lparr>st_succeeded := st_succeeded ?st + 1\<rparr>) st' fs"
      by (auto simp: Let_def)
    then have "run_adds ex ps as (?st\<lparr>st_succeeded := st_succeeded ?st + 1, st_failures := st_failures ?st @ []\<rparr>) st' fs"
      by (simp add: start_part_def)
    from run_adds_done [OF this refl Succeeded] show ?thesis by blast
  next
    case FailedRetry
    with 3 obtain fs where fs: "run_adds ex (p # ps) as ?st st' fs"
      by (auto simp: Let_def)
    then obtain more where "st_started st' = st_started ?st @ more" "remdups_adj (map fst more) = remdups_adj (p # ps)"
      "\<forall>(p, e) \<in> set more. e = ex @ sp_exclude_list p"
      by (auto simp: run_adds_def)
    then have "\<exists>more. st_started st' = st_started st @ more \<and> remdups_adj (map fst more) = remdups_adj (p # ps)
         \<and> (\<forall>(p, e) \<in> set more. e = ex @ sp_exclude_list p)"
      using remdups_adj_repeat
      by (intro exI [of _ "(p, ex @ sp_exclude_list p) # more"]) (simp add: start_part_def)
    then show ?thesis
      using fs parts_done_retry [OF FailedRetry] by (auto simp: run_adds_def start_part_def)
  next
    case (FailedSkip msg)
    with 3 obtain fs where "run_adds ex ps as (?st\<lparr>st_failures := st_failures ?st @ [(sp_index p, msg)]\<rparr>) st' fs"
      by (auto simp: Let_def)
    then have "run_adds ex ps as (?st\<lparr>st_succeeded := st_succeeded ?st + 0, st_failures := st_failures ?st @ [(sp_index p, msg)]\<rparr>) st' fs"
      by (simp add: start_part_def)
    from run_adds_done [OF this refl FailedSkip] show ?thesis by blast
  next
    case Waiting
    with 3 show ?thesis by (simp add: Let_def)
  qed
qed simp

lemma fates_sum_empty:
  assumes "length fs = length ps" "\<forall>f \<in> set fs. f = Succeeded \<or> (\<exists>msg. f = FailedSkip msg)"
  shows "length (filter (\<lambda>f. f = Succeeded) fs) + length (fates_sum ps fs) = length ps"
    and "fates_sum ps fs = [] \<longleftrightarrow> (\<forall>f \<in> set fs. f = Succeeded)"
  using assms by (induction fs ps rule: list_induct2) (auto simp: fates_sum_def)

text \<open>
  C19: The sum of a split backup is honest. When the loop ends, every part of the plan was
  started, in the order of the plan and with its own excludes added to the user's; each was
  started again only after a failure the user asked to retry, and ended in success (the end of
  a backup with its ID, or one without an ID, that says so) or was skipped after a failure; the
  two counts add up to the parts, and all done is claimed just when every part succeeded.
\<close>

theorem split_sum_honest:
  assumes "executeSplitBackup dirs ex (Some (Inr plan)) whole as = (r, Some st)"
  shows "\<exists>fs. parts_done plan as fs \<and> length fs = length plan
    \<and> remdups_adj (map fst (st_started st)) = remdups_adj plan
    \<and> (\<forall>(p, e) \<in> set (st_started st). e = ex @ sp_exclude_list p)
    \<and> st_succeeded st = length (filter (\<lambda>f. f = Succeeded) fs)
    \<and> st_succeeded st + length (st_failures st) = length plan
    \<and> (r = AllPartsDone (length plan) (length plan) \<longleftrightarrow> (\<forall>f \<in> set fs. f = Succeeded))
    \<and> (r = PartialBackup (st_succeeded st) (length plan) (st_failures st) \<longleftrightarrow> (\<exists>f \<in> set fs. f \<noteq> Succeeded))"
proof -
  from assms have run: "run_parts ex plan as split_start = Some st"
    and r: "r = (if st_failures st = [] then AllPartsDone (st_succeeded st) (length plan)
      else PartialBackup (st_succeeded st) (length plan) (st_failures st))"
    by (auto simp: executeSplitBackup_def split: option.splits if_splits)
  from run_parts_adds [OF run] obtain fs where fs: "parts_done plan as fs" "length fs = length plan"
    "st_succeeded st = length (filter (\<lambda>f. f = Succeeded) fs)" "st_failures st = fates_sum plan fs"
    "remdups_adj (map fst (st_started st)) = remdups_adj plan" "\<forall>(p, e) \<in> set (st_started st). e = ex @ sp_exclude_list p"
    "\<forall>f \<in> set fs. f = Succeeded \<or> (\<exists>msg. f = FailedSkip msg)"
    by (auto simp: run_adds_def split_start_def)
  have sum: "st_succeeded st + length (st_failures st) = length plan"
    "st_failures st = [] \<longleftrightarrow> (\<forall>f \<in> set fs. f = Succeeded)"
    using fates_sum_empty [OF fs(2,7)] fs(3,4) by auto
  then have "r = AllPartsDone (length plan) (length plan) \<longleftrightarrow> (\<forall>f \<in> set fs. f = Succeeded)"
    "r = PartialBackup (st_succeeded st) (length plan) (st_failures st) \<longleftrightarrow> (\<exists>f \<in> set fs. f \<noteq> Succeeded)"
    unfolding r by auto
  with fs sum(1) show ?thesis by blast
qed

definition two_parts :: "split_part list" where
  "two_parts = [\<lparr>sp_index = 1, sp_total_jobs = 2, sp_backup_id = ''pc-1'', sp_folders = [''C:/a''], sp_exclude_list = []\<rparr>,
     \<lparr>sp_index = 2, sp_total_jobs = 2, sp_backup_id = ''pc-2'', sp_folders = [''C:/''], sp_exclude_list = [''C:/a'']\<rparr>]"

definition two_part_attempts :: "attempt list" where
  "two_part_attempts = [StartFailed ''busy'' True, Followed [Some (''other'', True, []), Some (''pc-1'', True, [])] False,
     Followed [Some (''pc-2'', False, ''lost'')] False]"

theorem split_sum_honest_witness:
  "\<exists>st. executeSplitBackup [''C:/''] [''*.tmp''] (Some (Inr two_parts)) None two_part_attempts
    = (PartialBackup 1 2 [(2, ''lost'')], Some st) \<and> st_succeeded st + length (st_failures st) = 2"
proof -
  obtain st where r: "executeSplitBackup [''C:/''] [''*.tmp''] (Some (Inr two_parts)) None two_part_attempts
      = (PartialBackup 1 2 [(2, ''lost'')], Some st)"
  proof -
    have "fst (executeSplitBackup [''C:/''] [''*.tmp''] (Some (Inr two_parts)) None two_part_attempts)
        = PartialBackup 1 2 [(2, ''lost'')]"
      "snd (executeSplitBackup [''C:/''] [''*.tmp''] (Some (Inr two_parts)) None two_part_attempts) \<noteq> None"
      by code_simp+
    then show thesis using that by (metis not_None_eq prod.collapse)
  qed
  moreover have "length two_parts = 2"
    by (simp add: two_parts_def)
  ultimately show ?thesis
    using split_sum_honest [OF r] by auto
qed

end
