(* ===== verification/Restore.thy ===== *)
theory Restore
  imports JsPrelude "HOL-Library.Sorting_Algorithms"
begin

text \<open>
  The Restore tab (\<open>App.jsx\<close>): the list of snapshots, the tree of the open one, what is ticked in
  it, and the restore itself. Each request to the backend is kept in \<open>in_flight\<close> until an
  \<open>Answered\<close> event gives its answer, in any order and between any clicks. What the server holds
  (\<open>restore_backend\<close>), the other states of the window (\<open>restore_env\<close>) and the collator are
  arguments.
\<close>

section \<open>The data\<close>

record snapshot =
  sn_id :: string
  sn_backup_id :: string
  sn_unix :: int
  sn_files :: "string list"

record entry =
  en_path :: string
  en_is_dir :: bool

text \<open>The sidecar of a snapshot; an absent field is empty.\<close>

record meta =
  me_original_path :: string
  me_os :: string
  me_hostname :: string

record tree_ctx =
  cx_pbs :: string
  cx_backup_id :: string
  cx_unix :: int
  cx_gen :: nat

datatype restore_mode = Original | Alternate_abs | Alternate_flat

record restore_opts =
  ro_overwrite :: bool
  ro_timestamps :: bool
  ro_verify :: bool
  ro_acls :: bool
  ro_ads :: bool

record request =
  rq_pbs :: string
  rq_backup_id :: string
  rq_snapshot :: string
  rq_dest :: string
  rq_mode :: restore_mode
  rq_includes :: "string list"
  rq_cross_host :: bool
  rq_opts :: restore_opts

text \<open>
  A call whose answer is awaited. The opening of a snapshot and the reading of its sidecar carry
  the path of the search hit they were started for, whose ticking follows them.
\<close>

datatype call =
    ListCall nat string string
  | OpenCall tree_ctx bool "string option"
  | MetaCall tree_ctx "string option"
  | FolderCall nat tree_ctx string
  | RestoreCall request

datatype wait_kind = ListWait | FolderWait

record restore_page =
  snapshots :: "snapshot list"
  showSnapshots :: bool
  restorePBSID :: string
  restoreBackupId :: string
  selectedSnapshot :: "snapshot option"
  snapshotMeta :: "meta option"
  snapshotChildren :: "string \<Rightarrow> entry list option"
  snapshotCount :: nat
  moreShown :: "string \<Rightarrow> nat option"
  snapshotCtx :: "tree_ctx option"
  expandedDirs :: "string set"
  selectedPaths :: "string list"
  restoreDestPath :: string
  restoreMode :: restore_mode
  restoreKeepTree :: bool
  restoreAllowCrossHost :: bool
  restoreOptions :: restore_opts
  restoreLoading :: bool
  snapshotReading :: bool
  serverWait :: "(nat \<times> wait_kind) option"
  waitSeq :: nat
  in_flight :: "call list"

record restore_env =
  en_servers :: "string list"
  en_hostname :: string
  en_os :: string
  en_collator :: "string comparator"

text \<open>What the server holds; \<open>rb_list\<close> answers null as \<open>None\<close>.\<close>

record restore_backend =
  rb_list :: "string \<Rightarrow> string \<Rightarrow> snapshot list option"
  rb_children :: "string \<Rightarrow> string \<Rightarrow> int \<Rightarrow> string \<Rightarrow> entry list"
  rb_count :: "string \<Rightarrow> string \<Rightarrow> int \<Rightarrow> nat"
  rb_meta :: "string \<Rightarrow> string \<Rightarrow> int \<Rightarrow> meta option"

record hit =
  hi_backup_id :: string
  hi_snapshot_time :: int
  hi_path :: string

section \<open>Listing and opening\<close>

text \<open>Folders first, each kind in the collator's order.\<close>

definition child_order :: "string comparator \<Rightarrow> entry comparator" where
  "child_order c = key (\<lambda>e. (\<not> en_is_dir e, en_path e)) (prod_lex default c)"

definition sortChildren :: "string comparator \<Rightarrow> entry list \<Rightarrow> entry list" where
  "sortChildren c l = Sorting_Algorithms.sort (child_order c) l"

definition beginServerWait :: "wait_kind \<Rightarrow> restore_page \<Rightarrow> restore_page" where
  "beginServerWait k s = s\<lparr>waitSeq := waitSeq s + 1, serverWait := Some (waitSeq s + 1, k)\<rparr>"

definition endServerWait :: "nat \<Rightarrow> restore_page \<Rightarrow> restore_page" where
  "endServerWait n s =
     (case serverWait s of
        None \<Rightarrow> s
      | Some (m, k) \<Rightarrow> if m = n then s\<lparr>serverWait := None\<rparr> else s)"

definition send :: "call \<Rightarrow> restore_page \<Rightarrow> restore_page" where
  "send c s = s\<lparr>in_flight := in_flight s @ [c]\<rparr>"

definition changeServer :: "string \<Rightarrow> restore_page \<Rightarrow> restore_page" where
  "changeServer i s =
     s\<lparr>restorePBSID := i, showSnapshots := False, selectedSnapshot := None,
       snapshotChildren := (\<lambda>_. None), snapshotCount := 0, snapshotCtx := None\<rparr>"

definition handleListSnapshots :: "restore_env \<Rightarrow> restore_page \<Rightarrow> restore_page" where
  "handleListSnapshots env s =
     (if en_servers env = [] then s
      else
        let s = s\<lparr>selectedSnapshot := None, snapshotChildren := (\<lambda>_. None), snapshotCount := 0,
                  snapshotCtx := None, selectedPaths := [], expandedDirs := {}\<rparr>;
            s = beginServerWait ListWait s
        in send (ListCall (waitSeq s) (restorePBSID s) (restoreBackupId s)) s)"

text \<open>The answer to a listing: \<open>None\<close> an error, \<open>Some None\<close> null.\<close>

definition list_answered :: "nat \<Rightarrow> snapshot list option option \<Rightarrow> restore_page \<Rightarrow> restore_page" where
  "list_answered n r s =
     endServerWait n
       (case r of
          None \<Rightarrow> s
        | Some snaps \<Rightarrow>
            if waitSeq s \<noteq> n then s
            else s\<lparr>snapshots := (case snaps of None \<Rightarrow> [] | Some l \<Rightarrow> l), showSnapshots := True\<rparr>)"

definition effectiveBackupId :: "snapshot \<Rightarrow> restore_page \<Rightarrow> string" where
  "effectiveBackupId snap s = (if sn_backup_id snap \<noteq> [] then sn_backup_id snap else restoreBackupId s)"

definition next_gen :: "restore_page \<Rightarrow> nat" where
  "next_gen s = (case snapshotCtx s of None \<Rightarrow> 0 | Some c \<Rightarrow> cx_gen c) + 1"

definition handleSelectSnapshot :: "snapshot \<Rightarrow> bool \<Rightarrow> string option \<Rightarrow> restore_page \<Rightarrow> restore_page" where
  "handleSelectSnapshot snap forceRefresh then_tick s =
     (let ctx = \<lparr>cx_pbs = restorePBSID s, cx_backup_id = effectiveBackupId snap s, cx_unix = sn_unix snap,
                 cx_gen = next_gen s\<rparr>
      in send (OpenCall ctx forceRefresh then_tick)
           (s\<lparr>selectedSnapshot := Some snap, snapshotMeta := None, snapshotChildren := (\<lambda>_. None),
              snapshotCount := 0, moreShown := (\<lambda>_. None), selectedPaths := [], expandedDirs := {},
              snapshotReading := True, snapshotCtx := Some ctx\<rparr>))"

definition same_gen :: "tree_ctx \<Rightarrow> restore_page \<Rightarrow> bool" where
  "same_gen c s = (case snapshotCtx s of None \<Rightarrow> False | Some d \<Rightarrow> cx_gen d = cx_gen c)"

text \<open>The folders on the way to a search hit.\<close>

fun hit_dirs :: "string \<Rightarrow> string list \<Rightarrow> string list" where
  "hit_dirs acc (p # q # ps) =
     (let acc = (if acc \<noteq> [] then acc @ ''/'' @ p else p) in acc # hit_dirs acc (q # ps))"
| "hit_dirs acc ps = []"

text \<open>What \<open>handleRestoreHit\<close> does once \<open>handleSelectSnapshot\<close> has returned.\<close>

definition tick_hit :: "string option \<Rightarrow> restore_page \<Rightarrow> restore_page" where
  "tick_hit h s =
     (case h of
        None \<Rightarrow> s
      | Some path \<Rightarrow> s\<lparr>selectedPaths := [path], expandedDirs := set (hit_dirs [] (split_on slash path))\<rparr>)"

definition open_answered :: "string comparator \<Rightarrow> tree_ctx \<Rightarrow> string option \<Rightarrow> (entry list \<times> nat) option \<Rightarrow> restore_page \<Rightarrow> restore_page" where
  "open_answered coll c h r s =
     (case r of
        Some (rt, cnt) \<Rightarrow>
          if \<not> same_gen c s then tick_hit h s
          else
            let rt = sortChildren coll rt in
            send (MetaCall c h)
              (s\<lparr>snapshotChildren := (\<lambda>_. None)([] \<mapsto> rt), snapshotCount := cnt,
                 selectedPaths := uniq (map en_path rt), snapshotReading := False\<rparr>)
      | None \<Rightarrow>
          if \<not> same_gen c s then tick_hit h s
          else send (MetaCall c h) (s\<lparr>snapshotReading := False\<rparr>))"

definition meta_answered :: "string option \<Rightarrow> meta option option \<Rightarrow> restore_page \<Rightarrow> restore_page" where
  "meta_answered h r s =
     tick_hit h
       (case r of
          None \<Rightarrow> s
        | Some None \<Rightarrow> s
        | Some (Some m) \<Rightarrow> s\<lparr>snapshotMeta := Some m\<rparr>)"

definition handleReloadSnapshot :: "restore_page \<Rightarrow> restore_page" where
  "handleReloadSnapshot s =
     (case selectedSnapshot s of None \<Rightarrow> s | Some snap \<Rightarrow> handleSelectSnapshot snap True None s)"

text \<open>The ID is a text of the hit's time, \<open>stamp\<close> here.\<close>

definition handleRestoreHit :: "(int \<Rightarrow> string) \<Rightarrow> hit \<Rightarrow> restore_page \<Rightarrow> restore_page" where
  "handleRestoreHit stamp h s =
     (handleSelectSnapshot
        \<lparr>sn_id = stamp (hi_snapshot_time h), sn_backup_id = hi_backup_id h, sn_unix = hi_snapshot_time h, sn_files = []\<rparr>
        False (Some (hi_path h)) s)
     \<lparr>restoreBackupId := hi_backup_id h, showSnapshots := True\<rparr>"

section \<open>The tree\<close>

definition loadChildren :: "string \<Rightarrow> restore_page \<Rightarrow> restore_page" where
  "loadChildren path s =
     (case snapshotCtx s of
        None \<Rightarrow> s
      | Some ctx \<Rightarrow> (let s = beginServerWait FolderWait s in send (FolderCall (waitSeq s) ctx path) s))"

definition folder_answered :: "string comparator \<Rightarrow> nat \<Rightarrow> tree_ctx \<Rightarrow> string \<Rightarrow> entry list option \<Rightarrow> restore_page \<Rightarrow> restore_page" where
  "folder_answered coll n c path r s =
     endServerWait n
       (case r of
          None \<Rightarrow> s
        | Some l \<Rightarrow>
            if \<not> same_gen c s then s
            else s\<lparr>snapshotChildren := (snapshotChildren s)(path \<mapsto> sortChildren coll l)\<rparr>)"

definition toggleDir :: "string \<Rightarrow> restore_page \<Rightarrow> restore_page" where
  "toggleDir path s =
     (let s' = s\<lparr>expandedDirs := (if path \<in> expandedDirs s then expandedDirs s - {path} else insert path (expandedDirs s))\<rparr>
      in if path \<notin> expandedDirs s \<and> snapshotChildren s path = None then loadChildren path s' else s')"

definition togglePathSelection :: "string \<Rightarrow> restore_page \<Rightarrow> restore_page" where
  "togglePathSelection path s =
     s\<lparr>selectedPaths := (if path \<in> set (selectedPaths s) then filter (\<lambda>p. p \<noteq> path) (selectedPaths s)
                         else selectedPaths s @ [path])\<rparr>"

definition handleSelectAllEntries :: "restore_page \<Rightarrow> restore_page" where
  "handleSelectAllEntries s =
     s\<lparr>selectedPaths := uniq (map en_path (case snapshotChildren s [] of None \<Rightarrow> [] | Some l \<Rightarrow> l))\<rparr>"

definition handleSelectNoneEntries :: "restore_page \<Rightarrow> restore_page" where
  "handleSelectNoneEntries s = s\<lparr>selectedPaths := []\<rparr>"

definition TREE_PAGE :: nat where
  "TREE_PAGE = 1000"

definition shown_limit :: "restore_page \<Rightarrow> string \<Rightarrow> nat" where
  "shown_limit s path = (case moreShown s path of None \<Rightarrow> TREE_PAGE | Some n \<Rightarrow> if n = 0 then TREE_PAGE else n)"

definition showMore :: "string \<Rightarrow> restore_page \<Rightarrow> restore_page" where
  "showMore path s = s\<lparr>moreShown := (moreShown s)(path \<mapsto> shown_limit s path + TREE_PAGE)\<rparr>"

text \<open>The rows a folder shows, and those of the whole tree to a given depth.\<close>

definition shown_children :: "restore_page \<Rightarrow> string \<Rightarrow> entry list" where
  "shown_children s path = (case snapshotChildren s path of None \<Rightarrow> [] | Some l \<Rightarrow> take (shown_limit s path) l)"

fun shown_rows :: "nat \<Rightarrow> restore_page \<Rightarrow> string \<Rightarrow> entry list" where
  "shown_rows 0 s path = []"
| "shown_rows (Suc n) s path =
     concat (map (\<lambda>e. e # (if en_is_dir e \<and> en_path e \<in> expandedDirs s then shown_rows n s (en_path e) else []))
       (shown_children s path))"

section \<open>The restore\<close>

definition isDiskImageSnapshot :: "snapshot option \<Rightarrow> bool" where
  "isDiskImageSnapshot snap =
     (let files = (case snap of None \<Rightarrow> [] | Some sn \<Rightarrow> sn_files sn) in
      list_ex (\<lambda>f. endsWith f ''.img.fidx'') files
      \<and> \<not> list_ex (\<lambda>f. endsWith f ''.pxar.didx'' \<or> endsWith f ''.mpxar.didx'') files)"

definition inPlaceBlocker :: "restore_env \<Rightarrow> restore_page \<Rightarrow> string option" where
  "inPlaceBlocker env s =
     (if isDiskImageSnapshot (selectedSnapshot s) then Some ''inPlaceDiskImage''
      else case snapshotMeta s of
        None \<Rightarrow> Some ''inPlaceNoMeta''
      | Some m \<Rightarrow>
          if me_original_path m = [] then Some ''inPlaceNoOriginalPath''
          else if en_os env \<noteq> [] \<and> me_os m \<noteq> [] \<and> en_os env \<noteq> me_os m then Some ''inPlaceOsMismatch''
          else None)"

definition host_part :: "string \<Rightarrow> string" where
  "host_part h = hd (split_on (CHR ''.'') (toLowerCase h))"

definition crossHostMismatch :: "restore_env \<Rightarrow> restore_page \<Rightarrow> bool" where
  "crossHostMismatch env s =
     (case snapshotMeta s of
        None \<Rightarrow> False
      | Some m \<Rightarrow> me_hostname m \<noteq> [] \<and> en_hostname env \<noteq> [] \<and> host_part (me_hostname m) \<noteq> host_part (en_hostname env))"

definition mode_effect :: "restore_env \<Rightarrow> restore_page \<Rightarrow> restore_page" where
  "mode_effect env s =
     (if restoreMode s \<noteq> Original then s
      else case snapshotMeta s of
        None \<Rightarrow> s\<lparr>restoreMode := Alternate_abs\<rparr>
      | Some m \<Rightarrow>
          if me_original_path m = [] then s\<lparr>restoreMode := Alternate_abs\<rparr>
          else if en_os env \<noteq> [] \<and> me_os m \<noteq> [] \<and> en_os env \<noteq> me_os m then s\<lparr>restoreMode := Alternate_abs\<rparr>
          else s)"

definition effectiveMode :: "restore_page \<Rightarrow> restore_mode" where
  "effectiveMode s =
     (if restoreMode s \<noteq> Original then (if restoreKeepTree s then Alternate_abs else Alternate_flat) else restoreMode s)"

text \<open>\<open>confirmed\<close> is the answer to the question asked before restoring in place.\<close>

definition handleRestoreSnapshot :: "bool \<Rightarrow> restore_page \<Rightarrow> restore_page" where
  "handleRestoreSnapshot confirmed s =
     (case selectedSnapshot s of
        None \<Rightarrow> s
      | Some snap \<Rightarrow>
          if effectiveMode s \<noteq> Original \<and> restoreDestPath s = [] then s
          else if effectiveMode s = Original \<and> \<not> confirmed then s
          else if selectedPaths s = [] then s
          else
            send (RestoreCall
              \<lparr>rq_pbs = restorePBSID s, rq_backup_id = effectiveBackupId snap s, rq_snapshot = sn_id snap,
               rq_dest = restoreDestPath s, rq_mode = effectiveMode s, rq_includes = selectedPaths s,
               rq_cross_host = restoreAllowCrossHost s, rq_opts = restoreOptions s\<rparr>)
              (s\<lparr>restoreLoading := True\<rparr>))"

text \<open>The button is disabled while a restore runs, and for another computer's backup in place.\<close>

definition restoreDisabled :: "restore_env \<Rightarrow> restore_page \<Rightarrow> bool" where
  "restoreDisabled env s =
     (restoreLoading s \<or> restoreMode s = Original \<and> crossHostMismatch env s \<and> \<not> restoreAllowCrossHost s)"

definition restore_answered :: "bool \<Rightarrow> restore_page \<Rightarrow> restore_page" where
  "restore_answered ok s = (if ok then s else s\<lparr>restoreLoading := False\<rparr>)"

section \<open>Events\<close>

datatype restore_event =
    ChooseServer string
  | TypeId string
  | ListClicked
  | ClickSnapshot snapshot
  | ReloadClicked
  | RestoreHit hit
  | ClickDir string
  | ClickBox string
  | AllClicked
  | NoneClicked
  | MoreClicked string
  | InPlaceChosen
  | AlternateChosen
  | TypeDest string
  | KeepTreeSet bool
  | CrossHostSet bool
  | OptionsSet restore_opts
  | RestoreClicked bool
  | RestoreCompleted
  | Answered nat bool

text \<open>The answer to a call: the server's, or an error.\<close>

definition answered :: "restore_env \<Rightarrow> restore_backend \<Rightarrow> bool \<Rightarrow> call \<Rightarrow> restore_page \<Rightarrow> restore_page" where
  "answered env b ok c s =
     (let coll = en_collator env in
      case c of
        ListCall n p i \<Rightarrow> list_answered n (if ok then Some (rb_list b p i) else None) s
      | OpenCall cx f h \<Rightarrow> open_answered coll cx h
          (if ok then Some (rb_children b (cx_pbs cx) (cx_backup_id cx) (cx_unix cx) [],
                            rb_count b (cx_pbs cx) (cx_backup_id cx) (cx_unix cx)) else None) s
      | MetaCall cx h \<Rightarrow> meta_answered h (if ok then Some (rb_meta b (cx_pbs cx) (cx_backup_id cx) (cx_unix cx)) else None) s
      | FolderCall n cx p \<Rightarrow> folder_answered coll n cx p
          (if ok then Some (rb_children b (cx_pbs cx) (cx_backup_id cx) (cx_unix cx) p) else None) s
      | RestoreCall r \<Rightarrow> restore_answered ok s)"

text \<open>The elements that can be clicked.\<close>

definition enabled :: "restore_env \<Rightarrow> restore_page \<Rightarrow> restore_event \<Rightarrow> bool" where
  "enabled env s ev =
     (case ev of
        ListClicked \<Rightarrow> (case serverWait s of Some (n, ListWait) \<Rightarrow> False | _ \<Rightarrow> True)
      | ClickSnapshot sn \<Rightarrow> showSnapshots s \<and> sn \<in> set (snapshots s)
      | ClickDir p \<Rightarrow> selectedSnapshot s \<noteq> None \<and> (\<exists>n. \<exists>e \<in> set (shown_rows n s []). en_is_dir e \<and> en_path e = p)
      | ClickBox p \<Rightarrow> selectedSnapshot s \<noteq> None \<and> (\<exists>n. \<exists>e \<in> set (shown_rows n s []). en_path e = p)
      | AllClicked \<Rightarrow> selectedSnapshot s \<noteq> None
      | InPlaceChosen \<Rightarrow> selectedSnapshot s \<noteq> None \<and> inPlaceBlocker env s = None
      | RestoreClicked c \<Rightarrow> selectedSnapshot s \<noteq> None \<and> \<not> restoreDisabled env s
      | Answered i ok \<Rightarrow> i < length (in_flight s)
      | _ \<Rightarrow> True)"

definition handle_event :: "restore_env \<Rightarrow> restore_backend \<Rightarrow> (int \<Rightarrow> string) \<Rightarrow> restore_event \<Rightarrow> restore_page \<Rightarrow> restore_page" where
  "handle_event env b stamp ev s =
     (case ev of
        ChooseServer i \<Rightarrow> changeServer i s
      | TypeId i \<Rightarrow> s\<lparr>restoreBackupId := i\<rparr>
      | ListClicked \<Rightarrow> handleListSnapshots env s
      | ClickSnapshot sn \<Rightarrow> handleSelectSnapshot sn False None s
      | ReloadClicked \<Rightarrow> handleReloadSnapshot s
      | RestoreHit h \<Rightarrow> handleRestoreHit stamp h s
      | ClickDir p \<Rightarrow> toggleDir p s
      | ClickBox p \<Rightarrow> togglePathSelection p s
      | AllClicked \<Rightarrow> handleSelectAllEntries s
      | NoneClicked \<Rightarrow> handleSelectNoneEntries s
      | MoreClicked p \<Rightarrow> showMore p s
      | InPlaceChosen \<Rightarrow> s\<lparr>restoreMode := Original\<rparr>
      | AlternateChosen \<Rightarrow> s\<lparr>restoreMode := Alternate_abs\<rparr>
      | TypeDest d \<Rightarrow> s\<lparr>restoreDestPath := d\<rparr>
      | KeepTreeSet k \<Rightarrow> s\<lparr>restoreKeepTree := k\<rparr>
      | CrossHostSet k \<Rightarrow> s\<lparr>restoreAllowCrossHost := k\<rparr>
      | OptionsSet k \<Rightarrow> s\<lparr>restoreOptions := k\<rparr>
      | RestoreClicked c \<Rightarrow> handleRestoreSnapshot c s
      | RestoreCompleted \<Rightarrow> s\<lparr>restoreLoading := False\<rparr>
      | Answered i ok \<Rightarrow>
          answered env b ok (in_flight s ! i) (s\<lparr>in_flight := take i (in_flight s) @ drop (Suc i) (in_flight s)\<rparr>))"

text \<open>After every event the effect on the mode runs.\<close>

definition restore_step :: "restore_env \<Rightarrow> restore_backend \<Rightarrow> (int \<Rightarrow> string) \<Rightarrow> restore_event \<Rightarrow> restore_page \<Rightarrow> restore_page" where
  "restore_step env b stamp ev s = mode_effect env (handle_event env b stamp ev s)"

section \<open>Runs of the tab\<close>

text \<open>
  The states reached from a page through events that can happen and that meet \<open>Q\<close>, in any order
  of clicks and answers.
\<close>

inductive restore_run :: "(restore_page \<Rightarrow> restore_event \<Rightarrow> bool) \<Rightarrow> restore_env \<Rightarrow> restore_backend \<Rightarrow> (int \<Rightarrow> string)
    \<Rightarrow> restore_page \<Rightarrow> restore_page \<Rightarrow> bool"
  for Q env b stamp s0 where
  start: "restore_run Q env b stamp s0 s0"
| event: "restore_run Q env b stamp s0 s \<Longrightarrow> enabled env s ev \<Longrightarrow> Q s ev
    \<Longrightarrow> restore_run Q env b stamp s0 (restore_step env b stamp ev s)"

text \<open>The tab before anything was listed.\<close>

definition fresh_page :: "restore_page \<Rightarrow> bool" where
  "fresh_page s \<longleftrightarrow> snapshots s = [] \<and> selectedSnapshot s = None \<and> snapshotMeta s = None
     \<and> snapshotChildren s = (\<lambda>_. None) \<and> snapshotCtx s = None \<and> selectedPaths s = [] \<and> expandedDirs s = {}
     \<and> restoreMode s = Alternate_abs \<and> \<not> restoreLoading s \<and> in_flight s = []"

lemmas restore_defs = handleListSnapshots_def list_answered_def handleSelectSnapshot_def handleReloadSnapshot_def
  handleRestoreHit_def open_answered_def meta_answered_def folder_answered_def tick_hit_def loadChildren_def toggleDir_def
  togglePathSelection_def handleSelectAllEntries_def handleSelectNoneEntries_def showMore_def changeServer_def
  handleRestoreSnapshot_def restore_answered_def beginServerWait_def endServerWait_def send_def

subsection \<open>What a restore is sent with\<close>

definition mode_ok :: "restore_env \<Rightarrow> restore_page \<Rightarrow> bool" where
  "mode_ok env s \<longleftrightarrow> (restoreMode s = Original \<longrightarrow> inPlaceBlocker env s = None)"

text \<open>The mode stays as the effect leaves it where the snapshot, its sidecar and the mode do not change.\<close>

lemma mode_ok_effect:
  assumes "restoreMode s = Original \<Longrightarrow> isDiskImageSnapshot (selectedSnapshot s) \<Longrightarrow> snapshotMeta s = None"
  shows "mode_ok env (mode_effect env s)"
  using assms by (auto simp: mode_ok_def mode_effect_def inPlaceBlocker_def split: option.splits)

lemma blocker_disk: "mode_ok env s \<Longrightarrow> restoreMode s = Original \<Longrightarrow> \<not> isDiskImageSnapshot (selectedSnapshot s)"
  by (auto simp: mode_ok_def inPlaceBlocker_def)

lemma not_disk_image_None [simp]: "\<not> isDiskImageSnapshot None"
  by (simp add: isDiskImageSnapshot_def)

text \<open>An answer leaves the mode and the chosen snapshot alone.\<close>

lemma answered_frame:
  "restoreMode (answered env b ok c s) = restoreMode s \<and> selectedSnapshot (answered env b ok c s) = selectedSnapshot s
   \<and> restorePBSID (answered env b ok c s) = restorePBSID s \<and> snapshotCtx (answered env b ok c s) = snapshotCtx s"
  by (cases c) (auto simp: answered_def restore_defs Let_def split: option.splits prod.splits)

lemma mode_ok_step:
  assumes ok: "mode_ok env s" and en: "enabled env s ev"
  shows "mode_ok env (restore_step env b stamp ev s)"
  unfolding restore_step_def
proof (rule mode_ok_effect)
  let ?s = "handle_event env b stamp ev s"
  assume m: "restoreMode ?s = Original" and d: "isDiskImageSnapshot (selectedSnapshot ?s)"
  show "snapshotMeta ?s = None"
  proof (cases ev)
    case (Answered i ok')
    with m d have "restoreMode s = Original" "isDiskImageSnapshot (selectedSnapshot s)"
      by (simp_all add: handle_event_def answered_frame)
    with blocker_disk [OF ok] show ?thesis by simp
  next
    case InPlaceChosen
    with en d show ?thesis by (auto simp: enabled_def handle_event_def inPlaceBlocker_def)
  qed (use m d blocker_disk [OF ok] in \<open>auto simp: handle_event_def restore_defs Let_def split: option.splits if_splits\<close>)
qed

lemma mode_ok_run:
  assumes "restore_run Q env b stamp s0 s" "fresh_page s0"
  shows "mode_ok env s"
  using assms(1)
proof induction
  case start
  with assms(2) show ?case by (simp add: mode_ok_def fresh_page_def)
next
  case (event s ev)
  then show ?case by (intro mode_ok_step)
qed

subsection \<open>What the tab shows is the chosen snapshot's\<close>

definition children_of :: "restore_backend \<Rightarrow> tree_ctx \<Rightarrow> string \<Rightarrow> entry list" where
  "children_of b c = rb_children b (cx_pbs c) (cx_backup_id c) (cx_unix c)"

definition listed :: "restore_backend \<Rightarrow> tree_ctx \<Rightarrow> string \<Rightarrow> bool" where
  "listed b c p \<longleftrightarrow> (\<exists>d. p \<in> en_path ` set (children_of b c d))"

text \<open>Calls whose answer changes the tree or the ticks.\<close>

fun tree_call :: "call \<Rightarrow> bool" where
  "tree_call (OpenCall c f h) = True"
| "tree_call (FolderCall n c p) = True"
| "tree_call (MetaCall c h) = (h \<noteq> None)"
| "tree_call c = False"

fun hit_call :: "call \<Rightarrow> bool" where
  "hit_call (OpenCall c f h) = (h \<noteq> None)"
| "hit_call (MetaCall c h) = (h \<noteq> None)"
| "hit_call c = False"

text \<open>
  An unhurried user: the server is not changed and nothing is listed while a tree or folder is
  being read, no other snapshot is opened before a search hit is ticked, and the hit is one of
  the server chosen now.
\<close>

definition unhurried :: "restore_backend \<Rightarrow> restore_page \<Rightarrow> restore_event \<Rightarrow> bool" where
  "unhurried b s ev =
     (case ev of
        ChooseServer i \<Rightarrow> \<not> list_ex tree_call (in_flight s)
      | ListClicked \<Rightarrow> \<not> list_ex tree_call (in_flight s)
      | ClickSnapshot sn \<Rightarrow> \<not> list_ex hit_call (in_flight s)
      | ReloadClicked \<Rightarrow> \<not> list_ex hit_call (in_flight s)
      | RestoreHit h \<Rightarrow> \<not> list_ex hit_call (in_flight s) \<and> hi_backup_id h \<noteq> []
          \<and> (\<exists>d. hi_path h \<in> en_path ` set (rb_children b (restorePBSID s) (hi_backup_id h) (hi_snapshot_time h) d))
      | _ \<Rightarrow> True)"

text \<open>Every snapshot the server lists names its backup ID.\<close>

definition named_snapshots :: "restore_backend \<Rightarrow> bool" where
  "named_snapshots b \<longleftrightarrow> (\<forall>p i l. rb_list b p i = Some l \<longrightarrow> (\<forall>sn \<in> set l. sn_backup_id sn \<noteq> []))"

definition call_ok :: "restore_backend \<Rightarrow> tree_ctx \<Rightarrow> call \<Rightarrow> bool" where
  "call_ok b c x =
     (case x of
        OpenCall d f h \<Rightarrow> cx_gen d \<le> cx_gen c \<and> (cx_gen d = cx_gen c \<longrightarrow> d = c) \<and> (\<forall>p. h = Some p \<longrightarrow> d = c \<and> listed b c p)
      | FolderCall n d p \<Rightarrow> cx_gen d \<le> cx_gen c \<and> (cx_gen d = cx_gen c \<longrightarrow> d = c)
      | MetaCall d h \<Rightarrow> (\<forall>p. h = Some p \<longrightarrow> d = c \<and> listed b c p)
      | _ \<Rightarrow> True)"

text \<open>The open snapshot, its context and its shown folders agree, and the calls in flight fit them.\<close>

definition ctx_of :: "restore_page \<Rightarrow> tree_ctx \<Rightarrow> bool" where
  "ctx_of s c \<longleftrightarrow> (\<exists>sn. selectedSnapshot s = Some sn \<and> sn_backup_id sn \<noteq> [] \<and> cx_pbs c = restorePBSID s
     \<and> cx_backup_id c = sn_backup_id sn \<and> cx_unix c = sn_unix sn)"

definition tree_ok :: "restore_env \<Rightarrow> restore_backend \<Rightarrow> restore_page \<Rightarrow> bool" where
  "tree_ok env b s =
     ((\<forall>sn \<in> set (snapshots s). sn_backup_id sn \<noteq> []) \<and>
      (case snapshotCtx s of
         None \<Rightarrow> selectedSnapshot s = None \<and> snapshotChildren s = (\<lambda>_. None) \<and> (\<forall>x \<in> set (in_flight s). \<not> tree_call x)
       | Some c \<Rightarrow> ctx_of s c
           \<and> (\<forall>p l. snapshotChildren s p = Some l \<longrightarrow> l = sortChildren (en_collator env) (children_of b c p))
           \<and> (\<forall>x \<in> set (in_flight s). call_ok b c x)
           \<and> (\<forall>p \<in> set (selectedPaths s). listed b c p)))"

text \<open>Only the fields it reads matter.\<close>

lemma tree_ok_frame:
  assumes "tree_ok env b s" "snapshots s' = snapshots s" "snapshotCtx s' = snapshotCtx s"
    "selectedSnapshot s' = selectedSnapshot s" "restorePBSID s' = restorePBSID s"
    "snapshotChildren s' = snapshotChildren s" "set (in_flight s') \<subseteq> set (in_flight s)"
    "set (selectedPaths s') \<subseteq> set (selectedPaths s)"
  shows "tree_ok env b s'"
  using assms(1,7,8) by (auto simp: tree_ok_def ctx_of_def assms(2-6) split: option.splits)

lemma tree_ok_mode_effect: "tree_ok env b s \<Longrightarrow> tree_ok env b (mode_effect env s)"
  by (erule tree_ok_frame) (auto simp: mode_effect_def split: option.splits)

lemma tree_ok_endWait: "tree_ok env b s \<Longrightarrow> tree_ok env b (endServerWait n s)"
  by (erule tree_ok_frame) (auto simp: endServerWait_def split: option.splits)

lemma tree_ok_send:
  assumes "tree_ok env b s" "\<And>c. snapshotCtx s = Some c \<Longrightarrow> call_ok b c x" "snapshotCtx s = None \<Longrightarrow> \<not> tree_call x"
  shows "tree_ok env b (send x s)"
  using assms by (auto simp: tree_ok_def ctx_of_def send_def split: option.splits)

lemma listed_sorted: "e \<in> set (sortChildren k (children_of b c d)) \<Longrightarrow> listed b c (en_path e)"
  by (auto simp: listed_def sortChildren_def)

lemma no_calls: "\<not> list_ex P xs \<Longrightarrow> x \<in> set xs \<Longrightarrow> \<not> P x"
  by (simp add: list_ex_iff)

lemma tree_ok_cleared:
  assumes "tree_ok env b s" "\<not> list_ex tree_call (in_flight s)"
    "snapshots s' = snapshots s" "selectedSnapshot s' = None" "snapshotChildren s' = (\<lambda>_. None)"
    "snapshotCtx s' = None" "in_flight s' = in_flight s"
  shows "tree_ok env b s'"
  using assms(1,2) by (auto simp: tree_ok_def assms(3-7) list_ex_iff)

lemma tree_ok_list:
  assumes "tree_ok env b s" "\<not> list_ex tree_call (in_flight s)"
  shows "tree_ok env b (handleListSnapshots env s)"
proof (cases "en_servers env = []")
  case False
  let ?s = "beginServerWait ListWait (s\<lparr>selectedSnapshot := None, snapshotChildren := (\<lambda>_. None), snapshotCount := 0,
                  snapshotCtx := None, selectedPaths := [], expandedDirs := {}\<rparr>)"
  have "tree_ok env b ?s"
    using tree_ok_cleared [OF assms] by (simp add: beginServerWait_def)
  then have "tree_ok env b (send (ListCall n p i) ?s)" for n p i
    by (rule tree_ok_send) (auto simp: call_ok_def)
  with False show ?thesis by (simp add: handleListSnapshots_def Let_def)
qed (use assms in \<open>simp add: handleListSnapshots_def\<close>)

text \<open>Opening a snapshot: the calls still in flight are of an older generation.\<close>

lemma older_calls_ok:
  assumes "tree_ok env b s" "\<not> list_ex hit_call (in_flight s)" "x \<in> set (in_flight s)" "cx_gen c' = next_gen s"
  shows "call_ok b c' x"
proof -
  have h: "\<not> hit_call x"
    using assms(2,3) by (rule no_calls)
  show ?thesis
  proof (cases "snapshotCtx s")
    case None
    with assms(1,3) have "\<not> tree_call x" by (auto simp: tree_ok_def)
    then show ?thesis by (cases x) (auto simp: call_ok_def)
  next
    case (Some c)
    with assms(1,3) have "call_ok b c x" by (auto simp: tree_ok_def)
    with h assms(4) Some show ?thesis by (cases x) (auto simp: call_ok_def next_gen_def)
  qed
qed

lemma tree_ok_select:
  assumes ok: "tree_ok env b s" and quiet: "\<not> list_ex hit_call (in_flight s)" and named: "sn_backup_id sn \<noteq> []"
    and hit: "\<And>p. h = Some p \<Longrightarrow> \<exists>d. p \<in> en_path ` set (rb_children b (restorePBSID s) (sn_backup_id sn) (sn_unix sn) d)"
  shows "tree_ok env b (handleSelectSnapshot sn f h s)"
proof -
  let ?c = "\<lparr>cx_pbs = restorePBSID s, cx_backup_id = sn_backup_id sn, cx_unix = sn_unix sn, cx_gen = next_gen s\<rparr>"
  have eff: "effectiveBackupId sn s = sn_backup_id sn"
    using named by (simp add: effectiveBackupId_def)
  have older: "call_ok b ?c x" if "x \<in> set (in_flight s)" for x
    using older_calls_ok [OF ok quiet that] by simp
  have new: "call_ok b ?c (OpenCall ?c f h)"
    using hit by (auto simp: call_ok_def listed_def children_of_def)
  have "\<forall>sn \<in> set (snapshots s). sn_backup_id sn \<noteq> []"
    using ok by (simp add: tree_ok_def)
  then show ?thesis
    using older new named
    by (auto simp: handleSelectSnapshot_def Let_def send_def tree_ok_def ctx_of_def eff)
qed

text \<open>Only the rows of a shown folder can be clicked.\<close>

lemma shown_rows_child:
  "e \<in> set (shown_rows n s p) \<Longrightarrow> \<exists>d l. snapshotChildren s d = Some l \<and> e \<in> set l"
proof (induction n arbitrary: p)
  case (Suc n)
  then obtain e' where e': "e' \<in> set (shown_children s p)"
    and "e = e' \<or> e \<in> set (shown_rows n s (en_path e'))"
    by (auto split: if_splits)
  moreover have "\<exists>d l. snapshotChildren s d = Some l \<and> e' \<in> set l"
    using e' by (cases "snapshotChildren s p") (auto simp: shown_children_def dest: in_set_takeD)
  ultimately show ?case using Suc.IH by blast
qed simp

lemma tree_ok_listed:
  assumes "tree_ok env b s" "snapshotChildren s d = Some l" "e \<in> set l"
  shows "\<exists>c. snapshotCtx s = Some c \<and> listed b c (en_path e)"
  using assms listed_sorted by (auto simp: tree_ok_def split: option.splits) blast

text \<open>Ticking what the open snapshot lists.\<close>

lemma tree_ok_tick:
  assumes "tree_ok env b s" "\<And>p c. p \<in> set ps \<Longrightarrow> snapshotCtx s = Some c \<Longrightarrow> listed b c p"
  shows "tree_ok env b (s\<lparr>selectedPaths := ps\<rparr>)"
  using assms by (auto simp: tree_ok_def ctx_of_def split: option.splits)

lemma tree_ok_box:
  assumes "tree_ok env b s" "enabled env s (ClickBox p)"
  shows "tree_ok env b (togglePathSelection p s)"
proof -
  obtain n e where e: "e \<in> set (shown_rows n s [])" "en_path e = p"
    using assms(2) by (auto simp: enabled_def)
  then obtain c where "snapshotCtx s = Some c" "listed b c p"
    using shown_rows_child [OF e(1)] tree_ok_listed [OF assms(1)] by blast
  moreover have "snapshotCtx s = Some c \<Longrightarrow> q \<in> set (selectedPaths s) \<Longrightarrow> listed b c q" for q
    using assms(1) by (auto simp: tree_ok_def)
  ultimately show ?thesis
    unfolding togglePathSelection_def using assms(1) by (intro tree_ok_tick) (auto split: if_splits)
qed

lemma tree_ok_all:
  assumes "tree_ok env b s"
  shows "tree_ok env b (handleSelectAllEntries s)"
  unfolding handleSelectAllEntries_def
proof (rule tree_ok_tick [OF assms])
  fix p c
  assume "p \<in> set (uniq (map en_path (case snapshotChildren s [] of None \<Rightarrow> [] | Some l \<Rightarrow> l)))" "snapshotCtx s = Some c"
  then show "listed b c p"
    using tree_ok_listed [OF assms, of "[]"] by (cases "snapshotChildren s []") auto
qed

lemma tree_ok_dir:
  assumes "tree_ok env b s"
  shows "tree_ok env b (toggleDir p s)"
proof -
  have dirs: "tree_ok env b (s\<lparr>expandedDirs := d\<rparr>)" for d
    using assms by (rule tree_ok_frame) auto
  have "tree_ok env b (loadChildren p t)" if "tree_ok env b t" for t
  proof (cases "snapshotCtx t")
    case (Some c)
    have "tree_ok env b (beginServerWait FolderWait t)"
      using that by (rule tree_ok_frame) (auto simp: beginServerWait_def)
    then have "tree_ok env b (send (FolderCall n c p) (beginServerWait FolderWait t))" for n
      by (rule tree_ok_send) (auto simp: call_ok_def beginServerWait_def Some)
    with Some show ?thesis by (simp add: loadChildren_def Let_def)
  qed (use that in \<open>simp add: loadChildren_def\<close>)
  with dirs show ?thesis by (simp add: toggleDir_def Let_def)
qed

subsection \<open>Answers\<close>

lemma same_gen_ctx: "same_gen c s \<longleftrightarrow> (\<exists>d. snapshotCtx s = Some d \<and> cx_gen d = cx_gen c)"
  by (auto simp: same_gen_def split: option.splits)

lemma tree_ok_tick_hit:
  assumes "tree_ok env b s" "\<And>p. h = Some p \<Longrightarrow> \<exists>c. snapshotCtx s = Some c \<and> listed b c p"
  shows "tree_ok env b (tick_hit h s)"
proof (cases h)
  case (Some p)
  then obtain c where "snapshotCtx s = Some c" "listed b c p" using assms(2) by blast
  then have "tree_ok env b (s\<lparr>selectedPaths := [p]\<rparr>)"
    using assms(1) by (intro tree_ok_tick) auto
  then have "tree_ok env b (s\<lparr>selectedPaths := [p], expandedDirs := set (hit_dirs [] (split_on slash p))\<rparr>)"
    by (rule tree_ok_frame) auto
  with Some show ?thesis by (simp add: tick_hit_def)
qed (use assms in \<open>simp add: tick_hit_def\<close>)

text \<open>A call in flight, seen from the page it was sent from.\<close>

lemma call_in_flight:
  assumes "tree_ok env b s" "x \<in> set (in_flight s)"
  shows "case snapshotCtx s of None \<Rightarrow> \<not> tree_call x | Some c \<Rightarrow> call_ok b c x"
  using assms by (auto simp: tree_ok_def split: option.splits)

lemma tree_ok_open_answer:
  assumes ok: "tree_ok env b s" and x: "case snapshotCtx s of None \<Rightarrow> \<not> tree_call (OpenCall d f h) | Some c \<Rightarrow> call_ok b c (OpenCall d f h)"
  shows "tree_ok env b (answered env b a (OpenCall d f h) s)"
proof -
  from x obtain c where c: "snapshotCtx s = Some c" "call_ok b c (OpenCall d f h)"
    by (auto split: option.splits)
  have hit: "\<exists>c. snapshotCtx s = Some c \<and> listed b c p" if "h = Some p" for p
    using c that by (simp add: call_ok_def)
  show ?thesis
  proof (cases "same_gen d s")
    case False
    then show ?thesis
      using tree_ok_tick_hit [OF ok hit] by (cases a) (simp_all add: answered_def open_answered_def)
  next
    case True
    with c have d: "d = c" by (auto simp: same_gen_ctx call_ok_def)
    have meta: "call_ok b c (MetaCall d h)"
      using c(2) by (auto simp: call_ok_def)
    let ?l = "sortChildren (en_collator env) (children_of b c [])"
    have "tree_ok env b (s\<lparr>snapshotReading := False\<rparr>)"
      using ok by (rule tree_ok_frame) auto
    then have failed: "tree_ok env b (send (MetaCall d h) (s\<lparr>snapshotReading := False\<rparr>))"
      by (rule tree_ok_send) (simp_all add: c(1) meta)
    have "tree_ok env b (s\<lparr>snapshotChildren := (\<lambda>_. None)([] \<mapsto> ?l), snapshotCount := n,
         selectedPaths := uniq (map en_path ?l), snapshotReading := False\<rparr>)" for n
      using ok c(1) listed_sorted by (auto simp: tree_ok_def ctx_of_def)
    then have "tree_ok env b (send (MetaCall d h) (s\<lparr>snapshotChildren := (\<lambda>_. None)([] \<mapsto> ?l), snapshotCount := n,
         selectedPaths := uniq (map en_path ?l), snapshotReading := False\<rparr>))" for n
      by (rule tree_ok_send) (simp_all add: c(1) meta)
    with True failed show ?thesis
      by (cases a) (simp_all add: answered_def open_answered_def Let_def children_of_def d)
  qed
qed

lemma tree_ok_folder_answer:
  assumes ok: "tree_ok env b s" and x: "case snapshotCtx s of None \<Rightarrow> \<not> tree_call (FolderCall n d p) | Some c \<Rightarrow> call_ok b c (FolderCall n d p)"
  shows "tree_ok env b (answered env b a (FolderCall n d p) s)"
proof (cases "a \<and> same_gen d s")
  case True
  with x obtain c where c: "snapshotCtx s = Some c" "d = c"
    by (auto simp: same_gen_ctx call_ok_def)
  have "tree_ok env b (s\<lparr>snapshotChildren := (snapshotChildren s)(p \<mapsto> sortChildren (en_collator env) (children_of b c p))\<rparr>)"
    using ok c(1) by (auto simp: tree_ok_def ctx_of_def)
  with True c(2) tree_ok_endWait show ?thesis
    by (simp add: answered_def folder_answered_def children_of_def)
next
  case False
  with ok tree_ok_endWait show ?thesis
    by (cases a) (simp_all add: answered_def folder_answered_def)
qed

lemma tree_ok_meta_answer:
  assumes ok: "tree_ok env b s" and x: "case snapshotCtx s of None \<Rightarrow> \<not> tree_call (MetaCall d h) | Some c \<Rightarrow> call_ok b c (MetaCall d h)"
  shows "tree_ok env b (answered env b a (MetaCall d h) s)"
proof -
  have ok': "tree_ok env b (s\<lparr>snapshotMeta := m\<rparr>)" for m
    using ok by (rule tree_ok_frame) auto
  have hit: "\<exists>c. snapshotCtx s = Some c \<and> listed b c p" if "h = Some p" for p
    using x that by (auto simp: call_ok_def split: option.splits)
  show ?thesis
    unfolding answered_def meta_answered_def Let_def call.case
    using ok ok' hit by (intro tree_ok_tick_hit) (auto split: option.splits)
qed

lemma tree_ok_list_answer:
  assumes "tree_ok env b s" "named_snapshots b"
  shows "tree_ok env b (answered env b a (ListCall n p i) s)"
proof -
  have "tree_ok env b (s\<lparr>snapshots := l, showSnapshots := True\<rparr>)" if "\<forall>sn \<in> set l. sn_backup_id sn \<noteq> []" for l
    using assms(1) that by (auto simp: tree_ok_def ctx_of_def split: option.splits)
  then show ?thesis
    unfolding answered_def list_answered_def Let_def call.case
    using assms by (intro tree_ok_endWait) (auto simp: named_snapshots_def split: option.splits)
qed

lemma tree_ok_answered:
  assumes "tree_ok env b s" "named_snapshots b"
    "case snapshotCtx s of None \<Rightarrow> \<not> tree_call x | Some c \<Rightarrow> call_ok b c x"
  shows "tree_ok env b (answered env b a x s)"
proof (cases x)
  case (ListCall n p i)
  with assms(1,2) show ?thesis by (simp add: tree_ok_list_answer)
next
  case (OpenCall d f h)
  from tree_ok_open_answer [OF assms(1) assms(3) [unfolded OpenCall]] OpenCall show ?thesis by simp
next
  case (MetaCall d h)
  from tree_ok_meta_answer [OF assms(1) assms(3) [unfolded MetaCall]] MetaCall show ?thesis by simp
next
  case (FolderCall n d p)
  from tree_ok_folder_answer [OF assms(1) assms(3) [unfolded FolderCall]] FolderCall show ?thesis by simp
next
  case (RestoreCall r)
  have "tree_ok env b (s\<lparr>restoreLoading := False\<rparr>)"
    using assms(1) by (rule tree_ok_frame) auto
  with assms(1) RestoreCall show ?thesis by (simp add: answered_def restore_answered_def)
qed

subsection \<open>The invariant over runs\<close>

lemma selected_named:
  "tree_ok env b s \<Longrightarrow> selectedSnapshot s = Some sn \<Longrightarrow> sn_backup_id sn \<noteq> []"
  by (auto simp: tree_ok_def ctx_of_def split: option.splits)

lemma tree_ok_take_call:
  "tree_ok env b s \<Longrightarrow> tree_ok env b (s\<lparr>in_flight := take i (in_flight s) @ drop (Suc i) (in_flight s)\<rparr>)"
  by (erule tree_ok_frame) (auto dest: in_set_takeD in_set_dropD)

lemma tree_ok_hit:
  assumes "tree_ok env b s" "unhurried b s (RestoreHit h)"
  shows "tree_ok env b (handleRestoreHit stamp h s)"
proof -
  let ?sn = "\<lparr>sn_id = stamp (hi_snapshot_time h), sn_backup_id = hi_backup_id h, sn_unix = hi_snapshot_time h, sn_files = []\<rparr>"
  have "tree_ok env b (handleSelectSnapshot ?sn False (Some (hi_path h)) s)"
    using assms by (intro tree_ok_select) (auto simp: unhurried_def)
  then show ?thesis
    unfolding handleRestoreHit_def by (rule tree_ok_frame) auto
qed

lemma tree_ok_restore: "tree_ok env b s \<Longrightarrow> tree_ok env b (handleRestoreSnapshot c s)"
proof -
  assume ok: "tree_ok env b s"
  then have "tree_ok env b (s\<lparr>restoreLoading := True\<rparr>)"
    by (rule tree_ok_frame) auto
  then have "tree_ok env b (send (RestoreCall r) (s\<lparr>restoreLoading := True\<rparr>))" for r
    by (rule tree_ok_send) (simp_all add: call_ok_def)
  with ok show ?thesis by (simp add: handleRestoreSnapshot_def split: option.splits)
qed

lemma tree_ok_handle:
  assumes ok: "tree_ok env b s" and named: "named_snapshots b" and en: "enabled env s ev" and calm: "unhurried b s ev"
  shows "tree_ok env b (handle_event env b stamp ev s)"
proof (cases ev)
  case (ChooseServer i)
  with calm have "\<not> list_ex tree_call (in_flight s)" by (simp add: unhurried_def)
  with ok show ?thesis
    unfolding ChooseServer handle_event_def restore_event.case changeServer_def by (rule tree_ok_cleared) simp_all
next
  case ListClicked
  with calm ok show ?thesis by (simp add: handle_event_def unhurried_def tree_ok_list)
next
  case (ClickSnapshot sn)
  with en ok have "sn_backup_id sn \<noteq> []" by (auto simp: enabled_def tree_ok_def)
  with ClickSnapshot calm ok show ?thesis
    by (auto simp: handle_event_def unhurried_def intro!: tree_ok_select)
next
  case ReloadClicked
  with calm ok selected_named [OF ok] show ?thesis
    by (auto simp: handle_event_def handleReloadSnapshot_def unhurried_def split: option.splits intro!: tree_ok_select)
next
  case (RestoreHit h)
  with ok calm tree_ok_hit show ?thesis by (simp add: handle_event_def)
next
  case (ClickDir p)
  with ok show ?thesis by (simp add: handle_event_def tree_ok_dir)
next
  case (ClickBox p)
  with ok en tree_ok_box show ?thesis by (simp add: handle_event_def)
next
  case AllClicked
  with ok show ?thesis by (simp add: handle_event_def tree_ok_all)
next
  case (RestoreClicked c)
  with ok show ?thesis by (simp add: handle_event_def tree_ok_restore)
next
  case (Answered i a)
  with en have i: "i < length (in_flight s)" by (simp add: enabled_def)
  let ?s = "s\<lparr>in_flight := take i (in_flight s) @ drop (Suc i) (in_flight s)\<rparr>"
  have "case snapshotCtx ?s of None \<Rightarrow> \<not> tree_call (in_flight s ! i) | Some c \<Rightarrow> call_ok b c (in_flight s ! i)"
    using call_in_flight [OF ok, of "in_flight s ! i"] i by simp
  from tree_ok_answered [OF tree_ok_take_call [OF ok] named this] Answered show ?thesis
    by (simp add: handle_event_def)
next
  case NoneClicked
  from ok show ?thesis unfolding NoneClicked handle_event_def restore_event.case
    by (rule tree_ok_frame) (auto simp: handleSelectNoneEntries_def)
qed (use ok in \<open>auto simp: handle_event_def showMore_def elim: tree_ok_frame\<close>)

lemma tree_ok_run:
  assumes "restore_run (unhurried b) env b stamp s0 s" "fresh_page s0" "named_snapshots b"
  shows "tree_ok env b s"
  using assms(1)
proof induction
  case start
  with assms(2) show ?case by (simp add: tree_ok_def fresh_page_def)
next
  case (event s ev)
  then show ?case
    unfolding restore_step_def using assms(3) by (intro tree_ok_mode_effect tree_ok_handle)
qed

section \<open>Properties\<close>

text \<open>
  C20: The tree is the chosen snapshot's. However the clicks and the server's answers follow each
  other, as long as the user is unhurried, every folder shown holds just what the chosen server
  has for it in the chosen snapshot, folders first and each kind in the collator's order, and
  everything ticked is listed there.
\<close>

theorem tree_of_selected:
  assumes "restore_run (unhurried b) env b stamp s0 s" "fresh_page s0" "named_snapshots b"
  shows "(snapshotChildren s p = Some l \<longrightarrow> (\<exists>sn. selectedSnapshot s = Some sn \<and>
      l = sortChildren (en_collator env) (rb_children b (restorePBSID s) (sn_backup_id sn) (sn_unix sn) p)))
    \<and> (selectedSnapshot s = Some sn \<longrightarrow> q \<in> set (selectedPaths s) \<longrightarrow>
      (\<exists>d. q \<in> en_path ` set (rb_children b (restorePBSID s) (sn_backup_id sn) (sn_unix sn) d)))"
  using tree_ok_run [OF assms]
  by (auto simp: tree_ok_def ctx_of_def children_of_def listed_def split: option.splits)

text \<open>
  C21: A restore is never sent by accident. In every run of the tab, whatever the timing, pressing
  Restore sends at most one request, only while none runs, with at least one path ticked, and
  either to a destination typed in or in place; in place only with the user's consent, for a
  snapshot that is not a disk image and whose sidecar names where its files were and an operating
  system that is not another than this one, and for another computer's only with the override.
\<close>

theorem restore_never_by_accident:
  assumes run: "restore_run Q env b stamp s0 s" and fresh: "fresh_page s0"
    and en: "enabled env s (RestoreClicked consent)"
    and s': "s' = restore_step env b stamp (RestoreClicked consent) s"
  shows "in_flight s' = in_flight s \<or> (\<exists>r. in_flight s' = in_flight s @ [RestoreCall r] \<and> \<not> restoreLoading s \<and>
    rq_includes r = selectedPaths s \<and> rq_includes r \<noteq> [] \<and> rq_pbs r = restorePBSID s \<and>
    (case rq_mode r of
       Original \<Rightarrow> consent \<and> \<not> isDiskImageSnapshot (selectedSnapshot s) \<and>
         (\<exists>m. snapshotMeta s = Some m \<and> me_original_path m \<noteq> [] \<and> (en_os env = [] \<or> me_os m = [] \<or> me_os m = en_os env)) \<and>
         (rq_cross_host r \<or> \<not> crossHostMismatch env s)
     | _ \<Rightarrow> rq_dest r \<noteq> []))"
proof -
  have mode: "mode_ok env s" by (rule mode_ok_run [OF run fresh])
  have idle: "\<not> restoreLoading s" and cross: "restoreMode s = Original \<Longrightarrow> crossHostMismatch env s \<Longrightarrow> restoreAllowCrossHost s"
    using en by (auto simp: enabled_def restoreDisabled_def)
  have same: "in_flight s' = in_flight (handleRestoreSnapshot consent s)"
    by (simp add: s' restore_step_def handle_event_def mode_effect_def split: option.splits)
  obtain sn where sn: "selectedSnapshot s = Some sn"
    using en by (auto simp: enabled_def)
  let ?r = "\<lparr>rq_pbs = restorePBSID s, rq_backup_id = effectiveBackupId sn s, rq_snapshot = sn_id sn,
               rq_dest = restoreDestPath s, rq_mode = effectiveMode s, rq_includes = selectedPaths s,
               rq_cross_host = restoreAllowCrossHost s, rq_opts = restoreOptions s\<rparr>"
  show ?thesis
  proof (cases "in_flight s' = in_flight s")
    case False
    then have sent: "in_flight s' = in_flight s @ [RestoreCall ?r]" "selectedPaths s \<noteq> []"
      "effectiveMode s \<noteq> Original \<Longrightarrow> restoreDestPath s \<noteq> []" "effectiveMode s = Original \<Longrightarrow> consent"
      using sn by (auto simp: same handleRestoreSnapshot_def send_def split: if_splits)
    have "isDiskImageSnapshot (selectedSnapshot s) = False \<and>
        (\<exists>m. snapshotMeta s = Some m \<and> me_original_path m \<noteq> [] \<and> (en_os env = [] \<or> me_os m = [] \<or> me_os m = en_os env)) \<and>
        (restoreAllowCrossHost s \<or> \<not> crossHostMismatch env s)" if "effectiveMode s = Original"
    proof -
      from that have "restoreMode s = Original" by (auto simp: effectiveMode_def split: if_splits)
      with mode cross show ?thesis
        by (auto simp: mode_ok_def inPlaceBlocker_def split: if_splits option.splits)
    qed
    with sent idle show ?thesis
      by (intro disjI2 exI [of _ ?r]) (auto split: restore_mode.split)
  qed simp
qed

section \<open>Answers that come too late\<close>

definition play_events :: "restore_env \<Rightarrow> restore_backend \<Rightarrow> (int \<Rightarrow> string) \<Rightarrow> restore_event list \<Rightarrow> restore_page \<Rightarrow> restore_page" where
  "play_events env b stamp evs s = fold (restore_step env b stamp) evs s"

text \<open>A sequence of events that can happen one after the other.\<close>

fun can_play :: "(restore_page \<Rightarrow> restore_event \<Rightarrow> bool) \<Rightarrow> restore_env \<Rightarrow> restore_backend \<Rightarrow> (int \<Rightarrow> string)
    \<Rightarrow> restore_event list \<Rightarrow> restore_page \<Rightarrow> bool" where
  "can_play Q env b stamp [] s = True"
| "can_play Q env b stamp (ev # evs) s = (enabled env s ev \<and> Q s ev \<and> can_play Q env b stamp evs (restore_step env b stamp ev s))"

lemma can_play_run:
  assumes "can_play Q env b stamp evs s" "restore_run Q env b stamp s0 s"
  shows "restore_run Q env b stamp s0 (play_events env b stamp evs s)"
  using assms by (induction evs arbitrary: s) (auto simp: play_events_def intro: restore_run.event)

lemma mode_effect_fields [simp]:
  "snapshots (mode_effect env s) = snapshots s" "showSnapshots (mode_effect env s) = showSnapshots s"
  "restorePBSID (mode_effect env s) = restorePBSID s" "restoreBackupId (mode_effect env s) = restoreBackupId s"
  "selectedSnapshot (mode_effect env s) = selectedSnapshot s" "snapshotMeta (mode_effect env s) = snapshotMeta s"
  "snapshotChildren (mode_effect env s) = snapshotChildren s" "snapshotCtx (mode_effect env s) = snapshotCtx s"
  "selectedPaths (mode_effect env s) = selectedPaths s" "expandedDirs (mode_effect env s) = expandedDirs s"
  "serverWait (mode_effect env s) = serverWait s" "waitSeq (mode_effect env s) = waitSeq s"
  "in_flight (mode_effect env s) = in_flight s" "inPlaceBlocker env' (mode_effect env s) = inPlaceBlocker env' s"
  by (auto simp: mode_effect_def inPlaceBlocker_def split: option.splits)

lemmas late_defs = play_events_def restore_step_def handle_event_def enabled_def restore_defs answered_def
  effectiveBackupId_def next_gen_def same_gen_def Let_def

text \<open>
  Listing the snapshots again forgets which openings are under way. Open a snapshot, list
  again before its tree has come, and open another: the number of the opening starts again at
  one, so when the tree of the first one comes after all, it is shown under the second, with its
  paths ticked for a restore.
\<close>

theorem late_tree_under_other_snapshot:
  assumes "fresh_page (s\<lparr>snapshots := []\<rparr>)" "showSnapshots s" "snA \<in> set (snapshots s)" "en_servers env \<noteq> []" "serverWait s = None"
    and "rb_list b (restorePBSID s) (restoreBackupId s) = Some l" "snB \<in> set l" "sn_backup_id snA \<noteq> []"
    and "evs = [ClickSnapshot snA, ListClicked, Answered 1 True, ClickSnapshot snB, Answered 1 True, Answered 0 True]"
    and "s' = play_events env b stamp evs s"
  shows "restore_run (\<lambda>_ _. True) env b stamp s s' \<and> selectedSnapshot s' = Some snB \<and>
    (let shown = sortChildren (en_collator env) (rb_children b (restorePBSID s) (sn_backup_id snA) (sn_unix snA) []) in
     snapshotChildren s' [] = Some shown \<and> selectedPaths s' = uniq (map en_path shown))"
proof -
  have "can_play (\<lambda>_ _. True) env b stamp evs s"
    using assms(1-9) by (simp add: late_defs fresh_page_def)
  from can_play_run [OF this restore_run.start] have "restore_run (\<lambda>_ _. True) env b stamp s s'"
    using assms(10) by simp
  moreover have "selectedSnapshot s' = Some snB"
    using assms by (simp add: late_defs fresh_page_def)
  moreover have "snapshotChildren s' [] = Some (sortChildren (en_collator env) (rb_children b (restorePBSID s) (sn_backup_id snA) (sn_unix snA) []))"
    "selectedPaths s' = uniq (map en_path (sortChildren (en_collator env) (rb_children b (restorePBSID s) (sn_backup_id snA) (sn_unix snA) [])))"
    using assms by (simp_all add: late_defs fresh_page_def)
  ultimately show ?thesis by (simp add: Let_def)
qed

text \<open>The sidecar's answer is not checked at all: the first snapshot's is shown with the second.\<close>

lemma late_meta_under_other_snapshot:
  assumes "fresh_page (s\<lparr>snapshots := []\<rparr>)" "showSnapshots s" "snA \<in> set (snapshots s)" "snB \<in> set (snapshots s)"
    and "rb_meta b (restorePBSID s) (sn_backup_id snA) (sn_unix snA) = Some m"
    and "rb_meta b (restorePBSID s) (sn_backup_id snB) (sn_unix snB) = None"
    and "sn_backup_id snA \<noteq> []" "sn_backup_id snB \<noteq> []"
    and "evs = [ClickSnapshot snA, Answered 0 True, ClickSnapshot snB, Answered 1 True, Answered 1 True, Answered 0 True]"
    and "s' = play_events env b stamp evs s"
  shows "restore_run (\<lambda>_ _. True) env b stamp s s' \<and> selectedSnapshot s' = Some snB \<and> snapshotMeta s' = Some m"
proof -
  have "can_play (\<lambda>_ _. True) env b stamp evs s"
    using assms(1-9) by (simp add: late_defs fresh_page_def)
  from can_play_run [OF this restore_run.start] have "restore_run (\<lambda>_ _. True) env b stamp s s'"
    using assms(10) by simp
  moreover have "selectedSnapshot s' = Some snB" "snapshotMeta s' = Some m"
    using assms by (simp_all add: late_defs fresh_page_def)
  ultimately show ?thesis by simp
qed

text \<open>A listing still awaited when the server is changed is shown as the new server's.\<close>

lemma late_listing_under_other_server:
  assumes "en_servers env \<noteq> []" "in_flight s = []" "serverWait s = None"
    "rb_list b (restorePBSID s) (restoreBackupId s) = Some l"
    and "s' = play_events env b stamp [ListClicked, ChooseServer j, Answered 0 True] s"
  shows "restorePBSID s' = j \<and> showSnapshots s' \<and> snapshots s' = l"
  using assms by (simp add: late_defs)

text \<open>
  The folders on the way to a search hit are opened but never read. Once Restore on a hit has
  settled, each folder above it is shown open with its content still to come, and no call that
  would bring it is under way: it says it is loading until it is closed and opened again.
\<close>

theorem hit_folders_never_load:
  assumes "in_flight s = []" "hi_backup_id h \<noteq> []" "d \<in> set (hit_dirs [] (split_on slash (hi_path h)))" "d \<noteq> []"
    and "s' = play_events env b stamp [RestoreHit h, Answered 0 True, Answered 0 True] s"
  shows "d \<in> expandedDirs s' \<and> snapshotChildren s' d = None \<and> in_flight s' = [] \<and> selectedPaths s' = [hi_path h]"
  using assms by (simp add: late_defs split: option.splits)

section \<open>A server with two snapshots\<close>

definition two_snapshots :: "snapshot list" where
  "two_snapshots = [\<lparr>sn_id = ''a'', sn_backup_id = ''pc'', sn_unix = 1, sn_files = [''root.pxar.didx'']\<rparr>,
     \<lparr>sn_id = ''b'', sn_backup_id = ''nas'', sn_unix = 2, sn_files = [''root.pxar.didx'']\<rparr>]"

definition small_server :: restore_backend where
  "small_server = \<lparr>rb_list = (\<lambda>p i. Some two_snapshots),
     rb_children = (\<lambda>p i u d. if d \<noteq> [] then [] else if i = ''pc'' then [\<lparr>en_path = ''docs'', en_is_dir = True\<rparr>]
        else [\<lparr>en_path = ''photos'', en_is_dir = True\<rparr>]),
     rb_count = (\<lambda>p i u. 1), rb_meta = (\<lambda>p i u. None)\<rparr>"

definition this_pc :: restore_env where
  "this_pc = \<lparr>en_servers = [''pbs''], en_hostname = ''pc'', en_os = ''windows'', en_collator = flat\<rparr>"

definition empty_tab :: restore_page where
  "empty_tab = \<lparr>snapshots = [], showSnapshots = False, restorePBSID = ''pbs'', restoreBackupId = ''pc'',
     selectedSnapshot = None, snapshotMeta = None, snapshotChildren = (\<lambda>_. None), snapshotCount = 0,
     moreShown = (\<lambda>_. None), snapshotCtx = None, expandedDirs = {}, selectedPaths = [], restoreDestPath = [],
     restoreMode = Alternate_abs, restoreKeepTree = True, restoreAllowCrossHost = False,
     restoreOptions = \<lparr>ro_overwrite = False, ro_timestamps = True, ro_verify = False, ro_acls = False, ro_ads = True\<rparr>,
     restoreLoading = False, snapshotReading = False, serverWait = None, waitSeq = 0, in_flight = []\<rparr>"

definition opened_tab :: restore_page where
  "opened_tab = play_events this_pc small_server (\<lambda>_. [])
     [ListClicked, Answered 0 True, ClickSnapshot (hd two_snapshots), Answered 0 True, TypeDest ''D:/back''] empty_tab"

lemmas sample_defs = two_snapshots_def small_server_def this_pc_def empty_tab_def

lemma opened_tab_run: "restore_run (unhurried small_server) this_pc small_server (\<lambda>_. []) empty_tab opened_tab"
proof -
  have "can_play (unhurried small_server) this_pc small_server (\<lambda>_. [])
     [ListClicked, Answered 0 True, ClickSnapshot (hd two_snapshots), Answered 0 True, TypeDest ''D:/back''] empty_tab"
    by (simp add: late_defs sample_defs unhurried_def)
  from can_play_run [OF this restore_run.start] show ?thesis by (simp add: opened_tab_def)
qed

lemma sample_tab_ok: "fresh_page empty_tab" "named_snapshots small_server"
  by (simp_all add: fresh_page_def named_snapshots_def sample_defs)

lemma opened_tab_fields:
  "selectedSnapshot opened_tab = Some (hd two_snapshots)" "selectedPaths opened_tab = [''docs'']"
  "snapshotChildren opened_tab [] = Some [\<lparr>en_path = ''docs'', en_is_dir = True\<rparr>]" "restorePBSID opened_tab = ''pbs''"
  "restoreDestPath opened_tab = ''D:/back''" "restoreMode opened_tab = Alternate_abs" "\<not> restoreLoading opened_tab"
  "restoreKeepTree opened_tab"
  by (simp_all add: opened_tab_def late_defs sample_defs sortChildren_def mode_effect_def uniq_def)

theorem tree_of_selected_witness:
  "\<exists>sn. selectedSnapshot opened_tab = Some sn \<and> sn_backup_id sn = ''pc'' \<and>
     [\<lparr>en_path = ''docs'', en_is_dir = True\<rparr>] = sortChildren (en_collator this_pc) (rb_children small_server ''pbs'' ''pc'' 1 [])"
  using tree_of_selected [OF opened_tab_run sample_tab_ok, of "[]" "[\<lparr>en_path = ''docs'', en_is_dir = True\<rparr>]"]
  by (simp add: opened_tab_fields two_snapshots_def)

theorem restore_never_by_accident_witness:
  "\<exists>r. in_flight (restore_step this_pc small_server (\<lambda>_. []) (RestoreClicked False) opened_tab) = in_flight opened_tab @ [RestoreCall r]
     \<and> rq_includes r = [''docs''] \<and> rq_dest r \<noteq> []"
proof -
  let ?s = "restore_step this_pc small_server (\<lambda>_. []) (RestoreClicked False) opened_tab"
  have "enabled this_pc opened_tab (RestoreClicked False)"
    by (simp add: enabled_def restoreDisabled_def opened_tab_fields)
  moreover have "in_flight ?s \<noteq> in_flight opened_tab"
    by (simp add: restore_step_def handle_event_def handleRestoreSnapshot_def effectiveMode_def opened_tab_fields send_def)
  moreover have "rq_mode r \<noteq> Original" if "in_flight ?s = in_flight opened_tab @ [RestoreCall r]" for r
    using that by (auto simp: restore_step_def handle_event_def handleRestoreSnapshot_def effectiveMode_def opened_tab_fields send_def)
  ultimately show ?thesis
    using restore_never_by_accident [OF opened_tab_run sample_tab_ok(1), of False ?s]
    by (fastforce simp: opened_tab_fields split: restore_mode.splits)
qed

theorem late_tree_under_other_snapshot_witness:
  "\<exists>s'. restore_run (\<lambda>_ _. True) this_pc small_server (\<lambda>_. []) (empty_tab\<lparr>snapshots := two_snapshots, showSnapshots := True\<rparr>) s'
     \<and> selectedSnapshot s' = Some (two_snapshots ! 1) \<and> selectedPaths s' = [''docs'']"
proof -
  let ?s = "empty_tab\<lparr>snapshots := two_snapshots, showSnapshots := True\<rparr>" and ?A = "two_snapshots ! 0" and ?B = "two_snapshots ! 1"
  have "fresh_page (?s\<lparr>snapshots := []\<rparr>)" "showSnapshots ?s" "?A \<in> set (snapshots ?s)" "en_servers this_pc \<noteq> []" "serverWait ?s = None"
    "rb_list small_server (restorePBSID ?s) (restoreBackupId ?s) = Some two_snapshots" "?B \<in> set two_snapshots" "sn_backup_id ?A \<noteq> []"
    by (simp_all add: fresh_page_def sample_defs)
  moreover have "uniq (map en_path (sortChildren (en_collator this_pc)
      (rb_children small_server (restorePBSID ?s) (sn_backup_id ?A) (sn_unix ?A) []))) = [''docs'']"
    by (simp add: sample_defs sortChildren_def uniq_def)
  ultimately show ?thesis
    using late_tree_under_other_snapshot [OF _ _ _ _ _ _ _ _ refl refl, of ?s ?A this_pc small_server two_snapshots ?B "\<lambda>_. []"]
    by (simp add: Let_def) blast
qed

definition docs_hit :: hit where
  "docs_hit = \<lparr>hi_backup_id = ''pc'', hi_snapshot_time = 1, hi_path = ''docs/a.txt''\<rparr>"

theorem hit_folders_never_load_witness:
  "\<exists>s' :: restore_page. ''docs'' \<in> expandedDirs s' \<and> snapshotChildren s' ''docs'' = None \<and> in_flight s' = [] \<and> selectedPaths s' = [hi_path docs_hit]"
proof -
  have a: "in_flight empty_tab = []" "hi_backup_id docs_hit \<noteq> []"
    by (simp_all add: empty_tab_def docs_hit_def)
  have d: "''docs'' \<in> set (hit_dirs [] (split_on slash (hi_path docs_hit)))"
    by code_simp
  have n: "''docs'' \<noteq> []"
    by simp
  from hit_folders_never_load [OF a d n refl, of this_pc small_server "\<lambda>_. []"] show ?thesis
    by (rule exI [where x = "play_events this_pc small_server (\<lambda>_. []) [RestoreHit docs_hit, Answered 0 True, Answered 0 True] empty_tab"])
qed

end
