(* ===== verification/Views.thy ===== *)
theory Views
  imports JsPrelude
begin

text \<open>
  The contract of a page that shows the answer to a call for what is chosen on it, and clears what
  it shows when something else is chosen. Three parts of the window keep it, each an interpretation
  of \<open>answered_view\<close> on its own model: the scan of the Undelete page (theory Undelete), and the list
  of backups and the preview of the Roll back page (theory Rollback).
\<close>

text \<open>
  \<open>chosen\<close> is what the page is about, \<open>shown\<close> the answer it shows, \<open>awaited\<close> the calls whose answer
  it would still take. A step may ask about what is chosen, show the answer to an awaited call,
  or keep what is shown; when another thing is chosen, the page clears and awaits nothing older.
\<close>

locale answered_view =
  fixes step :: "'s \<Rightarrow> 's \<Rightarrow> bool"
    and chosen :: "'s \<Rightarrow> 'k"
    and shown :: "'s \<Rightarrow> 'v option"
    and awaited :: "'s \<Rightarrow> 'k list"
    and is_answer :: "'k \<Rightarrow> 'v \<Rightarrow> bool"
  assumes asks_chosen: "step s t \<Longrightarrow> k \<in> set (awaited t) \<Longrightarrow> k = chosen t \<or> k \<in> set (awaited s) \<and> chosen t = chosen s"
    and shows_answer: "step s t \<Longrightarrow> shown t = Some v \<Longrightarrow>
      chosen t = chosen s \<and> (shown s = Some v \<or> (\<exists>k \<in> set (awaited s). is_answer k v))"
begin

definition view_ok :: "'s \<Rightarrow> bool" where
  "view_ok s \<longleftrightarrow> (\<forall>k \<in> set (awaited s). k = chosen s) \<and> (\<forall>v. shown s = Some v \<longrightarrow> is_answer (chosen s) v)"

lemma view_ok_empty: "shown s = None \<Longrightarrow> awaited s = [] \<Longrightarrow> view_ok s"
  by (simp add: view_ok_def)

lemma view_ok_step:
  assumes "view_ok s" "step s t"
  shows "view_ok t"
  unfolding view_ok_def
proof (intro conjI ballI allI impI)
  fix k
  assume "k \<in> set (awaited t)"
  from asks_chosen [OF assms(2) this] assms(1) show "k = chosen t" by (auto simp: view_ok_def)
next
  fix v
  assume "shown t = Some v"
  from shows_answer [OF assms(2) this] assms(1) show "is_answer (chosen t) v" by (auto simp: view_ok_def)
qed

lemma view_ok_steps: "step\<^sup>*\<^sup>* s t \<Longrightarrow> view_ok s \<Longrightarrow> view_ok t"
  by (induction rule: rtranclp_induct) (auto intro: view_ok_step)

text \<open>So what is shown is always an answer about what is chosen.\<close>

lemma shown_is_chosen:
  assumes "step\<^sup>*\<^sup>* s t" "shown s = None" "awaited s = []" "shown t = Some v"
  shows "is_answer (chosen t) v"
  using view_ok_steps [OF assms(1)] view_ok_empty [OF assms(2,3)] assms(4) by (simp add: view_ok_def)

end

end
