(* ===== verification/Undelete.thy ===== *)
theory Undelete
  imports Views "HOL-Library.Multiset"
begin

text \<open>
  The Undelete page (\<open>components/SetTools.jsx\<close>): the tree of the files that are gone
  (\<open>buildTree\<close>, \<open>nodeFiles\<close>), the boxes ticked in it (\<open>TreeNode\<close>), and the page that scans a set,
  filters what it found and starts the restore (\<open>UndeletePage\<close>). The backend's answers are
  arguments.
\<close>

section \<open>The tree of deleted files\<close>

record del_file =
  df_folder :: string
  df_path :: string
  df_size :: int
  df_movedTo :: string
  df_archive :: string
  df_snapshotUnix :: int

text \<open>A folder of the tree; the maps of the code keep the order in which folders were met.\<close>

datatype tree_node =
  TreeNode (nd_key: string) (nd_name: string) (nd_dirs: "tree_node list") (nd_files: "del_file list")
    (nd_count: nat) (nd_size: int)

definition new_node :: "string \<Rightarrow> string \<Rightarrow> tree_node" where
  "new_node k n = TreeNode k n [] [] 0 0"

definition count_in :: "del_file \<Rightarrow> tree_node \<Rightarrow> tree_node" where
  "count_in f n = TreeNode (nd_key n) (nd_name n) (nd_dirs n) (nd_files n) (nd_count n + 1) (nd_size n + df_size f)"

text \<open>The child of that name is changed, a new one put at the end if there is none.\<close>

fun at_child :: "string \<Rightarrow> tree_node \<Rightarrow> (tree_node \<Rightarrow> tree_node) \<Rightarrow> tree_node list \<Rightarrow> tree_node list" where
  "at_child p fresh g [] = [g fresh]"
| "at_child p fresh g (d # ds) = (if nd_name d = p then g d # ds else d # at_child p fresh g ds)"

fun put_below :: "del_file \<Rightarrow> string list \<Rightarrow> tree_node \<Rightarrow> tree_node" where
  "put_below f (p # q # ps) n =
     TreeNode (nd_key n) (nd_name n)
       (at_child p (new_node (nd_key n @ ''/'' @ p) p) (\<lambda>child. put_below f (q # ps) (count_in f child)) (nd_dirs n))
       (nd_files n) (nd_count n) (nd_size n)"
| "put_below f ps n = TreeNode (nd_key n) (nd_name n) (nd_dirs n) (nd_files n @ [f]) (nd_count n) (nd_size n)"

definition put_file :: "tree_node list \<Rightarrow> del_file \<Rightarrow> tree_node list" where
  "put_file roots f =
     at_child (df_folder f) (new_node (df_folder f) (df_folder f))
       (\<lambda>rt. put_below f (split_on slash (df_path f)) (count_in f rt)) roots"

definition buildTree :: "del_file list \<Rightarrow> tree_node list" where
  "buildTree files = foldl put_file [] files"

fun nodeFiles :: "tree_node \<Rightarrow> del_file list" where
  "nodeFiles (TreeNode k n ds fs c s) = fs @ concat (map nodeFiles ds)"

section \<open>The tree holds every file once, where it was\<close>

text \<open>
  A well-formed folder at the path \<open>pre\<close> below \<open>folder\<close>: its two figures are those of the files
  under it, its own files are just below it, and its folders have different names and are
  well-formed one step deeper.
\<close>

fun node_ok :: "string \<Rightarrow> string list \<Rightarrow> tree_node \<Rightarrow> bool" where
  "node_ok folder pre (TreeNode k n ds fs c s) =
     (c = length (nodeFiles (TreeNode k n ds fs c s)) \<and>
      s = sum_list (map df_size (nodeFiles (TreeNode k n ds fs c s))) \<and>
      (\<forall>f \<in> set fs. df_folder f = folder \<and> (\<exists>l. split_on slash (df_path f) = pre @ [l])) \<and>
      distinct (map nd_name ds) \<and>
      (\<forall>d \<in> set ds. node_ok folder (pre @ [nd_name d]) d))"

text \<open>While a file is being put in, the figures are already one file ahead.\<close>

definition ahead :: "del_file \<Rightarrow> string \<Rightarrow> string list \<Rightarrow> tree_node \<Rightarrow> bool" where
  "ahead f folder pre n \<longleftrightarrow>
     nd_count n = length (nodeFiles n) + 1 \<and> nd_size n = sum_list (map df_size (nodeFiles n)) + df_size f \<and>
     (\<forall>g \<in> set (nd_files n). df_folder g = folder \<and> (\<exists>l. split_on slash (df_path g) = pre @ [l])) \<and>
     distinct (map nd_name (nd_dirs n)) \<and> (\<forall>d \<in> set (nd_dirs n). node_ok folder (pre @ [nd_name d]) d)"

lemma nodeFiles_sel: "nodeFiles n = nd_files n @ concat (map nodeFiles (nd_dirs n))"
  by (cases n) simp

lemma node_ok_sel:
  "node_ok folder pre n \<longleftrightarrow> nd_count n = length (nodeFiles n) \<and> nd_size n = sum_list (map df_size (nodeFiles n)) \<and>
     (\<forall>f \<in> set (nd_files n). df_folder f = folder \<and> (\<exists>l. split_on slash (df_path f) = pre @ [l])) \<and>
     distinct (map nd_name (nd_dirs n)) \<and> (\<forall>d \<in> set (nd_dirs n). node_ok folder (pre @ [nd_name d]) d)"
  by (cases n) (simp only: node_ok.simps tree_node.sel)

lemma count_in_sel [simp]:
  "nd_key (count_in f n) = nd_key n" "nd_name (count_in f n) = nd_name n" "nd_dirs (count_in f n) = nd_dirs n"
  "nd_files (count_in f n) = nd_files n" "nd_count (count_in f n) = nd_count n + 1" "nd_size (count_in f n) = nd_size n + df_size f"
  "nodeFiles (count_in f n) = nodeFiles n"
  by (simp_all add: count_in_def nodeFiles_sel [of n])

lemma new_node_sel [simp]:
  "nd_key (new_node k n) = k" "nd_name (new_node k n) = n" "nd_dirs (new_node k n) = []" "nd_files (new_node k n) = []"
  "nd_count (new_node k n) = 0" "nd_size (new_node k n) = 0" "nodeFiles (new_node k n) = []"
  by (simp_all add: new_node_def)

lemma ahead_count_in: "node_ok folder pre n \<Longrightarrow> ahead f folder pre (count_in f n)"
  unfolding ahead_def node_ok_sel [of folder pre n] count_in_sel by (elim conjE, intro conjI) (simp_all only: Suc_eq_plus1)

lemma new_node_ok [simp]: "node_ok folder pre (new_node k n)"
  by (subst node_ok_sel) simp

lemma put_below_name [simp]: "nd_name (put_below f ps n) = nd_name n"
  by (cases "(f, ps, n)" rule: put_below.cases) simp_all

text \<open>Changing one child: the names stay different, and only that child and its files change.\<close>

lemma at_child_names:
  assumes "\<And>n. nd_name (g n) = nd_name n" "nd_name fresh = p"
  shows "map nd_name (at_child p fresh g ds) =
    (if p \<in> set (map nd_name ds) then map nd_name ds else map nd_name ds @ [p])"
  using assms by (induction ds) auto

lemma at_child_set:
  "distinct (map nd_name ds) \<Longrightarrow> d \<in> set (at_child p fresh g ds) \<Longrightarrow>
    d \<in> set ds \<and> nd_name d \<noteq> p \<or> (\<exists>c. (c = fresh \<or> c \<in> set ds \<and> nd_name c = p) \<and> d = g c)"
proof (induction ds)
  case (Cons e ds)
  show ?case
  proof (cases "nd_name e = p")
    case True
    with Cons.prems have "d = g e \<or> d \<in> set ds" "p \<notin> nd_name ` set ds" by auto
    with True show ?thesis by (metis image_eqI list.set_intros(1,2))
  qed (use Cons in auto)
qed simp

lemma at_child_files:
  assumes "\<And>n. n = fresh \<or> n \<in> set ds \<Longrightarrow> mset (nodeFiles (g n)) = add_mset f (mset (nodeFiles n))" "nodeFiles fresh = []"
  shows "mset (concat (map nodeFiles (at_child p fresh g ds))) = add_mset f (mset (concat (map nodeFiles ds)))"
  using assms by (induction ds) auto

lemma mset_figures:
  assumes "mset as = add_mset f (mset bs)"
  shows "length as = length bs + 1" "sum_list (map df_size as) = sum_list (map df_size bs) + df_size f"
proof -
  have "mset as = mset (f # bs)" using assms by simp
  from mset_eq_length [OF this] show "length as = length bs + 1" by simp
  from \<open>mset as = mset (f # bs)\<close> have "mset (map df_size as) = mset (map df_size (f # bs))" by simp
  then have "sum_mset (mset (map df_size as)) = sum_mset (mset (map df_size (f # bs)))" by (rule arg_cong)
  then have "sum_list (map df_size as) = sum_list (map df_size (f # bs))" by (simp only: sum_mset_sum_list)
  then show "sum_list (map df_size as) = sum_list (map df_size bs) + df_size f" by simp
qed

lemma put_below_files: "mset (nodeFiles (put_below f ps n)) = add_mset f (mset (nodeFiles n))"
proof (induction f ps n rule: put_below.induct)
  case (1 f p q ps n)
  have "mset (concat (map nodeFiles (at_child p (new_node (nd_key n @ ''/'' @ p) p)
      (\<lambda>child. put_below f (q # ps) (count_in f child)) (nd_dirs n)))) = add_mset f (mset (concat (map nodeFiles (nd_dirs n))))"
    by (rule at_child_files) (simp_all only: 1 count_in_sel new_node_sel)
  then show ?case by (simp add: nodeFiles_sel [of n])
qed (simp_all add: nodeFiles_sel [of n for n])

lemma put_below_ok:
  "ahead f folder pre n \<Longrightarrow> df_folder f = folder \<Longrightarrow> split_on slash (df_path f) = pre @ ps \<Longrightarrow> ps \<noteq> [] \<Longrightarrow>
    node_ok folder pre (put_below f ps n)"
proof (induction f ps n arbitrary: pre rule: put_below.induct [case_names deep bare leaf])
  case (deep f p q ps n)
  let ?g = "\<lambda>child. put_below f (q # ps) (count_in f child)" and ?new = "new_node (nd_key n @ ''/'' @ p) p"
  let ?ds = "at_child p ?new ?g (nd_dirs n)"
  have ah: "ahead f folder pre n" by (rule deep(2))
  have split: "split_on slash (df_path f) = (pre @ [p]) @ q # ps" using deep(4) by simp
  have child: "node_ok folder (pre @ [p]) (?g c)" if "c = ?new \<or> c \<in> set (nd_dirs n) \<and> nd_name c = p" for c
  proof -
    have "node_ok folder (pre @ [p]) c" using that ah by (auto simp: ahead_def)
    from deep(1) [OF ahead_count_in [OF this] deep(3) split] show ?thesis by simp
  qed
  have names: "map nd_name ?ds = (if p \<in> set (map nd_name (nd_dirs n)) then map nd_name (nd_dirs n) else map nd_name (nd_dirs n) @ [p])"
    by (rule at_child_names) simp_all
  have dirs: "node_ok folder (pre @ [nd_name d]) d" if "d \<in> set ?ds" for d
  proof -
    have "distinct (map nd_name (nd_dirs n))" using ah by (simp add: ahead_def)
    from at_child_set [OF this that] show ?thesis
    proof
    assume "d \<in> set (nd_dirs n) \<and> nd_name d \<noteq> p"
    with ah show ?thesis by (simp add: ahead_def)
  next
    assume "\<exists>c. (c = ?new \<or> c \<in> set (nd_dirs n) \<and> nd_name c = p) \<and> d = ?g c"
    then obtain c where c: "c = ?new \<or> c \<in> set (nd_dirs n) \<and> nd_name c = p" "d = ?g c" by blast
    then have "nd_name d = p" by auto
    with child [OF c(1)] c(2) show ?thesis by simp
    qed
  qed
  have files: "mset (nodeFiles (put_below f (p # q # ps) n)) = add_mset f (mset (nodeFiles n))"
    by (rule put_below_files)
  show ?case
    unfolding node_ok_sel [of folder pre "put_below f (p # q # ps) n"]
  proof (intro conjI)
    show "nd_count (put_below f (p # q # ps) n) = length (nodeFiles (put_below f (p # q # ps) n))"
      using mset_figures(1) [OF files] ah by (simp add: ahead_def)
    show "nd_size (put_below f (p # q # ps) n) = sum_list (map df_size (nodeFiles (put_below f (p # q # ps) n)))"
      using mset_figures(2) [OF files] ah by (simp add: ahead_def)
    show "\<forall>g \<in> set (nd_files (put_below f (p # q # ps) n)). df_folder g = folder \<and> (\<exists>l. split_on slash (df_path g) = pre @ [l])"
      using ah by (simp add: ahead_def)
    show "distinct (map nd_name (nd_dirs (put_below f (p # q # ps) n)))"
    proof -
      have "nd_dirs (put_below f (p # q # ps) n) = ?ds" by (simp only: put_below.simps tree_node.sel)
      then show ?thesis using ah by (auto simp only: names ahead_def distinct_append split: if_splits) simp_all
    qed
    show "\<forall>d \<in> set (nd_dirs (put_below f (p # q # ps) n)). node_ok folder (pre @ [nd_name d]) d"
      using dirs by simp
  qed
next
  case (leaf f v n)
  have files: "mset (nodeFiles (put_below f [v] n)) = add_mset f (mset (nodeFiles n))"
    by (rule put_below_files)
  have "nd_count (put_below f [v] n) = length (nodeFiles (put_below f [v] n))"
    "nd_size (put_below f [v] n) = sum_list (map df_size (nodeFiles (put_below f [v] n)))"
    using mset_figures [OF files] leaf(1) by (simp_all add: ahead_def)
  with leaf show ?case
    unfolding node_ok_sel [of folder pre "put_below f [v] n"] by (simp add: ahead_def)
qed simp

text \<open>The roots: one per folder of the set.\<close>

definition roots_ok :: "tree_node list \<Rightarrow> bool" where
  "roots_ok roots \<longleftrightarrow> distinct (map nd_name roots) \<and> (\<forall>n \<in> set roots. node_ok (nd_name n) [] n)"

lemma put_file_ok:
  assumes "roots_ok roots"
  shows "roots_ok (put_file roots f) \<and> mset (concat (map nodeFiles (put_file roots f))) = add_mset f (mset (concat (map nodeFiles roots)))"
proof
  let ?p = "df_folder f" and ?g = "\<lambda>n. put_below f (split_on slash (df_path f)) (count_in f n)"
  have names: "map nd_name (put_file roots f) = (if ?p \<in> set (map nd_name roots) then map nd_name roots else map nd_name roots @ [?p])"
    unfolding put_file_def by (rule at_child_names) simp_all
  have ok: "node_ok ?p [] (?g c)" if "c = new_node ?p ?p \<or> c \<in> set roots \<and> nd_name c = ?p" for c
  proof -
    have "node_ok ?p [] c" using that assms by (auto simp: roots_ok_def)
    from put_below_ok [OF ahead_count_in [OF this] refl, of "split_on slash (df_path f)"] show ?thesis by simp
  qed
  have "node_ok (nd_name n) [] n" if "n \<in> set (put_file roots f)" for n
  proof -
    from at_child_set [OF _ that [unfolded put_file_def]] assms
    consider "n \<in> set roots" | c where "c = new_node ?p ?p \<or> c \<in> set roots \<and> nd_name c = ?p" "n = ?g c"
      by (auto simp: roots_ok_def)
    then show ?thesis
    proof cases
      case 1
      with assms show ?thesis by (simp add: roots_ok_def)
    next
      case 2
      then have "nd_name n = ?p" by auto
      with ok [OF 2(1)] 2(2) show ?thesis by simp
    qed
  qed
  with names assms show "roots_ok (put_file roots f)" by (auto simp: roots_ok_def)
  show "mset (concat (map nodeFiles (put_file roots f))) = add_mset f (mset (concat (map nodeFiles roots)))"
    unfolding put_file_def by (rule at_child_files) (simp_all only: put_below_files count_in_sel new_node_sel)
qed

lemma buildTree_from:
  "roots_ok roots \<Longrightarrow> roots_ok (foldl put_file roots files) \<and>
    mset (concat (map nodeFiles (foldl put_file roots files))) = mset (concat (map nodeFiles roots)) + mset files"
proof (induction files arbitrary: roots)
  case (Cons f files)
  from put_file_ok [OF Cons.prems, of f] Cons.IH [of "put_file roots f"] show ?case by simp
qed simp

text \<open>
  C23: The tree of deleted files is exact. Every file found is in it once, below the root of its
  folder and the folders of its path; a folder's two figures are the number and the size of the
  files under it, whatever their depth; and no folder is shown twice under another.
\<close>

theorem buildTree_exact:
  "mset (concat (map nodeFiles (buildTree files))) = mset files \<and> distinct (map nd_name (buildTree files)) \<and>
    list_all (\<lambda>n. node_ok (nd_name n) [] n) (buildTree files)"
  using buildTree_from [of "[]" files] by (simp add: buildTree_def roots_ok_def list_all_iff)

section \<open>The page\<close>

definition fileKey :: "del_file \<Rightarrow> string" where
  "fileKey f = df_folder f @ CHR 0x00 # df_path f"

text \<open>The box of a folder: how many of the files under it are ticked, and a click on it.\<close>

definition node_ticked :: "string set \<Rightarrow> tree_node \<Rightarrow> nat" where
  "node_ticked sel n = length (filter (\<lambda>f. fileKey f \<in> sel) (nodeFiles n))"

definition box_checked :: "string set \<Rightarrow> tree_node \<Rightarrow> bool" where
  "box_checked sel n \<longleftrightarrow> node_ticked sel n = length (nodeFiles n) \<and> length (nodeFiles n) > 0"

definition box_indeterminate :: "string set \<Rightarrow> tree_node \<Rightarrow> bool" where
  "box_indeterminate sel n \<longleftrightarrow> node_ticked sel n > 0 \<and> node_ticked sel n < length (nodeFiles n)"

definition toggleAll :: "tree_node \<Rightarrow> string set \<Rightarrow> string set" where
  "toggleAll n sel =
     (if node_ticked sel n = length (nodeFiles n) then sel - set (map fileKey (nodeFiles n))
      else sel \<union> set (map fileKey (nodeFiles n)))"

definition toggleFile :: "del_file \<Rightarrow> string set \<Rightarrow> string set" where
  "toggleFile f sel = (if fileKey f \<in> sel then sel - {fileKey f} else insert (fileKey f) sel)"

datatype undelete_dest = ToOriginal | ToOther

text \<open>\<open>u_calls\<close> holds the set and the days of the scans whose answer is still to come.\<close>

record undelete_page =
  u_job :: string
  u_days :: int
  u_scan :: "del_file list option"
  u_scanning :: bool
  u_stale :: bool
  u_error :: string
  u_filter :: string
  u_selected :: "string set"
  u_expanded :: "string set"
  u_dest :: undelete_dest
  u_destPath :: string
  u_verify :: bool
  u_calls :: "(string \<times> int) list"

fun node_keys :: "tree_node \<Rightarrow> string list" where
  "node_keys (TreeNode k n ds fs c s) = k # concat (map node_keys ds)"

text \<open>The effect that runs when another set is chosen.\<close>

definition set_job :: "string \<Rightarrow> undelete_page \<Rightarrow> undelete_page" where
  "set_job j s =
     (if j = u_job s then s else s\<lparr>u_job := j, u_scan := None, u_selected := {}, u_error := []\<rparr>)"

definition runScan :: "undelete_page \<Rightarrow> undelete_page" where
  "runScan s =
     (if u_job s = [] then s
      else s\<lparr>u_error := [], u_scan := None, u_selected := {}, u_stale := False, u_scanning := True,
             u_calls := u_calls s @ [(u_job s, u_days s)]\<rparr>)"

definition opened_keys :: "del_file list \<Rightarrow> string set" where
  "opened_keys files =
     set (map df_folder files) \<union> (if length files \<le> 200 then set (concat (map node_keys (buildTree files))) else {})"

definition scan_answered :: "string + del_file list \<Rightarrow> undelete_page \<Rightarrow> undelete_page" where
  "scan_answered r s =
     (case r of
        Inl err \<Rightarrow> s\<lparr>u_error := err, u_scanning := False\<rparr>
      | Inr files \<Rightarrow> s\<lparr>u_scan := Some files,
          u_selected := set (map fileKey (filter (\<lambda>f. df_movedTo f = []) files)),
          u_expanded := opened_keys files, u_scanning := False\<rparr>)"

definition scan_files :: "undelete_page \<Rightarrow> del_file list" where
  "scan_files s = (case u_scan s of None \<Rightarrow> [] | Some files \<Rightarrow> files)"

definition visible :: "undelete_page \<Rightarrow> del_file list" where
  "visible s =
     (let q = toLowerCase (trim (u_filter s)) in
      if q \<noteq> [] then filter (\<lambda>f. contains q (toLowerCase (df_folder f @ ''/'' @ df_path f))) (scan_files s) else scan_files s)"

definition chosen_files :: "undelete_page \<Rightarrow> del_file list" where
  "chosen_files s = filter (\<lambda>f. fileKey f \<in> u_selected s) (scan_files s)"

definition selectShown :: "undelete_page \<Rightarrow> undelete_page" where
  "selectShown s = s\<lparr>u_selected := u_selected s \<union> set (map fileKey (visible s))\<rparr>"

definition clearShown :: "undelete_page \<Rightarrow> undelete_page" where
  "clearShown s = s\<lparr>u_selected := u_selected s - set (map fileKey (visible s))\<rparr>"

definition toggleExpand :: "string \<Rightarrow> undelete_page \<Rightarrow> undelete_page" where
  "toggleExpand k s = s\<lparr>u_expanded := (if k \<in> u_expanded s then u_expanded s - {k} else insert k (u_expanded s))\<rparr>"

text \<open>What StartUndelete is called with.\<close>

record undelete_request =
  ur_job :: string
  ur_items :: "(string \<times> string \<times> int) list"
  ur_dest :: string
  ur_verify :: bool

definition start_undelete :: "bool \<Rightarrow> undelete_page \<Rightarrow> undelete_request option \<times> undelete_page" where
  "start_undelete consent s =
     (if chosen_files s = [] then (None, s)
      else if u_dest s = ToOther \<and> u_destPath s = [] then (None, s\<lparr>u_error := ''destinationRequired''\<rparr>)
      else if \<not> consent then (None, s)
      else (Some \<lparr>ur_job = u_job s, ur_items = map (\<lambda>f. (df_archive f, df_path f, df_snapshotUnix f)) (chosen_files s),
                  ur_dest = (if u_dest s = ToOriginal then [] else u_destPath s), ur_verify = u_verify s\<rparr>,
            s\<lparr>u_error := []\<rparr>))"

datatype undelete_event =
    SetJob string
  | SetDays int
  | FindClicked
  | ScanAnswered nat
  | FilterTyped string
  | FolderBox tree_node
  | FileBox del_file
  | ShownSelected
  | ShownCleared
  | ExpandClicked string
  | DestChosen undelete_dest
  | DestTyped string
  | VerifyTicked bool
  | StartClicked bool
  | UndeleteDone

text \<open>\<open>scan_of\<close> is what the backend finds for a set and a number of days. The button is off while a scan runs.\<close>

definition undelete_step :: "(string \<Rightarrow> int \<Rightarrow> string + del_file list) \<Rightarrow> undelete_event \<Rightarrow> undelete_page \<Rightarrow> undelete_page" where
  "undelete_step scan_of ev s =
     (case ev of
        SetJob j \<Rightarrow> set_job j s
      | SetDays d \<Rightarrow> if u_scanning s then s else s\<lparr>u_days := d\<rparr>
      | FindClicked \<Rightarrow> if u_scanning s then s else runScan s
      | ScanAnswered i \<Rightarrow>
          if i < length (u_calls s)
          then scan_answered (case_prod scan_of (u_calls s ! i)) (s\<lparr>u_calls := take i (u_calls s) @ drop (Suc i) (u_calls s)\<rparr>)
          else s
      | FilterTyped q \<Rightarrow> s\<lparr>u_filter := q\<rparr>
      | FolderBox n \<Rightarrow> s\<lparr>u_selected := toggleAll n (u_selected s)\<rparr>
      | FileBox f \<Rightarrow> s\<lparr>u_selected := toggleFile f (u_selected s)\<rparr>
      | ShownSelected \<Rightarrow> selectShown s
      | ShownCleared \<Rightarrow> clearShown s
      | ExpandClicked k \<Rightarrow> toggleExpand k s
      | DestChosen d \<Rightarrow> s\<lparr>u_dest := d\<rparr>
      | DestTyped d \<Rightarrow> s\<lparr>u_destPath := d\<rparr>
      | VerifyTicked v \<Rightarrow> s\<lparr>u_verify := v\<rparr>
      | StartClicked c \<Rightarrow> snd (start_undelete c s)
      | UndeleteDone \<Rightarrow> s\<lparr>u_stale := True\<rparr>)"

section \<open>A click changes what is shown under it\<close>

text \<open>The folders of a tree, at any depth.\<close>

inductive in_tree :: "tree_node \<Rightarrow> tree_node list \<Rightarrow> bool" where
  here: "n \<in> set ns \<Longrightarrow> in_tree n ns"
| below: "in_tree n (nd_dirs m) \<Longrightarrow> m \<in> set ns \<Longrightarrow> in_tree n ns"

lemma in_tree_files: "in_tree n ns \<Longrightarrow> set (nodeFiles n) \<subseteq> set (concat (map nodeFiles ns))"
proof (induction rule: in_tree.induct)
  case (below n m ns)
  then have "set (nodeFiles n) \<subseteq> set (nodeFiles m)"
    unfolding nodeFiles_sel [of m] by auto
  with below(2) show ?case by auto
qed auto

lemma tree_files_visible: "in_tree n (buildTree files) \<Longrightarrow> set (nodeFiles n) \<subseteq> set files"
  using in_tree_files [of n "buildTree files"] mset_eq_setD [of "concat (map nodeFiles (buildTree files))" files]
    buildTree_from [of "[]" files] by (simp add: buildTree_def roots_ok_def)

lemma node_ticked_all: "node_ticked sel n = length (nodeFiles n) \<longleftrightarrow> (\<forall>f \<in> set (nodeFiles n). fileKey f \<in> sel)"
  unfolding node_ticked_def by (metis filter_id_conv length_filter_less less_irrefl)

lemma visible_subset: "set (visible s) \<subseteq> set (scan_files s)"
  by (auto simp: visible_def Let_def)

text \<open>
  A click on a folder's box ticks or clears exactly the files shown under it: the box is full
  afterwards when it was not before, and empty when it was full; every other file found, one
  hidden by the filter included, is ticked as before.
\<close>

theorem folder_box_exact:
  assumes n: "in_tree n (buildTree (visible s))" and keys: "distinct (map fileKey (scan_files s))" and f: "f \<in> set (scan_files s)"
    and s': "s' = undelete_step scan_of (FolderBox n) s"
  shows "(f \<in> set (chosen_files s') \<longleftrightarrow>
      (if f \<in> set (nodeFiles n) then \<not> box_checked (u_selected s) n else f \<in> set (chosen_files s)))
    \<and> (nodeFiles n \<noteq> [] \<longrightarrow> box_checked (u_selected s') n = (\<not> box_checked (u_selected s) n) \<and> \<not> box_indeterminate (u_selected s') n)"
proof -
  have sub: "set (nodeFiles n) \<subseteq> set (scan_files s)"
    using tree_files_visible [OF n] visible_subset by blast
  have key: "fileKey f \<in> fileKey ` set (nodeFiles n) \<longleftrightarrow> f \<in> set (nodeFiles n)"
    using keys f sub by (auto simp: distinct_map inj_on_def)
  have sel: "u_selected s' = toggleAll n (u_selected s)" "scan_files s' = scan_files s"
    by (simp_all add: s' undelete_step_def scan_files_def)
  have checked: "box_checked sl n \<longleftrightarrow> (\<forall>g \<in> set (nodeFiles n). fileKey g \<in> sl) \<and> nodeFiles n \<noteq> []" for sl
    by (simp add: box_checked_def node_ticked_all)
  have none: "\<not> box_indeterminate (toggleAll n (u_selected s)) n"
    by (auto simp: box_indeterminate_def toggleAll_def node_ticked_def filter_empty_conv)
  show ?thesis
  proof (cases "\<forall>g \<in> set (nodeFiles n). fileKey g \<in> u_selected s")
    case True
    then have t: "u_selected s' = u_selected s - fileKey ` set (nodeFiles n)"
      by (simp add: sel toggleAll_def node_ticked_all)
    have "\<not> box_indeterminate (u_selected s') n" using none sel(1) by simp
    then show ?thesis using True key f by (auto simp: chosen_files_def sel(2) t checked)
  next
    case False
    then have t: "u_selected s' = u_selected s \<union> fileKey ` set (nodeFiles n)"
      by (auto simp: sel toggleAll_def node_ticked_all)
    have "\<not> box_indeterminate (u_selected s') n" using none sel(1) by simp
    then show ?thesis using False key f by (auto simp: chosen_files_def sel(2) t checked)
  qed
qed

section \<open>A scan is of the chosen set\<close>

text \<open>A patient user does not choose another set while a scan runs.\<close>

definition patient :: "undelete_event \<Rightarrow> undelete_page \<Rightarrow> bool" where
  "patient ev s = (case ev of SetJob j \<Rightarrow> u_calls s = [] | _ \<Rightarrow> True)"

definition undelete_moves :: "(string \<Rightarrow> int \<Rightarrow> string + del_file list) \<Rightarrow> undelete_page \<Rightarrow> undelete_page \<Rightarrow> bool" where
  "undelete_moves scan_of s t \<longleftrightarrow> (\<exists>ev. patient ev s \<and> t = undelete_step scan_of ev s)"

lemmas undelete_defs = set_job_def runScan_def scan_answered_def selectShown_def clearShown_def toggleExpand_def start_undelete_def

lemma undelete_step_job:
  "u_job (undelete_step scan_of ev s) = (case ev of SetJob j \<Rightarrow> j | _ \<Rightarrow> u_job s)"
  by (auto simp: undelete_step_def undelete_defs split: undelete_event.split sum.split prod.splits)

lemma undelete_step_calls:
  "set (u_calls (undelete_step scan_of ev s)) \<subseteq> set (u_calls s) \<union> {(u_job s, u_days s)}"
  by (auto simp: undelete_step_def undelete_defs split: undelete_event.split sum.split prod.splits
      dest: in_set_takeD in_set_dropD)

lemma undelete_step_scan:
  assumes "u_scan (undelete_step scan_of ev s) = Some files"
  shows "u_scan s = Some files \<and> (case ev of SetJob j \<Rightarrow> j = u_job s | _ \<Rightarrow> True)
    \<or> (\<exists>i. ev = ScanAnswered i) \<and> (\<exists>(j, d) \<in> set (u_calls s). scan_of j d = Inr files)"
proof (cases ev)
  case (ScanAnswered i)
  have "(\<lambda>(j, d). scan_of j d = Inr files) (u_calls s ! i) \<Longrightarrow> i < length (u_calls s) \<Longrightarrow>
      \<exists>(j, d) \<in> set (u_calls s). scan_of j d = Inr files"
    by (rule bexI [where x = "u_calls s ! i"]) simp_all
  with assms ScanAnswered show ?thesis
    by (cases "i < length (u_calls s)"; cases "u_calls s ! i")
       (auto simp: undelete_step_def scan_answered_def split: sum.splits)
qed (use assms in \<open>auto simp: undelete_step_def undelete_defs split: if_splits prod.splits\<close>)

interpretation undelete_view: answered_view "undelete_moves scan_of" u_job u_scan "\<lambda>s. map fst (u_calls s)"
  "\<lambda>j files. \<exists>d. scan_of j d = Inr files" for scan_of
proof
  fix s t k
  assume "undelete_moves scan_of s t" and k: "k \<in> set (map fst (u_calls t))"
  then obtain ev where ev: "patient ev s" "t = undelete_step scan_of ev s" by (auto simp: undelete_moves_def)
  show "k = u_job t \<or> k \<in> set (map fst (u_calls s)) \<and> u_job t = u_job s"
  proof (cases "\<exists>j. ev = SetJob j")
    case True
    with ev have "u_calls t = []" by (auto simp: patient_def undelete_step_def set_job_def)
    with k show ?thesis by simp
  next
    case False
    then have "u_job t = u_job s" by (simp add: ev undelete_step_job split: undelete_event.split)
    with k ev undelete_step_calls [of scan_of ev s] show ?thesis by auto
  qed
next
  fix s t files
  assume "undelete_moves scan_of s t" and f: "u_scan t = Some files"
  then obtain ev where ev: "t = undelete_step scan_of ev s" by (auto simp: undelete_moves_def)
  from undelete_step_scan [OF f [unfolded ev]]
  show "u_job t = u_job s \<and> (u_scan s = Some files \<or> (\<exists>k \<in> set (map fst (u_calls s)). \<exists>d. scan_of k d = Inr files))"
    by (auto simp: ev undelete_step_job split: undelete_event.splits prod.splits) force+
qed

text \<open>
  C24: An undelete restores files of the chosen set only. As long as no other set is chosen while
  a scan runs, what Undelete is started with was found by a scan of the set it is started for;
  it is started only with the user's consent, with at least one file ticked, and either where the
  files were or to a folder typed in.
\<close>

theorem undelete_of_scanned_set:
  assumes "(undelete_moves scan_of)\<^sup>*\<^sup>* s0 s" "u_scan s0 = None" "u_calls s0 = []"
    and "start_undelete consent s = (Some r, s')"
  shows "consent \<and> ur_items r \<noteq> [] \<and> (u_dest s = ToOriginal \<or> ur_dest r \<noteq> []) \<and>
    (\<exists>d files. scan_of (ur_job r) d = Inr files \<and>
      set (ur_items r) \<subseteq> (\<lambda>f. (df_archive f, df_path f, df_snapshotUnix f)) ` {f \<in> set files. fileKey f \<in> u_selected s})"
proof -
  from assms(4) have r: "consent" "chosen_files s \<noteq> []" "u_dest s = ToOther \<Longrightarrow> u_destPath s \<noteq> []"
    "ur_job r = u_job s" "ur_items r = map (\<lambda>f. (df_archive f, df_path f, df_snapshotUnix f)) (chosen_files s)"
    "ur_dest r = (if u_dest s = ToOriginal then [] else u_destPath s)"
    by (auto simp: start_undelete_def split: if_splits)
  then obtain files where files: "u_scan s = Some files"
    by (auto simp: chosen_files_def scan_files_def split: option.splits)
  moreover from undelete_view.shown_is_chosen [OF assms(1) assms(2) _ files] assms(3)
  obtain d where "scan_of (u_job s) d = Inr files" by auto
  moreover have "u_dest s = ToOriginal \<or> ur_dest r \<noteq> []"
    using r(3,6) by (cases "u_dest s") auto
  ultimately show ?thesis
    using r(1,2,4,5) by (auto simp: chosen_files_def scan_files_def)
qed

text \<open>
  A scan that ends after another set was chosen is taken for that set's. Nothing keeps the
  user from choosing another set while the scan runs, and its answer is not checked: the files of
  the first set are shown under the second, ticked, and Undelete is started for the second set
  with the files of the first.
\<close>

theorem scan_of_other_set:
  assumes "u_job s = j" "j \<noteq> []" "k \<noteq> j" "\<not> u_scanning s" "u_calls s = []" "scan_of j (u_days s) = Inr files"
    and "\<exists>f \<in> set files. df_movedTo f = []" "u_dest s = ToOriginal"
    and "s' = fold (undelete_step scan_of) [FindClicked, SetJob k, ScanAnswered 0] s"
  shows "u_job s' = k \<and> u_scan s' = Some files \<and> (\<exists>r. fst (start_undelete True s') = Some r \<and> ur_job r = k \<and>
    (\<forall>f. f \<in> set files \<longrightarrow> df_movedTo f = [] \<longrightarrow> (df_archive f, df_path f, df_snapshotUnix f) \<in> set (ur_items r)))"
proof -
  have s': "u_job s' = k" "u_scan s' = Some files" "u_dest s' = ToOriginal"
    "u_selected s' = set (map fileKey (filter (\<lambda>f. df_movedTo f = []) files))"
    using assms by (simp_all add: undelete_step_def set_job_def runScan_def scan_answered_def)
  moreover have "chosen_files s' \<noteq> []"
    using assms(7) by (auto simp: chosen_files_def scan_files_def s' filter_empty_conv)
  ultimately show ?thesis
    by (auto simp: start_undelete_def chosen_files_def scan_files_def)
qed

section \<open>A set with two files gone\<close>

definition gone :: "del_file list" where
  "gone = [\<lparr>df_folder = ''C:/docs'', df_path = ''a/x'', df_size = 3, df_movedTo = [], df_archive = ''docs'', df_snapshotUnix = 9\<rparr>,
     \<lparr>df_folder = ''C:/docs'', df_path = ''a/y'', df_size = 4, df_movedTo = ''C:/docs/y'', df_archive = ''docs'', df_snapshotUnix = 9\<rparr>]"

definition first_undelete :: undelete_page where
  "first_undelete = \<lparr>u_job = ''s1'', u_days = 0, u_scan = None, u_scanning = False, u_stale = False, u_error = [], u_filter = [],
     u_selected = {}, u_expanded = {}, u_dest = ToOriginal, u_destPath = [], u_verify = True, u_calls = []\<rparr>"

definition gone_scan :: "string \<Rightarrow> int \<Rightarrow> string + del_file list" where
  "gone_scan j d = (if j = ''s1'' then Inr gone else Inl ''no set'')"

lemmas undelete_sample = gone_def first_undelete_def gone_scan_def

lemma gone_moves:
  "(undelete_moves gone_scan)\<^sup>*\<^sup>* first_undelete (fold (undelete_step gone_scan) [FindClicked, ScanAnswered 0] first_undelete)"
proof -
  have move: "undelete_moves gone_scan t (undelete_step gone_scan ev t)" if "patient ev t" for ev t
    using that by (auto simp: undelete_moves_def)
  have "undelete_moves gone_scan first_undelete (undelete_step gone_scan FindClicked first_undelete)"
    "undelete_moves gone_scan (undelete_step gone_scan FindClicked first_undelete)
      (undelete_step gone_scan (ScanAnswered 0) (undelete_step gone_scan FindClicked first_undelete))"
    by (simp_all add: move patient_def)
  then show ?thesis by simp
qed

theorem undelete_of_scanned_set_witness:
  "\<exists>r. fst (start_undelete True (fold (undelete_step gone_scan) [FindClicked, ScanAnswered 0] first_undelete)) = Some r
     \<and> ur_job r = ''s1'' \<and> ur_items r \<noteq> []"
proof -
  let ?s = "fold (undelete_step gone_scan) [FindClicked, ScanAnswered 0] first_undelete"
  obtain r s' where r: "start_undelete True ?s = (Some r, s')" "ur_job r = ''s1''"
    by (simp add: undelete_step_def undelete_defs undelete_sample chosen_files_def scan_files_def fileKey_def)
  have "u_scan first_undelete = None" "u_calls first_undelete = []"
    by (simp_all add: first_undelete_def)
  from undelete_of_scanned_set [OF gone_moves this r(1)] r show ?thesis by simp
qed

theorem scan_of_other_set_witness:
  "\<exists>(s' :: undelete_page) r. u_job s' = ''s2'' \<and> u_scan s' = Some gone \<and> fst (start_undelete True s') = Some r \<and> ur_job r = ''s2''"
proof -
  have a: "u_job first_undelete = ''s1''" "\<not> u_scanning first_undelete" "u_calls first_undelete = []"
    "gone_scan ''s1'' (u_days first_undelete) = Inr gone" "u_dest first_undelete = ToOriginal"
    by (simp_all add: first_undelete_def gone_scan_def)
  have b: "''s1'' \<noteq> []" "''s2'' \<noteq> ''s1''" "\<exists>f \<in> set gone. df_movedTo f = []"
    by (simp_all add: gone_def)
  show ?thesis
    using scan_of_other_set [of first_undelete "''s1''" "''s2''" gone_scan gone, OF a(1) b(1) b(2) a(2) a(3) a(4) b(3) a(5) refl]
    by blast
qed

theorem folder_box_exact_witness:
  "box_checked (u_selected (undelete_step gone_scan (FolderBox (hd (buildTree gone))) (first_undelete\<lparr>u_scan := Some gone\<rparr>))) (hd (buildTree gone))"
proof -
  let ?s = "first_undelete\<lparr>u_scan := Some gone\<rparr>" and ?n = "hd (buildTree gone)"
  have vis: "visible ?s = gone"
    by (simp add: visible_def scan_files_def first_undelete_def)
  have tree: "buildTree gone \<noteq> []" "nodeFiles ?n \<noteq> []"
    by code_simp+
  then have "in_tree ?n (buildTree (visible ?s))"
    by (intro in_tree.here) (simp add: vis)
  moreover have "distinct (map fileKey (scan_files ?s))" "hd gone \<in> set (scan_files ?s)"
    by (simp_all add: scan_files_def gone_def fileKey_def)
  moreover have "\<not> box_checked (u_selected ?s) ?n"
    using tree by (simp add: box_checked_def node_ticked_def first_undelete_def)
  ultimately show ?thesis
    using folder_box_exact [OF _ _ _ refl, of ?n ?s "hd gone" gone_scan] tree by blast
qed

end
