(* ===== verification/Rollback.thy ===== *)
theory Rollback
  imports Views
begin

text \<open>
  The Roll back page (\<open>RollbackPage\<close>, \<open>components/SetTools.jsx\<close>): the list of a set's backups, the
  preview of what a roll back would change, the number typed before files are removed, the start,
  and the earlier roll backs that can be undone. What the backend answers is an argument.
\<close>

section \<open>The page\<close>

datatype policy = Replace | Missing_only | Exact

record preview =
  pv_snapshotUnix :: int
  pv_missingCount :: nat
  pv_changedCount :: nat
  pv_newCount :: nat

record kept_record =
  kr_path :: string
  kr_status :: string

datatype kept_op = UndoOp | DeleteOp

text \<open>
  \<open>r_lists\<close> holds the listings whose answer is still taken (the effect's \<open>cancelled\<close> drops older
  ones), \<open>r_previews\<close> and \<open>r_recordCalls\<close> the other calls under way, \<open>r_op\<close> the undo or delete.
\<close>

record rollback_page =
  r_job :: string
  r_snaps :: "int list option"
  r_loadingSnaps :: bool
  r_snapUnix :: int
  r_atTime :: string
  r_preview :: "preview option"
  r_previewing :: bool
  r_policy :: policy
  r_backupFirst :: bool
  r_verify :: bool
  r_confirmText :: string
  r_error :: string
  r_records :: "kept_record list"
  r_busyRecord :: string
  r_lists :: "string list"
  r_previews :: "(string \<times> int) list"
  r_recordCalls :: "string list"
  r_op :: "(kept_op \<times> string \<times> string) option"

record rollback_backend =
  rl_machine :: "string \<Rightarrow> bool"
  rl_list :: "string \<Rightarrow> string + int list"
  rl_preview :: "string \<Rightarrow> int \<Rightarrow> string + preview"
  rl_records :: "string \<Rightarrow> kept_record list"
  rl_time :: "string \<Rightarrow> int"

text \<open>The list of records is emptied at once without a set, else asked for.\<close>

definition loadRecords :: "string \<Rightarrow> rollback_page \<Rightarrow> rollback_page" where
  "loadRecords j s = (if j = [] then s\<lparr>r_records := []\<rparr> else s\<lparr>r_recordCalls := r_recordCalls s @ [j]\<rparr>)"

text \<open>The effect that runs when another set is chosen.\<close>

definition choose_set :: "rollback_backend \<Rightarrow> string \<Rightarrow> rollback_page \<Rightarrow> rollback_page" where
  "choose_set b j s =
     (if j = r_job s then s
      else
        let s = loadRecords j
              (s\<lparr>r_job := j, r_lists := [], r_snaps := None, r_snapUnix := 0, r_preview := None, r_error := [],
                 r_atTime := [], r_confirmText := [], r_backupFirst := \<not> rl_machine b j\<rparr>)
        in if j = [] then s else s\<lparr>r_loadingSnaps := True, r_lists := [j]\<rparr>)"

definition snaps_answered :: "string + int list \<Rightarrow> rollback_page \<Rightarrow> rollback_page" where
  "snaps_answered r s =
     (case r of Inl err \<Rightarrow> s\<lparr>r_error := err\<rparr> | Inr l \<Rightarrow> s\<lparr>r_snaps := Some l\<rparr>)\<lparr>r_loadingSnaps := False\<rparr>"

text \<open>The effect that runs when another backup is chosen.\<close>

definition set_snap :: "int \<Rightarrow> rollback_page \<Rightarrow> rollback_page" where
  "set_snap u s = (if u = r_snapUnix s then s else s\<lparr>r_snapUnix := u, r_preview := None, r_confirmText := []\<rparr>)"

definition pick_snap :: "int \<Rightarrow> rollback_page \<Rightarrow> rollback_page" where
  "pick_snap u s = (set_snap u s)\<lparr>r_atTime := []\<rparr>"

definition pickAt :: "rollback_backend \<Rightarrow> string \<Rightarrow> rollback_page \<Rightarrow> rollback_page" where
  "pickAt b value s =
     (let s = s\<lparr>r_atTime := value\<rparr> in
      case r_snaps s of
        None \<Rightarrow> s
      | Some snaps \<Rightarrow>
          if value = [] then s
          else case List.find (\<lambda>x. x \<le> rl_time b value) snaps of
            Some x \<Rightarrow> (set_snap x s)\<lparr>r_error := []\<rparr>
          | None \<Rightarrow> (set_snap 0 s)\<lparr>r_error := ''rollbackNoneBefore''\<rparr>)"

definition runPreview :: "rollback_page \<Rightarrow> rollback_page" where
  "runPreview s = s\<lparr>r_error := [], r_preview := None, r_confirmText := [], r_previewing := True,
     r_previews := r_previews s @ [(r_job s, r_snapUnix s)]\<rparr>"

definition preview_answered :: "string + preview \<Rightarrow> rollback_page \<Rightarrow> rollback_page" where
  "preview_answered r s =
     (case r of Inl err \<Rightarrow> s\<lparr>r_error := err\<rparr> | Inr p \<Rightarrow> s\<lparr>r_preview := Some p\<rparr>)\<lparr>r_previewing := False\<rparr>"

definition choosePolicy :: "policy \<Rightarrow> rollback_page \<Rightarrow> rollback_page" where
  "choosePolicy p s = s\<lparr>r_policy := p, r_confirmText := []\<rparr>"

section \<open>What would be done, and the start\<close>

definition willRestore :: "rollback_page \<Rightarrow> nat" where
  "willRestore s =
     (case r_preview s of
        None \<Rightarrow> 0
      | Some p \<Rightarrow> pv_missingCount p + (if r_policy s = Missing_only then 0 else pv_changedCount p))"

definition willRemove :: "rollback_page \<Rightarrow> nat" where
  "willRemove s = (case r_preview s of None \<Rightarrow> 0 | Some p \<Rightarrow> if r_policy s = Exact then pv_newCount p else 0)"

definition exactOk :: "rollback_page \<Rightarrow> bool" where
  "exactOk s \<longleftrightarrow> r_policy s \<noteq> Exact
     \<or> (case r_preview s of None \<Rightarrow> [] | Some p \<Rightarrow> show_nat (pv_newCount p)) = trim (r_confirmText s)"

definition nothingToDo :: "rollback_page \<Rightarrow> bool" where
  "nothingToDo s \<longleftrightarrow> r_preview s \<noteq> None \<and> willRestore s = 0 \<and> willRemove s = 0"

definition rollbackDisabled :: "bool \<Rightarrow> rollback_page \<Rightarrow> bool" where
  "rollbackDisabled restoreLoading s \<longleftrightarrow> restoreLoading \<or> nothingToDo s
     \<or> (case r_preview s of None \<Rightarrow> False | Some p \<Rightarrow> r_policy s = Exact \<and> pv_newCount p > 0 \<and> \<not> exactOk s)"

record rollback_request =
  rr_job :: string
  rr_snap :: int
  rr_policy :: policy
  rr_backupFirst :: bool
  rr_remove :: nat
  rr_verify :: bool

text \<open>The button is shown with a preview only; \<open>consent\<close> answers the question it asks.\<close>

definition start_rollback :: "bool \<Rightarrow> bool \<Rightarrow> rollback_page \<Rightarrow> rollback_request option" where
  "start_rollback restoreLoading consent s =
     (case r_preview s of
        None \<Rightarrow> None
      | Some p \<Rightarrow>
          if rollbackDisabled restoreLoading s \<or> \<not> consent then None
          else Some \<lparr>rr_job = r_job s, rr_snap = r_snapUnix s, rr_policy = r_policy s, rr_backupFirst = r_backupFirst s,
                     rr_remove = (if r_policy s = Exact then pv_newCount p else 0), rr_verify = r_verify s\<rparr>)"

text \<open>Undo and Delete of an earlier roll back; the records are read again afterwards.\<close>

definition kept_clicked :: "kept_op \<Rightarrow> kept_record \<Rightarrow> bool \<Rightarrow> rollback_page \<Rightarrow> rollback_page" where
  "kept_clicked k r consent s =
     (if r_busyRecord s \<noteq> [] \<or> \<not> consent \<or> (k = UndoOp \<and> kr_status r = ''undone'') then s
      else s\<lparr>r_busyRecord := kr_path r, r_op := Some (k, kr_path r, r_job s)\<rparr>)"

definition kept_answered :: "rollback_page \<Rightarrow> rollback_page" where
  "kept_answered s =
     (case r_op s of
        None \<Rightarrow> s
      | Some (k, path, j) \<Rightarrow> loadRecords j (s\<lparr>r_busyRecord := [], r_op := None\<rparr>))"

definition rollback_done :: "rollback_page \<Rightarrow> rollback_page" where
  "rollback_done s = loadRecords (r_job s) (s\<lparr>r_preview := None, r_confirmText := []\<rparr>)"

section \<open>Events\<close>

datatype rollback_event =
    ChooseSet string
  | ListAnswered nat
  | PickSnap int
  | PickAt string
  | PreviewClicked
  | PreviewAnswered nat
  | PolicyChosen policy
  | ConfirmTyped string
  | BackupFirstTicked bool
  | VerifySet bool
  | StartPressed bool
  | RollbackDone
  | KeptClicked kept_op kept_record bool
  | KeptAnswered
  | RecordsAnswered nat

definition drop_nth :: "nat \<Rightarrow> 'a list \<Rightarrow> 'a list" where
  "drop_nth i xs = take i xs @ drop (Suc i) xs"

definition rollback_step :: "rollback_backend \<Rightarrow> rollback_event \<Rightarrow> rollback_page \<Rightarrow> rollback_page" where
  "rollback_step b ev s =
     (case ev of
        ChooseSet j \<Rightarrow> choose_set b j s
      | ListAnswered i \<Rightarrow>
          if i < length (r_lists s) then snaps_answered (rl_list b (r_lists s ! i)) (s\<lparr>r_lists := drop_nth i (r_lists s)\<rparr>) else s
      | PickSnap u \<Rightarrow> pick_snap u s
      | PickAt v \<Rightarrow> pickAt b v s
      | PreviewClicked \<Rightarrow> if r_snapUnix s > 0 \<and> \<not> r_previewing s then runPreview s else s
      | PreviewAnswered i \<Rightarrow>
          if i < length (r_previews s)
          then preview_answered (case_prod (rl_preview b) (r_previews s ! i)) (s\<lparr>r_previews := drop_nth i (r_previews s)\<rparr>)
          else s
      | PolicyChosen p \<Rightarrow> choosePolicy p s
      | ConfirmTyped c \<Rightarrow> s\<lparr>r_confirmText := c\<rparr>
      | BackupFirstTicked x \<Rightarrow> s\<lparr>r_backupFirst := x\<rparr>
      | VerifySet x \<Rightarrow> s\<lparr>r_verify := x\<rparr>
      | StartPressed c \<Rightarrow> (if start_rollback False c s = None then s else s\<lparr>r_error := []\<rparr>)
      | RollbackDone \<Rightarrow> rollback_done s
      | KeptClicked k r c \<Rightarrow> kept_clicked k r c s
      | KeptAnswered \<Rightarrow> kept_answered s
      | RecordsAnswered i \<Rightarrow>
          if i < length (r_recordCalls s)
          then s\<lparr>r_records := rl_records b (r_recordCalls s ! i), r_recordCalls := drop_nth i (r_recordCalls s)\<rparr> else s)"

lemmas rollback_defs = choose_set_def loadRecords_def snaps_answered_def pick_snap_def set_snap_def pickAt_def runPreview_def
  preview_answered_def choosePolicy_def kept_clicked_def kept_answered_def rollback_done_def

lemma set_drop_nth: "set (drop_nth i xs) \<subseteq> set xs"
  by (auto simp: drop_nth_def dest: in_set_takeD in_set_dropD)

section \<open>The list is of the chosen set\<close>

lemma rollback_step_job:
  "r_job (rollback_step b ev s) = (case ev of ChooseSet j \<Rightarrow> j | _ \<Rightarrow> r_job s)"
  by (auto simp: rollback_step_def rollback_defs Let_def split: rollback_event.split sum.split option.split prod.splits)

lemma rollback_step_lists:
  "set (r_lists (rollback_step b ev s)) \<subseteq> (case ev of ChooseSet j \<Rightarrow> if j = r_job s then set (r_lists s) else {j} | _ \<Rightarrow> set (r_lists s))"
  using set_drop_nth [of _ "r_lists s"]
  by (auto simp: rollback_step_def rollback_defs Let_def split: rollback_event.split sum.split option.split prod.splits)

lemma rollback_step_snaps:
  assumes "r_snaps (rollback_step b ev s) = Some l"
  shows "r_snaps s = Some l \<and> (case ev of ChooseSet j \<Rightarrow> j = r_job s | _ \<Rightarrow> True)
    \<or> (\<exists>i. ev = ListAnswered i) \<and> (\<exists>j \<in> set (r_lists s). rl_list b j = Inr l)"
proof (cases ev)
  case (ListAnswered i)
  with assms show ?thesis
    by (cases "i < length (r_lists s)") (auto simp: rollback_step_def snaps_answered_def split: sum.splits dest: nth_mem)
qed (use assms in \<open>auto simp: rollback_step_def rollback_defs Let_def split: if_splits sum.splits option.splits prod.splits\<close>)

definition rollback_moves :: "(rollback_event \<Rightarrow> rollback_page \<Rightarrow> bool) \<Rightarrow> rollback_backend \<Rightarrow> rollback_page \<Rightarrow> rollback_page \<Rightarrow> bool" where
  "rollback_moves Q b s t \<longleftrightarrow> (\<exists>ev. Q ev s \<and> t = rollback_step b ev s)"

interpretation rollback_list: answered_view "rollback_moves Q b" r_job r_snaps r_lists "\<lambda>j l. rl_list b j = Inr l" for Q b
proof
  fix s t k
  assume "rollback_moves Q b s t" and k: "k \<in> set (r_lists t)"
  then obtain ev where ev: "t = rollback_step b ev s" by (auto simp: rollback_moves_def)
  show "k = r_job t \<or> k \<in> set (r_lists s) \<and> r_job t = r_job s"
    using k rollback_step_lists [of b ev s]
    by (cases ev) (auto simp: ev rollback_step_job split: if_splits)
next
  fix s t l
  assume "rollback_moves Q b s t" and l: "r_snaps t = Some l"
  then obtain ev where ev: "t = rollback_step b ev s" by (auto simp: rollback_moves_def)
  from rollback_step_snaps [OF l [unfolded ev]]
  show "r_job t = r_job s \<and> (r_snaps s = Some l \<or> (\<exists>k \<in> set (r_lists s). rl_list b k = Inr l))"
    by (auto simp: ev rollback_step_job split: rollback_event.splits)
qed

section \<open>The preview is of the chosen backup\<close>

text \<open>A considerate user chooses no other set or backup while a preview is being made.\<close>

definition chooses :: "rollback_event \<Rightarrow> bool" where
  "chooses ev = (case ev of ChooseSet j \<Rightarrow> True | PickSnap u \<Rightarrow> True | PickAt v \<Rightarrow> True | _ \<Rightarrow> False)"

definition considerate :: "rollback_event \<Rightarrow> rollback_page \<Rightarrow> bool" where
  "considerate ev s \<longleftrightarrow> \<not> chooses ev \<or> r_previews s = []"

lemma rollback_step_chosen:
  "\<not> chooses ev \<Longrightarrow> r_snapUnix (rollback_step b ev s) = r_snapUnix s \<and> r_job (rollback_step b ev s) = r_job s"
  by (cases ev) (auto simp: chooses_def rollback_step_def rollback_defs Let_def split: sum.split option.split prod.splits)

lemma rollback_step_previews:
  "set (r_previews (rollback_step b ev s)) \<subseteq> (if chooses ev then {} else {(r_job s, r_snapUnix s)}) \<union> set (r_previews s)"
  using set_drop_nth [of _ "r_previews s"]
  by (cases ev) (auto simp: chooses_def rollback_step_def rollback_defs Let_def split: sum.split option.split prod.splits)

lemma rollback_step_preview:
  assumes "r_preview (rollback_step b ev s) = Some p"
  shows "r_preview s = Some p \<and> (r_job (rollback_step b ev s), r_snapUnix (rollback_step b ev s)) = (r_job s, r_snapUnix s)
    \<or> (\<exists>i. ev = PreviewAnswered i) \<and> (\<exists>k \<in> set (r_previews s). case_prod (rl_preview b) k = Inr p)"
proof (cases ev)
  case (PreviewAnswered i)
  show ?thesis
  proof (cases "i < length (r_previews s)")
    case True
    then have "r_previews s ! i \<in> set (r_previews s)" by simp
    with assms PreviewAnswered True show ?thesis
      by (cases "case_prod (rl_preview b) (r_previews s ! i)")
         (auto simp: rollback_step_def preview_answered_def)
  qed (use assms PreviewAnswered in \<open>simp add: rollback_step_def\<close>)
qed (use assms in \<open>auto simp: rollback_step_def rollback_defs Let_def split: if_splits sum.splits option.splits prod.splits\<close>)

interpretation rollback_preview: answered_view "rollback_moves considerate b" "\<lambda>s. (r_job s, r_snapUnix s)" r_preview r_previews
  "\<lambda>k p. case_prod (rl_preview b) k = Inr p" for b
proof
  fix s t k
  assume "rollback_moves considerate b s t" and k: "k \<in> set (r_previews t)"
  then obtain ev where ev: "t = rollback_step b ev s" "considerate ev s" by (auto simp: rollback_moves_def)
  show "k = (r_job t, r_snapUnix t) \<or> k \<in> set (r_previews s) \<and> (r_job t, r_snapUnix t) = (r_job s, r_snapUnix s)"
  proof (cases "chooses ev")
    case True
    with ev k rollback_step_previews [of b ev s] show ?thesis by (auto simp: considerate_def)
  next
    case False
    with ev k rollback_step_previews [of b ev s] rollback_step_chosen [of ev b s] show ?thesis by auto
  qed
next
  fix s t p
  assume "rollback_moves considerate b s t" and p: "r_preview t = Some p"
  then obtain ev where ev: "t = rollback_step b ev s" by (auto simp: rollback_moves_def)
  from rollback_step_preview [OF p [unfolded ev]]
  show "(r_job t, r_snapUnix t) = (r_job s, r_snapUnix s) \<and>
      (r_preview s = Some p \<or> (\<exists>k \<in> set (r_previews s). case_prod (rl_preview b) k = Inr p))"
  proof
    assume "(\<exists>i. ev = PreviewAnswered i) \<and> (\<exists>k \<in> set (r_previews s). case_prod (rl_preview b) k = Inr p)"
    moreover from this have "\<not> chooses ev" by (auto simp: chooses_def)
    ultimately show ?thesis using rollback_step_chosen [of ev b s] ev by auto
  qed (use ev in simp)
qed

definition fresh_rollback :: "rollback_page \<Rightarrow> bool" where
  "fresh_rollback s \<longleftrightarrow> r_preview s = None \<and> r_snaps s = None \<and> r_previews s = [] \<and> r_lists s = []"

text \<open>
  C22: A roll back does what was shown. As long as no other set or backup is chosen while a preview
  is being made, the preview a roll back is started from was made for the very set and backup it
  is started with; it has something to do, the user agreed to it, and before files added since
  are removed their exact number was typed, which is also the number the backend is told. With another backup chosen
  meanwhile it is not so (\<open>preview_of_other_backup\<close>).
\<close>

theorem rollback_as_previewed:
  assumes "(rollback_moves considerate b)\<^sup>*\<^sup>* s0 s" "fresh_rollback s0" "start_rollback busy consent s = Some r"
  shows "\<exists>p. rl_preview b (rr_job r) (rr_snap r) = Inr p \<and> consent \<and> \<not> busy \<and>
    (pv_missingCount p > 0 \<or> rr_policy r \<noteq> Missing_only \<and> pv_changedCount p > 0 \<or> rr_remove r > 0) \<and>
    rr_remove r = (if rr_policy r = Exact then pv_newCount p else 0) \<and>
    (rr_remove r > 0 \<longrightarrow> trim (r_confirmText s) = show_nat (rr_remove r))"
proof -
  from assms(3) obtain p where p: "r_preview s = Some p" and r: "\<not> rollbackDisabled busy s" "consent"
    "rr_job r = r_job s" "rr_snap r = r_snapUnix s" "rr_policy r = r_policy s"
    "rr_remove r = (if r_policy s = Exact then pv_newCount p else 0)"
    by (auto simp: start_rollback_def split: option.splits if_splits)
  from rollback_preview.shown_is_chosen [OF assms(1) _ _ p] assms(2)
  have "rl_preview b (rr_job r) (rr_snap r) = Inr p" by (simp add: fresh_rollback_def r)
  moreover from r(1) p have "\<not> busy" "willRestore s \<noteq> 0 \<or> willRemove s \<noteq> 0"
    "r_policy s = Exact \<Longrightarrow> pv_newCount p > 0 \<Longrightarrow> exactOk s"
    by (auto simp: rollbackDisabled_def nothingToDo_def)
  ultimately show ?thesis
    using r(2,5,6) p by (auto simp: willRestore_def willRemove_def exactOk_def split: if_splits)
qed

text \<open>
  A preview that ends after another backup was chosen is taken for that one's. Its answer is
  not checked: the comparison with the first backup is shown while the second is chosen, and Roll
  back is started for the second, with the number of files to remove counted for the first.
\<close>

theorem preview_of_other_backup:
  assumes "r_previews s = []" "\<not> r_previewing s" "r_snapUnix s = u" "u > 0" "v \<noteq> u" "rl_preview b (r_job s) u = Inr p"
    and "pv_newCount p > 0" "c = show_nat (pv_newCount p)" "trim c = c"
    and "s' = fold (rollback_step b) [PreviewClicked, PickSnap v, PreviewAnswered 0, PolicyChosen Exact, ConfirmTyped c] s"
  shows "\<exists>r. start_rollback False True s' = Some r \<and> rr_job r = r_job s \<and> rr_snap r = v \<and> rr_remove r = pv_newCount p"
  using assms
  by (simp add: rollback_step_def runPreview_def pick_snap_def set_snap_def preview_answered_def drop_nth_def choosePolicy_def
      start_rollback_def rollbackDisabled_def nothingToDo_def willRemove_def exactOk_def)

section \<open>Choosing a backup by its time\<close>

text \<open>
  The backup taken for a time is the newest one not after it, with the list newest first as
  the server gives it; without one nothing is chosen and the page says so.
\<close>

theorem pickAt_newest:
  assumes "r_snaps s = Some l" "sorted_wrt (>) l" "value \<noteq> []" "\<forall>u \<in> set l. u > 0" "s' = pickAt b value s"
  shows "(r_snapUnix s' = 0 \<and> r_error s' \<noteq> [] \<and> (\<forall>u \<in> set l. u > rl_time b value))
    \<or> (r_snapUnix s' \<in> set l \<and> r_snapUnix s' \<le> rl_time b value \<and> r_error s' = [] \<and>
       (\<forall>u \<in> set l. u \<le> rl_time b value \<longrightarrow> u \<le> r_snapUnix s'))"
proof (cases "List.find (\<lambda>x. x \<le> rl_time b value) l")
  case None
  then have "\<forall>u \<in> set l. u > rl_time b value" by (auto simp: find_None_iff)
  with None assms(1,3,5) show ?thesis by (simp add: pickAt_def Let_def set_snap_def)
next
  case (Some x)
  have x: "x \<in> set l" "x \<le> rl_time b value" using find_Some_mem [OF Some] by simp_all
  have "\<forall>u \<in> set l. u \<le> rl_time b value \<longrightarrow> u \<le> x"
    using Some assms(2) by (induction l) (auto split: if_splits)
  moreover have "r_snapUnix s' = x" "r_error s' = []"
    using Some assms(1,3,5) by (simp_all add: pickAt_def Let_def set_snap_def)
  ultimately show ?thesis using x by auto
qed

text \<open>
  The number to type is shown with the locale's separators, but typed so it is not taken: the
  comparison is with the plain digits.
\<close>

lemma grouped_number_refused:
  assumes "r_policy s = Exact" "r_preview s = Some p" "\<not> list_all is_digit (trim (r_confirmText s))"
  shows "\<not> exactOk s"
  using assms show_nat_digits [of "pv_newCount p"] by (auto simp: exactOk_def list_all_iff)

text \<open>Choosing no set while a list is awaited leaves the page waiting.\<close>

lemma no_set_keeps_waiting:
  assumes "r_loadingSnaps s" "r_job s \<noteq> []"
  shows "r_loadingSnaps (choose_set b [] s) \<and> r_lists (choose_set b [] s) = []"
  using assms by (simp add: choose_set_def loadRecords_def Let_def)

section \<open>A set with two backups\<close>

definition two_backups :: rollback_backend where
  "two_backups = \<lparr>rl_machine = (\<lambda>j. False), rl_list = (\<lambda>j. Inr [20, 10]),
     rl_preview = (\<lambda>j u. Inr \<lparr>pv_snapshotUnix = u, pv_missingCount = 1, pv_changedCount = 0, pv_newCount = 2\<rparr>),
     rl_records = (\<lambda>j. []), rl_time = (\<lambda>v. 15)\<rparr>"

definition first_rollback :: rollback_page where
  "first_rollback = \<lparr>r_job = ''s1'', r_snaps = None, r_loadingSnaps = False, r_snapUnix = 20, r_atTime = [], r_preview = None,
     r_previewing = False, r_policy = Replace, r_backupFirst = True, r_verify = True, r_confirmText = [], r_error = [],
     r_records = [], r_busyRecord = [], r_lists = [], r_previews = [], r_recordCalls = [], r_op = None\<rparr>"

lemmas rollback_sample = two_backups_def first_rollback_def

lemma considerate_fold:
  "list_all (\<lambda>ev. \<not> chooses ev) evs \<Longrightarrow> (rollback_moves considerate b)\<^sup>*\<^sup>* s (fold (rollback_step b) evs s)"
proof (induction evs arbitrary: s)
  case (Cons ev evs)
  then have "rollback_moves considerate b s (rollback_step b ev s)"
    by (auto simp: rollback_moves_def considerate_def)
  moreover have "(rollback_moves considerate b)\<^sup>*\<^sup>* (rollback_step b ev s) (fold (rollback_step b) evs (rollback_step b ev s))"
    using Cons by simp
  ultimately show ?case by (simp add: converse_rtranclp_into_rtranclp)
qed simp

theorem rollback_as_previewed_witness:
  "\<exists>r p. start_rollback False True (fold (rollback_step two_backups) [PreviewClicked, PreviewAnswered 0] first_rollback) = Some r
     \<and> rl_preview two_backups (rr_job r) (rr_snap r) = Inr p \<and> pv_missingCount p > 0"
proof -
  let ?s = "fold (rollback_step two_backups) [PreviewClicked, PreviewAnswered 0] first_rollback"
  have moves: "(rollback_moves considerate two_backups)\<^sup>*\<^sup>* first_rollback ?s"
    by (rule considerate_fold) (simp add: chooses_def)
  obtain r where r: "start_rollback False True ?s = Some r"
    by (simp add: rollback_step_def rollback_defs drop_nth_def start_rollback_def rollbackDisabled_def nothingToDo_def
        willRestore_def rollback_sample)
  have "fresh_rollback first_rollback" by (simp add: fresh_rollback_def first_rollback_def)
  from rollback_as_previewed [OF moves this r] r show ?thesis by (auto simp: two_backups_def)
qed

theorem preview_of_other_backup_witness:
  "\<exists>(s' :: rollback_page) r. start_rollback False True s' = Some r \<and> rr_snap r = 10 \<and> rr_remove r = 2"
proof -
  have "trim (show_nat 2) = show_nat 2" by code_simp
  then have "\<exists>r. start_rollback False True (fold (rollback_step two_backups)
      [PreviewClicked, PickSnap 10, PreviewAnswered 0, PolicyChosen Exact, ConfirmTyped (show_nat 2)] first_rollback) = Some r
      \<and> rr_job r = r_job first_rollback \<and> rr_snap r = 10 \<and> rr_remove r = 2"
    using preview_of_other_backup [OF _ _ _ _ _ _ _ refl _ refl, of first_rollback 20 10 two_backups
        "\<lparr>pv_snapshotUnix = 20, pv_missingCount = 1, pv_changedCount = 0, pv_newCount = 2\<rparr>"]
    by (simp add: rollback_sample)
  then show ?thesis by blast
qed

theorem pickAt_newest_witness:
  "r_snapUnix (pickAt two_backups ''2026-10-01T10:00'' (first_rollback\<lparr>r_snaps := Some [20, 10]\<rparr>)) = 10"
  using pickAt_newest [OF _ _ _ _ refl, of "first_rollback\<lparr>r_snaps := Some [20, 10]\<rparr>" "[20, 10]" "''2026-10-01T10:00''" two_backups]
  by (simp add: two_backups_def) auto

end
