(* ===== verification/Keys.thy ===== *)
theory Keys
  imports PbsStore
begin

text \<open>
  Encryption keys: the dialog that brings a key back (\<open>components/KeyImportDialog.jsx\<close>) and the
  field of a server's key (\<open>components/EncryptionKeyField.jsx\<close>). The backend that reads, checks
  and saves keys is an argument; the texts are a function \<open>t\<close>.
\<close>

section \<open>The import dialog\<close>

text \<open>What the backend says of a key; an absent field is empty.\<close>

record key_import =
  ki_key_text :: string
  ki_problem :: string
  ki_detail :: string
  ki_protected :: bool
  ki_checked :: bool
  ki_fingerprint :: string

datatype key_source = FromFile | FromPicture | FromText | FromCamera

datatype key_step = StepChoose | StepCamera | StepText | StepConfirm

text \<open>The backend call that \<open>run\<close> waits for.\<close>

datatype key_call =
    ReadFile
  | ChoosePicture
  | ReadPicture string
  | ReadText string
  | VerifyKey string string
  | SaveKey string string

record key_dialog =
  kd_open :: bool
  kd_step :: key_step
  kd_busy :: "key_call option"
  kd_msg :: "(bool \<times> string) option"
  kd_key :: "key_import option"
  kd_source :: key_source
  kd_text :: string
  kd_pass :: string
  kd_cameras :: "nat option"

definition problem_key :: "string \<Rightarrow> string option" where
  "problem_key p =
     (if p = ''no_qr'' then Some ''keyImportNoQR''
      else if p = ''not_key'' then Some ''keyImportNotKey''
      else if p = ''damaged'' then Some ''keyImportDamaged''
      else if p = ''unsupported_image'' then Some ''keyImportBadPicture''
      else if p = ''wrong_passphrase'' then Some ''keyImportWrongPassphrase''
      else None)"

definition problemText :: "(string \<Rightarrow> string) \<Rightarrow> key_import \<Rightarrow> string" where
  "problemText t ki =
     (let say = (case problem_key (ki_problem ki) of Some k \<Rightarrow> if t k \<noteq> [] then t k else ki_problem ki | None \<Rightarrow> ki_problem ki) in
      if ki_detail ki \<noteq> [] \<and> ki_problem ki \<noteq> ''damaged'' then say @ '' ('' @ ki_detail ki @ '')'' else say)"

text \<open>A key read goes to the confirm step, a problem is shown where the user is.\<close>

definition found :: "(string \<Rightarrow> string) \<Rightarrow> key_import option \<Rightarrow> key_source \<Rightarrow> key_dialog \<Rightarrow> key_dialog" where
  "found t r src d =
     (case r of
        None \<Rightarrow> d
      | Some ki \<Rightarrow>
          if ki_key_text ki = [] \<and> ki_problem ki = [] then d
          else if ki_problem ki \<noteq> [] then d\<lparr>kd_msg := Some (False, problemText t ki)\<rparr>
          else d\<lparr>kd_key := Some ki, kd_source := src, kd_pass := [], kd_msg := None, kd_step := StepConfirm\<rparr>)"

text \<open>\<open>run\<close>: one backend call at a time.\<close>

definition run_call :: "key_call \<Rightarrow> key_dialog \<Rightarrow> key_dialog" where
  "run_call c d = (if kd_busy d \<noteq> None then d else d\<lparr>kd_busy := Some c, kd_msg := None\<rparr>)"

definition canSave :: "key_dialog \<Rightarrow> bool" where
  "canSave d = (case kd_key d of None \<Rightarrow> False | Some k \<Rightarrow> \<not> ki_protected k \<or> ki_checked k)"

definition verify_key :: "key_dialog \<Rightarrow> key_dialog" where
  "verify_key d = (case kd_key d of None \<Rightarrow> d | Some k \<Rightarrow> run_call (VerifyKey (ki_key_text k) (kd_pass d)) d)"

definition save_key :: "key_dialog \<Rightarrow> key_dialog" where
  "save_key d =
     (case kd_key d of
        None \<Rightarrow> d
      | Some k \<Rightarrow> run_call (SaveKey (ki_key_text k) (if ki_protected k then kd_pass d else [])) d)"

definition to_choose :: "key_dialog \<Rightarrow> key_dialog" where
  "to_choose d = d\<lparr>kd_step := StepChoose, kd_key := None, kd_msg := None, kd_pass := []\<rparr>"

text \<open>\<open>String.replace\<close> with a text.\<close>

fun replace_first :: "string \<Rightarrow> string \<Rightarrow> string \<Rightarrow> string" where
  "replace_first pat v [] = (if pat = [] then v else [])"
| "replace_first pat v (c # cs) =
     (if startsWith (c # cs) pat then v @ drop (length pat) (c # cs) else c # replace_first pat v cs)"

text \<open>The answer to the call under way; a choice of no picture is the empty path.\<close>

datatype key_answer = Failed string | Read "key_import option" | Chosen string | Saved

definition key_answered :: "(string \<Rightarrow> string) \<Rightarrow> key_call \<Rightarrow> key_answer \<Rightarrow> key_dialog \<Rightarrow> key_dialog" where
  "key_answered t c a d =
     (let d = d\<lparr>kd_busy := None\<rparr> in
      case a of
        Failed err \<Rightarrow> d\<lparr>kd_msg := Some (False, replace_first ''{err}'' err (t ''keyImportFailed''))\<rparr>
      | Read r \<Rightarrow>
          (case c of
             ReadFile \<Rightarrow> found t r FromFile d
           | ReadPicture p \<Rightarrow> found t r FromPicture d
           | ReadText x \<Rightarrow> found t r FromText d
           | VerifyKey x p \<Rightarrow>
               (case r of
                  None \<Rightarrow> d
                | Some ki \<Rightarrow>
                    if ki_problem ki \<noteq> [] then d\<lparr>kd_msg := Some (False, problemText t (ki\<lparr>ki_detail := []\<rparr>))\<rparr>
                    else d\<lparr>kd_key := Some ki, kd_msg := Some (True, t ''keyImportUnlocked'')\<rparr>)
           | _ \<Rightarrow> d)
      | Chosen path \<Rightarrow> (case c of ChoosePicture \<Rightarrow> if path = [] then d else d\<lparr>kd_busy := Some (ReadPicture path)\<rparr> | _ \<Rightarrow> d)
      | Saved \<Rightarrow> (case c of SaveKey x p \<Rightarrow> d\<lparr>kd_open := False\<rparr> | _ \<Rightarrow> d))"

datatype key_event =
    FileClicked
  | PictureClicked
  | CameraClicked
  | TextClicked
  | CamerasCounted nat
  | FrameRead "key_import option"
  | TextTyped string
  | CheckClicked
  | PassTyped string
  | VerifyClicked
  | SaveClicked
  | BackClicked
  | CloseClicked
  | KeyAnswered key_answer

text \<open>What can be done in the dialog as it is shown.\<close>

definition key_enabled :: "key_dialog \<Rightarrow> key_event \<Rightarrow> bool" where
  "key_enabled d ev =
     (kd_open d \<and>
      (case ev of
         FileClicked \<Rightarrow> kd_step d = StepChoose \<and> kd_busy d = None
       | PictureClicked \<Rightarrow> kd_step d = StepChoose \<and> kd_busy d = None
       | CameraClicked \<Rightarrow> kd_step d = StepChoose \<and> kd_busy d = None \<and> (case kd_cameras d of None \<Rightarrow> False | Some n \<Rightarrow> n > 0)
       | TextClicked \<Rightarrow> kd_step d = StepChoose \<and> kd_busy d = None
       | CamerasCounted n \<Rightarrow> True
       | FrameRead r \<Rightarrow> kd_step d = StepCamera
       | TextTyped x \<Rightarrow> kd_step d = StepText
       | CheckClicked \<Rightarrow> kd_step d = StepText \<and> kd_busy d = None \<and> trim (kd_text d) \<noteq> []
       | PassTyped p \<Rightarrow> kd_step d = StepConfirm \<and> (case kd_key d of None \<Rightarrow> False | Some k \<Rightarrow> ki_protected k \<and> \<not> ki_checked k)
       | VerifyClicked \<Rightarrow> kd_step d = StepConfirm \<and> kd_pass d \<noteq> []
           \<and> (case kd_key d of None \<Rightarrow> False | Some k \<Rightarrow> ki_protected k \<and> \<not> ki_checked k)
       | SaveClicked \<Rightarrow> kd_step d = StepConfirm \<and> kd_busy d = None \<and> canSave d
       | BackClicked \<Rightarrow> kd_step d \<noteq> StepChoose \<and> kd_busy d = None
       | CloseClicked \<Rightarrow> kd_busy d = None
       | KeyAnswered a \<Rightarrow> kd_busy d \<noteq> None))"

text \<open>Only a frame with a key ends the camera's step; one with a problem is said by the camera view itself.\<close>

definition key_step_of :: "(string \<Rightarrow> string) \<Rightarrow> key_event \<Rightarrow> key_dialog \<Rightarrow> key_dialog" where
  "key_step_of t ev d =
     (case ev of
        FileClicked \<Rightarrow> run_call ReadFile d
      | PictureClicked \<Rightarrow> run_call ChoosePicture d
      | CameraClicked \<Rightarrow> d\<lparr>kd_msg := None, kd_step := StepCamera\<rparr>
      | TextClicked \<Rightarrow> d\<lparr>kd_msg := None, kd_step := StepText\<rparr>
      | CamerasCounted n \<Rightarrow> d\<lparr>kd_cameras := Some n\<rparr>
      | FrameRead r \<Rightarrow> (case r of None \<Rightarrow> d | Some ki \<Rightarrow> if ki_key_text ki \<noteq> [] then found t r FromCamera d else d)
      | TextTyped x \<Rightarrow> d\<lparr>kd_text := x, kd_msg := None\<rparr>
      | CheckClicked \<Rightarrow> run_call (ReadText (kd_text d)) d
      | PassTyped p \<Rightarrow> d\<lparr>kd_pass := p, kd_msg := None\<rparr>
      | VerifyClicked \<Rightarrow> verify_key d
      | SaveClicked \<Rightarrow> save_key d
      | BackClicked \<Rightarrow> to_choose d
      | CloseClicked \<Rightarrow> d\<lparr>kd_open := False\<rparr>
      | KeyAnswered a \<Rightarrow> (case kd_busy d of None \<Rightarrow> d | Some c \<Rightarrow> key_answered t c a d))"

section \<open>What is saved was checked\<close>

text \<open>
  \<open>verifies x p\<close> is the backend's answer to the check of the key \<open>x\<close> with the passphrase \<open>p\<close>: it
  keeps the key and says it is checked, or says a problem. A protected key that was only read is
  not checked yet. A calm user types no other passphrase while one is being checked.
\<close>

definition verifier :: "(string \<Rightarrow> string \<Rightarrow> key_import) \<Rightarrow> bool" where
  "verifier verifies \<longleftrightarrow> (\<forall>x p. ki_problem (verifies x p) = [] \<longrightarrow> ki_key_text (verifies x p) = x \<and> ki_checked (verifies x p))"

definition read_ok :: "key_import \<Rightarrow> bool" where
  "read_ok ki \<longleftrightarrow> \<not> (ki_protected ki \<and> ki_checked ki)"

definition key_calm :: "(string \<Rightarrow> string \<Rightarrow> key_import) \<Rightarrow> key_dialog \<Rightarrow> key_event \<Rightarrow> bool" where
  "key_calm verifies d ev =
     (case ev of
        KeyAnswered (Read (Some ki)) \<Rightarrow>
          (case kd_busy d of Some (VerifyKey x p) \<Rightarrow> ki = verifies x p | _ \<Rightarrow> read_ok ki)
      | FrameRead (Some ki) \<Rightarrow> read_ok ki
      | PassTyped q \<Rightarrow> (case kd_busy d of Some (VerifyKey x p) \<Rightarrow> False | _ \<Rightarrow> True)
      | _ \<Rightarrow> True)"

inductive key_run :: "(key_dialog \<Rightarrow> key_event \<Rightarrow> bool) \<Rightarrow> (string \<Rightarrow> string) \<Rightarrow> key_dialog \<Rightarrow> key_dialog \<Rightarrow> bool"
  for Q t d0 where
  start: "key_run Q t d0 d0"
| event: "key_run Q t d0 d \<Longrightarrow> key_enabled d ev \<Longrightarrow> Q d ev \<Longrightarrow> key_run Q t d0 (key_step_of t ev d)"

text \<open>The key on the confirm step has no problem, and a checked one was checked with the passphrase held.\<close>

definition key_good :: "(string \<Rightarrow> string \<Rightarrow> key_import) \<Rightarrow> string \<Rightarrow> key_import \<Rightarrow> bool" where
  "key_good verifies pass k \<longleftrightarrow> ki_problem k = [] \<and> ki_key_text k \<noteq> [] \<and>
     (ki_protected k \<longrightarrow> ki_checked k \<longrightarrow> verifies (ki_key_text k) pass = k)"

text \<open>The check and the save are of the key shown; every other call is made from another step.\<close>

definition call_fits :: "key_dialog \<Rightarrow> bool" where
  "call_fits d =
     (case kd_busy d of
        Some (VerifyKey x p) \<Rightarrow> kd_step d = StepConfirm \<and> p = kd_pass d \<and> (\<exists>k. kd_key d = Some k \<and> ki_key_text k = x \<and> \<not> ki_checked k)
      | Some (SaveKey x p) \<Rightarrow> kd_step d = StepConfirm \<and> canSave d
      | Some c \<Rightarrow> kd_step d \<noteq> StepConfirm \<and> kd_step d \<noteq> StepCamera \<and> kd_key d = None
      | None \<Rightarrow> True)"

definition dialog_ok :: "(string \<Rightarrow> string \<Rightarrow> key_import) \<Rightarrow> key_dialog \<Rightarrow> bool" where
  "dialog_ok verifies d \<longleftrightarrow> (\<forall>k. kd_key d = Some k \<longrightarrow> key_good verifies (kd_pass d) k) \<and> call_fits d
     \<and> (kd_step d \<noteq> StepConfirm \<longrightarrow> kd_key d = None)"

lemma found_ok:
  assumes "\<And>ki. r = Some ki \<Longrightarrow> read_ok ki" "kd_key d = None" "kd_busy d = None" "kd_step d \<noteq> StepConfirm"
  shows "dialog_ok verifies (found t r src d)"
  using assms by (auto simp: dialog_ok_def found_def call_fits_def key_good_def read_ok_def split: option.splits)

lemma dialog_ok_answered:
  assumes ok: "dialog_ok verifies d" and v: "verifier verifies" and c: "kd_busy d = Some c"
    and calm: "key_calm verifies d (KeyAnswered a)"
  shows "dialog_ok verifies (key_answered t c a d)"
proof -
  have msg: "dialog_ok verifies (d\<lparr>kd_busy := None, kd_msg := m\<rparr>)" "dialog_ok verifies (d\<lparr>kd_busy := None\<rparr>)"
    "dialog_ok verifies (d\<lparr>kd_busy := None, kd_open := False\<rparr>)" for m
    using ok by (simp_all add: dialog_ok_def call_fits_def)
  have other: "kd_key d = None \<and> kd_step d \<noteq> StepConfirm \<and> kd_step d \<noteq> StepCamera"
    if "\<forall>x p. c \<noteq> VerifyKey x p" "\<forall>x p. c \<noteq> SaveKey x p"
    using ok c that by (cases c) (auto simp: dialog_ok_def call_fits_def)
  show ?thesis
  proof (cases a)
    case (Failed err)
    with msg show ?thesis by (simp add: key_answered_def Let_def)
  next
    case (Chosen path)
    show ?thesis
    proof (cases c)
      case ChoosePicture
      with other have o: "kd_key d = None" "kd_step d \<noteq> StepConfirm" "kd_step d \<noteq> StepCamera" by simp_all
      with Chosen ChoosePicture msg show ?thesis
        by (simp add: key_answered_def Let_def dialog_ok_def call_fits_def)
    qed (use Chosen msg in \<open>simp_all add: key_answered_def Let_def\<close>)
  next
    case Saved
    with msg show ?thesis by (cases c) (simp_all add: key_answered_def Let_def)
  next
    case (Read r)
    have read: "read_ok ki" if "r = Some ki" "\<forall>x p. c \<noteq> VerifyKey x p" for ki
      using calm c Read that by (cases c) (simp_all add: key_calm_def)
    have f: "dialog_ok verifies (found t r src (d\<lparr>kd_busy := None\<rparr>))" if "\<forall>x p. c \<noteq> VerifyKey x p" "\<forall>x p. c \<noteq> SaveKey x p" for src
      using other [OF that] read that by (intro found_ok) auto
    show ?thesis
    proof (cases c)
      case (VerifyKey x p)
      show ?thesis
      proof (cases r)
        case (Some ki)
        have ki: "ki = verifies x p" using calm c Read Some VerifyKey by (simp add: key_calm_def)
        from ok c VerifyKey obtain k where k: "kd_step d = StepConfirm" "p = kd_pass d" "kd_key d = Some k" "ki_key_text k = x"
          by (auto simp: dialog_ok_def call_fits_def)
        have "ki_key_text k \<noteq> []" using ok k by (auto simp: dialog_ok_def key_good_def)
        then have "ki_problem ki = [] \<Longrightarrow> key_good verifies (kd_pass d) ki"
          using v ki k by (simp add: verifier_def key_good_def)
        with msg k Read Some VerifyKey show ?thesis
          by (simp add: key_answered_def Let_def dialog_ok_def call_fits_def)
      qed (use Read VerifyKey msg in \<open>simp add: key_answered_def Let_def\<close>)
    qed (use Read f msg in \<open>simp_all add: key_answered_def Let_def\<close>)
  qed
qed

lemma dialog_ok_run_call:
  assumes "dialog_ok verifies d" "\<And>m. kd_busy d = None \<Longrightarrow> call_fits (d\<lparr>kd_busy := Some c, kd_msg := m\<rparr>)"
  shows "dialog_ok verifies (run_call c d)"
  using assms by (simp add: run_call_def dialog_ok_def)

lemma dialog_ok_idle_call:
  assumes "dialog_ok verifies d" "kd_busy d = None" "kd_step d = StepChoose \<or> kd_step d = StepText"
    "\<forall>x p. c \<noteq> VerifyKey x p" "\<forall>x p. c \<noteq> SaveKey x p"
  shows "dialog_ok verifies (run_call c d)"
  using assms by (cases c) (auto simp: run_call_def dialog_ok_def call_fits_def)

lemma dialog_ok_step:
  assumes ok: "dialog_ok verifies d" and v: "verifier verifies" and en: "key_enabled d ev" and calm: "key_calm verifies d ev"
  shows "dialog_ok verifies (key_step_of t ev d)"
proof (cases ev)
  case (KeyAnswered a)
  with en obtain c where "kd_busy d = Some c" by (auto simp: key_enabled_def)
  with dialog_ok_answered [OF ok v this] calm KeyAnswered show ?thesis by (simp add: key_step_of_def)
next
  case FileClicked
  with ok en show ?thesis
    by (auto simp: key_step_of_def key_enabled_def intro: dialog_ok_idle_call)
next
  case PictureClicked
  with ok en show ?thesis
    by (auto simp: key_step_of_def key_enabled_def intro: dialog_ok_idle_call)
next
  case CheckClicked
  with ok en show ?thesis
    by (auto simp: key_step_of_def key_enabled_def intro: dialog_ok_idle_call)
next
  case VerifyClicked
  with ok en show ?thesis
    by (auto simp: key_step_of_def key_enabled_def verify_key_def call_fits_def split: option.splits intro!: dialog_ok_run_call [OF ok])
next
  case SaveClicked
  with ok en show ?thesis
    by (auto simp: key_step_of_def key_enabled_def save_key_def call_fits_def canSave_def split: option.splits intro!: dialog_ok_run_call [OF ok])
next
  case (FrameRead r)
  with en ok have d: "kd_step d = StepCamera" "kd_key d = None" by (auto simp: key_enabled_def dialog_ok_def)
  have "kd_busy d = None"
    using ok d(1) by (cases "kd_busy d"; cases "the (kd_busy d)") (auto simp: dialog_ok_def call_fits_def)
  moreover have "read_ok ki" if "r = Some ki" for ki
    using calm FrameRead that by (simp add: key_calm_def)
  ultimately show ?thesis
    using FrameRead d ok by (auto simp: key_step_of_def split: option.split intro!: found_ok)
next
  case (PassTyped q)
  with en obtain k where k: "kd_key d = Some k" "\<not> ki_checked k" "kd_step d = StepConfirm"
    by (auto simp: key_enabled_def split: option.splits)
  have "call_fits (d\<lparr>kd_pass := q, kd_msg := None\<rparr>)"
    using ok calm PassTyped by (auto simp: dialog_ok_def call_fits_def key_calm_def canSave_def split: option.splits key_call.splits)
  with ok k PassTyped show ?thesis
    by (auto simp: key_step_of_def dialog_ok_def key_good_def)
next
  case (CamerasCounted n)
  with ok show ?thesis by (auto simp: key_step_of_def dialog_ok_def call_fits_def canSave_def split: option.splits key_call.splits)
next
  case (TextTyped x)
  with ok show ?thesis by (auto simp: key_step_of_def dialog_ok_def call_fits_def canSave_def split: option.splits key_call.splits)
next
  case CloseClicked
  with ok show ?thesis by (auto simp: key_step_of_def dialog_ok_def call_fits_def canSave_def split: option.splits key_call.splits)
qed (use ok en in \<open>auto simp: key_step_of_def key_enabled_def to_choose_def dialog_ok_def call_fits_def\<close>)

definition fresh_dialog :: "key_dialog \<Rightarrow> bool" where
  "fresh_dialog d \<longleftrightarrow> kd_open d \<and> kd_step d = StepChoose \<and> kd_busy d = None \<and> kd_key d = None"

lemma dialog_ok_run:
  assumes "key_run (key_calm verifies) t d0 d" "fresh_dialog d0" "verifier verifies"
  shows "dialog_ok verifies d"
  using assms(1)
proof induction
  case start
  with assms(2) show ?case by (simp add: dialog_ok_def fresh_dialog_def call_fits_def)
next
  case (event d ev)
  with assms(3) show ?case by (intro dialog_ok_step)
qed

text \<open>
  C25: Only a checked key is saved. Whatever way a key was brought in (a file, a picture, the
  camera or typed text) and however often the user went back, Save sends the text of the key that
  is shown, one without a problem; and for a protected key the very passphrase it was checked
  with, provided no other one was typed while that was being checked.
\<close>

theorem saves_checked_key:
  assumes "key_run (key_calm verifies) t d0 d" "fresh_dialog d0" "verifier verifies" "key_enabled d SaveClicked"
  shows "\<exists>k p. kd_key d = Some k \<and> kd_busy (key_step_of t SaveClicked d) = Some (SaveKey (ki_key_text k) p) \<and>
    ki_problem k = [] \<and> ki_key_text k \<noteq> [] \<and>
    (if ki_protected k then verifies (ki_key_text k) p = k \<and> ki_checked k else p = [])"
proof -
  from assms(4) obtain k where k: "kd_key d = Some k" "kd_busy d = None" "\<not> ki_protected k \<or> ki_checked k"
    by (auto simp: key_enabled_def canSave_def split: option.splits)
  moreover have "key_good verifies (kd_pass d) k"
    using dialog_ok_run [OF assms(1-3)] k(1) by (simp add: dialog_ok_def)
  ultimately show ?thesis
    by (auto simp: key_step_of_def save_key_def run_call_def key_good_def)
qed

text \<open>
  A passphrase typed while another one is being checked is saved unchecked: the box is not
  closed meanwhile, and the answer is taken for what is in it.
\<close>

theorem unchecked_passphrase_saved:
  assumes "kd_open d" "kd_step d = StepConfirm" "kd_busy d = None" "kd_key d = Some k" "ki_protected k" "\<not> ki_checked k"
    and "kd_pass d = p" "p \<noteq> []" "verifies (ki_key_text k) p = k\<lparr>ki_checked := True\<rparr>" "ki_problem k = []"
    and "evs = [VerifyClicked, PassTyped q, KeyAnswered (Read (Some (verifies (ki_key_text k) p))), SaveClicked]"
  shows "key_run (\<lambda>_ _. True) t d (fold (key_step_of t) evs d) \<and>
    kd_busy (fold (key_step_of t) evs d) = Some (SaveKey (ki_key_text k) q)"
proof -
  let ?d1 = "key_step_of t VerifyClicked d"
  let ?d2 = "key_step_of t (PassTyped q) ?d1"
  let ?d3 = "key_step_of t (KeyAnswered (Read (Some (verifies (ki_key_text k) p)))) ?d2"
  have e: "key_enabled d VerifyClicked" "key_enabled ?d1 (PassTyped q)"
    "key_enabled ?d2 (KeyAnswered (Read (Some (verifies (ki_key_text k) p))))" "key_enabled ?d3 SaveClicked"
    using assms(1-10) by (simp_all add: key_enabled_def key_step_of_def verify_key_def run_call_def key_answered_def canSave_def Let_def)
  have "key_run (\<lambda>_ _. True) t d (key_step_of t SaveClicked ?d3)"
    using e by (intro key_run.intros) simp_all
  moreover have "kd_busy (key_step_of t SaveClicked ?d3) = Some (SaveKey (ki_key_text k) q)"
    using assms(1-10) by (simp add: key_step_of_def verify_key_def run_call_def key_answered_def save_key_def Let_def)
  ultimately show ?thesis by (simp add: assms(11))
qed

section \<open>The field of a server's key\<close>

record key_info =
  fi_path :: string
  fi_usable :: bool
  fi_fingerprint :: string
  fi_protected :: bool
  fi_open :: bool
  fi_exists :: bool

datatype unlock_mode = Ask | Remember

text \<open>
  The field and what its parent keeps of it. \<open>ef_inspects\<close> holds the inspections whose answer is
  still taken (the effect's \<open>live\<close> drops the ones of an older path), \<open>ef_verify\<close> the check under way.
\<close>

record key_field =
  ef_value :: string
  ef_info :: "key_info option"
  ef_busy :: bool
  ef_mode :: unlock_mode
  ef_verifyMsg :: "bool option"
  ef_passphraseSet :: bool
  ef_passphrase :: string
  ef_clearStored :: bool
  ef_inspects :: "string list"
  ef_verify :: "(string \<times> string) option"

text \<open>The effects on a new path: it is inspected, and the unlock choice is reset.\<close>

definition inspect_effect :: "key_field \<Rightarrow> key_field" where
  "inspect_effect f = f\<lparr>ef_inspects := [ef_value f]\<rparr>"

definition reset_mode_effect :: "key_field \<Rightarrow> key_field" where
  "reset_mode_effect f =
     f\<lparr>ef_mode := (if ef_passphraseSet f \<and> \<not> ef_clearStored f then Remember else Ask), ef_verifyMsg := None\<rparr>"

text \<open>The parent's \<open>onChange\<close>, and the effects when the path is another one.\<close>

definition path_changed :: "string \<Rightarrow> key_field \<Rightarrow> key_field" where
  "path_changed v f =
     (let g = f\<lparr>ef_value := v, ef_passphrase := [], ef_clearStored := False\<rparr> in
      if v = ef_value f then g else reset_mode_effect (inspect_effect g))"

definition inspected :: "key_info option \<Rightarrow> key_field \<Rightarrow> key_field" where
  "inspected r f = f\<lparr>ef_info := r\<rparr>"

definition chooseMode :: "unlock_mode \<Rightarrow> key_field \<Rightarrow> key_field" where
  "chooseMode m f =
     (let f = f\<lparr>ef_mode := m, ef_verifyMsg := None\<rparr> in
      if m = Ask then f\<lparr>ef_passphrase := [], ef_clearStored := ef_passphraseSet f\<rparr> else f\<lparr>ef_clearStored := False\<rparr>)"

definition passphrase_typed :: "string \<Rightarrow> key_field \<Rightarrow> key_field" where
  "passphrase_typed p f = f\<lparr>ef_verifyMsg := None, ef_passphrase := p\<rparr>"

definition handleVerify :: "key_field \<Rightarrow> key_field" where
  "handleVerify f =
     (if ef_passphrase f = [] then f\<lparr>ef_verifyMsg := Some False\<rparr>
      else f\<lparr>ef_busy := True, ef_verify := Some (ef_value f, ef_passphrase f)\<rparr>)"

definition verify_answered :: "string \<Rightarrow> key_field \<Rightarrow> key_field" where
  "verify_answered err f = f\<lparr>ef_verifyMsg := Some (err = []), ef_busy := False, ef_verify := None\<rparr>"

text \<open>A key made or imported: the field points at its file and shows what the backend said of it.\<close>

definition key_made :: "string \<Rightarrow> key_info option \<Rightarrow> key_field \<Rightarrow> key_field" where
  "key_made path r f =
     (let g = path_changed path f in case r of None \<Rightarrow> g | Some i \<Rightarrow> g\<lparr>ef_info := Some i\<rparr>)"

datatype field_event =
    PathTyped string
  | PathCleared
  | KeyMade string
  | Inspected
  | ModeChosen unlock_mode
  | PassphraseTyped string
  | VerifyPressed
  | VerifyAnswered string

text \<open>\<open>inspect\<close> is what the backend says of the file at a path.\<close>

definition field_step :: "(string \<Rightarrow> key_info option) \<Rightarrow> field_event \<Rightarrow> key_field \<Rightarrow> key_field" where
  "field_step inspect ev f =
     (case ev of
        PathTyped v \<Rightarrow> path_changed v f
      | PathCleared \<Rightarrow> if ef_busy f \<or> ef_value f = [] then f else path_changed [] f
      | KeyMade path \<Rightarrow> if ef_busy f then f else key_made path (inspect path) f
      | Inspected \<Rightarrow>
          (case ef_inspects f of [] \<Rightarrow> f | p # ps \<Rightarrow> inspected (inspect p) (f\<lparr>ef_inspects := ps\<rparr>))
      | ModeChosen m \<Rightarrow> chooseMode m f
      | PassphraseTyped p \<Rightarrow> passphrase_typed p f
      | VerifyPressed \<Rightarrow> if ef_busy f then f else handleVerify f
      | VerifyAnswered err \<Rightarrow> if ef_verify f = None then f else verify_answered err f)"

definition field_ok :: "(string \<Rightarrow> key_info option) \<Rightarrow> key_field \<Rightarrow> bool" where
  "field_ok inspect f \<longleftrightarrow> (ef_inspects f = [] \<and> ef_info f = inspect (ef_value f)) \<or> ef_inspects f = [ef_value f]"

lemma field_ok_frame:
  "field_ok inspect f \<Longrightarrow> ef_inspects g = ef_inspects f \<Longrightarrow> ef_info g = ef_info f \<Longrightarrow> ef_value g = ef_value f \<Longrightarrow> field_ok inspect g"
  by (simp add: field_ok_def)

lemma field_ok_path: "field_ok inspect f \<Longrightarrow> field_ok inspect (path_changed v f)"
  by (auto simp: field_ok_def path_changed_def Let_def inspect_effect_def reset_mode_effect_def)

lemma field_ok_made: "field_ok inspect f \<Longrightarrow> field_ok inspect (key_made p (inspect p) f)"
  by (auto simp: field_ok_def key_made_def path_changed_def Let_def inspect_effect_def reset_mode_effect_def split: option.split)

lemma field_ok_step:
  assumes "field_ok inspect f"
  shows "field_ok inspect (field_step inspect ev f)"
proof (cases ev)
  case Inspected
  with assms show ?thesis by (auto simp: field_step_def field_ok_def inspected_def split: list.split)
qed (use assms field_ok_path field_ok_made in
    \<open>auto simp: field_step_def chooseMode_def passphrase_typed_def handleVerify_def verify_answered_def Let_def
      intro: field_ok_frame [OF assms]\<close>)

text \<open>
  The field settles on its own key. Whatever is typed, made, imported or cleared, and however
  the answers come in, once no inspection is awaited the fingerprint and the warnings shown are
  those of the file whose path is in the field.
\<close>

theorem field_settles:
  assumes "ef_inspects f = [ef_value f]" "f' = fold (field_step inspect) evs f" "ef_inspects f' = []"
  shows "ef_info f' = inspect (ef_value f')"
proof -
  have "field_ok inspect f \<Longrightarrow> field_ok inspect (fold (field_step inspect) evs f)"
    by (induction evs arbitrary: f) (simp_all add: field_ok_step)
  with assms show ?thesis by (simp add: field_ok_def)
qed

text \<open>
  The unlock choice is not what the settings hold. After another path is typed for a server
  with a stored passphrase, the field still says that a passphrase is remembered and kept; but
  saved so, the settings drop it, and a scheduled backup of that server cannot open its key.
\<close>

theorem remembered_passphrase_dropped:
  assumes "ef_passphraseSet f" "v \<noteq> ef_value f" "f' = path_changed v f"
  shows "ef_mode f' = Remember \<and> mergeStoredPassphrase (ef_value f) stored_pass (ef_value f') (ef_passphrase f') (ef_clearStored f') = []"
  using assms
  by (simp add: path_changed_def Let_def reset_mode_effect_def inspect_effect_def mergeStoredPassphrase_def)

text \<open>The answer of a check is taken for what was typed since.\<close>

lemma verified_other_passphrase:
  assumes "\<not> ef_busy f" "ef_passphrase f \<noteq> []"
    and "f' = fold (field_step inspect) [VerifyPressed, PassphraseTyped q, VerifyAnswered []] f"
  shows "ef_verifyMsg f' = Some True \<and> ef_passphrase f' = q"
  using assms by (simp add: field_step_def handleVerify_def passphrase_typed_def verify_answered_def)

section \<open>Examples\<close>

definition protected_key :: key_import where
  "protected_key = \<lparr>ki_key_text = ''key'', ki_problem = [], ki_detail = [], ki_protected = True, ki_checked = False, ki_fingerprint = ''aa''\<rparr>"

definition sample_verify :: "string \<Rightarrow> string \<Rightarrow> key_import" where
  "sample_verify x p = protected_key\<lparr>ki_key_text := x, ki_checked := True\<rparr>"

definition first_dialog :: key_dialog where
  "first_dialog = \<lparr>kd_open = True, kd_step = StepChoose, kd_busy = None, kd_msg = None, kd_key = None, kd_source = FromFile,
     kd_text = [], kd_pass = [], kd_cameras = None\<rparr>"

lemmas key_sample = protected_key_def sample_verify_def first_dialog_def

definition checked_dialog :: key_dialog where
  "checked_dialog = fold (key_step_of (\<lambda>k. k)) [FileClicked, KeyAnswered (Read (Some protected_key)), PassTyped ''pw'', VerifyClicked,
     KeyAnswered (Read (Some (sample_verify ''key'' ''pw'')))] first_dialog"

lemmas key_steps = key_enabled_def key_step_of_def run_call_def key_answered_def found_def verify_key_def canSave_def Let_def

lemma checked_dialog_run: "key_run (key_calm sample_verify) (\<lambda>k. k) first_dialog checked_dialog"
  unfolding checked_dialog_def fold.simps comp_def id_def
  by (intro key_run.intros) (simp_all add: key_steps key_sample key_calm_def read_ok_def)

theorem saves_checked_key_witness:
  "\<exists>p. kd_busy (key_step_of (\<lambda>k. k) SaveClicked checked_dialog) = Some (SaveKey ''key'' p) \<and> sample_verify ''key'' p = sample_verify ''key'' ''pw''"
proof -
  have "fresh_dialog first_dialog" "verifier sample_verify"
    by (simp_all add: fresh_dialog_def verifier_def key_sample)
  moreover have "key_enabled checked_dialog SaveClicked" "kd_key checked_dialog = Some (sample_verify ''key'' ''pw'')"
    by (simp_all add: checked_dialog_def key_steps key_sample)
  ultimately show ?thesis
    using saves_checked_key [OF checked_dialog_run] by (auto simp: key_sample)
qed

theorem unchecked_passphrase_saved_witness:
  "\<exists>(d :: key_dialog). kd_busy d = Some (SaveKey ''key'' ''other'')"
  using unchecked_passphrase_saved [OF _ _ _ _ _ _ refl _ _ _ refl,
      of "first_dialog\<lparr>kd_step := StepConfirm, kd_key := Some protected_key, kd_pass := ''pw''\<rparr>" protected_key sample_verify "\<lambda>k. k" "''other''"]
  by (simp add: key_sample) blast

theorem field_settles_witness:
  "ef_info (fold (field_step (\<lambda>p. None)) [PathTyped ''K:/a'', Inspected]
     \<lparr>ef_value = [], ef_info = Some \<lparr>fi_path = [], fi_usable = True, fi_fingerprint = ''aa'', fi_protected = False, fi_open = False, fi_exists = True\<rparr>, ef_busy = False,
       ef_mode = Ask, ef_verifyMsg = None, ef_passphraseSet = False, ef_passphrase = [], ef_clearStored = False,
       ef_inspects = [[]], ef_verify = None\<rparr>) = None"
  by (rule field_settles [OF _ refl])
     (simp_all add: field_step_def path_changed_def Let_def inspect_effect_def reset_mode_effect_def inspected_def)

theorem remembered_passphrase_dropped_witness:
  "\<exists>(f :: key_field). ef_mode f = Remember \<and> mergeStoredPassphrase ''K:/a'' ''pw'' (ef_value f) (ef_passphrase f) (ef_clearStored f) = []"
  using remembered_passphrase_dropped [OF _ _ refl, of
      "\<lparr>ef_value = ''K:/a'', ef_info = None, ef_busy = False, ef_mode = Ask, ef_verifyMsg = None, ef_passphraseSet = True,
        ef_passphrase = [], ef_clearStored = False, ef_inspects = [], ef_verify = None\<rparr>" "''K:/b''" "''pw''"]
  by simp blast

end
