(* ===== verification/ScheduleEditor.thy ===== *)
theory ScheduleEditor
  imports Schedules
begin

text \<open>
  The Schedule tab of the Backup Set editor (\<open>components/ScheduleEditor.jsx\<close>): the list of
  schedules, the one whose fields are open, and what each control does to them. The controls are
  the ones the page shows: a field that is hidden or disabled for the open schedule takes no
  input. What is typed in a number field is the text the browser hands over.
\<close>

section \<open>State and events\<close>

record sched_editor =
  ed_mode :: sched_mode
  ed_schedules :: "schedule list"
  ed_startup :: bool
  ed_editing :: "string option"

datatype sched_edit =
    SetEvery string
  | SetUnit sched_unit
  | AllDay
  | Between
  | WinStart string
  | WinEnd string
  | SetMinute string
  | ToggleDay weekday
  | MonthBy month_mode
  | MonthDay string
  | Nth int
  | NthWeekday weekday
  | YearDay string
  | YearMonth int
  | SetAt string
  | SetStart string

definition windowed :: "schedule \<Rightarrow> bool" where
  "windowed s \<longleftrightarrow> s_windowStart s \<noteq> [] \<and> s_windowEnd s \<noteq> []"

text \<open>Which controls the editor of a schedule shows enabled.\<close>

definition control_shown :: "schedule \<Rightarrow> sched_edit \<Rightarrow> bool" where
  "control_shown s e =
     (let repeated = (s_unit s = Minutes \<or> s_unit s = Hours)
      in case e of
           SetEvery _ \<Rightarrow> True
         | SetUnit u \<Rightarrow> u \<noteq> s_unit s
         | AllDay \<Rightarrow> repeated \<and> windowed s
         | Between \<Rightarrow> repeated \<and> \<not> windowed s
         | WinStart _ \<Rightarrow> repeated \<and> windowed s
         | WinEnd _ \<Rightarrow> repeated \<and> windowed s
         | SetMinute _ \<Rightarrow> s_unit s = Hours \<and> \<not> windowed s
         | ToggleDay _ \<Rightarrow> repeated \<or> s_unit s = Days \<or> s_unit s = Weeks
         | MonthBy m \<Rightarrow> s_unit s = Months \<and> s_monthMode s \<noteq> m
         | MonthDay _ \<Rightarrow> s_unit s = Months \<and> s_monthMode s = OnDay
         | Nth n \<Rightarrow> s_unit s = Months \<and> s_monthMode s = OnNth \<and> n \<in> {1, 2, 3, 4, -1}
         | NthWeekday _ \<Rightarrow> s_unit s = Months \<and> s_monthMode s = OnNth
         | YearDay _ \<Rightarrow> s_unit s = Years
         | YearMonth m \<Rightarrow> s_unit s = Years \<and> 1 \<le> m \<and> m \<le> 12
         | SetAt _ \<Rightarrow> \<not> repeated
         | SetStart _ \<Rightarrow> \<not> repeated \<and> s_every s > 1)"

text \<open>The change of the unit: a fresh schedule that keeps what carries over.\<close>

definition unit_changed :: "int \<Rightarrow> sched_unit \<Rightarrow> schedule \<Rightarrow> schedule" where
  "unit_changed today u s =
     (let fresh = newSchedule u (s_id s) today;
          keepDays = (if u = Weeks then (if s_weekdays s \<noteq> [] then s_weekdays s else s_weekdays fresh) else s_weekdays s)
      in fresh\<lparr>s_enabled := s_enabled s, s_start := s_start s,
               s_at := if s_at fresh \<noteq> [] \<and> s_at s \<noteq> [] then s_at s else s_at fresh,
               s_weekdays := keepDays\<rparr>)"

definition apply_edit :: "int \<Rightarrow> sched_edit \<Rightarrow> schedule \<Rightarrow> schedule" where
  "apply_edit today e s =
     (case e of
        SetEvery v \<Rightarrow> s\<lparr>s_every := max 1 (parse_int_or 1 v)\<rparr>
      | SetUnit u \<Rightarrow> unit_changed today u s
      | AllDay \<Rightarrow> s\<lparr>s_windowStart := [], s_windowEnd := []\<rparr>
      | Between \<Rightarrow> s\<lparr>s_windowStart := ''08:00'', s_windowEnd := ''18:00''\<rparr>
      | WinStart v \<Rightarrow> if v \<noteq> [] then s\<lparr>s_windowStart := v\<rparr> else s
      | WinEnd v \<Rightarrow> if v \<noteq> [] then s\<lparr>s_windowEnd := v\<rparr> else s
      | SetMinute v \<Rightarrow> s\<lparr>s_minute := min 59 (max 0 (parse_int_or 0 v))\<rparr>
      | ToggleDay w \<Rightarrow> s\<lparr>s_weekdays := if w \<in> set (s_weekdays s) then filter (\<lambda>d. d \<noteq> w) (s_weekdays s)
                                       else s_weekdays s @ [w]\<rparr>
      | MonthBy m \<Rightarrow> s\<lparr>s_monthMode := m\<rparr>
      | MonthDay v \<Rightarrow> s\<lparr>s_monthDay := min 31 (max 1 (parse_int_or 1 v))\<rparr>
      | Nth n \<Rightarrow> s\<lparr>s_nth := n\<rparr>
      | NthWeekday w \<Rightarrow> s\<lparr>s_nthWeekday := w\<rparr>
      | YearDay v \<Rightarrow> s\<lparr>s_yearDay := min 31 (max 1 (parse_int_or 1 v))\<rparr>
      | YearMonth m \<Rightarrow> s\<lparr>s_yearMonth := m\<rparr>
      | SetAt v \<Rightarrow> if v \<noteq> [] then s\<lparr>s_at := v\<rparr> else s
      | SetStart v \<Rightarrow> if v \<noteq> [] then s\<lparr>s_start := v\<rparr> else s)"

datatype editor_event =
    ModeClicked sched_mode
  | StartupTicked bool
  | AddClicked sched_unit
  | RowTicked string bool
  | RowEdit string
  | RowDelete string
  | Edit sched_edit
  | DoneClicked

text \<open>\<open>update(id, patch)\<close>.\<close>

definition update_schedule :: "string \<Rightarrow> (schedule \<Rightarrow> schedule) \<Rightarrow> sched_editor \<Rightarrow> sched_editor" where
  "update_schedule i f ed = ed\<lparr>ed_schedules := map (\<lambda>s. if s_id s = i then f s else s) (ed_schedules ed)\<rparr>"

definition add_schedule :: "int \<Rightarrow> sched_unit \<Rightarrow> sched_editor \<Rightarrow> sched_editor option" where
  "add_schedule today u ed =
     (case nextScheduleId (ed_schedules ed) of
        None \<Rightarrow> None
      | Some i \<Rightarrow> Some (ed\<lparr>ed_schedules := ed_schedules ed @ [newSchedule u i today], ed_editing := Some i\<rparr>))"

definition remove_schedule :: "string \<Rightarrow> sched_editor \<Rightarrow> sched_editor" where
  "remove_schedule i ed =
     ed\<lparr>ed_schedules := filter (\<lambda>s. s_id s \<noteq> i) (ed_schedules ed),
        ed_editing := if ed_editing ed = Some i then None else ed_editing ed\<rparr>"

definition editing :: "sched_editor \<Rightarrow> schedule option" where
  "editing ed = (case ed_editing ed of None \<Rightarrow> None | Some i \<Rightarrow> List.find (\<lambda>s. s_id s = i) (ed_schedules ed))"

text \<open>One event on the day \<open>today\<close>; None where the page has no such control. The Add buttons make
  schedules in days, weeks, months or years.\<close>

definition editor_step :: "int \<Rightarrow> editor_event \<Rightarrow> sched_editor \<Rightarrow> sched_editor option" where
  "editor_step today ev ed =
     (let listed = (\<lambda>i. i \<in> s_id ` set (ed_schedules ed)); open_list = (ed_mode ed \<noteq> Manual)
      in case ev of
           ModeClicked m \<Rightarrow> Some (ed\<lparr>ed_mode := m\<rparr>)
         | StartupTicked b \<Rightarrow> if open_list then Some (ed\<lparr>ed_startup := b\<rparr>) else None
         | AddClicked u \<Rightarrow> if open_list \<and> u \<noteq> Minutes \<and> u \<noteq> Hours then add_schedule today u ed else None
         | RowTicked i b \<Rightarrow> if open_list \<and> listed i then Some (update_schedule i (\<lambda>s. s\<lparr>s_enabled := b\<rparr>) ed) else None
         | RowEdit i \<Rightarrow> if open_list \<and> listed i
                       then Some (ed\<lparr>ed_editing := if ed_editing ed = Some i then None else Some i\<rparr>) else None
         | RowDelete i \<Rightarrow> if open_list \<and> listed i then Some (remove_schedule i ed) else None
         | Edit e \<Rightarrow>
             (case editing ed of
                None \<Rightarrow> None
              | Some s \<Rightarrow> if open_list \<and> control_shown s e then Some (update_schedule (s_id s) (apply_edit today e) ed) else None)
         | DoneClicked \<Rightarrow> if open_list \<and> editing ed \<noteq> None then Some (ed\<lparr>ed_editing := None\<rparr>) else None)"

fun editor_steps :: "(int \<times> editor_event) list \<Rightarrow> sched_editor \<Rightarrow> sched_editor option" where
  "editor_steps [] ed = Some ed"
| "editor_steps ((today, ev) # evs) ed =
     (case editor_step today ev ed of None \<Rightarrow> None | Some ed' \<Rightarrow> editor_steps evs ed')"


section \<open>IDs\<close>

lemma id_loop_None:
  "id_loop used n k = None \<Longrightarrow> (\<lambda>i. CHR ''s'' # show_nat i) ` {n..<n + k} \<subseteq> set used"
proof (induction used n k rule: id_loop.induct)
  case (2 used n k)
  then have h: "CHR ''s'' # show_nat n \<in> set used" "id_loop used (n + 1) k = None"
    by (auto split: if_splits)
  have "{n..<n + Suc k} = insert n {n + 1..<n + 1 + k}" by auto
  with 2(1) h show ?case by simp
qed simp

lemma id_loop_fresh: "id_loop used n k = Some i \<Longrightarrow> i \<notin> set used"
  by (induction used n k rule: id_loop.induct) (auto split: if_splits)

text \<open>The loop ends: among one more numbers than there are schedules, one is free.\<close>

lemma nextScheduleId_Some:
  obtains i where "nextScheduleId ss = Some i" "i \<notin> s_id ` set ss"
proof (cases "nextScheduleId ss")
  case None
  let ?name = "\<lambda>i. CHR ''s'' # show_nat i"
  have "?name ` {1..<1 + (length ss + 1)} \<subseteq> set (map s_id ss)"
    using None by (intro id_loop_None) (simp add: nextScheduleId_def)
  then have "card (?name ` {1..<1 + (length ss + 1)}) \<le> card (set (map s_id ss))"
    by (intro card_mono) simp_all
  moreover have "inj_on ?name {1..<1 + (length ss + 1)}" by (intro inj_onI) simp
  ultimately have "length ss + 1 \<le> card (set (map s_id ss))" by (simp add: card_image)
  moreover have "card (set (map s_id ss)) \<le> length ss" by (metis card_length length_map)
  ultimately show ?thesis by simp
next
  case (Some i)
  with id_loop_fresh [of "map s_id ss" 1 "length ss + 1" i] that show ?thesis
    by (simp add: nextScheduleId_def)
qed

section \<open>Every event keeps the schedules usable\<close>

definition schedule_ok :: "schedule \<Rightarrow> bool" where
  "schedule_ok s \<longleftrightarrow> fields_ok s \<and> 1 \<le> s_every s \<and> distinct (s_weekdays s)"

definition editor_ok :: "sched_editor \<Rightarrow> bool" where
  "editor_ok ed \<longleftrightarrow> distinct (map s_id (ed_schedules ed)) \<and> (\<forall>s \<in> set (ed_schedules ed). schedule_ok s) \<and>
     (\<forall>i. ed_editing ed = Some i \<longrightarrow> i \<in> s_id ` set (ed_schedules ed))"

lemma newSchedule_ok: "schedule_ok (newSchedule u i today)"
  by (cases u) (simp_all add: schedule_ok_def fields_ok_def newSchedule_def empty_schedule_def)

lemma newSchedule_fields [simp]:
  "s_id (newSchedule u i today) = i" "s_unit (newSchedule u i today) = u"
  by (cases u; simp add: newSchedule_def)+

lemma unit_changed_ok: "schedule_ok s \<Longrightarrow> schedule_ok (unit_changed today u s)"
  by (cases u) (auto simp: schedule_ok_def fields_ok_def unit_changed_def newSchedule_def empty_schedule_def Let_def)

lemma apply_edit_id [simp]: "s_id (apply_edit today e s) = s_id s"
  by (cases e) (simp_all add: apply_edit_def unit_changed_def Let_def)

lemma apply_edit_ok:
  assumes "schedule_ok s" "control_shown s e"
  shows "schedule_ok (apply_edit today e s)"
proof (cases e)
  case (SetUnit u)
  then show ?thesis using unit_changed_ok [OF assms(1)] by (simp add: apply_edit_def)
next
  case (Nth n)
  with assms show ?thesis by (auto simp: apply_edit_def schedule_ok_def fields_ok_def control_shown_def Let_def)
next
  case (YearMonth m)
  with assms show ?thesis by (simp add: apply_edit_def schedule_ok_def fields_ok_def control_shown_def Let_def)
qed (use assms in \<open>simp_all add: apply_edit_def schedule_ok_def fields_ok_def\<close>)

lemma update_schedule_ids:
  assumes "\<And>s. s_id (f s) = s_id s"
  shows "map s_id (ed_schedules (update_schedule i f ed)) = map s_id (ed_schedules ed)"
  using assms by (simp add: update_schedule_def comp_def)

lemma update_schedule_ok:
  assumes "editor_ok ed" "\<And>s. s_id (f s) = s_id s"
    "\<And>s. s \<in> set (ed_schedules ed) \<Longrightarrow> s_id s = i \<Longrightarrow> schedule_ok (f s)"
  shows "editor_ok (update_schedule i f ed)"
proof -
  have ids: "map s_id (ed_schedules (update_schedule i f ed)) = map s_id (ed_schedules ed)"
    by (rule update_schedule_ids) (rule assms(2))
  then have ids': "s_id ` set (ed_schedules (update_schedule i f ed)) = s_id ` set (ed_schedules ed)"
    by (metis set_map)
  have "\<forall>s \<in> set (ed_schedules (update_schedule i f ed)). schedule_ok s"
    using assms(1,3) by (auto simp: editor_ok_def update_schedule_def)
  moreover have "ed_editing (update_schedule i f ed) = ed_editing ed" by (simp add: update_schedule_def)
  ultimately show ?thesis using assms(1) unfolding editor_ok_def ids ids' by simp
qed

lemma editing_Some: "editing ed = Some s \<Longrightarrow> s \<in> set (ed_schedules ed) \<and> ed_editing ed = Some (s_id s)"
  by (auto simp: editing_def split: option.splits dest: find_Some_mem)

lemma distinct_ids_eq: "distinct (map s_id ss) \<Longrightarrow> s \<in> set ss \<Longrightarrow> s' \<in> set ss \<Longrightarrow> s_id s' = s_id s \<Longrightarrow> s' = s"
  by (auto simp: distinct_map dest: inj_onD)

lemma add_schedule_ok:
  assumes "editor_ok ed" "add_schedule today u ed = Some ed'"
  shows "editor_ok ed'"
proof -
  obtain i where i: "nextScheduleId (ed_schedules ed) = Some i" "i \<notin> s_id ` set (ed_schedules ed)"
    by (rule nextScheduleId_Some)
  with assms newSchedule_ok show ?thesis by (auto simp: add_schedule_def editor_ok_def)
qed

lemma remove_schedule_ok: "editor_ok ed \<Longrightarrow> editor_ok (remove_schedule i ed)"
  by (auto simp: editor_ok_def remove_schedule_def distinct_map_filter)

lemma editor_step_ok:
  assumes "editor_ok ed" "editor_step today ev ed = Some ed'"
  shows "editor_ok ed'"
proof (cases ev)
  case (Edit e)
  with assms(2) obtain s where s: "editing ed = Some s" "control_shown s e"
    and ed': "ed' = update_schedule (s_id s) (apply_edit today e) ed"
    by (auto simp: editor_step_def split: option.splits if_splits)
  have "s' = s" if "s' \<in> set (ed_schedules ed)" "s_id s' = s_id s" for s'
    using assms(1) editing_Some [OF s(1)] that by (auto simp: editor_ok_def intro: distinct_ids_eq)
  then show ?thesis unfolding ed' using assms(1) s
    by (intro update_schedule_ok apply_edit_ok) (auto simp: editor_ok_def)
next
  case (AddClicked u)
  with assms add_schedule_ok show ?thesis by (auto simp: editor_step_def split: if_splits)
next
  case (RowTicked i b)
  with assms(2) have ed': "ed' = update_schedule i (\<lambda>s. s\<lparr>s_enabled := b\<rparr>) ed"
    by (auto simp: editor_step_def split: if_splits)
  show ?thesis unfolding ed' using assms(1)
    by (intro update_schedule_ok) (auto simp: editor_ok_def schedule_ok_def fields_ok_def)
next
  case (RowDelete i)
  with assms remove_schedule_ok show ?thesis by (auto simp: editor_step_def split: if_splits)
qed (use assms in \<open>auto simp: editor_step_def editor_ok_def split: if_splits\<close>)

lemma editor_steps_ok: "editor_ok ed \<Longrightarrow> editor_steps evs ed = Some ed' \<Longrightarrow> editor_ok ed'"
  by (induction evs ed rule: editor_steps.induct) (auto split: option.splits intro: editor_step_ok)

section \<open>Properties\<close>

text \<open>C26: whatever is clicked and typed in the Schedule tab, from schedules that are well formed,
  the schedules keep different IDs, the open one is one of the list, every field stays in its range,
  and each schedule the page does not call a problem has as many next runs as are asked for, but for those
  every two days or more on some weekdays only, whose runs can be past the horizon.\<close>
theorem edited_schedules_run:
  assumes "zone_days z" "editor_ok ed" "editor_steps evs ed = Some ed'"
  shows "editor_ok ed' \<and>
    (\<forall>s \<in> set (ed_schedules ed'). scheduleProblem s = [] \<and> \<not> limited_days s \<longrightarrow>
       length (nextRuns z s after n) = n)"
proof (intro conjI ballI impI)
  show ok: "editor_ok ed'" by (rule editor_steps_ok [OF assms(2,3)])
  fix s
  assume s: "s \<in> set (ed_schedules ed')" "scheduleProblem s = [] \<and> \<not> limited_days s"
  with ok have "fields_ok s" by (simp add: editor_ok_def schedule_ok_def)
  with s assms(1) show "length (nextRuns z s after n) = n" by (intro nextRuns_length) auto
qed

definition fresh_editor :: sched_editor where
  "fresh_editor = \<lparr>ed_mode = Scheduled, ed_schedules = [], ed_startup = False, ed_editing = None\<rparr>"

definition some_edits :: "(int \<times> editor_event) list" where
  "some_edits = map (Pair 19737)
     [AddClicked Weeks, AddClicked Days, Edit (SetUnit Months), Edit (MonthBy OnNth), Edit (Nth (-1)),
      Edit (SetEvery ''0''), RowDelete ''s1'', AddClicked Years, Edit (YearDay '' 40''), DoneClicked]"

lemma some_edits_schedules:
  "map_option (map (\<lambda>s. (s_id s, s_unit s, s_nth s, s_every s, s_yearDay s)) \<circ> ed_schedules) (editor_steps some_edits fresh_editor) =
   Some [(''s2'', Months, -1, 1, 31), (''s1'', Years, 1, 1, 31)]"
  by code_simp

theorem edited_schedules_run_witness:
  "\<exists>ed. editor_steps some_edits fresh_editor = Some ed \<and> length (ed_schedules ed) = 2 \<and> editor_ok ed \<and>
     (\<forall>s \<in> set (ed_schedules ed). s_unit s \<noteq> Days)"
proof -
  obtain ed where ed: "editor_steps some_edits fresh_editor = Some ed"
    using some_edits_schedules by (cases "editor_steps some_edits fresh_editor") auto
  with some_edits_schedules have "map s_id (ed_schedules ed) = [''s2'', ''s1'']" by (auto simp: map_eq_Cons_conv)
  then have "length (ed_schedules ed) = 2" by (metis length_map list.size(3,4) One_nat_def Suc_1 add.commute plus_1_eq_Suc)
  moreover have "zone_days UTC" using UTC_plain by (simp add: zone_plain_def)
  moreover have "editor_ok fresh_editor" by (simp add: editor_ok_def fresh_editor_def)
  moreover have "\<forall>s \<in> set (ed_schedules ed). s_unit s \<noteq> Days"
    using ed some_edits_schedules by (auto simp: map_eq_Cons_conv)
  ultimately show ?thesis using edited_schedules_run [of UTC fresh_editor some_edits ed 0 3] ed by blast
qed

text \<open>A click on the fields of the open schedule changes that schedule only: its ID, the order of
  the list and every other schedule stay, and so do the mode and the tick for startup.\<close>
theorem edit_touches_one:
  assumes "editor_ok ed" "editing ed = Some s" "editor_step today (Edit e) ed = Some ed'"
  shows "\<exists>before rest. ed_schedules ed = before @ s # rest \<and>
    ed' = ed\<lparr>ed_schedules := before @ apply_edit today e s # rest\<rparr>"
proof -
  have ed': "ed' = update_schedule (s_id s) (apply_edit today e) ed"
    using assms(2,3) by (auto simp: editor_step_def split: if_splits)
  obtain before rest where split: "ed_schedules ed = before @ s # rest"
    using editing_Some [OF assms(2)] split_list by fast
  with assms(1) have "s_id s \<notin> s_id ` (set before \<union> set rest)"
    by (auto simp: editor_ok_def image_Un)
  then have "\<forall>x \<in> set before \<union> set rest. s_id x \<noteq> s_id s" by (metis imageI)
  then have "map (\<lambda>x. if s_id x = s_id s then apply_edit today e x else x) xs = xs"
    if "set xs \<subseteq> set before \<union> set rest" for xs
    using that by (intro map_idI) auto
  then have "ed' = ed\<lparr>ed_schedules := before @ apply_edit today e s # rest\<rparr>"
    by (simp add: ed' update_schedule_def split)
  with split show ?thesis by blast
qed

theorem edit_touches_one_witness:
  "\<exists>before rest. [newSchedule Weeks ''s1'' 0, newSchedule Days ''s2'' 0] = before @ newSchedule Days ''s2'' 0 # rest"
proof -
  let ?ed = "fresh_editor\<lparr>ed_schedules := [newSchedule Weeks ''s1'' 0, newSchedule Days ''s2'' 0], ed_editing := Some ''s2''\<rparr>"
  have "editor_ok ?ed" by (simp add: editor_ok_def newSchedule_ok)
  moreover have open_one: "editing ?ed = Some (newSchedule Days ''s2'' 0)" by (simp add: editing_def)
  moreover have "editor_step 0 (Edit (ToggleDay Mon)) ?ed =
      Some (update_schedule ''s2'' (apply_edit 0 (ToggleDay Mon)) ?ed)"
    unfolding editor_step_def open_one by (simp add: control_shown_def fresh_editor_def)
  ultimately show ?thesis using edit_touches_one [of ?ed "newSchedule Days ''s2'' 0" 0 "ToggleDay Mon"] by simp blast
qed

end
