(* ===== verification/Shares.thy ===== *)
theory Shares
  imports JsPrelude
begin

text \<open>
  Folders on network shares: the check before a folder set is saved (\<open>ensureShareAccess\<close> of
  \<open>App.jsx\<close>) and the login dialog (\<open>components/ShareLoginDialog.jsx\<close>). What the service says of the
  folders, the saved logins and the user's answers are arguments.
\<close>

section \<open>The check\<close>

record share_result =
  sh_path :: string
  sh_server :: string
  sh_ok :: bool
  sh_need_login :: bool
  sh_error :: string

record share_login =
  sl_server :: string
  sl_username :: string

text \<open>What the login dialog is opened with.\<close>

record login_request =
  lr_server :: string
  lr_path :: string
  lr_username :: string
  lr_change :: bool
  lr_editServer :: bool

definition login_for :: "share_login list \<Rightarrow> share_result \<Rightarrow> login_request" where
  "login_for logins r =
     (let known = List.find (\<lambda>l. toLowerCase (sl_server l) = toLowerCase (sh_server r)) logins
      in \<lparr>lr_server = sh_server r, lr_path = sh_path r,
          lr_username = (case known of Some l \<Rightarrow> sl_username l | None \<Rightarrow> []), lr_change = (known \<noteq> None), lr_editServer = False\<rparr>)"

text \<open>The loop over the results: the requests made, and whether each was answered with a login.\<close>

fun ask_logins :: "share_login list \<Rightarrow> (login_request \<Rightarrow> bool) \<Rightarrow> string list \<Rightarrow> share_result list \<Rightarrow> login_request list \<times> bool" where
  "ask_logins logins saved asked [] = ([], True)"
| "ask_logins logins saved asked (r # rs) =
     (let key = toLowerCase (sh_server r)
      in if sh_ok r \<or> \<not> sh_need_login r \<or> key \<in> set asked then ask_logins logins saved asked rs
         else let q = login_for logins r
              in if \<not> saved q then ([q], False)
                 else let (qs, all) = ask_logins logins saved (key # asked) rs in (q # qs, all))"

text \<open>\<open>so_warned\<close> are the folders the last question is about.\<close>

record share_outcome =
  so_asked :: "login_request list"
  so_warned :: "share_result list"
  so_go :: bool

text \<open>\<open>check1\<close> and \<open>check2\<close> are the two answers of CheckShareAccess, None for an error.\<close>

definition ensureShareAccess ::
  "bool \<Rightarrow> string list \<Rightarrow> share_result list option \<Rightarrow> share_result list option \<Rightarrow> share_login list \<Rightarrow> (login_request \<Rightarrow> bool) \<Rightarrow> bool \<Rightarrow> share_outcome" where
  "ensureShareAccess available dirs check1 check2 logins saved consent =
     (let go = \<lparr>so_asked = [], so_warned = [], so_go = True\<rparr>
      in if \<not> available \<or> dirs = [] then go
         else case check1 of
                None \<Rightarrow> go
              | Some results \<Rightarrow>
                  if results = [] then go
                  else let (asked, all) = ask_logins logins saved [] results
                       in if \<not> all then \<lparr>so_asked = asked, so_warned = [], so_go = False\<rparr>
                          else case (if asked \<noteq> [] then check2 else Some results) of
                                 None \<Rightarrow> \<lparr>so_asked = asked, so_warned = [], so_go = True\<rparr>
                               | Some results \<Rightarrow>
                                   let bad = filter (\<lambda>r. \<not> sh_ok r) results
                                   in if bad = [] then \<lparr>so_asked = asked, so_warned = [], so_go = True\<rparr>
                                      else \<lparr>so_asked = asked, so_warned = bad, so_go = consent\<rparr>)"

section \<open>The login dialog\<close>

record login_dialog =
  ld_server :: string
  ld_username :: string
  ld_password :: string
  ld_testPath :: string
  ld_busy :: bool
  ld_error :: string

definition open_login :: "login_request \<Rightarrow> login_dialog" where
  "open_login q = \<lparr>ld_server = lr_server q, ld_username = lr_username q, ld_password = [], ld_testPath = lr_path q,
     ld_busy = False, ld_error = []\<rparr>"

definition cleanServer :: "login_dialog \<Rightarrow> string" where
  "cleanServer d = dropWhile (\<lambda>c. c = slash \<or> c = backslash) (trim (ld_server d))"

definition can_save_login :: "login_request \<Rightarrow> login_dialog \<Rightarrow> bool" where
  "can_save_login q d \<longleftrightarrow> cleanServer d \<noteq> [] \<and> trim (ld_username d) \<noteq> [] \<and> (ld_password d \<noteq> [] \<or> lr_change q) \<and> \<not> ld_busy d"

datatype login_event = ServerTyped string | UserTyped string | PasswordTyped string | TestPathTyped string | LoginSaved | LoginFailed string

text \<open>What SetShareLogin is called with: server, user, password and the folder it is tried on.\<close>

type_synonym login_call = "string \<times> string \<times> string \<times> string"

definition save_login :: "login_request \<Rightarrow> login_dialog \<Rightarrow> login_call option \<times> login_dialog" where
  "save_login q d =
     (if can_save_login q d
      then (Some (cleanServer d, trim (ld_username d), ld_password d, trim (ld_testPath d)), d\<lparr>ld_busy := True, ld_error := []\<rparr>)
      else (None, d))"

definition login_step :: "login_request \<Rightarrow> login_event \<Rightarrow> login_dialog \<Rightarrow> login_dialog" where
  "login_step q ev d =
     (case ev of
        ServerTyped v \<Rightarrow> if ld_busy d \<or> \<not> lr_editServer q then d else d\<lparr>ld_server := v\<rparr>
      | UserTyped v \<Rightarrow> if ld_busy d then d else d\<lparr>ld_username := v\<rparr>
      | PasswordTyped v \<Rightarrow> if ld_busy d then d else d\<lparr>ld_password := v\<rparr>
      | TestPathTyped v \<Rightarrow> if ld_busy d \<or> lr_path q \<noteq> [] then d else d\<lparr>ld_testPath := v\<rparr>
      | LoginSaved \<Rightarrow> snd (save_login q d)
      | LoginFailed err \<Rightarrow> if ld_busy d then d\<lparr>ld_error := err, ld_busy := False\<rparr> else d)"

section \<open>Every server is asked for once\<close>

abbreviation server_key :: "login_request \<Rightarrow> string" where
  "server_key q \<equiv> toLowerCase (lr_server q)"

abbreviation wants_login :: "share_result \<Rightarrow> bool" where
  "wants_login r \<equiv> \<not> sh_ok r \<and> sh_need_login r"

lemma login_for_key [simp]: "lr_server (login_for logins r) = sh_server r" "lr_path (login_for logins r) = sh_path r"
  "\<not> lr_editServer (login_for logins r)"
  by (simp_all add: login_for_def Let_def)

lemma ask_logins_ok:
  assumes "ask_logins logins saved asked rs = (qs, all)"
  shows "distinct (map server_key qs) \<and> set (map server_key qs) \<inter> set asked = {} \<and>
    set qs \<subseteq> login_for logins ` {r \<in> set rs. wants_login r} \<and>
    (all \<longleftrightarrow> (\<forall>q \<in> set qs. saved q)) \<and>
    (all \<longrightarrow> (\<forall>r \<in> set rs. wants_login r \<longrightarrow> toLowerCase (sh_server r) \<in> set asked \<union> set (map server_key qs)))"
  using assms
proof (induction rs arbitrary: asked qs all)
  case (Cons r rs)
  let ?key = "toLowerCase (sh_server r)"
  show ?case
  proof (cases "sh_ok r \<or> \<not> sh_need_login r \<or> ?key \<in> set asked")
    case True
    with Cons.prems have "ask_logins logins saved asked rs = (qs, all)" by simp
    from Cons.IH [OF this] True show ?thesis by auto
  next
    case False
    show ?thesis
    proof (cases "saved (login_for logins r)")
      case True
      with False Cons.prems obtain qs' where qs': "ask_logins logins saved (?key # asked) rs = (qs', all)" "qs = login_for logins r # qs'"
        by (auto simp: Let_def split: prod.splits)
      from Cons.IH [OF qs'(1)] True False qs'(2) show ?thesis by auto
    next
      case no: False
      with False Cons.prems have "qs = [login_for logins r]" "\<not> all" by (auto simp: Let_def)
      with no False show ?thesis by auto
    qed
  qed
qed simp

text \<open>A folder on a share is not backed up unnoticed when it cannot be opened. For each server that
  wants a login the user is asked once, whatever the case of its name, and for no other server. When
  the check goes on, every such server has got a login, and each folder that still could not be opened
  was named in a question the user answered with yes; only a check that itself fails, or is not there,
  lets folders through unseen.\<close>
theorem share_access_checked:
  assumes "out = ensureShareAccess available dirs check1 check2 logins saved consent"
  shows "distinct (map server_key (so_asked out)) \<and>
    (\<forall>q \<in> set (so_asked out). \<exists>r \<in> set (the check1). wants_login r \<and> q = login_for logins r) \<and>
    (so_go out \<longrightarrow> \<not> available \<or> dirs = [] \<or> check1 = None \<or>
       (\<forall>q \<in> set (so_asked out). saved q) \<and>
       (\<forall>r \<in> set (the check1). wants_login r \<longrightarrow> toLowerCase (sh_server r) \<in> set (map server_key (so_asked out))) \<and>
       (so_asked out \<noteq> [] \<and> check2 = None \<or>
        so_warned out = filter (\<lambda>r. \<not> sh_ok r) (the (if so_asked out \<noteq> [] then check2 else check1)) \<and> (so_warned out = [] \<or> consent)))"
proof (cases "\<not> available \<or> dirs = [] \<or> check1 = None \<or> check1 = Some []")
  case True
  then have out: "out = \<lparr>so_asked = [], so_warned = [], so_go = True\<rparr>"
    by (auto simp: assms ensureShareAccess_def Let_def)
  from True show ?thesis unfolding out by auto
next
  case False
  then obtain results where results: "check1 = Some results" "results \<noteq> []" "available" "dirs \<noteq> []" by auto
  obtain qs all where ask: "ask_logins logins saved [] results = (qs, all)" by fastforce
  note a = ask_logins_ok [OF ask]
  show ?thesis
  proof (cases all)
    case no: False
    then have "out = \<lparr>so_asked = qs, so_warned = [], so_go = False\<rparr>"
      by (simp add: assms ensureShareAccess_def results ask)
    with a results(1) show ?thesis by auto
  next
    case all: True
    define last_check where "last_check = (if qs \<noteq> [] then check2 else Some results)"
    have out: "so_asked out = qs" "last_check \<noteq> None \<Longrightarrow> so_warned out = filter (\<lambda>r. \<not> sh_ok r) (the last_check)"
      "last_check \<noteq> None \<Longrightarrow> so_go out \<Longrightarrow> so_warned out = [] \<or> consent"
      by (auto simp: assms ensureShareAccess_def results ask all last_check_def Let_def split: option.split)
    have "distinct (map server_key qs)" "\<forall>q \<in> set qs. \<exists>r \<in> set results. wants_login r \<and> q = login_for logins r" "\<forall>q \<in> set qs. saved q"
      "\<forall>r \<in> set results. wants_login r \<longrightarrow> toLowerCase (sh_server r) \<in> set (map server_key qs)"
      using a all by auto
    moreover have "so_go out \<longrightarrow> qs \<noteq> [] \<and> check2 = None \<or>
        so_warned out = filter (\<lambda>r. \<not> sh_ok r) (the (if qs \<noteq> [] then check2 else check1)) \<and> (so_warned out = [] \<or> consent)"
      using out results(1) by (auto simp: last_check_def split: if_splits)
    ultimately show ?thesis unfolding out(1) results(1) option.sel by blast
  qed
qed


text \<open>What a caller that goes on can rely on: a folder the last check refused was consented to.\<close>

lemma refused_share_consent:
  assumes "so_go (ensureShareAccess True dirs (Some results) check2 logins saved consent)" "dirs \<noteq> []"
    and "final = (if so_asked (ensureShareAccess True dirs (Some results) check2 logins saved consent) \<noteq> [] then check2 else Some results)"
    and "final = Some rs" "r \<in> set rs" "\<not> sh_ok r"
  shows "consent"
proof -
  obtain qs all where ask: "ask_logins logins saved [] results = (qs, all)" by fastforce
  show ?thesis
    using assms by (auto simp: ensureShareAccess_def Let_def ask filter_empty_conv split: if_splits option.splits)
qed

definition two_shares :: "share_result list" where
  "two_shares =
    [\<lparr>sh_path = ''//NAS/a'', sh_server = ''NAS'', sh_ok = False, sh_need_login = True, sh_error = ''denied''\<rparr>,
     \<lparr>sh_path = ''//nas/b'', sh_server = ''nas'', sh_ok = False, sh_need_login = True, sh_error = ''denied''\<rparr>]"

theorem share_access_checked_witness:
  "so_go (ensureShareAccess True [''//NAS/a'', ''//nas/b''] (Some two_shares) (Some two_shares) [] (\<lambda>_. True) False) = False \<and>
   length (so_asked (ensureShareAccess True [''//NAS/a'', ''//nas/b''] (Some two_shares) (Some two_shares) [] (\<lambda>_. True) False)) \<le> 1"
proof -
  let ?out = "ensureShareAccess True [''//NAS/a'', ''//nas/b''] (Some two_shares) (Some two_shares) [] (\<lambda>_. True) False"
  have bad: "filter (\<lambda>r. \<not> sh_ok r) two_shares \<noteq> []" by (simp add: two_shares_def)
  from share_access_checked [OF refl, of True "[''//NAS/a'', ''//nas/b'']" "Some two_shares" "Some two_shares" "[]" "\<lambda>_. True" False] bad
  have "\<not> so_go ?out" by auto
  moreover have "map server_key (so_asked ?out) = [''nas'']" by code_simp
  then have "length (so_asked ?out) \<le> 1" by (metis length_map length_Cons list.size(3) One_nat_def order_refl)
  ultimately show ?thesis by simp
qed

text \<open>A login that was saved and a second check that fails: the set goes on, with no word of the folders the first
  check could not open.\<close>

lemma failed_recheck_saves:
  "ensureShareAccess True [''//NAS/a'', ''//nas/b''] (Some two_shares) None [] (\<lambda>_. True) False =
   \<lparr>so_asked = [\<lparr>lr_server = ''NAS'', lr_path = ''//NAS/a'', lr_username = [], lr_change = False, lr_editServer = False\<rparr>], so_warned = [], so_go = True\<rparr>"
  by code_simp

text \<open>A login is sent for the server that was asked about, with a user and, unless an earlier one is
  changed, a password; and one call at a time.\<close>

lemma login_for_server:
  assumes "d = fold (login_step q) evs (open_login q)" "save_login q d = (Some (server, user, password, path), d')" "\<not> lr_editServer q"
  shows "server = dropWhile (\<lambda>c. c = slash \<or> c = backslash) (trim (lr_server q)) \<and> server \<noteq> [] \<and> user \<noteq> [] \<and>
    (password \<noteq> [] \<or> lr_change q) \<and> (lr_path q \<noteq> [] \<longrightarrow> path = trim (lr_path q)) \<and> \<not> ld_busy d \<and> ld_busy d'"
proof -
  have step: "ld_server (login_step q ev d0) = ld_server d0 \<and> (lr_path q \<noteq> [] \<longrightarrow> ld_testPath (login_step q ev d0) = ld_testPath d0)" for ev d0
    using assms(3) by (cases ev) (auto simp: login_step_def save_login_def)
  have "ld_server (fold (login_step q) evs d0) = ld_server d0 \<and> (lr_path q \<noteq> [] \<longrightarrow> ld_testPath (fold (login_step q) evs d0) = ld_testPath d0)" for d0
    using step by (induction evs arbitrary: d0) simp_all
  then have "ld_server d = lr_server q" "lr_path q \<noteq> [] \<longrightarrow> ld_testPath d = lr_path q"
    by (simp_all add: assms(1) open_login_def)
  with assms(2) show ?thesis by (auto simp: save_login_def can_save_login_def cleanServer_def split: if_splits)
qed

end
