(* ===== verification/SearchForm.thy ===== *)
theory SearchForm
  imports Calendar Jobs
begin

text \<open>
  The search over the snapshots (\<open>handleSearch\<close>, \<open>parseDateToUnix\<close>) and the list of Backup IDs of the
  Restore tab (\<open>restoreIdChoices\<close>), with the place a file came from (\<open>absOriginPath\<close>); all of
  \<open>App.jsx\<close>. The time zone is the record of theory Calendar, and the order of the locale a function
  that gives each text its rank.
\<close>

section \<open>The dates of a search\<close>

text \<open>The day of a date as the date field writes it; a part that is missing or 0 gives none.\<close>

definition picked_day :: "string \<Rightarrow> int option" where
  "picked_day s =
     (case map number_or_0 (split_on (CHR ''-'') s) of
        y # m # d # _ \<Rightarrow>
          if y = 0 \<or> m = 0 \<or> d = 0 then None
          else Some (make_day (if y < 100 then 1900 + y else y) (m - 1) d)
      | _ \<Rightarrow> None)"

definition parseDateToUnix :: "zone \<Rightarrow> string \<Rightarrow> bool \<Rightarrow> int" where
  "parseDateToUnix z s endOfDay =
     (case picked_day s of
        None \<Rightarrow> 0
      | Some d \<Rightarrow> (if endOfDay then z_instant z d 1439 + 59000 else z_instant z d 0) div 1000)"

datatype search_mode = ByName | ByRegex | ByPath

record search_form =
  sf_pbs :: string
  sf_backupId :: string
  sf_query :: string
  sf_mode :: search_mode
  sf_from :: string
  sf_to :: string
  sf_assembleMissing :: bool
  sf_running :: bool

text \<open>What SearchFiles is called with.\<close>

record search_call =
  sc_pbs :: string
  sc_prefix :: string
  sc_query :: string
  sc_mode :: search_mode
  sc_from :: int
  sc_to :: int
  sc_assembleMissing :: bool

definition handleSearch :: "zone \<Rightarrow> string \<Rightarrow> search_form \<Rightarrow> search_call option \<times> search_form" where
  "handleSearch z hostname f =
     (if trim (sf_query f) = [] then (None, f)
      else (Some \<lparr>sc_pbs = sf_pbs f,
                  sc_prefix = trim (if sf_backupId f \<noteq> [] then sf_backupId f else hostname),
                  sc_query = sf_query f, sc_mode = sf_mode f,
                  sc_from = parseDateToUnix z (sf_from f) False, sc_to = parseDateToUnix z (sf_to f) True,
                  sc_assembleMissing = sf_assembleMissing f\<rparr>,
            f\<lparr>sf_running := True\<rparr>))"

text \<open>A zone whose clock does not change around midnight: a local day is the time between the midnights
  at its ends, which are whole seconds, and its last minute is an ordinary one.\<close>

definition zone_midnights :: "zone \<Rightarrow> bool" where
  "zone_midnights z \<longleftrightarrow> (\<forall>t d. (z_instant z d 0 \<le> t \<longleftrightarrow> d \<le> z_day z t) \<and>
     z_instant z (d + 1) 0 = z_instant z d 1439 + 60000 \<and> z_instant z d 0 mod 1000 = 0)"

lemma UTC_midnights: "zone_midnights UTC"
proof -
  have "z_instant UTC d 0 \<le> t \<longleftrightarrow> d \<le> z_day UTC t" for d t
    using div_bounds [of 86400000 t] zdiv_mono1 [of "d * 86400000" t 86400000] by (auto simp: UTC_def)
  moreover have "z_instant UTC d 0 mod 1000 = 0" for d
  proof -
    have "d * 86400000 = (d * 86400) * 1000" by simp
    then show ?thesis by (simp add: UTC_def)
  qed
  ultimately show ?thesis by (simp add: zone_midnights_def) (simp add: UTC_def)
qed

text \<open>The dates of a search take in whole days. With both dates given, the seconds a search is asked
  for are those whose local day is one from the first date to the second, both included; a date left
  empty is asked for as 0, which stands for no bound.\<close>
theorem search_whole_days:
  assumes "zone_midnights z" "picked_day from_text = Some a" "picked_day to_text = Some b"
    and "handleSearch z hostname (f\<lparr>sf_from := from_text, sf_to := to_text\<rparr>) = (Some c, f')"
  shows "(sc_from c \<le> u \<and> u \<le> sc_to c) = (a \<le> z_day z (u * 1000) \<and> z_day z (u * 1000) \<le> b)"
proof -
  have c: "sc_from c = z_instant z a 0 div 1000" "sc_to c = (z_instant z b 1439 + 59000) div 1000"
    using assms(2-4) by (auto simp: handleSearch_def parseDateToUnix_def split: if_splits)
  have z: "z_instant z d 0 \<le> t \<longleftrightarrow> d \<le> z_day z t" "z_instant z (d + 1) 0 = z_instant z d 1439 + 60000" "z_instant z d 0 mod 1000 = 0" for d t
    using assms(1) by (simp_all add: zone_midnights_def)
  have lo: "sc_from c \<le> u \<longleftrightarrow> z_instant z a 0 \<le> u * 1000"
    using mult_div_mod_eq [of 1000 "z_instant z a 0"] z(3) [of a] unfolding c(1) by linarith
  have hi: "u \<le> sc_to c \<longleftrightarrow> u * 1000 < z_instant z (b + 1) 0"
  proof -
    have q: "z_instant z (b + 1) 0 = 1000 * (z_instant z (b + 1) 0 div 1000)"
      using mult_div_mod_eq [of 1000 "z_instant z (b + 1) 0"] z(3) [of "b + 1"] by linarith
    then have "z_instant z b 1439 + 59000 = 1000 * (z_instant z (b + 1) 0 div 1000 - 1)" using z(2) [of b] unfolding right_diff_distrib by linarith
    then have "sc_to c = z_instant z (b + 1) 0 div 1000 - 1" unfolding c(2) by (metis nonzero_mult_div_cancel_left zero_neq_numeral)
    with q show ?thesis by linarith
  qed
  have "u * 1000 < z_instant z (b + 1) 0 \<longleftrightarrow> z_day z (u * 1000) \<le> b"
    using z(1) [of "b + 1" "u * 1000"] by linarith
  with lo hi z(1) show ?thesis by simp
qed

definition some_search :: search_form where
  "some_search = \<lparr>sf_pbs = [], sf_backupId = [], sf_query = ''report'', sf_mode = ByName, sf_from = [], sf_to = [],
     sf_assembleMissing = False, sf_running = False\<rparr>"

theorem search_whole_days_witness:
  "\<exists>c f'. handleSearch UTC ''pc'' (some_search\<lparr>sf_from := ''2026-10-01'', sf_to := ''2026-10-01''\<rparr>) = (Some c, f') \<and>
     sc_from c \<le> 1790899199 \<and> \<not> 1790899200 \<le> sc_to c"
proof -
  have d: "picked_day ''2026-10-01'' = Some 20727" and t: "trim ''report'' \<noteq> []" by code_simp+
  obtain c f' where c: "handleSearch UTC ''pc'' (some_search\<lparr>sf_from := ''2026-10-01'', sf_to := ''2026-10-01''\<rparr>) = (Some c, f')"
    by (simp add: handleSearch_def some_search_def t)
  note s = search_whole_days [OF UTC_midnights d d c]
  have "z_day UTC (1790899199 * 1000) = 20727" "z_day UTC (1790899200 * 1000) = 20728" by (simp_all add: UTC_def)
  with s [of 1790899199] s [of 1790899200] have "sc_from c \<le> 1790899199" "\<not> (sc_from c \<le> 1790899200 \<and> 1790899200 \<le> sc_to c)" by simp_all
  with c show ?thesis by force
qed

section \<open>The Backup IDs of this computer\<close>

text \<open>One turn of the loop: the set's name is put with its ID, in the order the IDs are met.\<close>

definition add_choice :: "(string \<times> string list) list \<Rightarrow> job \<Rightarrow> (string \<times> string list) list" where
  "add_choice byId j =
     (let i = trim (j_backupId j)
      in if i = [] then byId
         else map (\<lambda>(k, names). (k, if k = i then names @ [j_name j] else names))
                (if map_of byId i = None then byId @ [(i, [])] else byId))"

definition restoreIdChoices :: "(string \<Rightarrow> 'r::linorder) \<Rightarrow> job list \<Rightarrow> string \<Rightarrow> string \<Rightarrow> (string \<times> string list) list" where
  "restoreIdChoices rank jobs hostname oneOff =
     (let byId = foldl add_choice [] jobs;
          host = trim hostname
      in sort_key (\<lambda>c. rank (fst c)) (if host \<noteq> [] \<and> map_of byId host = None then byId @ [(host, [oneOff])] else byId))"

definition names_of :: "job list \<Rightarrow> string \<Rightarrow> string list" where
  "names_of jobs i = map j_name (filter (\<lambda>j. trim (j_backupId j) = i) jobs)"

lemma map_of_map_names: "map_of (map (\<lambda>(k, ns). (k, g k ns)) m) i = map_option (g i) (map_of m i)"
  by (induction m) auto

lemma add_choice_keys: "distinct (map fst m) \<Longrightarrow> distinct (map fst (add_choice m j))"
  by (auto simp: add_choice_def Let_def map_of_eq_None_iff comp_def case_prod_beta)

lemma map_of_add_choice:
  "map_of (add_choice m j) i =
     (if i \<noteq> [] \<and> trim (j_backupId j) = i then Some ((case map_of m i of None \<Rightarrow> [] | Some ns \<Rightarrow> ns) @ [j_name j]) else map_of m i)"
  by (auto simp: add_choice_def Let_def map_of_map_names map_add_def split: option.split)

lemma choices_of_jobs:
  "distinct (map fst (foldl add_choice [] jobs)) \<and>
   map_of (foldl add_choice [] jobs) = (\<lambda>i. if i = [] \<or> names_of jobs i = [] then None else Some (names_of jobs i))"
proof (induction jobs rule: rev_induct)
  case (snoc j jobs)
  then show ?case
    by (intro conjI ext) (auto simp: add_choice_keys map_of_add_choice names_of_def)
qed (simp add: names_of_def fun_eq_iff)

text \<open>The picker offers each Backup ID of this computer once, with exactly the sets that use it, in
  the order of the sets; the computer's name is offered too, as the ID of one-off backups, unless a set
  uses it; and the IDs are in the order of the locale.\<close>
theorem id_choices_exact:
  "distinct (map fst (restoreIdChoices rank jobs hostname oneOff)) \<and>
   sorted (map (\<lambda>c. rank (fst c)) (restoreIdChoices rank jobs hostname oneOff)) \<and>
   map_of (restoreIdChoices rank jobs hostname oneOff) =
     (\<lambda>i. if i = [] then None
          else if names_of jobs i \<noteq> [] then Some (names_of jobs i)
          else if i = trim hostname then Some [oneOff] else None)"
proof -
  define byId where "byId = foldl add_choice [] jobs"
  define all where "all = (if trim hostname \<noteq> [] \<and> map_of byId (trim hostname) = None then byId @ [(trim hostname, [oneOff])] else byId)"
  have choices: "restoreIdChoices rank jobs hostname oneOff = sort_key (\<lambda>c. rank (fst c)) all"
    by (simp add: restoreIdChoices_def all_def byId_def Let_def)
  have b: "distinct (map fst byId)" "map_of byId = (\<lambda>i. if i = [] \<or> names_of jobs i = [] then None else Some (names_of jobs i))"
    using choices_of_jobs [of jobs] by (simp_all add: byId_def)
  have d: "distinct (map fst all)" using b(1) by (auto simp: all_def map_of_eq_None_iff)
  have m: "map_of all = (\<lambda>i. if i = [] then None else if names_of jobs i \<noteq> [] then Some (names_of jobs i)
      else if i = trim hostname then Some [oneOff] else None)"
    by (auto simp: all_def b(2) fun_eq_iff map_add_def split: option.split)
  have d': "distinct (map fst (sort_key (\<lambda>c. rank (fst c)) all))"
    using d by (simp add: distinct_map)
  then have "map_of (sort_key (\<lambda>c. rank (fst c)) all) = map_of all"
    using d by (simp add: map_of_inject_set)
  moreover have "sorted (map (\<lambda>c. rank (fst c)) (sort_key (\<lambda>c. rank (fst c)) all))" by (rule sorted_sort_key)
  ultimately show ?thesis using d' unfolding choices m by blast
qed

section \<open>Where a file came from\<close>

definition absOriginPath :: "string \<Rightarrow> string \<Rightarrow> string \<Rightarrow> string option" where
  "absOriginPath original_path os archivePath =
     (if original_path = [] then None
      else let sep = (if os = ''windows'' \<or> backslash \<in> set original_path then backslash else slash);
               base = (if last original_path = sep then butlast original_path else original_path)
           in Some (if archivePath = [] then base else base @ sep # join_with [sep] (split_on slash archivePath)))"

text \<open>Apart from the separators, the path is the folder and the path below it with one separator between them.\<close>

lemma origin_path_parts:
  assumes "absOriginPath (base @ [sep]) os p = Some r" "p \<noteq> []"
    and "sep = (if os = ''windows'' \<or> backslash \<in> set (base @ [sep]) then backslash else slash)" "sep \<notin> set p \<or> sep = slash"
  shows "r = base @ sep # map (\<lambda>c. if c = slash then sep else c) p"
proof -
  have "join_with [sep] (split_on slash p) = map (\<lambda>c. if c = slash then sep else c) p" for p
  proof (induction p)
    case (Cons c p)
    obtain x xs where x: "split_on slash p = x # xs" using split_on_nonempty by (meson neq_Nil_conv)
    with Cons show ?case by (cases xs) auto
  qed simp
  with assms show ?thesis by (simp add: absOriginPath_def Let_def)
qed

end
