(* ===== verification/Logs.thy ===== *)
theory Logs
  imports Jobs
begin

text \<open>
  View Full Logs (\<open>components/LogsPage.jsx\<close>): which log a Reports entry or a Message Log line opens
  (\<open>openLogFor\<close> of \<open>App.jsx\<close>, \<open>logRequestFor\<close>), and the page that lists the files and reads the one
  picked. What the backend answers and the local time of an instant are arguments.
\<close>

section \<open>Which log to open\<close>

record log_file =
  lf_folder :: string
  lf_name :: string
  lf_kind :: string
  lf_service :: bool

record log_request =
  lq_folder :: string
  lq_name :: string
  lq_around :: string
  lq_notice :: string

text \<open>\<open>run_log\<close> is the name and folder FindRunLog gives, None for an error or no name; \<open>files\<close> is None
  when ListLogFiles fails. The sort is stable.\<close>

definition logRequestFor ::
  "(string \<Rightarrow> int \<Rightarrow> (string \<times> string) option) \<Rightarrow> log_file list option \<Rightarrow> (int \<Rightarrow> string) \<Rightarrow> string \<Rightarrow> int \<Rightarrow> string \<Rightarrow> string \<Rightarrow> log_request option" where
  "logRequestFor run_log files stamp backupId at_ms kind notice =
     (case (if backupId \<noteq> [] \<and> kind \<noteq> ''restore'' \<and> kind \<noteq> ''app'' then run_log backupId at_ms else None) of
        Some (folder, name) \<Rightarrow> Some \<lparr>lq_folder = folder, lq_name = name, lq_around = [], lq_notice = []\<rparr>
      | None \<Rightarrow>
          (case files of
             None \<Rightarrow> None
           | Some files \<Rightarrow>
               (let want = (if kind = ''app'' then ''app'' else ''backup'');
                    current = sort_key (\<lambda>f. if lf_service f then 1 else 0 :: nat)
                      (filter (\<lambda>f. lf_kind f = want \<and> endsWith (lf_name f) ''.log'') files)
                in case (case current of f # _ \<Rightarrow> Some f | [] \<Rightarrow> List.find (\<lambda>f. lf_kind f = want) files) of
                     None \<Rightarrow> None
                   | Some f \<Rightarrow> Some \<lparr>lq_folder = lf_folder f, lq_name = lf_name f, lq_around = stamp at_ms, lq_notice = notice\<rparr>)))"

text \<open>The backup ID of an entry: its own, its set's, or the name of a one-off backup.\<close>

definition entry_id :: "job list \<Rightarrow> string \<Rightarrow> string \<Rightarrow> string \<Rightarrow> string" where
  "entry_id jobs hostname backupId name =
     (if backupId \<noteq> [] \<or> name = [] then backupId
      else case List.find (\<lambda>j. j_name j = name) jobs of
             Some s \<Rightarrow> if j_backupId s \<noteq> [] then j_backupId s else hostname
           | None \<Rightarrow>
               if startsWith name ''Manual backup - '' then drop (length ''Manual backup - '') name
               else if startsWith name ''Backup machine - '' then drop (length ''Backup machine - '') name
               else [])"

definition openLogFor ::
  "(string \<Rightarrow> int \<Rightarrow> (string \<times> string) option) \<Rightarrow> log_file list option \<Rightarrow> (int \<Rightarrow> string) \<Rightarrow> (string \<Rightarrow> string) \<Rightarrow> job list \<Rightarrow> string \<Rightarrow>
     string \<Rightarrow> string \<Rightarrow> int \<Rightarrow> string \<Rightarrow> log_request option" where
  "openLogFor run_log files stamp t jobs hostname backupId name at_ms kind =
     (let i = entry_id jobs hostname backupId name
      in logRequestFor run_log files stamp i at_ms
           (if i \<noteq> [] then kind else if kind = ''restore'' then ''restore'' else ''app'')
           (if kind = ''backup'' \<and> i \<noteq> [] then t ''logsNoRunLog'' else []))"

section \<open>The page\<close>

record log_view =
  lv_lines :: "string list"
  lv_matching :: nat
  lv_first :: nat

text \<open>What ReadLog is called with.\<close>

record read_call =
  rc_folder :: string
  rc_name :: string
  rc_filter :: string
  rc_hideChunks :: bool
  rc_lines :: int
  rc_around :: string

text \<open>
  \<open>lg_picks\<close> counts the choices of a file: choosing the same one again is another object, which
  starts the effect that reads. \<open>lg_reads\<close> are the calls whose answer is awaited, oldest first;
  \<open>lg_lists\<close> the awaited listings, true for one that picks the first file.
\<close>

record log_page =
  lg_files :: "log_file list"
  lg_sel :: "(string \<times> string) option"
  lg_picks :: nat
  lg_view :: "log_view option"
  lg_filter :: string
  lg_applied :: string
  lg_hideChunks :: bool
  lg_lines :: int
  lg_around :: string
  lg_notice :: string
  lg_loading :: bool
  lg_err :: string
  lg_reload :: nat
  lg_reads :: "read_call list"
  lg_lists :: "bool list"

definition select_log :: "string \<times> string \<Rightarrow> log_page \<Rightarrow> log_page" where
  "select_log f s = s\<lparr>lg_sel := Some f, lg_picks := lg_picks s + 1\<rparr>"

definition pick_log :: "log_file \<Rightarrow> log_page \<Rightarrow> log_page" where
  "pick_log f s = (select_log (lf_folder f, lf_name f) s)\<lparr>lg_around := [], lg_notice := [], lg_lines := 2000\<rparr>"

definition log_requested :: "log_request \<Rightarrow> log_page \<Rightarrow> log_page" where
  "log_requested r s =
     (select_log (lq_folder r, lq_name r) s)\<lparr>lg_around := lq_around r, lg_notice := lq_notice r, lg_lines := 2000,
        lg_lists := lg_lists s @ [False]\<rparr>"

definition list_loaded :: "bool \<Rightarrow> string + log_file list \<Rightarrow> log_page \<Rightarrow> log_page" where
  "list_loaded picks r s =
     (case r of
        Inl err \<Rightarrow> s\<lparr>lg_err := err\<rparr>
      | Inr files \<Rightarrow>
          (let s = s\<lparr>lg_files := files\<rparr>
           in if picks \<and> files \<noteq> [] then select_log (lf_folder (hd files), lf_name (hd files)) s else s))"

definition apply_filter :: "log_page \<Rightarrow> log_page" where
  "apply_filter s = s\<lparr>lg_around := [], lg_applied := lg_filter s\<rparr>"

definition show_more :: "log_page \<Rightarrow> log_page" where
  "show_more s = s\<lparr>lg_lines := min (lg_lines s * 4) 200000\<rparr>"

text \<open>The call for what is chosen, and the effect that makes it when one of its parts has changed.\<close>

definition current_read :: "log_page \<Rightarrow> read_call option" where
  "current_read s = (case lg_sel s of None \<Rightarrow> None | Some (folder, name) \<Rightarrow>
     Some \<lparr>rc_folder = folder, rc_name = name, rc_filter = lg_applied s, rc_hideChunks = lg_hideChunks s,
           rc_lines = lg_lines s, rc_around = lg_around s\<rparr>)"

definition read_deps :: "log_page \<Rightarrow> nat \<times> string \<times> bool \<times> int \<times> string \<times> nat" where
  "read_deps s = (lg_picks s, lg_applied s, lg_hideChunks s, lg_lines s, lg_around s, lg_reload s)"

definition read_effect :: "log_page \<Rightarrow> log_page \<Rightarrow> log_page" where
  "read_effect old s =
     (if read_deps s = read_deps old then s
      else case current_read s of
             None \<Rightarrow> s
           | Some c \<Rightarrow> s\<lparr>lg_loading := True, lg_err := [], lg_reads := lg_reads s @ [c]\<rparr>)"

definition read_answered :: "string + log_view \<Rightarrow> log_page \<Rightarrow> log_page" where
  "read_answered r s =
     (case r of Inl err \<Rightarrow> s\<lparr>lg_err := err, lg_view := None\<rparr> | Inr v \<Rightarrow> s\<lparr>lg_view := Some v\<rparr>)\<lparr>lg_loading := False\<rparr>"

datatype log_event =
    Activated bool
  | Requested log_request
  | LogPicked log_file
  | FilterChanged string
  | FilterApplied
  | HideTicked bool
  | Refreshed
  | MoreClicked
  | ListsAnswered nat "string + log_file list"
  | ReadAnswered nat

text \<open>\<open>Activated\<close> says whether a request is there when the page is shown.\<close>

definition log_handle :: "(read_call \<Rightarrow> string + log_view) \<Rightarrow> log_event \<Rightarrow> log_page \<Rightarrow> log_page" where
  "log_handle read ev s =
     (case ev of
        Activated request \<Rightarrow> s\<lparr>lg_lists := lg_lists s @ [lg_sel s = None \<and> \<not> request]\<rparr>
      | Requested r \<Rightarrow> log_requested r s
      | LogPicked f \<Rightarrow> pick_log f s
      | FilterChanged x \<Rightarrow> s\<lparr>lg_filter := x\<rparr>
      | FilterApplied \<Rightarrow> apply_filter s
      | HideTicked b \<Rightarrow> s\<lparr>lg_hideChunks := b\<rparr>
      | Refreshed \<Rightarrow> s\<lparr>lg_lists := lg_lists s @ [False], lg_reload := lg_reload s + 1\<rparr>
      | MoreClicked \<Rightarrow> (case lg_view s of Some v \<Rightarrow> if lv_first v > 0 then show_more s else s | None \<Rightarrow> s)
      | ListsAnswered i r \<Rightarrow>
          if i < length (lg_lists s)
          then list_loaded (lg_lists s ! i) r (s\<lparr>lg_lists := take i (lg_lists s) @ drop (Suc i) (lg_lists s)\<rparr>) else s
      | ReadAnswered i \<Rightarrow>
          if i < length (lg_reads s)
          then read_answered (read (lg_reads s ! i)) (s\<lparr>lg_reads := take i (lg_reads s) @ drop (Suc i) (lg_reads s)\<rparr>) else s)"

definition log_step :: "(read_call \<Rightarrow> string + log_view) \<Rightarrow> log_event \<Rightarrow> log_page \<Rightarrow> log_page" where
  "log_step read ev s = read_effect s (log_handle read ev s)"

section \<open>The right log is opened\<close>

lemma sort_key_hd:
  assumes "sort_key k xs = f # fs"
  shows "f \<in> set xs" "x \<in> set xs \<Longrightarrow> k f \<le> k x"
proof -
  have s: "set (f # fs) = set xs" using assms by (metis set_sort)
  then show "f \<in> set xs" by auto
  assume "x \<in> set xs"
  moreover have "sorted (map k (f # fs))" using assms by (metis sorted_sort_key)
  ultimately show "k f \<le> k x" using s by auto
qed

text \<open>The log that is opened is the right one. A backup's own run log is opened when there is one.
  Else it is a log of the kind asked for: one that is being written to and not a rotated part when
  there is such a file, and then the app's own before the service's; it opens around the time of the
  entry. Nothing is opened only when the list cannot be read or holds no log of that kind.\<close>
theorem right_log_opened:
  "case logRequestFor run_log files stamp i at_ms kind notice of
     None \<Rightarrow> files = None \<or> filter (\<lambda>f. lf_kind f = (if kind = ''app'' then ''app'' else ''backup'')) (the files) = []
   | Some r \<Rightarrow>
       (i \<noteq> [] \<and> kind \<notin> {''restore'', ''app''} \<and> run_log i at_ms = Some (lq_folder r, lq_name r) \<and> lq_around r = []) \<or>
       (i = [] \<or> kind \<in> {''restore'', ''app''} \<or> run_log i at_ms = None) \<and> lq_around r = stamp at_ms \<and> lq_notice r = notice \<and>
       (\<exists>f. f \<in> set (the files) \<and> lf_folder f = lq_folder r \<and> lf_name f = lq_name r \<and> lf_kind f = (if kind = ''app'' then ''app'' else ''backup'') \<and>
         (endsWith (lf_name f) ''.log'' \<or> filter (\<lambda>g. lf_kind g = lf_kind f \<and> endsWith (lf_name g) ''.log'') (the files) = []) \<and>
         (\<not> lf_service f \<or> filter (\<lambda>g. lf_kind g = lf_kind f \<and> endsWith (lf_name g) ''.log'' \<and> \<not> lf_service g) (the files) = []))"
proof (cases "if i \<noteq> [] \<and> kind \<noteq> ''restore'' \<and> kind \<noteq> ''app'' then run_log i at_ms else None")
  case (Some r)
  then have "i \<noteq> []" "kind \<notin> {''restore'', ''app''}" "run_log i at_ms = Some r" by (auto split: if_splits)
  then show ?thesis by (cases r) (simp add: logRequestFor_def)
next
  case None
  then have no_run: "i = [] \<or> kind \<in> {''restore'', ''app''} \<or> run_log i at_ms = None" by (auto split: if_splits)
  show ?thesis
  proof (cases files)
    case None
    with \<open>(if _ then _ else _) = None\<close> show ?thesis by (simp add: logRequestFor_def)
  next
    case (Some fs)
    define want where "want = (if kind = ''app'' then ''app'' else ''backup'')"
    define current where "current = sort_key (\<lambda>f. if lf_service f then 1 else 0 :: nat) (filter (\<lambda>f. lf_kind f = want \<and> endsWith (lf_name f) ''.log'') fs)"
    have req: "logRequestFor run_log files stamp i at_ms kind notice =
        (case (case current of f # _ \<Rightarrow> Some f | [] \<Rightarrow> List.find (\<lambda>f. lf_kind f = want) fs) of
           None \<Rightarrow> None
         | Some f \<Rightarrow> Some \<lparr>lq_folder = lf_folder f, lq_name = lf_name f, lq_around = stamp at_ms, lq_notice = notice\<rparr>)"
      using None Some by (simp only: logRequestFor_def current_def want_def Let_def option.case)
    have the_files: "the files = fs" by (simp add: Some)
    show ?thesis
    proof (cases current)
      case (Cons f rest)
      note s = sort_key_hd [OF Cons [unfolded current_def]]
      from s(1) have f: "f \<in> set fs" "lf_kind f = want" "endsWith (lf_name f) ''.log''" by auto
      have "filter (\<lambda>g. lf_kind g = want \<and> endsWith (lf_name g) ''.log'' \<and> \<not> lf_service g) fs = []" if "lf_service f"
        unfolding filter_empty_conv
      proof (intro ballI notI)
        fix g assume "g \<in> set fs" "lf_kind g = want \<and> endsWith (lf_name g) ''.log'' \<and> \<not> lf_service g"
        then show False using s(2) [of g] that by simp
      qed
      then have own: "\<not> lf_service f \<or> filter (\<lambda>g. lf_kind g = lf_kind f \<and> endsWith (lf_name g) ''.log'' \<and> \<not> lf_service g) fs = []"
        unfolding f(2) by blast
      have res: "logRequestFor run_log files stamp i at_ms kind notice =
          Some \<lparr>lq_folder = lf_folder f, lq_name = lf_name f, lq_around = stamp at_ms, lq_notice = notice\<rparr>"
        by (simp only: req Cons list.case option.case)
      show ?thesis unfolding res option.case log_request.select_convs want_def [symmetric] the_files
        by (rule disjI2, intro conjI, rule no_run, rule refl, rule refl, rule exI [of _ f], intro conjI,
            rule f(1), rule refl, rule refl, rule f(2), rule disjI1, rule f(3), rule own)
    next
      case Nil
      have "length current = length (filter (\<lambda>g. lf_kind g = want \<and> endsWith (lf_name g) ''.log'') fs)"
        by (simp only: current_def length_sort)
      with Nil have none: "filter (\<lambda>g. lf_kind g = want \<and> endsWith (lf_name g) ''.log'') fs = []"
        by (simp only: list.size(3) length_0_conv [symmetric])
      show ?thesis
      proof (cases "List.find (\<lambda>f. lf_kind f = want) fs")
        case None
        then have "filter (\<lambda>f. lf_kind f = want) fs = []" by (auto simp: find_None_iff filter_empty_conv)
        moreover have "logRequestFor run_log files stamp i at_ms kind notice = None"
          by (simp only: req Nil None list.case option.case)
        ultimately show ?thesis unfolding want_def [symmetric] the_files by simp
      next
        case (Some f)
        with find_Some_mem [OF Some] have f: "f \<in> set fs" "lf_kind f = want" by simp_all
        have "filter (\<lambda>g. lf_kind g = want \<and> endsWith (lf_name g) ''.log'' \<and> \<not> lf_service g) fs = []"
          using none by (auto simp: filter_empty_conv)
        then have own: "\<not> lf_service f \<or> filter (\<lambda>g. lf_kind g = lf_kind f \<and> endsWith (lf_name g) ''.log'' \<and> \<not> lf_service g) fs = []"
          unfolding f(2) by blast
        have res: "logRequestFor run_log files stamp i at_ms kind notice =
            Some \<lparr>lq_folder = lf_folder f, lq_name = lf_name f, lq_around = stamp at_ms, lq_notice = notice\<rparr>"
          by (simp only: req Nil Some list.case option.case)
        show ?thesis unfolding res option.case log_request.select_convs want_def [symmetric] the_files
          by (rule disjI2, intro conjI, rule no_run, rule refl, rule refl, rule exI [of _ f], intro conjI,
              rule f(1), rule refl, rule refl, rule f(2), rule disjI2, rule none [folded f(2)], rule own)
      qed
    qed
  qed
qed

definition some_logs :: "log_file list" where
  "some_logs =
     [\<lparr>lf_folder = ''svc'', lf_name = ''gui-service.log'', lf_kind = ''app'', lf_service = True\<rparr>,
      \<lparr>lf_folder = ''app'', lf_name = ''gui.log.1'', lf_kind = ''app'', lf_service = False\<rparr>,
      \<lparr>lf_folder = ''app'', lf_name = ''gui.log'', lf_kind = ''app'', lf_service = False\<rparr>]"

lemma some_logs_app:
  "(case logRequestFor (\<lambda>_ _. None) (Some some_logs) (\<lambda>_. ''10:00'') [] 0 ''app'' ''n'' of
      Some r \<Rightarrow> lq_name r = ''gui.log'' \<and> lq_around r = ''10:00'' | None \<Rightarrow> False)"
  by code_simp

theorem right_log_opened_witness:
  "\<exists>r. logRequestFor (\<lambda>_ _. None) (Some some_logs) (\<lambda>_. ''10:00'') [] 0 ''app'' ''n'' = Some r \<and>
     lq_name r = ''gui.log'' \<and>
     (\<exists>f. f \<in> set some_logs \<and> lf_name f = ''gui.log'' \<and> lf_kind f = ''app'')"
proof -
  obtain r where r: "logRequestFor (\<lambda>_ _. None) (Some some_logs) (\<lambda>_. ''10:00'') [] 0 ''app'' ''n'' = Some r"
      "lq_name r = ''gui.log''"
    using some_logs_app by (auto split: option.splits)
  from right_log_opened [where run_log = "\<lambda>_ _. None" and files = "Some some_logs" and stamp = "\<lambda>_. ''10:00''" and
      i = "[]" and at_ms = 0 and kind = "''app''" and notice = "''n''"]
  have "\<exists>f. f \<in> set some_logs \<and> lf_name f = lq_name r \<and> lf_kind f = ''app''"
    unfolding r(1) option.case by auto
  then show ?thesis using r by auto
qed

section \<open>The page settles on the chosen log\<close>

text \<open>When answers come in the order of the calls, the last one awaited is for what is chosen.\<close>

definition log_ok :: "(read_call \<Rightarrow> string + log_view) \<Rightarrow> log_page \<Rightarrow> bool" where
  "log_ok read s \<longleftrightarrow>
     (case current_read s of
        None \<Rightarrow> lg_reads s = []
      | Some c \<Rightarrow> if lg_reads s = [] then lg_view s = (case read c of Inl e \<Rightarrow> None | Inr v \<Rightarrow> Some v) else last (lg_reads s) = c)"

definition in_order :: "log_event \<Rightarrow> bool" where
  "in_order ev \<longleftrightarrow> (case ev of ReadAnswered i \<Rightarrow> i = 0 | _ \<Rightarrow> True)"

lemma log_ok_effect:
  assumes "log_ok read s" "lg_reads s' = lg_reads s" "lg_view s' = lg_view s"
    and "read_deps s' = read_deps s \<Longrightarrow> lg_sel s' = lg_sel s"
    and "lg_sel s' = None \<Longrightarrow> lg_sel s = None"
  shows "log_ok read (read_effect s s')"
proof (cases "read_deps s' = read_deps s")
  case True
  with assms(4) have "current_read s' = current_read s" by (simp add: current_read_def read_deps_def split: option.split)
  then have "log_ok read s'" using assms(1) unfolding log_ok_def by (simp only: assms(2,3))
  with True show ?thesis by (simp add: read_effect_def)
next
  case False
  show ?thesis
  proof (cases "current_read s'")
    case None
    then have "current_read s = None" using assms(5) by (auto simp: current_read_def split: option.splits prod.splits)
    with None False assms(1,2) show ?thesis by (simp add: read_effect_def log_ok_def)
  next
    case (Some c)
    with False show ?thesis by (auto simp: read_effect_def log_ok_def current_read_def split: option.splits prod.splits)
  qed
qed

lemmas log_changes = log_handle_def select_log_def pick_log_def log_requested_def list_loaded_def apply_filter_def
  show_more_def read_deps_def

lemma log_ok_step:
  assumes "log_ok read s" "in_order ev"
  shows "log_ok read (log_step read ev s)"
proof (cases "\<exists>i. ev = ReadAnswered i")
  case True
  with assms(2) have ev: "ev = ReadAnswered 0" by (auto simp: in_order_def)
  have same: "read_deps (log_handle read ev s) = read_deps s"
    by (simp add: ev log_changes read_answered_def split: sum.split)
  have "log_ok read (log_handle read ev s)"
  proof (cases "lg_reads s")
    case (Cons c cs)
    from assms(1) Cons obtain d where d: "current_read s = Some d" "last (c # cs) = d"
      by (auto simp: log_ok_def split: option.splits)
    have "current_read (log_handle read ev s) = current_read s"
      by (simp add: ev Cons log_handle_def read_answered_def current_read_def split: sum.split option.split)
    with d Cons show ?thesis
      by (auto simp: ev log_handle_def read_answered_def log_ok_def split: sum.split)
  qed (use assms(1) in \<open>simp add: ev log_handle_def\<close>)
  with same show ?thesis by (simp add: log_step_def read_effect_def)
next
  case False
  show ?thesis unfolding log_step_def
  proof (rule log_ok_effect [OF assms(1)])
    show "lg_reads (log_handle read ev s) = lg_reads s" "lg_view (log_handle read ev s) = lg_view s"
      using False by (cases ev; auto simp: log_changes Let_def split: sum.split option.split)+
    show "lg_sel (log_handle read ev s) = lg_sel s" if "read_deps (log_handle read ev s) = read_deps s"
      using that False by (cases ev) (auto simp: log_changes Let_def split: sum.splits option.splits if_splits)
    show "lg_sel s = None" if "lg_sel (log_handle read ev s) = None"
      using that False by (cases ev) (auto simp: log_changes Let_def split: sum.splits option.splits if_splits)
  qed
qed

text \<open>The page settles on the log that is chosen. Whatever is picked, filtered, refreshed or asked
  for, when the answers come in the order of the calls and none is awaited any more, what is shown is
  what the chosen log says for the chosen filter, length and time, or nothing when it cannot be read.\<close>
theorem log_settles:
  assumes "lg_sel s0 = None" "lg_reads s0 = []" "\<forall>ev \<in> set evs. in_order ev"
    and "s = fold (log_step read) evs s0" "lg_reads s = []" "current_read s = Some c"
  shows "lg_view s = (case read c of Inl e \<Rightarrow> None | Inr v \<Rightarrow> Some v)"
proof -
  have "log_ok read s0 \<Longrightarrow> log_ok read (fold (log_step read) evs s0)"
    using assms(3) by (induction evs arbitrary: s0) (simp_all add: log_ok_step)
  moreover have "log_ok read s0" using assms(1,2) by (simp add: log_ok_def current_read_def)
  ultimately show ?thesis using assms(4-6) by (simp add: log_ok_def)
qed

text \<open>Answers that cross are not told apart: the log read first is shown for the one picked after it.\<close>

lemma late_log_shown:
  assumes "lg_reads s = []" "g \<noteq> f" "read (read_for f) = Inr v"
    and "\<And>h. read_for h = \<lparr>rc_folder = lf_folder h, rc_name = lf_name h, rc_filter = lg_applied s,
      rc_hideChunks = lg_hideChunks s, rc_lines = 2000, rc_around = []\<rparr>"
    and "s' = fold (log_step read) [LogPicked f, LogPicked g, ReadAnswered 1, ReadAnswered 0] s"
  shows "lg_sel s' = Some (lf_folder g, lf_name g) \<and> lg_reads s' = [] \<and> lg_view s' = Some v"
proof -
  let ?s1 = "log_step read (LogPicked f) s" and ?s2 = "log_step read (LogPicked g) (log_step read (LogPicked f) s)"
  have 1: "lg_reads ?s1 = [read_for f]" "lg_applied ?s1 = lg_applied s" "lg_hideChunks ?s1 = lg_hideChunks s"
    by (simp_all add: log_step_def log_changes read_effect_def current_read_def assms(1,4))
  have 2: "lg_reads ?s2 = [read_for f, read_for g]" "lg_sel ?s2 = Some (lf_folder g, lf_name g)"
    using 1 by (simp_all add: log_step_def [of read "LogPicked g"] log_changes read_effect_def current_read_def assms(4))
  have answered: "lg_sel (log_step read (ReadAnswered i) u) = lg_sel u"
    "i < length (lg_reads u) \<Longrightarrow> lg_reads (log_step read (ReadAnswered i) u) = take i (lg_reads u) @ drop (Suc i) (lg_reads u)"
    "i < length (lg_reads u) \<Longrightarrow> read (lg_reads u ! i) = Inr v \<Longrightarrow> lg_view (log_step read (ReadAnswered i) u) = Some v" for i u
    by (simp_all add: log_step_def read_effect_def log_changes read_answered_def split: sum.split)
  show ?thesis using 2 assms(3) by (simp add: assms(5) answered)
qed

section \<open>Example\<close>

definition empty_logs :: log_page where
  "empty_logs = \<lparr>lg_files = [], lg_sel = None, lg_picks = 0, lg_view = None, lg_filter = [], lg_applied = [], lg_hideChunks = True,
     lg_lines = 2000, lg_around = [], lg_notice = [], lg_loading = False, lg_err = [], lg_reload = 0, lg_reads = [], lg_lists = []\<rparr>"

definition app_log :: log_file where
  "app_log = \<lparr>lf_folder = ''logs'', lf_name = ''app.log'', lf_kind = ''app'', lf_service = False\<rparr>"

theorem log_settles_witness:
  "lg_view (fold (log_step (\<lambda>c. Inr \<lparr>lv_lines = [rc_name c], lv_matching = 1, lv_first = 0\<rparr>))
     [Activated False, ListsAnswered 0 (Inr [app_log]), ReadAnswered 0] empty_logs) =
   Some \<lparr>lv_lines = [''app.log''], lv_matching = 1, lv_first = 0\<rparr>"
proof -
  let ?read = "\<lambda>c. Inr \<lparr>lv_lines = [rc_name c], lv_matching = 1, lv_first = 0\<rparr>"
  let ?s = "fold (log_step ?read) [Activated False, ListsAnswered 0 (Inr [app_log]), ReadAnswered 0] empty_logs"
  have s: "lg_reads ?s = []" "current_read ?s = Some \<lparr>rc_folder = ''logs'', rc_name = ''app.log'', rc_filter = [],
      rc_hideChunks = True, rc_lines = 2000, rc_around = []\<rparr>"
    by (simp_all add: log_step_def read_effect_def current_read_def log_changes read_answered_def empty_logs_def app_log_def)
  show ?thesis
    using log_settles [OF _ _ _ refl s] by (simp add: empty_logs_def in_order_def)
qed

end
