(* ===== verification/Theme.thy ===== *)
theory Theme
  imports JsPrelude
begin

text \<open>
  The theme (\<open>components/ThemePicker.jsx\<close>): colours as hex texts (\<open>normalizeHex\<close>), the outer stops
  of the banner for an accent (\<open>heroFromAccent\<close>), the presets, and the picker that applies and
  saves a choice. The shades are computed with fractions; for the 256 values of a channel the
  code's floating point rounds to the same number.
\<close>

section \<open>Colours\<close>

definition is_hex :: "char \<Rightarrow> bool" where
  "is_hex c \<longleftrightarrow> is_digit c \<or> 65 \<le> code_unit c \<and> code_unit c \<le> 70 \<or> 97 \<le> code_unit c \<and> code_unit c \<le> 102"

text \<open>\<open>HEX_RE\<close>.\<close>

definition hex_ok :: "string \<Rightarrow> bool" where
  "hex_ok s \<longleftrightarrow> length s = 7 \<and> hd s = CHR ''#'' \<and> list_all is_hex (tl s)"

definition normalizeHex :: "string \<Rightarrow> string option" where
  "normalizeHex v =
     (let trimmed = trim v;
          withHash = (if startsWith trimmed ''#'' then trimmed else CHR ''#'' # trimmed)
      in if hex_ok withHash then Some withHash else None)"

text \<open>\<open>parseInt(hex.slice(i, i + 2), 16)\<close> of two hex digits.\<close>

definition hex_val :: "char \<Rightarrow> nat" where
  "hex_val c = (if is_digit c then code_unit c - 48 else if code_unit c \<ge> 97 then code_unit c - 87 else code_unit c - 55)"

definition channel :: "string \<Rightarrow> nat \<Rightarrow> nat" where
  "channel s i = hex_val (s ! i) * 16 + hex_val (s ! (i + 1))"

text \<open>\<open>n.toString(16)\<close> and \<open>padStart(2, '0')\<close>.\<close>

definition hex_digit :: "nat \<Rightarrow> char" where
  "hex_digit d = ''0123456789abcdef'' ! d"

fun hex_text :: "nat \<Rightarrow> string" where
  "hex_text n = (if n < 16 then [hex_digit n] else hex_text (n div 16) @ [hex_digit (n mod 16)])"

definition toHex :: "rat \<Rightarrow> string" where
  "toHex v = (let s = hex_text (nat (math_round (max 0 (min 255 v)))) in replicate (2 - length s) (CHR ''0'') @ s)"

definition heroFromAccent :: "string \<Rightarrow> (string \<times> string) option" where
  "heroFromAccent accent =
     (case normalizeHex accent of
        None \<Rightarrow> None
      | Some hex \<Rightarrow>
          (let rgb = map (channel hex) [1, 3, 5];
               shade = CHR ''#'' # concat (map (\<lambda>v. toHex (of_nat v * (42 / 100))) rgb);
               tint = CHR ''#'' # concat (map (\<lambda>v. toHex (255 - (255 - of_nat v) * (12 / 100))) rgb)
           in Some (shade, tint)))"

section \<open>The picker\<close>

record colors =
  c_accent :: string
  c_accentHover :: string
  c_heroStart :: string
  c_heroEnd :: string

definition DEFAULT_PRESET :: string where
  "DEFAULT_PRESET = ''green''"

definition green_colors :: colors where
  "green_colors = \<lparr>c_accent = ''#2e8c47'', c_accentHover = ''#256f38'', c_heroStart = ''#1e3a24'', c_heroEnd = ''#e6f5ea''\<rparr>"

definition PRESETS :: "(string \<times> colors) list" where
  "PRESETS =
    [(''amber'', \<lparr>c_accent = ''#e87003'', c_accentHover = ''#d46100'', c_heroStart = ''#5c3a1e'', c_heroEnd = ''#fbe9d7''\<rparr>),
     (''blue'', \<lparr>c_accent = ''#3d5aa8'', c_accentHover = ''#2f4680'', c_heroStart = ''#1e2a4a'', c_heroEnd = ''#e9edf7''\<rparr>),
     (''green'', green_colors),
     (''red'', \<lparr>c_accent = ''#b3261e'', c_accentHover = ''#8f1e18'', c_heroStart = ''#3a0d0a'', c_heroEnd = ''#fce4e1''\<rparr>),
     (''dark'', \<lparr>c_accent = ''#2b2b2b'', c_accentHover = ''#1a1a1a'', c_heroStart = ''#0d0d0d'', c_heroEnd = ''#4a4a4a''\<rparr>)]"

datatype color_field = Accent | AccentHover | HeroStart | HeroEnd

definition set_color :: "color_field \<Rightarrow> string \<Rightarrow> colors \<Rightarrow> colors" where
  "set_color f v c = (case f of Accent \<Rightarrow> c\<lparr>c_accent := v\<rparr> | AccentHover \<Rightarrow> c\<lparr>c_accentHover := v\<rparr>
     | HeroStart \<Rightarrow> c\<lparr>c_heroStart := v\<rparr> | HeroEnd \<Rightarrow> c\<lparr>c_heroEnd := v\<rparr>)"

text \<open>What the backend keeps: the preset's name and the custom colours.\<close>

type_synonym stored_theme = "string \<times> colors"

text \<open>\<open>th_applied\<close> are the colours of the page, None for those of the style sheet.\<close>

record theme_page =
  th_preset :: string
  th_custom :: colors
  th_applied :: "colors option"
  th_stored :: "stored_theme option"

definition stored_custom :: "colors \<Rightarrow> colors" where
  "stored_custom c =
     \<lparr>c_accent = or_text (Some (c_accent c)) (c_accent green_colors),
      c_accentHover = or_text (Some (c_accentHover c)) (c_accentHover green_colors),
      c_heroStart = or_text (Some (c_heroStart c)) (c_heroStart green_colors),
      c_heroEnd = or_text (Some (c_heroEnd c)) (c_heroEnd green_colors)\<rparr>"

definition stored_colors :: "stored_theme \<Rightarrow> colors option" where
  "stored_colors th = (if fst th = ''custom'' then Some (stored_custom (snd th)) else map_of PRESETS (fst th))"

text \<open>\<open>applyStoredTheme\<close>, at the start of the app.\<close>

definition applyStoredTheme :: "stored_theme option \<Rightarrow> colors option \<Rightarrow> colors option" where
  "applyStoredTheme saved applied =
     (case saved of
        None \<Rightarrow> applied
      | Some th \<Rightarrow> if fst th = [] then applied else case stored_colors th of None \<Rightarrow> applied | Some c \<Rightarrow> Some c)"

text \<open>The picker when it is opened: what is stored is shown and applied.\<close>

definition open_picker :: "stored_theme option \<Rightarrow> colors option \<Rightarrow> theme_page" where
  "open_picker saved applied =
     (let s = \<lparr>th_preset = DEFAULT_PRESET, th_custom = green_colors, th_applied = applied, th_stored = saved\<rparr>
      in case saved of
           None \<Rightarrow> s
         | Some th \<Rightarrow>
             if fst th = [] then s
             else s\<lparr>th_preset := fst th, th_custom := if fst th = ''custom'' then stored_custom (snd th) else green_colors,
                    th_applied := applyStoredTheme saved applied\<rparr>)"

definition pick :: "string \<Rightarrow> theme_page \<Rightarrow> theme_page" where
  "pick name s =
     (let colors = (if name = ''custom'' then Some (th_custom s) else map_of PRESETS name)
      in s\<lparr>th_preset := name, th_applied := colors, th_stored := Some (name, th_custom s)\<rparr>)"

definition editCustomField :: "color_field \<Rightarrow> string \<Rightarrow> theme_page \<Rightarrow> theme_page" where
  "editCustomField f v s =
     (let nxt = set_color f v (th_custom s)
      in case normalizeHex v of
           None \<Rightarrow> s\<lparr>th_custom := nxt\<rparr>
         | Some n \<Rightarrow> s\<lparr>th_custom := nxt, th_applied := Some (set_color f n nxt), th_stored := Some (''custom'', set_color f n nxt)\<rparr>)"

datatype theme_event = PickClicked string | FieldTyped color_field string

text \<open>The presets and the custom tile are shown; the fields only for the custom theme.\<close>

definition theme_step :: "theme_event \<Rightarrow> theme_page \<Rightarrow> theme_page" where
  "theme_step ev s =
     (case ev of
        PickClicked name \<Rightarrow> if name \<in> set (map fst PRESETS @ [''custom'']) then pick name s else s
      | FieldTyped f v \<Rightarrow> if th_preset s = ''custom'' then editCustomField f v s else s)"

section \<open>The banner's stops are colours\<close>

lemma hex_digit_ok: "d < 16 \<Longrightarrow> is_hex (hex_digit d) \<and> hex_val (hex_digit d) = d"
proof -
  have "list_all (\<lambda>d. is_hex (hex_digit d) \<and> hex_val (hex_digit d) = d) [0..<16]" by code_simp
  then show "d < 16 \<Longrightarrow> ?thesis" by (simp add: list_all_iff)
qed

lemma toHex_two:
  assumes "0 \<le> math_round v" "math_round v \<le> 255" "0 \<le> v" "v \<le> 255"
  obtains a b where "toHex v = [a, b]" "is_hex a" "is_hex b" "int (hex_val a * 16 + hex_val b) = math_round v"
proof -
  define n where "n = nat (math_round v)"
  have n: "n < 256" "int n = math_round v" using assms by (auto simp: n_def)
  have e: "toHex v = (let s = hex_text n in replicate (2 - length s) (CHR ''0'') @ s)"
    using assms by (simp add: toHex_def n_def)
  have q: "n div 16 < 16" "n mod 16 < 16" using n by auto
  have z: "CHR ''0'' = hex_digit 0" by code_simp
  have two: "toHex v = [hex_digit (n div 16), hex_digit (n mod 16)]"
  proof (cases "n < 16")
    case True
    then have "hex_text n = [hex_digit n]" by (subst hex_text.simps) simp
    with True e z show ?thesis by simp
  next
    case False
    with q have "hex_text n = [hex_digit (n div 16), hex_digit (n mod 16)]"
      by (subst hex_text.simps, subst hex_text.simps) simp
    with e show ?thesis by simp
  qed
  have "int (hex_val (hex_digit (n div 16)) * 16 + hex_val (hex_digit (n mod 16))) = math_round v"
    using hex_digit_ok [OF q(1)] hex_digit_ok [OF q(2)] n(2) by simp
  with two hex_digit_ok [OF q(1)] hex_digit_ok [OF q(2)] that show ?thesis by blast
qed

lemma hex_val_le: "is_hex c \<Longrightarrow> hex_val c \<le> 15"
  unfolding is_hex_def hex_val_def is_digit_def by auto

lemma channel_le:
  assumes "hex_ok s" "i \<in> {1, 3, 5}"
  shows "channel s i \<le> 255"
proof -
  have "list_all is_hex (tl s)" "length (tl s) = 6" using assms by (auto simp: hex_ok_def)
  then have "is_hex (tl s ! (i - 1))" "is_hex (tl s ! i)" using assms(2) by (auto simp: list_all_length)
  moreover have "s = hd s # tl s" using assms(1) by (cases s) (auto simp: hex_ok_def)
  ultimately have "is_hex (s ! i)" "is_hex (s ! (i + 1))"
    using assms(2) by (metis empty_iff insert_iff nth_Cons_pos zero_less_one zero_less_numeral, metis nth_Cons_Suc Suc_eq_plus1)
  then have "hex_val (s ! i) \<le> 15" "hex_val (s ! (i + 1)) \<le> 15" by (auto intro: hex_val_le)
  then show ?thesis by (simp add: channel_def)
qed


lemma shade_round:
  assumes "v \<le> 255"
  shows "0 \<le> math_round (of_nat v * (42 / 100))" "math_round (of_nat v * (42 / 100)) \<le> int v"
    "\<bar>100 * math_round (of_nat v * (42 / 100)) - 42 * int v\<bar> \<le> 50"
proof -
  let ?m = "math_round (of_nat v * (42 / 100))"
  have m: "of_int ?m \<le> (of_nat v * (42 / 100) + 1 / 2 :: rat)" "(of_nat v * (42 / 100) + 1 / 2 :: rat) < of_int ?m + 1"
    unfolding math_round_def by linarith+
  then have "of_int (100 * ?m) \<le> (of_int (42 * int v + 50) :: rat)" "(of_int (42 * int v + 50) :: rat) < of_int (100 * ?m + 100)"
    by (simp_all add: field_simps)
  then have b: "100 * ?m \<le> 42 * int v + 50" "42 * int v + 50 < 100 * ?m + 100"
    by (simp_all only: of_int_le_iff of_int_less_iff)
  then show "0 \<le> ?m" "?m \<le> int v" "\<bar>100 * ?m - 42 * int v\<bar> \<le> 50" by linarith+
qed

lemma tint_round:
  assumes "v \<le> 255"
  shows "int v \<le> math_round (255 - (255 - of_nat v) * (12 / 100))" "math_round (255 - (255 - of_nat v) * (12 / 100)) \<le> 255"
    "\<bar>100 * (255 - math_round (255 - (255 - of_nat v) * (12 / 100))) - 12 * (255 - int v)\<bar> \<le> 50"
proof -
  let ?m = "math_round (255 - (255 - of_nat v) * (12 / 100))"
  have m: "of_int ?m \<le> (255 - (255 - of_nat v) * (12 / 100) + 1 / 2 :: rat)" "(255 - (255 - of_nat v) * (12 / 100) + 1 / 2 :: rat) < of_int ?m + 1"
    unfolding math_round_def by linarith+
  then have "of_int (100 * ?m) \<le> (of_int (22440 + 12 * int v + 50) :: rat)"
    "(of_int (22440 + 12 * int v + 50) :: rat) < of_int (100 * ?m + 100)"
    by (simp_all add: field_simps)
  then have b: "100 * ?m \<le> 22440 + 12 * int v + 50" "22440 + 12 * int v + 50 < 100 * ?m + 100"
    by (simp_all only: of_int_le_iff of_int_less_iff)
  with assms show "int v \<le> ?m" "?m \<le> 255" by linarith+
  have "100 * (255 - ?m) - 12 * (255 - int v) = 22440 + 12 * int v - 100 * ?m" by simp
  with b show "\<bar>100 * (255 - ?m) - 12 * (255 - int v)\<bar> \<le> 50" by linarith
qed

text \<open>Three channels written out make a colour, and are read back.\<close>

lemma three_channels:
  assumes "\<And>i. i < 3 \<Longrightarrow> 0 \<le> f i \<and> f i \<le> 255 \<and> 0 \<le> math_round (f i) \<and> math_round (f i) \<le> 255"
    and "s = CHR ''#'' # concat (map toHex [f 0, f 1, f (2::nat)])"
  shows "hex_ok s \<and> int (channel s 1) = math_round (f 0) \<and> int (channel s 3) = math_round (f 1) \<and> int (channel s 5) = math_round (f 2)"
proof -
  obtain a0 b0 where 0: "toHex (f 0) = [a0, b0]" "is_hex a0" "is_hex b0" "int (hex_val a0 * 16 + hex_val b0) = math_round (f 0)"
    using assms(1) [of 0] by (auto intro: toHex_two [of "f 0"])
  obtain a1 b1 where 1: "toHex (f 1) = [a1, b1]" "is_hex a1" "is_hex b1" "int (hex_val a1 * 16 + hex_val b1) = math_round (f 1)"
    using assms(1) [of 1] by (auto intro: toHex_two [of "f 1"])
  obtain a2 b2 where 2: "toHex (f 2) = [a2, b2]" "is_hex a2" "is_hex b2" "int (hex_val a2 * 16 + hex_val b2) = math_round (f 2)"
    using assms(1) [of 2] by (auto intro: toHex_two [of "f 2"])
  have s: "s = [CHR ''#'', a0, b0, a1, b1, a2, b2]" by (simp only: assms(2) list.map concat.simps 0(1) 1(1) 2(1) append.simps)
  show ?thesis using 0 1 2 unfolding s hex_ok_def channel_def by simp
qed

lemma normalizeHex_ok: "normalizeHex v = Some h \<Longrightarrow> hex_ok h"
  by (auto simp: normalizeHex_def Let_def split: if_splits)

text \<open>The banner of a branded build is made of colours. For an accent that is a colour both outer
  stops are colours too, the dark one nowhere lighter than the accent and the pale one nowhere
  darker, each channel the given share to the nearest integer; for any other text there is none.\<close>
theorem hero_stops_ok:
  "case normalizeHex accent of
     None \<Rightarrow> heroFromAccent accent = None
   | Some h \<Rightarrow> \<exists>dark pale. heroFromAccent accent = Some (dark, pale) \<and> hex_ok h \<and> hex_ok dark \<and> hex_ok pale \<and>
       list_all (\<lambda>i. channel dark i \<le> channel h i \<and> channel h i \<le> channel pale i \<and> channel pale i \<le> 255 \<and>
         \<bar>100 * int (channel dark i) - 42 * int (channel h i)\<bar> \<le> 50 \<and>
         \<bar>100 * (255 - int (channel pale i)) - 12 * (255 - int (channel h i))\<bar> \<le> 50) [1, 3, 5]"
proof (cases "normalizeHex accent")
  case (Some h)
  have h: "hex_ok h" by (rule normalizeHex_ok [OF Some])
  define v where "v = (\<lambda>i :: nat. channel h (2 * i + 1))"
  have v: "v i \<le> 255" if "i < 3" for i
    unfolding v_def using that by (intro channel_le [OF h]) auto
  define dark where "dark = CHR ''#'' # concat (map toHex [of_nat (v 0) * (42 / 100), of_nat (v 1) * (42 / 100), of_nat (v 2) * (42 / 100)])"
  define pale where "pale = CHR ''#'' # concat (map toHex
    [255 - (255 - of_nat (v 0)) * (12 / 100), 255 - (255 - of_nat (v 1)) * (12 / 100), 255 - (255 - of_nat (v 2)) * (12 / 100)])"
  have hero: "heroFromAccent accent = Some (dark, pale)"
    by (simp add: heroFromAccent_def Some dark_def pale_def v_def)
  have d: "hex_ok dark \<and> int (channel dark 1) = math_round (of_nat (v 0) * (42 / 100)) \<and>
      int (channel dark 3) = math_round (of_nat (v 1) * (42 / 100)) \<and> int (channel dark 5) = math_round (of_nat (v 2) * (42 / 100))"
  proof (rule three_channels [OF _ dark_def])
    fix i :: nat assume "i < 3"
    with v have i: "v i \<le> 255" by blast
    then have "(of_nat (v i) :: rat) \<le> 255" by (metis of_nat_le_iff of_nat_numeral)
    with shade_round [OF i] i show "0 \<le> (of_nat (v i) * (42 / 100) :: rat) \<and> (of_nat (v i) * (42 / 100) :: rat) \<le> 255 \<and>
        0 \<le> math_round (of_nat (v i) * (42 / 100)) \<and> math_round (of_nat (v i) * (42 / 100)) \<le> 255" by simp
  qed
  have p: "hex_ok pale \<and> int (channel pale 1) = math_round (255 - (255 - of_nat (v 0)) * (12 / 100)) \<and>
      int (channel pale 3) = math_round (255 - (255 - of_nat (v 1)) * (12 / 100)) \<and> int (channel pale 5) = math_round (255 - (255 - of_nat (v 2)) * (12 / 100))"
  proof (rule three_channels [OF _ pale_def])
    fix i :: nat assume "i < 3"
    with v have i: "v i \<le> 255" by blast
    then have "(of_nat (v i) :: rat) \<le> 255" "0 \<le> (of_nat (v i) :: rat)" by (metis of_nat_le_iff of_nat_numeral, simp)
    then have "0 \<le> (255 - (255 - of_nat (v i)) * (12 / 100) :: rat)" "(255 - (255 - of_nat (v i)) * (12 / 100) :: rat) \<le> 255"
      by (simp_all add: field_simps)
    with tint_round [OF i] show "0 \<le> (255 - (255 - of_nat (v i)) * (12 / 100) :: rat) \<and> (255 - (255 - of_nat (v i)) * (12 / 100) :: rat) \<le> 255 \<and>
        0 \<le> math_round (255 - (255 - of_nat (v i)) * (12 / 100)) \<and> math_round (255 - (255 - of_nat (v i)) * (12 / 100)) \<le> 255" by linarith
  qed
  have bounds: "dk \<le> v i \<and> v i \<le> pl \<and> pl \<le> 255 \<and> \<bar>100 * int dk - 42 * int (v i)\<bar> \<le> 50 \<and>
      \<bar>100 * (255 - int pl) - 12 * (255 - int (v i))\<bar> \<le> 50"
    if "i < 3" "int dk = math_round (of_nat (v i) * (42 / 100))" "int pl = math_round (255 - (255 - of_nat (v i)) * (12 / 100))" for i dk pl
    using shade_round [OF v [OF that(1)]] tint_round [OF v [OF that(1)]] unfolding that(2) [symmetric] that(3) [symmetric] by linarith
  have vs: "channel h 1 = v 0" "channel h 3 = v 1" "channel h 5 = v 2" by (simp_all add: v_def)
  have "list_all (\<lambda>i. channel dark i \<le> channel h i \<and> channel h i \<le> channel pale i \<and> channel pale i \<le> 255 \<and>
         \<bar>100 * int (channel dark i) - 42 * int (channel h i)\<bar> \<le> 50 \<and>
         \<bar>100 * (255 - int (channel pale i)) - 12 * (255 - int (channel h i))\<bar> \<le> 50) [1, 3, 5]"
    unfolding list.pred_inject vs using d p
    by (intro conjI TrueI) (use bounds [of 0 "channel dark 1" "channel pale 1"] bounds [of 1 "channel dark 3" "channel pale 3"]
      bounds [of 2 "channel dark 5" "channel pale 5"] in simp_all)
  with hero h d p show ?thesis by (simp add: Some)
qed (simp add: heroFromAccent_def)


section \<open>What is applied is what is kept\<close>

definition get_color :: "color_field \<Rightarrow> colors \<Rightarrow> string" where
  "get_color f c = (case f of Accent \<Rightarrow> c_accent c | AccentHover \<Rightarrow> c_accentHover c
     | HeroStart \<Rightarrow> c_heroStart c | HeroEnd \<Rightarrow> c_heroEnd c)"

definition filled :: "colors \<Rightarrow> bool" where
  "filled c \<longleftrightarrow> c_accent c \<noteq> [] \<and> c_accentHover c \<noteq> [] \<and> c_heroStart c \<noteq> [] \<and> c_heroEnd c \<noteq> []"

definition theme_names :: "string list" where
  "theme_names = map fst PRESETS @ [''custom'']"

lemma custom_no_preset: "map_of PRESETS ''custom'' = None"
  by code_simp

lemma get_set_color: "get_color f (set_color g v c) = (if f = g then v else get_color f c)"
  by (cases f; cases g; simp add: get_color_def set_color_def)

lemma stored_custom_filled: "filled c \<Longrightarrow> stored_custom c = c"
  by (simp add: filled_def stored_custom_def)

definition theme_kept :: "theme_page \<Rightarrow> bool" where
  "theme_kept s \<longleftrightarrow> (\<forall>name c. th_stored s = Some (name, c) \<and> name \<in> set theme_names \<and> filled c \<longrightarrow>
     th_applied s = stored_colors (name, c))"

lemma theme_name_known: "name \<in> set theme_names \<Longrightarrow> name \<noteq> [] \<and> stored_colors (name, c) \<noteq> None"
proof -
  have "list_all (\<lambda>name. name \<noteq> [] \<and> (name = ''custom'' \<or> map_of PRESETS name \<noteq> None)) theme_names" by code_simp
  then show "name \<in> set theme_names \<Longrightarrow> ?thesis" by (auto simp: list_all_iff stored_colors_def)
qed

lemma theme_kept_open: "theme_kept (open_picker saved applied)"
proof (cases saved)
  case (Some th)
  have "th_applied (open_picker saved applied) = stored_colors th" if "fst th \<in> set theme_names"
    using theme_name_known [OF that, of "snd th"] Some
    by (auto simp: open_picker_def Let_def applyStoredTheme_def split: option.split)
  with Some show ?thesis by (auto simp: theme_kept_def open_picker_def Let_def)
qed (simp add: theme_kept_def open_picker_def)

lemma theme_kept_step:
  assumes "theme_kept s"
  shows "theme_kept (theme_step ev s)"
proof (cases ev)
  case (PickClicked name)
  with assms show ?thesis
    by (auto simp: theme_step_def theme_kept_def pick_def Let_def stored_colors_def stored_custom_filled)
next
  case (FieldTyped f v)
  with assms show ?thesis
    by (auto simp: theme_step_def theme_kept_def editCustomField_def Let_def stored_colors_def stored_custom_filled split: option.split)
qed

text \<open>The theme survives a restart. Whatever was picked and typed, the colours the app applies when
  it starts again are those it showed last, as long as no custom colour was left empty.\<close>
theorem theme_survives_restart:
  assumes "s = fold theme_step evs (open_picker saved applied)"
    and "th_stored s = Some (name, c)" "name \<in> set theme_names" "filled c"
  shows "applyStoredTheme (th_stored s) page = th_applied s"
proof -
  have "theme_kept s0 \<Longrightarrow> theme_kept (fold theme_step evs s0)" for s0
    by (induction evs arbitrary: s0) (simp_all add: theme_kept_step)
  with theme_kept_open assms have "th_applied s = stored_colors (name, c)" by (simp add: theme_kept_def)
  with theme_name_known [OF assms(3), of c] assms(2) show ?thesis
    by (auto simp: applyStoredTheme_def)
qed

theorem theme_survives_restart_witness:
  "applyStoredTheme (th_stored (fold theme_step [PickClicked ''custom'', FieldTyped Accent '' b3261e''] (open_picker None None))) None =
   Some (green_colors\<lparr>c_accent := ''#b3261e''\<rparr>)"
proof -
  have n: "normalizeHex '' b3261e'' = Some ''#b3261e''" by code_simp
  let ?s = "fold theme_step [PickClicked ''custom'', FieldTyped Accent '' b3261e''] (open_picker None None)"
  have s: "th_stored ?s = Some (''custom'', green_colors\<lparr>c_accent := ''#b3261e''\<rparr>)"
      "th_applied ?s = Some (green_colors\<lparr>c_accent := ''#b3261e''\<rparr>)"
    by (simp_all add: theme_step_def pick_def editCustomField_def n open_picker_def set_color_def)
  have "applyStoredTheme (th_stored ?s) None = th_applied ?s"
    by (rule theme_survives_restart [OF refl s(1)]) (simp_all add: theme_names_def filled_def green_colors_def)
  with s(2) show ?thesis by simp
qed

text \<open>A half-typed colour is applied. A custom colour that is no colour yet is neither applied nor
  saved when it is typed, as the comment says; but it stays in the field, and with the next colour
  that is typed in full in another field it is applied to the whole app and saved.\<close>
theorem half_typed_colour_applied:
  assumes "th_preset s = ''custom''" "f \<noteq> g" "normalizeHex v = None" "normalizeHex w \<noteq> None"
    and "s' = fold theme_step [FieldTyped f v, FieldTyped g w] s"
  shows "\<exists>c. th_applied s' = Some c \<and> th_stored s' = Some (''custom'', c) \<and> get_color f c = v"
  using assms by (auto simp: theme_step_def editCustomField_def Let_def get_set_color)

theorem half_typed_colour_applied_witness:
  "\<exists>c. th_applied (fold theme_step [FieldTyped Accent ''#b3'', FieldTyped HeroEnd ''ffffff''] (pick ''custom'' (open_picker None None))) = Some c \<and>
     c_accent c = ''#b3''"
proof -
  have "normalizeHex ''#b3'' = None" "normalizeHex ''ffffff'' \<noteq> None" by code_simp+
  with half_typed_colour_applied [OF _ _ _ _ refl, of "pick ''custom'' (open_picker None None)" Accent HeroEnd "''#b3''" "''ffffff''"]
  show ?thesis by (auto simp: pick_def get_color_def)
qed

text \<open>The custom colours saved along with a preset are not read back: after a restart the custom tile
  starts from the default again, and picking it overwrites them.\<close>

lemma custom_colours_lost:
  assumes "name \<noteq> ''custom''" "name \<noteq> []"
  shows "th_stored (theme_step (PickClicked ''custom'') (open_picker (Some (name, c)) applied)) = Some (''custom'', green_colors)"
  using assms by (simp add: theme_step_def pick_def open_picker_def Let_def)

end
