(* ===== verification/Window.thy ===== *)
theory Window
  imports JsPrelude
begin

text \<open>
  Small parts of the window: the rows of tabs (\<open>components/TabStrip.jsx\<close>), the queue of questions and
  notices (\<open>components/ConfirmDialog.jsx\<close>), and the links of the About page (\<open>aboutBrand.js\<close>). Widths
  are fractions; what the browser measures is an argument.
\<close>

section \<open>Rows of tabs\<close>

definition ceil_div :: "nat \<Rightarrow> nat \<Rightarrow> nat" where
  "ceil_div n k = (n + k - 1) div k"

text \<open>\<open>layout\<close>: 0 for one row, else the number of columns.\<close>

definition tab_cols :: "rat list \<Rightarrow> rat \<Rightarrow> nat" where
  "tab_cols widths room =
     (let n = length widths
      in if n > 0 \<and> sum_list widths > room
         then (case List.find (\<lambda>rows. room / of_nat (ceil_div n rows) \<ge> Max (set widths)) [2..<n + 1] of
                 Some rows \<Rightarrow> ceil_div n rows
               | None \<Rightarrow> 1)
         else 0)"

text \<open>How many rows the grid then fills, and whether every tab fits into its column.\<close>

definition rows_filled :: "nat \<Rightarrow> nat \<Rightarrow> nat" where
  "rows_filled n cols = ceil_div n cols"

definition cols_fit :: "rat list \<Rightarrow> rat \<Rightarrow> nat \<Rightarrow> bool" where
  "cols_fit widths room cols \<longleftrightarrow> (\<forall>w \<in> set widths. w * of_nat cols \<le> room)"

lemma ceil_div_pos: "0 < n \<Longrightarrow> 0 < k \<Longrightarrow> 0 < ceil_div n k"
  by (simp add: ceil_div_def div_greater_zero_iff)

lemma ceil_div_le_iff: "0 < k \<Longrightarrow> ceil_div n k \<le> c \<longleftrightarrow> n \<le> c * k"
proof -
  assume k: "0 < k"
  have "ceil_div n k \<le> c \<longleftrightarrow> n + k - 1 < (c + 1) * k"
    unfolding ceil_div_def using less_mult_imp_div_less [of "n + k - 1" "c + 1" k] div_less_iff_less_mult [OF k] by (metis Suc_eq_plus1 less_Suc_eq_le)
  also have "\<dots> \<longleftrightarrow> n \<le> c * k" using k by (auto simp: algebra_simps)
  finally show ?thesis .
qed

lemma cols_fit_max:
  assumes "widths \<noteq> []" "0 < cols"
  shows "cols_fit widths room cols \<longleftrightarrow> room / of_nat cols \<ge> Max (set widths)"
proof -
  have "cols_fit widths room cols \<longleftrightarrow> (\<forall>w \<in> set widths. w \<le> room / of_nat cols)"
    using assms(2) by (simp add: cols_fit_def pos_le_divide_eq)
  also have "\<dots> \<longleftrightarrow> Max (set widths) \<le> room / of_nat cols" using assms(1) by simp
  finally show ?thesis .
qed

lemma cols_fit_mono: "cols_fit widths room c \<Longrightarrow> c' \<le> c \<Longrightarrow> 0 \<le> Min (set widths) \<Longrightarrow> widths \<noteq> [] \<Longrightarrow> cols_fit widths room c'"
  unfolding cols_fit_def
proof (intro ballI)
  fix w
  assume a: "\<forall>w\<in>set widths. w * of_nat c \<le> room" "c' \<le> c" "0 \<le> Min (set widths)" "widths \<noteq> []" "w \<in> set widths"
  then have "0 \<le> w" by (meson List.finite_set Min_le order_trans)
  then have "w * of_nat c' \<le> w * of_nat c" using a(2) by (simp add: mult_left_mono)
  with a show "w * of_nat c' \<le> room" by force
qed

lemma find_upt_least:
  "List.find P [m..<n] = Some k \<Longrightarrow> m \<le> k \<and> k < n \<and> P k \<and> (\<forall>j. m \<le> j \<and> j < k \<longrightarrow> \<not> P j)"
proof -
  assume "List.find P [m..<n] = Some k"
  then obtain i where i: "i < n - m" "P (m + i)" "k = m + i" "\<forall>j < i. \<not> P (m + j)"
    by (auto simp: find_Some_iff)
  have "\<not> P j" if "m \<le> j" "j < k" for j
    using i(4) [rule_format, of "j - m"] that i(3) by simp
  with i show ?thesis by auto
qed

text \<open>The tabs stay on one row exactly when they fit side by side. Otherwise they go into equal
  columns, each wide enough for every tab (or a single column when not even that is), and with as few
  rows as can be: no division into fewer rows of equal columns fits.\<close>
theorem fewest_rows:
  assumes "widths \<noteq> []" "0 \<le> Min (set widths)" "cols = tab_cols widths room"
  shows "(cols = 0 \<longleftrightarrow> sum_list widths \<le> room) \<and>
    (0 < cols \<longrightarrow> (cols_fit widths room cols \<or> cols = 1) \<and>
       (\<forall>c. cols_fit widths room c \<and> 2 \<le> rows_filled (length widths) c \<and> 0 < c \<longrightarrow>
          rows_filled (length widths) cols \<le> rows_filled (length widths) c))"
proof -
  let ?n = "length widths" and ?P = "\<lambda>rows. room / of_nat (ceil_div (length widths) rows) \<ge> Max (set widths)"
  have n: "0 < ?n" using assms(1) by simp
  show ?thesis
  proof (cases "sum_list widths \<le> room")
    case True
    then show ?thesis using assms(3) by (simp add: tab_cols_def)
  next
    case False
    show ?thesis
    proof (cases "List.find ?P [2..<?n + 1]")
      case None
      then have cols: "cols = 1" using False n assms(3) by (simp add: tab_cols_def Let_def)
      have "?n \<le> rows_filled ?n c" if c: "cols_fit widths room c" "2 \<le> rows_filled ?n c" "0 < c" for c
      proof (rule ccontr)
        let ?r = "rows_filled ?n c"
        assume "\<not> ?n \<le> ?r"
        with None c(2) have "\<not> ?P ?r" by (auto simp: find_None_iff)
        moreover have "?n \<le> ?r * c" using ceil_div_le_iff [OF c(3), of ?n ?r] by (simp add: rows_filled_def)
        then have "ceil_div ?n ?r \<le> c" using c(2) by (subst ceil_div_le_iff) (simp_all add: mult.commute)
        then have "cols_fit widths room (ceil_div ?n ?r)" using cols_fit_mono c(1) assms(1,2) by blast
        ultimately show False using cols_fit_max [OF assms(1) ceil_div_pos [OF n, of ?r]] c(2) by simp
      qed
      moreover have "rows_filled ?n 1 = ?n" by (simp add: rows_filled_def ceil_div_def)
      ultimately show ?thesis using False cols by simp
    next
      case (Some r)
      note least = find_upt_least [OF Some]
      have cols: "cols = ceil_div ?n r" using Some False n assms(3) by (simp add: tab_cols_def Let_def)
      have pos: "0 < cols" using least n by (simp add: cols ceil_div_pos)
      have fit: "cols_fit widths room cols" using cols_fit_max [OF assms(1) pos] least by (simp add: cols)
      have "rows_filled ?n cols \<le> rows_filled ?n c" if c: "cols_fit widths room c" "2 \<le> rows_filled ?n c" "0 < c" for c
      proof -
        let ?r = "rows_filled ?n c"
        have "?n \<le> ?r * c" using ceil_div_le_iff [OF c(3), of ?n ?r] by (simp add: rows_filled_def)
        then have "ceil_div ?n ?r \<le> c" using c(2) by (subst ceil_div_le_iff) (simp_all add: mult.commute)
        then have "cols_fit widths room (ceil_div ?n ?r)" using cols_fit_mono c(1) assms(1,2) by blast
        then have "?P ?r" using cols_fit_max [OF assms(1) ceil_div_pos [OF n, of ?r]] c(2) by simp
        then have "r \<le> ?r" using least c(2) by (meson not_le)
        moreover have "rows_filled ?n cols \<le> r"
          unfolding rows_filled_def using pos ceil_div_le_iff [of r ?n cols] least
          by (subst ceil_div_le_iff) (simp_all add: cols mult.commute)
        ultimately show ?thesis by simp
      qed
      with pos fit False show ?thesis by simp
    qed
  qed
qed

theorem fewest_rows_witness:
  "rows_filled 7 (tab_cols (replicate 7 10) 50) \<le> rows_filled 7 4"
proof -
  have "tab_cols (replicate 7 10) 50 \<noteq> 0" by code_simp
  moreover have "cols_fit (replicate 7 10) 50 4" "2 \<le> rows_filled 7 4" by (simp add: cols_fit_def, code_simp)
  ultimately show ?thesis using fewest_rows [of "replicate 7 10" "tab_cols (replicate 7 10) 50" 50] by simp
qed

text \<open>The comment says that no tab is ever left alone on a second row; three tabs that do not fit on one
  row are put two and one.\<close>

lemma lone_tab:
  "tab_cols [10, 10, 10] 25 = 2 \<and> rows_filled 3 2 = 2 \<and> 3 - 2 * (rows_filled 3 2 - 1) = (1 :: nat)"
  by code_simp

section \<open>Questions and notices\<close>

datatype dialog_kind = Confirm | Notice

datatype dialog_answer = Yes | No | Alt | Seen

record dialog =
  dg_id :: nat
  dg_kind :: dialog_kind
  dg_danger :: bool
  dg_alt :: bool

text \<open>\<open>dq_answers\<close> is what the promises were resolved with, the oldest first.\<close>

record dialog_host =
  dq_queue :: "dialog list"
  dq_answers :: "(nat \<times> dialog_answer) list"

definition enqueue :: "dialog \<Rightarrow> dialog_host \<Rightarrow> dialog_host" where
  "enqueue d h = h\<lparr>dq_queue := dq_queue h @ [d]\<rparr>"

definition answer :: "dialog_answer \<Rightarrow> dialog_host \<Rightarrow> dialog_host" where
  "answer a h =
     (case dq_queue h of
        [] \<Rightarrow> h
      | d # rest \<Rightarrow> h\<lparr>dq_queue := rest, dq_answers := dq_answers h @ [(dg_id d, if dg_kind d = Notice then Seen else a)]\<rparr>)"

datatype dialog_event = Asked dialog | EscapePressed | OutsideClicked | CancelClicked | OkClicked | AltClicked | EnterPressed

text \<open>Enter presses the button that has the focus: Cancel in a dangerous question, none in a dangerous
  notice, else the main one.\<close>

definition dialog_step :: "dialog_event \<Rightarrow> dialog_host \<Rightarrow> dialog_host" where
  "dialog_step ev h =
     (case ev of
        Asked d \<Rightarrow> enqueue d h
      | EscapePressed \<Rightarrow> answer No h
      | OutsideClicked \<Rightarrow> answer No h
      | CancelClicked \<Rightarrow> (case dq_queue h of d # _ \<Rightarrow> if dg_kind d = Notice then h else answer No h | [] \<Rightarrow> h)
      | OkClicked \<Rightarrow> answer Yes h
      | AltClicked \<Rightarrow> (case dq_queue h of d # _ \<Rightarrow> if dg_alt d then answer Alt h else h | [] \<Rightarrow> h)
      | EnterPressed \<Rightarrow> (case dq_queue h of d # _ \<Rightarrow> if \<not> dg_danger d then answer Yes h else if dg_kind d = Confirm then answer No h else h | [] \<Rightarrow> h))"

fun asked_in :: "dialog_event list \<Rightarrow> dialog list" where
  "asked_in [] = []"
| "asked_in (Asked d # evs) = d # asked_in evs"
| "asked_in (ev # evs) = asked_in evs"


lemma answer_frame:
  "map fst (dq_answers (answer a h)) @ map dg_id (dq_queue (answer a h)) = map fst (dq_answers h) @ map dg_id (dq_queue h)"
  by (simp add: answer_def split: list.split)

text \<open>Every question is asked and answered once, in the order they were put. The ones answered and
  the ones still waiting are together all that were asked, in that order; and a dangerous question is
  answered with anything but no only by a click on the button that says so, never by Enter, Escape or a
  click outside it.\<close>
theorem questions_in_order:
  assumes "h = fold dialog_step evs \<lparr>dq_queue = [], dq_answers = []\<rparr>"
  shows "map fst (dq_answers h) @ map dg_id (dq_queue h) = map dg_id (asked_in evs) \<and>
    (\<forall>d rest ev. dq_queue h = d # rest \<and> dg_danger d \<and> dg_kind d = Confirm \<and> ev \<notin> {OkClicked, AltClicked} \<longrightarrow>
       set (dq_answers (dialog_step ev h)) \<subseteq> insert (dg_id d, No) (set (dq_answers h)))"
proof (intro conjI allI impI)
  have step: "map fst (dq_answers (dialog_step ev g)) @ map dg_id (dq_queue (dialog_step ev g)) =
      map fst (dq_answers g) @ map dg_id (dq_queue g) @ map dg_id (asked_in [ev])" for ev g
    by (cases ev) (auto simp: dialog_step_def enqueue_def answer_frame split: list.split)
  have more: "asked_in (ev # es) = asked_in [ev] @ asked_in es" for ev es by (cases ev) auto
  have "map fst (dq_answers (fold dialog_step evs g)) @ map dg_id (dq_queue (fold dialog_step evs g)) =
      (map fst (dq_answers g) @ map dg_id (dq_queue g)) @ map dg_id (asked_in evs)" for g
  proof (induction evs arbitrary: g)
    case (Cons ev evs)
    show ?case using Cons [of "dialog_step ev g"] step [of ev g] by (subst more) simp
  qed simp
  then show "map fst (dq_answers h) @ map dg_id (dq_queue h) = map dg_id (asked_in evs)" by (simp add: assms)
next
  fix d rest ev
  assume "dq_queue h = d # rest \<and> dg_danger d \<and> dg_kind d = Confirm \<and> ev \<notin> {OkClicked, AltClicked}"
  then show "set (dq_answers (dialog_step ev h)) \<subseteq> insert (dg_id d, No) (set (dq_answers h))"
    by (cases ev) (auto simp: dialog_step_def enqueue_def answer_def)
qed

theorem questions_in_order_witness:
  "dq_answers (fold dialog_step [Asked \<lparr>dg_id = 1, dg_kind = Confirm, dg_danger = True, dg_alt = False\<rparr>,
     Asked \<lparr>dg_id = 2, dg_kind = Notice, dg_danger = False, dg_alt = False\<rparr>, EnterPressed, EnterPressed] \<lparr>dq_queue = [], dq_answers = []\<rparr>) =
   [(1, No), (2, Seen)] \<and> map dg_id (asked_in [Asked \<lparr>dg_id = 1, dg_kind = Confirm, dg_danger = True, dg_alt = False\<rparr>]) = [1]"
  using questions_in_order [OF refl, of "[Asked \<lparr>dg_id = 1, dg_kind = Confirm, dg_danger = True, dg_alt = False\<rparr>]"]
  by (simp add: dialog_step_def enqueue_def answer_def)

section \<open>The links of the About page\<close>

record brand =
  br_about :: string
  br_help :: string
  br_updates :: string
  br_contact :: string
  br_brand_url :: string
  br_buy_storage_url :: string
  br_buy_storage_text :: string

definition PROJECT_REPO :: string where
  "PROJECT_REPO = ''https://github.com/salvanza/salvanza_client''"

definition PBS_DOWNLOAD_URL :: string where
  "PBS_DOWNLOAD_URL = ''https://www.proxmox.com/en/downloads/proxmox-backup-server''"

text \<open>The offer: a button with its link and label, or the link for the user's own server.\<close>

datatype offer = Buy string string | SelfHost string

definition storageOffer :: "brand option \<Rightarrow> offer" where
  "storageOffer b =
     (case b of
        None \<Rightarrow> SelfHost PBS_DOWNLOAD_URL
      | Some b \<Rightarrow> if br_buy_storage_url b \<noteq> [] then Buy (br_buy_storage_url b) (br_buy_storage_text b) else SelfHost PBS_DOWNLOAD_URL)"

definition project_links :: "(string \<times> string) list" where
  "project_links = [(''source'', PROJECT_REPO), (''issues'', PROJECT_REPO @ ''/issues''), (''license'', PROJECT_REPO @ ''/blob/master/LICENSE'')]"

text \<open>The filter that keeps a link with a URL not seen before.\<close>

fun keep_new :: "string list \<Rightarrow> (string \<times> string) list \<Rightarrow> (string \<times> string) list" where
  "keep_new seen [] = []"
| "keep_new seen ((k, u) # ls) = (if u \<noteq> [] \<and> u \<notin> set seen then (k, u) # keep_new (u # seen) ls else keep_new seen ls)"

definition aboutLinks :: "brand \<Rightarrow> (string \<times> string) list" where
  "aboutLinks b =
     keep_new (map snd project_links)
       [(''website'', if br_about b \<noteq> [] then br_about b else br_brand_url b), (''help'', br_help b),
        (''updates'', if br_updates b \<noteq> [] then br_updates b else PROJECT_REPO @ ''/releases''), (''contact'', br_contact b)]
     @ project_links"

lemma keep_new_once:
  "distinct (map snd (keep_new seen ls)) \<and> set (map snd (keep_new seen ls)) = set (map snd ls) - {[]} - set seen"
  by (induction seen ls rule: keep_new.induct) auto

lemma project_links_distinct: "distinct (map snd project_links) \<and> [] \<notin> set (map snd project_links)"
  by code_simp

text \<open>The About page lists each address once. The project's own three links are always there, at the
  end, whatever the brand gives; before them is every other address the brand gives, none twice and none
  empty.\<close>
theorem about_links_once:
  "distinct (map snd (aboutLinks b)) \<and> (\<exists>own. aboutLinks b = own @ project_links) \<and>
   set (map snd (aboutLinks b)) =
     set (map snd project_links) \<union>
       {if br_about b \<noteq> [] then br_about b else br_brand_url b, br_help b,
        if br_updates b \<noteq> [] then br_updates b else PROJECT_REPO @ ''/releases'', br_contact b} - {[]}"
proof -
  let ?own = "[(''website'', if br_about b \<noteq> [] then br_about b else br_brand_url b), (''help'', br_help b),
        (''updates'', if br_updates b \<noteq> [] then br_updates b else PROJECT_REPO @ ''/releases''), (''contact'', br_contact b)]"
  note k = keep_new_once [of "map snd project_links" ?own]
  have e: "aboutLinks b = keep_new (map snd project_links) ?own @ project_links" by (simp only: aboutLinks_def)
  have "distinct (map snd (aboutLinks b))"
    unfolding e map_append distinct_append using k project_links_distinct by (metis Diff_disjoint Int_commute)
  moreover have "set (map snd (aboutLinks b)) = (set (map snd ?own) - {[]} - set (map snd project_links)) \<union> set (map snd project_links)"
    unfolding e map_append set_append using k by simp
  moreover have "\<dots> = set (map snd project_links) \<union> set (map snd ?own) - {[]}"
    using project_links_distinct by blast
  moreover have "set (map snd ?own) = {if br_about b \<noteq> [] then br_about b else br_brand_url b, br_help b,
        if br_updates b \<noteq> [] then br_updates b else PROJECT_REPO @ ''/releases'', br_contact b}"
    by (simp only: list.map list.set snd_conv)
  ultimately show ?thesis using e by metis
qed

end
