(* ===== verification/TextsEn.thy ===== *)
theory TextsEn
  imports I18n
begin

text \<open>
  The English texts (\<open>i18n/translations.js\<close>, the object \<open>en\<close>), in the order of the file and in
  parts, then as the table the lookup reads. Bytes above 127 and quotes are written by their
  number. After each part its placeholders, as read from the texts.
\<close>

definition en_texts_1 :: "(string \<times> string) list" where
  "en_texts_1 = [
    (''appTitle'', ''Salvanza for Proxmox Backup Server''),
    (''appSubtitle'', ''Client for Proxmox Backup Server''),
    (''srvTabServer'', ''Server''),
    (''srvTabUserpass'', ''User / Password''),
    (''srvTabToken'', ''API Token''),
    (''srvTabEncryption'', ''Encryption''),
    (''username'', ''Username''),
    (''password'', ''Password''),
    (''userpassHint'', ''The credentials are stored; a fresh PBS ticket is obtained automatically at every backup.''),
    (''passwordKeepCurrent'', [CHR 0xE2, CHR 0x80, CHR 0xA2, CHR 0xE2, CHR 0x80, CHR 0xA2, CHR 0xE2, CHR 0x80, CHR 0xA2, CHR 0xE2, CHR 0x80, CHR 0xA2, CHR 0xE2, CHR 0x80, CHR 0xA2, CHR 0xE2, CHR 0x80, CHR 0xA2, CHR 0xE2, CHR 0x80, CHR 0xA2, CHR 0xE2, CHR 0x80, CHR 0xA2] @ '' (leave empty to keep the current password)''),
    (''pamUserWarning'', ''Avoid an admin account (e.g. root@pam): if the backup machine is compromised, it could be used to destroy or tamper with your backups. Prefer a dedicated read+backup account or an API token.''),
    (''phBackupId'', ''hostname or custom ID (leave empty to list all)''),
    (''login'', ''Login''),
    (''logout'', ''Logout''),
    (''loggedIn'', ''Logged in as''),
    (''pwPrompt'', ''Password for {u}:''),
    (''secretKeepCurrent'', [CHR 0xE2, CHR 0x80, CHR 0xA2, CHR 0xE2, CHR 0x80, CHR 0xA2, CHR 0xE2, CHR 0x80, CHR 0xA2, CHR 0xE2, CHR 0x80, CHR 0xA2, CHR 0xE2, CHR 0x80, CHR 0xA2, CHR 0xE2, CHR 0x80, CHR 0xA2, CHR 0xE2, CHR 0x80, CHR 0xA2, CHR 0xE2, CHR 0x80, CHR 0xA2] @ '' (leave empty to keep current token)''),
    (''phServerName'', ''My SSD''),
    (''phServerURL'', ''https://pbs-ssd.example.com:8007''),
    (''phAuthID'', ''backup@pbs!token-name''),
    (''phSecret'', ''xxxxxxxx-xxxx-xxxx-xxxx-xxxxxxxxxxxx''),
    (''phDatastore'', ''ssd-fast''),
    (''phNamespace'', ''clients''),
    (''phCert'', ''AA:BB:CC:DD:...''),
    (''phUsername'', ''root@pam''),
    (''phPassword'', [CHR 0xE2, CHR 0x80, CHR 0xA2, CHR 0xE2, CHR 0x80, CHR 0xA2, CHR 0xE2, CHR 0x80, CHR 0xA2, CHR 0xE2, CHR 0x80, CHR 0xA2, CHR 0xE2, CHR 0x80, CHR 0xA2, CHR 0xE2, CHR 0x80, CHR 0xA2, CHR 0xE2, CHR 0x80, CHR 0xA2, CHR 0xE2, CHR 0x80, CHR 0xA2]),
    (''tabServers'', ''PBS Configuration''),
    (''tabBackup'', ''Backup''),
    (''tabRestore'', ''Restore''),
    (''tabAbout'', ''About''),
    (''navReports'', ''Reports''),
    (''navMessageLog'', ''Message Log''),
    (''knownLimitations'', ''Known Limitations''),
    (''devBuildBadge'', ''Development build''),
    (''messageLogEmpty'', ''No messages yet.''),
    (''msgColDateTime'', ''Date / Time''),
    (''msgColSource'', ''Source''),
    (''msgColMessage'', ''Message''),
    (''msgSourceBackup'', ''Backup''),
    (''msgSourceRestore'', ''Restore''),
    (''msgLogCap'', ''1,000 message cap.''),
    (''logBackupDirNotExist'', ''Backup directory does not exist: {dir}''),
    (''logBackupCancelled'', ''Backup cancelled by user''),
    (''logCatalogCreateFailed'', ''Failed to create shared catalog index: {error}''),
    (''logSessionLost'', ''PBS session lost and retries exhausted: {error}''),
    (''logCatalogFinalizeFailed'', ''Failed to finalize shared catalog: {error}''),
    (''logCatalogCloseFailed'', ''Failed to close shared catalog index: {error}''),
    (''logAllDirsFailed'', ''All {total} directories failed:'' @ [CHR 0x0A] @ ''{errors}''),
    (''logManifestUploadFailed'', ''Failed to upload manifest: {error}''),
    (''logSessionFinalizeFailed'', ''Failed to finalize backup session: {error}''),
    (''logBackupPartial'', [CHR 0xE2, CHR 0x9A, CHR 0xA0, CHR 0xEF, CHR 0xB8, CHR 0x8F] @ '' Partial backup in {duration}: {ok}/{total} folders OK, {mb} MB ({new} new, {reused} reused chunks)'' @ [CHR 0x0A] @ ''Errors:'' @ [CHR 0x0A] @ ''{errors}{skippedNote}''),
    (''logBackupCompletedWithErrors'', [CHR 0xE2, CHR 0x9A, CHR 0xA0, CHR 0xEF, CHR 0xB8, CHR 0x8F] @ '' Backup completed with errors in {duration}: {mb} MB backed up ({new} new, {reused} reused, {failed} FAILED chunks){skippedNote}''),
    (''logBackupCompleted'', ''Backup completed in {duration}: {mb} MB backed up ({new} new, {reused} reused chunks){skippedNote}''),
    (''logSkippedFilesNote'', [CHR 0x0A, CHR 0xE2, CHR 0x9A, CHR 0xA0, CHR 0xEF, CHR 0xB8, CHR 0x8F] @ '' {count} files/folders skipped (the backup log lists them)''),
    (''logUnreadableFilesNote'', [CHR 0x0A, CHR 0xE2, CHR 0x9A, CHR 0xA0, CHR 0xEF, CHR 0xB8, CHR 0x8F] @ '' {count} files/folders could not be read (the backup log lists them)''),
    (''logSkippedByDesignNote'', [CHR 0x0A] @ ''{count} items left out by design: links, sockets, pipes and system files (the backup log lists them)''),
    (''reportsSkippedByDesign'', ''Left out''),
    (''logMachineBackupFailed'', ''Machine backup failed: {error}''),
    (''logMachineBackupCompleted'', ''Machine backup completed in {duration}''),
    (''logScheduledJobError'', ''Error: {error}''),
    (''logJobAbandoned'', ''Abandoned (application interrupted)''),
    (''logBackupCompletedGeneric'', ''Backup completed''),
    (''logRestoreCompleted'', ''Restore completed''),
    (''logRestoreFailed'', ''Restore failed: {error}''),
    (''logDeploySettingsApplied'', ''Settings from the installer applied (PBS servers: {servers}, Backup Sets: {sets}).''),
    (''logDeploySettingsFailed'', ''Settings from the installer could not be applied: {error}''),
    (''themeTitle'', ''Theme''),
    (''themeIntro'', ''Choose a color palette for the application.''),
    (''themeAmber'', ''Amber''),
    (''themeBlue'', ''Classic Blue''),
    (''themeGreen'', ''Green''),
    (''themeRed'', ''Red''),
    (''themeDark'', ''Dark''),
    (''themeCustom'', ''Custom'' @ [CHR 0xE2, CHR 0x80, CHR 0xA6]),
    (''themeFieldAccent'', ''Accent color''),
    (''themeFieldAccentHover'', ''Accent (hover)''),
    (''themeFieldHeroStart'', ''Gradient: dark end''),
    (''themeFieldHeroEnd'', ''Gradient: light end''),
    (''themeCustomHint'', ''Standard 6-digit CSS hex values. An invalid value is ignored.''),
    (''themePreview'', ''Preview''),
    (''prefsTitle'', ''Preferences''),
    (''prefsAccountInfo'', ''Account Information''),
    (''prefsBackupOptions'', ''Backup Options''),
    (''prefsEmail'', ''Email''),
    (''prefsAdvanced'', ''Advanced''),
    (''jobsLockModalTitle'', ''Administrator rights required''),
    (''changeDetectionLabel'', ''Change detection''),
    (''changeDetectionLegacy'', ''Legacy: read every file (default)''),
    (''changeDetectionData'', ''Data: read every file, split archive''),
    (''changeDetectionMetadata'', ''Metadata: skip unchanged files (fastest)''),
    (''changeDetectionMachineNote'', ''Not used for machine backups: disks are backed up as images.''),
    (''fullReadEveryLabel'', ''Read every file every''),
    (''fullReadEveryRuns'', ''runs (0 = never)''),
    (''fullReadEveryOne'', ''1 would read every file on every run. Use Data for that, or choose 2 or more.''),
    (''changeDetectionMetadataHint'', ''Files whose size and modified time have not changed since the previous backup are not read again; their data is reused from that backup. The first backup in this mode reads every file. A full read now and then catches changes that keep the same size and modified time.''),
    (''changeDetectionDataHint'', ''Every file is read and the backup is stored as a split archive, the format Metadata builds on.''),
    (''changeDetectionRestoreNote'', ''Restoring split archives needs this version of the client or newer, or the official Proxmox client: update every machine you restore from first.''),
    (''changeDetectionShortLegacy'', ''Legacy''),
    (''changeDetectionShortData'', ''Data (split archive)''),
    (''changeDetectionShortMetadata'', ''Metadata (unchanged files skipped)''),
    (''reportsChangeDetection'', ''Change detection''),
    (''reportsReusedFiles'', ''{files} unchanged files reused without reading, {size}''),
    (''reportsReusedShort'', ''{files} files reused''),
    (''prefsExportTab'', ''Export / Import Settings''),
    (''jobsPolicyTitle'', ''Scheduled job protection''),
    (''jobsPolicyLabel'', ''Require administrator rights to add, change or delete Backup Sets''),
    (''jobsPolicyHint'', ''When on, only an administrator can add, edit, delete or import Backup Sets, so a standard user cannot change what is backed up or when. Running a Backup Set and viewing history are not affected. Only an administrator can turn this setting on or off.''),
    (''jobsPolicyHintLinux'', ''With the background service installed, the Backup Sets live in its shared folder, which only root can change: add, edit, delete or import them with Restart as administrator. Running a Backup Set and viewing history work without it.''),
    (''jobsPolicyIsAdmin'', ''You are running as administrator, so you can change this setting.''),
    (''jobsPolicyNotAdmin'', ''Administrator rights are needed to change this setting.''),
    (''jobsPolicyElevateBtn'', ''Restart as administrator''),
    (''jobsPolicyElevateCancelled'', ''Administrator access was not granted, so the app was not restarted.''),
    (''jobsAdminRequired'', ''Administrator rights are required to change Backup Sets. Restart the app as administrator, or ask an administrator to turn this protection off in Preferences > Advanced.''),
    (''jobsBanner'', ''Changing Backup Sets needs administrator rights.''),
    (''settingsLockedBanner'', ''This PC'' @ [CHR 0x27] @ ''s backup settings are open to its administrators only. Restart as administrator to see and run your Backup Sets.''),
    (''serviceConnectBanner'', ''Not connected to the background service. It keeps this computer'' @ [CHR 0x27] @ ''s PBS servers and Backup Sets; connecting asks for administrator rights.''),
    (''serviceConnectBtn'', ''Connect''),
    (''serviceNotConnectedRetry'', ''The app is no longer connected to the background service (it restarted, or renewed its access). Click Connect, then try again.''),
    (''serviceConnectFailed'', ''Not connected: {error}''),
    (''serviceNotRunningBanner'', ''The background service is not running, so this computer'' @ [CHR 0x27] @ ''s Backup Sets do not run on their schedules. Starting it asks for administrator rights.''),
    (''serviceStartBtn'', ''Start the service''),
    (''serviceStartingBtn'', ''Starting'' @ [CHR 0xE2, CHR 0x80, CHR 0xA6]),
    (''serviceStartDeclined'', ''The service was not started: the request for administrator rights was declined.''),
    (''serviceStartFailed'', ''The service did not start: {error}''),
    (''serviceOwnSettingsBtn'', ''Use my own settings''),
    (''serviceOwnSetsTitle'', ''Your own Backup Sets''),
    (''serviceOwnSetsMessage'', ''While connected, your own Backup Sets ({count}) do not run. They are kept, and come back with Use my own settings. You can also copy them, with their PBS servers, to this computer'' @ [CHR 0x27] @ ''s settings, where the background service runs them whether or not you are signed in.''),
    (''serviceOwnSetsCopyBtn'', ''Connect and copy my sets to this computer''),
    (''serviceOwnSettingsBanner'', ''You are using your own settings, kept in your user folder. Your Backup Sets run only while the app is open or minimised to the tray: the background service does not run them when the app is closed or you are signed out. This computer'' @ [CHR 0x27] @ ''s PBS servers and Backup Sets are with the background service; connecting to it asks for administrator rights.''),
    (''parallelRestoreLabel'', ''Parallel restore extraction (experimental)''),
    (''parallelRestoreHint'', ''Writes several files at once during restore instead of one at a time. Not guaranteed to be faster: on our own test machine it measured slightly SLOWER than the usual sequential method, likely because the file system contention outweighs the parallelism. May help on different hardware. Turn this off if a restore ever behaves unexpectedly.''),
    (''parallelBackupReadLabel'', ''Multi-threaded backup reading (experimental)''),
    (''parallelBackupReadHint'', ''Reads files ahead of time in the background during backup instead of one at a time, while the scan/hash step still runs exactly as before; it doesn'' @ [CHR 0x27] @ ''t change how data is deduplicated. Helps most when backup speed is limited by waiting on disk reads rather than CPU. Turn this off if a backup ever behaves unexpectedly.''),
    (''backupReadWorkersLabel'', ''Worker count:'')]"

lemma en_texts_1_holes: "scan_texts en_texts_1 = Some
   [(''pwPrompt'', [''u'']),
    (''logBackupDirNotExist'', [''dir'']),
    (''logCatalogCreateFailed'', [''error'']),
    (''logSessionLost'', [''error'']),
    (''logCatalogFinalizeFailed'', [''error'']),
    (''logCatalogCloseFailed'', [''error'']),
    (''logAllDirsFailed'', [''total'', ''errors'']),
    (''logManifestUploadFailed'', [''error'']),
    (''logSessionFinalizeFailed'', [''error'']),
    (''logBackupPartial'', [''duration'', ''ok'', ''total'', ''mb'', ''new'', ''reused'', ''errors'', ''skippedNote'']),
    (''logBackupCompletedWithErrors'', [''duration'', ''mb'', ''new'', ''reused'', ''failed'', ''skippedNote'']),
    (''logBackupCompleted'', [''duration'', ''mb'', ''new'', ''reused'', ''skippedNote'']),
    (''logSkippedFilesNote'', [''count'']),
    (''logUnreadableFilesNote'', [''count'']),
    (''logSkippedByDesignNote'', [''count'']),
    (''logMachineBackupFailed'', [''error'']),
    (''logMachineBackupCompleted'', [''duration'']),
    (''logScheduledJobError'', [''error'']),
    (''logRestoreFailed'', [''error'']),
    (''logDeploySettingsApplied'', [''servers'', ''sets'']),
    (''logDeploySettingsFailed'', [''error'']),
    (''reportsReusedFiles'', [''files'', ''size'']),
    (''reportsReusedShort'', [''files'']),
    (''serviceConnectFailed'', [''error'']),
    (''serviceStartFailed'', [''error'']),
    (''serviceOwnSetsMessage'', [''count''])]"
  by code_simp

lemma en_texts_1_keys: "map fst en_texts_1 =
   [''appTitle'', ''appSubtitle'', ''srvTabServer'', ''srvTabUserpass'', ''srvTabToken'', ''srvTabEncryption'', 
    ''username'', ''password'', ''userpassHint'', ''passwordKeepCurrent'', ''pamUserWarning'', ''phBackupId'', 
    ''login'', ''logout'', ''loggedIn'', ''pwPrompt'', ''secretKeepCurrent'', ''phServerName'', 
    ''phServerURL'', ''phAuthID'', ''phSecret'', ''phDatastore'', ''phNamespace'', ''phCert'', 
    ''phUsername'', ''phPassword'', ''tabServers'', ''tabBackup'', ''tabRestore'', ''tabAbout'', 
    ''navReports'', ''navMessageLog'', ''knownLimitations'', ''devBuildBadge'', ''messageLogEmpty'', ''msgColDateTime'', 
    ''msgColSource'', ''msgColMessage'', ''msgSourceBackup'', ''msgSourceRestore'', ''msgLogCap'', ''logBackupDirNotExist'', 
    ''logBackupCancelled'', ''logCatalogCreateFailed'', ''logSessionLost'', ''logCatalogFinalizeFailed'', ''logCatalogCloseFailed'', ''logAllDirsFailed'', 
    ''logManifestUploadFailed'', ''logSessionFinalizeFailed'', ''logBackupPartial'', ''logBackupCompletedWithErrors'', ''logBackupCompleted'', ''logSkippedFilesNote'', 
    ''logUnreadableFilesNote'', ''logSkippedByDesignNote'', ''reportsSkippedByDesign'', ''logMachineBackupFailed'', ''logMachineBackupCompleted'', ''logScheduledJobError'', 
    ''logJobAbandoned'', ''logBackupCompletedGeneric'', ''logRestoreCompleted'', ''logRestoreFailed'', ''logDeploySettingsApplied'', ''logDeploySettingsFailed'', 
    ''themeTitle'', ''themeIntro'', ''themeAmber'', ''themeBlue'', ''themeGreen'', ''themeRed'', 
    ''themeDark'', ''themeCustom'', ''themeFieldAccent'', ''themeFieldAccentHover'', ''themeFieldHeroStart'', ''themeFieldHeroEnd'', 
    ''themeCustomHint'', ''themePreview'', ''prefsTitle'', ''prefsAccountInfo'', ''prefsBackupOptions'', ''prefsEmail'', 
    ''prefsAdvanced'', ''jobsLockModalTitle'', ''changeDetectionLabel'', ''changeDetectionLegacy'', ''changeDetectionData'', ''changeDetectionMetadata'', 
    ''changeDetectionMachineNote'', ''fullReadEveryLabel'', ''fullReadEveryRuns'', ''fullReadEveryOne'', ''changeDetectionMetadataHint'', ''changeDetectionDataHint'', 
    ''changeDetectionRestoreNote'', ''changeDetectionShortLegacy'', ''changeDetectionShortData'', ''changeDetectionShortMetadata'', ''reportsChangeDetection'', ''reportsReusedFiles'', 
    ''reportsReusedShort'', ''prefsExportTab'', ''jobsPolicyTitle'', ''jobsPolicyLabel'', ''jobsPolicyHint'', ''jobsPolicyHintLinux'', 
    ''jobsPolicyIsAdmin'', ''jobsPolicyNotAdmin'', ''jobsPolicyElevateBtn'', ''jobsPolicyElevateCancelled'', ''jobsAdminRequired'', ''jobsBanner'', 
    ''settingsLockedBanner'', ''serviceConnectBanner'', ''serviceConnectBtn'', ''serviceNotConnectedRetry'', ''serviceConnectFailed'', ''serviceNotRunningBanner'', 
    ''serviceStartBtn'', ''serviceStartingBtn'', ''serviceStartDeclined'', ''serviceStartFailed'', ''serviceOwnSettingsBtn'', ''serviceOwnSetsTitle'', 
    ''serviceOwnSetsMessage'', ''serviceOwnSetsCopyBtn'', ''serviceOwnSettingsBanner'', ''parallelRestoreLabel'', ''parallelRestoreHint'', ''parallelBackupReadLabel'', 
    ''parallelBackupReadHint'', ''backupReadWorkersLabel'']"
  unfolding en_texts_1_def by (simp only: list.map fst_conv)

definition en_texts_2 :: "(string \<times> string) list" where
  "en_texts_2 = [
    (''emailNotificationsTitle'', ''Email notifications''),
    (''emailNotificationsIntro'', ''Global SMTP account used by every Backup Set'' @ [CHR 0x27] @ ''s own email option (Alerts tab).''),
    (''smtpHost'', ''SMTP server''),
    (''smtpPort'', ''Port''),
    (''smtpUsername'', ''Username''),
    (''smtpPassword'', ''Password''),
    (''smtpPasswordSetPlaceholder'', ''(unchanged)''),
    (''emailFromLabel'', ''From address''),
    (''smtpInsecureLabel'', ''Allow an unencrypted connection (not recommended)''),
    (''testEmailPlaceholder'', ''Address for the test email''),
    (''sendTestEmailBtn'', ''Send test email''),
    (''sendingTestEmail'', ''Sending...''),
    (''sendingTestEmailWait'', ''Sending the test email through your mail server...''),
    (''statusTestEmailSent'', ''Test email sent''),
    (''emailNotificationsHint'', ''This account is shared by every Backup Set. Each set picks its own recipient in its own Alerts tab.''),
    (''settingsPortabilityTitle'', ''Settings portability''),
    (''settingsPortabilityIntro'', ''Export your PBS servers, theme and Backup Sets to a file, or import one from another machine.''),
    (''logsTitle'', ''Logs''),
    (''logsIntro'', ''Opens the folder containing the backup and service logs, including archived files.''),
    (''viewLogsBtn'', ''View Logs''),
    (''navFullLogs'', ''View Full Logs''),
    (''logsTitle'', ''Full logs''),
    (''logsNone'', ''No log files yet.''),
    (''logsKindRun'', ''Backup run: {id}''),
    (''logsKindBackup'', ''Backups and restores''),
    (''logsKindApp'', ''App and schedules''),
    (''logsService'', ''service''),
    (''logsFilter'', ''Show only lines containing'' @ [CHR 0xE2, CHR 0x80, CHR 0xA6]),
    (''logsApply'', ''Show''),
    (''logsHideChunks'', ''Hide chunk lines''),
    (''logsRefresh'', ''Refresh''),
    (''logsOpenFolder'', ''Open log folder''),
    (''logsShowing'', ''Showing {shown} of {total} lines''),
    (''logsLoading'', ''Loading'' @ [CHR 0xE2, CHR 0x80, CHR 0xA6]),
    (''logsShowMore'', ''Show more lines''),
    (''logsNoLines'', ''No lines to show.''),
    (''viewLog'', ''View log''),
    (''logsNoRunLog'', ''No log of its own was found for this run: this is the backup log around its time.''),
    (''exportIncludeSecrets'', ''Include passwords/tokens in the export''),
    (''exportSecretsWarning'', ''The exported file will contain your PBS tokens/passwords, remembered key passphrases and SMTP password in plain text. Store it somewhere safe.''),
    (''exportSettingsBtn'', ''Export Settings...''),
    (''importSettingsBtn'', ''Import Settings...''),
    (''statusSettingsExported'', ''Settings exported to''),
    (''statusSettingsImported'', ''Settings imported successfully''),
    (''prefsOK'', ''OK''),
    (''prefsHelp'', ''Help''),
    (''navHelp'', ''Help''),
    (''helpTitle'', ''User manuals''),
    (''manualGui'', ''The app''),
    (''manualCli'', ''Command line''),
    (''manualBmr'', ''Bare-metal restore''),
    (''manualRestore'', ''Which restore?''),
    (''manualContents'', ''Contents''),
    (''manualFind'', ''Find in this manual''),
    (''manualSave'', ''Save a copy'' @ [CHR 0xE2, CHR 0x80, CHR 0xA6]),
    (''manualOnGitHub'', ''Open on GitHub''),
    (''manualSaved'', ''Saved to''),
    (''manualEnglishOnly'', ''The manuals are in English.''),
    (''noPbsServerConfigured'', ''No PBS server is configured yet. Set one up in Preferences first.''),
    (''noPbsServerBanner'', [CHR 0xE2, CHR 0x9A, CHR 0xA0, CHR 0xEF, CHR 0xB8, CHR 0x8F] @ '' No PBS server is configured.''),
    (''openPreferences'', ''Open Preferences''),
    (''save'', ''Save''),
    (''cancel'', ''Cancel''),
    (''delete'', ''Delete''),
    (''edit'', ''Edit''),
    (''add'', ''Add''),
    (''test'', ''Test''),
    (''start'', ''Start''),
    (''stop'', ''Stop''),
    (''update'', ''Update''),
    (''actions'', ''Actions''),
    (''name'', ''Name''),
    (''url'', ''URL''),
    (''status'', ''Status''),
    (''online'', ''Online''),
    (''offline'', ''Offline''),
    (''testing'', ''Testing...''),
    (''untested'', ''Not tested''),
    (''default'', ''Default''),
    (''testServer'', ''Test''),
    (''setDefault'', ''Default''),
    (''deleteServer'', ''Delete''),
    (''optional'', ''optional''),
    (''serversTitle'', ''PBS Configuration''),
    (''welcomeMessage'', ''Welcome!''),
    (''welcomeText'', ''Configure your first PBS server to start backups.''),
    (''noPBSYet'', ''Don'' @ [CHR 0x27] @ ''t have a PBS server yet?''),
    (''storageSelfHost'', ''Download and set up your own {pbs}, or buy backup storage.''),
    (''buyBackupStorage'', ''Buy Backup Storage''),
    (''addYourServer'', ''Add your PBS server''),
    (''addAnotherServer'', ''Add another PBS server''),
    (''editServer'', ''Edit server''),
    (''addFirstServer'', ''Add my first server''),
    (''addServer'', ''Add server''),
    (''configuredServers'', ''Configured servers''),
    (''setAsDefault'', ''Set as default''),
    (''serverName'', ''Server name''),
    (''serverID'', ''Server ID (auto-generated if empty)''),
    (''serverIDPlaceholder'', ''pbs-ssd (leave empty for auto-generation)''),
    (''serverURL'', ''PBS server URL''),
    (''authID'', ''Authentication ID''),
    (''secret'', ''Secret (API Token)''),
    (''datastore'', ''Datastore''),
    (''namespace'', ''Namespace (optional)''),
    (''certFingerprint'', ''SSL certificate fingerprint (optional)''),
    (''description'', ''Description (optional)''),
    (''descriptionPlaceholder'', ''SSD storage for critical backups''),
    (''encryptionKey'', ''Encryption key file (optional)''),
    (''phEncryptionKey'', ''C:'' @ [CHR 0x5C] @ ''ProgramData'' @ [CHR 0x5C] @ ''Salvanza'' @ [CHR 0x5C] @ ''keys'' @ [CHR 0x5C] @ ''encryption-key.json''),
    (''encryptionKeyImport'', ''Import...''),
    (''encryptionKeyGenerate'', ''Generate...''),
    (''encryptionKeyClear'', ''Clear''),
    (''encryptionKeyHint'', ''Every snapshot chunk is encrypted with AES-256-GCM. This file is required to restore: keep a copy somewhere safe, off this machine. A passphrase-protected key works here too: choose below how it should be unlocked.''),
    (''encryptionPassphraseTitle'', ''Passphrase-protected key''),
    (''encryptionPassphraseIntro'', ''This key is encrypted with a passphrase. Choose how the app should unlock it.''),
    (''encryptionPassphraseAsk'', ''Ask me (once per app session)''),
    (''encryptionPassphraseRemember'', ''Remember on this computer''),
    (''encryptionPassphraseAskNote'', ''Scheduled backups will fail until the passphrase has been entered in this session.''),
    (''encryptionPassphraseRememberNote'', ''The passphrase is stored in the config, like the PBS token. On Windows it is encrypted for this computer, so a copy of the file on another computer cannot unlock the key; on Linux anyone who can read the config file can. Needed for unattended scheduled jobs.''),
    (''encryptionPassphraseKeep'', ''Leave empty to keep the stored passphrase''),
    (''encryptionPassphrasePlaceholder'', ''Key passphrase''),
    (''encryptionPassphraseVerify'', ''Verify''),
    (''encryptionPassphraseEnter'', ''Enter the passphrase.''),
    (''encryptionPassphraseVerified'', ''Passphrase is correct.''),
    (''reportsEncryption'', ''Encryption''),
    (''reportsEncrypted'', ''Encrypted''),
    (''reportsUnencrypted'', ''Unencrypted''),
    (''encryptionPassphraseWrong'', ''Wrong passphrase for this key.''),
    (''encryptionPromptTitle'', ''Passphrase required''),
    (''encryptionPromptBody'', ''The encryption key is protected by a passphrase. Enter it to continue.''),
    (''encryptionPromptFingerprint'', ''Fingerprint: {fp}''),
    (''encryptionPromptCancel'', ''Cancel''),
    (''encryptionPromptUnlock'', ''Unlock''),
    (''encryptionCancelledNoPassphrase'', ''Backup cancelled: the encryption passphrase was not entered. Nothing was backed up.''),
    (''encryptionKeyUnset'', ''No key: backups will not be encrypted.''),
    (''encryptionKeyOk'', ''Key loaded, fingerprint {fp}''),
    (''machineReadFreeSpace'', ''Forensic copy: read free space too''),
    (''machineReadFreeSpaceHint'', ''Reads every sector, including free space and the paging and hibernation files, so deleted files can be recovered from the image later. Without it they go into the image as zeros without being read. Much slower, and the backups take more space.'')]"

lemma en_texts_2_holes: "scan_texts en_texts_2 = Some
   [(''logsKindRun'', [''id'']),
    (''logsShowing'', [''shown'', ''total'']),
    (''storageSelfHost'', [''pbs'']),
    (''encryptionPromptFingerprint'', [''fp'']),
    (''encryptionKeyOk'', [''fp''])]"
  by code_simp

lemma en_texts_2_keys: "map fst en_texts_2 =
   [''emailNotificationsTitle'', ''emailNotificationsIntro'', ''smtpHost'', ''smtpPort'', ''smtpUsername'', ''smtpPassword'', 
    ''smtpPasswordSetPlaceholder'', ''emailFromLabel'', ''smtpInsecureLabel'', ''testEmailPlaceholder'', ''sendTestEmailBtn'', ''sendingTestEmail'', 
    ''sendingTestEmailWait'', ''statusTestEmailSent'', ''emailNotificationsHint'', ''settingsPortabilityTitle'', ''settingsPortabilityIntro'', ''logsTitle'', 
    ''logsIntro'', ''viewLogsBtn'', ''navFullLogs'', ''logsTitle'', ''logsNone'', ''logsKindRun'', 
    ''logsKindBackup'', ''logsKindApp'', ''logsService'', ''logsFilter'', ''logsApply'', ''logsHideChunks'', 
    ''logsRefresh'', ''logsOpenFolder'', ''logsShowing'', ''logsLoading'', ''logsShowMore'', ''logsNoLines'', 
    ''viewLog'', ''logsNoRunLog'', ''exportIncludeSecrets'', ''exportSecretsWarning'', ''exportSettingsBtn'', ''importSettingsBtn'', 
    ''statusSettingsExported'', ''statusSettingsImported'', ''prefsOK'', ''prefsHelp'', ''navHelp'', ''helpTitle'', 
    ''manualGui'', ''manualCli'', ''manualBmr'', ''manualRestore'', ''manualContents'', ''manualFind'', 
    ''manualSave'', ''manualOnGitHub'', ''manualSaved'', ''manualEnglishOnly'', ''noPbsServerConfigured'', ''noPbsServerBanner'', 
    ''openPreferences'', ''save'', ''cancel'', ''delete'', ''edit'', ''add'', 
    ''test'', ''start'', ''stop'', ''update'', ''actions'', ''name'', 
    ''url'', ''status'', ''online'', ''offline'', ''testing'', ''untested'', 
    ''default'', ''testServer'', ''setDefault'', ''deleteServer'', ''optional'', ''serversTitle'', 
    ''welcomeMessage'', ''welcomeText'', ''noPBSYet'', ''storageSelfHost'', ''buyBackupStorage'', ''addYourServer'', 
    ''addAnotherServer'', ''editServer'', ''addFirstServer'', ''addServer'', ''configuredServers'', ''setAsDefault'', 
    ''serverName'', ''serverID'', ''serverIDPlaceholder'', ''serverURL'', ''authID'', ''secret'', 
    ''datastore'', ''namespace'', ''certFingerprint'', ''description'', ''descriptionPlaceholder'', ''encryptionKey'', 
    ''phEncryptionKey'', ''encryptionKeyImport'', ''encryptionKeyGenerate'', ''encryptionKeyClear'', ''encryptionKeyHint'', ''encryptionPassphraseTitle'', 
    ''encryptionPassphraseIntro'', ''encryptionPassphraseAsk'', ''encryptionPassphraseRemember'', ''encryptionPassphraseAskNote'', ''encryptionPassphraseRememberNote'', ''encryptionPassphraseKeep'', 
    ''encryptionPassphrasePlaceholder'', ''encryptionPassphraseVerify'', ''encryptionPassphraseEnter'', ''encryptionPassphraseVerified'', ''reportsEncryption'', ''reportsEncrypted'', 
    ''reportsUnencrypted'', ''encryptionPassphraseWrong'', ''encryptionPromptTitle'', ''encryptionPromptBody'', ''encryptionPromptFingerprint'', ''encryptionPromptCancel'', 
    ''encryptionPromptUnlock'', ''encryptionCancelledNoPassphrase'', ''encryptionKeyUnset'', ''encryptionKeyOk'', ''machineReadFreeSpace'', ''machineReadFreeSpaceHint'']"
  unfolding en_texts_2_def by (simp only: list.map fst_conv)

definition en_texts_3 :: "(string \<times> string) list" where
  "en_texts_3 = [
    (''snapshotTipMachineLive'', ''Use snapshots is off: mounted partitions are read live, and the image may be inconsistent.''),
    (''snapshotTipMachineOffNotAccepted'', ''Use snapshots is off but reading without a snapshot is not accepted: the set'' @ [CHR 0x27] @ ''s runs stop.''),
    (''machineUseSnapshots'', ''Use snapshots''),
    (''machineUseSnapshotsHint'', ''Mounted disks are read through a snapshot (elastio-snap or dattobd), so the image is consistent. A snapshot needs one of those modules loaded, and root or the service.''),
    (''machineLiveReadAccept'', ''Run without a snapshot: I accept the backup may be inconsistent''),
    (''machineLiveReadAcceptHint'', ''Mounted disks are read live. Files that change during the backup can be caught half written in the image. Without this tick the set'' @ [CHR 0x27] @ ''s runs stop.''),
    (''snapModuleActive'', ''Snapshot module loaded: {module}. Mounted disks are read through a snapshot.''),
    (''snapModuleMissing'', ''No snapshot module loaded (elastio-snap or dattobd). A mounted disk cannot be snapshotted: install one, or turn off Use snapshots for the set and accept a backup that may be inconsistent.''),
    (''snapModuleHowTo'', ''How to install''),
    (''snapModuleHowToTip'', ''Opens the installation guide in Help.''),
    (''snapInstallBtn'', ''Install it for me''),
    (''snapInstallBtnTip'', ''Builds and loads elastio-snap for this computer, after asking for an administrator'' @ [CHR 0x27] @ ''s password.''),
    (''snapInstallDistroTip'', ''The installer knows Debian, Ubuntu, Linux Mint, Fedora and the RHEL family: How to install has the steps for other distributions.''),
    (''snapInstallNoInstallerTip'', ''This package does not include the installer: How to install has the steps.''),
    (''snapRestartPending'', ''The snapshot module is installed, but Secure Boot loads it only once you approve its signing key at a restart:''),
    (''snapInstallTitle'', ''Install the snapshot module''),
    (''snapInstallIntro'', ''This builds elastio-snap for this computer'' @ [CHR 0x27] @ ''s Linux kernel and loads it, now and at every start. It first installs the build tools and kernel headers from your distribution, a download of a few hundred MB, so it needs the internet and takes a few minutes. You are asked for an administrator'' @ [CHR 0x27] @ ''s password.''),
    (''snapInstallSecureBootTitle'', ''Secure Boot is on''),
    (''snapInstallSecureBootBody'', ''Secure Boot loads the module only once you approve its signing key, which you do once, at the next restart. Choose a one-time password for that. You type it again on a blue screen after the restart, which may read the keyboard as an American (US) one.''),
    (''snapInstallPassword'', ''One-time password''),
    (''snapInstallPasswordAgain'', ''Type it again''),
    (''snapInstallPasswordRule'', ''8 to 16 letters and digits.''),
    (''snapInstallPasswordMismatch'', ''The two passwords differ.''),
    (''snapInstallDeclined'', ''No administrator password was given, so nothing was installed.''),
    (''snapInstallRunning'', ''Installing. This takes a few minutes: keep the app open.''),
    (''snapInstallDone'', ''The snapshot module is installed and loaded. Mounted disks are now read through a snapshot.''),
    (''snapInstallRestartTitle'', ''Nearly done: restart to approve the key''),
    (''snapInstallRestartStep1'', ''Restart the computer.''),
    (''snapInstallRestartStep2'', ''A blue screen, '' @ [CHR 0x22] @ ''Perform MOK management'' @ [CHR 0x22] @ '', appears: press a key within 10 seconds.''),
    (''snapInstallRestartStep3'', ''Choose '' @ [CHR 0x22] @ ''Enroll MOK'' @ [CHR 0x22] @ '', then '' @ [CHR 0x22] @ ''Continue'' @ [CHR 0x22] @ '', then '' @ [CHR 0x22] @ ''Yes'' @ [CHR 0x22] @ ''.''),
    (''snapInstallRestartStep4'', ''Type the one-time password, then choose '' @ [CHR 0x22] @ ''Reboot'' @ [CHR 0x22] @ ''.''),
    (''snapInstallRestartAfter'', ''The module then loads at every start. Until the restart, machine backups cannot use snapshots.''),
    (''snapInstallFailed'', ''The install did not finish: {error}''),
    (''snapInstallFailedHint'', ''The output below says why. The installation guide in Help has the steps to do it by hand.''),
    (''snapInstallCancel'', ''Cancel''),
    (''snapInstallStart'', ''Install''),
    (''snapInstallClose'', ''Close''),
    (''elevNeededTitle'', ''Administrator rights needed''),
    (''elevNeededHint'', ''Reading disks needs root, and the service is not running. Restart this app as administrator, or turn on Run as Service in Preferences.''),
    (''saveWarnTitle'', ''This Backup Set will not run as it is''),
    (''saveWarnIntro'', ''Saved like this:''),
    (''saveWarnSave'', ''Save anyway''),
    (''saveWarnBack'', ''Go back''),
    (''saveWarnDisabled'', ''The set is disabled, so it does not run on its schedule until you enable it.''),
    (''saveWarnNoSchedule'', ''No schedule is on, so it runs only when you press Run Now.''),
    (''saveWarnSnapshotsOff'', ''Use snapshots is off but reading without a snapshot is not accepted, so every run stops before it starts.''),
    (''saveWarnNoModule'', ''No snapshot module is loaded, so a run stops when one of its disks is mounted.''),
    (''saveWarnNeedsRoot'', ''This app is not running as administrator and the service is not running, so a run started here cannot read the disks.''),
    (''saveWarnDisksMissing'', ''Disks not connected: {disks}. Its runs fail until they are back.''),
    (''machineForensicBadge'', ''FORENSIC''),
    (''encryptionKeyOpenToOthers'', ''Other accounts on this computer can read this key file.''),
    (''encryptionKeyRestrict'', ''Restrict access''),
    (''encryptionKeyRestricted'', ''Other accounts can no longer read the key file.''),
    (''encryptionKeyRestrictFailed'', ''The permissions could not be changed: {err}''),
    (''encryptionKeyBackupTitle'', ''Keep a copy of the key''),
    (''encryptionKeyBackupIntro'', ''Encrypted backups cannot be restored without this key, not even by the server'' @ [CHR 0x27] @ ''s administrator. Keep a copy away from this computer.''),
    (''encryptionKeySaveCopy'', ''Save a copy'' @ [CHR 0xE2, CHR 0x80, CHR 0xA6]),
    (''encryptionKeyCopySaved'', ''Copy saved to {path}. Keep it away from this computer.''),
    (''encryptionKeyCopyFailed'', ''The copy could not be saved: {err}''),
    (''encryptionKeyPaper'', ''Print a paper key'' @ [CHR 0xE2, CHR 0x80, CHR 0xA6]),
    (''paperKeyTitle'', ''Paper key''),
    (''paperKeyIntro'', ''Keep this page somewhere safe. To get the key back, use Import next to the encryption key in the app: hold this page up to the camera, open a scan or photo of it, or type in the text below.''),
    (''paperKeyProtected'', ''This key is protected by a passphrase: you will need the passphrase as well.''),
    (''paperKeyUnprotected'', ''This key has no passphrase: anyone with this page can read your encrypted backups.''),
    (''paperKeyFingerprint'', ''Fingerprint''),
    (''paperKeyCreated'', ''Created''),
    (''paperKeyComputer'', ''Computer''),
    (''paperKeyFile'', ''Key file''),
    (''paperKeyPrinted'', ''Printed''),
    (''paperKeyPrint'', ''Print''),
    (''paperKeyClose'', ''Close''),
    (''paperKeyBrowserOpened'', ''The app is running as administrator, and printing does not work from it then, so the page has opened in your web browser instead. Print it from there, then close the browser tab.''),
    (''paperKeyBrowserFailed'', ''The page could not be opened in your web browser: {err}''),
    (''paperKeyBrowserTabNote'', ''Print this page (Ctrl+P if the print window did not open), then close this tab.''),
    (''keyImportTitle'', ''Import an encryption key''),
    (''keyImportIntro'', ''Where is the key coming from? It is checked before it is saved, and saved as a new file in this computer'' @ [CHR 0x27] @ ''s keys folder.''),
    (''keyImportFile'', ''Key file''),
    (''keyImportFileDesc'', ''A copy of the key file, for example on a USB stick. It is copied into the keys folder.''),
    (''keyImportCamera'', ''Camera''),
    (''keyImportCameraDesc'', ''Hold the paper key'' @ [CHR 0x27] @ ''s QR code up to this computer'' @ [CHR 0x27] @ ''s camera.''),
    (''keyImportNoCamera'', ''No camera was found on this computer.''),
    (''keyImportPicture'', ''Picture''),
    (''keyImportPictureDesc'', ''A scan or photo of the paper key (JPEG, PNG and other common formats).''),
    (''keyImportText'', ''Type or paste''),
    (''keyImportTextDesc'', ''The key text printed on the paper key, or the text a phone has read from its QR code.''),
    (''keyImportCameraHint'', ''Hold the QR code inside the square, about 30 to 50 cm from the camera, in good light. It is read as soon as it is sharp enough.''),
    (''keyImportCameraStarting'', ''Starting the camera...''),
    (''keyImportCameraDenied'', ''The camera could not be used: access to it was refused. On Windows, check Settings > Privacy & security > Camera.''),
    (''keyImportCameraFailed'', ''The camera could not be started: {err}''),
    (''keyImportReading'', ''Reading the picture''),
    (''keyImportTextLabel'', ''Key text''),
    (''keyImportCheck'', ''Check''),
    (''keyImportBack'', ''Back''),
    (''keyImportCancel'', ''Cancel''),
    (''keyImportFound'', ''Key found. Compare its fingerprint with the one printed on the paper key before you save it.''),
    (''keyImportHint'', ''Passphrase hint''),
    (''keyImportIntact'', ''The key is intact: it matches its fingerprint.''),
    (''keyImportUnchecked'', ''This key file has no fingerprint in it, so a mistake in it cannot be detected. Compare the fingerprint above with the paper key carefully.''),
    (''keyImportNeedsPassphrase'', ''This key is protected by a passphrase. Enter it to check that the key is intact. It is not stored.''),
    (''keyImportPassphrase'', ''Passphrase''),
    (''keyImportUnlocked'', ''The passphrase unlocks the key: it is intact.''),
    (''keyImportSave'', ''Save and use this key''),
    (''keyImportDoneTitle'', ''Encryption key imported''),
    (''keyImportSaved'', ''The key was saved as {path}. Its fingerprint is {fp}.''),
    (''keyImportAlready'', ''This key was already in the keys folder as {path}, so that file is used. Its fingerprint is {fp}.''),
    (''keyImportSavedProtected'', ''Below, choose whether to type its passphrase when it is needed or to remember it on this computer.''),
    (''keyImportFailed'', ''The key could not be imported: {err}''),
    (''keyImportNoQR'', ''No QR code could be read in this picture. Try a sharper picture, taken straight on in good light, with the whole QR code in it.''),
    (''keyImportNotKey'', ''This is not a Proxmox Backup encryption key.''),
    (''keyImportDamaged'', ''This key has a mistake in it: a character is wrong or missing, so it does not match its fingerprint. Check it against the paper key.''),
    (''keyImportBadPicture'', ''This picture cannot be read. Save it as JPEG or PNG and try again.''),
    (''keyImportWrongPassphrase'', ''This passphrase does not unlock the key. Either the passphrase is wrong, or the key text has a mistake in it.''),
    (''keyImportPhotoWarning'', ''This key has no passphrase, so this picture is enough to read your encrypted backups. Once the key is imported, delete the picture from your phone, email and cloud storage.''),
    (''encryptionKeyCreated'', ''Key created at {path}, fingerprint {fp}''),
    (''encryptionKeyConfirm'', ''Create a new encryption key at {path}? Keep it safe: without this file, snapshots encrypted with it become unreadable.''),
    (''encryptionKeyGenerateFailed'', ''Key creation failed: {err}''),
    (''multiPBSInfo'', ''Multi-PBS:''),
    (''multiPBSText'', ''Manage multiple PBS servers for your backups.''),
    (''multiPBSExample'', ''Example: C:'' @ [CHR 0x5C] @ '' '' @ [CHR 0xE2, CHR 0x86, CHR 0x92] @ '' PBS big-data (slow, large space) | C:'' @ [CHR 0x5C] @ ''Users '' @ [CHR 0xE2, CHR 0x86, CHR 0x92] @ '' PBS SSD (fast, small)''),
    (''tipTitle'', ''Tip:''),
    (''tipAPIToken'', ''Get your API Token from the PBS interface:''),
    (''tipAPITokenPath'', ''Configuration '' @ [CHR 0xE2, CHR 0x86, CHR 0x92] @ '' Access Control '' @ [CHR 0xE2, CHR 0x86, CHR 0x92] @ '' API Tokens''),
    (''backupTitle'', ''Backup''),
    (''backupType'', ''Backup type''),
    (''backupTypeDirectory'', ''Directory (specific folder)''),
    (''backupTypeMachine'', ''Machine (full disk)''),
    (''executionMode'', ''Execution mode''),
    (''oneshotMode'', ''One-shot (now)''),
    (''scheduledMode'', ''Scheduled''),
    (''schedulingConfig'', ''Scheduling configuration''),
    (''editMode'', ''Edit mode''),
    (''editModeText'', ''Modify settings and click '' @ [CHR 0x22] @ ''Update'' @ [CHR 0x22]),
    (''dailyExecutionTime'', ''Daily execution time''),
    (''runAtStartup'', ''Also run at machine startup''),
    (''schedulingInfo'', ''Backup will run automatically every day at''),
    (''andAtStartup'', ''And also at every system startup.''),
    (''triggerMode'', ''Schedule type'')]"

lemma en_texts_3_holes: "scan_texts en_texts_3 = Some
   [(''snapModuleActive'', [''module'']),
    (''snapInstallFailed'', [''error'']),
    (''saveWarnDisksMissing'', [''disks'']),
    (''encryptionKeyRestrictFailed'', [''err'']),
    (''encryptionKeyCopySaved'', [''path'']),
    (''encryptionKeyCopyFailed'', [''err'']),
    (''paperKeyBrowserFailed'', [''err'']),
    (''keyImportCameraFailed'', [''err'']),
    (''keyImportSaved'', [''path'', ''fp'']),
    (''keyImportAlready'', [''path'', ''fp'']),
    (''keyImportFailed'', [''err'']),
    (''encryptionKeyCreated'', [''path'', ''fp'']),
    (''encryptionKeyConfirm'', [''path'']),
    (''encryptionKeyGenerateFailed'', [''err''])]"
  by code_simp

lemma en_texts_3_keys: "map fst en_texts_3 =
   [''snapshotTipMachineLive'', ''snapshotTipMachineOffNotAccepted'', ''machineUseSnapshots'', ''machineUseSnapshotsHint'', ''machineLiveReadAccept'', ''machineLiveReadAcceptHint'', 
    ''snapModuleActive'', ''snapModuleMissing'', ''snapModuleHowTo'', ''snapModuleHowToTip'', ''snapInstallBtn'', ''snapInstallBtnTip'', 
    ''snapInstallDistroTip'', ''snapInstallNoInstallerTip'', ''snapRestartPending'', ''snapInstallTitle'', ''snapInstallIntro'', ''snapInstallSecureBootTitle'', 
    ''snapInstallSecureBootBody'', ''snapInstallPassword'', ''snapInstallPasswordAgain'', ''snapInstallPasswordRule'', ''snapInstallPasswordMismatch'', ''snapInstallDeclined'', 
    ''snapInstallRunning'', ''snapInstallDone'', ''snapInstallRestartTitle'', ''snapInstallRestartStep1'', ''snapInstallRestartStep2'', ''snapInstallRestartStep3'', 
    ''snapInstallRestartStep4'', ''snapInstallRestartAfter'', ''snapInstallFailed'', ''snapInstallFailedHint'', ''snapInstallCancel'', ''snapInstallStart'', 
    ''snapInstallClose'', ''elevNeededTitle'', ''elevNeededHint'', ''saveWarnTitle'', ''saveWarnIntro'', ''saveWarnSave'', 
    ''saveWarnBack'', ''saveWarnDisabled'', ''saveWarnNoSchedule'', ''saveWarnSnapshotsOff'', ''saveWarnNoModule'', ''saveWarnNeedsRoot'', 
    ''saveWarnDisksMissing'', ''machineForensicBadge'', ''encryptionKeyOpenToOthers'', ''encryptionKeyRestrict'', ''encryptionKeyRestricted'', ''encryptionKeyRestrictFailed'', 
    ''encryptionKeyBackupTitle'', ''encryptionKeyBackupIntro'', ''encryptionKeySaveCopy'', ''encryptionKeyCopySaved'', ''encryptionKeyCopyFailed'', ''encryptionKeyPaper'', 
    ''paperKeyTitle'', ''paperKeyIntro'', ''paperKeyProtected'', ''paperKeyUnprotected'', ''paperKeyFingerprint'', ''paperKeyCreated'', 
    ''paperKeyComputer'', ''paperKeyFile'', ''paperKeyPrinted'', ''paperKeyPrint'', ''paperKeyClose'', ''paperKeyBrowserOpened'', 
    ''paperKeyBrowserFailed'', ''paperKeyBrowserTabNote'', ''keyImportTitle'', ''keyImportIntro'', ''keyImportFile'', ''keyImportFileDesc'', 
    ''keyImportCamera'', ''keyImportCameraDesc'', ''keyImportNoCamera'', ''keyImportPicture'', ''keyImportPictureDesc'', ''keyImportText'', 
    ''keyImportTextDesc'', ''keyImportCameraHint'', ''keyImportCameraStarting'', ''keyImportCameraDenied'', ''keyImportCameraFailed'', ''keyImportReading'', 
    ''keyImportTextLabel'', ''keyImportCheck'', ''keyImportBack'', ''keyImportCancel'', ''keyImportFound'', ''keyImportHint'', 
    ''keyImportIntact'', ''keyImportUnchecked'', ''keyImportNeedsPassphrase'', ''keyImportPassphrase'', ''keyImportUnlocked'', ''keyImportSave'', 
    ''keyImportDoneTitle'', ''keyImportSaved'', ''keyImportAlready'', ''keyImportSavedProtected'', ''keyImportFailed'', ''keyImportNoQR'', 
    ''keyImportNotKey'', ''keyImportDamaged'', ''keyImportBadPicture'', ''keyImportWrongPassphrase'', ''keyImportPhotoWarning'', ''encryptionKeyCreated'', 
    ''encryptionKeyConfirm'', ''encryptionKeyGenerateFailed'', ''multiPBSInfo'', ''multiPBSText'', ''multiPBSExample'', ''tipTitle'', 
    ''tipAPIToken'', ''tipAPITokenPath'', ''backupTitle'', ''backupType'', ''backupTypeDirectory'', ''backupTypeMachine'', 
    ''executionMode'', ''oneshotMode'', ''scheduledMode'', ''schedulingConfig'', ''editMode'', ''editModeText'', 
    ''dailyExecutionTime'', ''runAtStartup'', ''schedulingInfo'', ''andAtStartup'', ''triggerMode'']"
  unfolding en_texts_3_def by (simp only: list.map fst_conv)

definition en_texts_4 :: "(string \<times> string) list" where
  "en_texts_4 = [
    (''triggerModeDaily'', ''Daily''),
    (''triggerModeInterval'', ''Repeat''),
    (''triggerModeManual'', ''Manual''),
    (''schedulingInfoManual'', ''This backup set never runs on its own. Use '' @ [CHR 0x22] @ ''Run Now'' @ [CHR 0x22] @ '' whenever you want to start it.''),
    (''manualOnDemand'', ''Run on demand only''),
    (''runNow'', ''Run Now''),
    (''runNowQuick'', ''Run now: quick (changed files only)''),
    (''runNowFull'', ''Run now: full read (every file)''),
    (''runNowQuickShort'', ''quick''),
    (''runNowFullShort'', ''full read''),
    (''readReasonRequested'', ''Full read requested: reading every file''),
    (''runNowError'', ''Failed to run: {error}''),
    (''intervalMinutesLabel'', ''Repeat every (minutes)''),
    (''windowAllDay'', ''All day''),
    (''windowBetween'', ''Between''),
    (''windowAnd'', ''and''),
    (''daysOfWeekLabel'', ''Active days''),
    (''dayMon'', ''Mon''),
    (''dayTue'', ''Tue''),
    (''dayWed'', ''Wed''),
    (''dayThu'', ''Thu''),
    (''dayFri'', ''Fri''),
    (''daySat'', ''Sat''),
    (''daySun'', ''Sun''),
    (''schedulingInfoInterval'', ''Backup will run every {n} minutes''),
    (''schedulingInfoDays'', ''Active days:''),
    (''atStartupLabel'', ''At startup''),
    (''everyNMinutes'', ''every {n} min''),
    (''everyDay'', ''Every day''),
    (''directoriesToBackup'', ''Directories to backup (one per line)''),
    (''advancedEditAsText'', ''Advanced: edit list as text''),
    (''physicalDisksToBackup'', ''Physical disks to backup''),
    (''loadingDisks'', ''Loading available disks...''),
    (''filesToExclude'', ''Files to exclude (one per line, optional)''),
    (''backupID'', ''Backup ID''),
    (''backupIDPlaceholder'', ''Leave empty to use hostname''),
    (''backupIdDefaultNote'', ''(defaults to the computer name; change it if needed)''),
    (''backupCommentLabel'', ''Backup Name (for PBS Comment)''),
    (''backupCommentPlaceholder'', ''Optional, shown in the Comment column in PBS''),
    (''tabSource'', ''Source''),
    (''tabExclusions'', ''Exclusions''),
    (''tabSchedule'', ''Schedule''),
    (''tabDestination'', ''Destination''),
    (''tabAlerts'', ''Alerts''),
    (''emailOnSuccessLabel'', ''Send an email when the backup completes''),
    (''emailOnFailureLabel'', ''Send an email if the backup fails''),
    (''emailToPlaceholder'', ''recipient@example.com''),
    (''emailNoSmtpWarning'', ''No SMTP account configured yet. Set one up in Preferences > Email for these emails to actually send.''),
    (''runAppBeforeLabel'', ''Run an application before the backup''),
    (''runAppAfterLabel'', ''Run an application after the backup''),
    (''runAppPlaceholder'', ''Path or command (optional)''),
    (''afterBackupWindowLabel'', ''When the backup finishes, the app window:''),
    (''afterBackupLeave'', ''Stays as it is''),
    (''afterBackupTray'', ''Minimises to the tray''),
    (''afterBackupExit'', ''Closes (the app exits)''),
    (''shutdownAfterLabel'', ''Turn off the computer after the backup''),
    (''shutdownAfterWarning'', ''The computer will shut down automatically when this backup finishes. Make sure that'' @ [CHR 0x27] @ ''s really what you want.''),
    (''useVSS'', ''Use VSS (Windows Shadow Copy / Linux Snapshot)''),
    (''vssAdminRequired'', ''VSS requires administrator privileges.''),
    (''vssAdminHint'', ''Restart the application as administrator (right-click '' @ [CHR 0xE2, CHR 0x86, CHR 0x92] @ '' Run as administrator) to use VSS.''),
    (''vssServiceAvailable'', ''VSS available via service.''),
    (''vssServiceHint'', ''The Windows service runs with the necessary privileges for VSS.''),
    (''splitFirstBackup'', ''Split this backup into multiple parts''),
    (''splitFirstBackupHint'', ''Recommended for the first backup of a large volume (C:'' @ [CHR 0x5C] @ '', D:'' @ [CHR 0x5C, CHR 0xE2, CHR 0x80, CHR 0xA6] @ ''): it splits the initial seed into smaller, resumable backups. Leave unchecked for subsequent backups (full). The size analysis can take a few minutes on a large volume.''),
    (''splitAnalyzing'', ''Analyzing size'' @ [CHR 0xE2, CHR 0x80, CHR 0xA6]),
    (''splitLaunching'', ''Starting {n} partial backups...''),
    (''listingSnapshots'', ''Listing snapshots...''),
    (''snapshotsFound'', ''{n} snapshot(s) found.''),
    (''backupProgress'', ''Backup progress''),
    (''timeRemaining'', ''Time remaining:''),
    (''speed'', ''Speed:''),
    (''elapsedTime'', ''Elapsed time:''),
    (''dataSizeLabel'', ''Data:''),
    (''chunksLabel'', ''Chunks:''),
    (''newChunksLabel'', ''new''),
    (''reusedChunksLabel'', ''reused''),
    (''failedChunksLabel'', ''failed''),
    (''currentDirLabel'', ''Folder:''),
    (''queuedCountOne'', ''1 more backup queued'' @ [CHR 0xE2, CHR 0x80, CHR 0xA6]),
    (''queuedCountMany'', ''{n} more backups queued'' @ [CHR 0xE2, CHR 0x80, CHR 0xA6]),
    (''atLeastOneDisk'', ''At least one disk is required''),
    (''atLeastOneDirectory'', ''At least one directory is required''),
    (''splitBackupUnavailable'', ''Split backup not available''),
    (''schedulingUnavailable'', ''Scheduling function not available''),
    (''wailsRuntimeUnavailable'', ''Wails runtime not available''),
    (''splitStartFailed'', ''Backup {n}/{total} could not start:'' @ [CHR 0x0A] @ ''{msg}'' @ [CHR 0x0A, CHR 0x0A] @ ''Retry this part?''),
    (''splitRetryPrompt'', ''Backup {n}/{total} failed:'' @ [CHR 0x0A] @ ''{msg}'' @ [CHR 0x0A, CHR 0x0A] @ ''Retry this part before continuing?''),
    (''partStartFail'', ''Part {n}: could not start ({msg})''),
    (''partDone'', ''Part {n}: {msg}''),
    (''partSuccess'', ''done''),
    (''partFailed'', ''failed''),
    (''backupPartDone'', ''Backup {n}/{total} done''),
    (''backupPartFailed'', ''Backup {n}/{total} failed: {msg}''),
    (''allPartsDone'', ''All partial backups completed successfully ({n}/{total})''),
    (''partialBackup'', ''Partial backup: {ok}/{total} OK, {fail} failed:'' @ [CHR 0x0A] @ ''{fails}''),
    (''splitBackupError'', ''Split backup error: {err}''),
    (''backupInProgress'', ''Backup in progress...''),
    (''startBackup'', ''Start backup''),
    (''saveSchedule'', ''Save Backup Set''),
    (''stopBackup'', ''Stop''),
    (''stopBackupUnavailable'', ''Stop function unavailable''),
    (''stopBackupInProgress'', ''Stopping the backup...''),
    (''stopRestore'', ''Stop''),
    (''stopRestoreUnavailable'', ''Stop function unavailable''),
    (''stopRestoreInProgress'', ''Stopping the restore...''),
    (''cancelEdit'', ''Cancel''),
    (''scheduledJobs'', ''Scheduled jobs''),
    (''manageBackupSets'', ''Manage Backup Sets'' @ [CHR 0xE2, CHR 0x80, CHR 0xA6]),
    (''manageBackupSetsHint'', ''Create, modify or delete the backup sets below.''),
    (''oneOffBackup'', ''One-off Backup'' @ [CHR 0xE2, CHR 0x80, CHR 0xA6]),
    (''yourBackupSets'', ''Your backup sets''),
    (''noBackupSetsYet'', ''No backup sets yet. Create one, or just run a one-off backup.''),
    (''backupSetName'', ''Backup set name''),
    (''backupSetNamePlaceholder'', ''e.g. Documents, All Local Drives''),
    (''lastRun'', ''Last run:''),
    (''neverRun'', ''Never run yet''),
    (''agoPhrase'', ''{time} ago''),
    (''agoJustNow'', ''just now''),
    (''agoJoin'', '', ''),
    (''agoDays_one'', ''{n} day''),
    (''agoDays_other'', ''{n} days''),
    (''agoHours_one'', ''{n} hour''),
    (''agoHours_other'', ''{n} hours''),
    (''agoMinutes_one'', ''{n} minute''),
    (''agoMinutes_other'', ''{n} minutes''),
    (''newBackupSet'', ''New Backup Set''),
    (''addNewBackupSet'', ''Add New Backup Set''),
    (''editBackupSet'', ''Edit Backup Set''),
    (''statusJobUpdated'', ''Backup set updated''),
    (''statusJobScheduled'', ''Backup set saved''),
    (''editJob'', ''Edit''),
    (''cloneJob'', ''Clone this Backup Set''),
    (''cloneNameSuffix'', ''{name} (copy)''),
    (''deleteJob'', ''Delete this Backup Set''),
    (''editModeInfo'', ''Edit mode: change the settings and save''),
    (''backupHistory'', ''Backup history''),
    (''rerun'', ''Rerun''),
    (''reportsEmpty'', ''No backups have run yet.''),
    (''reportsSelectPrompt'', ''Select a run from the list to see its details.''),
    (''reportsFolders'', ''Folders''),
    (''snapshotReading'', ''Snapshot found, reading file list...''),
    (''snapshotFolderLoading'', ''Loading...''),
    (''snapshotShowMore'', ''Show {n} more'')]"

lemma en_texts_4_holes: "scan_texts en_texts_4 = Some
   [(''runNowError'', [''error'']),
    (''schedulingInfoInterval'', [''n'']),
    (''everyNMinutes'', [''n'']),
    (''splitLaunching'', [''n'']),
    (''snapshotsFound'', [''n'']),
    (''queuedCountMany'', [''n'']),
    (''splitStartFailed'', [''n'', ''total'', ''msg'']),
    (''splitRetryPrompt'', [''n'', ''total'', ''msg'']),
    (''partStartFail'', [''n'', ''msg'']),
    (''partDone'', [''n'', ''msg'']),
    (''backupPartDone'', [''n'', ''total'']),
    (''backupPartFailed'', [''n'', ''total'', ''msg'']),
    (''allPartsDone'', [''n'', ''total'']),
    (''partialBackup'', [''ok'', ''total'', ''fail'', ''fails'']),
    (''splitBackupError'', [''err'']),
    (''agoPhrase'', [''time'']),
    (''agoDays_one'', [''n'']),
    (''agoDays_other'', [''n'']),
    (''agoHours_one'', [''n'']),
    (''agoHours_other'', [''n'']),
    (''agoMinutes_one'', [''n'']),
    (''agoMinutes_other'', [''n'']),
    (''cloneNameSuffix'', [''name'']),
    (''snapshotShowMore'', [''n''])]"
  by code_simp

lemma en_texts_4_keys: "map fst en_texts_4 =
   [''triggerModeDaily'', ''triggerModeInterval'', ''triggerModeManual'', ''schedulingInfoManual'', ''manualOnDemand'', ''runNow'', 
    ''runNowQuick'', ''runNowFull'', ''runNowQuickShort'', ''runNowFullShort'', ''readReasonRequested'', ''runNowError'', 
    ''intervalMinutesLabel'', ''windowAllDay'', ''windowBetween'', ''windowAnd'', ''daysOfWeekLabel'', ''dayMon'', 
    ''dayTue'', ''dayWed'', ''dayThu'', ''dayFri'', ''daySat'', ''daySun'', 
    ''schedulingInfoInterval'', ''schedulingInfoDays'', ''atStartupLabel'', ''everyNMinutes'', ''everyDay'', ''directoriesToBackup'', 
    ''advancedEditAsText'', ''physicalDisksToBackup'', ''loadingDisks'', ''filesToExclude'', ''backupID'', ''backupIDPlaceholder'', 
    ''backupIdDefaultNote'', ''backupCommentLabel'', ''backupCommentPlaceholder'', ''tabSource'', ''tabExclusions'', ''tabSchedule'', 
    ''tabDestination'', ''tabAlerts'', ''emailOnSuccessLabel'', ''emailOnFailureLabel'', ''emailToPlaceholder'', ''emailNoSmtpWarning'', 
    ''runAppBeforeLabel'', ''runAppAfterLabel'', ''runAppPlaceholder'', ''afterBackupWindowLabel'', ''afterBackupLeave'', ''afterBackupTray'', 
    ''afterBackupExit'', ''shutdownAfterLabel'', ''shutdownAfterWarning'', ''useVSS'', ''vssAdminRequired'', ''vssAdminHint'', 
    ''vssServiceAvailable'', ''vssServiceHint'', ''splitFirstBackup'', ''splitFirstBackupHint'', ''splitAnalyzing'', ''splitLaunching'', 
    ''listingSnapshots'', ''snapshotsFound'', ''backupProgress'', ''timeRemaining'', ''speed'', ''elapsedTime'', 
    ''dataSizeLabel'', ''chunksLabel'', ''newChunksLabel'', ''reusedChunksLabel'', ''failedChunksLabel'', ''currentDirLabel'', 
    ''queuedCountOne'', ''queuedCountMany'', ''atLeastOneDisk'', ''atLeastOneDirectory'', ''splitBackupUnavailable'', ''schedulingUnavailable'', 
    ''wailsRuntimeUnavailable'', ''splitStartFailed'', ''splitRetryPrompt'', ''partStartFail'', ''partDone'', ''partSuccess'', 
    ''partFailed'', ''backupPartDone'', ''backupPartFailed'', ''allPartsDone'', ''partialBackup'', ''splitBackupError'', 
    ''backupInProgress'', ''startBackup'', ''saveSchedule'', ''stopBackup'', ''stopBackupUnavailable'', ''stopBackupInProgress'', 
    ''stopRestore'', ''stopRestoreUnavailable'', ''stopRestoreInProgress'', ''cancelEdit'', ''scheduledJobs'', ''manageBackupSets'', 
    ''manageBackupSetsHint'', ''oneOffBackup'', ''yourBackupSets'', ''noBackupSetsYet'', ''backupSetName'', ''backupSetNamePlaceholder'', 
    ''lastRun'', ''neverRun'', ''agoPhrase'', ''agoJustNow'', ''agoJoin'', ''agoDays_one'', 
    ''agoDays_other'', ''agoHours_one'', ''agoHours_other'', ''agoMinutes_one'', ''agoMinutes_other'', ''newBackupSet'', 
    ''addNewBackupSet'', ''editBackupSet'', ''statusJobUpdated'', ''statusJobScheduled'', ''editJob'', ''cloneJob'', 
    ''cloneNameSuffix'', ''deleteJob'', ''editModeInfo'', ''backupHistory'', ''rerun'', ''reportsEmpty'', 
    ''reportsSelectPrompt'', ''reportsFolders'', ''snapshotReading'', ''snapshotFolderLoading'', ''snapshotShowMore'']"
  unfolding en_texts_4_def by (simp only: list.map fst_conv)

definition en_texts_5 :: "(string \<times> string) list" where
  "en_texts_5 = [
    (''snapshotOfTotal'', ''{shown} of {total} shown''),
    (''snapshotBuilding'', ''Found {n} entries, building file tree...''),
    (''snapshotEmpty'', ''This snapshot has no entries.''),
    (''reportsTypeRestore'', ''Restore''),
    (''reportsSnapshot'', ''Snapshot''),
    (''reportsDestination'', ''Destination''),
    (''reportsPaths'', ''Paths''),
    (''reportsWholeSnapshot'', ''Whole snapshot''),
    (''reportsFiles'', ''Files''),
    (''reportsSize'', ''Size''),
    (''reportsDuration'', ''Duration''),
    (''reportsBackupSize'', ''Backup size''),
    (''reportsChunks'', ''Chunks''),
    (''reportsChunkTotal'', ''Total''),
    (''reportsChunkBlank'', ''Blank''),
    (''reportsChunkFailed'', ''Failed''),
    (''reportsUploaded'', ''New/changed data''),
    (''reportsWarnings'', ''Warnings''),
    (''logMachineBackupCompletedShort'', ''Machine backup completed''),
    (''sentLabel'', ''Data transferred:''),
    (''newDataLabel'', ''New/changed data:''),
    (''ratioLabel'', ''Compression ratio:''),
    (''reportsRatio'', ''Compression ratio''),
    (''stageRetryWait'', ''Connection to the server lost: starting again at {time} (attempt {n} of {count})''),
    (''reportsSent'', ''Data transferred''),
    (''restoreStagePreparing'', ''Connecting and preparing restore...''),
    (''restoreStageLocating'', ''Reading snapshot index and locating files...''),
    (''restoreStageTransferring'', ''Fetching chunks and writing files...''),
    (''restoreStageAcls'', ''Restoring ACLs and attributes...''),
    (''reportsMode'', ''Mode''),
    (''reportsType'', ''Type''),
    (''triggerScheduled'', ''Automatic (scheduled)''),
    (''triggerStartup'', ''Automatic (at startup)''),
    (''triggerManual'', ''Manual (Run Now)''),
    (''triggerOneoff'', ''Manual (one-off)''),
    (''reportsTypeDirectory'', ''Folders''),
    (''reportsTypeMachine'', ''Full machine''),
    (''vssOn'', ''On''),
    (''vssOff'', ''Off''),
    (''configLoaded'', ''Configuration loaded, start backup''),
    (''restoreTitle'', ''Restore''),
    (''backupIDToRestore'', ''Backup ID to restore (optional)''),
    (''listSnapshots'', ''List available snapshots''),
    (''availableSnapshots'', ''Available snapshots''),
    (''tileView'', ''Tile''),
    (''listView'', ''List''),
    (''sizeLabel'', ''Size''),
    (''snapshotDate'', ''Date''),
    (''noSnapshotFound'', ''No snapshot found''),
    (''restore'', ''Restore''),
    (''restoreInfo'', ''Restore:''),
    (''restoreInfoText'', ''Pick the source PBS server, then list snapshots. Leave Backup ID empty to browse every backup set (useful when restoring onto a replacement machine).''),
    (''restoreInfoText2'', ''Select a snapshot, browse the tree to tick files/directories to restore, then click Restore.''),
    (''restoreDestPrompt'', ''Destination path for restoration:''),
    (''restorePBSServer'', ''Source PBS server''),
    (''backupPBSServer'', ''Destination PBS server''),
    (''noPBSServer'', ''No server configured''),
    (''typeLabel'', ''Type''),
    (''selectSnapshot'', ''Select''),
    (''snapshotSelected'', ''Selected''),
    (''snapshotContents'', ''Snapshot contents''),
    (''treeHint'', ''Tick files or folders to restore. Select at least one, or nothing will be restored.''),
    (''reloadTree'', ''Reload''),
    (''reloadTreeHint'', ''Bypass local cache and re-download the tree from PBS''),
    (''metaOriginalPath'', ''Backed up from''),
    (''metaHostname'', ''Machine''),
    (''metaBackupTime'', ''Backed up at''),
    (''loadingOrEmpty'', ''Loading or empty snapshot...''),
    (''loadingSnapshotContents'', ''Downloading tree...''),
    (''entriesLoaded'', ''entries loaded''),
    (''selectionCount'', ''{n} entry(ies) selected.''),
    (''selectionCountSize'', ''{n} entry(ies) selected '' @ [CHR 0xC2, CHR 0xB7] @ '' {size} to restore.''),
    (''selectionEmptyNone'', ''No selection: nothing will be restored.''),
    (''selectAllEntries'', ''Select all''),
    (''selectNoneEntries'', ''Select none''),
    (''noFilesSelectedError'', ''No files selected: nothing to restore.''),
    (''originTooltip'', ''Original location: {path}''),
    (''searchTitle'', ''Search for a file''),
    (''searchHint'', ''Searches every backup starting with '' @ [CHR 0xE2, CHR 0x80, CHR 0x9C] @ ''{prefix}'' @ [CHR 0xE2, CHR 0x80, CHR 0x9D] @ '' (all split parts), over the chosen period.''),
    (''searchQueryLabel'', ''Search term''),
    (''searchQueryPlaceholder'', ''e.g. invoice, *.docx, report-2024''),
    (''searchModeLabel'', ''Type''),
    (''searchModeName'', ''File name''),
    (''searchModeRegex'', ''Regular expression''),
    (''searchModePath'', ''Full path''),
    (''searchFrom'', ''From''),
    (''searchTo'', ''To''),
    (''searchAssembleMissing'', ''Also assemble snapshots not yet browsed (slower, downloads archives)''),
    (''searchButton'', ''Search''),
    (''searching'', ''Searching'' @ [CHR 0xE2, CHR 0x80, CHR 0xA6]),
    (''searchQueryRequired'', ''Enter a search term.''),
    (''searchDone'', ''{n} result(s) found.''),
    (''searchSummary'', ''{hits} result(s) '' @ [CHR 0xC2, CHR 0xB7] @ '' {searched} snapshot(s) scanned '' @ [CHR 0xC2, CHR 0xB7] @ '' {assembled} assembled.''),
    (''searchTruncated'', ''Reached the {max}-result cap. Refine your search.''),
    (''searchCancelled'', ''Search cancelled: partial results.''),
    (''searchSkippedWarning'', ''{n} snapshot(s) not scanned (not in cache). Tick '' @ [CHR 0xE2, CHR 0x80, CHR 0x9C] @ ''assemble'' @ [CHR 0xE2, CHR 0x80, CHR 0x9D] @ '' for a complete search.''),
    (''searchNoSnapshotsInRange'', ''No snapshot in the chosen period. Widen the '' @ [CHR 0xE2, CHR 0x80, CHR 0x9C] @ ''From / To'' @ [CHR 0xE2, CHR 0x80, CHR 0x9D] @ '' dates.''),
    (''searchNoResults'', ''No matching file.''),
    (''chooseBackupUrl'', []),
    (''searchRestoreThis'', ''Prepare restore''),
    (''destinationPath'', ''Destination folder''),
    (''browse'', ''Browse''),
    (''restoreModeInPlace'', ''Restore to original path''),
    (''restoreModeAlternate'', ''Restore to alternate path''),
    (''inPlaceNoMeta'', ''snapshot has no metadata''),
    (''inPlaceNoOriginalPath'', ''original path missing''),
    (''inPlaceOsMismatch'', ''original OS differs''),
    (''inPlaceWarning'', ''This will overwrite the contents of {path}. Existing files will be replaced with the backed-up version.''),
    (''inPlaceConfirm'', ''Restore in-place to {path}? This cannot be undone.''),
    (''crossHostOverride'', ''Restore here anyway (backed up on {src}, this computer is {dst})''),
    (''keepTreeLabel'', ''Keep original directory structure''),
    (''keepTreeOnHint'', ''(dest/Users/alice/doc.txt)''),
    (''keepTreeOffHint'', ''(dest/doc.txt, recommended for a single file)''),
    (''overwriteForcedInPlace'', ''Overwrite is implicit in in-place mode''),
    (''optionOverwrite'', ''Overwrite existing files''),
    (''optionTimestamps'', ''Restore modification times''),
    (''optionACLs'', ''Restore permissions/ACLs''),
    (''optionACLsHint'', ''Windows: re-applies the owner, group, permissions (DACL), and Hidden/System/Archive/ReadOnly attributes captured at backup time. Linux: re-applies POSIX ACLs and extended attributes.''),
    (''optionVerify'', ''Verify after restore''),
    (''optionVerifyHint'', ''After restoring, re-read every restored file and compare it with the snapshot. Takes extra time; mismatches are reported, nothing is deleted.''),
    (''restoreStageDirTimes'', ''Setting folder timestamps...''),
    (''restoreStageVerifying'', ''Verifying restored files...''),
    (''restoreVerifiedSuffix'', ''{n} files verified against the snapshot''),
    (''reportsVerification'', ''Verification''),
    (''reportsVerifyOk'', ''All {n} files match''),
    (''reportsVerifyFailed'', ''{n} file(s) did not match''),
    (''restoring'', ''Restoring...''),
    (''selectSnapshotFirst'', ''Select a snapshot first''),
    (''destinationRequired'', ''Destination folder required''),
    (''restoreBetaTitle'', ''BETA FEATURE''),
    (''restoreBetaIntro'', ''Restore is in BETA. Currently it supports:''),
    (''restoreBetaFilesDirs'', ''Files and directories (full tree)''),
    (''restoreBetaSelective'', ''Selective restore (file by file)''),
    (''restoreBetaTimestamps'', ''Modification time restore''),
    (''restoreBetaMultiServer'', ''Select from multiple PBS Servers''),
    (''restoreBetaACLsDone'', ''NTFS/ACL permissions (Windows) and POSIX ACLs (Linux)''),
    (''aboutTitle'', ''About''),
    (''version'', ''Version''),
    (''features'', ''Features'')]"

lemma en_texts_5_holes: "scan_texts en_texts_5 = Some
   [(''snapshotOfTotal'', [''shown'', ''total'']),
    (''snapshotBuilding'', [''n'']),
    (''stageRetryWait'', [''time'', ''n'', ''count'']),
    (''selectionCount'', [''n'']),
    (''selectionCountSize'', [''n'', ''size'']),
    (''originTooltip'', [''path'']),
    (''searchHint'', [''prefix'']),
    (''searchDone'', [''n'']),
    (''searchSummary'', [''hits'', ''searched'', ''assembled'']),
    (''searchTruncated'', [''max'']),
    (''searchSkippedWarning'', [''n'']),
    (''inPlaceWarning'', [''path'']),
    (''inPlaceConfirm'', [''path'']),
    (''crossHostOverride'', [''src'', ''dst'']),
    (''restoreVerifiedSuffix'', [''n'']),
    (''reportsVerifyOk'', [''n'']),
    (''reportsVerifyFailed'', [''n''])]"
  by code_simp

lemma en_texts_5_keys: "map fst en_texts_5 =
   [''snapshotOfTotal'', ''snapshotBuilding'', ''snapshotEmpty'', ''reportsTypeRestore'', ''reportsSnapshot'', ''reportsDestination'', 
    ''reportsPaths'', ''reportsWholeSnapshot'', ''reportsFiles'', ''reportsSize'', ''reportsDuration'', ''reportsBackupSize'', 
    ''reportsChunks'', ''reportsChunkTotal'', ''reportsChunkBlank'', ''reportsChunkFailed'', ''reportsUploaded'', ''reportsWarnings'', 
    ''logMachineBackupCompletedShort'', ''sentLabel'', ''newDataLabel'', ''ratioLabel'', ''reportsRatio'', ''stageRetryWait'', 
    ''reportsSent'', ''restoreStagePreparing'', ''restoreStageLocating'', ''restoreStageTransferring'', ''restoreStageAcls'', ''reportsMode'', 
    ''reportsType'', ''triggerScheduled'', ''triggerStartup'', ''triggerManual'', ''triggerOneoff'', ''reportsTypeDirectory'', 
    ''reportsTypeMachine'', ''vssOn'', ''vssOff'', ''configLoaded'', ''restoreTitle'', ''backupIDToRestore'', 
    ''listSnapshots'', ''availableSnapshots'', ''tileView'', ''listView'', ''sizeLabel'', ''snapshotDate'', 
    ''noSnapshotFound'', ''restore'', ''restoreInfo'', ''restoreInfoText'', ''restoreInfoText2'', ''restoreDestPrompt'', 
    ''restorePBSServer'', ''backupPBSServer'', ''noPBSServer'', ''typeLabel'', ''selectSnapshot'', ''snapshotSelected'', 
    ''snapshotContents'', ''treeHint'', ''reloadTree'', ''reloadTreeHint'', ''metaOriginalPath'', ''metaHostname'', 
    ''metaBackupTime'', ''loadingOrEmpty'', ''loadingSnapshotContents'', ''entriesLoaded'', ''selectionCount'', ''selectionCountSize'', 
    ''selectionEmptyNone'', ''selectAllEntries'', ''selectNoneEntries'', ''noFilesSelectedError'', ''originTooltip'', ''searchTitle'', 
    ''searchHint'', ''searchQueryLabel'', ''searchQueryPlaceholder'', ''searchModeLabel'', ''searchModeName'', ''searchModeRegex'', 
    ''searchModePath'', ''searchFrom'', ''searchTo'', ''searchAssembleMissing'', ''searchButton'', ''searching'', 
    ''searchQueryRequired'', ''searchDone'', ''searchSummary'', ''searchTruncated'', ''searchCancelled'', ''searchSkippedWarning'', 
    ''searchNoSnapshotsInRange'', ''searchNoResults'', ''chooseBackupUrl'', ''searchRestoreThis'', ''destinationPath'', ''browse'', 
    ''restoreModeInPlace'', ''restoreModeAlternate'', ''inPlaceNoMeta'', ''inPlaceNoOriginalPath'', ''inPlaceOsMismatch'', ''inPlaceWarning'', 
    ''inPlaceConfirm'', ''crossHostOverride'', ''keepTreeLabel'', ''keepTreeOnHint'', ''keepTreeOffHint'', ''overwriteForcedInPlace'', 
    ''optionOverwrite'', ''optionTimestamps'', ''optionACLs'', ''optionACLsHint'', ''optionVerify'', ''optionVerifyHint'', 
    ''restoreStageDirTimes'', ''restoreStageVerifying'', ''restoreVerifiedSuffix'', ''reportsVerification'', ''reportsVerifyOk'', ''reportsVerifyFailed'', 
    ''restoring'', ''selectSnapshotFirst'', ''destinationRequired'', ''restoreBetaTitle'', ''restoreBetaIntro'', ''restoreBetaFilesDirs'', 
    ''restoreBetaSelective'', ''restoreBetaTimestamps'', ''restoreBetaMultiServer'', ''restoreBetaACLsDone'', ''aboutTitle'', ''version'', 
    ''features'']"
  unfolding en_texts_5_def by (simp only: list.map fst_conv)

definition en_texts_6 :: "(string \<times> string) list" where
  "en_texts_6 = [
    (''copyright'', [CHR 0xC2, CHR 0xA9] @ '' 2024-2026 Salvanza contributors and RDEM Systems.''),
    (''legalLicense'', ''Licensed under the GNU General Public License v3.0 (GPLv3).''),
    (''legalDisclaimer'', ''Not affiliated with Proxmox Server Solutions GmbH. '' @ [CHR 0x22] @ ''Proxmox'' @ [CHR 0x22] @ '' and related marks are the property of their respective owners, used here only to state compatibility.''),
    (''legalWarranty'', ''Provided as is, without guarantee or warranty of any kind; use it at your own risk.''),
    (''aboutLinks'', ''Links''),
    (''aboutLinkReleases'', ''Releases''),
    (''aboutLinkSource'', ''Source code''),
    (''aboutLinkIssues'', ''Report a bug''),
    (''aboutLinkLicense'', ''License''),
    (''aboutLinkWebsite'', ''Website''),
    (''aboutLinkHelp'', ''Help''),
    (''aboutLinkContact'', ''Contact''),
    (''statusDiskError'', ''Error detecting disks:''),
    (''statusServerLoadError'', ''Error loading servers:''),
    (''statusServerAdded'', ''PBS server added''),
    (''errServerNameRequired'', ''Server name is required''),
    (''statusServerUpdated'', ''PBS server updated''),
    (''statusServerDeleted'', ''PBS server deleted''),
    (''statusServerSetDefault'', ''Server '' @ [CHR 0x22] @ ''{id}'' @ [CHR 0x22] @ '' set as default''),
    (''statusConnectionSuccess'', ''Connection to server '' @ [CHR 0x22] @ ''{id}'' @ [CHR 0x22] @ '' successful''),
    (''statusConnectionFailed'', ''Connection failed:''),
    (''statusConfigSaved'', ''Configuration saved''),
    (''statusConnectionOK'', ''Connection successful!''),
    (''tofuConfirm'', ''Server {host} presented a self-signed certificate (not verifiable by a known authority).'' @ [CHR 0x0A, CHR 0x0A] @ ''SHA-256 fingerprint:'' @ [CHR 0x0A] @ ''{fp}'' @ [CHR 0x0A, CHR 0x0A] @ ''Verify this fingerprint on the PBS server, then confirm to pin it and trust this certificate.''),
    (''statusFingerprintPinned'', ''Certificate fingerprint pinned, connection established''),
    (''statusFingerprintPinnedSave'', ''Fingerprint pinned and connection OK. Click Save to keep it.''),
    (''statusFingerprintFailed'', ''Could not fetch/pin the fingerprint:''),
    (''statusConfigLoaded'', ''Configuration loaded from file''),
    (''statusInvalidJSON'', ''Error: invalid JSON file''),
    (''statusBackupComplete'', ''All partial backups completed successfully ({done}/{total})''),
    (''statusSplitError'', ''Split backup error:''),
    (''statusSchedulingUnavailable'', ''Scheduling function unavailable''),
    (''statusBackupStarting'', ''Starting backup...''),
    (''statusBackupRunning'', ''Backup in progress...''),
    (''statusRestoring'', ''Restoring snapshot {time}...''),
    (''statusRestoreComplete'', ''Restoration complete!''),
    (''statusJobDeleted'', ''Backup set deleted''),
    (''statusEditCancelled'', ''Edit cancelled''),
    (''statusError'', ''Error:''),
    (''statusConfirm'', ''Are you sure?''),
    (''confirmDeleteServer'', ''Do you really want to delete the PBS server '' @ [CHR 0x22] @ ''{id}'' @ [CHR 0x22] @ ''?''),
    (''confirmDeleteJob'', ''Do you really want to delete the Backup Set '' @ [CHR 0x22] @ ''{name}'' @ [CHR 0x22] @ ''?''),
    (''pauseBackup'', ''Pause''),
    (''resumeBackup'', ''Resume''),
    (''pausedShort'', ''Paused''),
    (''stagePaused'', ''Paused for {duration}. The connection to the server stays open: Resume carries on from here.''),
    (''pauseBackupHint'', ''Stops reading and uploading for this backup until you press Resume. Other backups carry on.''),
    (''otherRunsTitle'', ''Also running ({n})''),
    (''showRun'', ''Show''),
    (''showRunHint'', ''Show this backup on the card above''),
    (''prevRunHint'', ''Previous running backup''),
    (''nextRunHint'', ''Next running backup''),
    (''stopRunHint'', ''Stop this backup''),
    (''maxRunsLabel'', ''Maximum Concurrent Backups:''),
    (''maxRunsHint'', ''How many backups and restores may run at the same time, so a long first backup no longer holds up the other Backup Sets. Whatever this is set to, one machine backup and one restore run at a time, and a Backup Set never runs twice at once. 1 runs them one after another, as before.''),
    (''speedLimitsTitle'', ''Speed limits''),
    (''speedLimitUpload'', ''Upload to PBS (MB/s)''),
    (''speedLimitDownload'', ''Download from PBS (MB/s)''),
    (''speedLimitDiskRead'', ''Disk read (MB/s)''),
    (''speedLimitNone'', ''No limit''),
    (''speedLimitsHint'', ''Each limit is shared by all backups and restores running at the same time; 0 or empty means no limit. A backup reads and then uploads, so it goes no faster than the lower of Disk read and Upload, but unchanged data is read and not uploaded, so a mostly unchanged backup is held back by Disk read. Download applies to restores, browsing, Undelete and Roll back.''),
    (''uploadThreadsLabel'', ''Upload threads:''),
    (''uploadThreadsAuto'', ''Auto''),
    (''uploadThreadsHint'', ''How many chunks a backup sends to PBS at a time. Auto starts with one and adds one for every 4 Mbit/s of upload speed it measures, up to 8: a fast network soon uses all 8, and a slow link to an offsite PBS sends one or two, so each chunk arrives in seconds. Hashing always uses every worker. Applies at once, also to backups already running.''),
    (''chunkTimeoutLabel'', ''Chunk timeout:''),
    (''chunkTimeoutDefault'', ''Automatic (90 s)''),
    (''chunkTimeoutHint'', ''How long a chunk upload may stop moving before it is given up and sent again. A slow link that is still sending is never given up, however long a chunk takes. Automatic waits 90 seconds; a longer time suits a link that often pauses. Applies to the next chunks, also in backups already running.''),
    (''prefsSharesTab'', ''Network Shares''),
    (''sharesIntro'', ''The background service runs the backups, and it reaches a folder on another computer'' @ [CHR 0x27] @ ''s share as this computer itself, not as you. A share that needs a user name and password refuses it. Save a login for the server here, or when you add the folder to a Backup Set, and the service connects with it for each backup. Passwords are stored encrypted and are not shown again.''),
    (''sharesNoService'', ''The backups run in this app, so they read network shares as you, with your own access: no login is needed here.''),
    (''sharesLinux'', ''On Linux, mount the share with its own credentials and back up the folder it is mounted at.''),
    (''sharesNone'', ''No logins are saved.''),
    (''sharesServer'', ''Server''),
    (''sharesUser'', ''User name''),
    (''sharesAdd'', ''Add login...''),
    (''sharesChange'', ''Change...''),
    (''sharesRemove'', ''Remove''),
    (''sharesRemoveConfirm'', ''Remove the saved login for {server}? Backups of folders on its shares are then refused until a login is saved again.''),
    (''shareLoginTitle'', ''Login for a network share''),
    (''shareLoginBody'', ''The background service needs a user name and password to read {server}. It is tried on the folder below before it is saved, and used for every share on that server.''),
    (''shareLoginUserPlaceholder'', ''user, SERVER'' @ [CHR 0x5C] @ ''user or DOMAIN'' @ [CHR 0x5C] @ ''user''),
    (''shareLoginPassword'', ''Password''),
    (''shareLoginPasswordKeep'', ''leave empty to keep the saved password''),
    (''shareLoginTestFolder'', ''Folder to try it on''),
    (''shareLoginTestHint'', ''A folder on one of the server'' @ [CHR 0x27] @ ''s shares, as '' @ [CHR 0x5C, CHR 0x5C] @ ''server'' @ [CHR 0x5C] @ ''share'' @ [CHR 0x5C] @ ''folder. Leave it empty to save without trying.''),
    (''shareLoginSave'', ''Try and save''),
    (''shareLoginCancel'', ''Cancel''),
    (''shareLoginTesting'', ''Trying...''),
    (''shareLoginSaved'', ''Login saved''),
    (''shareCannotOpenTitle'', ''The service cannot open some folders''),
    (''shareCannotOpenIntro'', ''The background service cannot open these folders, so backing them up will fail:''),
    (''shareContinue'', ''Continue anyway''),
    (''shareGoBack'', ''Go back''),
    (''compressionLabel'', ''Compression:''),
    (''compressionFastest'', ''Fastest''),
    (''compressionDefault'', ''Default (zstd level 3)''),
    (''compressionBetter'', ''Better''),
    (''compressionBest'', ''Best''),
    (''compressionHint'', ''How hard backup data is compressed before it is sent to PBS, which stores it as it arrives: a higher level sends less and uses less space on the PBS datastore, for more processor time. It applies only to data PBS does not have yet, so it can be changed at any time. Encrypted backups are not compressed.''),
    (''restoreSupportsCreated'', ''Creation times (Windows)''),
    (''restoreStageCreated'', ''Restoring creation times...''),
    (''confirmTitle'', ''Please confirm''),
    (''confirmContinue'', ''Continue''),
    (''noticeTitle'', ''Information''),
    (''dlgDeleteServerTitle'', ''Delete this PBS server?''),
    (''dlgTofuTitle'', ''Trust this server'' @ [CHR 0x27] @ ''s certificate?''),
    (''dlgTofuBtn'', ''Trust and connect''),
    (''dlgPartFailedTitle'', ''A backup part did not complete''),
    (''dlgRetry'', ''Retry''),
    (''dlgSkipPart'', ''Skip this part''),
    (''dlgInPlaceTitle'', ''Restore over the original files?''),
    (''dlgRestoreBtn'', ''Restore''),
    (''dlgDeleteJobTitle'', ''Delete this Backup Set?''),
    (''dlgUndeleteTitle'', ''Restore deleted files?''),
    (''dlgRollbackTitle'', ''Roll back the folders?''),
    (''dlgRollbackBtn'', ''Roll back''),
    (''dlgUndoTitle'', ''Undo this roll back?''),
    (''dlgDeleteKeptTitle'', ''Delete the kept versions?'')]"

lemma en_texts_6_holes: "scan_texts en_texts_6 = Some
   [(''statusServerSetDefault'', [''id'']),
    (''statusConnectionSuccess'', [''id'']),
    (''tofuConfirm'', [''host'', ''fp'']),
    (''statusBackupComplete'', [''done'', ''total'']),
    (''statusRestoring'', [''time'']),
    (''confirmDeleteServer'', [''id'']),
    (''confirmDeleteJob'', [''name'']),
    (''stagePaused'', [''duration'']),
    (''otherRunsTitle'', [''n'']),
    (''sharesRemoveConfirm'', [''server'']),
    (''shareLoginBody'', [''server''])]"
  by code_simp

lemma en_texts_6_keys: "map fst en_texts_6 =
   [''copyright'', ''legalLicense'', ''legalDisclaimer'', ''legalWarranty'', ''aboutLinks'', ''aboutLinkReleases'', 
    ''aboutLinkSource'', ''aboutLinkIssues'', ''aboutLinkLicense'', ''aboutLinkWebsite'', ''aboutLinkHelp'', ''aboutLinkContact'', 
    ''statusDiskError'', ''statusServerLoadError'', ''statusServerAdded'', ''errServerNameRequired'', ''statusServerUpdated'', ''statusServerDeleted'', 
    ''statusServerSetDefault'', ''statusConnectionSuccess'', ''statusConnectionFailed'', ''statusConfigSaved'', ''statusConnectionOK'', ''tofuConfirm'', 
    ''statusFingerprintPinned'', ''statusFingerprintPinnedSave'', ''statusFingerprintFailed'', ''statusConfigLoaded'', ''statusInvalidJSON'', ''statusBackupComplete'', 
    ''statusSplitError'', ''statusSchedulingUnavailable'', ''statusBackupStarting'', ''statusBackupRunning'', ''statusRestoring'', ''statusRestoreComplete'', 
    ''statusJobDeleted'', ''statusEditCancelled'', ''statusError'', ''statusConfirm'', ''confirmDeleteServer'', ''confirmDeleteJob'', 
    ''pauseBackup'', ''resumeBackup'', ''pausedShort'', ''stagePaused'', ''pauseBackupHint'', ''otherRunsTitle'', 
    ''showRun'', ''showRunHint'', ''prevRunHint'', ''nextRunHint'', ''stopRunHint'', ''maxRunsLabel'', 
    ''maxRunsHint'', ''speedLimitsTitle'', ''speedLimitUpload'', ''speedLimitDownload'', ''speedLimitDiskRead'', ''speedLimitNone'', 
    ''speedLimitsHint'', ''uploadThreadsLabel'', ''uploadThreadsAuto'', ''uploadThreadsHint'', ''chunkTimeoutLabel'', ''chunkTimeoutDefault'', 
    ''chunkTimeoutHint'', ''prefsSharesTab'', ''sharesIntro'', ''sharesNoService'', ''sharesLinux'', ''sharesNone'', 
    ''sharesServer'', ''sharesUser'', ''sharesAdd'', ''sharesChange'', ''sharesRemove'', ''sharesRemoveConfirm'', 
    ''shareLoginTitle'', ''shareLoginBody'', ''shareLoginUserPlaceholder'', ''shareLoginPassword'', ''shareLoginPasswordKeep'', ''shareLoginTestFolder'', 
    ''shareLoginTestHint'', ''shareLoginSave'', ''shareLoginCancel'', ''shareLoginTesting'', ''shareLoginSaved'', ''shareCannotOpenTitle'', 
    ''shareCannotOpenIntro'', ''shareContinue'', ''shareGoBack'', ''compressionLabel'', ''compressionFastest'', ''compressionDefault'', 
    ''compressionBetter'', ''compressionBest'', ''compressionHint'', ''restoreSupportsCreated'', ''restoreStageCreated'', ''confirmTitle'', 
    ''confirmContinue'', ''noticeTitle'', ''dlgDeleteServerTitle'', ''dlgTofuTitle'', ''dlgTofuBtn'', ''dlgPartFailedTitle'', 
    ''dlgRetry'', ''dlgSkipPart'', ''dlgInPlaceTitle'', ''dlgRestoreBtn'', ''dlgDeleteJobTitle'', ''dlgUndeleteTitle'', 
    ''dlgRollbackTitle'', ''dlgRollbackBtn'', ''dlgUndoTitle'', ''dlgDeleteKeptTitle'']"
  unfolding en_texts_6_def by (simp only: list.map fst_conv)

definition en_texts_7 :: "(string \<times> string) list" where
  "en_texts_7 = [
    (''dlgServiceRemoveTitle'', ''Remove the background service?''),
    (''dlgKeyCreateTitle'', ''Create an encryption key?''),
    (''dlgKeyCreateBtn'', ''Create key''),
    (''dlgKeyCreatedTitle'', ''Encryption key created''),
    (''dlgKeyFailedTitle'', ''The key could not be created''),
    (''scanPhaseWalkCount'', ''Reading the folder {folder}: {n} of about {total} files and folders''),
    (''scanPhaseWalkSoFar'', ''Reading the folder {folder}: {n} files and folders so far''),
    (''jobNameNotUnique'', ''There is already a Backup Set called '' @ [CHR 0x22] @ ''{name}'' @ [CHR 0x22] @ ''. Each set needs its own name.''),
    (''backupIdSuggested'', ''Made from this computer'' @ [CHR 0x27] @ ''s name and the set'' @ [CHR 0x27] @ ''s name, so this computer'' @ [CHR 0x27] @ ''s sets sit together on PBS. Type to choose your own.''),
    (''backupIdUseSuggested'', ''Use {id}''),
    (''backupIdChangeNote'', ''(a new ID starts a new group on PBS: its first incremental run reads every file, and earlier backups stay under the old ID)''),
    (''backupIdSharedWarn'', ''Also used by {names} on this server. Both sets then share one group on PBS: an incremental (metadata) run compares with the newest snapshot of either set and can end up reading every file, and Undelete and Roll back list both sets'' @ [CHR 0x27] @ '' snapshots.''),
    (''backupIdSharedBadge'', ''Shared ID''),
    (''backupIdSharedTip'', ''Backup ID {id} is also used on the same server by {names}. Edit the set to give it its own ID.''),
    (''setMoreMenu'', ''More''),
    (''computerServersButton'', ''Use one of this computer'' @ [CHR 0x27] @ ''s servers''),
    (''computerServersTip'', ''Add a PBS server this computer already has, with your own API token or username and password: the computer'' @ [CHR 0x27] @ ''s login is not shared.''),
    (''computerServersLoading'', ''Reading this computer'' @ [CHR 0x27] @ ''s servers'' @ [CHR 0xE2, CHR 0x80, CHR 0xA6]),
    (''computerServersNone'', ''This computer has no PBS servers yet.''),
    (''computerServersUnavailable'', ''This computer'' @ [CHR 0x27] @ ''s servers cannot be read: the background service is not running.''),
    (''computerServersEncrypted'', ''encrypted: choose your own key''),
    (''setEnable'', ''Enable''),
    (''setDisable'', ''Disable''),
    (''setDisabledBadge'', ''Disabled''),
    (''setEnabledBadge'', ''Enabled''),
    (''setEnabledHint'', ''Runs on its schedule.''),
    (''setDisabledHint'', ''Does not run on its schedule until you enable it. Run Now still works.''),
    (''setDisabledTip'', ''This set does not run on its schedule. You can still run it now. Enable it again from More.''),
    (''nextRunDisabled'', ''disabled''),
    (''statusSetEnabled'', ''Backup set enabled''),
    (''statusSetDisabled'', ''Backup set disabled''),
    (''nextRunAt'', ''Next run''),
    (''nextRunDue'', ''due now''),
    (''scanPhaseSnapshots'', ''Listing the set'' @ [CHR 0x27] @ ''s snapshots...''),
    (''scanPhaseIndex'', ''Reading the file list of snapshot {n} of {total}''),
    (''scanPhaseWalk'', ''Reading the folder {folder}...''),
    (''scanPhaseCompare'', ''Comparing...''),
    (''setPickerLabel'', ''Backup Set''),
    (''setPickerChoose'', ''Choose a folder Backup Set...''),
    (''setPickerNone'', ''There are no folder Backup Sets yet. Create one on the Backup page; machine sets are restored with bare-metal restore.''),
    (''undeleteNodeCount'', ''{n} files, {size}''),
    (''undeleteGoneBetween'', ''deleted between {a} and {b}''),
    (''undeleteGoneSince'', ''deleted since {a}''),
    (''undeleteMovedTo'', ''probably moved to {path}''),
    (''undeleteConfirmOriginal'', ''Put {n} files ({size}) back where they were? Files that exist again at those places are left alone.''),
    (''undeleteConfirmOther'', ''Restore {n} files ({size}) to {path}?''),
    (''undeleteTitle'', ''Undelete''),
    (''undeleteIntro'', ''Finds files that are in a Backup Set'' @ [CHR 0x27] @ ''s backups but no longer on disk, and puts them back. Only folder listings are read; no file is opened.''),
    (''undeleteLookBack'', ''Look back''),
    (''undeleteLatest'', ''Latest backup''),
    (''undeleteDays7'', ''Last 7 days''),
    (''undeleteDays30'', ''Last 30 days''),
    (''undeleteFind'', ''Find deleted files''),
    (''undeleteScanning'', ''Looking for deleted files...''),
    (''undeleteSlowHint'', ''A large set takes a few minutes: every folder is listed, and each snapshot'' @ [CHR 0x27] @ ''s file list is read once and kept on this computer.''),
    (''undeleteNone'', ''Nothing is missing: every file in the checked backups is on disk.''),
    (''undeleteFound'', ''{n} files ({size}) are in the backups but not on disk.''),
    (''undeleteChecked1'', ''Checked the backup of {a}.''),
    (''undeleteCheckedN'', ''Checked {n} backups, {a} to {b}.''),
    (''undeleteStale'', ''These results are from before the last undelete. Find deleted files again to refresh them.''),
    (''undeleteUnknown'', ''{n} files are under folders that could not be read now, so they are not listed:''),
    (''undeleteFilter'', ''Filter by name or folder''),
    (''selectAllShown'', ''Select all shown''),
    (''selectNoneShown'', ''Clear shown''),
    (''undeleteRestoreTo'', ''Restore to''),
    (''undeleteToOriginal'', ''Where they were''),
    (''undeleteToOther'', ''Another folder''),
    (''undeleteDestFolder'', ''Destination folder''),
    (''verifyAfterRestore'', ''Verify after restore''),
    (''undeleteStart'', ''Undelete {n} files ({size})''),
    (''rollbackNowSize'', ''now {size}''),
    (''rollbackMore'', ''... and {n} more''),
    (''rollbackNoneBefore'', ''There is no backup at or before that time.''),
    (''rollbackConfirm'', ''Roll back {set} to {when}? {restore} files will be restored or replaced and {remove} removed. Everything replaced or removed is kept first, so Undo can put it back.''),
    (''rollbackUndoConfirm'', ''Undo this roll back? Files it restored are deleted and the versions it kept go back.''),
    (''rollbackDeleteConfirm'', ''Delete the versions this roll back kept ({size})? It can no longer be undone.''),
    (''rollbackPolicyReplaceShort'', ''missing and changed''),
    (''rollbackPolicyMissingShort'', ''missing only''),
    (''rollbackPolicyExactShort'', ''exact''),
    (''rollbackTitle'', ''Roll back''),
    (''rollbackIntro'', ''Puts a Backup Set'' @ [CHR 0x27] @ ''s folders back as they were at a chosen backup. You see what would change first, and everything it replaces or removes is kept so the roll back can be undone.''),
    (''rollbackListing'', ''Listing the set'' @ [CHR 0x27] @ ''s backups...''),
    (''rollbackPickBackup'', ''Roll back to''),
    (''rollbackNoBackups'', ''This set has no backups on its server yet.''),
    (''rollbackAtTime'', ''The backup at or before:''),
    (''rollbackNewest'', ''newest''),
    (''rollbackPreview'', ''Show what would change''),
    (''rollbackComparing'', ''Comparing the backup with the folders...''),
    (''rollbackPreviewTitle'', ''Compared with the backup of {when}''),
    (''rollbackMissing'', ''Missing now''),
    (''rollbackFilesSize'', ''{n} files, {size}''),
    (''rollbackMissingHint'', ''In the backup, gone from disk: restored''),
    (''rollbackChanged'', ''Changed since''),
    (''rollbackChangedHint'', ''Different size or time: replaced by the backup'' @ [CHR 0x27] @ ''s version''),
    (''rollbackAdded'', ''Added since''),
    (''rollbackPlusFolders'', '', {n} folders''),
    (''rollbackAddedHint'', ''Not in the backup: kept, unless you choose exact''),
    (''rollbackUnchanged'', ''Unchanged''),
    (''rollbackFiles'', ''{n} files''),
    (''rollbackUnchangedHint'', ''Left as they are''),
    (''rollbackUnknown'', ''{n} files are under folders that could not be read now; they are left alone.''),
    (''rollbackShowMissing'', ''Missing files''),
    (''rollbackShowChanged'', ''Changed files''),
    (''rollbackShowAdded'', ''Files added since''),
    (''rollbackWhat'', ''What to do''),
    (''rollbackPolicyReplace'', ''Restore missing files and replace changed ones; keep files added since''),
    (''rollbackPolicyMissing'', ''Restore missing files only''),
    (''rollbackPolicyExact'', ''Exact roll back: also remove files added since''),
    (''rollbackTypeCount'', ''Type {n} to confirm that {n} files added since will be removed (kept for Undo)''),
    (''rollbackBackupFirst'', ''Back up the set first (keeps today'' @ [CHR 0x27] @ ''s state as a backup too)''),
    (''rollbackSafetyNote'', ''Before anything is replaced or removed it is moved to {folder} on the same disk, so Undo below can put it back. While the roll back runs, this set'' @ [CHR 0x27] @ ''s scheduled backups wait.''),
    (''rollbackNothing'', ''Nothing to roll back''),
    (''rollbackStart'', ''Roll back to {when}''),
    (''rollbackEarlier'', ''Earlier roll backs of this set''),
    (''rollbackRecordTo'', ''to the backup of {when}''),
    (''rollbackRecordCounts'', ''restored {a}, replaced {b}, removed {c}; kept {size}''),
    (''rollbackUndo'', ''Undo''),
    (''rollbackDeleteKept'', ''Delete kept versions''),
    (''serviceRunning'', ''running''),
    (''serviceStopped'', ''stopped''),
    (''serviceStarting'', ''starting'')]"

lemma en_texts_7_holes: "scan_texts en_texts_7 = Some
   [(''scanPhaseWalkCount'', [''folder'', ''n'', ''total'']),
    (''scanPhaseWalkSoFar'', [''folder'', ''n'']),
    (''jobNameNotUnique'', [''name'']),
    (''backupIdUseSuggested'', [''id'']),
    (''backupIdSharedWarn'', [''names'']),
    (''backupIdSharedTip'', [''id'', ''names'']),
    (''scanPhaseIndex'', [''n'', ''total'']),
    (''scanPhaseWalk'', [''folder'']),
    (''undeleteNodeCount'', [''n'', ''size'']),
    (''undeleteGoneBetween'', [''a'', ''b'']),
    (''undeleteGoneSince'', [''a'']),
    (''undeleteMovedTo'', [''path'']),
    (''undeleteConfirmOriginal'', [''n'', ''size'']),
    (''undeleteConfirmOther'', [''n'', ''size'', ''path'']),
    (''undeleteFound'', [''n'', ''size'']),
    (''undeleteChecked1'', [''a'']),
    (''undeleteCheckedN'', [''n'', ''a'', ''b'']),
    (''undeleteUnknown'', [''n'']),
    (''undeleteStart'', [''n'', ''size'']),
    (''rollbackNowSize'', [''size'']),
    (''rollbackMore'', [''n'']),
    (''rollbackConfirm'', [''set'', ''when'', ''restore'', ''remove'']),
    (''rollbackDeleteConfirm'', [''size'']),
    (''rollbackPreviewTitle'', [''when'']),
    (''rollbackFilesSize'', [''n'', ''size'']),
    (''rollbackPlusFolders'', [''n'']),
    (''rollbackFiles'', [''n'']),
    (''rollbackUnknown'', [''n'']),
    (''rollbackTypeCount'', [''n'', ''n'']),
    (''rollbackSafetyNote'', [''folder'']),
    (''rollbackStart'', [''when'']),
    (''rollbackRecordTo'', [''when'']),
    (''rollbackRecordCounts'', [''a'', ''b'', ''c'', ''size''])]"
  by code_simp

lemma en_texts_7_keys: "map fst en_texts_7 =
   [''dlgServiceRemoveTitle'', ''dlgKeyCreateTitle'', ''dlgKeyCreateBtn'', ''dlgKeyCreatedTitle'', ''dlgKeyFailedTitle'', ''scanPhaseWalkCount'', 
    ''scanPhaseWalkSoFar'', ''jobNameNotUnique'', ''backupIdSuggested'', ''backupIdUseSuggested'', ''backupIdChangeNote'', ''backupIdSharedWarn'', 
    ''backupIdSharedBadge'', ''backupIdSharedTip'', ''setMoreMenu'', ''computerServersButton'', ''computerServersTip'', ''computerServersLoading'', 
    ''computerServersNone'', ''computerServersUnavailable'', ''computerServersEncrypted'', ''setEnable'', ''setDisable'', ''setDisabledBadge'', 
    ''setEnabledBadge'', ''setEnabledHint'', ''setDisabledHint'', ''setDisabledTip'', ''nextRunDisabled'', ''statusSetEnabled'', 
    ''statusSetDisabled'', ''nextRunAt'', ''nextRunDue'', ''scanPhaseSnapshots'', ''scanPhaseIndex'', ''scanPhaseWalk'', 
    ''scanPhaseCompare'', ''setPickerLabel'', ''setPickerChoose'', ''setPickerNone'', ''undeleteNodeCount'', ''undeleteGoneBetween'', 
    ''undeleteGoneSince'', ''undeleteMovedTo'', ''undeleteConfirmOriginal'', ''undeleteConfirmOther'', ''undeleteTitle'', ''undeleteIntro'', 
    ''undeleteLookBack'', ''undeleteLatest'', ''undeleteDays7'', ''undeleteDays30'', ''undeleteFind'', ''undeleteScanning'', 
    ''undeleteSlowHint'', ''undeleteNone'', ''undeleteFound'', ''undeleteChecked1'', ''undeleteCheckedN'', ''undeleteStale'', 
    ''undeleteUnknown'', ''undeleteFilter'', ''selectAllShown'', ''selectNoneShown'', ''undeleteRestoreTo'', ''undeleteToOriginal'', 
    ''undeleteToOther'', ''undeleteDestFolder'', ''verifyAfterRestore'', ''undeleteStart'', ''rollbackNowSize'', ''rollbackMore'', 
    ''rollbackNoneBefore'', ''rollbackConfirm'', ''rollbackUndoConfirm'', ''rollbackDeleteConfirm'', ''rollbackPolicyReplaceShort'', ''rollbackPolicyMissingShort'', 
    ''rollbackPolicyExactShort'', ''rollbackTitle'', ''rollbackIntro'', ''rollbackListing'', ''rollbackPickBackup'', ''rollbackNoBackups'', 
    ''rollbackAtTime'', ''rollbackNewest'', ''rollbackPreview'', ''rollbackComparing'', ''rollbackPreviewTitle'', ''rollbackMissing'', 
    ''rollbackFilesSize'', ''rollbackMissingHint'', ''rollbackChanged'', ''rollbackChangedHint'', ''rollbackAdded'', ''rollbackPlusFolders'', 
    ''rollbackAddedHint'', ''rollbackUnchanged'', ''rollbackFiles'', ''rollbackUnchangedHint'', ''rollbackUnknown'', ''rollbackShowMissing'', 
    ''rollbackShowChanged'', ''rollbackShowAdded'', ''rollbackWhat'', ''rollbackPolicyReplace'', ''rollbackPolicyMissing'', ''rollbackPolicyExact'', 
    ''rollbackTypeCount'', ''rollbackBackupFirst'', ''rollbackSafetyNote'', ''rollbackNothing'', ''rollbackStart'', ''rollbackEarlier'', 
    ''rollbackRecordTo'', ''rollbackRecordCounts'', ''rollbackUndo'', ''rollbackDeleteKept'', ''serviceRunning'', ''serviceStopped'', 
    ''serviceStarting'']"
  unfolding en_texts_7_def by (simp only: list.map fst_conv)

definition en_texts_8 :: "(string \<times> string) list" where
  "en_texts_8 = [
    (''serviceStopping'', ''stopping''),
    (''servicePaused'', ''paused''),
    (''serviceTitle'', ''Run as Service''),
    (''serviceLinux'', ''The background service needs Windows, or Linux with systemd. On this computer, scheduled Backup Sets run while this app is open.''),
    (''serviceIntro'', ''With the service installed, scheduled Backup Sets run in the background as Local System, also when nobody is signed in and this app is closed. Without it, they run only while this app is open.''),
    (''serviceIntroLinux'', ''With the service installed, scheduled Backup Sets run in the background as root, also when nobody is logged in and this app is closed. Without it, they run only while this app is open.''),
    (''serviceLinuxSettings'', ''Installing copies your Backup Sets and settings to {dir}, where the service keeps them; only root can open that folder. This app then works on them through the service: connecting asks for an administrator'' @ [CHR 0x27] @ ''s password. Your own copy is left as it was.''),
    (''serviceNoExeLinux'', ''{file} is missing. It comes with the .deb and .rpm packages.''),
    (''serviceStart_automatic'', ''starts with Windows''),
    (''serviceStart_boot'', ''starts with the computer''),
    (''serviceStatusLabel'', ''Status:''),
    (''serviceInstalled'', ''Installed''),
    (''serviceNotInstalled'', ''Not installed''),
    (''serviceInUse'', ''This app hands backups and schedules to the service.''),
    (''serviceNotInUse'', ''This app is running the schedules itself.''),
    (''serviceOtherExe'', ''The installed service runs {path}, not the copy beside this app.''),
    (''serviceNoExe'', ''{file} is not in this app'' @ [CHR 0x27] @ ''s folder. It comes in the download; put it beside the app to install the service.''),
    (''serviceNeedsAdmin'', ''Installing, starting, stopping and removing the service need an administrator.''),
    (''serviceInstall'', ''Install and start''),
    (''serviceStart'', ''Start''),
    (''serviceStop'', ''Stop''),
    (''serviceRemoveConfirm'', ''Stop and remove the background service? Backup Sets, history and settings stay; this app runs the schedules again while it is open.''),
    (''serviceRemove'', ''Remove''),
    (''machineVmIdInvalid'', ''Enter a VM ID between 1 and 999999.''),
    (''backupIdHostOneOff'', ''This computer (one-off backups)''),
    (''pbsSlowHint'', ''PBS is slow to respond (a verify, garbage collection or backup may be running).''),
    (''openingFolder'', ''Opening folder...''),
    (''calculating'', ''Calculating...''),
    (''restoreStageBackupFirst'', ''Backing up the set before the roll back...''),
    (''restoreStageBackupFirstPct'', ''Backing up the set before the roll back: {pct}% (the roll back starts when it is done)''),
    (''restoreStageComparing'', ''Comparing the backup with the folders...''),
    (''restoreStageSafety'', ''Moving the files to be replaced or removed aside (kept for Undo)...''),
    (''stageStarting'', ''Starting...''),
    (''finishingShort'', ''Finishing...''),
    (''startedLabel'', ''Started:''),
    (''forecastFinishLabel'', ''Forecast finish:''),
    (''averageSuffix'', ''(average)''),
    (''downloadedLabel'', ''Downloaded:''),
    (''currentFileLabel'', ''Current file:''),
    (''waiting'', ''Waiting...''),
    (''navUndelete'', ''Undelete''),
    (''navRollback'', ''Roll back''),
    (''notAvailable'', ''Not available''),
    (''stageStopping'', ''Stopping...''),
    (''stageFinishing'', ''Finishing: closing the catalog and uploading the manifest...''),
    (''readReasonFullRead'', ''Scheduled full read: reading every file''),
    (''readReasonNoPrevious'', ''No previous snapshot to compare with: reading every file''),
    (''readReasonData'', ''Reading every file (change detection: data)''),
    (''stageMetadata'', ''Change detection: unchanged files are reused without reading''),
    (''stageReading'', ''Reading and uploading files''),
    (''filesPerSecond'', ''files/s''),
    (''scanning'', ''Scanning''),
    (''processedLabel'', ''Processed:''),
    (''processedNew'', ''New''),
    (''processedReused'', ''Reused''),
    (''chunksWord'', ''chunks''),
    (''filesLabel'', ''Files:''),
    (''processingLabel'', ''Processing:''),
    (''uploadLabel'', ''Upload:''),
    (''nextRunFullRead'', ''Next run: full read (reads every file)''),
    (''nextFullReadIn'', ''Next full read in {n} runs''),
    (''undeleteShortcutHint'', ''Find files of this set that are in its backups but gone from disk''),
    (''undeleteShortcut'', ''Undelete removed files...''),
    (''rollbackShortcutHint'', ''Put this set'' @ [CHR 0x27] @ ''s folders back as they were at a backup''),
    (''rollbackShortcut'', ''Roll back to chosen snapshot...''),
    (''machineBackupAsLabel'', ''Backup as''),
    (''machineBackupAsHost'', ''Host backup (default)''),
    (''machineBackupAsVm'', ''Proxmox VE virtual machine''),
    (''machineVmIdPlaceholder'', ''VM ID, e.g. 107''),
    (''machineVmIdStyleRange'', ''Reserved range (9000000 + ID)''),
    (''machineVmIdStyleZeros'', ''Leading zeros (000 + ID)''),
    (''machineVmIdResult'', ''Backup ID in PBS:''),
    (''machineVmWarning'', ''The snapshot is stored under vm/<ID> so Proxmox VE can list it. A real VM backup with the same ID would share that namespace, so the ID is offset to stay clear of yours. Restore it from Proxmox VE (pick a target Storage) or with the Clonezilla bare-metal restore. The generated VM is bare-bones: SATA disk, OVMF for GPT disks, no network card, TPM or drivers.''),
    (''restoreSupportsTitle'', ''Restore supports:''),
    (''backupIdPick'', ''Choose a backup ID from your Backup Sets''),
    (''backupIdClear'', ''Clear (list every backup in the datastore)''),
    (''reportsTypeUndelete'', ''Undelete''),
    (''reportsTypeRollback'', ''Roll back''),
    (''stageReadingDisk'', ''Reading disk {n} of {count}: {disk} ({size})''),
    (''stageSnapshotVolumes'', ''Taking a snapshot of the volumes...''),
    (''stageConnecting'', ''Connecting to the server...''),
    (''stageFinishingImage'', ''Finishing: closing the disk image and uploading the manifest...''),
    (''blocksLabel'', ''Blocks:''),
    (''diskLabel'', ''Disk:''),
    (''partitionLabel'', ''Partition:''),
    (''partitionUnpartitioned'', ''Unpartitioned space''),
    (''partitionNumber'', ''Partition {n}''),
    (''processedBlank'', ''{n} of them blank space''),
    (''logMachineBackupCompletedStats'', ''Machine backup completed in {duration}: {read} read ({new} new, {reused} reused chunks, {blank} of them blank space; {uploaded} uploaded)''),
    (''processedUnreadable'', ''{size} unreadable (zeros in the image)''),
    (''positionOnDiskLabel'', ''Position on disk:''),
    (''dataReadLabel'', ''Data read:''),
    (''processedNotRead'', ''{size} not read (free space or partitions left out)''),
    (''logMachineBackupUnreadable'', [CHR 0xE2, CHR 0x9A, CHR 0xA0, CHR 0xEF, CHR 0xB8, CHR 0x8F] @ '' Machine backup completed in {duration}, but {bad} of the disk could not be read and is zeros in the image ({where}). {read} read ({new} new, {reused} reused chunks; {uploaded} uploaded)''),
    (''snapshotBadge'', ''Snapshot''),
    (''snapshotNA'', ''N/A''),
    (''snapshotPartly'', ''Partly''),
    (''snapshotTipSomeLive'', ''These folders cannot be snapshotted (network drives) and are read live:''),
    (''vssTipMachine'', ''Disk images always read the volumes through a Volume Shadow Copy.''),
    (''vssTipOn'', ''Files are read from a Volume Shadow Copy, so files open in other programs are backed up as they were at the start. Network drives cannot be snapshotted and are read live.''),
    (''vssTipOff'', ''Files are read live: files open in other programs may be skipped or inconsistent.''),
    (''snapshotTipMachineLinux'', ''Mounted partitions are read through a snapshot (elastio-snap or dattobd). If none can be taken the run stops, unless Use snapshots is turned off for the set.''),
    (''snapshotTipOnLinux'', ''Files are read from a file system snapshot where the volume supports one; otherwise they are read live.''),
    (''snapshotTipOffLinux'', ''Files are read live: files that change during the backup may be inconsistent.''),
    (''inPlaceDiskImage'', ''files from a disk image go to another folder''),
    (''diskImageShort'', ''disk image''),
    (''diskImageHint'', ''Machine backup: a disk image. Browse it to restore files from its volumes.''),
    (''diskImageBanner'', ''Machine backup (disk image). Each volume in the image is a folder below; only the parts of the image you open or restore are downloaded. Files are restored to another folder, with their dates and, with the permissions option, their permissions and attributes.''),
    (''imageFoldersLabel'', ''Folders for Undelete and Roll back''),
    (''imageFoldersPlaceholder'', ''One per line, e.g. C:'' @ [CHR 0x5C] @ ''Users'' @ [CHR 0x5C] @ ''Name'' @ [CHR 0x5C] @ ''Documents''),
    (''imageFoldersPlaceholderLinux'', ''One per line, e.g. /home/name/Documents''),
    (''imageFoldersHint'', ''Undelete and Roll back look at these folders, reading their files from the disk images. Empty: your Desktop, Documents, Pictures, Music, Videos and Downloads. Folders must be on the disks this set backs up.''),
    (''setPickerMachine'', ''machine''),
    (''setPickerMachineDefault'', ''your Desktop, Documents, Pictures...''),
    (''setPickerChooseAny'', ''Choose a Backup Set...''),
    (''setPickerNoneAny'', ''There are no Backup Sets yet. Create one on the Backup page.''),
    (''rollbackBackupFirstMachine'', ''This set backs up whole disks: the backup first takes about as long as its usual backup.''),
    (''reportStatusSuccess'', ''Succeeded''),
    (''reportStatusFailed'', ''Failed''),
    (''reportStatusCancelled'', ''Cancelled''),
    (''reportStatusRunning'', ''Running'')]"

lemma en_texts_8_holes: "scan_texts en_texts_8 = Some
   [(''serviceLinuxSettings'', [''dir'']),
    (''serviceNoExeLinux'', [''file'']),
    (''serviceOtherExe'', [''path'']),
    (''serviceNoExe'', [''file'']),
    (''restoreStageBackupFirstPct'', [''pct'']),
    (''nextFullReadIn'', [''n'']),
    (''stageReadingDisk'', [''n'', ''count'', ''disk'', ''size'']),
    (''partitionNumber'', [''n'']),
    (''processedBlank'', [''n'']),
    (''logMachineBackupCompletedStats'', [''duration'', ''read'', ''new'', ''reused'', ''blank'', ''uploaded'']),
    (''processedUnreadable'', [''size'']),
    (''processedNotRead'', [''size'']),
    (''logMachineBackupUnreadable'', [''duration'', ''bad'', ''where'', ''read'', ''new'', ''reused'', ''uploaded''])]"
  by code_simp

lemma en_texts_8_keys: "map fst en_texts_8 =
   [''serviceStopping'', ''servicePaused'', ''serviceTitle'', ''serviceLinux'', ''serviceIntro'', ''serviceIntroLinux'', 
    ''serviceLinuxSettings'', ''serviceNoExeLinux'', ''serviceStart_automatic'', ''serviceStart_boot'', ''serviceStatusLabel'', ''serviceInstalled'', 
    ''serviceNotInstalled'', ''serviceInUse'', ''serviceNotInUse'', ''serviceOtherExe'', ''serviceNoExe'', ''serviceNeedsAdmin'', 
    ''serviceInstall'', ''serviceStart'', ''serviceStop'', ''serviceRemoveConfirm'', ''serviceRemove'', ''machineVmIdInvalid'', 
    ''backupIdHostOneOff'', ''pbsSlowHint'', ''openingFolder'', ''calculating'', ''restoreStageBackupFirst'', ''restoreStageBackupFirstPct'', 
    ''restoreStageComparing'', ''restoreStageSafety'', ''stageStarting'', ''finishingShort'', ''startedLabel'', ''forecastFinishLabel'', 
    ''averageSuffix'', ''downloadedLabel'', ''currentFileLabel'', ''waiting'', ''navUndelete'', ''navRollback'', 
    ''notAvailable'', ''stageStopping'', ''stageFinishing'', ''readReasonFullRead'', ''readReasonNoPrevious'', ''readReasonData'', 
    ''stageMetadata'', ''stageReading'', ''filesPerSecond'', ''scanning'', ''processedLabel'', ''processedNew'', 
    ''processedReused'', ''chunksWord'', ''filesLabel'', ''processingLabel'', ''uploadLabel'', ''nextRunFullRead'', 
    ''nextFullReadIn'', ''undeleteShortcutHint'', ''undeleteShortcut'', ''rollbackShortcutHint'', ''rollbackShortcut'', ''machineBackupAsLabel'', 
    ''machineBackupAsHost'', ''machineBackupAsVm'', ''machineVmIdPlaceholder'', ''machineVmIdStyleRange'', ''machineVmIdStyleZeros'', ''machineVmIdResult'', 
    ''machineVmWarning'', ''restoreSupportsTitle'', ''backupIdPick'', ''backupIdClear'', ''reportsTypeUndelete'', ''reportsTypeRollback'', 
    ''stageReadingDisk'', ''stageSnapshotVolumes'', ''stageConnecting'', ''stageFinishingImage'', ''blocksLabel'', ''diskLabel'', 
    ''partitionLabel'', ''partitionUnpartitioned'', ''partitionNumber'', ''processedBlank'', ''logMachineBackupCompletedStats'', ''processedUnreadable'', 
    ''positionOnDiskLabel'', ''dataReadLabel'', ''processedNotRead'', ''logMachineBackupUnreadable'', ''snapshotBadge'', ''snapshotNA'', 
    ''snapshotPartly'', ''snapshotTipSomeLive'', ''vssTipMachine'', ''vssTipOn'', ''vssTipOff'', ''snapshotTipMachineLinux'', 
    ''snapshotTipOnLinux'', ''snapshotTipOffLinux'', ''inPlaceDiskImage'', ''diskImageShort'', ''diskImageHint'', ''diskImageBanner'', 
    ''imageFoldersLabel'', ''imageFoldersPlaceholder'', ''imageFoldersPlaceholderLinux'', ''imageFoldersHint'', ''setPickerMachine'', ''setPickerMachineDefault'', 
    ''setPickerChooseAny'', ''setPickerNoneAny'', ''rollbackBackupFirstMachine'', ''reportStatusSuccess'', ''reportStatusFailed'', ''reportStatusCancelled'', 
    ''reportStatusRunning'']"
  unfolding en_texts_8_def by (simp only: list.map fst_conv)

definition en_texts_9 :: "(string \<times> string) list" where
  "en_texts_9 = [
    (''reportNameRestore'', ''Restore of {id} @ {snapshot}''),
    (''reportNameUndelete'', ''Undelete: {set} ({files} files)''),
    (''reportNameRollback'', ''Roll back: {set} to {at}''),
    (''closePromptTitle'', ''Close the app?''),
    (''closePromptBody'', ''Minimise to tray keeps the app running in the background, and scheduled Backup Sets still run. Exit closes it completely: no scheduled backups run until you open the app again.''),
    (''closePromptBodyService'', ''Minimise to tray keeps the app running in the background. Exit closes the app; the background service keeps running the scheduled Backup Sets.''),
    (''closePromptExit'', ''Exit''),
    (''closePromptMinimize'', ''Minimise to tray''),
    (''viewContributors'', ''view contributors''),
    (''machineDisksTitle'', ''Machine backup''),
    (''machineDisksSelect'', ''Disks to back up:''),
    (''machineDisksSelectAll'', ''Select all''),
    (''machineDisksDeselectAll'', ''Deselect all''),
    (''machineDisksNone'', ''No physical disks found.''),
    (''machineDiskBadgeBoot'', ''BOOT''),
    (''machineDiskBadgeSystem'', ''SYSTEM''),
    (''machineDiskNotConnected'', ''The disk this set saved as {path} ({id}) is not connected: its runs fail until the disk is back. To back up another disk instead, untick {path} and tick that disk.''),
    (''machinePartsHint'', ''Untick a partition to leave it out of this set. It is not read and goes into the image as zeros, which take almost no space.''),
    (''machinePartLeftOut'', ''Left out: it goes into the image empty and comes back unformatted when restored.''),
    (''machinePartNoStart'', ''The disk restored from this backup will not start without this partition.''),
    (''machinePartGone'', ''The set leaves out {label}, but this disk no longer has it, so it is backed up. Saving the set forgets it.''),
    (''machinePartsSetOnly'', ''Only a Backup Set can leave partitions out.''),
    (''machinePartsUnknown'', ''The partitions of this disk could not be read: the whole disk is backed up.'')]"

lemma en_texts_9_holes: "scan_texts en_texts_9 = Some
   [(''reportNameRestore'', [''id'', ''snapshot'']),
    (''reportNameUndelete'', [''set'', ''files'']),
    (''reportNameRollback'', [''set'', ''at'']),
    (''machineDiskNotConnected'', [''path'', ''id'', ''path'']),
    (''machinePartGone'', [''label''])]"
  by code_simp

lemma en_texts_9_keys: "map fst en_texts_9 =
   [''reportNameRestore'', ''reportNameUndelete'', ''reportNameRollback'', ''closePromptTitle'', ''closePromptBody'', ''closePromptBodyService'', 
    ''closePromptExit'', ''closePromptMinimize'', ''viewContributors'', ''machineDisksTitle'', ''machineDisksSelect'', ''machineDisksSelectAll'', 
    ''machineDisksDeselectAll'', ''machineDisksNone'', ''machineDiskBadgeBoot'', ''machineDiskBadgeSystem'', ''machineDiskNotConnected'', ''machinePartsHint'', 
    ''machinePartLeftOut'', ''machinePartNoStart'', ''machinePartGone'', ''machinePartsSetOnly'', ''machinePartsUnknown'']"
  unfolding en_texts_9_def by (simp only: list.map fst_conv)

definition en_texts_10 :: "(string \<times> string) list" where
  "en_texts_10 = [
    (''dirTreeLoading'', ''Loading...''),
    (''dirTreeUnreadable'', ''Unable to read this folder''),
    (''dirTreeEmpty'', ''(empty)''),
    (''dirTreeLoadingDrives'', ''Loading drives...''),
    (''dirTreeDrivesError'', ''Unable to list drives''),
    (''dirTreeAria'', ''Backup folder picker''),
    (''entriesLoadedCount'', ''Entries loaded: {n}'')]"

lemma en_texts_10_holes: "scan_texts en_texts_10 = Some
   [(''entriesLoadedCount'', [''n''])]"
  by code_simp

lemma en_texts_10_keys: "map fst en_texts_10 =
   [''dirTreeLoading'', ''dirTreeUnreadable'', ''dirTreeEmpty'', ''dirTreeLoadingDrives'', ''dirTreeDrivesError'', ''dirTreeAria'', 
    ''entriesLoadedCount'']"
  unfolding en_texts_10_def by (simp only: list.map fst_conv)

definition en_texts_11 :: "(string \<times> string) list" where
  "en_texts_11 = [
    (''windowRange'', ''between {start} and {end}'')]"

lemma en_texts_11_holes: "scan_texts en_texts_11 = Some
   [(''windowRange'', [''start'', ''end''])]"
  by code_simp

lemma en_texts_11_keys: "map fst en_texts_11 =
   [''windowRange'']"
  unfolding en_texts_11_def by (simp only: list.map fst_conv)

definition en_texts_12 :: "(string \<times> string) list" where
  "en_texts_12 = [
    (''schedEvery_minutes_1'', ''Every minute''),
    (''schedEvery_minutes_other'', ''Every {n} minutes''),
    (''schedEvery_hours_1'', ''Every hour''),
    (''schedEvery_hours_other'', ''Every {n} hours''),
    (''schedEvery_days_1'', ''Every day''),
    (''schedEvery_days_other'', ''Every {n} days''),
    (''schedEvery_weeks_1'', ''Every week''),
    (''schedEvery_weeks_other'', ''Every {n} weeks''),
    (''schedEvery_months_1'', ''Every month''),
    (''schedEvery_months_other'', ''Every {n} months''),
    (''schedEvery_years_1'', ''Every year''),
    (''schedEvery_years_other'', ''Every {n} years''),
    (''schedDescWindow'', ''{every}, {start} to {end}''),
    (''schedDescAtMinute'', ''{every} at :{mm}''),
    (''schedDescOnDays'', ''{desc}, {days}''),
    (''schedDescAt'', ''{every} at {time}''),
    (''schedDescDaysOnly'', ''{every} at {time}, {days} only''),
    (''schedDescWeeks'', ''{every} on {days} at {time}''),
    (''schedDescMonthLast'', ''{every} on the last day at {time}''),
    (''schedDescMonthNth'', ''{every} on the {nth} {weekday} at {time}''),
    (''schedDescMonthDay'', ''{every} on day {d} at {time}''),
    (''schedDescYear'', ''{every} on {date} at {time}''),
    (''schedDaysWeekdays'', ''Mon to Fri''),
    (''schedDaysWeekend'', ''weekends''),
    (''schedNth1'', ''1st''),
    (''schedNth2'', ''2nd''),
    (''schedNth3'', ''3rd''),
    (''schedNth4'', ''4th''),
    (''schedNthLast'', ''last''),
    (''schedBadgeWeekly'', ''Weekly''),
    (''schedBadgeMonthly'', ''Monthly''),
    (''schedBadgeYearly'', ''Yearly''),
    (''schedUnit_minutes'', ''minutes''),
    (''schedUnit_hours'', ''hours''),
    (''schedUnit_days'', ''days''),
    (''schedUnit_weeks'', ''weeks''),
    (''schedUnit_months'', ''months''),
    (''schedUnit_years'', ''years''),
    (''schedUnitLabel'', ''Unit''),
    (''schedWhenLabel'', ''When does this set run?''),
    (''schedModeScheduled'', ''On a schedule''),
    (''schedModeManual'', ''Only when I click Run Now''),
    (''schedListLabel'', ''Schedules''),
    (''schedNone'', ''No schedules yet. Add one below.''),
    (''schedAdd'', ''Add schedule''),
    (''schedAddFrom'', ''or start from''),
    (''schedOnLabel'', ''Schedule on''),
    (''schedOff'', ''off''),
    (''schedEditTitle'', ''Edit schedule''),
    (''schedRepeatEvery'', ''Repeat every''),
    (''schedWhen'', ''When''),
    (''schedFrom'', ''From''),
    (''schedTo'', ''To''),
    (''schedAtMinute'', ''At minute''),
    (''schedPastHour'', ''past the hour''),
    (''schedOnlyOn'', ''Only on''),
    (''schedNoDayEveryDay'', ''No day picked means every day.''),
    (''schedOn'', ''On''),
    (''schedAt'', ''At''),
    (''schedMonthDay'', ''day''),
    (''schedMonthLast'', ''the last day''),
    (''schedMonthThe'', ''the''),
    (''schedWhich'', ''Which''),
    (''schedMonth'', ''Month''),
    (''schedShortMonthHint'', ''If a month has no day {d}, it runs on the nearest earlier day.''),
    (''schedFeb29Hint'', ''In years without 29 February, it runs on the nearest earlier day (28 February).''),
    (''schedStarting'', ''Starting''),
    (''schedCountsFrom_days_other'', ''Counts every {n} days from this day.''),
    (''schedCountsFrom_weeks_other'', ''Counts every {n} weeks from this day'' @ [CHR 0x27] @ ''s week.''),
    (''schedCountsFrom_months_other'', ''Counts every {n} months from this day'' @ [CHR 0x27] @ ''s month.''),
    (''schedCountsFrom_years_other'', ''Counts every {n} years from this day'' @ [CHR 0x27] @ ''s year.'')]"

lemma en_texts_12_holes: "scan_texts en_texts_12 = Some
   [(''schedEvery_minutes_other'', [''n'']),
    (''schedEvery_hours_other'', [''n'']),
    (''schedEvery_days_other'', [''n'']),
    (''schedEvery_weeks_other'', [''n'']),
    (''schedEvery_months_other'', [''n'']),
    (''schedEvery_years_other'', [''n'']),
    (''schedDescWindow'', [''every'', ''start'', ''end'']),
    (''schedDescAtMinute'', [''every'', ''mm'']),
    (''schedDescOnDays'', [''desc'', ''days'']),
    (''schedDescAt'', [''every'', ''time'']),
    (''schedDescDaysOnly'', [''every'', ''time'', ''days'']),
    (''schedDescWeeks'', [''every'', ''days'', ''time'']),
    (''schedDescMonthLast'', [''every'', ''time'']),
    (''schedDescMonthNth'', [''every'', ''nth'', ''weekday'', ''time'']),
    (''schedDescMonthDay'', [''every'', ''d'', ''time'']),
    (''schedDescYear'', [''every'', ''date'', ''time'']),
    (''schedShortMonthHint'', [''d'']),
    (''schedCountsFrom_days_other'', [''n'']),
    (''schedCountsFrom_weeks_other'', [''n'']),
    (''schedCountsFrom_months_other'', [''n'']),
    (''schedCountsFrom_years_other'', [''n''])]"
  by code_simp

lemma en_texts_12_keys: "map fst en_texts_12 =
   [''schedEvery_minutes_1'', ''schedEvery_minutes_other'', ''schedEvery_hours_1'', ''schedEvery_hours_other'', ''schedEvery_days_1'', ''schedEvery_days_other'', 
    ''schedEvery_weeks_1'', ''schedEvery_weeks_other'', ''schedEvery_months_1'', ''schedEvery_months_other'', ''schedEvery_years_1'', ''schedEvery_years_other'', 
    ''schedDescWindow'', ''schedDescAtMinute'', ''schedDescOnDays'', ''schedDescAt'', ''schedDescDaysOnly'', ''schedDescWeeks'', 
    ''schedDescMonthLast'', ''schedDescMonthNth'', ''schedDescMonthDay'', ''schedDescYear'', ''schedDaysWeekdays'', ''schedDaysWeekend'', 
    ''schedNth1'', ''schedNth2'', ''schedNth3'', ''schedNth4'', ''schedNthLast'', ''schedBadgeWeekly'', 
    ''schedBadgeMonthly'', ''schedBadgeYearly'', ''schedUnit_minutes'', ''schedUnit_hours'', ''schedUnit_days'', ''schedUnit_weeks'', 
    ''schedUnit_months'', ''schedUnit_years'', ''schedUnitLabel'', ''schedWhenLabel'', ''schedModeScheduled'', ''schedModeManual'', 
    ''schedListLabel'', ''schedNone'', ''schedAdd'', ''schedAddFrom'', ''schedOnLabel'', ''schedOff'', 
    ''schedEditTitle'', ''schedRepeatEvery'', ''schedWhen'', ''schedFrom'', ''schedTo'', ''schedAtMinute'', 
    ''schedPastHour'', ''schedOnlyOn'', ''schedNoDayEveryDay'', ''schedOn'', ''schedAt'', ''schedMonthDay'', 
    ''schedMonthLast'', ''schedMonthThe'', ''schedWhich'', ''schedMonth'', ''schedShortMonthHint'', ''schedFeb29Hint'', 
    ''schedStarting'', ''schedCountsFrom_days_other'', ''schedCountsFrom_weeks_other'', ''schedCountsFrom_months_other'', ''schedCountsFrom_years_other'']"
  unfolding en_texts_12_def by (simp only: list.map fst_conv)

definition en_texts_13 :: "(string \<times> string) list" where
  "en_texts_13 = [
    (''schedMinRepeat'', ''The shortest repeat is {n} minutes.''),
    (''schedWindowOrder'', ''The time window must end after it starts.''),
    (''schedPickDay'', ''Pick at least one day.''),
    (''schedNext3'', ''Next 3 runs''),
    (''schedNoneSoon'', ''No run in the next few years.''),
    (''schedDone'', ''Done''),
    (''schedManualKept'', ''Its schedules are kept for when you choose '' @ [CHR 0x22] @ ''On a schedule'' @ [CHR 0x22] @ '' again.''),
    (''schedSetNext'', ''Next run: {time}''),
    (''schedCountOn_one'', ''{n} schedule is on.''),
    (''schedCountOn_other'', ''{n} schedules are on.''),
    (''schedCatchUp'', ''If the computer is off at a run time, the set runs once when it is back.''),
    (''schedNoneOn'', ''No schedule is on, so this set does not run on its own. Use '' @ [CHR 0x22] @ ''Run Now'' @ [CHR 0x22] @ '', or switch a schedule on.''),
    (''schedNoneOnShort'', ''No schedule on''),
    (''optionStreams'', ''Restore alternate data streams and extended attributes''),
    (''optionStreamsHint'', ''Windows: puts back data attached to files, such as the '' @ [CHR 0x22] @ ''downloaded from the internet'' @ [CHR 0x22] @ '' mark, and NTFS extended attributes. Folder backups made by version 1.1 or earlier, or by a test build from before 14 October 2026, do not include them.''),
    (''restoreSupportsStreams'', ''Alternate data streams and NTFS extended attributes (Windows)''),
    (''knownLimitationsNone'', ''There are no known limitations at the moment.''),
    (''knownLimitationsOlderBackups'', ''Folder backups made by version 1.1 or earlier, or by a test build from before 14 October 2026, do not include alternate data streams or NTFS extended attributes, so a restore from them cannot put those back. Disk images of any version include them.'')]"

lemma en_texts_13_holes: "scan_texts en_texts_13 = Some
   [(''schedMinRepeat'', [''n'']),
    (''schedSetNext'', [''time'']),
    (''schedCountOn_one'', [''n'']),
    (''schedCountOn_other'', [''n''])]"
  by code_simp

lemma en_texts_13_keys: "map fst en_texts_13 =
   [''schedMinRepeat'', ''schedWindowOrder'', ''schedPickDay'', ''schedNext3'', ''schedNoneSoon'', ''schedDone'', 
    ''schedManualKept'', ''schedSetNext'', ''schedCountOn_one'', ''schedCountOn_other'', ''schedCatchUp'', ''schedNoneOn'', 
    ''schedNoneOnShort'', ''optionStreams'', ''optionStreamsHint'', ''restoreSupportsStreams'', ''knownLimitationsNone'', ''knownLimitationsOlderBackups'']"
  unfolding en_texts_13_def by (simp only: list.map fst_conv)

definition en_features :: "(string \<times> (string \<times> string) list) list" where
  "en_features = [
    (''backupSets'', [(''title'', ''Backup Sets''), (''desc'', ''Several schedules each, from every few minutes to once a year, or manual; one-click Run Now'')]),
    (''incremental'', [(''title'', ''Incremental folder backups''), (''desc'', ''Unchanged files are reused without being read, as in the official client'')]),
    (''machineBackups'', [(''title'', ''Machine backups''), (''desc'', ''Whole disks with VSS or elastio-snap, skipping free space and surviving bad sectors'')]),
    (''p2v'', [(''title'', ''Physical to virtual''), (''desc'', ''Restore a machine backup into a Proxmox VE VM, through Proxmox VE or the restore ISO'')]),
    (''bareMetalRestore'', [(''title'', ''Automated bare-metal restore''), (''desc'', ''Boot the restore ISO from USB, CD or PXE straight into a PBS restore'')]),
    (''snapshotRestore'', [(''title'', ''Browse, search and restore''), (''desc'', ''Single files from folder and machine backups, with their permissions'')]),
    (''undeleteRollback'', [(''title'', ''Undelete and Roll back''), (''desc'', ''Bring back deleted files, or put folders back as they were, with Undo'')]),
    (''encryption'', [(''title'', ''Client-side encryption''), (''desc'', ''PBS key files, interchangeable with the official client'')]),
    (''service'', [(''title'', ''Background service''), (''desc'', ''Schedules run with nobody signed in, on Windows and Linux'')]),
    (''multiPbs'', [(''title'', ''Several PBS servers''), (''desc'', ''A server per Backup Set, with certificate fingerprint pinning'')]),
    (''compatible'', [(''title'', ''Works with Proxmox'' @ [CHR 0x27] @ ''s own tools''), (''desc'', ''Backups restore with the official client, and the other way round'')]),
    (''languages'', [(''title'', ''18-language interface''), (''desc'', [CHR 0xD0, CHR 0x91, CHR 0xD1, CHR 0x8A, CHR 0xD0, CHR 0xBB, CHR 0xD0, CHR 0xB3, CHR 0xD0, CHR 0xB0, CHR 0xD1, CHR 0x80, CHR 0xD1, CHR 0x81, CHR 0xD0, CHR 0xBA, CHR 0xD0, CHR 0xB8] @ '', '' @ [CHR 0xC4, CHR 0x8C] @ ''e'' @ [CHR 0xC5, CHR 0xA1] @ ''tina, Deutsch, English, Espa'' @ [CHR 0xC3, CHR 0xB1] @ ''ol, '' @ [CHR 0xCE, CHR 0x95, CHR 0xCE, CHR 0xBB, CHR 0xCE, CHR 0xBB, CHR 0xCE, CHR 0xB7, CHR 0xCE, CHR 0xBD, CHR 0xCE, CHR 0xB9, CHR 0xCE, CHR 0xBA, CHR 0xCE, CHR 0xAC] @ '', Fran'' @ [CHR 0xC3, CHR 0xA7] @ ''ais, Magyar, Italiano, Latvie'' @ [CHR 0xC5, CHR 0xA1] @ ''u, Lietuvi'' @ [CHR 0xC5, CHR 0xB3] @ '', Nederlands, Polski, Portugu'' @ [CHR 0xC3, CHR 0xAA] @ ''s, Rom'' @ [CHR 0xC3, CHR 0xA2] @ ''n'' @ [CHR 0xC4, CHR 0x83] @ '', Sloven'' @ [CHR 0xC4, CHR 0x8D] @ ''ina, T'' @ [CHR 0xC3, CHR 0xBC] @ ''rk'' @ [CHR 0xC3, CHR 0xA7] @ ''e, '' @ [CHR 0xD0, CHR 0xA3, CHR 0xD0, CHR 0xBA, CHR 0xD1, CHR 0x80, CHR 0xD0, CHR 0xB0, CHR 0xD1, CHR 0x97, CHR 0xD0, CHR 0xBD, CHR 0xD1, CHR 0x81, CHR 0xD1, CHR 0x8C, CHR 0xD0, CHR 0xBA, CHR 0xD0, CHR 0xB0])])]"

definition en_texts :: "(string \<times> string) list" where
  "en_texts = en_texts_1 @ en_texts_2 @ en_texts_3 @ en_texts_4 @ en_texts_5 @ en_texts_6 @ en_texts_7 @ en_texts_8 @ en_texts_9 @ en_texts_10 @ en_texts_11 @ en_texts_12 @ en_texts_13"

text \<open>The object: where a key is given twice, the later text counts.\<close>

definition en_table :: tr_value where
  "en_table = TrGroup (rev (map (\<lambda>(k, v). (k, TrText v)) en_texts @
     [(''featuresList'', TrGroup (map (\<lambda>(k, fs). (k, TrGroup (map (\<lambda>(f, v). (f, TrText v)) fs))) en_features))]))"

end
