(* ===== verification/TextsFr.thy ===== *)
theory TextsFr
  imports I18n
begin

text \<open>
  The French texts (\<open>i18n/translations.js\<close>, the object \<open>fr\<close>), in the order of the file and in
  parts, then as the table the lookup reads. Bytes above 127 and quotes are written by their
  number. After each part its placeholders, as read from the texts.
\<close>

definition fr_texts_1 :: "(string \<times> string) list" where
  "fr_texts_1 = [
    (''appTitle'', ''Salvanza for Proxmox Backup Server''),
    (''appSubtitle'', ''Client pour Proxmox Backup Server''),
    (''srvTabServer'', ''Serveur''),
    (''srvTabUserpass'', ''Utilisateur / Mot de passe''),
    (''srvTabToken'', ''Jeton API''),
    (''srvTabEncryption'', ''Chiffrement''),
    (''username'', ''Nom d'' @ [CHR 0x27] @ ''utilisateur''),
    (''password'', ''Mot de passe''),
    (''userpassHint'', ''Les identifiants sont enregistr'' @ [CHR 0xC3, CHR 0xA9] @ ''s ; un ticket PBS frais est obtenu automatiquement '' @ [CHR 0xC3, CHR 0xA0] @ '' chaque sauvegarde.''),
    (''passwordKeepCurrent'', [CHR 0xE2, CHR 0x80, CHR 0xA2, CHR 0xE2, CHR 0x80, CHR 0xA2, CHR 0xE2, CHR 0x80, CHR 0xA2, CHR 0xE2, CHR 0x80, CHR 0xA2, CHR 0xE2, CHR 0x80, CHR 0xA2, CHR 0xE2, CHR 0x80, CHR 0xA2, CHR 0xE2, CHR 0x80, CHR 0xA2, CHR 0xE2, CHR 0x80, CHR 0xA2] @ '' (laissez vide pour conserver le mot de passe actuel)''),
    (''pamUserWarning'', [CHR 0xC3, CHR 0x89] @ ''vitez un compte administrateur (ex. root@pam) : si la machine de sauvegarde est compromise, il pourrait servir '' @ [CHR 0xC3, CHR 0xA0] @ '' d'' @ [CHR 0xC3, CHR 0xA9] @ ''truire ou alt'' @ [CHR 0xC3, CHR 0xA9] @ ''rer vos sauvegardes. Pr'' @ [CHR 0xC3, CHR 0xA9] @ ''f'' @ [CHR 0xC3, CHR 0xA9] @ ''rez un compte d'' @ [CHR 0xC3, CHR 0xA9] @ ''di'' @ [CHR 0xC3, CHR 0xA9] @ '' '' @ [CHR 0xC2, CHR 0xAB] @ '' lecture + sauvegarde '' @ [CHR 0xC2, CHR 0xBB] @ '' ou un jeton API.''),
    (''phBackupId'', ''nom d'' @ [CHR 0x27] @ ''h'' @ [CHR 0xC3, CHR 0xB4] @ ''te ou ID personnalis'' @ [CHR 0xC3, CHR 0xA9] @ '' (laisser vide pour tout lister)''),
    (''login'', ''Connexion''),
    (''logout'', ''D'' @ [CHR 0xC3, CHR 0xA9] @ ''connexion''),
    (''loggedIn'', ''Connect'' @ [CHR 0xC3, CHR 0xA9] @ '' en tant que''),
    (''pwPrompt'', ''Mot de passe pour {u} :''),
    (''secretKeepCurrent'', [CHR 0xE2, CHR 0x80, CHR 0xA2, CHR 0xE2, CHR 0x80, CHR 0xA2, CHR 0xE2, CHR 0x80, CHR 0xA2, CHR 0xE2, CHR 0x80, CHR 0xA2, CHR 0xE2, CHR 0x80, CHR 0xA2, CHR 0xE2, CHR 0x80, CHR 0xA2, CHR 0xE2, CHR 0x80, CHR 0xA2, CHR 0xE2, CHR 0x80, CHR 0xA2] @ '' (laissez vide pour conserver le jeton actuel)''),
    (''phServerName'', ''Mon SSD''),
    (''phServerURL'', ''https://pbs-ssd.example.com:8007''),
    (''phAuthID'', ''backup@pbs!nom-du-token''),
    (''phSecret'', ''xxxxxxxx-xxxx-xxxx-xxxx-xxxxxxxxxxxx''),
    (''phDatastore'', ''ssd-rapide''),
    (''phNamespace'', ''clients''),
    (''phCert'', ''AA:BB:CC:DD:...''),
    (''phUsername'', ''root@pam''),
    (''phPassword'', [CHR 0xE2, CHR 0x80, CHR 0xA2, CHR 0xE2, CHR 0x80, CHR 0xA2, CHR 0xE2, CHR 0x80, CHR 0xA2, CHR 0xE2, CHR 0x80, CHR 0xA2, CHR 0xE2, CHR 0x80, CHR 0xA2, CHR 0xE2, CHR 0x80, CHR 0xA2, CHR 0xE2, CHR 0x80, CHR 0xA2, CHR 0xE2, CHR 0x80, CHR 0xA2]),
    (''tabServers'', ''Configuration PBS''),
    (''tabBackup'', ''Sauvegarde''),
    (''tabRestore'', ''Restauration''),
    (''tabAbout'', [CHR 0xC3, CHR 0x80] @ '' propos''),
    (''navReports'', ''Rapports''),
    (''navMessageLog'', ''Journal des messages''),
    (''knownLimitations'', ''Limitations connues''),
    (''devBuildBadge'', ''Version de d'' @ [CHR 0xC3, CHR 0xA9] @ ''veloppement''),
    (''messageLogEmpty'', ''Aucun message pour le moment.''),
    (''msgColDateTime'', ''Date / Heure''),
    (''msgColSource'', ''Source''),
    (''msgColMessage'', ''Message''),
    (''msgSourceBackup'', ''Sauvegarde''),
    (''msgSourceRestore'', ''Restauration''),
    (''msgLogCap'', ''Limite de 1 000 messages.''),
    (''logBackupDirNotExist'', ''Le dossier de sauvegarde n'' @ [CHR 0x27] @ ''existe pas : {dir}''),
    (''logBackupCancelled'', ''Sauvegarde annul'' @ [CHR 0xC3, CHR 0xA9] @ ''e par l'' @ [CHR 0x27] @ ''utilisateur''),
    (''logCatalogCreateFailed'', [CHR 0xC3, CHR 0x89] @ ''chec de la cr'' @ [CHR 0xC3, CHR 0xA9] @ ''ation de l'' @ [CHR 0x27] @ ''index de catalogue partag'' @ [CHR 0xC3, CHR 0xA9] @ '' : {error}''),
    (''logSessionLost'', ''Session PBS perdue et tentatives '' @ [CHR 0xC3, CHR 0xA9] @ ''puis'' @ [CHR 0xC3, CHR 0xA9] @ ''es : {error}''),
    (''logCatalogFinalizeFailed'', [CHR 0xC3, CHR 0x89] @ ''chec de la finalisation du catalogue partag'' @ [CHR 0xC3, CHR 0xA9] @ '' : {error}''),
    (''logCatalogCloseFailed'', [CHR 0xC3, CHR 0x89] @ ''chec de la fermeture de l'' @ [CHR 0x27] @ ''index de catalogue partag'' @ [CHR 0xC3, CHR 0xA9] @ '' : {error}''),
    (''logAllDirsFailed'', ''Les {total} dossiers ont tous '' @ [CHR 0xC3, CHR 0xA9] @ ''chou'' @ [CHR 0xC3, CHR 0xA9] @ '' :'' @ [CHR 0x0A] @ ''{errors}''),
    (''logManifestUploadFailed'', [CHR 0xC3, CHR 0x89] @ ''chec de l'' @ [CHR 0x27] @ ''envoi du manifeste : {error}''),
    (''logSessionFinalizeFailed'', [CHR 0xC3, CHR 0x89] @ ''chec de la finalisation de la session de sauvegarde : {error}''),
    (''logBackupPartial'', [CHR 0xE2, CHR 0x9A, CHR 0xA0, CHR 0xEF, CHR 0xB8, CHR 0x8F] @ '' Sauvegarde partielle en {duration} : {ok}/{total} dossiers OK, {mb} Mo ({new} blocs nouveaux, {reused} r'' @ [CHR 0xC3, CHR 0xA9] @ ''utilis'' @ [CHR 0xC3, CHR 0xA9] @ ''s)'' @ [CHR 0x0A] @ ''Erreurs :'' @ [CHR 0x0A] @ ''{errors}{skippedNote}''),
    (''logBackupCompletedWithErrors'', [CHR 0xE2, CHR 0x9A, CHR 0xA0, CHR 0xEF, CHR 0xB8, CHR 0x8F] @ '' Sauvegarde termin'' @ [CHR 0xC3, CHR 0xA9] @ ''e avec des erreurs en {duration} : {mb} Mo sauvegard'' @ [CHR 0xC3, CHR 0xA9] @ ''s ({new} blocs nouveaux, {reused} r'' @ [CHR 0xC3, CHR 0xA9] @ ''utilis'' @ [CHR 0xC3, CHR 0xA9] @ ''s, {failed} EN '' @ [CHR 0xC3, CHR 0x89] @ ''CHEC){skippedNote}''),
    (''logBackupCompleted'', ''Sauvegarde termin'' @ [CHR 0xC3, CHR 0xA9] @ ''e en {duration} : {mb} Mo sauvegard'' @ [CHR 0xC3, CHR 0xA9] @ ''s ({new} blocs nouveaux, {reused} r'' @ [CHR 0xC3, CHR 0xA9] @ ''utilis'' @ [CHR 0xC3, CHR 0xA9] @ ''s){skippedNote}''),
    (''logSkippedFilesNote'', [CHR 0x0A, CHR 0xE2, CHR 0x9A, CHR 0xA0, CHR 0xEF, CHR 0xB8, CHR 0x8F] @ '' {count} fichiers/dossiers ignor'' @ [CHR 0xC3, CHR 0xA9] @ ''s (le journal de sauvegarde les liste)''),
    (''logUnreadableFilesNote'', [CHR 0x0A, CHR 0xE2, CHR 0x9A, CHR 0xA0, CHR 0xEF, CHR 0xB8, CHR 0x8F] @ '' {count} fichiers/dossiers n'' @ [CHR 0x27] @ ''ont pas pu '' @ [CHR 0xC3, CHR 0xAA] @ ''tre lus (le journal de sauvegarde les liste)''),
    (''logSkippedByDesignNote'', [CHR 0x0A] @ ''{count} '' @ [CHR 0xC3, CHR 0xA9] @ ''l'' @ [CHR 0xC3, CHR 0xA9] @ ''ments laiss'' @ [CHR 0xC3, CHR 0xA9] @ ''s de c'' @ [CHR 0xC3, CHR 0xB4] @ ''t'' @ [CHR 0xC3, CHR 0xA9] @ '' volontairement : liens, sockets, tubes et fichiers syst'' @ [CHR 0xC3, CHR 0xA8] @ ''me (le journal de sauvegarde les liste)''),
    (''reportsSkippedByDesign'', ''Laiss'' @ [CHR 0xC3, CHR 0xA9] @ ''s de c'' @ [CHR 0xC3, CHR 0xB4] @ ''t'' @ [CHR 0xC3, CHR 0xA9]),
    (''logMachineBackupFailed'', [CHR 0xC3, CHR 0x89] @ ''chec de la sauvegarde machine : {error}''),
    (''logMachineBackupCompleted'', ''Sauvegarde machine termin'' @ [CHR 0xC3, CHR 0xA9] @ ''e en {duration}''),
    (''logScheduledJobError'', ''Erreur : {error}''),
    (''logJobAbandoned'', ''Abandonn'' @ [CHR 0xC3, CHR 0xA9] @ ''e (application interrompue)''),
    (''logBackupCompletedGeneric'', ''Sauvegarde termin'' @ [CHR 0xC3, CHR 0xA9] @ ''e''),
    (''logRestoreCompleted'', ''Restauration termin'' @ [CHR 0xC3, CHR 0xA9] @ ''e''),
    (''logRestoreFailed'', [CHR 0xC3, CHR 0x89] @ ''chec de la restauration : {error}''),
    (''logDeploySettingsApplied'', ''Param'' @ [CHR 0xC3, CHR 0xA8] @ ''tres de l'' @ [CHR 0x27] @ ''installation appliqu'' @ [CHR 0xC3, CHR 0xA9] @ ''s (serveurs PBS : {servers}, ensembles de sauvegarde : {sets}).''),
    (''logDeploySettingsFailed'', ''Les param'' @ [CHR 0xC3, CHR 0xA8] @ ''tres de l'' @ [CHR 0x27] @ ''installation n'' @ [CHR 0x27] @ ''ont pas pu '' @ [CHR 0xC3, CHR 0xAA] @ ''tre appliqu'' @ [CHR 0xC3, CHR 0xA9] @ ''s : {error}''),
    (''themeTitle'', ''Th'' @ [CHR 0xC3, CHR 0xA8] @ ''me''),
    (''themeIntro'', ''Choisissez une palette de couleurs pour l'' @ [CHR 0x27] @ ''application.''),
    (''themeAmber'', ''Ambre''),
    (''themeBlue'', ''Bleu classique''),
    (''themeGreen'', ''Vert''),
    (''themeRed'', ''Rouge''),
    (''themeDark'', ''Sombre''),
    (''themeCustom'', ''Personnalis'' @ [CHR 0xC3, CHR 0xA9, CHR 0xE2, CHR 0x80, CHR 0xA6]),
    (''themeFieldAccent'', ''Couleur d'' @ [CHR 0x27] @ ''accent''),
    (''themeFieldAccentHover'', ''Accent (survol)''),
    (''themeFieldHeroStart'', ''D'' @ [CHR 0xC3, CHR 0xA9] @ ''grad'' @ [CHR 0xC3, CHR 0xA9] @ '' : extr'' @ [CHR 0xC3, CHR 0xA9] @ ''mit'' @ [CHR 0xC3, CHR 0xA9] @ '' fonc'' @ [CHR 0xC3, CHR 0xA9] @ ''e''),
    (''themeFieldHeroEnd'', ''D'' @ [CHR 0xC3, CHR 0xA9] @ ''grad'' @ [CHR 0xC3, CHR 0xA9] @ '' : extr'' @ [CHR 0xC3, CHR 0xA9] @ ''mit'' @ [CHR 0xC3, CHR 0xA9] @ '' claire''),
    (''themeCustomHint'', ''Valeurs hexad'' @ [CHR 0xC3, CHR 0xA9] @ ''cimales CSS '' @ [CHR 0xC3, CHR 0xA0] @ '' 6 chiffres. Une valeur invalide est ignor'' @ [CHR 0xC3, CHR 0xA9] @ ''e.''),
    (''themePreview'', ''Aper'' @ [CHR 0xC3, CHR 0xA7] @ ''u''),
    (''prefsTitle'', ''Pr'' @ [CHR 0xC3, CHR 0xA9] @ ''f'' @ [CHR 0xC3, CHR 0xA9] @ ''rences''),
    (''prefsAccountInfo'', ''Informations du compte''),
    (''prefsBackupOptions'', ''Options de sauvegarde''),
    (''prefsEmail'', ''E-mail''),
    (''prefsAdvanced'', ''Avanc'' @ [CHR 0xC3, CHR 0xA9]),
    (''jobsLockModalTitle'', ''Droits d'' @ [CHR 0x27] @ ''administrateur requis''),
    (''changeDetectionLabel'', ''D'' @ [CHR 0xC3, CHR 0xA9] @ ''tection des changements''),
    (''changeDetectionLegacy'', ''Classique : lire tous les fichiers (par d'' @ [CHR 0xC3, CHR 0xA9] @ ''faut)''),
    (''changeDetectionData'', ''Donn'' @ [CHR 0xC3, CHR 0xA9] @ ''es : lire tous les fichiers, archive scind'' @ [CHR 0xC3, CHR 0xA9] @ ''e''),
    (''changeDetectionMetadata'', ''M'' @ [CHR 0xC3, CHR 0xA9] @ ''tadonn'' @ [CHR 0xC3, CHR 0xA9] @ ''es : ignorer les fichiers inchang'' @ [CHR 0xC3, CHR 0xA9] @ ''s (le plus rapide)''),
    (''changeDetectionMachineNote'', ''Non utilis'' @ [CHR 0xC3, CHR 0xA9] @ '' pour les sauvegardes machine : les disques sont sauvegard'' @ [CHR 0xC3, CHR 0xA9] @ ''s en images.''),
    (''fullReadEveryLabel'', ''Relire tous les fichiers toutes les''),
    (''fullReadEveryRuns'', ''ex'' @ [CHR 0xC3, CHR 0xA9] @ ''cutions (0 = jamais)''),
    (''fullReadEveryOne'', ''1 relirait tous les fichiers '' @ [CHR 0xC3, CHR 0xA0] @ '' chaque ex'' @ [CHR 0xC3, CHR 0xA9] @ ''cution. Utilisez Donn'' @ [CHR 0xC3, CHR 0xA9] @ ''es pour cela, ou choisissez 2 ou plus.''),
    (''changeDetectionMetadataHint'', ''Les fichiers dont la taille et la date de modification n'' @ [CHR 0x27] @ ''ont pas chang'' @ [CHR 0xC3, CHR 0xA9] @ '' depuis la sauvegarde pr'' @ [CHR 0xC3, CHR 0xA9] @ ''c'' @ [CHR 0xC3, CHR 0xA9] @ ''dente ne sont pas relus ; leurs donn'' @ [CHR 0xC3, CHR 0xA9] @ ''es sont reprises de cette sauvegarde. La premi'' @ [CHR 0xC3, CHR 0xA8] @ ''re sauvegarde dans ce mode lit tous les fichiers. Une relecture compl'' @ [CHR 0xC3, CHR 0xA8] @ ''te de temps en temps d'' @ [CHR 0xC3, CHR 0xA9] @ ''tecte les modifications qui gardent la m'' @ [CHR 0xC3, CHR 0xAA] @ ''me taille et la m'' @ [CHR 0xC3, CHR 0xAA] @ ''me date.''),
    (''changeDetectionDataHint'', ''Tous les fichiers sont lus et la sauvegarde est enregistr'' @ [CHR 0xC3, CHR 0xA9] @ ''e en archive scind'' @ [CHR 0xC3, CHR 0xA9] @ ''e, le format sur lequel s'' @ [CHR 0x27] @ ''appuie le mode M'' @ [CHR 0xC3, CHR 0xA9] @ ''tadonn'' @ [CHR 0xC3, CHR 0xA9] @ ''es.''),
    (''changeDetectionRestoreNote'', ''La restauration d'' @ [CHR 0x27] @ ''archives scind'' @ [CHR 0xC3, CHR 0xA9] @ ''es n'' @ [CHR 0xC3, CHR 0xA9] @ ''cessite cette version du client ou une plus r'' @ [CHR 0xC3, CHR 0xA9] @ ''cente, ou le client Proxmox officiel : mettez d'' @ [CHR 0x27] @ ''abord '' @ [CHR 0xC3, CHR 0xA0] @ '' jour chaque machine depuis laquelle vous restaurez.''),
    (''changeDetectionShortLegacy'', ''Classique''),
    (''changeDetectionShortData'', ''Donn'' @ [CHR 0xC3, CHR 0xA9] @ ''es (archive scind'' @ [CHR 0xC3, CHR 0xA9] @ ''e)''),
    (''changeDetectionShortMetadata'', ''M'' @ [CHR 0xC3, CHR 0xA9] @ ''tadonn'' @ [CHR 0xC3, CHR 0xA9] @ ''es (fichiers inchang'' @ [CHR 0xC3, CHR 0xA9] @ ''s ignor'' @ [CHR 0xC3, CHR 0xA9] @ ''s)''),
    (''reportsChangeDetection'', ''D'' @ [CHR 0xC3, CHR 0xA9] @ ''tection des changements''),
    (''reportsReusedFiles'', ''{files} fichiers inchang'' @ [CHR 0xC3, CHR 0xA9] @ ''s repris sans lecture, {size}''),
    (''reportsReusedShort'', ''{files} fichiers repris''),
    (''prefsExportTab'', ''Export / import des param'' @ [CHR 0xC3, CHR 0xA8] @ ''tres''),
    (''jobsPolicyTitle'', ''Protection des t'' @ [CHR 0xC3, CHR 0xA2] @ ''ches planifi'' @ [CHR 0xC3, CHR 0xA9] @ ''es''),
    (''jobsPolicyLabel'', ''Exiger les droits d'' @ [CHR 0x27] @ ''administrateur pour ajouter, modifier ou supprimer des ensembles de sauvegarde''),
    (''jobsPolicyHint'', ''Lorsque cette option est activ'' @ [CHR 0xC3, CHR 0xA9] @ ''e, seul un administrateur peut ajouter, modifier, supprimer ou importer des ensembles de sauvegarde ; un utilisateur standard ne peut donc pas changer ce qui est sauvegard'' @ [CHR 0xC3, CHR 0xA9] @ '' ni quand. L'' @ [CHR 0x27] @ ''ex'' @ [CHR 0xC3, CHR 0xA9] @ ''cution d'' @ [CHR 0x27] @ ''un ensemble de sauvegarde et la consultation de l'' @ [CHR 0x27] @ ''historique ne sont pas concern'' @ [CHR 0xC3, CHR 0xA9] @ ''es. Seul un administrateur peut activer ou d'' @ [CHR 0xC3, CHR 0xA9] @ ''sactiver ce param'' @ [CHR 0xC3, CHR 0xA8] @ ''tre.''),
    (''jobsPolicyHintLinux'', ''Avec le service d'' @ [CHR 0x27] @ ''arri'' @ [CHR 0xC3, CHR 0xA8] @ ''re-plan install'' @ [CHR 0xC3, CHR 0xA9] @ '', les ensembles de sauvegarde se trouvent dans son dossier partag'' @ [CHR 0xC3, CHR 0xA9] @ '', que seul root peut modifier : ajoutez, modifiez, supprimez ou importez-les avec '' @ [CHR 0xC2, CHR 0xAB] @ '' Red'' @ [CHR 0xC3, CHR 0xA9] @ ''marrer en tant qu'' @ [CHR 0x27] @ ''administrateur '' @ [CHR 0xC2, CHR 0xBB] @ ''. L'' @ [CHR 0x27] @ ''ex'' @ [CHR 0xC3, CHR 0xA9] @ ''cution d'' @ [CHR 0x27] @ ''un ensemble de sauvegarde et la consultation de l'' @ [CHR 0x27] @ ''historique fonctionnent sans cela.''),
    (''jobsPolicyIsAdmin'', ''Vous utilisez l'' @ [CHR 0x27] @ ''application en tant qu'' @ [CHR 0x27] @ ''administrateur : vous pouvez modifier ce param'' @ [CHR 0xC3, CHR 0xA8] @ ''tre.''),
    (''jobsPolicyNotAdmin'', ''Les droits d'' @ [CHR 0x27] @ ''administrateur sont n'' @ [CHR 0xC3, CHR 0xA9] @ ''cessaires pour modifier ce param'' @ [CHR 0xC3, CHR 0xA8] @ ''tre.''),
    (''jobsPolicyElevateBtn'', ''Red'' @ [CHR 0xC3, CHR 0xA9] @ ''marrer en tant qu'' @ [CHR 0x27] @ ''administrateur''),
    (''jobsPolicyElevateCancelled'', ''L'' @ [CHR 0x27] @ ''acc'' @ [CHR 0xC3, CHR 0xA8] @ ''s administrateur n'' @ [CHR 0x27] @ ''a pas '' @ [CHR 0xC3, CHR 0xA9] @ ''t'' @ [CHR 0xC3, CHR 0xA9] @ '' accord'' @ [CHR 0xC3, CHR 0xA9] @ '' ; l'' @ [CHR 0x27] @ ''application n'' @ [CHR 0x27] @ ''a pas '' @ [CHR 0xC3, CHR 0xA9] @ ''t'' @ [CHR 0xC3, CHR 0xA9] @ '' red'' @ [CHR 0xC3, CHR 0xA9] @ ''marr'' @ [CHR 0xC3, CHR 0xA9] @ ''e.''),
    (''jobsAdminRequired'', ''Les droits d'' @ [CHR 0x27] @ ''administrateur sont n'' @ [CHR 0xC3, CHR 0xA9] @ ''cessaires pour modifier les ensembles de sauvegarde. Red'' @ [CHR 0xC3, CHR 0xA9] @ ''marrez l'' @ [CHR 0x27] @ ''application en tant qu'' @ [CHR 0x27] @ ''administrateur, ou demandez '' @ [CHR 0xC3, CHR 0xA0] @ '' un administrateur de d'' @ [CHR 0xC3, CHR 0xA9] @ ''sactiver cette protection dans Pr'' @ [CHR 0xC3, CHR 0xA9] @ ''f'' @ [CHR 0xC3, CHR 0xA9] @ ''rences > Avanc'' @ [CHR 0xC3, CHR 0xA9] @ ''.''),
    (''jobsBanner'', ''La modification des ensembles de sauvegarde n'' @ [CHR 0xC3, CHR 0xA9] @ ''cessite les droits d'' @ [CHR 0x27] @ ''administrateur.''),
    (''settingsLockedBanner'', ''Les param'' @ [CHR 0xC3, CHR 0xA8] @ ''tres de sauvegarde de ce PC sont r'' @ [CHR 0xC3, CHR 0xA9] @ ''serv'' @ [CHR 0xC3, CHR 0xA9] @ ''s '' @ [CHR 0xC3, CHR 0xA0] @ '' ses administrateurs. Red'' @ [CHR 0xC3, CHR 0xA9] @ ''marrez en tant qu'' @ [CHR 0x27] @ ''administrateur pour voir et lancer vos ensembles de sauvegarde.''),
    (''serviceConnectBanner'', ''Non connect'' @ [CHR 0xC3, CHR 0xA9] @ '' au service d'' @ [CHR 0x27] @ ''arri'' @ [CHR 0xC3, CHR 0xA8] @ ''re-plan. Il conserve les serveurs PBS et les jeux de sauvegarde de cet ordinateur ; la connexion demande les droits d'' @ [CHR 0x27] @ ''administrateur.''),
    (''serviceConnectBtn'', ''Se connecter''),
    (''serviceNotConnectedRetry'', ''L'' @ [CHR 0x27] @ ''application n'' @ [CHR 0x27] @ ''est plus connect'' @ [CHR 0xC3, CHR 0xA9] @ ''e au service en arri'' @ [CHR 0xC3, CHR 0xA8] @ ''re-plan (il a red'' @ [CHR 0xC3, CHR 0xA9] @ ''marr'' @ [CHR 0xC3, CHR 0xA9] @ '' ou renouvel'' @ [CHR 0xC3, CHR 0xA9] @ '' son acc'' @ [CHR 0xC3, CHR 0xA8] @ ''s). Cliquez sur Se connecter, puis r'' @ [CHR 0xC3, CHR 0xA9] @ ''essayez.''),
    (''serviceConnectFailed'', ''Non connect'' @ [CHR 0xC3, CHR 0xA9] @ '' : {error}''),
    (''serviceNotRunningBanner'', ''Le service d'' @ [CHR 0x27] @ ''arri'' @ [CHR 0xC3, CHR 0xA8] @ ''re-plan ne fonctionne pas : les jeux de sauvegarde de cet ordinateur ne s'' @ [CHR 0x27] @ ''ex'' @ [CHR 0xC3, CHR 0xA9] @ ''cutent donc pas selon leur planification. Le d'' @ [CHR 0xC3, CHR 0xA9] @ ''marrer demande les droits d'' @ [CHR 0x27] @ ''administrateur.''),
    (''serviceStartBtn'', ''D'' @ [CHR 0xC3, CHR 0xA9] @ ''marrer le service''),
    (''serviceStartingBtn'', ''D'' @ [CHR 0xC3, CHR 0xA9] @ ''marrage'' @ [CHR 0xE2, CHR 0x80, CHR 0xA6]),
    (''serviceStartDeclined'', ''Le service n'' @ [CHR 0x27] @ ''a pas '' @ [CHR 0xC3, CHR 0xA9] @ ''t'' @ [CHR 0xC3, CHR 0xA9] @ '' d'' @ [CHR 0xC3, CHR 0xA9] @ ''marr'' @ [CHR 0xC3, CHR 0xA9] @ '' : la demande de droits d'' @ [CHR 0x27] @ ''administrateur a '' @ [CHR 0xC3, CHR 0xA9] @ ''t'' @ [CHR 0xC3, CHR 0xA9] @ '' refus'' @ [CHR 0xC3, CHR 0xA9] @ ''e.''),
    (''serviceStartFailed'', ''Le service n'' @ [CHR 0x27] @ ''a pas d'' @ [CHR 0xC3, CHR 0xA9] @ ''marr'' @ [CHR 0xC3, CHR 0xA9] @ '' : {error}''),
    (''serviceOwnSettingsBtn'', ''Utiliser mes propres param'' @ [CHR 0xC3, CHR 0xA8] @ ''tres''),
    (''serviceOwnSetsTitle'', ''Vos propres jeux de sauvegarde''),
    (''serviceOwnSetsMessage'', ''Une fois connect'' @ [CHR 0xC3, CHR 0xA9] @ '', vos propres jeux de sauvegarde ({count}) ne s'' @ [CHR 0x27] @ ''ex'' @ [CHR 0xC3, CHR 0xA9] @ ''cutent pas. Ils sont conserv'' @ [CHR 0xC3, CHR 0xA9] @ ''s et reviennent avec '' @ [CHR 0xC2, CHR 0xAB] @ '' Utiliser mes propres param'' @ [CHR 0xC3, CHR 0xA8] @ ''tres '' @ [CHR 0xC2, CHR 0xBB] @ ''. Vous pouvez aussi les copier, avec leurs serveurs PBS, dans les param'' @ [CHR 0xC3, CHR 0xA8] @ ''tres de cet ordinateur, o'' @ [CHR 0xC3, CHR 0xB9] @ '' le service en arri'' @ [CHR 0xC3, CHR 0xA8] @ ''re-plan les ex'' @ [CHR 0xC3, CHR 0xA9] @ ''cute que vous soyez connect'' @ [CHR 0xC3, CHR 0xA9] @ '' ou non.''),
    (''serviceOwnSetsCopyBtn'', ''Se connecter et copier mes jeux sur cet ordinateur''),
    (''serviceOwnSettingsBanner'', ''Vous utilisez vos propres param'' @ [CHR 0xC3, CHR 0xA8] @ ''tres, conserv'' @ [CHR 0xC3, CHR 0xA9] @ ''s dans votre dossier utilisateur. Vos jeux de sauvegarde ne s'' @ [CHR 0x27] @ ''ex'' @ [CHR 0xC3, CHR 0xA9] @ ''cutent que lorsque l'' @ [CHR 0x27] @ ''application est ouverte ou r'' @ [CHR 0xC3, CHR 0xA9] @ ''duite dans la zone de notification : le service d'' @ [CHR 0x27] @ ''arri'' @ [CHR 0xC3, CHR 0xA8] @ ''re-plan ne les ex'' @ [CHR 0xC3, CHR 0xA9] @ ''cute pas quand l'' @ [CHR 0x27] @ ''application est ferm'' @ [CHR 0xC3, CHR 0xA9] @ ''e ou que vous '' @ [CHR 0xC3, CHR 0xAA] @ ''tes d'' @ [CHR 0xC3, CHR 0xA9] @ ''connect'' @ [CHR 0xC3, CHR 0xA9] @ ''. Les serveurs PBS et les jeux de sauvegarde de cet ordinateur sont g'' @ [CHR 0xC3, CHR 0xA9] @ ''r'' @ [CHR 0xC3, CHR 0xA9] @ ''s par le service d'' @ [CHR 0x27] @ ''arri'' @ [CHR 0xC3, CHR 0xA8] @ ''re-plan ; s'' @ [CHR 0x27] @ ''y connecter demande les droits d'' @ [CHR 0x27] @ ''administrateur.''),
    (''parallelRestoreLabel'', ''Extraction de restauration en parall'' @ [CHR 0xC3, CHR 0xA8] @ ''le (exp'' @ [CHR 0xC3, CHR 0xA9] @ ''rimental)''),
    (''parallelRestoreHint'', [CHR 0xC3, CHR 0x89] @ ''crit plusieurs fichiers en m'' @ [CHR 0xC3, CHR 0xAA] @ ''me temps pendant la restauration au lieu d'' @ [CHR 0x27] @ ''un seul '' @ [CHR 0xC3, CHR 0xA0] @ '' la fois. Pas forc'' @ [CHR 0xC3, CHR 0xA9] @ ''ment plus rapide : sur notre propre machine de test, c'' @ [CHR 0x27, CHR 0xC3, CHR 0xA9] @ ''tait l'' @ [CHR 0xC3, CHR 0xA9] @ ''g'' @ [CHR 0xC3, CHR 0xA8] @ ''rement PLUS LENT que la m'' @ [CHR 0xC3, CHR 0xA9] @ ''thode s'' @ [CHR 0xC3, CHR 0xA9] @ ''quentielle habituelle, probablement parce que la contention du syst'' @ [CHR 0xC3, CHR 0xA8] @ ''me de fichiers l'' @ [CHR 0x27] @ ''emporte sur le parall'' @ [CHR 0xC3, CHR 0xA9] @ ''lisme. Peut aider sur du mat'' @ [CHR 0xC3, CHR 0xA9] @ ''riel diff'' @ [CHR 0xC3, CHR 0xA9] @ ''rent. D'' @ [CHR 0xC3, CHR 0xA9] @ ''sactivez cette option si une restauration se comporte de mani'' @ [CHR 0xC3, CHR 0xA8] @ ''re inattendue.''),
    (''parallelBackupReadLabel'', ''Lecture multithread'' @ [CHR 0xC3, CHR 0xA9] @ ''e des sauvegardes (exp'' @ [CHR 0xC3, CHR 0xA9] @ ''rimental)''),
    (''parallelBackupReadHint'', ''Lit les fichiers '' @ [CHR 0xC3, CHR 0xA0] @ '' l'' @ [CHR 0x27] @ ''avance en arri'' @ [CHR 0xC3, CHR 0xA8] @ ''re-plan pendant la sauvegarde au lieu d'' @ [CHR 0x27] @ ''un seul '' @ [CHR 0xC3, CHR 0xA0] @ '' la fois, tandis que l'' @ [CHR 0x27] @ ''analyse/le hachage se d'' @ [CHR 0xC3, CHR 0xA9] @ ''roule exactement comme avant ; cela ne change pas la fa'' @ [CHR 0xC3, CHR 0xA7] @ ''on dont les donn'' @ [CHR 0xC3, CHR 0xA9] @ ''es sont d'' @ [CHR 0xC3, CHR 0xA9] @ ''dupliqu'' @ [CHR 0xC3, CHR 0xA9] @ ''es. Aide surtout quand la vitesse de sauvegarde est limit'' @ [CHR 0xC3, CHR 0xA9] @ ''e par l'' @ [CHR 0x27] @ ''attente des lectures disque plut'' @ [CHR 0xC3, CHR 0xB4] @ ''t que par le CPU. D'' @ [CHR 0xC3, CHR 0xA9] @ ''sactivez cette option si une sauvegarde se comporte de mani'' @ [CHR 0xC3, CHR 0xA8] @ ''re inattendue.''),
    (''backupReadWorkersLabel'', ''Nombre de threads :'')]"

lemma fr_texts_1_holes: "scan_texts fr_texts_1 = Some
   [(''pwPrompt'', [''u'']),
    (''logBackupDirNotExist'', [''dir'']),
    (''logCatalogCreateFailed'', [''error'']),
    (''logSessionLost'', [''error'']),
    (''logCatalogFinalizeFailed'', [''error'']),
    (''logCatalogCloseFailed'', [''error'']),
    (''logAllDirsFailed'', [''total'', ''errors'']),
    (''logManifestUploadFailed'', [''error'']),
    (''logSessionFinalizeFailed'', [''error'']),
    (''logBackupPartial'', [''duration'', ''ok'', ''total'', ''mb'', ''new'', ''reused'', ''errors'', ''skippedNote'']),
    (''logBackupCompletedWithErrors'', [''duration'', ''mb'', ''new'', ''reused'', ''failed'', ''skippedNote'']),
    (''logBackupCompleted'', [''duration'', ''mb'', ''new'', ''reused'', ''skippedNote'']),
    (''logSkippedFilesNote'', [''count'']),
    (''logUnreadableFilesNote'', [''count'']),
    (''logSkippedByDesignNote'', [''count'']),
    (''logMachineBackupFailed'', [''error'']),
    (''logMachineBackupCompleted'', [''duration'']),
    (''logScheduledJobError'', [''error'']),
    (''logRestoreFailed'', [''error'']),
    (''logDeploySettingsApplied'', [''servers'', ''sets'']),
    (''logDeploySettingsFailed'', [''error'']),
    (''reportsReusedFiles'', [''files'', ''size'']),
    (''reportsReusedShort'', [''files'']),
    (''serviceConnectFailed'', [''error'']),
    (''serviceStartFailed'', [''error'']),
    (''serviceOwnSetsMessage'', [''count''])]"
  by code_simp

lemma fr_texts_1_keys: "map fst fr_texts_1 =
   [''appTitle'', ''appSubtitle'', ''srvTabServer'', ''srvTabUserpass'', ''srvTabToken'', ''srvTabEncryption'', 
    ''username'', ''password'', ''userpassHint'', ''passwordKeepCurrent'', ''pamUserWarning'', ''phBackupId'', 
    ''login'', ''logout'', ''loggedIn'', ''pwPrompt'', ''secretKeepCurrent'', ''phServerName'', 
    ''phServerURL'', ''phAuthID'', ''phSecret'', ''phDatastore'', ''phNamespace'', ''phCert'', 
    ''phUsername'', ''phPassword'', ''tabServers'', ''tabBackup'', ''tabRestore'', ''tabAbout'', 
    ''navReports'', ''navMessageLog'', ''knownLimitations'', ''devBuildBadge'', ''messageLogEmpty'', ''msgColDateTime'', 
    ''msgColSource'', ''msgColMessage'', ''msgSourceBackup'', ''msgSourceRestore'', ''msgLogCap'', ''logBackupDirNotExist'', 
    ''logBackupCancelled'', ''logCatalogCreateFailed'', ''logSessionLost'', ''logCatalogFinalizeFailed'', ''logCatalogCloseFailed'', ''logAllDirsFailed'', 
    ''logManifestUploadFailed'', ''logSessionFinalizeFailed'', ''logBackupPartial'', ''logBackupCompletedWithErrors'', ''logBackupCompleted'', ''logSkippedFilesNote'', 
    ''logUnreadableFilesNote'', ''logSkippedByDesignNote'', ''reportsSkippedByDesign'', ''logMachineBackupFailed'', ''logMachineBackupCompleted'', ''logScheduledJobError'', 
    ''logJobAbandoned'', ''logBackupCompletedGeneric'', ''logRestoreCompleted'', ''logRestoreFailed'', ''logDeploySettingsApplied'', ''logDeploySettingsFailed'', 
    ''themeTitle'', ''themeIntro'', ''themeAmber'', ''themeBlue'', ''themeGreen'', ''themeRed'', 
    ''themeDark'', ''themeCustom'', ''themeFieldAccent'', ''themeFieldAccentHover'', ''themeFieldHeroStart'', ''themeFieldHeroEnd'', 
    ''themeCustomHint'', ''themePreview'', ''prefsTitle'', ''prefsAccountInfo'', ''prefsBackupOptions'', ''prefsEmail'', 
    ''prefsAdvanced'', ''jobsLockModalTitle'', ''changeDetectionLabel'', ''changeDetectionLegacy'', ''changeDetectionData'', ''changeDetectionMetadata'', 
    ''changeDetectionMachineNote'', ''fullReadEveryLabel'', ''fullReadEveryRuns'', ''fullReadEveryOne'', ''changeDetectionMetadataHint'', ''changeDetectionDataHint'', 
    ''changeDetectionRestoreNote'', ''changeDetectionShortLegacy'', ''changeDetectionShortData'', ''changeDetectionShortMetadata'', ''reportsChangeDetection'', ''reportsReusedFiles'', 
    ''reportsReusedShort'', ''prefsExportTab'', ''jobsPolicyTitle'', ''jobsPolicyLabel'', ''jobsPolicyHint'', ''jobsPolicyHintLinux'', 
    ''jobsPolicyIsAdmin'', ''jobsPolicyNotAdmin'', ''jobsPolicyElevateBtn'', ''jobsPolicyElevateCancelled'', ''jobsAdminRequired'', ''jobsBanner'', 
    ''settingsLockedBanner'', ''serviceConnectBanner'', ''serviceConnectBtn'', ''serviceNotConnectedRetry'', ''serviceConnectFailed'', ''serviceNotRunningBanner'', 
    ''serviceStartBtn'', ''serviceStartingBtn'', ''serviceStartDeclined'', ''serviceStartFailed'', ''serviceOwnSettingsBtn'', ''serviceOwnSetsTitle'', 
    ''serviceOwnSetsMessage'', ''serviceOwnSetsCopyBtn'', ''serviceOwnSettingsBanner'', ''parallelRestoreLabel'', ''parallelRestoreHint'', ''parallelBackupReadLabel'', 
    ''parallelBackupReadHint'', ''backupReadWorkersLabel'']"
  unfolding fr_texts_1_def by (simp only: list.map fst_conv)

definition fr_texts_2 :: "(string \<times> string) list" where
  "fr_texts_2 = [
    (''emailNotificationsTitle'', ''Notifications par e-mail''),
    (''emailNotificationsIntro'', ''Compte SMTP global utilis'' @ [CHR 0xC3, CHR 0xA9] @ '' par l'' @ [CHR 0x27] @ ''option e-mail de chaque ensemble de sauvegarde (onglet Alertes).''),
    (''smtpHost'', ''Serveur SMTP''),
    (''smtpPort'', ''Port''),
    (''smtpUsername'', ''Nom d'' @ [CHR 0x27] @ ''utilisateur''),
    (''smtpPassword'', ''Mot de passe''),
    (''smtpPasswordSetPlaceholder'', ''(inchang'' @ [CHR 0xC3, CHR 0xA9] @ '')''),
    (''emailFromLabel'', ''Adresse d'' @ [CHR 0x27] @ ''exp'' @ [CHR 0xC3, CHR 0xA9] @ ''dition''),
    (''smtpInsecureLabel'', ''Autoriser une connexion non chiffr'' @ [CHR 0xC3, CHR 0xA9] @ ''e (d'' @ [CHR 0xC3, CHR 0xA9] @ ''conseill'' @ [CHR 0xC3, CHR 0xA9] @ '')''),
    (''testEmailPlaceholder'', ''Adresse pour l'' @ [CHR 0x27] @ ''e-mail de test''),
    (''sendTestEmailBtn'', ''Envoyer un e-mail de test''),
    (''sendingTestEmail'', ''Envoi...''),
    (''sendingTestEmailWait'', ''Envoi de l'' @ [CHR 0x27] @ ''e-mail de test par votre serveur de messagerie...''),
    (''statusTestEmailSent'', ''E-mail de test envoy'' @ [CHR 0xC3, CHR 0xA9]),
    (''emailNotificationsHint'', ''Ce compte est partag'' @ [CHR 0xC3, CHR 0xA9] @ '' par tous les ensembles de sauvegarde. Chaque ensemble choisit son propre destinataire dans son onglet Alertes.''),
    (''settingsPortabilityTitle'', ''Portabilit'' @ [CHR 0xC3, CHR 0xA9] @ '' des param'' @ [CHR 0xC3, CHR 0xA8] @ ''tres''),
    (''settingsPortabilityIntro'', ''Exportez vos serveurs PBS, votre th'' @ [CHR 0xC3, CHR 0xA8] @ ''me et vos ensembles de sauvegarde vers un fichier, ou importez-en un depuis une autre machine.''),
    (''logsTitle'', ''Journaux''),
    (''logsIntro'', ''Ouvre le dossier contenant les journaux de sauvegarde et de service, y compris les fichiers archiv'' @ [CHR 0xC3, CHR 0xA9] @ ''s.''),
    (''viewLogsBtn'', ''Voir les journaux''),
    (''navFullLogs'', ''Voir les journaux complets''),
    (''logsTitle'', ''Journaux complets''),
    (''logsNone'', ''Aucun fichier journal pour l'' @ [CHR 0x27] @ ''instant.''),
    (''logsKindRun'', ''Sauvegarde : {id}''),
    (''logsKindBackup'', ''Sauvegardes et restaurations''),
    (''logsKindApp'', ''Application et planifications''),
    (''logsService'', ''service''),
    (''logsFilter'', ''Afficher seulement les lignes contenant'' @ [CHR 0xE2, CHR 0x80, CHR 0xA6]),
    (''logsApply'', ''Afficher''),
    (''logsHideChunks'', ''Masquer les lignes de chunks''),
    (''logsRefresh'', ''Actualiser''),
    (''logsOpenFolder'', ''Ouvrir le dossier des journaux''),
    (''logsShowing'', ''{shown} lignes affich'' @ [CHR 0xC3, CHR 0xA9] @ ''es sur {total}''),
    (''logsLoading'', ''Chargement'' @ [CHR 0xE2, CHR 0x80, CHR 0xA6]),
    (''logsShowMore'', ''Afficher plus de lignes''),
    (''logsNoLines'', ''Aucune ligne '' @ [CHR 0xC3, CHR 0xA0] @ '' afficher.''),
    (''viewLog'', ''Voir le journal''),
    (''logsNoRunLog'', ''Aucun journal propre '' @ [CHR 0xC3, CHR 0xA0] @ '' cette ex'' @ [CHR 0xC3, CHR 0xA9] @ ''cution n'' @ [CHR 0x27] @ ''a '' @ [CHR 0xC3, CHR 0xA9] @ ''t'' @ [CHR 0xC3, CHR 0xA9] @ '' trouv'' @ [CHR 0xC3, CHR 0xA9] @ '' : voici le journal des sauvegardes autour de son heure.''),
    (''exportIncludeSecrets'', ''Inclure les mots de passe/jetons dans l'' @ [CHR 0x27] @ ''export''),
    (''exportSecretsWarning'', ''Le fichier export'' @ [CHR 0xC3, CHR 0xA9] @ '' contiendra vos jetons/mots de passe PBS, les phrases secr'' @ [CHR 0xC3, CHR 0xA8] @ ''tes de cl'' @ [CHR 0xC3, CHR 0xA9] @ '' m'' @ [CHR 0xC3, CHR 0xA9] @ ''moris'' @ [CHR 0xC3, CHR 0xA9] @ ''es et le mot de passe SMTP en clair. Conservez-le en lieu s'' @ [CHR 0xC3, CHR 0xBB] @ ''r.''),
    (''exportSettingsBtn'', ''Exporter les param'' @ [CHR 0xC3, CHR 0xA8] @ ''tres...''),
    (''importSettingsBtn'', ''Importer les param'' @ [CHR 0xC3, CHR 0xA8] @ ''tres...''),
    (''statusSettingsExported'', ''Param'' @ [CHR 0xC3, CHR 0xA8] @ ''tres export'' @ [CHR 0xC3, CHR 0xA9] @ ''s vers''),
    (''statusSettingsImported'', ''Param'' @ [CHR 0xC3, CHR 0xA8] @ ''tres import'' @ [CHR 0xC3, CHR 0xA9] @ ''s avec succ'' @ [CHR 0xC3, CHR 0xA8] @ ''s''),
    (''prefsOK'', ''OK''),
    (''prefsHelp'', ''Aide''),
    (''navHelp'', ''Aide''),
    (''helpTitle'', ''Manuels d'' @ [CHR 0x27] @ ''utilisation''),
    (''manualGui'', ''L'' @ [CHR 0x27] @ ''application''),
    (''manualCli'', ''Ligne de commande''),
    (''manualBmr'', ''Restauration bare-metal''),
    (''manualRestore'', ''Quelle restauration ?''),
    (''manualContents'', ''Sommaire''),
    (''manualFind'', ''Rechercher dans ce manuel''),
    (''manualSave'', ''Enregistrer une copie'' @ [CHR 0xE2, CHR 0x80, CHR 0xA6]),
    (''manualOnGitHub'', ''Ouvrir sur GitHub''),
    (''manualSaved'', ''Enregistr'' @ [CHR 0xC3, CHR 0xA9] @ '' dans''),
    (''manualEnglishOnly'', ''Les manuels sont en anglais.''),
    (''noPbsServerConfigured'', ''Aucun serveur PBS n'' @ [CHR 0x27] @ ''est encore configur'' @ [CHR 0xC3, CHR 0xA9] @ ''. Configurez-en un d'' @ [CHR 0x27] @ ''abord dans les Pr'' @ [CHR 0xC3, CHR 0xA9] @ ''f'' @ [CHR 0xC3, CHR 0xA9] @ ''rences.''),
    (''noPbsServerBanner'', [CHR 0xE2, CHR 0x9A, CHR 0xA0, CHR 0xEF, CHR 0xB8, CHR 0x8F] @ '' Aucun serveur PBS n'' @ [CHR 0x27] @ ''est configur'' @ [CHR 0xC3, CHR 0xA9] @ ''.''),
    (''openPreferences'', ''Ouvrir les Pr'' @ [CHR 0xC3, CHR 0xA9] @ ''f'' @ [CHR 0xC3, CHR 0xA9] @ ''rences''),
    (''save'', ''Enregistrer''),
    (''cancel'', ''Annuler''),
    (''delete'', ''Supprimer''),
    (''edit'', ''Modifier''),
    (''add'', ''Ajouter''),
    (''test'', ''Tester''),
    (''start'', ''D'' @ [CHR 0xC3, CHR 0xA9] @ ''marrer''),
    (''stop'', ''Arr'' @ [CHR 0xC3, CHR 0xAA] @ ''ter''),
    (''update'', ''Mettre '' @ [CHR 0xC3, CHR 0xA0] @ '' jour''),
    (''actions'', ''Actions''),
    (''name'', ''Nom''),
    (''url'', ''URL''),
    (''status'', ''Statut''),
    (''online'', ''En ligne''),
    (''offline'', ''Hors ligne''),
    (''testing'', ''Test...''),
    (''untested'', ''Non test'' @ [CHR 0xC3, CHR 0xA9]),
    (''default'', ''Par d'' @ [CHR 0xC3, CHR 0xA9] @ ''faut''),
    (''testServer'', ''Tester''),
    (''setDefault'', ''Par d'' @ [CHR 0xC3, CHR 0xA9] @ ''faut''),
    (''deleteServer'', ''Supprimer''),
    (''optional'', ''optionnel''),
    (''serversTitle'', ''Configuration PBS''),
    (''welcomeMessage'', ''Bienvenue !''),
    (''welcomeText'', ''Configurez votre premier serveur PBS pour commencer les sauvegardes.''),
    (''noPBSYet'', ''Vous n'' @ [CHR 0x27] @ ''avez pas encore de serveur PBS ?''),
    (''storageSelfHost'', ''T'' @ [CHR 0xC3, CHR 0xA9] @ ''l'' @ [CHR 0xC3, CHR 0xA9] @ ''chargez et installez votre propre {pbs}, ou achetez du stockage de sauvegarde.''),
    (''buyBackupStorage'', ''Acheter du stockage de sauvegarde''),
    (''addYourServer'', ''Ajouter votre serveur PBS''),
    (''addAnotherServer'', ''Ajouter un autre serveur PBS''),
    (''editServer'', ''Modifier le serveur''),
    (''addFirstServer'', ''Ajouter mon premier serveur''),
    (''addServer'', ''Ajouter le serveur''),
    (''configuredServers'', ''Serveurs configur'' @ [CHR 0xC3, CHR 0xA9] @ ''s''),
    (''setAsDefault'', ''D'' @ [CHR 0xC3, CHR 0xA9] @ ''finir par d'' @ [CHR 0xC3, CHR 0xA9] @ ''faut''),
    (''serverName'', ''Nom du serveur''),
    (''serverID'', ''ID du serveur (g'' @ [CHR 0xC3, CHR 0xA9] @ ''n'' @ [CHR 0xC3, CHR 0xA9] @ ''r'' @ [CHR 0xC3, CHR 0xA9] @ '' automatiquement si vide)''),
    (''serverIDPlaceholder'', ''pbs-ssd (laissez vide pour une g'' @ [CHR 0xC3, CHR 0xA9] @ ''n'' @ [CHR 0xC3, CHR 0xA9] @ ''ration automatique)''),
    (''serverURL'', ''URL du serveur PBS''),
    (''authID'', ''ID d'' @ [CHR 0x27] @ ''authentification''),
    (''secret'', ''Secret (jeton API)''),
    (''datastore'', ''Datastore''),
    (''namespace'', ''Espace de noms (optionnel)''),
    (''certFingerprint'', ''Empreinte du certificat SSL (optionnel)''),
    (''description'', ''Description (optionnelle)''),
    (''descriptionPlaceholder'', ''Stockage SSD pour les sauvegardes critiques''),
    (''encryptionKey'', ''Fichier de cl'' @ [CHR 0xC3, CHR 0xA9] @ '' de chiffrement (optionnel)''),
    (''phEncryptionKey'', ''C:'' @ [CHR 0x5C] @ ''ProgramData'' @ [CHR 0x5C] @ ''Salvanza'' @ [CHR 0x5C] @ ''keys'' @ [CHR 0x5C] @ ''encryption-key.json''),
    (''encryptionKeyImport'', ''Importer...''),
    (''encryptionKeyGenerate'', ''G'' @ [CHR 0xC3, CHR 0xA9] @ ''n'' @ [CHR 0xC3, CHR 0xA9] @ ''rer...''),
    (''encryptionKeyClear'', ''Effacer''),
    (''encryptionKeyHint'', ''Chaque bloc de l'' @ [CHR 0x27] @ ''instantan'' @ [CHR 0xC3, CHR 0xA9] @ '' est chiffr'' @ [CHR 0xC3, CHR 0xA9] @ '' en AES-256-GCM. Ce fichier est indispensable pour restaurer : conservez une copie en lieu s'' @ [CHR 0xC3, CHR 0xBB] @ ''r, hors de cette machine. Une cl'' @ [CHR 0xC3, CHR 0xA9] @ '' prot'' @ [CHR 0xC3, CHR 0xA9] @ ''g'' @ [CHR 0xC3, CHR 0xA9] @ ''e par phrase secr'' @ [CHR 0xC3, CHR 0xA8] @ ''te est aussi utilisable ici : choisissez ci-dessous comment la d'' @ [CHR 0xC3, CHR 0xA9] @ ''verrouiller.''),
    (''encryptionPassphraseTitle'', ''Cl'' @ [CHR 0xC3, CHR 0xA9] @ '' prot'' @ [CHR 0xC3, CHR 0xA9] @ ''g'' @ [CHR 0xC3, CHR 0xA9] @ ''e par une phrase secr'' @ [CHR 0xC3, CHR 0xA8] @ ''te''),
    (''encryptionPassphraseIntro'', ''Cette cl'' @ [CHR 0xC3, CHR 0xA9] @ '' est chiffr'' @ [CHR 0xC3, CHR 0xA9] @ ''e par une phrase secr'' @ [CHR 0xC3, CHR 0xA8] @ ''te. Choisissez comment l'' @ [CHR 0x27] @ ''application doit la d'' @ [CHR 0xC3, CHR 0xA9] @ ''verrouiller.''),
    (''encryptionPassphraseAsk'', ''Me la demander (une fois par session de l'' @ [CHR 0x27] @ ''application)''),
    (''encryptionPassphraseRemember'', ''La m'' @ [CHR 0xC3, CHR 0xA9] @ ''moriser sur cet ordinateur''),
    (''encryptionPassphraseAskNote'', ''Les sauvegardes planifi'' @ [CHR 0xC3, CHR 0xA9] @ ''es '' @ [CHR 0xC3, CHR 0xA9] @ ''choueront tant que la phrase secr'' @ [CHR 0xC3, CHR 0xA8] @ ''te n'' @ [CHR 0x27] @ ''a pas '' @ [CHR 0xC3, CHR 0xA9] @ ''t'' @ [CHR 0xC3, CHR 0xA9] @ '' saisie dans cette session.''),
    (''encryptionPassphraseRememberNote'', ''La phrase secr'' @ [CHR 0xC3, CHR 0xA8] @ ''te est enregistr'' @ [CHR 0xC3, CHR 0xA9] @ ''e dans la configuration, comme le jeton PBS. Sous Windows, elle est chiffr'' @ [CHR 0xC3, CHR 0xA9] @ ''e pour cet ordinateur, si bien qu'' @ [CHR 0x27] @ ''une copie du fichier sur un autre ordinateur ne peut pas d'' @ [CHR 0xC3, CHR 0xA9] @ ''verrouiller la cl'' @ [CHR 0xC3, CHR 0xA9] @ '' ; sous Linux, quiconque peut lire le fichier de configuration le peut. N'' @ [CHR 0xC3, CHR 0xA9] @ ''cessaire pour les t'' @ [CHR 0xC3, CHR 0xA2] @ ''ches planifi'' @ [CHR 0xC3, CHR 0xA9] @ ''es sans surveillance.''),
    (''encryptionPassphraseKeep'', ''Laisser vide pour conserver la phrase secr'' @ [CHR 0xC3, CHR 0xA8] @ ''te m'' @ [CHR 0xC3, CHR 0xA9] @ ''moris'' @ [CHR 0xC3, CHR 0xA9] @ ''e''),
    (''encryptionPassphrasePlaceholder'', ''Phrase secr'' @ [CHR 0xC3, CHR 0xA8] @ ''te de la cl'' @ [CHR 0xC3, CHR 0xA9]),
    (''encryptionPassphraseVerify'', ''V'' @ [CHR 0xC3, CHR 0xA9] @ ''rifier''),
    (''encryptionPassphraseEnter'', ''Saisissez la phrase secr'' @ [CHR 0xC3, CHR 0xA8] @ ''te.''),
    (''encryptionPassphraseVerified'', ''Phrase secr'' @ [CHR 0xC3, CHR 0xA8] @ ''te correcte.''),
    (''reportsEncryption'', ''Chiffrement''),
    (''reportsEncrypted'', ''Chiffr'' @ [CHR 0xC3, CHR 0xA9] @ ''e''),
    (''reportsUnencrypted'', ''Non chiffr'' @ [CHR 0xC3, CHR 0xA9] @ ''e''),
    (''encryptionPassphraseWrong'', ''Phrase secr'' @ [CHR 0xC3, CHR 0xA8] @ ''te incorrecte pour cette cl'' @ [CHR 0xC3, CHR 0xA9] @ ''.''),
    (''encryptionPromptTitle'', ''Phrase secr'' @ [CHR 0xC3, CHR 0xA8] @ ''te requise''),
    (''encryptionPromptBody'', ''La cl'' @ [CHR 0xC3, CHR 0xA9] @ '' de chiffrement est prot'' @ [CHR 0xC3, CHR 0xA9] @ ''g'' @ [CHR 0xC3, CHR 0xA9] @ ''e par une phrase secr'' @ [CHR 0xC3, CHR 0xA8] @ ''te. Saisissez-la pour continuer.''),
    (''encryptionPromptFingerprint'', ''Empreinte : {fp}''),
    (''encryptionPromptCancel'', ''Annuler''),
    (''encryptionPromptUnlock'', ''D'' @ [CHR 0xC3, CHR 0xA9] @ ''verrouiller''),
    (''encryptionCancelledNoPassphrase'', ''Sauvegarde annul'' @ [CHR 0xC3, CHR 0xA9] @ ''e : la phrase secr'' @ [CHR 0xC3, CHR 0xA8] @ ''te de chiffrement n'' @ [CHR 0x27] @ ''a pas '' @ [CHR 0xC3, CHR 0xA9] @ ''t'' @ [CHR 0xC3, CHR 0xA9] @ '' saisie. Rien n'' @ [CHR 0x27] @ ''a '' @ [CHR 0xC3, CHR 0xA9] @ ''t'' @ [CHR 0xC3, CHR 0xA9] @ '' sauvegard'' @ [CHR 0xC3, CHR 0xA9] @ ''.''),
    (''encryptionKeyUnset'', ''Aucune cl'' @ [CHR 0xC3, CHR 0xA9] @ '' : les sauvegardes ne seront pas chiffr'' @ [CHR 0xC3, CHR 0xA9] @ ''es.''),
    (''encryptionKeyOk'', ''Cl'' @ [CHR 0xC3, CHR 0xA9] @ '' charg'' @ [CHR 0xC3, CHR 0xA9] @ ''e (empreinte {fp})''),
    (''machineReadFreeSpace'', ''Copie forensique : lire aussi l'' @ [CHR 0x27] @ ''espace libre''),
    (''machineReadFreeSpaceHint'', ''Lit chaque secteur, y compris l'' @ [CHR 0x27] @ ''espace libre et les fichiers d'' @ [CHR 0x27, CHR 0xC3, CHR 0xA9] @ ''change et d'' @ [CHR 0x27] @ ''hibernation, pour pouvoir r'' @ [CHR 0xC3, CHR 0xA9] @ ''cup'' @ [CHR 0xC3, CHR 0xA9] @ ''rer plus tard des fichiers supprim'' @ [CHR 0xC3, CHR 0xA9] @ ''s depuis l'' @ [CHR 0x27] @ ''image. Sans cette option, ils sont plac'' @ [CHR 0xC3, CHR 0xA9] @ ''s dans l'' @ [CHR 0x27] @ ''image sous forme de z'' @ [CHR 0xC3, CHR 0xA9] @ ''ros sans '' @ [CHR 0xC3, CHR 0xAA] @ ''tre lus. Beaucoup plus lent, et les sauvegardes prennent plus de place.'')]"

lemma fr_texts_2_holes: "scan_texts fr_texts_2 = Some
   [(''logsKindRun'', [''id'']),
    (''logsShowing'', [''shown'', ''total'']),
    (''storageSelfHost'', [''pbs'']),
    (''encryptionPromptFingerprint'', [''fp'']),
    (''encryptionKeyOk'', [''fp''])]"
  by code_simp

lemma fr_texts_2_keys: "map fst fr_texts_2 =
   [''emailNotificationsTitle'', ''emailNotificationsIntro'', ''smtpHost'', ''smtpPort'', ''smtpUsername'', ''smtpPassword'', 
    ''smtpPasswordSetPlaceholder'', ''emailFromLabel'', ''smtpInsecureLabel'', ''testEmailPlaceholder'', ''sendTestEmailBtn'', ''sendingTestEmail'', 
    ''sendingTestEmailWait'', ''statusTestEmailSent'', ''emailNotificationsHint'', ''settingsPortabilityTitle'', ''settingsPortabilityIntro'', ''logsTitle'', 
    ''logsIntro'', ''viewLogsBtn'', ''navFullLogs'', ''logsTitle'', ''logsNone'', ''logsKindRun'', 
    ''logsKindBackup'', ''logsKindApp'', ''logsService'', ''logsFilter'', ''logsApply'', ''logsHideChunks'', 
    ''logsRefresh'', ''logsOpenFolder'', ''logsShowing'', ''logsLoading'', ''logsShowMore'', ''logsNoLines'', 
    ''viewLog'', ''logsNoRunLog'', ''exportIncludeSecrets'', ''exportSecretsWarning'', ''exportSettingsBtn'', ''importSettingsBtn'', 
    ''statusSettingsExported'', ''statusSettingsImported'', ''prefsOK'', ''prefsHelp'', ''navHelp'', ''helpTitle'', 
    ''manualGui'', ''manualCli'', ''manualBmr'', ''manualRestore'', ''manualContents'', ''manualFind'', 
    ''manualSave'', ''manualOnGitHub'', ''manualSaved'', ''manualEnglishOnly'', ''noPbsServerConfigured'', ''noPbsServerBanner'', 
    ''openPreferences'', ''save'', ''cancel'', ''delete'', ''edit'', ''add'', 
    ''test'', ''start'', ''stop'', ''update'', ''actions'', ''name'', 
    ''url'', ''status'', ''online'', ''offline'', ''testing'', ''untested'', 
    ''default'', ''testServer'', ''setDefault'', ''deleteServer'', ''optional'', ''serversTitle'', 
    ''welcomeMessage'', ''welcomeText'', ''noPBSYet'', ''storageSelfHost'', ''buyBackupStorage'', ''addYourServer'', 
    ''addAnotherServer'', ''editServer'', ''addFirstServer'', ''addServer'', ''configuredServers'', ''setAsDefault'', 
    ''serverName'', ''serverID'', ''serverIDPlaceholder'', ''serverURL'', ''authID'', ''secret'', 
    ''datastore'', ''namespace'', ''certFingerprint'', ''description'', ''descriptionPlaceholder'', ''encryptionKey'', 
    ''phEncryptionKey'', ''encryptionKeyImport'', ''encryptionKeyGenerate'', ''encryptionKeyClear'', ''encryptionKeyHint'', ''encryptionPassphraseTitle'', 
    ''encryptionPassphraseIntro'', ''encryptionPassphraseAsk'', ''encryptionPassphraseRemember'', ''encryptionPassphraseAskNote'', ''encryptionPassphraseRememberNote'', ''encryptionPassphraseKeep'', 
    ''encryptionPassphrasePlaceholder'', ''encryptionPassphraseVerify'', ''encryptionPassphraseEnter'', ''encryptionPassphraseVerified'', ''reportsEncryption'', ''reportsEncrypted'', 
    ''reportsUnencrypted'', ''encryptionPassphraseWrong'', ''encryptionPromptTitle'', ''encryptionPromptBody'', ''encryptionPromptFingerprint'', ''encryptionPromptCancel'', 
    ''encryptionPromptUnlock'', ''encryptionCancelledNoPassphrase'', ''encryptionKeyUnset'', ''encryptionKeyOk'', ''machineReadFreeSpace'', ''machineReadFreeSpaceHint'']"
  unfolding fr_texts_2_def by (simp only: list.map fst_conv)

definition fr_texts_3 :: "(string \<times> string) list" where
  "fr_texts_3 = [
    (''snapshotTipMachineLive'', ''Utiliser les instantan'' @ [CHR 0xC3, CHR 0xA9] @ ''s est d'' @ [CHR 0xC3, CHR 0xA9] @ ''sactiv'' @ [CHR 0xC3, CHR 0xA9] @ '' : les partitions mont'' @ [CHR 0xC3, CHR 0xA9] @ ''es sont lues '' @ [CHR 0xC3, CHR 0xA0] @ '' chaud et l'' @ [CHR 0x27] @ ''image peut '' @ [CHR 0xC3, CHR 0xAA] @ ''tre incoh'' @ [CHR 0xC3, CHR 0xA9] @ ''rente.''),
    (''snapshotTipMachineOffNotAccepted'', ''Utiliser les instantan'' @ [CHR 0xC3, CHR 0xA9] @ ''s est d'' @ [CHR 0xC3, CHR 0xA9] @ ''sactiv'' @ [CHR 0xC3, CHR 0xA9] @ '' mais la lecture sans instantan'' @ [CHR 0xC3, CHR 0xA9] @ '' n'' @ [CHR 0x27] @ ''est pas accept'' @ [CHR 0xC3, CHR 0xA9] @ ''e : les ex'' @ [CHR 0xC3, CHR 0xA9] @ ''cutions de l'' @ [CHR 0x27] @ ''ensemble s'' @ [CHR 0x27] @ ''arr'' @ [CHR 0xC3, CHR 0xAA] @ ''tent.''),
    (''machineUseSnapshots'', ''Utiliser les instantan'' @ [CHR 0xC3, CHR 0xA9] @ ''s''),
    (''machineUseSnapshotsHint'', ''Les disques mont'' @ [CHR 0xC3, CHR 0xA9] @ ''s sont lus via un instantan'' @ [CHR 0xC3, CHR 0xA9] @ '' (elastio-snap ou dattobd), l'' @ [CHR 0x27] @ ''image est donc coh'' @ [CHR 0xC3, CHR 0xA9] @ ''rente. Il faut l'' @ [CHR 0x27] @ ''un de ces modules charg'' @ [CHR 0xC3, CHR 0xA9] @ '', et root ou le service.''),
    (''machineLiveReadAccept'', ''Ex'' @ [CHR 0xC3, CHR 0xA9] @ ''cuter sans instantan'' @ [CHR 0xC3, CHR 0xA9] @ '' : j'' @ [CHR 0x27] @ ''accepte que la sauvegarde puisse '' @ [CHR 0xC3, CHR 0xAA] @ ''tre incoh'' @ [CHR 0xC3, CHR 0xA9] @ ''rente''),
    (''machineLiveReadAcceptHint'', ''Les disques mont'' @ [CHR 0xC3, CHR 0xA9] @ ''s sont lus '' @ [CHR 0xC3, CHR 0xA0] @ '' chaud. Les fichiers modifi'' @ [CHR 0xC3, CHR 0xA9] @ ''s pendant la sauvegarde peuvent se retrouver '' @ [CHR 0xC3, CHR 0xA0] @ '' moiti'' @ [CHR 0xC3, CHR 0xA9] @ '' '' @ [CHR 0xC3, CHR 0xA9] @ ''crits dans l'' @ [CHR 0x27] @ ''image. Sans cette case, les ex'' @ [CHR 0xC3, CHR 0xA9] @ ''cutions de l'' @ [CHR 0x27] @ ''ensemble s'' @ [CHR 0x27] @ ''arr'' @ [CHR 0xC3, CHR 0xAA] @ ''tent.''),
    (''snapModuleActive'', ''Module d'' @ [CHR 0x27] @ ''instantan'' @ [CHR 0xC3, CHR 0xA9] @ ''s charg'' @ [CHR 0xC3, CHR 0xA9] @ '' : {module}. Les disques mont'' @ [CHR 0xC3, CHR 0xA9] @ ''s sont lus via un instantan'' @ [CHR 0xC3, CHR 0xA9] @ ''.''),
    (''snapModuleMissing'', ''Aucun module d'' @ [CHR 0x27] @ ''instantan'' @ [CHR 0xC3, CHR 0xA9] @ ''s charg'' @ [CHR 0xC3, CHR 0xA9] @ '' (elastio-snap ou dattobd). Un disque mont'' @ [CHR 0xC3, CHR 0xA9] @ '' ne peut pas '' @ [CHR 0xC3, CHR 0xAA] @ ''tre pris en instantan'' @ [CHR 0xC3, CHR 0xA9] @ '' : installez-en un, ou d'' @ [CHR 0xC3, CHR 0xA9] @ ''sactivez Utiliser les instantan'' @ [CHR 0xC3, CHR 0xA9] @ ''s pour l'' @ [CHR 0x27] @ ''ensemble et acceptez une sauvegarde qui peut '' @ [CHR 0xC3, CHR 0xAA] @ ''tre incoh'' @ [CHR 0xC3, CHR 0xA9] @ ''rente.''),
    (''snapModuleHowTo'', ''Comment l'' @ [CHR 0x27] @ ''installer''),
    (''snapModuleHowToTip'', ''Ouvre le guide d'' @ [CHR 0x27] @ ''installation dans l'' @ [CHR 0x27] @ ''Aide.''),
    (''snapInstallBtn'', ''L'' @ [CHR 0x27] @ ''installer pour moi''),
    (''snapInstallBtnTip'', ''Compile et charge elastio-snap pour cet ordinateur, apr'' @ [CHR 0xC3, CHR 0xA8] @ ''s avoir demand'' @ [CHR 0xC3, CHR 0xA9] @ '' le mot de passe d'' @ [CHR 0x27] @ ''un administrateur.''),
    (''snapInstallDistroTip'', ''L'' @ [CHR 0x27] @ ''installateur conna'' @ [CHR 0xC3, CHR 0xAE] @ ''t Debian, Ubuntu, Linux Mint, Fedora et la famille RHEL : Comment l'' @ [CHR 0x27] @ ''installer donne les '' @ [CHR 0xC3, CHR 0xA9] @ ''tapes pour les autres distributions.''),
    (''snapInstallNoInstallerTip'', ''Ce paquet ne contient pas l'' @ [CHR 0x27] @ ''installateur : Comment l'' @ [CHR 0x27] @ ''installer donne les '' @ [CHR 0xC3, CHR 0xA9] @ ''tapes.''),
    (''snapRestartPending'', ''Le module d'' @ [CHR 0x27] @ ''instantan'' @ [CHR 0xC3, CHR 0xA9] @ ''s est install'' @ [CHR 0xC3, CHR 0xA9] @ '', mais Secure Boot ne le charge qu'' @ [CHR 0x27] @ ''une fois sa cl'' @ [CHR 0xC3, CHR 0xA9] @ '' de signature approuv'' @ [CHR 0xC3, CHR 0xA9] @ ''e lors d'' @ [CHR 0x27] @ ''un red'' @ [CHR 0xC3, CHR 0xA9] @ ''marrage :''),
    (''snapInstallTitle'', ''Installer le module d'' @ [CHR 0x27] @ ''instantan'' @ [CHR 0xC3, CHR 0xA9] @ ''s''),
    (''snapInstallIntro'', ''Cette op'' @ [CHR 0xC3, CHR 0xA9] @ ''ration compile elastio-snap pour le noyau Linux de cet ordinateur et le charge, maintenant et '' @ [CHR 0xC3, CHR 0xA0] @ '' chaque d'' @ [CHR 0xC3, CHR 0xA9] @ ''marrage. Elle installe d'' @ [CHR 0x27] @ ''abord les outils de compilation et les en-t'' @ [CHR 0xC3, CHR 0xAA] @ ''tes du noyau depuis votre distribution, un t'' @ [CHR 0xC3, CHR 0xA9] @ ''l'' @ [CHR 0xC3, CHR 0xA9] @ ''chargement de quelques centaines de Mo : il faut donc Internet et quelques minutes. Le mot de passe d'' @ [CHR 0x27] @ ''un administrateur vous est demand'' @ [CHR 0xC3, CHR 0xA9] @ ''.''),
    (''snapInstallSecureBootTitle'', ''Secure Boot est activ'' @ [CHR 0xC3, CHR 0xA9]),
    (''snapInstallSecureBootBody'', ''Secure Boot ne charge le module qu'' @ [CHR 0x27] @ ''une fois sa cl'' @ [CHR 0xC3, CHR 0xA9] @ '' de signature approuv'' @ [CHR 0xC3, CHR 0xA9] @ ''e, ce que vous faites une seule fois, au prochain red'' @ [CHR 0xC3, CHR 0xA9] @ ''marrage. Choisissez pour cela un mot de passe '' @ [CHR 0xC3, CHR 0xA0] @ '' usage unique. Vous le saisissez '' @ [CHR 0xC3, CHR 0xA0] @ '' nouveau sur un '' @ [CHR 0xC3, CHR 0xA9] @ ''cran bleu apr'' @ [CHR 0xC3, CHR 0xA8] @ ''s le red'' @ [CHR 0xC3, CHR 0xA9] @ ''marrage, qui peut lire le clavier comme un clavier am'' @ [CHR 0xC3, CHR 0xA9] @ ''ricain (US).''),
    (''snapInstallPassword'', ''Mot de passe '' @ [CHR 0xC3, CHR 0xA0] @ '' usage unique''),
    (''snapInstallPasswordAgain'', ''Saisissez-le '' @ [CHR 0xC3, CHR 0xA0] @ '' nouveau''),
    (''snapInstallPasswordRule'', ''8 '' @ [CHR 0xC3, CHR 0xA0] @ '' 16 lettres et chiffres.''),
    (''snapInstallPasswordMismatch'', ''Les deux mots de passe diff'' @ [CHR 0xC3, CHR 0xA8] @ ''rent.''),
    (''snapInstallDeclined'', ''Aucun mot de passe administrateur n'' @ [CHR 0x27] @ ''a '' @ [CHR 0xC3, CHR 0xA9] @ ''t'' @ [CHR 0xC3, CHR 0xA9] @ '' fourni, rien n'' @ [CHR 0x27] @ ''a donc '' @ [CHR 0xC3, CHR 0xA9] @ ''t'' @ [CHR 0xC3, CHR 0xA9] @ '' install'' @ [CHR 0xC3, CHR 0xA9] @ ''.''),
    (''snapInstallRunning'', ''Installation en cours. Cela prend quelques minutes : gardez l'' @ [CHR 0x27] @ ''application ouverte.''),
    (''snapInstallDone'', ''Le module d'' @ [CHR 0x27] @ ''instantan'' @ [CHR 0xC3, CHR 0xA9] @ ''s est install'' @ [CHR 0xC3, CHR 0xA9] @ '' et charg'' @ [CHR 0xC3, CHR 0xA9] @ ''. Les disques mont'' @ [CHR 0xC3, CHR 0xA9] @ ''s sont d'' @ [CHR 0xC3, CHR 0xA9] @ ''sormais lus via un instantan'' @ [CHR 0xC3, CHR 0xA9] @ ''.''),
    (''snapInstallRestartTitle'', ''Presque termin'' @ [CHR 0xC3, CHR 0xA9] @ '' : red'' @ [CHR 0xC3, CHR 0xA9] @ ''marrez pour approuver la cl'' @ [CHR 0xC3, CHR 0xA9]),
    (''snapInstallRestartStep1'', ''Red'' @ [CHR 0xC3, CHR 0xA9] @ ''marrez l'' @ [CHR 0x27] @ ''ordinateur.''),
    (''snapInstallRestartStep2'', ''Un '' @ [CHR 0xC3, CHR 0xA9] @ ''cran bleu, '' @ [CHR 0x22] @ ''Perform MOK management'' @ [CHR 0x22] @ '', s'' @ [CHR 0x27] @ ''affiche : appuyez sur une touche dans les 10 secondes.''),
    (''snapInstallRestartStep3'', ''Choisissez '' @ [CHR 0x22] @ ''Enroll MOK'' @ [CHR 0x22] @ '', puis '' @ [CHR 0x22] @ ''Continue'' @ [CHR 0x22] @ '', puis '' @ [CHR 0x22] @ ''Yes'' @ [CHR 0x22] @ ''.''),
    (''snapInstallRestartStep4'', ''Saisissez le mot de passe '' @ [CHR 0xC3, CHR 0xA0] @ '' usage unique, puis choisissez '' @ [CHR 0x22] @ ''Reboot'' @ [CHR 0x22] @ ''.''),
    (''snapInstallRestartAfter'', ''Le module se charge ensuite '' @ [CHR 0xC3, CHR 0xA0] @ '' chaque d'' @ [CHR 0xC3, CHR 0xA9] @ ''marrage. Jusqu'' @ [CHR 0x27] @ ''au red'' @ [CHR 0xC3, CHR 0xA9] @ ''marrage, les sauvegardes machine ne peuvent pas utiliser les instantan'' @ [CHR 0xC3, CHR 0xA9] @ ''s.''),
    (''snapInstallFailed'', ''L'' @ [CHR 0x27] @ ''installation n'' @ [CHR 0x27] @ ''a pas abouti : {error}''),
    (''snapInstallFailedHint'', ''La sortie ci-dessous en donne la raison. Le guide d'' @ [CHR 0x27] @ ''installation dans l'' @ [CHR 0x27] @ ''Aide donne les '' @ [CHR 0xC3, CHR 0xA9] @ ''tapes pour le faire '' @ [CHR 0xC3, CHR 0xA0] @ '' la main.''),
    (''snapInstallCancel'', ''Annuler''),
    (''snapInstallStart'', ''Installer''),
    (''snapInstallClose'', ''Fermer''),
    (''elevNeededTitle'', ''Droits d'' @ [CHR 0x27] @ ''administrateur n'' @ [CHR 0xC3, CHR 0xA9] @ ''cessaires''),
    (''elevNeededHint'', ''La lecture des disques n'' @ [CHR 0xC3, CHR 0xA9] @ ''cessite root, et le service ne tourne pas. Red'' @ [CHR 0xC3, CHR 0xA9] @ ''marrez cette application en tant qu'' @ [CHR 0x27] @ ''administrateur, ou activez Ex'' @ [CHR 0xC3, CHR 0xA9] @ ''cuter comme service dans les Pr'' @ [CHR 0xC3, CHR 0xA9] @ ''f'' @ [CHR 0xC3, CHR 0xA9] @ ''rences.''),
    (''saveWarnTitle'', ''Cet ensemble de sauvegarde ne s'' @ [CHR 0x27] @ ''ex'' @ [CHR 0xC3, CHR 0xA9] @ ''cutera pas tel quel''),
    (''saveWarnIntro'', ''Enregistr'' @ [CHR 0xC3, CHR 0xA9] @ '' ainsi :''),
    (''saveWarnSave'', ''Enregistrer quand m'' @ [CHR 0xC3, CHR 0xAA] @ ''me''),
    (''saveWarnBack'', ''Revenir''),
    (''saveWarnDisabled'', ''L'' @ [CHR 0x27] @ ''ensemble est d'' @ [CHR 0xC3, CHR 0xA9] @ ''sactiv'' @ [CHR 0xC3, CHR 0xA9] @ '' : il ne s'' @ [CHR 0x27] @ ''ex'' @ [CHR 0xC3, CHR 0xA9] @ ''cute pas selon sa planification tant que vous ne l'' @ [CHR 0x27] @ ''activez pas.''),
    (''saveWarnNoSchedule'', ''Aucune planification n'' @ [CHR 0x27] @ ''est active : il ne s'' @ [CHR 0x27] @ ''ex'' @ [CHR 0xC3, CHR 0xA9] @ ''cute que lorsque vous cliquez sur Ex'' @ [CHR 0xC3, CHR 0xA9] @ ''cuter maintenant.''),
    (''saveWarnSnapshotsOff'', ''Utiliser les instantan'' @ [CHR 0xC3, CHR 0xA9] @ ''s est d'' @ [CHR 0xC3, CHR 0xA9] @ ''sactiv'' @ [CHR 0xC3, CHR 0xA9] @ '' mais la lecture sans instantan'' @ [CHR 0xC3, CHR 0xA9] @ '' n'' @ [CHR 0x27] @ ''est pas accept'' @ [CHR 0xC3, CHR 0xA9] @ ''e : chaque ex'' @ [CHR 0xC3, CHR 0xA9] @ ''cution s'' @ [CHR 0x27] @ ''arr'' @ [CHR 0xC3, CHR 0xAA] @ ''te avant de commencer.''),
    (''saveWarnNoModule'', ''Aucun module d'' @ [CHR 0x27] @ ''instantan'' @ [CHR 0xC3, CHR 0xA9] @ ''s n'' @ [CHR 0x27] @ ''est charg'' @ [CHR 0xC3, CHR 0xA9] @ '' : une ex'' @ [CHR 0xC3, CHR 0xA9] @ ''cution s'' @ [CHR 0x27] @ ''arr'' @ [CHR 0xC3, CHR 0xAA] @ ''te si l'' @ [CHR 0x27] @ ''un de ses disques est mont'' @ [CHR 0xC3, CHR 0xA9] @ ''.''),
    (''saveWarnNeedsRoot'', ''Cette application ne tourne pas en administrateur et le service ne tourne pas : une ex'' @ [CHR 0xC3, CHR 0xA9] @ ''cution lanc'' @ [CHR 0xC3, CHR 0xA9] @ ''e ici ne peut pas lire les disques.''),
    (''saveWarnDisksMissing'', ''Disques non connect'' @ [CHR 0xC3, CHR 0xA9] @ ''s : {disks}. Ses ex'' @ [CHR 0xC3, CHR 0xA9] @ ''cutions '' @ [CHR 0xC3, CHR 0xA9] @ ''chouent jusqu'' @ [CHR 0x27, CHR 0xC3, CHR 0xA0] @ '' leur retour.''),
    (''machineForensicBadge'', ''FORENSIQUE''),
    (''encryptionKeyOpenToOthers'', ''D'' @ [CHR 0x27] @ ''autres comptes de cet ordinateur peuvent lire ce fichier de cl'' @ [CHR 0xC3, CHR 0xA9] @ ''.''),
    (''encryptionKeyRestrict'', ''Restreindre l'' @ [CHR 0x27] @ ''acc'' @ [CHR 0xC3, CHR 0xA8] @ ''s''),
    (''encryptionKeyRestricted'', ''Les autres comptes ne peuvent plus lire le fichier de cl'' @ [CHR 0xC3, CHR 0xA9] @ ''.''),
    (''encryptionKeyRestrictFailed'', ''Les autorisations n'' @ [CHR 0x27] @ ''ont pas pu '' @ [CHR 0xC3, CHR 0xAA] @ ''tre modifi'' @ [CHR 0xC3, CHR 0xA9] @ ''es : {err}''),
    (''encryptionKeyBackupTitle'', ''Conserver une copie de la cl'' @ [CHR 0xC3, CHR 0xA9]),
    (''encryptionKeyBackupIntro'', ''Sans cette cl'' @ [CHR 0xC3, CHR 0xA9] @ '', les sauvegardes chiffr'' @ [CHR 0xC3, CHR 0xA9] @ ''es ne peuvent pas '' @ [CHR 0xC3, CHR 0xAA] @ ''tre restaur'' @ [CHR 0xC3, CHR 0xA9] @ ''es, pas m'' @ [CHR 0xC3, CHR 0xAA] @ ''me par l'' @ [CHR 0x27] @ ''administrateur du serveur. Conservez-en une copie hors de cet ordinateur.''),
    (''encryptionKeySaveCopy'', ''Enregistrer une copie'' @ [CHR 0xE2, CHR 0x80, CHR 0xA6]),
    (''encryptionKeyCopySaved'', ''Copie enregistr'' @ [CHR 0xC3, CHR 0xA9] @ ''e dans {path}. Conservez-la hors de cet ordinateur.''),
    (''encryptionKeyCopyFailed'', ''La copie n'' @ [CHR 0x27] @ ''a pas pu '' @ [CHR 0xC3, CHR 0xAA] @ ''tre enregistr'' @ [CHR 0xC3, CHR 0xA9] @ ''e : {err}''),
    (''encryptionKeyPaper'', ''Imprimer une cl'' @ [CHR 0xC3, CHR 0xA9] @ '' papier'' @ [CHR 0xE2, CHR 0x80, CHR 0xA6]),
    (''paperKeyTitle'', ''Cl'' @ [CHR 0xC3, CHR 0xA9] @ '' papier''),
    (''paperKeyIntro'', ''Conservez cette page en lieu s'' @ [CHR 0xC3, CHR 0xBB] @ ''r. Pour r'' @ [CHR 0xC3, CHR 0xA9] @ ''cup'' @ [CHR 0xC3, CHR 0xA9] @ ''rer la cl'' @ [CHR 0xC3, CHR 0xA9] @ '', utilisez Importer '' @ [CHR 0xC3, CHR 0xA0] @ '' c'' @ [CHR 0xC3, CHR 0xB4] @ ''t'' @ [CHR 0xC3, CHR 0xA9] @ '' de la cl'' @ [CHR 0xC3, CHR 0xA9] @ '' de chiffrement dans l'' @ [CHR 0x27] @ ''application : pr'' @ [CHR 0xC3, CHR 0xA9] @ ''sentez cette page '' @ [CHR 0xC3, CHR 0xA0] @ '' la cam'' @ [CHR 0xC3, CHR 0xA9] @ ''ra, ouvrez-en un scan ou une photo, ou saisissez le texte ci-dessous.''),
    (''paperKeyProtected'', ''Cette cl'' @ [CHR 0xC3, CHR 0xA9] @ '' est prot'' @ [CHR 0xC3, CHR 0xA9] @ ''g'' @ [CHR 0xC3, CHR 0xA9] @ ''e par une phrase secr'' @ [CHR 0xC3, CHR 0xA8] @ ''te : il vous la faudra aussi.''),
    (''paperKeyUnprotected'', ''Cette cl'' @ [CHR 0xC3, CHR 0xA9] @ '' n'' @ [CHR 0x27] @ ''a pas de phrase secr'' @ [CHR 0xC3, CHR 0xA8] @ ''te : toute personne qui poss'' @ [CHR 0xC3, CHR 0xA8] @ ''de cette page peut lire vos sauvegardes chiffr'' @ [CHR 0xC3, CHR 0xA9] @ ''es.''),
    (''paperKeyFingerprint'', ''Empreinte''),
    (''paperKeyCreated'', ''Cr'' @ [CHR 0xC3, CHR 0xA9, CHR 0xC3, CHR 0xA9] @ ''e le''),
    (''paperKeyComputer'', ''Ordinateur''),
    (''paperKeyFile'', ''Fichier de cl'' @ [CHR 0xC3, CHR 0xA9]),
    (''paperKeyPrinted'', ''Imprim'' @ [CHR 0xC3, CHR 0xA9] @ ''e le''),
    (''paperKeyPrint'', ''Imprimer''),
    (''paperKeyClose'', ''Fermer''),
    (''paperKeyBrowserOpened'', ''L'' @ [CHR 0x27] @ ''application s'' @ [CHR 0x27] @ ''ex'' @ [CHR 0xC3, CHR 0xA9] @ ''cute en tant qu'' @ [CHR 0x27] @ ''administrateur et ne peut alors pas imprimer : la page s'' @ [CHR 0x27] @ ''est donc ouverte dans votre navigateur web. Imprimez-la depuis celui-ci, puis fermez l'' @ [CHR 0x27] @ ''onglet.''),
    (''paperKeyBrowserFailed'', ''Impossible d'' @ [CHR 0x27] @ ''ouvrir la page dans votre navigateur web : {err}''),
    (''paperKeyBrowserTabNote'', ''Imprimez cette page (Ctrl+P si la fen'' @ [CHR 0xC3, CHR 0xAA] @ ''tre d'' @ [CHR 0x27] @ ''impression ne s'' @ [CHR 0x27] @ ''est pas ouverte), puis fermez cet onglet.''),
    (''keyImportTitle'', ''Importer une cl'' @ [CHR 0xC3, CHR 0xA9] @ '' de chiffrement''),
    (''keyImportIntro'', ''D'' @ [CHR 0x27] @ ''o'' @ [CHR 0xC3, CHR 0xB9] @ '' vient la cl'' @ [CHR 0xC3, CHR 0xA9] @ '' ? Elle est v'' @ [CHR 0xC3, CHR 0xA9] @ ''rifi'' @ [CHR 0xC3, CHR 0xA9] @ ''e avant d'' @ [CHR 0x27, CHR 0xC3, CHR 0xAA] @ ''tre enregistr'' @ [CHR 0xC3, CHR 0xA9] @ ''e, comme nouveau fichier dans le dossier des cl'' @ [CHR 0xC3, CHR 0xA9] @ ''s de cet ordinateur.''),
    (''keyImportFile'', ''Fichier de cl'' @ [CHR 0xC3, CHR 0xA9]),
    (''keyImportFileDesc'', ''Une copie du fichier de cl'' @ [CHR 0xC3, CHR 0xA9] @ '', par exemple sur une cl'' @ [CHR 0xC3, CHR 0xA9] @ '' USB. Elle est copi'' @ [CHR 0xC3, CHR 0xA9] @ ''e dans le dossier des cl'' @ [CHR 0xC3, CHR 0xA9] @ ''s.''),
    (''keyImportCamera'', ''Cam'' @ [CHR 0xC3, CHR 0xA9] @ ''ra''),
    (''keyImportCameraDesc'', ''Pr'' @ [CHR 0xC3, CHR 0xA9] @ ''sentez le code QR de la cl'' @ [CHR 0xC3, CHR 0xA9] @ '' papier '' @ [CHR 0xC3, CHR 0xA0] @ '' la cam'' @ [CHR 0xC3, CHR 0xA9] @ ''ra de cet ordinateur.''),
    (''keyImportNoCamera'', ''Aucune cam'' @ [CHR 0xC3, CHR 0xA9] @ ''ra n'' @ [CHR 0x27] @ ''a '' @ [CHR 0xC3, CHR 0xA9] @ ''t'' @ [CHR 0xC3, CHR 0xA9] @ '' trouv'' @ [CHR 0xC3, CHR 0xA9] @ ''e sur cet ordinateur.''),
    (''keyImportPicture'', ''Image''),
    (''keyImportPictureDesc'', ''Un scan ou une photo de la cl'' @ [CHR 0xC3, CHR 0xA9] @ '' papier (JPEG, PNG et autres formats courants).''),
    (''keyImportText'', ''Saisir ou coller''),
    (''keyImportTextDesc'', ''Le texte de la cl'' @ [CHR 0xC3, CHR 0xA9] @ '' imprim'' @ [CHR 0xC3, CHR 0xA9] @ '' sur la cl'' @ [CHR 0xC3, CHR 0xA9] @ '' papier, ou le texte qu'' @ [CHR 0x27] @ ''un t'' @ [CHR 0xC3, CHR 0xA9] @ ''l'' @ [CHR 0xC3, CHR 0xA9] @ ''phone a lu dans son code QR.''),
    (''keyImportCameraHint'', ''Tenez le code QR dans le carr'' @ [CHR 0xC3, CHR 0xA9] @ '', '' @ [CHR 0xC3, CHR 0xA0] @ '' environ 30 '' @ [CHR 0xC3, CHR 0xA0] @ '' 50 cm de la cam'' @ [CHR 0xC3, CHR 0xA9] @ ''ra, sous un bon '' @ [CHR 0xC3, CHR 0xA9] @ ''clairage. Il est lu d'' @ [CHR 0xC3, CHR 0xA8] @ ''s qu'' @ [CHR 0x27] @ ''il est assez net.''),
    (''keyImportCameraStarting'', ''D'' @ [CHR 0xC3, CHR 0xA9] @ ''marrage de la cam'' @ [CHR 0xC3, CHR 0xA9] @ ''ra...''),
    (''keyImportCameraDenied'', ''La cam'' @ [CHR 0xC3, CHR 0xA9] @ ''ra n'' @ [CHR 0x27] @ ''a pas pu '' @ [CHR 0xC3, CHR 0xAA] @ ''tre utilis'' @ [CHR 0xC3, CHR 0xA9] @ ''e : l'' @ [CHR 0x27] @ ''acc'' @ [CHR 0xC3, CHR 0xA8] @ ''s a '' @ [CHR 0xC3, CHR 0xA9] @ ''t'' @ [CHR 0xC3, CHR 0xA9] @ '' refus'' @ [CHR 0xC3, CHR 0xA9] @ ''. Sous Windows, v'' @ [CHR 0xC3, CHR 0xA9] @ ''rifiez Param'' @ [CHR 0xC3, CHR 0xA8] @ ''tres > Confidentialit'' @ [CHR 0xC3, CHR 0xA9] @ '' et s'' @ [CHR 0xC3, CHR 0xA9] @ ''curit'' @ [CHR 0xC3, CHR 0xA9] @ '' > Cam'' @ [CHR 0xC3, CHR 0xA9] @ ''ra.''),
    (''keyImportCameraFailed'', ''La cam'' @ [CHR 0xC3, CHR 0xA9] @ ''ra n'' @ [CHR 0x27] @ ''a pas pu d'' @ [CHR 0xC3, CHR 0xA9] @ ''marrer : {err}''),
    (''keyImportReading'', ''Lecture de l'' @ [CHR 0x27] @ ''image''),
    (''keyImportTextLabel'', ''Texte de la cl'' @ [CHR 0xC3, CHR 0xA9]),
    (''keyImportCheck'', ''V'' @ [CHR 0xC3, CHR 0xA9] @ ''rifier''),
    (''keyImportBack'', ''Retour''),
    (''keyImportCancel'', ''Annuler''),
    (''keyImportFound'', ''Cl'' @ [CHR 0xC3, CHR 0xA9] @ '' trouv'' @ [CHR 0xC3, CHR 0xA9] @ ''e. Comparez son empreinte avec celle imprim'' @ [CHR 0xC3, CHR 0xA9] @ ''e sur la cl'' @ [CHR 0xC3, CHR 0xA9] @ '' papier avant de l'' @ [CHR 0x27] @ ''enregistrer.''),
    (''keyImportHint'', ''Indice de la phrase secr'' @ [CHR 0xC3, CHR 0xA8] @ ''te''),
    (''keyImportIntact'', ''La cl'' @ [CHR 0xC3, CHR 0xA9] @ '' est intacte : elle correspond '' @ [CHR 0xC3, CHR 0xA0] @ '' son empreinte.''),
    (''keyImportUnchecked'', ''Ce fichier de cl'' @ [CHR 0xC3, CHR 0xA9] @ '' ne contient pas d'' @ [CHR 0x27] @ ''empreinte : une erreur ne peut donc pas y '' @ [CHR 0xC3, CHR 0xAA] @ ''tre d'' @ [CHR 0xC3, CHR 0xA9] @ ''tect'' @ [CHR 0xC3, CHR 0xA9] @ ''e. Comparez attentivement l'' @ [CHR 0x27] @ ''empreinte ci-dessus avec la cl'' @ [CHR 0xC3, CHR 0xA9] @ '' papier.''),
    (''keyImportNeedsPassphrase'', ''Cette cl'' @ [CHR 0xC3, CHR 0xA9] @ '' est prot'' @ [CHR 0xC3, CHR 0xA9] @ ''g'' @ [CHR 0xC3, CHR 0xA9] @ ''e par une phrase secr'' @ [CHR 0xC3, CHR 0xA8] @ ''te. Saisissez-la pour v'' @ [CHR 0xC3, CHR 0xA9] @ ''rifier que la cl'' @ [CHR 0xC3, CHR 0xA9] @ '' est intacte. Elle n'' @ [CHR 0x27] @ ''est pas enregistr'' @ [CHR 0xC3, CHR 0xA9] @ ''e.''),
    (''keyImportPassphrase'', ''Phrase secr'' @ [CHR 0xC3, CHR 0xA8] @ ''te''),
    (''keyImportUnlocked'', ''La phrase secr'' @ [CHR 0xC3, CHR 0xA8] @ ''te d'' @ [CHR 0xC3, CHR 0xA9] @ ''verrouille la cl'' @ [CHR 0xC3, CHR 0xA9] @ '' : elle est intacte.''),
    (''keyImportSave'', ''Enregistrer et utiliser cette cl'' @ [CHR 0xC3, CHR 0xA9]),
    (''keyImportDoneTitle'', ''Cl'' @ [CHR 0xC3, CHR 0xA9] @ '' de chiffrement import'' @ [CHR 0xC3, CHR 0xA9] @ ''e''),
    (''keyImportSaved'', ''La cl'' @ [CHR 0xC3, CHR 0xA9] @ '' a '' @ [CHR 0xC3, CHR 0xA9] @ ''t'' @ [CHR 0xC3, CHR 0xA9] @ '' enregistr'' @ [CHR 0xC3, CHR 0xA9] @ ''e sous {path}. Son empreinte est {fp}.''),
    (''keyImportAlready'', ''Cette cl'' @ [CHR 0xC3, CHR 0xA9] @ '' se trouvait d'' @ [CHR 0xC3, CHR 0xA9] @ ''j'' @ [CHR 0xC3, CHR 0xA0] @ '' dans le dossier des cl'' @ [CHR 0xC3, CHR 0xA9] @ ''s sous {path} : ce fichier est utilis'' @ [CHR 0xC3, CHR 0xA9] @ ''. Son empreinte est {fp}.''),
    (''keyImportSavedProtected'', ''Ci-dessous, choisissez de saisir sa phrase secr'' @ [CHR 0xC3, CHR 0xA8] @ ''te quand elle est n'' @ [CHR 0xC3, CHR 0xA9] @ ''cessaire ou de la m'' @ [CHR 0xC3, CHR 0xA9] @ ''moriser sur cet ordinateur.''),
    (''keyImportFailed'', ''La cl'' @ [CHR 0xC3, CHR 0xA9] @ '' n'' @ [CHR 0x27] @ ''a pas pu '' @ [CHR 0xC3, CHR 0xAA] @ ''tre import'' @ [CHR 0xC3, CHR 0xA9] @ ''e : {err}''),
    (''keyImportNoQR'', ''Aucun code QR n'' @ [CHR 0x27] @ ''a pu '' @ [CHR 0xC3, CHR 0xAA] @ ''tre lu dans cette image. Essayez une image plus nette, prise bien en face sous un bon '' @ [CHR 0xC3, CHR 0xA9] @ ''clairage, avec tout le code QR.''),
    (''keyImportNotKey'', ''Ce n'' @ [CHR 0x27] @ ''est pas une cl'' @ [CHR 0xC3, CHR 0xA9] @ '' de chiffrement Proxmox Backup.''),
    (''keyImportDamaged'', ''Cette cl'' @ [CHR 0xC3, CHR 0xA9] @ '' contient une erreur : un caract'' @ [CHR 0xC3, CHR 0xA8] @ ''re est faux ou manquant, elle ne correspond donc pas '' @ [CHR 0xC3, CHR 0xA0] @ '' son empreinte. Comparez-la avec la cl'' @ [CHR 0xC3, CHR 0xA9] @ '' papier.''),
    (''keyImportBadPicture'', ''Cette image ne peut pas '' @ [CHR 0xC3, CHR 0xAA] @ ''tre lue. Enregistrez-la en JPEG ou PNG et r'' @ [CHR 0xC3, CHR 0xA9] @ ''essayez.''),
    (''keyImportWrongPassphrase'', ''Cette phrase secr'' @ [CHR 0xC3, CHR 0xA8] @ ''te ne d'' @ [CHR 0xC3, CHR 0xA9] @ ''verrouille pas la cl'' @ [CHR 0xC3, CHR 0xA9] @ ''. Soit la phrase secr'' @ [CHR 0xC3, CHR 0xA8] @ ''te est fausse, soit le texte de la cl'' @ [CHR 0xC3, CHR 0xA9] @ '' contient une erreur.''),
    (''keyImportPhotoWarning'', ''Cette cl'' @ [CHR 0xC3, CHR 0xA9] @ '' n'' @ [CHR 0x27] @ ''a pas de phrase secr'' @ [CHR 0xC3, CHR 0xA8] @ ''te : cette image suffit donc pour lire vos sauvegardes chiffr'' @ [CHR 0xC3, CHR 0xA9] @ ''es. Une fois la cl'' @ [CHR 0xC3, CHR 0xA9] @ '' import'' @ [CHR 0xC3, CHR 0xA9] @ ''e, supprimez l'' @ [CHR 0x27] @ ''image de votre t'' @ [CHR 0xC3, CHR 0xA9] @ ''l'' @ [CHR 0xC3, CHR 0xA9] @ ''phone, de vos e-mails et de votre stockage en ligne.''),
    (''encryptionKeyCreated'', ''Cl'' @ [CHR 0xC3, CHR 0xA9] @ '' cr'' @ [CHR 0xC3, CHR 0xA9, CHR 0xC3, CHR 0xA9] @ ''e dans {path} (empreinte {fp})''),
    (''encryptionKeyConfirm'', ''Cr'' @ [CHR 0xC3, CHR 0xA9] @ ''er une nouvelle cl'' @ [CHR 0xC3, CHR 0xA9] @ '' de chiffrement dans {path} ? Conservez-la en lieu s'' @ [CHR 0xC3, CHR 0xBB] @ ''r : sans ce fichier, les instantan'' @ [CHR 0xC3, CHR 0xA9] @ ''s chiffr'' @ [CHR 0xC3, CHR 0xA9] @ ''s avec elle deviennent illisibles.''),
    (''encryptionKeyGenerateFailed'', [CHR 0xC3, CHR 0x89] @ ''chec de la cr'' @ [CHR 0xC3, CHR 0xA9] @ ''ation de la cl'' @ [CHR 0xC3, CHR 0xA9] @ '' : {err}''),
    (''multiPBSInfo'', ''Multi-PBS :''),
    (''multiPBSText'', ''G'' @ [CHR 0xC3, CHR 0xA9] @ ''rez plusieurs serveurs PBS pour vos sauvegardes.''),
    (''multiPBSExample'', ''Exemple : C:'' @ [CHR 0x5C] @ '' '' @ [CHR 0xE2, CHR 0x86, CHR 0x92] @ '' PBS big-data (lent, gros espace) | C:'' @ [CHR 0x5C] @ ''Users '' @ [CHR 0xE2, CHR 0x86, CHR 0x92] @ '' PBS SSD (rapide, petit)''),
    (''tipTitle'', ''Astuce :''),
    (''tipAPIToken'', ''Obtenez votre jeton API depuis l'' @ [CHR 0x27] @ ''interface PBS :''),
    (''tipAPITokenPath'', ''Configuration '' @ [CHR 0xE2, CHR 0x86, CHR 0x92] @ '' Access Control '' @ [CHR 0xE2, CHR 0x86, CHR 0x92] @ '' API Tokens''),
    (''backupTitle'', ''Sauvegarde''),
    (''backupType'', ''Type de sauvegarde''),
    (''backupTypeDirectory'', ''R'' @ [CHR 0xC3, CHR 0xA9] @ ''pertoire (dossier sp'' @ [CHR 0xC3, CHR 0xA9] @ ''cifique)''),
    (''backupTypeMachine'', ''Machine (disque complet)''),
    (''executionMode'', ''Mode d'' @ [CHR 0x27] @ ''ex'' @ [CHR 0xC3, CHR 0xA9] @ ''cution''),
    (''oneshotMode'', ''Ponctuelle (maintenant)''),
    (''scheduledMode'', ''Planifi'' @ [CHR 0xC3, CHR 0xA9]),
    (''schedulingConfig'', ''Configuration de la planification''),
    (''editMode'', ''Mode '' @ [CHR 0xC3, CHR 0xA9] @ ''dition''),
    (''editModeText'', ''Modifiez les param'' @ [CHR 0xC3, CHR 0xA8] @ ''tres et cliquez sur '' @ [CHR 0xC2, CHR 0xAB] @ '' Mettre '' @ [CHR 0xC3, CHR 0xA0] @ '' jour '' @ [CHR 0xC2, CHR 0xBB]),
    (''dailyExecutionTime'', ''Heure d'' @ [CHR 0x27] @ ''ex'' @ [CHR 0xC3, CHR 0xA9] @ ''cution quotidienne''),
    (''runAtStartup'', ''Ex'' @ [CHR 0xC3, CHR 0xA9] @ ''cuter aussi au d'' @ [CHR 0xC3, CHR 0xA9] @ ''marrage de la machine''),
    (''schedulingInfo'', ''La sauvegarde sera ex'' @ [CHR 0xC3, CHR 0xA9] @ ''cut'' @ [CHR 0xC3, CHR 0xA9] @ ''e automatiquement chaque jour '' @ [CHR 0xC3, CHR 0xA0]),
    (''andAtStartup'', ''Et '' @ [CHR 0xC3, CHR 0xA9] @ ''galement '' @ [CHR 0xC3, CHR 0xA0] @ '' chaque d'' @ [CHR 0xC3, CHR 0xA9] @ ''marrage du syst'' @ [CHR 0xC3, CHR 0xA8] @ ''me.''),
    (''triggerMode'', ''Type de planification'')]"

lemma fr_texts_3_holes: "scan_texts fr_texts_3 = Some
   [(''snapModuleActive'', [''module'']),
    (''snapInstallFailed'', [''error'']),
    (''saveWarnDisksMissing'', [''disks'']),
    (''encryptionKeyRestrictFailed'', [''err'']),
    (''encryptionKeyCopySaved'', [''path'']),
    (''encryptionKeyCopyFailed'', [''err'']),
    (''paperKeyBrowserFailed'', [''err'']),
    (''keyImportCameraFailed'', [''err'']),
    (''keyImportSaved'', [''path'', ''fp'']),
    (''keyImportAlready'', [''path'', ''fp'']),
    (''keyImportFailed'', [''err'']),
    (''encryptionKeyCreated'', [''path'', ''fp'']),
    (''encryptionKeyConfirm'', [''path'']),
    (''encryptionKeyGenerateFailed'', [''err''])]"
  by code_simp

lemma fr_texts_3_keys: "map fst fr_texts_3 =
   [''snapshotTipMachineLive'', ''snapshotTipMachineOffNotAccepted'', ''machineUseSnapshots'', ''machineUseSnapshotsHint'', ''machineLiveReadAccept'', ''machineLiveReadAcceptHint'', 
    ''snapModuleActive'', ''snapModuleMissing'', ''snapModuleHowTo'', ''snapModuleHowToTip'', ''snapInstallBtn'', ''snapInstallBtnTip'', 
    ''snapInstallDistroTip'', ''snapInstallNoInstallerTip'', ''snapRestartPending'', ''snapInstallTitle'', ''snapInstallIntro'', ''snapInstallSecureBootTitle'', 
    ''snapInstallSecureBootBody'', ''snapInstallPassword'', ''snapInstallPasswordAgain'', ''snapInstallPasswordRule'', ''snapInstallPasswordMismatch'', ''snapInstallDeclined'', 
    ''snapInstallRunning'', ''snapInstallDone'', ''snapInstallRestartTitle'', ''snapInstallRestartStep1'', ''snapInstallRestartStep2'', ''snapInstallRestartStep3'', 
    ''snapInstallRestartStep4'', ''snapInstallRestartAfter'', ''snapInstallFailed'', ''snapInstallFailedHint'', ''snapInstallCancel'', ''snapInstallStart'', 
    ''snapInstallClose'', ''elevNeededTitle'', ''elevNeededHint'', ''saveWarnTitle'', ''saveWarnIntro'', ''saveWarnSave'', 
    ''saveWarnBack'', ''saveWarnDisabled'', ''saveWarnNoSchedule'', ''saveWarnSnapshotsOff'', ''saveWarnNoModule'', ''saveWarnNeedsRoot'', 
    ''saveWarnDisksMissing'', ''machineForensicBadge'', ''encryptionKeyOpenToOthers'', ''encryptionKeyRestrict'', ''encryptionKeyRestricted'', ''encryptionKeyRestrictFailed'', 
    ''encryptionKeyBackupTitle'', ''encryptionKeyBackupIntro'', ''encryptionKeySaveCopy'', ''encryptionKeyCopySaved'', ''encryptionKeyCopyFailed'', ''encryptionKeyPaper'', 
    ''paperKeyTitle'', ''paperKeyIntro'', ''paperKeyProtected'', ''paperKeyUnprotected'', ''paperKeyFingerprint'', ''paperKeyCreated'', 
    ''paperKeyComputer'', ''paperKeyFile'', ''paperKeyPrinted'', ''paperKeyPrint'', ''paperKeyClose'', ''paperKeyBrowserOpened'', 
    ''paperKeyBrowserFailed'', ''paperKeyBrowserTabNote'', ''keyImportTitle'', ''keyImportIntro'', ''keyImportFile'', ''keyImportFileDesc'', 
    ''keyImportCamera'', ''keyImportCameraDesc'', ''keyImportNoCamera'', ''keyImportPicture'', ''keyImportPictureDesc'', ''keyImportText'', 
    ''keyImportTextDesc'', ''keyImportCameraHint'', ''keyImportCameraStarting'', ''keyImportCameraDenied'', ''keyImportCameraFailed'', ''keyImportReading'', 
    ''keyImportTextLabel'', ''keyImportCheck'', ''keyImportBack'', ''keyImportCancel'', ''keyImportFound'', ''keyImportHint'', 
    ''keyImportIntact'', ''keyImportUnchecked'', ''keyImportNeedsPassphrase'', ''keyImportPassphrase'', ''keyImportUnlocked'', ''keyImportSave'', 
    ''keyImportDoneTitle'', ''keyImportSaved'', ''keyImportAlready'', ''keyImportSavedProtected'', ''keyImportFailed'', ''keyImportNoQR'', 
    ''keyImportNotKey'', ''keyImportDamaged'', ''keyImportBadPicture'', ''keyImportWrongPassphrase'', ''keyImportPhotoWarning'', ''encryptionKeyCreated'', 
    ''encryptionKeyConfirm'', ''encryptionKeyGenerateFailed'', ''multiPBSInfo'', ''multiPBSText'', ''multiPBSExample'', ''tipTitle'', 
    ''tipAPIToken'', ''tipAPITokenPath'', ''backupTitle'', ''backupType'', ''backupTypeDirectory'', ''backupTypeMachine'', 
    ''executionMode'', ''oneshotMode'', ''scheduledMode'', ''schedulingConfig'', ''editMode'', ''editModeText'', 
    ''dailyExecutionTime'', ''runAtStartup'', ''schedulingInfo'', ''andAtStartup'', ''triggerMode'']"
  unfolding fr_texts_3_def by (simp only: list.map fst_conv)

definition fr_texts_4 :: "(string \<times> string) list" where
  "fr_texts_4 = [
    (''triggerModeDaily'', ''Quotidien''),
    (''triggerModeInterval'', ''R'' @ [CHR 0xC3, CHR 0xA9] @ ''p'' @ [CHR 0xC3, CHR 0xA9] @ ''t'' @ [CHR 0xC3, CHR 0xA9]),
    (''triggerModeManual'', ''Manuel''),
    (''schedulingInfoManual'', ''Cet ensemble de sauvegarde ne s'' @ [CHR 0x27] @ ''ex'' @ [CHR 0xC3, CHR 0xA9] @ ''cute jamais tout seul. Utilisez '' @ [CHR 0xC2, CHR 0xAB] @ '' Ex'' @ [CHR 0xC3, CHR 0xA9] @ ''cuter maintenant '' @ [CHR 0xC2, CHR 0xBB] @ '' chaque fois que vous voulez le lancer.''),
    (''manualOnDemand'', ''Ex'' @ [CHR 0xC3, CHR 0xA9] @ ''cution '' @ [CHR 0xC3, CHR 0xA0] @ '' la demande uniquement''),
    (''runNow'', ''Ex'' @ [CHR 0xC3, CHR 0xA9] @ ''cuter maintenant''),
    (''runNowQuick'', ''Ex'' @ [CHR 0xC3, CHR 0xA9] @ ''cuter maintenant : rapide (fichiers modifi'' @ [CHR 0xC3, CHR 0xA9] @ ''s seulement)''),
    (''runNowFull'', ''Ex'' @ [CHR 0xC3, CHR 0xA9] @ ''cuter maintenant : lecture compl'' @ [CHR 0xC3, CHR 0xA8] @ ''te (tous les fichiers)''),
    (''runNowQuickShort'', ''rapide''),
    (''runNowFullShort'', ''lecture compl'' @ [CHR 0xC3, CHR 0xA8] @ ''te''),
    (''readReasonRequested'', ''Lecture compl'' @ [CHR 0xC3, CHR 0xA8] @ ''te demand'' @ [CHR 0xC3, CHR 0xA9] @ ''e : lecture de tous les fichiers''),
    (''runNowError'', [CHR 0xC3, CHR 0x89] @ ''chec de l'' @ [CHR 0x27] @ ''ex'' @ [CHR 0xC3, CHR 0xA9] @ ''cution : {error}''),
    (''intervalMinutesLabel'', ''R'' @ [CHR 0xC3, CHR 0xA9] @ ''p'' @ [CHR 0xC3, CHR 0xA9] @ ''ter toutes les (minutes)''),
    (''windowAllDay'', ''Toute la journ'' @ [CHR 0xC3, CHR 0xA9] @ ''e''),
    (''windowBetween'', ''Entre''),
    (''windowAnd'', ''et''),
    (''daysOfWeekLabel'', ''Jours actifs''),
    (''dayMon'', ''Lun''),
    (''dayTue'', ''Mar''),
    (''dayWed'', ''Mer''),
    (''dayThu'', ''Jeu''),
    (''dayFri'', ''Ven''),
    (''daySat'', ''Sam''),
    (''daySun'', ''Dim''),
    (''schedulingInfoInterval'', ''La sauvegarde sera ex'' @ [CHR 0xC3, CHR 0xA9] @ ''cut'' @ [CHR 0xC3, CHR 0xA9] @ ''e toutes les {n} minutes''),
    (''schedulingInfoDays'', ''Jours actifs :''),
    (''atStartupLabel'', ''Au d'' @ [CHR 0xC3, CHR 0xA9] @ ''marrage''),
    (''everyNMinutes'', ''toutes les {n} min''),
    (''everyDay'', ''Tous les jours''),
    (''directoriesToBackup'', ''R'' @ [CHR 0xC3, CHR 0xA9] @ ''pertoires '' @ [CHR 0xC3, CHR 0xA0] @ '' sauvegarder (un par ligne)''),
    (''advancedEditAsText'', ''Avanc'' @ [CHR 0xC3, CHR 0xA9] @ '' : modifier la liste en texte''),
    (''physicalDisksToBackup'', ''Disques physiques '' @ [CHR 0xC3, CHR 0xA0] @ '' sauvegarder''),
    (''loadingDisks'', ''Chargement des disques disponibles...''),
    (''filesToExclude'', ''Fichiers '' @ [CHR 0xC3, CHR 0xA0] @ '' exclure (un par ligne, optionnel)''),
    (''backupID'', ''ID de sauvegarde''),
    (''backupIDPlaceholder'', ''Laissez vide pour utiliser le nom d'' @ [CHR 0x27] @ ''h'' @ [CHR 0xC3, CHR 0xB4] @ ''te''),
    (''backupIdDefaultNote'', ''(par d'' @ [CHR 0xC3, CHR 0xA9] @ ''faut, le nom de l'' @ [CHR 0x27] @ ''ordinateur ; modifiez-le si n'' @ [CHR 0xC3, CHR 0xA9] @ ''cessaire)''),
    (''backupCommentLabel'', ''Nom de la sauvegarde (commentaire PBS)''),
    (''backupCommentPlaceholder'', ''Facultatif, affich'' @ [CHR 0xC3, CHR 0xA9] @ '' dans la colonne Commentaire de PBS''),
    (''tabSource'', ''Source''),
    (''tabExclusions'', ''Exclusions''),
    (''tabSchedule'', ''Planification''),
    (''tabDestination'', ''Destination''),
    (''tabAlerts'', ''Alertes''),
    (''emailOnSuccessLabel'', ''Envoyer un e-mail '' @ [CHR 0xC3, CHR 0xA0] @ '' la fin de la sauvegarde''),
    (''emailOnFailureLabel'', ''Envoyer un e-mail en cas d'' @ [CHR 0x27, CHR 0xC3, CHR 0xA9] @ ''chec de la sauvegarde''),
    (''emailToPlaceholder'', ''destinataire@example.com''),
    (''emailNoSmtpWarning'', ''Aucun compte SMTP configur'' @ [CHR 0xC3, CHR 0xA9] @ ''. Configurez-en un dans Pr'' @ [CHR 0xC3, CHR 0xA9] @ ''f'' @ [CHR 0xC3, CHR 0xA9] @ ''rences > E-mail pour que ces e-mails soient envoy'' @ [CHR 0xC3, CHR 0xA9] @ ''s.''),
    (''runAppBeforeLabel'', ''Ex'' @ [CHR 0xC3, CHR 0xA9] @ ''cuter une application avant la sauvegarde''),
    (''runAppAfterLabel'', ''Ex'' @ [CHR 0xC3, CHR 0xA9] @ ''cuter une application apr'' @ [CHR 0xC3, CHR 0xA8] @ ''s la sauvegarde''),
    (''runAppPlaceholder'', ''Chemin ou commande (facultatif)''),
    (''afterBackupWindowLabel'', [CHR 0xC3, CHR 0x80] @ '' la fin de la sauvegarde, la fen'' @ [CHR 0xC3, CHR 0xAA] @ ''tre de l'' @ [CHR 0x27] @ ''application :''),
    (''afterBackupLeave'', ''Reste telle quelle''),
    (''afterBackupTray'', ''Se r'' @ [CHR 0xC3, CHR 0xA9] @ ''duit dans la zone de notification''),
    (''afterBackupExit'', ''Se ferme (l'' @ [CHR 0x27] @ ''application se termine)''),
    (''shutdownAfterLabel'', [CHR 0xC3, CHR 0x89] @ ''teindre l'' @ [CHR 0x27] @ ''ordinateur apr'' @ [CHR 0xC3, CHR 0xA8] @ ''s la sauvegarde''),
    (''shutdownAfterWarning'', ''L'' @ [CHR 0x27] @ ''ordinateur s'' @ [CHR 0x27, CHR 0xC3, CHR 0xA9] @ ''teindra automatiquement '' @ [CHR 0xC3, CHR 0xA0] @ '' la fin de cette sauvegarde. Assurez-vous que c'' @ [CHR 0x27] @ ''est bien ce que vous voulez.''),
    (''useVSS'', ''Utiliser VSS (clich'' @ [CHR 0xC3, CHR 0xA9] @ '' instantan'' @ [CHR 0xC3, CHR 0xA9] @ '' Windows / instantan'' @ [CHR 0xC3, CHR 0xA9] @ '' Linux)''),
    (''vssAdminRequired'', ''VSS n'' @ [CHR 0xC3, CHR 0xA9] @ ''cessite des privil'' @ [CHR 0xC3, CHR 0xA8] @ ''ges administrateur.''),
    (''vssAdminHint'', ''Red'' @ [CHR 0xC3, CHR 0xA9] @ ''marrez l'' @ [CHR 0x27] @ ''application en tant qu'' @ [CHR 0x27] @ ''administrateur (clic droit '' @ [CHR 0xE2, CHR 0x86, CHR 0x92] @ '' Ex'' @ [CHR 0xC3, CHR 0xA9] @ ''cuter en tant qu'' @ [CHR 0x27] @ ''administrateur) pour utiliser VSS.''),
    (''vssServiceAvailable'', ''VSS disponible via le service.''),
    (''vssServiceHint'', ''Le service Windows s'' @ [CHR 0x27] @ ''ex'' @ [CHR 0xC3, CHR 0xA9] @ ''cute avec les privil'' @ [CHR 0xC3, CHR 0xA8] @ ''ges n'' @ [CHR 0xC3, CHR 0xA9] @ ''cessaires pour VSS.''),
    (''splitFirstBackup'', ''D'' @ [CHR 0xC3, CHR 0xA9] @ ''couper cette sauvegarde en plusieurs parties''),
    (''splitFirstBackupHint'', ''Recommand'' @ [CHR 0xC3, CHR 0xA9] @ '' pour la premi'' @ [CHR 0xC3, CHR 0xA8] @ ''re sauvegarde d'' @ [CHR 0x27] @ ''un gros volume (C:'' @ [CHR 0x5C] @ '', D:'' @ [CHR 0x5C, CHR 0xE2, CHR 0x80, CHR 0xA6] @ '') : d'' @ [CHR 0xC3, CHR 0xA9] @ ''coupe l'' @ [CHR 0x27] @ ''amor'' @ [CHR 0xC3, CHR 0xA7] @ ''age initial en sauvegardes plus petites et reprenables. Laissez d'' @ [CHR 0xC3, CHR 0xA9] @ ''coch'' @ [CHR 0xC3, CHR 0xA9] @ '' pour les sauvegardes suivantes (compl'' @ [CHR 0xC3, CHR 0xA8] @ ''tes). L'' @ [CHR 0x27] @ ''analyse de la taille peut prendre quelques minutes sur un gros volume.''),
    (''splitAnalyzing'', ''Analyse de la taille'' @ [CHR 0xE2, CHR 0x80, CHR 0xA6]),
    (''splitLaunching'', ''Lancement de {n} sauvegardes partielles...''),
    (''listingSnapshots'', ''Recherche des instantan'' @ [CHR 0xC3, CHR 0xA9] @ ''s...''),
    (''snapshotsFound'', ''{n} instantan'' @ [CHR 0xC3, CHR 0xA9] @ ''(s) trouv'' @ [CHR 0xC3, CHR 0xA9] @ ''(s).''),
    (''backupProgress'', ''Progression de la sauvegarde''),
    (''timeRemaining'', ''Temps restant :''),
    (''speed'', ''Vitesse :''),
    (''elapsedTime'', ''Temps '' @ [CHR 0xC3, CHR 0xA9] @ ''coul'' @ [CHR 0xC3, CHR 0xA9] @ '' :''),
    (''dataSizeLabel'', ''Donn'' @ [CHR 0xC3, CHR 0xA9] @ ''es :''),
    (''chunksLabel'', ''Blocs :''),
    (''newChunksLabel'', ''nouveaux''),
    (''reusedChunksLabel'', ''r'' @ [CHR 0xC3, CHR 0xA9] @ ''utilis'' @ [CHR 0xC3, CHR 0xA9] @ ''s''),
    (''failedChunksLabel'', [CHR 0xC3, CHR 0xA9] @ ''chou'' @ [CHR 0xC3, CHR 0xA9] @ ''s''),
    (''currentDirLabel'', ''Dossier :''),
    (''queuedCountOne'', ''1 autre sauvegarde en file d'' @ [CHR 0x27] @ ''attente'' @ [CHR 0xE2, CHR 0x80, CHR 0xA6]),
    (''queuedCountMany'', ''{n} autres sauvegardes en file d'' @ [CHR 0x27] @ ''attente'' @ [CHR 0xE2, CHR 0x80, CHR 0xA6]),
    (''atLeastOneDisk'', ''Au moins un disque requis''),
    (''atLeastOneDirectory'', ''Au moins un r'' @ [CHR 0xC3, CHR 0xA9] @ ''pertoire requis''),
    (''splitBackupUnavailable'', ''Sauvegarde fractionn'' @ [CHR 0xC3, CHR 0xA9] @ ''e non disponible''),
    (''schedulingUnavailable'', ''Fonction de planification non disponible''),
    (''wailsRuntimeUnavailable'', ''Runtime Wails non disponible''),
    (''splitStartFailed'', ''La sauvegarde {n}/{total} n'' @ [CHR 0x27] @ ''a pas pu d'' @ [CHR 0xC3, CHR 0xA9] @ ''marrer :'' @ [CHR 0x0A] @ ''{msg}'' @ [CHR 0x0A, CHR 0x0A] @ ''R'' @ [CHR 0xC3, CHR 0xA9] @ ''essayer cette partie ?''),
    (''splitRetryPrompt'', ''La sauvegarde {n}/{total} a '' @ [CHR 0xC3, CHR 0xA9] @ ''chou'' @ [CHR 0xC3, CHR 0xA9] @ '' :'' @ [CHR 0x0A] @ ''{msg}'' @ [CHR 0x0A, CHR 0x0A] @ ''R'' @ [CHR 0xC3, CHR 0xA9] @ ''essayer cette partie avant de continuer ?''),
    (''partStartFail'', ''Partie {n} : d'' @ [CHR 0xC3, CHR 0xA9] @ ''marrage impossible ({msg})''),
    (''partDone'', ''Partie {n} : {msg}''),
    (''partSuccess'', ''termin'' @ [CHR 0xC3, CHR 0xA9] @ ''e''),
    (''partFailed'', [CHR 0xC3, CHR 0xA9] @ ''chec''),
    (''backupPartDone'', ''Sauvegarde {n}/{total} termin'' @ [CHR 0xC3, CHR 0xA9] @ ''e''),
    (''backupPartFailed'', [CHR 0xC3, CHR 0x89] @ ''chec de la sauvegarde {n}/{total} : {msg}''),
    (''allPartsDone'', ''Toutes les sauvegardes partielles ont r'' @ [CHR 0xC3, CHR 0xA9] @ ''ussi ({n}/{total})''),
    (''partialBackup'', ''Sauvegarde partielle : {ok}/{total} OK, {fail} '' @ [CHR 0xC3, CHR 0xA9] @ ''chec(s) :'' @ [CHR 0x0A] @ ''{fails}''),
    (''splitBackupError'', ''Erreur de sauvegarde fractionn'' @ [CHR 0xC3, CHR 0xA9] @ ''e : {err}''),
    (''backupInProgress'', ''Sauvegarde en cours...''),
    (''startBackup'', ''D'' @ [CHR 0xC3, CHR 0xA9] @ ''marrer la sauvegarde''),
    (''saveSchedule'', ''Enregistrer l'' @ [CHR 0x27] @ ''ensemble de sauvegarde''),
    (''stopBackup'', ''Arr'' @ [CHR 0xC3, CHR 0xAA] @ ''ter''),
    (''stopBackupUnavailable'', ''Fonction d'' @ [CHR 0x27] @ ''arr'' @ [CHR 0xC3, CHR 0xAA] @ ''t non disponible''),
    (''stopBackupInProgress'', ''Arr'' @ [CHR 0xC3, CHR 0xAA] @ ''t de la sauvegarde en cours...''),
    (''stopRestore'', ''Arr'' @ [CHR 0xC3, CHR 0xAA] @ ''ter''),
    (''stopRestoreUnavailable'', ''Fonction d'' @ [CHR 0x27] @ ''arr'' @ [CHR 0xC3, CHR 0xAA] @ ''t non disponible''),
    (''stopRestoreInProgress'', ''Arr'' @ [CHR 0xC3, CHR 0xAA] @ ''t de la restauration en cours...''),
    (''cancelEdit'', ''Annuler''),
    (''scheduledJobs'', ''T'' @ [CHR 0xC3, CHR 0xA2] @ ''ches planifi'' @ [CHR 0xC3, CHR 0xA9] @ ''es''),
    (''manageBackupSets'', ''G'' @ [CHR 0xC3, CHR 0xA9] @ ''rer les ensembles de sauvegarde'' @ [CHR 0xE2, CHR 0x80, CHR 0xA6]),
    (''manageBackupSetsHint'', ''Cr'' @ [CHR 0xC3, CHR 0xA9] @ ''ez, modifiez ou supprimez les ensembles de sauvegarde ci-dessous.''),
    (''oneOffBackup'', ''Sauvegarde ponctuelle'' @ [CHR 0xE2, CHR 0x80, CHR 0xA6]),
    (''yourBackupSets'', ''Vos ensembles de sauvegarde''),
    (''noBackupSetsYet'', ''Aucun ensemble de sauvegarde pour l'' @ [CHR 0x27] @ ''instant. Cr'' @ [CHR 0xC3, CHR 0xA9] @ ''ez-en un, ou lancez simplement une sauvegarde ponctuelle.''),
    (''backupSetName'', ''Nom de l'' @ [CHR 0x27] @ ''ensemble de sauvegarde''),
    (''backupSetNamePlaceholder'', ''p. ex. Documents, Tous les disques locaux''),
    (''lastRun'', ''Derni'' @ [CHR 0xC3, CHR 0xA8] @ ''re ex'' @ [CHR 0xC3, CHR 0xA9] @ ''cution :''),
    (''neverRun'', ''Jamais ex'' @ [CHR 0xC3, CHR 0xA9] @ ''cut'' @ [CHR 0xC3, CHR 0xA9]),
    (''agoPhrase'', ''il y a {time}''),
    (''agoJustNow'', [CHR 0xC3, CHR 0xA0] @ '' l'' @ [CHR 0x27] @ ''instant''),
    (''agoJoin'', '', ''),
    (''agoDays_one'', ''{n} jour''),
    (''agoDays_other'', ''{n} jours''),
    (''agoHours_one'', ''{n} heure''),
    (''agoHours_other'', ''{n} heures''),
    (''agoMinutes_one'', ''{n} minute''),
    (''agoMinutes_other'', ''{n} minutes''),
    (''newBackupSet'', ''Nouvel ensemble de sauvegarde''),
    (''addNewBackupSet'', ''Ajouter un nouvel ensemble de sauvegarde''),
    (''editBackupSet'', ''Modifier l'' @ [CHR 0x27] @ ''ensemble de sauvegarde''),
    (''statusJobUpdated'', ''Ensemble de sauvegarde mis '' @ [CHR 0xC3, CHR 0xA0] @ '' jour''),
    (''statusJobScheduled'', ''Ensemble de sauvegarde enregistr'' @ [CHR 0xC3, CHR 0xA9]),
    (''editJob'', ''Modifier''),
    (''cloneJob'', ''Dupliquer cet ensemble de sauvegarde''),
    (''cloneNameSuffix'', ''{name} (copie)''),
    (''deleteJob'', ''Supprimer cet ensemble de sauvegarde''),
    (''editModeInfo'', ''Mode '' @ [CHR 0xC3, CHR 0xA9] @ ''dition : modifiez puis enregistrez''),
    (''backupHistory'', ''Historique des sauvegardes''),
    (''rerun'', ''Relancer''),
    (''reportsEmpty'', ''Aucune sauvegarde n'' @ [CHR 0x27] @ ''a encore '' @ [CHR 0xC3, CHR 0xA9] @ ''t'' @ [CHR 0xC3, CHR 0xA9] @ '' ex'' @ [CHR 0xC3, CHR 0xA9] @ ''cut'' @ [CHR 0xC3, CHR 0xA9] @ ''e.''),
    (''reportsSelectPrompt'', ''S'' @ [CHR 0xC3, CHR 0xA9] @ ''lectionnez une ex'' @ [CHR 0xC3, CHR 0xA9] @ ''cution dans la liste pour voir ses d'' @ [CHR 0xC3, CHR 0xA9] @ ''tails.''),
    (''reportsFolders'', ''Dossiers''),
    (''snapshotReading'', ''Instantan'' @ [CHR 0xC3, CHR 0xA9] @ '' trouv'' @ [CHR 0xC3, CHR 0xA9] @ '', lecture de la liste des fichiers...''),
    (''snapshotFolderLoading'', ''Chargement...''),
    (''snapshotShowMore'', ''Afficher {n} de plus'')]"

lemma fr_texts_4_holes: "scan_texts fr_texts_4 = Some
   [(''runNowError'', [''error'']),
    (''schedulingInfoInterval'', [''n'']),
    (''everyNMinutes'', [''n'']),
    (''splitLaunching'', [''n'']),
    (''snapshotsFound'', [''n'']),
    (''queuedCountMany'', [''n'']),
    (''splitStartFailed'', [''n'', ''total'', ''msg'']),
    (''splitRetryPrompt'', [''n'', ''total'', ''msg'']),
    (''partStartFail'', [''n'', ''msg'']),
    (''partDone'', [''n'', ''msg'']),
    (''backupPartDone'', [''n'', ''total'']),
    (''backupPartFailed'', [''n'', ''total'', ''msg'']),
    (''allPartsDone'', [''n'', ''total'']),
    (''partialBackup'', [''ok'', ''total'', ''fail'', ''fails'']),
    (''splitBackupError'', [''err'']),
    (''agoPhrase'', [''time'']),
    (''agoDays_one'', [''n'']),
    (''agoDays_other'', [''n'']),
    (''agoHours_one'', [''n'']),
    (''agoHours_other'', [''n'']),
    (''agoMinutes_one'', [''n'']),
    (''agoMinutes_other'', [''n'']),
    (''cloneNameSuffix'', [''name'']),
    (''snapshotShowMore'', [''n''])]"
  by code_simp

lemma fr_texts_4_keys: "map fst fr_texts_4 =
   [''triggerModeDaily'', ''triggerModeInterval'', ''triggerModeManual'', ''schedulingInfoManual'', ''manualOnDemand'', ''runNow'', 
    ''runNowQuick'', ''runNowFull'', ''runNowQuickShort'', ''runNowFullShort'', ''readReasonRequested'', ''runNowError'', 
    ''intervalMinutesLabel'', ''windowAllDay'', ''windowBetween'', ''windowAnd'', ''daysOfWeekLabel'', ''dayMon'', 
    ''dayTue'', ''dayWed'', ''dayThu'', ''dayFri'', ''daySat'', ''daySun'', 
    ''schedulingInfoInterval'', ''schedulingInfoDays'', ''atStartupLabel'', ''everyNMinutes'', ''everyDay'', ''directoriesToBackup'', 
    ''advancedEditAsText'', ''physicalDisksToBackup'', ''loadingDisks'', ''filesToExclude'', ''backupID'', ''backupIDPlaceholder'', 
    ''backupIdDefaultNote'', ''backupCommentLabel'', ''backupCommentPlaceholder'', ''tabSource'', ''tabExclusions'', ''tabSchedule'', 
    ''tabDestination'', ''tabAlerts'', ''emailOnSuccessLabel'', ''emailOnFailureLabel'', ''emailToPlaceholder'', ''emailNoSmtpWarning'', 
    ''runAppBeforeLabel'', ''runAppAfterLabel'', ''runAppPlaceholder'', ''afterBackupWindowLabel'', ''afterBackupLeave'', ''afterBackupTray'', 
    ''afterBackupExit'', ''shutdownAfterLabel'', ''shutdownAfterWarning'', ''useVSS'', ''vssAdminRequired'', ''vssAdminHint'', 
    ''vssServiceAvailable'', ''vssServiceHint'', ''splitFirstBackup'', ''splitFirstBackupHint'', ''splitAnalyzing'', ''splitLaunching'', 
    ''listingSnapshots'', ''snapshotsFound'', ''backupProgress'', ''timeRemaining'', ''speed'', ''elapsedTime'', 
    ''dataSizeLabel'', ''chunksLabel'', ''newChunksLabel'', ''reusedChunksLabel'', ''failedChunksLabel'', ''currentDirLabel'', 
    ''queuedCountOne'', ''queuedCountMany'', ''atLeastOneDisk'', ''atLeastOneDirectory'', ''splitBackupUnavailable'', ''schedulingUnavailable'', 
    ''wailsRuntimeUnavailable'', ''splitStartFailed'', ''splitRetryPrompt'', ''partStartFail'', ''partDone'', ''partSuccess'', 
    ''partFailed'', ''backupPartDone'', ''backupPartFailed'', ''allPartsDone'', ''partialBackup'', ''splitBackupError'', 
    ''backupInProgress'', ''startBackup'', ''saveSchedule'', ''stopBackup'', ''stopBackupUnavailable'', ''stopBackupInProgress'', 
    ''stopRestore'', ''stopRestoreUnavailable'', ''stopRestoreInProgress'', ''cancelEdit'', ''scheduledJobs'', ''manageBackupSets'', 
    ''manageBackupSetsHint'', ''oneOffBackup'', ''yourBackupSets'', ''noBackupSetsYet'', ''backupSetName'', ''backupSetNamePlaceholder'', 
    ''lastRun'', ''neverRun'', ''agoPhrase'', ''agoJustNow'', ''agoJoin'', ''agoDays_one'', 
    ''agoDays_other'', ''agoHours_one'', ''agoHours_other'', ''agoMinutes_one'', ''agoMinutes_other'', ''newBackupSet'', 
    ''addNewBackupSet'', ''editBackupSet'', ''statusJobUpdated'', ''statusJobScheduled'', ''editJob'', ''cloneJob'', 
    ''cloneNameSuffix'', ''deleteJob'', ''editModeInfo'', ''backupHistory'', ''rerun'', ''reportsEmpty'', 
    ''reportsSelectPrompt'', ''reportsFolders'', ''snapshotReading'', ''snapshotFolderLoading'', ''snapshotShowMore'']"
  unfolding fr_texts_4_def by (simp only: list.map fst_conv)

definition fr_texts_5 :: "(string \<times> string) list" where
  "fr_texts_5 = [
    (''snapshotOfTotal'', ''{shown} sur {total} affich'' @ [CHR 0xC3, CHR 0xA9] @ ''s''),
    (''snapshotBuilding'', ''{n} '' @ [CHR 0xC3, CHR 0xA9] @ ''l'' @ [CHR 0xC3, CHR 0xA9] @ ''ments trouv'' @ [CHR 0xC3, CHR 0xA9] @ ''s, construction de l'' @ [CHR 0x27] @ ''arborescence...''),
    (''snapshotEmpty'', ''Cet instantan'' @ [CHR 0xC3, CHR 0xA9] @ '' ne contient aucune entr'' @ [CHR 0xC3, CHR 0xA9] @ ''e.''),
    (''reportsTypeRestore'', ''Restauration''),
    (''reportsSnapshot'', ''Instantan'' @ [CHR 0xC3, CHR 0xA9]),
    (''reportsDestination'', ''Destination''),
    (''reportsPaths'', ''Chemins''),
    (''reportsWholeSnapshot'', ''Instantan'' @ [CHR 0xC3, CHR 0xA9] @ '' complet''),
    (''reportsFiles'', ''Fichiers''),
    (''reportsSize'', ''Taille''),
    (''reportsDuration'', ''Dur'' @ [CHR 0xC3, CHR 0xA9] @ ''e''),
    (''reportsBackupSize'', ''Taille de la sauvegarde''),
    (''reportsChunks'', ''Blocs''),
    (''reportsChunkTotal'', ''Total''),
    (''reportsChunkBlank'', ''Vides''),
    (''reportsChunkFailed'', ''En '' @ [CHR 0xC3, CHR 0xA9] @ ''chec''),
    (''reportsUploaded'', ''Donn'' @ [CHR 0xC3, CHR 0xA9] @ ''es nouvelles/modifi'' @ [CHR 0xC3, CHR 0xA9] @ ''es''),
    (''reportsWarnings'', ''Avertissements''),
    (''logMachineBackupCompletedShort'', ''Sauvegarde machine termin'' @ [CHR 0xC3, CHR 0xA9] @ ''e''),
    (''sentLabel'', ''Donn'' @ [CHR 0xC3, CHR 0xA9] @ ''es transf'' @ [CHR 0xC3, CHR 0xA9] @ ''r'' @ [CHR 0xC3, CHR 0xA9] @ ''es :''),
    (''newDataLabel'', ''Donn'' @ [CHR 0xC3, CHR 0xA9] @ ''es nouvelles/modifi'' @ [CHR 0xC3, CHR 0xA9] @ ''es :''),
    (''ratioLabel'', ''Taux de compression :''),
    (''reportsRatio'', ''Taux de compression''),
    (''stageRetryWait'', ''Connexion au serveur perdue : nouvel essai '' @ [CHR 0xC3, CHR 0xA0] @ '' {time} (tentative {n} sur {count})''),
    (''reportsSent'', ''Donn'' @ [CHR 0xC3, CHR 0xA9] @ ''es transf'' @ [CHR 0xC3, CHR 0xA9] @ ''r'' @ [CHR 0xC3, CHR 0xA9] @ ''es''),
    (''restoreStagePreparing'', ''Connexion et pr'' @ [CHR 0xC3, CHR 0xA9] @ ''paration de la restauration...''),
    (''restoreStageLocating'', ''Lecture de l'' @ [CHR 0x27] @ ''index de l'' @ [CHR 0x27] @ ''instantan'' @ [CHR 0xC3, CHR 0xA9] @ '' et localisation des fichiers...''),
    (''restoreStageTransferring'', ''R'' @ [CHR 0xC3, CHR 0xA9] @ ''cup'' @ [CHR 0xC3, CHR 0xA9] @ ''ration des blocs et '' @ [CHR 0xC3, CHR 0xA9] @ ''criture des fichiers...''),
    (''restoreStageAcls'', ''Restauration des ACL et des attributs...''),
    (''reportsMode'', ''Mode''),
    (''reportsType'', ''Type''),
    (''triggerScheduled'', ''Automatique (planifi'' @ [CHR 0xC3, CHR 0xA9] @ '')''),
    (''triggerStartup'', ''Automatique (au d'' @ [CHR 0xC3, CHR 0xA9] @ ''marrage)''),
    (''triggerManual'', ''Manuel (Ex'' @ [CHR 0xC3, CHR 0xA9] @ ''cuter maintenant)''),
    (''triggerOneoff'', ''Manuel (ponctuel)''),
    (''reportsTypeDirectory'', ''Dossiers''),
    (''reportsTypeMachine'', ''Machine enti'' @ [CHR 0xC3, CHR 0xA8] @ ''re''),
    (''vssOn'', ''Activ'' @ [CHR 0xC3, CHR 0xA9]),
    (''vssOff'', ''D'' @ [CHR 0xC3, CHR 0xA9] @ ''sactiv'' @ [CHR 0xC3, CHR 0xA9]),
    (''configLoaded'', ''Configuration charg'' @ [CHR 0xC3, CHR 0xA9] @ ''e, lancez la sauvegarde''),
    (''restoreTitle'', ''Restauration''),
    (''backupIDToRestore'', ''ID de sauvegarde '' @ [CHR 0xC3, CHR 0xA0] @ '' restaurer (optionnel)''),
    (''listSnapshots'', ''Lister les instantan'' @ [CHR 0xC3, CHR 0xA9] @ ''s disponibles''),
    (''availableSnapshots'', ''Instantan'' @ [CHR 0xC3, CHR 0xA9] @ ''s disponibles''),
    (''tileView'', ''Mosa'' @ [CHR 0xC3, CHR 0xAF] @ ''que''),
    (''listView'', ''Liste''),
    (''sizeLabel'', ''Taille''),
    (''snapshotDate'', ''Date''),
    (''noSnapshotFound'', ''Aucun instantan'' @ [CHR 0xC3, CHR 0xA9] @ '' trouv'' @ [CHR 0xC3, CHR 0xA9]),
    (''restore'', ''Restaurer''),
    (''restoreInfo'', ''Restauration :''),
    (''restoreInfoText'', ''Choisissez le serveur PBS source, puis listez les instantan'' @ [CHR 0xC3, CHR 0xA9] @ ''s. Laissez l'' @ [CHR 0x27] @ ''ID de sauvegarde vide pour parcourir tous les ensembles de sauvegarde (utile pour restaurer sur une machine de remplacement).''),
    (''restoreInfoText2'', ''S'' @ [CHR 0xC3, CHR 0xA9] @ ''lectionnez un instantan'' @ [CHR 0xC3, CHR 0xA9] @ '', parcourez l'' @ [CHR 0x27] @ ''arborescence pour cocher les fichiers/dossiers '' @ [CHR 0xC3, CHR 0xA0] @ '' restaurer, puis cliquez sur Restaurer.''),
    (''restoreDestPrompt'', ''Chemin de destination pour la restauration :''),
    (''restorePBSServer'', ''Serveur PBS source''),
    (''backupPBSServer'', ''Serveur PBS de destination''),
    (''noPBSServer'', ''Aucun serveur configur'' @ [CHR 0xC3, CHR 0xA9]),
    (''typeLabel'', ''Type''),
    (''selectSnapshot'', ''S'' @ [CHR 0xC3, CHR 0xA9] @ ''lectionner''),
    (''snapshotSelected'', ''S'' @ [CHR 0xC3, CHR 0xA9] @ ''lectionn'' @ [CHR 0xC3, CHR 0xA9]),
    (''snapshotContents'', ''Contenu de l'' @ [CHR 0x27] @ ''instantan'' @ [CHR 0xC3, CHR 0xA9]),
    (''treeHint'', ''Cochez les fichiers ou dossiers '' @ [CHR 0xC3, CHR 0xA0] @ '' restaurer. S'' @ [CHR 0xC3, CHR 0xA9] @ ''lectionnez-en au moins un, sinon rien ne sera restaur'' @ [CHR 0xC3, CHR 0xA9] @ ''.''),
    (''reloadTree'', ''Recharger''),
    (''reloadTreeHint'', ''Ignorer le cache local et ret'' @ [CHR 0xC3, CHR 0xA9] @ ''l'' @ [CHR 0xC3, CHR 0xA9] @ ''charger l'' @ [CHR 0x27] @ ''arborescence depuis PBS''),
    (''metaOriginalPath'', ''Sauvegard'' @ [CHR 0xC3, CHR 0xA9] @ '' depuis''),
    (''metaHostname'', ''Machine''),
    (''metaBackupTime'', ''Sauvegard'' @ [CHR 0xC3, CHR 0xA9] @ '' le''),
    (''loadingOrEmpty'', ''Chargement ou instantan'' @ [CHR 0xC3, CHR 0xA9] @ '' vide...''),
    (''loadingSnapshotContents'', ''T'' @ [CHR 0xC3, CHR 0xA9] @ ''l'' @ [CHR 0xC3, CHR 0xA9] @ ''chargement de l'' @ [CHR 0x27] @ ''arborescence...''),
    (''entriesLoaded'', ''entr'' @ [CHR 0xC3, CHR 0xA9] @ ''e(s) charg'' @ [CHR 0xC3, CHR 0xA9] @ ''e(s)''),
    (''selectionCount'', ''{n} entr'' @ [CHR 0xC3, CHR 0xA9] @ ''e(s) s'' @ [CHR 0xC3, CHR 0xA9] @ ''lectionn'' @ [CHR 0xC3, CHR 0xA9] @ ''e(s).''),
    (''selectionCountSize'', ''{n} entr'' @ [CHR 0xC3, CHR 0xA9] @ ''e(s) s'' @ [CHR 0xC3, CHR 0xA9] @ ''lectionn'' @ [CHR 0xC3, CHR 0xA9] @ ''e(s) '' @ [CHR 0xC2, CHR 0xB7] @ '' {size} '' @ [CHR 0xC3, CHR 0xA0] @ '' restaurer.''),
    (''selectionEmptyNone'', ''Aucune s'' @ [CHR 0xC3, CHR 0xA9] @ ''lection : rien ne sera restaur'' @ [CHR 0xC3, CHR 0xA9] @ ''.''),
    (''selectAllEntries'', ''Tout s'' @ [CHR 0xC3, CHR 0xA9] @ ''lectionner''),
    (''selectNoneEntries'', ''Tout d'' @ [CHR 0xC3, CHR 0xA9] @ ''s'' @ [CHR 0xC3, CHR 0xA9] @ ''lectionner''),
    (''noFilesSelectedError'', ''Aucun fichier s'' @ [CHR 0xC3, CHR 0xA9] @ ''lectionn'' @ [CHR 0xC3, CHR 0xA9] @ '' : rien '' @ [CHR 0xC3, CHR 0xA0] @ '' restaurer.''),
    (''originTooltip'', ''Emplacement d'' @ [CHR 0x27] @ ''origine : {path}''),
    (''searchTitle'', ''Rechercher un fichier''),
    (''searchHint'', ''Recherche dans toutes les sauvegardes commen'' @ [CHR 0xC3, CHR 0xA7] @ ''ant par '' @ [CHR 0xC2, CHR 0xAB] @ '' {prefix} '' @ [CHR 0xC2, CHR 0xBB] @ '' (toutes les parties d'' @ [CHR 0xC3, CHR 0xA9] @ ''coup'' @ [CHR 0xC3, CHR 0xA9] @ ''es), sur la p'' @ [CHR 0xC3, CHR 0xA9] @ ''riode choisie.''),
    (''searchQueryLabel'', ''Terme recherch'' @ [CHR 0xC3, CHR 0xA9]),
    (''searchQueryPlaceholder'', ''ex. facture, *.docx, rapport-2024''),
    (''searchModeLabel'', ''Type''),
    (''searchModeName'', ''Nom de fichier''),
    (''searchModeRegex'', ''Expression r'' @ [CHR 0xC3, CHR 0xA9] @ ''guli'' @ [CHR 0xC3, CHR 0xA8] @ ''re''),
    (''searchModePath'', ''Chemin complet''),
    (''searchFrom'', ''Du''),
    (''searchTo'', ''Au''),
    (''searchAssembleMissing'', ''Assembler aussi les instantan'' @ [CHR 0xC3, CHR 0xA9] @ ''s pas encore consult'' @ [CHR 0xC3, CHR 0xA9] @ ''s (plus lent, t'' @ [CHR 0xC3, CHR 0xA9] @ ''l'' @ [CHR 0xC3, CHR 0xA9] @ ''charge les archives)''),
    (''searchButton'', ''Rechercher''),
    (''searching'', ''Recherche en cours'' @ [CHR 0xE2, CHR 0x80, CHR 0xA6]),
    (''searchQueryRequired'', ''Saisissez un terme '' @ [CHR 0xC3, CHR 0xA0] @ '' rechercher.''),
    (''searchDone'', ''{n} r'' @ [CHR 0xC3, CHR 0xA9] @ ''sultat(s) trouv'' @ [CHR 0xC3, CHR 0xA9] @ ''(s).''),
    (''searchSummary'', ''{hits} r'' @ [CHR 0xC3, CHR 0xA9] @ ''sultat(s) '' @ [CHR 0xC2, CHR 0xB7] @ '' {searched} instantan'' @ [CHR 0xC3, CHR 0xA9] @ ''(s) parcouru(s) '' @ [CHR 0xC2, CHR 0xB7] @ '' {assembled} assembl'' @ [CHR 0xC3, CHR 0xA9] @ ''(s).''),
    (''searchTruncated'', ''Limite de {max} r'' @ [CHR 0xC3, CHR 0xA9] @ ''sultats atteinte. Affinez votre recherche.''),
    (''searchCancelled'', ''Recherche annul'' @ [CHR 0xC3, CHR 0xA9] @ ''e : r'' @ [CHR 0xC3, CHR 0xA9] @ ''sultats partiels.''),
    (''searchSkippedWarning'', ''{n} instantan'' @ [CHR 0xC3, CHR 0xA9] @ ''(s) non parcouru(s) (absents du cache). Cochez '' @ [CHR 0xC2, CHR 0xAB] @ '' assembler '' @ [CHR 0xC2, CHR 0xBB] @ '' pour une recherche compl'' @ [CHR 0xC3, CHR 0xA8] @ ''te.''),
    (''searchNoSnapshotsInRange'', ''Aucun instantan'' @ [CHR 0xC3, CHR 0xA9] @ '' dans la p'' @ [CHR 0xC3, CHR 0xA9] @ ''riode choisie. '' @ [CHR 0xC3, CHR 0x89] @ ''largissez les dates '' @ [CHR 0xC2, CHR 0xAB] @ '' Du / Au '' @ [CHR 0xC2, CHR 0xBB] @ ''.''),
    (''searchNoResults'', ''Aucun fichier correspondant.''),
    (''chooseBackupUrl'', []),
    (''searchRestoreThis'', ''Pr'' @ [CHR 0xC3, CHR 0xA9] @ ''parer la restauration''),
    (''destinationPath'', ''Dossier de destination''),
    (''browse'', ''Parcourir''),
    (''restoreModeInPlace'', ''Restaurer vers l'' @ [CHR 0x27] @ ''emplacement d'' @ [CHR 0x27] @ ''origine''),
    (''restoreModeAlternate'', ''Restaurer vers un autre emplacement''),
    (''inPlaceNoMeta'', ''instantan'' @ [CHR 0xC3, CHR 0xA9] @ '' sans m'' @ [CHR 0xC3, CHR 0xA9] @ ''tadonn'' @ [CHR 0xC3, CHR 0xA9] @ ''es''),
    (''inPlaceNoOriginalPath'', ''chemin d'' @ [CHR 0x27] @ ''origine inconnu''),
    (''inPlaceOsMismatch'', ''OS d'' @ [CHR 0x27] @ ''origine diff'' @ [CHR 0xC3, CHR 0xA9] @ ''rent''),
    (''inPlaceWarning'', ''Cette op'' @ [CHR 0xC3, CHR 0xA9] @ ''ration va '' @ [CHR 0xC3, CHR 0xA9] @ ''craser le contenu de {path}. Les fichiers existants seront remplac'' @ [CHR 0xC3, CHR 0xA9] @ ''s par la version sauvegard'' @ [CHR 0xC3, CHR 0xA9] @ ''e.''),
    (''inPlaceConfirm'', ''Restaurer sur place dans {path} ? Cette op'' @ [CHR 0xC3, CHR 0xA9] @ ''ration est irr'' @ [CHR 0xC3, CHR 0xA9] @ ''versible.''),
    (''crossHostOverride'', ''Restaurer ici quand m'' @ [CHR 0xC3, CHR 0xAA] @ ''me (sauvegard'' @ [CHR 0xC3, CHR 0xA9] @ '' sur {src}, cet ordinateur est {dst})''),
    (''keepTreeLabel'', ''Conserver l'' @ [CHR 0x27] @ ''arborescence d'' @ [CHR 0x27] @ ''origine''),
    (''keepTreeOnHint'', ''(dest/Users/alice/doc.txt)''),
    (''keepTreeOffHint'', ''(dest/doc.txt, recommand'' @ [CHR 0xC3, CHR 0xA9] @ '' pour un fichier seul)''),
    (''overwriteForcedInPlace'', ''L'' @ [CHR 0x27, CHR 0xC3, CHR 0xA9] @ ''crasement est implicite en restauration sur place''),
    (''optionOverwrite'', [CHR 0xC3, CHR 0x89] @ ''craser les fichiers existants''),
    (''optionTimestamps'', ''Restaurer les dates de modification''),
    (''optionACLs'', ''Restaurer les permissions/ACL''),
    (''optionACLsHint'', ''Windows : r'' @ [CHR 0xC3, CHR 0xA9] @ ''applique le propri'' @ [CHR 0xC3, CHR 0xA9] @ ''taire, le groupe, les autorisations (DACL) et les attributs Masqu'' @ [CHR 0xC3, CHR 0xA9] @ ''/Syst'' @ [CHR 0xC3, CHR 0xA8] @ ''me/Archive/Lecture seule captur'' @ [CHR 0xC3, CHR 0xA9] @ ''s lors de la sauvegarde. Linux : r'' @ [CHR 0xC3, CHR 0xA9] @ ''applique les ACL POSIX et les attributs '' @ [CHR 0xC3, CHR 0xA9] @ ''tendus.''),
    (''optionVerify'', ''V'' @ [CHR 0xC3, CHR 0xA9] @ ''rifier apr'' @ [CHR 0xC3, CHR 0xA8] @ ''s la restauration''),
    (''optionVerifyHint'', ''Apr'' @ [CHR 0xC3, CHR 0xA8] @ ''s la restauration, relit chaque fichier restaur'' @ [CHR 0xC3, CHR 0xA9] @ '' et le compare '' @ [CHR 0xC3, CHR 0xA0] @ '' l'' @ [CHR 0x27] @ ''instantan'' @ [CHR 0xC3, CHR 0xA9] @ ''. Prend plus de temps ; les '' @ [CHR 0xC3, CHR 0xA9] @ ''carts sont signal'' @ [CHR 0xC3, CHR 0xA9] @ ''s, rien n'' @ [CHR 0x27] @ ''est supprim'' @ [CHR 0xC3, CHR 0xA9] @ ''.''),
    (''restoreStageDirTimes'', ''Application des horodatages des dossiers...''),
    (''restoreStageVerifying'', ''V'' @ [CHR 0xC3, CHR 0xA9] @ ''rification des fichiers restaur'' @ [CHR 0xC3, CHR 0xA9] @ ''s...''),
    (''restoreVerifiedSuffix'', ''{n} fichiers v'' @ [CHR 0xC3, CHR 0xA9] @ ''rifi'' @ [CHR 0xC3, CHR 0xA9] @ ''s par rapport '' @ [CHR 0xC3, CHR 0xA0] @ '' l'' @ [CHR 0x27] @ ''instantan'' @ [CHR 0xC3, CHR 0xA9]),
    (''reportsVerification'', ''V'' @ [CHR 0xC3, CHR 0xA9] @ ''rification''),
    (''reportsVerifyOk'', ''Les {n} fichiers correspondent''),
    (''reportsVerifyFailed'', ''{n} fichier(s) ne correspondent pas''),
    (''restoring'', ''Restauration en cours...''),
    (''selectSnapshotFirst'', ''S'' @ [CHR 0xC3, CHR 0xA9] @ ''lectionnez d'' @ [CHR 0x27] @ ''abord un instantan'' @ [CHR 0xC3, CHR 0xA9]),
    (''destinationRequired'', ''Dossier de destination requis''),
    (''restoreBetaTitle'', ''FONCTIONNALIT'' @ [CHR 0xC3, CHR 0x89] @ '' B'' @ [CHR 0xC3, CHR 0x8A] @ ''TA''),
    (''restoreBetaIntro'', ''La restauration est en B'' @ [CHR 0xC3, CHR 0x8A] @ ''TA. Elle prend actuellement en charge :''),
    (''restoreBetaFilesDirs'', ''Fichiers et dossiers (arborescence compl'' @ [CHR 0xC3, CHR 0xA8] @ ''te)''),
    (''restoreBetaSelective'', ''Restauration s'' @ [CHR 0xC3, CHR 0xA9] @ ''lective (fichier par fichier)''),
    (''restoreBetaTimestamps'', ''Restauration des dates de modification''),
    (''restoreBetaMultiServer'', ''S'' @ [CHR 0xC3, CHR 0xA9] @ ''lection parmi plusieurs serveurs PBS''),
    (''restoreBetaACLsDone'', ''Permissions NTFS/ACL (Windows) et ACL POSIX (Linux)''),
    (''aboutTitle'', [CHR 0xC3, CHR 0x80] @ '' propos''),
    (''version'', ''Version''),
    (''features'', ''Fonctionnalit'' @ [CHR 0xC3, CHR 0xA9] @ ''s'')]"

lemma fr_texts_5_holes: "scan_texts fr_texts_5 = Some
   [(''snapshotOfTotal'', [''shown'', ''total'']),
    (''snapshotBuilding'', [''n'']),
    (''stageRetryWait'', [''time'', ''n'', ''count'']),
    (''selectionCount'', [''n'']),
    (''selectionCountSize'', [''n'', ''size'']),
    (''originTooltip'', [''path'']),
    (''searchHint'', [''prefix'']),
    (''searchDone'', [''n'']),
    (''searchSummary'', [''hits'', ''searched'', ''assembled'']),
    (''searchTruncated'', [''max'']),
    (''searchSkippedWarning'', [''n'']),
    (''inPlaceWarning'', [''path'']),
    (''inPlaceConfirm'', [''path'']),
    (''crossHostOverride'', [''src'', ''dst'']),
    (''restoreVerifiedSuffix'', [''n'']),
    (''reportsVerifyOk'', [''n'']),
    (''reportsVerifyFailed'', [''n''])]"
  by code_simp

lemma fr_texts_5_keys: "map fst fr_texts_5 =
   [''snapshotOfTotal'', ''snapshotBuilding'', ''snapshotEmpty'', ''reportsTypeRestore'', ''reportsSnapshot'', ''reportsDestination'', 
    ''reportsPaths'', ''reportsWholeSnapshot'', ''reportsFiles'', ''reportsSize'', ''reportsDuration'', ''reportsBackupSize'', 
    ''reportsChunks'', ''reportsChunkTotal'', ''reportsChunkBlank'', ''reportsChunkFailed'', ''reportsUploaded'', ''reportsWarnings'', 
    ''logMachineBackupCompletedShort'', ''sentLabel'', ''newDataLabel'', ''ratioLabel'', ''reportsRatio'', ''stageRetryWait'', 
    ''reportsSent'', ''restoreStagePreparing'', ''restoreStageLocating'', ''restoreStageTransferring'', ''restoreStageAcls'', ''reportsMode'', 
    ''reportsType'', ''triggerScheduled'', ''triggerStartup'', ''triggerManual'', ''triggerOneoff'', ''reportsTypeDirectory'', 
    ''reportsTypeMachine'', ''vssOn'', ''vssOff'', ''configLoaded'', ''restoreTitle'', ''backupIDToRestore'', 
    ''listSnapshots'', ''availableSnapshots'', ''tileView'', ''listView'', ''sizeLabel'', ''snapshotDate'', 
    ''noSnapshotFound'', ''restore'', ''restoreInfo'', ''restoreInfoText'', ''restoreInfoText2'', ''restoreDestPrompt'', 
    ''restorePBSServer'', ''backupPBSServer'', ''noPBSServer'', ''typeLabel'', ''selectSnapshot'', ''snapshotSelected'', 
    ''snapshotContents'', ''treeHint'', ''reloadTree'', ''reloadTreeHint'', ''metaOriginalPath'', ''metaHostname'', 
    ''metaBackupTime'', ''loadingOrEmpty'', ''loadingSnapshotContents'', ''entriesLoaded'', ''selectionCount'', ''selectionCountSize'', 
    ''selectionEmptyNone'', ''selectAllEntries'', ''selectNoneEntries'', ''noFilesSelectedError'', ''originTooltip'', ''searchTitle'', 
    ''searchHint'', ''searchQueryLabel'', ''searchQueryPlaceholder'', ''searchModeLabel'', ''searchModeName'', ''searchModeRegex'', 
    ''searchModePath'', ''searchFrom'', ''searchTo'', ''searchAssembleMissing'', ''searchButton'', ''searching'', 
    ''searchQueryRequired'', ''searchDone'', ''searchSummary'', ''searchTruncated'', ''searchCancelled'', ''searchSkippedWarning'', 
    ''searchNoSnapshotsInRange'', ''searchNoResults'', ''chooseBackupUrl'', ''searchRestoreThis'', ''destinationPath'', ''browse'', 
    ''restoreModeInPlace'', ''restoreModeAlternate'', ''inPlaceNoMeta'', ''inPlaceNoOriginalPath'', ''inPlaceOsMismatch'', ''inPlaceWarning'', 
    ''inPlaceConfirm'', ''crossHostOverride'', ''keepTreeLabel'', ''keepTreeOnHint'', ''keepTreeOffHint'', ''overwriteForcedInPlace'', 
    ''optionOverwrite'', ''optionTimestamps'', ''optionACLs'', ''optionACLsHint'', ''optionVerify'', ''optionVerifyHint'', 
    ''restoreStageDirTimes'', ''restoreStageVerifying'', ''restoreVerifiedSuffix'', ''reportsVerification'', ''reportsVerifyOk'', ''reportsVerifyFailed'', 
    ''restoring'', ''selectSnapshotFirst'', ''destinationRequired'', ''restoreBetaTitle'', ''restoreBetaIntro'', ''restoreBetaFilesDirs'', 
    ''restoreBetaSelective'', ''restoreBetaTimestamps'', ''restoreBetaMultiServer'', ''restoreBetaACLsDone'', ''aboutTitle'', ''version'', 
    ''features'']"
  unfolding fr_texts_5_def by (simp only: list.map fst_conv)

definition fr_texts_6 :: "(string \<times> string) list" where
  "fr_texts_6 = [
    (''copyright'', [CHR 0xC2, CHR 0xA9] @ '' 2024-2026 les contributeurs de Salvanza et RDEM Systems.''),
    (''legalLicense'', ''Sous licence GNU General Public License v3.0 (GPLv3).''),
    (''legalDisclaimer'', ''Non affili'' @ [CHR 0xC3, CHR 0xA9] @ '' '' @ [CHR 0xC3, CHR 0xA0] @ '' Proxmox Server Solutions GmbH. '' @ [CHR 0xC2, CHR 0xAB] @ '' Proxmox '' @ [CHR 0xC2, CHR 0xBB] @ '' et les marques associ'' @ [CHR 0xC3, CHR 0xA9] @ ''es sont la propri'' @ [CHR 0xC3, CHR 0xA9] @ ''t'' @ [CHR 0xC3, CHR 0xA9] @ '' de leurs d'' @ [CHR 0xC3, CHR 0xA9] @ ''tenteurs respectifs, utilis'' @ [CHR 0xC3, CHR 0xA9] @ ''es ici uniquement pour indiquer la compatibilit'' @ [CHR 0xC3, CHR 0xA9] @ ''.''),
    (''legalWarranty'', ''Fourni tel quel, sans aucune garantie de quelque nature que ce soit ; vous l'' @ [CHR 0x27] @ ''utilisez '' @ [CHR 0xC3, CHR 0xA0] @ '' vos propres risques.''),
    (''aboutLinks'', ''Liens''),
    (''aboutLinkReleases'', ''Versions''),
    (''aboutLinkSource'', ''Code source''),
    (''aboutLinkIssues'', ''Signaler un bug''),
    (''aboutLinkLicense'', ''Licence''),
    (''aboutLinkWebsite'', ''Site web''),
    (''aboutLinkHelp'', ''Aide''),
    (''aboutLinkContact'', ''Contact''),
    (''statusDiskError'', ''Erreur lors de la d'' @ [CHR 0xC3, CHR 0xA9] @ ''tection des disques :''),
    (''statusServerLoadError'', ''Erreur lors du chargement des serveurs :''),
    (''statusServerAdded'', ''Serveur PBS ajout'' @ [CHR 0xC3, CHR 0xA9]),
    (''errServerNameRequired'', ''Le nom du serveur est requis''),
    (''statusServerUpdated'', ''Serveur PBS mis '' @ [CHR 0xC3, CHR 0xA0] @ '' jour''),
    (''statusServerDeleted'', ''Serveur PBS supprim'' @ [CHR 0xC3, CHR 0xA9]),
    (''statusServerSetDefault'', ''Serveur '' @ [CHR 0xC2, CHR 0xAB] @ '' {id} '' @ [CHR 0xC2, CHR 0xBB] @ '' d'' @ [CHR 0xC3, CHR 0xA9] @ ''fini par d'' @ [CHR 0xC3, CHR 0xA9] @ ''faut''),
    (''statusConnectionSuccess'', ''Connexion au serveur '' @ [CHR 0xC2, CHR 0xAB] @ '' {id} '' @ [CHR 0xC2, CHR 0xBB] @ '' r'' @ [CHR 0xC3, CHR 0xA9] @ ''ussie''),
    (''statusConnectionFailed'', [CHR 0xC3, CHR 0x89] @ ''chec de la connexion :''),
    (''statusConfigSaved'', ''Configuration enregistr'' @ [CHR 0xC3, CHR 0xA9] @ ''e''),
    (''statusConnectionOK'', ''Connexion r'' @ [CHR 0xC3, CHR 0xA9] @ ''ussie !''),
    (''tofuConfirm'', ''Le serveur {host} a pr'' @ [CHR 0xC3, CHR 0xA9] @ ''sent'' @ [CHR 0xC3, CHR 0xA9] @ '' un certificat auto-sign'' @ [CHR 0xC3, CHR 0xA9] @ '' (non v'' @ [CHR 0xC3, CHR 0xA9] @ ''rifiable par une autorit'' @ [CHR 0xC3, CHR 0xA9] @ '' connue).'' @ [CHR 0x0A, CHR 0x0A] @ ''Empreinte SHA-256 :'' @ [CHR 0x0A] @ ''{fp}'' @ [CHR 0x0A, CHR 0x0A] @ ''V'' @ [CHR 0xC3, CHR 0xA9] @ ''rifiez cette empreinte sur le serveur PBS, puis confirmez pour l'' @ [CHR 0x27, CHR 0xC3, CHR 0xA9] @ ''pingler et faire confiance '' @ [CHR 0xC3, CHR 0xA0] @ '' ce certificat.''),
    (''statusFingerprintPinned'', ''Empreinte du certificat '' @ [CHR 0xC3, CHR 0xA9] @ ''pingl'' @ [CHR 0xC3, CHR 0xA9] @ ''e, connexion '' @ [CHR 0xC3, CHR 0xA9] @ ''tablie''),
    (''statusFingerprintPinnedSave'', ''Empreinte '' @ [CHR 0xC3, CHR 0xA9] @ ''pingl'' @ [CHR 0xC3, CHR 0xA9] @ ''e et connexion OK. Cliquez sur Enregistrer pour la conserver.''),
    (''statusFingerprintFailed'', ''Impossible de r'' @ [CHR 0xC3, CHR 0xA9] @ ''cup'' @ [CHR 0xC3, CHR 0xA9] @ ''rer/'' @ [CHR 0xC3, CHR 0xA9] @ ''pingler l'' @ [CHR 0x27] @ ''empreinte :''),
    (''statusConfigLoaded'', ''Configuration charg'' @ [CHR 0xC3, CHR 0xA9] @ ''e depuis le fichier''),
    (''statusInvalidJSON'', ''Erreur : fichier JSON invalide''),
    (''statusBackupComplete'', ''Toutes les sauvegardes partielles ont r'' @ [CHR 0xC3, CHR 0xA9] @ ''ussi ({done}/{total})''),
    (''statusSplitError'', ''Erreur de sauvegarde fractionn'' @ [CHR 0xC3, CHR 0xA9] @ ''e :''),
    (''statusSchedulingUnavailable'', ''Fonction de planification non disponible''),
    (''statusBackupStarting'', ''D'' @ [CHR 0xC3, CHR 0xA9] @ ''marrage de la sauvegarde...''),
    (''statusBackupRunning'', ''Sauvegarde en cours...''),
    (''statusRestoring'', ''Restauration de l'' @ [CHR 0x27] @ ''instantan'' @ [CHR 0xC3, CHR 0xA9] @ '' {time}...''),
    (''statusRestoreComplete'', ''Restauration termin'' @ [CHR 0xC3, CHR 0xA9] @ ''e !''),
    (''statusJobDeleted'', ''Ensemble de sauvegarde supprim'' @ [CHR 0xC3, CHR 0xA9]),
    (''statusEditCancelled'', [CHR 0xC3, CHR 0x89] @ ''dition annul'' @ [CHR 0xC3, CHR 0xA9] @ ''e''),
    (''statusError'', ''Erreur :''),
    (''statusConfirm'', [CHR 0xC3, CHR 0x8A] @ ''tes-vous s'' @ [CHR 0xC3, CHR 0xBB] @ ''r ?''),
    (''confirmDeleteServer'', ''Voulez-vous vraiment supprimer le serveur PBS '' @ [CHR 0xC2, CHR 0xAB] @ '' {id} '' @ [CHR 0xC2, CHR 0xBB] @ '' ?''),
    (''confirmDeleteJob'', ''Voulez-vous vraiment supprimer l'' @ [CHR 0x27] @ ''ensemble de sauvegarde '' @ [CHR 0xC2, CHR 0xAB] @ '' {name} '' @ [CHR 0xC2, CHR 0xBB] @ '' ?''),
    (''pauseBackup'', ''Pause''),
    (''resumeBackup'', ''Reprendre''),
    (''pausedShort'', ''En pause''),
    (''stagePaused'', ''En pause depuis {duration}. La connexion au serveur reste ouverte : Reprendre continue '' @ [CHR 0xC3, CHR 0xA0] @ '' partir d'' @ [CHR 0x27] @ ''ici.''),
    (''pauseBackupHint'', ''Arr'' @ [CHR 0xC3, CHR 0xAA] @ ''te la lecture et l'' @ [CHR 0x27] @ ''envoi de cette sauvegarde jusqu'' @ [CHR 0x27, CHR 0xC3, CHR 0xA0] @ '' ce que vous cliquiez sur Reprendre. Les autres sauvegardes continuent.''),
    (''otherRunsTitle'', [CHR 0xC3, CHR 0x89] @ ''galement en cours ({n})''),
    (''showRun'', ''Afficher''),
    (''showRunHint'', ''Afficher cette sauvegarde dans le cadre ci-dessus''),
    (''prevRunHint'', ''Sauvegarde en cours pr'' @ [CHR 0xC3, CHR 0xA9] @ ''c'' @ [CHR 0xC3, CHR 0xA9] @ ''dente''),
    (''nextRunHint'', ''Sauvegarde en cours suivante''),
    (''stopRunHint'', ''Arr'' @ [CHR 0xC3, CHR 0xAA] @ ''ter cette sauvegarde''),
    (''maxRunsLabel'', ''Nombre maximal de sauvegardes simultan'' @ [CHR 0xC3, CHR 0xA9] @ ''es :''),
    (''maxRunsHint'', ''Nombre de sauvegardes et de restaurations pouvant s'' @ [CHR 0x27] @ ''ex'' @ [CHR 0xC3, CHR 0xA9] @ ''cuter en m'' @ [CHR 0xC3, CHR 0xAA] @ ''me temps : une longue premi'' @ [CHR 0xC3, CHR 0xA8] @ ''re sauvegarde ne retarde plus les autres ensembles de sauvegarde. Quel que soit ce r'' @ [CHR 0xC3, CHR 0xA9] @ ''glage, une seule sauvegarde machine et une seule restauration s'' @ [CHR 0x27] @ ''ex'' @ [CHR 0xC3, CHR 0xA9] @ ''cutent '' @ [CHR 0xC3, CHR 0xA0] @ '' la fois, et un ensemble de sauvegarde ne s'' @ [CHR 0x27] @ ''ex'' @ [CHR 0xC3, CHR 0xA9] @ ''cute jamais deux fois en m'' @ [CHR 0xC3, CHR 0xAA] @ ''me temps. 1 les ex'' @ [CHR 0xC3, CHR 0xA9] @ ''cute l'' @ [CHR 0x27] @ ''une apr'' @ [CHR 0xC3, CHR 0xA8] @ ''s l'' @ [CHR 0x27] @ ''autre, comme auparavant.''),
    (''speedLimitsTitle'', ''Limites de vitesse''),
    (''speedLimitUpload'', ''Envoi vers PBS (Mo/s)''),
    (''speedLimitDownload'', ''T'' @ [CHR 0xC3, CHR 0xA9] @ ''l'' @ [CHR 0xC3, CHR 0xA9] @ ''chargement depuis PBS (Mo/s)''),
    (''speedLimitDiskRead'', ''Lecture disque (Mo/s)''),
    (''speedLimitNone'', ''Aucune limite''),
    (''speedLimitsHint'', ''Chaque limite est partag'' @ [CHR 0xC3, CHR 0xA9] @ ''e par toutes les sauvegardes et restaurations en cours au m'' @ [CHR 0xC3, CHR 0xAA] @ ''me moment ; 0 ou vide signifie aucune limite. Une sauvegarde lit puis envoie, elle ne va donc pas plus vite que la plus basse des limites Lecture disque et Envoi, mais les donn'' @ [CHR 0xC3, CHR 0xA9] @ ''es inchang'' @ [CHR 0xC3, CHR 0xA9] @ ''es sont lues sans '' @ [CHR 0xC3, CHR 0xAA] @ ''tre envoy'' @ [CHR 0xC3, CHR 0xA9] @ ''es : une sauvegarde presque inchang'' @ [CHR 0xC3, CHR 0xA9] @ ''e est donc frein'' @ [CHR 0xC3, CHR 0xA9] @ ''e par Lecture disque. T'' @ [CHR 0xC3, CHR 0xA9] @ ''l'' @ [CHR 0xC3, CHR 0xA9] @ ''chargement s'' @ [CHR 0x27] @ ''applique aux restaurations, '' @ [CHR 0xC3, CHR 0xA0] @ '' la navigation, '' @ [CHR 0xC3, CHR 0xA0] @ '' R'' @ [CHR 0xC3, CHR 0xA9] @ ''cup'' @ [CHR 0xC3, CHR 0xA9] @ ''ration et '' @ [CHR 0xC3, CHR 0xA0] @ '' Retour arri'' @ [CHR 0xC3, CHR 0xA8] @ ''re.''),
    (''uploadThreadsLabel'', ''Envois simultan'' @ [CHR 0xC3, CHR 0xA9] @ ''s :''),
    (''uploadThreadsAuto'', ''Auto''),
    (''uploadThreadsHint'', ''Nombre de blocs qu'' @ [CHR 0x27] @ ''une sauvegarde envoie '' @ [CHR 0xC3, CHR 0xA0] @ '' PBS en m'' @ [CHR 0xC3, CHR 0xAA] @ ''me temps. Auto commence avec un et en ajoute un tous les 4 Mbit/s de d'' @ [CHR 0xC3, CHR 0xA9] @ ''bit montant mesur'' @ [CHR 0xC3, CHR 0xA9] @ '', jusqu'' @ [CHR 0x27, CHR 0xC3, CHR 0xA0] @ '' 8 : un r'' @ [CHR 0xC3, CHR 0xA9] @ ''seau rapide en utilise vite 8, et un lien lent vers un PBS distant en envoie un ou deux, pour que chaque bloc arrive en quelques secondes. Le calcul des empreintes utilise toujours tous les workers. S'' @ [CHR 0x27] @ ''applique aussit'' @ [CHR 0xC3, CHR 0xB4] @ ''t, aussi aux sauvegardes en cours.''),
    (''chunkTimeoutLabel'', ''D'' @ [CHR 0xC3, CHR 0xA9] @ ''lai par bloc :''),
    (''chunkTimeoutDefault'', ''Automatique (90 s)''),
    (''chunkTimeoutHint'', ''Dur'' @ [CHR 0xC3, CHR 0xA9] @ ''e pendant laquelle l'' @ [CHR 0x27] @ ''envoi d'' @ [CHR 0x27] @ ''un bloc peut rester bloqu'' @ [CHR 0xC3, CHR 0xA9] @ '' avant d'' @ [CHR 0x27, CHR 0xC3, CHR 0xAA] @ ''tre abandonn'' @ [CHR 0xC3, CHR 0xA9] @ '' et renvoy'' @ [CHR 0xC3, CHR 0xA9] @ ''. Un lien lent qui envoie encore n'' @ [CHR 0x27] @ ''est jamais abandonn'' @ [CHR 0xC3, CHR 0xA9] @ '', quelle que soit la dur'' @ [CHR 0xC3, CHR 0xA9] @ ''e d'' @ [CHR 0x27] @ ''un bloc. Automatique attend 90 secondes ; une dur'' @ [CHR 0xC3, CHR 0xA9] @ ''e plus longue convient '' @ [CHR 0xC3, CHR 0xA0] @ '' un lien qui s'' @ [CHR 0x27] @ ''interrompt souvent. S'' @ [CHR 0x27] @ ''applique aux blocs suivants, aussi dans les sauvegardes en cours.''),
    (''prefsSharesTab'', ''Partages r'' @ [CHR 0xC3, CHR 0xA9] @ ''seau''),
    (''sharesIntro'', ''Le service en arri'' @ [CHR 0xC3, CHR 0xA8] @ ''re-plan fait les sauvegardes, et il acc'' @ [CHR 0xC3, CHR 0xA8] @ ''de au dossier d'' @ [CHR 0x27] @ ''un partage sur un autre ordinateur en tant que cet ordinateur lui-m'' @ [CHR 0xC3, CHR 0xAA] @ ''me, pas en tant que vous. Un partage qui demande un nom d'' @ [CHR 0x27] @ ''utilisateur et un mot de passe le refuse. Enregistrez ici un identifiant pour le serveur, ou en ajoutant le dossier '' @ [CHR 0xC3, CHR 0xA0] @ '' un jeu de sauvegarde, et le service s'' @ [CHR 0x27] @ ''en sert '' @ [CHR 0xC3, CHR 0xA0] @ '' chaque sauvegarde. Les mots de passe sont stock'' @ [CHR 0xC3, CHR 0xA9] @ ''s chiffr'' @ [CHR 0xC3, CHR 0xA9] @ ''s et ne sont plus affich'' @ [CHR 0xC3, CHR 0xA9] @ ''s.''),
    (''sharesNoService'', ''Les sauvegardes s'' @ [CHR 0x27] @ ''ex'' @ [CHR 0xC3, CHR 0xA9] @ ''cutent dans cette application : elles lisent les partages r'' @ [CHR 0xC3, CHR 0xA9] @ ''seau en tant que vous, avec vos propres acc'' @ [CHR 0xC3, CHR 0xA8] @ ''s. Aucun identifiant n'' @ [CHR 0x27] @ ''est n'' @ [CHR 0xC3, CHR 0xA9] @ ''cessaire ici.''),
    (''sharesLinux'', ''Sous Linux, montez le partage avec ses propres identifiants et sauvegardez le dossier o'' @ [CHR 0xC3, CHR 0xB9] @ '' il est mont'' @ [CHR 0xC3, CHR 0xA9] @ ''.''),
    (''sharesNone'', ''Aucun identifiant enregistr'' @ [CHR 0xC3, CHR 0xA9] @ ''.''),
    (''sharesServer'', ''Serveur''),
    (''sharesUser'', ''Nom d'' @ [CHR 0x27] @ ''utilisateur''),
    (''sharesAdd'', ''Ajouter un identifiant...''),
    (''sharesChange'', ''Modifier...''),
    (''sharesRemove'', ''Supprimer''),
    (''sharesRemoveConfirm'', ''Supprimer l'' @ [CHR 0x27] @ ''identifiant enregistr'' @ [CHR 0xC3, CHR 0xA9] @ '' pour {server} ? Les sauvegardes de dossiers sur ses partages seront refus'' @ [CHR 0xC3, CHR 0xA9] @ ''es jusqu'' @ [CHR 0x27, CHR 0xC3, CHR 0xA0] @ '' ce qu'' @ [CHR 0x27] @ ''un identifiant soit de nouveau enregistr'' @ [CHR 0xC3, CHR 0xA9] @ ''.''),
    (''shareLoginTitle'', ''Identifiant pour un partage r'' @ [CHR 0xC3, CHR 0xA9] @ ''seau''),
    (''shareLoginBody'', ''Le service en arri'' @ [CHR 0xC3, CHR 0xA8] @ ''re-plan a besoin d'' @ [CHR 0x27] @ ''un nom d'' @ [CHR 0x27] @ ''utilisateur et d'' @ [CHR 0x27] @ ''un mot de passe pour lire {server}. Ils sont essay'' @ [CHR 0xC3, CHR 0xA9] @ ''s sur le dossier ci-dessous avant d'' @ [CHR 0x27, CHR 0xC3, CHR 0xAA] @ ''tre enregistr'' @ [CHR 0xC3, CHR 0xA9] @ ''s, puis utilis'' @ [CHR 0xC3, CHR 0xA9] @ ''s pour tous les partages de ce serveur.''),
    (''shareLoginUserPlaceholder'', ''utilisateur, SERVEUR'' @ [CHR 0x5C] @ ''utilisateur ou DOMAINE'' @ [CHR 0x5C] @ ''utilisateur''),
    (''shareLoginPassword'', ''Mot de passe''),
    (''shareLoginPasswordKeep'', ''laisser vide pour garder le mot de passe enregistr'' @ [CHR 0xC3, CHR 0xA9]),
    (''shareLoginTestFolder'', ''Dossier pour l'' @ [CHR 0x27] @ ''essai''),
    (''shareLoginTestHint'', ''Un dossier sur l'' @ [CHR 0x27] @ ''un des partages du serveur, comme '' @ [CHR 0x5C, CHR 0x5C] @ ''server'' @ [CHR 0x5C] @ ''share'' @ [CHR 0x5C] @ ''folder. Laissez vide pour enregistrer sans essayer.''),
    (''shareLoginSave'', ''Essayer et enregistrer''),
    (''shareLoginCancel'', ''Annuler''),
    (''shareLoginTesting'', ''Essai...''),
    (''shareLoginSaved'', ''Identifiant enregistr'' @ [CHR 0xC3, CHR 0xA9]),
    (''shareCannotOpenTitle'', ''Le service ne peut pas ouvrir certains dossiers''),
    (''shareCannotOpenIntro'', ''Le service en arri'' @ [CHR 0xC3, CHR 0xA8] @ ''re-plan ne peut pas ouvrir ces dossiers, leur sauvegarde '' @ [CHR 0xC3, CHR 0xA9] @ ''chouera :''),
    (''shareContinue'', ''Continuer quand m'' @ [CHR 0xC3, CHR 0xAA] @ ''me''),
    (''shareGoBack'', ''Revenir''),
    (''compressionLabel'', ''Compression :''),
    (''compressionFastest'', ''La plus rapide''),
    (''compressionDefault'', ''Par d'' @ [CHR 0xC3, CHR 0xA9] @ ''faut (zstd niveau 3)''),
    (''compressionBetter'', ''Meilleure''),
    (''compressionBest'', ''Maximale''),
    (''compressionHint'', ''Degr'' @ [CHR 0xC3, CHR 0xA9] @ '' de compression des donn'' @ [CHR 0xC3, CHR 0xA9] @ ''es de sauvegarde avant leur envoi '' @ [CHR 0xC3, CHR 0xA0] @ '' PBS, qui les stocke telles qu'' @ [CHR 0x27] @ ''elles arrivent : un niveau plus '' @ [CHR 0xC3, CHR 0xA9] @ ''lev'' @ [CHR 0xC3, CHR 0xA9] @ '' envoie moins de donn'' @ [CHR 0xC3, CHR 0xA9] @ ''es et occupe moins de place sur le datastore PBS, au prix de plus de temps processeur. Il ne s'' @ [CHR 0x27] @ ''applique qu'' @ [CHR 0x27] @ ''aux donn'' @ [CHR 0xC3, CHR 0xA9] @ ''es que PBS n'' @ [CHR 0x27] @ ''a pas encore, on peut donc le changer '' @ [CHR 0xC3, CHR 0xA0] @ '' tout moment. Les sauvegardes chiffr'' @ [CHR 0xC3, CHR 0xA9] @ ''es ne sont pas compress'' @ [CHR 0xC3, CHR 0xA9] @ ''es.''),
    (''restoreSupportsCreated'', ''Dates de cr'' @ [CHR 0xC3, CHR 0xA9] @ ''ation (Windows)''),
    (''restoreStageCreated'', ''Restauration des dates de cr'' @ [CHR 0xC3, CHR 0xA9] @ ''ation...''),
    (''confirmTitle'', ''Confirmation''),
    (''confirmContinue'', ''Continuer''),
    (''noticeTitle'', ''Information''),
    (''dlgDeleteServerTitle'', ''Supprimer ce serveur PBS ?''),
    (''dlgTofuTitle'', ''Faire confiance au certificat de ce serveur ?''),
    (''dlgTofuBtn'', ''Faire confiance et se connecter''),
    (''dlgPartFailedTitle'', ''Une partie de la sauvegarde n'' @ [CHR 0x27] @ ''a pas abouti''),
    (''dlgRetry'', ''R'' @ [CHR 0xC3, CHR 0xA9] @ ''essayer''),
    (''dlgSkipPart'', ''Ignorer cette partie''),
    (''dlgInPlaceTitle'', ''Restaurer par-dessus les fichiers d'' @ [CHR 0x27] @ ''origine ?''),
    (''dlgRestoreBtn'', ''Restaurer''),
    (''dlgDeleteJobTitle'', ''Supprimer cet ensemble de sauvegarde ?''),
    (''dlgUndeleteTitle'', ''Restaurer les fichiers supprim'' @ [CHR 0xC3, CHR 0xA9] @ ''s ?''),
    (''dlgRollbackTitle'', ''Retour arri'' @ [CHR 0xC3, CHR 0xA8] @ ''re des dossiers ?''),
    (''dlgRollbackBtn'', ''Retour arri'' @ [CHR 0xC3, CHR 0xA8] @ ''re''),
    (''dlgUndoTitle'', ''D'' @ [CHR 0xC3, CHR 0xA9] @ ''faire ce retour arri'' @ [CHR 0xC3, CHR 0xA8] @ ''re ?''),
    (''dlgDeleteKeptTitle'', ''Supprimer les versions conserv'' @ [CHR 0xC3, CHR 0xA9] @ ''es ?'')]"

lemma fr_texts_6_holes: "scan_texts fr_texts_6 = Some
   [(''statusServerSetDefault'', [''id'']),
    (''statusConnectionSuccess'', [''id'']),
    (''tofuConfirm'', [''host'', ''fp'']),
    (''statusBackupComplete'', [''done'', ''total'']),
    (''statusRestoring'', [''time'']),
    (''confirmDeleteServer'', [''id'']),
    (''confirmDeleteJob'', [''name'']),
    (''stagePaused'', [''duration'']),
    (''otherRunsTitle'', [''n'']),
    (''sharesRemoveConfirm'', [''server'']),
    (''shareLoginBody'', [''server''])]"
  by code_simp

lemma fr_texts_6_keys: "map fst fr_texts_6 =
   [''copyright'', ''legalLicense'', ''legalDisclaimer'', ''legalWarranty'', ''aboutLinks'', ''aboutLinkReleases'', 
    ''aboutLinkSource'', ''aboutLinkIssues'', ''aboutLinkLicense'', ''aboutLinkWebsite'', ''aboutLinkHelp'', ''aboutLinkContact'', 
    ''statusDiskError'', ''statusServerLoadError'', ''statusServerAdded'', ''errServerNameRequired'', ''statusServerUpdated'', ''statusServerDeleted'', 
    ''statusServerSetDefault'', ''statusConnectionSuccess'', ''statusConnectionFailed'', ''statusConfigSaved'', ''statusConnectionOK'', ''tofuConfirm'', 
    ''statusFingerprintPinned'', ''statusFingerprintPinnedSave'', ''statusFingerprintFailed'', ''statusConfigLoaded'', ''statusInvalidJSON'', ''statusBackupComplete'', 
    ''statusSplitError'', ''statusSchedulingUnavailable'', ''statusBackupStarting'', ''statusBackupRunning'', ''statusRestoring'', ''statusRestoreComplete'', 
    ''statusJobDeleted'', ''statusEditCancelled'', ''statusError'', ''statusConfirm'', ''confirmDeleteServer'', ''confirmDeleteJob'', 
    ''pauseBackup'', ''resumeBackup'', ''pausedShort'', ''stagePaused'', ''pauseBackupHint'', ''otherRunsTitle'', 
    ''showRun'', ''showRunHint'', ''prevRunHint'', ''nextRunHint'', ''stopRunHint'', ''maxRunsLabel'', 
    ''maxRunsHint'', ''speedLimitsTitle'', ''speedLimitUpload'', ''speedLimitDownload'', ''speedLimitDiskRead'', ''speedLimitNone'', 
    ''speedLimitsHint'', ''uploadThreadsLabel'', ''uploadThreadsAuto'', ''uploadThreadsHint'', ''chunkTimeoutLabel'', ''chunkTimeoutDefault'', 
    ''chunkTimeoutHint'', ''prefsSharesTab'', ''sharesIntro'', ''sharesNoService'', ''sharesLinux'', ''sharesNone'', 
    ''sharesServer'', ''sharesUser'', ''sharesAdd'', ''sharesChange'', ''sharesRemove'', ''sharesRemoveConfirm'', 
    ''shareLoginTitle'', ''shareLoginBody'', ''shareLoginUserPlaceholder'', ''shareLoginPassword'', ''shareLoginPasswordKeep'', ''shareLoginTestFolder'', 
    ''shareLoginTestHint'', ''shareLoginSave'', ''shareLoginCancel'', ''shareLoginTesting'', ''shareLoginSaved'', ''shareCannotOpenTitle'', 
    ''shareCannotOpenIntro'', ''shareContinue'', ''shareGoBack'', ''compressionLabel'', ''compressionFastest'', ''compressionDefault'', 
    ''compressionBetter'', ''compressionBest'', ''compressionHint'', ''restoreSupportsCreated'', ''restoreStageCreated'', ''confirmTitle'', 
    ''confirmContinue'', ''noticeTitle'', ''dlgDeleteServerTitle'', ''dlgTofuTitle'', ''dlgTofuBtn'', ''dlgPartFailedTitle'', 
    ''dlgRetry'', ''dlgSkipPart'', ''dlgInPlaceTitle'', ''dlgRestoreBtn'', ''dlgDeleteJobTitle'', ''dlgUndeleteTitle'', 
    ''dlgRollbackTitle'', ''dlgRollbackBtn'', ''dlgUndoTitle'', ''dlgDeleteKeptTitle'']"
  unfolding fr_texts_6_def by (simp only: list.map fst_conv)

definition fr_texts_7 :: "(string \<times> string) list" where
  "fr_texts_7 = [
    (''dlgServiceRemoveTitle'', ''Supprimer le service d'' @ [CHR 0x27] @ ''arri'' @ [CHR 0xC3, CHR 0xA8] @ ''re-plan ?''),
    (''dlgKeyCreateTitle'', ''Cr'' @ [CHR 0xC3, CHR 0xA9] @ ''er une cl'' @ [CHR 0xC3, CHR 0xA9] @ '' de chiffrement ?''),
    (''dlgKeyCreateBtn'', ''Cr'' @ [CHR 0xC3, CHR 0xA9] @ ''er la cl'' @ [CHR 0xC3, CHR 0xA9]),
    (''dlgKeyCreatedTitle'', ''Cl'' @ [CHR 0xC3, CHR 0xA9] @ '' de chiffrement cr'' @ [CHR 0xC3, CHR 0xA9, CHR 0xC3, CHR 0xA9] @ ''e''),
    (''dlgKeyFailedTitle'', ''La cl'' @ [CHR 0xC3, CHR 0xA9] @ '' n'' @ [CHR 0x27] @ ''a pas pu '' @ [CHR 0xC3, CHR 0xAA] @ ''tre cr'' @ [CHR 0xC3, CHR 0xA9, CHR 0xC3, CHR 0xA9] @ ''e''),
    (''scanPhaseWalkCount'', ''Lecture du dossier {folder} : {n} sur environ {total} fichiers et dossiers''),
    (''scanPhaseWalkSoFar'', ''Lecture du dossier {folder} : {n} fichiers et dossiers pour l'' @ [CHR 0x27] @ ''instant''),
    (''jobNameNotUnique'', ''Un ensemble de sauvegarde nomm'' @ [CHR 0xC3, CHR 0xA9] @ '' '' @ [CHR 0xC2, CHR 0xAB] @ '' {name} '' @ [CHR 0xC2, CHR 0xBB] @ '' existe d'' @ [CHR 0xC3, CHR 0xA9] @ ''j'' @ [CHR 0xC3, CHR 0xA0] @ ''. Chaque ensemble doit avoir son propre nom.''),
    (''backupIdSuggested'', ''Form'' @ [CHR 0xC3, CHR 0xA9] @ '' du nom de cet ordinateur et du nom de l'' @ [CHR 0x27] @ ''ensemble, pour que les ensembles de cet ordinateur restent group'' @ [CHR 0xC3, CHR 0xA9] @ ''s sur PBS. Saisissez le v'' @ [CHR 0xC3, CHR 0xB4] @ ''tre pour le remplacer.''),
    (''backupIdUseSuggested'', ''Utiliser {id}''),
    (''backupIdChangeNote'', ''(un nouvel ID cr'' @ [CHR 0xC3, CHR 0xA9] @ ''e un nouveau groupe sur PBS : sa premi'' @ [CHR 0xC3, CHR 0xA8] @ ''re sauvegarde incr'' @ [CHR 0xC3, CHR 0xA9] @ ''mentielle lit tous les fichiers, et les sauvegardes pr'' @ [CHR 0xC3, CHR 0xA9] @ ''c'' @ [CHR 0xC3, CHR 0xA9] @ ''dentes restent sous l'' @ [CHR 0x27] @ ''ancien ID)''),
    (''backupIdSharedWarn'', [CHR 0xC3, CHR 0x89] @ ''galement utilis'' @ [CHR 0xC3, CHR 0xA9] @ '' par {names} sur ce serveur. Les deux ensembles partagent alors un m'' @ [CHR 0xC3, CHR 0xAA] @ ''me groupe sur PBS : une sauvegarde incr'' @ [CHR 0xC3, CHR 0xA9] @ ''mentielle (m'' @ [CHR 0xC3, CHR 0xA9] @ ''tadonn'' @ [CHR 0xC3, CHR 0xA9] @ ''es) se compare '' @ [CHR 0xC3, CHR 0xA0] @ '' l'' @ [CHR 0x27] @ ''instantan'' @ [CHR 0xC3, CHR 0xA9] @ '' le plus r'' @ [CHR 0xC3, CHR 0xA9] @ ''cent de l'' @ [CHR 0x27] @ ''un ou l'' @ [CHR 0x27] @ ''autre et peut finir par relire tous les fichiers, et R'' @ [CHR 0xC3, CHR 0xA9] @ ''cup'' @ [CHR 0xC3, CHR 0xA9] @ ''ration et Retour arri'' @ [CHR 0xC3, CHR 0xA8] @ ''re listent les instantan'' @ [CHR 0xC3, CHR 0xA9] @ ''s des deux ensembles.''),
    (''backupIdSharedBadge'', ''ID partag'' @ [CHR 0xC3, CHR 0xA9]),
    (''backupIdSharedTip'', ''L'' @ [CHR 0x27] @ ''ID de sauvegarde {id} est aussi utilis'' @ [CHR 0xC3, CHR 0xA9] @ '' sur le m'' @ [CHR 0xC3, CHR 0xAA] @ ''me serveur par {names}. Modifiez l'' @ [CHR 0x27] @ ''ensemble pour lui donner son propre ID.''),
    (''setMoreMenu'', ''Plus''),
    (''computerServersButton'', ''Utiliser un serveur de cet ordinateur''),
    (''computerServersTip'', ''Ajouter un serveur PBS que cet ordinateur poss'' @ [CHR 0xC3, CHR 0xA8] @ ''de d'' @ [CHR 0xC3, CHR 0xA9] @ ''j'' @ [CHR 0xC3, CHR 0xA0] @ '', avec votre propre jeton d'' @ [CHR 0x27] @ ''API ou nom d'' @ [CHR 0x27] @ ''utilisateur et mot de passe : l'' @ [CHR 0x27] @ ''identifiant de l'' @ [CHR 0x27] @ ''ordinateur n'' @ [CHR 0x27] @ ''est pas partag'' @ [CHR 0xC3, CHR 0xA9] @ ''.''),
    (''computerServersLoading'', ''Lecture des serveurs de cet ordinateur'' @ [CHR 0xE2, CHR 0x80, CHR 0xA6]),
    (''computerServersNone'', ''Cet ordinateur n'' @ [CHR 0x27] @ ''a encore aucun serveur PBS.''),
    (''computerServersUnavailable'', ''Les serveurs de cet ordinateur ne peuvent pas '' @ [CHR 0xC3, CHR 0xAA] @ ''tre lus : le service d'' @ [CHR 0x27] @ ''arri'' @ [CHR 0xC3, CHR 0xA8] @ ''re-plan ne fonctionne pas.''),
    (''computerServersEncrypted'', ''chiffr'' @ [CHR 0xC3, CHR 0xA9] @ '' : choisissez votre propre cl'' @ [CHR 0xC3, CHR 0xA9]),
    (''setEnable'', ''Activer''),
    (''setDisable'', ''D'' @ [CHR 0xC3, CHR 0xA9] @ ''sactiver''),
    (''setDisabledBadge'', ''D'' @ [CHR 0xC3, CHR 0xA9] @ ''sactiv'' @ [CHR 0xC3, CHR 0xA9]),
    (''setEnabledBadge'', ''Activ'' @ [CHR 0xC3, CHR 0xA9]),
    (''setEnabledHint'', ''S'' @ [CHR 0x27] @ ''ex'' @ [CHR 0xC3, CHR 0xA9] @ ''cute selon sa planification.''),
    (''setDisabledHint'', ''Ne s'' @ [CHR 0x27] @ ''ex'' @ [CHR 0xC3, CHR 0xA9] @ ''cute pas selon sa planification tant que vous ne l'' @ [CHR 0x27] @ ''activez pas. Ex'' @ [CHR 0xC3, CHR 0xA9] @ ''cuter maintenant fonctionne toujours.''),
    (''setDisabledTip'', ''Cet ensemble ne s'' @ [CHR 0x27] @ ''ex'' @ [CHR 0xC3, CHR 0xA9] @ ''cute pas selon sa planification. Vous pouvez toujours le lancer maintenant. R'' @ [CHR 0xC3, CHR 0xA9] @ ''activez-le depuis Plus.''),
    (''nextRunDisabled'', ''d'' @ [CHR 0xC3, CHR 0xA9] @ ''sactiv'' @ [CHR 0xC3, CHR 0xA9]),
    (''statusSetEnabled'', ''Ensemble de sauvegarde activ'' @ [CHR 0xC3, CHR 0xA9]),
    (''statusSetDisabled'', ''Ensemble de sauvegarde d'' @ [CHR 0xC3, CHR 0xA9] @ ''sactiv'' @ [CHR 0xC3, CHR 0xA9]),
    (''nextRunAt'', ''Prochaine ex'' @ [CHR 0xC3, CHR 0xA9] @ ''cution''),
    (''nextRunDue'', ''maintenant''),
    (''scanPhaseSnapshots'', ''Recherche des instantan'' @ [CHR 0xC3, CHR 0xA9] @ ''s de l'' @ [CHR 0x27] @ ''ensemble...''),
    (''scanPhaseIndex'', ''Lecture de la liste des fichiers de l'' @ [CHR 0x27] @ ''instantan'' @ [CHR 0xC3, CHR 0xA9] @ '' {n} sur {total}''),
    (''scanPhaseWalk'', ''Lecture du dossier {folder}...''),
    (''scanPhaseCompare'', ''Comparaison...''),
    (''setPickerLabel'', ''Ensemble de sauvegarde''),
    (''setPickerChoose'', ''Choisissez un ensemble de sauvegarde de dossiers...''),
    (''setPickerNone'', ''Aucun ensemble de sauvegarde de dossiers pour l'' @ [CHR 0x27] @ ''instant. Cr'' @ [CHR 0xC3, CHR 0xA9] @ ''ez-en un sur la page Sauvegarde ; les ensembles machine se restaurent par restauration bare-metal.''),
    (''undeleteNodeCount'', ''{n} fichiers, {size}''),
    (''undeleteGoneBetween'', ''supprim'' @ [CHR 0xC3, CHR 0xA9] @ ''s entre {a} et {b}''),
    (''undeleteGoneSince'', ''supprim'' @ [CHR 0xC3, CHR 0xA9] @ ''s depuis {a}''),
    (''undeleteMovedTo'', ''probablement d'' @ [CHR 0xC3, CHR 0xA9] @ ''plac'' @ [CHR 0xC3, CHR 0xA9] @ ''s vers {path}''),
    (''undeleteConfirmOriginal'', ''Remettre {n} fichiers ({size}) '' @ [CHR 0xC3, CHR 0xA0] @ '' leur emplacement d'' @ [CHR 0x27] @ ''origine ? Les fichiers qui existent de nouveau '' @ [CHR 0xC3, CHR 0xA0] @ '' ces emplacements ne sont pas touch'' @ [CHR 0xC3, CHR 0xA9] @ ''s.''),
    (''undeleteConfirmOther'', ''Restaurer {n} fichiers ({size}) dans {path} ?''),
    (''undeleteTitle'', ''R'' @ [CHR 0xC3, CHR 0xA9] @ ''cup'' @ [CHR 0xC3, CHR 0xA9] @ ''ration''),
    (''undeleteIntro'', ''Trouve les fichiers pr'' @ [CHR 0xC3, CHR 0xA9] @ ''sents dans les sauvegardes d'' @ [CHR 0x27] @ ''un ensemble de sauvegarde mais qui ne sont plus sur le disque, et les remet en place. Seules les listes des dossiers sont lues ; aucun fichier n'' @ [CHR 0x27] @ ''est ouvert.''),
    (''undeleteLookBack'', ''P'' @ [CHR 0xC3, CHR 0xA9] @ ''riode''),
    (''undeleteLatest'', ''Derni'' @ [CHR 0xC3, CHR 0xA8] @ ''re sauvegarde''),
    (''undeleteDays7'', ''7 derniers jours''),
    (''undeleteDays30'', ''30 derniers jours''),
    (''undeleteFind'', ''Rechercher les fichiers supprim'' @ [CHR 0xC3, CHR 0xA9] @ ''s''),
    (''undeleteScanning'', ''Recherche des fichiers supprim'' @ [CHR 0xC3, CHR 0xA9] @ ''s...''),
    (''undeleteSlowHint'', ''Un ensemble volumineux prend quelques minutes : chaque dossier est list'' @ [CHR 0xC3, CHR 0xA9] @ '', et la liste des fichiers de chaque instantan'' @ [CHR 0xC3, CHR 0xA9] @ '' est lue une seule fois puis conserv'' @ [CHR 0xC3, CHR 0xA9] @ ''e sur cet ordinateur.''),
    (''undeleteNone'', ''Rien ne manque : tous les fichiers des sauvegardes examin'' @ [CHR 0xC3, CHR 0xA9] @ ''es sont sur le disque.''),
    (''undeleteFound'', ''{n} fichiers ({size}) sont dans les sauvegardes mais pas sur le disque.''),
    (''undeleteChecked1'', ''Sauvegarde du {a} examin'' @ [CHR 0xC3, CHR 0xA9] @ ''e.''),
    (''undeleteCheckedN'', ''{n} sauvegardes examin'' @ [CHR 0xC3, CHR 0xA9] @ ''es, du {a} au {b}.''),
    (''undeleteStale'', ''Ces r'' @ [CHR 0xC3, CHR 0xA9] @ ''sultats datent d'' @ [CHR 0x27] @ ''avant la derni'' @ [CHR 0xC3, CHR 0xA8] @ ''re r'' @ [CHR 0xC3, CHR 0xA9] @ ''cup'' @ [CHR 0xC3, CHR 0xA9] @ ''ration. Relancez la recherche des fichiers supprim'' @ [CHR 0xC3, CHR 0xA9] @ ''s pour les actualiser.''),
    (''undeleteUnknown'', ''{n} fichiers se trouvent dans des dossiers illisibles pour le moment ; ils ne sont donc pas list'' @ [CHR 0xC3, CHR 0xA9] @ ''s :''),
    (''undeleteFilter'', ''Filtrer par nom ou dossier''),
    (''selectAllShown'', ''S'' @ [CHR 0xC3, CHR 0xA9] @ ''lectionner les '' @ [CHR 0xC3, CHR 0xA9] @ ''l'' @ [CHR 0xC3, CHR 0xA9] @ ''ments affich'' @ [CHR 0xC3, CHR 0xA9] @ ''s''),
    (''selectNoneShown'', ''D'' @ [CHR 0xC3, CHR 0xA9] @ ''s'' @ [CHR 0xC3, CHR 0xA9] @ ''lectionner les '' @ [CHR 0xC3, CHR 0xA9] @ ''l'' @ [CHR 0xC3, CHR 0xA9] @ ''ments affich'' @ [CHR 0xC3, CHR 0xA9] @ ''s''),
    (''undeleteRestoreTo'', ''Restaurer vers''),
    (''undeleteToOriginal'', ''Emplacement d'' @ [CHR 0x27] @ ''origine''),
    (''undeleteToOther'', ''Un autre dossier''),
    (''undeleteDestFolder'', ''Dossier de destination''),
    (''verifyAfterRestore'', ''V'' @ [CHR 0xC3, CHR 0xA9] @ ''rifier apr'' @ [CHR 0xC3, CHR 0xA8] @ ''s la restauration''),
    (''undeleteStart'', ''R'' @ [CHR 0xC3, CHR 0xA9] @ ''cup'' @ [CHR 0xC3, CHR 0xA9] @ ''rer {n} fichiers ({size})''),
    (''rollbackNowSize'', ''actuellement {size}''),
    (''rollbackMore'', ''... et {n} de plus''),
    (''rollbackNoneBefore'', ''Aucune sauvegarde '' @ [CHR 0xC3, CHR 0xA0] @ '' cette date ou avant.''),
    (''rollbackConfirm'', ''Retour arri'' @ [CHR 0xC3, CHR 0xA8] @ ''re de {set} '' @ [CHR 0xC3, CHR 0xA0] @ '' l'' @ [CHR 0x27, CHR 0xC3, CHR 0xA9] @ ''tat du {when} ? {restore} fichiers seront restaur'' @ [CHR 0xC3, CHR 0xA9] @ ''s ou remplac'' @ [CHR 0xC3, CHR 0xA9] @ ''s et {remove} supprim'' @ [CHR 0xC3, CHR 0xA9] @ ''s. Tout ce qui est remplac'' @ [CHR 0xC3, CHR 0xA9] @ '' ou supprim'' @ [CHR 0xC3, CHR 0xA9] @ '' est d'' @ [CHR 0x27] @ ''abord conserv'' @ [CHR 0xC3, CHR 0xA9] @ '', afin que '' @ [CHR 0xC2, CHR 0xAB] @ '' D'' @ [CHR 0xC3, CHR 0xA9] @ ''faire '' @ [CHR 0xC2, CHR 0xBB] @ '' puisse le remettre en place.''),
    (''rollbackUndoConfirm'', ''D'' @ [CHR 0xC3, CHR 0xA9] @ ''faire ce retour arri'' @ [CHR 0xC3, CHR 0xA8] @ ''re ? Les fichiers qu'' @ [CHR 0x27] @ ''il a restaur'' @ [CHR 0xC3, CHR 0xA9] @ ''s sont supprim'' @ [CHR 0xC3, CHR 0xA9] @ ''s et les versions qu'' @ [CHR 0x27] @ ''il a conserv'' @ [CHR 0xC3, CHR 0xA9] @ ''es sont remises en place.''),
    (''rollbackDeleteConfirm'', ''Supprimer les versions conserv'' @ [CHR 0xC3, CHR 0xA9] @ ''es par ce retour arri'' @ [CHR 0xC3, CHR 0xA8] @ ''re ({size}) ? Il ne pourra plus '' @ [CHR 0xC3, CHR 0xAA] @ ''tre annul'' @ [CHR 0xC3, CHR 0xA9] @ ''.''),
    (''rollbackPolicyReplaceShort'', ''manquants et modifi'' @ [CHR 0xC3, CHR 0xA9] @ ''s''),
    (''rollbackPolicyMissingShort'', ''manquants uniquement''),
    (''rollbackPolicyExactShort'', ''exact''),
    (''rollbackTitle'', ''Retour arri'' @ [CHR 0xC3, CHR 0xA8] @ ''re''),
    (''rollbackIntro'', ''Remet les dossiers d'' @ [CHR 0x27] @ ''un ensemble de sauvegarde dans l'' @ [CHR 0x27, CHR 0xC3, CHR 0xA9] @ ''tat d'' @ [CHR 0x27] @ ''une sauvegarde choisie. Vous voyez d'' @ [CHR 0x27] @ ''abord ce qui changerait, et tout ce qui est remplac'' @ [CHR 0xC3, CHR 0xA9] @ '' ou supprim'' @ [CHR 0xC3, CHR 0xA9] @ '' est conserv'' @ [CHR 0xC3, CHR 0xA9] @ '' pour que le retour arri'' @ [CHR 0xC3, CHR 0xA8] @ ''re puisse '' @ [CHR 0xC3, CHR 0xAA] @ ''tre annul'' @ [CHR 0xC3, CHR 0xA9] @ ''.''),
    (''rollbackListing'', ''Liste des sauvegardes de l'' @ [CHR 0x27] @ ''ensemble...''),
    (''rollbackPickBackup'', ''Revenir '' @ [CHR 0xC3, CHR 0xA0]),
    (''rollbackNoBackups'', ''Cet ensemble n'' @ [CHR 0x27] @ ''a encore aucune sauvegarde sur son serveur.''),
    (''rollbackAtTime'', ''La sauvegarde '' @ [CHR 0xC3, CHR 0xA0] @ '' cette date ou avant :''),
    (''rollbackNewest'', ''la plus r'' @ [CHR 0xC3, CHR 0xA9] @ ''cente''),
    (''rollbackPreview'', ''Afficher ce qui changerait''),
    (''rollbackComparing'', ''Comparaison de la sauvegarde avec les dossiers...''),
    (''rollbackPreviewTitle'', ''Comparaison avec la sauvegarde du {when}''),
    (''rollbackMissing'', ''Manquants actuellement''),
    (''rollbackFilesSize'', ''{n} fichiers, {size}''),
    (''rollbackMissingHint'', ''Dans la sauvegarde, absents du disque : restaur'' @ [CHR 0xC3, CHR 0xA9] @ ''s''),
    (''rollbackChanged'', ''Modifi'' @ [CHR 0xC3, CHR 0xA9] @ ''s depuis''),
    (''rollbackChangedHint'', ''Taille ou date diff'' @ [CHR 0xC3, CHR 0xA9] @ ''rente : remplac'' @ [CHR 0xC3, CHR 0xA9] @ ''s par la version de la sauvegarde''),
    (''rollbackAdded'', ''Ajout'' @ [CHR 0xC3, CHR 0xA9] @ ''s depuis''),
    (''rollbackPlusFolders'', '', {n} dossiers''),
    (''rollbackAddedHint'', ''Absents de la sauvegarde : conserv'' @ [CHR 0xC3, CHR 0xA9] @ ''s, sauf si vous choisissez exact''),
    (''rollbackUnchanged'', ''Inchang'' @ [CHR 0xC3, CHR 0xA9] @ ''s''),
    (''rollbackFiles'', ''{n} fichiers''),
    (''rollbackUnchangedHint'', ''Laiss'' @ [CHR 0xC3, CHR 0xA9] @ ''s tels quels''),
    (''rollbackUnknown'', ''{n} fichiers se trouvent dans des dossiers illisibles pour le moment ; ils ne sont pas touch'' @ [CHR 0xC3, CHR 0xA9] @ ''s.''),
    (''rollbackShowMissing'', ''Fichiers manquants''),
    (''rollbackShowChanged'', ''Fichiers modifi'' @ [CHR 0xC3, CHR 0xA9] @ ''s''),
    (''rollbackShowAdded'', ''Fichiers ajout'' @ [CHR 0xC3, CHR 0xA9] @ ''s depuis''),
    (''rollbackWhat'', ''Action''),
    (''rollbackPolicyReplace'', ''Restaurer les fichiers manquants et remplacer les fichiers modifi'' @ [CHR 0xC3, CHR 0xA9] @ ''s ; conserver les fichiers ajout'' @ [CHR 0xC3, CHR 0xA9] @ ''s depuis''),
    (''rollbackPolicyMissing'', ''Restaurer uniquement les fichiers manquants''),
    (''rollbackPolicyExact'', ''Retour arri'' @ [CHR 0xC3, CHR 0xA8] @ ''re exact : supprimer aussi les fichiers ajout'' @ [CHR 0xC3, CHR 0xA9] @ ''s depuis''),
    (''rollbackTypeCount'', ''Saisissez {n} pour confirmer que les {n} fichiers ajout'' @ [CHR 0xC3, CHR 0xA9] @ ''s depuis seront supprim'' @ [CHR 0xC3, CHR 0xA9] @ ''s (conserv'' @ [CHR 0xC3, CHR 0xA9] @ ''s pour '' @ [CHR 0xC2, CHR 0xAB] @ '' D'' @ [CHR 0xC3, CHR 0xA9] @ ''faire '' @ [CHR 0xC2, CHR 0xBB] @ '')''),
    (''rollbackBackupFirst'', ''Sauvegarder d'' @ [CHR 0x27] @ ''abord l'' @ [CHR 0x27] @ ''ensemble (conserve aussi l'' @ [CHR 0x27, CHR 0xC3, CHR 0xA9] @ ''tat actuel sous forme de sauvegarde)''),
    (''rollbackSafetyNote'', ''Avant d'' @ [CHR 0x27, CHR 0xC3, CHR 0xAA] @ ''tre remplac'' @ [CHR 0xC3, CHR 0xA9] @ '' ou supprim'' @ [CHR 0xC3, CHR 0xA9] @ '', chaque '' @ [CHR 0xC3, CHR 0xA9] @ ''l'' @ [CHR 0xC3, CHR 0xA9] @ ''ment est d'' @ [CHR 0xC3, CHR 0xA9] @ ''plac'' @ [CHR 0xC3, CHR 0xA9] @ '' vers {folder} sur le m'' @ [CHR 0xC3, CHR 0xAA] @ ''me disque, afin que '' @ [CHR 0xC2, CHR 0xAB] @ '' D'' @ [CHR 0xC3, CHR 0xA9] @ ''faire '' @ [CHR 0xC2, CHR 0xBB] @ '' ci-dessous puisse le remettre en place. Pendant le retour arri'' @ [CHR 0xC3, CHR 0xA8] @ ''re, les sauvegardes planifi'' @ [CHR 0xC3, CHR 0xA9] @ ''es de cet ensemble attendent.''),
    (''rollbackNothing'', ''Aucun retour arri'' @ [CHR 0xC3, CHR 0xA8] @ ''re n'' @ [CHR 0xC3, CHR 0xA9] @ ''cessaire''),
    (''rollbackStart'', ''Retour arri'' @ [CHR 0xC3, CHR 0xA8] @ ''re '' @ [CHR 0xC3, CHR 0xA0] @ '' l'' @ [CHR 0x27, CHR 0xC3, CHR 0xA9] @ ''tat du {when}''),
    (''rollbackEarlier'', ''Retours arri'' @ [CHR 0xC3, CHR 0xA8] @ ''re pr'' @ [CHR 0xC3, CHR 0xA9] @ ''c'' @ [CHR 0xC3, CHR 0xA9] @ ''dents de cet ensemble''),
    (''rollbackRecordTo'', ''vers la sauvegarde du {when}''),
    (''rollbackRecordCounts'', ''{a} restaur'' @ [CHR 0xC3, CHR 0xA9] @ ''s, {b} remplac'' @ [CHR 0xC3, CHR 0xA9] @ ''s, {c} supprim'' @ [CHR 0xC3, CHR 0xA9] @ ''s ; {size} conserv'' @ [CHR 0xC3, CHR 0xA9] @ ''s''),
    (''rollbackUndo'', ''D'' @ [CHR 0xC3, CHR 0xA9] @ ''faire''),
    (''rollbackDeleteKept'', ''Supprimer les versions conserv'' @ [CHR 0xC3, CHR 0xA9] @ ''es''),
    (''serviceRunning'', ''en cours d'' @ [CHR 0x27] @ ''ex'' @ [CHR 0xC3, CHR 0xA9] @ ''cution''),
    (''serviceStopped'', ''arr'' @ [CHR 0xC3, CHR 0xAA] @ ''t'' @ [CHR 0xC3, CHR 0xA9]),
    (''serviceStarting'', ''d'' @ [CHR 0xC3, CHR 0xA9] @ ''marrage'')]"

lemma fr_texts_7_holes: "scan_texts fr_texts_7 = Some
   [(''scanPhaseWalkCount'', [''folder'', ''n'', ''total'']),
    (''scanPhaseWalkSoFar'', [''folder'', ''n'']),
    (''jobNameNotUnique'', [''name'']),
    (''backupIdUseSuggested'', [''id'']),
    (''backupIdSharedWarn'', [''names'']),
    (''backupIdSharedTip'', [''id'', ''names'']),
    (''scanPhaseIndex'', [''n'', ''total'']),
    (''scanPhaseWalk'', [''folder'']),
    (''undeleteNodeCount'', [''n'', ''size'']),
    (''undeleteGoneBetween'', [''a'', ''b'']),
    (''undeleteGoneSince'', [''a'']),
    (''undeleteMovedTo'', [''path'']),
    (''undeleteConfirmOriginal'', [''n'', ''size'']),
    (''undeleteConfirmOther'', [''n'', ''size'', ''path'']),
    (''undeleteFound'', [''n'', ''size'']),
    (''undeleteChecked1'', [''a'']),
    (''undeleteCheckedN'', [''n'', ''a'', ''b'']),
    (''undeleteUnknown'', [''n'']),
    (''undeleteStart'', [''n'', ''size'']),
    (''rollbackNowSize'', [''size'']),
    (''rollbackMore'', [''n'']),
    (''rollbackConfirm'', [''set'', ''when'', ''restore'', ''remove'']),
    (''rollbackDeleteConfirm'', [''size'']),
    (''rollbackPreviewTitle'', [''when'']),
    (''rollbackFilesSize'', [''n'', ''size'']),
    (''rollbackPlusFolders'', [''n'']),
    (''rollbackFiles'', [''n'']),
    (''rollbackUnknown'', [''n'']),
    (''rollbackTypeCount'', [''n'', ''n'']),
    (''rollbackSafetyNote'', [''folder'']),
    (''rollbackStart'', [''when'']),
    (''rollbackRecordTo'', [''when'']),
    (''rollbackRecordCounts'', [''a'', ''b'', ''c'', ''size''])]"
  by code_simp

lemma fr_texts_7_keys: "map fst fr_texts_7 =
   [''dlgServiceRemoveTitle'', ''dlgKeyCreateTitle'', ''dlgKeyCreateBtn'', ''dlgKeyCreatedTitle'', ''dlgKeyFailedTitle'', ''scanPhaseWalkCount'', 
    ''scanPhaseWalkSoFar'', ''jobNameNotUnique'', ''backupIdSuggested'', ''backupIdUseSuggested'', ''backupIdChangeNote'', ''backupIdSharedWarn'', 
    ''backupIdSharedBadge'', ''backupIdSharedTip'', ''setMoreMenu'', ''computerServersButton'', ''computerServersTip'', ''computerServersLoading'', 
    ''computerServersNone'', ''computerServersUnavailable'', ''computerServersEncrypted'', ''setEnable'', ''setDisable'', ''setDisabledBadge'', 
    ''setEnabledBadge'', ''setEnabledHint'', ''setDisabledHint'', ''setDisabledTip'', ''nextRunDisabled'', ''statusSetEnabled'', 
    ''statusSetDisabled'', ''nextRunAt'', ''nextRunDue'', ''scanPhaseSnapshots'', ''scanPhaseIndex'', ''scanPhaseWalk'', 
    ''scanPhaseCompare'', ''setPickerLabel'', ''setPickerChoose'', ''setPickerNone'', ''undeleteNodeCount'', ''undeleteGoneBetween'', 
    ''undeleteGoneSince'', ''undeleteMovedTo'', ''undeleteConfirmOriginal'', ''undeleteConfirmOther'', ''undeleteTitle'', ''undeleteIntro'', 
    ''undeleteLookBack'', ''undeleteLatest'', ''undeleteDays7'', ''undeleteDays30'', ''undeleteFind'', ''undeleteScanning'', 
    ''undeleteSlowHint'', ''undeleteNone'', ''undeleteFound'', ''undeleteChecked1'', ''undeleteCheckedN'', ''undeleteStale'', 
    ''undeleteUnknown'', ''undeleteFilter'', ''selectAllShown'', ''selectNoneShown'', ''undeleteRestoreTo'', ''undeleteToOriginal'', 
    ''undeleteToOther'', ''undeleteDestFolder'', ''verifyAfterRestore'', ''undeleteStart'', ''rollbackNowSize'', ''rollbackMore'', 
    ''rollbackNoneBefore'', ''rollbackConfirm'', ''rollbackUndoConfirm'', ''rollbackDeleteConfirm'', ''rollbackPolicyReplaceShort'', ''rollbackPolicyMissingShort'', 
    ''rollbackPolicyExactShort'', ''rollbackTitle'', ''rollbackIntro'', ''rollbackListing'', ''rollbackPickBackup'', ''rollbackNoBackups'', 
    ''rollbackAtTime'', ''rollbackNewest'', ''rollbackPreview'', ''rollbackComparing'', ''rollbackPreviewTitle'', ''rollbackMissing'', 
    ''rollbackFilesSize'', ''rollbackMissingHint'', ''rollbackChanged'', ''rollbackChangedHint'', ''rollbackAdded'', ''rollbackPlusFolders'', 
    ''rollbackAddedHint'', ''rollbackUnchanged'', ''rollbackFiles'', ''rollbackUnchangedHint'', ''rollbackUnknown'', ''rollbackShowMissing'', 
    ''rollbackShowChanged'', ''rollbackShowAdded'', ''rollbackWhat'', ''rollbackPolicyReplace'', ''rollbackPolicyMissing'', ''rollbackPolicyExact'', 
    ''rollbackTypeCount'', ''rollbackBackupFirst'', ''rollbackSafetyNote'', ''rollbackNothing'', ''rollbackStart'', ''rollbackEarlier'', 
    ''rollbackRecordTo'', ''rollbackRecordCounts'', ''rollbackUndo'', ''rollbackDeleteKept'', ''serviceRunning'', ''serviceStopped'', 
    ''serviceStarting'']"
  unfolding fr_texts_7_def by (simp only: list.map fst_conv)

definition fr_texts_8 :: "(string \<times> string) list" where
  "fr_texts_8 = [
    (''serviceStopping'', ''arr'' @ [CHR 0xC3, CHR 0xAA] @ ''t en cours''),
    (''servicePaused'', ''en pause''),
    (''serviceTitle'', ''Ex'' @ [CHR 0xC3, CHR 0xA9] @ ''cuter en tant que service''),
    (''serviceLinux'', ''Le service d'' @ [CHR 0x27] @ ''arri'' @ [CHR 0xC3, CHR 0xA8] @ ''re-plan n'' @ [CHR 0xC3, CHR 0xA9] @ ''cessite Windows, ou Linux avec systemd. Sur cet ordinateur, les ensembles de sauvegarde planifi'' @ [CHR 0xC3, CHR 0xA9] @ ''s s'' @ [CHR 0x27] @ ''ex'' @ [CHR 0xC3, CHR 0xA9] @ ''cutent tant que cette application est ouverte.''),
    (''serviceIntro'', ''Avec le service install'' @ [CHR 0xC3, CHR 0xA9] @ '', les ensembles de sauvegarde planifi'' @ [CHR 0xC3, CHR 0xA9] @ ''s s'' @ [CHR 0x27] @ ''ex'' @ [CHR 0xC3, CHR 0xA9] @ ''cutent en arri'' @ [CHR 0xC3, CHR 0xA8] @ ''re-plan en tant que Local System, m'' @ [CHR 0xC3, CHR 0xAA] @ ''me si personne n'' @ [CHR 0x27] @ ''est connect'' @ [CHR 0xC3, CHR 0xA9] @ '' et que cette application est ferm'' @ [CHR 0xC3, CHR 0xA9] @ ''e. Sans lui, ils ne s'' @ [CHR 0x27] @ ''ex'' @ [CHR 0xC3, CHR 0xA9] @ ''cutent que lorsque cette application est ouverte.''),
    (''serviceIntroLinux'', ''Avec le service install'' @ [CHR 0xC3, CHR 0xA9] @ '', les ensembles de sauvegarde planifi'' @ [CHR 0xC3, CHR 0xA9] @ ''s s'' @ [CHR 0x27] @ ''ex'' @ [CHR 0xC3, CHR 0xA9] @ ''cutent en arri'' @ [CHR 0xC3, CHR 0xA8] @ ''re-plan en tant que root, m'' @ [CHR 0xC3, CHR 0xAA] @ ''me lorsque personne n'' @ [CHR 0x27] @ ''est connect'' @ [CHR 0xC3, CHR 0xA9] @ '' et que cette application est ferm'' @ [CHR 0xC3, CHR 0xA9] @ ''e. Sans lui, ils ne s'' @ [CHR 0x27] @ ''ex'' @ [CHR 0xC3, CHR 0xA9] @ ''cutent que lorsque cette application est ouverte.''),
    (''serviceLinuxSettings'', ''L'' @ [CHR 0x27] @ ''installation copie vos jeux de sauvegarde et vos param'' @ [CHR 0xC3, CHR 0xA8] @ ''tres dans {dir}, o'' @ [CHR 0xC3, CHR 0xB9] @ '' le service les conserve ; seul root peut ouvrir ce dossier. Cette application les g'' @ [CHR 0xC3, CHR 0xA8] @ ''re ensuite par le service : la connexion demande le mot de passe d'' @ [CHR 0x27] @ ''un administrateur. Votre propre copie reste telle quelle.''),
    (''serviceNoExeLinux'', ''{file} est introuvable. Il est fourni avec les paquets .deb et .rpm.''),
    (''serviceStart_automatic'', ''d'' @ [CHR 0xC3, CHR 0xA9] @ ''marre avec Windows''),
    (''serviceStart_boot'', ''d'' @ [CHR 0xC3, CHR 0xA9] @ ''marre avec l'' @ [CHR 0x27] @ ''ordinateur''),
    (''serviceStatusLabel'', [CHR 0xC3, CHR 0x89] @ ''tat :''),
    (''serviceInstalled'', ''Install'' @ [CHR 0xC3, CHR 0xA9]),
    (''serviceNotInstalled'', ''Non install'' @ [CHR 0xC3, CHR 0xA9]),
    (''serviceInUse'', ''Cette application confie les sauvegardes et les planifications au service.''),
    (''serviceNotInUse'', ''Cette application ex'' @ [CHR 0xC3, CHR 0xA9] @ ''cute elle-m'' @ [CHR 0xC3, CHR 0xAA] @ ''me les planifications.''),
    (''serviceOtherExe'', ''Le service install'' @ [CHR 0xC3, CHR 0xA9] @ '' ex'' @ [CHR 0xC3, CHR 0xA9] @ ''cute {path}, et non la copie situ'' @ [CHR 0xC3, CHR 0xA9] @ ''e '' @ [CHR 0xC3, CHR 0xA0] @ '' c'' @ [CHR 0xC3, CHR 0xB4] @ ''t'' @ [CHR 0xC3, CHR 0xA9] @ '' de cette application.''),
    (''serviceNoExe'', ''{file} ne se trouve pas dans le dossier de cette application. Il est fourni dans le t'' @ [CHR 0xC3, CHR 0xA9] @ ''l'' @ [CHR 0xC3, CHR 0xA9] @ ''chargement ; placez-le '' @ [CHR 0xC3, CHR 0xA0] @ '' c'' @ [CHR 0xC3, CHR 0xB4] @ ''t'' @ [CHR 0xC3, CHR 0xA9] @ '' de l'' @ [CHR 0x27] @ ''application pour installer le service.''),
    (''serviceNeedsAdmin'', ''L'' @ [CHR 0x27] @ ''installation, le d'' @ [CHR 0xC3, CHR 0xA9] @ ''marrage, l'' @ [CHR 0x27] @ ''arr'' @ [CHR 0xC3, CHR 0xAA] @ ''t et la suppression du service n'' @ [CHR 0xC3, CHR 0xA9] @ ''cessitent un administrateur.''),
    (''serviceInstall'', ''Installer et d'' @ [CHR 0xC3, CHR 0xA9] @ ''marrer''),
    (''serviceStart'', ''D'' @ [CHR 0xC3, CHR 0xA9] @ ''marrer''),
    (''serviceStop'', ''Arr'' @ [CHR 0xC3, CHR 0xAA] @ ''ter''),
    (''serviceRemoveConfirm'', ''Arr'' @ [CHR 0xC3, CHR 0xAA] @ ''ter et supprimer le service d'' @ [CHR 0x27] @ ''arri'' @ [CHR 0xC3, CHR 0xA8] @ ''re-plan ? Les ensembles de sauvegarde, l'' @ [CHR 0x27] @ ''historique et les param'' @ [CHR 0xC3, CHR 0xA8] @ ''tres sont conserv'' @ [CHR 0xC3, CHR 0xA9] @ ''s ; cette application ex'' @ [CHR 0xC3, CHR 0xA9] @ ''cute de nouveau les planifications tant qu'' @ [CHR 0x27] @ ''elle est ouverte.''),
    (''serviceRemove'', ''Supprimer''),
    (''machineVmIdInvalid'', ''Saisissez un ID de VM compris entre 1 et 999999.''),
    (''backupIdHostOneOff'', ''Cet ordinateur (sauvegardes ponctuelles)''),
    (''pbsSlowHint'', ''PBS tarde '' @ [CHR 0xC3, CHR 0xA0] @ '' r'' @ [CHR 0xC3, CHR 0xA9] @ ''pondre (une v'' @ [CHR 0xC3, CHR 0xA9] @ ''rification, un nettoyage (garbage collection) ou une sauvegarde est peut-'' @ [CHR 0xC3, CHR 0xAA] @ ''tre en cours).''),
    (''openingFolder'', ''Ouverture du dossier...''),
    (''calculating'', ''Calcul en cours...''),
    (''restoreStageBackupFirst'', ''Sauvegarde de l'' @ [CHR 0x27] @ ''ensemble avant le retour arri'' @ [CHR 0xC3, CHR 0xA8] @ ''re...''),
    (''restoreStageBackupFirstPct'', ''Sauvegarde de l'' @ [CHR 0x27] @ ''ensemble avant le retour arri'' @ [CHR 0xC3, CHR 0xA8] @ ''re : {pct} % (le retour arri'' @ [CHR 0xC3, CHR 0xA8] @ ''re commence ensuite)''),
    (''restoreStageComparing'', ''Comparaison de la sauvegarde avec les dossiers...''),
    (''restoreStageSafety'', ''Mise '' @ [CHR 0xC3, CHR 0xA0] @ '' l'' @ [CHR 0x27, CHR 0xC3, CHR 0xA9] @ ''cart des fichiers '' @ [CHR 0xC3, CHR 0xA0] @ '' remplacer ou supprimer (conserv'' @ [CHR 0xC3, CHR 0xA9] @ ''s pour '' @ [CHR 0xC2, CHR 0xAB] @ '' D'' @ [CHR 0xC3, CHR 0xA9] @ ''faire '' @ [CHR 0xC2, CHR 0xBB] @ '')...''),
    (''stageStarting'', ''D'' @ [CHR 0xC3, CHR 0xA9] @ ''marrage...''),
    (''finishingShort'', ''Finalisation...''),
    (''startedLabel'', ''D'' @ [CHR 0xC3, CHR 0xA9] @ ''marr'' @ [CHR 0xC3, CHR 0xA9] @ '' :''),
    (''forecastFinishLabel'', ''Fin pr'' @ [CHR 0xC3, CHR 0xA9] @ ''vue :''),
    (''averageSuffix'', ''(moyenne)''),
    (''downloadedLabel'', ''T'' @ [CHR 0xC3, CHR 0xA9] @ ''l'' @ [CHR 0xC3, CHR 0xA9] @ ''charg'' @ [CHR 0xC3, CHR 0xA9] @ '' :''),
    (''currentFileLabel'', ''Fichier en cours :''),
    (''waiting'', ''En attente...''),
    (''navUndelete'', ''R'' @ [CHR 0xC3, CHR 0xA9] @ ''cup'' @ [CHR 0xC3, CHR 0xA9] @ ''ration''),
    (''navRollback'', ''Retour arri'' @ [CHR 0xC3, CHR 0xA8] @ ''re''),
    (''notAvailable'', ''Non disponible''),
    (''stageStopping'', ''Arr'' @ [CHR 0xC3, CHR 0xAA] @ ''t en cours...''),
    (''stageFinishing'', ''Finalisation : fermeture du catalogue et envoi du manifeste...''),
    (''readReasonFullRead'', ''Relecture compl'' @ [CHR 0xC3, CHR 0xA8] @ ''te planifi'' @ [CHR 0xC3, CHR 0xA9] @ ''e : lecture de tous les fichiers''),
    (''readReasonNoPrevious'', ''Aucun instantan'' @ [CHR 0xC3, CHR 0xA9] @ '' pr'' @ [CHR 0xC3, CHR 0xA9] @ ''c'' @ [CHR 0xC3, CHR 0xA9] @ ''dent pour la comparaison : lecture de tous les fichiers''),
    (''readReasonData'', ''Lecture de tous les fichiers (d'' @ [CHR 0xC3, CHR 0xA9] @ ''tection des changements : Donn'' @ [CHR 0xC3, CHR 0xA9] @ ''es)''),
    (''stageMetadata'', ''D'' @ [CHR 0xC3, CHR 0xA9] @ ''tection des changements : les fichiers inchang'' @ [CHR 0xC3, CHR 0xA9] @ ''s sont repris sans lecture''),
    (''stageReading'', ''Lecture et envoi des fichiers''),
    (''filesPerSecond'', ''fichiers/s''),
    (''scanning'', ''Analyse''),
    (''processedLabel'', ''Trait'' @ [CHR 0xC3, CHR 0xA9] @ ''s :''),
    (''processedNew'', ''Nouveaux''),
    (''processedReused'', ''R'' @ [CHR 0xC3, CHR 0xA9] @ ''utilis'' @ [CHR 0xC3, CHR 0xA9] @ ''s''),
    (''chunksWord'', ''blocs''),
    (''filesLabel'', ''Fichiers :''),
    (''processingLabel'', ''Traitement :''),
    (''uploadLabel'', ''Envoi :''),
    (''nextRunFullRead'', ''Prochaine ex'' @ [CHR 0xC3, CHR 0xA9] @ ''cution : relecture compl'' @ [CHR 0xC3, CHR 0xA8] @ ''te (lit tous les fichiers)''),
    (''nextFullReadIn'', ''Prochaine relecture compl'' @ [CHR 0xC3, CHR 0xA8] @ ''te dans {n} ex'' @ [CHR 0xC3, CHR 0xA9] @ ''cutions''),
    (''undeleteShortcutHint'', ''Trouver les fichiers de cet ensemble pr'' @ [CHR 0xC3, CHR 0xA9] @ ''sents dans ses sauvegardes mais absents du disque''),
    (''undeleteShortcut'', ''R'' @ [CHR 0xC3, CHR 0xA9] @ ''cup'' @ [CHR 0xC3, CHR 0xA9] @ ''rer les fichiers supprim'' @ [CHR 0xC3, CHR 0xA9] @ ''s...''),
    (''rollbackShortcutHint'', ''Remettre les dossiers de cet ensemble dans l'' @ [CHR 0x27, CHR 0xC3, CHR 0xA9] @ ''tat d'' @ [CHR 0x27] @ ''une sauvegarde''),
    (''rollbackShortcut'', ''Revenir '' @ [CHR 0xC3, CHR 0xA0] @ '' l'' @ [CHR 0x27] @ ''instantan'' @ [CHR 0xC3, CHR 0xA9] @ '' choisi...''),
    (''machineBackupAsLabel'', ''Sauvegarder en tant que''),
    (''machineBackupAsHost'', ''Sauvegarde h'' @ [CHR 0xC3, CHR 0xB4] @ ''te (par d'' @ [CHR 0xC3, CHR 0xA9] @ ''faut)''),
    (''machineBackupAsVm'', ''Machine virtuelle Proxmox VE''),
    (''machineVmIdPlaceholder'', ''ID de VM, ex. 107''),
    (''machineVmIdStyleRange'', ''Plage r'' @ [CHR 0xC3, CHR 0xA9] @ ''serv'' @ [CHR 0xC3, CHR 0xA9] @ ''e (9000000 + ID)''),
    (''machineVmIdStyleZeros'', ''Z'' @ [CHR 0xC3, CHR 0xA9] @ ''ros en t'' @ [CHR 0xC3, CHR 0xAA] @ ''te (000 + ID)''),
    (''machineVmIdResult'', ''ID de sauvegarde dans PBS :''),
    (''machineVmWarning'', ''L'' @ [CHR 0x27] @ ''instantan'' @ [CHR 0xC3, CHR 0xA9] @ '' est stock'' @ [CHR 0xC3, CHR 0xA9] @ '' sous vm/<ID> pour que Proxmox VE puisse le lister. Une vraie sauvegarde de VM avec le m'' @ [CHR 0xC3, CHR 0xAA] @ ''me ID partagerait cet espace de noms ; l'' @ [CHR 0x27] @ ''ID est donc d'' @ [CHR 0xC3, CHR 0xA9] @ ''cal'' @ [CHR 0xC3, CHR 0xA9] @ '' pour ne pas chevaucher les v'' @ [CHR 0xC3, CHR 0xB4] @ ''tres. Restaurez-le depuis Proxmox VE (choisissez un stockage cible) ou avec la restauration bare-metal Clonezilla. La VM g'' @ [CHR 0xC3, CHR 0xA9] @ ''n'' @ [CHR 0xC3, CHR 0xA9] @ ''r'' @ [CHR 0xC3, CHR 0xA9] @ ''e est minimale : disque SATA, OVMF pour les disques GPT, sans carte r'' @ [CHR 0xC3, CHR 0xA9] @ ''seau, TPM ni pilotes.''),
    (''restoreSupportsTitle'', ''La restauration prend en charge :''),
    (''backupIdPick'', ''Choisir un ID de sauvegarde parmi vos ensembles de sauvegarde''),
    (''backupIdClear'', ''Effacer (lister toutes les sauvegardes du datastore)''),
    (''reportsTypeUndelete'', ''R'' @ [CHR 0xC3, CHR 0xA9] @ ''cup'' @ [CHR 0xC3, CHR 0xA9] @ ''ration''),
    (''reportsTypeRollback'', ''Retour arri'' @ [CHR 0xC3, CHR 0xA8] @ ''re''),
    (''stageReadingDisk'', ''Lecture du disque {n} sur {count} : {disk} ({size})''),
    (''stageSnapshotVolumes'', ''Cr'' @ [CHR 0xC3, CHR 0xA9] @ ''ation d'' @ [CHR 0x27] @ ''un instantan'' @ [CHR 0xC3, CHR 0xA9] @ '' des volumes...''),
    (''stageConnecting'', ''Connexion au serveur...''),
    (''stageFinishingImage'', ''Finalisation : fermeture de l'' @ [CHR 0x27] @ ''image disque et envoi du manifeste...''),
    (''blocksLabel'', ''Blocs :''),
    (''diskLabel'', ''Disque :''),
    (''partitionLabel'', ''Partition :''),
    (''partitionUnpartitioned'', ''Espace non partitionn'' @ [CHR 0xC3, CHR 0xA9]),
    (''partitionNumber'', ''Partition {n}''),
    (''processedBlank'', ''dont {n} d'' @ [CHR 0x27] @ ''espace vide''),
    (''logMachineBackupCompletedStats'', ''Sauvegarde machine termin'' @ [CHR 0xC3, CHR 0xA9] @ ''e en {duration} : {read} lus ({new} blocs nouveaux, {reused} r'' @ [CHR 0xC3, CHR 0xA9] @ ''utilis'' @ [CHR 0xC3, CHR 0xA9] @ ''s, dont {blank} d'' @ [CHR 0x27] @ ''espace vide ; {uploaded} envoy'' @ [CHR 0xC3, CHR 0xA9] @ ''s)''),
    (''processedUnreadable'', ''{size} illisibles (z'' @ [CHR 0xC3, CHR 0xA9] @ ''ros dans l'' @ [CHR 0x27] @ ''image)''),
    (''positionOnDiskLabel'', ''Position sur le disque :''),
    (''dataReadLabel'', ''Donn'' @ [CHR 0xC3, CHR 0xA9] @ ''es lues :''),
    (''processedNotRead'', ''{size} non lus (espace libre ou partitions exclues)''),
    (''logMachineBackupUnreadable'', [CHR 0xE2, CHR 0x9A, CHR 0xA0, CHR 0xEF, CHR 0xB8, CHR 0x8F] @ '' Sauvegarde machine termin'' @ [CHR 0xC3, CHR 0xA9] @ ''e en {duration}, mais {bad} du disque n'' @ [CHR 0x27] @ ''ont pas pu '' @ [CHR 0xC3, CHR 0xAA] @ ''tre lus et sont des z'' @ [CHR 0xC3, CHR 0xA9] @ ''ros dans l'' @ [CHR 0x27] @ ''image ({where}). {read} lus ({new} blocs nouveaux, {reused} r'' @ [CHR 0xC3, CHR 0xA9] @ ''utilis'' @ [CHR 0xC3, CHR 0xA9] @ ''s ; {uploaded} envoy'' @ [CHR 0xC3, CHR 0xA9] @ ''s)''),
    (''snapshotBadge'', ''Instantan'' @ [CHR 0xC3, CHR 0xA9]),
    (''snapshotNA'', ''N/D''),
    (''snapshotPartly'', ''Partiel''),
    (''snapshotTipSomeLive'', ''Ces dossiers ne peuvent pas '' @ [CHR 0xC3, CHR 0xAA] @ ''tre captur'' @ [CHR 0xC3, CHR 0xA9] @ ''s (lecteurs r'' @ [CHR 0xC3, CHR 0xA9] @ ''seau) et sont lus en direct :''),
    (''vssTipMachine'', ''Les images disque lisent toujours les volumes via un clich'' @ [CHR 0xC3, CHR 0xA9] @ '' instantan'' @ [CHR 0xC3, CHR 0xA9] @ '' (VSS).''),
    (''vssTipOn'', ''Les fichiers sont lus depuis un clich'' @ [CHR 0xC3, CHR 0xA9] @ '' instantan'' @ [CHR 0xC3, CHR 0xA9] @ '' (VSS) : les fichiers ouverts dans d'' @ [CHR 0x27] @ ''autres programmes sont sauvegard'' @ [CHR 0xC3, CHR 0xA9] @ ''s tels qu'' @ [CHR 0x27] @ ''ils '' @ [CHR 0xC3, CHR 0xA9] @ ''taient au d'' @ [CHR 0xC3, CHR 0xA9] @ ''but. Les lecteurs r'' @ [CHR 0xC3, CHR 0xA9] @ ''seau ne peuvent pas avoir d'' @ [CHR 0x27] @ ''instantan'' @ [CHR 0xC3, CHR 0xA9] @ '' et sont lus en direct.''),
    (''vssTipOff'', ''Les fichiers sont lus en direct : ceux ouverts dans d'' @ [CHR 0x27] @ ''autres programmes peuvent '' @ [CHR 0xC3, CHR 0xAA] @ ''tre ignor'' @ [CHR 0xC3, CHR 0xA9] @ ''s ou incoh'' @ [CHR 0xC3, CHR 0xA9] @ ''rents.''),
    (''snapshotTipMachineLinux'', ''Les partitions mont'' @ [CHR 0xC3, CHR 0xA9] @ ''es sont lues via un instantan'' @ [CHR 0xC3, CHR 0xA9] @ '' (elastio-snap ou dattobd). Si aucun ne peut '' @ [CHR 0xC3, CHR 0xAA] @ ''tre pris, l'' @ [CHR 0x27] @ ''ex'' @ [CHR 0xC3, CHR 0xA9] @ ''cution s'' @ [CHR 0x27] @ ''arr'' @ [CHR 0xC3, CHR 0xAA] @ ''te, sauf si Utiliser les instantan'' @ [CHR 0xC3, CHR 0xA9] @ ''s est d'' @ [CHR 0xC3, CHR 0xA9] @ ''sactiv'' @ [CHR 0xC3, CHR 0xA9] @ '' pour l'' @ [CHR 0x27] @ ''ensemble.''),
    (''snapshotTipOnLinux'', ''Les fichiers sont lus depuis un instantan'' @ [CHR 0xC3, CHR 0xA9] @ '' du syst'' @ [CHR 0xC3, CHR 0xA8] @ ''me de fichiers si le volume le permet ; sinon en direct.''),
    (''snapshotTipOffLinux'', ''Les fichiers sont lus en direct : ceux qui changent pendant la sauvegarde peuvent '' @ [CHR 0xC3, CHR 0xAA] @ ''tre incoh'' @ [CHR 0xC3, CHR 0xA9] @ ''rents.''),
    (''inPlaceDiskImage'', ''les fichiers d'' @ [CHR 0x27] @ ''une image disque vont dans un autre dossier''),
    (''diskImageShort'', ''image disque''),
    (''diskImageHint'', ''Sauvegarde machine : une image disque. Parcourez-la pour restaurer des fichiers de ses volumes.''),
    (''diskImageBanner'', ''Sauvegarde machine (image disque). Chaque volume de l'' @ [CHR 0x27] @ ''image est un dossier ci-dessous ; seules les parties de l'' @ [CHR 0x27] @ ''image que vous ouvrez ou restaurez sont t'' @ [CHR 0xC3, CHR 0xA9] @ ''l'' @ [CHR 0xC3, CHR 0xA9] @ ''charg'' @ [CHR 0xC3, CHR 0xA9] @ ''es. Les fichiers sont restaur'' @ [CHR 0xC3, CHR 0xA9] @ ''s dans un autre dossier, avec leurs dates et, avec l'' @ [CHR 0x27] @ ''option des autorisations, leurs autorisations et attributs.''),
    (''imageFoldersLabel'', ''Dossiers pour R'' @ [CHR 0xC3, CHR 0xA9] @ ''cup'' @ [CHR 0xC3, CHR 0xA9] @ ''ration et Retour arri'' @ [CHR 0xC3, CHR 0xA8] @ ''re''),
    (''imageFoldersPlaceholder'', ''Un par ligne, p. ex. C:'' @ [CHR 0x5C] @ ''Users'' @ [CHR 0x5C] @ ''Nom'' @ [CHR 0x5C] @ ''Documents''),
    (''imageFoldersPlaceholderLinux'', ''Un par ligne, p. ex. /home/nom/Documents''),
    (''imageFoldersHint'', ''R'' @ [CHR 0xC3, CHR 0xA9] @ ''cup'' @ [CHR 0xC3, CHR 0xA9] @ ''ration et Retour arri'' @ [CHR 0xC3, CHR 0xA8] @ ''re examinent ces dossiers, en lisant leurs fichiers dans les images disque. Vide : votre Bureau, Documents, Images, Musique, Vid'' @ [CHR 0xC3, CHR 0xA9] @ ''os et T'' @ [CHR 0xC3, CHR 0xA9] @ ''l'' @ [CHR 0xC3, CHR 0xA9] @ ''chargements. Les dossiers doivent se trouver sur les disques que cet ensemble sauvegarde.''),
    (''setPickerMachine'', ''machine''),
    (''setPickerMachineDefault'', ''votre Bureau, Documents, Images...''),
    (''setPickerChooseAny'', ''Choisissez un ensemble de sauvegarde...''),
    (''setPickerNoneAny'', ''Il n'' @ [CHR 0x27] @ ''y a pas encore d'' @ [CHR 0x27] @ ''ensemble de sauvegarde. Cr'' @ [CHR 0xC3, CHR 0xA9] @ ''ez-en un sur la page Sauvegarde.''),
    (''rollbackBackupFirstMachine'', ''Cet ensemble sauvegarde des disques entiers : la sauvegarde pr'' @ [CHR 0xC3, CHR 0xA9] @ ''alable dure '' @ [CHR 0xC3, CHR 0xA0] @ '' peu pr'' @ [CHR 0xC3, CHR 0xA8] @ ''s autant que sa sauvegarde habituelle.''),
    (''reportStatusSuccess'', ''R'' @ [CHR 0xC3, CHR 0xA9] @ ''ussie''),
    (''reportStatusFailed'', [CHR 0xC3, CHR 0x89] @ ''chou'' @ [CHR 0xC3, CHR 0xA9] @ ''e''),
    (''reportStatusCancelled'', ''Annul'' @ [CHR 0xC3, CHR 0xA9] @ ''e''),
    (''reportStatusRunning'', ''En cours'')]"

lemma fr_texts_8_holes: "scan_texts fr_texts_8 = Some
   [(''serviceLinuxSettings'', [''dir'']),
    (''serviceNoExeLinux'', [''file'']),
    (''serviceOtherExe'', [''path'']),
    (''serviceNoExe'', [''file'']),
    (''restoreStageBackupFirstPct'', [''pct'']),
    (''nextFullReadIn'', [''n'']),
    (''stageReadingDisk'', [''n'', ''count'', ''disk'', ''size'']),
    (''partitionNumber'', [''n'']),
    (''processedBlank'', [''n'']),
    (''logMachineBackupCompletedStats'', [''duration'', ''read'', ''new'', ''reused'', ''blank'', ''uploaded'']),
    (''processedUnreadable'', [''size'']),
    (''processedNotRead'', [''size'']),
    (''logMachineBackupUnreadable'', [''duration'', ''bad'', ''where'', ''read'', ''new'', ''reused'', ''uploaded''])]"
  by code_simp

lemma fr_texts_8_keys: "map fst fr_texts_8 =
   [''serviceStopping'', ''servicePaused'', ''serviceTitle'', ''serviceLinux'', ''serviceIntro'', ''serviceIntroLinux'', 
    ''serviceLinuxSettings'', ''serviceNoExeLinux'', ''serviceStart_automatic'', ''serviceStart_boot'', ''serviceStatusLabel'', ''serviceInstalled'', 
    ''serviceNotInstalled'', ''serviceInUse'', ''serviceNotInUse'', ''serviceOtherExe'', ''serviceNoExe'', ''serviceNeedsAdmin'', 
    ''serviceInstall'', ''serviceStart'', ''serviceStop'', ''serviceRemoveConfirm'', ''serviceRemove'', ''machineVmIdInvalid'', 
    ''backupIdHostOneOff'', ''pbsSlowHint'', ''openingFolder'', ''calculating'', ''restoreStageBackupFirst'', ''restoreStageBackupFirstPct'', 
    ''restoreStageComparing'', ''restoreStageSafety'', ''stageStarting'', ''finishingShort'', ''startedLabel'', ''forecastFinishLabel'', 
    ''averageSuffix'', ''downloadedLabel'', ''currentFileLabel'', ''waiting'', ''navUndelete'', ''navRollback'', 
    ''notAvailable'', ''stageStopping'', ''stageFinishing'', ''readReasonFullRead'', ''readReasonNoPrevious'', ''readReasonData'', 
    ''stageMetadata'', ''stageReading'', ''filesPerSecond'', ''scanning'', ''processedLabel'', ''processedNew'', 
    ''processedReused'', ''chunksWord'', ''filesLabel'', ''processingLabel'', ''uploadLabel'', ''nextRunFullRead'', 
    ''nextFullReadIn'', ''undeleteShortcutHint'', ''undeleteShortcut'', ''rollbackShortcutHint'', ''rollbackShortcut'', ''machineBackupAsLabel'', 
    ''machineBackupAsHost'', ''machineBackupAsVm'', ''machineVmIdPlaceholder'', ''machineVmIdStyleRange'', ''machineVmIdStyleZeros'', ''machineVmIdResult'', 
    ''machineVmWarning'', ''restoreSupportsTitle'', ''backupIdPick'', ''backupIdClear'', ''reportsTypeUndelete'', ''reportsTypeRollback'', 
    ''stageReadingDisk'', ''stageSnapshotVolumes'', ''stageConnecting'', ''stageFinishingImage'', ''blocksLabel'', ''diskLabel'', 
    ''partitionLabel'', ''partitionUnpartitioned'', ''partitionNumber'', ''processedBlank'', ''logMachineBackupCompletedStats'', ''processedUnreadable'', 
    ''positionOnDiskLabel'', ''dataReadLabel'', ''processedNotRead'', ''logMachineBackupUnreadable'', ''snapshotBadge'', ''snapshotNA'', 
    ''snapshotPartly'', ''snapshotTipSomeLive'', ''vssTipMachine'', ''vssTipOn'', ''vssTipOff'', ''snapshotTipMachineLinux'', 
    ''snapshotTipOnLinux'', ''snapshotTipOffLinux'', ''inPlaceDiskImage'', ''diskImageShort'', ''diskImageHint'', ''diskImageBanner'', 
    ''imageFoldersLabel'', ''imageFoldersPlaceholder'', ''imageFoldersPlaceholderLinux'', ''imageFoldersHint'', ''setPickerMachine'', ''setPickerMachineDefault'', 
    ''setPickerChooseAny'', ''setPickerNoneAny'', ''rollbackBackupFirstMachine'', ''reportStatusSuccess'', ''reportStatusFailed'', ''reportStatusCancelled'', 
    ''reportStatusRunning'']"
  unfolding fr_texts_8_def by (simp only: list.map fst_conv)

definition fr_texts_9 :: "(string \<times> string) list" where
  "fr_texts_9 = [
    (''reportNameRestore'', ''Restauration : {id} @ {snapshot}''),
    (''reportNameUndelete'', ''R'' @ [CHR 0xC3, CHR 0xA9] @ ''cup'' @ [CHR 0xC3, CHR 0xA9] @ ''ration : {set} ({files} fichiers)''),
    (''reportNameRollback'', ''Retour arri'' @ [CHR 0xC3, CHR 0xA8] @ ''re : {set} au {at}''),
    (''closePromptTitle'', ''Fermer l'' @ [CHR 0x27] @ ''application ?''),
    (''closePromptBody'', ''R'' @ [CHR 0xC3, CHR 0xA9] @ ''duire dans la zone de notification laisse l'' @ [CHR 0x27] @ ''application tourner en arri'' @ [CHR 0xC3, CHR 0xA8] @ ''re-plan, et les ensembles de sauvegarde planifi'' @ [CHR 0xC3, CHR 0xA9] @ ''s s'' @ [CHR 0x27] @ ''ex'' @ [CHR 0xC3, CHR 0xA9] @ ''cutent toujours. Quitter la ferme compl'' @ [CHR 0xC3, CHR 0xA8] @ ''tement : aucune sauvegarde planifi'' @ [CHR 0xC3, CHR 0xA9] @ ''e ne s'' @ [CHR 0x27] @ ''ex'' @ [CHR 0xC3, CHR 0xA9] @ ''cute tant que vous ne la rouvrez pas.''),
    (''closePromptBodyService'', ''R'' @ [CHR 0xC3, CHR 0xA9] @ ''duire dans la zone de notification laisse l'' @ [CHR 0x27] @ ''application tourner en arri'' @ [CHR 0xC3, CHR 0xA8] @ ''re-plan. Quitter ferme l'' @ [CHR 0x27] @ ''application ; le service d'' @ [CHR 0x27] @ ''arri'' @ [CHR 0xC3, CHR 0xA8] @ ''re-plan continue d'' @ [CHR 0x27] @ ''ex'' @ [CHR 0xC3, CHR 0xA9] @ ''cuter les ensembles de sauvegarde planifi'' @ [CHR 0xC3, CHR 0xA9] @ ''s.''),
    (''closePromptExit'', ''Quitter''),
    (''closePromptMinimize'', ''R'' @ [CHR 0xC3, CHR 0xA9] @ ''duire dans la zone de notification''),
    (''viewContributors'', ''voir les contributeurs''),
    (''machineDisksTitle'', ''Sauvegarde machine''),
    (''machineDisksSelect'', ''Disques '' @ [CHR 0xC3, CHR 0xA0] @ '' sauvegarder :''),
    (''machineDisksSelectAll'', ''Tout s'' @ [CHR 0xC3, CHR 0xA9] @ ''lectionner''),
    (''machineDisksDeselectAll'', ''Tout d'' @ [CHR 0xC3, CHR 0xA9] @ ''s'' @ [CHR 0xC3, CHR 0xA9] @ ''lectionner''),
    (''machineDisksNone'', ''Aucun disque physique trouv'' @ [CHR 0xC3, CHR 0xA9] @ ''.''),
    (''machineDiskBadgeBoot'', ''D'' @ [CHR 0xC3, CHR 0x89] @ ''MARRAGE''),
    (''machineDiskBadgeSystem'', ''SYST'' @ [CHR 0xC3, CHR 0x88] @ ''ME''),
    (''machineDiskNotConnected'', ''Le disque que cet ensemble a enregistr'' @ [CHR 0xC3, CHR 0xA9] @ '' comme {path} ({id}) n'' @ [CHR 0x27] @ ''est pas connect'' @ [CHR 0xC3, CHR 0xA9] @ '' : ses ex'' @ [CHR 0xC3, CHR 0xA9] @ ''cutions '' @ [CHR 0xC3, CHR 0xA9] @ ''chouent jusqu'' @ [CHR 0x27, CHR 0xC3, CHR 0xA0] @ '' son retour. Pour sauvegarder un autre disque '' @ [CHR 0xC3, CHR 0xA0] @ '' la place, d'' @ [CHR 0xC3, CHR 0xA9] @ ''cochez {path} et cochez ce disque.''),
    (''machinePartsHint'', ''D'' @ [CHR 0xC3, CHR 0xA9] @ ''cochez une partition pour l'' @ [CHR 0x27] @ ''exclure de cet ensemble. Elle n'' @ [CHR 0x27] @ ''est pas lue et est plac'' @ [CHR 0xC3, CHR 0xA9] @ ''e dans l'' @ [CHR 0x27] @ ''image sous forme de z'' @ [CHR 0xC3, CHR 0xA9] @ ''ros, qui ne prennent presque pas de place.''),
    (''machinePartLeftOut'', ''Exclue : elle est plac'' @ [CHR 0xC3, CHR 0xA9] @ ''e vide dans l'' @ [CHR 0x27] @ ''image et revient non format'' @ [CHR 0xC3, CHR 0xA9] @ ''e lors de la restauration.''),
    (''machinePartNoStart'', ''Le disque restaur'' @ [CHR 0xC3, CHR 0xA9] @ '' '' @ [CHR 0xC3, CHR 0xA0] @ '' partir de cette sauvegarde ne d'' @ [CHR 0xC3, CHR 0xA9] @ ''marrera pas sans cette partition.''),
    (''machinePartGone'', ''L'' @ [CHR 0x27] @ ''ensemble exclut {label}, mais ce disque ne l'' @ [CHR 0x27] @ ''a plus : elle est donc sauvegard'' @ [CHR 0xC3, CHR 0xA9] @ ''e. Enregistrer l'' @ [CHR 0x27] @ ''ensemble l'' @ [CHR 0x27] @ ''oublie.''),
    (''machinePartsSetOnly'', ''Seul un ensemble de sauvegarde peut exclure des partitions.''),
    (''machinePartsUnknown'', ''Les partitions de ce disque n'' @ [CHR 0x27] @ ''ont pas pu '' @ [CHR 0xC3, CHR 0xAA] @ ''tre lues : le disque entier est sauvegard'' @ [CHR 0xC3, CHR 0xA9] @ ''.'')]"

lemma fr_texts_9_holes: "scan_texts fr_texts_9 = Some
   [(''reportNameRestore'', [''id'', ''snapshot'']),
    (''reportNameUndelete'', [''set'', ''files'']),
    (''reportNameRollback'', [''set'', ''at'']),
    (''machineDiskNotConnected'', [''path'', ''id'', ''path'']),
    (''machinePartGone'', [''label''])]"
  by code_simp

lemma fr_texts_9_keys: "map fst fr_texts_9 =
   [''reportNameRestore'', ''reportNameUndelete'', ''reportNameRollback'', ''closePromptTitle'', ''closePromptBody'', ''closePromptBodyService'', 
    ''closePromptExit'', ''closePromptMinimize'', ''viewContributors'', ''machineDisksTitle'', ''machineDisksSelect'', ''machineDisksSelectAll'', 
    ''machineDisksDeselectAll'', ''machineDisksNone'', ''machineDiskBadgeBoot'', ''machineDiskBadgeSystem'', ''machineDiskNotConnected'', ''machinePartsHint'', 
    ''machinePartLeftOut'', ''machinePartNoStart'', ''machinePartGone'', ''machinePartsSetOnly'', ''machinePartsUnknown'']"
  unfolding fr_texts_9_def by (simp only: list.map fst_conv)

definition fr_texts_10 :: "(string \<times> string) list" where
  "fr_texts_10 = [
    (''entriesLoadedCount'', ''Entr'' @ [CHR 0xC3, CHR 0xA9] @ ''es charg'' @ [CHR 0xC3, CHR 0xA9] @ ''es : {n}''),
    (''dirTreeLoading'', ''Chargement...''),
    (''dirTreeUnreadable'', ''Impossible de lire ce dossier''),
    (''dirTreeEmpty'', ''(vide)''),
    (''dirTreeLoadingDrives'', ''Chargement des lecteurs...''),
    (''dirTreeDrivesError'', ''Impossible de lister les lecteurs''),
    (''dirTreeAria'', ''S'' @ [CHR 0xC3, CHR 0xA9] @ ''lecteur de dossiers '' @ [CHR 0xC3, CHR 0xA0] @ '' sauvegarder'')]"

lemma fr_texts_10_holes: "scan_texts fr_texts_10 = Some
   [(''entriesLoadedCount'', [''n''])]"
  by code_simp

lemma fr_texts_10_keys: "map fst fr_texts_10 =
   [''entriesLoadedCount'', ''dirTreeLoading'', ''dirTreeUnreadable'', ''dirTreeEmpty'', ''dirTreeLoadingDrives'', ''dirTreeDrivesError'', 
    ''dirTreeAria'']"
  unfolding fr_texts_10_def by (simp only: list.map fst_conv)

definition fr_texts_11 :: "(string \<times> string) list" where
  "fr_texts_11 = [
    (''windowRange'', ''entre {start} et {end}'')]"

lemma fr_texts_11_holes: "scan_texts fr_texts_11 = Some
   [(''windowRange'', [''start'', ''end''])]"
  by code_simp

lemma fr_texts_11_keys: "map fst fr_texts_11 =
   [''windowRange'']"
  unfolding fr_texts_11_def by (simp only: list.map fst_conv)

definition fr_texts_12 :: "(string \<times> string) list" where
  "fr_texts_12 = [
    (''schedEvery_minutes_1'', ''Toutes les minutes''),
    (''schedEvery_minutes_one'', ''Toutes les {n} minutes''),
    (''schedEvery_minutes_other'', ''Toutes les {n} minutes''),
    (''schedEvery_hours_1'', ''Toutes les heures''),
    (''schedEvery_hours_one'', ''Toutes les {n} heures''),
    (''schedEvery_hours_other'', ''Toutes les {n} heures''),
    (''schedEvery_days_1'', ''Tous les jours''),
    (''schedEvery_days_one'', ''Tous les {n} jours''),
    (''schedEvery_days_other'', ''Tous les {n} jours''),
    (''schedEvery_weeks_1'', ''Toutes les semaines''),
    (''schedEvery_weeks_one'', ''Toutes les {n} semaines''),
    (''schedEvery_weeks_other'', ''Toutes les {n} semaines''),
    (''schedEvery_months_1'', ''Tous les mois''),
    (''schedEvery_months_one'', ''Tous les {n} mois''),
    (''schedEvery_months_other'', ''Tous les {n} mois''),
    (''schedEvery_years_1'', ''Tous les ans''),
    (''schedEvery_years_one'', ''Tous les {n} ans''),
    (''schedEvery_years_other'', ''Tous les {n} ans''),
    (''schedDescWindow'', ''{every}, de {start} '' @ [CHR 0xC3, CHR 0xA0] @ '' {end}''),
    (''schedDescAtMinute'', ''{every}, '' @ [CHR 0xC3, CHR 0xA0] @ '' la minute {mm}''),
    (''schedDescOnDays'', ''{desc}, {days}''),
    (''schedDescAt'', ''{every} '' @ [CHR 0xC3, CHR 0xA0] @ '' {time}''),
    (''schedDescDaysOnly'', ''{every} '' @ [CHR 0xC3, CHR 0xA0] @ '' {time}, {days} uniquement''),
    (''schedDescWeeks'', ''{every}, {days} '' @ [CHR 0xC3, CHR 0xA0] @ '' {time}''),
    (''schedDescMonthLast'', ''{every}, le dernier jour '' @ [CHR 0xC3, CHR 0xA0] @ '' {time}''),
    (''schedDescMonthNth'', ''{every}, le {nth} {weekday} '' @ [CHR 0xC3, CHR 0xA0] @ '' {time}''),
    (''schedDescMonthDay'', ''{every}, le {d} '' @ [CHR 0xC3, CHR 0xA0] @ '' {time}''),
    (''schedDescYear'', ''{every}, le {date} '' @ [CHR 0xC3, CHR 0xA0] @ '' {time}''),
    (''schedDaysWeekdays'', ''du lun. au ven.''),
    (''schedDaysWeekend'', ''le week-end''),
    (''schedNth1'', ''1er''),
    (''schedNth2'', ''2e''),
    (''schedNth3'', ''3e''),
    (''schedNth4'', ''4e''),
    (''schedNthLast'', ''dernier''),
    (''schedBadgeWeekly'', ''Hebdomadaire''),
    (''schedBadgeMonthly'', ''Mensuel''),
    (''schedBadgeYearly'', ''Annuel''),
    (''schedUnit_minutes'', ''minutes''),
    (''schedUnit_hours'', ''heures''),
    (''schedUnit_days'', ''jours''),
    (''schedUnit_weeks'', ''semaines''),
    (''schedUnit_months'', ''mois''),
    (''schedUnit_years'', ''ans''),
    (''schedUnitLabel'', ''Unit'' @ [CHR 0xC3, CHR 0xA9]),
    (''schedWhenLabel'', ''Quand cet ensemble de sauvegarde s'' @ [CHR 0x27] @ ''ex'' @ [CHR 0xC3, CHR 0xA9] @ ''cute-t-il ?''),
    (''schedModeScheduled'', ''Selon une planification''),
    (''schedModeManual'', ''Uniquement quand je clique sur '' @ [CHR 0xC2, CHR 0xAB] @ '' Ex'' @ [CHR 0xC3, CHR 0xA9] @ ''cuter maintenant '' @ [CHR 0xC2, CHR 0xBB]),
    (''schedListLabel'', ''Planifications''),
    (''schedNone'', ''Aucune planification pour l'' @ [CHR 0x27] @ ''instant. Ajoutez-en une ci-dessous.''),
    (''schedAdd'', ''Ajouter une planification''),
    (''schedAddFrom'', ''ou commencer avec''),
    (''schedOnLabel'', ''Planification active''),
    (''schedOff'', ''d'' @ [CHR 0xC3, CHR 0xA9] @ ''sactiv'' @ [CHR 0xC3, CHR 0xA9] @ ''e''),
    (''schedEditTitle'', ''Modifier la planification''),
    (''schedRepeatEvery'', ''Intervalle''),
    (''schedWhen'', ''Quand''),
    (''schedFrom'', ''De''),
    (''schedTo'', [CHR 0xC3, CHR 0x80]),
    (''schedAtMinute'', [CHR 0xC3, CHR 0x80] @ '' la minute''),
    (''schedPastHour'', ''de chaque heure''),
    (''schedOnlyOn'', ''Uniquement le''),
    (''schedNoDayEveryDay'', ''Si aucun jour n'' @ [CHR 0x27] @ ''est choisi, l'' @ [CHR 0x27] @ ''ex'' @ [CHR 0xC3, CHR 0xA9] @ ''cution a lieu tous les jours.''),
    (''schedOn'', ''Le''),
    (''schedAt'', [CHR 0xC3, CHR 0x80]),
    (''schedMonthDay'', ''jour''),
    (''schedMonthLast'', ''le dernier jour''),
    (''schedMonthThe'', ''le''),
    (''schedWhich'', ''Rang''),
    (''schedMonth'', ''Mois''),
    (''schedShortMonthHint'', ''Si un mois n'' @ [CHR 0x27] @ ''a pas de jour {d}, l'' @ [CHR 0x27] @ ''ex'' @ [CHR 0xC3, CHR 0xA9] @ ''cution a lieu le jour pr'' @ [CHR 0xC3, CHR 0xA9] @ ''c'' @ [CHR 0xC3, CHR 0xA9] @ ''dent le plus proche.''),
    (''schedFeb29Hint'', ''Les ann'' @ [CHR 0xC3, CHR 0xA9] @ ''es sans 29 f'' @ [CHR 0xC3, CHR 0xA9] @ ''vrier, l'' @ [CHR 0x27] @ ''ex'' @ [CHR 0xC3, CHR 0xA9] @ ''cution a lieu le jour pr'' @ [CHR 0xC3, CHR 0xA9] @ ''c'' @ [CHR 0xC3, CHR 0xA9] @ ''dent le plus proche (28 f'' @ [CHR 0xC3, CHR 0xA9] @ ''vrier).''),
    (''schedStarting'', [CHR 0xC3, CHR 0x80] @ '' partir du''),
    (''schedCountsFrom_days_one'', ''Les {n} jours sont compt'' @ [CHR 0xC3, CHR 0xA9] @ ''s '' @ [CHR 0xC3, CHR 0xA0] @ '' partir de ce jour.''),
    (''schedCountsFrom_days_other'', ''Les {n} jours sont compt'' @ [CHR 0xC3, CHR 0xA9] @ ''s '' @ [CHR 0xC3, CHR 0xA0] @ '' partir de ce jour.''),
    (''schedCountsFrom_weeks_one'', ''Les {n} semaines sont compt'' @ [CHR 0xC3, CHR 0xA9] @ ''es '' @ [CHR 0xC3, CHR 0xA0] @ '' partir de la semaine de ce jour.''),
    (''schedCountsFrom_weeks_other'', ''Les {n} semaines sont compt'' @ [CHR 0xC3, CHR 0xA9] @ ''es '' @ [CHR 0xC3, CHR 0xA0] @ '' partir de la semaine de ce jour.''),
    (''schedCountsFrom_months_one'', ''Les {n} mois sont compt'' @ [CHR 0xC3, CHR 0xA9] @ ''s '' @ [CHR 0xC3, CHR 0xA0] @ '' partir du mois de ce jour.''),
    (''schedCountsFrom_months_other'', ''Les {n} mois sont compt'' @ [CHR 0xC3, CHR 0xA9] @ ''s '' @ [CHR 0xC3, CHR 0xA0] @ '' partir du mois de ce jour.''),
    (''schedCountsFrom_years_one'', ''Les {n} ans sont compt'' @ [CHR 0xC3, CHR 0xA9] @ ''s '' @ [CHR 0xC3, CHR 0xA0] @ '' partir de l'' @ [CHR 0x27] @ ''ann'' @ [CHR 0xC3, CHR 0xA9] @ ''e de ce jour.''),
    (''schedCountsFrom_years_other'', ''Les {n} ans sont compt'' @ [CHR 0xC3, CHR 0xA9] @ ''s '' @ [CHR 0xC3, CHR 0xA0] @ '' partir de l'' @ [CHR 0x27] @ ''ann'' @ [CHR 0xC3, CHR 0xA9] @ ''e de ce jour.'')]"

lemma fr_texts_12_holes: "scan_texts fr_texts_12 = Some
   [(''schedEvery_minutes_one'', [''n'']),
    (''schedEvery_minutes_other'', [''n'']),
    (''schedEvery_hours_one'', [''n'']),
    (''schedEvery_hours_other'', [''n'']),
    (''schedEvery_days_one'', [''n'']),
    (''schedEvery_days_other'', [''n'']),
    (''schedEvery_weeks_one'', [''n'']),
    (''schedEvery_weeks_other'', [''n'']),
    (''schedEvery_months_one'', [''n'']),
    (''schedEvery_months_other'', [''n'']),
    (''schedEvery_years_one'', [''n'']),
    (''schedEvery_years_other'', [''n'']),
    (''schedDescWindow'', [''every'', ''start'', ''end'']),
    (''schedDescAtMinute'', [''every'', ''mm'']),
    (''schedDescOnDays'', [''desc'', ''days'']),
    (''schedDescAt'', [''every'', ''time'']),
    (''schedDescDaysOnly'', [''every'', ''time'', ''days'']),
    (''schedDescWeeks'', [''every'', ''days'', ''time'']),
    (''schedDescMonthLast'', [''every'', ''time'']),
    (''schedDescMonthNth'', [''every'', ''nth'', ''weekday'', ''time'']),
    (''schedDescMonthDay'', [''every'', ''d'', ''time'']),
    (''schedDescYear'', [''every'', ''date'', ''time'']),
    (''schedShortMonthHint'', [''d'']),
    (''schedCountsFrom_days_one'', [''n'']),
    (''schedCountsFrom_days_other'', [''n'']),
    (''schedCountsFrom_weeks_one'', [''n'']),
    (''schedCountsFrom_weeks_other'', [''n'']),
    (''schedCountsFrom_months_one'', [''n'']),
    (''schedCountsFrom_months_other'', [''n'']),
    (''schedCountsFrom_years_one'', [''n'']),
    (''schedCountsFrom_years_other'', [''n''])]"
  by code_simp

lemma fr_texts_12_keys: "map fst fr_texts_12 =
   [''schedEvery_minutes_1'', ''schedEvery_minutes_one'', ''schedEvery_minutes_other'', ''schedEvery_hours_1'', ''schedEvery_hours_one'', ''schedEvery_hours_other'', 
    ''schedEvery_days_1'', ''schedEvery_days_one'', ''schedEvery_days_other'', ''schedEvery_weeks_1'', ''schedEvery_weeks_one'', ''schedEvery_weeks_other'', 
    ''schedEvery_months_1'', ''schedEvery_months_one'', ''schedEvery_months_other'', ''schedEvery_years_1'', ''schedEvery_years_one'', ''schedEvery_years_other'', 
    ''schedDescWindow'', ''schedDescAtMinute'', ''schedDescOnDays'', ''schedDescAt'', ''schedDescDaysOnly'', ''schedDescWeeks'', 
    ''schedDescMonthLast'', ''schedDescMonthNth'', ''schedDescMonthDay'', ''schedDescYear'', ''schedDaysWeekdays'', ''schedDaysWeekend'', 
    ''schedNth1'', ''schedNth2'', ''schedNth3'', ''schedNth4'', ''schedNthLast'', ''schedBadgeWeekly'', 
    ''schedBadgeMonthly'', ''schedBadgeYearly'', ''schedUnit_minutes'', ''schedUnit_hours'', ''schedUnit_days'', ''schedUnit_weeks'', 
    ''schedUnit_months'', ''schedUnit_years'', ''schedUnitLabel'', ''schedWhenLabel'', ''schedModeScheduled'', ''schedModeManual'', 
    ''schedListLabel'', ''schedNone'', ''schedAdd'', ''schedAddFrom'', ''schedOnLabel'', ''schedOff'', 
    ''schedEditTitle'', ''schedRepeatEvery'', ''schedWhen'', ''schedFrom'', ''schedTo'', ''schedAtMinute'', 
    ''schedPastHour'', ''schedOnlyOn'', ''schedNoDayEveryDay'', ''schedOn'', ''schedAt'', ''schedMonthDay'', 
    ''schedMonthLast'', ''schedMonthThe'', ''schedWhich'', ''schedMonth'', ''schedShortMonthHint'', ''schedFeb29Hint'', 
    ''schedStarting'', ''schedCountsFrom_days_one'', ''schedCountsFrom_days_other'', ''schedCountsFrom_weeks_one'', ''schedCountsFrom_weeks_other'', ''schedCountsFrom_months_one'', 
    ''schedCountsFrom_months_other'', ''schedCountsFrom_years_one'', ''schedCountsFrom_years_other'']"
  unfolding fr_texts_12_def by (simp only: list.map fst_conv)

definition fr_texts_13 :: "(string \<times> string) list" where
  "fr_texts_13 = [
    (''schedMinRepeat'', ''L'' @ [CHR 0x27] @ ''intervalle minimal est de {n} minutes.''),
    (''schedWindowOrder'', ''La plage horaire doit se terminer apr'' @ [CHR 0xC3, CHR 0xA8] @ ''s son d'' @ [CHR 0xC3, CHR 0xA9] @ ''but.''),
    (''schedPickDay'', ''Choisissez au moins un jour.''),
    (''schedNext3'', ''3 prochaines ex'' @ [CHR 0xC3, CHR 0xA9] @ ''cutions''),
    (''schedNoneSoon'', ''Aucune ex'' @ [CHR 0xC3, CHR 0xA9] @ ''cution dans les prochaines ann'' @ [CHR 0xC3, CHR 0xA9] @ ''es.''),
    (''schedDone'', ''Termin'' @ [CHR 0xC3, CHR 0xA9]),
    (''schedManualKept'', ''Ses planifications sont conserv'' @ [CHR 0xC3, CHR 0xA9] @ ''es pour le jour o'' @ [CHR 0xC3, CHR 0xB9] @ '' vous choisirez de nouveau '' @ [CHR 0xC2, CHR 0xAB] @ '' Selon une planification '' @ [CHR 0xC2, CHR 0xBB] @ ''.''),
    (''schedSetNext'', ''Prochaine ex'' @ [CHR 0xC3, CHR 0xA9] @ ''cution : {time}''),
    (''schedCountOn_one'', ''{n} planification est active.''),
    (''schedCountOn_other'', ''{n} planifications sont actives.''),
    (''schedCatchUp'', ''Si l'' @ [CHR 0x27] @ ''ordinateur est '' @ [CHR 0xC3, CHR 0xA9] @ ''teint '' @ [CHR 0xC3, CHR 0xA0] @ '' l'' @ [CHR 0x27] @ ''heure pr'' @ [CHR 0xC3, CHR 0xA9] @ ''vue, l'' @ [CHR 0x27] @ ''ensemble s'' @ [CHR 0x27] @ ''ex'' @ [CHR 0xC3, CHR 0xA9] @ ''cute une fois '' @ [CHR 0xC3, CHR 0xA0] @ '' son red'' @ [CHR 0xC3, CHR 0xA9] @ ''marrage.''),
    (''schedNoneOn'', ''Aucune planification n'' @ [CHR 0x27] @ ''est active, donc cet ensemble ne s'' @ [CHR 0x27] @ ''ex'' @ [CHR 0xC3, CHR 0xA9] @ ''cute pas tout seul. Utilisez '' @ [CHR 0xC2, CHR 0xAB] @ '' Ex'' @ [CHR 0xC3, CHR 0xA9] @ ''cuter maintenant '' @ [CHR 0xC2, CHR 0xBB] @ '' ou activez une planification.''),
    (''schedNoneOnShort'', ''Aucune planification active''),
    (''optionStreams'', ''Restaurer les flux de donn'' @ [CHR 0xC3, CHR 0xA9] @ ''es alternatifs et les attributs '' @ [CHR 0xC3, CHR 0xA9] @ ''tendus''),
    (''optionStreamsHint'', ''Windows : remet les donn'' @ [CHR 0xC3, CHR 0xA9] @ ''es attach'' @ [CHR 0xC3, CHR 0xA9] @ ''es aux fichiers, comme la marque '' @ [CHR 0xC2, CHR 0xAB] @ '' t'' @ [CHR 0xC3, CHR 0xA9] @ ''l'' @ [CHR 0xC3, CHR 0xA9] @ ''charg'' @ [CHR 0xC3, CHR 0xA9] @ '' depuis Internet '' @ [CHR 0xC2, CHR 0xBB] @ '', ainsi que les attributs '' @ [CHR 0xC3, CHR 0xA9] @ ''tendus NTFS. Les sauvegardes de dossiers faites avec la version 1.1 ou ant'' @ [CHR 0xC3, CHR 0xA9] @ ''rieure, ou avec une version de test d'' @ [CHR 0x27] @ ''avant le 14 octobre 2026, ne les contiennent pas.''),
    (''restoreSupportsStreams'', ''Flux de donn'' @ [CHR 0xC3, CHR 0xA9] @ ''es alternatifs et attributs '' @ [CHR 0xC3, CHR 0xA9] @ ''tendus NTFS (Windows)''),
    (''knownLimitationsNone'', ''Aucune limitation connue pour le moment.''),
    (''knownLimitationsOlderBackups'', ''Les sauvegardes de dossiers faites avec la version 1.1 ou ant'' @ [CHR 0xC3, CHR 0xA9] @ ''rieure, ou avec une version de test d'' @ [CHR 0x27] @ ''avant le 14 octobre 2026, ne contiennent ni flux de donn'' @ [CHR 0xC3, CHR 0xA9] @ ''es alternatifs ni attributs '' @ [CHR 0xC3, CHR 0xA9] @ ''tendus NTFS : une restauration depuis ces sauvegardes ne peut donc pas les remettre. Les images disque, quelle que soit leur version, les contiennent.'')]"

lemma fr_texts_13_holes: "scan_texts fr_texts_13 = Some
   [(''schedMinRepeat'', [''n'']),
    (''schedSetNext'', [''time'']),
    (''schedCountOn_one'', [''n'']),
    (''schedCountOn_other'', [''n''])]"
  by code_simp

lemma fr_texts_13_keys: "map fst fr_texts_13 =
   [''schedMinRepeat'', ''schedWindowOrder'', ''schedPickDay'', ''schedNext3'', ''schedNoneSoon'', ''schedDone'', 
    ''schedManualKept'', ''schedSetNext'', ''schedCountOn_one'', ''schedCountOn_other'', ''schedCatchUp'', ''schedNoneOn'', 
    ''schedNoneOnShort'', ''optionStreams'', ''optionStreamsHint'', ''restoreSupportsStreams'', ''knownLimitationsNone'', ''knownLimitationsOlderBackups'']"
  unfolding fr_texts_13_def by (simp only: list.map fst_conv)

definition fr_features :: "(string \<times> (string \<times> string) list) list" where
  "fr_features = [
    (''backupSets'', [(''title'', ''Ensembles de sauvegarde''), (''desc'', ''Plusieurs planifications chacun, de quelques minutes '' @ [CHR 0xC3, CHR 0xA0] @ '' une fois par an, ou manuel ; Ex'' @ [CHR 0xC3, CHR 0xA9] @ ''cuter maintenant en un clic'')]),
    (''incremental'', [(''title'', ''Sauvegardes incr'' @ [CHR 0xC3, CHR 0xA9] @ ''mentielles de dossiers''), (''desc'', ''Les fichiers inchang'' @ [CHR 0xC3, CHR 0xA9] @ ''s sont r'' @ [CHR 0xC3, CHR 0xA9] @ ''utilis'' @ [CHR 0xC3, CHR 0xA9] @ ''s sans '' @ [CHR 0xC3, CHR 0xAA] @ ''tre relus, comme avec le client officiel'')]),
    (''machineBackups'', [(''title'', ''Sauvegardes machine''), (''desc'', ''Disques entiers via VSS ou elastio-snap, sans l'' @ [CHR 0x27] @ ''espace libre et malgr'' @ [CHR 0xC3, CHR 0xA9] @ '' les secteurs d'' @ [CHR 0xC3, CHR 0xA9] @ ''fectueux'')]),
    (''p2v'', [(''title'', ''Physique vers virtuel''), (''desc'', ''Restaurez une sauvegarde machine en VM Proxmox VE, via Proxmox VE ou l'' @ [CHR 0x27] @ ''ISO de restauration'')]),
    (''bareMetalRestore'', [(''title'', ''Restauration bare-metal automatis'' @ [CHR 0xC3, CHR 0xA9] @ ''e''), (''desc'', ''D'' @ [CHR 0xC3, CHR 0xA9] @ ''marrez l'' @ [CHR 0x27] @ ''ISO de restauration par USB, CD ou PXE directement vers une restauration PBS'')]),
    (''snapshotRestore'', [(''title'', ''Parcourir, rechercher et restaurer''), (''desc'', ''Fichiers individuels des sauvegardes de dossiers et machine, avec leurs permissions'')]),
    (''undeleteRollback'', [(''title'', ''R'' @ [CHR 0xC3, CHR 0xA9] @ ''cup'' @ [CHR 0xC3, CHR 0xA9] @ ''ration et Retour arri'' @ [CHR 0xC3, CHR 0xA8] @ ''re''), (''desc'', ''R'' @ [CHR 0xC3, CHR 0xA9] @ ''cup'' @ [CHR 0xC3, CHR 0xA9] @ ''rez des fichiers supprim'' @ [CHR 0xC3, CHR 0xA9] @ ''s ou remettez des dossiers en l'' @ [CHR 0x27, CHR 0xC3, CHR 0xA9] @ ''tat, avec D'' @ [CHR 0xC3, CHR 0xA9] @ ''faire'')]),
    (''encryption'', [(''title'', ''Chiffrement c'' @ [CHR 0xC3, CHR 0xB4] @ ''t'' @ [CHR 0xC3, CHR 0xA9] @ '' client''), (''desc'', ''Fichiers de cl'' @ [CHR 0xC3, CHR 0xA9] @ '' PBS, interchangeables avec le client officiel'')]),
    (''service'', [(''title'', ''Service d'' @ [CHR 0x27] @ ''arri'' @ [CHR 0xC3, CHR 0xA8] @ ''re-plan''), (''desc'', ''Les planifications s'' @ [CHR 0x27] @ ''ex'' @ [CHR 0xC3, CHR 0xA9] @ ''cutent sans session ouverte, sous Windows et Linux'')]),
    (''multiPbs'', [(''title'', ''Plusieurs serveurs PBS''), (''desc'', ''Un serveur par ensemble de sauvegarde, avec '' @ [CHR 0xC3, CHR 0xA9] @ ''pinglage de l'' @ [CHR 0x27] @ ''empreinte du certificat'')]),
    (''compatible'', [(''title'', ''Compatible avec les outils Proxmox''), (''desc'', ''Les sauvegardes se restaurent avec le client officiel, et inversement'')]),
    (''languages'', [(''title'', ''Interface en 18 langues''), (''desc'', [CHR 0xD0, CHR 0x91, CHR 0xD1, CHR 0x8A, CHR 0xD0, CHR 0xBB, CHR 0xD0, CHR 0xB3, CHR 0xD0, CHR 0xB0, CHR 0xD1, CHR 0x80, CHR 0xD1, CHR 0x81, CHR 0xD0, CHR 0xBA, CHR 0xD0, CHR 0xB8] @ '', '' @ [CHR 0xC4, CHR 0x8C] @ ''e'' @ [CHR 0xC5, CHR 0xA1] @ ''tina, Deutsch, English, Espa'' @ [CHR 0xC3, CHR 0xB1] @ ''ol, '' @ [CHR 0xCE, CHR 0x95, CHR 0xCE, CHR 0xBB, CHR 0xCE, CHR 0xBB, CHR 0xCE, CHR 0xB7, CHR 0xCE, CHR 0xBD, CHR 0xCE, CHR 0xB9, CHR 0xCE, CHR 0xBA, CHR 0xCE, CHR 0xAC] @ '', Fran'' @ [CHR 0xC3, CHR 0xA7] @ ''ais, Magyar, Italiano, Latvie'' @ [CHR 0xC5, CHR 0xA1] @ ''u, Lietuvi'' @ [CHR 0xC5, CHR 0xB3] @ '', Nederlands, Polski, Portugu'' @ [CHR 0xC3, CHR 0xAA] @ ''s, Rom'' @ [CHR 0xC3, CHR 0xA2] @ ''n'' @ [CHR 0xC4, CHR 0x83] @ '', Sloven'' @ [CHR 0xC4, CHR 0x8D] @ ''ina, T'' @ [CHR 0xC3, CHR 0xBC] @ ''rk'' @ [CHR 0xC3, CHR 0xA7] @ ''e, '' @ [CHR 0xD0, CHR 0xA3, CHR 0xD0, CHR 0xBA, CHR 0xD1, CHR 0x80, CHR 0xD0, CHR 0xB0, CHR 0xD1, CHR 0x97, CHR 0xD0, CHR 0xBD, CHR 0xD1, CHR 0x81, CHR 0xD1, CHR 0x8C, CHR 0xD0, CHR 0xBA, CHR 0xD0, CHR 0xB0])])]"

definition fr_texts :: "(string \<times> string) list" where
  "fr_texts = fr_texts_1 @ fr_texts_2 @ fr_texts_3 @ fr_texts_4 @ fr_texts_5 @ fr_texts_6 @ fr_texts_7 @ fr_texts_8 @ fr_texts_9 @ fr_texts_10 @ fr_texts_11 @ fr_texts_12 @ fr_texts_13"

text \<open>The object: where a key is given twice, the later text counts.\<close>

definition fr_table :: tr_value where
  "fr_table = TrGroup (rev (map (\<lambda>(k, v). (k, TrText v)) fr_texts @
     [(''featuresList'', TrGroup (map (\<lambda>(k, fs). (k, TrGroup (map (\<lambda>(f, v). (f, TrText v)) fs))) fr_features))]))"

end
