(* ===== verification/Texts.thy ===== *)
theory Texts
  imports TextsEn TextsFr
begin

text \<open>
  What holds of the English and French tables together with the lookup: every text is well formed,
  French lacks none of the English keys, and no placeholder of a text ever shows when the caller
  gives the values the English text asks for. The keys that only French has are the plural forms
  \<open>fr_only\<close>.
\<close>

definition the_tables :: tables where
  "the_tables = [(''fr'', fr_table), (''en'', en_table)]"

definition fr_only :: "string list" where
  "fr_only = [''schedEvery_minutes_one'',
    ''schedEvery_hours_one'',
    ''schedEvery_days_one'',
    ''schedEvery_weeks_one'',
    ''schedEvery_months_one'',
    ''schedEvery_years_one'',
    ''schedCountsFrom_days_one'',
    ''schedCountsFrom_weeks_one'',
    ''schedCountsFrom_months_one'',
    ''schedCountsFrom_years_one'']"

section \<open>Comparing the parts of two tables\<close>

definition holes_of :: "(string \<times> string) list \<Rightarrow> (string \<times> string list) list" where
  "holes_of es = the (scan_texts es)"

text \<open>Every element of the first list is in the second, checked along both lists as long as they
  agree.\<close>

fun keys_within :: "string list \<Rightarrow> string list \<Rightarrow> string list \<Rightarrow> bool" where
  "keys_within [] ys all_ys = True"
| "keys_within (x # xs) [] all_ys = (x \<in> set all_ys \<and> keys_within xs [] all_ys)"
| "keys_within (x # xs) (y # ys) all_ys =
     (if x = y then keys_within xs ys all_ys
      else if y \<in> set fr_only then keys_within (x # xs) ys all_ys
      else x \<in> set all_ys \<and> keys_within xs ys all_ys)"

lemma keys_within_sound:
  "keys_within xs ys all_ys \<Longrightarrow> set ys \<subseteq> set all_ys \<Longrightarrow> set xs \<subseteq> set all_ys"
  by (induction xs ys all_ys rule: keys_within.induct) (auto split: if_splits)

text \<open>The same for the placeholders of the second table's texts.\<close>

fun holes_within :: "(string \<times> string list) list \<Rightarrow> (string \<times> string list) list \<Rightarrow> bool" where
  "holes_within [] hs = True"
| "holes_within ((k, ns) # fs) [] = (k \<in> set fr_only \<and> holes_within fs [])"
| "holes_within ((k, ns) # fs) ((k', ns') # hs) =
     (if k = k' then list_all (\<lambda>n. n \<in> set ns') ns \<and> holes_within fs hs
      else k \<in> set fr_only \<and> holes_within fs ((k', ns') # hs))"

lemma holes_within_sound:
  "holes_within fs hs \<Longrightarrow> (k, ns) \<in> set fs \<Longrightarrow> k \<notin> set fr_only \<Longrightarrow>
     \<exists>ns'. (k, ns') \<in> set hs \<and> set ns \<subseteq> set ns'"
  by (induction fs hs rule: holes_within.induct) (auto simp: list_all_iff split: if_splits)

lemma holes_within_refl: "holes_within hs hs"
  by (induction hs) (auto simp: list_all_iff)

lemma keys_within_refl: "keys_within ks ks ys"
  by (induction ks) auto

definition part_ok :: "(string \<times> string) list \<Rightarrow> (string \<times> string) list \<Rightarrow> bool" where
  "part_ok es fs \<longleftrightarrow> scan_texts es \<noteq> None \<and> scan_texts fs \<noteq> None \<and>
     keys_within (map fst es) (map fst fs) (map fst fs) \<and> holes_within (holes_of fs) (holes_of es)"

lemma part_same:
  "map fst es = ks \<Longrightarrow> map fst fs = ks \<Longrightarrow> scan_texts es = Some hs \<Longrightarrow> scan_texts fs = Some hs \<Longrightarrow> part_ok es fs"
  by (simp add: part_ok_def holes_of_def holes_within_refl keys_within_refl)

lemma part_1: "part_ok en_texts_1 fr_texts_1"
  by (rule part_same [OF en_texts_1_keys fr_texts_1_keys en_texts_1_holes fr_texts_1_holes])

lemma part_2: "part_ok en_texts_2 fr_texts_2"
  by (rule part_same [OF en_texts_2_keys fr_texts_2_keys en_texts_2_holes fr_texts_2_holes])

lemma part_3: "part_ok en_texts_3 fr_texts_3"
  by (rule part_same [OF en_texts_3_keys fr_texts_3_keys en_texts_3_holes fr_texts_3_holes])

lemma part_4: "part_ok en_texts_4 fr_texts_4"
  by (rule part_same [OF en_texts_4_keys fr_texts_4_keys en_texts_4_holes fr_texts_4_holes])

lemma part_5: "part_ok en_texts_5 fr_texts_5"
  by (rule part_same [OF en_texts_5_keys fr_texts_5_keys en_texts_5_holes fr_texts_5_holes])

lemma part_6: "part_ok en_texts_6 fr_texts_6"
  by (rule part_same [OF en_texts_6_keys fr_texts_6_keys en_texts_6_holes fr_texts_6_holes])

lemma part_7: "part_ok en_texts_7 fr_texts_7"
  by (rule part_same [OF en_texts_7_keys fr_texts_7_keys en_texts_7_holes fr_texts_7_holes])

lemma part_8: "part_ok en_texts_8 fr_texts_8"
  by (rule part_same [OF en_texts_8_keys fr_texts_8_keys en_texts_8_holes fr_texts_8_holes])

lemma part_9: "part_ok en_texts_9 fr_texts_9"
  by (rule part_same [OF en_texts_9_keys fr_texts_9_keys en_texts_9_holes fr_texts_9_holes])

lemma part_10: "part_ok en_texts_10 fr_texts_10"
proof -
  have "keys_within (map fst en_texts_10) (map fst fr_texts_10) (map fst fr_texts_10)"
    unfolding en_texts_10_keys fr_texts_10_keys by code_simp
  moreover have "holes_within (holes_of fr_texts_10) (holes_of en_texts_10)"
    unfolding holes_of_def en_texts_10_holes fr_texts_10_holes option.sel by code_simp
  ultimately show ?thesis by (simp add: part_ok_def en_texts_10_holes fr_texts_10_holes)
qed

lemma part_11: "part_ok en_texts_11 fr_texts_11"
  by (rule part_same [OF en_texts_11_keys fr_texts_11_keys en_texts_11_holes fr_texts_11_holes])

lemma part_12: "part_ok en_texts_12 fr_texts_12"
proof -
  have "keys_within (map fst en_texts_12) (map fst fr_texts_12) (map fst fr_texts_12)"
    unfolding en_texts_12_keys fr_texts_12_keys by code_simp
  moreover have "holes_within (holes_of fr_texts_12) (holes_of en_texts_12)"
    unfolding holes_of_def en_texts_12_holes fr_texts_12_holes option.sel by code_simp
  ultimately show ?thesis by (simp add: part_ok_def en_texts_12_holes fr_texts_12_holes)
qed

lemma part_13: "part_ok en_texts_13 fr_texts_13"
  by (rule part_same [OF en_texts_13_keys fr_texts_13_keys en_texts_13_holes fr_texts_13_holes])

lemma fr_only_1: "list_all (\<lambda>k. k \<notin> set fr_only) (map fst en_texts_1)"
  unfolding en_texts_1_keys by code_simp

lemma fr_only_2: "list_all (\<lambda>k. k \<notin> set fr_only) (map fst en_texts_2)"
  unfolding en_texts_2_keys by code_simp

lemma fr_only_3: "list_all (\<lambda>k. k \<notin> set fr_only) (map fst en_texts_3)"
  unfolding en_texts_3_keys by code_simp

lemma fr_only_4: "list_all (\<lambda>k. k \<notin> set fr_only) (map fst en_texts_4)"
  unfolding en_texts_4_keys by code_simp

lemma fr_only_5: "list_all (\<lambda>k. k \<notin> set fr_only) (map fst en_texts_5)"
  unfolding en_texts_5_keys by code_simp

lemma fr_only_6: "list_all (\<lambda>k. k \<notin> set fr_only) (map fst en_texts_6)"
  unfolding en_texts_6_keys by code_simp

lemma fr_only_7: "list_all (\<lambda>k. k \<notin> set fr_only) (map fst en_texts_7)"
  unfolding en_texts_7_keys by code_simp

lemma fr_only_8: "list_all (\<lambda>k. k \<notin> set fr_only) (map fst en_texts_8)"
  unfolding en_texts_8_keys by code_simp

lemma fr_only_9: "list_all (\<lambda>k. k \<notin> set fr_only) (map fst en_texts_9)"
  unfolding en_texts_9_keys by code_simp

lemma fr_only_10: "list_all (\<lambda>k. k \<notin> set fr_only) (map fst en_texts_10)"
  unfolding en_texts_10_keys by code_simp

lemma fr_only_11: "list_all (\<lambda>k. k \<notin> set fr_only) (map fst en_texts_11)"
  unfolding en_texts_11_keys by code_simp

lemma fr_only_12: "list_all (\<lambda>k. k \<notin> set fr_only) (map fst en_texts_12)"
  unfolding en_texts_12_keys by code_simp

lemma fr_only_13: "list_all (\<lambda>k. k \<notin> set fr_only) (map fst en_texts_13)"
  unfolding en_texts_13_keys by code_simp

section \<open>The whole tables\<close>

definition agree :: "(string \<times> string) list \<Rightarrow> (string \<times> string) list \<Rightarrow> bool" where
  "agree es fs \<longleftrightarrow> scan_texts es \<noteq> None \<and> scan_texts fs \<noteq> None \<and> set (map fst es) \<subseteq> set (map fst fs) \<and>
     (\<forall>k ns. (k, ns) \<in> set (holes_of fs) \<and> k \<notin> set fr_only \<longrightarrow> (\<exists>ns'. (k, ns') \<in> set (holes_of es) \<and> set ns \<subseteq> set ns'))"

lemma part_ok_agree: "part_ok es fs \<Longrightarrow> agree es fs"
  unfolding part_ok_def agree_def using keys_within_sound holes_within_sound by blast

lemma agree_append:
  assumes "agree es fs" "agree es' fs'"
  shows "agree (es @ es') (fs @ fs')"
proof -
  obtain a b c d where s: "scan_texts es = Some a" "scan_texts es' = Some b" "scan_texts fs = Some c" "scan_texts fs' = Some d"
    using assms by (auto simp: agree_def)
  have h: "holes_of es = a" "holes_of es' = b" "holes_of fs = c" "holes_of fs' = d"
    "holes_of (es @ es') = a @ b" "holes_of (fs @ fs') = c @ d"
    using s scan_texts_append by (simp_all add: holes_of_def)
  have "scan_texts (es @ es') \<noteq> None" "scan_texts (fs @ fs') \<noteq> None"
    using s scan_texts_append by auto
  with assms show ?thesis unfolding agree_def h map_append set_append by blast
qed

lemma tables_agree: "agree en_texts fr_texts"
  unfolding en_texts_def fr_texts_def
  by (intro agree_append part_ok_agree part_1 part_2 part_3 part_4 part_5 part_6 part_7 part_8 part_9 part_10 part_11 part_12 part_13)

lemma fr_only_en: "k \<in> set (map fst en_texts) \<Longrightarrow> k \<notin> set fr_only"
proof -
  have "list_all (\<lambda>k. k \<notin> set fr_only) (map fst en_texts)"
    unfolding en_texts_def map_append list_all_append by (intro conjI fr_only_1 fr_only_2 fr_only_3 fr_only_4 fr_only_5 fr_only_6 fr_only_7 fr_only_8 fr_only_9 fr_only_10 fr_only_11 fr_only_12 fr_only_13)
  then show "k \<in> set (map fst en_texts) \<Longrightarrow> k \<notin> set fr_only" unfolding list_all_iff by blast
qed

text \<open>The values an English text asks for.\<close>

definition needed :: "string \<Rightarrow> string list" where
  "needed key = concat (map snd (filter (\<lambda>e. fst e = key) (holes_of en_texts)))"

lemma needed_mem: "(key, ns) \<in> set (holes_of en_texts) \<Longrightarrow> set ns \<subseteq> set (needed key)"
  unfolding needed_def by fastforce

lemma table_text:
  assumes "key \<in> fst ` set es" "key \<noteq> fst g"
  shows "\<exists>v. (key, v) \<in> set es \<and> map_of (rev (map (\<lambda>(k, v). (k, TrText v)) es @ [g])) key = Some (TrText v)"
proof -
  let ?m = "rev (map (\<lambda>(k, v). (k, TrText v)) es)"
  have "key \<in> fst ` set ?m" using assms(1) by force
  then obtain x where x: "map_of ?m key = Some x" by (metis domD dom_map_of_conv_image_fst)
  then have "(key, x) \<in> set ?m" by (rule map_of_SomeD)
  then obtain v where "(key, v) \<in> set es" "x = TrText v" by auto
  with x assms(2) show ?thesis by (cases g) (auto intro!: exI [of _ v])
qed

lemma texts_scanned:
  "(key, v) \<in> set en_texts \<Longrightarrow> \<exists>ns. hole_names None v = Some ns \<and> set ns \<subseteq> set (needed key)"
  "(key, v) \<in> set fr_texts \<Longrightarrow> key \<in> fst ` set en_texts \<Longrightarrow> \<exists>ns. hole_names None v = Some ns \<and> set ns \<subseteq> set (needed key)"
proof -
  obtain a b where s: "scan_texts en_texts = Some a" "scan_texts fr_texts = Some b"
    using tables_agree by (auto simp: agree_def)
  then have h: "holes_of en_texts = a" "holes_of fr_texts = b" by (simp_all add: holes_of_def)
  show "\<exists>ns. hole_names None v = Some ns \<and> set ns \<subseteq> set (needed key)" if "(key, v) \<in> set en_texts"
    using scan_texts_mem [OF s(1) that] needed_mem h(1) by fastforce
  show "\<exists>ns. hole_names None v = Some ns \<and> set ns \<subseteq> set (needed key)"
    if kv: "(key, v) \<in> set fr_texts" and ke: "key \<in> fst ` set en_texts"
  proof -
    obtain ns where ns: "hole_names None v = Some ns" "ns = [] \<or> (key, ns) \<in> set b"
      using scan_texts_mem [OF s(2) kv] by blast
    have "key \<notin> set fr_only" using fr_only_en ke by simp
    with ns(2) h(2) tables_agree obtain ns' where "ns = [] \<or> (key, ns') \<in> set (holes_of en_texts) \<and> set ns \<subseteq> set ns'"
      unfolding agree_def by blast
    then have "set ns \<subseteq> set (needed key)" using needed_mem by fastforce
    with ns(1) show ?thesis by blast
  qed
qed

text \<open>C12: no placeholder ever shows. For every key of the English texts, in English and in French,
  the lookup gives a text of that language itself, and when the values that the English text asks
  for are given (values without an opening brace) no brace is left in it: every text of both tables
  is well formed, French has them all, and asks for nothing English does not.\<close>
theorem no_placeholder_shows:
  assumes "lang = ''en'' \<or> lang = ''fr''" "key \<in> fst ` set en_texts" "key \<noteq> ''featuresList''" "CHR ''.'' \<notin> set key"
    "set (needed key) \<subseteq> fst ` set params" "\<forall>(p, v) \<in> set params. CHR ''}'' \<notin> set p \<and> CHR ''{'' \<notin> set v"
  shows "\<exists>v. (key, v) \<in> set (if lang = ''en'' then en_texts else fr_texts) \<and>
    tr the_tables lang key params = TrText (fill params v) \<and> CHR ''{'' \<notin> set (fill params v)"
proof -
  have fr: "key \<in> fst ` set fr_texts" using assms(2) tables_agree by (auto simp: agree_def)
  define es where "es = (if lang = ''en'' then en_texts else fr_texts)"
  define g where "g = (''featuresList'', TrGroup (map (\<lambda>(k, fs). (k, TrGroup (map (\<lambda>(f, v). (f, TrText v)) fs)))
     (if lang = ''en'' then en_features else fr_features)))"
  have k: "key \<in> fst ` set es" "key \<noteq> fst g" using assms(2,3) fr by (simp_all add: es_def g_def)
  obtain v where v: "(key, v) \<in> set es"
    and m: "map_of (rev (map (\<lambda>(k, v). (k, TrText v)) es @ [g])) key = Some (TrText v)"
    using table_text [OF k] by blast
  have t: "map_of the_tables lang = Some (TrGroup (rev (map (\<lambda>(k, v). (k, TrText v)) es @ [g])))"
    using assms(1) by (auto simp: the_tables_def en_table_def fr_table_def es_def g_def)
  have "tr_lookup the_tables [key] lang = Some (TrText v)"
    unfolding tr_lookup_def t tr_walk.simps option.case tr_value.case by (rule m)
  then have r: "tr the_tables lang key params = TrText (fill params v)"
    unfolding tr_def Let_def split_on_id [OF assms(4)] by simp
  have "\<exists>ns. hole_names None v = Some ns \<and> set ns \<subseteq> set (needed key)"
    using texts_scanned [of key v] v assms(2) by (cases "lang = ''en''") (simp_all add: es_def)
  then obtain ns where "hole_names None v = Some ns" "set ns \<subseteq> set (needed key)" by blast
  with fill_no_brace [of v ns params] assms(5,6) have "CHR ''{'' \<notin> set (fill params v)" by blast
  with r v show ?thesis unfolding es_def by blast
qed

lemmas en_scan = scan_texts_append [OF en_texts_1_holes
    scan_texts_append [OF en_texts_2_holes
    scan_texts_append [OF en_texts_3_holes
    scan_texts_append [OF en_texts_4_holes
    scan_texts_append [OF en_texts_5_holes
    scan_texts_append [OF en_texts_6_holes
    scan_texts_append [OF en_texts_7_holes
    scan_texts_append [OF en_texts_8_holes
    scan_texts_append [OF en_texts_9_holes
    scan_texts_append [OF en_texts_10_holes
    scan_texts_append [OF en_texts_11_holes
    scan_texts_append [OF en_texts_12_holes en_texts_13_holes]]]]]]]]]]], folded en_texts_def]

text \<open>In a French window'' the count of the queue shows with its number.\<close>

theorem no_placeholder_shows_witness:
  "\<exists>v. tr the_tables ''fr'' ''queuedCountMany'' [(''n'', ''3'')] = TrText (fill [(''n'', ''3'')] v) \<and>
     CHR ''{'' \<notin> set (fill [(''n'', ''3'')] v)"
proof -
  have "''queuedCountMany'' \<in> fst ` set en_texts_4"
    unfolding set_map [symmetric] en_texts_4_keys by code_simp
  then have k: "''queuedCountMany'' \<in> fst ` set en_texts" unfolding en_texts_def set_append by blast
  have "needed ''queuedCountMany'' = [''n'']"
    unfolding needed_def holes_of_def en_scan option.sel by code_simp
  then have "\<exists>v. (''queuedCountMany'', v) \<in> set fr_texts \<and>
      tr the_tables ''fr'' ''queuedCountMany'' [(''n'', ''3'')] = TrText (fill [(''n'', ''3'')] v) \<and>
      CHR ''{'' \<notin> set (fill [(''n'', ''3'')] v)"
    using no_placeholder_shows [of "''fr''" "''queuedCountMany''" "[(''n'', ''3'')]"] k by simp
  then show ?thesis by blast
qed

end
