(* ===== verification/RestoreRun.thy ===== *)
theory RestoreRun
  imports Runs
begin

text \<open>
  The restore that runs, and its card (\<open>App.jsx\<close>): the events of the backend, the start of a restore
  from the three restore pages, and the rows the card shows. The waiting list, the status line and the
  figures of the backup card are those of \<open>Runs\<close>. Times are milliseconds and never 0. A key that
  an object does not have reads as \<open>undefined\<close>: \<open>NoEta\<close> for \<open>eta\<close>, which the code sets to \<open>null\<close>
  elsewhere, \<open>None\<close> for the others.
\<close>

section \<open>State\<close>

datatype eta_field = NoEta | NullEta | Eta rat

record rstats =
  rs_startTime :: "int option"
  rs_bytesDone :: int
  rs_bytesTotal :: int
  rs_speed :: rat
  rs_eta :: eta_field
  rs_etaHold :: "held option"
  rs_lastMoveAt :: "int option"
  rs_avgSpeed :: "rat option"

definition EMPTY_RESTORE_STATS :: rstats where
  "EMPTY_RESTORE_STATS = \<lparr>rs_startTime = None, rs_bytesDone = 0, rs_bytesTotal = 0, rs_speed = 0, rs_eta = NullEta,
     rs_etaHold = None, rs_lastMoveAt = None, rs_avgSpeed = None\<rparr>"

text \<open>What a start sets: an object with four keys.\<close>

definition started_stats :: rstats where
  "started_stats = \<lparr>rs_startTime = None, rs_bytesDone = 0, rs_bytesTotal = 0, rs_speed = 0, rs_eta = NoEta,
     rs_etaHold = None, rs_lastMoveAt = None, rs_avgSpeed = None\<rparr>"

record rr =
  rr_bk :: bk
  rr_loading :: bool
  rr_name :: string
  rr_stage :: string
  rr_detail :: string
  rr_file :: string
  rr_progress :: int
  rr_stats :: rstats
  rr_samples :: "sample list"
  rr_stageStart :: "string \<times> int"
  rr_stageEta :: "held option"

definition rr0 :: rr where
  "rr0 = \<lparr>rr_bk = bk0, rr_loading = False, rr_name = [], rr_stage = [], rr_detail = [], rr_file = [], rr_progress = 0,
     rr_stats = EMPTY_RESTORE_STATS, rr_samples = [], rr_stageStart = ([], 0), rr_stageEta = None\<rparr>"

section \<open>The start of a restore\<close>

text \<open>\<open>startSetRestore\<close>; the Restore tab says in the status line which snapshot is restored, too.\<close>

definition startSetRestore :: "rr \<Rightarrow> rr" where
  "startSetRestore s = s\<lparr>rr_loading := True, rr_progress := 0, rr_stats := started_stats\<rparr>"

definition tab_restore_started :: "string \<Rightarrow> rr \<Rightarrow> rr" where
  "tab_restore_started said s =
     (let s = startSetRestore s in s\<lparr>rr_bk := say None said ''info'' False (rr_bk s)\<rparr>)"

definition restore_not_started :: "string \<Rightarrow> rr \<Rightarrow> rr" where
  "restore_not_started err s = s\<lparr>rr_loading := False, rr_bk := say (Some Cross) err ''error'' False (rr_bk s)\<rparr>"

section \<open>The events\<close>

definition on_restore_progress :: "int \<Rightarrow> rat \<Rightarrow> string \<Rightarrow> string \<Rightarrow> rr \<Rightarrow> rr" where
  "on_restore_progress now percent message name s =
     (case queued_name message of
        Some waiting \<Rightarrow> s\<lparr>rr_bk := enqueue waiting (rr_bk s)\<rparr>
      | None \<Rightarrow>
          (let st = rr_stats s
           in s\<lparr>rr_bk := say None message ''info'' True (unwait name (rr_bk s)),
                rr_progress := math_round (percent * 100),
                rr_name := (if name \<noteq> [] then name else rr_name s),
                rr_stats := (if rs_startTime st \<noteq> None then st else st\<lparr>rs_startTime := Some now\<rparr>)\<rparr>))"

definition on_restore_stage :: "int \<Rightarrow> string \<Rightarrow> string \<Rightarrow> rr \<Rightarrow> rr" where
  "on_restore_stage now stage detail s =
     s\<lparr>rr_stageStart := (if stage \<noteq> fst (rr_stageStart s) then (stage, now) else rr_stageStart s),
       rr_stage := stage, rr_detail := detail,
       rr_file := (if stage \<noteq> ''transferring'' then [] else rr_file s)\<rparr>"

definition on_restore_file :: "string \<Rightarrow> rr \<Rightarrow> rr" where
  "on_restore_file path s = s\<lparr>rr_file := path\<rparr>"

definition push_restore_sample :: "int \<Rightarrow> int \<Rightarrow> sample list \<Rightarrow> sample list" where
  "push_restore_sample now got ss =
     dropWhile (\<lambda>x. now - sm_t x > 180000)
       (ss @ [\<lparr>sm_t = now, sm_bytes = got, sm_read = 0, sm_files = 0, sm_uploaded = 0, sm_sent = 0\<rparr>])"

definition restore_eta :: "int \<Rightarrow> int \<Rightarrow> rat \<Rightarrow> rat option" where
  "restore_eta got whole etaRate =
     (if whole > 0 \<and> got \<ge> whole then Some 0
      else if etaRate > 0 \<and> whole > got then Some (of_int (math_round (of_int (whole - got) / etaRate)))
      else None)"

definition new_restore_stats :: "int \<Rightarrow> int \<Rightarrow> int \<Rightarrow> sample list \<Rightarrow> rstats \<Rightarrow> rstats" where
  "new_restore_stats now got whole ss prev =
     (let startTime = (case rs_startTime prev of Some t \<Rightarrow> t | None \<Rightarrow> now);
          elapsed = of_int (now - startTime) / 1000 :: rat;
          eta = restore_eta got whole (or_average (windowRate ss sm_bytes 120000 now) got elapsed);
          lastMoveAt = (if got > rs_bytesDone prev then now
            else case rs_lastMoveAt prev of Some t \<Rightarrow> t | None \<Rightarrow> now);
          moveSecs = of_int (lastMoveAt - startTime) / 1000 :: rat;
          etaHold = holdEta (rs_etaHold prev) eta now [] ETA_HOLD_MS
      in \<lparr>rs_startTime = Some startTime, rs_bytesDone = got, rs_bytesTotal = whole,
          rs_speed = or_average (windowRate ss sm_bytes 10000 now) got elapsed,
          rs_eta = (case h_eta etaHold of None \<Rightarrow> NullEta | Some e \<Rightarrow> Eta e), rs_etaHold = Some etaHold,
          rs_lastMoveAt = Some lastMoveAt,
          rs_avgSpeed = (if moveSecs > 0 then Some (of_int got / moveSecs) else rs_avgSpeed prev)\<rparr>)"

definition on_restore_stats :: "int \<Rightarrow> int \<Rightarrow> int \<Rightarrow> rr \<Rightarrow> rr" where
  "on_restore_stats now got whole s =
     (let ss = push_restore_sample now got (rr_samples s)
      in s\<lparr>rr_samples := ss, rr_stats := new_restore_stats now got whole ss (rr_stats s)\<rparr>)"

record restore_end =
  re_success :: bool
  re_entry :: entry
  re_verify_ran :: bool
  re_verified :: int

definition restore_said :: "translate \<Rightarrow> (rat \<Rightarrow> string) \<Rightarrow> (rat \<Rightarrow> nat \<Rightarrow> string) \<Rightarrow> restore_end \<Rightarrow> string" where
  "restore_said t fmt fixed d =
     rd_text (renderLocalizedMessage t fmt fixed (re_entry d)) @
     (if re_success d \<and> re_verify_ran d
      then '' ('' @ t ''restoreVerifiedSuffix'' [(''n'', fmt (of_int (re_verified d)))] @ '')'' else [])"

definition on_restore_complete :: "translate \<Rightarrow> (rat \<Rightarrow> string) \<Rightarrow> (rat \<Rightarrow> nat \<Rightarrow> string) \<Rightarrow> restore_end \<Rightarrow> rr \<Rightarrow> rr" where
  "on_restore_complete t fmt fixed d s =
     s\<lparr>rr_loading := False, rr_name := [], rr_stage := [], rr_detail := [], rr_file := [],
       rr_progress := (if re_success d then 100 else 0), rr_stats := EMPTY_RESTORE_STATS, rr_samples := [],
       rr_bk := say (Some (if re_success d then Tick else Cross)) (restore_said t fmt fixed d)
         (if re_success d then ''success'' else ''error'') False (rr_bk s)\<rparr>"

section \<open>The card\<close>

text \<open>\<open>/([\d,]+) of ([\d,]+)/\<close>: its first match, and \<open>parseInt\<close> of a number without its commas.\<close>

definition count_char :: "char \<Rightarrow> bool" where
  "count_char c \<longleftrightarrow> is_digit c \<or> c = CHR '',''"

fun match_counts :: "string \<Rightarrow> (string \<times> string) option" where
  "match_counts [] = None"
| "match_counts (c # s) =
     (let n = takeWhile count_char (c # s)
      in case strip_prefix '' of '' (dropWhile count_char (c # s)) of
           Some r \<Rightarrow> if n \<noteq> [] \<and> takeWhile count_char r \<noteq> [] then Some (n, takeWhile count_char r) else match_counts s
         | None \<Rightarrow> match_counts s)"

definition count_value :: "string \<Rightarrow> int option" where
  "count_value s = (let ds = filter is_digit s in if ds = [] then None else Some (int (digits_value ds)))"

definition counts_of :: "string \<Rightarrow> (int \<times> int) option" where
  "counts_of msg =
     (case match_counts msg of
        None \<Rightarrow> None
      | Some (a, b) \<Rightarrow> (case (count_value a, count_value b) of (Some n, Some whole) \<Rightarrow> Some (n, whole) | _ \<Rightarrow> None))"

definition afterTransfer :: "rr \<Rightarrow> bool" where
  "afterTransfer s \<longleftrightarrow> rr_stage s \<in> {''dirtimes'', ''acls'', ''created'', ''verifying''}"

definition transferDone :: "rr \<Rightarrow> bool" where
  "transferDone s \<longleftrightarrow> afterTransfer s \<or>
     rs_bytesTotal (rr_stats s) > 0 \<and> rs_bytesDone (rr_stats s) \<ge> rs_bytesTotal (rr_stats s)"

definition status_message :: "rr \<Rightarrow> string" where
  "status_message s = (case status (rr_bk s) of Some l \<Rightarrow> sl_text l | None \<Rightarrow> [])"

text \<open>The seconds left of a stage after the transfer, from its own count.\<close>

definition stage_remaining :: "int \<Rightarrow> rr \<Rightarrow> rat option" where
  "stage_remaining now s =
     (case counts_of (status_message s) of
        None \<Rightarrow> None
      | Some (n, whole) \<Rightarrow>
          (let (stage, t) = rr_stageStart s; secs = of_int (now - t) / 1000 :: rat
           in if stage = rr_stage s \<and> t > 0 \<and> n > 0 \<and> whole \<ge> n \<and> secs > 1
              then Some (of_int (math_round (of_int (whole - n) * secs / of_int n))) else None))"

text \<open>The time left, the estimate held, and the reference that holds a later stage's.\<close>

definition card_remaining :: "int \<Rightarrow> rr \<Rightarrow> eta_field \<times> held option" where
  "card_remaining now s =
     (if afterTransfer s
      then let h = holdEta (rr_stageEta s) (stage_remaining now s) now (rr_stage s) ETA_HOLD_MS
           in (case h_eta h of None \<Rightarrow> NullEta | Some e \<Rightarrow> Eta e, Some h)
      else (rs_eta (rr_stats s), rs_etaHold (rr_stats s)))"

datatype row = Calculating | Finishing | Shown string

record card_rows =
  cr_started :: row
  cr_finish :: row
  cr_elapsed :: row
  cr_remaining :: row
  cr_speed :: row
  cr_downloaded :: row
  cr_file :: "string option"
  cr_message :: row

text \<open>The forecast's time; \<open>now + undefined * 1000\<close> is no number, which \<open>formatClock\<close> shows as
  nothing, as it does 0.\<close>

definition finish_row :: "(rat \<Rightarrow> string) \<Rightarrow> int \<Rightarrow> rr \<Rightarrow> row" where
  "finish_row clock now s =
     (let (remaining, held) = card_remaining now s;
          by_hold = (case held of Some h \<Rightarrow> finishAt h | None \<Rightarrow> None);
          shown = (\<lambda>x. Shown (if x = 0 then [] else clock x))
      in case remaining of
           NullEta \<Rightarrow> if afterTransfer s then Finishing else Calculating
         | NoEta \<Rightarrow> (case by_hold of Some x \<Rightarrow> shown x | None \<Rightarrow> Shown [])
         | Eta e \<Rightarrow> (case by_hold of Some x \<Rightarrow> shown x | None \<Rightarrow> shown (of_int now + e * 1000)))"

definition remaining_row :: "int \<Rightarrow> rr \<Rightarrow> row" where
  "remaining_row now s =
     (case fst (card_remaining now s) of
        NullEta \<Rightarrow> if afterTransfer s then Finishing else Calculating
      | NoEta \<Rightarrow> Shown (formatDuration 0)
      | Eta e \<Rightarrow> Shown (formatDuration e))"

definition speed_row :: "(string \<Rightarrow> string \<Rightarrow> string) \<Rightarrow> (rat \<Rightarrow> nat \<Rightarrow> string) \<Rightarrow> rr \<Rightarrow> row" where
  "speed_row tl_of fixed s =
     (let st = rr_stats s
      in if transferDone s \<and> (case rs_avgSpeed st of Some v \<Rightarrow> v > 0 | None \<Rightarrow> False)
         then Shown (formatSpeed fixed (rs_avgSpeed st) @ '' '' @ tl_of ''averageSuffix'' ''(average)'')
         else if rs_speed st > 0 then Shown (formatSpeed fixed (Some (rs_speed st))) else Calculating)"

definition restore_rows ::
  "(string \<Rightarrow> string \<Rightarrow> string) \<Rightarrow> (rat \<Rightarrow> nat \<Rightarrow> string) \<Rightarrow> (rat \<Rightarrow> string) \<Rightarrow> int \<Rightarrow> rr \<Rightarrow> card_rows" where
  "restore_rows tl_of fixed clock now s =
     (let st = rr_stats s
      in \<lparr>cr_started = (case rs_startTime st of Some t \<Rightarrow> Shown (clock (of_int t)) | None \<Rightarrow> Calculating),
          cr_finish = finish_row clock now s,
          cr_elapsed = (case rs_startTime st of Some t \<Rightarrow> Shown (formatDuration (of_int (now - t) / 1000)) | None \<Rightarrow> Calculating),
          cr_remaining = remaining_row now s,
          cr_speed = speed_row tl_of fixed s,
          cr_downloaded = (if rs_bytesTotal st > 0
             then Shown (formatBytesDual fixed (Some (rs_bytesDone st)) @ '' / '' @ formatBytesDual fixed (Some (rs_bytesTotal st)))
             else Calculating),
          cr_file = (if rr_file s \<noteq> [] \<and> rr_stage s \<in> {''transferring'', ''verifying''} then Some (rr_file s) else None),
          cr_message = (case status (rr_bk s) of
             Some l \<Rightarrow> if sl_text l \<noteq> [] \<and> sl_kind l = ''info'' then Shown (sl_text l) else Calculating
           | None \<Rightarrow> Calculating)\<rparr>)"

text \<open>A roll back that backs up first shows the progress of that backup.\<close>

definition backupFirstActive :: "rr \<Rightarrow> bool" where
  "backupFirstActive s \<longleftrightarrow> rr_stage s = ''backupfirst'' \<and> running (rr_bk s)"

definition shownRestorePct :: "rr \<Rightarrow> int" where
  "shownRestorePct s = (if backupFirstActive s then progress (rr_bk s) else rr_progress s)"

text \<open>What a drawing of the card leaves behind.\<close>

definition card_drawn :: "int \<Rightarrow> rr \<Rightarrow> rr" where
  "card_drawn now s = (if afterTransfer s \<and> rr_loading s then s\<lparr>rr_stageEta := snd (card_remaining now s)\<rparr> else s)"

text \<open>The backup card is up from the start of a backup to its end, and never reads 0%.\<close>

definition backupCardActive :: "bk \<Rightarrow> bool" where
  "backupCardActive st \<longleftrightarrow> progress st < 100 \<and> (running st \<or> progress st > 0)"

definition shownProgress :: "bk \<Rightarrow> int" where
  "shownProgress st = max 1 (progress st)"

text \<open>The bar of a wait for the server: its seconds, the hint, and the width in percent (none for the stripe).\<close>

record wait_view =
  wv_secs :: int
  wv_hint :: bool
  wv_width :: "int option"

definition WaitBar :: "int \<Rightarrow> int option \<Rightarrow> bool \<Rightarrow> rat option \<Rightarrow> wait_view" where
  "WaitBar now startedAt has_hint fraction =
     (let secs = max 0 ((now - (case startedAt of Some t \<Rightarrow> t | None \<Rightarrow> now)) div 1000)
      in \<lparr>wv_secs = secs, wv_hint = (secs \<ge> 15 \<and> has_hint),
          wv_width = (case fraction of Some f \<Rightarrow> if f \<ge> 0 then Some (math_round (min 1 f * 100)) else None | None \<Rightarrow> None)\<rparr>)"

section \<open>Runs of events\<close>

datatype rr_event =
    RProgress rat string string
  | RStage string string
  | RFile string
  | RStats int int
  | RDrawn
  | RCompleted restore_end
  | RStarted
  | RTabStarted string
  | RNotStarted string

definition rr_on :: "translate \<Rightarrow> (rat \<Rightarrow> string) \<Rightarrow> (rat \<Rightarrow> nat \<Rightarrow> string) \<Rightarrow> int \<Rightarrow> rr_event \<Rightarrow> rr \<Rightarrow> rr" where
  "rr_on t fmt fixed now ev s =
     (case ev of
        RProgress p m n \<Rightarrow> on_restore_progress now p m n s
      | RStage st d \<Rightarrow> on_restore_stage now st d s
      | RFile f \<Rightarrow> on_restore_file f s
      | RStats b w \<Rightarrow> on_restore_stats now b w s
      | RDrawn \<Rightarrow> card_drawn now s
      | RCompleted d \<Rightarrow> on_restore_complete t fmt fixed d s
      | RStarted \<Rightarrow> startSetRestore s
      | RTabStarted said \<Rightarrow> tab_restore_started said s
      | RNotStarted err \<Rightarrow> restore_not_started err s)"

definition rr_play ::
  "translate \<Rightarrow> (rat \<Rightarrow> string) \<Rightarrow> (rat \<Rightarrow> nat \<Rightarrow> string) \<Rightarrow> (int \<times> rr_event) list \<Rightarrow> rr \<Rightarrow> rr" where
  "rr_play t fmt fixed evs s = fold (\<lambda>(now, ev). rr_on t fmt fixed now ev) evs s"

lemma rr_play_simps [simp]:
  "rr_play t fmt fixed [] s = s"
  "rr_play t fmt fixed (evs @ [(now, ev)]) s = rr_on t fmt fixed now ev (rr_play t fmt fixed evs s)"
  by (simp_all add: rr_play_def)

section \<open>Before the first figures\<close>

text \<open>The events before the first figures arrive: none of them leaves the transfer.\<close>

definition before_figures :: "rr_event \<Rightarrow> bool" where
  "before_figures ev \<longleftrightarrow>
     (case ev of
        RProgress p m n \<Rightarrow> True
      | RStage st d \<Rightarrow> st \<notin> {''dirtimes'', ''acls'', ''created'', ''verifying''}
      | RFile f \<Rightarrow> True
      | RDrawn \<Rightarrow> True
      | _ \<Rightarrow> False)"

definition no_figures :: "rr \<Rightarrow> bool" where
  "no_figures s \<longleftrightarrow> \<not> afterTransfer s \<and> rs_eta (rr_stats s) = NoEta \<and> rs_etaHold (rr_stats s) = None"

lemma no_figures_on: "no_figures s \<Longrightarrow> before_figures ev \<Longrightarrow> no_figures (rr_on t fmt fixed now ev s)"
  by (cases ev)
    (auto simp: rr_on_def before_figures_def no_figures_def on_restore_progress_def on_restore_stage_def on_restore_file_def
      card_drawn_def afterTransfer_def Let_def split: option.split)

lemma no_figures_play: "no_figures s \<Longrightarrow> list_all (\<lambda>(now, ev). before_figures ev) evs \<Longrightarrow> no_figures (rr_play t fmt fixed evs s)"
proof (induction evs rule: rev_induct)
  case (snoc e evs)
  then show ?case by (cases e) (simp add: no_figures_on)
qed simp

lemma formatDuration_0: "formatDuration 0 = ''0s''"
  by code_simp

text \<open>
  Until its first figures arrive, a restore that has just started reads as if it were done. The time
  left is shown as 0 seconds and the forecast finish as nothing, where the card has "Calculating..."
  for what it does not know: the start sets figures without an estimate, not the empty ones, in
  which the estimate is null. So it stays through whatever else happens before: the connection, the reading of
  the index, the waiting in line.
\<close>
theorem started_restore_reads_zero:
  assumes "\<not> afterTransfer s" "list_all (\<lambda>(_, ev). before_figures ev) evs"
  shows "remaining_row now (rr_play t fmt fixed evs (startSetRestore s)) = Shown ''0s'' \<and>
    finish_row clock now (rr_play t fmt fixed evs (startSetRestore s)) = Shown []"
proof -
  have "no_figures (startSetRestore s)"
    using assms(1) by (simp add: no_figures_def startSetRestore_def started_stats_def afterTransfer_def)
  from no_figures_play [OF this assms(2)]
  have "card_remaining now (rr_play t fmt fixed evs (startSetRestore s)) = (NoEta, None)"
    by (simp add: no_figures_def card_remaining_def)
  then show ?thesis
    by (simp only: remaining_row_def finish_row_def Let_def prod.case fst_conv eta_field.case option.case formatDuration_0)
qed

theorem started_restore_reads_zero_witness:
  "remaining_row 9000 (rr_play (\<lambda>k _. k) (\<lambda>_. []) (\<lambda>_ _. []) [(1000, RProgress (1 / 100) ''Reading'' ''Restore of pc''), (1500, RStage ''locating'' [])]
     (startSetRestore rr0)) = Shown ''0s''"
  using started_restore_reads_zero [of rr0 "[(1000, RProgress (1 / 100) ''Reading'' ''Restore of pc''), (1500, RStage ''locating'' [])]"]
  by (simp add: rr0_def afterTransfer_def before_figures_def)

section \<open>The average speed\<close>

text \<open>What happens while a restore runs, and what its figures say.\<close>

definition going :: "rr_event \<Rightarrow> bool" where
  "going ev \<longleftrightarrow> (case ev of RCompleted d \<Rightarrow> False | RStarted \<Rightarrow> False | RTabStarted x \<Rightarrow> False | RNotStarted x \<Rightarrow> False | _ \<Rightarrow> True)"

definition amounts :: "(int \<times> rr_event) list \<Rightarrow> (int \<times> int) list" where
  "amounts evs = concat (map (\<lambda>(now, ev). case ev of RStats b w \<Rightarrow> [(now, b)] | _ \<Rightarrow> []) evs)"

definition starts_clock :: "rr_event \<Rightarrow> bool" where
  "starts_clock ev \<longleftrightarrow> (case ev of RStats b w \<Rightarrow> True | RProgress p m n \<Rightarrow> queued_name m = None | _ \<Rightarrow> False)"

text \<open>When the clock starts, and when the amount there is now was reached.\<close>

definition began :: "(int \<times> rr_event) list \<Rightarrow> int option" where
  "began evs = map_option fst (List.find (\<lambda>(_, ev). starts_clock ev) evs)"

definition reached :: "(int \<times> int) list \<Rightarrow> int" where
  "reached xs = fst (hd (filter (\<lambda>(_, b). b = snd (last xs)) xs))"

definition figures_ok :: "(int \<times> rr_event) list \<Rightarrow> rstats \<Rightarrow> bool" where
  "figures_ok evs st \<longleftrightarrow> rs_startTime st = began evs \<and>
     (case amounts evs of
        [] \<Rightarrow> rs_bytesDone st = 0 \<and> rs_lastMoveAt st = None \<and> rs_avgSpeed st = None
      | _ \<Rightarrow> (\<exists>t0. began evs = Some t0 \<and> rs_bytesDone st = snd (last (amounts evs)) \<and>
          rs_lastMoveAt st = Some (reached (amounts evs)) \<and>
          rs_avgSpeed st = (if reached (amounts evs) > t0
            then Some (of_int (snd (last (amounts evs))) / (of_int (reached (amounts evs) - t0) / 1000)) else None)))"

lemma find_snoc: "List.find P (xs @ [x]) = (case List.find P xs of Some y \<Rightarrow> Some y | None \<Rightarrow> if P x then Some x else None)"
  by (induction xs) auto

lemma began_snoc:
  "began (evs @ [(now, ev)]) = (case began evs of Some t0 \<Rightarrow> Some t0 | None \<Rightarrow> if starts_clock ev then Some now else None)"
  by (simp add: began_def find_snoc split: option.split)

lemma amounts_snoc:
  "amounts (evs @ [(now, ev)]) = amounts evs @ (case ev of RStats b w \<Rightarrow> [(now, b)] | _ \<Rightarrow> [])"
  by (simp add: amounts_def)

lemma last_amount_le: "xs \<noteq> [] \<Longrightarrow> sorted (map snd (xs @ [(now, b)])) \<Longrightarrow> snd (last xs) \<le> b"
  using last_in_set [of xs] by (simp add: sorted_wrt_append)

lemma reached_snoc:
  assumes "xs \<noteq> []" "sorted (map snd (xs @ [(now, b)]))"
  shows "reached (xs @ [(now, b)]) = (if b > snd (last xs) then now else reached xs)"
proof (cases "b > snd (last xs)")
  case True
  have le: "snd x \<le> snd (last xs)" if "x \<in> set xs" for x
  proof -
    have "sorted (map snd (butlast xs) @ [snd (last xs)])"
      using assms by (metis append_butlast_last_id list.simps(8,9) map_append sorted_wrt_append)
    then have "\<forall>y \<in> set (butlast xs). snd y \<le> snd (last xs)" by (simp add: sorted_wrt_append)
    then show ?thesis using that assms(1) by (metis append_butlast_last_id in_set_conv_decomp order_refl rotate1.simps(2) set_ConsD set_rotate1)
  qed
  have "filter (\<lambda>(_, y). y = b) xs = []"
    unfolding filter_empty_conv using le True by fastforce
  then show ?thesis using True by (simp add: reached_def)
next
  case False
  then have "b = snd (last xs)"
    using last_amount_le [OF assms] by simp
  moreover have "filter (\<lambda>(_, y). y = snd (last xs)) xs \<noteq> []"
    unfolding filter_empty_conv using assms(1) by (auto intro: bexI [of _ "last xs"])
  ultimately show ?thesis using False by (simp add: reached_def)
qed

lemma figures_keep:
  assumes "figures_ok evs st" "\<not> starts_clock ev" "\<And>b w. ev \<noteq> RStats b w"
  shows "figures_ok (evs @ [(now, ev)]) st"
proof -
  have "began (evs @ [(now, ev)]) = began evs" using assms(2) by (simp add: began_snoc split: option.split)
  moreover have "amounts (evs @ [(now, ev)]) = amounts evs" using assms(3) by (cases ev) (auto simp: amounts_snoc)
  ultimately show ?thesis using assms(1) unfolding figures_ok_def by (simp only:)
qed

lemma amounts_in: "x \<in> set (amounts evs) \<Longrightarrow> fst x \<in> fst ` set evs"
  by (auto simp: amounts_def split: rr_event.splits intro: rev_image_eqI)

lemma reached_in: "xs \<noteq> [] \<Longrightarrow> reached xs \<in> fst ` set xs"
proof -
  assume "xs \<noteq> []"
  then have "filter (\<lambda>(_, b). b = snd (last xs)) xs \<noteq> []"
    unfolding filter_empty_conv by (auto intro: bexI [of _ "last xs"])
  then have "hd (filter (\<lambda>(_, b). b = snd (last xs)) xs) \<in> set xs"
    using hd_in_set by fastforce
  then show ?thesis unfolding reached_def by (rule imageI)
qed

lemma figures_stats:
  assumes "figures_ok evs st" "sorted (map fst (evs @ [(now, RStats b w)]))"
    "sorted (map snd (amounts (evs @ [(now, RStats b w)])))"
  shows "figures_ok (evs @ [(now, RStats b w)]) (new_restore_stats now b w ss st)"
proof (cases "amounts evs = []")
  case True
  then have a: "amounts (evs @ [(now, RStats b w)]) = [(now, b)]" by (simp add: amounts_snoc)
  have r: "reached [(now, b)] = now" by (simp add: reached_def)
  from assms(1) True have st: "rs_startTime st = began evs" "rs_bytesDone st = 0" "rs_lastMoveAt st = None" "rs_avgSpeed st = None"
    by (simp_all add: figures_ok_def)
  show ?thesis
    by (cases "began evs") (simp_all add: figures_ok_def a r st began_snoc starts_clock_def new_restore_stats_def Let_def)
next
  case False
  then obtain t0 where t0: "began evs = Some t0" and st: "rs_startTime st = Some t0" "rs_bytesDone st = snd (last (amounts evs))"
      "rs_lastMoveAt st = Some (reached (amounts evs))"
      "rs_avgSpeed st = (if reached (amounts evs) > t0
         then Some (of_int (snd (last (amounts evs))) / (of_int (reached (amounts evs) - t0) / 1000)) else None)"
    using assms(1) unfolding figures_ok_def by (auto split: list.splits)
  have a: "amounts (evs @ [(now, RStats b w)]) = amounts evs @ [(now, b)]" by (simp add: amounts_snoc)
  have r: "reached (amounts evs @ [(now, b)]) = (if b > snd (last (amounts evs)) then now else reached (amounts evs))"
    by (rule reached_snoc [OF False assms(3) [unfolded a]])
  have "reached (amounts evs) \<in> fst ` set evs"
    using reached_in [OF False] amounts_in by force
  then have le: "reached (amounts evs) \<le> now" using assms(2) by (auto simp: sorted_wrt_append)
  have same: "snd (last (amounts evs)) = b" if "\<not> b > snd (last (amounts evs))"
    using that last_amount_le [OF False assms(3) [unfolded a]] by simp
  have b: "began (evs @ [(now, RStats b w)]) = Some t0" by (simp add: began_snoc t0)
  have ne: "(case amounts evs @ [(now, b)] of [] \<Rightarrow> P | _ \<Rightarrow> Q) = Q" for P Q
    by (cases "amounts evs") simp_all
  show ?thesis
    unfolding figures_ok_def a r b ne
  proof (intro conjI exI [of _ t0])
    show "rs_avgSpeed (new_restore_stats now b w ss st) =
        (if t0 < (if b > snd (last (amounts evs)) then now else reached (amounts evs))
         then Some (of_int (snd (last (amounts evs @ [(now, b)]))) /
           (of_int ((if b > snd (last (amounts evs)) then now else reached (amounts evs)) - t0) / 1000)) else None)"
      using le same by (cases "b > snd (last (amounts evs))") (simp_all add: new_restore_stats_def Let_def st)
  qed (simp_all add: new_restore_stats_def Let_def st)
qed

lemma figures_on:
  assumes "figures_ok evs (rr_stats s)" "going ev" "sorted (map fst (evs @ [(now, ev)]))"
    "sorted (map snd (amounts (evs @ [(now, ev)])))"
  shows "figures_ok (evs @ [(now, ev)]) (rr_stats (rr_on t fmt fixed now ev s))"
proof (cases ev)
  case (RStats b w)
  then show ?thesis
    using figures_stats [OF assms(1)] assms(3,4) by (simp add: rr_on_def on_restore_stats_def Let_def)
next
  case (RProgress p m n)
  show ?thesis
  proof (cases "queued_name m")
    case None
    have a: "amounts (evs @ [(now, ev)]) = amounts evs" by (simp add: RProgress amounts_snoc)
    have "began (evs @ [(now, ev)]) = (case began evs of Some t0 \<Rightarrow> Some t0 | None \<Rightarrow> Some now)"
      by (simp add: began_snoc RProgress starts_clock_def None)
    moreover have "rs_startTime (rr_stats s) = began evs" using assms(1) by (simp add: figures_ok_def)
    ultimately show ?thesis
      using assms(1) unfolding figures_ok_def a
      by (cases "began evs"; cases "amounts evs") (auto simp: RProgress rr_on_def on_restore_progress_def None Let_def)
  next
    case (Some q)
    have "rr_stats (rr_on t fmt fixed now ev s) = rr_stats s"
      by (simp add: RProgress rr_on_def on_restore_progress_def Some)
    then show ?thesis
      using figures_keep [OF assms(1)] by (simp add: RProgress starts_clock_def Some)
  qed
next
  case (RStage st d)
  then show ?thesis using figures_keep [OF assms(1)] by (simp add: starts_clock_def rr_on_def on_restore_stage_def)
next
  case (RFile f)
  then show ?thesis using figures_keep [OF assms(1)] by (simp add: starts_clock_def rr_on_def on_restore_file_def)
next
  case RDrawn
  then show ?thesis using figures_keep [OF assms(1)] by (simp add: starts_clock_def rr_on_def card_drawn_def)
qed (use assms(2) in \<open>simp_all add: going_def\<close>)

lemma figures_play:
  assumes "figures_ok [] (rr_stats s)"
  shows "list_all (\<lambda>(_, ev). going ev) evs \<Longrightarrow> sorted (map fst evs) \<Longrightarrow> sorted (map snd (amounts evs)) \<Longrightarrow>
    figures_ok evs (rr_stats (rr_play t fmt fixed evs s))"
proof (induction evs rule: rev_induct)
  case Nil
  show ?case by (simp add: assms)
next
  case (snoc e evs)
  obtain now ev where e: "e = (now, ev)" by (cases e)
  have "sorted (map snd (amounts evs))"
    using snoc.prems(3) unfolding e amounts_snoc by (simp add: sorted_wrt_append)
  then have "figures_ok evs (rr_stats (rr_play t fmt fixed evs s))"
    using snoc.prems by (intro snoc.IH) (simp_all add: sorted_wrt_append)
  then show ?case
    using snoc.prems unfolding e rr_play_simps by (intro figures_on) simp_all
qed

text \<open>
  The average speed shown at the end of a restore is the true one. Whatever else happens
  while the restore runs, once figures have arrived the average is what was fetched by the time it
  took to fetch it: from the moment the clock started, with the first message or figures, to the first moment at which
  that amount was reached. The time spent after the transfer, when the amount stands
  still, does not count. There is none when it was all there at once.
\<close>
theorem restore_average_true:
  assumes "list_all (\<lambda>(_, ev). going ev) evs" "sorted (map fst evs)" "sorted (map snd (amounts evs))" "amounts evs \<noteq> []"
  shows "\<exists>t0. began evs = Some t0 \<and>
    rs_avgSpeed (rr_stats (rr_play t fmt fixed evs (startSetRestore s))) =
      (if reached (amounts evs) > t0
       then Some (of_int (snd (last (amounts evs))) / (of_int (reached (amounts evs) - t0) / 1000)) else None)"
proof -
  have "figures_ok [] (rr_stats (startSetRestore s))"
    by (simp add: figures_ok_def startSetRestore_def started_stats_def began_def amounts_def)
  from figures_play [OF this assms(1-3)] assms(4) show ?thesis
    unfolding figures_ok_def by (cases "amounts evs") (simp, simp only: list.case, blast)
qed

theorem restore_average_true_witness:
  "rs_avgSpeed (rr_stats (rr_play (\<lambda>k _. k) (\<lambda>_. []) (\<lambda>_ _. [])
     [(1000, RStats 0 600), (3000, RStats 600 600), (3500, RStage ''verifying'' []), (9000, RStats 600 600)] (startSetRestore rr0))) = Some 300"
proof -
  let ?evs = "[(1000, RStats 0 600), (3000, RStats 600 600), (3500, RStage ''verifying'' []), (9000, RStats 600 600)] :: (int \<times> rr_event) list"
  have a: "amounts ?evs = [(1000, 0), (3000, 600), (9000, 600)]" "began ?evs = Some 1000"
    "reached [(1000, 0), (3000, 600), (9000, 600)] = 3000"
    by (simp_all add: amounts_def began_def starts_clock_def reached_def)
  have "list_all (\<lambda>(_, ev). going ev) ?evs" "sorted (map fst ?evs)" "sorted (map snd (amounts ?evs))" "amounts ?evs \<noteq> []"
    by (simp_all add: a(1) going_def)
  from restore_average_true [OF this] show ?thesis unfolding a by simp
qed

section \<open>The steps after the transfer\<close>

lemma takeWhile_count:
  assumes "list_all count_char a" "b = [] \<or> \<not> count_char (hd b)"
  shows "takeWhile count_char (a @ b) = a" "dropWhile count_char (a @ b) = b"
  using assms by (induction a) (cases b; auto)+

lemma match_counts_skip: "\<not> count_char c \<Longrightarrow> match_counts (c # s) = match_counts s"
  by (simp add: Let_def split: option.split)

lemma match_counts_first:
  assumes "list_all (\<lambda>c. \<not> count_char c) pre" "a \<noteq> []" "list_all count_char a" "b \<noteq> []" "list_all count_char b"
    "post = [] \<or> \<not> count_char (hd post)"
  shows "match_counts (pre @ a @ '' of '' @ b @ post) = Some (a, b)"
  using assms(1)
proof (induction pre)
  case Nil
  obtain c a' where a: "a = c # a'" using assms(2) by (cases a) auto
  have sp: "\<not> count_char CHR '' ''" by code_simp
  have t: "takeWhile count_char (a @ '' of '' @ b @ post) = a" "dropWhile count_char (a @ '' of '' @ b @ post) = '' of '' @ b @ post"
    by (rule takeWhile_count, rule assms(3), simp add: sp)+
  have "match_counts ([] @ a @ '' of '' @ b @ post) =
      (case strip_prefix '' of '' (dropWhile count_char (a @ '' of '' @ b @ post)) of
         Some r \<Rightarrow> if takeWhile count_char (a @ '' of '' @ b @ post) \<noteq> [] \<and> takeWhile count_char r \<noteq> []
           then Some (takeWhile count_char (a @ '' of '' @ b @ post), takeWhile count_char r) else match_counts (a' @ '' of '' @ b @ post)
       | None \<Rightarrow> match_counts (a' @ '' of '' @ b @ post))"
    by (simp only: a append.simps match_counts.simps Let_def)
  also have "strip_prefix '' of '' (dropWhile count_char (a @ '' of '' @ b @ post)) = Some (b @ post)"
    unfolding t(2) by (simp add: strip_prefix_def)
  finally show ?case
    by (simp only: t(1) option.case takeWhile_count(1) [OF assms(5,6)] assms(2,4) if_True simp_thms not_False_eq_True)
next
  case (Cons c pre)
  then have c: "\<not> count_char c" "match_counts (pre @ a @ '' of '' @ b @ post) = Some (a, b)" by simp_all
  have "(c # pre) @ x = c # (pre @ x)" for x by simp
  then show ?case by (simp only: match_counts_skip [OF c(1)] c(2))
qed

lemma math_round_near: "\<bar>of_int (math_round x) - x\<bar> \<le> (1 / 2 :: rat)"
  unfolding math_round_def by linarith

text \<open>What is calculated is right to within half a second.\<close>

lemma stage_remaining_near:
  assumes "stage_remaining now s = Some e"
  obtains n whole where "counts_of (status_message s) = Some (n, whole)" "0 < n" "n \<le> whole"
    "\<bar>e - of_int (whole - n) * (of_int (now - snd (rr_stageStart s)) / 1000) / of_int n\<bar> \<le> 1 / 2"
proof -
  obtain n whole where c: "counts_of (status_message s) = Some (n, whole)"
    using assms by (auto simp: stage_remaining_def split: option.splits)
  obtain stage t0 where st: "rr_stageStart s = (stage, t0)" by (cases "rr_stageStart s")
  from assms have "0 < n" "n \<le> whole"
    and "e = of_int (math_round (of_int (whole - n) * (of_int (now - t0) / 1000) / of_int n))"
    by (auto simp: stage_remaining_def c st Let_def split: if_splits)
  then show thesis using math_round_near by (intro that [OF c]) (simp_all add: st)
qed

text \<open>What is held was calculated at an earlier drawing of the card, from the state at that moment.\<close>

definition calculated :: "translate \<Rightarrow> (rat \<Rightarrow> string) \<Rightarrow> (rat \<Rightarrow> nat \<Rightarrow> string) \<Rightarrow> (int \<times> rr_event) list \<Rightarrow> rr \<Rightarrow> held \<Rightarrow> bool" where
  "calculated t fmt fixed evs s0 h \<longleftrightarrow>
     h_eta h = None \<or>
     (\<exists>us vs. evs = us @ (h_at h, RDrawn) # vs \<and> rr_stage (rr_play t fmt fixed us s0) = h_key h \<and>
        stage_remaining (h_at h) (rr_play t fmt fixed us s0) = h_eta h)"

lemma calculated_later: "calculated t fmt fixed evs s0 h \<Longrightarrow> calculated t fmt fixed (evs @ [e]) s0 h"
  unfolding calculated_def by (metis append.assoc append_Cons)

lemma holdEta_new: "holdEta p e now key ms = h \<Longrightarrow> p \<noteq> Some h \<Longrightarrow> h_eta h = None \<or> h = \<lparr>h_eta = e, h_at = now, h_key = key\<rparr>"
  by (auto simp: holdEta_def Let_def split: if_splits option.splits)

lemma held_stays: "ev \<noteq> RDrawn \<Longrightarrow> rr_stageEta (rr_on t fmt fixed now ev s) = rr_stageEta s"
  by (cases ev)
    (auto simp: rr_on_def on_restore_progress_def on_restore_stage_def on_restore_file_def on_restore_stats_def
      on_restore_complete_def startSetRestore_def tab_restore_started_def restore_not_started_def Let_def split: option.split)

lemma held_calculated:
  assumes "rr_stageEta s0 = None"
  shows "rr_stageEta (rr_play t fmt fixed evs s0) = Some h \<Longrightarrow> calculated t fmt fixed evs s0 h"
proof (induction evs arbitrary: h rule: rev_induct)
  case Nil
  then show ?case using assms by simp
next
  case (snoc e evs)
  obtain now ev where e: "e = (now, ev)" by (cases e)
  let ?s = "rr_play t fmt fixed evs s0"
  show ?case
  proof (cases "rr_stageEta ?s = Some h")
    case True
    then show ?thesis by (intro calculated_later snoc.IH)
  next
    case False
    with snoc.prems have ev: "ev = RDrawn" unfolding e rr_play_simps using held_stays by metis
    with snoc.prems False have "holdEta (rr_stageEta ?s) (stage_remaining now ?s) now (rr_stage ?s) ETA_HOLD_MS = h"
      unfolding e rr_play_simps by (auto simp: rr_on_def card_drawn_def card_remaining_def Let_def split: if_splits)
    from holdEta_new [OF this False] show ?thesis
      unfolding calculated_def e ev by (metis held.select_convs append_is_Nil_conv)
  qed
qed

text \<open>
  After the transfer the time left follows the step's own count. Take any run of events from a page on
  which no time is held yet, in order of time, and a moment after it at which a step after the transfer is
  on, has taken more than a second, and its message names how many of how many it has done. Then a time
  left is shown. It is the one held from less than ten seconds ago when there is one of a step of this
  name and nothing says that the step is over; otherwise it is calculated now, and it is what the rest
  takes at the pace so far, to within half a second. The one held was calculated in the same way, from
  the count, the pace and the moment of an earlier drawing of the card, in a step of the same
  name; whether of the same restore is not said (\<open>held_from_earlier_restore\<close>). A step that is
  through its count shows no time left at once.
\<close>
theorem step_forecast_true:
  fixes t fmt fixed evs s0
  defines "s \<equiv> rr_play t fmt fixed evs s0"
  assumes "rr_stageEta s0 = None" "sorted (map fst evs @ [now])" "list_all (\<lambda>(u, _). 0 < u) evs"
    "afterTransfer s" "status_message s = pre @ a @ '' of '' @ b @ post"
    "list_all (\<lambda>c. \<not> count_char c) pre" "a \<noteq> []" "list_all count_char a" "b \<noteq> []" "list_all count_char b"
    "post = [] \<or> \<not> count_char (hd post)"
    "count_value a = Some n" "count_value b = Some whole" "0 < n" "n \<le> whole"
    "rr_stageStart s = (rr_stage s, t0)" "0 < t0" "now - t0 > 1000"
  shows "\<exists>h e. snd (card_remaining now s) = Some h \<and> h_eta h = Some e \<and> h_key h = rr_stage s \<and>
    remaining_row now s = Shown (formatDuration e) \<and> h_at h \<le> now \<and> now - h_at h < 10000 \<and>
    (\<forall>g. rr_stageEta s = Some g \<and> h_key g = rr_stage s \<and> h_eta g \<noteq> None \<and> now - h_at g < 10000 \<and>
      stage_remaining now s \<noteq> Some 0 \<longrightarrow> h = g) \<and>
    (n = whole \<longrightarrow> e = 0) \<and>
    (if rr_stageEta s = Some h
     then \<exists>us vs k m. evs = us @ (h_at h, RDrawn) # vs \<and> rr_stage (rr_play t fmt fixed us s0) = rr_stage s \<and>
       counts_of (status_message (rr_play t fmt fixed us s0)) = Some (k, m) \<and> 0 < k \<and> k \<le> m \<and>
       \<bar>e - of_int (m - k) * (of_int (h_at h - snd (rr_stageStart (rr_play t fmt fixed us s0))) / 1000) / of_int k\<bar> \<le> 1 / 2
     else h_at h = now \<and> \<bar>e - of_int (whole - n) * (of_int (now - t0) / 1000) / of_int n\<bar> \<le> 1 / 2)"
proof -
  have m: "match_counts (status_message s) = Some (a, b)"
    unfolding assms(6) by (rule match_counts_first [OF assms(7-12)])
  have cnt: "counts_of (status_message s) = Some (n, whole)"
    by (simp only: counts_of_def m option.case prod.case assms(13,14))
  define x where "x = of_int (whole - n) * (of_int (now - t0) / 1000) / (of_int n :: rat)"
  have secs: "of_int (now - t0) / 1000 > (1 :: rat)" using assms(19) by simp
  define e where "e = (of_int (math_round x) :: rat)"
  have r: "stage_remaining now s = Some e"
    by (simp only: stage_remaining_def cnt option.case prod.case assms(15-18) Let_def x_def e_def secs if_True simp_thms refl)
  have near: "\<bar>e - x\<bar> \<le> 1 / 2" unfolding e_def by (rule math_round_near)
  have zero: "n = whole \<Longrightarrow> e = 0" unfolding e_def x_def by (simp add: math_round_def floor_eq_iff)
  define h where "h = holdEta (rr_stageEta s) (Some e) now (rr_stage s) ETA_HOLD_MS"
  have c: "card_remaining now s = (case h_eta h of None \<Rightarrow> NullEta | Some e \<Rightarrow> Eta e, Some h)"
    unfolding card_remaining_def r h_def using assms(5) by (simp only: if_True Let_def)
  have held: "calculated t fmt fixed evs s0 g" if "rr_stageEta s = Some g" for g
    using held_calculated [OF assms(2)] that unfolding s_def .
  have at: "0 < h_at g \<and> h_at g \<le> now" if "rr_stageEta s = Some g" "h_eta g \<noteq> None" for g
    using held [OF that(1)] that(2) assms(3,4) unfolding calculated_def by (auto simp: sorted_append)
  have keeps: "h = g" if "rr_stageEta s = Some g" "h_key g = rr_stage s" "h_eta g \<noteq> None" "now - h_at g < 10000" "e \<noteq> 0" for g
    using that at [OF that(1,3)] unfolding h_def by (auto simp: holdEta_def ETA_HOLD_MS_def)
  show ?thesis
  proof (cases "rr_stageEta s = Some h")
    case True
    have "h = holdEta (Some h) (Some e) now (rr_stage s) ETA_HOLD_MS" using h_def unfolding True .
    from holdEta_cases [OF this [symmetric]]
    have "h_eta h \<noteq> None \<and> h_key h = rr_stage s \<and> e \<noteq> 0 \<and> now - h_at h < ETA_HOLD_MS \<or>
        h_eta h = Some e \<and> h_at h = now \<and> h_key h = rr_stage s"
      by (metis held.select_convs)
    then have h: "h_key h = rr_stage s \<and> h_eta h \<noteq> None \<and> now - h_at h < 10000 \<and> (e \<noteq> 0 \<or> h_eta h = Some e)"
      by (auto simp: ETA_HOLD_MS_def)
    then obtain e' where e': "h_eta h = Some e'" by auto
    from held [OF True] e' obtain us vs where us: "evs = us @ (h_at h, RDrawn) # vs"
      "rr_stage (rr_play t fmt fixed us s0) = h_key h" "stage_remaining (h_at h) (rr_play t fmt fixed us s0) = h_eta h"
      unfolding calculated_def by auto
    from us(3) e' have "stage_remaining (h_at h) (rr_play t fmt fixed us s0) = Some e'" by simp
    then obtain k m where km: "counts_of (status_message (rr_play t fmt fixed us s0)) = Some (k, m)" "0 < k" "k \<le> m"
      "\<bar>e' - of_int (m - k) * (of_int (h_at h - snd (rr_stageStart (rr_play t fmt fixed us s0))) / 1000) / of_int k\<bar> \<le> 1 / 2"
      by (rule stage_remaining_near)
    have from_then: "\<exists>us vs k m. evs = us @ (h_at h, RDrawn) # vs \<and> rr_stage (rr_play t fmt fixed us s0) = rr_stage s \<and>
       counts_of (status_message (rr_play t fmt fixed us s0)) = Some (k, m) \<and> 0 < k \<and> k \<le> m \<and>
       \<bar>e' - of_int (m - k) * (of_int (h_at h - snd (rr_stageStart (rr_play t fmt fixed us s0))) / 1000) / of_int k\<bar> \<le> 1 / 2"
      using us(1,2) km h by (intro exI [of _ us] exI [of _ vs] exI [of _ k] exI [of _ m]) simp
    show ?thesis
    proof (intro exI [of _ h] exI [of _ e'] conjI)
      show "snd (card_remaining now s) = Some h" by (simp only: c snd_conv)
      show "h_eta h = Some e'" by (rule e')
      show "h_key h = rr_stage s" "now - h_at h < 10000" using h by blast+
      show "h_at h \<le> now" using at [OF True] e' by simp
      show "remaining_row now s = Shown (formatDuration e')" by (simp add: remaining_row_def c e')
      show "\<forall>g. rr_stageEta s = Some g \<and> h_key g = rr_stage s \<and> h_eta g \<noteq> None \<and> now - h_at g < 10000 \<and>
        stage_remaining now s \<noteq> Some 0 \<longrightarrow> h = g" using keeps r by blast
      show "n = whole \<longrightarrow> e' = 0" using zero h e' by auto
    qed (subst if_P [OF True], rule from_then)
  next
    case False
    have h: "h = \<lparr>h_eta = Some e, h_at = now, h_key = rr_stage s\<rparr>"
      using False unfolding h_def by (auto simp: holdEta_def Let_def split: if_splits option.splits)
    have "remaining_row now s = Shown (formatDuration e)" by (simp add: remaining_row_def c h)
    then show ?thesis using False near zero keeps r h unfolding x_def
      by (intro exI [of _ h] exI [of _ e]) (simp add: c)
  qed
qed

definition verifying_run :: "(int \<times> rr_event) list" where
  "verifying_run = [(500, RStarted), (1000, RStage ''verifying'' []), (11000, RProgress 1 ''Verified 25 of 100'' []), (11000, RDrawn),
     (12000, RProgress 1 ''Verified 50 of 100'' [])]"

theorem step_forecast_true_witness:
  "remaining_row 13000 (rr_play (\<lambda>k _. k) (\<lambda>_. []) (\<lambda>_ _. []) verifying_run rr0) = Shown ''30s''"
proof -
  let ?s = "rr_play (\<lambda>k _. k) (\<lambda>_. []) (\<lambda>_ _. []) verifying_run rr0"
  have ev: "rr_stageEta rr0 = None" "sorted (map fst verifying_run @ [13000])" "list_all (\<lambda>(u, _). 0 < u) verifying_run"
    by (simp_all add: rr0_def verifying_run_def)
  have v: "afterTransfer ?s" "status_message ?s = ''Verified '' @ ''50'' @ '' of '' @ ''100'' @ []"
    "rr_stageStart ?s = (rr_stage ?s, 1000)" "stage_remaining 13000 ?s = Some 12"
    "rr_stageEta ?s = Some \<lparr>h_eta = Some 30, h_at = 11000, h_key = rr_stage ?s\<rparr>"
    by code_simp+
  have c: "list_all (\<lambda>c. \<not> count_char c) ''Verified ''" "list_all count_char ''50''" "list_all count_char ''100''"
    "count_value ''50'' = Some 50" "count_value ''100'' = Some 100" "formatDuration 30 = ''30s''"
    by code_simp+
  from step_forecast_true [OF ev v(1,2) c(1) _ c(2) _ c(3) _ c(4,5) _ _ v(3)]
  obtain h e where h: "h_eta h = Some e" "remaining_row 13000 ?s = Shown (formatDuration e)"
    and k: "\<forall>g. rr_stageEta ?s = Some g \<and> h_key g = rr_stage ?s \<and> h_eta g \<noteq> None \<and> 13000 - h_at g < 10000 \<and>
      stage_remaining 13000 ?s \<noteq> Some 0 \<longrightarrow> h = g" by auto
  have "h = \<lparr>h_eta = Some 30, h_at = 11000, h_key = rr_stage ?s\<rparr>" using k v(4,5) by simp
  with h c(6) show ?thesis by simp
qed

text \<open>
  What is held is not dropped when a restore ends or the next one starts
  (\<open>restoreStageEtaRef\<close>). A restore that comes to the same step within ten seconds shows the time left of the
  one before: here 25 of 100 items after two seconds, that is six seconds, shown as the half hour the earlier
  restore had left.
\<close>
lemma held_from_earlier_restore:
  "let evs = [(500, RStarted), (1000, RStage ''verifying'' []), (601000, RProgress 1 ''Verified 25 of 100'' []), (601000, RDrawn),
       (602000, RNotStarted ''cancelled''), (602500, RStarted), (603000, RStage ''transferring'' []), (604000, RStage ''verifying'' []),
       (606000, RProgress 1 ''Verified 25 of 100'' [])];
       s = rr_play (\<lambda>k _. k) (\<lambda>_. []) (\<lambda>_ _. []) evs rr0
   in stage_remaining 606000 s = Some 6 \<and> remaining_row 606000 s = Shown (formatDuration 1800)"
  by code_simp

end
