(* ===== verification/Service.thy ===== *)
theory Service
  imports Window Jobs
begin

text \<open>
  The connection to the background service. The app's side is \<open>service_connect.go\<close>,
  \<open>service_switch.go\<close>, \<open>service_start.go\<close>, \<open>token_drop.go\<close> and \<open>pauseViaWindow\<close> of \<open>tray.go\<close>: whether
  it works on the service's settings, whether it holds a token, and when it asks for the
  administrator's password. What the service answers (the status code of a probe, 0 for none) and
  what the prompt gives are arguments of a step. The window's side is in \<open>App.jsx\<close>: the
  banners, Connect, Start the service, and what the backend's notices do to the page.
\<close>

section \<open>The app\<close>

text \<open>\<open>sa_service\<close> is the mode, \<open>sa_marker\<close> the file that keeps the choice of the user's own settings.\<close>

record svc_app =
  sa_service :: bool
  sa_connected :: bool
  sa_own :: bool
  sa_marker :: bool
  sa_tried :: bool

datatype svc_notice = Connected | Disconnected | Started | StoppedNotice | ModeChanged | Switched

text \<open>What a call gives: its error, the state after it, whether it fetched the token, which asks the
  user unless the app may read the token file, and the notices the window gets.\<close>

record svc_result =
  sr_error :: "string option"
  sr_app :: svc_app
  sr_fetched :: bool
  sr_told :: "svc_notice list"

definition svc_return :: "string option \<Rightarrow> svc_app \<Rightarrow> svc_notice list \<Rightarrow> svc_result" where
  "svc_return err a told = \<lparr>sr_error = err, sr_app = a, sr_fetched = False, sr_told = told\<rparr>"

definition enterServiceMode :: "bool \<Rightarrow> svc_app \<Rightarrow> svc_app" where
  "enterServiceMode token_read a = a\<lparr>sa_connected := token_read, sa_service := True\<rparr>"

definition leaveServiceMode :: "svc_app \<Rightarrow> svc_app" where
  "leaveServiceMode a = a\<lparr>sa_connected := False, sa_service := False\<rparr>"

definition resolveMode :: "nat \<Rightarrow> bool \<Rightarrow> svc_app \<Rightarrow> svc_app" where
  "resolveMode code installed a =
     (if code = 401 \<and> sa_marker a then a\<lparr>sa_service := False, sa_own := True\<rparr>
      else if code = 200 \<or> code = 401 then enterServiceMode (code = 200) a
      else if installed
      then (if sa_marker a then a\<lparr>sa_service := False, sa_own := True\<rparr> else enterServiceMode False a)
      else a\<lparr>sa_service := False\<rparr>)"

text \<open>\<open>newer\<close>: the app holds another token than the one refused.\<close>

definition serviceTokenHook :: "bool \<Rightarrow> svc_app \<Rightarrow> svc_result" where
  "serviceTokenHook newer a =
     (if newer then svc_return None a []
      else if sa_connected a then svc_return (Some ''no prompt'') (a\<lparr>sa_connected := False, sa_tried := False\<rparr>) [Disconnected]
      else svc_return (Some ''no prompt'') a [])"

text \<open>\<open>useServiceToken\<close>: the probe with the token, then \<open>and_then\<close>, whose error is returned.\<close>

definition useServiceToken :: "nat \<Rightarrow> string option \<Rightarrow> svc_notice list \<Rightarrow> bool \<Rightarrow> svc_app \<Rightarrow> svc_result" where
  "useServiceToken probe and_then told fetched a =
     (if probe \<noteq> 200
      then \<lparr>sr_error = Some (if probe = 0 then ''not running'' else ''token not taken''), sr_app = a, sr_fetched = fetched, sr_told = told\<rparr>
      else \<lparr>sr_error = and_then, sr_app = a\<lparr>sa_connected := True\<rparr>, sr_fetched = fetched, sr_told = told @ [Connected]\<rparr>)"

text \<open>\<open>connect\<close>: \<open>code\<close> is the first probe, \<open>token\<close> why it was not fetched (none when it was), \<open>probe\<close>
  the probe with it.\<close>

definition leave_own :: "svc_app \<Rightarrow> svc_app" where
  "leave_own a = enterServiceMode False (a\<lparr>sa_marker := False, sa_own := False\<rparr>)"

definition fetch_and_use :: "nat \<Rightarrow> string option \<Rightarrow> nat \<Rightarrow> string option \<Rightarrow> svc_notice list \<Rightarrow> svc_app \<Rightarrow> svc_result" where
  "fetch_and_use code token probe and_then told a =
     (if code = 0 then svc_return (Some ''not running'') a told
      else case token of
             Some err \<Rightarrow> \<lparr>sr_error = Some err, sr_app = a, sr_fetched = True, sr_told = told\<rparr>
           | None \<Rightarrow> useServiceToken probe and_then told True a)"

definition connect :: "bool \<Rightarrow> nat \<Rightarrow> string option \<Rightarrow> nat \<Rightarrow> string option \<Rightarrow> svc_app \<Rightarrow> svc_result" where
  "connect userAsked code token probe and_then a =
     (if sa_own a \<and> \<not> userAsked then svc_return None a []
      else
        let told = (if sa_own a then [ModeChanged] else []);
            a = (if sa_own a then leave_own a else a)
        in if \<not> sa_service a \<or> sa_connected a then svc_return None a told
           else if \<not> userAsked \<and> sa_tried a then svc_return (Some ''unauthorized'') a told
           else fetch_and_use code token probe and_then told (if userAsked then a else a\<lparr>sa_tried := True\<rparr>))"

definition UseOwnSettings :: "svc_app \<Rightarrow> svc_result" where
  "UseOwnSettings a =
     (if \<not> sa_service a \<or> sa_connected a then svc_return (Some ''not waiting to connect'') a []
      else svc_return None ((leaveServiceMode (a\<lparr>sa_marker := True\<rparr>))\<lparr>sa_own := True\<rparr>) [Switched])"

definition onServiceAnswer :: "bool \<Rightarrow> svc_app \<Rightarrow> svc_result" where
  "onServiceAnswer answers a =
     (if \<not> sa_service a \<or> sa_own a then svc_return None a []
      else if answers then svc_return None (a\<lparr>sa_tried := False\<rparr>) [Started]
      else svc_return None a [StoppedNotice])"

text \<open>\<open>busy\<close>: a connect is under way.\<close>

definition dropServiceToken :: "bool \<Rightarrow> svc_app \<Rightarrow> svc_result" where
  "dropServiceToken busy a =
     (if \<not> sa_service a \<or> sa_own a \<or> busy \<or> \<not> sa_connected a then svc_return None a []
      else svc_return None (a\<lparr>sa_connected := False, sa_tried := False\<rparr>) [Disconnected])"

text \<open>The switches: with the code the service answers in the end (none within 20 s), and back.\<close>

definition switchToServiceMode :: "nat option \<Rightarrow> svc_app \<Rightarrow> svc_result" where
  "switchToServiceMode code a =
     (case code of
        Some c \<Rightarrow> if c = 200 \<or> c = 401 then svc_return None (enterServiceMode (c = 200) a) [ModeChanged] else svc_return None a []
      | None \<Rightarrow> svc_return None a [])"

definition recheckService :: "nat \<Rightarrow> nat option \<Rightarrow> svc_app \<Rightarrow> svc_result" where
  "recheckService code later a =
     (if sa_service a \<or> sa_own a \<or> code \<notin> {200, 401} then svc_return None a [] else switchToServiceMode later a)"

definition switchToStandalone :: "svc_app \<Rightarrow> svc_result" where
  "switchToStandalone a =
     (if \<not> sa_service a then svc_return None a [] else svc_return None (leaveServiceMode a) [ModeChanged])"

definition pauseViaWindow :: "nat \<Rightarrow> string option \<Rightarrow> nat \<Rightarrow> svc_app \<Rightarrow> svc_result" where
  "pauseViaWindow code token probe a = connect True code token probe None (a\<lparr>sa_tried := True\<rparr>)"

text \<open>\<open>admin\<close> is the error of starting the service as an administrator, None for an app that is none;
  \<open>handoff\<close> what the elevated copy gives: the token (\<open>Inr\<close>), or an error and whether it stands
  although the service was started.\<close>

definition StartServiceAndConnect ::
  "nat \<Rightarrow> (string option) option \<Rightarrow> (string \<times> bool) + unit \<Rightarrow> string option \<Rightarrow> nat \<Rightarrow> nat \<Rightarrow> svc_app \<Rightarrow> svc_result" where
  "StartServiceAndConnect code admin handoff token again probe a =
     (if \<not> sa_service a \<or> sa_own a then svc_return (Some ''not working with the service'') a []
      else if code \<noteq> 0 then connect True again token probe None a
      else case admin of
             Some (Some err) \<Rightarrow> svc_return (Some err) a []
           | Some None \<Rightarrow> connect True again token probe None a
           | None \<Rightarrow>
               (case handoff of
                  Inl (err, started) \<Rightarrow> svc_return (if started then None else Some err) a []
                | Inr _ \<Rightarrow> useServiceToken probe None [] False a))"

section \<open>Steps of the app\<close>

datatype svc_step =
    Connecting bool nat "string option" nat "string option"
  | OwnChosen
  | RequestRefused bool
  | ServiceAnswers bool
  | GraceOver bool
  | RunAsService "nat option"
  | Rechecked nat "nat option"
  | ServiceGone
  | PauseClicked nat "string option" nat
  | StartClicked nat "(string option) option" "(string \<times> bool) + unit" "string option" nat nat

definition svc_do :: "svc_step \<Rightarrow> svc_app \<Rightarrow> svc_result" where
  "svc_do e a =
     (case e of
        Connecting u code token probe and_then \<Rightarrow> connect u code token probe and_then a
      | OwnChosen \<Rightarrow> UseOwnSettings a
      | RequestRefused newer \<Rightarrow> serviceTokenHook newer a
      | ServiceAnswers b \<Rightarrow> onServiceAnswer b a
      | GraceOver busy \<Rightarrow> dropServiceToken busy a
      | RunAsService code \<Rightarrow> switchToServiceMode code a
      | Rechecked code later \<Rightarrow> recheckService code later a
      | ServiceGone \<Rightarrow> switchToStandalone a
      | PauseClicked code token probe \<Rightarrow> pauseViaWindow code token probe a
      | StartClicked code admin handoff token again probe \<Rightarrow> StartServiceAndConnect code admin handoff token again probe a)"

section \<open>What the window is told\<close>

text \<open>
  \<open>systemInfo\<close> is an object: each answer of \<open>GetSystemInfo\<close> is written over what was there.
  \<open>answering\<close> is what the last request to the service found; \<open>more\<close> holds the other keys.
\<close>

datatype info_val = IBool bool | IText string

type_synonym sys_info = "string \<Rightarrow> info_val option"

definition IsServiceConnected :: "svc_app \<Rightarrow> bool" where
  "IsServiceConnected a \<longleftrightarrow> \<not> sa_service a \<or> sa_connected a"

definition svc_running :: "bool \<Rightarrow> svc_app \<Rightarrow> bool" where
  "svc_running answering a \<longleftrightarrow> (if \<not> sa_service a \<or> sa_own a then False else answering)"

definition GetSystemInfo :: "bool \<Rightarrow> sys_info \<Rightarrow> svc_app \<Rightarrow> sys_info" where
  "GetSystemInfo answering other_keys a =
     other_keys(''service_available'' \<mapsto> IBool (sa_service a), ''service_connected'' \<mapsto> IBool (IsServiceConnected a),
       ''service_running'' \<mapsto> IBool (svc_running answering a), ''own_settings'' \<mapsto> IBool (sa_own a))"

definition truthy :: "info_val option \<Rightarrow> bool" where
  "truthy v = (case v of None \<Rightarrow> False | Some (IBool b) \<Rightarrow> b | Some (IText s) \<Rightarrow> s \<noteq> [])"

definition is_false :: "info_val option \<Rightarrow> bool" where
  "is_false v = (case v of Some (IBool b) \<Rightarrow> \<not> b | _ \<Rightarrow> False)"

record win =
  w_info :: sys_info
  w_connectError :: string
  w_startBusy :: bool
  w_startError :: string
  w_skipReload :: bool
  w_formOpen :: bool
  w_jobs :: "job list"

definition first_info :: sys_info where
  "first_info = [''mode'' \<mapsto> IText ''Standalone'', ''is_admin'' \<mapsto> IBool False, ''service_available'' \<mapsto> IBool False, ''os'' \<mapsto> IText []]"

definition fresh_win :: win where
  "fresh_win = \<lparr>w_info = first_info, w_connectError = [], w_startBusy = False, w_startError = [], w_skipReload = False,
     w_formOpen = False, w_jobs = []\<rparr>"

text \<open>\<open>None\<close>: GetSystemInfo failed, or gave nothing.\<close>

definition refreshSystemInfo :: "sys_info option \<Rightarrow> win \<Rightarrow> win" where
  "refreshSystemInfo info w = (case info of None \<Rightarrow> w | Some i \<Rightarrow> w\<lparr>w_info := w_info w ++ i\<rparr>)"

definition connectService :: "bool \<Rightarrow> string option \<Rightarrow> sys_info option \<Rightarrow> win \<Rightarrow> bool \<times> win" where
  "connectService userAsked err info w =
     (let w = (case err of
                 None \<Rightarrow> w\<lparr>w_connectError := []\<rparr>
               | Some e \<Rightarrow> if userAsked then w\<lparr>w_connectError := e\<rparr> else w)
      in (err = None, refreshSystemInfo info w))"

text \<open>Connect from the user's own settings: whether to connect, and with their sets copied or not. \<open>count\<close>
  is None when they could not be counted.\<close>

definition connectFromOwnSettings :: "nat option \<Rightarrow> dialog_answer \<Rightarrow> bool option" where
  "connectFromOwnSettings count choice =
     (if (case count of Some n \<Rightarrow> n | None \<Rightarrow> 0) = 0 then Some False
      else case choice of No \<Rightarrow> None | Alt \<Rightarrow> Some True | Yes \<Rightarrow> Some False | Seen \<Rightarrow> Some False)"

definition startService_clicked :: "win \<Rightarrow> win" where
  "startService_clicked w = w\<lparr>w_startBusy := True, w_startError := []\<rparr>"

definition startService_answered :: "(string \<Rightarrow> (string \<times> string) list \<Rightarrow> string) \<Rightarrow> string option \<Rightarrow> sys_info option \<Rightarrow> win \<Rightarrow> win" where
  "startService_answered t err info w =
     refreshSystemInfo info
       ((case err of
           None \<Rightarrow> w
         | Some msg \<Rightarrow> w\<lparr>w_startError := (if contains msg ''ELEVATION_CANCELLED'' then t ''serviceStartDeclined'' []
             else t ''serviceStartFailed'' [(''error'', msg)])\<rparr>)\<lparr>w_startBusy := False\<rparr>)"

text \<open>The notices. \<open>None\<close>: the page is loaded anew, and with it everything that is open. \<open>info\<close> and \<open>jobs\<close>
  are what is read then; the second is read only when the first did not fail.\<close>

definition reconnected :: "sys_info option \<Rightarrow> job list option \<Rightarrow> win \<Rightarrow> win" where
  "reconnected info jobs w =
     (let w = refreshSystemInfo info (w\<lparr>w_skipReload := False\<rparr>)
      in case jobs of None \<Rightarrow> w | Some js \<Rightarrow> w\<lparr>w_jobs := js\<rparr>)"

definition on_notice :: "svc_notice \<Rightarrow> sys_info option \<Rightarrow> job list option \<Rightarrow> win \<Rightarrow> win option" where
  "on_notice n info jobs w =
     (case n of
        Connected \<Rightarrow> if w_skipReload w \<or> w_formOpen w then Some (reconnected info jobs w) else None
      | Switched \<Rightarrow> None
      | Disconnected \<Rightarrow> Some (refreshSystemInfo info w)
      | ModeChanged \<Rightarrow> Some (refreshSystemInfo info w)
      | StoppedNotice \<Rightarrow> Some (refreshSystemInfo info w)
      | Started \<Rightarrow> Some (refreshSystemInfo info (w\<lparr>w_startError := []\<rparr>)))"

definition serviceNotRunning :: "win \<Rightarrow> bool" where
  "serviceNotRunning w \<longleftrightarrow> truthy (w_info w ''service_available'') \<and> is_false (w_info w ''service_running'')"

definition serviceBlocked :: "win \<Rightarrow> bool" where
  "serviceBlocked w \<longleftrightarrow> serviceNotRunning w \<or> is_false (w_info w ''service_connected'')"

definition serviceBlockedTip :: "win \<Rightarrow> string option" where
  "serviceBlockedTip w =
     (if serviceNotRunning w then Some ''serviceNotRunningBanner''
      else if is_false (w_info w ''service_connected'') then Some ''serviceConnectBanner'' else None)"

text \<open>The banners that are shown, in their order, by the key of their text.\<close>

definition service_banners :: "win \<Rightarrow> string list" where
  "service_banners w =
     (if serviceNotRunning w then [''serviceNotRunningBanner''] else [])
     @ (if \<not> serviceNotRunning w \<and> truthy (w_info w ''service_available'') \<and> is_false (w_info w ''service_connected'')
        then [''serviceConnectBanner''] else [])
     @ (if truthy (w_info w ''own_settings'') then [''serviceOwnSettingsBanner''] else [])"

section \<open>One prompt at a time\<close>

text \<open>A step that asks although the user did not, and one after which the app may ask again, as its notice
  says: the service has taken the token back, the app has dropped it, or the service answers again.\<close>

definition asks_unasked :: "svc_step \<Rightarrow> svc_app \<Rightarrow> bool" where
  "asks_unasked e a \<longleftrightarrow> (case e of Connecting u code token probe and_then \<Rightarrow> \<not> u | _ \<Rightarrow> False) \<and> sr_fetched (svc_do e a)"

definition may_ask_again :: "svc_step \<Rightarrow> svc_app \<Rightarrow> bool" where
  "may_ask_again e a \<longleftrightarrow> (\<exists>n \<in> {Disconnected, Started}. n \<in> set (sr_told (svc_do e a)))"

fun asked_unasked :: "svc_step list \<Rightarrow> svc_app \<Rightarrow> nat" where
  "asked_unasked [] a = 0"
| "asked_unasked (e # es) a = (if asks_unasked e a then 1 else 0) + asked_unasked es (sr_app (svc_do e a))"

fun new_chances :: "svc_step list \<Rightarrow> svc_app \<Rightarrow> nat" where
  "new_chances [] a = 0"
| "new_chances (e # es) a = (if may_ask_again e a then 1 else 0) + new_chances es (sr_app (svc_do e a))"

lemmas svc_ops = svc_do_def svc_return_def connect_def fetch_and_use_def useServiceToken_def leave_own_def enterServiceMode_def
  leaveServiceMode_def UseOwnSettings_def serviceTokenHook_def onServiceAnswer_def dropServiceToken_def switchToServiceMode_def
  recheckService_def switchToStandalone_def pauseViaWindow_def StartServiceAndConnect_def Let_def

lemma tried_step:
  "asks_unasked e a \<Longrightarrow> \<not> sa_tried a \<and> sa_tried (sr_app (svc_do e a))"
  by (cases e) (auto simp: asks_unasked_def svc_ops split: if_splits option.splits)

lemma tried_kept:
  "sa_tried a \<Longrightarrow> may_ask_again e a \<or> sa_tried (sr_app (svc_do e a))"
  by (cases e) (auto simp: may_ask_again_def svc_ops split: if_splits option.splits sum.splits)

text \<open>
  The app does not nag for the administrator's password. However often the window comes to the front,
  and whatever the user and the service do meanwhile, the app asks on its own at most once, and
  once more for each time the connection was lost or the service came back, which the window
  was told of. After Pause in the tray, which asks because the user clicked it, the window's
  own ask is used up.
\<close>
theorem asked_once:
  "asked_unasked es a \<le> new_chances es a + (if sa_tried a then 0 else 1) \<and>
   asked_unasked es (sr_app (svc_do (PauseClicked code token probe) a)) \<le> new_chances es (sr_app (svc_do (PauseClicked code token probe) a))"
proof -
  have one: "asked_unasked es a \<le> new_chances es a + (if sa_tried a then 0 else 1)" for a
  proof (induction es arbitrary: a)
    case (Cons e es)
    from Cons.IH [of "sr_app (svc_do e a)"] tried_step [of e a] tried_kept [of a e] show ?case
      by (auto split: if_splits)
  qed simp
  have "sa_tried (sr_app (svc_do (PauseClicked code token probe) a))"
    by (auto simp: svc_ops split: option.split)
  with one [of a] one [of "sr_app (svc_do (PauseClicked code token probe) a)"] show ?thesis by simp
qed

section \<open>The banners say what is the matter\<close>

text \<open>The states of the app from its start, unless the service is started from the app (Run as Service) while it
  works on the user's own settings.\<close>

definition svc_start :: "nat \<Rightarrow> bool \<Rightarrow> bool \<Rightarrow> svc_app" where
  "svc_start code installed marker =
     resolveMode code installed \<lparr>sa_service = True, sa_connected = False, sa_own = False, sa_marker = marker, sa_tried = False\<rparr>"

inductive svc_reach :: "svc_app \<Rightarrow> bool" where
  start: "svc_reach (svc_start code installed marker)"
| step: "svc_reach a \<Longrightarrow> \<not> (sa_own a \<and> (\<exists>code. e = RunAsService code)) \<Longrightarrow> svc_reach (sr_app (svc_do e a))"

inductive_cases svc_reachE: "svc_reach a"

lemma svc_reach_own: "svc_reach a \<Longrightarrow> \<not> (sa_own a \<and> sa_service a)"
proof (induction rule: svc_reach.induct)
  case (start code installed marker)
  show ?case by (auto simp: svc_start_def resolveMode_def enterServiceMode_def)
next
  case (step a e)
  then show ?case by (cases e) (auto simp: svc_ops split: if_splits option.splits sum.splits)
qed

lemma told_info:
  "w_info (refreshSystemInfo (Some (GetSystemInfo answering other_keys a)) w) ''service_available'' = Some (IBool (sa_service a))"
  "w_info (refreshSystemInfo (Some (GetSystemInfo answering other_keys a)) w) ''service_connected'' = Some (IBool (IsServiceConnected a))"
  "w_info (refreshSystemInfo (Some (GetSystemInfo answering other_keys a)) w) ''service_running'' = Some (IBool (svc_running answering a))"
  "w_info (refreshSystemInfo (Some (GetSystemInfo answering other_keys a)) w) ''own_settings'' = Some (IBool (sa_own a))"
  by (simp_all add: refreshSystemInfo_def GetSystemInfo_def map_add_def)

lemmas banner_defs = serviceNotRunning_def serviceBlocked_def serviceBlockedTip_def service_banners_def truthy_def is_false_def
  IsServiceConnected_def svc_running_def

text \<open>
  The window tells why nothing can be started. Once it has read the app's state, Add New Backup Set and One-off
  Backup are disabled exactly when the app works with the service and cannot give it
  anything: the service does not answer, or has not been connected to. Then exactly one banner is shown, which offers
  the way out, and the buttons say the same. Else there is none, but for the one that says the user's own
  settings are in use.
\<close>
theorem banners_explain:
  assumes "svc_reach a"
  shows "let w = refreshSystemInfo (Some (GetSystemInfo answering other_keys a)) w0 in
    serviceBlocked w = (sa_service a \<and> \<not> (answering \<and> sa_connected a)) \<and>
    (case serviceBlockedTip w of
       Some b \<Rightarrow> serviceBlocked w \<and> service_banners w = [b] \<and> b = (if answering then ''serviceConnectBanner'' else ''serviceNotRunningBanner'')
     | None \<Rightarrow> \<not> serviceBlocked w \<and> service_banners w = (if sa_own a then [''serviceOwnSettingsBanner''] else []))"
  using svc_reach_own [OF assms] by (auto simp: Let_def banner_defs told_info)

theorem banners_explain_witness:
  "service_banners (refreshSystemInfo (Some (GetSystemInfo True first_info (svc_start 401 True False))) fresh_win) = [''serviceConnectBanner'']"
proof -
  have "sa_service (svc_start 401 True False)" "\<not> sa_connected (svc_start 401 True False)"
    by (simp_all add: svc_start_def resolveMode_def enterServiceMode_def)
  with banners_explain [OF svc_reach.start [of 401 True False], of True first_info fresh_win] show ?thesis
    by (auto simp: Let_def split: option.splits)
qed

text \<open>
  The service started from the app while the user's own settings are in use reads as not running. An app that
  found the service stopped and the own settings chosen is restarted as administrator, and the service is
  started under Run as Service. It runs, answers and the app holds its token; but the choice of
  the own settings is not taken back, so the window shows that the service is not running, beside the banner of
  the own settings, and disables the backups. Start the service then fails.
\<close>
theorem started_on_own_settings:
  "let a = sr_app (svc_do (RunAsService (Some 200)) (svc_start 0 True True));
       w = refreshSystemInfo (Some (GetSystemInfo True other_keys a)) w0 in
   sa_service a \<and> sa_connected a \<and> serviceBlocked w \<and>
   service_banners w = [''serviceNotRunningBanner'', ''serviceOwnSettingsBanner''] \<and>
   sr_error (svc_do (StartClicked code admin handoff token again probe) a) \<noteq> None"
  by (simp add: Let_def svc_start_def resolveMode_def svc_ops banner_defs told_info)

section \<open>A save that connects again\<close>

text \<open>What happens in the window from when Save sets its mark: the notices, each with what is read then, and the form
  opened or closed.\<close>

datatype win_event = Told svc_notice "sys_info option" "job list option" | FormIs bool

fun win_play :: "win_event list \<Rightarrow> win \<Rightarrow> win option" where
  "win_play [] w = Some w"
| "win_play (Told n info jobs # evs) w = (case on_notice n info jobs w of None \<Rightarrow> None | Some w \<Rightarrow> win_play evs w)"
| "win_play (FormIs b # evs) w = win_play evs (w\<lparr>w_formOpen := b\<rparr>)"

fun notices_of :: "win_event list \<Rightarrow> svc_notice list" where
  "notices_of [] = []"
| "notices_of (Told n info jobs # evs) = n # notices_of evs"
| "notices_of (FormIs b # evs) = notices_of evs"

lemma refresh_frame [simp]:
  "w_skipReload (refreshSystemInfo info w) = w_skipReload w" "w_formOpen (refreshSystemInfo info w) = w_formOpen w"
  by (simp_all add: refreshSystemInfo_def split: option.split)

lemma no_reload_without:
  "Connected \<notin> set (notices_of evs) \<Longrightarrow> Switched \<notin> set (notices_of evs) \<Longrightarrow> win_play evs w \<noteq> None"
proof (induction evs w rule: win_play.induct)
  case (2 n info jobs evs w)
  then show ?case by (cases n) (auto simp: on_notice_def)
qed auto

lemma skip_once:
  "w_skipReload w \<Longrightarrow> count_list (notices_of evs) Connected \<le> 1 \<Longrightarrow> Switched \<notin> set (notices_of evs) \<Longrightarrow> win_play evs w \<noteq> None"
proof (induction evs w rule: win_play.induct)
  case (2 n info jobs evs w)
  show ?case
  proof (cases "n = Connected")
    case True
    then have "Connected \<notin> set (notices_of evs)" using 2(3) by (simp add: count_list_0_iff)
    then show ?thesis using 2 True no_reload_without [of evs] by (simp add: on_notice_def)
  next
    case False
    with 2 show ?thesis by (cases n) (auto simp: on_notice_def)
  qed
qed auto

lemma count_list_filter: "P x \<Longrightarrow> count_list (filter P xs) x = count_list xs x"
  by (induction xs) auto

lemma connect_told: "\<not> sa_own a \<Longrightarrow> sr_told (connect u code token probe and_then a) \<in> {[], [Connected]}"
  by (auto simp: connect_def fetch_and_use_def useServiceToken_def svc_return_def Let_def split: option.split)

text \<open>
  A save that has to connect again keeps the page. Save marks the window and connects; whatever the outcome of the
  prompt, and whether the notice that the app is connected comes before or after the form is closed, the notices of
  that connection, and any number of others that the service was stopped, started or lost, never load the page
  anew, so neither the form nor the message of the save is thrown away.
\<close>
theorem save_keeps_page:
  assumes "\<not> sa_own a" "filter (\<lambda>n. n = Connected \<or> n = Switched) (notices_of evs) = sr_told (connect True code token probe and_then a)"
  shows "win_play evs (w\<lparr>w_skipReload := True\<rparr>) \<noteq> None"
proof (rule skip_once)
  have t: "filter (\<lambda>n. n = Connected \<or> n = Switched) (notices_of evs) \<in> {[], [Connected]}"
    unfolding assms(2) by (rule connect_told [OF assms(1)])
  have "count_list (notices_of evs) Connected = count_list (filter (\<lambda>n. n = Connected \<or> n = Switched) (notices_of evs)) Connected"
    by (simp add: count_list_filter)
  then show "count_list (notices_of evs) Connected \<le> 1" using t by auto
  show "Switched \<notin> set (notices_of evs)"
  proof
    assume "Switched \<in> set (notices_of evs)"
    then have "Switched \<in> set (sr_told (connect True code token probe and_then a))"
      unfolding assms(2) [symmetric] by simp
    with connect_told [OF assms(1), of True code token probe and_then] show False by auto
  qed
qed simp

theorem save_keeps_page_witness:
  "win_play [Told Disconnected None None, FormIs False, Told Connected None None] (fresh_win\<lparr>w_formOpen := True, w_skipReload := True\<rparr>) \<noteq> None"
proof -
  let ?a = "svc_start 401 True False"
  have own: "\<not> sa_own ?a" by (simp add: svc_start_def resolveMode_def enterServiceMode_def)
  have "filter (\<lambda>n. n = Connected \<or> n = Switched) (notices_of [Told Disconnected None None, FormIs False, Told Connected None None]) =
      sr_told (connect True 401 None 200 None ?a)"
    by (simp add: svc_start_def resolveMode_def svc_ops)
  then show ?thesis by (rule save_keeps_page [OF own])
qed

end
