(* ===== verification/Passphrase.thy ===== *)
theory Passphrase
  imports JsPrelude
begin

text \<open>
  The question for the passphrase of an encryption key: the prompts of the app
  (\<open>crypt_passphrase.go\<close>: \<open>beginPassphrasePrompt\<close>, \<open>waitPassphrase\<close>, \<open>submitPassphrase\<close>, and \<open>SubmitEncryptionPassphrase\<close>
  of \<open>main.go\<close>) and the dialog (\<open>components/PassphraseModal.jsx\<close>). One prompt is asked at a time
  (\<open>promptMu\<close>). \<open>verify path p\<close> says why the passphrase does not unlock the key, None when it does.
\<close>

section \<open>The prompts\<close>

datatype pass_answer = Cancelled | Phrase string

text \<open>\<open>pp_pending\<close> holds the prompts that are waited for and \<open>pp_got\<close> what each action was given: an answer, or
  none when the time was over. \<open>pp_ch\<close> are the channels, each with room for one answer.\<close>

record prompts =
  pp_seq :: nat
  pp_pending :: "(nat \<times> string) list"
  pp_ch :: "(nat \<times> pass_answer) list"
  pp_got :: "(nat \<times> pass_answer option) list"

definition beginPassphrasePrompt :: "string \<Rightarrow> prompts \<Rightarrow> prompts" where
  "beginPassphrasePrompt path b = b\<lparr>pp_seq := pp_seq b + 1, pp_pending := (pp_seq b + 1, path) # pp_pending b\<rparr>"

definition endPassphrasePrompt :: "nat \<Rightarrow> prompts \<Rightarrow> prompts" where
  "endPassphrasePrompt i b = b\<lparr>pp_pending := filter (\<lambda>(j, _). j \<noteq> i) (pp_pending b)\<rparr>"

text \<open>\<open>waitPassphrase\<close>: an answer, or ten minutes.\<close>

definition wait_answered :: "nat \<Rightarrow> prompts \<Rightarrow> prompts" where
  "wait_answered i b =
     (case (map_of (pp_pending b) i, map_of (pp_ch b) i) of
        (Some path, Some ans) \<Rightarrow> endPassphrasePrompt i (b\<lparr>pp_got := pp_got b @ [(i, Some ans)]\<rparr>)
      | _ \<Rightarrow> b)"

definition wait_timed_out :: "nat \<Rightarrow> prompts \<Rightarrow> prompts" where
  "wait_timed_out i b =
     (case map_of (pp_pending b) i of
        Some path \<Rightarrow> endPassphrasePrompt i (b\<lparr>pp_got := pp_got b @ [(i, None)]\<rparr>)
      | None \<Rightarrow> b)"

definition send_answer :: "nat \<Rightarrow> pass_answer \<Rightarrow> prompts \<Rightarrow> prompts" where
  "send_answer i ans b = (if map_of (pp_ch b) i = None then b\<lparr>pp_ch := (i, ans) # pp_ch b\<rparr> else b)"

definition submitPassphrase :: "(string \<Rightarrow> string \<Rightarrow> string option) \<Rightarrow> nat \<Rightarrow> string \<Rightarrow> bool \<Rightarrow> prompts \<Rightarrow> string option \<times> prompts" where
  "submitPassphrase verify i p cancel b =
     (case map_of (pp_pending b) i of
        None \<Rightarrow> (Some ''this passphrase request is no longer pending'', b)
      | Some path \<Rightarrow>
          if cancel then (None, send_answer i Cancelled b)
          else case verify path p of
                 Some err \<Rightarrow> (Some err, b)
               | None \<Rightarrow> (None, send_answer i (Phrase p) b))"

section \<open>The dialog\<close>

record pass_dialog =
  pd_req :: "nat option"
  pd_passphrase :: string
  pd_error :: string
  pd_busy :: bool

definition no_dialog :: pass_dialog where
  "no_dialog = \<lparr>pd_req = None, pd_passphrase = [], pd_error = [], pd_busy = False\<rparr>"

definition passphrase_required :: "nat \<Rightarrow> string \<Rightarrow> pass_dialog \<Rightarrow> pass_dialog" where
  "passphrase_required i err d = \<lparr>pd_req = Some i, pd_passphrase = [], pd_error = err, pd_busy = False\<rparr>"

text \<open>A click on Unlock or Cancel: the call it makes, if any.\<close>

definition submit_call :: "bool \<Rightarrow> pass_dialog \<Rightarrow> (nat \<times> string \<times> bool) option" where
  "submit_call cancel d =
     (case pd_req d of
        None \<Rightarrow> None
      | Some i \<Rightarrow> if pd_busy d \<or> (\<not> cancel \<and> pd_passphrase d = []) then None
                  else Some (i, if cancel then [] else pd_passphrase d, cancel))"

definition submit_answered :: "(string \<Rightarrow> string) \<Rightarrow> string option \<Rightarrow> pass_dialog \<Rightarrow> pass_dialog" where
  "submit_answered t err d =
     (case err of
        Some e \<Rightarrow> d\<lparr>pd_error := (if contains e ''wrong password'' then t ''encryptionPassphraseWrong'' else e), pd_passphrase := [], pd_busy := False\<rparr>
      | None \<Rightarrow> d\<lparr>pd_req := None, pd_passphrase := []\<rparr>)"

section \<open>Both together\<close>

text \<open>\<open>ps_calls\<close> are the calls on their way to the app, \<open>ps_replies\<close> its answers on their way back.\<close>

record pass_world =
  ps_app :: prompts
  ps_dialog :: pass_dialog
  ps_calls :: "(nat \<times> string \<times> bool) list"
  ps_replies :: "string option list"

datatype pass_event =
    Asked string string
  | TimeOver nat
  | Taken nat
  | Typed string
  | Clicked bool
  | CallArrives
  | ReplyArrives

definition pass_do :: "(string \<Rightarrow> string \<Rightarrow> string option) \<Rightarrow> (string \<Rightarrow> string) \<Rightarrow> pass_event \<Rightarrow> pass_world \<Rightarrow> pass_world" where
  "pass_do verify t e w =
     (case e of
        Asked path err \<Rightarrow>
          if pp_pending (ps_app w) = []
          then w\<lparr>ps_app := beginPassphrasePrompt path (ps_app w),
                 ps_dialog := passphrase_required (pp_seq (ps_app w) + 1) err (ps_dialog w)\<rparr>
          else w
      | TimeOver i \<Rightarrow> w\<lparr>ps_app := wait_timed_out i (ps_app w)\<rparr>
      | Taken i \<Rightarrow> w\<lparr>ps_app := wait_answered i (ps_app w)\<rparr>
      | Typed x \<Rightarrow> if pd_req (ps_dialog w) \<noteq> None \<and> \<not> pd_busy (ps_dialog w) then w\<lparr>ps_dialog := (ps_dialog w)\<lparr>pd_passphrase := x\<rparr>\<rparr> else w
      | Clicked cancel \<Rightarrow>
          (case submit_call cancel (ps_dialog w) of
             None \<Rightarrow> w
           | Some c \<Rightarrow> w\<lparr>ps_dialog := (ps_dialog w)\<lparr>pd_busy := True\<rparr>, ps_calls := ps_calls w @ [c]\<rparr>)
      | CallArrives \<Rightarrow>
          (case ps_calls w of
             [] \<Rightarrow> w
           | (i, p, cancel) # cs \<Rightarrow>
               (let (err, b) = submitPassphrase verify i p cancel (ps_app w)
                in w\<lparr>ps_app := b, ps_calls := cs, ps_replies := ps_replies w @ [err]\<rparr>))
      | ReplyArrives \<Rightarrow>
          (case ps_replies w of
             [] \<Rightarrow> w
           | err # rs \<Rightarrow> w\<lparr>ps_dialog := submit_answered t err (ps_dialog w), ps_replies := rs\<rparr>))"

definition pass_start :: pass_world where
  "pass_start = \<lparr>ps_app = \<lparr>pp_seq = 0, pp_pending = [], pp_ch = [], pp_got = []\<rparr>, ps_dialog = no_dialog, ps_calls = [], ps_replies = []\<rparr>"

fun pass_play :: "(string \<Rightarrow> string \<Rightarrow> string option) \<Rightarrow> (string \<Rightarrow> string) \<Rightarrow> pass_event list \<Rightarrow> pass_world \<Rightarrow> pass_world" where
  "pass_play verify t [] w = w"
| "pass_play verify t (e # es) w = pass_play verify t es (pass_do verify t e w)"

section \<open>A prompt whose time is over\<close>

definition locked :: "nat \<Rightarrow> pass_world \<Rightarrow> bool" where
  "locked i w \<longleftrightarrow> pd_req (ps_dialog w) = Some i \<and> map_of (pp_pending (ps_app w)) i = None \<and>
     list_all (\<lambda>(j, _). j = i) (ps_calls w) \<and> list_all (\<lambda>err. err \<noteq> None) (ps_replies w)"

lemma pending_filter: "map_of (filter (\<lambda>(j, _). j \<noteq> k) ps) i = (if i = k then None else map_of ps i)"
  by (induction ps) auto

lemma wait_pending:
  "map_of (pp_pending b) i = None \<Longrightarrow> map_of (pp_pending (wait_answered k b)) i = None"
  "map_of (pp_pending b) i = None \<Longrightarrow> map_of (pp_pending (wait_timed_out k b)) i = None"
  by (auto simp: wait_answered_def wait_timed_out_def endPassphrasePrompt_def pending_filter split: option.split)

lemma locked_do:
  assumes "locked i w" "\<And>path err. e \<noteq> Asked path err"
  shows "locked i (pass_do verify t e w)"
proof (cases e)
  case (Clicked cancel)
  then show ?thesis
    using assms(1) by (auto simp: locked_def pass_do_def submit_call_def split: option.split)
next
  case CallArrives
  show ?thesis
  proof (cases "ps_calls w")
    case (Cons c cs)
    obtain j p cancel where c: "c = (j, p, cancel)" by (cases c) auto
    with assms(1) Cons have "j = i" by (simp add: locked_def)
    then have "submitPassphrase verify j p cancel (ps_app w) = (Some ''this passphrase request is no longer pending'', ps_app w)"
      using assms(1) by (simp add: submitPassphrase_def locked_def)
    then show ?thesis using assms(1) Cons by (simp add: CallArrives pass_do_def c locked_def)
  qed (use assms(1) in \<open>simp add: CallArrives pass_do_def\<close>)
next
  case ReplyArrives
  with assms(1) show ?thesis
    by (auto simp: pass_do_def locked_def submit_answered_def split: list.split option.split)
qed (use assms in \<open>simp_all add: pass_do_def locked_def wait_pending\<close>)

text \<open>
  A passphrase dialog whose time is over cannot be closed. After ten minutes the app gives the prompt up, but
  tells the window nothing. From then on whatever is typed and clicked, Cancel too, is answered that the
  request is no longer pending, and the dialog, which covers the whole window, stays until another
  prompt replaces it.
\<close>
theorem timed_out_prompt_stays:
  assumes "pd_req (ps_dialog w) = Some i" "map_of (pp_pending (ps_app w)) i = None" "ps_calls w = []" "ps_replies w = []"
    "list_all (\<lambda>e. case e of Asked path err \<Rightarrow> False | _ \<Rightarrow> True) es"
  shows "pd_req (ps_dialog (pass_play verify t es w)) = Some i"
proof -
  have "locked i w" using assms(1-4) by (simp add: locked_def)
  then have "locked i (pass_play verify t es w)" using assms(5)
  proof (induction es arbitrary: w)
    case (Cons e es)
    then have "locked i (pass_do verify t e w)" by (intro locked_do) auto
    with Cons show ?case by simp
  qed simp
  then show ?thesis by (simp add: locked_def)
qed

definition timed_out :: pass_world where
  "timed_out = pass_play (\<lambda>_ _. None) (\<lambda>k. k) [Asked ''/keys/a.json'' [], TimeOver 1] pass_start"

theorem timed_out_prompt_stays_witness:
  "pd_req (ps_dialog (pass_play (\<lambda>_ _. None) (\<lambda>k. k) [Clicked True, CallArrives, ReplyArrives, Typed ''secret'', Clicked False, CallArrives, ReplyArrives]
     timed_out)) = Some 1"
proof -
  have "pd_req (ps_dialog timed_out) = Some 1" "map_of (pp_pending (ps_app timed_out)) 1 = None" "ps_calls timed_out = []" "ps_replies timed_out = []"
    by (simp_all add: timed_out_def pass_start_def pass_do_def beginPassphrasePrompt_def passphrase_required_def wait_timed_out_def
        endPassphrasePrompt_def)
  from timed_out_prompt_stays [OF this, of "[Clicked True, CallArrives, ReplyArrives, Typed ''secret'', Clicked False, CallArrives, ReplyArrives]"]
  show ?thesis by simp
qed

section \<open>An action gets the passphrase of its own key\<close>

definition pass_ok :: "(string \<Rightarrow> string \<Rightarrow> string option) \<Rightarrow> prompts \<Rightarrow> bool" where
  "pass_ok verify b \<longleftrightarrow> length (pp_pending b) \<le> 1 \<and> (\<forall>(i, _) \<in> set (pp_pending b). i \<le> pp_seq b \<and> i \<notin> fst ` set (pp_got b)) \<and>
     (\<forall>(i, _) \<in> set (pp_ch b). i \<le> pp_seq b) \<and> (\<forall>(i, _) \<in> set (pp_got b). i \<le> pp_seq b) \<and> distinct (map fst (pp_got b)) \<and>
     (\<forall>(i, path) \<in> set (pp_pending b). \<forall>p. map_of (pp_ch b) i = Some (Phrase p) \<longrightarrow> verify path p = None)"

lemma pass_ok_begin:
  assumes "pass_ok verify b" "pp_pending b = []" shows "pass_ok verify (beginPassphrasePrompt path b)"
proof -
  have "map_of (pp_ch b) (Suc (pp_seq b)) = None"
    using assms(1) by (force simp: pass_ok_def map_of_eq_None_iff)
  then show ?thesis using assms by (force simp: pass_ok_def beginPassphrasePrompt_def)
qed

lemma pass_ok_end:
  assumes "pass_ok verify b" "map_of (pp_pending b) i = Some path"
  shows "pass_ok verify (endPassphrasePrompt i (b\<lparr>pp_got := pp_got b @ [(i, r)]\<rparr>))"
proof -
  have i: "(i, path) \<in> set (pp_pending b)" by (rule map_of_SomeD [OF assms(2)])
  with assms(1) have one: "pp_pending b = [(i, path)]"
    by (cases "pp_pending b") (auto simp: pass_ok_def)
  then have "filter (\<lambda>(j, _). j \<noteq> i) (pp_pending b) = []" by simp
  with assms(1) one show ?thesis by (auto simp: pass_ok_def endPassphrasePrompt_def)
qed

lemma pass_ok_wait: "pass_ok verify b \<Longrightarrow> pass_ok verify (wait_answered i b)" "pass_ok verify b \<Longrightarrow> pass_ok verify (wait_timed_out i b)"
  by (auto simp: wait_answered_def wait_timed_out_def pass_ok_end split: option.split)

lemma pass_ok_submit:
  assumes "pass_ok verify b" shows "pass_ok verify (snd (submitPassphrase verify i p cancel b))"
proof (cases "map_of (pp_pending b) i")
  case (Some path)
  have one: "pp_pending b = [(i, path)]"
    using assms map_of_SomeD [OF Some] by (cases "pp_pending b") (auto simp: pass_ok_def)
  have "pass_ok verify (send_answer i ans b)" if "\<And>q. ans = Phrase q \<Longrightarrow> verify path q = None" for ans
    using assms one that by (auto simp: pass_ok_def send_answer_def)
  from this [of Cancelled] this [of "Phrase p"] assms show ?thesis
    by (auto simp: submitPassphrase_def Some split: option.split)
qed (use assms in \<open>simp add: submitPassphrase_def\<close>)

lemma pass_ok_do: "pass_ok verify (ps_app w) \<Longrightarrow> pass_ok verify (ps_app (pass_do verify t e w))"
proof (cases e)
  case CallArrives
  assume "pass_ok verify (ps_app w)"
  then show ?thesis
    using pass_ok_submit [of verify "ps_app w"] by (auto simp: CallArrives pass_do_def split: list.split prod.split) (metis snd_conv)
qed (auto simp: pass_do_def pass_ok_begin pass_ok_wait split: option.split list.split)

text \<open>
  An action is given a passphrase that unlocks its own key. Whatever is typed and clicked, in whichever order calls and
  answers come, one prompt is asked at a time; an action that is given a passphrase is given one that unlocks the
  key it asked for, and each is answered at most once, with the passphrase, the cancel or the end of
  its time.
\<close>
theorem passphrase_unlocks:
  "let b = ps_app (pass_play verify t es pass_start) in
   length (pp_pending b) \<le> 1 \<and> distinct (map fst (pp_got b)) \<and>
   (\<forall>i path p. map_of (pp_pending b) i = Some path \<longrightarrow> pp_got (wait_answered i b) = pp_got b @ [(i, Some (Phrase p))] \<longrightarrow> verify path p = None)"
proof -
  have "pass_ok verify (ps_app w) \<Longrightarrow> pass_ok verify (ps_app (pass_play verify t es w))" for w
    by (induction es arbitrary: w) (simp_all add: pass_ok_do)
  moreover have "pass_ok verify (ps_app pass_start)" by (simp add: pass_start_def pass_ok_def)
  ultimately have ok: "pass_ok verify (ps_app (pass_play verify t es pass_start))" by blast
  define b where "b = ps_app (pass_play verify t es pass_start)"
  have "verify path p = None"
    if "map_of (pp_pending b) i = Some path" "pp_got (wait_answered i b) = pp_got b @ [(i, Some (Phrase p))]" for i path p
  proof -
    have "map_of (pp_ch b) i = Some (Phrase p)"
      using that by (auto simp: wait_answered_def endPassphrasePrompt_def split: option.splits)
    with ok map_of_SomeD [OF that(1)] show ?thesis unfolding pass_ok_def b_def [symmetric] by blast
  qed
  with ok show ?thesis unfolding pass_ok_def b_def [symmetric] Let_def by blast
qed

theorem passphrase_unlocks_witness:
  "let verify = (\<lambda>path p. if p = ''good'' then None else Some ''wrong password'');
       b = ps_app (pass_play verify (\<lambda>k. k) [Asked ''a'' [], Typed ''bad'', Clicked False, CallArrives, ReplyArrives,
         Typed ''good'', Clicked False, CallArrives] pass_start)
   in pp_got (wait_answered 1 b) = [(1, Some (Phrase ''good''))] \<and> verify ''a'' ''good'' = None"
proof -
  let ?v = "\<lambda>path p. if p = ''good'' then None else Some ''wrong password''"
  let ?b = "ps_app (pass_play ?v (\<lambda>k. k) [Asked ''a'' [], Typed ''bad'', Clicked False, CallArrives, ReplyArrives,
         Typed ''good'', Clicked False, CallArrives] pass_start)"
  have a: "map_of (pp_pending ?b) 1 = Some ''a''" "pp_got (wait_answered 1 ?b) = [(1, Some (Phrase ''good''))]" "pp_got ?b = []"
    by code_simp+
  from passphrase_unlocks [of ?v "\<lambda>k. k" "[Asked ''a'' [], Typed ''bad'', Clicked False, CallArrives, ReplyArrives,
         Typed ''good'', Clicked False, CallArrives]"]
  have "?v ''a'' ''good'' = None" using a unfolding Let_def by (metis append_Nil)
  with a(2) show ?thesis unfolding Let_def by blast
qed

text \<open>The answer to one prompt can close the dialog of the next: when the app asks again before the answer is back in
  the window, that answer hides the new question, which is waited for until its time is over.\<close>

lemma next_prompt_hidden:
  "let w = pass_play (\<lambda>_ _. None) (\<lambda>k. k) [Asked ''a'' [], Typed ''x'', Clicked False, CallArrives, Taken 1, Asked ''b'' [], ReplyArrives] pass_start
   in pd_req (ps_dialog w) = None \<and> pp_pending (ps_app w) = [(2, ''b'')]"
  by code_simp

end
