(* ===== verification/Options.thy ===== *)
theory Options
  imports JsPrelude
begin

text \<open>
  Preferences, Backup Options (\<open>App.jsx\<close>): what is loaded when the window opens, what each control does,
  and what the app keeps (\<open>GetConfigWithHostname\<close> of \<open>main.go\<close>, the setters of \<open>theme.go\<close>, \<open>speed_limits.go\<close> and
  \<open>compression.go\<close>). A change is shown at once and sent; the answer comes later. What a setter refuses
  beside its own checks (the disk, the service) is an argument of the answer.
\<close>

section \<open>The options\<close>

record opts =
  op_restore :: bool
  op_read :: bool
  op_workers :: int
  op_runs :: int
  op_upload :: int
  op_download :: int
  op_disk :: int
  op_threads :: int
  op_timeout :: int
  op_level :: string

definition int_or :: "int \<Rightarrow> int \<Rightarrow> int" where
  "int_or d n = (if n = 0 then d else n)"

lemma int_or_0 [simp]: "int_or 0 n = n"
  by (simp add: int_or_def)

definition text_or :: "string \<Rightarrow> string \<Rightarrow> string" where
  "text_or d s = (if s = [] then d else s)"

definition clampRunLimit :: "int \<Rightarrow> int" where
  "clampRunLimit n = (if n \<le> 0 then 3 else if n > 8 then 8 else n)"

definition ValidCompressionLevel :: "string \<Rightarrow> bool" where
  "ValidCompressionLevel level \<longleftrightarrow> toLowerCase level \<in> {[], ''fastest'', ''default'', ''better'', ''best''}"

definition ParseCompressionLevel :: "string \<Rightarrow> string" where
  "ParseCompressionLevel level =
     (let l = toLowerCase level
      in if l \<in> {''fastest'', ''fast''} then ''fastest''
         else if l \<in> {''default'', []} then ''default''
         else if l = ''better'' then ''better''
         else if l \<in> {''best'', ''max''} then ''best'' else ''fastest'')"

definition compressionSetting :: "string \<Rightarrow> string" where
  "compressionSetting level = (if level \<noteq> [] \<and> ValidCompressionLevel level then ParseCompressionLevel level else ''default'')"

text \<open>What the backend sends of what it keeps.\<close>

definition config_data :: "opts \<Rightarrow> opts" where
  "config_data c = c\<lparr>op_runs := clampRunLimit (op_runs c), op_level := compressionSetting (op_level c)\<rparr>"

text \<open>What the window takes of it. \<open>upload_threads\<close> and \<open>chunk_timeout_seconds\<close> are not among the keys it sets, and
  are read as 0.\<close>

definition loaded_options :: "opts \<Rightarrow> opts" where
  "loaded_options d =
     \<lparr>op_restore = op_restore d, op_read = op_read d, op_workers = int_or 0 (op_workers d), op_runs = int_or 3 (op_runs d),
      op_upload = int_or 0 (op_upload d), op_download = int_or 0 (op_download d), op_disk = int_or 0 (op_disk d),
      op_threads = 0, op_timeout = 0, op_level = text_or ''default'' (op_level d)\<rparr>"

section \<open>The setters\<close>

datatype opt_call =
    SetParallelRestore bool
  | SetParallelBackupRead bool int
  | SetMaxConcurrentRuns int
  | SetSpeedLimits int int int
  | SetUploadThreads int
  | SetChunkTimeout int
  | SetCompressionLevel string

definition call_valid :: "opt_call \<Rightarrow> bool" where
  "call_valid c \<longleftrightarrow>
     (case c of
        SetParallelRestore b \<Rightarrow> True
      | SetParallelBackupRead b n \<Rightarrow> True
      | SetMaxConcurrentRuns n \<Rightarrow> 1 \<le> n \<and> n \<le> 8
      | SetSpeedLimits u d r \<Rightarrow> (\<forall>v \<in> {u, d, r}. 0 \<le> v \<and> v \<le> 100000)
      | SetUploadThreads n \<Rightarrow> 0 \<le> n \<and> n \<le> 8
      | SetChunkTimeout n \<Rightarrow> n = 0 \<or> 30 \<le> n \<and> n \<le> 1800
      | SetCompressionLevel l \<Rightarrow> ValidCompressionLevel l)"

definition call_write :: "opt_call \<Rightarrow> opts \<Rightarrow> opts" where
  "call_write c s =
     (case c of
        SetParallelRestore b \<Rightarrow> s\<lparr>op_restore := b\<rparr>
      | SetParallelBackupRead b n \<Rightarrow> s\<lparr>op_read := b, op_workers := n\<rparr>
      | SetMaxConcurrentRuns n \<Rightarrow> s\<lparr>op_runs := n\<rparr>
      | SetSpeedLimits u d r \<Rightarrow> s\<lparr>op_upload := u, op_download := d, op_disk := r\<rparr>
      | SetUploadThreads n \<Rightarrow> s\<lparr>op_threads := n\<rparr>
      | SetChunkTimeout n \<Rightarrow> s\<lparr>op_timeout := n\<rparr>
      | SetCompressionLevel l \<Rightarrow> s\<lparr>op_level := l\<rparr>)"

text \<open>How a call that passes the checks ends: taken; refused by the service, with nothing kept; or the settings file
  cannot be written, which is an error too, but the app keeps the value in memory.\<close>

datatype opt_answer = Accepted | Refused | Unsaved

definition set_option :: "opt_answer \<Rightarrow> opt_call \<Rightarrow> opts \<Rightarrow> bool \<times> opts" where
  "set_option answer c s =
     (if \<not> call_valid c \<or> answer = Refused then (False, s) else (answer = Accepted, call_write c s))"

section \<open>The controls\<close>

datatype limit_field = UploadLimit | DownloadLimit | DiskLimit

text \<open>The controls offer only what they list, a tick its opposite, and the number of workers shows only with its tick:
  another change does not come.
  A limit that is typed comes as its number, None for one that is none.\<close>

datatype opt_event =
    RestoreTicked bool
  | ReadTicked bool
  | WorkersTyped string
  | WorkersLeft string
  | RunsChosen int
  | LimitTyped limit_field "rat option"
  | LimitLeft
  | ThreadsChosen int
  | TimeoutChosen int
  | LevelChosen string

definition timeout_choices :: "opts \<Rightarrow> int list" where
  "timeout_choices v =
     0 # [30, 60, 120, 300, 600, 1800] @ (if op_timeout v \<in> set [30, 60, 120, 300, 600, 1800, 0] then [] else [op_timeout v])"

definition offered :: "opt_event \<Rightarrow> opts \<Rightarrow> bool" where
  "offered e v \<longleftrightarrow>
     (case e of
        RestoreTicked b \<Rightarrow> b = (\<not> op_restore v)
      | ReadTicked b \<Rightarrow> b = (\<not> op_read v)
      | WorkersTyped x \<Rightarrow> op_read v
      | WorkersLeft x \<Rightarrow> op_read v
      | RunsChosen n \<Rightarrow> n \<in> {1..8}
      | ThreadsChosen n \<Rightarrow> n \<in> {0..8}
      | TimeoutChosen n \<Rightarrow> n \<in> set (timeout_choices v)
      | LevelChosen l \<Rightarrow> l \<in> {''fastest'', ''default'', ''better'', ''best''}
      | _ \<Rightarrow> True)"

definition set_limit :: "limit_field \<Rightarrow> int \<Rightarrow> opts \<Rightarrow> opts" where
  "set_limit f n v = (case f of UploadLimit \<Rightarrow> v\<lparr>op_upload := n\<rparr> | DownloadLimit \<Rightarrow> v\<lparr>op_download := n\<rparr> | DiskLimit \<Rightarrow> v\<lparr>op_disk := n\<rparr>)"

definition typed_limit :: "rat option \<Rightarrow> int" where
  "typed_limit v = min 100000 (max 0 (case v of None \<Rightarrow> 0 | Some x \<Rightarrow> \<lfloor>x\<rfloor>))"

text \<open>What a control does to the options shown, what it calls, and what it shows if that fails: the options as they were
  when it was changed, with its own put back, or nothing.\<close>

definition opt_change :: "opt_event \<Rightarrow> opts \<Rightarrow> opts \<times> (opt_call \<times> opts option) option" where
  "opt_change e v =
     (case e of
        RestoreTicked b \<Rightarrow> (v\<lparr>op_restore := b\<rparr>, Some (SetParallelRestore b, Some (v\<lparr>op_restore := \<not> b\<rparr>)))
      | ReadTicked b \<Rightarrow> (v\<lparr>op_read := b\<rparr>, Some (SetParallelBackupRead b (int_or 0 (op_workers v)), Some (v\<lparr>op_read := \<not> b\<rparr>)))
      | WorkersTyped x \<Rightarrow> (v\<lparr>op_workers := parse_int_or 8 x\<rparr>, None)
      | WorkersLeft x \<Rightarrow>
          (let n = min 32 (max 1 (parse_int_or 8 x)) in (v\<lparr>op_workers := n\<rparr>, Some (SetParallelBackupRead True n, None)))
      | RunsChosen n \<Rightarrow> (v\<lparr>op_runs := n\<rparr>, Some (SetMaxConcurrentRuns n, Some (v\<lparr>op_runs := int_or 3 (op_runs v)\<rparr>)))
      | LimitTyped f x \<Rightarrow> (set_limit f (typed_limit x) v, None)
      | LimitLeft \<Rightarrow> (v, Some (SetSpeedLimits (int_or 0 (op_upload v)) (int_or 0 (op_download v)) (int_or 0 (op_disk v)), None))
      | ThreadsChosen n \<Rightarrow> (v\<lparr>op_threads := n\<rparr>, Some (SetUploadThreads n, Some (v\<lparr>op_threads := int_or 0 (op_threads v)\<rparr>)))
      | TimeoutChosen n \<Rightarrow> (v\<lparr>op_timeout := n\<rparr>, Some (SetChunkTimeout n, Some (v\<lparr>op_timeout := int_or 0 (op_timeout v)\<rparr>)))
      | LevelChosen l \<Rightarrow> (v\<lparr>op_level := l\<rparr>, Some (SetCompressionLevel l, Some (v\<lparr>op_level := text_or ''default'' (op_level v)\<rparr>))))"

record opt_page =
  og_shown :: opts
  og_kept :: opts
  og_calls :: "(opt_call \<times> opts option) list"

definition opt_changed :: "opt_event \<Rightarrow> opt_page \<Rightarrow> opt_page" where
  "opt_changed e p =
     (if \<not> offered e (og_shown p) then p
      else case opt_change e (og_shown p) of
             (shown, call) \<Rightarrow> p\<lparr>og_shown := shown, og_calls := og_calls p @ (case call of None \<Rightarrow> [] | Some c \<Rightarrow> [c])\<rparr>)"

text \<open>The app answers the call at place \<open>i\<close>.\<close>

definition opt_answered :: "nat \<Rightarrow> opt_answer \<Rightarrow> opt_page \<Rightarrow> opt_page" where
  "opt_answered i answer p =
     (if i < length (og_calls p)
      then let (call, old) = og_calls p ! i; (ok, kept) = set_option answer call (og_kept p)
           in p\<lparr>og_kept := kept, og_calls := take i (og_calls p) @ drop (Suc i) (og_calls p),
                og_shown := (if ok then og_shown p else case old of None \<Rightarrow> og_shown p | Some b \<Rightarrow> b)\<rparr>
      else p)"

definition opened :: "opts \<Rightarrow> opt_page" where
  "opened kept = \<lparr>og_shown = loaded_options (config_data kept), og_kept = kept, og_calls = []\<rparr>"

section \<open>What is shown is what is kept\<close>

text \<open>The options with a list or a tick, as the controls show them, beside what the app keeps. The number of upload
  threads and the chunk timeout are not loaded: each is shown as kept, or still at its default, with what was
  stored when the window opened.\<close>

definition choices :: "opts \<Rightarrow> bool \<times> bool \<times> int \<times> string" where
  "choices v = (op_restore v, op_read v, int_or 3 (op_runs v), text_or ''default'' (op_level v))"

definition agrees :: "opts \<Rightarrow> opt_page \<Rightarrow> bool" where
  "agrees stored p \<longleftrightarrow> og_calls p = [] \<and> choices (og_shown p) = choices (config_data (og_kept p)) \<and>
     (op_threads (og_shown p) = op_threads (og_kept p) \<or> op_threads (og_shown p) = 0 \<and> op_threads (og_kept p) = op_threads stored) \<and>
     (op_timeout (og_shown p) = op_timeout (og_kept p) \<or> op_timeout (og_shown p) = 0 \<and> op_timeout (og_kept p) = op_timeout stored)"

definition one_change :: "opt_event \<Rightarrow> opt_answer \<Rightarrow> opt_page \<Rightarrow> opt_page" where
  "one_change e answer p = (let q = opt_changed e p in if og_calls q = [] then q else opt_answered 0 answer q)"

lemma offered_levels:
  assumes "l \<in> {''fastest'', ''default'', ''better'', ''best''}"
  shows "text_or ''default'' l = text_or ''default'' (compressionSetting l)"
proof -
  have "compressionSetting ''fastest'' = ''fastest''" "compressionSetting ''default'' = ''default''"
    "compressionSetting ''better'' = ''better''" "compressionSetting ''best'' = ''best''"
    by code_simp+
  with assms show ?thesis by auto
qed

lemma choices_iff:
  "choices v = choices w \<longleftrightarrow> op_restore v = op_restore w \<and> op_read v = op_read w \<and> int_or 3 (op_runs v) = int_or 3 (op_runs w) \<and> text_or ''default'' (op_level v) = text_or ''default'' (op_level w)"
  by (simp add: choices_def int_or_def)

lemma config_data_simps [simp]:
  "op_restore (config_data c) = op_restore c" "op_read (config_data c) = op_read c" "op_runs (config_data c) = clampRunLimit (op_runs c)"
  "op_threads (config_data c) = op_threads c" "op_timeout (config_data c) = op_timeout c" "op_level (config_data c) = compressionSetting (op_level c)"
  "op_workers (config_data c) = op_workers c" "op_upload (config_data c) = op_upload c" "op_download (config_data c) = op_download c"
  "op_disk (config_data c) = op_disk c"
  by (simp_all add: config_data_def)

lemma one_change_call:
  assumes "og_calls p = []" "offered e (og_shown p)" "opt_change e (og_shown p) = (w, Some (c, old))"
  shows "one_change e answer p =
    (if \<not> call_valid c \<or> answer = Refused then p\<lparr>og_shown := (case old of None \<Rightarrow> w | Some b \<Rightarrow> b)\<rparr>
     else if answer = Unsaved then p\<lparr>og_shown := (case old of None \<Rightarrow> w | Some b \<Rightarrow> b), og_kept := call_write c (og_kept p)\<rparr>
     else p\<lparr>og_shown := w, og_kept := call_write c (og_kept p)\<rparr>)"
  using assms by (cases p; cases old; cases answer) (simp_all add: one_change_def opt_changed_def opt_answered_def set_option_def)

lemma one_change_quiet:
  assumes "og_calls p = []" "offered e (og_shown p)" "opt_change e (og_shown p) = (w, None)"
  shows "one_change e answer p = p\<lparr>og_shown := w\<rparr>"
  using assms by (simp add: one_change_def opt_changed_def)

lemma clamp_offered: "n \<in> {1..8} \<Longrightarrow> int_or 3 n = int_or 3 (clampRunLimit n)"
  by (simp add: clampRunLimit_def)

lemma agrees_change:
  assumes "agrees stored p" "answer \<noteq> Unsaved"
  shows "agrees stored (one_change e answer p)"
proof (cases "offered e (og_shown p)")
  case False
  then show ?thesis using assms(1) by (simp add: one_change_def opt_changed_def agrees_def)
next
  case True
  have c: "og_calls p = []" "choices (og_shown p) = choices (config_data (og_kept p))"
    "op_threads (og_shown p) = op_threads (og_kept p) \<or> op_threads (og_shown p) = 0 \<and> op_threads (og_kept p) = op_threads stored"
    "op_timeout (og_shown p) = op_timeout (og_kept p) \<or> op_timeout (og_shown p) = 0 \<and> op_timeout (og_kept p) = op_timeout stored"
    using assms(1) by (simp_all add: agrees_def)
  note call = one_change_call [OF c(1) True] and quiet = one_change_quiet [OF c(1) True]
  show ?thesis
  proof (cases e)
    case (RestoreTicked b)
    show ?thesis using c True assms(2) unfolding call [unfolded RestoreTicked opt_change_def opt_event.case, OF refl] RestoreTicked
      by (auto simp: agrees_def choices_iff call_write_def call_valid_def offered_def)
  next
    case (ReadTicked b)
    show ?thesis using c True assms(2) unfolding call [unfolded ReadTicked opt_change_def opt_event.case, OF refl] ReadTicked
      by (auto simp: agrees_def choices_iff call_write_def call_valid_def offered_def)
  next
    case (WorkersTyped x)
    show ?thesis using c assms(2) unfolding quiet [unfolded WorkersTyped opt_change_def opt_event.case, OF refl] WorkersTyped
      by (simp add: agrees_def choices_iff)
  next
    case (WorkersLeft x)
    then show ?thesis using c True assms(2) unfolding call [unfolded WorkersLeft opt_change_def opt_event.case Let_def, OF refl] WorkersLeft
      by (simp add: agrees_def choices_iff call_write_def call_valid_def offered_def)
  next
    case (RunsChosen n)
    then have "int_or 3 n = int_or 3 (clampRunLimit n)" using True by (intro clamp_offered) (simp add: offered_def)
    then show ?thesis using c assms(2) unfolding call [unfolded RunsChosen opt_change_def opt_event.case, OF refl] RunsChosen
      by (simp add: agrees_def choices_iff call_write_def) (simp add: int_or_def)
  next
    case (LimitTyped f x)
    show ?thesis using c assms(2) unfolding quiet [unfolded LimitTyped opt_change_def opt_event.case, OF refl] LimitTyped
      by (cases f) (simp_all add: agrees_def choices_iff set_limit_def)
  next
    case LimitLeft
    show ?thesis using c assms(2) unfolding call [unfolded LimitLeft opt_change_def opt_event.case, OF refl] LimitLeft
      by (simp add: agrees_def choices_iff call_write_def)
  next
    case (ThreadsChosen n)
    show ?thesis using c assms(2) unfolding call [unfolded ThreadsChosen opt_change_def opt_event.case, OF refl] ThreadsChosen
      by (simp add: agrees_def choices_iff call_write_def)
  next
    case (TimeoutChosen n)
    show ?thesis using c assms(2) unfolding call [unfolded TimeoutChosen opt_change_def opt_event.case, OF refl] TimeoutChosen
      by (simp add: agrees_def choices_iff call_write_def)
  next
    case (LevelChosen l)
    then have "text_or ''default'' l = text_or ''default'' (compressionSetting l)" using True by (intro offered_levels) (simp add: offered_def)
    then show ?thesis using c assms(2) unfolding call [unfolded LevelChosen opt_change_def opt_event.case, OF refl] LevelChosen
      by (simp add: agrees_def choices_iff call_write_def) (simp add: text_or_def)
  qed
qed

fun one_by_one :: "(opt_event \<times> opt_answer) list \<Rightarrow> opt_page \<Rightarrow> opt_page" where
  "one_by_one [] p = p"
| "one_by_one ((e, answer) # es) p = one_by_one es (one_change e answer p)"

lemma agrees_play: "agrees stored p \<Longrightarrow> Unsaved \<notin> snd ` set es \<Longrightarrow> agrees stored (one_by_one es p)"
proof (induction es arbitrary: p)
  case (Cons e es)
  obtain ev answer where e: "e = (ev, answer)" by (cases e)
  with Cons.prems have "agrees stored (one_change ev answer p)" by (intro agrees_change) auto
  from Cons.IH [OF this] Cons.prems(2) show ?case by (simp add: e)
qed simp

lemma agrees_opened: "agrees stored (opened stored)"
proof -
  have "clampRunLimit n \<noteq> 0" for n by (simp add: clampRunLimit_def)
  moreover have "compressionSetting l \<noteq> []" for l
    by (simp add: compressionSetting_def ParseCompressionLevel_def Let_def)
  ultimately show ?thesis
    by (simp add: opened_def loaded_options_def agrees_def choices_iff int_or_def text_or_def)
qed

text \<open>What leaving a limit's field or the one of the workers does.\<close>

definition limits :: "opts \<Rightarrow> int list" where
  "limits v = [op_upload v, op_download v, op_disk v]"

lemma limits_left:
  assumes "og_calls p = []" "call_valid (SetSpeedLimits (op_upload (og_shown p)) (op_download (og_shown p)) (op_disk (og_shown p)))"
  shows "limits (og_shown (one_change LimitLeft Accepted p)) = limits (og_shown p)"
    "limits (og_kept (one_change LimitLeft Accepted p)) = limits (og_shown p)"
  using one_change_call [OF assms(1), of LimitLeft _ _ _ Accepted] assms(2)
  by (simp_all add: offered_def opt_change_def int_or_def limits_def call_write_def)

lemma workers_left:
  assumes "og_calls p = []" "op_read (og_shown p)"
  shows "op_workers (og_shown (one_change (WorkersLeft x) Accepted p)) = min 32 (max 1 (parse_int_or 8 x))"
    "op_workers (og_kept (one_change (WorkersLeft x) Accepted p)) = min 32 (max 1 (parse_int_or 8 x))"
  using one_change_call [OF assms(1), of "WorkersLeft x" _ _ _ Accepted] assms(2)
  by (simp_all add: offered_def opt_change_def call_valid_def call_write_def Let_def)

text \<open>
  C31: the options with a list or a tick show what is kept. Whatever was stored when the window opened, and as long as each
  change is answered before the next is made and the settings file can be written, the two ticks, the number of runs and
  the level of compression show what the app keeps after every change, accepted or refused; the upload threads and the
  chunk timeout, which the window does not load, show what is kept or are still at their default with what was stored.
  The limits of speed and the number of workers are what is kept once their field was left and accepted; they are
  not put back when refused.
\<close>
theorem options_agree:
  assumes "p = one_by_one es (opened stored)" "Unsaved \<notin> snd ` set es"
  shows "choices (og_shown p) = choices (config_data (og_kept p)) \<and>
    (op_threads (og_shown p) = op_threads (og_kept p) \<or> op_threads (og_shown p) = 0 \<and> op_threads (og_kept p) = op_threads stored) \<and>
    (op_timeout (og_shown p) = op_timeout (og_kept p) \<or> op_timeout (og_shown p) = 0 \<and> op_timeout (og_kept p) = op_timeout stored) \<and>
    (call_valid (SetSpeedLimits (op_upload (og_shown p)) (op_download (og_shown p)) (op_disk (og_shown p))) \<longrightarrow>
       limits (og_kept (one_change LimitLeft Accepted p)) = limits (og_shown p)) \<and>
    (op_read (og_shown p) \<longrightarrow> op_workers (og_shown (one_change (WorkersLeft x) Accepted p)) \<in> {1..32} \<and>
       op_workers (og_kept (one_change (WorkersLeft x) Accepted p)) = op_workers (og_shown (one_change (WorkersLeft x) Accepted p)))"
proof -
  have a: "agrees stored p" unfolding assms(1) by (rule agrees_play [OF agrees_opened assms(2)])
  then have c: "og_calls p = []" by (simp add: agrees_def)
  from a limits_left(2) [OF c] workers_left [OF c] show ?thesis by (simp add: agrees_def)
qed

definition some_opts :: opts where
  "some_opts = \<lparr>op_restore = False, op_read = True, op_workers = 8, op_runs = 3, op_upload = 0, op_download = 0, op_disk = 0,
     op_threads = 0, op_timeout = 0, op_level = ''default''\<rparr>"

theorem options_agree_witness:
  "op_threads (og_shown (one_by_one [(RunsChosen 5, Accepted), (LevelChosen ''best'', Refused), (RestoreTicked True, Accepted)] (opened (some_opts\<lparr>op_threads := 4\<rparr>)))) = 0 \<and>
   choices (og_shown (one_by_one [(RunsChosen 5, Accepted), (LevelChosen ''best'', Refused), (RestoreTicked True, Accepted)] (opened (some_opts\<lparr>op_threads := 4\<rparr>)))) =
   (True, True, 5, ''default'')"
proof -
  let ?es = "[(RunsChosen 5, Accepted), (LevelChosen ''best'', Refused), (RestoreTicked True, Accepted)]"
  let ?p = "one_by_one ?es (opened (some_opts\<lparr>op_threads := 4\<rparr>))"
  have "choices (config_data (og_kept ?p)) = (True, True, 5, ''default'')" "op_threads (og_shown ?p) = 0" by code_simp+
  moreover have "Unsaved \<notin> snd ` set ?es" by simp
  ultimately show ?thesis using options_agree [OF refl, of ?es "some_opts\<lparr>op_threads := 4\<rparr>"] by simp
qed

text \<open>
  The window opens with two of the options not as they are kept. Whatever is stored, the upload threads read "Auto" and
  the chunk timeout "Default", as the window takes neither of what the app sends; the other eight options are shown as
  they are stored.
\<close>
theorem opened_options:
  "let p = opened kept; d = config_data kept in
   op_threads (og_shown p) = 0 \<and> op_timeout (og_shown p) = 0 \<and>
   op_restore (og_shown p) = op_restore d \<and> op_read (og_shown p) = op_read d \<and> op_workers (og_shown p) = op_workers d \<and>
   op_runs (og_shown p) = op_runs d \<and> op_upload (og_shown p) = op_upload d \<and> op_download (og_shown p) = op_download d \<and>
   op_disk (og_shown p) = op_disk d \<and> op_level (og_shown p) = op_level d"
proof -
  have "clampRunLimit n \<noteq> 0" for n by (simp add: clampRunLimit_def)
  moreover have "compressionSetting l \<noteq> []" for l
    by (simp add: compressionSetting_def ParseCompressionLevel_def Let_def)
  ultimately show ?thesis
    by (auto simp: Let_def opened_def loaded_options_def int_or_def text_or_def)
qed

text \<open>A settings file that cannot be written: the control goes back, and the app keeps the new value all the same.\<close>

lemma unsaved_option_kept:
  "let p = one_by_one [(RunsChosen 5, Unsaved)] (opened some_opts) in op_runs (og_shown p) = 3 \<and> op_runs (og_kept p) = 5"
  by code_simp

text \<open>Two changes at a time: when the first is refused after the second was accepted, what is put back are the
  options from before both, and the second is shown as it was although it is kept.\<close>

lemma late_refusal:
  "let p = opt_answered 0 Refused (opt_answered 1 Accepted (opt_changed (LevelChosen ''best'') (opt_changed (RunsChosen 5) (opened some_opts))))
   in op_level (og_kept p) = ''best'' \<and> op_level (og_shown p) = ''default''"
  by code_simp

end
