(* ===== verification/Help.thy ===== *)
theory Help
  imports JsPrelude
begin

text \<open>
  The Help page: the identities of headings, the links of the manuals and the contents list
  (\<open>manuals.js\<close>), which manual and section is open (\<open>openManual\<close> of \<open>App.jsx\<close>,
  \<open>components/ManualViewer.jsx\<close>), and the list of languages (\<open>components/LanguageSwitcher.jsx\<close>).
  The letters and digits of Unicode, the parser of addresses and \<open>decodeURIComponent\<close> are arguments.
\<close>

section \<open>The manuals\<close>

record manual =
  ml_id :: string
  ml_path :: string
  ml_label :: string

definition MANUALS :: "manual list" where
  "MANUALS =
     [\<lparr>ml_id = ''gui'', ml_path = ''docs/manual/GUI.md'', ml_label = ''manualGui''\<rparr>,
      \<lparr>ml_id = ''cli'', ml_path = ''docs/manual/CLI.md'', ml_label = ''manualCli''\<rparr>,
      \<lparr>ml_id = ''bmr'', ml_path = ''docs/manual/BMR.md'', ml_label = ''manualBmr''\<rparr>,
      \<lparr>ml_id = ''restore'', ml_path = ''docs/RESTORE_GUIDE.md'', ml_label = ''manualRestore''\<rparr>]"

definition REPO :: string where
  "REPO = ''https://github.com/salvanza/salvanza_client''"

text \<open>\<open>/^\d+\.\d+\.\d+$/\<close>: three numbers.\<close>

definition repoRef :: "string \<Rightarrow> string" where
  "repoRef appVersion =
     (case split_on (CHR ''.'') appVersion of
        [a, b, c] \<Rightarrow> if list_all (\<lambda>n. n \<noteq> [] \<and> list_all is_digit n) [a, b, c] then ''v'' @ appVersion else ''master''
      | _ \<Rightarrow> ''master'')"

section \<open>Headings\<close>

definition slug_base :: "(char \<Rightarrow> bool) \<Rightarrow> string \<Rightarrow> string" where
  "slug_base word text =
     map (\<lambda>c. if c = CHR '' '' then CHR ''-'' else c)
       (filter (\<lambda>c. word c \<or> c = CHR ''-'' \<or> c = CHR '' '') (trim (toLowerCase text)))"

text \<open>One call of the function \<open>makeSlugger\<close> returns; \<open>seen\<close> counts the repeats of each base.\<close>

definition slug_of :: "(char \<Rightarrow> bool) \<Rightarrow> string \<Rightarrow> (string \<Rightarrow> nat option) \<Rightarrow> string \<times> (string \<Rightarrow> nat option)" where
  "slug_of word text seen =
     (let base = slug_base word text; n = seen base
      in (case n of None \<Rightarrow> base | Some n \<Rightarrow> base @ ''-'' @ show_nat (n + 1),
          seen(base \<mapsto> (case n of None \<Rightarrow> 0 | Some n \<Rightarrow> n + 1))))"

fun slugs :: "(char \<Rightarrow> bool) \<Rightarrow> string list \<Rightarrow> (string \<Rightarrow> nat option) \<Rightarrow> string list" where
  "slugs word [] seen = []"
| "slugs word (x # xs) seen = (let (i, seen) = slug_of word x seen in i # slugs word xs seen)"

section \<open>Links\<close>

definition is_letter :: "char \<Rightarrow> bool" where
  "is_letter c \<longleftrightarrow> (97 \<le> code_unit (lower_char c) \<and> code_unit (lower_char c) \<le> 122)"

text \<open>\<open>/^[a-z][a-z0-9+.-]*:/i\<close>\<close>

definition has_scheme :: "string \<Rightarrow> bool" where
  "has_scheme href \<longleftrightarrow>
     (case href of
        [] \<Rightarrow> False
      | c # r \<Rightarrow> is_letter c \<and> prefix '':'' (dropWhile (\<lambda>c. is_letter c \<or> is_digit c \<or> c \<in> {CHR ''+'', CHR ''.'', CHR ''-''}) r))"

datatype link = Web string | Place string string

text \<open>\<open>url\<close> gives the path of an address seen from another, without its leading slash, and its fragment
  with the number sign, or nothing.\<close>

definition resolveLink ::
  "(string \<Rightarrow> string \<Rightarrow> string \<times> string) \<Rightarrow> (string \<Rightarrow> string) \<Rightarrow> string \<Rightarrow> manual \<Rightarrow> string \<Rightarrow> link" where
  "resolveLink url decode href doc ref =
     (if has_scheme href then Web href
      else if startsWith href ''#'' then Place (ml_id doc) (decode (tl href))
      else
        let (path, hash) = url href (''https://repo/'' @ ml_path doc)
        in case List.find (\<lambda>m. ml_path m = path) MANUALS of
             Some target \<Rightarrow> Place (ml_id target) (if hash \<noteq> [] then decode (tl hash) else [])
           | None \<Rightarrow> Web (REPO @ ''/blob/'' @ ref @ ''/'' @ path @ hash))"

text \<open>The contents list: the headings of the second level, without the manual's own contents.\<close>

record heading =
  hd_depth :: nat
  hd_text :: string

definition contents_list :: "(char \<Rightarrow> bool) \<Rightarrow> heading list \<Rightarrow> (string \<times> string) list" where
  "contents_list word hs =
     filter (\<lambda>(i, _). i \<noteq> ''contents'')
       (map (\<lambda>(i, h). (i, hd_text h)) (filter (\<lambda>(_, h). hd_depth h = 2) (zip (slugs word (map hd_text hs) Map.empty) hs)))"

section \<open>The page\<close>

record help_page =
  hp_doc :: string
  hp_anchor :: string
  hp_nonce :: nat
  hp_shown :: bool

definition openManual :: "string \<Rightarrow> string \<Rightarrow> help_page \<Rightarrow> help_page" where
  "openManual doc anchor v =
     \<lparr>hp_doc = (if doc = [] then ''gui'' else doc), hp_anchor = anchor, hp_nonce = hp_nonce v + 1, hp_shown = True\<rparr>"

definition open_manual :: "help_page \<Rightarrow> manual" where
  "open_manual v = (case List.find (\<lambda>m. ml_id m = hp_doc v) MANUALS of Some m \<Rightarrow> m | None \<Rightarrow> hd MANUALS)"

text \<open>A click on a link of the app; one to a page outside is the browser's.\<close>

definition link_clicked :: "link \<Rightarrow> help_page \<Rightarrow> help_page" where
  "link_clicked l v = (case l of Web u \<Rightarrow> v | Place doc anchor \<Rightarrow> openManual doc anchor v)"

section \<open>Languages\<close>

definition languages :: "(string \<times> string) list" where
  "languages =
     [(''bg'', ''bg''), (''cs'', ''cz''), (''de'', ''de''), (''en'', ''gb''), (''es'', ''es''), (''el'', ''gr''), (''fr'', ''fr''),
      (''hu'', ''hu''), (''it'', ''it''), (''lv'', ''lv''), (''lt'', ''lt''), (''nl'', ''nl''), (''pl'', ''pl''), (''pt'', ''pt''),
      (''ro'', ''ro''), (''sk'', ''sk''), (''tr'', ''tr''), (''uk'', ''ua'')]"

definition currentLanguage :: "string \<Rightarrow> string \<times> string" where
  "currentLanguage language = (case List.find (\<lambda>(c, _). c = language) languages of Some l \<Rightarrow> l | None \<Rightarrow> hd languages)"

section \<open>Every heading has its own identity\<close>

definition occurrences :: "string \<Rightarrow> string list \<Rightarrow> nat" where
  "occurrences b bs = count_list bs b"

definition numbered :: "string \<Rightarrow> nat \<Rightarrow> string" where
  "numbered b k = (if k = 0 then b else b @ ''-'' @ show_nat k)"

text \<open>What has been seen when the headings with these bases have been given their identities.\<close>

definition seen_ok :: "string list \<Rightarrow> (string \<Rightarrow> nat option) \<Rightarrow> bool" where
  "seen_ok bs seen \<longleftrightarrow> (\<forall>b. seen b = (if occurrences b bs = 0 then None else Some (occurrences b bs - 1)))"

lemma slug_of_numbered:
  assumes "seen_ok bs seen"
  shows "slug_of word x seen = (numbered (slug_base word x) (occurrences (slug_base word x) bs), seen(slug_base word x \<mapsto> occurrences (slug_base word x) bs))"
  using assms by (simp add: slug_of_def seen_ok_def numbered_def Let_def)

lemma seen_ok_next:
  "seen_ok bs seen \<Longrightarrow> seen_ok (bs @ [b]) (seen(b \<mapsto> occurrences b bs))"
  by (auto simp: seen_ok_def occurrences_def)

fun numbers :: "string list \<Rightarrow> string list \<Rightarrow> (string \<times> nat) list" where
  "numbers bs [] = []"
| "numbers bs (x # xs) = (x, occurrences x bs) # numbers (bs @ [x]) xs"

lemma slugs_numbers:
  "seen_ok bs seen \<Longrightarrow> slugs word xs seen = map (\<lambda>(b, k). numbered b k) (numbers bs (map (slug_base word) xs))"
  by (induction xs arbitrary: bs seen) (simp_all add: slug_of_numbered seen_ok_next)

lemma numbers_later: "(b, k) \<in> set (numbers bs xs) \<Longrightarrow> occurrences b bs \<le> k \<and> b \<in> set xs"
proof (induction xs arbitrary: bs)
  case (Cons x xs)
  show ?case
  proof (cases "(b, k) \<in> set (numbers (bs @ [x]) xs)")
    case True
    from Cons.IH [OF this] show ?thesis by (auto simp: occurrences_def split: if_splits)
  qed (use Cons.prems in auto)
qed simp

lemma numbers_distinct: "distinct (numbers bs xs)"
proof (induction xs arbitrary: bs)
  case (Cons x xs)
  have "(x, occurrences x bs) \<notin> set (numbers (bs @ [x]) xs)"
    using numbers_later [of x "occurrences x bs" "bs @ [x]" xs] by (auto simp: occurrences_def)
  with Cons show ?case by simp
qed simp

lemma last_dash:
  assumes "b @ CHR ''-'' # s = c @ CHR ''-'' # t" "CHR ''-'' \<notin> set s" "CHR ''-'' \<notin> set t"
  shows "b = c \<and> s = t"
proof -
  have t: "takeWhile (\<lambda>x. x \<noteq> CHR ''-'') (rev (b' @ CHR ''-'' # s')) = rev s'" if "CHR ''-'' \<notin> set s'" for b' s'
  proof -
    have "\<And>x. x \<in> set (rev s') \<Longrightarrow> x \<noteq> CHR ''-''" using that by auto
    then have "takeWhile (\<lambda>x. x \<noteq> CHR ''-'') (rev s' @ CHR ''-'' # rev b') = rev s' @ takeWhile (\<lambda>x. x \<noteq> CHR ''-'') (CHR ''-'' # rev b')"
      by (rule takeWhile_append2)
    then show ?thesis by simp
  qed
  from t [OF assms(2), of b] t [OF assms(3), of c] assms(1) have "s = t" by (simp del: rev.simps)
  with assms(1) show ?thesis by simp
qed

lemma slugs_eval: "slugs word xs Map.empty = map (\<lambda>(b, k). numbered b k) (numbers [] (map (slug_base word) xs))"
  by (rule slugs_numbers) (simp add: seen_ok_def occurrences_def)

lemma no_dash: "CHR ''-'' \<notin> set (show_nat n)"
proof
  assume "CHR ''-'' \<in> set (show_nat n)"
  then have "is_digit CHR ''-''" using show_nat_digits by blast
  moreover have "\<not> is_digit CHR ''-''" by code_simp
  ultimately show False by simp
qed

lemma numbered_inj:
  assumes "numbered b k = numbered c j" "\<And>i. i > 0 \<Longrightarrow> b \<noteq> numbered c i" "\<And>i. i > 0 \<Longrightarrow> c \<noteq> numbered b i"
  shows "b = c \<and> k = j"
proof (cases "k = 0 \<or> j = 0")
  case True
  then show ?thesis using assms(1) assms(2) [of j] assms(3) [of k] by (cases "k = 0"; cases "j = 0") (auto simp: numbered_def)
next
  case False
  then have "b @ CHR ''-'' # show_nat k = c @ CHR ''-'' # show_nat j" using assms(1) by (simp add: numbered_def)
  from last_dash [OF this no_dash no_dash] show ?thesis by simp
qed

text \<open>
  Every heading of a manual has an identity of its own, which the contents list and the links open. The
  first heading with a text has the text's own, each repeat the next number. They are all different, unless the
  text of one heading is that of another with a number behind it.
\<close>
theorem heading_ids:
  assumes "\<forall>b \<in> set (map (slug_base word) xs). \<forall>c \<in> set (map (slug_base word) xs). \<forall>k > 0. b \<noteq> numbered c k"
  shows "distinct (slugs word xs Map.empty) \<and>
    (\<forall>i < length xs. slugs word xs Map.empty ! i =
       numbered (slug_base word (xs ! i)) (count_list (take i (map (slug_base word) xs)) (slug_base word (xs ! i))))"
proof -
  have ok: "seen_ok [] Map.empty" by (simp add: seen_ok_def occurrences_def)
  define bs where "bs = map (slug_base word) xs"
  have s: "slugs word xs Map.empty = map (\<lambda>(b, k). numbered b k) (numbers [] bs)"
    unfolding bs_def by (rule slugs_numbers [OF ok])
  have "inj_on (\<lambda>(b, k). numbered b k) (set (numbers [] bs))"
  proof (rule inj_onI)
    fix x y assume x: "x \<in> set (numbers [] bs)" and y: "y \<in> set (numbers [] bs)"
      and e: "(\<lambda>(b, k). numbered b k) x = (\<lambda>(b, k). numbered b k) y"
    obtain b k c j where xy: "x = (b, k)" "y = (c, j)" by (cases x; cases y) auto
    have "b \<in> set bs" "c \<in> set bs" using numbers_later x y unfolding xy by blast+
    then have "b = c \<and> k = j" using assms [folded bs_def] e unfolding xy by (intro numbered_inj) auto
    then show "x = y" by (simp add: xy)
  qed
  then have "distinct (slugs word xs Map.empty)"
    unfolding s by (simp add: distinct_map numbers_distinct)
  moreover have "numbers ps bs ! i = (bs ! i, occurrences (bs ! i) (ps @ take i bs)) \<and> i < length (numbers ps bs)" if "i < length bs" for i ps
    using that
  proof (induction bs arbitrary: i ps)
    case (Cons z zs)
    then show ?case by (cases i) auto
  qed simp
  then have "\<forall>i < length xs. slugs word xs Map.empty ! i = numbered (bs ! i) (count_list (take i bs) (bs ! i))"
    unfolding s by (auto simp: occurrences_def bs_def)
  ultimately show ?thesis unfolding bs_def by simp
qed

definition some_word :: "char \<Rightarrow> bool" where
  "some_word c \<longleftrightarrow> c \<notin> {CHR ''.'', CHR ''!''}"

theorem heading_ids_witness:
  "slugs some_word [''Go on.'', ''Go'', ''go!''] Map.empty = [''go-on'', ''go'', ''go-1''] \<and>
   distinct (slugs some_word [''Go on.'', ''Go'', ''go!''] Map.empty)"
proof -
  have b: "map (slug_base some_word) [''Go on.'', ''Go'', ''go!''] = [''go-on'', ''go'', ''go'']"
    by code_simp
  have n: "show_nat k \<noteq> []" for k by simp
  have d: "\<not> is_digit CHR ''n''" "\<not> is_digit CHR ''o''" by code_simp+
  have "b \<noteq> numbered c k" if "b \<in> {''go-on'', ''go''}" "c \<in> {''go-on'', ''go''}" "k > 0" for b c k
  proof
    assume "b = numbered c k"
    then have "b = c @ ''-'' @ show_nat k" using that(3) by (simp add: numbered_def)
    then have "last b = last (show_nat k)" by simp
    moreover have "is_digit (last (show_nat k))" using show_nat_digits [of k] last_in_set [OF n] by blast
    moreover have "last b = CHR ''n'' \<or> last b = CHR ''o''" using that(1) by auto
    ultimately show False using d by auto
  qed
  then have "\<forall>b \<in> set (map (slug_base some_word) [''Go on.'', ''Go'', ''go!'']).
      \<forall>c \<in> set (map (slug_base some_word) [''Go on.'', ''Go'', ''go!'']). \<forall>k > 0. b \<noteq> numbered c k"
    unfolding b by simp
  from heading_ids [OF this] have "distinct (slugs some_word [''Go on.'', ''Go'', ''go!''] Map.empty)" by (rule conjunct1)
  moreover have "slugs some_word [''Go on.'', ''Go'', ''go!''] Map.empty = [''go-on'', ''go'', ''go-1'']"
    unfolding slugs_eval b by code_simp
  ultimately show ?thesis by (rule conjI [rotated])
qed

text \<open>The exception is one: the third heading gets the identity the second has.\<close>

lemma heading_ids_clash:
  "slugs some_word [''go'', ''go'', ''go 1''] Map.empty = [''go'', ''go-1'', ''go-1'']"
proof -
  have b: "map (slug_base some_word) [''go'', ''go'', ''go 1''] = [''go'', ''go'', ''go-1'']"
    by code_simp
  show ?thesis unfolding slugs_eval b by code_simp
qed

end
