(* ===== verification/SnapModule.thy ===== *)
theory SnapModule
  imports Messages
begin

text \<open>
  The installer of the snapshot module on Linux (\<open>components/SnapModuleInstallModal.jsx\<close>): the one-time
  password for Secure Boot, the run with its output, and how it ends. A call of the backend is
  answered later; its lines come in between.
\<close>

definition is_upper :: "char \<Rightarrow> bool" where
  "is_upper c \<longleftrightarrow> 65 \<le> code_unit c \<and> code_unit c \<le> 90"

text \<open>\<open>MOK_PASSWORD_RE\<close>: 8 to 16 letters and digits.\<close>

definition mok_password :: "string \<Rightarrow> bool" where
  "mok_password s \<longleftrightarrow> 8 \<le> length s \<and> length s \<le> 16 \<and> list_all (\<lambda>c. is_lower_alnum c \<or> is_upper c) s"

datatype install_phase = Intro | Running | Loaded | Restart | InstallFailed

record installer =
  in_phase :: install_phase
  in_pw :: string
  in_pw2 :: string
  in_note :: string
  in_error :: string
  in_lines :: "string list"
  in_calls :: "string list"
  in_open :: bool
  in_refreshed :: nat

definition new_installer :: installer where
  "new_installer = \<lparr>in_phase = Intro, in_pw = [], in_pw2 = [], in_note = [], in_error = [], in_lines = [], in_calls = [],
     in_open = True, in_refreshed = 0\<rparr>"

definition pwOk :: "bool \<Rightarrow> installer \<Rightarrow> bool" where
  "pwOk secureBoot s \<longleftrightarrow> \<not> secureBoot \<or> (mok_password (in_pw s) \<and> in_pw s = in_pw2 s)"

definition pwHint :: "(string \<Rightarrow> string) \<Rightarrow> bool \<Rightarrow> installer \<Rightarrow> string" where
  "pwHint tl_of secureBoot s =
     (if \<not> secureBoot \<or> in_pw s = [] then []
      else if \<not> mok_password (in_pw s) then tl_of ''snapInstallPasswordRule''
      else if in_pw2 s \<noteq> [] \<and> in_pw s \<noteq> in_pw2 s then tl_of ''snapInstallPasswordMismatch'' else [])"

definition start_install :: "bool \<Rightarrow> installer \<Rightarrow> installer" where
  "start_install secureBoot s =
     (if \<not> pwOk secureBoot s then s
      else s\<lparr>in_lines := [], in_note := [], in_error := [], in_phase := Running,
             in_calls := in_calls s @ [if secureBoot then in_pw s else []]\<rparr>)"

definition install_answered :: "(string \<Rightarrow> string) \<Rightarrow> string + string \<Rightarrow> installer \<Rightarrow> installer" where
  "install_answered tl_of r s =
     (case r of
        Inr result \<Rightarrow> s\<lparr>in_phase := if result = ''restart'' then Restart else Loaded\<rparr>
      | Inl msg \<Rightarrow>
          if contains msg ''ELEVATION_CANCELLED'' then s\<lparr>in_note := tl_of ''snapInstallDeclined'', in_phase := Intro\<rparr>
          else s\<lparr>in_error := msg, in_phase := InstallFailed\<rparr>)\<lparr>in_refreshed := in_refreshed s + 1\<rparr>"

definition close_installer :: "installer \<Rightarrow> installer" where
  "close_installer s = (if in_phase s = Running then s else s\<lparr>in_open := False\<rparr>)"

text \<open>\<open>in_calls\<close> keeps what was called; the last call is answered while the phase is \<open>Running\<close>.\<close>

datatype install_event = PwTyped string | Pw2Typed string | Submitted | LineCame string | InstallAnswer "string + string" | CloseClicked

definition install_step :: "(string \<Rightarrow> string) \<Rightarrow> bool \<Rightarrow> install_event \<Rightarrow> installer \<Rightarrow> installer" where
  "install_step tl_of secureBoot e s =
     (case e of
        PwTyped x \<Rightarrow> if in_phase s = Intro then s\<lparr>in_pw := take 16 x\<rparr> else s
      | Pw2Typed x \<Rightarrow> if in_phase s = Intro then s\<lparr>in_pw2 := take 16 x\<rparr> else s
      | Submitted \<Rightarrow> if in_phase s = Intro then start_install secureBoot s else s
      | LineCame l \<Rightarrow> s\<lparr>in_lines := in_lines s @ [l]\<rparr>
      | InstallAnswer r \<Rightarrow> if in_phase s = Running then install_answered tl_of r s else s
      | CloseClicked \<Rightarrow> close_installer s)"

fun install_run :: "(string \<Rightarrow> string) \<Rightarrow> bool \<Rightarrow> install_event list \<Rightarrow> installer \<Rightarrow> installer" where
  "install_run tl_of secureBoot [] s = s"
| "install_run tl_of secureBoot (e # es) s = install_run tl_of secureBoot es (install_step tl_of secureBoot e s)"

section \<open>The installer runs once at a time, with a good password\<close>

definition good_call :: "bool \<Rightarrow> string \<Rightarrow> bool" where
  "good_call secureBoot p \<longleftrightarrow> (if secureBoot then mok_password p else p = [])"

definition install_ok :: "bool \<Rightarrow> installer \<Rightarrow> bool" where
  "install_ok secureBoot s \<longleftrightarrow>
     list_all (good_call secureBoot) (in_calls s) \<and>
     length (in_calls s) = in_refreshed s + (if in_phase s = Running then 1 else 0) \<and>
     (in_phase s = Running \<longrightarrow> in_open s)"

lemma pwOk_call: "pwOk secureBoot s \<Longrightarrow> good_call secureBoot (if secureBoot then in_pw s else [])"
  by (auto simp: pwOk_def good_call_def)

lemma install_ok_step: "install_ok secureBoot s \<Longrightarrow> in_open s \<Longrightarrow> install_ok secureBoot (install_step tl_of secureBoot e s)"
  by (cases e) (auto simp: install_step_def install_ok_def start_install_def install_answered_def close_installer_def
      split: sum.split dest: pwOk_call)

text \<open>The events of a dialog that is open.\<close>

fun while_open :: "(string \<Rightarrow> string) \<Rightarrow> bool \<Rightarrow> install_event list \<Rightarrow> installer \<Rightarrow> bool" where
  "while_open tl_of secureBoot [] s = True"
| "while_open tl_of secureBoot (e # es) s = (in_open s \<and> while_open tl_of secureBoot es (install_step tl_of secureBoot e s))"

text \<open>
  The installer runs once at a time and with a password that can be typed at the next start. Whatever is typed
  and clicked while the dialog is open, each call has a password of 8 to 16 letters and digits when
  Secure Boot is on and none when it is off; a second call comes only after the first was answered; and the
  dialog is never closed over a call that runs.
\<close>
theorem installer_once:
  assumes "while_open tl_of secureBoot es new_installer"
  shows "let s = install_run tl_of secureBoot es new_installer in
    list_all (good_call secureBoot) (in_calls s) \<and>
    length (in_calls s) = in_refreshed s + (if in_phase s = Running then 1 else 0) \<and> (in_phase s = Running \<longrightarrow> in_open s)"
proof -
  have "install_ok secureBoot (install_run tl_of secureBoot es s)" if "install_ok secureBoot s" "while_open tl_of secureBoot es s" for s
    using that by (induction es arbitrary: s) (simp_all add: install_ok_step)
  moreover have "install_ok secureBoot new_installer" by (simp add: install_ok_def new_installer_def)
  ultimately show ?thesis using assms by (simp add: install_ok_def Let_def)
qed

theorem installer_once_witness:
  "in_calls (install_run (\<lambda>k. k) True [PwTyped ''abcd1234'', Pw2Typed ''abcd1234'', Submitted, Submitted, CloseClicked] new_installer) = [''abcd1234'']
   \<and> in_open (install_run (\<lambda>k. k) True [PwTyped ''abcd1234'', Pw2Typed ''abcd1234'', Submitted, Submitted, CloseClicked] new_installer)"
proof -
  let ?es = "[PwTyped ''abcd1234'', Pw2Typed ''abcd1234'', Submitted, Submitted, CloseClicked]"
  have p: "mok_password ''abcd1234''" by code_simp
  have r: "in_calls (install_run (\<lambda>k. k) True ?es new_installer) = [''abcd1234'']" "in_phase (install_run (\<lambda>k. k) True ?es new_installer) = Running"
    "while_open (\<lambda>k. k) True ?es new_installer"
    using p by (simp_all add: install_step_def new_installer_def start_install_def pwOk_def close_installer_def)
  from installer_once [OF r(3)] r(2) have "in_open (install_run (\<lambda>k. k) True ?es new_installer)"
    by (simp only: Let_def simp_thms)
  with r(1) show ?thesis by blast
qed

end
