(* ===== verification/Email.thy ===== *)
theory Email
  imports Jobs
begin

text \<open>
  The e-mail account: the page of the Preferences (\<open>App.jsx\<close>), what the backend keeps
  (\<open>SetSMTPSettings\<close> and \<open>SendTestEmail\<close> of \<open>email_notifications.go\<close>, \<open>GetConfigWithHostname\<close> of \<open>main.go\<close>)
  and how a message is sent (\<open>clientcommon/mail.go\<close>). A save reaches the backend and is answered later.
  What a mail server answers is an argument: \<open>srv\<close> takes the steps so far and says whether the last
  one went through. The reading of an address is an argument too (\<open>net/mail\<close>).
\<close>

section \<open>The account\<close>

record mail_account =
  ma_host :: string
  ma_port :: string
  ma_username :: string
  ma_password :: string
  ma_insecure :: bool
  ma_from :: string

definition SetSMTPSettings :: "mail_account \<Rightarrow> mail_account \<Rightarrow> mail_account" where
  "SetSMTPSettings v kept = v\<lparr>ma_password := (if ma_password v \<noteq> [] then ma_password v else ma_password kept)\<rparr>"

text \<open>The account as the window gets it, with whether a password is kept in place of the password.\<close>

definition mail_config :: "mail_account \<Rightarrow> mail_account \<times> bool" where
  "mail_config kept = (kept\<lparr>ma_password := []\<rparr>, ma_password kept \<noteq> [])"

section \<open>The page\<close>

text \<open>\<open>mp_account\<close> holds the fields as they are typed. \<open>mp_sending\<close>: a test message is on its way.\<close>

record mail_page =
  mp_account :: mail_account
  mp_passwordSet :: bool
  mp_testTo :: string
  mp_sending :: bool

definition loaded_mail :: "mail_account \<times> bool \<Rightarrow> mail_page" where
  "loaded_mail d =
     \<lparr>mp_account = (fst d)\<lparr>ma_password := [], ma_port := (if ma_port (fst d) = [] then ''587'' else ma_port (fst d))\<rparr>,
      mp_passwordSet = snd d, mp_testTo = [], mp_sending = False\<rparr>"

text \<open>How a save ended in the backend: kept; kept in memory only, as the file could not be written; or
  refused by the service, with nothing kept.\<close>

datatype save_end = SavedAll | NotOnDisk | NotSaved

text \<open>A save on its way: what it sends, whether a password was typed or shown as kept when it was
  clicked, and its end once it reached the backend.\<close>

record mail_save =
  ms_sent :: mail_account
  ms_mark :: bool
  ms_end :: "save_end option"

record mail_world =
  mw_page :: mail_page
  mw_kept :: mail_account
  mw_saves :: "mail_save list"
  mw_tests :: "string list"

definition sent_account :: "mail_page \<Rightarrow> mail_account" where
  "sent_account p = (let a = mp_account p in a\<lparr>ma_host := trim (ma_host a), ma_port := trim (ma_port a),
     ma_username := trim (ma_username a), ma_from := trim (ma_from a)\<rparr>)"

definition save_clicked :: "mail_world \<Rightarrow> mail_world" where
  "save_clicked w = (let p = mw_page w in
     w\<lparr>mw_saves := mw_saves w @ [\<lparr>ms_sent = sent_account p,
         ms_mark = (mp_passwordSet p \<or> ma_password (mp_account p) \<noteq> []), ms_end = None\<rparr>]\<rparr>)"

definition save_arrived :: "nat \<Rightarrow> save_end \<Rightarrow> mail_world \<Rightarrow> mail_world" where
  "save_arrived i e w =
     (if i < length (mw_saves w) \<and> ms_end (mw_saves w ! i) = None
      then w\<lparr>mw_kept := (if e = NotSaved then mw_kept w else SetSMTPSettings (ms_sent (mw_saves w ! i)) (mw_kept w)),
             mw_saves := (mw_saves w)[i := (mw_saves w ! i)\<lparr>ms_end := Some e\<rparr>]\<rparr>
      else w)"

definition save_answered :: "nat \<Rightarrow> mail_world \<Rightarrow> mail_world" where
  "save_answered i w =
     (if i < length (mw_saves w) \<and> ms_end (mw_saves w ! i) \<noteq> None
      then w\<lparr>mw_page := (if ms_end (mw_saves w ! i) = Some SavedAll
                then (mw_page w)\<lparr>mp_passwordSet := ms_mark (mw_saves w ! i), mp_account := (mp_account (mw_page w))\<lparr>ma_password := []\<rparr>\<rparr>
                else mw_page w),
             mw_saves := take i (mw_saves w) @ drop (Suc i) (mw_saves w)\<rparr>
      else w)"

datatype mail_event =
    HostTyped string
  | PortTyped string
  | UserTyped string
  | PasswordTyped string
  | FromTyped string
  | InsecureTicked bool
  | TestToTyped string
  | SaveClicked
  | SaveArrived nat save_end
  | SaveAnswered nat
  | TestClicked
  | TestAnswered

definition typed :: "(mail_account \<Rightarrow> mail_account) \<Rightarrow> mail_world \<Rightarrow> mail_world" where
  "typed f w = w\<lparr>mw_page := (mw_page w)\<lparr>mp_account := f (mp_account (mw_page w))\<rparr>\<rparr>"

fun mail_step :: "mail_event \<Rightarrow> mail_world \<Rightarrow> mail_world" where
  "mail_step (HostTyped s) w = typed (\<lambda>a. a\<lparr>ma_host := s\<rparr>) w"
| "mail_step (PortTyped s) w = typed (\<lambda>a. a\<lparr>ma_port := s\<rparr>) w"
| "mail_step (UserTyped s) w = typed (\<lambda>a. a\<lparr>ma_username := s\<rparr>) w"
| "mail_step (PasswordTyped s) w = typed (\<lambda>a. a\<lparr>ma_password := s\<rparr>) w"
| "mail_step (FromTyped s) w = typed (\<lambda>a. a\<lparr>ma_from := s\<rparr>) w"
| "mail_step (InsecureTicked b) w = typed (\<lambda>a. a\<lparr>ma_insecure := b\<rparr>) w"
| "mail_step (TestToTyped s) w = w\<lparr>mw_page := (mw_page w)\<lparr>mp_testTo := s\<rparr>\<rparr>"
| "mail_step SaveClicked w = save_clicked w"
| "mail_step (SaveArrived i e) w = save_arrived i e w"
| "mail_step (SaveAnswered i) w = save_answered i w"
| "mail_step TestClicked w =
     (if mp_sending (mw_page w) then w
      else w\<lparr>mw_tests := mw_tests w @ [trim (mp_testTo (mw_page w))], mw_page := (mw_page w)\<lparr>mp_sending := True\<rparr>\<rparr>)"
| "mail_step TestAnswered w = w\<lparr>mw_page := (mw_page w)\<lparr>mp_sending := False\<rparr>\<rparr>"

definition mail_play :: "mail_event list \<Rightarrow> mail_world \<Rightarrow> mail_world" where
  "mail_play es w = fold mail_step es w"

definition mail_opened :: "mail_account \<Rightarrow> mail_world" where
  "mail_opened kept = \<lparr>mw_page = loaded_mail (mail_config kept), mw_kept = kept, mw_saves = [], mw_tests = []\<rparr>"

section \<open>Sending\<close>

text \<open>What is said to the mail server. The flag of the encrypted steps: its certificate is verified.\<close>

datatype smtp_step =
    Dial
  | DialTLS bool
  | StartTLS bool
  | Login string string
  | MailFrom string
  | RcptTo string
  | Message string string string string

type_synonym mail_server = "smtp_step list \<Rightarrow> bool"

text \<open>\<open>smtp.PlainAuth\<close>: no password on a connection that is not encrypted, but to this computer.\<close>

definition local_host :: "string \<Rightarrow> bool" where
  "local_host h \<longleftrightarrow> h = ''localhost'' \<or> h = ''127.0.0.1'' \<or> h = ''::1''"

definition encrypted :: "smtp_step list \<Rightarrow> bool" where
  "encrypted t \<longleftrightarrow> (\<exists>s \<in> set t. case s of DialTLS b \<Rightarrow> True | StartTLS b \<Rightarrow> True | _ \<Rightarrow> False)"

definition auth_allowed :: "mail_account \<Rightarrow> smtp_step list \<Rightarrow> bool" where
  "auth_allowed a t \<longleftrightarrow> encrypted t \<or> ma_port a = ''25'' \<or> local_host (ma_host a)"

definition SetupMailClient :: "mail_server \<Rightarrow> mail_account \<Rightarrow> string option \<times> smtp_step list" where
  "SetupMailClient srv a =
     (if ma_username a \<noteq> [] \<and> ma_port a = ''25'' \<and> \<not> ma_insecure a
      then (Some ''sending plain password over unencrypted connection'', [])
      else
        let dial = (if ma_port a = ''465'' then DialTLS (\<not> ma_insecure a) else Dial);
            t = (if ma_port a = ''587'' then [dial, StartTLS (\<not> ma_insecure a)] else [dial])
        in if \<not> srv [dial] then (Some ''dial'', [dial])
           else if \<not> srv t then (Some ''starttls failed'', t)
           else if ma_username a = [] then (None, t)
           else if \<not> auth_allowed a t then (Some ''unencrypted connection'', t)
           else if srv (t @ [Login (ma_username a) (ma_password a)]) then (None, t @ [Login (ma_username a) (ma_password a)])
           else (Some ''auth'', t @ [Login (ma_username a) (ma_password a)]))"

text \<open>\<open>parse\<close> reads an address: as it is written in a header, and bare.\<close>

type_synonym addresses = "string \<Rightarrow> (string \<times> string) option"

definition envelopeAddress :: "addresses \<Rightarrow> string \<Rightarrow> string" where
  "envelopeAddress parse s = (case parse (trim s) of Some (shown, bare) \<Rightarrow> bare | None \<Rightarrow> trim s)"

definition header_address :: "addresses \<Rightarrow> string \<Rightarrow> string" where
  "header_address parse s = (case parse (trim s) of Some (shown, bare) \<Rightarrow> shown | None \<Rightarrow> ''<'' @ trim s @ ''>'')"

text \<open>One step after another, up to the first that is refused: whether all went through.\<close>

fun say_all :: "mail_server \<Rightarrow> smtp_step list \<Rightarrow> smtp_step list \<Rightarrow> bool \<times> smtp_step list" where
  "say_all srv t [] = (True, t)"
| "say_all srv t (s # ss) = (if srv (t @ [s]) then say_all srv (t @ [s]) ss else (False, t @ [s]))"

text \<open>The order of the headers is left open, as it is in the code.\<close>

definition mail_steps :: "addresses \<Rightarrow> string \<Rightarrow> string \<Rightarrow> string \<Rightarrow> string \<Rightarrow> smtp_step list" where
  "mail_steps parse sender to subject body =
     (let recipients = split_on (CHR '','') to
      in MailFrom (envelopeAddress parse sender)
         # map (\<lambda>r. RcptTo (envelopeAddress parse (trim r))) (filter (\<lambda>r. trim r \<noteq> []) recipients)
         @ [Message sender (join_with '','' (map (header_address parse) recipients)) subject body])"

definition SendMail :: "addresses \<Rightarrow> mail_server \<Rightarrow> smtp_step list \<Rightarrow> string \<Rightarrow> string \<Rightarrow> string \<Rightarrow> string \<Rightarrow> bool \<times> smtp_step list" where
  "SendMail parse srv t sender to subject body = say_all srv t (mail_steps parse sender to subject body)"

definition sender :: "mail_account \<Rightarrow> string" where
  "sender a = (if ma_from a = [] then ma_username a else ma_from a)"

text \<open>A message through the account: its error, and what was said.\<close>

definition send_through :: "addresses \<Rightarrow> mail_server \<Rightarrow> mail_account \<Rightarrow> string \<Rightarrow> string \<Rightarrow> string \<Rightarrow> bool \<times> smtp_step list" where
  "send_through parse srv a to subject body =
     (case SetupMailClient srv a of
        (Some err, t) \<Rightarrow> (False, t)
      | (None, t) \<Rightarrow> SendMail parse srv t (sender a) to subject body)"

definition SendTestEmail :: "addresses \<Rightarrow> mail_server \<Rightarrow> mail_account \<Rightarrow> string \<Rightarrow> string \<Rightarrow> string \<Rightarrow> bool \<times> smtp_step list" where
  "SendTestEmail parse srv a subject body to =
     (if ma_host a = [] then (False, []) else send_through parse srv a to subject body)"

text \<open>The message of a finished set: whether it was due and could not be sent, and what was said.\<close>

definition mail_due :: "job \<Rightarrow> bool \<Rightarrow> string option" where
  "mail_due j success =
     (let to = (if success then j_emailOnSuccessTo j else j_emailOnFailureTo j);
          enabled = (if success then j_emailOnSuccess j else j_emailOnFailure j)
      in if \<not> enabled \<or> to = [] then None else Some to)"

definition sendJobNotificationEmail ::
    "addresses \<Rightarrow> mail_server \<Rightarrow> mail_account \<Rightarrow> job \<Rightarrow> bool \<Rightarrow> string \<Rightarrow> string \<Rightarrow> bool \<times> smtp_step list" where
  "sendJobNotificationEmail parse srv a j success subject body =
     (case mail_due j success of
        None \<Rightarrow> (False, [])
      | Some to \<Rightarrow>
          if ma_host a = [] then (False, [])
          else (case send_through parse srv a to subject body of (sent, t) \<Rightarrow> (\<not> sent, t)))"

section \<open>What the page says of the password\<close>

abbreviation stored :: "mail_world \<Rightarrow> bool" where
  "stored w \<equiv> ma_password (mw_kept w) \<noteq> []"

abbreviation marked :: "mail_world \<Rightarrow> bool" where
  "marked w \<equiv> mp_passwordSet (mw_page w)"

lemma password_SetSMTP [simp]:
  "ma_password (SetSMTPSettings v kept) = [] \<longleftrightarrow> ma_password v = [] \<and> ma_password kept = []"
  by (simp add: SetSMTPSettings_def)

lemma sent_account_password [simp]: "ma_password (sent_account p) = ma_password (mp_account p)"
  by (simp add: sent_account_def Let_def)

lemma typed_simps [simp]:
  "mw_kept (typed f w) = mw_kept w" "mw_saves (typed f w) = mw_saves w" "marked (typed f w) = marked w"
  by (simp_all add: typed_def)

lemma mail_play_simps [simp]:
  "mail_play [] w = w" "mail_play (e # es) w = mail_play es (mail_step e w)"
  by (simp_all add: mail_play_def)

text \<open>A save that promises a password sends one, or one is kept; once it arrived, one is kept.\<close>

definition save_true :: "mail_world \<Rightarrow> mail_save \<Rightarrow> bool" where
  "save_true w s \<longleftrightarrow> (ms_mark s \<longrightarrow> stored w \<or> ma_password (ms_sent s) \<noteq> [] \<and> ms_end s \<in> {None, Some NotSaved})"

definition mark_ok :: "mail_world \<Rightarrow> bool" where
  "mark_ok w \<longleftrightarrow> (marked w \<longrightarrow> stored w) \<and> list_all (save_true w) (mw_saves w)"

lemma mark_ok_opened: "mark_ok (mail_opened a)"
  by (simp add: mark_ok_def mail_opened_def loaded_mail_def mail_config_def)

lemma save_true_stored: "stored w \<Longrightarrow> save_true w s"
  by (simp add: save_true_def)

lemma mark_ok_arrived:
  assumes "mark_ok w"
  shows "mark_ok (save_arrived i e w)"
proof (cases "i < length (mw_saves w) \<and> ms_end (mw_saves w ! i) = None")
  case True
  let ?s = "mw_saves w ! i"
  let ?w = "save_arrived i e w"
  have kept: "mw_kept ?w = (if e = NotSaved then mw_kept w else SetSMTPSettings (ms_sent ?s) (mw_kept w))"
    and saves: "mw_saves ?w = (mw_saves w)[i := ?s\<lparr>ms_end := Some e\<rparr>]" and page: "mw_page ?w = mw_page w"
    using True by (simp_all add: save_arrived_def)
  have s: "save_true w ?s" using assms True by (simp add: mark_ok_def list_all_length)
  show ?thesis
  proof (cases "stored ?w")
    case True
    then show ?thesis by (simp add: mark_ok_def list_all_iff save_true_stored)
  next
    case False
    with kept have "\<not> stored w" by (auto split: if_splits)
    with assms have "\<not> marked w" "list_all (save_true w) (mw_saves w)" by (auto simp: mark_ok_def)
    moreover have "save_true ?w t" if "save_true w t" for t
      using that \<open>\<not> stored w\<close> by (auto simp: save_true_def)
    moreover have "save_true ?w (?s\<lparr>ms_end := Some e\<rparr>)"
      using s False kept \<open>\<not> stored w\<close> by (auto simp: save_true_def split: if_splits)
    ultimately show ?thesis
      by (auto simp: mark_ok_def saves page list_all_iff dest!: subsetD [OF set_update_subset_insert])
  qed
next
  case False
  then show ?thesis using assms by (auto simp: save_arrived_def)
qed

lemma mark_ok_answered:
  assumes "mark_ok w"
  shows "mark_ok (save_answered i w)"
proof (cases "i < length (mw_saves w) \<and> ms_end (mw_saves w ! i) \<noteq> None")
  case True
  then have "save_true w (mw_saves w ! i)" using assms by (simp add: mark_ok_def list_all_length)
  moreover have "list_all (save_true w) (take i (mw_saves w) @ drop (Suc i) (mw_saves w))"
    using assms by (auto simp: mark_ok_def list_all_iff dest: in_set_takeD in_set_dropD)
  ultimately show ?thesis using assms True by (auto simp: save_answered_def mark_ok_def save_true_def list_all_iff)
qed (use assms in \<open>auto simp: save_answered_def\<close>)

lemma mark_ok_same:
  assumes "mark_ok w" "mw_kept w' = mw_kept w" "mw_saves w' = mw_saves w" "marked w' = marked w"
  shows "mark_ok w'"
  using assms by (auto simp: mark_ok_def save_true_def list_all_iff)

lemma mark_ok_step: "mark_ok w \<Longrightarrow> mark_ok (mail_step e w)"
proof (cases e)
  case SaveClicked
  assume "mark_ok w"
  then show ?thesis unfolding SaveClicked
    by (auto simp: save_clicked_def mark_ok_def save_true_def Let_def list_all_iff)
next
  case (SaveArrived i r)
  then show "mark_ok w \<Longrightarrow> ?thesis" by (simp add: mark_ok_arrived)
next
  case (SaveAnswered i)
  then show "mark_ok w \<Longrightarrow> ?thesis" by (simp add: mark_ok_answered)
qed (auto elim!: mark_ok_same)

lemma mark_ok_play: "mark_ok w \<Longrightarrow> mark_ok (mail_play es w)"
  by (induction es arbitrary: w) (simp_all add: mark_ok_step)

text \<open>One save at a time, and a file that can be written.\<close>

definition calm_event :: "mail_event \<Rightarrow> mail_world \<Rightarrow> bool" where
  "calm_event e w = (case e of SaveClicked \<Rightarrow> mw_saves w = [] | SaveArrived i r \<Rightarrow> r \<noteq> NotOnDisk | _ \<Rightarrow> True)"

fun calm_mail :: "mail_event list \<Rightarrow> mail_world \<Rightarrow> bool" where
  "calm_mail [] w = True"
| "calm_mail (e # es) w = (calm_event e w \<and> calm_mail es (mail_step e w))"

definition mark_exact :: "mail_world \<Rightarrow> bool" where
  "mark_exact w \<longleftrightarrow>
     (case mw_saves w of
        [] \<Rightarrow> marked w = stored w
      | [s] \<Rightarrow>
          (case ms_end s of
             None \<Rightarrow> marked w = stored w \<and> ms_mark s = (stored w \<or> ma_password (ms_sent s) \<noteq> [])
           | Some SavedAll \<Rightarrow> ms_mark s = stored w
           | Some NotOnDisk \<Rightarrow> False
           | Some NotSaved \<Rightarrow> marked w = stored w)
      | _ \<Rightarrow> False)"

lemma mark_exact_same:
  assumes "mark_exact w" "mw_kept w' = mw_kept w" "mw_saves w' = mw_saves w" "marked w' = marked w"
  shows "mark_exact w'"
  using assms by (auto simp: mark_exact_def split: list.splits option.splits save_end.splits)

lemma mark_exact_one:
  assumes "mark_exact w" "i < length (mw_saves w)"
  obtains s where "mw_saves w = [s]" "i = 0"
  using assms by (auto simp: mark_exact_def split: list.splits)

lemma mark_exact_arrived:
  assumes "mark_exact w" "r \<noteq> NotOnDisk"
  shows "mark_exact (save_arrived i r w)"
proof (cases "i < length (mw_saves w) \<and> ms_end (mw_saves w ! i) = None")
  case True
  with assms obtain s where "mw_saves w = [s]" "i = 0" by (elim mark_exact_one conjE)
  with assms True show ?thesis
    by (cases r) (auto simp: save_arrived_def mark_exact_def)
next
  case False
  then show ?thesis using assms(1) by (auto simp: save_arrived_def)
qed

lemma mark_exact_answered:
  assumes "mark_exact w"
  shows "mark_exact (save_answered i w)"
proof (cases "i < length (mw_saves w) \<and> ms_end (mw_saves w ! i) \<noteq> None")
  case True
  with assms obtain s where "mw_saves w = [s]" "i = 0" by (elim mark_exact_one conjE)
  with assms True show ?thesis
    by (auto simp: save_answered_def mark_exact_def split: save_end.splits)
next
  case False
  then show ?thesis using assms by (auto simp: save_answered_def)
qed

lemma mark_exact_step: "mark_exact w \<Longrightarrow> calm_event e w \<Longrightarrow> mark_exact (mail_step e w)"
proof (cases e)
  case SaveClicked
  assume "mark_exact w" "calm_event e w"
  then show ?thesis unfolding SaveClicked
    by (simp add: save_clicked_def mark_exact_def Let_def calm_event_def)
next
  case (SaveArrived i r)
  assume "mark_exact w" "calm_event e w"
  then show ?thesis unfolding SaveArrived by (simp add: mark_exact_arrived calm_event_def)
next
  case (SaveAnswered i)
  then show "mark_exact w \<Longrightarrow> ?thesis" by (simp add: mark_exact_answered)
qed (auto elim!: mark_exact_same)

lemma mark_exact_play: "mark_exact w \<Longrightarrow> calm_mail es w \<Longrightarrow> mark_exact (mail_play es w)"
  by (induction es arbitrary: w) (simp_all add: mark_exact_step)

lemma mark_exact_opened: "mark_exact (mail_opened a)"
  by (simp add: mark_exact_def mail_opened_def loaded_mail_def mail_config_def)

definition new_account :: "mail_event list" where
  "new_account = [HostTyped ''mail.lan'', UserTyped ''ann'', PasswordTyped ''secret'', SaveClicked, SaveArrived 0 SavedAll, SaveAnswered 0]"

definition no_account :: mail_account where
  "no_account = \<lparr>ma_host = [], ma_port = [], ma_username = [], ma_password = [], ma_insecure = False, ma_from = []\<rparr>"

text \<open>The page never claims a password that is not kept, whatever is typed, clicked and answered in
  any order; and when each save is answered before the next one is clicked and the file can be
  written, it says so exactly when one is kept.\<close>
theorem password_marker_true:
  assumes "w = mail_play es (mail_opened a)"
  shows "(marked w \<longrightarrow> stored w) \<and> (calm_mail es (mail_opened a) \<and> mw_saves w = [] \<longrightarrow> marked w = stored w)"
  using mark_ok_play [OF mark_ok_opened, of es a] mark_exact_play [OF mark_exact_opened, of es a] assms
  by (auto simp: mark_ok_def mark_exact_def)

theorem password_marker_true_witness:
  "\<exists>w. w = mail_play new_account (mail_opened no_account) \<and> marked w \<and> stored w"
proof -
  have "calm_mail new_account (mail_opened no_account) \<and> mw_saves (mail_play new_account (mail_opened no_account)) = [] \<and>
      marked (mail_play new_account (mail_opened no_account))"
    by code_simp
  with password_marker_true [OF refl, of new_account no_account] show ?thesis by blast
qed

text \<open>With two saves under way the mark can be lost: the second was clicked before the first was answered,
  with the password field emptied.\<close>

lemma overlapping_saves_unmark:
  "let w = mail_play [PasswordTyped ''secret'', SaveClicked, PasswordTyped [], SaveClicked, SaveArrived 0 SavedAll,
       SaveArrived 1 SavedAll, SaveAnswered 0, SaveAnswered 0] (mail_opened no_account)
   in stored w \<and> \<not> marked w \<and> mw_saves w = []"
  by code_simp

section \<open>A saved account opens again\<close>

definition save_now :: "mail_world \<Rightarrow> mail_world" where
  "save_now w = mail_play [SaveClicked, SaveArrived 0 SavedAll, SaveAnswered 0] w"

lemma save_now:
  assumes "mw_saves w = []"
  shows "mw_kept (save_now w) = SetSMTPSettings (sent_account (mw_page w)) (mw_kept w)"
    "marked (save_now w) = (marked w \<or> ma_password (mp_account (mw_page w)) \<noteq> [])" "mw_saves (save_now w) = []"
  using assms by (simp_all add: save_now_def save_clicked_def save_arrived_def save_answered_def Let_def)

text \<open>An account that is saved opens again as it was typed, without its password: only the spaces
  around a field are gone, and a port left empty reads 587. The password typed is kept, or, when the
  field was empty, the one kept before; and the page opens with the same mark as it has now.\<close>
theorem saved_account_opens:
  assumes "w = mail_play es (mail_opened a)" "calm_mail es (mail_opened a)" "mw_saves w = []"
  shows "mp_account (mw_page (mail_opened (mw_kept (save_now w)))) =
      (sent_account (mw_page w))\<lparr>ma_password := [],
         ma_port := (if trim (ma_port (mp_account (mw_page w))) = [] then ''587'' else trim (ma_port (mp_account (mw_page w))))\<rparr> \<and>
    marked (mail_opened (mw_kept (save_now w))) = marked (save_now w) \<and>
    ma_password (mw_kept (save_now w)) =
      (if ma_password (mp_account (mw_page w)) = [] then ma_password (mw_kept w) else ma_password (mp_account (mw_page w)))"
proof -
  have "marked w = stored w"
    using mark_exact_play [OF mark_exact_opened assms(2)] assms by (simp add: mark_exact_def)
  then show ?thesis unfolding save_now [OF assms(3)]
    by (auto simp: mail_opened_def loaded_mail_def mail_config_def SetSMTPSettings_def sent_account_def Let_def)
qed

theorem saved_account_opens_witness:
  "mp_account (mw_page (mail_opened (mw_kept (save_now (mail_play new_account (mail_opened no_account)))))) =
     \<lparr>ma_host = ''mail.lan'', ma_port = ''587'', ma_username = ''ann'', ma_password = [], ma_insecure = False, ma_from = []\<rparr>"
proof -
  let ?w = "mail_play new_account (mail_opened no_account)"
  have c: "calm_mail new_account (mail_opened no_account)" "mw_saves ?w = []" by code_simp+
  have f: "sent_account (mw_page ?w) = \<lparr>ma_host = ''mail.lan'', ma_port = ''587'', ma_username = ''ann'', ma_password = [], ma_insecure = False, ma_from = []\<rparr>"
    "trim (ma_port (mp_account (mw_page ?w))) = ''587''"
    by code_simp+
  show ?thesis using saved_account_opens [OF refl c, THEN conjunct1] unfolding f by simp
qed

section \<open>The password on its way\<close>

text \<open>The connection is encrypted and the server's certificate was verified.\<close>

definition verified :: "smtp_step list \<Rightarrow> bool" where
  "verified t \<longleftrightarrow> DialTLS True \<in> set t \<or> StartTLS True \<in> set t"

lemma SetupMailClient_login:
  assumes "Login u p \<in> set (snd (SetupMailClient srv a))"
  shows "u = ma_username a \<and> p = ma_password a \<and>
    (ma_insecure a \<or> local_host (ma_host a) \<or>
      (\<exists>pre. snd (SetupMailClient srv a) = pre @ [Login u p] \<and> verified pre \<and> Login u p \<notin> set pre))"
  using assms
  by (auto simp: SetupMailClient_def Let_def auth_allowed_def verified_def encrypted_def split: if_splits)

lemma say_all_extends: "\<exists>ss'. snd (say_all srv t ss) = t @ ss' \<and> set ss' \<subseteq> set ss"
proof (induction ss arbitrary: t)
  case (Cons s ss)
  obtain ss' where "snd (say_all srv (t @ [s]) ss) = (t @ [s]) @ ss'" "set ss' \<subseteq> set ss"
    using Cons.IH [of "t @ [s]"] by blast
  then show ?case by (cases "srv (t @ [s])") (auto intro: exI [of _ "s # ss'"])
qed simp

lemma send_through_login:
  assumes "Login u p \<in> set (snd (send_through parse srv a to subject body))"
  shows "u = ma_username a \<and> p = ma_password a \<and>
    (ma_insecure a \<or> local_host (ma_host a) \<or>
      (\<exists>pre post. snd (send_through parse srv a to subject body) = pre @ Login u p # post \<and> verified pre \<and> Login u p \<notin> set pre))"
proof (cases "fst (SetupMailClient srv a)")
  case None
  let ?t = "snd (SetupMailClient srv a)"
  obtain ss where all: "snd (send_through parse srv a to subject body) = ?t @ ss"
    and ss: "set ss \<subseteq> set (mail_steps parse (sender a) to subject body)"
    using None say_all_extends [of srv ?t "mail_steps parse (sender a) to subject body"]
    by (cases "SetupMailClient srv a") (auto simp: send_through_def SendMail_def)
  have "Login u p \<notin> set ss" using ss by (auto simp: mail_steps_def Let_def)
  then have "Login u p \<in> set ?t" using assms all by simp
  from SetupMailClient_login [OF this] show ?thesis unfolding all by fastforce
next
  case (Some err)
  then have "snd (send_through parse srv a to subject body) = snd (SetupMailClient srv a)"
    by (auto simp: send_through_def split: prod.split option.split)
  with assms SetupMailClient_login [of u p srv a] show ?thesis by fastforce
qed

definition lan_account :: mail_account where
  "lan_account = \<lparr>ma_host = ''mail.lan'', ma_port = ''587'', ma_username = ''ann'', ma_password = ''secret'', ma_insecure = False, ma_from = []\<rparr>"

text \<open>C32: the password of the e-mail account is said to a mail server only once the connection is
  encrypted and the server's certificate verified, unless the user allowed an insecure connection or
  the server is this computer; for the test message and for those of a finished set.\<close>
theorem mail_password_protected:
  assumes "t = snd (SendTestEmail parse srv a subject body to) \<or> t = snd (sendJobNotificationEmail parse srv a j success subject body)"
    and "Login u p \<in> set t" "\<not> ma_insecure a" "\<not> local_host (ma_host a)"
  shows "\<exists>pre post. t = pre @ Login u p # post \<and> verified pre \<and> Login u p \<notin> set pre \<and>
    u = ma_username a \<and> p = ma_password a"
proof -
  obtain to' where "t = snd (send_through parse srv a to' subject body)"
    using assms(1,2)
    by (auto simp: SendTestEmail_def sendJobNotificationEmail_def split: if_splits option.splits prod.splits) (metis snd_conv)
  with assms(2-) send_through_login [of u p parse srv a to' subject body] show ?thesis by blast
qed

theorem mail_password_protected_witness:
  "\<exists>pre post. snd (SendTestEmail (\<lambda>s. None) (\<lambda>t. True) lan_account ''Test'' ''It works.'' ''ann@lan'') = pre @ Login ''ann'' ''secret'' # post \<and> verified pre"
proof -
  let ?t = "snd (SendTestEmail (\<lambda>s. None) (\<lambda>t. True) lan_account ''Test'' ''It works.'' ''ann@lan'')"
  have "?t = [Dial, StartTLS True, Login ''ann'' ''secret'', MailFrom ''ann'', RcptTo ''ann@lan'', Message ''ann'' ''<ann@lan>'' ''Test'' ''It works.'']"
    by code_simp
  then have 1: "Login ''ann'' ''secret'' \<in> set ?t" by simp
  have 2: "\<not> ma_insecure lan_account" "\<not> local_host (ma_host lan_account)" by (simp_all add: lan_account_def local_host_def)
  from mail_password_protected [OF disjI1 [OF refl] 1 2] show ?thesis by blast
qed

section \<open>What a failed message means\<close>

lemma say_all_true:
  "say_all srv t ss = (True, t') \<Longrightarrow> t' = t @ ss \<and> (\<forall>k < length ss. srv (t @ take (Suc k) ss))"
proof (induction ss arbitrary: t)
  case (Cons s ss)
  then have s: "srv (t @ [s])" and rest: "say_all srv (t @ [s]) ss = (True, t')" by (auto split: if_splits)
  from Cons.IH [OF rest] have "t' = t @ s # ss" and ks: "\<forall>k < length ss. srv ((t @ [s]) @ take (Suc k) ss)" by simp_all
  moreover have "srv (t @ take (Suc k) (s # ss))" if "k < Suc (length ss)" for k
    using that s ks by (cases k) auto
  ultimately show ?case by simp
qed simp

lemma say_all_false: "say_all srv t ss = (False, t') \<Longrightarrow> \<not> srv t'"
  by (induction ss arbitrary: t) (auto split: if_splits)

lemma SetupMailClient_ends:
  "SetupMailClient srv a = (None, t) \<Longrightarrow> srv t"
  "SetupMailClient srv a = (Some err, t) \<Longrightarrow> t = [] \<or> \<not> srv t \<or> \<not> auth_allowed a t"
  by (auto simp: SetupMailClient_def Let_def split: if_splits)

lemma send_through_refused:
  "send_through parse srv a to subject body = (False, t) \<Longrightarrow> t = [] \<or> \<not> srv t \<or> \<not> auth_allowed a t"
  using SetupMailClient_ends(2) [of srv a]
  by (auto simp: send_through_def SendMail_def dest: say_all_false split: prod.splits option.splits)

text \<open>The mark on a snapshot that its e-mail could not be sent is true. It is set only if the set asked for
  a message about such an end and a mail server is set up; when it is not set, the message was not
  asked for, or no server is set up, or each step of it, the recipients and the text, went through.\<close>
theorem mail_failure_told:
  assumes "sendJobNotificationEmail parse srv a j success subject body = (failed, t)"
  shows "(failed \<longrightarrow> mail_due j success \<noteq> None \<and> ma_host a \<noteq> [] \<and> (t = [] \<or> \<not> srv t \<or> \<not> auth_allowed a t)) \<and>
    (\<not> failed \<longrightarrow> mail_due j success = None \<or> ma_host a = [] \<or>
      (\<exists>to pre. mail_due j success = Some to \<and> t = pre @ mail_steps parse (sender a) to subject body \<and> srv pre \<and>
        (\<forall>k < length (mail_steps parse (sender a) to subject body). srv (pre @ take (Suc k) (mail_steps parse (sender a) to subject body)))))"
proof (cases "mail_due j success")
  case (Some to)
  show ?thesis
  proof (cases "ma_host a = [] \<or> failed")
    case True
    then show ?thesis using assms Some send_through_refused [of parse srv a to subject body]
      by (auto simp: sendJobNotificationEmail_def split: prod.splits if_splits)
  next
    case False
    let ?ss = "mail_steps parse (sender a) to subject body"
    have sent: "send_through parse srv a to subject body = (True, t)"
      using assms Some False by (auto simp: sendJobNotificationEmail_def split: prod.splits)
    then obtain pre where pre: "SetupMailClient srv a = (None, pre)" "say_all srv pre ?ss = (True, t)"
      by (auto simp: send_through_def SendMail_def split: prod.splits option.splits)
    from say_all_true [OF pre(2)] SetupMailClient_ends(1) [OF pre(1)] Some False
    show ?thesis by blast
  qed
qed (use assms in \<open>simp add: sendJobNotificationEmail_def\<close>)

theorem mail_failure_told_witness:
  "\<exists>t. sendJobNotificationEmail (\<lambda>s. None) (\<lambda>t. length t < 4) lan_account
      (empty_job\<lparr>j_emailOnFailure := True, j_emailOnFailureTo := ''ann@lan''\<rparr>) False ''Set FAILED'' [] = (True, t) \<and> ma_host lan_account \<noteq> []"
proof -
  let ?r = "sendJobNotificationEmail (\<lambda>s. None) (\<lambda>t. length t < 4) lan_account
      (empty_job\<lparr>j_emailOnFailure := True, j_emailOnFailureTo := ''ann@lan''\<rparr>) False ''Set FAILED'' []"
  have "fst ?r" by code_simp
  then obtain t where t: "?r = (True, t)" by (cases ?r) simp
  from mail_failure_told [OF t] t show ?thesis by blast
qed

text \<open>A port that was cleared is kept empty, shown as 587 the next time, and the server is called without encryption.\<close>

lemma cleared_port:
  assumes "ma_port a = []" "ma_username a \<noteq> []" "\<not> local_host (ma_host a)"
  shows "ma_port (mp_account (mw_page (mail_opened a))) = ''587'' \<and> fst (SetupMailClient srv a) \<noteq> None \<and>
    StartTLS b \<notin> set (snd (SetupMailClient srv a))"
  using assms
  by (auto simp: mail_opened_def loaded_mail_def mail_config_def SetupMailClient_def Let_def auth_allowed_def encrypted_def)

end
