(* ===== verification/AfterBackup.thy ===== *)
theory AfterBackup
  imports Email
begin

text \<open>
  What follows a backup: the e-mail, the note on the snapshot, the application, the tray, and the exit of the
  app or the shutdown of the computer, which wait for the other operations (\<open>runPostBackupActions\<close>,
  \<open>noteMailFailed\<close>, \<open>waitForOtherBackups\<close> of \<open>email_notifications.go\<close>; \<open>waitForEarlierOperations\<close> of \<open>operation_queue.go\<close>).
  The exit and the shutdown are two routines of their own: a step relation says what each may do next.
\<close>

section \<open>The actions\<close>

datatype post_action = MailDue | NoteAdded | AppRun string | ToTray

text \<open>A routine that ends something: not asked for, started, waiting for the operations up to a number,
  asleep until a time, over.\<close>

datatype waiter = NotAsked | Begun | WaitsFor nat | SleepsUntil int | Over

text \<open>\<open>ar_ops\<close> are the numbers of the operations that run or wait, \<open>ar_seq\<close> the last number given. \<open>ar_alive\<close>: the
  process runs; \<open>ar_off\<close>: the shutdown was asked for; \<open>ar_cut\<close>: the operations these cut short. The queue is that of one
  process, the app or the service; with the background service both run on the computer, and \<open>ar_elsewhere\<close> are the operations
  of the other one, \<open>ar_cut_elsewhere\<close> those of them cut short.\<close>

record after_run =
  ar_seq :: nat
  ar_ops :: "nat list"
  ar_now :: int
  ar_alive :: bool
  ar_off :: bool
  ar_cut :: "nat list"
  ar_exit :: waiter
  ar_down :: waiter
  ar_elsewhere :: "nat list"
  ar_cut_elsewhere :: "nat list"

definition noteMailFailed :: "bool \<Rightarrow> post_action list" where
  "noteMailFailed has_snapshot = (if has_snapshot then [NoteAdded] else [])"

definition runPostBackupApp :: "string \<Rightarrow> post_action list" where
  "runPostBackupApp command = (if command = [] then [] else [AppRun command])"

text \<open>\<open>failed\<close> is what \<open>sendJobNotificationEmail\<close> gave; \<open>window\<close>: the app has one.\<close>

definition runPostBackupActions :: "bool \<Rightarrow> bool \<Rightarrow> bool \<Rightarrow> bool \<Rightarrow> job \<Rightarrow> after_run \<Rightarrow> post_action list \<times> after_run" where
  "runPostBackupActions window service has_snapshot failed j s =
     (MailDue # (if failed then noteMailFailed has_snapshot else []) @ runPostBackupApp (j_runAppAfter j)
        @ (if j_minimizeAfter j \<and> \<not> j_exitAppAfter j \<and> window \<and> \<not> service then [ToTray] else []),
      s\<lparr>ar_exit := (if j_exitAppAfter j \<and> \<not> service then Begun else NotAsked),
        ar_down := (if j_shutdownAfter j then Begun else NotAsked)\<rparr>)"

section \<open>The two routines\<close>

definition no_earlier :: "nat \<Rightarrow> after_run \<Rightarrow> bool" where
  "no_earlier horizon s \<longleftrightarrow> list_all (\<lambda>n. n > horizon) (ar_ops s)"

text \<open>Both wait the same way, then sleep for two seconds.\<close>

inductive waits :: "after_run \<Rightarrow> waiter \<Rightarrow> waiter \<Rightarrow> bool" for s where
  horizon: "waits s Begun (WaitsFor (ar_seq s))"
| waited: "no_earlier h s \<Longrightarrow> waits s (WaitsFor h) (SleepsUntil (ar_now s + 2000))"

inductive after_step :: "after_run \<Rightarrow> after_run \<Rightarrow> bool" where
  op_starts: "ar_alive s \<Longrightarrow> after_step s (s\<lparr>ar_seq := ar_seq s + 1, ar_ops := ar_ops s @ [ar_seq s + 1]\<rparr>)"
| op_ends: "n \<in> set (ar_ops s) \<Longrightarrow> after_step s (s\<lparr>ar_ops := removeAll n (ar_ops s)\<rparr>)"
| time: "d \<ge> 0 \<Longrightarrow> after_step s (s\<lparr>ar_now := ar_now s + d\<rparr>)"
| exit_waits: "ar_alive s \<Longrightarrow> waits s (ar_exit s) r \<Longrightarrow> after_step s (s\<lparr>ar_exit := r\<rparr>)"
| exit_done: "ar_alive s \<Longrightarrow> ar_exit s = SleepsUntil t \<Longrightarrow> t \<le> ar_now s \<Longrightarrow>
    after_step s (s\<lparr>ar_alive := False, ar_exit := Over, ar_cut := ar_cut s @ ar_ops s, ar_ops := []\<rparr>)"
| down_waits: "ar_alive s \<Longrightarrow> waits s (ar_down s) r \<Longrightarrow> after_step s (s\<lparr>ar_down := r\<rparr>)"
| down_done: "ar_alive s \<Longrightarrow> ar_down s = SleepsUntil t \<Longrightarrow> t \<le> ar_now s \<Longrightarrow>
    after_step s (s\<lparr>ar_off := True, ar_down := Over, ar_cut := ar_cut s @ ar_ops s,
      ar_cut_elsewhere := ar_cut_elsewhere s @ ar_elsewhere s\<rparr>)"
| other_process: "after_step s (s\<lparr>ar_elsewhere := ops\<rparr>)"

inductive_cases waits_from: "waits s w r"

inductive_simps waits_simps [simp]:
  "waits s NotAsked r" "waits s Begun r" "waits s (WaitsFor h) r" "waits s (SleepsUntil t) r" "waits s Over r"

abbreviation after_steps :: "after_run \<Rightarrow> after_run \<Rightarrow> bool" where
  "after_steps \<equiv> after_step\<^sup>*\<^sup>*"

text \<open>The process when a set has ended: the operations under way have numbers up to the last one given.\<close>

definition set_ended :: "after_run \<Rightarrow> bool" where
  "set_ended s \<longleftrightarrow> ar_alive s \<and> \<not> ar_off s \<and> ar_cut s = [] \<and> ar_cut_elsewhere s = [] \<and> list_all (\<lambda>n. n \<le> ar_seq s) (ar_ops s)"

section \<open>Nothing is cut short\<close>

text \<open>A routine never waits for less than the operations known when the set ended, and once it sleeps they
  are over.\<close>

definition waiter_ok :: "nat \<Rightarrow> after_run \<Rightarrow> waiter \<Rightarrow> bool" where
  "waiter_ok n s w \<longleftrightarrow>
     (case w of
        NotAsked \<Rightarrow> True
      | Begun \<Rightarrow> n \<le> ar_seq s
      | WaitsFor h \<Rightarrow> n \<le> h
      | SleepsUntil t \<Rightarrow> no_earlier n s
      | Over \<Rightarrow> True)"

definition after_ok :: "nat \<Rightarrow> after_run \<Rightarrow> bool" where
  "after_ok n s \<longleftrightarrow> n \<le> ar_seq s \<and> list_all (\<lambda>k. k > n) (ar_cut s) \<and> waiter_ok n s (ar_exit s) \<and> waiter_ok n s (ar_down s)"

lemma no_earlier_le: "no_earlier h s \<Longrightarrow> n \<le> h \<Longrightarrow> no_earlier n s"
  by (auto simp: no_earlier_def list_all_iff)

lemma waiter_ok_same:
  assumes "waiter_ok n s w" "ar_seq s \<le> ar_seq s'" "set (ar_ops s') \<subseteq> set (ar_ops s) \<union> {n<..}"
  shows "waiter_ok n s' w"
proof -
  have "no_earlier n s'" if "no_earlier n s"
    using that assms(3) by (auto simp: no_earlier_def list_all_iff)
  then show ?thesis using assms by (auto simp: waiter_ok_def split: waiter.splits)
qed

lemma waiter_ok_waits: "waits s w r \<Longrightarrow> waiter_ok n s w \<Longrightarrow> waiter_ok n s r"
  by (cases w) (auto simp: waiter_ok_def no_earlier_le)

lemma after_ok_step:
  assumes "after_step s s'" "after_ok n s"
  shows "after_ok n s'"
  using assms
proof (induction rule: after_step.induct)
  case (op_starts s)
  then show ?case by (auto simp: after_ok_def intro!: waiter_ok_same [of n s])
next
  case (op_ends k s)
  then show ?case by (auto simp: after_ok_def intro!: waiter_ok_same [of n s])
next
  case (time d s)
  then show ?case by (auto simp: after_ok_def intro!: waiter_ok_same [of n s])
next
  case (exit_waits s r)
  then have "waiter_ok n s r" by (auto simp: after_ok_def intro: waiter_ok_waits)
  with exit_waits show ?case by (auto simp: after_ok_def intro!: waiter_ok_same [of n s])
next
  case (exit_done s t)
  then have "no_earlier n s" by (simp add: after_ok_def waiter_ok_def)
  with exit_done show ?case
    by (auto simp: after_ok_def no_earlier_def waiter_ok_def [of n _ Over] intro!: waiter_ok_same [of n s])
next
  case (down_waits s r)
  then have "waiter_ok n s r" by (auto simp: after_ok_def intro: waiter_ok_waits)
  with down_waits show ?case by (auto simp: after_ok_def intro!: waiter_ok_same [of n s])
next
  case (down_done s t)
  then have "no_earlier n s" by (simp add: after_ok_def waiter_ok_def)
  with down_done show ?case
    by (auto simp: after_ok_def no_earlier_def waiter_ok_def [of n _ Over] intro!: waiter_ok_same [of n s])
next
  case (other_process s ops)
  then show ?case by (auto simp: after_ok_def intro!: waiter_ok_same [of n s])
qed

lemma after_ok_steps: "after_steps s s' \<Longrightarrow> after_ok n s \<Longrightarrow> after_ok n s'"
  by (induction rule: rtranclp_induct) (auto intro: after_ok_step)

text \<open>A process that is gone was ended by the exit; a shutdown was asked for by its routine, and stays asked for.\<close>

definition ended_by :: "after_run \<Rightarrow> bool" where
  "ended_by s \<longleftrightarrow> (\<not> ar_alive s \<longrightarrow> ar_exit s = Over) \<and> (ar_off s \<longleftrightarrow> ar_down s = Over) \<and>
     (\<not> ar_off s \<longrightarrow> ar_cut_elsewhere s = [])"

lemma ended_by_step: "after_step s s' \<Longrightarrow> ended_by s \<Longrightarrow> ended_by s'"
  by (induction rule: after_step.induct) (auto simp: ended_by_def elim: waits_from)

lemma not_asked_step:
  "after_step s s' \<Longrightarrow> (ar_exit s' = NotAsked) = (ar_exit s = NotAsked)"
  "after_step s s' \<Longrightarrow> (ar_down s' = NotAsked) = (ar_down s = NotAsked)"
  by (induction rule: after_step.induct) (auto elim: waits_from)

lemma ended_by_steps:
  assumes "after_steps s s'" "ended_by s"
  shows "ended_by s' \<and> (ar_exit s' = NotAsked) = (ar_exit s = NotAsked) \<and> (ar_down s' = NotAsked) = (ar_down s = NotAsked)"
  using assms by (induction rule: rtranclp_induct) (auto simp: not_asked_step intro: ended_by_step)

lemma runPost_start:
  assumes "set_ended s" "runPostBackupActions window service has_snapshot failed j s = (acts, s0)"
  shows "after_ok (ar_seq s) s0" "ended_by s0" "ar_alive s0"
    "ar_exit s0 = (if j_exitAppAfter j \<and> \<not> service then Begun else NotAsked)"
    "ar_down s0 = (if j_shutdownAfter j then Begun else NotAsked)"
  using assms by (auto simp: runPostBackupActions_def set_ended_def after_ok_def ended_by_def waiter_ok_def split: if_splits)

lemma ops_can_end: "after_steps s (s\<lparr>ar_ops := []\<rparr>)"
proof (induction "length (ar_ops s)" arbitrary: s rule: less_induct)
  case less
  show ?case
  proof (cases "ar_ops s")
    case (Cons n ns)
    then have "after_step s (s\<lparr>ar_ops := removeAll n (ar_ops s)\<rparr>)" by (intro op_ends) simp
    moreover have "length (removeAll n (ar_ops s)) < length (ar_ops s)"
      using Cons by (intro length_removeAll_less) simp
    with less [of "s\<lparr>ar_ops := removeAll n (ar_ops s)\<rparr>"]
    have "after_steps (s\<lparr>ar_ops := removeAll n (ar_ops s)\<rparr>) (s\<lparr>ar_ops := []\<rparr>)" by simp
    ultimately show ?thesis by (rule converse_rtranclp_into_rtranclp)
  next
    case Nil
    then have "s\<lparr>ar_ops := []\<rparr> = s" by (cases s) simp
    then show ?thesis by simp
  qed
qed

lemma exit_comes:
  assumes "ar_alive s" "ar_exit s = Begun"
  shows "\<exists>s'. after_steps s s' \<and> \<not> ar_alive s' \<and> ar_cut s' = ar_cut s \<and> ar_off s' = ar_off s"
proof -
  let ?a = "s\<lparr>ar_exit := WaitsFor (ar_seq s)\<rparr>"
  let ?b = "?a\<lparr>ar_ops := []\<rparr>"
  let ?c = "?b\<lparr>ar_exit := SleepsUntil (ar_now ?b + 2000)\<rparr>"
  let ?d = "?c\<lparr>ar_now := ar_now ?c + 2000\<rparr>"
  let ?e = "?d\<lparr>ar_alive := False, ar_exit := Over, ar_cut := ar_cut ?d @ ar_ops ?d, ar_ops := []\<rparr>"
  have "after_step s ?a" using assms by (intro exit_waits) simp_all
  also have "after_steps ?a ?b" by (rule ops_can_end)
  also have "after_step ?b ?c" using assms by (intro exit_waits) (simp_all add: no_earlier_def)
  also have "after_step ?c ?d" by (rule time) simp
  also have "after_step ?d ?e" using assms by (intro exit_done [of _ "ar_now ?b + 2000"]) simp_all
  finally have "after_steps s ?e" by simp
  then show ?thesis by (intro exI [of _ ?e]) simp
qed

text \<open>C34: after a backup, in the app or in the service, closing the app or shutting the computer down never cuts
  short an operation of the same process that ran or waited when the set ended, whatever else starts, ends and goes on
  meanwhile; the service is never ended this way, neither happens unless the set asks for it, and an exit leaves the
  operations of the other process alone. What the other process runs is not waited for by a shutdown
  (\<open>other_process_cut\<close>).\<close>
theorem after_backup_waits:
  assumes "set_ended s" "runPostBackupActions window service has_snapshot failed j s = (acts, s0)" "after_steps s0 s1"
  shows "list_all (\<lambda>k. k > ar_seq s) (ar_cut s1) \<and>
    (\<not> ar_alive s1 \<longrightarrow> j_exitAppAfter j \<and> \<not> service) \<and> (ar_off s1 \<longrightarrow> j_shutdownAfter j) \<and>
    (ar_cut_elsewhere s1 \<noteq> [] \<longrightarrow> ar_off s1)"
  using after_ok_steps [OF assms(3) runPost_start(1) [OF assms(1,2)]] ended_by_steps [OF assms(3) runPost_start(2) [OF assms(1,2)]]
    runPost_start(4,5) [OF assms(1,2)]
  by (auto simp: after_ok_def ended_by_def split: if_splits)

definition two_running :: after_run where
  "two_running = \<lparr>ar_seq = 2, ar_ops = [1, 2], ar_now = 0, ar_alive = True, ar_off = False, ar_cut = [],
     ar_exit = NotAsked, ar_down = NotAsked, ar_elsewhere = [], ar_cut_elsewhere = []\<rparr>"

theorem after_backup_waits_witness:
  "\<exists>s1. after_steps (snd (runPostBackupActions True False True False (empty_job\<lparr>j_exitAppAfter := True\<rparr>) two_running)) s1 \<and>
     \<not> ar_alive s1 \<and> list_all (\<lambda>k. k > 2) (ar_cut s1)"
proof -
  let ?j = "empty_job\<lparr>j_exitAppAfter := True\<rparr>"
  let ?r = "runPostBackupActions True False True False ?j two_running"
  have ended: "set_ended two_running" by (simp add: set_ended_def two_running_def)
  have pair: "?r = (fst ?r, snd ?r)" by simp
  obtain s1 where s1: "after_steps (snd ?r) s1" "\<not> ar_alive s1"
    using exit_comes [of "snd ?r"] runPost_start(3,4) [OF ended pair] by auto
  from after_backup_waits [OF ended pair s1(1)] have "list_all (\<lambda>k. k > 2) (ar_cut s1)" by (simp add: two_running_def)
  with s1 show ?thesis by blast
qed

text \<open>
  With the background service, a set that the service has run shuts the computer down although a
  restore that was started from the window runs since before the set ended: the service's queue does not see it.
\<close>
lemma other_process_cut:
  assumes "j_shutdownAfter j" "set_ended s" "ar_ops s = []" "ar_elsewhere s = [k]"
    "runPostBackupActions window True has_snapshot failed j s = (acts, s0)"
  shows "\<exists>s1. after_steps s0 s1 \<and> ar_off s1 \<and> ar_cut_elsewhere s1 = [k]"
proof -
  have s0: "ar_alive s0" "ar_down s0 = Begun" "ar_ops s0 = []" "ar_elsewhere s0 = [k]" "ar_cut_elsewhere s0 = []"
    using assms by (auto simp: runPostBackupActions_def set_ended_def)
  let ?a = "s0\<lparr>ar_down := WaitsFor (ar_seq s0)\<rparr>"
  let ?b = "?a\<lparr>ar_down := SleepsUntil (ar_now ?a + 2000)\<rparr>"
  let ?c = "?b\<lparr>ar_now := ar_now ?b + 2000\<rparr>"
  let ?d = "?c\<lparr>ar_off := True, ar_down := Over, ar_cut := ar_cut ?c @ ar_ops ?c,
      ar_cut_elsewhere := ar_cut_elsewhere ?c @ ar_elsewhere ?c\<rparr>"
  have "after_steps s0 ?a" using s0 by (intro r_into_rtranclp down_waits) simp_all
  also have "after_step ?a ?b" using s0 by (intro down_waits) (simp_all add: no_earlier_def)
  also have "after_step ?b ?c" by (rule time) simp
  also have "after_step ?c ?d" using s0 by (intro down_done [of _ "ar_now ?a + 2000"]) simp_all
  finally have "after_steps s0 ?d" by simp
  then show ?thesis using s0 by (intro exI [of _ ?d]) simp
qed

section \<open>The shutdown\<close>

lemma down_from_sleep:
  assumes "ar_alive s" "ar_down s = SleepsUntil t"
  shows "\<exists>s'. after_steps s s' \<and> ar_off s'"
proof -
  let ?s1 = "s\<lparr>ar_now := ar_now s + max 0 (t - ar_now s)\<rparr>"
  have "after_step s ?s1" by (rule time) simp
  moreover have "after_step ?s1 (?s1\<lparr>ar_off := True, ar_down := Over, ar_cut := ar_cut ?s1 @ ar_ops ?s1,
      ar_cut_elsewhere := ar_cut_elsewhere ?s1 @ ar_elsewhere ?s1\<rparr>)"
    using assms by (intro down_done [of _ t]) simp_all
  ultimately show ?thesis
    by (intro exI conjI) (rule converse_rtranclp_into_rtranclp [OF _ r_into_rtranclp], assumption+, simp)
qed

lemma down_from_wait:
  assumes "ar_alive s" "ar_down s = WaitsFor h"
  shows "\<exists>s'. after_steps s s' \<and> ar_off s'"
proof -
  let ?s1 = "s\<lparr>ar_ops := []\<rparr>"
  let ?s2 = "?s1\<lparr>ar_down := SleepsUntil (ar_now ?s1 + 2000)\<rparr>"
  have "after_step ?s1 ?s2"
    using assms by (intro down_waits) (simp_all add: no_earlier_def)
  with ops_can_end [of s] have "after_steps s ?s2" by (rule rtranclp.rtrancl_into_rtrancl)
  moreover obtain s' where "after_steps ?s2 s'" "ar_off s'"
    using down_from_sleep [of ?s2] assms by auto
  ultimately show ?thesis by (meson rtranclp_trans)
qed

lemma down_comes:
  assumes "ar_alive s" "ended_by s" "ar_down s \<noteq> NotAsked"
  shows "\<exists>s'. after_steps s s' \<and> ar_off s'"
proof (cases "ar_down s")
  case Begun
  let ?s1 = "s\<lparr>ar_down := WaitsFor (ar_seq s)\<rparr>"
  have "after_step s ?s1" using assms Begun by (intro down_waits) simp_all
  moreover obtain s' where "after_steps ?s1 s'" "ar_off s'"
    using down_from_wait [of ?s1] assms by auto
  ultimately show ?thesis by (meson converse_rtranclp_into_rtranclp)
next
  case (WaitsFor h)
  with assms show ?thesis by (intro down_from_wait) auto
next
  case (SleepsUntil t)
  with assms show ?thesis by (intro down_from_sleep) auto
next
  case Over
  with assms show ?thesis by (auto simp: ended_by_def)
qed (use assms in simp)

text \<open>A set that asks for a shutdown, and not for the app to be closed, can always still get it: from whatever
  state is reached after the set ended, the shutdown is asked for once the operations before it are over.\<close>
theorem shutdown_comes:
  assumes "set_ended s" "runPostBackupActions window service has_snapshot failed j s = (acts, s0)"
    and "j_shutdownAfter j" "j_exitAppAfter j \<longrightarrow> service" "after_steps s0 s1"
  shows "\<exists>s2. after_steps s1 s2 \<and> ar_off s2"
proof -
  have "ended_by s1 \<and> ar_exit s1 = NotAsked \<and> ar_down s1 \<noteq> NotAsked"
    using ended_by_steps [OF assms(5) runPost_start(2) [OF assms(1,2)]] runPost_start(4,5) [OF assms(1,2)] assms(3,4) by auto
  then show ?thesis by (intro down_comes) (auto simp: ended_by_def)
qed

theorem shutdown_comes_witness:
  "\<exists>s2. after_steps (snd (runPostBackupActions True False True False (empty_job\<lparr>j_shutdownAfter := True\<rparr>) two_running)) s2 \<and> ar_off s2"
proof -
  let ?j = "empty_job\<lparr>j_shutdownAfter := True\<rparr>"
  let ?r = "runPostBackupActions True False True False ?j two_running"
  have "set_ended two_running" by (simp add: set_ended_def two_running_def)
  moreover have "?r = (fst ?r, snd ?r)" "j_shutdownAfter ?j" "j_exitAppAfter ?j \<longrightarrow> False" by (simp_all add: empty_job_def)
  ultimately show ?thesis using shutdown_comes by blast
qed

text \<open>A set that asks for both, in the app: both routines sleep for two seconds, and when the exit wakes
  first the computer is never shut down.\<close>

lemma dead_stays:
  assumes "after_steps s s'" "\<not> ar_alive s" "\<not> ar_off s"
  shows "\<not> ar_alive s' \<and> \<not> ar_off s'"
  using assms by (induction rule: rtranclp_induct) (auto elim: after_step.cases)

text \<open>C35: a set that asks both to close the app and to shut the computer down can lose the shutdown: whatever
  runs when it ends, a state can be reached where the app is gone, nothing was cut short, and no later state has
  the shutdown asked for.\<close>
theorem exit_loses_shutdown:
  assumes "set_ended s" "runPostBackupActions window False has_snapshot failed j s = (acts, s0)"
    and "j_exitAppAfter j" "j_shutdownAfter j"
  shows "\<exists>s1. after_steps s0 s1 \<and> \<not> ar_alive s1 \<and> ar_cut s1 = [] \<and> (\<forall>s2. after_steps s1 s2 \<longrightarrow> \<not> ar_off s2)"
proof -
  note start = runPost_start [OF assms(1,2)]
  have cut: "ar_cut s0 = []" "\<not> ar_off s0"
    using assms(1,2) by (auto simp: runPostBackupActions_def set_ended_def)
  obtain s1 where "after_steps s0 s1" "\<not> ar_alive s1" "ar_cut s1 = []" "\<not> ar_off s1"
    using exit_comes [of s0] start cut assms(3) by auto
  then show ?thesis using dead_stays [of s1] by auto
qed

theorem exit_loses_shutdown_witness:
  "\<exists>s1. after_steps (snd (runPostBackupActions True False True False (empty_job\<lparr>j_exitAppAfter := True, j_shutdownAfter := True\<rparr>) two_running)) s1 \<and>
     \<not> ar_alive s1 \<and> (\<forall>s2. after_steps s1 s2 \<longrightarrow> \<not> ar_off s2)"
proof -
  let ?j = "empty_job\<lparr>j_exitAppAfter := True, j_shutdownAfter := True\<rparr>"
  let ?r = "runPostBackupActions True False True False ?j two_running"
  have "set_ended two_running" by (simp add: set_ended_def two_running_def)
  moreover have "?r = (fst ?r, snd ?r)" "j_shutdownAfter ?j" "j_exitAppAfter ?j" by simp_all
  ultimately show ?thesis using exit_loses_shutdown by blast
qed

end
