(* ===== verification/PaperKey.thy ===== *)
theory PaperKey
  imports JsPrelude
begin

text \<open>
  The paper copy of an encryption key (\<open>components/PaperKeyDialog.jsx\<close>): the page that is printed, with every value
  escaped, and the print button, which prints in a hidden frame or hands the page to the backend for
  the user's browser. The texts of the language are an argument \<open>t\<close>.
\<close>

section \<open>Escaping\<close>

definition quote_char :: char where "quote_char = CHR 0x22"

definition esc_char :: "char \<Rightarrow> string" where
  "esc_char c =
     (if c = CHR ''&'' then ''&amp;'' else if c = CHR ''<'' then ''&lt;'' else if c = CHR ''>'' then ''&gt;''
      else if c = quote_char then ''&quot;'' else if c = CHR 0x27 then ''&#39;'' else [c])"

definition esc :: "string \<Rightarrow> string" where
  "esc s = concat (map esc_char s)"

text \<open>What a browser reads from a text with these references.\<close>

fun read_html :: "string \<Rightarrow> string" where
  "read_html [] = []"
| "read_html (c # s) =
     (if c \<noteq> CHR ''&'' then c # read_html s
      else if startsWith s ''amp;'' then CHR ''&'' # read_html (drop 4 s)
      else if startsWith s ''lt;'' then CHR ''<'' # read_html (drop 3 s)
      else if startsWith s ''gt;'' then CHR ''>'' # read_html (drop 3 s)
      else if startsWith s ''quot;'' then quote_char # read_html (drop 5 s)
      else if startsWith s ''#39;'' then CHR 0x27 # read_html (drop 4 s)
      else c # read_html s)"

text \<open>The characters that can begin or end a tag or the value of an attribute.\<close>

definition is_markup :: "char \<Rightarrow> bool" where
  "is_markup c \<longleftrightarrow> c = CHR ''<'' \<or> c = CHR ''>'' \<or> c = quote_char"

lemma esc_simps [simp]: "esc [] = []" "esc (c # s) = esc_char c @ esc s" "esc (s @ s') = esc s @ esc s'"
  by (simp_all add: esc_def)

lemma esc_char_markup: "filter is_markup (esc_char c) = []"
  by (simp add: esc_char_def is_markup_def quote_char_def)

lemma esc_markup [simp]: "filter is_markup (esc s) = []"
  by (induction s) (simp_all add: esc_char_markup)

lemma startsWith_append: "startsWith (p @ s) p"
  by (simp add: startsWith_def)

lemma read_esc_char: "read_html (esc_char c @ s) = c # read_html s"
  by (simp add: esc_char_def startsWith_def quote_char_def)

lemma read_esc [simp]: "read_html (esc s) = s"
  by (induction s) (simp_all add: read_esc_char)

section \<open>The page\<close>

record paper_key =
  pk_fingerprint :: string
  pk_created :: string
  pk_host :: string
  pk_path :: string
  pk_printed :: string
  pk_protected :: bool
  pk_qr_png :: string
  pk_key_text :: string
  pk_in_browser :: bool

definition new_line :: string where "new_line = [CHR 0x0A]"

text \<open>An attribute, with its value between quotes.\<close>

definition attr :: "string \<Rightarrow> string \<Rightarrow> string" where
  "attr name v = '' '' @ name @ ''='' @ [quote_char] @ v @ [quote_char]"

definition page_style :: string where
  "page_style = join_with new_line
    [''<style>'',
     ''  @page { margin: 0; } /* no browser header and footer (date, title, address) */'',
     ''  body { font-family: Segoe UI, Arial, sans-serif; margin: 0; padding: 18mm; color: #000; }'',
     ''  h1 { font-size: 20px; margin: 0 0 6px; }'',
     ''  p { font-size: 12px; line-height: 1.45; margin: 4px 0 10px; }'',
     ''  table { border-collapse: collapse; font-size: 12px; margin: 8px 0 12px; }'',
     ''  td { padding: 2px 12px 2px 0; vertical-align: top; }'',
     ''  td:first-child { color: #444; white-space: nowrap; }'',
     ''  .fp { font-family: Consolas, monospace; font-weight: 600; }'',
     ''  /* 140 mm: large enough for a laptop camera to read from about 40 cm (Import, Camera). */'',
     ''  img { width: 140mm; height: 140mm; image-rendering: pixelated; display: block; margin: 4px auto 10px; }'',
     ''  pre { font-family: Consolas, monospace; font-size: 9.5px; white-space: pre-wrap; word-break: break-all; border: 1px solid #999; padding: 8px; margin: 0; }'',
     ''  .warn { font-weight: 600; }'',
     ''  .note { font-size: 14px; background: #fff4d6; border: 1px solid #e0b84c; padding: 8px 12px; margin: 0 0 14px; }'',
     ''  @media print { .note { display: none; } }'',
     ''</style></head><body>'']"

definition print_script :: string where
  "print_script = ''<script>addEventListener('' @ quote_char # ''load'' @ quote_char #
     '', function () { setTimeout(function () { window.print() }, 300) })</script>''"

definition paper_rows :: "(string \<Rightarrow> string) \<Rightarrow> paper_key \<Rightarrow> (string \<times> string) list" where
  "paper_rows t pk = filter (\<lambda>(k, v). v \<noteq> [])
     [(t ''paperKeyFingerprint'', pk_fingerprint pk), (t ''paperKeyCreated'', pk_created pk),
      (t ''paperKeyComputer'', pk_host pk), (t ''paperKeyFile'', pk_path pk), (t ''paperKeyPrinted'', pk_printed pk)]"

definition row_html :: "(string \<Rightarrow> string) \<Rightarrow> string \<times> string \<Rightarrow> string" where
  "row_html t kv = (case kv of (k, v) \<Rightarrow>
     ''<tr><td>'' @ esc k @ ''</td><td'' @ (if k = t ''paperKeyFingerprint'' then attr ''class'' ''fp'' else []) @ ''>''
       @ esc v @ ''</td></tr>'')"

definition page_start :: "(string \<Rightarrow> string) \<Rightarrow> paper_key \<Rightarrow> bool \<Rightarrow> string" where
  "page_start t pk inBrowser =
     ''<!doctype html><html><head><meta'' @ attr ''charset'' ''utf-8'' @ ''><title>'' @ esc (t ''paperKeyTitle'') @ ''</title>'' @ new_line
       @ page_style @ new_line
       @ (if inBrowser then ''<p'' @ attr ''class'' ''note'' @ ''>'' @ esc (t ''paperKeyBrowserTabNote'') @ ''</p>'' else []) @ new_line
       @ ''<h1>'' @ esc (t ''paperKeyTitle'') @ ''</h1>'' @ new_line
       @ ''<p>'' @ esc (t ''paperKeyIntro'') @ ''</p>'' @ new_line
       @ ''<p'' @ attr ''class'' ''warn'' @ ''>'' @ esc (t (if pk_protected pk then ''paperKeyProtected'' else ''paperKeyUnprotected'')) @ ''</p>'' @ new_line
       @ ''<table>'' @ concat (map (row_html t) (paper_rows t pk)) @ ''</table>'' @ new_line
       @ ''<img'' @ attr ''alt'' ''QR'' @ attr ''src'' (''data:image/png;base64,'' @ esc (pk_qr_png pk)) @ ''>'' @ new_line"

definition printablePage :: "(string \<Rightarrow> string) \<Rightarrow> paper_key \<Rightarrow> bool \<Rightarrow> string" where
  "printablePage t pk inBrowser =
     page_start t pk inBrowser @ ''<pre>'' @ esc (pk_key_text pk) @ ''</pre>'' @ new_line
       @ (if inBrowser then print_script else []) @ new_line @ ''</body></html>''"

text \<open>Which rows a key's page has.\<close>

definition page_shape :: "paper_key \<Rightarrow> bool list" where
  "page_shape pk = map (\<lambda>v. v \<noteq> []) [pk_fingerprint pk, pk_created pk, pk_host pk, pk_path pk, pk_printed pk]"

definition markup :: "string \<Rightarrow> string" where
  "markup s = filter is_markup s"

lemma markup_simps:
  "markup (s @ s') = markup s @ markup s'" "markup (esc s) = []" "markup (concat ss) = concat (map markup ss)"
  by (simp_all add: markup_def [abs_def] filter_concat)

definition row_markup :: "(string \<Rightarrow> string) \<Rightarrow> string \<Rightarrow> string" where
  "row_markup t k = markup (row_html t (k, []))"

lemma markup_row: "markup (row_html t (k, v)) = row_markup t k"
  by (simp only: row_markup_def row_html_def prod.case markup_simps)

lemma rows_markup:
  assumes "page_shape pk = page_shape pk'"
  shows "map (markup \<circ> row_html t) (paper_rows t pk) = map (markup \<circ> row_html t) (paper_rows t pk')"
  using assms by (simp add: page_shape_def paper_rows_def markup_row)

lemma page_start_markup:
  assumes "page_shape pk = page_shape pk'"
  shows "markup (page_start t pk b) = markup (page_start t pk' b)"
  by (simp only: page_start_def attr_def markup_simps map_map rows_markup [OF assms])

text \<open>C38: nothing a key says can change the printed page but its text. The tags and attributes of two keys'
  pages with the same rows are the same, whatever their values; and the key text between \<open>pre\<close> and its
  end reads back as the key text, with no tag in it.\<close>
theorem paper_key_true:
  assumes "page_shape pk = page_shape pk'"
  shows "markup (printablePage t pk b) = markup (printablePage t pk' b) \<and>
    (\<exists>before after x. printablePage t pk b = before @ ''<pre>'' @ x @ ''</pre>'' @ after \<and>
       read_html x = pk_key_text pk \<and> list_all (\<lambda>c. \<not> is_markup c) x)"
proof (intro conjI)
  show "markup (printablePage t pk b) = markup (printablePage t pk' b)"
    by (simp only: printablePage_def markup_simps page_start_markup [OF assms])
  have "list_all (\<lambda>c. \<not> is_markup c) (esc (pk_key_text pk))"
    using esc_markup [of "pk_key_text pk"] by (simp only: filter_empty_conv list_all_iff)
  with read_esc printablePage_def [of t pk b]
  show "\<exists>before after x. printablePage t pk b = before @ ''<pre>'' @ x @ ''</pre>'' @ after \<and>
      read_html x = pk_key_text pk \<and> list_all (\<lambda>c. \<not> is_markup c) x"
    by blast
qed

definition evil_key :: paper_key where
  "evil_key = \<lparr>pk_fingerprint = ''ab:cd'', pk_created = [], pk_host = ''</td><script>'', pk_path = ''C:<b>'', pk_printed = ''1.1.2026'',
     pk_protected = True, pk_qr_png = ''x'' @ [quote_char] @ ''>'', pk_key_text = ''</pre>&lt;'', pk_in_browser = False\<rparr>"

definition plain_key :: paper_key where
  "plain_key = \<lparr>pk_fingerprint = ''ab:cd'', pk_created = [], pk_host = ''pc'', pk_path = ''key'', pk_printed = ''1.1.2026'',
     pk_protected = True, pk_qr_png = ''x'', pk_key_text = ''key'', pk_in_browser = False\<rparr>"

theorem paper_key_true_witness:
  "markup (printablePage (\<lambda>k. k) evil_key True) = markup (printablePage (\<lambda>k. k) plain_key True)"
  by (rule paper_key_true [THEN conjunct1]) (simp add: page_shape_def evil_key_def plain_key_def)

section \<open>The print button\<close>

text \<open>\<open>pp_busyRef\<close> guards at once, \<open>pp_busy\<close> is what the button shows. \<open>pp_phase\<close>: the call to the backend is on its
  way, or the three seconds after a page was opened are running.\<close>

datatype print_phase = AtRest | Opening | Pausing

record paper_dialog =
  pp_busyRef :: bool
  pp_busy :: bool
  pp_phase :: print_phase
  pp_message :: "(bool \<times> string) option"
  pp_served :: "string list"
  pp_frame :: "string option"
  pp_open :: bool

datatype print_event = PrintClicked | BrowserOpened | BrowserFailed string | PauseOver | DialogClosed

text \<open>\<open>browser\<close>: the backend has \<open>PrintPaperKeyInBrowser\<close>.\<close>

definition handlePrint :: "(string \<Rightarrow> string) \<Rightarrow> bool \<Rightarrow> paper_key \<Rightarrow> paper_dialog \<Rightarrow> paper_dialog" where
  "handlePrint t browser pk d =
     (if pk_in_browser pk \<and> browser
      then if pp_busyRef d then d
           else d\<lparr>pp_busyRef := True, pp_busy := True, pp_phase := Opening, pp_served := pp_served d @ [printablePage t pk True]\<rparr>
      else d\<lparr>pp_frame := Some (printablePage t pk False)\<rparr>)"

definition released :: "paper_dialog \<Rightarrow> paper_dialog" where
  "released d = d\<lparr>pp_busyRef := False, pp_busy := False, pp_phase := AtRest\<rparr>"

text \<open>\<open>failed_text\<close> fills the error into the text of a failure.\<close>

definition paper_step :: "(string \<Rightarrow> string) \<Rightarrow> (string \<Rightarrow> string) \<Rightarrow> bool \<Rightarrow> paper_key \<Rightarrow> print_event \<Rightarrow> paper_dialog \<Rightarrow> paper_dialog" where
  "paper_step t failed_text browser pk e d =
     (case e of
        PrintClicked \<Rightarrow> if pp_open d then handlePrint t browser pk d else d
      | BrowserOpened \<Rightarrow> if pp_phase d = Opening then d\<lparr>pp_phase := Pausing, pp_message := Some (True, t ''paperKeyBrowserOpened'')\<rparr> else d
      | BrowserFailed err \<Rightarrow> if pp_phase d = Opening then released (d\<lparr>pp_message := Some (False, failed_text err)\<rparr>) else d
      | PauseOver \<Rightarrow> if pp_phase d = Pausing then released d else d
      | DialogClosed \<Rightarrow> d\<lparr>pp_open := False, pp_frame := None\<rparr>)"

definition fresh_paper :: paper_dialog where
  "fresh_paper = \<lparr>pp_busyRef = False, pp_busy = False, pp_phase = AtRest, pp_message = None, pp_served = [], pp_frame = None, pp_open = True\<rparr>"

definition paper_play :: "(string \<Rightarrow> string) \<Rightarrow> (string \<Rightarrow> string) \<Rightarrow> bool \<Rightarrow> paper_key \<Rightarrow> print_event list \<Rightarrow> paper_dialog \<Rightarrow> paper_dialog" where
  "paper_play t failed_text browser pk es d = fold (paper_step t failed_text browser pk) es d"

text \<open>The events with which an opened page is over: the pause after it, or its failure.\<close>

definition is_end :: "print_event \<Rightarrow> bool" where
  "is_end e \<longleftrightarrow> (case e of PauseOver \<Rightarrow> True | BrowserFailed err \<Rightarrow> True | _ \<Rightarrow> False)"

definition paper_ok :: "(string \<Rightarrow> string) \<Rightarrow> paper_key \<Rightarrow> nat \<Rightarrow> paper_dialog \<Rightarrow> bool" where
  "paper_ok t pk ends d \<longleftrightarrow>
     pp_busyRef d = pp_busy d \<and> (pp_busy d \<longleftrightarrow> pp_phase d \<noteq> AtRest) \<and>
     length (pp_served d) \<le> ends + (if pp_busy d then 1 else 0) \<and>
     list_all (\<lambda>x. x = printablePage t pk True) (pp_served d) \<and> (pp_frame d \<noteq> None \<longrightarrow> pp_open d)"

lemma paper_ok_step:
  "paper_ok t pk n d \<Longrightarrow> paper_ok t pk (n + (if is_end e then 1 else 0)) (paper_step t failed_text browser pk e d)"
  by (cases e) (auto simp: paper_ok_def paper_step_def handlePrint_def released_def is_end_def)

lemma paper_ok_play:
  "paper_ok t pk n d \<Longrightarrow> paper_ok t pk (n + length (filter is_end es)) (paper_play t failed_text browser pk es d)"
proof (induction es arbitrary: n d)
  case (Cons e es)
  from Cons.IH [OF paper_ok_step [OF Cons.prems, of e failed_text browser]]
  show ?case by (cases "is_end e") (simp_all add: paper_play_def)
qed (simp add: paper_play_def)

text \<open>However fast Print is clicked, the browser gets the page once until it was opened and its pause is over, or
  it could not be opened; each page is this key's; and once the dialog is closed no page is left in the
  hidden frame.\<close>
theorem printed_once:
  assumes "d = paper_play t failed_text browser pk es fresh_paper"
  shows "length (pp_served d) \<le> length (filter is_end es) + 1 \<and> (\<not> pp_busy d \<longrightarrow> length (pp_served d) \<le> length (filter is_end es)) \<and>
    set (pp_served d) \<subseteq> {printablePage t pk True} \<and> (pp_frame d \<noteq> None \<longrightarrow> pp_open d)"
proof -
  have "paper_ok t pk 0 fresh_paper" by (simp add: paper_ok_def fresh_paper_def)
  from paper_ok_play [OF this, of es failed_text browser] assms
  show ?thesis by (auto simp: paper_ok_def list_all_iff split: if_splits)
qed

theorem printed_once_witness:
  "length (pp_served (paper_play (\<lambda>k. k) (\<lambda>e. e) True (plain_key\<lparr>pk_in_browser := True\<rparr>) [PrintClicked, PrintClicked, BrowserOpened, PrintClicked] fresh_paper)) \<le> 1"
  using printed_once [OF refl, of "\<lambda>k. k" "\<lambda>e. e" True "plain_key\<lparr>pk_in_browser := True\<rparr>" "[PrintClicked, PrintClicked, BrowserOpened, PrintClicked]"]
  by (simp add: is_end_def)

end
