(* ===== verification/SelectionSize.thy ===== *)
theory SelectionSize
  imports JsPrelude
begin

text \<open>
  The size under the tree of the Restore tab (the effect on \<open>selectedPaths\<close> and \<open>snapshotCount\<close> of \<open>App.jsx\<close>): after
  each change of the selection the backend is asked for its size, 150 ms later, and what it answers for
  an earlier selection is dropped. \<open>'c\<close> is the snapshot that is open (\<open>snapshotCtxRef\<close>).
\<close>

section \<open>The effect\<close>

text \<open>A run of the effect: what it asks for, whether its clean-up ran, and whether its timer has fired.\<close>

record 'c sizing =
  sg_ctx :: 'c
  sg_paths :: "string list"
  sg_cancelled :: bool
  sg_fired :: bool

record 'c size_page =
  sp_ctx :: "'c option"
  sp_count :: nat
  sp_paths :: "string list"
  sp_bytes :: nat
  sp_sizing :: bool
  sp_runs :: "'c sizing list"

text \<open>The clean-up: the run is cancelled, and a timer that has not fired is cleared.\<close>

definition cleanup :: "'c sizing list \<Rightarrow> 'c sizing list" where
  "cleanup rs = map (\<lambda>r. r\<lparr>sg_cancelled := True\<rparr>) (filter sg_fired rs)"

definition size_effect :: "'c size_page \<Rightarrow> 'c size_page" where
  "size_effect p =
     (let p = p\<lparr>sp_runs := cleanup (sp_runs p)\<rparr>
      in case sp_ctx p of
           None \<Rightarrow> p\<lparr>sp_bytes := 0\<rparr>
         | Some c \<Rightarrow>
             if sp_paths p = [] then p\<lparr>sp_bytes := 0\<rparr>
             else p\<lparr>sp_sizing := True,
                    sp_runs := sp_runs p @ [\<lparr>sg_ctx = c, sg_paths = sp_paths p, sg_cancelled = False, sg_fired = False\<rparr>]\<rparr>)"

text \<open>The selection, the snapshot or the number of its entries changes. React runs the effect when the
  selection is a new set, as every handler makes it, or the number is another one.\<close>

definition selection_changed :: "'c option \<Rightarrow> nat \<Rightarrow> string list \<Rightarrow> 'c size_page \<Rightarrow> 'c size_page" where
  "selection_changed ctx n paths p = size_effect (p\<lparr>sp_ctx := ctx, sp_count := n, sp_paths := paths\<rparr>)"

definition timer_fired :: "nat \<Rightarrow> 'c size_page \<Rightarrow> 'c size_page" where
  "timer_fired i p =
     (if i < length (sp_runs p) \<and> \<not> sg_fired (sp_runs p ! i)
      then p\<lparr>sp_runs := (sp_runs p)[i := (sp_runs p ! i)\<lparr>sg_fired := True\<rparr>]\<rparr> else p)"

text \<open>The answer: the size, or None for an error, which leaves the figure as it was.\<close>

definition size_answered :: "nat \<Rightarrow> nat option \<Rightarrow> 'c size_page \<Rightarrow> 'c size_page" where
  "size_answered i answer p =
     (if i < length (sp_runs p) \<and> sg_fired (sp_runs p ! i)
      then let r = sp_runs p ! i; p = p\<lparr>sp_runs := take i (sp_runs p) @ drop (Suc i) (sp_runs p)\<rparr>
           in if sg_cancelled r then p
              else p\<lparr>sp_bytes := (case answer of None \<Rightarrow> sp_bytes p | Some n \<Rightarrow> n), sp_sizing := False\<rparr>
      else p)"

text \<open>What is read under the tree: nothing ticked, still counting, or a number of paths and their size.\<close>

datatype size_text = NothingTicked | Calculating nat | Ticked nat nat

definition size_line :: "'c size_page \<Rightarrow> size_text" where
  "size_line p =
     (if sp_paths p = [] then NothingTicked
      else if sp_sizing p then Calculating (length (sp_paths p)) else Ticked (length (sp_paths p)) (sp_bytes p))"

section \<open>The size shown is that of the selection\<close>

datatype 'c size_event =
    Selection "'c option" nat "string list"
  | TimerFired nat
  | SizeAnswered nat
  | SizeFailed nat

text \<open>\<open>bytes_of\<close> is what the backend answers.\<close>

definition size_step :: "('c \<Rightarrow> string list \<Rightarrow> nat) \<Rightarrow> 'c size_event \<Rightarrow> 'c size_page \<Rightarrow> 'c size_page" where
  "size_step bytes_of e p =
     (case e of
        Selection ctx n paths \<Rightarrow> selection_changed ctx n paths p
      | TimerFired i \<Rightarrow> timer_fired i p
      | SizeAnswered i \<Rightarrow>
          (if i < length (sp_runs p) then size_answered i (Some (bytes_of (sg_ctx (sp_runs p ! i)) (sg_paths (sp_runs p ! i)))) p else p)
      | SizeFailed i \<Rightarrow> size_answered i None p)"

definition no_selection :: "'c size_page" where
  "no_selection = \<lparr>sp_ctx = None, sp_count = 0, sp_paths = [], sp_bytes = 0, sp_sizing = False, sp_runs = []\<rparr>"

definition size_play :: "('c \<Rightarrow> string list \<Rightarrow> nat) \<Rightarrow> 'c size_event list \<Rightarrow> 'c size_page \<Rightarrow> 'c size_page" where
  "size_play bytes_of es p = fold (size_step bytes_of) es p"

text \<open>At most the last run counts, and it asks for what is ticked now.\<close>

definition live :: "'c size_page \<Rightarrow> 'c sizing list" where
  "live p = filter (\<lambda>r. \<not> sg_cancelled r) (sp_runs p)"

definition sizes_ok :: "('c \<Rightarrow> string list \<Rightarrow> nat) \<Rightarrow> 'c size_page \<Rightarrow> bool" where
  "sizes_ok bytes_of p \<longleftrightarrow>
     (case sp_ctx p of
        None \<Rightarrow> live p = [] \<and> sp_bytes p = 0
      | Some c \<Rightarrow>
          if sp_paths p = [] then live p = [] \<and> sp_bytes p = 0
          else if sp_sizing p then \<exists>b. live p = [\<lparr>sg_ctx = c, sg_paths = sp_paths p, sg_cancelled = False, sg_fired = b\<rparr>]
          else live p = [] \<and> sp_bytes p = bytes_of c (sp_paths p))"

lemma live_cleanup [simp]: "filter (\<lambda>r. \<not> sg_cancelled r) (cleanup rs) = []"
  by (simp add: cleanup_def filter_empty_conv)

lemma sizes_ok_changed: "sizes_ok bytes_of (selection_changed ctx n paths p)"
  by (cases ctx) (auto simp: selection_changed_def size_effect_def sizes_ok_def live_def Let_def)

lemma live_fired:
  assumes "i < length rs"
  shows "filter (\<lambda>r. \<not> sg_cancelled r) (rs[i := (rs ! i)\<lparr>sg_fired := True\<rparr>]) =
     filter (\<lambda>r. \<not> sg_cancelled r) (take i rs) @ (if sg_cancelled (rs ! i) then [] else [(rs ! i)\<lparr>sg_fired := True\<rparr>])
       @ filter (\<lambda>r. \<not> sg_cancelled r) (drop (Suc i) rs)"
  using assms by (simp add: upd_conv_take_nth_drop)

lemma live_split:
  assumes "i < length rs"
  shows "filter (\<lambda>r. \<not> sg_cancelled r) rs =
     filter (\<lambda>r. \<not> sg_cancelled r) (take i rs) @ (if sg_cancelled (rs ! i) then [] else [rs ! i])
       @ filter (\<lambda>r. \<not> sg_cancelled r) (drop (Suc i) rs)"
proof -
  from assms have "rs = take i rs @ rs ! i # drop (Suc i) rs" by (rule id_take_nth_drop)
  then have "filter (\<lambda>r. \<not> sg_cancelled r) rs = filter (\<lambda>r. \<not> sg_cancelled r) (take i rs @ rs ! i # drop (Suc i) rs)" by simp
  then show ?thesis by simp
qed

lemma sizes_ok_fired:
  assumes "sizes_ok bytes_of p"
  shows "sizes_ok bytes_of (timer_fired i p)"
proof (cases "i < length (sp_runs p) \<and> \<not> sg_fired (sp_runs p ! i)")
  case True
  let ?p = "timer_fired i p"
  have "live ?p = live p \<or> (\<exists>r. live p = [r] \<and> live ?p = [r\<lparr>sg_fired := True\<rparr>]) \<or> length (live p) > 1"
    using True live_fired [of i "sp_runs p"] live_split [of i "sp_runs p"]
    by (auto simp: live_def timer_fired_def)
  moreover have "sp_ctx ?p = sp_ctx p" "sp_paths ?p = sp_paths p" "sp_bytes ?p = sp_bytes p" "sp_sizing ?p = sp_sizing p"
    by (simp_all add: timer_fired_def)
  ultimately show ?thesis using assms by (auto simp: sizes_ok_def split: option.splits if_splits)
next
  case False
  then show ?thesis using assms by (auto simp: timer_fired_def)
qed

lemma sizes_ok_answered:
  assumes "sizes_ok bytes_of p" "i < length (sp_runs p)"
  shows "sizes_ok bytes_of (size_answered i (Some (bytes_of (sg_ctx (sp_runs p ! i)) (sg_paths (sp_runs p ! i)))) p)"
proof (cases "sg_fired (sp_runs p ! i)")
  case True
  let ?r = "sp_runs p ! i"
  let ?p = "size_answered i (Some (bytes_of (sg_ctx ?r) (sg_paths ?r))) p"
  note split = live_split [OF assms(2)]
  show ?thesis
  proof (cases "sg_cancelled ?r")
    case True
    then have "live ?p = live p" "sp_ctx ?p = sp_ctx p" "sp_paths ?p = sp_paths p" "sp_bytes ?p = sp_bytes p" "sp_sizing ?p = sp_sizing p"
      using assms(2) \<open>sg_fired ?r\<close> split by (simp_all add: live_def size_answered_def)
    then show ?thesis using assms(1) by (simp add: sizes_ok_def split: option.splits if_splits)
  next
    case False
    then have r: "?r \<in> set (live p)" using assms(2) by (simp add: live_def)
    with assms(1) obtain c where c: "sp_ctx p = Some c" "sp_paths p \<noteq> []" "sp_sizing p"
      "live p = [?r]" "sg_ctx ?r = c" "sg_paths ?r = sp_paths p"
      by (auto simp: sizes_ok_def split: option.splits if_splits)
    have "live ?p = []" using c(4) split False \<open>sg_fired ?r\<close> assms(2)
      by (simp add: live_def size_answered_def append_eq_Cons_conv)
    with c False \<open>sg_fired ?r\<close> assms(2) show ?thesis by (simp add: sizes_ok_def size_answered_def)
  qed
qed (use assms in \<open>simp add: size_answered_def\<close>)

lemma sizes_ok_step:
  "sizes_ok bytes_of p \<Longrightarrow> (\<forall>i. SizeFailed i \<noteq> e) \<Longrightarrow> sizes_ok bytes_of (size_step bytes_of e p)"
  by (cases e) (auto simp: size_step_def sizes_ok_changed sizes_ok_fired sizes_ok_answered)

lemma sizes_ok_play:
  "sizes_ok bytes_of p \<Longrightarrow> (\<forall>i. SizeFailed i \<notin> set es) \<Longrightarrow> sizes_ok bytes_of (size_play bytes_of es p)"
  by (induction es arbitrary: p) (simp_all add: size_play_def sizes_ok_step)

text \<open>C37: as long as no count has failed since a change of the selection, a size that is read under the tree is
  that of the paths ticked now in the snapshot open now, whatever the order of clicks, timers and answers, and
  whatever failed before that change; and while it is being counted exactly one question is under way that will be
  listened to, the one about what is ticked now. A count that fails leaves the figure of the selection before
  (\<open>failed_size_shown\<close>).\<close>
theorem shown_size_true:
  assumes "p = size_play bytes_of (es1 @ Selection ctx k paths # es2) no_selection" "\<forall>i. SizeFailed i \<notin> set es2" "sp_ctx p = Some c"
  shows "(\<forall>n b. size_line p = Ticked n b \<longrightarrow> n = length (sp_paths p) \<and> b = bytes_of c (sp_paths p)) \<and>
    (\<forall>n. size_line p = Calculating n \<longrightarrow> map (\<lambda>r. (sg_ctx r, sg_paths r)) (live p) = [(c, sp_paths p)])"
proof -
  have "p = size_play bytes_of es2 (selection_changed ctx k paths (size_play bytes_of es1 no_selection))"
    using assms(1) by (simp add: size_play_def size_step_def)
  moreover have "sizes_ok bytes_of (size_play bytes_of es2 (selection_changed ctx k paths (size_play bytes_of es1 no_selection)))"
    by (rule sizes_ok_play [OF sizes_ok_changed assms(2)])
  ultimately have "sizes_ok bytes_of p" by (simp only:)
  with assms(3) show ?thesis by (auto simp: sizes_ok_def size_line_def split: if_splits)
qed

definition first_clicks :: "nat size_event list" where
  "first_clicks = [Selection (Some 7) 3 [''a''], TimerFired 0, SizeFailed 0]"

definition later_clicks :: "nat size_event list" where
  "later_clicks = [TimerFired 0, Selection (Some 7) 3 [''a'', ''b''], SizeAnswered 0, TimerFired 0, SizeAnswered 0]"

theorem shown_size_true_witness:
  "size_line (size_play (\<lambda>c ps. 10 * length ps) (first_clicks @ Selection (Some 7) 3 [''c''] # later_clicks) no_selection) = Ticked 2 20"
proof -
  let ?p = "size_play (\<lambda>c ps. 10 * length ps) (first_clicks @ Selection (Some 7) 3 [''c''] # later_clicks) no_selection"
  have "sp_ctx ?p = Some 7" "(case size_line ?p of Ticked n b \<Rightarrow> True | _ \<Rightarrow> False)" "length (sp_paths ?p) = 2" by code_simp+
  moreover have "\<forall>i. SizeFailed i \<notin> set later_clicks" by (simp add: later_clicks_def)
  ultimately show ?thesis using shown_size_true [of ?p "\<lambda>c ps. 10 * length ps" first_clicks "Some 7" 3 "[''c'']" later_clicks 7, OF refl] by (cases "size_line ?p") auto
qed

text \<open>When the backend cannot tell the size, the figure of the selection before stays, as if it were this one's.\<close>

lemma failed_size_shown:
  "size_line (size_play (\<lambda>c ps. 10 * length ps) [Selection (Some (7 :: nat)) 3 [''a''], TimerFired 0, SizeAnswered 0,
     Selection (Some 7) 3 [''a'', ''b''], TimerFired 0, SizeFailed 0] no_selection) = Ticked 2 10"
  by code_simp

end
