(* ===== verification/SetCards.thy ===== *)
theory SetCards
  imports SetForm
begin

text \<open>
  The cards of the Backup Sets (\<open>App.jsx\<close>): the badge that says whether a set reads through a snapshot, when its
  next full read comes, its next run, and what the buttons and the reloads do to the list. The Go side
  is the counter of the full reads (\<open>change_detection_job.go\<close>), which the card claims to follow, and the check of a
  machine set that reads live (\<open>runLiveRead\<close>).
\<close>

section \<open>Full reads\<close>

text \<open>A set with \<open>MetadataRunsSinceFullRead\<close>. The empty mode of the backend is \<open>Legacy\<close>.\<close>

record card =
  ca_job :: job
  ca_legacy :: legacy
  ca_since :: int
  ca_nextRun :: "int option"

definition changeDetectionForRun :: "job \<Rightarrow> int \<Rightarrow> change_mode \<times> int" where
  "changeDetectionForRun j since =
     (if j_backupType j = Machine then (Legacy, since)
      else case j_changeDetectionMode j of
             Metadata \<Rightarrow> if j_fullReadEvery j > 0 \<and> since + 1 \<ge> j_fullReadEvery j then (DataMode, 0) else (Metadata, since + 1)
           | DataMode \<Rightarrow> (DataMode, 0)
           | Legacy \<Rightarrow> (Legacy, 0))"

text \<open>The choice of Run now, and whether every file is read because of the schedule, or because of it.\<close>

datatype read_choice = AsScheduled | Quick | Full

definition applyRequestedRead :: "job \<Rightarrow> read_choice \<Rightarrow> change_mode \<Rightarrow> change_mode \<times> bool \<times> bool" where
  "applyRequestedRead j read mode =
     (if j_backupType j = Machine \<or> j_changeDetectionMode j \<noteq> Metadata then (mode, False, False)
      else case read of
             Full \<Rightarrow> (DataMode, False, True)
           | Quick \<Rightarrow> (Metadata, False, False)
           | AsScheduled \<Rightarrow> (mode, mode = DataMode, False))"

definition nextFullReadCount :: "job \<Rightarrow> int \<Rightarrow> bool \<Rightarrow> bool \<Rightarrow> int" where
  "nextFullReadCount j since success readEveryFile =
     (if \<not> success \<or> j_backupType j = Machine then since
      else if j_changeDetectionMode j \<noteq> Metadata \<or> readEveryFile then 0 else since + 1)"

text \<open>A run: the choice it was started with, whether it succeeded, and whether there was an earlier snapshot to
  reuse. It gives the mode it read in and the counter after it.\<close>

record read_run =
  ru_read :: read_choice
  ru_success :: bool
  ru_previous :: bool

definition run_mode :: "job \<Rightarrow> read_choice \<Rightarrow> int \<Rightarrow> change_mode" where
  "run_mode j read since = fst (applyRequestedRead j read (fst (changeDetectionForRun j since)))"

text \<open>Files are reused in the metadata mode, from an earlier snapshot.\<close>

definition read_every_file :: "change_mode \<Rightarrow> bool \<Rightarrow> bool" where
  "read_every_file mode previous \<longleftrightarrow> mode = DataMode \<or> \<not> previous"

definition run_set :: "job \<Rightarrow> read_run \<Rightarrow> int \<Rightarrow> change_mode \<times> int" where
  "run_set j r since =
     (let mode = run_mode j (ru_read r) since
      in (mode, nextFullReadCount j since (ru_success r) (read_every_file mode (ru_previous r))))"

lemmas run_set_simps = run_set_def run_mode_def read_every_file_def

fun since_after :: "job \<Rightarrow> read_run list \<Rightarrow> int \<Rightarrow> int" where
  "since_after j [] since = since"
| "since_after j (r # rs) since = since_after j rs (snd (run_set j r since))"

text \<open>What the card says: in how many runs the next full read comes, 1 for the next run; None for no line.\<close>

definition full_read_line :: "job \<Rightarrow> int \<Rightarrow> int option" where
  "full_read_line j since =
     (if j_backupType j \<noteq> Machine \<and> j_changeDetectionMode j = Metadata \<and> j_fullReadEvery j > 0
      then let left = j_fullReadEvery j - since - 1 in Some (if left \<le> 0 then 1 else left + 1)
      else None)"

text \<open>Runs of the schedule that have an earlier snapshot to reuse.\<close>

definition plain_run :: "read_run \<Rightarrow> bool" where
  "plain_run r \<longleftrightarrow> ru_read r = AsScheduled \<and> ru_previous r"

lemma run_set_plain:
  assumes "full_read_line j since = Some k" "plain_run r"
  shows "fst (run_set j r since) = (if k = 1 then DataMode else Metadata)"
    "1 < k \<or> \<not> ru_success r \<Longrightarrow>
      full_read_line j (snd (run_set j r since)) = Some (if ru_success r then k - 1 else k)"
  using assms
  by (auto simp: run_set_simps full_read_line_def changeDetectionForRun_def applyRequestedRead_def nextFullReadCount_def
      plain_run_def Let_def split: if_splits)

lemma since_after_plain:
  assumes "full_read_line j since = Some k" "list_all plain_run rs" "int (length (filter ru_success rs)) < k"
  shows "full_read_line j (since_after j rs since) = Some (k - int (length (filter ru_success rs)))"
  using assms
proof (induction rs arbitrary: since k)
  case (Cons r rs)
  then have r: "plain_run r" and rs: "list_all plain_run rs" by simp_all
  show ?case
  proof (cases "ru_success r")
    case True
    with Cons.prems(3) have "1 < k" by simp
    with run_set_plain(2) [OF Cons.prems(1) r] True have "full_read_line j (snd (run_set j r since)) = Some (k - 1)" by simp
    from Cons.IH [OF this rs] True Cons.prems(3) show ?thesis by simp
  next
    case False
    with run_set_plain(2) [OF Cons.prems(1) r] have "full_read_line j (snd (run_set j r since)) = Some k" by simp
    from Cons.IH [OF this rs] False Cons.prems(3) show ?thesis by simp
  qed
qed simp

text \<open>C33: what a card says of the next full read is what its scheduled runs do. When it says that it comes in \<open>k\<close> runs
  and every run from then on is a scheduled one with an earlier snapshot to reuse (not a first one, and none
  started by Run now), the runs read changed files only until \<open>k - 1\<close> of them have succeeded, and the one after
  that reads every file; failed and cancelled runs do not count, and the line is as it was after them.\<close>
theorem full_read_as_told:
  assumes "full_read_line j since = Some k" "list_all plain_run rs" "plain_run r" "int (length (filter ru_success rs)) < k"
  shows "fst (run_set j r (since_after j rs since)) = (if int (length (filter ru_success rs)) = k - 1 then DataMode else Metadata) \<and>
    full_read_line j (since_after j rs since) = Some (k - int (length (filter ru_success rs)))"
  using run_set_plain(1) [OF since_after_plain [OF assms(1,2,4)] assms(3)] since_after_plain [OF assms(1,2,4)] by auto

definition weekly_full :: job where
  "weekly_full = empty_job\<lparr>j_changeDetectionMode := Metadata, j_fullReadEvery := 3\<rparr>"

definition good_run :: read_run where
  "good_run = \<lparr>ru_read = AsScheduled, ru_success = True, ru_previous = True\<rparr>"

theorem full_read_as_told_witness:
  "fst (run_set weekly_full good_run (since_after weekly_full [good_run, good_run\<lparr>ru_success := False\<rparr>, good_run] 0)) = DataMode"
proof -
  have "full_read_line weekly_full 0 = Some 3" by (simp add: full_read_line_def weekly_full_def empty_job_def)
  from full_read_as_told [OF this, of "[good_run, good_run\<lparr>ru_success := False\<rparr>, good_run]" good_run]
  show ?thesis by (simp add: plain_run_def good_run_def)
qed

text \<open>The other runs: a quick run leaves a full read that is due still due, a full read asked for starts the count again,
  and so does a run without an earlier snapshot, the first of a set among them.\<close>

lemma requested_reads:
  assumes "full_read_line j since = Some k" "ru_success r" "ru_previous r"
  shows "ru_read r = Quick \<Longrightarrow> k = 1 \<Longrightarrow> full_read_line j (snd (run_set j r since)) = Some 1"
    "ru_read r = Full \<Longrightarrow> snd (run_set j r since) = 0"
  using assms
  by (auto simp: run_set_simps full_read_line_def changeDetectionForRun_def applyRequestedRead_def nextFullReadCount_def Let_def split: if_splits)

lemma first_run_counts_anew:
  "full_read_line j since = Some k \<Longrightarrow> ru_success r \<Longrightarrow> \<not> ru_previous r \<Longrightarrow> snd (run_set j r since) = 0"
  by (auto simp: run_set_simps full_read_line_def nextFullReadCount_def Let_def split: if_splits)

section \<open>The snapshot badge\<close>

text \<open>Whether a machine set's run reads its mounted disks live, or stops.\<close>

definition runLiveRead :: "bool \<Rightarrow> job \<Rightarrow> string + bool" where
  "runLiveRead linux j =
     (if \<not> linux \<or> \<not> j_snapshotsOff j then Inr False
      else if \<not> j_liveRead j then Inl ''errSnapshotsOffNotAccepted'' else Inr True)"

datatype badge_color = RedBadge | AmberBadge | BlueBadge | GreyBadge

text \<open>The badge: its colour, the keys of its word and its explanation, and the folders it lists.\<close>

record snap_badge =
  sb_color :: badge_color
  sb_word :: string
  sb_tip :: string
  sb_dirs :: "string list"

text \<open>\<open>support\<close> is \<open>snapSupport\<close>: whether a folder can be read through a snapshot, None where nothing is known.\<close>

definition snapBadge :: "bool \<Rightarrow> (string \<Rightarrow> bool option) \<Rightarrow> job \<Rightarrow> snap_badge" where
  "snapBadge linux support j =
     (let machine = (j_backupType j = Machine);
          machineOff = (linux \<and> machine \<and> j_snapshotsOff j);
          red = (machineOff \<and> \<not> j_liveRead j);
          on = (\<not> machineOff \<and> (machine \<or> j_useVSS j));
          liveDirs = (if on \<and> \<not> machine then filter (\<lambda>d. support d = Some False) (j_backupDirs j) else []);
          amber = (liveDirs \<noteq> [] \<or> machineOff \<and> \<not> red);
          allLive = (liveDirs \<noteq> [] \<and> length liveDirs = length (j_backupDirs j))
      in \<lparr>sb_color = (if red then RedBadge else if amber then AmberBadge else if on then BlueBadge else GreyBadge),
          sb_word = (if machineOff then ''vssOff'' else if allLive then ''snapshotNA'' else if amber then ''snapshotPartly''
             else if on then ''vssOn'' else ''vssOff''),
          sb_tip = (if machineOff then (if red then ''snapshotTipMachineOffNotAccepted'' else ''snapshotTipMachineLive'')
             else if liveDirs \<noteq> [] then ''snapshotTipSomeLive''
             else if machine then (if linux then ''snapshotTipMachineLinux'' else ''vssTipMachine'')
             else if on then (if linux then ''snapshotTipOnLinux'' else ''vssTipOn'')
             else if linux then ''snapshotTipOffLinux'' else ''vssTipOff''),
          sb_dirs = liveDirs\<rparr>)"

text \<open>What the effect asks about, and how an answer is taken (\<open>live\<close>: no newer list came meanwhile).\<close>

definition support_paths :: "job list \<Rightarrow> string list" where
  "support_paths js = uniq (concat (map j_backupDirs (filter (\<lambda>j. j_backupType j \<noteq> Machine \<and> j_useVSS j) js)))"

definition support_answered :: "bool \<Rightarrow> (string \<Rightarrow> bool option) \<Rightarrow> (string \<Rightarrow> bool option) \<Rightarrow> string \<Rightarrow> bool option" where
  "support_answered live answer prev = (if live then prev ++ answer else prev)"

lemma filter_all_length: "length (filter P xs) = length xs \<longleftrightarrow> list_all P xs"
proof (induction xs)
  case (Cons x xs)
  have "length (filter P xs) \<noteq> Suc (length xs)" using length_filter_le [of P xs] by linarith
  with Cons.IH show ?case by simp
qed simp

text \<open>The snapshot badge tells what a run will do. A machine set's is red exactly when its run stops for not
  accepting a live read, amber exactly when it reads live, and blue otherwise; a folder set's is grey exactly when it
  asks for no snapshot, and else it names the folders known to be read live: none for On, each of them
  for Not available.\<close>
theorem badge_tells_run:
  "(j_backupType j = Machine \<longrightarrow>
      (sb_color (snapBadge linux support j) = RedBadge \<longleftrightarrow> (\<exists>err. runLiveRead linux j = Inl err)) \<and>
      (sb_color (snapBadge linux support j) = AmberBadge \<longleftrightarrow> runLiveRead linux j = Inr True) \<and>
      (sb_color (snapBadge linux support j) = BlueBadge \<longleftrightarrow> runLiveRead linux j = Inr False)) \<and>
    (j_backupType j = Directory \<longrightarrow>
      (sb_color (snapBadge linux support j) = GreyBadge \<longleftrightarrow> \<not> j_useVSS j) \<and>
      set (sb_dirs (snapBadge linux support j)) = {d \<in> set (j_backupDirs j). j_useVSS j \<and> support d = Some False} \<and>
      (sb_word (snapBadge linux support j) = ''vssOn'' \<longleftrightarrow> j_useVSS j \<and> sb_dirs (snapBadge linux support j) = []) \<and>
      (sb_word (snapBadge linux support j) = ''snapshotNA'' \<longleftrightarrow>
         j_useVSS j \<and> j_backupDirs j \<noteq> [] \<and> (\<forall>d \<in> set (j_backupDirs j). support d = Some False)))"
  by (auto simp: snapBadge_def runLiveRead_def Let_def filter_all_length list_all_iff filter_empty_conv)

theorem badge_tells_run_witness:
  "sb_color (snapBadge True (\<lambda>d. None) (empty_job\<lparr>j_backupType := Machine, j_snapshotsOff := True\<rparr>)) = RedBadge"
  using badge_tells_run [of "empty_job\<lparr>j_backupType := Machine, j_snapshotsOff := True\<rparr>" True "\<lambda>d. None"]
  by (simp add: runLiveRead_def empty_job_def)

section \<open>The next run\<close>

text \<open>What a card says of the next run: nothing, the word for a disabled set, due now, a time of today, or a day.
  \<open>same_day\<close> compares days of the browser's calendar.\<close>

datatype next_line = NoLine | DisabledLine | DueNow | TodayAt int | OnDay int

definition nextRunLine :: "(int \<Rightarrow> int \<Rightarrow> bool) \<Rightarrow> int \<Rightarrow> card \<Rightarrow> next_line" where
  "nextRunLine same_day now c =
     (if fst (cardSchedule (ca_job c) (ca_legacy c)) then NoLine
      else if \<not> j_enabled (ca_job c) then DisabledLine
      else case ca_nextRun c of
             None \<Rightarrow> NoLine
           | Some t \<Rightarrow> if t \<le> now then DueNow else if same_day t now then TodayAt t else OnDay t)"

section \<open>The list\<close>

text \<open>A call on its way: what it asks, and how it ended in the backend once it got there. A deletion keeps the list
  that was shown when it was clicked, a reload after a switch what was switched.\<close>

datatype card_ask = Reload | ReloadAfter bool | RunNow string string read_choice | Switch string bool | Remove string "card list"

datatype card_end = OnItsWay | Refused string | Listed "card list"

record card_call =
  cc_ask :: card_ask
  cc_end :: card_end

text \<open>\<open>cp_asking\<close>: the question before a deletion. A status has its kind, the key of its text and a value in it.\<close>

record cards_page =
  cp_jobs :: "card list"
  cp_running :: "string option"
  cp_menu :: "string option"
  cp_lock :: bool
  cp_editing :: "string option"
  cp_status :: "(string \<times> string \<times> string) option"
  cp_asking :: "(string \<times> card list) option"
  cp_calls :: "card_call list"
  cp_store :: "card list"

definition card_id :: "card \<Rightarrow> string" where
  "card_id c = j_id (ca_job c)"

definition call_out :: "card_ask \<Rightarrow> cards_page \<Rightarrow> cards_page" where
  "call_out a p = p\<lparr>cp_calls := cp_calls p @ [\<lparr>cc_ask = a, cc_end = OnItsWay\<rparr>]\<rparr>"

definition runSetNow :: "card \<Rightarrow> read_choice \<Rightarrow> cards_page \<Rightarrow> cards_page" where
  "runSetNow c read p = call_out (RunNow (card_id c) (j_name (ca_job c)) read) (p\<lparr>cp_running := Some (card_id c)\<rparr>)"

definition toggle_menu :: "string \<Rightarrow> cards_page \<Rightarrow> cards_page" where
  "toggle_menu i p = p\<lparr>cp_menu := (if cp_menu p = Some i then None else Some i)\<rparr>"

text \<open>An item of the menu closes it.\<close>

definition toggle_enabled :: "card \<Rightarrow> cards_page \<Rightarrow> cards_page" where
  "toggle_enabled c p = call_out (Switch (card_id c) (\<not> j_enabled (ca_job c))) (p\<lparr>cp_menu := None\<rparr>)"

definition delete_clicked :: "card \<Rightarrow> cards_page \<Rightarrow> cards_page" where
  "delete_clicked c p = p\<lparr>cp_menu := None, cp_asking := Some (card_id c, cp_jobs p)\<rparr>"

definition delete_answered :: "bool \<Rightarrow> cards_page \<Rightarrow> cards_page" where
  "delete_answered yes p =
     (case cp_asking p of
        None \<Rightarrow> p
      | Some (i, shown) \<Rightarrow> let p = p\<lparr>cp_asking := None\<rparr> in if yes then call_out (Remove i shown) p else p)"

text \<open>The backend: what it keeps after a call it does not refuse, or its own error.\<close>

definition store_step :: "card_ask \<Rightarrow> card list \<Rightarrow> string + card list" where
  "store_step a store =
     (case a of
        Switch i b \<Rightarrow>
          if i \<in> set (map card_id store)
          then Inr (map (\<lambda>c. if card_id c = i then c\<lparr>ca_job := (ca_job c)\<lparr>j_enabled := b\<rparr>\<rparr> else c) store)
          else Inl ''job not found''
      | Remove i shown \<Rightarrow> Inr (filter (\<lambda>c. card_id c \<noteq> i) store)
      | _ \<Rightarrow> Inr store)"

definition call_served :: "nat \<Rightarrow> string option \<Rightarrow> cards_page \<Rightarrow> cards_page" where
  "call_served n refused p =
     (if n < length (cp_calls p) \<and> cc_end (cp_calls p ! n) = OnItsWay
      then let c = cp_calls p ! n;
               r = (case refused of Some err \<Rightarrow> Inl err | None \<Rightarrow> store_step (cc_ask c) (cp_store p))
           in (case r of
                 Inl err \<Rightarrow> p\<lparr>cp_calls := (cp_calls p)[n := c\<lparr>cc_end := Refused err\<rparr>]\<rparr>
               | Inr store \<Rightarrow> p\<lparr>cp_store := store, cp_calls := (cp_calls p)[n := c\<lparr>cc_end := Listed store\<rparr>]\<rparr>)
      else p)"

text \<open>\<open>handleJobsLockError\<close> first, else the error's text.\<close>

definition change_failed :: "string \<Rightarrow> cards_page \<Rightarrow> cards_page" where
  "change_failed err p =
     (case jobErrText err of
        None \<Rightarrow> p\<lparr>cp_lock := True\<rparr>
      | Some (k, v) \<Rightarrow> p\<lparr>cp_status := Some (''error'', k, v)\<rparr>)"

definition card_answered :: "card_ask \<Rightarrow> card_end \<Rightarrow> cards_page \<Rightarrow> cards_page" where
  "card_answered a e p =
     (case a of
        Reload \<Rightarrow> (case e of Listed l \<Rightarrow> p\<lparr>cp_jobs := l\<rparr> | _ \<Rightarrow> p)
      | Switch i b \<Rightarrow> (case e of Refused err \<Rightarrow> change_failed err p | _ \<Rightarrow> call_out (ReloadAfter b) p)
      | ReloadAfter b \<Rightarrow>
          (case e of
             Listed l \<Rightarrow> p\<lparr>cp_jobs := l, cp_status := Some (''success'', if b then ''statusSetEnabled'' else ''statusSetDisabled'', [])\<rparr>
           | Refused err \<Rightarrow> change_failed err p | OnItsWay \<Rightarrow> p)
      | Remove i shown \<Rightarrow>
          (case e of
             Refused err \<Rightarrow> change_failed err p
           | _ \<Rightarrow> p\<lparr>cp_jobs := filter (\<lambda>c. card_id c \<noteq> i) shown, cp_status := Some (''success'', ''statusJobDeleted'', []),
                    cp_editing := (if cp_editing p = Some i then None else cp_editing p)\<rparr>)
      | RunNow i name read \<Rightarrow>
          (let p = p\<lparr>cp_running := None\<rparr>
           in case e of
                Refused err \<Rightarrow> p\<lparr>cp_status := Some (''error'', ''runNowError'', err)\<rparr>
              | _ \<Rightarrow> p\<lparr>cp_status := Some (''success'', (case read of AsScheduled \<Rightarrow> [] | Quick \<Rightarrow> ''runNowQuickShort'' | Full \<Rightarrow> ''runNowFullShort''), name)\<rparr>))"

definition call_back :: "nat \<Rightarrow> cards_page \<Rightarrow> cards_page" where
  "call_back n p =
     (if n < length (cp_calls p) \<and> cc_end (cp_calls p ! n) \<noteq> OnItsWay
      then let c = cp_calls p ! n
           in card_answered (cc_ask c) (cc_end c) (p\<lparr>cp_calls := take n (cp_calls p) @ drop (Suc n) (cp_calls p)\<rparr>)
      else p)"

datatype card_event =
    ReloadDue
  | RunClicked card read_choice
  | MenuClicked string
  | ClickedElsewhere
  | SwitchClicked card
  | DeleteClicked card
  | DeleteAnswered bool
  | CallServed nat "string option"
  | CallBack nat

text \<open>The menu offers a choice of read for a folder set that reuses unchanged files.\<close>

definition read_offered :: "card \<Rightarrow> cards_page \<Rightarrow> bool" where
  "read_offered c p \<longleftrightarrow> cp_menu p = Some (card_id c) \<and> j_backupType (ca_job c) \<noteq> Machine \<and> j_changeDetectionMode (ca_job c) = Metadata"

text \<open>\<open>blocked\<close> is \<open>serviceBlocked\<close>, which greys out the buttons and hides the menu.\<close>

fun card_step :: "bool \<Rightarrow> card_event \<Rightarrow> cards_page \<Rightarrow> cards_page" where
  "card_step blocked ReloadDue p = call_out Reload p"
| "card_step blocked (RunClicked c read) p =
     (if blocked \<or> cp_running p = Some (card_id c) \<or> read \<noteq> AsScheduled \<and> \<not> read_offered c p then p
      else runSetNow c read (if read = AsScheduled then p else p\<lparr>cp_menu := None\<rparr>))"
| "card_step blocked (MenuClicked i) p = (if blocked then p else toggle_menu i p)"
| "card_step blocked ClickedElsewhere p = p\<lparr>cp_menu := None\<rparr>"
| "card_step blocked (SwitchClicked c) p = (if blocked \<or> cp_menu p \<noteq> Some (card_id c) then p else toggle_enabled c p)"
| "card_step blocked (DeleteClicked c) p =
     (if blocked \<or> cp_menu p \<noteq> Some (card_id c) \<or> cp_asking p \<noteq> None then p else delete_clicked c p)"
| "card_step blocked (DeleteAnswered yes) p = delete_answered yes p"
| "card_step blocked (CallServed n refused) p = call_served n refused p"
| "card_step blocked (CallBack n) p = call_back n p"

text \<open>What happens in a row, with whether the service could not be used just then.\<close>

definition card_play :: "(bool \<times> card_event) list \<Rightarrow> cards_page \<Rightarrow> cards_page" where
  "card_play es p = fold (\<lambda>(blocked, e). card_step blocked e) es p"

definition shown_cards :: "card list \<Rightarrow> cards_page" where
  "shown_cards store = \<lparr>cp_jobs = store, cp_running = None, cp_menu = None, cp_lock = False, cp_editing = None, cp_status = None,
     cp_asking = None, cp_calls = [], cp_store = store\<rparr>"

section \<open>Only what was asked is changed\<close>

text \<open>The sets whose deletion the user agreed to, in a list of events.\<close>

definition agreed_now :: "card_event \<Rightarrow> cards_page \<Rightarrow> string set" where
  "agreed_now e p = (if e = DeleteAnswered True then (case cp_asking p of None \<Rightarrow> {} | Some (i, shown) \<Rightarrow> {i}) else {})"

fun agreed :: "(bool \<times> card_event) list \<Rightarrow> cards_page \<Rightarrow> string set" where
  "agreed [] p = {}"
| "agreed ((blocked, e) # es) p = agreed_now e p \<union> agreed es (card_step blocked e p)"

definition removing :: "cards_page \<Rightarrow> string set" where
  "removing p = {i. \<exists>shown. Remove i shown \<in> set (map cc_ask (cp_calls p))}"

lemma removing_simps [simp]:
  "removing (call_out a p) = removing p \<union> (case a of Remove i shown \<Rightarrow> {i} | _ \<Rightarrow> {})"
  "removing (p\<lparr>cp_jobs := l\<rparr>) = removing p" "removing (p\<lparr>cp_running := r\<rparr>) = removing p"
  "removing (p\<lparr>cp_menu := m\<rparr>) = removing p" "removing (p\<lparr>cp_lock := b\<rparr>) = removing p"
  "removing (p\<lparr>cp_editing := r\<rparr>) = removing p" "removing (p\<lparr>cp_status := x\<rparr>) = removing p"
  "removing (p\<lparr>cp_asking := a'\<rparr>) = removing p" "removing (p\<lparr>cp_store := l\<rparr>) = removing p"
  by (auto simp: removing_def call_out_def split: card_ask.splits)

lemma change_failed_simps [simp]:
  "cp_store (change_failed err p) = cp_store p" "removing (change_failed err p) = removing p"
  by (simp_all add: change_failed_def split: option.split)

lemma store_simps [simp]:
  "cp_store (call_out a p) = cp_store p" "cp_store (card_answered a e p) = cp_store p"
  by (auto simp: call_out_def card_answered_def Let_def split: card_ask.split card_end.split)

lemma removing_answered [simp]: "removing (card_answered a e p) = removing p"
  by (auto simp: card_answered_def Let_def split: card_ask.split card_end.split)

lemma removing_back: "removing (call_back n p) \<subseteq> removing p"
proof (cases "n < length (cp_calls p) \<and> cc_end (cp_calls p ! n) \<noteq> OnItsWay")
  case True
  have "set (take n (cp_calls p) @ drop (Suc n) (cp_calls p)) \<subseteq> set (cp_calls p)"
    by (auto dest: in_set_takeD in_set_dropD)
  then have "removing (p\<lparr>cp_calls := take n (cp_calls p) @ drop (Suc n) (cp_calls p)\<rparr>) \<subseteq> removing p"
    unfolding removing_def by auto
  with True show ?thesis by (simp add: call_back_def Let_def)
next
  case False
  then show ?thesis by (auto simp: call_back_def)
qed

lemma map_ask_end: "map cc_ask (cs[n := (cs ! n)\<lparr>cc_end := e\<rparr>]) = map cc_ask cs"
  by (simp add: map_update) (metis list_update_id map_update)

lemma removing_served [simp]: "removing (call_served n refused p) = removing p"
  by (simp add: call_served_def removing_def Let_def map_ask_end del: set_map split: sum.split)

lemma store_back [simp]: "cp_store (call_back n p) = cp_store p"
  by (simp add: call_back_def Let_def)

text \<open>Both lists have the same sets in the same order, but for those in \<open>gone\<close>.\<close>

definition same_sets :: "string set \<Rightarrow> card list \<Rightarrow> card list \<Rightarrow> bool" where
  "same_sets gone s s' \<longleftrightarrow> filter (\<lambda>i. i \<notin> gone) (map card_id s) = filter (\<lambda>i. i \<notin> gone) (map card_id s')"

lemma same_sets_trans: "same_sets g s s' \<Longrightarrow> same_sets g s' s'' \<Longrightarrow> same_sets g s s''"
  by (simp add: same_sets_def)

lemma same_sets_mono:
  assumes "same_sets g s s'" "g \<subseteq> g'"
  shows "same_sets g' s s'"
proof -
  have "filter (\<lambda>i. i \<notin> g') xs = filter (\<lambda>i. i \<notin> g') (filter (\<lambda>i. i \<notin> g) xs)" for xs :: "string list"
    using assms(2) by (auto intro: filter_cong)
  with assms(1) show ?thesis unfolding same_sets_def by metis
qed

lemma store_step_sets:
  assumes "store_step a store = Inr store'"
  shows "same_sets {i. \<exists>shown. a = Remove i shown} store store'"
  using assms
  by (cases a) (auto simp: store_step_def same_sets_def card_id_def filter_map comp_def if_distrib split: if_splits intro: filter_cong)

lemma store_served: "same_sets (removing p) (cp_store p) (cp_store (call_served n refused p))"
proof (cases "n < length (cp_calls p) \<and> cc_end (cp_calls p ! n) = OnItsWay")
  case True
  let ?c = "cp_calls p ! n"
  have "cc_ask ?c \<in> set (map cc_ask (cp_calls p))" using True by simp
  then have "Remove i shown \<in> set (map cc_ask (cp_calls p))" if "cc_ask ?c = Remove i shown" for i shown
    unfolding that by blast
  then have sub: "{i. \<exists>shown. cc_ask ?c = Remove i shown} \<subseteq> removing p" unfolding removing_def by blast
  have "same_sets (removing p) (cp_store p) store" if "store_step (cc_ask ?c) (cp_store p) = Inr store" for store
    using store_step_sets [OF that] sub by (rule same_sets_mono)
  with True show ?thesis
    by (auto simp: call_served_def Let_def same_sets_def split: sum.split option.split)
next
  case False
  then show ?thesis by (auto simp: call_served_def same_sets_def)
qed

lemma card_step_sets:
  "same_sets (removing p) (cp_store p) (cp_store (card_step blocked e p)) \<and> removing (card_step blocked e p) \<subseteq> removing p \<union> agreed_now e p"
proof (cases e)
  case (CallServed n refused)
  then show ?thesis by (simp add: store_served)
next
  case (CallBack n)
  then show ?thesis using removing_back [of n p] by (auto simp: same_sets_def)
qed (auto simp: same_sets_def runSetNow_def toggle_menu_def toggle_enabled_def delete_clicked_def delete_answered_def agreed_now_def
    split: option.splits)

lemma card_play_Cons [simp]: "card_play ((blocked, e) # es) p = card_play es (card_step blocked e p)"
  by (simp add: card_play_def)

lemma card_play_Nil [simp]: "card_play [] p = p"
  by (simp add: card_play_def)

lemma card_play_sets:
  "same_sets (removing p \<union> agreed es p) (cp_store p) (cp_store (card_play es p))"
proof (induction es p rule: agreed.induct)
  case (2 blocked e es p)
  let ?q = "card_step blocked e p"
  have "same_sets (removing p \<union> agreed ((blocked, e) # es) p) (cp_store p) (cp_store ?q)"
    using card_step_sets [of p blocked e] by (auto intro: same_sets_mono)
  moreover have "same_sets (removing p \<union> agreed ((blocked, e) # es) p) (cp_store ?q) (cp_store (card_play es ?q))"
    using card_step_sets [of p blocked e] by (intro same_sets_mono [OF 2]) auto
  ultimately show ?case using same_sets_trans by simp
qed (simp add: same_sets_def)

text \<open>Nothing on its way would change a set, and no question is open. While the buttons are greyed out it stays so.\<close>

definition changes_set :: "card_ask \<Rightarrow> bool" where
  "changes_set a = (case a of Switch i b \<Rightarrow> True | Remove i shown \<Rightarrow> True | _ \<Rightarrow> False)"

definition settled :: "cards_page \<Rightarrow> bool" where
  "settled p \<longleftrightarrow> list_all (\<lambda>c. \<not> changes_set (cc_ask c)) (cp_calls p) \<and> cp_asking p = None"

lemma settled_answered: "settled p \<Longrightarrow> \<not> changes_set a \<Longrightarrow> settled (card_answered a e p)"
  by (cases a; cases e) (simp_all add: settled_def card_answered_def changes_set_def change_failed_def Let_def split: option.split)

lemma settled_step:
  assumes "settled p"
  shows "settled (card_step True e p) \<and> cp_store (card_step True e p) = cp_store p"
proof (cases e)
  case (CallServed n refused)
  show ?thesis
  proof (cases "n < length (cp_calls p) \<and> cc_end (cp_calls p ! n) = OnItsWay")
    case True
    then have c: "\<not> changes_set (cc_ask (cp_calls p ! n))" using assms by (simp add: settled_def list_all_length)
    then have "store_step (cc_ask (cp_calls p ! n)) (cp_store p) = Inr (cp_store p)"
      by (simp add: store_step_def changes_set_def split: card_ask.splits)
    with assms True c show ?thesis unfolding CallServed
      by (cases refused) (auto simp: call_served_def Let_def settled_def list_all_length nth_list_update)
  next
    case False
    then show ?thesis using assms by (auto simp: CallServed call_served_def)
  qed
next
  case (CallBack n)
  show ?thesis
  proof (cases "n < length (cp_calls p) \<and> cc_end (cp_calls p ! n) \<noteq> OnItsWay")
    case True
    then have "\<not> changes_set (cc_ask (cp_calls p ! n))" using assms by (simp add: settled_def list_all_length)
    moreover have "settled (p\<lparr>cp_calls := take n (cp_calls p) @ drop (Suc n) (cp_calls p)\<rparr>)"
      using assms by (auto simp: settled_def list_all_iff dest: in_set_takeD in_set_dropD)
    ultimately show ?thesis using True unfolding CallBack
      by (simp add: call_back_def Let_def settled_answered)
  next
    case False
    then show ?thesis using assms by (auto simp: CallBack call_back_def)
  qed
qed (use assms in \<open>auto simp: settled_def call_out_def delete_answered_def changes_set_def\<close>)

lemma settled_play: "settled p \<Longrightarrow> cp_store (card_play (map (Pair True) es) p) = cp_store p"
  by (induction es arbitrary: p) (simp_all add: settled_step)

definition pc_card :: "string \<Rightarrow> card" where
  "pc_card i = \<lparr>ca_job = empty_job\<lparr>j_id := i, j_name := i\<rparr>, ca_legacy = no_legacy, ca_since = 0, ca_nextRun = None\<rparr>"

text \<open>C36: no set is deleted but one the user agreed to delete. After any clicks, reloads, answers and losses of the
  service in any order, the backend keeps every other set, in their order; and while the service is stopped or
  not connected, with no question open and no change on its way when it was lost, whatever is clicked changes
  nothing that is kept. (The list on the page can for a while show less: \<open>deletion_drops_new_set\<close>.)\<close>
theorem only_agreed_deleted:
  assumes "p = card_play es (shown_cards store)"
  shows "filter (\<lambda>i. i \<notin> agreed es (shown_cards store)) (map card_id (cp_store p)) =
      filter (\<lambda>i. i \<notin> agreed es (shown_cards store)) (map card_id store) \<and>
    (settled p \<longrightarrow> cp_store (card_play (map (Pair True) es') p) = cp_store p)"
proof -
  have "removing (shown_cards store) = {}" "cp_store (shown_cards store) = store"
    by (simp_all add: removing_def shown_cards_def)
  with card_play_sets [of "shown_cards store" es] settled_play [of p es'] assms
  show ?thesis by (auto simp: same_sets_def)
qed

theorem only_agreed_deleted_witness:
  "map card_id (cp_store (card_play [(False, MenuClicked ''a''), (False, DeleteClicked (pc_card ''a'')), (True, DeleteAnswered True), (True, CallServed 0 None)]
     (shown_cards [pc_card ''a'', pc_card ''b'']))) = [''b'']"
proof -
  let ?es = "[(False, MenuClicked ''a''), (False, DeleteClicked (pc_card ''a'')), (True, DeleteAnswered True), (True, CallServed 0 None)]"
  let ?s = "[pc_card ''a'', pc_card ''b'']"
  let ?ids = "map card_id (cp_store (card_play ?es (shown_cards ?s)))"
  have ids: "''a'' \<notin> set ?ids \<and> map card_id ?s = [''a'', ''b'']" by code_simp
  have agr: "agreed ?es (shown_cards ?s) = {''a''}" by code_simp
  have "filter (\<lambda>i. i \<notin> {''a''}) ?ids = filter (\<lambda>i. i \<notin> {''a''}) [''a'', ''b'']"
    using only_agreed_deleted [OF refl, of ?es ?s] ids unfolding agr by (simp only: simp_thms)
  then have "filter (\<lambda>i. i \<noteq> ''a'') ?ids = [''b'']" by (simp del: list.map)
  moreover have "filter (\<lambda>i. i \<noteq> ''a'') ?ids = ?ids"
    using ids by (intro filter_True) blast
  ultimately show ?thesis by simp
qed

section \<open>Reloads\<close>

text \<open>With nothing else on its way, a reload shows what the backend keeps.\<close>

lemma reload_shows_store:
  assumes "cp_calls p = []"
  shows "cp_jobs (card_play (map (Pair b) [ReloadDue, CallServed 0 None, CallBack 0]) p) = cp_store p"
  using assms by (simp add: call_out_def call_served_def store_step_def call_back_def card_answered_def)

text \<open>A reload that was served before a deletion and comes back after it shows the deleted set again, and a deletion
  drops from the list what a reload brought while the question was open.\<close>

lemma late_reload_resurrects:
  "let p = card_play (map (Pair False) [MenuClicked ''a'', DeleteClicked (pc_card ''a''), ReloadDue, CallServed 0 None, DeleteAnswered True,
       CallServed 1 None, CallBack 1, CallBack 0]) (shown_cards [pc_card ''a''])
   in map card_id (cp_jobs p) = [''a''] \<and> cp_store p = []"
  by code_simp

lemma deletion_drops_new_set:
  "let p = card_play (map (Pair False) [MenuClicked ''a'', DeleteClicked (pc_card ''a''), ReloadDue, CallServed 0 None, CallBack 0,
       DeleteAnswered True, CallServed 0 None, CallBack 0])
       ((shown_cards [pc_card ''a''])\<lparr>cp_store := [pc_card ''a'', pc_card ''b'']\<rparr>)
   in cp_jobs p = [] \<and> map card_id (cp_store p) = [''b'']"
  by code_simp

text \<open>The mark of the set that is being started is one for all: the answer to the first start clears the second's.\<close>

lemma first_start_clears_second:
  "let p = card_play (map (Pair False) [RunClicked (pc_card ''a'') AsScheduled, RunClicked (pc_card ''b'') AsScheduled, CallServed 0 None, CallBack 0])
       (shown_cards [pc_card ''a'', pc_card ''b''])
   in cp_running p = None \<and> map cc_ask (cp_calls p) = [RunNow ''b'' ''b'' AsScheduled]"
  by code_simp

end
