(* ===== verification/StatusLine.thy ===== *)
theory StatusLine
  imports JsPrelude
begin

text \<open>
  The status line (\<open>showStatus\<close> of \<open>App.jsx\<close>): a message that goes after five seconds unless it is to stay, with one
  timer for the whole line. And the waits that are shown for as long as a call takes (\<open>WaitBar\<close>).
  Times are milliseconds.
\<close>

section \<open>The line and its timer\<close>

record status_box =
  st_message :: string
  st_type :: string
  st_visible :: bool

text \<open>\<open>sw_timer\<close> is \<open>statusTimeoutRef\<close>: when its timer fires. \<open>sw_timers\<close> are the timers the browser holds.\<close>

record status_world =
  sw_now :: int
  sw_box :: status_box
  sw_timer :: "int option"
  sw_timers :: "int list"

definition STATUS_MS :: int where "STATUS_MS = 5000"

definition clear_timer :: "status_world \<Rightarrow> status_world" where
  "clear_timer s =
     (case sw_timer s of
        None \<Rightarrow> s
      | Some t \<Rightarrow> s\<lparr>sw_timer := None, sw_timers := remove1 t (sw_timers s)\<rparr>)"

definition showStatus :: "string \<Rightarrow> string \<Rightarrow> bool \<Rightarrow> status_world \<Rightarrow> status_world" where
  "showStatus message type persist s =
     (let s = (clear_timer s)\<lparr>sw_box := \<lparr>st_message = message, st_type = type, st_visible = True\<rparr>\<rparr>
      in if persist then s
         else s\<lparr>sw_timer := Some (sw_now s + STATUS_MS), sw_timers := sw_timers s @ [sw_now s + STATUS_MS]\<rparr>)"

text \<open>A timer fires: the line is hidden, whatever it shows.\<close>

definition fire :: "int \<Rightarrow> status_world \<Rightarrow> status_world" where
  "fire t s = s\<lparr>sw_box := (sw_box s)\<lparr>st_visible := False\<rparr>, sw_timer := None, sw_timers := remove1 t (sw_timers s)\<rparr>"

fun fire_due :: "int list \<Rightarrow> status_world \<Rightarrow> status_world" where
  "fire_due [] s = s"
| "fire_due (t # ts) s = fire_due ts (if t \<le> sw_now s then fire t s else s)"

definition time_passes :: "int \<Rightarrow> status_world \<Rightarrow> status_world" where
  "time_passes d s = (let s = s\<lparr>sw_now := sw_now s + max 0 d\<rparr> in fire_due (sw_timers s) s)"

datatype status_event = Show string string bool | Passes int

fun status_step :: "status_event \<Rightarrow> status_world \<Rightarrow> status_world" where
  "status_step (Show m ty keep) s = showStatus m ty keep s"
| "status_step (Passes d) s = time_passes d s"

definition status_play :: "status_event list \<Rightarrow> status_world \<Rightarrow> status_world" where
  "status_play es s = fold status_step es s"

definition no_status :: status_world where
  "no_status = \<lparr>sw_now = 0, sw_box = \<lparr>st_message = [], st_type = [], st_visible = False\<rparr>, sw_timer = None, sw_timers = []\<rparr>"

section \<open>What is to be seen\<close>

text \<open>The specification: the last message, when it was shown and whether it stays.\<close>

fun last_shown :: "status_event list \<Rightarrow> int \<Rightarrow> (string \<times> string \<times> bool \<times> int) option \<Rightarrow> int \<times> (string \<times> string \<times> bool \<times> int) option" where
  "last_shown [] now l = (now, l)"
| "last_shown (Show m ty keep # es) now l = last_shown es now (Some (m, ty, keep, now))"
| "last_shown (Passes d # es) now l = last_shown es (now + max 0 d) l"

definition seen :: "int \<times> (string \<times> string \<times> bool \<times> int) option \<Rightarrow> (string \<times> string) option" where
  "seen r = (case r of (now, l) \<Rightarrow>
     (case l of None \<Rightarrow> None | Some (m, ty, keep, t) \<Rightarrow> if keep \<or> now < t + STATUS_MS then Some (m, ty) else None))"

definition shown :: "status_world \<Rightarrow> (string \<times> string) option" where
  "shown s = (if st_visible (sw_box s) then Some (st_message (sw_box s), st_type (sw_box s)) else None)"

definition status_ok :: "int \<times> (string \<times> string \<times> bool \<times> int) option \<Rightarrow> status_world \<Rightarrow> bool" where
  "status_ok r s \<longleftrightarrow> sw_now s = fst r \<and> shown s = seen r \<and>
     (case snd r of
        None \<Rightarrow> sw_timer s = None \<and> sw_timers s = []
      | Some (m, ty, keep, t) \<Rightarrow>
          if \<not> keep \<and> fst r < t + STATUS_MS then sw_timer s = Some (t + STATUS_MS) \<and> sw_timers s = [t + STATUS_MS]
          else sw_timer s = None \<and> sw_timers s = [])"

lemma one_timer: "status_ok r s \<Longrightarrow> sw_timers s = (case sw_timer s of None \<Rightarrow> [] | Some t \<Rightarrow> [t])"
  by (auto simp: status_ok_def split: option.splits if_splits)

lemma status_ok_show:
  assumes "status_ok r s"
  shows "status_ok (fst r, Some (m, ty, keep, fst r)) (showStatus m ty keep s)"
  using assms one_timer [OF assms]
  by (cases "sw_timer s") (auto simp: status_ok_def showStatus_def clear_timer_def shown_def seen_def STATUS_MS_def Let_def)

lemma status_ok_passes:
  assumes "status_ok r s"
  shows "status_ok (fst r + max 0 d, snd r) (time_passes d s)"
  using assms
  by (cases r; cases "snd r")
    (auto simp: status_ok_def time_passes_def fire_def shown_def seen_def Let_def split: if_splits)

lemma status_ok_play: "status_ok (now, l) s \<Longrightarrow> status_ok (last_shown es now l) (status_play es s)"
proof (induction es arbitrary: now l s)
  case (Cons e es)
  show ?case
  proof (cases e)
    case (Show m ty keep)
    from Cons.IH [OF status_ok_show [OF Cons.prems, of m ty keep, simplified]] show ?thesis by (simp add: Show status_play_def)
  next
    case (Passes d)
    from Cons.IH [OF status_ok_passes [OF Cons.prems, of d, simplified]] show ?thesis by (simp add: Passes status_play_def)
  qed
qed (simp add: status_play_def)

text \<open>C39: the status line always shows the message given last, if it is one that stays or is less than five seconds
  old, and else nothing: no timer of an earlier message hides it before its time, and never more than one timer is
  under way.\<close>
theorem status_line_exact:
  "shown (status_play es no_status) = seen (last_shown es 0 None) \<and> length (sw_timers (status_play es no_status)) \<le> 1"
proof -
  have "status_ok (0, None) no_status"
    by (simp add: status_ok_def no_status_def shown_def seen_def)
  from status_ok_play [OF this] have ok: "status_ok (last_shown es 0 None) (status_play es no_status)" .
  then show ?thesis using one_timer [OF ok] by (auto simp: status_ok_def split: option.split)
qed

section \<open>The wait bar\<close>

text \<open>The seconds shown, whether the hint about a slow server is, and the width of a bar that knows its fraction,
  in percent.\<close>

definition wait_seconds :: "int \<Rightarrow> int option \<Rightarrow> int" where
  "wait_seconds now startedAt = max 0 ((now - (case startedAt of None \<Rightarrow> now | Some t \<Rightarrow> t)) div 1000)"

definition slow_hint :: "int \<Rightarrow> int option \<Rightarrow> bool \<Rightarrow> bool" where
  "slow_hint now startedAt has_hint \<longleftrightarrow> has_hint \<and> wait_seconds now startedAt \<ge> 15"

definition bar_percent :: "rat option \<Rightarrow> int option" where
  "bar_percent fraction =
     (case fraction of
        None \<Rightarrow> None
      | Some f \<Rightarrow> if f \<ge> 0 then Some (math_round (min 1 f * 100)) else None)"

lemma bar_percent_range: "bar_percent fraction = Some p \<Longrightarrow> 0 \<le> p \<and> p \<le> 100"
  by (auto simp: bar_percent_def math_round_def min_def floor_le_iff split: option.splits if_splits)

end
