(* ===== verification/ServicePanel.thy ===== *)
theory ServicePanel
  imports JsPrelude
begin

text \<open>
  Run as Service (\<open>ServiceControl\<close> of \<open>components/SetTools.jsx\<close>): the panel of the Preferences that installs, starts,
  stops and removes the background service. It reads the status every five seconds and after each action. What the
  backend answers, and when, is left open: reloads and the action under way come back in any order.
\<close>

section \<open>The panel\<close>

record service_status =
  ss_supported :: bool
  ss_linux :: bool
  ss_installed :: bool
  ss_state :: string
  ss_exeAvailable :: bool
  ss_isAdmin :: bool
  ss_message :: string

datatype service_action = InstallIt | StartIt | StopIt | RemoveIt

text \<open>The buttons that are shown, and when one can be clicked.\<close>

definition buttons :: "service_status \<Rightarrow> service_action list" where
  "buttons s =
     (if \<not> ss_supported s then []
      else (if \<not> ss_installed s then [InstallIt] else [])
        @ (if ss_installed s \<and> ss_state s \<noteq> ''running'' then [StartIt] else [])
        @ (if ss_installed s \<and> ss_state s = ''running'' then [StopIt] else [])
        @ (if ss_installed s then [RemoveIt] else []))"

record service_panel =
  sv_st :: "service_status option"
  sv_busy :: "service_action option"
  sv_error :: string
  sv_asking :: bool
  sv_reads :: nat
  sv_actions :: "service_action list"

definition panel_enabled :: "service_action \<Rightarrow> service_panel \<Rightarrow> bool" where
  "panel_enabled a p \<longleftrightarrow>
     (case sv_st p of
        None \<Rightarrow> False
      | Some s \<Rightarrow> a \<in> set (buttons s) \<and> ss_isAdmin s \<and> (a = InstallIt \<longrightarrow> ss_exeAvailable s) \<and> sv_busy p = None)"

text \<open>\<open>sv_reads\<close> counts the reloads on their way, \<open>sv_actions\<close> the actions.\<close>

definition refresh :: "service_panel \<Rightarrow> service_panel" where
  "refresh p = p\<lparr>sv_reads := sv_reads p + 1\<rparr>"

definition panel_act :: "service_action \<Rightarrow> service_panel \<Rightarrow> service_panel" where
  "panel_act a p = p\<lparr>sv_busy := Some a, sv_error := [], sv_actions := sv_actions p @ [a]\<rparr>"

text \<open>Remove asks first; the question covers the window until it is answered.\<close>

definition panel_click :: "service_action \<Rightarrow> service_panel \<Rightarrow> service_panel" where
  "panel_click a p =
     (if \<not> panel_enabled a p \<or> sv_asking p then p
      else if a = RemoveIt then p\<lparr>sv_asking := True\<rparr> else panel_act a p)"

definition remove_answered :: "bool \<Rightarrow> service_panel \<Rightarrow> service_panel" where
  "remove_answered yes p =
     (if \<not> sv_asking p then p
      else let p = p\<lparr>sv_asking := False\<rparr> in if yes then panel_act RemoveIt p else p)"

definition read_back :: "string + service_status \<Rightarrow> service_panel \<Rightarrow> service_panel" where
  "read_back r p =
     (if sv_reads p = 0 then p
      else let p = p\<lparr>sv_reads := sv_reads p - 1\<rparr>
           in case r of Inl err \<Rightarrow> p\<lparr>sv_error := err\<rparr> | Inr s \<Rightarrow> p\<lparr>sv_st := Some s\<rparr>)"

definition action_back :: "service_action \<Rightarrow> string + service_status \<Rightarrow> service_panel \<Rightarrow> service_panel" where
  "action_back a r p =
     (if a \<notin> set (sv_actions p) then p
      else let p = p\<lparr>sv_actions := remove1 a (sv_actions p), sv_busy := None\<rparr>
           in case r of Inl err \<Rightarrow> refresh (p\<lparr>sv_error := err\<rparr>) | Inr s \<Rightarrow> p\<lparr>sv_st := Some s\<rparr>)"

datatype panel_event =
    TimerTick
  | ReadBack "string + service_status"
  | Clicked service_action
  | RemoveAnswered bool
  | ActionBack service_action "string + service_status"

fun panel_step :: "panel_event \<Rightarrow> service_panel \<Rightarrow> service_panel" where
  "panel_step TimerTick p = refresh p"
| "panel_step (ReadBack r) p = read_back r p"
| "panel_step (Clicked a) p = panel_click a p"
| "panel_step (RemoveAnswered yes) p = remove_answered yes p"
| "panel_step (ActionBack a r) p = action_back a r p"

text \<open>Opening the panel reads the status.\<close>

definition opened_panel :: service_panel where
  "opened_panel = refresh \<lparr>sv_st = None, sv_busy = None, sv_error = [], sv_asking = False, sv_reads = 0, sv_actions = []\<rparr>"

definition panel_play :: "panel_event list \<Rightarrow> service_panel \<Rightarrow> service_panel" where
  "panel_play es p = fold panel_step es p"

section \<open>One action at a time\<close>

definition panel_ok :: "service_panel \<Rightarrow> bool" where
  "panel_ok p \<longleftrightarrow> sv_actions p = (case sv_busy p of None \<Rightarrow> [] | Some a \<Rightarrow> [a]) \<and> (sv_asking p \<longrightarrow> sv_busy p = None)"

lemma panel_ok_step: "panel_ok p \<Longrightarrow> panel_ok (panel_step e p)"
  by (cases e)
    (auto simp: panel_ok_def refresh_def read_back_def panel_click_def panel_act_def remove_answered_def action_back_def panel_enabled_def
      Let_def split: option.splits sum.splits)

lemma panel_ok_play: "panel_ok p \<Longrightarrow> panel_ok (panel_play es p)"
  by (induction es arbitrary: p) (simp_all add: panel_play_def panel_ok_step)

text \<open>What the clicks of a list of events have started, each with the status it was started from.\<close>

fun started :: "panel_event list \<Rightarrow> service_panel \<Rightarrow> (service_action \<times> service_status option) list" where
  "started [] p = []"
| "started (e # es) p =
     (let q = panel_step e p
      in (if length (sv_actions q) > length (sv_actions p) then [(the (sv_busy q), sv_st p)] else []) @ started es q)"

definition may_start :: "service_action \<times> service_status option \<Rightarrow> bool" where
  "may_start x \<longleftrightarrow>
     (case x of (a, st) \<Rightarrow>
        case st of None \<Rightarrow> False
        | Some s \<Rightarrow> a = RemoveIt \<or> ss_supported s \<and> ss_isAdmin s \<and>
            (case a of InstallIt \<Rightarrow> \<not> ss_installed s \<and> ss_exeAvailable s
             | StartIt \<Rightarrow> ss_installed s \<and> ss_state s \<noteq> ''running''
             | StopIt \<Rightarrow> ss_installed s \<and> ss_state s = ''running''
             | RemoveIt \<Rightarrow> True))"

lemma asking_has_status: 
  assumes "sv_asking p \<longrightarrow> sv_st p \<noteq> None"
  shows "sv_asking (panel_step e p) \<longrightarrow> sv_st (panel_step e p) \<noteq> None"
  using assms
  by (cases e) (auto simp: refresh_def read_back_def panel_click_def panel_act_def remove_answered_def action_back_def panel_enabled_def Let_def
      split: option.splits sum.splits)

lemma started_ok:
  assumes "panel_ok p" "sv_asking p \<longrightarrow> sv_st p \<noteq> None"
  shows "list_all may_start (started es p)"
  using assms
proof (induction es arbitrary: p)
  case (Cons e es)
  let ?q = "panel_step e p"
  have "may_start (the (sv_busy ?q), sv_st p)" if more: "length (sv_actions ?q) > length (sv_actions p)"
  proof (cases e)
    case (Clicked a)
    with more show ?thesis
      by (cases a) (auto simp: panel_click_def panel_act_def panel_enabled_def buttons_def may_start_def split: if_splits option.splits)
  next
    case (RemoveAnswered yes)
    with more Cons.prems(2) show ?thesis
      by (auto simp: remove_answered_def panel_act_def may_start_def Let_def split: if_splits option.splits)
  next
    case (ActionBack a r)
    with more show ?thesis
      by (auto simp: action_back_def refresh_def Let_def length_remove1 split: if_splits sum.splits)
  qed (use more in \<open>auto simp: refresh_def read_back_def Let_def split: if_splits sum.splits\<close>)
  then show ?case
    using Cons.IH [OF panel_ok_step [OF Cons.prems(1)] asking_has_status [OF Cons.prems(2)]] by (simp add: Let_def)
qed simp

text \<open>The panel never has two actions on the service under way, however fast its buttons are clicked and in whatever
  order reloads and actions come back; and it only starts one that the status shown then allows: installing what is not
  installed and has its program, starting what does not run, stopping what runs, each by an administrator (and
  removing after its question).\<close>
theorem one_service_action:
  "length (sv_actions (panel_play es opened_panel)) \<le> 1 \<and> list_all may_start (started es opened_panel)"
proof -
  have ok: "panel_ok opened_panel" "sv_asking opened_panel \<longrightarrow> sv_st opened_panel \<noteq> None"
    by (simp_all add: panel_ok_def opened_panel_def refresh_def)
  from panel_ok_play [OF ok(1), of es] started_ok [OF ok] show ?thesis
    by (auto simp: panel_ok_def split: option.splits)
qed

text \<open>The error of a reload stays although the next reload shows the status.\<close>

lemma reload_error_stays:
  "sv_error (panel_play [ReadBack (Inl ''timeout''), TimerTick, ReadBack (Inr s)] opened_panel) = ''timeout'' \<and>
   sv_st (panel_play [ReadBack (Inl ''timeout''), TimerTick, ReadBack (Inr s)] opened_panel) = Some s"
  by (simp add: panel_play_def read_back_def refresh_def opened_panel_def)

end
