(* ===== verification/KeyTools.thy ===== *)
theory KeyTools
  imports Keys PaperKey
begin

text \<open>
  The buttons of the field of a server's key (\<open>components/EncryptionKeyField.jsx\<close>): a new key, the access to its file,
  a copy of it and the paper key. Each is a row of questions, calls and notices, during which the field's
  buttons are greyed out, but its path can be edited. The field is that of \<open>Keys\<close>, the paper key's dialog that
  of \<open>PaperKey\<close>; what the backend and the user answer are the events.
\<close>

section \<open>The buttons\<close>

text \<open>What is under way: the question where the new key goes, whether to make it, the calls, and a notice that is
  shown until it is closed.\<close>

datatype tool_stage =
    ChooseFile
  | ConfirmFile string
  | Generating string
  | Restricting string
  | Copying string
  | MakingPaper string
  | Noticing string string

record key_tools =
  kt_field :: key_field
  kt_stage :: "tool_stage option"
  kt_paper :: "paper_key option"
  kt_importing :: bool
  kt_imported :: "(bool \<times> key_info) option"
  kt_made :: "string list"

text \<open>\<open>kt_imported\<close> is the notice after an import, with whether the key was there already; \<open>kt_made\<close> are the
  files a new key was written to.\<close>

definition begin_tool :: "tool_stage \<Rightarrow> key_tools \<Rightarrow> key_tools" where
  "begin_tool st k = k\<lparr>kt_stage := Some st, kt_field := (kt_field k)\<lparr>ef_busy := True\<rparr>\<rparr>"

definition end_tool :: "key_tools \<Rightarrow> key_tools" where
  "end_tool k = k\<lparr>kt_stage := None, kt_field := (kt_field k)\<lparr>ef_busy := False\<rparr>\<rparr>"

definition tool_notice :: "string \<Rightarrow> string \<Rightarrow> key_tools \<Rightarrow> key_tools" where
  "tool_notice key what k = k\<lparr>kt_stage := Some (Noticing key what)\<rparr>"

definition haveKey :: "key_tools \<Rightarrow> bool" where
  "haveKey k \<longleftrightarrow> (case ef_info (kt_field k) of None \<Rightarrow> False | Some i \<Rightarrow> fi_usable i \<and> fi_exists i \<and> fi_fingerprint i \<noteq> [])"

definition open_to_others :: "key_tools \<Rightarrow> bool" where
  "open_to_others k \<longleftrightarrow> (case ef_info (kt_field k) of None \<Rightarrow> False | Some i \<Rightarrow> fi_open i)"

text \<open>The fingerprint a message names.\<close>

definition fingerprint_of :: "key_info option \<Rightarrow> string" where
  "fingerprint_of r = (case r of None \<Rightarrow> ''?'' | Some i \<Rightarrow> if fi_fingerprint i = [] then ''?'' else fi_fingerprint i)"

text \<open>A new key: where it goes, whether to make it there, and the answer of the backend. A failure at any of the
  calls ends with its notice.\<close>

definition file_chosen :: "string + string \<Rightarrow> key_tools \<Rightarrow> key_tools" where
  "file_chosen r k =
     (if kt_stage k \<noteq> Some ChooseFile then k
      else case r of
        Inl err \<Rightarrow> tool_notice ''encryptionKeyGenerateFailed'' err k
      | Inr path \<Rightarrow> if path = [] then end_tool k else k\<lparr>kt_stage := Some (ConfirmFile path)\<rparr>)"

definition file_confirmed :: "bool \<Rightarrow> key_tools \<Rightarrow> key_tools" where
  "file_confirmed yes k =
     (case kt_stage k of
        Some (ConfirmFile path) \<Rightarrow> if yes then k\<lparr>kt_stage := Some (Generating path)\<rparr> else end_tool k
      | _ \<Rightarrow> k)"

definition key_generated :: "string + key_info option \<Rightarrow> key_tools \<Rightarrow> key_tools" where
  "key_generated r k =
     (case kt_stage k of
        Some (Generating path) \<Rightarrow>
          (case r of
             Inl err \<Rightarrow> tool_notice ''encryptionKeyGenerateFailed'' err k
           | Inr info \<Rightarrow> tool_notice ''encryptionKeyCreated'' (fingerprint_of info)
               (k\<lparr>kt_field := key_made path info (kt_field k), kt_made := kt_made k @ [path]\<rparr>))
      | _ \<Rightarrow> k)"

definition handleRestrict :: "key_tools \<Rightarrow> key_tools" where
  "handleRestrict k =
     (if ef_busy (kt_field k) \<or> \<not> open_to_others k then k else begin_tool (Restricting (ef_value (kt_field k))) k)"

definition restrict_answered :: "string + key_info option \<Rightarrow> key_tools \<Rightarrow> key_tools" where
  "restrict_answered r k =
     (case kt_stage k of
        Some (Restricting path) \<Rightarrow>
          (case r of
             Inl err \<Rightarrow> tool_notice ''encryptionKeyRestrictFailed'' err k
           | Inr None \<Rightarrow> tool_notice ''encryptionKeyRestricted'' [] k
           | Inr (Some info) \<Rightarrow>
               tool_notice (if fi_open info then ''encryptionKeyOpenToOthers'' else ''encryptionKeyRestricted'') []
                 (k\<lparr>kt_field := inspected (Some info) (kt_field k)\<rparr>))
      | _ \<Rightarrow> k)"

definition handleSaveCopy :: "key_tools \<Rightarrow> key_tools" where
  "handleSaveCopy k =
     (if ef_busy (kt_field k) \<or> \<not> haveKey k then k else begin_tool (Copying (ef_value (kt_field k))) k)"

definition copy_answered :: "string + string \<Rightarrow> key_tools \<Rightarrow> key_tools" where
  "copy_answered r k =
     (case kt_stage k of
        Some (Copying path) \<Rightarrow>
          (case r of
             Inl err \<Rightarrow> tool_notice ''encryptionKeyCopyFailed'' err k
           | Inr dest \<Rightarrow> if dest = [] then end_tool k else tool_notice ''encryptionKeyCopySaved'' dest k)
      | _ \<Rightarrow> k)"

definition handlePaper :: "key_tools \<Rightarrow> key_tools" where
  "handlePaper k =
     (if ef_busy (kt_field k) \<or> \<not> haveKey k then k else begin_tool (MakingPaper (ef_value (kt_field k))) k)"

definition paper_answered :: "string + paper_key \<Rightarrow> key_tools \<Rightarrow> key_tools" where
  "paper_answered r k =
     (case kt_stage k of
        Some (MakingPaper path) \<Rightarrow>
          (case r of Inl err \<Rightarrow> tool_notice ''paperKeyTitle'' err k | Inr pk \<Rightarrow> end_tool (k\<lparr>kt_paper := Some pk\<rparr>))
      | _ \<Rightarrow> k)"

text \<open>A key brought back by the import dialog, which closes with it: the field points at the saved file.\<close>

definition handleImported :: "(bool \<times> key_info) option \<Rightarrow> key_tools \<Rightarrow> key_tools" where
  "handleImported r k =
     (let k = k\<lparr>kt_importing := False\<rparr> in
      case r of
        None \<Rightarrow> k
      | Some (already, saved) \<Rightarrow>
          if fi_path saved = [] then k
          else k\<lparr>kt_field := key_made (fi_path saved) (Some saved) (kt_field k), kt_imported := Some (already, saved)\<rparr>)"

datatype tool_event =
    FieldEvent field_event
  | GeneratePressed
  | FileChosen "string + string"
  | FileConfirmed bool
  | KeyGenerated "string + key_info option"
  | RestrictPressed
  | Restricted "string + key_info option"
  | CopyPressed
  | Copied "string + string"
  | PaperPressed
  | PaperMade "string + paper_key"
  | PaperClosed
  | NoticeClosed
  | ImportPressed
  | ImportClosed
  | Imported "(bool \<times> key_info) option"
  | ImportNoticeClosed

text \<open>The field's own event of a key made stands for the answers below, so it does nothing here.\<close>

definition tool_step :: "(string \<Rightarrow> key_info option) \<Rightarrow> tool_event \<Rightarrow> key_tools \<Rightarrow> key_tools" where
  "tool_step inspect e k =
     (case e of
        FieldEvent (KeyMade p) \<Rightarrow> k
      | FieldEvent ev \<Rightarrow> k\<lparr>kt_field := field_step inspect ev (kt_field k)\<rparr>
      | GeneratePressed \<Rightarrow> if ef_busy (kt_field k) then k else begin_tool ChooseFile k
      | FileChosen r \<Rightarrow> file_chosen r k
      | FileConfirmed yes \<Rightarrow> file_confirmed yes k
      | KeyGenerated r \<Rightarrow> key_generated r k
      | RestrictPressed \<Rightarrow> handleRestrict k
      | Restricted r \<Rightarrow> restrict_answered r k
      | CopyPressed \<Rightarrow> handleSaveCopy k
      | Copied r \<Rightarrow> copy_answered r k
      | PaperPressed \<Rightarrow> handlePaper k
      | PaperMade r \<Rightarrow> paper_answered r k
      | PaperClosed \<Rightarrow> k\<lparr>kt_paper := None\<rparr>
      | NoticeClosed \<Rightarrow> (case kt_stage k of Some (Noticing key what) \<Rightarrow> end_tool k | _ \<Rightarrow> k)
      | ImportPressed \<Rightarrow> if ef_busy (kt_field k) then k else k\<lparr>kt_importing := True\<rparr>
      | ImportClosed \<Rightarrow> k\<lparr>kt_importing := False\<rparr>
      | Imported r \<Rightarrow> if kt_importing k then handleImported r k else k
      | ImportNoticeClosed \<Rightarrow> k\<lparr>kt_imported := None\<rparr>)"

lemmas tool_defs = tool_step_def file_chosen_def file_confirmed_def key_generated_def handleRestrict_def restrict_answered_def
  handleSaveCopy_def copy_answered_def handlePaper_def paper_answered_def handleImported_def Let_def

definition tool_play :: "(string \<Rightarrow> key_info option) \<Rightarrow> tool_event list \<Rightarrow> key_tools \<Rightarrow> key_tools" where
  "tool_play inspect es k = fold (tool_step inspect) es k"

section \<open>A key is made only when asked\<close>

text \<open>Where the user agreed to have a key made, in a list of events.\<close>

definition agreed_file :: "tool_event \<Rightarrow> key_tools \<Rightarrow> string list" where
  "agreed_file e k = (case (e, kt_stage k) of (FileConfirmed True, Some (ConfirmFile path)) \<Rightarrow> [path] | _ \<Rightarrow> [])"

fun agreed_files :: "(string \<Rightarrow> key_info option) \<Rightarrow> tool_event list \<Rightarrow> key_tools \<Rightarrow> string list" where
  "agreed_files inspect [] k = []"
| "agreed_files inspect (e # es) k = agreed_file e k @ agreed_files inspect es (tool_step inspect e k)"

text \<open>The files made are those agreed to, in order, but for one still being made and those that failed.\<close>

definition pending_file :: "key_tools \<Rightarrow> string list" where
  "pending_file k = (case kt_stage k of Some (Generating path) \<Rightarrow> [path] | _ \<Rightarrow> [])"

lemma tool_simps [simp]:
  "kt_made (begin_tool st k) = kt_made k" "kt_made (end_tool k) = kt_made k" "kt_made (tool_notice key what k) = kt_made k"
  "kt_stage (begin_tool st k) = Some st" "kt_stage (end_tool k) = None" "kt_stage (tool_notice key what k) = Some (Noticing key what)"
  by (simp_all add: begin_tool_def end_tool_def tool_notice_def)

lemma made_step:
  "\<exists>rest. subseq rest (pending_file k @ agreed_file e k) \<and> kt_made (tool_step inspect e k) @ pending_file (tool_step inspect e k) = kt_made k @ rest"
  by (cases e) (auto simp: tool_defs pending_file_def agreed_file_def split: option.splits tool_stage.splits sum.splits bool.splits field_event.splits)

lemma made_play: "subseq (kt_made (tool_play inspect es k)) (kt_made k @ pending_file k @ agreed_files inspect es k)"
proof (induction es arbitrary: k)
  case (Cons e es)
  let ?k = "tool_step inspect e k"
  obtain rest where rest: "subseq rest (pending_file k @ agreed_file e k)" "kt_made ?k @ pending_file ?k = kt_made k @ rest"
    using made_step by blast
  have "subseq (kt_made (tool_play inspect es ?k)) (kt_made k @ rest @ agreed_files inspect es ?k)"
    using Cons.IH [of ?k] rest(2) by (metis append.assoc)
  moreover have "subseq (kt_made k @ rest @ agreed_files inspect es ?k) (kt_made k @ (pending_file k @ agreed_file e k) @ agreed_files inspect es ?k)"
    using rest(1) by (intro list_emb_append_mono) simp_all
  ultimately show ?case by (simp add: tool_play_def)
qed (simp add: tool_play_def list_emb_prefix)

text \<open>One thing at a time: the buttons are greyed out while a stage or a check of the passphrase is under way, and
  never are both.\<close>

definition tools_ok :: "key_tools \<Rightarrow> bool" where
  "tools_ok k \<longleftrightarrow> (ef_busy (kt_field k) \<longleftrightarrow> kt_stage k \<noteq> None \<or> ef_verify (kt_field k) \<noteq> None) \<and>
     (kt_stage k = None \<or> ef_verify (kt_field k) = None)"

lemma field_busy_frame [simp]:
  "ef_busy (path_changed v f) = ef_busy f" "ef_verify (path_changed v f) = ef_verify f"
  "ef_busy (key_made v r f) = ef_busy f" "ef_verify (key_made v r f) = ef_verify f"
  "ef_busy (inspected r f) = ef_busy f" "ef_verify (inspected r f) = ef_verify f"
  "ef_busy (chooseMode m f) = ef_busy f" "ef_verify (chooseMode m f) = ef_verify f"
  "ef_busy (passphrase_typed p f) = ef_busy f" "ef_verify (passphrase_typed p f) = ef_verify f"
  by (simp_all add: path_changed_def Let_def reset_mode_effect_def inspect_effect_def key_made_def inspected_def chooseMode_def
      passphrase_typed_def split: option.split)

lemma tools_ok_field: "tools_ok k \<Longrightarrow> tools_ok (k\<lparr>kt_field := field_step inspect ev (kt_field k)\<rparr>)"
  by (cases ev) (auto simp: tools_ok_def field_step_def handleVerify_def verify_answered_def split: list.split)

lemma tools_ok_step: "tools_ok k \<Longrightarrow> tools_ok (tool_step inspect e k)"
proof (cases e)
  case (FieldEvent ev)
  then show "tools_ok k \<Longrightarrow> ?thesis" by (simp add: tool_step_def tools_ok_field split: field_event.split)
qed (auto simp: tool_defs tools_ok_def begin_tool_def end_tool_def tool_notice_def split: option.splits tool_stage.splits sum.splits)

lemma tools_ok_play: "tools_ok k \<Longrightarrow> tools_ok (tool_play inspect es k)"
  by (induction es arbitrary: k) (simp_all add: tool_play_def tools_ok_step)

definition empty_tools :: key_tools where
  "empty_tools = \<lparr>kt_field = \<lparr>ef_value = [], ef_info = None, ef_busy = False, ef_mode = Ask, ef_verifyMsg = None, ef_passphraseSet = False,
     ef_passphrase = [], ef_clearStored = False, ef_inspects = [[]], ef_verify = None\<rparr>, kt_stage = None, kt_paper = None, kt_importing = False, kt_imported = None, kt_made = []\<rparr>"

text \<open>No key is made but where the user agreed to have it made, once for each time they agreed and in that
  order, whatever else is pressed and answered; and the key's buttons never have two things under way.\<close>
theorem keys_made_as_agreed:
  assumes "k = tool_play inspect es empty_tools"
  shows "subseq (kt_made k) (agreed_files inspect es empty_tools) \<and>
    (ef_busy (kt_field k) = (kt_stage k \<noteq> None \<or> ef_verify (kt_field k) \<noteq> None)) \<and> (kt_stage k = None \<or> ef_verify (kt_field k) = None)"
proof -
  have "tools_ok empty_tools" by (simp add: tools_ok_def empty_tools_def)
  from tools_ok_play [OF this, of inspect es] made_play [of inspect es empty_tools] assms
  show ?thesis by (simp add: tools_ok_def pending_file_def empty_tools_def)
qed

theorem keys_made_as_agreed_witness:
  "let es = [GeneratePressed, FileChosen (Inr ''k''), FileConfirmed True, KeyGenerated (Inr None), NoticeClosed, GeneratePressed, FileConfirmed True];
       k = tool_play (\<lambda>p. None) es empty_tools
   in kt_made k = [''k''] \<and> kt_stage k = Some ChooseFile \<and> subseq (kt_made k) (agreed_files (\<lambda>p. None) es empty_tools) \<and> ef_busy (kt_field k)"
proof -
  let ?es = "[GeneratePressed, FileChosen (Inr ''k''), FileConfirmed True, KeyGenerated (Inr None), NoticeClosed, GeneratePressed, FileConfirmed True]"
  have "kt_made (tool_play (\<lambda>p. None) ?es empty_tools) = [''k''] \<and> kt_stage (tool_play (\<lambda>p. None) ?es empty_tools) = Some ChooseFile"
    by code_simp
  with keys_made_as_agreed [OF refl, of "\<lambda>p. None" ?es] show ?thesis by (simp add: Let_def)
qed

text \<open>The answer of Restrict is shown for the path in the field now: with another key's path typed and inspected
  meanwhile, the fingerprint of the first stands under the second.\<close>

lemma restricted_other_key:
  "let i = \<lambda>p. Some \<lparr>fi_path = p, fi_usable = True, fi_fingerprint = p, fi_protected = False, fi_open = True, fi_exists = True\<rparr>;
       k = tool_play i [FieldEvent (PathTyped ''a''), FieldEvent Inspected, RestrictPressed, FieldEvent (PathTyped ''b''), FieldEvent Inspected,
         Restricted (Inr (i ''a'')), NoticeClosed] empty_tools
   in ef_value (kt_field k) = ''b'' \<and> map_option fi_fingerprint (ef_info (kt_field k)) = Some ''a'' \<and> ef_inspects (kt_field k) = []"
  by (simp add: tool_play_def tool_defs begin_tool_def end_tool_def tool_notice_def field_step_def path_changed_def inspect_effect_def
      reset_mode_effect_def inspected_def empty_tools_def open_to_others_def)

end
