(* ===== verification/DisksView.thy ===== *)
theory DisksView
  imports Disks
begin

text \<open>
  The disk picker of a machine set as it is shown and clicked (\<open>components/MachineBackupConfig.jsx\<close>): what is
  written of a disk and of a partition, the ticks and warnings of the partitions, the box of the snapshot
  module, and the clicks. The rules of disks and left-out partitions are those of \<open>Disks\<close>.
\<close>

section \<open>What is written\<close>

text \<open>\<open>fmt least most v\<close> writes a number in the window's language with that many decimals; \<open>tl_of key params\<close> is the
  text of a key. A middle dot is two bytes of UTF-8.\<close>

definition disk_size_text :: "(nat \<Rightarrow> nat \<Rightarrow> rat \<Rightarrow> string) \<Rightarrow> int \<Rightarrow> string" where
  "disk_size_text fmt bytes =
     fmt 1 1 (of_int bytes / 10 ^ 9) @ '' GB ('' @ fmt 1 1 (of_int bytes / 2 ^ 30) @ '' GiB)''"

definition shortSize :: "(nat \<Rightarrow> nat \<Rightarrow> rat \<Rightarrow> string) \<Rightarrow> int \<Rightarrow> string" where
  "shortSize fmt bytes =
     (if 10 ^ 9 \<le> bytes then fmt 0 1 (of_int bytes / 10 ^ 9) @ '' GB'' else fmt 0 0 (of_int bytes / 10 ^ 6) @ '' MB'')"

definition partLabel ::
  "(string \<Rightarrow> (string \<times> string) list \<Rightarrow> string) \<Rightarrow> (nat \<Rightarrow> nat \<Rightarrow> rat \<Rightarrow> string) \<Rightarrow> disk_part \<Rightarrow> string" where
  "partLabel tl_of fmt p = join_with [CHR 0x20, CHR 0xC2, CHR 0xB7, CHR 0x20]
     (filter (\<lambda>x. x \<noteq> [])
       [tl_of ''partitionNumber'' [(''n'', show_int (dp_number p))], dp_mount p,
        if dp_file_system p \<noteq> [] then dp_file_system p else dp_type p, shortSize fmt (dp_size p)])"

definition drive_device :: "disk \<Rightarrow> string" where
  "drive_device d = d_path d @ (if d_drive_letters d = [] then [] else '' ('' @ join_with '' '' (d_drive_letters d) @ '')'')"

definition drive_badges :: "disk \<Rightarrow> string list" where
  "drive_badges d = (if d_is_boot d then [''machineDiskBadgeBoot''] else []) @ (if d_is_system d then [''machineDiskBadgeSystem''] else [])"

section \<open>The partitions of a ticked disk\<close>

record part_row =
  pr_checked :: bool
  pr_disabled :: bool
  pr_badges :: "string list"
  pr_warnings :: "string list"

text \<open>\<open>in_set\<close> is whether a Backup Set is edited: a one-off backup reads whole disks.\<close>

definition part_row_of :: "bool \<Rightarrow> bool \<Rightarrow> ids \<Rightarrow> skip_part list \<Rightarrow> disk \<Rightarrow> disk_part \<Rightarrow> part_row" where
  "part_row_of in_set needsElevation ids skips d p =
     (let out = in_set \<and> left_out ids skips d p; needed = dp_role p = ''system'' \<or> dp_role p = ''boot'' in
      \<lparr>pr_checked = (\<not> out), pr_disabled = (\<not> in_set \<or> needsElevation),
       pr_badges = (if dp_role p = ''system'' then [''machineDiskBadgeSystem''] else []) @
         (if dp_role p = ''boot'' then [''machineDiskBadgeBoot''] else []),
       pr_warnings = (if out then [''machinePartLeftOut''] else []) @ (if out \<and> needed then [''machinePartNoStart''] else [])\<rparr>)"

datatype parts_box = PartsUnknown | NoParts | PartRows "part_row list" "skip_part list"

definition renderParts :: "bool \<Rightarrow> bool \<Rightarrow> ids \<Rightarrow> skip_part list \<Rightarrow> disk \<Rightarrow> parts_box" where
  "renderParts in_set needsElevation ids skips d =
     (case d_partitions d of
        None \<Rightarrow> PartsUnknown
      | Some ps \<Rightarrow>
          if ps = [] then NoParts
          else PartRows (map (part_row_of in_set needsElevation ids skips d) ps)
                 (if in_set then gone_skips ids skips d ps else []))"

section \<open>The snapshot module's box\<close>

datatype module_box = NoBox | ModuleLoaded string | RestartPending | ModuleMissing bool string

definition snapInstallTip :: "bool \<Rightarrow> string \<Rightarrow> string" where
  "snapInstallTip available reason =
     (if available then ''snapInstallBtnTip'' else if reason = ''distribution'' then ''snapInstallDistroTip''
      else ''snapInstallNoInstallerTip'')"

definition snap_module_box :: "bool \<Rightarrow> string \<Rightarrow> bool \<Rightarrow> bool \<Rightarrow> string \<Rightarrow> module_box" where
  "snap_module_box linux loaded restart_pending available reason =
     (if \<not> linux then NoBox
      else if loaded \<noteq> [] then ModuleLoaded loaded
      else if restart_pending then RestartPending
      else ModuleMissing available (snapInstallTip available reason))"

section \<open>The clicks\<close>

record picker =
  pk_drives :: "string list"
  pk_ids :: ids
  pk_skips :: "skip_part list"
  pk_installOpen :: bool

datatype picker_event =
    DriveTicked string
  | AllTicked
  | NoneTicked
  | PartTicked disk disk_part bool
  | InstallOpened
  | InstallShut

definition picked :: "string list \<Rightarrow> picker \<Rightarrow> picker" where
  "picked drives k = (let (ds, is) = pickDrives drives (pk_ids k) in k\<lparr>pk_drives := ds, pk_ids := is\<rparr>)"

definition picker_step :: "bool \<Rightarrow> bool \<Rightarrow> module_box \<Rightarrow> disk list \<Rightarrow> picker_event \<Rightarrow> picker \<Rightarrow> picker" where
  "picker_step in_set needsElevation box disks e k =
     (case e of
        DriveTicked p \<Rightarrow> if needsElevation then k else picked (handleDriveSelect p (pk_drives k)) k
      | AllTicked \<Rightarrow> if needsElevation then k else picked (handleSelectAllDrives disks) k
      | NoneTicked \<Rightarrow> if needsElevation then k else picked [] k
      | PartTicked d p backedUp \<Rightarrow>
          if \<not> in_set \<or> needsElevation \<or> d_path d \<notin> set (pk_drives k) then k
          else k\<lparr>pk_skips := setPartBackedUp (pk_ids k) d p backedUp (pk_skips k)\<rparr>
      | InstallOpened \<Rightarrow> (case box of ModuleMissing True tip \<Rightarrow> k\<lparr>pk_installOpen := True\<rparr> | _ \<Rightarrow> k)
      | InstallShut \<Rightarrow> k\<lparr>pk_installOpen := False\<rparr>)"

section \<open>A tick changes one partition\<close>

lemma skipsOn_append: "skipsOn ids (xs @ ys) d = skipsOn ids xs d @ skipsOn ids ys d"
  by (simp add: skipsOn_def Let_def)

lemma skipsOn_filter: "skipsOn ids (filter P xs) d = filter P (skipsOn ids xs d)"
  by (simp add: skipsOn_def Let_def conj_commute)

lemma skipsOn_new:
  "skipsOn ids [\<lparr>sk_diskId = stable_id (diskIdFor ids d), sk_device = d_path d, sk_start = a, sk_size = b, sk_number = n, sk_label = l\<rparr>] d
   = [\<lparr>sk_diskId = stable_id (diskIdFor ids d), sk_device = d_path d, sk_start = a, sk_size = b, sk_number = n, sk_label = l\<rparr>]"
  by (simp add: skipsOn_def Let_def)

lemma skipsOn_tick:
  "skipsOn ids (setPartBackedUp ids d p backedUp skips) d =
     filter (\<lambda>s. \<not> same_start s p) (skipsOn ids skips d) @
     (if backedUp then [] else [\<lparr>sk_diskId = stable_id (diskIdFor ids d), sk_device = d_path d, sk_start = dp_start p,
        sk_size = dp_size p, sk_number = dp_number p, sk_label = logLabel p\<rparr>])"
proof -
  have "filter (\<lambda>s. s \<notin> set (filter (\<lambda>s. same_start s p) (skipsOn ids skips d))) (skipsOn ids skips d)
      = filter (\<lambda>s. \<not> same_start s p) (skipsOn ids skips d)"
    by (rule filter_cong) auto
  then show ?thesis by (simp add: setPartBackedUp_def Let_def skipsOn_append skipsOn_filter skipsOn_new)
qed

lemma left_out_tick:
  "left_out ids (setPartBackedUp ids d p backedUp skips) d q \<longleftrightarrow>
     (if dp_start q = dp_start p \<and> dp_size q = dp_size p then \<not> backedUp else left_out ids skips d q)"
  unfolding left_out_def skipsOn_tick by (auto simp: same_start_def)

text \<open>A click on a partition's box puts its tick where it was clicked to, with its warning when the disk cannot start
  without it, and changes no other row of the disk and no disk's tick; on what is greyed out it does nothing.\<close>

theorem part_tick_exact:
  assumes "k' = picker_step in_set needsElevation box disks (PartTicked d p backedUp) k"
  shows "pk_drives k' = pk_drives k \<and>
    (let row = part_row_of in_set needsElevation (pk_ids k) (pk_skips k) d;
         row' = part_row_of in_set needsElevation (pk_ids k') (pk_skips k') d in
     if pr_disabled (row p) \<or> d_path d \<notin> set (pk_drives k) then k' = k
     else pr_checked (row' p) = backedUp \<and>
       (''machinePartNoStart'' \<in> set (pr_warnings (row' p))) = (\<not> backedUp \<and> dp_role p \<in> {''system'', ''boot''}) \<and>
       (\<forall>q. dp_start q = dp_start p \<and> dp_size q = dp_size p \<or> row' q = row q))"
  using assms by (auto simp: picker_step_def part_row_of_def Let_def left_out_tick)

theorem part_tick_exact_witness:
  "pr_checked (part_row_of True False [] (pk_skips (picker_step True False NoBox [ssd] (PartTicked ssd (hd (the (d_partitions ssd))) False)
     \<lparr>pk_drives = [''PhysicalDrive1''], pk_ids = [], pk_skips = [], pk_installOpen = False\<rparr>)) ssd (hd (the (d_partitions ssd)))) = False"
proof -
  let ?k = "\<lparr>pk_drives = [''PhysicalDrive1''], pk_ids = [], pk_skips = [], pk_installOpen = False\<rparr>"
  let ?p = "hd (the (d_partitions ssd))"
  have "\<not> pr_disabled (part_row_of True False (pk_ids ?k) (pk_skips ?k) ssd ?p)" "d_path ssd \<in> set (pk_drives ?k)"
    "pk_ids (picker_step True False NoBox [ssd] (PartTicked ssd ?p False) ?k) = []"
    by (simp_all add: part_row_of_def Let_def ssd_def picker_step_def)
  with part_tick_exact [OF refl, of True False NoBox "[ssd]" ssd ?p False ?k] show ?thesis by (simp add: Let_def)
qed

text \<open>While the window may not read the disks, no click changes what is backed up.\<close>

lemma elevation_frame:
  "pk_drives (picker_step in_set True box disks e k) = pk_drives k \<and> pk_skips (picker_step in_set True box disks e k) = pk_skips k"
  by (auto simp: picker_step_def split: picker_event.split module_box.split bool.split)

text \<open>The installer opens only with no module loaded and an installer that can run here.\<close>

lemma installer_opens:
  assumes "\<not> pk_installOpen k" "pk_installOpen (picker_step in_set needsElevation (snap_module_box linux loaded pending available reason) disks e k)"
  shows "linux \<and> loaded = [] \<and> \<not> pending \<and> available"
  using assms by (cases e) (auto simp: picker_step_def picked_def pickDrives_def snap_module_box_def Let_def split: module_box.splits bool.splits if_splits)

end
