(* ===== verification/Camera.thy ===== *)
theory Camera
  imports Keys
begin

text \<open>
  The camera of the key import dialog (\<open>CameraView\<close> in \<open>components/KeyImportDialog.jsx\<close>): its stream is asked for,
  played and looked at four times a second, and each picture is sent to the backend until one holds a
  key. The browser and the backend answer later, and the view can be left at any moment.
\<close>

section \<open>The view\<close>

datatype camera_state = Starting | Live | CameraFailed

text \<open>
  \<open>cm_live\<close>, \<open>cm_timer\<close> are the variables of the effect; \<open>cm_on\<close> is whether the stream's tracks run (a light
  beside the camera). \<open>cm_asked\<close>, \<open>cm_playing\<close> and \<open>cm_reading\<close> are the calls awaited, \<open>cm_sent\<close> the number of
  pictures sent, \<open>cm_keys\<close> the keys \<open>onKey\<close> was called with.
\<close>

record camera =
  cm_live :: bool
  cm_asked :: bool
  cm_on :: bool
  cm_playing :: bool
  cm_timer :: bool
  cm_reading :: bool
  cm_state :: camera_state
  cm_note :: string
  cm_sent :: nat
  cm_keys :: "key_import list"

definition opened_camera :: camera where
  "opened_camera = \<lparr>cm_live = True, cm_asked = True, cm_on = False, cm_playing = False, cm_timer = False, cm_reading = False,
     cm_state = Starting, cm_note = [], cm_sent = 0, cm_keys = []\<rparr>"

definition stop_camera :: "camera \<Rightarrow> camera" where
  "stop_camera c = c\<lparr>cm_live := False, cm_timer := False, cm_on := False\<rparr>"

text \<open>The error of a camera that cannot be had, by its name, with its message.\<close>

definition camera_failed :: "(string \<Rightarrow> string) \<Rightarrow> string \<Rightarrow> string \<Rightarrow> camera \<Rightarrow> camera" where
  "camera_failed t name msg c =
     (if \<not> cm_live c then c
      else c\<lparr>cm_state := CameraFailed, cm_note :=
        (if name = ''NotAllowedError'' \<or> name = ''SecurityError'' then t ''keyImportCameraDenied''
         else if name = ''NotFoundError'' \<or> name = ''OverconstrainedError'' then t ''keyImportNoCamera''
         else replace_first ''{err}'' msg (t ''keyImportCameraFailed''))\<rparr>)"

text \<open>A stream that comes when the view was left is stopped where it comes.\<close>

definition camera_given :: "(string \<Rightarrow> string) \<Rightarrow> (string \<times> string) option \<Rightarrow> camera \<Rightarrow> camera" where
  "camera_given t err c =
     (let c = c\<lparr>cm_asked := False\<rparr> in
      case err of
        Some (name, msg) \<Rightarrow> camera_failed t name msg c
      | None \<Rightarrow> if \<not> cm_live c then c else c\<lparr>cm_on := True, cm_playing := True\<rparr>)"

definition camera_played :: "(string \<Rightarrow> string) \<Rightarrow> (string \<times> string) option \<Rightarrow> camera \<Rightarrow> camera" where
  "camera_played t err c =
     (let c = c\<lparr>cm_playing := False\<rparr> in
      case err of
        Some (name, msg) \<Rightarrow> camera_failed t name msg c
      | None \<Rightarrow> c\<lparr>cm_state := Live, cm_timer := True\<rparr>)"

text \<open>\<open>tick\<close>: with a picture to read (\<open>frame\<close>) it is sent, and the next tick waits for its answer.\<close>

definition camera_tick :: "bool \<Rightarrow> camera \<Rightarrow> camera" where
  "camera_tick frame c =
     (let c = c\<lparr>cm_timer := False\<rparr> in
      if \<not> cm_live c then c
      else if frame then c\<lparr>cm_reading := True, cm_sent := cm_sent c + 1\<rparr>
      else c\<lparr>cm_timer := True\<rparr>)"

definition frame_answered :: "(string \<Rightarrow> string) \<Rightarrow> string + key_import option \<Rightarrow> camera \<Rightarrow> camera" where
  "frame_answered t r c =
     (let c = c\<lparr>cm_reading := False\<rparr> in
      if \<not> cm_live c then c
      else case r of
        Inl err \<Rightarrow> c\<lparr>cm_note := err, cm_timer := True\<rparr>
      | Inr None \<Rightarrow> c\<lparr>cm_timer := True\<rparr>
      | Inr (Some ki) \<Rightarrow>
          if ki_key_text ki \<noteq> [] then (stop_camera c)\<lparr>cm_keys := cm_keys c @ [ki]\<rparr>
          else if ki_problem ki \<noteq> [] then c\<lparr>cm_note := problemText t ki, cm_timer := True\<rparr>
          else c\<lparr>cm_timer := True\<rparr>)"

datatype camera_event =
    CameraGiven "(string \<times> string) option"
  | CameraPlayed "(string \<times> string) option"
  | CameraTick bool
  | FrameAnswered "string + key_import option"
  | ViewLeft

text \<open>An answer comes for a call that is awaited, a tick for a timer that is set.\<close>

definition camera_step :: "(string \<Rightarrow> string) \<Rightarrow> camera_event \<Rightarrow> camera \<Rightarrow> camera" where
  "camera_step t e c =
     (case e of
        CameraGiven err \<Rightarrow> if cm_asked c then camera_given t err c else c
      | CameraPlayed err \<Rightarrow> if cm_playing c then camera_played t err c else c
      | CameraTick frame \<Rightarrow> if cm_timer c then camera_tick frame c else c
      | FrameAnswered r \<Rightarrow> if cm_reading c then frame_answered t r c else c
      | ViewLeft \<Rightarrow> stop_camera c)"

definition camera_play :: "(string \<Rightarrow> string) \<Rightarrow> camera_event list \<Rightarrow> camera \<Rightarrow> camera" where
  "camera_play t es c = fold (camera_step t) es c"

section \<open>The camera goes off\<close>

lemmas camera_defs = camera_step_def camera_given_def camera_played_def camera_tick_def frame_answered_def stop_camera_def
  camera_failed_def Let_def

text \<open>One thing at a time, the tracks run only for a view that is there, it looks only through a running camera, and
  the first key found ends it.\<close>

definition one_awaited :: "camera \<Rightarrow> bool" where
  "one_awaited c \<longleftrightarrow> (cm_asked c \<longrightarrow> \<not> cm_playing c \<and> \<not> cm_timer c \<and> \<not> cm_reading c) \<and>
     (cm_playing c \<longrightarrow> \<not> cm_timer c \<and> \<not> cm_reading c) \<and> (cm_timer c \<longrightarrow> \<not> cm_reading c)"

definition camera_ok :: "camera \<Rightarrow> bool" where
  "camera_ok c \<longleftrightarrow> one_awaited c \<and> (\<not> cm_live c \<longrightarrow> \<not> cm_on c) \<and>
     (cm_live c \<and> (cm_playing c \<or> cm_timer c \<or> cm_reading c) \<longrightarrow> cm_on c) \<and>
     (cm_live c \<longrightarrow> cm_keys c = []) \<and> length (cm_keys c) \<le> 1"

lemma camera_ok_given: "camera_ok c \<Longrightarrow> cm_asked c \<Longrightarrow> camera_ok (camera_given t err c)"
  by (cases err) (simp_all add: camera_ok_def one_awaited_def camera_given_def camera_failed_def Let_def split: prod.split)

lemma camera_ok_played: "camera_ok c \<Longrightarrow> cm_playing c \<Longrightarrow> camera_ok (camera_played t err c)"
  by (cases err) (simp_all add: camera_ok_def one_awaited_def camera_played_def camera_failed_def Let_def split: prod.split)

lemma camera_ok_tick: "camera_ok c \<Longrightarrow> cm_timer c \<Longrightarrow> camera_ok (camera_tick frame c)"
  by (simp add: camera_ok_def one_awaited_def camera_tick_def Let_def)

lemma camera_ok_answered: "camera_ok c \<Longrightarrow> cm_reading c \<Longrightarrow> camera_ok (frame_answered t r c)"
  by (simp add: camera_ok_def one_awaited_def frame_answered_def stop_camera_def Let_def split: sum.split option.split)

lemma camera_ok_step: "camera_ok c \<Longrightarrow> camera_ok (camera_step t e c)"
  by (cases e) (simp_all add: camera_step_def camera_ok_given camera_ok_played camera_ok_tick camera_ok_answered,
      simp add: camera_ok_def one_awaited_def stop_camera_def)

lemma camera_ok_play: "camera_ok c \<Longrightarrow> camera_ok (camera_play t es c)"
  by (induction es arbitrary: c) (simp_all add: camera_play_def camera_ok_step)

lemma camera_ok_opened: "camera_ok opened_camera"
  by (simp add: camera_ok_def opened_camera_def one_awaited_def)

lemma camera_play_append: "camera_play t (es @ es') c = camera_play t es' (camera_play t es c)"
  by (simp add: camera_play_def)

text \<open>A view that was left looks at nothing more and stays off.\<close>

lemma left_step: "\<not> cm_live c \<Longrightarrow> \<not> cm_live (camera_step t e c) \<and> cm_sent (camera_step t e c) = cm_sent c \<and> cm_keys (camera_step t e c) = cm_keys c"
  by (cases e) (simp_all add: camera_defs split: option.split prod.split)

lemma left_play: "\<not> cm_live c \<Longrightarrow> \<not> cm_live (camera_play t es c) \<and> cm_sent (camera_play t es c) = cm_sent c \<and> cm_keys (camera_play t es c) = cm_keys c"
proof (induction es arbitrary: c)
  case (Cons e es)
  with Cons.IH [of "camera_step t e c"] left_step [of c t e] show ?case by (simp add: camera_play_def)
qed (simp add: camera_play_def)

lemma left_not_live: "ViewLeft \<in> set es \<Longrightarrow> \<not> cm_live (camera_play t es c)"
proof (induction es arbitrary: c)
  case (Cons e es)
  show ?case
  proof (cases "e = ViewLeft")
    case True
    then have "\<not> cm_live (camera_step t e c)" by (simp add: camera_step_def stop_camera_def)
    from left_play [OF this, of t es] show ?thesis by (simp add: camera_play_def)
  next
    case False
    with Cons show ?thesis by (simp add: camera_play_def)
  qed
qed simp

text \<open>C40: the camera goes off and stays off. Leave the view at any moment, even with the permission still asked for or
  a picture at the backend: from then on no track of the stream runs, no picture is sent and no key is
  reported, whatever is answered later. A key is reported at most once, and with it the camera is off too.\<close>
theorem camera_goes_off:
  assumes "c = camera_play t es opened_camera" "ViewLeft \<in> set es \<or> cm_keys c \<noteq> []" "c' = camera_play t es' c"
  shows "\<not> cm_on c' \<and> cm_sent c' = cm_sent c \<and> cm_keys c' = cm_keys c \<and> length (cm_keys c') \<le> 1"
proof -
  have ok: "camera_ok c" "camera_ok c'" using assms(1,3) camera_ok_opened by (simp_all add: camera_ok_play)
  then have "\<not> cm_live c" using assms(1,2) left_not_live by (auto simp: camera_ok_def)
  from left_play [OF this, of t es'] ok show ?thesis unfolding assms(3) camera_ok_def by simp
qed

theorem camera_goes_off_witness:
  "\<not> cm_on (camera_play (\<lambda>k. k) [CameraGiven None, CameraPlayed None, CameraTick True] (camera_play (\<lambda>k. k) [ViewLeft] opened_camera))"
  using camera_goes_off [OF refl _ refl, of "[ViewLeft]" "\<lambda>k. k" "[CameraGiven None, CameraPlayed None, CameraTick True]"] by simp

text \<open>A camera that cannot be played is said to have failed and its picture is hidden, but it stays on until the view is
  left.\<close>

lemma failed_camera_on:
  "cm_state (camera_play t [CameraGiven None, CameraPlayed (Some (n, m))] opened_camera) = CameraFailed \<and>
   cm_on (camera_play t [CameraGiven None, CameraPlayed (Some (n, m))] opened_camera)"
  by (simp add: camera_play_def camera_defs opened_camera_def)

end
