(* ===== verification/Spec2Isabelle.thy ===== *)
theory Spec2Isabelle
  imports TreeSelection BackupId Rates TimeAgo Runs Schedules PbsStore SetForm SplitBackup Restore
    Undelete Rollback Keys ScheduleEditor Shares SearchForm Logs Theme Window Texts
    RestoreRun Service Passphrase Options Help SnapModule AfterBackup PaperKey SelectionSize SetCards
    StatusLine ServicePanel KeyTools DisksView Camera
begin

text \<open>
  The window of a backup client for Proxmox Backup Server: the JavaScript under
  \<open>src/gui/frontend/src\<close>, with the parts of the Go backend (\<open>src/gui\<close>) that the servers page talks to.
  The window is one React application. \<open>App.jsx\<close> holds the state of the pages and their handlers; the
  files beside it hold the pages' pure rules and the dialogs. The window calls the backend through
  bindings, which answer later, and hears of runs through events. What a page does between two
  answers is a function of its state here, and an interleaving of clicks, answers and events is a
  list of events, so a statement about a page is one about every order in which they come.

  The parts, and the theory of each. A definition has the name of the function it models; the record
  of a page has a field per \<open>useState\<close> and \<open>useRef\<close> of the page.

  \<^item> JsPrelude: strings, arrays and numbers of JavaScript; Jobs: a Backup Set and its schedules;
    Calendar: days, months and years of \<open>Date\<close>, and the time zone.
  \<^item> TreeSelection (\<open>treeSelection.js\<close>, \<open>DirectoryTree.jsx\<close>): the folders ticked in the tree. The rules
    of covering are the locale \<open>covering\<close>, interpreted on \<open>isUnder\<close>. The tri-state box is sound, the
    re-include walk ends and is exact, and every click keeps the selection well formed.
  \<^item> BackupId (\<open>backupId.js\<close>): slugs, the bounded edit distance against the recursive definition, the
    suggested ID, and the PBS group as an equivalence of sets.
  \<^item> Rates, TimeAgo (\<open>etaHold.js\<close>, \<open>timeAgo.js\<close>, figures of \<open>App.jsx\<close>): the held estimate, speeds, sizes,
    how long ago a set ran.
  \<^item> Messages, I18n, TextsEn, TextsFr, Texts (\<open>i18n/\<close>, message texts of \<open>App.jsx\<close>): the lookup of a text and
    its placeholders, and both tables as data; no placeholder of a text ever shows.
  \<^item> Runs (\<open>App.jsx\<close>): the runs the backend reports, the waiting list, the progress card and its forecast,
    as a machine over the backend's events and the user's clicks.
  \<^item> Schedules (\<open>schedules.js\<close>) and ScheduleEditor (\<open>ScheduleEditor.jsx\<close>): new schedules, their words, the
    next runs with their two loops against a specification by days, and the editor's controls.
  \<^item> Servers, PbsStore (servers page of \<open>App.jsx\<close>; \<open>pbs_server.go\<close>, \<open>config.go\<close>, \<open>config_methods.go\<close>,
    \<open>api_wrappers.go\<close>, \<open>crypt_passphrase.go\<close>): what the page needs of the backend is the locale \<open>pbs_backend\<close>;
    the settings of the Go code interpret it, and the page refines the directory of servers.
  \<^item> Disks, SetForm (\<open>App.jsx\<close>, \<open>MachineBackupConfig.jsx\<close>): the Backup Set editor, its effects, what it saves,
    the calls that write it, what the backend keeps of it (\<open>scheduler.go\<close>, \<open>schedules.go\<close>, \<open>share_logins.go\<close>), and
    how a set follows its disks. Shares (\<open>App.jsx\<close>, \<open>ShareLoginDialog.jsx\<close>): the
    check of network folders before a save.
  \<^item> SplitBackup (\<open>App.jsx\<close>): a first backup in parts, with retries and the final sum.
  \<^item> Restore, SearchForm (\<open>App.jsx\<close>): the Restore tab as a machine over clicks and late answers, the search
    and the Backup IDs offered.
  \<^item> Views, Undelete, Rollback (\<open>SetTools.jsx\<close>): the locale \<open>answered_view\<close> for a page that shows the answer
    about what is chosen, interpreted on the scan, the list of backups and the preview.
  \<^item> Keys (\<open>KeyImportDialog.jsx\<close>, \<open>EncryptionKeyField.jsx\<close>): bringing a key back, and the field of a server's key.
  \<^item> RestoreRun (\<open>App.jsx\<close>): the restore that runs and its card, over the backend's events: the start
    empties the card, the average shown is what was written over the time it took, and the forecast
    of a step is what its own pace gave less than ten seconds ago.
  \<^item> Service (\<open>App.jsx\<close>; \<open>service_connect.go\<close>, \<open>service_switch.go\<close>, \<open>service_start.go\<close>, \<open>token_drop.go\<close>): the
    mode of the app, its token, when the administrator's password is asked for, and the banners and
    reloads of the window; an inductive relation over what the user and the service do.
  \<^item> Passphrase (\<open>crypt_passphrase.go\<close>, \<open>PassphraseModal.jsx\<close>): the prompts that wait and the dialog that
    answers them, with answers and deadlines in any order. Options (Preferences of \<open>App.jsx\<close>, setters
    of \<open>theme.go\<close>, \<open>speed_limits.go\<close>, \<open>compression.go\<close>): the page and what the app keeps agree.
  \<^item> SetCards (\<open>App.jsx\<close>; \<open>change_detection_job.go\<close>): the cards of the Backup Sets, with the counter of full reads
    and the check of a live read on the Go side; the card tells what the runs do, and no set is deleted
    unasked. StatusLine, SelectionSize (\<open>App.jsx\<close>): the status line with its timer, exact against the last
    message shown, and the size of what is ticked in the Restore tab.
  \<^item> Email (\<open>App.jsx\<close>; \<open>email_notifications.go\<close>, \<open>clientcommon/mail.go\<close>) and AfterBackup (\<open>email_notifications.go\<close>,
    \<open>operation_queue.go\<close>): the e-mail account and what is said to a mail server, step by step; what follows
    a backup, with the exit and the shutdown as an inductive step relation of two routines.
  \<^item> DisksView (\<open>MachineBackupConfig.jsx\<close>): the disk picker as it is shown and clicked; a click on a partition
    changes its row alone. Camera (\<open>KeyImportDialog.jsx\<close>): the camera of the import, which goes off with its view.
  \<^item> KeyTools (\<open>EncryptionKeyField.jsx\<close>): the buttons that make, restrict, copy, print and import a key; a key is
    made only where the user agreed, and never are two things under way.
  \<^item> PaperKey (\<open>PaperKeyDialog.jsx\<close>): the printed page of a key and its escaping; ServicePanel (\<open>SetTools.jsx\<close>): the
    panel that installs, starts, stops and removes the service, one action at a time.
  \<^item> Help (\<open>manuals.js\<close>, \<open>ManualViewer.jsx\<close>, \<open>LanguageSwitcher.jsx\<close>): identities of headings, links and the
    open section. SnapModule (\<open>SnapModuleInstallModal.jsx\<close>): the installer of the snapshot module.
  \<^item> Logs (\<open>LogsPage.jsx\<close>), Theme (\<open>ThemePicker.jsx\<close>), Window (\<open>TabStrip.jsx\<close>, \<open>ConfirmDialog.jsx\<close>,
    \<open>aboutBrand.js\<close>): the log that is opened and shown, colours and themes, rows of tabs, questions, links.

  How the parts interact: the editor (SetForm) calls the folder tree, the suggested ID, the schedule
  editor, the disks and the check of shares, and hands a \<open>job\<close> to the backend; its schedules are what
  Schedules predicts. The Key field is part of the server form. The pages of SetTools and the
  Restore tab share one restore at a time, an argument (\<open>restoreLoading\<close>) of each.

  Bounds. Loops of the source that are bounded have the bound as fuel: 300 times a day (\<open>step_times\<close>), the
  horizon of \<open>nextRuns\<close> (\<open>scan_days\<close>; long enough by \<open>nextRuns_complete\<close>), one try more than there
  are schedules for a new ID (\<open>id_loop\<close>; enough by \<open>nextScheduleId_Some\<close>), the length of a path for its
  trailing separators. The re-include walk is a \<open>partial_function\<close>, None for a loop that never ends, and
  \<open>reinclude_terminates\<close> shows that over listings of a file system it returns. React's effects run until
  nothing changes: \<open>settle\<close> runs a number of rounds, and the properties hold for every number from the one
  that is enough. \<open>run_parts\<close> of a split backup consumes the answers of the starts it makes.

  Arguments stand for what is not under \<open>src/\<close> or not in this language: the backend's answers, the time zone,
  the browser's locale (names of days, plural rules, order of texts), what is measured on the
  screen. What the code relies on is a named hypothesis: \<open>zone_days\<close>, \<open>zone_midnights\<close>, listings whose
  entries lie below their folder (\<open>growing\<close>, \<open>entries_proper\<close>; the drives of Windows below the computer), a check of
  a key that answers for the key it is given (\<open>verifier\<close>).

  Where a page does not do what it means to in every case, the property names the cases it leaves out, and a
  lemma beside it shows what happens there: schedules for every two days or more on some weekdays only
  (\<open>weekday_run_missed\<close>), answers that come after the page has moved on (\<open>late_stop_answer\<close>,
  \<open>preview_of_other_backup\<close>, \<open>failed_start_hides_card\<close>), a settings file that cannot be written
  (\<open>refused_add_is_kept\<close>, \<open>unsaved_option_kept\<close>), a second check of the shares that fails
  (\<open>failed_recheck_saves\<close>), names made of backslashes or differing in case (\<open>backslash_name_hangs\<close>,
  \<open>case_twin_stays_out\<close>), a size that cannot be counted (\<open>failed_size_shown\<close>), and what the other process of the
  computer runs (\<open>other_process_cut\<close>).

  Text is Latin-1. Whole numbers are unbounded integers, exact as JavaScript's are below 2 ^ 53;
  \<open>n | 0\<close> is \<open>to_int32\<close>. Fractions are exact where the code uses floating point.

  Not modelled: what is drawn (JSX and styles), focus and keyboard handling, the other sixteen
  languages (the same tables), the built copy under \<open>dist\<close>, the rendering of the manuals (a library), the
  dialogs that only show a text, the elevated helpers behind an administrator's
  prompt, and the rest of the Go backend.
\<close>

section \<open>A saved set runs\<close>

text \<open>C1: a Backup Set that is saved with a schedule runs. Whatever was done in the Schedule tab, when Save
  goes through and at least one schedule is on (other than one for every two days or more on some weekdays
  only), the set as it is handed over has a next run; and for a folder set whose network shares were checked,
  every folder of the last check that came back can be opened, or the user agreed to save it all the same. When
  that last check, the one after the logins, fails, the set is saved without another word.\<close>
theorem saved_set_runs:
  assumes "zone_days z" "editor_ok ed" "editor_steps evs ed = Some ed'"
    and "f_schedules f = ed_schedules ed'" "f_scheduleMode f = ed_mode ed'"
    and out: "out = ensureShareAccess True (lines_of (f_backupDirs f)) (Some results) check2 logins saved consent"
    and "handleStartBackup e now (so_go out) anyway f = SaveSet j"
    and "s \<in> set (ed_schedules ed')" "s_enabled s" "\<not> limited_days s"
  shows "(j_scheduleMode j = Some Scheduled \<longrightarrow> nextSetRun z (j_schedules j) after \<noteq> None) \<and>
    (j_backupType j = Directory \<and> \<not> consent \<longrightarrow>
       (\<forall>rs. (if so_asked out \<noteq> [] then check2 else Some results) = Some rs \<longrightarrow> list_all sh_ok rs))"
proof (intro conjI impI allI)
  from assms(7) have j: "j = jobData e now f" and bad: "badSchedule f = None"
    and dirs: "f_backupType f = Directory \<longrightarrow> lines_of (f_backupDirs f) \<noteq> []" and go: "f_backupType f = Directory \<longrightarrow> so_go out"
    by (auto simp: handleStartBackup_def Let_def split: if_splits option.splits)
  {
    assume mode: "j_scheduleMode j = Some Scheduled"
    have "scheduleProblem s = []"
      using bad mode assms(4,5,8) by (auto simp: badSchedule_def find_None_iff j jobData_fields)
    moreover have "fields_ok s"
      using editor_steps_ok [OF assms(2,3)] assms(8) by (simp add: editor_ok_def schedule_ok_def)
    ultimately have "length (nextRuns z s after 1) = 1" using assms(1,10) by (intro nextRuns_length)
    moreover have "s \<in> set (j_schedules j)" using assms(4,8) by (simp add: j jobData_fields)
    ultimately show "nextSetRun z (j_schedules j) after \<noteq> None"
      using best_run_None [of z after "j_schedules j" None] assms(9) \<open>scheduleProblem s = []\<close>
      unfolding nextSetRun_def by (metis list.size(3) zero_neq_one)
  }
  fix rs
  assume dir: "j_backupType j = Directory \<and> \<not> consent" and final: "(if so_asked out \<noteq> [] then check2 else Some results) = Some rs"
  show "list_all sh_ok rs"
    unfolding list_all_iff
  proof (rule ccontr)
    assume "\<not> (\<forall>r \<in> set rs. sh_ok r)"
    then obtain r where r: "r \<in> set rs" "\<not> sh_ok r" by blast
    have "f_backupType f = Directory" using dir by (simp add: j jobData_fields)
    with go dirs have "so_go out" "lines_of (f_backupDirs f) \<noteq> []" by simp_all
    from refused_share_consent [OF this [unfolded out] refl final [unfolded out] r] dir show False by simp
  qed
qed

theorem saved_set_runs_witness:
  "\<exists>j ed'. editor_steps some_edits fresh_editor = Some ed' \<and>
     handleStartBackup pc ''17'' True True (docs_form\<lparr>f_schedules := ed_schedules ed'\<rparr>) = SaveSet j \<and>
     nextSetRun UTC (j_schedules j) 0 \<noteq> None"
proof -
  let ?ed = "editor_steps some_edits fresh_editor"
  let ?form = "docs_form\<lparr>f_schedules := (case editor_steps some_edits fresh_editor of None \<Rightarrow> [] | Some ed \<Rightarrow> ed_schedules ed)\<rparr>"
  have ed: "map_option (\<lambda>ed. (ed_mode ed, map (\<lambda>s. (s_enabled s, s_unit s)) (ed_schedules ed))) ?ed =
      Some (Scheduled, [(True, Months), (True, Years)])"
    by code_simp
  then obtain ed' where ed': "?ed = Some ed'" by (cases ?ed) auto
  with ed have fields: "ed_mode ed' = Scheduled" "map (\<lambda>s. (s_enabled s, s_unit s)) (ed_schedules ed') = [(True, Months), (True, Years)]"
    by simp_all
  then obtain s rest where s: "ed_schedules ed' = s # rest" "s_enabled s" "s_unit s = Months"
    by (auto simp: map_eq_Cons_conv)
  have "(case handleStartBackup pc ''17'' True True ?form of SaveSet j \<Rightarrow> True | _ \<Rightarrow> False) = True"
    by code_simp
  then obtain j where "handleStartBackup pc ''17'' True True ?form = SaveSet j"
    by (cases "handleStartBackup pc ''17'' True True ?form") auto
  with ed' have j: "handleStartBackup pc ''17'' True True (docs_form\<lparr>f_schedules := ed_schedules ed'\<rparr>) = SaveSet j" by simp
  define out where "out = ensureShareAccess True (lines_of (f_backupDirs (docs_form\<lparr>f_schedules := ed_schedules ed'\<rparr>))) (Some []) None [] (\<lambda>_. True) False"
  have go: "so_go out = True" by (simp add: out_def ensureShareAccess_def Let_def)
  have 1: "zone_days UTC" using UTC_plain by (simp add: zone_plain_def)
  have 2: "editor_ok fresh_editor" by (simp add: editor_ok_def fresh_editor_def)
  have 3: "f_schedules (docs_form\<lparr>f_schedules := ed_schedules ed'\<rparr>) = ed_schedules ed'"
    "f_scheduleMode (docs_form\<lparr>f_schedules := ed_schedules ed'\<rparr>) = ed_mode ed'"
    by (simp_all add: fields docs_form_def first_form_def)
  have 4: "handleStartBackup pc ''17'' (so_go out) True (docs_form\<lparr>f_schedules := ed_schedules ed'\<rparr>) = SaveSet j"
    unfolding go by (rule j)
  have 5: "s \<in> set (ed_schedules ed')" "\<not> limited_days s" using s by (simp_all add: limited_days_def)
  have "j_scheduleMode j = Some Scheduled"
    using j by (auto simp: handleStartBackup_def Let_def jobData_fields docs_form_def first_form_def split: if_splits option.splits)
  with saved_set_runs [OF 1 2 ed' 3 out_def 4 5(1) s(2) 5(2), of 0] have "nextSetRun UTC (j_schedules j) 0 \<noteq> None" by blast
  with ed' j show ?thesis by blast
qed

end
